(* ===== verification/Prelude.thy ===== *)
theory Prelude
  imports Complex_Main "HOL-Library.Word" "HOL-Library.Char_ord" "HOL-Library.List_Lexorder"
    "HOL-Library.Product_Lexorder"
begin

text \<open>
  Shared material of the development: the result type that every fallible operation of the
  model returns, JavaScript's \<open>split\<close> and \<open>join\<close> on strings, \<open>Array.find\<close>, \<open>String.trim\<close>,
  and the lemmas about them that the component theories rely on.

  A thrown exception is the left injection of a sum, a returned value the right one. The
  collection \<open>result_simps\<close> turns statements about a sequence of throwing calls into
  statements about each call.
\<close>

named_theorems result_simps \<open>equations for sequences of operations that may be refused\<close>

section \<open>Results\<close>

definition r_bind :: "'e + 'a \<Rightarrow> ('a \<Rightarrow> 'e + 'b) \<Rightarrow> 'e + 'b" where
  "r_bind m f = (case m of Inl e \<Rightarrow> Inl e | Inr a \<Rightarrow> f a)"

definition r_then :: "'e + unit \<Rightarrow> 'e + 'b \<Rightarrow> 'e + 'b" where
  "r_then m k = (case m of Inl e \<Rightarrow> Inl e | Inr _ \<Rightarrow> k)"

definition ok :: "'e + unit" where
  "ok = Inr ()"

text \<open>\<open>refuse_if c e\<close> is \<open>if (c) throw e\<close>.\<close>

definition refuse_if :: "bool \<Rightarrow> 'e \<Rightarrow> 'e + unit" where
  "refuse_if c e = (if c then Inl e else ok)"

definition r_ok :: "'e + 'a \<Rightarrow> bool" where
  "r_ok m = (case m of Inl _ \<Rightarrow> False | Inr _ \<Rightarrow> True)"

lemma r_bind_Inl [simp]: "r_bind (Inl e) f = Inl e"
  by (simp add: r_bind_def)

lemma r_bind_Inr [simp]: "r_bind (Inr a) f = f a"
  by (simp add: r_bind_def)

lemma r_then_Inl [simp]: "r_then (Inl e) k = Inl e"
  by (simp add: r_then_def)

lemma r_then_Inr [simp]: "r_then (Inr u) k = k"
  by (simp add: r_then_def)

lemma r_then_ok [simp]: "r_then ok k = k"
  by (simp add: ok_def)

lemma case_sum_ok [simp]: "case_sum f g ok = g ()"
  by (simp add: ok_def)

lemma ok_neq_Inl [simp]: "ok \<noteq> Inl e" "Inl e \<noteq> ok"
  by (simp_all add: ok_def)

lemma r_ok_simps [simp]: "\<not> r_ok (Inl e)" "r_ok (Inr a)" "r_ok ok"
  by (simp_all add: r_ok_def ok_def)

lemma unit_result_cases:
  obtains (refused) e where "m = Inl e" | (accepted) "m = (ok :: 'e + unit)"
proof (cases m)
  case (Inl e)
  then show ?thesis by (rule refused)
next
  case (Inr u)
  then have "m = ok" by (simp add: ok_def)
  then show ?thesis by (rule accepted)
qed

lemma unit_Inr_ok [simp]: "(Inr u :: 'e + unit) = ok"
  by (simp add: ok_def)

lemma r_bind_eq_Inr [result_simps]:
  "r_bind m f = Inr b \<longleftrightarrow> (\<exists>a. m = Inr a \<and> f a = Inr b)"
  by (cases m) simp_all

lemma r_bind_eq_ok [result_simps]:
  "r_bind m f = ok \<longleftrightarrow> (\<exists>a. m = Inr a \<and> f a = ok)"
  by (cases m) simp_all

lemma r_bind_eq_Inl [result_simps]:
  "r_bind m f = Inl e \<longleftrightarrow> m = Inl e \<or> (\<exists>a. m = Inr a \<and> f a = Inl e)"
  by (cases m) simp_all

lemma r_then_eq_Inr [result_simps]:
  "r_then m k = Inr b \<longleftrightarrow> m = ok \<and> k = Inr b"
  by (cases m rule: unit_result_cases) simp_all

lemma r_then_eq_ok [result_simps]:
  "r_then m k = ok \<longleftrightarrow> m = ok \<and> k = ok"
  by (cases m rule: unit_result_cases) simp_all

lemma r_then_eq_Inl [result_simps]:
  "r_then m k = Inl e \<longleftrightarrow> m = Inl e \<or> (m = ok \<and> k = Inl e)"
  by (cases m rule: unit_result_cases) simp_all

lemma refuse_if_eq_ok [result_simps]: "refuse_if c e = ok \<longleftrightarrow> \<not> c"
  by (simp add: refuse_if_def)

lemma refuse_if_eq_Inl [result_simps]: "refuse_if c e = Inl e' \<longleftrightarrow> c \<and> e' = e"
  by (auto simp: refuse_if_def)

lemma r_ok_iff [result_simps]: "r_ok m \<longleftrightarrow> (\<exists>a. m = Inr a)"
  by (cases m) simp_all

section \<open>Lists and strings as JavaScript has them\<close>

text \<open>\<open>split_on c s\<close> is \<open>s.split(c)\<close> for a one-character separator: never empty.\<close>

fun split_on :: "char \<Rightarrow> string \<Rightarrow> string list" where
  "split_on c [] = [[]]"
| "split_on c (x # xs) =
     (if x = c then [] # split_on c xs
      else (case split_on c xs of [] \<Rightarrow> [[x]] | p # ps \<Rightarrow> (x # p) # ps))"

text \<open>\<open>join_with c ps\<close> is \<open>ps.join(c)\<close>.\<close>

fun join_with :: "char \<Rightarrow> string list \<Rightarrow> string" where
  "join_with c [] = []"
| "join_with c [p] = p"
| "join_with c (p # q # ps) = p @ c # join_with c (q # ps)"

lemma split_on_neq_Nil [simp]: "split_on c s \<noteq> []"
  by (cases s) (auto split: list.splits)

lemma split_on_no_sep: "c \<notin> set s \<Longrightarrow> split_on c s = [s]"
  by (induction s) auto

lemma split_on_append:
  "c \<notin> set p \<Longrightarrow> split_on c (p @ c # s) = p # split_on c s"
  by (induction p) auto

lemma split_on_join:
  "ps \<noteq> [] \<Longrightarrow> \<forall>p\<in>set ps. c \<notin> set p \<Longrightarrow> split_on c (join_with c ps) = ps"
  by (induction c ps rule: join_with.induct) (auto simp: split_on_no_sep split_on_append)

lemma join_split_on: "join_with c (split_on c s) = s"
proof (induction s)
  case Nil
  show ?case by simp
next
  case (Cons x xs)
  obtain p ps where "split_on c xs = p # ps"
    using split_on_neq_Nil by (cases "split_on c xs") auto
  with Cons show ?case by (cases ps) auto
qed

lemma split_on_no_sep_mem: "p \<in> set (split_on c s) \<Longrightarrow> c \<notin> set p"
proof (induction s arbitrary: p)
  case Nil
  then show ?case by simp
next
  case (Cons x xs)
  then show ?case by (auto split: if_splits list.splits)
qed

text \<open>\<open>String.prototype.trim\<close> on the white space the model's 8-bit characters can hold.\<close>

definition js_space :: "char \<Rightarrow> bool" where
  "js_space c \<longleftrightarrow> of_char c \<in> {9, 10, 11, 12, 13, 32, 160 :: nat}"

definition trim :: "string \<Rightarrow> string" where
  "trim s = rev (dropWhile js_space (rev (dropWhile js_space s)))"

lemma all_dropWhile_iff: "(\<forall>c\<in>set (dropWhile P s). P c) \<longleftrightarrow> (\<forall>c\<in>set s. P c)"
  by (induction s) auto

lemma trim_eq_Nil_iff: "trim s = [] \<longleftrightarrow> (\<forall>c\<in>set s. js_space c)"
  by (simp add: trim_def all_dropWhile_iff)

lemma find_Some_iff_distinct:
  assumes "distinct (map f xs)" and "x \<in> set xs"
  shows "List.find (\<lambda>y. f y = f x) xs = Some x"
  using assms by (induction xs) force+

lemma find_key_Some_iff:
  assumes "distinct (map f xs)"
  shows "List.find (\<lambda>y. f y = k) xs = Some x \<longleftrightarrow> x \<in> set xs \<and> f x = k"
proof
  assume "List.find (\<lambda>y. f y = k) xs = Some x"
  then show "x \<in> set xs \<and> f x = k"
    by (auto simp: find_Some_iff)
next
  assume "x \<in> set xs \<and> f x = k"
  then show "List.find (\<lambda>y. f y = k) xs = Some x"
    using find_Some_iff_distinct [OF assms] by blast
qed

section \<open>Tables\<close>

text \<open>\<open>update_where p f t\<close> is \<open>UPDATE t SET f WHERE p\<close>.\<close>

definition update_where :: "('a \<Rightarrow> bool) \<Rightarrow> ('a \<Rightarrow> 'a) \<Rightarrow> 'a list \<Rightarrow> 'a list" where
  "update_where p f t = map (\<lambda>r. if p r then f r else r) t"

lemma update_where_map: "(\<And>r. p r \<Longrightarrow> g (f r) = g r) \<Longrightarrow> map g (update_where p f t) = map g t"
  by (simp add: update_where_def)

lemma set_update_where:
  "set (update_where p f t) = f ` {r \<in> set t. p r} \<union> {r \<in> set t. \<not> p r}"
  by (auto simp: update_where_def)

lemma length_update_where [simp]: "length (update_where p f t) = length t"
  by (simp add: update_where_def)

lemma in_update_where:
  "r \<in> set (update_where p f t) \<longleftrightarrow> (\<exists>q \<in> set t. r = (if p q then f q else q))"
  by (auto simp: update_where_def)

lemma find_Some_in: "List.find p t = Some r \<Longrightarrow> r \<in> set t \<and> p r"
  by (auto simp: find_Some_iff)

lemma find_update_where:
  assumes "List.find p t = Some r" "\<And>r. p r \<Longrightarrow> p (f r)"
  shows "List.find p (update_where p f t) = Some (f r)"
  using assms by (induction t) (auto simp: update_where_def split: if_splits)

lemma find_None_iff_filter: "List.find p t = None \<longleftrightarrow> filter p t = []"
  by (induction t) auto

section \<open>Operations that commit and then throw\<close>

text \<open>
  An operation that runs several statements and transactions keeps what it has committed when it
  throws. It is a function from the state to the outcome and the state it leaves.
\<close>

definition act_bind :: "('s \<Rightarrow> ('e + 'a) \<times> 's) \<Rightarrow> ('a \<Rightarrow> 's \<Rightarrow> ('e + 'b) \<times> 's) \<Rightarrow> 's \<Rightarrow> ('e + 'b) \<times> 's" where
  "act_bind m f s = (case m s of (Inl e, s') \<Rightarrow> (Inl e, s') | (Inr a, s') \<Rightarrow> f a s')"

definition act_return :: "'a \<Rightarrow> 's \<Rightarrow> ('e + 'a) \<times> 's" where
  "act_return a s = (Inr a, s)"

definition act_throw :: "'e \<Rightarrow> 's \<Rightarrow> ('e + 'a) \<times> 's" where
  "act_throw e s = (Inl e, s)"

text \<open>A read of the state that may be refused, and a write that cannot fail.\<close>

definition act_read :: "('s \<Rightarrow> 'e + 'a) \<Rightarrow> 's \<Rightarrow> ('e + 'a) \<times> 's" where
  "act_read f s = (f s, s)"

definition act_write :: "('s \<Rightarrow> 's) \<Rightarrow> 's \<Rightarrow> ('e + unit) \<times> 's" where
  "act_write f s = (ok, f s)"

text \<open>\<open>act_try m h\<close> is \<open>try { return m } catch (e) { return h(e) }\<close>.\<close>

definition act_try :: "('s \<Rightarrow> ('e + 'a) \<times> 's) \<Rightarrow> ('e \<Rightarrow> 's \<Rightarrow> ('e + 'a) \<times> 's) \<Rightarrow> 's \<Rightarrow> ('e + 'a) \<times> 's" where
  "act_try m h s = (case m s of (Inl e, s') \<Rightarrow> h e s' | (Inr a, s') \<Rightarrow> (Inr a, s'))"

named_theorems act_simps \<open>running a sequence of operations\<close>

lemma act_basic [act_simps]:
  "act_return a s = (Inr a, s)" "act_throw e s = (Inl e, s)" "act_read f s = (f s, s)"
  "act_write g s = (ok, g s)"
  by (simp_all add: act_return_def act_throw_def act_read_def act_write_def)

lemma act_bind_Inr: "act_bind m f s = (Inr b, s') \<longleftrightarrow> (\<exists>a t. m s = (Inr a, t) \<and> f a t = (Inr b, s'))"
  by (auto simp: act_bind_def split: prod.splits sum.splits)

lemma act_bind_ok: "act_bind m f s = (ok, s') \<longleftrightarrow> (\<exists>a t. m s = (Inr a, t) \<and> f a t = (ok, s'))"
  unfolding ok_def by (rule act_bind_Inr)

text \<open>
  A relation between the state before and after that is reflexive and transitive is kept by a
  sequence of operations that each keep it.
\<close>

definition keeps :: "('s \<Rightarrow> 's \<Rightarrow> bool) \<Rightarrow> ('s \<Rightarrow> ('e + 'a) \<times> 's) \<Rightarrow> bool" where
  "keeps R m \<longleftrightarrow> (\<forall>s. R s (snd (m s)))"

locale kept_relation =
  fixes R :: "'s \<Rightarrow> 's \<Rightarrow> bool"
  assumes reflexive: "R s s" and transitive: "R s t \<Longrightarrow> R t u \<Longrightarrow> R s u"
begin

lemma keeps_basic [intro]:
  "keeps R (act_return a)" "keeps R (act_throw e)" "keeps R (act_read f)"
  by (simp_all add: keeps_def act_simps reflexive)

lemma keeps_write: "(\<And>s. R s (g s)) \<Longrightarrow> keeps R (act_write g)"
  by (simp add: keeps_def act_simps)

lemma keeps_bind:
  assumes "keeps R m" "\<And>a. keeps R (f a)"
  shows "keeps R (act_bind m f)"
proof -
  have "R s (snd (act_bind m f s))" for s
  proof (cases "m s")
    case (Pair r s')
    then have "R s s'" using assms(1) by (metis keeps_def snd_conv)
    moreover have "R s' (snd (f a s'))" for a using assms(2) by (simp add: keeps_def)
    ultimately show ?thesis
      using Pair by (cases r) (auto simp: act_bind_def intro: transitive)
  qed
  then show ?thesis by (simp add: keeps_def)
qed

lemma keeps_try:
  assumes "keeps R m" "\<And>e. keeps R (h e)"
  shows "keeps R (act_try m h)"
proof -
  have "R s (snd (act_try m h s))" for s
  proof (cases "m s")
    case (Pair r s')
    then have "R s s'" using assms(1) by (metis keeps_def snd_conv)
    moreover have "R s' (snd (h e s'))" for e using assms(2) by (simp add: keeps_def)
    ultimately show ?thesis
      using Pair by (cases r) (auto simp: act_try_def intro: transitive)
  qed
  then show ?thesis by (simp add: keeps_def)
qed

end

section \<open>Numbers as text\<close>

text \<open>
  \<open>String(n)\<close> for a non-negative integer, and for a finite number between \<open>1e-6\<close> and \<open>1e21\<close>.
  A double is identified with the shortest decimal that reads back as it, the one JavaScript
  prints, which has at most seventeen digits: a rational with a terminating expansion.
\<close>

definition digit_text :: "nat \<Rightarrow> char" where
  "digit_text d = char_of (48 + d)"

fun nat_text :: "nat \<Rightarrow> string" where
  "nat_text n = (if n < 10 then [digit_text n] else nat_text (n div 10) @ [digit_text (n mod 10)])"

declare nat_text.simps [simp del]

fun fraction_text :: "nat \<Rightarrow> rat \<Rightarrow> string" where
  "fraction_text 0 r = []"
| "fraction_text (Suc k) r =
     (if r = 0 then []
      else digit_text (nat \<lfloor>10 * r\<rfloor>) # fraction_text k (10 * r - of_int \<lfloor>10 * r\<rfloor>))"

definition number_text :: "rat \<Rightarrow> string" where
  "number_text r =
     nat_text (nat \<lfloor>r\<rfloor>) @
     (if r = of_int \<lfloor>r\<rfloor> then [] else CHR ''.'' # fraction_text 17 (r - of_int \<lfloor>r\<rfloor>))"

text \<open>The number a text of digits denotes; reading back what was printed.\<close>

definition text_value :: "string \<Rightarrow> nat" where
  "text_value s = foldl (\<lambda>v c. 10 * v + (of_char c - 48)) 0 s"

lemma of_char_digit_text: "d < 10 \<Longrightarrow> of_char (digit_text d) = 48 + d"
  by (simp add: digit_text_def)

lemma text_value_snoc: "text_value (s @ [c]) = 10 * text_value s + (of_char c - 48)"
  by (simp add: text_value_def)

lemma text_value_nat_text: "text_value (nat_text n) = n"
proof (induction n rule: nat_text.induct)
  case (1 n)
  show ?case
  proof (cases "n < 10")
    case True
    then show ?thesis
      by (simp add: nat_text.simps [of n] text_value_def of_char_digit_text)
  next
    case False
    with "1.IH" show ?thesis
      by (simp add: nat_text.simps [of n] text_value_snoc of_char_digit_text)
  qed
qed

lemma nat_text_inject [simp]: "nat_text m = nat_text n \<longleftrightarrow> m = n"
  by (metis text_value_nat_text)

lemma nat_text_digits: "c \<in> set (nat_text n) \<Longrightarrow> of_char c \<in> {48..57 :: nat}"
proof (induction n rule: nat_text.induct)
  case (1 n)
  have "of_char (digit_text (n mod 10)) \<in> {48..57 :: nat}"
    using of_char_digit_text [of "n mod 10"] by simp
  with 1 show ?case
    by (cases "n < 10") (auto simp: nat_text.simps [of n] of_char_digit_text)
qed

end
