(* ===== verification/Identifiers.thy ===== *)
theory Identifiers
  imports Prelude
begin

text \<open>
  Entity identifiers (\<open>packages/protocol/src/entity-id.ts\<close>): a conventional prefix and
  sixteen random bytes in hexadecimal. The platform's random source is a parameter: the
  bytes it returned are an argument.
\<close>

section \<open>Definitions\<close>

type_synonym byte = "8 word"

definition RANDOM_BYTES :: nat where
  "RANDOM_BYTES = 16"

definition IDENTIFIER_PREFIXES :: "(string \<times> string) list" where
  "IDENTIFIER_PREFIXES =
     [(''organisation'', ''org_''), (''user'', ''usr_''), (''install_token'', ''ins_''),
      (''human_session'', ''vwr_''), (''project'', ''prj_''), (''environment'', ''env_''),
      (''connector'', ''con_''), (''workspace'', ''wsp_''), (''published_service'', ''svc_''),
      (''agent_credential'', ''agc_''), (''agent_session'', ''ags_''),
      (''browser_worker'', ''wkr_''), (''browser_session'', ''brs_''),
      (''control_lease'', ''lse_''), (''review'', ''rev_''), (''finding'', ''fin_''),
      (''comment'', ''cmt_''), (''annotation'', ''ann_''), (''artefact'', ''art_''),
      (''artefact_grant'', ''agr_''), (''inbox_item'', ''inb_''), (''verification'', ''ver_''),
      (''event'', ''evt_''), (''job'', ''job_''), (''request'', ''req_'')]"

text \<open>The one error this module throws carries only a message.\<close>

datatype entity_id_error = EntityIdError

definition identifier_char :: "char \<Rightarrow> bool" where
  "identifier_char c \<longleftrightarrow>
     (CHR ''a'' \<le> c \<and> c \<le> CHR ''z'') \<or> (CHR ''A'' \<le> c \<and> c \<le> CHR ''Z'') \<or>
     (CHR ''0'' \<le> c \<and> c \<le> CHR ''9'') \<or> c = CHR ''_'' \<or> c = CHR ''-''"

text \<open>\<open>/^[A-Za-z0-9_-]{1,64}$/u\<close>.\<close>

definition IDENTIFIER_PATTERN :: "string \<Rightarrow> bool" where
  "IDENTIFIER_PATTERN s \<longleftrightarrow> 1 \<le> length s \<and> length s \<le> 64 \<and> list_all identifier_char s"

definition entityPrefix :: "string \<Rightarrow> entity_id_error + string" where
  "entityPrefix kind =
     (case map_of IDENTIFIER_PREFIXES kind of None \<Rightarrow> Inl EntityIdError | Some p \<Rightarrow> Inr p)"

definition hex_digit :: "nat \<Rightarrow> char" where
  "hex_digit n = (if n < 10 then char_of (48 + n) else char_of (87 + n))"

text \<open>\<open>byte.toString(16).padStart(2, "0")\<close>.\<close>

definition hex_byte :: "byte \<Rightarrow> string" where
  "hex_byte b = [hex_digit (unat b div 16), hex_digit (unat b mod 16)]"

definition randomSuffix :: "byte list \<Rightarrow> string" where
  "randomSuffix bytes = concat (map hex_byte bytes)"

definition newEntityId :: "string \<Rightarrow> byte list \<Rightarrow> entity_id_error + string" where
  "newEntityId kind bytes = r_bind (entityPrefix kind) (\<lambda>p. Inr (p @ randomSuffix bytes))"

definition newPrefixedId :: "string \<Rightarrow> byte list \<Rightarrow> entity_id_error + string" where
  "newPrefixedId prefix bytes =
     (let candidate = prefix @ randomSuffix bytes in
      r_then (refuse_if (\<not> IDENTIFIER_PATTERN candidate) EntityIdError) (Inr candidate))"

definition isEntityId :: "string \<Rightarrow> bool" where
  "isEntityId value = IDENTIFIER_PATTERN value"

section \<open>Lemmas\<close>

lemma unat_byte_less: "unat (b :: byte) < 256"
  using unsigned_less [of b] by simp

lemma hex_digit_char: "n < 16 \<Longrightarrow> identifier_char (hex_digit n)"
proof -
  assume "n < 16"
  then have "n \<in> set [0..<16]" by simp
  moreover have "list_all (\<lambda>n. identifier_char (hex_digit n)) [0..<16]" by code_simp
  ultimately show ?thesis by (simp add: list_all_iff)
qed

lemma hex_digit_inject: "m < 16 \<Longrightarrow> n < 16 \<Longrightarrow> hex_digit m = hex_digit n \<Longrightarrow> m = n"
proof -
  assume "m < 16" "n < 16" and eq: "hex_digit m = hex_digit n"
  then have "m \<in> set [0..<16]" "n \<in> set [0..<16]" by simp_all
  moreover have "distinct (map hex_digit [0..<16])" by code_simp
  ultimately show ?thesis using eq unfolding distinct_map by (meson inj_onD)
qed

lemma hex_byte_length [simp]: "length (hex_byte b) = 2"
  by (simp add: hex_byte_def)

lemma hex_byte_chars: "list_all identifier_char (hex_byte b)"
  using unat_byte_less [of b] by (auto simp: hex_byte_def intro!: hex_digit_char)

lemma hex_byte_inject: "hex_byte a = hex_byte b \<longleftrightarrow> a = b"
proof
  assume "hex_byte a = hex_byte b"
  then have "unat a div 16 = unat b div 16" "unat a mod 16 = unat b mod 16"
    using unat_byte_less [of a] unat_byte_less [of b]
    by (auto simp: hex_byte_def dest!: hex_digit_inject [rotated 2])
  then have "unat a = unat b" by (metis div_mult_mod_eq)
  then show "a = b" by (rule word_unat_eq_iff [THEN iffD2])
qed simp

lemma randomSuffix_length [simp]: "length (randomSuffix bs) = 2 * length bs"
  by (induction bs) (simp_all add: randomSuffix_def)

lemma randomSuffix_chars: "list_all identifier_char (randomSuffix bs)"
  by (induction bs) (simp_all add: randomSuffix_def hex_byte_chars)

lemma randomSuffix_inject: "randomSuffix as = randomSuffix bs \<longleftrightarrow> as = bs"
proof
  assume eq: "randomSuffix as = randomSuffix bs"
  then have "length as = length bs" by (metis randomSuffix_length mult_left_cancel zero_neq_numeral)
  then show "as = bs" using eq
    by (induction as bs rule: list_induct2) (auto simp: randomSuffix_def hex_byte_inject)
qed simp

lemma newPrefixedId_eq:
  assumes "list_all identifier_char prefix" "length prefix \<le> 32" "length bytes = RANDOM_BYTES"
  shows "newPrefixedId prefix bytes = Inr (prefix @ randomSuffix bytes)"
  using assms
  by (simp add: newPrefixedId_def Let_def IDENTIFIER_PATTERN_def RANDOM_BYTES_def
      randomSuffix_chars refuse_if_def)

lemma entityPrefix_shape:
  assumes "entityPrefix kind = Inr p"
  shows "list_all identifier_char p \<and> length p = 4"
proof -
  have "list_all (\<lambda>(k, p). list_all identifier_char p \<and> length p = 4) IDENTIFIER_PREFIXES"
    by code_simp
  then show ?thesis using assms map_of_SomeD [of IDENTIFIER_PREFIXES kind p]
    by (auto simp: entityPrefix_def list_all_iff split: option.splits)
qed

section \<open>Properties\<close>

text \<open>an identifier minted for any declared entity kind satisfies the identifier bounds of
  the schema, and two identifiers of one kind are equal only when the random source returned the
  same sixteen bytes for both.\<close>

theorem newEntityId_valid_and_injective:
  assumes "length a = RANDOM_BYTES" "length b = RANDOM_BYTES"
    and "newEntityId kind a = Inr x" "newEntityId kind b = Inr y"
  shows "isEntityId x \<and> isEntityId y \<and> (x = y \<longleftrightarrow> a = b)"
proof -
  obtain p where p: "entityPrefix kind = Inr p" "x = p @ randomSuffix a" "y = p @ randomSuffix b"
    using assms(3,4) by (auto simp: newEntityId_def result_simps)
  with entityPrefix_shape [OF p(1)] assms(1,2) show ?thesis
    by (auto simp: isEntityId_def IDENTIFIER_PATTERN_def RANDOM_BYTES_def randomSuffix_chars
        randomSuffix_inject)
qed

theorem newEntityId_valid_and_injective_witness:
  "isEntityId ''rev_00000000000000000000000000000000'' \<and>
   isEntityId ''rev_07070707070707070707070707070707''"
proof -
  have "newEntityId ''review'' (replicate 16 0) = Inr ''rev_00000000000000000000000000000000''"
    "newEntityId ''review'' (replicate 16 7) = Inr ''rev_07070707070707070707070707070707''"
    by code_simp+
  then show ?thesis
    using newEntityId_valid_and_injective [of "replicate 16 0" "replicate 16 7" "''review''"]
    by (simp add: RANDOM_BYTES_def)
qed

end
