(* ===== verification/Api_Errors.thy ===== *)
theory Api_Errors
  imports Prelude
begin

text \<open>
  The stable error vocabulary of the control plane and the envelope its one error hook
  renders (\<open>apps/server/src/errors.ts\<close>). The human-readable message of an \<open>ApiError\<close> is not
  modelled; the code, the status derived from it, the structured details and the internal
  diagnostic are.
\<close>

section \<open>Codes\<close>

datatype error_code =
    AUTHENTICATION_REQUIRED
  | AUTHORISATION_DENIED
  | PROJECT_CONTEXT_AMBIGUOUS
  | PROJECT_CONTEXT_MISMATCH
  | RESOURCE_NOT_FOUND
  | RESOURCE_STALE
  | VERSION_CONFLICT
  | IDEMPOTENCY_CONFLICT
  | VALIDATION_FAILED
  | CONNECTOR_OFFLINE
  | PUBLISHED_SERVICE_UNAVAILABLE
  | BROWSER_CAPACITY_EXHAUSTED
  | BROWSER_SESSION_NOT_ACTIVE
  | BROWSER_COMMAND_TIMEOUT
  | CONTROL_NOT_OWNED
  | CONTROL_EPOCH_STALE
  | POLICY_DENIED
  | APPROVAL_REQUIRED
  | EVIDENCE_REQUIRED
  | ARTEFACT_UPLOAD_INCOMPLETE
  | ARTEFACT_STORE_UNAVAILABLE
  | UNSUPPORTED_CAPABILITY
  | RATE_LIMITED
  | INTERNAL_ERROR
  | ENROLMENT_TOKEN_INVALID
  | IDENTITY_REVOKED
  | PROTOCOL_UNSUPPORTED
  | PROJECT_NOT_AUTHORISED
  | WORKSPACE_NOT_FOUND
  | DESTINATION_NOT_ALLOWED
  | PORT_NOT_LISTENING
  | ROUTE_LIMIT_EXCEEDED
  | ROUTE_EXPIRED
  | STREAM_LIMIT_EXCEEDED
  | CONTROL_PLANE_UNAVAILABLE
  | UPGRADE_REQUIRED

text \<open>
  \<open>error_code_name\<close> is the wire spelling of a code. The two vocabularies are the generated
  \<open>ERROR_CLASS_VALUES\<close> of the platform protocol and of the connector protocol.
\<close>

fun error_code_name :: "error_code \<Rightarrow> string" where
  "error_code_name AUTHENTICATION_REQUIRED = ''AUTHENTICATION_REQUIRED''"
| "error_code_name AUTHORISATION_DENIED = ''AUTHORISATION_DENIED''"
| "error_code_name PROJECT_CONTEXT_AMBIGUOUS = ''PROJECT_CONTEXT_AMBIGUOUS''"
| "error_code_name PROJECT_CONTEXT_MISMATCH = ''PROJECT_CONTEXT_MISMATCH''"
| "error_code_name RESOURCE_NOT_FOUND = ''RESOURCE_NOT_FOUND''"
| "error_code_name RESOURCE_STALE = ''RESOURCE_STALE''"
| "error_code_name VERSION_CONFLICT = ''VERSION_CONFLICT''"
| "error_code_name IDEMPOTENCY_CONFLICT = ''IDEMPOTENCY_CONFLICT''"
| "error_code_name VALIDATION_FAILED = ''VALIDATION_FAILED''"
| "error_code_name CONNECTOR_OFFLINE = ''CONNECTOR_OFFLINE''"
| "error_code_name PUBLISHED_SERVICE_UNAVAILABLE = ''PUBLISHED_SERVICE_UNAVAILABLE''"
| "error_code_name BROWSER_CAPACITY_EXHAUSTED = ''BROWSER_CAPACITY_EXHAUSTED''"
| "error_code_name BROWSER_SESSION_NOT_ACTIVE = ''BROWSER_SESSION_NOT_ACTIVE''"
| "error_code_name BROWSER_COMMAND_TIMEOUT = ''BROWSER_COMMAND_TIMEOUT''"
| "error_code_name CONTROL_NOT_OWNED = ''CONTROL_NOT_OWNED''"
| "error_code_name CONTROL_EPOCH_STALE = ''CONTROL_EPOCH_STALE''"
| "error_code_name POLICY_DENIED = ''POLICY_DENIED''"
| "error_code_name APPROVAL_REQUIRED = ''APPROVAL_REQUIRED''"
| "error_code_name EVIDENCE_REQUIRED = ''EVIDENCE_REQUIRED''"
| "error_code_name ARTEFACT_UPLOAD_INCOMPLETE = ''ARTEFACT_UPLOAD_INCOMPLETE''"
| "error_code_name ARTEFACT_STORE_UNAVAILABLE = ''ARTEFACT_STORE_UNAVAILABLE''"
| "error_code_name UNSUPPORTED_CAPABILITY = ''UNSUPPORTED_CAPABILITY''"
| "error_code_name RATE_LIMITED = ''RATE_LIMITED''"
| "error_code_name INTERNAL_ERROR = ''INTERNAL_ERROR''"
| "error_code_name ENROLMENT_TOKEN_INVALID = ''ENROLMENT_TOKEN_INVALID''"
| "error_code_name IDENTITY_REVOKED = ''IDENTITY_REVOKED''"
| "error_code_name PROTOCOL_UNSUPPORTED = ''PROTOCOL_UNSUPPORTED''"
| "error_code_name PROJECT_NOT_AUTHORISED = ''PROJECT_NOT_AUTHORISED''"
| "error_code_name WORKSPACE_NOT_FOUND = ''WORKSPACE_NOT_FOUND''"
| "error_code_name DESTINATION_NOT_ALLOWED = ''DESTINATION_NOT_ALLOWED''"
| "error_code_name PORT_NOT_LISTENING = ''PORT_NOT_LISTENING''"
| "error_code_name ROUTE_LIMIT_EXCEEDED = ''ROUTE_LIMIT_EXCEEDED''"
| "error_code_name ROUTE_EXPIRED = ''ROUTE_EXPIRED''"
| "error_code_name STREAM_LIMIT_EXCEEDED = ''STREAM_LIMIT_EXCEEDED''"
| "error_code_name CONTROL_PLANE_UNAVAILABLE = ''CONTROL_PLANE_UNAVAILABLE''"
| "error_code_name UPGRADE_REQUIRED = ''UPGRADE_REQUIRED''"

definition API_ERROR_CODES :: "string list" where
  "API_ERROR_CODES = [''AUTHENTICATION_REQUIRED'',
     ''AUTHORISATION_DENIED'',
     ''PROJECT_CONTEXT_AMBIGUOUS'',
     ''PROJECT_CONTEXT_MISMATCH'',
     ''RESOURCE_NOT_FOUND'',
     ''RESOURCE_STALE'',
     ''VERSION_CONFLICT'',
     ''IDEMPOTENCY_CONFLICT'',
     ''VALIDATION_FAILED'',
     ''CONNECTOR_OFFLINE'',
     ''PUBLISHED_SERVICE_UNAVAILABLE'',
     ''BROWSER_CAPACITY_EXHAUSTED'',
     ''BROWSER_SESSION_NOT_ACTIVE'',
     ''BROWSER_COMMAND_TIMEOUT'',
     ''CONTROL_NOT_OWNED'',
     ''CONTROL_EPOCH_STALE'',
     ''POLICY_DENIED'',
     ''APPROVAL_REQUIRED'',
     ''EVIDENCE_REQUIRED'',
     ''ARTEFACT_UPLOAD_INCOMPLETE'',
     ''ARTEFACT_STORE_UNAVAILABLE'',
     ''UNSUPPORTED_CAPABILITY'',
     ''RATE_LIMITED'',
     ''INTERNAL_ERROR'']"

definition ERROR_CLASS_VALUES :: "string list" where
  "ERROR_CLASS_VALUES = [''ENROLMENT_TOKEN_INVALID'',
     ''IDENTITY_REVOKED'',
     ''PROTOCOL_UNSUPPORTED'',
     ''PROJECT_NOT_AUTHORISED'',
     ''WORKSPACE_NOT_FOUND'',
     ''DESTINATION_NOT_ALLOWED'',
     ''PORT_NOT_LISTENING'',
     ''ROUTE_LIMIT_EXCEEDED'',
     ''ROUTE_EXPIRED'',
     ''STREAM_LIMIT_EXCEEDED'',
     ''CONTROL_PLANE_UNAVAILABLE'',
     ''UPGRADE_REQUIRED'']"

fun STATUS_BY_CODE :: "error_code \<Rightarrow> nat" where
  "STATUS_BY_CODE AUTHENTICATION_REQUIRED = 401"
| "STATUS_BY_CODE AUTHORISATION_DENIED = 403"
| "STATUS_BY_CODE PROJECT_CONTEXT_AMBIGUOUS = 409"
| "STATUS_BY_CODE PROJECT_CONTEXT_MISMATCH = 403"
| "STATUS_BY_CODE RESOURCE_NOT_FOUND = 404"
| "STATUS_BY_CODE RESOURCE_STALE = 409"
| "STATUS_BY_CODE VERSION_CONFLICT = 409"
| "STATUS_BY_CODE IDEMPOTENCY_CONFLICT = 409"
| "STATUS_BY_CODE VALIDATION_FAILED = 422"
| "STATUS_BY_CODE CONNECTOR_OFFLINE = 503"
| "STATUS_BY_CODE PUBLISHED_SERVICE_UNAVAILABLE = 409"
| "STATUS_BY_CODE BROWSER_CAPACITY_EXHAUSTED = 503"
| "STATUS_BY_CODE BROWSER_SESSION_NOT_ACTIVE = 409"
| "STATUS_BY_CODE BROWSER_COMMAND_TIMEOUT = 504"
| "STATUS_BY_CODE CONTROL_NOT_OWNED = 409"
| "STATUS_BY_CODE CONTROL_EPOCH_STALE = 409"
| "STATUS_BY_CODE POLICY_DENIED = 403"
| "STATUS_BY_CODE APPROVAL_REQUIRED = 403"
| "STATUS_BY_CODE EVIDENCE_REQUIRED = 422"
| "STATUS_BY_CODE ARTEFACT_UPLOAD_INCOMPLETE = 409"
| "STATUS_BY_CODE ARTEFACT_STORE_UNAVAILABLE = 503"
| "STATUS_BY_CODE UNSUPPORTED_CAPABILITY = 400"
| "STATUS_BY_CODE RATE_LIMITED = 429"
| "STATUS_BY_CODE INTERNAL_ERROR = 500"
| "STATUS_BY_CODE ENROLMENT_TOKEN_INVALID = 401"
| "STATUS_BY_CODE IDENTITY_REVOKED = 403"
| "STATUS_BY_CODE PROTOCOL_UNSUPPORTED = 400"
| "STATUS_BY_CODE PROJECT_NOT_AUTHORISED = 403"
| "STATUS_BY_CODE WORKSPACE_NOT_FOUND = 404"
| "STATUS_BY_CODE DESTINATION_NOT_ALLOWED = 422"
| "STATUS_BY_CODE PORT_NOT_LISTENING = 503"
| "STATUS_BY_CODE ROUTE_LIMIT_EXCEEDED = 429"
| "STATUS_BY_CODE ROUTE_EXPIRED = 409"
| "STATUS_BY_CODE STREAM_LIMIT_EXCEEDED = 429"
| "STATUS_BY_CODE CONTROL_PLANE_UNAVAILABLE = 503"
| "STATUS_BY_CODE UPGRADE_REQUIRED = 426"

definition isStableErrorCode :: "string \<Rightarrow> bool" where
  "isStableErrorCode candidate \<longleftrightarrow>
     candidate \<in> set API_ERROR_CODES \<or> candidate \<in> set ERROR_CLASS_VALUES"

section \<open>The error value\<close>

text \<open>The members the refusals of this program put into \<open>details\<close>.\<close>

datatype detail =
    D_field string
  | D_current_version nat
  | D_expected_version nat
  | D_actual_version nat
  | D_current_verification_id "string option"
  | D_expected_verification_id string
  | D_required_evidence "string list"
  | D_allowed_transitions "string list"
  | D_missing_context "string list"
  | D_reason string
  | D_retryable bool
  | D_browser_session_status string
  | D_current_epoch nat
  | D_published_service_id "string option"
  | D_connector_status string
  | D_detected string
  | D_browser_worker_assignment string
  | D_heartbeat_interval_seconds nat
  | D_max_bytes nat
  | D_max_ttl_seconds nat
  | D_max_routes nat
  | D_status string
  | D_connector_id string
  | D_route_id string
  | D_cause string

record api_error =
  err_code :: error_code
  err_status :: nat
  err_details :: "detail list option"
  err_diagnostic :: "string option"

text \<open>The constructor \<open>new ApiError(code, message, details, status, diagnostic)\<close>.\<close>

definition ApiError ::
  "error_code \<Rightarrow> detail list option \<Rightarrow> nat option \<Rightarrow> string option \<Rightarrow> api_error" where
  "ApiError code details status diagnostic =
     \<lparr>err_code = code,
      err_status = (case status of Some s \<Rightarrow> s | None \<Rightarrow> STATUS_BY_CODE code),
      err_details = details,
      err_diagnostic = diagnostic\<rparr>"

text \<open>The form every refusal of the review module uses: a code and details only.\<close>

definition refusal :: "error_code \<Rightarrow> detail list \<Rightarrow> api_error" where
  "refusal code ds = ApiError code (Some ds) None None"

definition notFound :: "string \<Rightarrow> api_error" where
  "notFound what = ApiError RESOURCE_NOT_FOUND None None None"

section \<open>Rendering\<close>

text \<open>
  What reaches the error hook: an \<open>ApiError\<close>, or any other thrown value, of which the hook
  reads whether a \<open>validation\<close> member is present and the numeric \<open>statusCode\<close> if there is one.
\<close>

datatype failure = Api api_error | Thrown bool "int option"

record error_reply =
  rep_status :: int
  rep_code :: error_code
  rep_details :: "detail list option"
  rep_request_id :: string

datatype log_line = Log_diagnostic error_code string string | Log_unhandled string

definition apiError :: "error_code \<Rightarrow> string \<Rightarrow> detail list option \<Rightarrow> int \<Rightarrow> error_reply" where
  "apiError code request_id details status =
     \<lparr>rep_status = status, rep_code = code, rep_details = details, rep_request_id = request_id\<rparr>"

fun renderError :: "failure \<Rightarrow> string \<Rightarrow> log_line list \<times> error_reply" where
  "renderError (Api e) request_id =
     ((case err_diagnostic e of None \<Rightarrow> []
       | Some d \<Rightarrow> [Log_diagnostic (err_code e) d request_id]),
      apiError (err_code e) request_id (err_details e) (int (err_status e)))"
| "renderError (Thrown validation statusCode) request_id =
     (if validation
      then ([], apiError VALIDATION_FAILED request_id None (int (STATUS_BY_CODE VALIDATION_FAILED)))
      else case statusCode of
        Some s \<Rightarrow>
          (if s \<ge> 400 \<and> s < 500
           then ([], apiError VALIDATION_FAILED request_id None s)
           else ([Log_unhandled request_id], apiError INTERNAL_ERROR request_id None 500))
      | None \<Rightarrow> ([Log_unhandled request_id], apiError INTERNAL_ERROR request_id None 500))"

section \<open>Lemmas\<close>

lemma err_code_refusal [simp]: "err_code (refusal c ds) = c"
  by (simp add: refusal_def ApiError_def)

lemma err_code_notFound [simp]: "err_code (notFound w) = RESOURCE_NOT_FOUND"
  by (simp add: notFound_def ApiError_def)

lemma err_status_refusal [simp]: "err_status (refusal c ds) = STATUS_BY_CODE c"
  by (simp add: refusal_def ApiError_def)

lemma err_details_refusal [simp]: "err_details (refusal c ds) = Some ds"
  by (simp add: refusal_def ApiError_def)

lemma refusal_inject [simp]: "refusal c ds = refusal c' ds' \<longleftrightarrow> c = c' \<and> ds = ds'"
  by (auto simp: refusal_def ApiError_def)

lemma refusal_neq_notFound [simp]: "refusal c ds \<noteq> notFound w" "notFound w \<noteq> refusal c ds"
  by (simp_all add: refusal_def notFound_def ApiError_def)

lemma STATUS_BY_CODE_range: "400 \<le> STATUS_BY_CODE c \<and> STATUS_BY_CODE c < 600"
  by (cases c) simp_all

end
