(* ===== verification/Review_Transitions.thy ===== *)
theory Review_Transitions
  imports Prelude
begin

text \<open>
  The review and finding lifecycles as the protocol package holds them: two tables of
  strings generated from the review schema, the reader \<open>parse\<close> that turns an entry
  \<open>from:to:actor_types\<close> into a row, and the queries every layer of the program derives its
  permitted actions from (\<open>packages/protocol/src/review-transitions.ts\<close>).

  Statuses and actor types are datatypes with their wire spelling; a row keeps the strings
  the reader produced, because the TypeScript casts them without a check. The locale
  \<open>status_machine\<close> is the contract a table has to meet for the queries to mean what their
  names say, and both tables are shown to meet it.
\<close>

section \<open>Vocabulary\<close>

datatype actor_type =
    human_user
  | agent_session
  | connector
  | browser_worker
  | system
  | integration

datatype review_status =
    R_DRAFT
  | R_READY
  | R_ASSIGNED
  | R_IN_PROGRESS
  | R_AWAITING_HUMAN_REVIEW
  | R_CHANGES_REQUESTED
  | R_ACCEPTED
  | R_CANCELLED
  | R_ARCHIVED

datatype finding_status =
    F_OPEN
  | F_CLAIMED
  | F_IN_PROGRESS
  | F_BLOCKED
  | F_FIXED_UNVERIFIED
  | F_AWAITING_HUMAN_REVIEW
  | F_RESOLVED
  | F_REOPENED
  | F_WONT_FIX
  | F_DUPLICATE

datatype finding_source = Human | Agent

fun actor_type_name :: "actor_type \<Rightarrow> string" where
  "actor_type_name human_user = ''human_user''"
| "actor_type_name agent_session = ''agent_session''"
| "actor_type_name connector = ''connector''"
| "actor_type_name browser_worker = ''browser_worker''"
| "actor_type_name system = ''system''"
| "actor_type_name integration = ''integration''"

fun review_status_name :: "review_status \<Rightarrow> string" where
  "review_status_name R_DRAFT = ''DRAFT''"
| "review_status_name R_READY = ''READY''"
| "review_status_name R_ASSIGNED = ''ASSIGNED''"
| "review_status_name R_IN_PROGRESS = ''IN_PROGRESS''"
| "review_status_name R_AWAITING_HUMAN_REVIEW = ''AWAITING_HUMAN_REVIEW''"
| "review_status_name R_CHANGES_REQUESTED = ''CHANGES_REQUESTED''"
| "review_status_name R_ACCEPTED = ''ACCEPTED''"
| "review_status_name R_CANCELLED = ''CANCELLED''"
| "review_status_name R_ARCHIVED = ''ARCHIVED''"

fun finding_status_name :: "finding_status \<Rightarrow> string" where
  "finding_status_name F_OPEN = ''OPEN''"
| "finding_status_name F_CLAIMED = ''CLAIMED''"
| "finding_status_name F_IN_PROGRESS = ''IN_PROGRESS''"
| "finding_status_name F_BLOCKED = ''BLOCKED''"
| "finding_status_name F_FIXED_UNVERIFIED = ''FIXED_UNVERIFIED''"
| "finding_status_name F_AWAITING_HUMAN_REVIEW = ''AWAITING_HUMAN_REVIEW''"
| "finding_status_name F_RESOLVED = ''RESOLVED''"
| "finding_status_name F_REOPENED = ''REOPENED''"
| "finding_status_name F_WONT_FIX = ''WONT_FIX''"
| "finding_status_name F_DUPLICATE = ''DUPLICATE''"

instantiation actor_type :: enum
begin
definition enum_actor_type_def: "Enum.enum = [human_user, agent_session, connector, browser_worker, system, integration]"
definition enum_all_actor_type_def: "Enum.enum_all P \<longleftrightarrow> list_all P [human_user, agent_session, connector, browser_worker, system, integration]"
definition enum_ex_actor_type_def: "Enum.enum_ex P \<longleftrightarrow> list_ex P [human_user, agent_session, connector, browser_worker, system, integration]"
instance
proof
  show "(UNIV :: actor_type set) = set Enum.enum"
  proof (rule UNIV_eq_I)
    fix x :: actor_type
    show "x \<in> set Enum.enum" by (cases x) (simp_all add: enum_actor_type_def)
  qed
  show "distinct (Enum.enum :: actor_type list)"
    by (simp add: enum_actor_type_def)
  fix P :: "actor_type \<Rightarrow> bool"
  show "Enum.enum_all P \<longleftrightarrow> Ball UNIV P"
  proof
    assume all: "Enum.enum_all P"
    show "Ball UNIV P"
    proof
      fix x
      from all show "P x" by (cases x) (simp_all add: enum_all_actor_type_def)
    qed
  qed (simp add: enum_all_actor_type_def)
  show "Enum.enum_ex P \<longleftrightarrow> Bex UNIV P"
  proof
    assume "Bex UNIV P"
    then obtain x where "P x" ..
    then show "Enum.enum_ex P" by (cases x) (simp_all add: enum_ex_actor_type_def)
  qed (auto simp: enum_ex_actor_type_def)
qed
end

instantiation review_status :: enum
begin
definition enum_review_status_def: "Enum.enum = [R_DRAFT, R_READY, R_ASSIGNED, R_IN_PROGRESS, R_AWAITING_HUMAN_REVIEW, R_CHANGES_REQUESTED, R_ACCEPTED, R_CANCELLED, R_ARCHIVED]"
definition enum_all_review_status_def: "Enum.enum_all P \<longleftrightarrow> list_all P [R_DRAFT, R_READY, R_ASSIGNED, R_IN_PROGRESS, R_AWAITING_HUMAN_REVIEW, R_CHANGES_REQUESTED, R_ACCEPTED, R_CANCELLED, R_ARCHIVED]"
definition enum_ex_review_status_def: "Enum.enum_ex P \<longleftrightarrow> list_ex P [R_DRAFT, R_READY, R_ASSIGNED, R_IN_PROGRESS, R_AWAITING_HUMAN_REVIEW, R_CHANGES_REQUESTED, R_ACCEPTED, R_CANCELLED, R_ARCHIVED]"
instance
proof
  show "(UNIV :: review_status set) = set Enum.enum"
  proof (rule UNIV_eq_I)
    fix x :: review_status
    show "x \<in> set Enum.enum" by (cases x) (simp_all add: enum_review_status_def)
  qed
  show "distinct (Enum.enum :: review_status list)"
    by (simp add: enum_review_status_def)
  fix P :: "review_status \<Rightarrow> bool"
  show "Enum.enum_all P \<longleftrightarrow> Ball UNIV P"
  proof
    assume all: "Enum.enum_all P"
    show "Ball UNIV P"
    proof
      fix x
      from all show "P x" by (cases x) (simp_all add: enum_all_review_status_def)
    qed
  qed (simp add: enum_all_review_status_def)
  show "Enum.enum_ex P \<longleftrightarrow> Bex UNIV P"
  proof
    assume "Bex UNIV P"
    then obtain x where "P x" ..
    then show "Enum.enum_ex P" by (cases x) (simp_all add: enum_ex_review_status_def)
  qed (auto simp: enum_ex_review_status_def)
qed
end

instantiation finding_status :: enum
begin
definition enum_finding_status_def: "Enum.enum = [F_OPEN, F_CLAIMED, F_IN_PROGRESS, F_BLOCKED, F_FIXED_UNVERIFIED, F_AWAITING_HUMAN_REVIEW, F_RESOLVED, F_REOPENED, F_WONT_FIX, F_DUPLICATE]"
definition enum_all_finding_status_def: "Enum.enum_all P \<longleftrightarrow> list_all P [F_OPEN, F_CLAIMED, F_IN_PROGRESS, F_BLOCKED, F_FIXED_UNVERIFIED, F_AWAITING_HUMAN_REVIEW, F_RESOLVED, F_REOPENED, F_WONT_FIX, F_DUPLICATE]"
definition enum_ex_finding_status_def: "Enum.enum_ex P \<longleftrightarrow> list_ex P [F_OPEN, F_CLAIMED, F_IN_PROGRESS, F_BLOCKED, F_FIXED_UNVERIFIED, F_AWAITING_HUMAN_REVIEW, F_RESOLVED, F_REOPENED, F_WONT_FIX, F_DUPLICATE]"
instance
proof
  show "(UNIV :: finding_status set) = set Enum.enum"
  proof (rule UNIV_eq_I)
    fix x :: finding_status
    show "x \<in> set Enum.enum" by (cases x) (simp_all add: enum_finding_status_def)
  qed
  show "distinct (Enum.enum :: finding_status list)"
    by (simp add: enum_finding_status_def)
  fix P :: "finding_status \<Rightarrow> bool"
  show "Enum.enum_all P \<longleftrightarrow> Ball UNIV P"
  proof
    assume all: "Enum.enum_all P"
    show "Ball UNIV P"
    proof
      fix x
      from all show "P x" by (cases x) (simp_all add: enum_all_finding_status_def)
    qed
  qed (simp add: enum_all_finding_status_def)
  show "Enum.enum_ex P \<longleftrightarrow> Bex UNIV P"
  proof
    assume "Bex UNIV P"
    then obtain x where "P x" ..
    then show "Enum.enum_ex P" by (cases x) (simp_all add: enum_ex_finding_status_def)
  qed (auto simp: enum_ex_finding_status_def)
qed
end

definition REVIEW_STATUS_TRANSITIONS :: "string list" where
  "REVIEW_STATUS_TRANSITIONS =
    [''DRAFT:READY:human_user'',
     ''DRAFT:CANCELLED:human_user'',
     ''READY:ASSIGNED:human_user,agent_session'',
     ''READY:DRAFT:human_user'',
     ''READY:CANCELLED:human_user'',
     ''ASSIGNED:IN_PROGRESS:human_user,agent_session'',
     ''ASSIGNED:READY:human_user'',
     ''ASSIGNED:CANCELLED:human_user'',
     ''IN_PROGRESS:AWAITING_HUMAN_REVIEW:human_user,agent_session'',
     ''IN_PROGRESS:CHANGES_REQUESTED:human_user'',
     ''IN_PROGRESS:CANCELLED:human_user'',
     ''AWAITING_HUMAN_REVIEW:ACCEPTED:human_user'',
     ''AWAITING_HUMAN_REVIEW:CHANGES_REQUESTED:human_user'',
     ''AWAITING_HUMAN_REVIEW:CANCELLED:human_user'',
     ''CHANGES_REQUESTED:IN_PROGRESS:human_user,agent_session'',
     ''CHANGES_REQUESTED:ASSIGNED:human_user'',
     ''CHANGES_REQUESTED:CANCELLED:human_user'',
     ''ACCEPTED:CHANGES_REQUESTED:human_user'',
     ''ACCEPTED:ARCHIVED:human_user'',
     ''CANCELLED:ARCHIVED:human_user'']"

definition FINDING_STATUS_TRANSITIONS :: "string list" where
  "FINDING_STATUS_TRANSITIONS =
    [''OPEN:CLAIMED:human_user,agent_session'',
     ''OPEN:IN_PROGRESS:human_user'',
     ''OPEN:BLOCKED:human_user'',
     ''OPEN:WONT_FIX:human_user'',
     ''OPEN:DUPLICATE:human_user'',
     ''CLAIMED:IN_PROGRESS:human_user,agent_session'',
     ''CLAIMED:BLOCKED:human_user'',
     ''CLAIMED:OPEN:human_user'',
     ''IN_PROGRESS:FIXED_UNVERIFIED:human_user,agent_session'',
     ''IN_PROGRESS:BLOCKED:human_user,agent_session'',
     ''IN_PROGRESS:AWAITING_HUMAN_REVIEW:human_user'',
     ''BLOCKED:IN_PROGRESS:human_user'',
     ''BLOCKED:OPEN:human_user'',
     ''FIXED_UNVERIFIED:AWAITING_HUMAN_REVIEW:human_user,agent_session'',
     ''FIXED_UNVERIFIED:IN_PROGRESS:human_user'',
     ''AWAITING_HUMAN_REVIEW:RESOLVED:human_user'',
     ''AWAITING_HUMAN_REVIEW:REOPENED:human_user'',
     ''AWAITING_HUMAN_REVIEW:WONT_FIX:human_user'',
     ''AWAITING_HUMAN_REVIEW:DUPLICATE:human_user'',
     ''RESOLVED:REOPENED:human_user'',
     ''REOPENED:CLAIMED:human_user'',
     ''REOPENED:IN_PROGRESS:human_user,agent_session'',
     ''WONT_FIX:REOPENED:human_user'',
     ''DUPLICATE:REOPENED:human_user'']"

definition FINAL_FINDING_DISPOSITIONS :: "string list" where
  "FINAL_FINDING_DISPOSITIONS = [''RESOLVED'',
     ''WONT_FIX'',
     ''DUPLICATE'']"

definition ACTIVE_REVIEW_STATUSES :: "string list" where
  "ACTIVE_REVIEW_STATUSES = [''DRAFT'',
     ''READY'',
     ''ASSIGNED'',
     ''IN_PROGRESS'',
     ''AWAITING_HUMAN_REVIEW'',
     ''CHANGES_REQUESTED'',
     ''ACCEPTED'']"

definition IMMUTABLE_REVIEW_STATUSES :: "string list" where
  "IMMUTABLE_REVIEW_STATUSES = [''ACCEPTED'',
     ''CANCELLED'',
     ''ARCHIVED'']"

section \<open>The reader\<close>

record status_transition =
  row_from :: string
  row_to :: string
  actorTypes :: "string list"

datatype table_error = Not_from_to_actor_types string | Names_no_actor_type string

definition parse_entry :: "string \<Rightarrow> table_error + status_transition" where
  "parse_entry entry =
     (case split_on CHR '':'' entry of
        [from, to, actors] \<Rightarrow>
          (let names = split_on CHR '','' actors in
           if names = [] \<or> [] \<in> set names then Inl (Names_no_actor_type entry)
           else Inr \<lparr>row_from = from, row_to = to, actorTypes = names\<rparr>)
      | _ \<Rightarrow> Inl (Not_from_to_actor_types entry))"

fun parse :: "string list \<Rightarrow> table_error + status_transition list" where
  "parse [] = Inr []"
| "parse (entry # entries) =
     r_bind (parse_entry entry) (\<lambda>row. r_bind (parse entries) (\<lambda>rows. Inr (row # rows)))"

text \<open>
  The module constants. Loading the module throws if a table does not parse; the lemmas
  \<open>parse_review_table\<close> and \<open>parse_finding_table\<close> below show that neither does, so the empty
  list of the error branch is never the value.
\<close>

definition loaded :: "table_error + status_transition list \<Rightarrow> status_transition list" where
  "loaded r = (case r of Inl _ \<Rightarrow> [] | Inr rows \<Rightarrow> rows)"

definition REVIEW_TRANSITIONS :: "status_transition list" where
  "REVIEW_TRANSITIONS = loaded (parse REVIEW_STATUS_TRANSITIONS)"

definition FINDING_TRANSITIONS :: "status_transition list" where
  "FINDING_TRANSITIONS = loaded (parse FINDING_STATUS_TRANSITIONS)"

section \<open>Queries\<close>

definition find_row :: "status_transition list \<Rightarrow> string \<Rightarrow> string \<Rightarrow> status_transition option" where
  "find_row table from to = List.find (\<lambda>row. row_from row = from \<and> row_to row = to) table"

definition row_permits :: "status_transition list \<Rightarrow> string \<Rightarrow> string \<Rightarrow> string \<Rightarrow> bool" where
  "row_permits table actor from to =
     (case find_row table from to of None \<Rightarrow> False | Some row \<Rightarrow> actor \<in> set (actorTypes row))"

definition isReviewTransitionLegal :: "review_status \<Rightarrow> review_status \<Rightarrow> bool" where
  "isReviewTransitionLegal from to =
     (find_row REVIEW_TRANSITIONS (review_status_name from) (review_status_name to) \<noteq> None)"

definition isFindingTransitionLegal :: "finding_status \<Rightarrow> finding_status \<Rightarrow> bool" where
  "isFindingTransitionLegal from to =
     (find_row FINDING_TRANSITIONS (finding_status_name from) (finding_status_name to) \<noteq> None)"

definition mayActorMoveReview :: "actor_type \<Rightarrow> review_status \<Rightarrow> review_status \<Rightarrow> bool" where
  "mayActorMoveReview actorType from to =
     row_permits REVIEW_TRANSITIONS (actor_type_name actorType)
       (review_status_name from) (review_status_name to)"

definition mayActorMoveFinding :: "actor_type \<Rightarrow> finding_status \<Rightarrow> finding_status \<Rightarrow> bool" where
  "mayActorMoveFinding actorType from to =
     row_permits FINDING_TRANSITIONS (actor_type_name actorType)
       (finding_status_name from) (finding_status_name to)"

definition row_label :: "status_transition \<Rightarrow> string" where
  "row_label row = row_from row @ '':'' @ row_to row"

definition transitionsAvailableTo ::
  "actor_type \<Rightarrow> string \<Rightarrow> status_transition list \<Rightarrow> string list" where
  "transitionsAvailableTo actorType from table =
     map row_label
       (filter (\<lambda>row. row_from row = from \<and> actor_type_name actorType \<in> set (actorTypes row)) table)"

definition findingTransitionsFor :: "actor_type \<Rightarrow> string list" where
  "findingTransitionsFor actorType =
     map row_label
       (filter (\<lambda>row. actor_type_name actorType \<in> set (actorTypes row)) FINDING_TRANSITIONS)"

text \<open>A JavaScript \<open>Set\<close> filled in a loop and spread back: insertion order, no duplicates.\<close>

fun add_new :: "'a list \<Rightarrow> 'a \<Rightarrow> 'a list" where
  "add_new seen x = (if x \<in> set seen then seen else seen @ [x])"

definition reviewStatusesReachableBy :: "actor_type \<Rightarrow> string list" where
  "reviewStatusesReachableBy actorType =
     foldl (\<lambda>reachable row.
        if actor_type_name actorType \<in> set (actorTypes row) then add_new reachable (row_to row)
        else reachable) [] REVIEW_TRANSITIONS"

definition isActiveReviewStatus :: "review_status \<Rightarrow> bool" where
  "isActiveReviewStatus status \<longleftrightarrow> review_status_name status \<in> set ACTIVE_REVIEW_STATUSES"

definition isImmutableReviewStatus :: "review_status \<Rightarrow> bool" where
  "isImmutableReviewStatus status \<longleftrightarrow> review_status_name status \<in> set IMMUTABLE_REVIEW_STATUSES"

definition isFinalDisposition :: "finding_status \<Rightarrow> bool" where
  "isFinalDisposition status \<longleftrightarrow> finding_status_name status \<in> set FINAL_FINDING_DISPOSITIONS"

section \<open>The tables, typed\<close>

text \<open>
  The reference reading of the two tables. \<open>typed_row\<close> is what a table entry stands for, and
  the two lemmas below show that parsing the generated strings gives exactly these rows.
\<close>

definition review_rows :: "(review_status \<times> review_status \<times> actor_type list) list" where
  "review_rows =
    [(R_DRAFT, R_READY, [human_user]),
     (R_DRAFT, R_CANCELLED, [human_user]),
     (R_READY, R_ASSIGNED, [human_user, agent_session]),
     (R_READY, R_DRAFT, [human_user]),
     (R_READY, R_CANCELLED, [human_user]),
     (R_ASSIGNED, R_IN_PROGRESS, [human_user, agent_session]),
     (R_ASSIGNED, R_READY, [human_user]),
     (R_ASSIGNED, R_CANCELLED, [human_user]),
     (R_IN_PROGRESS, R_AWAITING_HUMAN_REVIEW, [human_user, agent_session]),
     (R_IN_PROGRESS, R_CHANGES_REQUESTED, [human_user]),
     (R_IN_PROGRESS, R_CANCELLED, [human_user]),
     (R_AWAITING_HUMAN_REVIEW, R_ACCEPTED, [human_user]),
     (R_AWAITING_HUMAN_REVIEW, R_CHANGES_REQUESTED, [human_user]),
     (R_AWAITING_HUMAN_REVIEW, R_CANCELLED, [human_user]),
     (R_CHANGES_REQUESTED, R_IN_PROGRESS, [human_user, agent_session]),
     (R_CHANGES_REQUESTED, R_ASSIGNED, [human_user]),
     (R_CHANGES_REQUESTED, R_CANCELLED, [human_user]),
     (R_ACCEPTED, R_CHANGES_REQUESTED, [human_user]),
     (R_ACCEPTED, R_ARCHIVED, [human_user]),
     (R_CANCELLED, R_ARCHIVED, [human_user])]"

definition finding_rows :: "(finding_status \<times> finding_status \<times> actor_type list) list" where
  "finding_rows =
    [(F_OPEN, F_CLAIMED, [human_user, agent_session]),
     (F_OPEN, F_IN_PROGRESS, [human_user]),
     (F_OPEN, F_BLOCKED, [human_user]),
     (F_OPEN, F_WONT_FIX, [human_user]),
     (F_OPEN, F_DUPLICATE, [human_user]),
     (F_CLAIMED, F_IN_PROGRESS, [human_user, agent_session]),
     (F_CLAIMED, F_BLOCKED, [human_user]),
     (F_CLAIMED, F_OPEN, [human_user]),
     (F_IN_PROGRESS, F_FIXED_UNVERIFIED, [human_user, agent_session]),
     (F_IN_PROGRESS, F_BLOCKED, [human_user, agent_session]),
     (F_IN_PROGRESS, F_AWAITING_HUMAN_REVIEW, [human_user]),
     (F_BLOCKED, F_IN_PROGRESS, [human_user]),
     (F_BLOCKED, F_OPEN, [human_user]),
     (F_FIXED_UNVERIFIED, F_AWAITING_HUMAN_REVIEW, [human_user, agent_session]),
     (F_FIXED_UNVERIFIED, F_IN_PROGRESS, [human_user]),
     (F_AWAITING_HUMAN_REVIEW, F_RESOLVED, [human_user]),
     (F_AWAITING_HUMAN_REVIEW, F_REOPENED, [human_user]),
     (F_AWAITING_HUMAN_REVIEW, F_WONT_FIX, [human_user]),
     (F_AWAITING_HUMAN_REVIEW, F_DUPLICATE, [human_user]),
     (F_RESOLVED, F_REOPENED, [human_user]),
     (F_REOPENED, F_CLAIMED, [human_user]),
     (F_REOPENED, F_IN_PROGRESS, [human_user, agent_session]),
     (F_WONT_FIX, F_REOPENED, [human_user]),
     (F_DUPLICATE, F_REOPENED, [human_user])]"

definition typed_row :: "('s \<Rightarrow> string) \<Rightarrow> 's \<times> 's \<times> actor_type list \<Rightarrow> status_transition" where
  "typed_row name r =
     (case r of (f, t, as) \<Rightarrow>
        \<lparr>row_from = name f, row_to = name t, actorTypes = map actor_type_name as\<rparr>)"

lemma parse_review_table: "parse REVIEW_STATUS_TRANSITIONS = Inr (map (typed_row review_status_name) review_rows)"
  by code_simp

lemma parse_finding_table: "parse FINDING_STATUS_TRANSITIONS = Inr (map (typed_row finding_status_name) finding_rows)"
  by code_simp

lemma REVIEW_TRANSITIONS_rows: "REVIEW_TRANSITIONS = map (typed_row review_status_name) review_rows"
  by (simp add: REVIEW_TRANSITIONS_def parse_review_table loaded_def)

lemma FINDING_TRANSITIONS_rows: "FINDING_TRANSITIONS = map (typed_row finding_status_name) finding_rows"
  by (simp add: FINDING_TRANSITIONS_def parse_finding_table loaded_def)

lemma inj_enumI: "distinct (map f (Enum.enum :: 'a::enum list)) \<Longrightarrow> inj f"
  by (simp add: distinct_map UNIV_enum)

lemma inj_actor_type_name: "inj actor_type_name"
  by (rule inj_enumI) code_simp

lemma inj_review_status_name: "inj review_status_name"
  by (rule inj_enumI) code_simp

lemma inj_finding_status_name: "inj finding_status_name"
  by (rule inj_enumI) code_simp

lemma actor_type_name_eq [simp]: "actor_type_name a = actor_type_name b \<longleftrightarrow> a = b"
  by (rule inj_eq [OF inj_actor_type_name])

lemma review_status_name_eq [simp]: "review_status_name a = review_status_name b \<longleftrightarrow> a = b"
  by (rule inj_eq [OF inj_review_status_name])

lemma finding_status_name_eq [simp]: "finding_status_name a = finding_status_name b \<longleftrightarrow> a = b"
  by (rule inj_eq [OF inj_finding_status_name])

section \<open>The contract of a transition table\<close>

text \<open>
  What the callers of the queries rely on: every pair of statuses has at most one row, every
  row is about statuses that exist, every row names somebody, and a human may request every
  row. \<open>sealed\<close> is the set of statuses the table reserves to humans: no row that enters
  it names anybody else.
\<close>

locale status_machine =
  fixes rows :: "('s \<times> 's \<times> actor_type list) list"
    and name :: "'s \<Rightarrow> string"
    and sealed :: "'s \<Rightarrow> bool"
  assumes name_inj: "inj name"
    and no_colon: "CHR '':'' \<notin> set (name s)"
    and one_row: "distinct (map (\<lambda>(f, t, as). (f, t)) rows)"
    and moves: "(f, t, as) \<in> set rows \<Longrightarrow> f \<noteq> t"
    and somebody: "(f, t, as) \<in> set rows \<Longrightarrow> human_user \<in> set as"
    and reserved: "(f, t, as) \<in> set rows \<Longrightarrow> sealed t \<Longrightarrow> a \<in> set as \<Longrightarrow> a = human_user"
begin

lemma name_eq [simp]: "name s = name t \<longleftrightarrow> s = t"
  by (rule inj_eq [OF name_inj])

lemma find_row_typed:
  "find_row (map (typed_row name) rows) (name f) (name t) = Some r \<longleftrightarrow>
     (\<exists>as. (f, t, as) \<in> set rows \<and> r = typed_row name (f, t, as))"
proof -
  let ?key = "\<lambda>r. (row_from r, row_to r)"
  have keys: "map ?key (map (typed_row name) rows) =
      map (map_prod name name) (map (\<lambda>(f, t, as). (f, t)) rows)"
    by (auto simp: typed_row_def)
  have "inj_on (map_prod name name) A" for A
    by (rule inj_on_subset [OF prod.inj_map [OF name_inj name_inj]]) simp
  then have "distinct (map ?key (map (typed_row name) rows))"
    unfolding keys using one_row by (simp add: distinct_map comp_inj_on)
  then have found: "List.find (\<lambda>r. ?key r = (name f, name t)) (map (typed_row name) rows) = Some r \<longleftrightarrow>
     r \<in> set (map (typed_row name) rows) \<and> ?key r = (name f, name t)"
    by (rule find_key_Some_iff)
  have "r \<in> set (map (typed_row name) rows) \<and> ?key r = (name f, name t) \<longleftrightarrow>
     (\<exists>as. (f, t, as) \<in> set rows \<and> r = typed_row name (f, t, as))"
    by (force simp: typed_row_def)
  with found show ?thesis by (simp add: find_row_def)
qed

lemma legal_iff:
  "find_row (map (typed_row name) rows) (name f) (name t) \<noteq> None \<longleftrightarrow>
     (\<exists>as. (f, t, as) \<in> set rows)"
  using find_row_typed [of f t] by auto

lemma permits_iff:
  "row_permits (map (typed_row name) rows) (actor_type_name a) (name f) (name t) \<longleftrightarrow>
     (\<exists>as. (f, t, as) \<in> set rows \<and> a \<in> set as)"
proof (cases "find_row (map (typed_row name) rows) (name f) (name t)")
  case None
  then show ?thesis using legal_iff [of f t] by (auto simp: row_permits_def)
next
  case (Some r)
  then obtain as where row: "(f, t, as) \<in> set rows" and r: "r = typed_row name (f, t, as)"
    using find_row_typed by blast
  have only: "as' = as" if "(f, t, as') \<in> set rows" for as'
  proof -
    from that have "find_row (map (typed_row name) rows) (name f) (name t) = Some (typed_row name (f, t, as'))"
      using find_row_typed by blast
    with Some r have "map actor_type_name as' = map actor_type_name as"
      by (simp add: typed_row_def)
    then show ?thesis by (simp add: inj_map_eq_map [OF inj_actor_type_name])
  qed
  have "row_permits (map (typed_row name) rows) (actor_type_name a) (name f) (name t) \<longleftrightarrow> a \<in> set as"
    using Some r inj_image_mem_iff [OF inj_actor_type_name] by (simp add: row_permits_def typed_row_def)
  then show ?thesis using row only by blast
qed

text \<open>Authority never exceeds legality, and a human has the whole lifecycle.\<close>

lemma permits_legal:
  "row_permits (map (typed_row name) rows) (actor_type_name a) (name f) (name t) \<Longrightarrow>
     find_row (map (typed_row name) rows) (name f) (name t) \<noteq> None"
  by (auto simp: row_permits_def split: option.splits)

lemma human_permits_iff_legal:
  "row_permits (map (typed_row name) rows) (actor_type_name human_user) (name f) (name t) \<longleftrightarrow>
     find_row (map (typed_row name) rows) (name f) (name t) \<noteq> None"
  by (metis permits_iff legal_iff somebody)

lemma sealed_human_only:
  "sealed t \<Longrightarrow> row_permits (map (typed_row name) rows) (actor_type_name a) (name f) (name t) \<Longrightarrow>
     a = human_user"
  using permits_iff reserved by metis

lemma permits_moves:
  "row_permits (map (typed_row name) rows) (actor_type_name a) (name f) (name t) \<Longrightarrow> f \<noteq> t"
  using permits_iff moves by metis

text \<open>The labels offered to a caller are exactly the moves it may make.\<close>

lemma available_iff:
  "name f @ '':'' @ name t \<in> set (transitionsAvailableTo a (name f) (map (typed_row name) rows)) \<longleftrightarrow>
     row_permits (map (typed_row name) rows) (actor_type_name a) (name f) (name t)"
  unfolding permits_iff
  by (force simp: transitionsAvailableTo_def row_label_def typed_row_def)

lemma available_sound:
  assumes "l \<in> set (transitionsAvailableTo a (name f) (map (typed_row name) rows))"
  shows "\<exists>t. l = name f @ '':'' @ name t \<and>
     row_permits (map (typed_row name) rows) (actor_type_name a) (name f) (name t)"
  using assms unfolding permits_iff
  by (force simp: transitionsAvailableTo_def row_label_def typed_row_def)

end

section \<open>Both tables meet the contract\<close>

text \<open>The statuses a table reserves to humans.\<close>

definition closing :: "review_status \<Rightarrow> bool" where
  "closing s \<longleftrightarrow> s \<in> {R_ACCEPTED, R_CANCELLED, R_ARCHIVED}"

interpretation review_machine: status_machine review_rows review_status_name closing
proof unfold_locales
  show "inj review_status_name" by (rule inj_review_status_name)
  show "CHR '':'' \<notin> set (review_status_name s)" for s by (cases s) simp_all
  show "distinct (map (\<lambda>(f, t, as). (f, t)) review_rows)" by code_simp
qed (auto simp: review_rows_def closing_def)

interpretation finding_machine: status_machine finding_rows finding_status_name isFinalDisposition
proof unfold_locales
  show "inj finding_status_name" by (rule inj_finding_status_name)
  show "CHR '':'' \<notin> set (finding_status_name s)" for s by (cases s) simp_all
  show "distinct (map (\<lambda>(f, t, as). (f, t)) finding_rows)" by code_simp
qed (auto simp: finding_rows_def isFinalDisposition_def FINAL_FINDING_DISPOSITIONS_def)

lemma isReviewTransitionLegal_iff:
  "isReviewTransitionLegal f t \<longleftrightarrow> (\<exists>as. (f, t, as) \<in> set review_rows)"
  by (simp add: isReviewTransitionLegal_def REVIEW_TRANSITIONS_rows review_machine.legal_iff del: not_None_eq)

lemma isFindingTransitionLegal_iff:
  "isFindingTransitionLegal f t \<longleftrightarrow> (\<exists>as. (f, t, as) \<in> set finding_rows)"
  by (simp add: isFindingTransitionLegal_def FINDING_TRANSITIONS_rows finding_machine.legal_iff del: not_None_eq)

lemma mayActorMoveReview_iff:
  "mayActorMoveReview a f t \<longleftrightarrow> (\<exists>as. (f, t, as) \<in> set review_rows \<and> a \<in> set as)"
  by (simp add: mayActorMoveReview_def REVIEW_TRANSITIONS_rows review_machine.permits_iff)

lemma mayActorMoveFinding_iff:
  "mayActorMoveFinding a f t \<longleftrightarrow> (\<exists>as. (f, t, as) \<in> set finding_rows \<and> a \<in> set as)"
  by (simp add: mayActorMoveFinding_def FINDING_TRANSITIONS_rows finding_machine.permits_iff)

lemma isFinalDisposition_iff:
  "isFinalDisposition s \<longleftrightarrow> s \<in> {F_RESOLVED, F_WONT_FIX, F_DUPLICATE}"
  by (cases s) (simp_all add: isFinalDisposition_def FINAL_FINDING_DISPOSITIONS_def)

lemma isImmutableReviewStatus_iff: "isImmutableReviewStatus s \<longleftrightarrow> closing s"
  by (cases s) (simp_all add: isImmutableReviewStatus_def IMMUTABLE_REVIEW_STATUSES_def closing_def)

lemma isActiveReviewStatus_iff:
  "isActiveReviewStatus s \<longleftrightarrow> s \<noteq> R_CANCELLED \<and> s \<noteq> R_ARCHIVED"
  by (cases s) (simp_all add: isActiveReviewStatus_def ACTIVE_REVIEW_STATUSES_def)

lemma human_moves_review_iff_legal:
  "mayActorMoveReview human_user f t \<longleftrightarrow> isReviewTransitionLegal f t"
  unfolding mayActorMoveReview_def isReviewTransitionLegal_def REVIEW_TRANSITIONS_rows
  by (rule review_machine.human_permits_iff_legal)

lemma human_moves_finding_iff_legal:
  "mayActorMoveFinding human_user f t \<longleftrightarrow> isFindingTransitionLegal f t"
  unfolding mayActorMoveFinding_def isFindingTransitionLegal_def FINDING_TRANSITIONS_rows
  by (rule finding_machine.human_permits_iff_legal)

lemma final_disposition_human_only:
  "mayActorMoveFinding a f t \<Longrightarrow> isFinalDisposition t \<Longrightarrow> a = human_user"
  unfolding mayActorMoveFinding_def FINDING_TRANSITIONS_rows
  by (rule finding_machine.sealed_human_only)

lemma closing_human_only: "mayActorMoveReview a f t \<Longrightarrow> closing t \<Longrightarrow> a = human_user"
  unfolding mayActorMoveReview_def REVIEW_TRANSITIONS_rows
  by (rule review_machine.sealed_human_only)

text \<open>Executable forms, for questions about all statuses at once.\<close>

definition rows_permit :: "('s \<times> 's \<times> actor_type list) list \<Rightarrow> actor_type \<Rightarrow> 's \<Rightarrow> 's \<Rightarrow> bool" where
  "rows_permit rows a f t = list_ex (\<lambda>(f', t', as). f' = f \<and> t' = t \<and> a \<in> set as) rows"

lemma mayActorMoveReview_rows: "mayActorMoveReview a f t = rows_permit review_rows a f t"
  unfolding mayActorMoveReview_iff rows_permit_def list_ex_iff by (auto split: prod.splits)

lemma mayActorMoveFinding_rows: "mayActorMoveFinding a f t = rows_permit finding_rows a f t"
  unfolding mayActorMoveFinding_iff rows_permit_def list_ex_iff by (auto split: prod.splits)

lemma agent_review_rows:
  "\<forall>f t. rows_permit review_rows agent_session f t =
     ((f, t) \<in> set [(R_READY, R_ASSIGNED), (R_ASSIGNED, R_IN_PROGRESS),
       (R_IN_PROGRESS, R_AWAITING_HUMAN_REVIEW), (R_CHANGES_REQUESTED, R_IN_PROGRESS)])"
  by code_simp

lemma agent_review_moves:
  "mayActorMoveReview agent_session f t \<longleftrightarrow>
     (f, t) \<in> {(R_READY, R_ASSIGNED), (R_ASSIGNED, R_IN_PROGRESS),
       (R_IN_PROGRESS, R_AWAITING_HUMAN_REVIEW), (R_CHANGES_REQUESTED, R_IN_PROGRESS)}"
  using agent_review_rows by (simp add: mayActorMoveReview_rows)

lemma agent_finding_rows:
  "\<forall>f t. rows_permit finding_rows agent_session f t =
     ((f, t) \<in> set [(F_OPEN, F_CLAIMED), (F_CLAIMED, F_IN_PROGRESS),
       (F_IN_PROGRESS, F_FIXED_UNVERIFIED), (F_IN_PROGRESS, F_BLOCKED),
       (F_FIXED_UNVERIFIED, F_AWAITING_HUMAN_REVIEW), (F_REOPENED, F_IN_PROGRESS)])"
  by code_simp

lemma agent_finding_moves:
  "mayActorMoveFinding agent_session f t \<longleftrightarrow>
     (f, t) \<in> {(F_OPEN, F_CLAIMED), (F_CLAIMED, F_IN_PROGRESS),
       (F_IN_PROGRESS, F_FIXED_UNVERIFIED), (F_IN_PROGRESS, F_BLOCKED),
       (F_FIXED_UNVERIFIED, F_AWAITING_HUMAN_REVIEW), (F_REOPENED, F_IN_PROGRESS)}"
  using agent_finding_rows by (simp add: mayActorMoveFinding_rows)

lemma machine_review_rows:
  "\<forall>r\<in>set review_rows. list_all (\<lambda>a. a = human_user \<or> a = agent_session) (snd (snd r))"
  by code_simp

lemma machine_finding_rows:
  "\<forall>r\<in>set finding_rows. list_all (\<lambda>a. a = human_user \<or> a = agent_session) (snd (snd r))"
  by code_simp

lemma machine_actors_never_move_reviews:
  "mayActorMoveReview a f t \<Longrightarrow> a = human_user \<or> a = agent_session"
  using machine_review_rows by (fastforce simp: mayActorMoveReview_iff list_all_iff)

lemma machine_actors_never_move_findings:
  "mayActorMoveFinding a f t \<Longrightarrow> a = human_user \<or> a = agent_session"
  using machine_finding_rows by (fastforce simp: mayActorMoveFinding_iff list_all_iff)

end
