(* ===== verification/Review_Domain.thy ===== *)
theory Review_Domain
  imports Api_Errors Review_Transitions
begin

text \<open>
  The review and finding rules as pure functions (\<open>apps/server/src/modules/reviews/domain.ts\<close>).
  Each \<open>assert...\<close> of the source either returns, here \<open>ok\<close>, or throws an \<open>ApiError\<close>, here
  the left injection of the refusal with its code and its details. The geometry assertion is
  in the theory Annotation_Geometry, which holds the rule it checks.
\<close>

section \<open>Who may do what, as the domain reads it from the table\<close>

definition AGENT_TRANSITION_LABELS :: "string list" where
  "AGENT_TRANSITION_LABELS = findingTransitionsFor agent_session"

definition agentTransitionsFrom :: "finding_status \<Rightarrow> string list" where
  "agentTransitionsFrom status =
     transitionsAvailableTo agent_session (finding_status_name status) FINDING_TRANSITIONS"

definition AGENT_REVIEW_STATUSES :: "string list" where
  "AGENT_REVIEW_STATUSES = reviewStatusesReachableBy agent_session"

definition isHumanActor :: "actor_type \<Rightarrow> bool" where
  "isHumanActor actorType \<longleftrightarrow> actorType = human_user"

section \<open>Versions and the claim a decision is about\<close>

definition assertExpectedVersion :: "nat \<Rightarrow> nat \<Rightarrow> api_error + unit" where
  "assertExpectedVersion current expected =
     refuse_if (current \<noteq> expected)
       (refusal VERSION_CONFLICT [D_current_version current, D_expected_version expected])"

fun assertVerificationUnderReview :: "string option \<Rightarrow> string option \<Rightarrow> api_error + unit" where
  "assertVerificationUnderReview None None = ok"
| "assertVerificationUnderReview None (Some named) =
     Inl (refusal VERSION_CONFLICT
       [D_current_verification_id None, D_expected_verification_id named])"
| "assertVerificationUnderReview (Some current) None =
     Inl (refusal EVIDENCE_REQUIRED
       [D_field ''verification_id'', D_required_evidence [''verification_id'']])"
| "assertVerificationUnderReview (Some current) (Some named) =
     refuse_if (named \<noteq> current)
       (refusal VERSION_CONFLICT
         [D_current_verification_id (Some current), D_expected_verification_id named])"

definition assertFindingTakesVerification :: "finding_status \<Rightarrow> api_error + unit" where
  "assertFindingTakesVerification status =
     refuse_if (isFinalDisposition status) (refusal POLICY_DENIED [D_field ''status''])"

definition assertDecisionReason :: "string option \<Rightarrow> api_error + unit" where
  "assertDecisionReason reason =
     refuse_if (trim (case reason of None \<Rightarrow> '''' | Some r \<Rightarrow> r) = '''')
       (refusal EVIDENCE_REQUIRED [D_field ''reason'', D_required_evidence [''reason'']])"

section \<open>Reviews\<close>

definition assertReviewTransition :: "review_status \<Rightarrow> review_status \<Rightarrow> api_error + unit" where
  "assertReviewTransition from to =
     (if from = to then ok
      else refuse_if (\<not> isReviewTransitionLegal from to) (refusal POLICY_DENIED [D_field ''status'']))"

definition assertReviewMutable ::
  "review_status \<Rightarrow> review_status option \<Rightarrow> string list \<Rightarrow> api_error + unit" where
  "assertReviewMutable status change_status change_fields =
     (if \<not> isImmutableReviewStatus status then ok
      else if change_fields = [] \<and> change_status = Some R_ARCHIVED then ok
      else if change_fields = [] \<and> status = R_ACCEPTED \<and> change_status = Some R_CHANGES_REQUESTED
      then ok
      else Inl (refusal POLICY_DENIED
        [D_field (case change_fields of [] \<Rightarrow> ''status'' | f # _ \<Rightarrow> f)]))"

definition assertActorMayMoveReview ::
  "actor_type \<Rightarrow> review_status \<Rightarrow> review_status \<Rightarrow> api_error + unit" where
  "assertActorMayMoveReview actorType from to =
     (if from = to then ok
      else if mayActorMoveReview actorType from to then ok
      else if to = R_ACCEPTED then Inl (refusal AUTHORISATION_DENIED [D_field ''status''])
      else Inl (refusal AUTHORISATION_DENIED
        [D_field ''status'',
         D_allowed_transitions
           (transitionsAvailableTo actorType (review_status_name from) REVIEW_TRANSITIONS)]))"

definition CLOSING_REVIEW_STATUSES :: "review_status list" where
  "CLOSING_REVIEW_STATUSES = [R_ACCEPTED, R_CANCELLED, R_ARCHIVED]"

definition assertActorMayCloseReview :: "actor_type \<Rightarrow> review_status \<Rightarrow> api_error + unit" where
  "assertActorMayCloseReview actorType to =
     (if to \<notin> set CLOSING_REVIEW_STATUSES then ok
      else if isHumanActor actorType then ok
      else if to = R_ACCEPTED then Inl (refusal AUTHORISATION_DENIED [D_field ''status''])
      else Inl (refusal AUTHORISATION_DENIED [D_field ''status'']))"

definition isHumanReservedStatus :: "string \<Rightarrow> bool" where
  "isHumanReservedStatus requested \<longleftrightarrow>
     requested \<in> set FINAL_FINDING_DISPOSITIONS \<or>
     requested \<in> set (map review_status_name CLOSING_REVIEW_STATUSES)"

section \<open>Findings\<close>

definition assertActorMayDispose ::
  "actor_type \<Rightarrow> finding_source \<Rightarrow> finding_status \<Rightarrow> api_error + unit" where
  "assertActorMayDispose actorType source to =
     (if \<not> isFinalDisposition to then ok
      else if isHumanActor actorType then ok
      else if actorType = agent_session \<and> source = Human
      then Inl (refusal AUTHORISATION_DENIED [D_field ''status''])
      else Inl (refusal AUTHORISATION_DENIED [D_field ''status'']))"

definition assertFindingTransition :: "finding_status \<Rightarrow> finding_status \<Rightarrow> api_error + unit" where
  "assertFindingTransition from to =
     (if from = to then ok
      else refuse_if (\<not> isFindingTransitionLegal from to) (refusal POLICY_DENIED [D_field ''status'']))"

definition assertActorMayMoveFinding ::
  "actor_type \<Rightarrow> finding_source \<Rightarrow> finding_status \<Rightarrow> finding_status \<Rightarrow> api_error + unit" where
  "assertActorMayMoveFinding actorType source from to =
     (if from = to then ok
      else if mayActorMoveFinding actorType from to then ok
      else if isHumanActor actorType then Inl (refusal POLICY_DENIED [D_field ''status''])
      else if actorType \<noteq> agent_session then Inl (refusal AUTHORISATION_DENIED [D_field ''status''])
      else if source = Human \<and> isFinalDisposition to
      then Inl (refusal AUTHORISATION_DENIED [D_field ''status''])
      else if isFinalDisposition to
      then Inl (refusal AUTHORISATION_DENIED
        [D_field ''status'', D_allowed_transitions (agentTransitionsFrom from)])
      else Inl (refusal POLICY_DENIED
        [D_field ''status'', D_allowed_transitions (agentTransitionsFrom from)]))"

text \<open>The three members of a finding the acceptance rule reads: identifier, source, status.\<close>

type_synonym finding_standing = "string \<times> finding_source \<times> finding_status"

definition outstanding :: "finding_standing list \<Rightarrow> finding_standing list" where
  "outstanding findings =
     filter (\<lambda>(i, source, status). source = Human \<and> \<not> isFinalDisposition status) findings"

definition assertReviewAcceptable :: "finding_standing list \<Rightarrow> api_error + unit" where
  "assertReviewAcceptable findings =
     (case outstanding findings of
        [] \<Rightarrow> ok
      | (i, source, status) # _ \<Rightarrow>
          Inl (refusal POLICY_DENIED
            [D_field ''findings'',
             D_reason (''finding '' @ i @ '' is '' @ finding_status_name status)]))"

section \<open>Evidence\<close>

definition assertVerificationCommitContext ::
  "string \<Rightarrow> string \<Rightarrow> string \<Rightarrow> string option \<Rightarrow> api_error + bool" where
  "assertVerificationCommitContext capturedCommit commit branch workspaceBranch =
     (if commit = capturedCommit
      then Inl (refusal EVIDENCE_REQUIRED
        [D_field ''commit'', D_required_evidence [''commit_after_the_change'']])
      else case workspaceBranch of
        None \<Rightarrow> Inr False
      | Some wb \<Rightarrow>
          (if wb \<noteq> branch then Inl (refusal EVIDENCE_REQUIRED [D_field ''branch''])
           else Inr True))"

definition assertCompletionEvidence ::
  "finding_status \<Rightarrow> string option \<Rightarrow> string list option \<Rightarrow> actor_type option \<Rightarrow> api_error + unit" where
  "assertCompletionEvidence to resolutionNote missing actorType =
     (if to = F_FIXED_UNVERIFIED
      then (case resolutionNote of
              Some note \<Rightarrow>
                (if trim note \<noteq> '''' then ok
                 else Inl (refusal EVIDENCE_REQUIRED
                   [D_required_evidence [''resolution_note'', ''after_screenshot_artefact'']]))
            | None \<Rightarrow> Inl (refusal EVIDENCE_REQUIRED
                [D_required_evidence [''resolution_note'', ''after_screenshot_artefact'']]))
      else if to \<noteq> F_AWAITING_HUMAN_REVIEW then ok
      else if actorType \<noteq> Some agent_session then ok
      else case missing of
        None \<Rightarrow> ok
      | Some ms \<Rightarrow>
          (if ms = [] then ok
           else Inl (refusal EVIDENCE_REQUIRED [D_field ''status'', D_required_evidence ms])))"

section \<open>Captured context\<close>

text \<open>
  The values a request body can carry, as far as the rules of this program look at them.
  \<open>JAbsent\<close> is \<open>undefined\<close>. A number is a finite one; \<open>JNonFinite\<close> stands for the infinities
  and for NaN, which \<open>typeof\<close> calls a number too.
\<close>

datatype json =
    JAbsent
  | JNull
  | JBool bool
  | JNumber rat
  | JNonFinite
  | JString string
  | JArray "json list"
  | JObject "(string \<times> json) list"

definition member :: "(string \<times> json) list \<Rightarrow> string \<Rightarrow> json" where
  "member obj key = (case map_of obj key of None \<Rightarrow> JAbsent | Some v \<Rightarrow> v)"

definition is_number :: "json \<Rightarrow> bool" where
  "is_number v \<longleftrightarrow> (case v of JNumber _ \<Rightarrow> True | JNonFinite \<Rightarrow> True | _ \<Rightarrow> False)"

definition REQUIRED_FINDING_CONTEXT :: "string list" where
  "REQUIRED_FINDING_CONTEXT =
     [''url'', ''viewport'', ''viewport.device_scale_factor'', ''scroll_position'',
      ''captured_commit'', ''screenshot_artefact_id'']"

text \<open>
  \<open>typeof viewport === "object" && viewport !== null\<close>, then the member: an array passes the
  type test too and has no such member.
\<close>

definition context_present :: "(string \<times> json) list \<Rightarrow> string \<Rightarrow> bool" where
  "context_present body field =
     (if field = ''viewport.device_scale_factor''
      then (case member body ''viewport'' of
              JObject v \<Rightarrow> is_number (member v ''device_scale_factor'')
            | _ \<Rightarrow> False)
      else member body field \<notin> {JAbsent, JNull, JString ''''})"

definition missingCapturedContext :: "(string \<times> json) list \<Rightarrow> string list" where
  "missingCapturedContext body =
     filter (\<lambda>field. \<not> context_present body field) REQUIRED_FINDING_CONTEXT"

definition assertCapturedContext :: "(string \<times> json) list \<Rightarrow> api_error + unit" where
  "assertCapturedContext body =
     (let missing = missingCapturedContext body in
      if missing = [] then ok
      else Inl (refusal UNSUPPORTED_CAPABILITY [D_missing_context missing]))"

section \<open>Lemmas\<close>

lemma mem_CLOSING [simp]: "s \<in> set CLOSING_REVIEW_STATUSES \<longleftrightarrow> closing s"
  by (auto simp: CLOSING_REVIEW_STATUSES_def closing_def)

lemma assertExpectedVersion_ok [result_simps]:
  "assertExpectedVersion c e = ok \<longleftrightarrow> c = e"
  by (simp add: assertExpectedVersion_def result_simps)

lemma assertVerificationUnderReview_ok [result_simps]:
  "assertVerificationUnderReview c n = ok \<longleftrightarrow> c = n"
  by (cases c; cases n) (auto simp: result_simps)

lemma assertFindingTakesVerification_ok [result_simps]:
  "assertFindingTakesVerification s = ok \<longleftrightarrow> \<not> isFinalDisposition s"
  by (simp add: assertFindingTakesVerification_def result_simps)

lemma assertDecisionReason_ok [result_simps]:
  "assertDecisionReason r = ok \<longleftrightarrow> (\<exists>t. r = Some t \<and> trim t \<noteq> [])"
  by (cases r) (simp_all add: assertDecisionReason_def result_simps trim_def)

lemma assertReviewTransition_ok [result_simps]:
  "assertReviewTransition f t = ok \<longleftrightarrow> f = t \<or> isReviewTransitionLegal f t"
  by (simp add: assertReviewTransition_def result_simps)

lemma assertReviewMutable_ok [result_simps]:
  "assertReviewMutable s st fs = ok \<longleftrightarrow>
     \<not> closing s \<or>
     fs = [] \<and> (st = Some R_ARCHIVED \<or> s = R_ACCEPTED \<and> st = Some R_CHANGES_REQUESTED)"
  by (auto simp: assertReviewMutable_def isImmutableReviewStatus_iff)

lemma assertActorMayMoveReview_ok [result_simps]:
  "assertActorMayMoveReview a f t = ok \<longleftrightarrow> f = t \<or> mayActorMoveReview a f t"
  by (auto simp: assertActorMayMoveReview_def)

lemma assertActorMayCloseReview_ok [result_simps]:
  "assertActorMayCloseReview a t = ok \<longleftrightarrow> closing t \<longrightarrow> a = human_user"
  by (auto simp: assertActorMayCloseReview_def isHumanActor_def)

lemma assertActorMayDispose_ok [result_simps]:
  "assertActorMayDispose a src t = ok \<longleftrightarrow> isFinalDisposition t \<longrightarrow> a = human_user"
  by (auto simp: assertActorMayDispose_def isHumanActor_def)

lemma assertFindingTransition_ok [result_simps]:
  "assertFindingTransition f t = ok \<longleftrightarrow> f = t \<or> isFindingTransitionLegal f t"
  by (simp add: assertFindingTransition_def result_simps)

lemma assertActorMayMoveFinding_ok [result_simps]:
  "assertActorMayMoveFinding a src f t = ok \<longleftrightarrow> f = t \<or> mayActorMoveFinding a f t"
  by (auto simp: assertActorMayMoveFinding_def)

lemma assertReviewAcceptable_ok [result_simps]:
  "assertReviewAcceptable fs = ok \<longleftrightarrow>
     (\<forall>(i, src, st) \<in> set fs. src = Human \<longrightarrow> isFinalDisposition st)"
proof -
  have "assertReviewAcceptable fs = ok \<longleftrightarrow> outstanding fs = []"
    by (auto simp: assertReviewAcceptable_def split: list.split)
  then show ?thesis
    by (auto simp: outstanding_def filter_empty_conv)
qed

lemma assertVerificationCommitContext_ok [result_simps]:
  "assertVerificationCommitContext cc c b wb = Inr cor \<longleftrightarrow>
     c \<noteq> cc \<and> (wb = None \<and> \<not> cor \<or> wb = Some b \<and> cor)"
  by (auto simp: assertVerificationCommitContext_def split: option.splits)

lemma assertCompletionEvidence_ok [result_simps]:
  "assertCompletionEvidence to note missing act = ok \<longleftrightarrow>
     (to = F_FIXED_UNVERIFIED \<longrightarrow> (\<exists>n. note = Some n \<and> trim n \<noteq> [])) \<and>
     (to = F_AWAITING_HUMAN_REVIEW \<and> act = Some agent_session \<longrightarrow> missing = None \<or> missing = Some [])"
  by (auto simp: assertCompletionEvidence_def split: option.splits)

text \<open>Which code a refusal carries.\<close>

lemma assertActorMayDispose_code:
  "assertActorMayDispose a src t = Inl e \<Longrightarrow> err_code e = AUTHORISATION_DENIED"
  by (auto simp: assertActorMayDispose_def split: if_splits)

lemma assertActorMayCloseReview_code:
  "assertActorMayCloseReview a t = Inl e \<Longrightarrow> err_code e = AUTHORISATION_DENIED"
  by (auto simp: assertActorMayCloseReview_def split: if_splits)

lemma assertFindingTransition_code:
  "assertFindingTransition f t = Inl e \<Longrightarrow> err_code e = POLICY_DENIED"
  by (auto simp: assertFindingTransition_def refuse_if_def split: if_splits)

lemma assertReviewMutable_code:
  "assertReviewMutable s st fs = Inl e \<Longrightarrow> err_code e = POLICY_DENIED"
  by (auto simp: assertReviewMutable_def split: if_splits)

end
