(* ===== verification/Completion.thy ===== *)
theory Completion
  imports Review_Transitions
begin

text \<open>
  The completion gate (\<open>apps/server/src/modules/reviews/completion.ts\<close>) and the project
  settings it reads (\<open>packages/protocol/src/project-settings.ts\<close>): what a project requires
  before work counts as done, what a verification is short of, one finding's result and the
  result of a set of findings.
\<close>

section \<open>Settings and viewports\<close>

record validation_viewport =
  vv_width :: nat
  vv_height :: nat
  vv_scale :: "rat option"

record project_settings =
  default_validation_viewports :: "validation_viewport list"

definition DEFAULT_VALIDATION_VIEWPORTS :: "validation_viewport list" where
  "DEFAULT_VALIDATION_VIEWPORTS =
     [\<lparr>vv_width = 390, vv_height = 844, vv_scale = None\<rparr>,
      \<lparr>vv_width = 1440, vv_height = 900, vv_scale = None\<rparr>]"

definition defaultProjectSettings :: project_settings where
  "defaultProjectSettings = \<lparr>default_validation_viewports = DEFAULT_VALIDATION_VIEWPORTS\<rparr>"

text \<open>\<open>normaliseViewport\<close> on a value that has the shape of a viewport.\<close>

definition normaliseViewport :: "validation_viewport \<Rightarrow> validation_viewport" where
  "normaliseViewport v = (if vv_scale v = Some 1 then v\<lparr>vv_scale := None\<rparr> else v)"

definition scale_or_1 :: "rat option \<Rightarrow> rat" where
  "scale_or_1 s = (case s of None \<Rightarrow> 1 | Some r \<Rightarrow> r)"

definition formatViewport :: "validation_viewport \<Rightarrow> string" where
  "formatViewport v =
     (let scale = scale_or_1 (vv_scale v);
          base = nat_text (vv_width v) @ ''x'' @ nat_text (vv_height v)
      in if scale = 1 then base else base @ ''@'' @ number_text scale @ ''x'')"

section \<open>Requirements and evidence\<close>

record completion_requirements =
  required_viewports :: "string list"
  console_review :: bool
  network_review :: bool
  final_screenshot :: bool
  accessibility_check :: bool

text \<open>A viewport as a capture reports it. The ratio is optional as the gate reads it.\<close>

record viewport =
  vp_width :: nat
  vp_height :: nat
  vp_scale :: "rat option"

text \<open>\<open>accessibility_checked\<close> may be absent; the other three are always present.\<close>

record verification_checks =
  reproduced_before :: bool
  console_errors_reviewed :: bool
  network_failures_reviewed :: bool
  accessibility_checked :: "bool option"

record event_actor =
  act_type :: actor_type
  act_id :: "string option"
  act_display :: "string option"

record evidence_under_review =
  ev_verification_id :: string
  ev_tested_viewports :: "viewport list"
  ev_checks :: verification_checks
  ev_after_artefact_id :: "string option"
  ev_branch_corroborated :: bool
  ev_submitted_by :: event_actor

record evidence_assurance =
  verified_by_control_plane :: "string list"
  asserted_by_agent :: "string list"
  asserted_by :: "event_actor option"

datatype completion_result =
    Completed
  | Completed_with_warnings
  | Blocked_pending_review
  | Blocked_missing_evidence

record finding_completion_state =
  st_finding_id :: string
  st_status :: finding_status
  st_result :: completion_result
  st_missing :: "string list"
  st_warnings :: "string list"
  st_verification_id :: "string option"
  st_verification_count :: nat

definition completionRequirementsFor :: "project_settings \<Rightarrow> completion_requirements" where
  "completionRequirementsFor settings =
     \<lparr>required_viewports = map formatViewport (default_validation_viewports settings),
      console_review = True, network_review = True, final_screenshot = True,
      accessibility_check = False\<rparr>"

definition viewportSatisfies :: "validation_viewport \<Rightarrow> viewport \<Rightarrow> bool" where
  "viewportSatisfies required tested =
     (if vv_width required \<noteq> vp_width tested \<or> vv_height required \<noteq> vp_height tested then False
      else if scale_or_1 (vv_scale required) = 1 then True
      else scale_or_1 (vp_scale tested) = scale_or_1 (vv_scale required))"

definition viewportRequirementLabel :: "validation_viewport \<Rightarrow> string" where
  "viewportRequirementLabel v = formatViewport v @ '' verification''"

definition covered :: "evidence_under_review \<Rightarrow> validation_viewport \<Rightarrow> bool" where
  "covered evidence required = list_ex (viewportSatisfies required) (ev_tested_viewports evidence)"

fun missingEvidence ::
  "project_settings \<Rightarrow> completion_requirements \<Rightarrow> evidence_under_review option \<Rightarrow> string list" where
  "missingEvidence settings requirements None =
     (if final_screenshot requirements then [''after screenshot''] else []) @
     map viewportRequirementLabel (default_validation_viewports settings) @
     (if console_review requirements then [''console review''] else []) @
     (if network_review requirements then [''network review''] else [])"
| "missingEvidence settings requirements (Some evidence) =
     (if final_screenshot requirements \<and> ev_after_artefact_id evidence = None
      then [''after screenshot''] else []) @
     map viewportRequirementLabel
       (filter (\<lambda>v. \<not> covered evidence v) (default_validation_viewports settings)) @
     (if console_review requirements \<and> \<not> console_errors_reviewed (ev_checks evidence)
      then [''console review''] else []) @
     (if network_review requirements \<and> \<not> network_failures_reviewed (ev_checks evidence)
      then [''network review''] else [])"

fun evidenceWarnings :: "evidence_under_review option \<Rightarrow> string list" where
  "evidenceWarnings None = []"
| "evidenceWarnings (Some evidence) =
     (if accessibility_checked (ev_checks evidence) \<noteq> Some True
      then [''accessibility not checked''] else []) @
     (if \<not> reproduced_before (ev_checks evidence) then [''defect not reproduced first''] else []) @
     (if \<not> ev_branch_corroborated evidence
      then [''branch not corroborated by a workspace''] else [])"

fun assuranceFor :: "evidence_under_review option \<Rightarrow> evidence_assurance" where
  "assuranceFor None =
     \<lparr>verified_by_control_plane = [], asserted_by_agent = [], asserted_by = None\<rparr>"
| "assuranceFor (Some evidence) =
     \<lparr>verified_by_control_plane =
        [''artefact project ownership'', ''artefact browser session lineage'',
         ''artefact upload completed'', ''artefact integrity digest'',
         ''commit differs from capture''] @
        (if ev_after_artefact_id evidence \<noteq> None then [''after screenshot present''] else []) @
        (if ev_branch_corroborated evidence then [''branch matches workspace''] else []),
      asserted_by_agent =
        (if reproduced_before (ev_checks evidence) then [''reproduced before''] else []) @
        (if console_errors_reviewed (ev_checks evidence) then [''console errors reviewed''] else []) @
        (if network_failures_reviewed (ev_checks evidence) then [''network failures reviewed''] else []) @
        (if accessibility_checked (ev_checks evidence) = Some True
         then [''accessibility checked''] else []),
      asserted_by = Some (ev_submitted_by evidence)\<rparr>"

definition HUMAN_REVIEW_NOT_REQUESTED :: string where
  "HUMAN_REVIEW_NOT_REQUESTED = ''human review not yet requested''"

definition findingCompletionState ::
  "string \<Rightarrow> finding_status \<Rightarrow> project_settings \<Rightarrow> completion_requirements \<Rightarrow>
   evidence_under_review option \<Rightarrow> nat \<Rightarrow> finding_completion_state" where
  "findingCompletionState findingId status settings requirements evidence verificationCount =
     (let missing = missingEvidence settings requirements evidence;
          warnings = evidenceWarnings evidence;
          state = (\<lambda>result missing warnings.
            \<lparr>st_finding_id = findingId, st_status = status, st_result = result,
             st_missing = missing, st_warnings = warnings,
             st_verification_id = map_option ev_verification_id evidence,
             st_verification_count = verificationCount\<rparr>)
      in if status = F_RESOLVED
         then (let resolvedWarnings =
                 (if evidence = None then warnings @ [''resolved with no verification on record'']
                  else warnings)
               in state (if resolvedWarnings = [] then Completed else Completed_with_warnings)
                    [] resolvedWarnings)
         else if status = F_WONT_FIX \<or> status = F_DUPLICATE
         then state Completed_with_warnings []
                (warnings @ [''disposed as '' @ finding_status_name status @ '' without a fix''])
         else if status = F_AWAITING_HUMAN_REVIEW \<or> status = F_BLOCKED
         then state Blocked_pending_review [] warnings
         else state Blocked_missing_evidence
                (if missing = [] then [HUMAN_REVIEW_NOT_REQUESTED] else missing) warnings)"

section \<open>A set of findings\<close>

definition aggregateCompletionResult :: "finding_completion_state list \<Rightarrow> completion_result" where
  "aggregateCompletionResult states =
     (if list_ex (\<lambda>s. st_result s = Blocked_missing_evidence) states then Blocked_missing_evidence
      else if list_ex (\<lambda>s. st_result s = Blocked_pending_review) states then Blocked_pending_review
      else if list_ex (\<lambda>s. st_result s = Completed_with_warnings) states then Completed_with_warnings
      else Completed)"

fun push_unseen :: "string set \<times> string list \<Rightarrow> string list \<Rightarrow> string set \<times> string list" where
  "push_unseen acc [] = acc"
| "push_unseen (seen, missing) (item # items) =
     (if item \<in> seen then push_unseen (seen, missing) items
      else push_unseen (insert item seen, missing @ [item]) items)"

definition aggregateMissing :: "finding_completion_state list \<Rightarrow> string list" where
  "aggregateMissing states =
     snd (foldl (\<lambda>acc state. push_unseen acc (st_missing state)) ({}, []) states)"

definition nextActions :: "completion_result \<Rightarrow> finding_completion_state list \<Rightarrow> string list" where
  "nextActions result states =
     (if result = Blocked_missing_evidence
      then (if filter (\<lambda>s. HUMAN_REVIEW_NOT_REQUESTED \<in> set (st_missing s)) states \<noteq> []
            then [''Move each verified finding to AWAITING_HUMAN_REVIEW''] else []) @
           (if filter (\<lambda>s. st_result s = Blocked_missing_evidence \<and>
                  HUMAN_REVIEW_NOT_REQUESTED \<notin> set (st_missing s)) states \<noteq> []
            then [''Capture the missing evidence and call finding_submit_verification''] else [])
      else []) @
     (if result = Blocked_pending_review
      then [''Wait for a human decision'', ''Do not retry this call as though it had failed'']
      else []) @
     (if result = Completed \<or> result = Completed_with_warnings
      then [''No further agent action is available on this review''] else [])"

section \<open>Results in order of severity\<close>

instantiation completion_result :: linorder
begin
fun severity :: "completion_result \<Rightarrow> nat" where
  "severity Completed = 0"
| "severity Completed_with_warnings = 1"
| "severity Blocked_pending_review = 2"
| "severity Blocked_missing_evidence = 3"
definition less_eq_completion_result :: "completion_result \<Rightarrow> completion_result \<Rightarrow> bool" where
  "less_eq_completion_result a b \<longleftrightarrow> severity a \<le> severity b"
definition less_completion_result :: "completion_result \<Rightarrow> completion_result \<Rightarrow> bool" where
  "less_completion_result a b \<longleftrightarrow> severity a < severity b"
instance
proof
  fix a b c :: completion_result
  show "a < b \<longleftrightarrow> a \<le> b \<and> \<not> b \<le> a"
    by (auto simp: less_eq_completion_result_def less_completion_result_def)
  show "a \<le> a"
    by (simp add: less_eq_completion_result_def)
  show "a \<le> b \<Longrightarrow> b \<le> c \<Longrightarrow> a \<le> c"
    by (simp add: less_eq_completion_result_def)
  show "a \<le> b \<Longrightarrow> b \<le> a \<Longrightarrow> a = b"
    by (cases a; cases b) (simp_all add: less_eq_completion_result_def)
  show "a \<le> b \<or> b \<le> a"
    by (auto simp: less_eq_completion_result_def)
qed
end

lemmas severity_order = less_eq_completion_result_def less_completion_result_def

section \<open>Lemmas\<close>

lemma covered_iff: "covered e v \<longleftrightarrow> (\<exists>t\<in>set (ev_tested_viewports e). viewportSatisfies v t)"
  by (simp add: covered_def list_ex_iff)

lemma viewportSatisfies_normalise:
  "viewportSatisfies (normaliseViewport v) t = viewportSatisfies v t"
  by (auto simp: viewportSatisfies_def normaliseViewport_def scale_or_1_def)

lemma formatViewport_normalise: "formatViewport (normaliseViewport v) = formatViewport v"
  by (auto simp: formatViewport_def normaliseViewport_def scale_or_1_def)

text \<open>The gate with the requirements the project configures, as one condition.\<close>

definition evidence_complete :: "project_settings \<Rightarrow> evidence_under_review \<Rightarrow> bool" where
  "evidence_complete settings e \<longleftrightarrow>
     ev_after_artefact_id e \<noteq> None \<and>
     (\<forall>v\<in>set (default_validation_viewports settings). covered e v) \<and>
     console_errors_reviewed (ev_checks e) \<and> network_failures_reviewed (ev_checks e)"

lemma missingEvidence_None_not_Nil:
  "missingEvidence settings (completionRequirementsFor settings) None \<noteq> []"
  by (simp add: completionRequirementsFor_def)

lemma missingEvidence_Some_Nil:
  "missingEvidence settings (completionRequirementsFor settings) (Some e) = [] \<longleftrightarrow>
     evidence_complete settings e"
  by (auto simp: completionRequirementsFor_def evidence_complete_def filter_empty_conv)

lemma aggregate_upper:
  "s \<in> set states \<Longrightarrow> st_result s \<le> aggregateCompletionResult states"
  by (cases "st_result s")
     (auto simp: aggregateCompletionResult_def list_ex_iff severity_order)

lemma aggregate_attained:
  "aggregateCompletionResult states = Completed \<or>
     (\<exists>s\<in>set states. st_result s = aggregateCompletionResult states)"
  by (auto simp: aggregateCompletionResult_def list_ex_iff)

lemma push_unseen_inv:
  "seen = set missing \<Longrightarrow> distinct missing \<Longrightarrow>
     push_unseen (seen, missing) items = (set missing \<union> set items, missing') \<Longrightarrow>
     distinct missing' \<and> set missing' = set missing \<union> set items"
proof (induction "(seen, missing)" items arbitrary: seen missing rule: push_unseen.induct)
  case 1
  then show ?case by simp
next
  case (2 seen missing item items)
  then show ?case by (auto split: if_splits simp: insert_absorb)
qed

end
