(* ===== verification/Events.thy ===== *)
theory Events
  imports Identifiers Review_Domain Completion
begin

text \<open>
  The append-only event log (\<open>apps/server/src/events/append.ts\<close>), the outbox that a commit
  leaves behind and its dispatcher (\<open>events/outbox.ts\<close>), and the reader that replays a
  stream (\<open>events/stream.ts\<close>).

  The database is explicit state. The record \<open>event_store\<close> holds the tables of this component
  together with the two sources the database and the platform supply: the transaction's clock
  (microseconds since the epoch) and the random draws. It is extensible: the review store adds
  its own tables to it, and every operation here works on the extension.
\<close>

section \<open>Timestamps\<close>

text \<open>
  \<open>Date.toISOString\<close> for a time after the epoch and before the year 10000, from microseconds.
  The civil date is the proleptic Gregorian one, counted in eras of 146097 days from
  0000-03-01.
\<close>

definition civil :: "nat \<Rightarrow> nat \<times> nat \<times> nat" where
  "civil days =
     (let z = days + 719468; era = z div 146097; doe = z mod 146097;
          yoe = (doe - doe div 1460 + doe div 36524 - doe div 146096) div 365;
          doy = doe - (365 * yoe + yoe div 4 - yoe div 100);
          mp = (5 * doy + 2) div 153;
          d = doy - (153 * mp + 2) div 5 + 1;
          m = (if mp < 10 then mp + 3 else mp - 9)
      in (yoe + era * 400 + (if m \<le> 2 then 1 else 0), m, d))"

definition padded :: "nat \<Rightarrow> nat \<Rightarrow> string" where
  "padded w n = (let t = nat_text n in replicate (w - length t) CHR ''0'' @ t)"

definition toISOString :: "nat \<Rightarrow> string" where
  "toISOString us =
     (let ms = us div 1000; secs = ms div 1000; (y, m, d) = civil (secs div 86400) in
      padded 4 y @ ''-'' @ padded 2 m @ ''-'' @ padded 2 d @ ''T'' @
      padded 2 (secs mod 86400 div 3600) @ '':'' @ padded 2 (secs mod 3600 div 60) @ '':'' @
      padded 2 (secs mod 60) @ ''.'' @ padded 3 (ms mod 1000) @ ''Z'')"

section \<open>Failures of a statement or a transaction\<close>

text \<open>
  What can end a unit of work: a refusal of this program, a constraint of the database by its
  name, an event payload with a credential-shaped member, or any other exception, of which
  the message is kept.
\<close>

datatype store_failure =
    Refused api_error
  | Unique_violation string
  | Check_violation string
  | EventPayloadError
  | Unhandled string

text \<open>How such a failure reaches the error hook: everything but a refusal is an unknown error.\<close>

fun thrown_failure :: "store_failure \<Rightarrow> failure" where
  "thrown_failure (Refused e) = Api e"
| "thrown_failure _ = Thrown False None"

definition lift :: "api_error + 'a \<Rightarrow> store_failure + 'a" where
  "lift m = (case m of Inl e \<Rightarrow> Inl (Refused e) | Inr a \<Rightarrow> Inr a)"

section \<open>Payloads carry no secret\<close>

definition lower_char :: "char \<Rightarrow> char" where
  "lower_char c = (if CHR ''A'' \<le> c \<and> c \<le> CHR ''Z'' then char_of (of_char c + 32 :: nat) else c)"

definition lower :: "string \<Rightarrow> string" where
  "lower s = map lower_char s"

fun starts_with :: "string \<Rightarrow> string \<Rightarrow> bool" where
  "starts_with [] s = True"
| "starts_with (p # ps) [] = False"
| "starts_with (p # ps) (c # cs) = (p = c \<and> starts_with ps cs)"

definition ends_with :: "string \<Rightarrow> string \<Rightarrow> bool" where
  "ends_with t s = starts_with (rev t) (rev s)"

fun has_infix :: "string \<Rightarrow> string \<Rightarrow> bool" where
  "has_infix t [] = starts_with t []"
| "has_infix t (c # cs) = (starts_with t (c # cs) \<or> has_infix t cs)"

definition one_line :: "string \<Rightarrow> bool" where
  "one_line s = list_all (\<lambda>c. c \<noteq> CHR 0x0A \<and> c \<noteq> CHR 0x0D) s"

text \<open>
  The alternatives of \<open>FORBIDDEN_PAYLOAD_KEYS\<close>, on the key with its case folded. The ones with
  an optional separator are spelled out, and \<open>.*(?<!id_)token\<close> is a key that ends in
  \<open>token\<close> not preceded by \<open>id_\<close>.
\<close>

definition forbidden_names :: "string list" where
  "forbidden_names =
     [''authorization'', ''authorisation'', ''cookie'',
      ''setcookie'', ''set_cookie'', ''set-cookie'',
      ''proxyauthorization'', ''proxy_authorization'', ''proxy-authorization'',
      ''passphrase'', ''privatekey'', ''private_key'', ''private-key'',
      ''credential'', ''credentials'', ''capability'', ''bearer'',
      ''apikey'', ''api_key'', ''api-key'', ''sessionkey'', ''session_key'', ''session-key'',
      ''signingkey'', ''signing_key'', ''signing-key'']"

definition FORBIDDEN_PAYLOAD_KEYS :: "string \<Rightarrow> bool" where
  "FORBIDDEN_PAYLOAD_KEYS key =
     (let k = lower key in
      k \<in> set forbidden_names \<or>
      (one_line k \<and>
        ((ends_with ''token'' k \<and> \<not> ends_with ''id_token'' k) \<or>
         has_infix ''secret'' k \<or> has_infix ''password'' k)))"

definition PERMITTED_PAYLOAD_KEYS :: "string list" where
  "PERMITTED_PAYLOAD_KEYS =
     [''credential_id'', ''capability_id'', ''token_id'', ''secret_reference_id'',
      ''api_key_id'', ''signing_key_id'', ''key_id'']"

definition key_refused :: "string \<Rightarrow> bool" where
  "key_refused key \<longleftrightarrow> key \<notin> set PERMITTED_PAYLOAD_KEYS \<and> FORBIDDEN_PAYLOAD_KEYS key"

text \<open>
  The walk of \<open>assertPayloadCarriesNoSecret\<close>: it looks into arrays and objects, and stops
  below depth twelve. \<open>carries_secret d v\<close> is whether the walk from depth \<open>d\<close> throws.
\<close>

function carries_secret :: "nat \<Rightarrow> json \<Rightarrow> bool" where
  "carries_secret depth (JArray items) \<longleftrightarrow>
     \<not> depth > 12 \<and> list_ex (\<lambda>item. carries_secret (depth + 1) item) items"
| "carries_secret depth (JObject members) \<longleftrightarrow>
     \<not> depth > 12 \<and>
     list_ex (\<lambda>entry. key_refused (fst entry) \<or> carries_secret (depth + 1) (snd entry)) members"
| "carries_secret depth JAbsent \<longleftrightarrow> False"
| "carries_secret depth JNull \<longleftrightarrow> False"
| "carries_secret depth (JBool b) \<longleftrightarrow> False"
| "carries_secret depth (JNumber n) \<longleftrightarrow> False"
| "carries_secret depth JNonFinite \<longleftrightarrow> False"
| "carries_secret depth (JString s) \<longleftrightarrow> False"
  by pat_completeness auto
termination
proof (relation "measure (\<lambda>(d, v). size v)", goal_cases)
  case (2 depth items item)
  then have "size item \<le> size_list size items" by (auto intro: size_list_estimation')
  then show ?case by simp
next
  case (3 depth members entry)
  then have "size_prod (\<lambda>_. 0) size entry \<le> size_list (size_prod (\<lambda>_. 0) size) members"
    by (auto intro: size_list_estimation')
  then show ?case by (cases entry) auto
qed simp

definition assertPayloadCarriesNoSecret :: "(string \<times> json) list \<Rightarrow> store_failure + unit" where
  "assertPayloadCarriesNoSecret value = refuse_if (carries_secret 0 (JObject value)) EventPayloadError"

definition pruneUndefined :: "(string \<times> json) list \<Rightarrow> (string \<times> json) list" where
  "pruneUndefined value = filter (\<lambda>(k, v). v \<noteq> JAbsent) value"

text \<open>\<open>...(x === undefined ? {} : { k: f(x) })\<close> in an object literal.\<close>

definition opt_member :: "string \<Rightarrow> ('a \<Rightarrow> json) \<Rightarrow> 'a option \<Rightarrow> (string \<times> json) list" where
  "opt_member k f v = (case v of None \<Rightarrow> [] | Some x \<Rightarrow> [(k, f x)])"

section \<open>The log\<close>

record event_row =
  e_id :: string
  e_schema_version :: nat
  e_stream_key :: string
  e_sequence :: nat
  e_type :: string
  e_occurred_at :: nat
  e_recorded_at :: nat
  e_organisation_id :: string
  e_project_id :: "string option"
  e_actor :: event_actor
  e_correlation :: "(string \<times> json) list"
  e_payload :: "(string \<times> json) list"

record outbox_row =
  ob_event_id :: string
  ob_stream_key :: string
  ob_sequence :: nat
  ob_dispatched_at :: "nat option"
  ob_attempts :: nat

record event_store =
  es_now :: nat
  es_random :: "nat \<Rightarrow> byte list"
  es_drawn :: nat
  es_streams :: "string \<rightharpoonup> nat"
  es_events :: "event_row list"
  es_outbox :: "outbox_row list"

record append_input =
  ai_type :: string
  ai_organisation_id :: string
  ai_project_id :: "string option"
  ai_actor :: event_actor
  ai_correlation :: "(string \<times> json) list"
  ai_payload :: "(string \<times> json) list"
  ai_occurred_at :: "nat option"
  ai_enqueue_outbox :: bool

record appended_event =
  ae_id :: string
  ae_sequence :: nat
  ae_type :: string
  ae_stream_key :: string

definition EVENT_SCHEMA_VERSION :: nat where
  "EVENT_SCHEMA_VERSION = 1"

text \<open>
  \<open>newId\<close> draws the next random bytes. The prefixes of this program all satisfy the
  identifier pattern, so the check inside \<open>newPrefixedId\<close> never throws (theory Identifiers,
  \<open>newPrefixedId_eq\<close>) and the identifier is the prefix and the suffix.
\<close>

definition newId :: "string \<Rightarrow> 'a event_store_scheme \<Rightarrow> string \<times> 'a event_store_scheme" where
  "newId prefix s =
     (prefix @ randomSuffix (es_random s (es_drawn s)), s\<lparr>es_drawn := es_drawn s + 1\<rparr>)"

definition stream_position :: "'a event_store_scheme \<Rightarrow> string \<Rightarrow> nat" where
  "stream_position s k = (case es_streams s k of None \<Rightarrow> 0 | Some n \<Rightarrow> n)"

definition input_stream :: "append_input \<Rightarrow> string" where
  "input_stream input =
     (case ai_project_id input of Some p \<Rightarrow> p | None \<Rightarrow> ai_organisation_id input)"

definition event_of :: "append_input \<Rightarrow> string \<Rightarrow> nat \<Rightarrow> nat \<Rightarrow> event_row" where
  "event_of input eid sequence now =
     \<lparr>e_id = eid, e_schema_version = EVENT_SCHEMA_VERSION, e_stream_key = input_stream input,
      e_sequence = sequence, e_type = ai_type input,
      e_occurred_at = (case ai_occurred_at input of Some t \<Rightarrow> t | None \<Rightarrow> now),
      e_recorded_at = now, e_organisation_id = ai_organisation_id input,
      e_project_id = ai_project_id input, e_actor = ai_actor input,
      e_correlation = pruneUndefined (ai_correlation input),
      e_payload = pruneUndefined (ai_payload input)\<rparr>"

definition enqueue :: "event_row \<Rightarrow> outbox_row list \<Rightarrow> outbox_row list" where
  "enqueue e outbox =
     (if e_id e \<in> set (map ob_event_id outbox) then outbox
      else outbox @ [\<lparr>ob_event_id = e_id e, ob_stream_key = e_stream_key e,
                      ob_sequence = e_sequence e, ob_dispatched_at = None, ob_attempts = 0\<rparr>])"

definition appendEvent ::
  "append_input \<Rightarrow> 'a event_store_scheme \<Rightarrow>
     store_failure + (appended_event \<times> 'a event_store_scheme)" where
  "appendEvent input s =
     r_then (assertPayloadCarriesNoSecret (ai_payload input))
     (r_then (assertPayloadCarriesNoSecret (ai_correlation input))
     (let streamKey = input_stream input;
          sequence = stream_position s streamKey + 1;
          s1 = s\<lparr>es_streams := (es_streams s)(streamKey \<mapsto> sequence)\<rparr>;
          (eid, s2) = newId ''evt_'' s1;
          e = event_of input eid sequence (es_now s2)
      in r_then (refuse_if (eid \<in> set (map e_id (es_events s2))) (Unique_violation ''events_pkey''))
         (r_then (refuse_if ((streamKey, sequence) \<in>
                     set (map (\<lambda>e. (e_stream_key e, e_sequence e)) (es_events s2)))
                   (Unique_violation ''events_stream_sequence_unique''))
         (let s3 = s2\<lparr>es_events := es_events s2 @ [e]\<rparr>;
              s4 = (if ai_enqueue_outbox input
                    then s3\<lparr>es_outbox := enqueue e (es_outbox s3)\<rparr> else s3)
          in Inr (\<lparr>ae_id = eid, ae_sequence = sequence, ae_type = ai_type input,
                   ae_stream_key = streamKey\<rparr>, s4)))))"

text \<open>The events one transaction appends, in order.\<close>

fun appendEvents ::
  "append_input list \<Rightarrow> 'a event_store_scheme \<Rightarrow> store_failure + 'a event_store_scheme" where
  "appendEvents [] s = Inr s"
| "appendEvents (i # is) s = r_bind (appendEvent i s) (\<lambda>(_, s'). appendEvents is s')"

text \<open>
  \<open>inTransaction\<close> (\<open>db/pool.ts\<close>): the work's state is kept when it returns and discarded when it
  throws.
\<close>

definition inTransaction ::
  "('s \<Rightarrow> 'e + ('a \<times> 's)) \<Rightarrow> 's \<Rightarrow> ('e + 'a) \<times> 's" where
  "inTransaction work s =
     (case work s of Inl e \<Rightarrow> (Inl e, s) | Inr (a, s') \<Rightarrow> (Inr a, s'))"

definition recordStateChange ::
  "('r \<Rightarrow> append_input) \<Rightarrow>
     ('a event_store_scheme \<Rightarrow> store_failure + ('r \<times> 'a event_store_scheme)) \<Rightarrow>
     'a event_store_scheme \<Rightarrow> (store_failure + ('r \<times> appended_event)) \<times> 'a event_store_scheme" where
  "recordStateChange event work s =
     inTransaction (\<lambda>s. r_bind (work s) (\<lambda>(result, s1).
       r_bind (appendEvent (event result) s1) (\<lambda>(appended, s2). Inr ((result, appended), s2)))) s"

section \<open>What the services share\<close>

text \<open>\<open>new Date()\<close> has milliseconds where the clock of the database has microseconds.\<close>

definition js_now :: "'a event_store_scheme \<Rightarrow> nat" where
  "js_now db = es_now db div 1000 * 1000"

definition project_event ::
  "string \<Rightarrow> string \<Rightarrow> event_actor \<Rightarrow> string \<Rightarrow> (string \<times> json) list \<Rightarrow> (string \<times> json) list \<Rightarrow> append_input" where
  "project_event org project actor type correlation payload =
     \<lparr>ai_type = type, ai_organisation_id = org, ai_project_id = Some project, ai_actor = actor,
      ai_correlation = correlation, ai_payload = payload, ai_occurred_at = None,
      ai_enqueue_outbox = True\<rparr>"

definition json_num :: "nat \<Rightarrow> json" where
  "json_num n = JNumber (of_nat n)"

definition nullable :: "string option \<Rightarrow> json" where
  "nullable v = (case v of None \<Rightarrow> JNull | Some s \<Rightarrow> JString s)"

text \<open>\<open>...(v === undefined ? {} : { name: v })\<close>.\<close>

definition opt_str :: "string \<Rightarrow> string option \<Rightarrow> (string \<times> json) list" where
  "opt_str name v = (case v of None \<Rightarrow> [] | Some s \<Rightarrow> [(name, JString s)])"

definition system_actor :: "string \<Rightarrow> event_actor" where
  "system_actor display = \<lparr>act_type = system, act_id = None, act_display = Some display\<rparr>"

section \<open>Lemmas\<close>

lemma lift_simps [simp]:
  "lift (Inl e) = Inl (Refused e)" "lift (Inr a) = Inr a" "lift ok = ok"
  by (simp_all add: lift_def ok_def del: unit_Inr_ok)

lemma lift_eq_Inr [result_simps]: "lift m = Inr a \<longleftrightarrow> m = Inr a"
  by (cases m) simp_all

lemma lift_eq_ok [result_simps]: "lift m = ok \<longleftrightarrow> m = ok"
  by (cases m rule: unit_result_cases) simp_all

lemma lift_eq_Inl [result_simps]: "lift m = Inl f \<longleftrightarrow> (\<exists>e. m = Inl e \<and> f = Refused e)"
  by (cases m) auto

lemma inTransaction_simps [simp]:
  "work s = Inl e \<Longrightarrow> inTransaction work s = (Inl e, s)"
  "work s = Inr (a, s') \<Longrightarrow> inTransaction work s = (Inr a, s')"
  by (simp_all add: inTransaction_def)

lemma inTransaction_Inr [result_simps]:
  "inTransaction work s = (Inr a, s') \<longleftrightarrow> work s = Inr (a, s')"
  by (auto simp: inTransaction_def split: sum.splits)

lemma inTransaction_Inl [result_simps]:
  "inTransaction work s = (Inl e, s') \<longleftrightarrow> work s = Inl e \<and> s' = s"
  by (auto simp: inTransaction_def split: sum.splits)

text \<open>
  What an append does to the tables: the new event has the next sequence of its stream and the
  drawn identifier, it is enqueued, and nothing outside the log moves.
\<close>

definition appended :: "append_input \<Rightarrow> 'a event_store_scheme \<Rightarrow> 'a event_store_scheme" where
  "appended input s =
     (let k = input_stream input; n = stream_position s k + 1;
          e = event_of input (fst (newId ''evt_'' s)) n (es_now s)
      in s\<lparr>es_drawn := es_drawn s + 1, es_streams := (es_streams s)(k \<mapsto> n),
           es_events := es_events s @ [e],
           es_outbox := (if ai_enqueue_outbox input then enqueue e (es_outbox s) else es_outbox s)\<rparr>)"

lemma appendEvent_Inr:
  "appendEvent input s = Inr (a, s') \<Longrightarrow> s' = appended input s"
  by (auto simp: appendEvent_def appended_def newId_def Let_def result_simps)

lemma appendEvents_append:
  "appendEvents (xs @ ys) s = r_bind (appendEvents xs s) (appendEvents ys)"
proof (induction xs arbitrary: s)
  case (Cons x xs)
  then show ?case by (cases "appendEvent x s") auto
qed simp

lemma appendEvents_Inr:
  "appendEvents is s = Inr s' \<Longrightarrow> s' = fold appended is s"
  by (induction "is" arbitrary: s) (auto simp: result_simps dest: appendEvent_Inr)

lemma appended_now [simp]: "es_now (appended i s) = es_now s"
  and appended_random [simp]: "es_random (appended i s) = es_random s"
  and appended_more [simp]: "event_store.more (appended i s) = event_store.more s"
  by (simp_all add: appended_def Let_def)

lemma appended_events:
  "es_events (appended i s) =
     es_events s @ [event_of i (fst (newId ''evt_'' s)) (stream_position s (input_stream i) + 1) (es_now s)]"
  by (simp add: appended_def Let_def)

lemma fold_appended_more [simp]: "event_store.more (fold appended is s) = event_store.more s"
  by (induction "is" arbitrary: s) simp_all

text \<open>The log after appending a list of inputs: the old events, then one event per input.\<close>

lemma fold_appended_events:
  "\<exists>new. es_events (fold appended is s) = es_events s @ new \<and>
     map (\<lambda>e. (e_type e, e_stream_key e, e_actor e, e_payload e)) new =
     map (\<lambda>i. (ai_type i, input_stream i, ai_actor i, pruneUndefined (ai_payload i))) is"
proof (induction "is" arbitrary: s)
  case (Cons i "is")
  from Cons [of "appended i s"] obtain new where
    "es_events (fold appended is (appended i s)) = es_events (appended i s) @ new"
    "map (\<lambda>e. (e_type e, e_stream_key e, e_actor e, e_payload e)) new =
     map (\<lambda>i. (ai_type i, input_stream i, ai_actor i, pruneUndefined (ai_payload i))) is"
    by blast
  then show ?case by (simp add: appended_events event_of_def)
qed simp

section \<open>The log invariant\<close>

text \<open>
  The events of one stream carry the sequences one to the stream's position, in the order they
  were appended; identifiers are unique; an event is in the stream its project or its
  organisation names; and an event that was enqueued is in the outbox under its own stream and
  sequence.
\<close>

definition stream_events :: "'a event_store_scheme \<Rightarrow> string \<Rightarrow> event_row list" where
  "stream_events s k = filter (\<lambda>e. e_stream_key e = k) (es_events s)"

definition log_ok :: "'a event_store_scheme \<Rightarrow> bool" where
  "log_ok s \<longleftrightarrow>
     (\<forall>k. map e_sequence (stream_events s k) = [1..<stream_position s k + 1]) \<and>
     distinct (map e_id (es_events s)) \<and>
     (\<forall>e \<in> set (es_events s). e_stream_key e =
        (case e_project_id e of Some p \<Rightarrow> p | None \<Rightarrow> e_organisation_id e))"

lemma stream_position_appended:
  "stream_position (appended i s) k =
     (if k = input_stream i then stream_position s k + 1 else stream_position s k)"
  by (simp add: stream_position_def appended_def Let_def)

lemma stream_events_appended:
  "map e_sequence (stream_events (appended i s) k) =
     (if k = input_stream i then map e_sequence (stream_events s k) @ [stream_position s k + 1]
      else map e_sequence (stream_events s k))"
  by (simp add: stream_events_def appended_events event_of_def)

lemma appendEvent_id_fresh:
  "appendEvent i s = Inr (a, s') \<Longrightarrow> fst (newId ''evt_'' s) \<notin> e_id ` set (es_events s)"
  by (auto simp: appendEvent_def newId_def Let_def result_simps)

lemma log_ok_appended:
  assumes "log_ok s" "fst (newId ''evt_'' s) \<notin> e_id ` set (es_events s)"
  shows "log_ok (appended i s)"
proof -
  have "map e_sequence (stream_events (appended i s) k) = [1..<stream_position (appended i s) k + 1]" for k
    using assms(1) by (simp add: log_ok_def stream_events_appended stream_position_appended)
  with assms show ?thesis
    by (auto simp: log_ok_def appended_events event_of_def input_stream_def split: option.splits)
qed

lemma log_ok_appendEvent: "log_ok s \<Longrightarrow> appendEvent i s = Inr (a, s') \<Longrightarrow> log_ok s'"
  by (metis appendEvent_Inr appendEvent_id_fresh log_ok_appended)

lemma log_ok_appendEvents: "log_ok s \<Longrightarrow> appendEvents is s = Inr s' \<Longrightarrow> log_ok s'"
  by (induction "is" arbitrary: s) (auto simp: result_simps dest: log_ok_appendEvent)

lemma log_ok_cong:
  "es_events s = es_events t \<Longrightarrow> es_streams s = es_streams t \<Longrightarrow> log_ok s \<longleftrightarrow> log_ok t"
  by (simp add: log_ok_def stream_events_def stream_position_def)

lemma log_ok_sequence_bound:
  assumes "log_ok s" "e \<in> set (es_events s)"
  shows "e_sequence e \<in> {1..stream_position s (e_stream_key e)}"
proof -
  have "e_sequence e \<in> set (map e_sequence (stream_events s (e_stream_key e)))"
    using assms(2) by (auto simp: stream_events_def)
  also have "\<dots> = {1..<stream_position s (e_stream_key e) + 1}"
    using assms(1) unfolding log_ok_def by (metis set_upt)
  finally show ?thesis by auto
qed

text \<open>On a consistent log an append can only fail for its payload or for an identifier drawn twice.\<close>

lemma appendEvent_total:
  assumes "log_ok s" "fst (newId ''evt_'' s) \<notin> e_id ` set (es_events s)"
    and "\<not> carries_secret 0 (JObject (ai_payload i))" "\<not> carries_secret 0 (JObject (ai_correlation i))"
  shows "\<exists>a. appendEvent i s = Inr (a, appended i s)"
proof -
  have "(input_stream i, stream_position s (input_stream i) + 1) \<notin>
      (\<lambda>e. (e_stream_key e, e_sequence e)) ` set (es_events s)"
    using log_ok_sequence_bound [OF assms(1)] by fastforce
  with assms(2-4) show ?thesis
    by (auto simp: appendEvent_def assertPayloadCarriesNoSecret_def refuse_if_def newId_def Let_def
        appended_def)
qed

end
