(* ===== verification/Base64url.thy ===== *)
theory Base64url
  imports Identifiers
begin

text \<open>
  \<open>Buffer.toString("base64url")\<close> and \<open>Buffer.from(text, "base64url")\<close>: the encoding without padding, and the
  decoder, which reads both alphabets and skips every other character.
\<close>

definition base64url_char :: "nat \<Rightarrow> char" where
  "base64url_char n =
     (''ABCDEFGHIJKLMNOPQRSTUVWXYZabcdefghijklmnopqrstuvwxyz0123456789-_'' ! (n mod 64))"

fun base64url :: "nat list \<Rightarrow> string" where
  "base64url (a # b # c # rest) =
     [base64url_char (a div 4), base64url_char (a mod 4 * 16 + b div 16),
      base64url_char (b mod 16 * 4 + c div 64), base64url_char (c mod 64)] @ base64url rest"
| "base64url [a, b] =
     [base64url_char (a div 4), base64url_char (a mod 4 * 16 + b div 16), base64url_char (b mod 16 * 4)]"
| "base64url [a] = [base64url_char (a div 4), base64url_char (a mod 4 * 16)]"
| "base64url [] = []"

definition base64_value :: "char \<Rightarrow> nat option" where
  "base64_value c =
     map_of (zip ''ABCDEFGHIJKLMNOPQRSTUVWXYZabcdefghijklmnopqrstuvwxyz0123456789-_+/''
       ([0..<64] @ [62, 63])) c"

fun unbase64 :: "nat list \<Rightarrow> nat list" where
  "unbase64 (w # x # y # z # rest) =
     [w * 4 + x div 16, x mod 16 * 16 + y div 4, y mod 4 * 64 + z] @ unbase64 rest"
| "unbase64 [w, x, y] = [w * 4 + x div 16, x mod 16 * 16 + y div 4]"
| "unbase64 [w, x] = [w * 4 + x div 16]"
| "unbase64 _ = []"

definition base64_decode :: "string \<Rightarrow> nat list" where
  "base64_decode s = unbase64 (List.map_filter base64_value s)"

section \<open>Decoding inverts encoding\<close>

lemma base64_chars: "list_all (\<lambda>n. base64_value (base64url_char n) = Some n \<and> base64url_char n \<noteq> CHR ''.'') [0..<64]"
  by code_simp

lemma base64url_char_less: "n < 64 \<Longrightarrow> base64_value (base64url_char n) = Some n" "n < 64 \<Longrightarrow> base64url_char n \<noteq> CHR ''.''"
  using base64_chars by (auto simp: list_all_iff)

lemma base64url_char_mod: "base64url_char (n mod 64) = base64url_char n"
  by (simp add: base64url_char_def)

lemma base64url_no_dot: "CHR ''.'' \<notin> set (base64url bs)"
proof -
  have "base64url_char n \<noteq> CHR ''.''" for n
    using base64url_char_less(2) [of "n mod 64"] base64url_char_mod [of n] by simp
  then show ?thesis by (induction bs rule: base64url.induct) (auto dest: sym)
qed

lemma length_base64url: "length (base64url bs) = (4 * length bs + 2) div 3"
  by (induction bs rule: base64url.induct) simp_all

lemma sextets:
  fixes a b c :: nat
  assumes "a < 256" "b < 256" "c < 256"
  shows "a div 4 < 64" "a mod 4 * 16 + b div 16 < 64" "b mod 16 * 4 + c div 64 < 64" "b mod 16 * 4 < 64" "a mod 4 * 16 < 64"
    and "a div 4 * 4 + (a mod 4 * 16 + b div 16) div 16 = a"
    and "(a mod 4 * 16 + b div 16) mod 16 * 16 + (b mod 16 * 4 + c div 64) div 4 = b"
    and "(b mod 16 * 4 + c div 64) mod 4 * 64 + c mod 64 = c"
    and "a div 4 * 4 + (a mod 4 * 16) div 16 = a"
    and "(a mod 4 * 16 + b div 16) mod 16 * 16 + (b mod 16 * 4) div 4 = b"
proof -
  have parts: "a mod 4 < 4" "b div 16 < 16" "b mod 16 < 16" "c div 64 < 4" using assms by simp_all
  show "a div 4 < 64" using assms by simp
  show "a mod 4 * 16 + b div 16 < 64" "b mod 16 * 4 + c div 64 < 64" "b mod 16 * 4 < 64" "a mod 4 * 16 < 64"
    using parts by linarith+
  have quotients: "(a mod 4 * 16 + b div 16) div 16 = a mod 4" "(a mod 4 * 16 + b div 16) mod 16 = b div 16"
    "(b mod 16 * 4 + c div 64) div 4 = b mod 16" "(b mod 16 * 4 + c div 64) mod 4 = c div 64"
    using parts by simp_all
  then show "a div 4 * 4 + (a mod 4 * 16 + b div 16) div 16 = a"
    "(a mod 4 * 16 + b div 16) mod 16 * 16 + (b mod 16 * 4 + c div 64) div 4 = b"
    "(b mod 16 * 4 + c div 64) mod 4 * 64 + c mod 64 = c"
    "(a mod 4 * 16 + b div 16) mod 16 * 16 + (b mod 16 * 4) div 4 = b" by simp_all
  show "a div 4 * 4 + (a mod 4 * 16) div 16 = a" by simp
qed

lemma base64_round_trip:
  "list_all (\<lambda>b. b < 256) bs \<Longrightarrow> base64_decode (base64url bs) = bs"
proof (induction bs rule: base64url.induct)
  case (1 a b c rest)
  then show ?case
    using sextets [of a b c] base64url_char_less(1)
    by (simp add: base64_decode_def List.map_filter_simps)
next
  case (2 a b)
  then show ?case
    using sextets [of a b 0] base64url_char_less(1)
    by (simp add: base64_decode_def List.map_filter_simps)
next
  case (3 a)
  then show ?case
    using sextets [of a 0 0] base64url_char_less(1)
    by (simp add: base64_decode_def List.map_filter_simps)
qed (simp add: base64_decode_def List.map_filter_simps)

end
