(* ===== verification/Connector_Store.thy ===== *)
theory Connector_Store
  imports Events Base64url
begin

text \<open>
  The tables of connectors, their environments, enrolment tokens, workspaces and agent credentials (\<open>migrations 0003\<close>,
  \<open>0050\<close>, \<open>0051\<close>, \<open>0080\<close>, \<open>0081\<close>, \<open>0141\<close>), and the statements of \<open>modules/connectors/repository.ts\<close> on them.
  Organisations, users and projects are the columns these statements read.

  A connector is a program on a developer's machine. It enrols once with a token, is then known by the fingerprint of the
  certificate it was given, and moves between the statuses of its lifecycle until it is revoked. Times are
  microseconds since the epoch, as the database keeps them.
\<close>

section \<open>Rows\<close>

datatype connector_status = Con_pending | Con_active | Con_degraded | Con_disconnected | Con_revoked

fun connector_status_name :: "connector_status \<Rightarrow> string" where
  "connector_status_name Con_pending = ''PENDING_ENROLMENT''"
| "connector_status_name Con_active = ''ACTIVE''"
| "connector_status_name Con_degraded = ''DEGRADED''"
| "connector_status_name Con_disconnected = ''DISCONNECTED''"
| "connector_status_name Con_revoked = ''REVOKED''"

record connector_record =
  co_id :: string
  co_organisation_id :: string
  co_environment_id :: string
  co_project_id :: "string option"
  co_enrolment_token_id :: "string option"
  co_certificate_fingerprint :: string
  co_certificate_serial :: string
  co_certificate_not_after :: nat
  co_public_key :: string
  co_version :: string
  co_capabilities :: "string list"
  co_status :: connector_status
  co_connected_at :: "nat option"
  co_last_heartbeat_at :: "nat option"
  co_revoked_at :: "nat option"
  co_created_at :: nat

record enrolment_token =
  et_id :: string
  et_organisation_id :: string
  et_project_id :: "string option"
  et_token_hash :: string
  et_environment_labels :: "string list"
  et_max_uses :: nat
  et_uses :: nat
  et_expires_at :: nat
  et_created_by :: string
  et_consumed_at :: "nat option"
  et_revoked_at :: "nat option"

record environment_record =
  ev_id :: string
  ev_organisation_id :: string
  ev_project_id :: "string option"
  ev_name :: string
  ev_platform :: string
  ev_architecture :: string
  ev_labels :: "string list"
  ev_trust_level :: string
  ev_status :: string
  ev_last_seen_at :: "nat option"
  ev_created_at :: nat

datatype workspace_source = Connector_report | Administrative_registration

text \<open>A workspace is a checkout of a project. One that a connector reported has an environment and no path.\<close>

record workspace_record =
  wo_id :: string
  wo_organisation_id :: string
  wo_project_id :: string
  wo_environment_id :: "string option"
  wo_connector_id :: "string option"
  wo_root_path :: "string option"
  wo_path_hash :: string
  wo_display_path :: string
  wo_repository_identity :: "string option"
  wo_branch :: string
  wo_head_commit :: string
  wo_dirty :: bool
  wo_source :: workspace_source
  wo_last_observed_at :: "nat option"

record credential_row =
  gc_id :: string
  gc_token_sha256 :: string
  gc_organisation_id :: string
  gc_project_ids :: "string list"
  gc_capabilities :: "string list"
  gc_label :: string
  gc_issued_to_client :: "string option"
  gc_created_at :: nat
  gc_expires_at :: nat
  gc_last_used_at :: "nat option"
  gc_revoked_at :: "nat option"

record organisation_row =
  og_id :: string
  og_name :: string
  og_slug :: string
  og_created_at :: nat

record user_row =
  us_id :: string
  us_organisation_id :: string
  us_created_at :: nat

record project_ref =
  pj_id :: string
  pj_organisation_id :: string
  pj_slug :: string
  pj_status :: string

record connector_db = event_store +
  cd_tokens :: "enrolment_token list"
  cd_environments :: "environment_record list"
  cd_connectors :: "connector_record list"
  cd_workspaces :: "workspace_record list"
  cd_credentials :: "credential_row list"
  cd_organisations :: "organisation_row list"
  cd_users :: "user_row list"
  cd_projects :: "project_ref list"

type_synonym 'a connector_act = "connector_db \<Rightarrow> (store_failure + 'a) \<times> connector_db"

section \<open>Constraints\<close>

definition store_tokens :: "enrolment_token list \<Rightarrow> connector_db \<Rightarrow> store_failure + connector_db" where
  "store_tokens rows db =
     r_then (refuse_if (\<not> distinct (map et_id rows)) (Unique_violation ''connector_enrolment_tokens_pkey''))
     (r_then (refuse_if (\<not> distinct (map et_token_hash rows)) (Unique_violation ''connector_enrolment_tokens_token_hash_key''))
     (r_then (refuse_if (\<not> list_all (\<lambda>t. 1 \<le> et_max_uses t) rows) (Check_violation ''connector_enrolment_tokens_max_uses_positive''))
     (r_then (refuse_if (\<not> list_all (\<lambda>t. et_uses t \<le> et_max_uses t) rows) (Check_violation ''connector_enrolment_tokens_uses_bounded''))
     (Inr (db\<lparr>cd_tokens := rows\<rparr>)))))"

definition store_environments :: "environment_record list \<Rightarrow> connector_db \<Rightarrow> store_failure + connector_db" where
  "store_environments rows db =
     r_then (refuse_if (\<not> distinct (map ev_id rows)) (Unique_violation ''environments_pkey''))
     (Inr (db\<lparr>cd_environments := rows\<rparr>))"

definition store_connectors :: "connector_record list \<Rightarrow> connector_db \<Rightarrow> store_failure + connector_db" where
  "store_connectors rows db =
     r_then (refuse_if (\<not> distinct (map co_id rows)) (Unique_violation ''connectors_pkey''))
     (r_then (refuse_if (\<not> distinct (map co_certificate_fingerprint rows))
       (Unique_violation ''connectors_certificate_fingerprint_key''))
     (r_then (refuse_if (\<not> list_all (\<lambda>c. co_environment_id c \<in> set (map ev_id (cd_environments db))) rows)
       (Check_violation ''connectors_environment_id_fkey''))
     (r_then (refuse_if (\<not> list_all (\<lambda>c. case co_enrolment_token_id c of None \<Rightarrow> True
         | Some t \<Rightarrow> t \<in> set (map et_id (cd_tokens db))) rows) (Check_violation ''connectors_enrolment_token_id_fkey''))
     (Inr (db\<lparr>cd_connectors := rows\<rparr>)))))"

section \<open>The organisation the module acts for\<close>

text \<open>\<open>id.toLowerCase().replaceAll(/[^a-z0-9-]/gu, "-")\<close>.\<close>

definition slug_of :: "string \<Rightarrow> string" where
  "slug_of s = map (\<lambda>c. if (CHR ''a'' \<le> c \<and> c \<le> CHR ''z'') \<or> (CHR ''0'' \<le> c \<and> c \<le> CHR ''9'') \<or> c = CHR ''-'' then c else CHR ''-'')
     (lower s)"

definition ensureOrganisation :: "string \<Rightarrow> string \<Rightarrow> connector_db \<Rightarrow> store_failure + connector_db" where
  "ensureOrganisation oid name db =
     (if oid \<in> set (map og_id (cd_organisations db)) then Inr db
      else r_then (refuse_if (slug_of oid \<in> set (map og_slug (cd_organisations db))) (Unique_violation ''organisations_slug_key''))
        (Inr (db\<lparr>cd_organisations := cd_organisations db @
           [\<lparr>og_id = oid, og_name = name, og_slug = slug_of oid, og_created_at = es_now db\<rparr>]\<rparr>)))"

definition resolveOrganisation :: "string \<Rightarrow> string \<Rightarrow> bool \<Rightarrow> connector_db \<Rightarrow> store_failure + (string \<times> connector_db)" where
  "resolveOrganisation oid name explicit db =
     (if explicit then r_bind (ensureOrganisation oid name db) (\<lambda>db'. Inr (oid, db'))
      else (case filter (\<lambda>u. us_organisation_id u \<in> set (map og_id (cd_organisations db)))
                (sort_key (\<lambda>u. (us_created_at u, us_id u)) (cd_users db)) of
          u # _ \<Rightarrow> Inr (us_organisation_id u, db)
        | [] \<Rightarrow>
            (case sort_key (\<lambda>g. (og_created_at g, og_id g)) (cd_organisations db) of
               g # _ \<Rightarrow> Inr (og_id g, db)
             | [] \<Rightarrow> r_bind (ensureOrganisation oid name db) (\<lambda>db'. Inr (oid, db')))))"

section \<open>Statements on tokens\<close>

record create_token_input =
  ti_id :: string
  ti_organisationId :: string
  ti_projectId :: "string option"
  ti_tokenHash :: string
  ti_environmentLabels :: "string list"
  ti_maxUses :: nat
  ti_expiresAt :: nat
  ti_createdBy :: string

definition token_row :: "create_token_input \<Rightarrow> enrolment_token" where
  "token_row i =
     \<lparr>et_id = ti_id i, et_organisation_id = ti_organisationId i, et_project_id = ti_projectId i, et_token_hash = ti_tokenHash i,
      et_environment_labels = ti_environmentLabels i, et_max_uses = ti_maxUses i, et_uses = 0, et_expires_at = ti_expiresAt i,
      et_created_by = ti_createdBy i, et_consumed_at = None, et_revoked_at = None\<rparr>"

definition createEnrolmentToken :: "create_token_input \<Rightarrow> connector_db \<Rightarrow> store_failure + (enrolment_token \<times> connector_db)" where
  "createEnrolmentToken i db =
     r_bind (store_tokens (cd_tokens db @ [token_row i]) db) (\<lambda>db'. Inr (token_row i, db'))"

definition lockEnrolmentTokenByHash :: "string \<Rightarrow> connector_db \<Rightarrow> enrolment_token option" where
  "lockEnrolmentTokenByHash h db = List.find (\<lambda>t. et_token_hash t = h) (cd_tokens db)"

definition consumed_token :: "nat \<Rightarrow> enrolment_token \<Rightarrow> enrolment_token" where
  "consumed_token now t =
     t\<lparr>et_uses := et_uses t + 1,
       et_consumed_at := (if et_uses t + 1 \<ge> et_max_uses t then Some now else et_consumed_at t)\<rparr>"

definition consumeEnrolmentToken :: "string \<Rightarrow> connector_db \<Rightarrow> store_failure + connector_db" where
  "consumeEnrolmentToken tid db =
     store_tokens (update_where (\<lambda>t. et_id t = tid) (consumed_token (es_now db)) (cd_tokens db)) db"

definition findEnrolmentTokenById :: "string \<Rightarrow> connector_db \<Rightarrow> enrolment_token option" where
  "findEnrolmentTokenById tid db = List.find (\<lambda>t. et_id t = tid) (cd_tokens db)"

section \<open>Statements on environments and connectors\<close>

record create_environment_input =
  ne_id :: string
  ne_organisationId :: string
  ne_projectId :: "string option"
  ne_name :: string
  ne_platform :: string
  ne_architecture :: string
  ne_labels :: "string list"

definition environment_row_of :: "create_environment_input \<Rightarrow> nat \<Rightarrow> environment_record" where
  "environment_row_of i now =
     \<lparr>ev_id = ne_id i, ev_organisation_id = ne_organisationId i, ev_project_id = ne_projectId i, ev_name = ne_name i,
      ev_platform = ne_platform i, ev_architecture = ne_architecture i, ev_labels = ne_labels i, ev_trust_level = ''standard'',
      ev_status = ''ACTIVE'', ev_last_seen_at = Some now, ev_created_at = now\<rparr>"

definition insertEnvironment :: "create_environment_input \<Rightarrow> connector_db \<Rightarrow> store_failure + connector_db" where
  "insertEnvironment i db = store_environments (cd_environments db @ [environment_row_of i (es_now db)]) db"

record create_connector_input =
  nc_id :: string
  nc_organisationId :: string
  nc_environmentId :: string
  nc_projectId :: "string option"
  nc_enrolmentTokenId :: string
  nc_certificateFingerprint :: string
  nc_certificateSerial :: string
  nc_certificateNotAfter :: nat
  nc_publicKey :: string
  nc_version :: string
  nc_capabilities :: "string list"

definition connector_row_of :: "create_connector_input \<Rightarrow> nat \<Rightarrow> connector_record" where
  "connector_row_of i now =
     \<lparr>co_id = nc_id i, co_organisation_id = nc_organisationId i, co_environment_id = nc_environmentId i,
      co_project_id = nc_projectId i, co_enrolment_token_id = Some (nc_enrolmentTokenId i),
      co_certificate_fingerprint = nc_certificateFingerprint i, co_certificate_serial = nc_certificateSerial i,
      co_certificate_not_after = nc_certificateNotAfter i, co_public_key = nc_publicKey i, co_version = nc_version i,
      co_capabilities = nc_capabilities i, co_status = Con_pending, co_connected_at = None, co_last_heartbeat_at = None,
      co_revoked_at = None, co_created_at = now\<rparr>"

definition insertConnector :: "create_connector_input \<Rightarrow> connector_db \<Rightarrow> store_failure + connector_db" where
  "insertConnector i db = store_connectors (cd_connectors db @ [connector_row_of i (es_now db)]) db"

definition findConnectorByFingerprint :: "string \<Rightarrow> connector_db \<Rightarrow> connector_record option" where
  "findConnectorByFingerprint fp db = List.find (\<lambda>c. co_certificate_fingerprint c = fp) (cd_connectors db)"

text \<open>\<open>$3::text[] is null or project_id = any($3)\<close>: a row without a project is in no list.\<close>

definition project_in :: "string list option \<Rightarrow> string option \<Rightarrow> bool" where
  "project_in scope project \<longleftrightarrow>
     (case scope of None \<Rightarrow> True | Some ids \<Rightarrow> (case project of None \<Rightarrow> False | Some p \<Rightarrow> p \<in> set ids))"

definition findConnectorInScope :: "string \<Rightarrow> string \<Rightarrow> string list option \<Rightarrow> connector_db \<Rightarrow> connector_record option" where
  "findConnectorInScope cid organisationId projectIds db =
     List.find (\<lambda>c. co_id c = cid \<and> co_organisation_id c = organisationId \<and> project_in projectIds (co_project_id c)) (cd_connectors db)"

definition findConnectorById :: "string \<Rightarrow> connector_db \<Rightarrow> connector_record option" where
  "findConnectorById cid db = List.find (\<lambda>c. co_id c = cid) (cd_connectors db)"

definition listConnectors :: "string \<Rightarrow> string list option \<Rightarrow> connector_db \<Rightarrow> connector_record list" where
  "listConnectors organisationId projectIds db =
     rev (sort_key co_created_at
       (filter (\<lambda>c. co_organisation_id c = organisationId \<and> project_in projectIds (co_project_id c)) (cd_connectors db)))"

definition listConnectorsForEnvironments :: "string list \<Rightarrow> connector_db \<Rightarrow> connector_record list" where
  "listConnectorsForEnvironments ids db =
     rev (sort_key co_created_at (filter (\<lambda>c. co_environment_id c \<in> set ids) (cd_connectors db)))"

definition listEnvironmentsForProject :: "string \<Rightarrow> string \<Rightarrow> connector_db \<Rightarrow> environment_record list" where
  "listEnvironmentsForProject organisationId projectId db =
     take 200 (rev (sort_key ev_created_at
       (filter (\<lambda>e. ev_organisation_id e = organisationId \<and> (ev_project_id e = None \<or> ev_project_id e = Some projectId))
         (cd_environments db))))"

definition findEnvironmentInScope :: "string \<Rightarrow> string \<Rightarrow> string list option \<Rightarrow> connector_db \<Rightarrow> environment_record option" where
  "findEnvironmentInScope eid organisationId projectIds db =
     List.find (\<lambda>e. ev_id e = eid \<and> ev_organisation_id e = organisationId \<and>
       (ev_project_id e = None \<or> project_in projectIds (ev_project_id e))) (cd_environments db)"

section \<open>The lifecycle of a connector\<close>

definition con_actor :: "string \<Rightarrow> event_actor" where
  "con_actor cid = \<lparr>act_type = connector, act_id = Some cid, act_display = None\<rparr>"

definition connector_event ::
  "string \<Rightarrow> string option \<Rightarrow> event_actor \<Rightarrow> string \<Rightarrow> (string \<times> json) list \<Rightarrow> (string \<times> json) list \<Rightarrow> append_input" where
  "connector_event org project actor type correlation payload =
     \<lparr>ai_type = type, ai_organisation_id = org, ai_project_id = project, ai_actor = actor, ai_correlation = correlation,
      ai_payload = payload, ai_occurred_at = None, ai_enqueue_outbox = True\<rparr>"

record transition_input_c =
  tr_connectorId :: string
  tr_from :: "connector_status list"
  tr_to :: connector_status
  tr_eventType :: string
  tr_touchConnectedAt :: bool
  tr_touchRevokedAt :: bool
  tr_actor :: "event_actor option"
  tr_payload :: "(string \<times> json) list"

definition moved_connector :: "transition_input_c \<Rightarrow> nat \<Rightarrow> connector_record \<Rightarrow> connector_record" where
  "moved_connector i now c =
     c\<lparr>co_status := tr_to i, co_connected_at := (if tr_touchConnectedAt i then Some now else co_connected_at c),
       co_revoked_at := (if tr_touchRevokedAt i then Some now else co_revoked_at c)\<rparr>"

definition transition_event :: "transition_input_c \<Rightarrow> connector_record \<Rightarrow> append_input" where
  "transition_event i c =
     connector_event (co_organisation_id c) (co_project_id c)
       (case tr_actor i of Some a \<Rightarrow> a | None \<Rightarrow> con_actor (co_id c)) (tr_eventType i)
       [(''connector_id'', JString (co_id c)), (''environment_id'', JString (co_environment_id c))]
       ([(''previous_status'', JString (connector_status_name (co_status c))),
         (''new_status'', JString (connector_status_name (tr_to i)))] @ tr_payload i)"

text \<open>The row as it was before the update names the previous status; a connector outside \<open>from\<close> is left alone.\<close>

definition transition_connector_work :: "transition_input_c \<Rightarrow> connector_db \<Rightarrow> store_failure + (appended_event option \<times> connector_db)" where
  "transition_connector_work i db =
     (let p = (\<lambda>c. co_id c = tr_connectorId i \<and> co_status c \<in> set (tr_from i)) in
      case List.find p (cd_connectors db) of
        None \<Rightarrow> Inr (None, db)
      | Some c \<Rightarrow>
          r_bind (appendEvent (transition_event i c)
            (db\<lparr>cd_connectors := update_where p (moved_connector i (es_now db)) (cd_connectors db)\<rparr>)) (\<lambda>(e, db').
          Inr (Some e, db')))"

definition transitionConnector :: "transition_input_c \<Rightarrow> appended_event option connector_act" where
  "transitionConnector i = inTransaction (transition_connector_work i)"

definition heartbeat_rows :: "string \<Rightarrow> connector_db \<Rightarrow> connector_db" where
  "heartbeat_rows cid db =
     db\<lparr>cd_connectors := update_where (\<lambda>c. co_id c = cid \<and> co_status c \<noteq> Con_revoked)
         (\<lambda>c. c\<lparr>co_last_heartbeat_at := Some (es_now db)\<rparr>) (cd_connectors db)\<rparr>"

definition seen_rows :: "string \<Rightarrow> connector_db \<Rightarrow> connector_db" where
  "seen_rows cid db =
     db\<lparr>cd_environments := update_where (\<lambda>e. list_ex (\<lambda>c. co_id c = cid \<and> co_environment_id c = ev_id e) (cd_connectors db))
         (\<lambda>e. e\<lparr>ev_last_seen_at := Some (es_now db)\<rparr>) (cd_environments db)\<rparr>"

definition recordConnectorHeartbeat :: "string \<Rightarrow> connector_db \<Rightarrow> connector_db" where
  "recordConnectorHeartbeat cid db = seen_rows cid (heartbeat_rows cid db)"

text \<open>\<open>coalesce(last_heartbeat_at, connected_at, created_at) < now() - interval\<close>; the interval is in microseconds.\<close>

definition last_heard :: "connector_record \<Rightarrow> nat" where
  "last_heard c =
     (case co_last_heartbeat_at c of Some t \<Rightarrow> t
      | None \<Rightarrow> (case co_connected_at c of Some t \<Rightarrow> t | None \<Rightarrow> co_created_at c))"

definition findStaleConnectors :: "connector_status list \<Rightarrow> nat \<Rightarrow> connector_db \<Rightarrow> connector_record list" where
  "findStaleConnectors statuses olderThanSeconds db =
     filter (\<lambda>c. co_status c \<in> set statuses \<and> last_heard c + olderThanSeconds * 1000000 < es_now db) (cd_connectors db)"

definition LIVE_STATUSES :: "connector_status list" where
  "LIVE_STATUSES = [Con_pending, Con_active, Con_degraded, Con_disconnected]"

definition revocation_payload :: "nat \<Rightarrow> nat \<Rightarrow> nat \<Rightarrow> nat \<Rightarrow> (string \<times> json) list" where
  "revocation_payload routes sessions channels credentials =
     [(''routes_revoked'', json_num routes), (''sessions_disconnected'', json_num sessions),
      (''channels_closed'', json_num channels), (''agent_credentials_revoked'', json_num credentials)]"

definition revocation_transition :: "string \<Rightarrow> event_actor \<Rightarrow> (string \<times> json) list \<Rightarrow> transition_input_c" where
  "revocation_transition cid actor payload =
     \<lparr>tr_connectorId = cid, tr_from = LIVE_STATUSES, tr_to = Con_revoked, tr_eventType = ''connector.revoked'',
      tr_touchConnectedAt = False, tr_touchRevokedAt = True, tr_actor = Some actor, tr_payload = payload\<rparr>"

definition revokeConnector :: "string \<Rightarrow> event_actor \<Rightarrow> appended_event option connector_act" where
  "revokeConnector cid actor = transitionConnector (revocation_transition cid actor (revocation_payload 0 0 0 0))"

section \<open>Lemmas\<close>

lemma store_tokens_Inr [result_simps]:
  "store_tokens rows db = Inr db' \<longleftrightarrow> db' = db\<lparr>cd_tokens := rows\<rparr> \<and> distinct (map et_id rows) \<and>
     distinct (map et_token_hash rows) \<and> list_all (\<lambda>t. 1 \<le> et_max_uses t) rows \<and> list_all (\<lambda>t. et_uses t \<le> et_max_uses t) rows"
  by (auto simp: store_tokens_def result_simps)

lemma store_environments_Inr [result_simps]:
  "store_environments rows db = Inr db' \<longleftrightarrow> db' = db\<lparr>cd_environments := rows\<rparr> \<and> distinct (map ev_id rows)"
  by (auto simp: store_environments_def result_simps)

lemma store_connectors_Inr [result_simps]:
  "store_connectors rows db = Inr db' \<longleftrightarrow> db' = db\<lparr>cd_connectors := rows\<rparr> \<and> distinct (map co_id rows) \<and>
     distinct (map co_certificate_fingerprint rows) \<and>
     list_all (\<lambda>c. co_environment_id c \<in> set (map ev_id (cd_environments db))) rows \<and>
     list_all (\<lambda>c. case co_enrolment_token_id c of None \<Rightarrow> True | Some t \<Rightarrow> t \<in> set (map et_id (cd_tokens db))) rows"
  by (auto simp: store_connectors_def result_simps)

lemma appended_connector_tables [simp]:
  "cd_tokens (appended i db) = cd_tokens db" "cd_environments (appended i db) = cd_environments db"
  "cd_connectors (appended i db) = cd_connectors db" "cd_workspaces (appended i db) = cd_workspaces db"
  "cd_credentials (appended i db) = cd_credentials db" "cd_organisations (appended i db) = cd_organisations db"
  "cd_users (appended i db) = cd_users db" "cd_projects (appended i db) = cd_projects db"
  by (simp_all add: appended_def Let_def)

lemma transition_connector_Inr:
  assumes "transition_connector_work i db = Inr (r, db')"
  obtains "r = None" "db' = db" "\<forall>c \<in> set (cd_connectors db). co_id c = tr_connectorId i \<longrightarrow> co_status c \<notin> set (tr_from i)"
  | c e where "r = Some e" "c \<in> set (cd_connectors db)" "co_id c = tr_connectorId i" "co_status c \<in> set (tr_from i)"
      "db' = appended (transition_event i c) (db\<lparr>cd_connectors := update_where
         (\<lambda>c. co_id c = tr_connectorId i \<and> co_status c \<in> set (tr_from i)) (moved_connector i (es_now db)) (cd_connectors db)\<rparr>)"
proof (cases "List.find (\<lambda>c. co_id c = tr_connectorId i \<and> co_status c \<in> set (tr_from i)) (cd_connectors db)")
  case None
  with assms have "r = None" "db' = db" by (simp_all add: transition_connector_work_def)
  with None that(1) show ?thesis by (auto simp: find_None_iff)
next
  case (Some c)
  with assms obtain e where "r = Some e"
    "appendEvent (transition_event i c) (db\<lparr>cd_connectors := update_where
         (\<lambda>c. co_id c = tr_connectorId i \<and> co_status c \<in> set (tr_from i)) (moved_connector i (es_now db)) (cd_connectors db)\<rparr>) = Inr (e, db')"
    by (auto simp: transition_connector_work_def result_simps)
  with find_Some_in [OF Some] that(2) show ?thesis by (blast dest: appendEvent_Inr)
qed

end
