(* ===== verification/Connector_Enrolment.thy ===== *)
theory Connector_Enrolment
  imports Connector_Store
begin

text \<open>
  Enrolment of a connector: the identifiers and secrets (\<open>modules/connectors/identifiers.ts\<close>), the administrator's request for a
  token (\<open>routes.ts\<close>), and the exchange of the token and a public key for a device identity (\<open>enrolment.ts\<close>). The digest and
  the writer of certificates are arguments; the encoded reply frame is left out, its message identifier is kept.
\<close>

section \<open>Identifiers and secrets\<close>

definition randomBody :: "nat \<Rightarrow> connector_db \<Rightarrow> string \<times> connector_db" where
  "randomBody n db =
     (base64url (map unat (take n (es_random db (es_drawn db)))), db\<lparr>es_drawn := es_drawn db + 1\<rparr>)"

definition prefixed_body :: "string \<Rightarrow> connector_db \<Rightarrow> string \<times> connector_db" where
  "prefixed_body prefix db = (let (body, db') = randomBody 16 db in (prefix @ body, db'))"

definition newConnectorId :: "connector_db \<Rightarrow> string \<times> connector_db" where
  "newConnectorId = prefixed_body ''con_''"

definition newEnvironmentId :: "connector_db \<Rightarrow> string \<times> connector_db" where
  "newEnvironmentId = prefixed_body ''env_''"

definition newEnrolmentTokenId :: "connector_db \<Rightarrow> string \<times> connector_db" where
  "newEnrolmentTokenId = prefixed_body ''ent_''"

definition newMessageId :: "connector_db \<Rightarrow> string \<times> connector_db" where
  "newMessageId = prefixed_body ''msg_''"

definition newEnrolmentToken :: "connector_db \<Rightarrow> string \<times> connector_db" where
  "newEnrolmentToken = randomBody 32"

section \<open>The request for a token\<close>

definition MAX_USES_LIMIT :: nat where "MAX_USES_LIMIT = 32"
definition MIN_TTL_SECONDS :: nat where "MIN_TTL_SECONDS = 60"
definition MAX_TTL_SECONDS :: nat where "MAX_TTL_SECONDS = 604800"
definition MAX_LABELS :: nat where "MAX_LABELS = 16"

definition label_first :: "char \<Rightarrow> bool" where
  "label_first c \<longleftrightarrow> (CHR ''a'' \<le> c \<and> c \<le> CHR ''z'') \<or> (CHR ''0'' \<le> c \<and> c \<le> CHR ''9'')"

definition LABEL_PATTERN :: "string \<Rightarrow> bool" where
  "LABEL_PATTERN s =
     (case s of [] \<Rightarrow> False
      | c # cs \<Rightarrow> label_first c \<and> list_all (\<lambda>d. label_first d \<or> d \<in> {CHR ''.'', CHR ''_'', CHR ''-''}) cs)"

definition validation_failed :: store_failure where
  "validation_failed = Refused (ApiError VALIDATION_FAILED None None None)"

fun read_label :: "json \<Rightarrow> store_failure + string" where
  "read_label (JString s) = (if LABEL_PATTERN s then Inr s else Inl validation_failed)"
| "read_label _ = Inl validation_failed"

fun read_label_list :: "json list \<Rightarrow> store_failure + string list" where
  "read_label_list [] = Inr []"
| "read_label_list (v # vs) = r_bind (read_label v) (\<lambda>s. r_bind (read_label_list vs) (\<lambda>ss. Inr (s # ss)))"

definition readLabels :: "json \<Rightarrow> store_failure + string list" where
  "readLabels value =
     (case value of
        JAbsent \<Rightarrow> Inr []
      | JNull \<Rightarrow> Inr []
      | JArray items \<Rightarrow>
          r_then (refuse_if (length items > MAX_LABELS) validation_failed)
          (r_bind (read_label_list items) (\<lambda>labels.
           r_then (refuse_if (\<not> distinct labels) validation_failed) (Inr labels)))
      | _ \<Rightarrow> Inl validation_failed)"

definition readBoundedInteger :: "json \<Rightarrow> nat \<Rightarrow> nat \<Rightarrow> nat \<Rightarrow> store_failure + nat" where
  "readBoundedInteger value fallback minimum maximum =
     (case value of
        JAbsent \<Rightarrow> Inr fallback
      | JNull \<Rightarrow> Inr fallback
      | JNumber r \<Rightarrow>
          if r = of_int \<lfloor>r\<rfloor> \<and> of_nat minimum \<le> r \<and> r \<le> of_nat maximum then Inr (nat \<lfloor>r\<rfloor>) else Inl validation_failed
      | _ \<Rightarrow> Inl validation_failed)"

text \<open>A person who administers the organisation, as the guard of the routes leaves it: no project scope.\<close>

record admin_principal =
  ap_userId :: "string option"
  ap_organisationId :: "string option"
  ap_credential :: string

record connector_config =
  cc_organisationId :: string
  cc_publicUrl :: string
  cc_dataUrl :: string
  cc_identityTtlDays :: nat
  cc_defaultTokenTtlSeconds :: nat
  cc_heartbeatIntervalSeconds :: nat
  cc_degradedAfterSeconds :: nat
  cc_disconnectedAfterSeconds :: nat

record issued_certificate =
  ic_der :: "nat list"
  ic_fingerprint :: string
  ic_serial :: string
  ic_not_after :: nat

record enrol_peers =
  ep_sha256hex :: "string \<Rightarrow> string"
  ep_issue :: "string \<Rightarrow> nat list \<Rightarrow> nat \<Rightarrow> nat \<Rightarrow> store_failure + issued_certificate"

definition hashEnrolmentToken :: "enrol_peers \<Rightarrow> string \<Rightarrow> string" where
  "hashEnrolmentToken peers token = ep_sha256hex peers token"

definition admin_project :: "admin_principal \<Rightarrow> string \<Rightarrow> connector_db \<Rightarrow> store_failure + project_ref" where
  "admin_project caller pid db =
     (case List.find (\<lambda>p. pj_id p = pid \<and>
         (case ap_organisationId caller of None \<Rightarrow> True | Some g \<Rightarrow> pj_organisation_id p = g)) (cd_projects db) of
        None \<Rightarrow> Inl (Refused (notFound ''The project''))
      | Some p \<Rightarrow> Inr p)"

text \<open>The project and the organisation of the token: those of the named project, else the caller's organisation.\<close>

definition token_scope :: "connector_config \<Rightarrow> admin_principal \<Rightarrow> json \<Rightarrow> connector_db \<Rightarrow> store_failure + (string option \<times> string)" where
  "token_scope config caller pid db =
     (let own = (case ap_organisationId caller of Some g \<Rightarrow> g | None \<Rightarrow> cc_organisationId config) in
      case pid of
        JAbsent \<Rightarrow> Inr (None, own)
      | JNull \<Rightarrow> Inr (None, own)
      | JString s \<Rightarrow> r_bind (admin_project caller s db) (\<lambda>p. Inr (Some (pj_id p), pj_organisation_id p))
      | _ \<Rightarrow> Inl validation_failed)"

definition issue_token ::
  "enrol_peers \<Rightarrow> connector_config \<Rightarrow> admin_principal \<Rightarrow> (string \<times> json) list \<Rightarrow> (string \<times> enrolment_token) connector_act" where
  "issue_token peers config caller body db =
     (case r_bind (token_scope config caller (member body ''project_id'') db) (\<lambda>(projectId, organisationId).
           r_bind (readBoundedInteger (member body ''max_uses'') 1 1 MAX_USES_LIMIT) (\<lambda>maxUses.
           r_bind (readBoundedInteger (member body ''expires_in_seconds'') (cc_defaultTokenTtlSeconds config)
               MIN_TTL_SECONDS MAX_TTL_SECONDS) (\<lambda>ttlSeconds.
           r_bind (readLabels (member body ''environment_labels'')) (\<lambda>labels.
           let (token, db1) = newEnrolmentToken db; (tid, db2) = newEnrolmentTokenId db1 in
           r_bind (createEnrolmentToken
             \<lparr>ti_id = tid, ti_organisationId = organisationId, ti_projectId = projectId,
              ti_tokenHash = hashEnrolmentToken peers token, ti_environmentLabels = labels, ti_maxUses = maxUses,
              ti_expiresAt = js_now db2 + ttlSeconds * 1000000,
              ti_createdBy = (case ap_userId caller of Some u \<Rightarrow> u | None \<Rightarrow> ap_credential caller)\<rparr> db2) (\<lambda>(row, db3).
           Inr ((token, row), db3)))))) of
        Inl e \<Rightarrow> (Inl e, db)
      | Inr (r, db') \<Rightarrow> (Inr r, db'))"

section \<open>The exchange\<close>

datatype refusal_class = ENROLMENT_TOKEN_INVALID | PROTOCOL_UNSUPPORTED_class

datatype enrol_failure = EnrolmentRefused refusal_class string | Enrol_thrown store_failure

definition enrol_step :: "store_failure + 'a \<Rightarrow> enrol_failure + 'a" where
  "enrol_step m = (case m of Inl e \<Rightarrow> Inl (Enrol_thrown e) | Inr a \<Rightarrow> Inr a)"

record registration_request =
  rr_enrolment_token :: string
  rr_public_key :: string
  rr_environment_name :: string
  rr_platform :: string
  rr_architecture :: string
  rr_labels :: "string list option"
  rr_version :: string
  rr_capabilities :: "string list"

record registration_response =
  rs_connector_id :: string
  rs_certificate :: "nat list"
  rs_certificate_fingerprint :: string
  rs_expires_at :: string
  rs_control_url :: string
  rs_data_url :: string
  rs_policy_digest :: string

record enrolment_outcome =
  eo_connectorId :: string
  eo_environmentId :: string
  eo_certificateFingerprint :: string
  eo_response :: registration_response
  eo_message_id :: string

definition rfc3339 :: "nat \<Rightarrow> string" where
  "rfc3339 t = take 19 (toISOString t) @ ''Z''"

definition identityExpiry :: "connector_config \<Rightarrow> nat \<Rightarrow> nat" where
  "identityExpiry config now = (now + cc_identityTtlDays config * 86400000000) div 1000000 * 1000000"

definition decodePublicKey :: "string \<Rightarrow> enrol_failure + nat list" where
  "decodePublicKey base64 =
     (let der = base64_decode base64 in
      r_then (refuse_if (der = []) (EnrolmentRefused PROTOCOL_UNSUPPORTED_class ''no public key'')) (Inr der))"

definition declared_labels :: "registration_request \<Rightarrow> string list" where
  "declared_labels request = (case rr_labels request of None \<Rightarrow> [] | Some ls \<Rightarrow> ls)"

definition token_refused :: "string \<Rightarrow> enrol_failure" where
  "token_refused reason = EnrolmentRefused ENROLMENT_TOKEN_INVALID reason"

definition token_checks ::
  "connector_config \<Rightarrow> registration_request \<Rightarrow> nat \<Rightarrow> enrolment_token option \<Rightarrow> enrol_failure + enrolment_token" where
  "token_checks config request now found =
     (case found of
        None \<Rightarrow> Inl (token_refused ''unknown'')
      | Some t \<Rightarrow>
          r_then (refuse_if (et_revoked_at t \<noteq> None) (token_refused ''revoked''))
          (r_then (refuse_if (et_expires_at t div 1000 \<le> now div 1000) (token_refused ''expired''))
          (r_then (refuse_if (et_uses t \<ge> et_max_uses t) (token_refused ''consumed''))
          (r_then (refuse_if (et_organisation_id t \<noteq> cc_organisationId config) (token_refused ''organisation''))
          (r_then (refuse_if (filter (\<lambda>l. l \<notin> set (declared_labels request)) (et_environment_labels t) \<noteq> [])
            (token_refused ''labels''))
          (Inr t))))))"

definition enrolled_event ::
  "registration_request \<Rightarrow> enrolment_token \<Rightarrow> string \<Rightarrow> string \<Rightarrow> issued_certificate \<Rightarrow> nat \<Rightarrow> string \<Rightarrow> append_input" where
  "enrolled_event request t cid eid certificate notAfter requestId =
     connector_event (et_organisation_id t) (et_project_id t) (con_actor cid) ''connector.enrolled''
       [(''request_id'', JString requestId), (''connector_id'', JString cid), (''environment_id'', JString eid)]
       [(''new_status'', JString ''PENDING_ENROLMENT''), (''environment_id'', JString eid),
        (''environment_name'', JString (rr_environment_name request)), (''platform'', JString (rr_platform request)),
        (''architecture'', JString (rr_architecture request)), (''connector_version'', JString (rr_version request)),
        (''capabilities'', JArray (map JString (rr_capabilities request))),
        (''certificate_fingerprint'', JString (ic_fingerprint certificate)),
        (''identity_expires_at'', JString (toISOString notAfter)), (''enrolment_token_id'', JString (et_id t))]"

definition emptyPolicyDigest :: "enrol_peers \<Rightarrow> string" where
  "emptyPolicyDigest peers = ''sha256:'' @ ep_sha256hex peers ''{}''"

definition CONTROL_PATH :: string where
  "CONTROL_PATH = ''/connector/v1/control''"

definition new_environment :: "registration_request \<Rightarrow> enrolment_token \<Rightarrow> string \<Rightarrow> create_environment_input" where
  "new_environment request t eid =
     \<lparr>ne_id = eid, ne_organisationId = et_organisation_id t, ne_projectId = et_project_id t,
      ne_name = rr_environment_name request, ne_platform = rr_platform request, ne_architecture = rr_architecture request,
      ne_labels = declared_labels request\<rparr>"

definition new_connector ::
  "registration_request \<Rightarrow> enrolment_token \<Rightarrow> string \<Rightarrow> string \<Rightarrow> issued_certificate \<Rightarrow> create_connector_input" where
  "new_connector request t cid eid certificate =
     \<lparr>nc_id = cid, nc_organisationId = et_organisation_id t, nc_environmentId = eid, nc_projectId = et_project_id t,
      nc_enrolmentTokenId = et_id t, nc_certificateFingerprint = ic_fingerprint certificate,
      nc_certificateSerial = ic_serial certificate, nc_certificateNotAfter = ic_not_after certificate,
      nc_publicKey = rr_public_key request, nc_version = rr_version request, nc_capabilities = rr_capabilities request\<rparr>"

definition enrol_work ::
  "enrol_peers \<Rightarrow> connector_config \<Rightarrow> registration_request \<Rightarrow> nat list \<Rightarrow> string \<Rightarrow> connector_db \<Rightarrow>
     enrol_failure + (enrolment_outcome \<times> connector_db)" where
  "enrol_work peers config request key requestId db =
     r_bind (token_checks config request (es_now db)
       (lockEnrolmentTokenByHash (hashEnrolmentToken peers (rr_enrolment_token request)) db)) (\<lambda>t.
     r_bind (enrol_step (consumeEnrolmentToken (et_id t) db)) (\<lambda>db1.
     let (cid, db2) = newConnectorId db1; (eid, db3) = newEnvironmentId db2;
         notAfter = identityExpiry config (js_now db) in
     r_bind (enrol_step (ep_issue peers cid key notAfter (js_now db))) (\<lambda>certificate.
     r_bind (enrol_step (insertEnvironment (new_environment request t eid) db3)) (\<lambda>db4.
     r_bind (enrol_step (insertConnector (new_connector request t cid eid certificate) db4)) (\<lambda>db5.
     r_bind (enrol_step (appendEvent (enrolled_event request t cid eid certificate notAfter requestId) db5)) (\<lambda>(_, db6).
     let (mid, db7) = newMessageId db6 in
     Inr (\<lparr>eo_connectorId = cid, eo_environmentId = eid, eo_certificateFingerprint = ic_fingerprint certificate,
           eo_response = \<lparr>rs_connector_id = cid, rs_certificate = ic_der certificate,
             rs_certificate_fingerprint = ic_fingerprint certificate, rs_expires_at = rfc3339 notAfter,
             rs_control_url = cc_publicUrl config @ CONTROL_PATH, rs_data_url = cc_dataUrl config,
             rs_policy_digest = emptyPolicyDigest peers\<rparr>,
           eo_message_id = mid\<rparr>, db7)))))))"

definition enrol ::
  "enrol_peers \<Rightarrow> connector_config \<Rightarrow> registration_request \<Rightarrow> string \<Rightarrow> connector_db \<Rightarrow>
     (enrol_failure + enrolment_outcome) \<times> connector_db" where
  "enrol peers config request requestId db =
     (case decodePublicKey (rr_public_key request) of
        Inl e \<Rightarrow> (Inl e, db)
      | Inr key \<Rightarrow> inTransaction (enrol_work peers config request key requestId) db)"

section \<open>Lemmas\<close>

lemma enrol_step_Inr [result_simps]: "enrol_step m = Inr a \<longleftrightarrow> m = Inr a"
  by (cases m) (simp_all add: enrol_step_def)

lemma token_checks_Inr [result_simps]:
  "token_checks config request now found = Inr t \<longleftrightarrow>
     found = Some t \<and> et_revoked_at t = None \<and> now div 1000 < et_expires_at t div 1000 \<and> et_uses t < et_max_uses t \<and>
     et_organisation_id t = cc_organisationId config \<and> set (et_environment_labels t) \<subseteq> set (declared_labels request)"
  by (cases found) (auto simp: token_checks_def result_simps filter_empty_conv not_le)

lemma drawn_id:
  "prefixed_body p db = (x, db') \<Longrightarrow> db' = db\<lparr>es_drawn := es_drawn db + 1\<rparr>"
  "randomBody n db = (x, db') \<Longrightarrow> db' = db\<lparr>es_drawn := es_drawn db + 1\<rparr>"
  by (auto simp: prefixed_body_def randomBody_def)

lemmas new_connector_ids = newConnectorId_def newEnvironmentId_def newEnrolmentTokenId_def newMessageId_def newEnrolmentToken_def

text \<open>What a served enrolment writes.\<close>

lemma enrol_work_Inr:
  assumes "enrol_work peers config request key requestId db = Inr (out, db')"
  obtains t certificate where
    "lockEnrolmentTokenByHash (hashEnrolmentToken peers (rr_enrolment_token request)) db = Some t"
    "token_checks config request (es_now db) (Some t) = Inr t"
    "ep_issue peers (eo_connectorId out) key (identityExpiry config (js_now db)) (js_now db) = Inr certificate"
    "eo_certificateFingerprint out = ic_fingerprint certificate"
    "cd_tokens db' = update_where (\<lambda>u. et_id u = et_id t) (consumed_token (es_now db)) (cd_tokens db)"
    "distinct (map et_id (cd_tokens db'))" "distinct (map et_token_hash (cd_tokens db'))"
    "list_all (\<lambda>u. et_uses u \<le> et_max_uses u) (cd_tokens db')"
    "cd_environments db' = cd_environments db @ [environment_row_of (new_environment request t (eo_environmentId out)) (es_now db)]"
    "distinct (map ev_id (cd_environments db'))"
    "cd_connectors db' = cd_connectors db @
       [connector_row_of (new_connector request t (eo_connectorId out) (eo_environmentId out) certificate) (es_now db)]"
    "distinct (map co_id (cd_connectors db'))" "distinct (map co_certificate_fingerprint (cd_connectors db'))"
    "cd_workspaces db' = cd_workspaces db" "cd_credentials db' = cd_credentials db" "cd_projects db' = cd_projects db"
    "es_now db' = es_now db"
    "\<exists>e. es_events db' = es_events db @ [e] \<and> e_type e = ''connector.enrolled'' \<and> e_organisation_id e = et_organisation_id t \<and>
       e_project_id e = et_project_id t \<and> e_actor e = con_actor (eo_connectorId out)"
proof -
  from assms obtain t db1 where
    t: "token_checks config request (es_now db)
       (lockEnrolmentTokenByHash (hashEnrolmentToken peers (rr_enrolment_token request)) db) = Inr t"
    and one: "consumeEnrolmentToken (et_id t) db = Inr db1"
    by (auto simp: enrol_work_def r_bind_eq_Inr enrol_step_Inr)
  obtain cid db2 where two: "newConnectorId db1 = (cid, db2)" by fastforce
  obtain eid db3 where three: "newEnvironmentId db2 = (eid, db3)" by fastforce
  from assms t one two three obtain certificate db4 db5 a db6 where
    cert: "ep_issue peers cid key (identityExpiry config (js_now db)) (js_now db) = Inr certificate"
    and four: "insertEnvironment (new_environment request t eid) db3 = Inr db4"
    and five: "insertConnector (new_connector request t cid eid certificate) db4 = Inr db5"
    and six: "appendEvent (enrolled_event request t cid eid certificate (identityExpiry config (js_now db)) requestId) db5 = Inr (a, db6)"
    and out: "eo_connectorId out = cid" "eo_environmentId out = eid" "eo_certificateFingerprint out = ic_fingerprint certificate"
    and seven: "db' = snd (newMessageId db6)"
    by (auto simp: enrol_work_def r_bind_eq_Inr enrol_step_Inr Let_def case_prod_beta)
  have d1: "db1 = db\<lparr>cd_tokens := update_where (\<lambda>u. et_id u = et_id t) (consumed_token (es_now db)) (cd_tokens db)\<rparr>"
    and inv1: "distinct (map et_id (cd_tokens db1))" "distinct (map et_token_hash (cd_tokens db1))"
      "list_all (\<lambda>u. et_uses u \<le> et_max_uses u) (cd_tokens db1)"
    using one by (auto simp: consumeEnrolmentToken_def store_tokens_Inr)
  have d3: "db3 = db1\<lparr>es_drawn := es_drawn db1 + 2\<rparr>"
    using two three by (auto simp: new_connector_ids dest!: drawn_id)
  have d4: "db4 = db3\<lparr>cd_environments := cd_environments db3 @ [environment_row_of (new_environment request t eid) (es_now db3)]\<rparr>"
    and inv4: "distinct (map ev_id (cd_environments db4))"
    using four by (auto simp: insertEnvironment_def store_environments_Inr)
  have d5: "db5 = db4\<lparr>cd_connectors := cd_connectors db4 @
      [connector_row_of (new_connector request t cid eid certificate) (es_now db4)]\<rparr>"
    and inv5: "distinct (map co_id (cd_connectors db5))" "distinct (map co_certificate_fingerprint (cd_connectors db5))"
    using five by (auto simp: insertConnector_def store_connectors_Inr)
  have d6: "db6 = appended (enrolled_event request t cid eid certificate (identityExpiry config (js_now db)) requestId) db5"
    using appendEvent_Inr [OF six] .
  have d7: "db' = db6\<lparr>es_drawn := es_drawn db6 + 1\<rparr>"
    unfolding seven by (simp add: new_connector_ids prefixed_body_def randomBody_def)
  have found: "lockEnrolmentTokenByHash (hashEnrolmentToken peers (rr_enrolment_token request)) db = Some t"
    using t by (simp add: token_checks_Inr)
  show ?thesis
    by (rule that [of t certificate])
      (use t found cert out inv1 inv4 inv5 in \<open>simp_all add: d7 d6 d5 d4 d3 d1 appended_events event_of_def enrolled_event_def connector_event_def\<close>)
qed

end
