(* ===== verification/Agent_Credentials.thy ===== *)
theory Agent_Credentials
  imports Connector_Enrolment
begin

text \<open>
  Credentials of agents (\<open>modules/agents/credentials.ts\<close>) and the exchange by which a connector obtains one for the checkout an
  agent works in (\<open>modules/connectors/agent-credentials.ts\<close>). The digest of tokens is an argument. The reply's list of
  pending work is left out.
\<close>

section \<open>The store\<close>

definition AGENT_TOKEN_PREFIX :: string where
  "AGENT_TOKEN_PREFIX = ''rpa_''"

definition AGENT_CAPABILITIES :: "string list" where
  "AGENT_CAPABILITIES =
     [''project:read'', ''review:read'', ''review:write'', ''finding:read'', ''finding:write'', ''verification:submit'',
      ''browser:capture'', ''service:publish'', ''browser:control'']"

definition AGENT_CREDENTIAL_TTL_SECONDS :: rat where
  "AGENT_CREDENTIAL_TTL_SECONDS = 3600"

definition AGENT_CREDENTIAL_MAX_TTL_SECONDS :: rat where
  "AGENT_CREDENTIAL_MAX_TTL_SECONDS = 24 * 60 * 60"

definition credential_row_ok :: "credential_row \<Rightarrow> bool" where
  "credential_row_ok g \<longleftrightarrow> gc_project_ids g \<noteq> [] \<and> gc_capabilities g \<noteq> [] \<and>
     set (gc_capabilities g) \<subseteq> set AGENT_CAPABILITIES \<and> gc_expires_at g > gc_created_at g \<and>
     gc_expires_at g \<le> gc_created_at g + 86400000000"

definition store_credentials :: "credential_row list \<Rightarrow> connector_db \<Rightarrow> store_failure + connector_db" where
  "store_credentials rows db =
     r_then (refuse_if (\<not> distinct (map gc_id rows)) (Unique_violation ''agent_credentials_pkey''))
     (r_then (refuse_if (\<not> distinct (map gc_token_sha256 rows)) (Unique_violation ''agent_credentials_token_sha256_key''))
     (r_then (refuse_if (\<not> list_all credential_row_ok rows) (Check_violation ''agent_credentials_check''))
     (Inr (db\<lparr>cd_credentials := rows\<rparr>))))"

record issue_input =
  is_organisationId :: string
  is_projectIds :: "string list"
  is_capabilities :: "string list"
  is_label :: string
  is_issuedToClient :: "string option"
  is_ttlSeconds :: "rat option"

record issued_credential =
  id_id :: string
  id_token :: string
  id_organisationId :: string
  id_projectIds :: "string list"
  id_capabilities :: "string list"
  id_label :: string
  id_expiresAt :: nat

definition issue_ttl :: "issue_input \<Rightarrow> rat" where
  "issue_ttl i = (case is_ttlSeconds i of Some t \<Rightarrow> t | None \<Rightarrow> AGENT_CREDENTIAL_TTL_SECONDS)"

definition field_refused :: "error_code \<Rightarrow> string \<Rightarrow> store_failure" where
  "field_refused code field = Refused (refusal code [D_field field])"

definition issue_checks :: "issue_input \<Rightarrow> connector_db \<Rightarrow> store_failure + unit" where
  "issue_checks i db =
     r_then (refuse_if (is_projectIds i = []) (field_refused UNSUPPORTED_CAPABILITY ''project_ids''))
     (r_then (refuse_if (is_capabilities i = []) (field_refused UNSUPPORTED_CAPABILITY ''capabilities''))
     (r_then (refuse_if (\<not> list_all (\<lambda>c. c \<in> set AGENT_CAPABILITIES) (is_capabilities i))
       (field_refused UNSUPPORTED_CAPABILITY ''capabilities''))
     (r_then (refuse_if (issue_ttl i < 1 \<or> issue_ttl i > AGENT_CREDENTIAL_MAX_TTL_SECONDS) (field_refused POLICY_DENIED ''ttl_seconds''))
     (refuse_if (length (filter (\<lambda>p. pj_id p \<in> set (is_projectIds i) \<and> pj_organisation_id p = is_organisationId i) (cd_projects db)) \<noteq>
         length (is_projectIds i)) (field_refused PROJECT_CONTEXT_MISMATCH ''project_ids'')))))"

text \<open>\<open>new Date(Date.now() + ttl * 1000)\<close>, in microseconds: a date has whole milliseconds.\<close>

definition credential_expiry :: "nat \<Rightarrow> rat \<Rightarrow> nat" where
  "credential_expiry now ttl = nat \<lfloor>of_nat (now div 1000) + ttl * 1000\<rfloor> * 1000"

definition issued_row :: "(string \<Rightarrow> string) \<Rightarrow> issue_input \<Rightarrow> string \<Rightarrow> string \<Rightarrow> nat \<Rightarrow> credential_row" where
  "issued_row digest i cid token now =
     \<lparr>gc_id = cid, gc_token_sha256 = digest token, gc_organisation_id = is_organisationId i, gc_project_ids = is_projectIds i,
      gc_capabilities = is_capabilities i, gc_label = is_label i, gc_issued_to_client = is_issuedToClient i, gc_created_at = now,
      gc_expires_at = credential_expiry now (issue_ttl i), gc_last_used_at = None, gc_revoked_at = None\<rparr>"

definition issue_insert ::
  "(string \<Rightarrow> string) \<Rightarrow> issue_input \<Rightarrow> connector_db \<Rightarrow> store_failure + (issued_credential \<times> connector_db)" where
  "issue_insert digest i db =
     (let (body, db1) = randomBody 32 db; (cid, db2) = newId ''agc_'' db1; token = AGENT_TOKEN_PREFIX @ body;
          row = issued_row digest i cid token (es_now db2) in
      r_bind (store_credentials (cd_credentials db2 @ [row]) db2) (\<lambda>db3.
      Inr (\<lparr>id_id = cid, id_token = token, id_organisationId = is_organisationId i, id_projectIds = is_projectIds i,
            id_capabilities = is_capabilities i, id_label = is_label i, id_expiresAt = gc_expires_at row\<rparr>, db3)))"

definition issue :: "(string \<Rightarrow> string) \<Rightarrow> issue_input \<Rightarrow> issued_credential connector_act" where
  "issue digest i db =
     (case r_then (issue_checks i db) (issue_insert digest i db) of
        Inl e \<Rightarrow> (Inl e, db)
      | Inr (r, db') \<Rightarrow> (Inr r, db'))"

definition looksLikeAgentToken :: "string \<Rightarrow> bool" where
  "looksLikeAgentToken token = starts_with AGENT_TOKEN_PREFIX token"

definition credential_live :: "nat \<Rightarrow> credential_row \<Rightarrow> bool" where
  "credential_live now g \<longleftrightarrow> gc_revoked_at g = None \<and> gc_expires_at g > now"

definition live_by_digest :: "string \<Rightarrow> connector_db \<Rightarrow> credential_row option" where
  "live_by_digest presented db =
     List.find (\<lambda>g. gc_token_sha256 g = presented \<and> credential_live (es_now db) g) (cd_credentials db)"

definition used_rows :: "string \<Rightarrow> connector_db \<Rightarrow> connector_db" where
  "used_rows gid db =
     db\<lparr>cd_credentials := update_where (\<lambda>g. gc_id g = gid) (\<lambda>g. g\<lparr>gc_last_used_at := Some (es_now db)\<rparr>) (cd_credentials db)\<rparr>"

definition resolve_credential :: "(string \<Rightarrow> string) \<Rightarrow> string option \<Rightarrow> connector_db \<Rightarrow> credential_row option \<times> connector_db" where
  "resolve_credential digest token db =
     (case token of
        None \<Rightarrow> (None, db)
      | Some t \<Rightarrow>
          if t = [] \<or> \<not> looksLikeAgentToken t then (None, db)
          else (case live_by_digest (digest t) db of
                  None \<Rightarrow> (None, db)
                | Some g \<Rightarrow> (Some g, used_rows (gc_id g) db)))"

definition revoke_where :: "(credential_row \<Rightarrow> bool) \<Rightarrow> connector_db \<Rightarrow> credential_row list \<times> connector_db" where
  "revoke_where p db =
     (filter p (cd_credentials db),
      db\<lparr>cd_credentials := update_where p (\<lambda>g. g\<lparr>gc_revoked_at := Some (es_now db)\<rparr>) (cd_credentials db)\<rparr>)"

definition revoke_credential :: "string \<Rightarrow> connector_db \<Rightarrow> credential_row option \<times> connector_db" where
  "revoke_credential gid db =
     (case revoke_where (\<lambda>g. gc_id g = gid \<and> gc_revoked_at g = None) db of
        ([], db') \<Rightarrow> (None, db')
      | (g # _, db') \<Rightarrow> (Some g, db'))"

definition revokeIssuedToClient :: "string \<Rightarrow> connector_db \<Rightarrow> credential_row list \<times> connector_db" where
  "revokeIssuedToClient client db =
     revoke_where (\<lambda>g. gc_issued_to_client g = Some client \<and> credential_live (es_now db) g) db"

definition expireNow :: "string \<Rightarrow> connector_db \<Rightarrow> connector_db" where
  "expireNow gid db =
     db\<lparr>cd_credentials := update_where (\<lambda>g. gc_id g = gid)
         (\<lambda>g. g\<lparr>gc_created_at := es_now db - 2000000, gc_expires_at := es_now db - 1000000\<rparr>) (cd_credentials db)\<rparr>"

section \<open>The exchange\<close>

definition BRIDGE_CREDENTIAL_TTL_SECONDS :: rat where
  "BRIDGE_CREDENTIAL_TTL_SECONDS = 3600"

definition BRIDGE_CAPABILITIES :: "string list" where
  "BRIDGE_CAPABILITIES =
     [''project:read'', ''review:read'', ''review:write'', ''finding:read'', ''finding:write'', ''verification:submit'']"

definition hash_digit :: "char \<Rightarrow> bool" where
  "hash_digit c \<longleftrightarrow> (CHR ''0'' \<le> c \<and> c \<le> CHR ''9'') \<or> (CHR ''a'' \<le> c \<and> c \<le> CHR ''f'')"

definition path_hash_shape :: "string \<Rightarrow> bool" where
  "path_hash_shape s \<longleftrightarrow> length s = 71 \<and> take 7 s = ''sha256:'' \<and> list_all hash_digit (drop 7 s)"

definition authentication_required :: store_failure where
  "authentication_required = Refused (ApiError AUTHENTICATION_REQUIRED None None None)"

definition current_connector :: "string option \<Rightarrow> connector_db \<Rightarrow> store_failure + connector_record" where
  "current_connector peer db =
     (case peer of
        None \<Rightarrow> Inl authentication_required
      | Some fp \<Rightarrow>
          (case findConnectorByFingerprint fp db of
             None \<Rightarrow> Inl authentication_required
           | Some c \<Rightarrow> r_then (refuse_if (co_revoked_at c \<noteq> None) authentication_required) (Inr c)))"

text \<open>
  The first workspace of the join. The query has no order: where an enrolment without a project has the same path in
  two projects the database may return either, and the model returns the first of the table.
\<close>

definition bridge_workspace :: "string \<Rightarrow> connector_record \<Rightarrow> connector_db \<Rightarrow> (workspace_record \<times> project_ref) option" where
  "bridge_workspace hash c db =
     List.find (\<lambda>(w, p). wo_path_hash w = hash \<and> wo_environment_id w = Some (co_environment_id c) \<and>
            wo_organisation_id w = co_organisation_id c \<and>
            (case co_project_id c of None \<Rightarrow> True | Some q \<Rightarrow> wo_project_id w = q) \<and>
            pj_id p = wo_project_id w \<and> pj_status p = ''active'')
          (List.product (cd_workspaces db) (cd_projects db))"

definition bridge_input :: "connector_record \<Rightarrow> workspace_record \<Rightarrow> issue_input" where
  "bridge_input c w =
     \<lparr>is_organisationId = co_organisation_id c, is_projectIds = [wo_project_id w], is_capabilities = BRIDGE_CAPABILITIES,
      is_label = ''local mcp bridge on '' @ co_id c, is_issuedToClient = Some (co_id c),
      is_ttlSeconds = Some BRIDGE_CREDENTIAL_TTL_SECONDS\<rparr>"

definition credential_issued_event :: "connector_record \<Rightarrow> workspace_record \<Rightarrow> issued_credential \<Rightarrow> append_input" where
  "credential_issued_event c w issued =
     connector_event (co_organisation_id c) (Some (wo_project_id w)) (con_actor (co_id c)) ''agent_credential.issued''
       [(''connector_id'', JString (co_id c)), (''workspace_id'', JString (wo_id w))]
       [(''credential_id'', JString (id_id issued)), (''label'', JString (id_label issued)),
        (''capabilities'', JArray (map JString (id_capabilities issued))),
        (''project_ids'', JArray (map JString (id_projectIds issued))),
        (''expires_at'', JString (toISOString (id_expiresAt issued))), (''issued_for'', JString ''local_mcp_bridge'')]"

definition exchange_checks :: "string option \<Rightarrow> json \<Rightarrow> connector_db \<Rightarrow> store_failure + (connector_record \<times> workspace_record)" where
  "exchange_checks peer hash db =
     r_bind (current_connector peer db) (\<lambda>c.
     (case hash of
        JString h \<Rightarrow>
          if path_hash_shape h
          then (case bridge_workspace h c db of
                  None \<Rightarrow> Inl (Refused (notFound ''The workspace''))
                | Some (w, _) \<Rightarrow> Inr (c, w))
          else Inl (field_refused UNSUPPORTED_CAPABILITY ''workspace_path_hash'')
      | _ \<Rightarrow> Inl (field_refused UNSUPPORTED_CAPABILITY ''workspace_path_hash'')))"

definition exchange :: "(string \<Rightarrow> string) \<Rightarrow> string option \<Rightarrow> json \<Rightarrow> issued_credential connector_act" where
  "exchange digest peer hash =
     act_bind (act_read (exchange_checks peer hash)) (\<lambda>(c, w).
     act_bind (issue digest (bridge_input c w)) (\<lambda>issued.
     act_bind (inTransaction (appendEvent (credential_issued_event c w issued))) (\<lambda>_.
     act_return issued)))"

section \<open>Lemmas\<close>

lemma store_credentials_Inr [result_simps]:
  "store_credentials rows db = Inr db' \<longleftrightarrow> db' = db\<lparr>cd_credentials := rows\<rparr> \<and> distinct (map gc_id rows) \<and>
     distinct (map gc_token_sha256 rows) \<and> list_all credential_row_ok rows"
  by (auto simp: store_credentials_def result_simps)

lemma issue_insert_Inr:
  assumes "issue_insert digest i db = Inr (issued, db')"
  shows "\<exists>token. id_token issued = AGENT_TOKEN_PREFIX @ token \<and>
      db' = db\<lparr>es_drawn := es_drawn db + 2, cd_credentials := cd_credentials db @ [issued_row digest i (id_id issued) (id_token issued) (es_now db)]\<rparr>"
    "distinct (map gc_id (cd_credentials db'))" "distinct (map gc_token_sha256 (cd_credentials db'))"
    "list_all credential_row_ok (cd_credentials db')"
  using assms by (auto simp: issue_insert_def randomBody_def newId_def Let_def store_credentials_Inr r_bind_eq_Inr)

lemma issue_Inr:
  "issue digest i db = (Inr issued, db') \<longleftrightarrow> issue_checks i db = ok \<and> issue_insert digest i db = Inr (issued, db')"
  by (auto simp: issue_def result_simps split: sum.splits)

lemma issue_Inl: "issue digest i db = (Inl e, db') \<Longrightarrow> db' = db"
  by (auto simp: issue_def split: sum.splits prod.splits)

lemma current_connector_Inr:
  "current_connector peer db = Inr c \<Longrightarrow>
     c \<in> set (cd_connectors db) \<and> co_revoked_at c = None \<and> peer = Some (co_certificate_fingerprint c)"
  by (auto simp: current_connector_def findConnectorByFingerprint_def result_simps split: option.splits dest!: find_Some_in)

lemma bridge_workspace_Some:
  assumes "bridge_workspace h c db = Some (w, p)"
  shows "w \<in> set (cd_workspaces db)" "wo_environment_id w = Some (co_environment_id c)" "wo_path_hash w = h"
    "wo_organisation_id w = co_organisation_id c" "co_project_id c = None \<or> co_project_id c = Some (wo_project_id w)"
  using find_Some_in [OF assms [unfolded bridge_workspace_def]] by (auto split: option.splits)

lemma exchange_checks_Inr:
  assumes "exchange_checks peer hash db = Inr (c, w)"
  obtains p where "current_connector peer db = Inr c" "bridge_workspace (wo_path_hash w) c db = Some (w, p)"
    "hash = JString (wo_path_hash w)"
proof -
  from assms obtain h p where "current_connector peer db = Inr c" "hash = JString h" "bridge_workspace h c db = Some (w, p)"
    by (cases hash) (auto simp: exchange_checks_def r_bind_eq_Inr split: option.splits if_splits)
  then show ?thesis using that bridge_workspace_Some(3) by blast
qed

end
