(* ===== verification/Workspace_Registry.thy ===== *)
theory Workspace_Registry
  imports Agent_Credentials
begin

text \<open>
  Workspaces: the observations connectors report (\<open>modules/connectors/workspaces.ts\<close>) and the administrative registration
  (\<open>modules/agents/workspaces.ts\<close>), on one table with the constraints of \<open>migrations 0051\<close>, \<open>0080\<close> and \<open>0081\<close>. A
  row belongs to the environment that reported it, or to none while it is only registered. The digest of a path is an argument.
\<close>

section \<open>The table\<close>

definition MAX_WORKSPACES_PER_ENVIRONMENT :: nat where
  "MAX_WORKSPACES_PER_ENVIRONMENT = 32"

definition commit_shape :: "string \<Rightarrow> bool" where
  "commit_shape s \<longleftrightarrow> 7 \<le> length s \<and> length s \<le> 64 \<and> list_all hash_digit s"

definition path_separator :: "char \<Rightarrow> bool" where
  "path_separator c \<longleftrightarrow> c = CHR ''/'' \<or> c = CHR 0x5C"

definition printable :: "char \<Rightarrow> bool" where
  "printable c \<longleftrightarrow> (of_char c :: nat) > 31 \<and> (of_char c :: nat) \<noteq> 127"

definition label_shape :: "string \<Rightarrow> bool" where
  "label_shape s \<longleftrightarrow> s \<noteq> [] \<and> list_all (\<lambda>c. \<not> path_separator c \<and> printable c) s"

definition workspace_row_ok :: "workspace_record \<Rightarrow> bool" where
  "workspace_row_ok w \<longleftrightarrow> commit_shape (wo_head_commit w) \<and> path_hash_shape (wo_path_hash w) \<and>
     label_shape (wo_display_path w) \<and> wo_root_path w \<noteq> Some []"

definition reported_key :: "workspace_record \<Rightarrow> (string \<times> string option \<times> string)" where
  "reported_key w = (wo_project_id w, wo_environment_id w, wo_path_hash w)"

definition workspaces_unique :: "workspace_record list \<Rightarrow> bool" where
  "workspaces_unique rows \<longleftrightarrow> distinct (map wo_id rows) \<and>
     distinct (map (\<lambda>w. (wo_project_id w, wo_root_path w)) (filter (\<lambda>w. wo_root_path w \<noteq> None) rows)) \<and>
     distinct (map reported_key (filter (\<lambda>w. wo_environment_id w \<noteq> None) rows)) \<and>
     distinct (map (\<lambda>w. (wo_project_id w, wo_path_hash w)) (filter (\<lambda>w. wo_environment_id w = None) rows))"

definition store_workspaces :: "workspace_record list \<Rightarrow> connector_db \<Rightarrow> store_failure + connector_db" where
  "store_workspaces rows db =
     r_then (refuse_if (\<not> list_all workspace_row_ok rows) (Check_violation ''workspaces_check''))
     (r_then (refuse_if (\<not> workspaces_unique rows) (Unique_violation ''workspaces_unique''))
     (Inr (db\<lparr>cd_workspaces := rows\<rparr>)))"

section \<open>Paths\<close>

definition pathHash :: "(string \<Rightarrow> string) \<Rightarrow> string \<Rightarrow> string" where
  "pathHash digest path = ''sha256:'' @ digest path"

text \<open>The directory's own name: what follows the last separator once trailing separators are gone.\<close>

definition displayLabel :: "string \<Rightarrow> string" where
  "displayLabel path =
     (let trimmed = rev (dropWhile path_separator (rev path));
          base = rev (takeWhile (\<lambda>c. \<not> path_separator c) (rev trimmed));
          sanitised = take 128 (filter printable base)
      in if sanitised = [] then ''workspace'' else sanitised)"

section \<open>Observations\<close>

datatype observation_refusal = Project_not_authorised | Workspace_limit_exceeded | Workspace_conflict

datatype observation_failure = Observation_refused observation_refusal string | Observation_thrown store_failure

definition asRefusal :: "store_failure + 'a \<Rightarrow> observation_failure + 'a" where
  "asRefusal m =
     (case m of
        Inr a \<Rightarrow> Inr a
      | Inl (Unique_violation _) \<Rightarrow> Inl (Observation_refused Workspace_conflict ''collides'')
      | Inl e \<Rightarrow> Inl (Observation_thrown e))"

definition observation_step :: "store_failure + 'a \<Rightarrow> observation_failure + 'a" where
  "observation_step m = (case m of Inl e \<Rightarrow> Inl (Observation_thrown e) | Inr a \<Rightarrow> Inr a)"

datatype observation_outcome = Observed_created | Observed_head_changed | Observed_unchanged

record observation_context =
  ox_organisationId :: string
  ox_connectorId :: string
  ox_environmentId :: string
  ox_enrolledProjectId :: "string option"
  ox_requestId :: string

record workspace_observation =
  wb_workspace_id :: string
  wb_project_id :: string
  wb_path_hash :: string
  wb_display_label :: string
  wb_repository_identity :: "string option"
  wb_branch :: string
  wb_head_commit :: string
  wb_dirty :: bool

definition assertProjectAuthorised :: "observation_context \<Rightarrow> string \<Rightarrow> connector_db \<Rightarrow> observation_failure + unit" where
  "assertProjectAuthorised x projectId db =
     refuse_if (List.find (\<lambda>p. pj_id p = projectId \<and> pj_organisation_id p = ox_organisationId x \<and>
         (case ox_enrolledProjectId x of None \<Rightarrow> True | Some q \<Rightarrow> pj_id p = q)) (cd_projects db) = None)
       (Observation_refused Project_not_authorised ''project'')"

definition assertMayWrite :: "workspace_record \<Rightarrow> observation_context \<Rightarrow> workspace_observation \<Rightarrow> observation_failure + unit" where
  "assertMayWrite w x b =
     r_then (refuse_if (wo_environment_id w \<noteq> None \<and> wo_environment_id w \<noteq> Some (ox_environmentId x))
       (Observation_refused Project_not_authorised ''environment''))
     (refuse_if (wo_environment_id w = None \<and> wo_path_hash w \<noteq> wb_path_hash b)
       (Observation_refused Project_not_authorised ''checkout''))"

definition in_tenant_of :: "observation_context \<Rightarrow> workspace_observation \<Rightarrow> workspace_record \<Rightarrow> bool" where
  "in_tenant_of x b w \<longleftrightarrow> wo_organisation_id w = ox_organisationId x \<and> wo_project_id w = wb_project_id b"

definition at_this_path :: "observation_context \<Rightarrow> workspace_observation \<Rightarrow> workspace_record \<Rightarrow> bool" where
  "at_this_path x b w \<longleftrightarrow> wo_path_hash w = wb_path_hash b \<and>
     (wo_environment_id w = Some (ox_environmentId x) \<or> wo_environment_id w = None)"

definition candidates :: "observation_context \<Rightarrow> workspace_observation \<Rightarrow> connector_db \<Rightarrow> workspace_record list" where
  "candidates x b db =
     sort_key wo_id (filter (\<lambda>w. in_tenant_of x b w \<and> (wo_id w = wb_workspace_id b \<or> at_this_path x b w)) (cd_workspaces db))"

definition workspace_event ::
  "observation_context \<Rightarrow> workspace_observation \<Rightarrow> string \<Rightarrow> string \<Rightarrow> (string \<times> json) list \<Rightarrow> append_input" where
  "workspace_event x b type wid payload =
     connector_event (ox_organisationId x) (Some (wb_project_id b)) (con_actor (ox_connectorId x)) type
       [(''request_id'', JString (ox_requestId x)), (''connector_id'', JString (ox_connectorId x)),
        (''environment_id'', JString (ox_environmentId x)), (''workspace_id'', JString wid)]
       ([(''workspace_id'', JString wid), (''environment_id'', JString (ox_environmentId x))] @ payload)"

definition observed_row :: "observation_context \<Rightarrow> workspace_observation \<Rightarrow> nat \<Rightarrow> workspace_record" where
  "observed_row x b now =
     \<lparr>wo_id = wb_workspace_id b, wo_organisation_id = ox_organisationId x, wo_project_id = wb_project_id b,
      wo_environment_id = Some (ox_environmentId x), wo_connector_id = Some (ox_connectorId x), wo_root_path = None,
      wo_path_hash = wb_path_hash b, wo_display_path = wb_display_label b, wo_repository_identity = wb_repository_identity b,
      wo_branch = wb_branch b, wo_head_commit = wb_head_commit b, wo_dirty = wb_dirty b, wo_source = Connector_report,
      wo_last_observed_at = Some now\<rparr>"

definition observed_event :: "observation_context \<Rightarrow> workspace_observation \<Rightarrow> workspace_record \<Rightarrow> append_input" where
  "observed_event x b w =
     workspace_event x b ''workspace.observed'' (wo_id w)
       ([(''path_hash'', JString (wo_path_hash w)), (''display_path'', JString (wo_display_path w))] @
        opt_str ''repository_identity'' (wo_repository_identity w) @
        [(''branch'', JString (wo_branch w)), (''head_commit'', JString (wo_head_commit w)), (''dirty'', JBool (wo_dirty w)),
         (''source'', JString ''connector_report'')])"

text \<open>\<open>on conflict do nothing\<close>: a row that collides is not inserted, a row that breaks a check throws.\<close>

definition insertObserved ::
  "observation_context \<Rightarrow> workspace_observation \<Rightarrow> connector_db \<Rightarrow>
     observation_failure + ((observation_outcome \<times> workspace_record) \<times> connector_db)" where
  "insertObserved x b db =
     (let held = filter (\<lambda>w. in_tenant_of x b w \<and> wo_environment_id w = Some (ox_environmentId x)) (cd_workspaces db);
          row = observed_row x b (es_now db) in
      r_then (refuse_if (length held \<ge> MAX_WORKSPACES_PER_ENVIRONMENT) (Observation_refused Workspace_limit_exceeded ''limit''))
      (r_then (refuse_if (\<not> workspace_row_ok row) (Observation_thrown (Check_violation ''workspaces_check'')))
      (r_then (refuse_if (\<not> workspaces_unique (cd_workspaces db @ [row])) (Observation_refused Project_not_authorised ''held elsewhere''))
      (r_bind (observation_step (appendEvent (observed_event x b row) (db\<lparr>cd_workspaces := cd_workspaces db @ [row]\<rparr>))) (\<lambda>(_, db').
       Inr ((Observed_created, row), db'))))))"

definition rewritten_row :: "observation_context \<Rightarrow> workspace_observation \<Rightarrow> nat \<Rightarrow> workspace_record \<Rightarrow> workspace_record" where
  "rewritten_row x b now w =
     w\<lparr>wo_environment_id := Some (ox_environmentId x), wo_connector_id := Some (ox_connectorId x), wo_path_hash := wb_path_hash b,
       wo_display_path := wb_display_label b, wo_repository_identity := wb_repository_identity b, wo_branch := wb_branch b,
       wo_head_commit := wb_head_commit b, wo_dirty := wb_dirty b, wo_source := Connector_report,
       wo_last_observed_at := Some now\<rparr>"

definition head_moved :: "workspace_observation \<Rightarrow> workspace_record \<Rightarrow> bool" where
  "head_moved b previous \<longleftrightarrow>
     wo_branch previous \<noteq> wb_branch b \<or> wo_head_commit previous \<noteq> wb_head_commit b \<or> wo_dirty previous \<noteq> wb_dirty b"

definition head_event :: "observation_context \<Rightarrow> workspace_observation \<Rightarrow> workspace_record \<Rightarrow> workspace_record \<Rightarrow> append_input" where
  "head_event x b previous w =
     workspace_event x b ''workspace.head_changed'' (wo_id w)
       [(''previous_branch'', JString (wo_branch previous)), (''previous_head_commit'', JString (wo_head_commit previous)),
        (''previous_dirty'', JBool (wo_dirty previous)), (''branch'', JString (wo_branch w)),
        (''head_commit'', JString (wo_head_commit w)), (''dirty'', JBool (wo_dirty w))]"

definition may_rewrite :: "observation_context \<Rightarrow> workspace_observation \<Rightarrow> string \<Rightarrow> workspace_record \<Rightarrow> bool" where
  "may_rewrite x b wid w \<longleftrightarrow> wo_id w = wid \<and> in_tenant_of x b w \<and>
     (wo_environment_id w = None \<or> wo_environment_id w = Some (ox_environmentId x))"

definition updateObserved ::
  "observation_context \<Rightarrow> workspace_observation \<Rightarrow> workspace_record \<Rightarrow> connector_db \<Rightarrow>
     observation_failure + ((observation_outcome \<times> workspace_record) \<times> connector_db)" where
  "updateObserved x b previous db =
     r_bind (asRefusal (store_workspaces
       (update_where (may_rewrite x b (wo_id previous)) (rewritten_row x b (es_now db)) (cd_workspaces db)) db)) (\<lambda>db1.
     (case List.find (may_rewrite x b (wo_id previous)) (cd_workspaces db) of
        None \<Rightarrow> Inl (Observation_refused Project_not_authorised ''scope'')
      | Some w \<Rightarrow>
          (let row = rewritten_row x b (es_now db) w in
           if \<not> head_moved b previous then Inr ((Observed_unchanged, row), db1)
           else r_bind (observation_step (appendEvent (head_event x b previous row) db1)) (\<lambda>(_, db2).
                Inr ((Observed_head_changed, row), db2)))))"

definition observation_work ::
  "observation_context \<Rightarrow> workspace_observation \<Rightarrow> connector_db \<Rightarrow>
     observation_failure + ((observation_outcome \<times> workspace_record) \<times> connector_db)" where
  "observation_work x b db =
     r_then (assertProjectAuthorised x (wb_project_id b) db)
     (let found = candidates x b db;
          holder = List.find (\<lambda>w. wo_id w = wb_workspace_id b) found;
          atThisPath = List.find (at_this_path x b) found in
      r_then (case holder of None \<Rightarrow> ok | Some h \<Rightarrow> assertMayWrite h x b)
      (case (atThisPath, holder) of
         (None, None) \<Rightarrow> insertObserved x b db
       | (Some w, _) \<Rightarrow> r_then (assertMayWrite w x b) (updateObserved x b w db)
       | (None, Some w) \<Rightarrow> r_then (assertMayWrite w x b) (updateObserved x b w db)))"

definition recordObservation ::
  "observation_context \<Rightarrow> workspace_observation \<Rightarrow> connector_db \<Rightarrow>
     (observation_failure + (observation_outcome \<times> workspace_record)) \<times> connector_db" where
  "recordObservation x b = inTransaction (observation_work x b)"

section \<open>Registration and lookup\<close>

record register_input =
  rw_organisationId :: string
  rw_projectId :: string
  rw_rootPath :: string
  rw_branch :: string
  rw_headCommit :: string
  rw_dirty :: "bool option"
  rw_connectorId :: "string option"

definition registered_row :: "(string \<Rightarrow> string) \<Rightarrow> register_input \<Rightarrow> string \<Rightarrow> nat \<Rightarrow> workspace_record" where
  "registered_row digest i wid now =
     \<lparr>wo_id = wid, wo_organisation_id = rw_organisationId i, wo_project_id = rw_projectId i, wo_environment_id = None,
      wo_connector_id = rw_connectorId i, wo_root_path = Some (rw_rootPath i), wo_path_hash = pathHash digest (rw_rootPath i),
      wo_display_path = displayLabel (rw_rootPath i), wo_repository_identity = None, wo_branch = rw_branch i,
      wo_head_commit = rw_headCommit i, wo_dirty = (case rw_dirty i of Some d \<Rightarrow> d | None \<Rightarrow> False),
      wo_source = Administrative_registration, wo_last_observed_at = Some now\<rparr>"

definition reregistered :: "workspace_record \<Rightarrow> workspace_record \<Rightarrow> workspace_record" where
  "reregistered new w =
     w\<lparr>wo_branch := wo_branch new, wo_head_commit := wo_head_commit new, wo_dirty := wo_dirty new,
       wo_connector_id := wo_connector_id new, wo_root_path := wo_root_path new, wo_display_path := wo_display_path new,
       wo_last_observed_at := wo_last_observed_at new\<rparr>"

definition registration_checks :: "register_input \<Rightarrow> store_failure + unit" where
  "registration_checks i =
     r_then (refuse_if (\<not> commit_shape (rw_headCommit i)) (field_refused UNSUPPORTED_CAPABILITY ''head_commit''))
     (refuse_if (trim (rw_rootPath i) = [] \<or> trim (rw_branch i) = []) (field_refused UNSUPPORTED_CAPABILITY ''root_path''))"

text \<open>\<open>ON CONFLICT (project_id, path_hash) WHERE environment_id IS NULL DO UPDATE\<close>; any other collision throws.\<close>

definition registration_work :: "(string \<Rightarrow> string) \<Rightarrow> register_input \<Rightarrow> connector_db \<Rightarrow> store_failure + (workspace_record \<times> connector_db)" where
  "registration_work digest i db =
     (let (wid, db1) = newId ''wsp_'' db; new = registered_row digest i wid (es_now db1);
          same = (\<lambda>w. wo_project_id w = wo_project_id new \<and> wo_path_hash w = wo_path_hash new \<and> wo_environment_id w = None) in
      case List.find same (cd_workspaces db1) of
        Some w \<Rightarrow>
          r_bind (store_workspaces (update_where same (reregistered new) (cd_workspaces db1)) db1) (\<lambda>db2. Inr (reregistered new w, db2))
      | None \<Rightarrow> r_bind (store_workspaces (cd_workspaces db1 @ [new]) db1) (\<lambda>db2. Inr (new, db2)))"

definition register_workspace :: "(string \<Rightarrow> string) \<Rightarrow> register_input \<Rightarrow> workspace_record connector_act" where
  "register_workspace digest i =
     act_bind (act_read (\<lambda>_. registration_checks i)) (\<lambda>_. inTransaction (registration_work digest i))"

definition workspaces_for_project :: "string \<Rightarrow> string \<Rightarrow> connector_db \<Rightarrow> workspace_record list" where
  "workspaces_for_project projectId organisationId db =
     take 50 (sort_key wo_path_hash
       (filter (\<lambda>w. wo_project_id w = projectId \<and> wo_organisation_id w = organisationId) (cd_workspaces db)))"

definition get_workspace :: "string \<Rightarrow> string \<Rightarrow> connector_db \<Rightarrow> workspace_record option" where
  "get_workspace wid organisationId db = List.find (\<lambda>w. wo_id w = wid \<and> wo_organisation_id w = organisationId) (cd_workspaces db)"

definition without_trailing_slash :: "string \<Rightarrow> string" where
  "without_trailing_slash s = rev (dropWhile (\<lambda>c. c = CHR ''/'') (rev s))"

definition hint_matches :: "(string \<Rightarrow> string) \<Rightarrow> string \<Rightarrow> workspace_record \<Rightarrow> bool" where
  "hint_matches digest hint w \<longleftrightarrow>
     (let normalised = without_trailing_slash hint in
      wo_id w = hint \<or> wo_path_hash w = pathHash digest normalised \<or>
      (case wo_root_path w of None \<Rightarrow> False | Some r \<Rightarrow> without_trailing_slash r = normalised))"

definition only_one :: "'a list \<Rightarrow> 'a option" where
  "only_one xs = (case xs of [x] \<Rightarrow> Some x | _ \<Rightarrow> None)"

definition resolve_workspace :: "(string \<Rightarrow> string) \<Rightarrow> string \<Rightarrow> string \<Rightarrow> string option \<Rightarrow> connector_db \<Rightarrow> workspace_record option" where
  "resolve_workspace digest projectId organisationId hint db =
     (let ws = workspaces_for_project projectId organisationId db in
      case hint of
        Some h \<Rightarrow> if h = [] then only_one ws else only_one (filter (hint_matches digest h) ws)
      | None \<Rightarrow> only_one ws)"

definition listWorkspacesForProject :: "string \<Rightarrow> string \<Rightarrow> connector_db \<Rightarrow> workspace_record list" where
  "listWorkspacesForProject organisationId projectId db =
     take 200 (sort_key wo_display_path
       (filter (\<lambda>w. wo_organisation_id w = organisationId \<and> wo_project_id w = projectId) (cd_workspaces db)))"

definition listWorkspacesForEnvironments :: "string list \<Rightarrow> connector_db \<Rightarrow> workspace_record list" where
  "listWorkspacesForEnvironments ids db =
     take 400 (sort_key wo_display_path
       (filter (\<lambda>w. case wo_environment_id w of None \<Rightarrow> False | Some e \<Rightarrow> e \<in> set ids) (cd_workspaces db)))"

section \<open>Lemmas\<close>

lemma store_workspaces_Inr [result_simps]:
  "store_workspaces rows db = Inr db' \<longleftrightarrow> db' = db\<lparr>cd_workspaces := rows\<rparr> \<and> list_all workspace_row_ok rows \<and> workspaces_unique rows"
  by (auto simp: store_workspaces_def result_simps)

lemma observation_step_Inr [result_simps]: "observation_step m = Inr a \<longleftrightarrow> m = Inr a"
  by (cases m) (simp_all add: observation_step_def)

lemma asRefusal_Inr [result_simps]: "asRefusal m = Inr a \<longleftrightarrow> m = Inr a"
  by (auto simp: asRefusal_def split: sum.splits store_failure.splits)

text \<open>A label made from a path always satisfies the constraint on labels.\<close>

lemma displayLabel_shape: "label_shape (displayLabel path)"
proof -
  have "list_all (\<lambda>c. \<not> path_separator c \<and> printable c)
      (take n (filter printable (rev (takeWhile (\<lambda>c. \<not> path_separator c) s))))" for n s
    by (auto simp: list_all_iff dest!: in_set_takeD set_takeWhileD)
  moreover have "label_shape ''workspace''" by code_simp
  ultimately show ?thesis by (auto simp: displayLabel_def Let_def label_shape_def)
qed

text \<open>What a recorded observation writes: a new row, or one row that was the environment's or nobody's.\<close>

lemma insertObserved_Inr:
  assumes "insertObserved x b db = Inr ((outcome, row), db')"
  shows "outcome = Observed_created" "row = observed_row x b (es_now db)"
    "db' = appended (observed_event x b row) (db\<lparr>cd_workspaces := cd_workspaces db @ [row]\<rparr>)"
    "workspaces_unique (cd_workspaces db @ [row])" "workspace_row_ok row"
    "length (filter (\<lambda>w. in_tenant_of x b w \<and> wo_environment_id w = Some (ox_environmentId x)) (cd_workspaces db))
       < MAX_WORKSPACES_PER_ENVIRONMENT"
  using assms by (auto simp: insertObserved_def Let_def result_simps dest!: appendEvent_Inr)

lemma updateObserved_Inr:
  assumes "updateObserved x b previous db = Inr ((outcome, row), db')"
  obtains w where "w \<in> set (cd_workspaces db)" "may_rewrite x b (wo_id previous) w" "row = rewritten_row x b (es_now db) w"
    "cd_workspaces db' = update_where (may_rewrite x b (wo_id previous)) (rewritten_row x b (es_now db)) (cd_workspaces db)"
    "workspaces_unique (cd_workspaces db')" "list_all workspace_row_ok (cd_workspaces db')" "es_now db' = es_now db"
    "cd_connectors db' = cd_connectors db" "cd_tokens db' = cd_tokens db" "cd_credentials db' = cd_credentials db"
    "cd_environments db' = cd_environments db" "cd_projects db' = cd_projects db"
    "es_events db' = es_events db \<longleftrightarrow> outcome = Observed_unchanged" "outcome = Observed_unchanged \<longleftrightarrow> \<not> head_moved b previous"
proof -
  let ?db1 = "db\<lparr>cd_workspaces := update_where (may_rewrite x b (wo_id previous)) (rewritten_row x b (es_now db)) (cd_workspaces db)\<rparr>"
  from assms obtain w where "List.find (may_rewrite x b (wo_id previous)) (cd_workspaces db) = Some w"
    and u: "workspaces_unique (cd_workspaces ?db1)" "list_all workspace_row_ok (cd_workspaces ?db1)"
    and rest: "row = rewritten_row x b (es_now db) w"
      "if head_moved b previous then outcome = Observed_head_changed \<and> db' = appended (head_event x b previous row) ?db1
       else outcome = Observed_unchanged \<and> db' = ?db1"
    by (auto simp: updateObserved_def Let_def result_simps split: option.splits if_splits dest!: appendEvent_Inr)
  from this(1) have w: "w \<in> set (cd_workspaces db)" "may_rewrite x b (wo_id previous) w"
    by (auto dest: find_Some_in)
  show ?thesis
    by (rule that [OF w rest(1)]) (use u rest in \<open>simp_all add: appended_events split: if_splits\<close>)
qed

end
