(* ===== verification/Connector_Channel.thy ===== *)
theory Connector_Channel
  imports Workspace_Registry
begin

text \<open>
  The control channel of a connector (\<open>modules/connectors/channel.ts\<close>), the registry of live channels with the publications that
  wait on them (\<open>publication.ts\<close>), the heartbeat monitor (\<open>monitor.ts\<close>) and revocation (\<open>revocation.ts\<close>). A socket is a
  number; the decoded frame, the answer of the reconciler and the effects on routes are arguments; a close of the socket is a value.
\<close>

section \<open>The queue of frames\<close>

text \<open>
  \<open>fq_current\<close> is the frame the consumer works on, so it is present exactly while the queue drains; \<open>fq_delivered\<close> are
  the frames the consumer was called with, and \<open>fq_failed\<close> that its error handler was.
\<close>

record 'f frame_queue =
  fq_pending :: "'f list"
  fq_consumer :: bool
  fq_current :: "'f option"
  fq_overflowed :: bool
  fq_delivered :: "'f list"
  fq_failed :: bool

definition MAX_PENDING :: nat where
  "MAX_PENDING = 32"

definition new_queue :: "'f frame_queue" where
  "new_queue = \<lparr>fq_pending = [], fq_consumer = False, fq_current = None, fq_overflowed = False, fq_delivered = [], fq_failed = False\<rparr>"

definition drain_queue :: "'f frame_queue \<Rightarrow> 'f frame_queue" where
  "drain_queue q =
     (if fq_current q \<noteq> None \<or> \<not> fq_consumer q then q
      else (case fq_pending q of
              [] \<Rightarrow> q
            | f # fs \<Rightarrow> q\<lparr>fq_pending := fs, fq_current := Some f, fq_delivered := fq_delivered q @ [f]\<rparr>))"

definition push_frame :: "'f \<Rightarrow> 'f frame_queue \<Rightarrow> 'f frame_queue" where
  "push_frame f q =
     (if length (fq_pending q) \<ge> MAX_PENDING then q\<lparr>fq_overflowed := True\<rparr>
      else drain_queue (q\<lparr>fq_pending := fq_pending q @ [f]\<rparr>))"

definition setConsumer :: "'f frame_queue \<Rightarrow> 'f frame_queue" where
  "setConsumer q = drain_queue (q\<lparr>fq_consumer := True\<rparr>)"

text \<open>The consumer's promise settles: the next frame is taken, or after an error the rest is discarded.\<close>

definition frame_done :: "'f frame_queue \<Rightarrow> 'f frame_queue" where
  "frame_done q = (if fq_current q = None then q else drain_queue (q\<lparr>fq_current := None\<rparr>))"

definition frame_threw :: "'f frame_queue \<Rightarrow> 'f frame_queue" where
  "frame_threw q = (if fq_current q = None then q else q\<lparr>fq_current := None, fq_pending := [], fq_failed := True\<rparr>)"

section \<open>The heartbeat floor\<close>

record heartbeat_floor =
  hf_minimumIntervalMs :: nat
  hf_lastAdmittedAt :: "nat option"
  hf_dropped :: nat

definition MAX_DROPPED :: nat where
  "MAX_DROPPED = 32"

definition new_floor :: "connector_config \<Rightarrow> heartbeat_floor" where
  "new_floor config =
     \<lparr>hf_minimumIntervalMs = max 1 (cc_heartbeatIntervalSeconds config * 1000 div 3), hf_lastAdmittedAt = None, hf_dropped = 0\<rparr>"

definition admit :: "nat \<Rightarrow> heartbeat_floor \<Rightarrow> bool \<times> heartbeat_floor" where
  "admit now f =
     (if (case hf_lastAdmittedAt f of None \<Rightarrow> False | Some t \<Rightarrow> int now - int t < int (hf_minimumIntervalMs f))
      then (False, f\<lparr>hf_dropped := hf_dropped f + 1\<rparr>)
      else (True, f\<lparr>hf_lastAdmittedAt := Some now\<rparr>))"

definition floor_exhausted :: "heartbeat_floor \<Rightarrow> bool" where
  "floor_exhausted f \<longleftrightarrow> hf_dropped f > MAX_DROPPED"

section \<open>The registry of channels\<close>

datatype settlement = Acknowledged string | Settled_offline | Settled_timeout | Settled_stopped | Settled_send_failed

record channel_registry =
  kr_channels :: "string \<rightharpoonup> nat"
  kr_pending :: "string list"
  kr_settled :: "(string \<times> settlement) list"

definition pending_key :: "string \<Rightarrow> string \<Rightarrow> string" where
  "pending_key cid rid = cid @ '':'' @ rid"

definition register_channel :: "string \<Rightarrow> nat \<Rightarrow> channel_registry \<Rightarrow> channel_registry" where
  "register_channel cid socket r = r\<lparr>kr_channels := (kr_channels r)(cid \<mapsto> socket)\<rparr>"

definition settle_where :: "(string \<Rightarrow> bool) \<Rightarrow> settlement \<Rightarrow> channel_registry \<Rightarrow> channel_registry" where
  "settle_where p s r =
     r\<lparr>kr_pending := filter (\<lambda>k. \<not> p k) (kr_pending r),
       kr_settled := kr_settled r @ map (\<lambda>k. (k, s)) (filter p (kr_pending r))\<rparr>"

definition unregister :: "string \<Rightarrow> nat \<Rightarrow> channel_registry \<Rightarrow> channel_registry" where
  "unregister cid socket r =
     settle_where (starts_with (cid @ '':'')) Settled_offline
       (if kr_channels r cid = Some socket then r\<lparr>kr_channels := (kr_channels r)(cid := None)\<rparr> else r)"

definition connected :: "string \<Rightarrow> channel_registry \<Rightarrow> bool" where
  "connected cid r \<longleftrightarrow> kr_channels r cid \<noteq> None"

definition detachChannel :: "string \<Rightarrow> channel_registry \<Rightarrow> nat option \<times> channel_registry" where
  "detachChannel cid r =
     (case kr_channels r cid of None \<Rightarrow> (None, r) | Some s \<Rightarrow> (Some s, r\<lparr>kr_channels := (kr_channels r)(cid := None)\<rparr>))"

definition acknowledge :: "string \<Rightarrow> string \<Rightarrow> string \<Rightarrow> channel_registry \<Rightarrow> bool \<times> channel_registry" where
  "acknowledge cid rid status r =
     (let key = pending_key cid rid in
      if key \<notin> set (kr_pending r) then (False, r)
      else (True, settle_where (\<lambda>k. k = key) (Acknowledged status) r))"

text \<open>\<open>thrown\<close> is the name of the error \<open>socket.send\<close> throws, if any; else the promise settles with an operation below.\<close>

definition publish :: "string \<Rightarrow> string \<Rightarrow> string option \<Rightarrow> channel_registry \<Rightarrow> (api_error + string) \<times> channel_registry" where
  "publish cid rid thrown r =
     (let key = pending_key cid rid in
      if kr_channels r cid = None then (Inl (refusal CONNECTOR_OFFLINE [D_connector_id cid]), r)
      else if key \<in> set (kr_pending r) then (Inl (refusal IDEMPOTENCY_CONFLICT [D_route_id rid]), r)
      else (case thrown of
          None \<Rightarrow> (Inr key, r\<lparr>kr_pending := kr_pending r @ [key]\<rparr>)
        | Some cause \<Rightarrow>
            (Inl (refusal CONNECTOR_OFFLINE [D_connector_id cid, D_cause cause]),
             r\<lparr>kr_settled := kr_settled r @ [(key, Settled_send_failed)]\<rparr>)))"

definition publication_timeout :: "string \<Rightarrow> channel_registry \<Rightarrow> channel_registry" where
  "publication_timeout key r = settle_where (\<lambda>k. k = key) Settled_timeout r"

definition stop_registry :: "channel_registry \<Rightarrow> channel_registry" where
  "stop_registry r = (settle_where (\<lambda>_. True) Settled_stopped r)\<lparr>kr_channels := Map.empty\<rparr>"

section \<open>The guard before the upgrade\<close>

definition control_guard :: "string option \<Rightarrow> connector_db \<Rightarrow> string + connector_record" where
  "control_guard peer db =
     (case peer of
        None \<Rightarrow> Inl ''IDENTITY_REVOKED''
      | Some fp \<Rightarrow>
          (case findConnectorByFingerprint fp db of
             None \<Rightarrow> Inl ''IDENTITY_REVOKED''
           | Some c \<Rightarrow> r_then (refuse_if (co_revoked_at c \<noteq> None \<or> co_status c = Con_revoked) ''IDENTITY_REVOKED'') (Inr c)))"

section \<open>The lifecycle as the channel drives it\<close>

definition plain_transition ::
  "string \<Rightarrow> connector_status list \<Rightarrow> connector_status \<Rightarrow> string \<Rightarrow> bool \<Rightarrow> (string \<times> json) list \<Rightarrow> transition_input_c" where
  "plain_transition cid from to eventType touch payload =
     \<lparr>tr_connectorId = cid, tr_from = from, tr_to = to, tr_eventType = eventType, tr_touchConnectedAt = touch,
      tr_touchRevokedAt = False, tr_actor = None, tr_payload = payload\<rparr>"

definition opened_transition :: "string \<Rightarrow> transition_input_c" where
  "opened_transition cid =
     plain_transition cid LIVE_STATUSES Con_active ''connector.connected'' True [(''trigger'', JString ''channel_opened'')]"

definition heartbeat_transition :: "string \<Rightarrow> transition_input_c" where
  "heartbeat_transition cid =
     plain_transition cid [Con_pending, Con_degraded, Con_disconnected] Con_active ''connector.connected'' True
       [(''trigger'', JString ''heartbeat'')]"

definition closed_transition :: "string \<Rightarrow> transition_input_c" where
  "closed_transition cid =
     plain_transition cid [Con_pending, Con_active, Con_degraded] Con_disconnected ''connector.disconnected'' False
       [(''trigger'', JString ''channel_closed'')]"

definition silent_transition :: "nat \<Rightarrow> string \<Rightarrow> transition_input_c" where
  "silent_transition secs cid =
     plain_transition cid [Con_active, Con_degraded] Con_disconnected ''connector.disconnected'' False
       [(''trigger'', JString ''heartbeat_timeout''), (''silent_for_seconds_at_least'', json_num secs)]"

definition delayed_transition :: "nat \<Rightarrow> string \<Rightarrow> transition_input_c" where
  "delayed_transition secs cid =
     plain_transition cid [Con_active] Con_degraded ''connector.degraded'' False
       [(''trigger'', JString ''heartbeat_delay''), (''silent_for_seconds_at_least'', json_num secs)]"

definition markConnected :: "string \<Rightarrow> unit connector_act" where
  "markConnected cid =
     act_bind (transitionConnector (opened_transition cid)) (\<lambda>_. act_write (recordConnectorHeartbeat cid))"

section \<open>Frames\<close>

datatype frame_body =
    Heartbeat_body
  | Reconnect_body
  | Observed_body workspace_observation
  | Ack_body string string
  | Other_body

record control_frame =
  cf_to_control_plane :: bool
  cf_connector_id :: "string option"
  cf_message_id :: string
  cf_body :: frame_body

datatype decoded_frame = Frame_too_big | Frame_undecodable string string | Frame_decoded control_frame

datatype frame_verdict =
    Frame_handled
  | Frame_replied "string list"
  | Frame_closed nat string

definition closeCodeForReason :: "string \<Rightarrow> nat" where
  "closeCodeForReason reason =
     (if reason \<in> {''frame_too_large'', ''payload_too_large''} then 1009
      else if reason \<in> {''unsupported_protocol_version'', ''unknown_message_type''} then 1008
      else 1007)"

definition observation_context_of :: "connector_record \<Rightarrow> string \<Rightarrow> observation_context" where
  "observation_context_of c mid =
     \<lparr>ox_organisationId = co_organisation_id c, ox_connectorId = co_id c, ox_environmentId = co_environment_id c,
      ox_enrolledProjectId = co_project_id c, ox_requestId = mid\<rparr>"

text \<open>A frame handler that throws ends the channel with an internal error.\<close>

definition handle_heartbeat :: "string \<Rightarrow> nat \<Rightarrow> heartbeat_floor \<Rightarrow> connector_db \<Rightarrow> frame_verdict \<times> heartbeat_floor \<times> connector_db" where
  "handle_heartbeat cid nowMs f db =
     (let (admitted, f') = admit nowMs f in
      if \<not> admitted \<and> floor_exhausted f' then (Frame_closed 1008 ''PROTOCOL_UNSUPPORTED'', f', db)
      else
        (let db1 = (if admitted then recordConnectorHeartbeat cid db else db) in
         case transitionConnector (heartbeat_transition cid) db1 of
           (Inl _, db2) \<Rightarrow> (Frame_closed 1011 [], f', db2)
         | (Inr _, db2) \<Rightarrow> (Frame_handled, f', db2)))"

definition handle_observation :: "connector_record \<Rightarrow> string \<Rightarrow> workspace_observation \<Rightarrow> connector_db \<Rightarrow> frame_verdict \<times> connector_db" where
  "handle_observation c mid b db =
     (case recordObservation (observation_context_of c mid) b db of
        (Inr _, db') \<Rightarrow> (Frame_handled, db')
      | (Inl (Observation_refused _ _), db') \<Rightarrow> (Frame_closed 1008 ''PROJECT_NOT_AUTHORISED'', db')
      | (Inl (Observation_thrown _), db') \<Rightarrow> (Frame_closed 1011 [], db'))"

text \<open>The answer of the reconciler: absent without one, an error, or the routes to continue.\<close>

definition handleReconnect :: "(store_failure + string list) option \<Rightarrow> frame_verdict" where
  "handleReconnect answer =
     (case answer of None \<Rightarrow> Frame_replied [] | Some (Inl _) \<Rightarrow> Frame_closed 1011 [] | Some (Inr routes) \<Rightarrow> Frame_replied routes)"

definition handle_frame ::
  "connector_record \<Rightarrow> (store_failure + string list) option \<Rightarrow> nat \<Rightarrow> decoded_frame \<Rightarrow> heartbeat_floor \<Rightarrow>
     connector_db \<times> channel_registry \<Rightarrow> frame_verdict \<times> heartbeat_floor \<times> connector_db \<times> channel_registry" where
  "handle_frame c answer nowMs decoded f st =
     (case st of (db, reg) \<Rightarrow>
      (case decoded of
         Frame_too_big \<Rightarrow> (Frame_closed 1009 [], f, db, reg)
       | Frame_undecodable reason errorClass \<Rightarrow> (Frame_closed (closeCodeForReason reason) errorClass, f, db, reg)
       | Frame_decoded frame \<Rightarrow>
           if \<not> cf_to_control_plane frame then (Frame_closed 1008 ''PROTOCOL_UNSUPPORTED'', f, db, reg)
           else if cf_connector_id frame \<noteq> Some (co_id c) then (Frame_closed 1008 ''IDENTITY_REVOKED'', f, db, reg)
           else (case cf_body frame of
               Heartbeat_body \<Rightarrow> (case handle_heartbeat (co_id c) nowMs f db of (v, f', db') \<Rightarrow> (v, f', db', reg))
             | Reconnect_body \<Rightarrow> (handleReconnect answer, f, db, reg)
             | Observed_body b \<Rightarrow> (case handle_observation c (cf_message_id frame) b db of (v, db') \<Rightarrow> (v, f, db', reg))
             | Ack_body rid status \<Rightarrow> (Frame_handled, f, db, snd (acknowledge (co_id c) rid status reg))
             | Other_body \<Rightarrow> (Frame_closed 1008 ''PROTOCOL_UNSUPPORTED'', f, db, reg))))"

section \<open>Opening and closing\<close>

text \<open>The channel as it opens: the record is marked before the socket is registered; a thrown mark leaves it unregistered.\<close>

definition open_control :: "connector_record \<Rightarrow> nat \<Rightarrow> connector_db \<times> channel_registry \<Rightarrow> (store_failure + unit) \<times> connector_db \<times> channel_registry" where
  "open_control c socket st =
     (case st of (db, reg) \<Rightarrow>
      (case markConnected (co_id c) db of
         (Inl e, db') \<Rightarrow> (Inl e, db', reg)
       | (Inr u, db') \<Rightarrow> (Inr u, db', register_channel (co_id c) socket reg)))"

definition close_control :: "connector_record \<Rightarrow> nat \<Rightarrow> connector_db \<times> channel_registry \<Rightarrow>
    (store_failure + appended_event option) \<times> connector_db \<times> channel_registry" where
  "close_control c socket st =
     (case st of (db, reg) \<Rightarrow>
      (case transitionConnector (closed_transition (co_id c)) db of
         (r, db') \<Rightarrow> (r, db', unregister (co_id c) socket reg)))"

text \<open>
  \<open>handleControlSocket\<close> up to its wait: a queue that overflowed while the record was marked is refused, else the consumer is
  set. The early return of a refusal skips everything after the wait, so its close only unregisters the socket. The sessions
  that \<open>handleDisconnect\<close> pauses are rows of other tables and are modelled with the reconciliation of routes.
\<close>

definition start_control :: "connector_record \<Rightarrow> nat \<Rightarrow> 'f frame_queue \<Rightarrow> connector_db \<times> channel_registry \<Rightarrow>
    (store_failure + frame_verdict) \<times> 'f frame_queue \<times> connector_db \<times> channel_registry" where
  "start_control c socket q st =
     (case open_control c socket st of
        (Inl e, st') \<Rightarrow> (Inl e, q, st')
      | (Inr _, st') \<Rightarrow> if fq_overflowed q then (Inr (Frame_closed 1009 []), q, st') else (Inr Frame_handled, setConsumer q, st'))"

definition socket_closed :: "connector_record \<Rightarrow> nat \<Rightarrow> 'f frame_queue \<Rightarrow> connector_db \<times> channel_registry \<Rightarrow>
    (store_failure + appended_event option) \<times> connector_db \<times> channel_registry" where
  "socket_closed c socket q st =
     (if fq_consumer q then close_control c socket st
      else (case st of (db, reg) \<Rightarrow> (Inr None, db, unregister (co_id c) socket reg)))"

section \<open>The monitor\<close>

fun sweep_each :: "(string \<Rightarrow> transition_input_c) \<Rightarrow> string list \<Rightarrow> string list connector_act" where
  "sweep_each t [] = act_return []"
| "sweep_each t (cid # cids) =
     act_bind (transitionConnector (t cid)) (\<lambda>event.
     act_bind (sweep_each t cids) (\<lambda>moved. act_return (if event = None then moved else cid # moved)))"

definition stale_ids :: "connector_status list \<Rightarrow> nat \<Rightarrow> connector_db \<Rightarrow> store_failure + string list" where
  "stale_ids statuses secs db = Inr (map co_id (findStaleConnectors statuses secs db))"

definition sweepConnectorHealth :: "connector_config \<Rightarrow> (string list \<times> string list) connector_act" where
  "sweepConnectorHealth config =
     act_bind (act_read (stale_ids [Con_active, Con_degraded] (cc_disconnectedAfterSeconds config))) (\<lambda>lost.
     act_bind (sweep_each (silent_transition (cc_disconnectedAfterSeconds config)) lost) (\<lambda>disconnected.
     act_bind (act_read (stale_ids [Con_active] (cc_degradedAfterSeconds config))) (\<lambda>late.
     act_bind (sweep_each (delayed_transition (cc_degradedAfterSeconds config)) late) (\<lambda>degraded.
     act_return (degraded, disconnected)))))"

section \<open>Revocation\<close>

record revocation_outcome =
  ro_connector :: connector_record
  ro_revokedAt :: nat
  ro_routesRevoked :: nat
  ro_sessionsDisconnected :: nat
  ro_channelsClosed :: nat
  ro_agentCredentialsRevoked :: nat
  ro_changed :: bool

definition credential_revoked_event :: "event_actor \<Rightarrow> string \<Rightarrow> string \<Rightarrow> credential_row \<Rightarrow> string \<Rightarrow> append_input" where
  "credential_revoked_event actor requestId cid g project =
     connector_event (gc_organisation_id g) (Some project) actor ''session.revoked''
       [(''request_id'', JString requestId), (''connector_id'', JString cid)]
       [(''credential_id'', JString (gc_id g)), (''label'', JString (gc_label g)), (''reason'', JString ''connector_revoked'')]"

fun log_each :: "append_input list \<Rightarrow> unit connector_act" where
  "log_each [] = act_return ()"
| "log_each (i # is) = act_bind (inTransaction (appendEvent i)) (\<lambda>_. log_each is)"

definition revocation_events :: "event_actor \<Rightarrow> string \<Rightarrow> string \<Rightarrow> credential_row list \<Rightarrow> append_input list" where
  "revocation_events actor requestId cid swept =
     concat (map (\<lambda>g. map (credential_revoked_event actor requestId cid g) (gc_project_ids g)) swept)"

definition sweep_credentials :: "string \<Rightarrow> credential_row list connector_act" where
  "sweep_credentials cid db = (case revokeIssuedToClient cid db of (swept, db') \<Rightarrow> (Inr swept, db'))"

text \<open>The answer, from the record as it was found, the record read again at the end and what was done in between.\<close>

definition revocation_report ::
  "connector_record \<Rightarrow> connector_record option \<Rightarrow> nat \<Rightarrow> nat \<Rightarrow> nat \<Rightarrow> nat \<Rightarrow> nat \<Rightarrow> bool \<Rightarrow> revocation_outcome" where
  "revocation_report c refreshed now routes sessions closedChannels swept changed =
     \<lparr>ro_connector = (case refreshed of Some r \<Rightarrow> r | None \<Rightarrow> c),
      ro_revokedAt = (case refreshed of
          Some r \<Rightarrow> (case co_revoked_at r of Some t \<Rightarrow> t | None \<Rightarrow> (case co_revoked_at c of Some t \<Rightarrow> t | None \<Rightarrow> now))
        | None \<Rightarrow> (case co_revoked_at c of Some t \<Rightarrow> t | None \<Rightarrow> now)),
      ro_routesRevoked = routes, ro_sessionsDisconnected = sessions, ro_channelsClosed = closedChannels,
      ro_agentCredentialsRevoked = swept, ro_changed = changed\<rparr>"

text \<open>
  \<open>effects\<close> is what the module of routes answers, with no module the counts are zero. The registry is touched once, so it
  is an argument and a result; the socket that was detached is closed at the end.
\<close>

definition revokeConnectorIdentity ::
  "(store_failure + nat \<times> nat) option \<Rightarrow> string \<Rightarrow> string \<Rightarrow> string list option \<Rightarrow> string \<Rightarrow> event_actor \<Rightarrow> channel_registry \<Rightarrow>
     (revocation_outcome \<times> nat option \<times> channel_registry) connector_act" where
  "revokeConnectorIdentity effects cid organisationId projectIds requestId actor reg =
     act_bind (act_read (\<lambda>db. case findConnectorInScope cid organisationId projectIds db of
         None \<Rightarrow> Inl (Refused (ApiError RESOURCE_NOT_FOUND None None None)) | Some c \<Rightarrow> Inr c)) (\<lambda>c.
     act_bind (act_read (\<lambda>_. case effects of None \<Rightarrow> Inr (0, 0) | Some e \<Rightarrow> e)) (\<lambda>(routes, sessions).
     act_bind (sweep_credentials (co_id c)) (\<lambda>swept.
     act_bind (log_each (revocation_events actor requestId (co_id c) swept)) (\<lambda>_.
     let (detached, reg') = detachChannel (co_id c) reg; closed = (if detached = None then 0 else 1) in
     act_bind (transitionConnector (revocation_transition (co_id c) actor
         (revocation_payload routes sessions closed (length swept)))) (\<lambda>event.
     act_bind (act_read (\<lambda>db. Inr (findConnectorInScope cid organisationId projectIds db, es_now db))) (\<lambda>(refreshed, now).
     act_return
       (revocation_report c refreshed now routes sessions closed (length swept) (event \<noteq> None), detached, reg')))))))"

end
