(* ===== verification/Connector_Steps.thy ===== *)
theory Connector_Steps
  imports Connector_Channel
begin

text \<open>
  The statements and transactions on connectors as a step relation, with the invariant every step keeps and the relation
  \<open>identity_follows\<close> between a database and any later one. An operation that checks before it writes takes what it read
  from an earlier database, so operations interleave at this grain.
\<close>

section \<open>Steps\<close>

definition lifecycle_moves :: "string \<Rightarrow> transition_input_c set" where
  "lifecycle_moves cid =
     {opened_transition cid, heartbeat_transition cid, closed_transition cid} \<union>
     {silent_transition secs cid |secs. True} \<union> {delayed_transition secs cid |secs. True} \<union>
     {revocation_transition cid actor payload |actor payload. True}"

inductive connector_txn :: "enrol_peers \<Rightarrow> connector_config \<Rightarrow> connector_db \<Rightarrow> connector_db \<Rightarrow> bool" for peers config where
  issued_token: "issue_token peers config caller body db = (Inr r, db') \<Longrightarrow> connector_txn peers config db db'"
| enrolled: "enrol_work peers config request key q db = Inr (out, db') \<Longrightarrow> connector_txn peers config db db'"
| moved: "i \<in> lifecycle_moves cid \<Longrightarrow> transition_connector_work i db = Inr (e, db') \<Longrightarrow> connector_txn peers config db db'"
| beat: "connector_txn peers config db (heartbeat_rows cid db)"
| seen: "connector_txn peers config db (seen_rows cid db)"
| credited: "issue_insert digest input db = Inr (issued, db') \<Longrightarrow> connector_txn peers config db db'"
| used: "connector_txn peers config db (used_rows gid db)"
| withdrawn: "connector_txn peers config db (snd (revoke_where p db))"
| expired: "connector_txn peers config db (expireNow gid db)"
| observed: "observation_work x b db = Inr (v, db') \<Longrightarrow> connector_txn peers config db db'"
| registered: "registration_work digest ri db = Inr (w, db') \<Longrightarrow> connector_txn peers config db db'"
| logged: "appendEvent input db = Inr (e, db') \<Longrightarrow> connector_txn peers config db db'"
| ensured: "ensureOrganisation oid name db = Inr db' \<Longrightarrow> connector_txn peers config db db'"
| environment: "connector_txn peers config db (db\<lparr>es_now := now, es_drawn := drawn, cd_users := users, cd_projects := projects\<rparr>)"

abbreviation connector_txns :: "enrol_peers \<Rightarrow> connector_config \<Rightarrow> connector_db \<Rightarrow> connector_db \<Rightarrow> bool" where
  "connector_txns peers config \<equiv> (connector_txn peers config)\<^sup>*\<^sup>*"

section \<open>What a row keeps\<close>

definition identity_of :: "connector_record \<Rightarrow> (string \<times> string \<times> string option) \<times> string \<times> string" where
  "identity_of c = ((co_id c, co_organisation_id c, co_enrolment_token_id c), co_certificate_fingerprint c, co_environment_id c)"

definition connector_follows :: "connector_record \<Rightarrow> connector_record \<Rightarrow> bool" where
  "connector_follows c c' \<longleftrightarrow> identity_of c' = identity_of c \<and> co_project_id c' = co_project_id c \<and>
     (co_status c = Con_revoked \<longrightarrow> c' = c) \<and>
     ((co_status c = Con_revoked \<longleftrightarrow> co_revoked_at c \<noteq> None) \<longrightarrow> (co_status c' = Con_revoked \<longleftrightarrow> co_revoked_at c' \<noteq> None))"

lemma connector_follows_refl [simp]: "connector_follows c c"
  by (simp add: connector_follows_def)

lemma connector_follows_trans: "connector_follows a b \<Longrightarrow> connector_follows b c \<Longrightarrow> connector_follows a c"
  by (auto simp: connector_follows_def)

text \<open>Rows are changed in place and new ones appended.\<close>

definition identity_follows :: "connector_db \<Rightarrow> connector_db \<Rightarrow> bool" where
  "identity_follows db db' \<longleftrightarrow>
     (\<exists>old new. cd_connectors db' = old @ new \<and> list_all2 connector_follows (cd_connectors db) old)"

interpretation identities: kept_relation identity_follows
proof
  show "identity_follows s s" for s
    unfolding identity_follows_def by (intro exI [of _ "cd_connectors s"] exI [of _ "[]"]) (simp add: list_all2_refl)
  show "identity_follows s u" if su: "identity_follows s t" and tu: "identity_follows t u" for s t u
  proof -
    obtain old new where a: "cd_connectors t = old @ new" "list_all2 connector_follows (cd_connectors s) old"
      using su by (auto simp: identity_follows_def)
    obtain old' new' where b: "cd_connectors u = old' @ new'" "list_all2 connector_follows (old @ new) old'"
      using tu a by (auto simp: identity_follows_def)
    obtain x y where "old' = x @ y" "list_all2 connector_follows old x"
      using b(2) by (auto simp: list_all2_append1)
    then show ?thesis
      unfolding identity_follows_def using a(2) b(1)
      by (intro exI [of _ x] exI [of _ "y @ new'"])
        (auto intro: list_all2_trans [of connector_follows] connector_follows_trans)
  qed
qed

lemma identity_follows_same [simp]: "cd_connectors db' = cd_connectors db \<Longrightarrow> identity_follows db db'"
  unfolding identity_follows_def by (intro exI [of _ "cd_connectors db"] exI [of _ "[]"]) (simp add: list_all2_refl)

lemma identity_follows_update:
  assumes "cd_connectors db' = update_where p f (cd_connectors db)" "\<And>c. p c \<Longrightarrow> connector_follows c (f c)"
  shows "identity_follows db db'"
  unfolding identity_follows_def using assms
  by (intro exI [of _ "update_where p f (cd_connectors db)"] exI [of _ "[]"]) (simp add: update_where_def list_all2_conv_all_nth)

lemma lifecycle_from:
  assumes "i \<in> lifecycle_moves cid"
  shows "Con_revoked \<notin> set (tr_from i) \<and> (tr_touchRevokedAt i \<longleftrightarrow> tr_to i = Con_revoked)" "tr_connectorId i = cid"
proof -
  consider "i = opened_transition cid" | "i = heartbeat_transition cid" | "i = closed_transition cid"
    | secs where "i = silent_transition secs cid" | secs where "i = delayed_transition secs cid"
    | a p where "i = revocation_transition cid a p"
    using assms unfolding lifecycle_moves_def by blast
  then show "Con_revoked \<notin> set (tr_from i) \<and> (tr_touchRevokedAt i \<longleftrightarrow> tr_to i = Con_revoked)" "tr_connectorId i = cid"
    by (cases; simp add: opened_transition_def heartbeat_transition_def closed_transition_def silent_transition_def
        delayed_transition_def revocation_transition_def plain_transition_def LIVE_STATUSES_def)+
qed

lemma moved_follows:
  assumes "Con_revoked \<notin> set (tr_from i) \<and> (tr_touchRevokedAt i \<longleftrightarrow> tr_to i = Con_revoked)" "co_status c \<in> set (tr_from i)"
  shows "connector_follows c (moved_connector i now c)"
proof -
  have "co_status c \<noteq> Con_revoked" using assms by auto
  with assms(1) show ?thesis by (simp add: connector_follows_def moved_connector_def identity_of_def)
qed

section \<open>The invariant\<close>

definition enrolled_with :: "string \<Rightarrow> connector_db \<Rightarrow> connector_record list" where
  "enrolled_with tid db = filter (\<lambda>c. co_enrolment_token_id c = Some tid) (cd_connectors db)"

definition connectors_ok :: "connector_db \<Rightarrow> bool" where
  "connectors_ok db \<longleftrightarrow>
     distinct (map et_id (cd_tokens db)) \<and> distinct (map et_token_hash (cd_tokens db)) \<and>
     distinct (map co_id (cd_connectors db)) \<and> distinct (map co_certificate_fingerprint (cd_connectors db)) \<and>
     (\<forall>c \<in> set (cd_connectors db). co_status c = Con_revoked \<longleftrightarrow> co_revoked_at c \<noteq> None) \<and>
     (\<forall>c \<in> set (cd_connectors db). \<exists>t \<in> set (cd_tokens db). co_enrolment_token_id c = Some (et_id t)) \<and>
     (\<forall>t \<in> set (cd_tokens db). length (enrolled_with (et_id t) db) = et_uses t \<and> et_uses t \<le> et_max_uses t)"

lemma connectors_okD:
  assumes "connectors_ok db"
  shows "distinct (map co_id (cd_connectors db))" "distinct (map co_certificate_fingerprint (cd_connectors db))"
    "\<And>c. c \<in> set (cd_connectors db) \<Longrightarrow> co_status c = Con_revoked \<longleftrightarrow> co_revoked_at c \<noteq> None"
    "\<And>c. c \<in> set (cd_connectors db) \<Longrightarrow> \<exists>t \<in> set (cd_tokens db). co_enrolment_token_id c = Some (et_id t)"
    "\<And>t. t \<in> set (cd_tokens db) \<Longrightarrow> length (enrolled_with (et_id t) db) = et_uses t"
    "\<And>t. t \<in> set (cd_tokens db) \<Longrightarrow> et_uses t \<le> et_max_uses t"
  using assms by (simp_all add: connectors_ok_def)

text \<open>A step that leaves the tokens alone and changes connectors in place keeps the invariant.\<close>

lemma list_all2_identity:
  assumes "list_all2 connector_follows t t'"
  shows "map identity_of t' = map identity_of t"
  using assms by (induction rule: list_all2_induct) (auto simp: connector_follows_def)

lemma identity_maps:
  assumes "map identity_of t' = map identity_of t"
  shows "map co_id t' = map co_id t" "map co_certificate_fingerprint t' = map co_certificate_fingerprint t"
    "map co_enrolment_token_id t' = map co_enrolment_token_id t"
proof -
  have "co_id = (\<lambda>i. fst (fst i)) \<circ> identity_of" "co_certificate_fingerprint = (\<lambda>i. fst (snd i)) \<circ> identity_of"
    "co_enrolment_token_id = (\<lambda>i. snd (snd (fst i))) \<circ> identity_of"
    by (auto simp: identity_of_def)
  with assms show "map co_id t' = map co_id t" "map co_certificate_fingerprint t' = map co_certificate_fingerprint t"
    "map co_enrolment_token_id t' = map co_enrolment_token_id t"
    by (metis map_map)+
qed

lemma count_column: "length (filter (\<lambda>r. f r = v) t) = count_list (map f t) v"
  by (induction t) auto

lemma in_place_ok:
  assumes ok: "connectors_ok db" and same: "cd_tokens db' = cd_tokens db"
    and rows: "list_all2 connector_follows (cd_connectors db) (cd_connectors db')"
  shows "connectors_ok db'"
proof -
  have maps: "map co_id (cd_connectors db') = map co_id (cd_connectors db)"
    "map co_certificate_fingerprint (cd_connectors db') = map co_certificate_fingerprint (cd_connectors db)"
    "map co_enrolment_token_id (cd_connectors db') = map co_enrolment_token_id (cd_connectors db)"
    using identity_maps [OF list_all2_identity [OF rows]] by simp_all
  have count: "length (enrolled_with tid d) = count_list (map co_enrolment_token_id (cd_connectors d)) (Some tid)" for tid d
    by (simp add: enrolled_with_def count_column)
  have "co_status c' = Con_revoked \<longleftrightarrow> co_revoked_at c' \<noteq> None" if c': "c' \<in> set (cd_connectors db')" for c'
  proof -
    obtain n where "n < length (cd_connectors db')" "c' = cd_connectors db' ! n" using c' by (auto simp: in_set_conv_nth)
    then have "cd_connectors db ! n \<in> set (cd_connectors db)" "connector_follows (cd_connectors db ! n) c'"
      using rows by (auto simp: list_all2_conv_all_nth)
    then show ?thesis using ok by (simp add: connectors_ok_def connector_follows_def)
  qed
  moreover have "\<exists>t \<in> set (cd_tokens db'). co_enrolment_token_id c' = Some (et_id t)" if "c' \<in> set (cd_connectors db')" for c'
  proof -
    have "co_enrolment_token_id c' \<in> set (map co_enrolment_token_id (cd_connectors db))"
      unfolding maps(3) [symmetric] using that by simp
    then show ?thesis using ok same by (auto simp: connectors_ok_def)
  qed
  ultimately show ?thesis using ok unfolding connectors_ok_def same maps count by blast
qed

section \<open>Every step keeps it\<close>

lemma observation_work_tables:
  assumes "observation_work x b db = Inr (v, db')"
  shows "cd_connectors db' = cd_connectors db" "cd_tokens db' = cd_tokens db"
proof -
  obtain o' row where v: "v = (o', row)" by fastforce
  have "insertObserved x b db = Inr ((o', row), db') \<or> (\<exists>w. updateObserved x b w db = Inr ((o', row), db'))"
    using assms v by (auto simp: observation_work_def Let_def r_then_eq_Inr split: option.splits)
  then show "cd_connectors db' = cd_connectors db" "cd_tokens db' = cd_tokens db"
    by (auto dest!: insertObserved_Inr(3) elim!: updateObserved_Inr)
qed

lemma registration_work_tables:
  assumes "registration_work digest i db = Inr (w, db')"
  shows "cd_connectors db' = cd_connectors db" "cd_tokens db' = cd_tokens db"
  using assms by (auto simp: registration_work_def Let_def newId_def r_bind_eq_Inr store_workspaces_Inr split: option.splits)

lemma plain_tables [simp]:
  "cd_connectors (seen_rows cid db) = cd_connectors db" "cd_tokens (seen_rows cid db) = cd_tokens db"
  "cd_connectors (used_rows gid db) = cd_connectors db" "cd_tokens (used_rows gid db) = cd_tokens db"
  "cd_connectors (snd (revoke_where p db)) = cd_connectors db" "cd_tokens (snd (revoke_where p db)) = cd_tokens db"
  "cd_connectors (expireNow gid db) = cd_connectors db" "cd_tokens (expireNow gid db) = cd_tokens db"
  by (simp_all add: seen_rows_def used_rows_def revoke_where_def expireNow_def)

lemma issue_insert_tables:
  "issue_insert digest i db = Inr (issued, db') \<Longrightarrow> cd_connectors db' = cd_connectors db \<and> cd_tokens db' = cd_tokens db"
  by (drule issue_insert_Inr(1)) auto

lemma ensureOrganisation_tables:
  "ensureOrganisation oid name db = Inr db' \<Longrightarrow> cd_connectors db' = cd_connectors db \<and> cd_tokens db' = cd_tokens db"
  by (auto simp: ensureOrganisation_def result_simps split: if_splits)

lemma heartbeat_in_place: "list_all2 connector_follows (cd_connectors db) (cd_connectors (heartbeat_rows cid db))"
  by (auto simp: heartbeat_rows_def update_where_def list_all2_conv_all_nth connector_follows_def identity_of_def)

lemma transition_in_place:
  assumes "i \<in> lifecycle_moves cid" "transition_connector_work i db = Inr (e, db')"
  shows "list_all2 connector_follows (cd_connectors db) (cd_connectors db')" "cd_tokens db' = cd_tokens db"
proof -
  have "list_all2 connector_follows (cd_connectors db) (cd_connectors db') \<and> cd_tokens db' = cd_tokens db"
    using assms(2)
  proof (cases rule: transition_connector_Inr)
    case 1
    then show ?thesis by (simp add: list_all2_refl)
  next
    case (2 c ev)
    then show ?thesis
      using lifecycle_from(1) [OF assms(1)]
      by (simp add: update_where_def list_all2_conv_all_nth moved_follows)
  qed
  then show "list_all2 connector_follows (cd_connectors db) (cd_connectors db')" "cd_tokens db' = cd_tokens db" by simp_all
qed

lemma in_place_follows: "list_all2 connector_follows (cd_connectors db) (cd_connectors db') \<Longrightarrow> identity_follows db db'"
  unfolding identity_follows_def by (intro exI [of _ "cd_connectors db'"] exI [of _ "[]"]) simp

lemma same_tables_ok:
  "connectors_ok db \<Longrightarrow> cd_tokens db' = cd_tokens db \<Longrightarrow> cd_connectors db' = cd_connectors db \<Longrightarrow> connectors_ok db'"
  by (rule in_place_ok) (auto intro!: list_all2_refl)

lemma issue_token_Inr:
  assumes "issue_token peers config caller body db = (Inr r, db')"
  obtains i where "cd_tokens db' = cd_tokens db @ [token_row i]" "cd_connectors db' = cd_connectors db" "1 \<le> ti_maxUses i"
    "distinct (map et_id (cd_tokens db'))" "distinct (map et_token_hash (cd_tokens db'))"
proof -
  obtain token db1 where one: "newEnrolmentToken db = (token, db1)" by fastforce
  obtain tid db2 where two: "newEnrolmentTokenId db1 = (tid, db2)" by fastforce
  from assms one two obtain i row where made: "createEnrolmentToken i db2 = Inr (row, db')"
    by (auto simp: issue_token_def r_bind_eq_Inr Let_def split: sum.splits)
  from one two have "db2 = db\<lparr>es_drawn := es_drawn db + 2\<rparr>" by (auto simp: new_connector_ids dest!: drawn_id)
  with made have "store_tokens (cd_tokens db @ [token_row i]) (db\<lparr>es_drawn := es_drawn db + 2\<rparr>) = Inr db'"
    by (auto simp: createEnrolmentToken_def r_bind_eq_Inr)
  then show ?thesis by (intro that [of i]) (auto simp: store_tokens_Inr token_row_def)
qed

text \<open>A new token has no connectors, since every connector names a token that is already there.\<close>

lemma new_token_ok:
  assumes ok: "connectors_ok db" and new: "cd_tokens db' = cd_tokens db @ [token_row i]" "cd_connectors db' = cd_connectors db"
    "distinct (map et_id (cd_tokens db'))" "distinct (map et_token_hash (cd_tokens db'))"
  shows "connectors_ok db'"
proof -
  have fresh: "et_id (token_row i) \<notin> et_id ` set (cd_tokens db)" using new(1,3) by simp
  have "co_enrolment_token_id c \<noteq> Some (et_id (token_row i))" if c: "c \<in> set (cd_connectors db)" for c
  proof -
    obtain t where "t \<in> set (cd_tokens db)" "co_enrolment_token_id c = Some (et_id t)"
      using connectors_okD(4) [OF ok c] by blast
    then show ?thesis using fresh by (metis image_eqI option.inject)
  qed
  then have none: "enrolled_with (et_id (token_row i)) db' = []" by (simp add: enrolled_with_def new(2) filter_empty_conv)
  have uses: "et_uses (token_row i) = 0" by (simp add: token_row_def)
  have same: "enrolled_with tid db' = enrolled_with tid db" for tid by (simp add: enrolled_with_def new(2))
  show ?thesis
    using ok new(3,4) none uses unfolding connectors_ok_def new(1,2) same by simp
qed

lemma token_in_place: "map et_id (update_where p (consumed_token now) t) = map et_id t"
  by (simp add: update_where_def consumed_token_def)

lemma enrol_ok:
  assumes ok: "connectors_ok db" and enrolled: "enrol_work peers config request key q db = Inr (out, db')"
  shows "connectors_ok db'"
  using enrolled
proof (rule enrol_work_Inr)
  fix t certificate
  let ?new = "connector_row_of (new_connector request t (eo_connectorId out) (eo_environmentId out) certificate) (es_now db)"
  assume found: "lockEnrolmentTokenByHash (hashEnrolmentToken peers (rr_enrolment_token request)) db = Some t"
    and tokens: "cd_tokens db' = update_where (\<lambda>u. et_id u = et_id t) (consumed_token (es_now db)) (cd_tokens db)"
    and conns: "cd_connectors db' = cd_connectors db @ [?new]"
    and dist: "distinct (map et_id (cd_tokens db'))" "distinct (map et_token_hash (cd_tokens db'))"
      "distinct (map co_id (cd_connectors db'))" "distinct (map co_certificate_fingerprint (cd_connectors db'))"
    and bound: "list_all (\<lambda>u. et_uses u \<le> et_max_uses u) (cd_tokens db')"
  have t: "t \<in> set (cd_tokens db)" using found by (auto simp: lockEnrolmentTokenByHash_def dest: find_Some_in)
  have new: "co_enrolment_token_id ?new = Some (et_id t)" "co_status ?new = Con_pending" "co_revoked_at ?new = None"
    by (simp_all add: connector_row_of_def new_connector_def)
  have ids: "et_id ` set (cd_tokens db') = et_id ` set (cd_tokens db)"
    unfolding tokens using token_in_place [of _ "es_now db" "cd_tokens db"] by (metis list.set_map)
  have count: "length (enrolled_with (et_id u) db') = et_uses u" if u: "u \<in> set (cd_tokens db')" for u
  proof -
    obtain u0 where u0: "u0 \<in> set (cd_tokens db)" "u = (if et_id u0 = et_id t then consumed_token (es_now db) u0 else u0)"
      using u unfolding tokens by (auto simp: in_update_where)
    have before: "length (enrolled_with (et_id u0) db) = et_uses u0" using connectors_okD(5) [OF ok u0(1)] .
    show ?thesis
    proof (cases "et_id u0 = et_id t")
      case True
      then show ?thesis using before u0(2) new(1) by (simp add: enrolled_with_def conns consumed_token_def)
    next
      case False
      then show ?thesis using before u0(2) new(1) by (simp add: enrolled_with_def conns)
    qed
  qed
  have named: "\<exists>u \<in> set (cd_tokens db'). co_enrolment_token_id c = Some (et_id u)" if "c \<in> set (cd_connectors db')" for c
  proof -
    have "\<exists>u \<in> set (cd_tokens db). co_enrolment_token_id c = Some (et_id u)"
      using that connectors_okD(4) [OF ok] new(1) t unfolding conns by auto
    then show ?thesis using ids by (metis imageE imageI)
  qed
  have status: "co_status c = Con_revoked \<longleftrightarrow> co_revoked_at c \<noteq> None" if "c \<in> set (cd_connectors db')" for c
    using that connectors_okD(3) [OF ok] new unfolding conns by auto
  show "connectors_ok db'"
    unfolding connectors_ok_def using dist bound count named status by (simp add: list_all_iff)
qed

theorem connector_txn_keeps:
  assumes "connector_txn peers config db db'"
  shows "connectors_ok db \<longrightarrow> connectors_ok db'" "identity_follows db db'"
proof -
  have "(connectors_ok db \<longrightarrow> connectors_ok db') \<and> identity_follows db db'"
    using assms
  proof cases
    case (issued_token caller body r)
    then show ?thesis by (auto elim!: issue_token_Inr intro: new_token_ok)
  next
    case (enrolled request key q out)
    have "identity_follows db db'"
      using enrolled by (rule enrol_work_Inr) (auto simp: identity_follows_def intro!: list_all2_refl)
    then show ?thesis using enrol_ok enrolled by blast
  next
    case (moved i cid e)
    then show ?thesis using transition_in_place in_place_ok in_place_follows by blast
  next
    case (beat cid)
    then show ?thesis using heartbeat_in_place in_place_ok in_place_follows by (simp add: heartbeat_rows_def)
  next
    case (observed x b v)
    then show ?thesis using observation_work_tables same_tables_ok by simp
  next
    case (registered digest ri w)
    then show ?thesis using registration_work_tables same_tables_ok by simp
  next
    case (logged input e)
    then show ?thesis using same_tables_ok by (auto dest!: appendEvent_Inr)
  next
    case (credited digest input issued)
    then show ?thesis using issue_insert_tables same_tables_ok by simp
  next
    case (ensured oid name)
    then show ?thesis using ensureOrganisation_tables same_tables_ok by simp
  qed (auto intro: same_tables_ok)
  then show "connectors_ok db \<longrightarrow> connectors_ok db'" "identity_follows db db'" by simp_all
qed

lemma connector_txns_keep:
  assumes "connector_txns peers config db db'"
  shows "connectors_ok db \<longrightarrow> connectors_ok db'" "identity_follows db db'"
  using assms
proof (induction rule: rtranclp_induct)
  case base
  show "connectors_ok db \<longrightarrow> connectors_ok db" "identity_follows db db" by simp_all
next
  case (step db1 db2)
  then show "connectors_ok db \<longrightarrow> connectors_ok db2" "identity_follows db db2"
    using connector_txn_keeps identities.transitive by blast+
qed

lemma revoked_row_stays:
  assumes "identity_follows db db'" "c \<in> set (cd_connectors db)" "co_status c = Con_revoked"
  shows "c \<in> set (cd_connectors db')"
proof -
  obtain old new where rows: "cd_connectors db' = old @ new" "list_all2 connector_follows (cd_connectors db) old"
    using assms(1) by (auto simp: identity_follows_def)
  obtain n where "n < length (cd_connectors db)" "c = cd_connectors db ! n" using assms(2) by (auto simp: in_set_conv_nth)
  then have "n < length old" "connector_follows c (old ! n)" using rows(2) by (simp_all add: list_all2_conv_all_nth)
  then show ?thesis using assms(3) rows(1) by (auto simp: connector_follows_def)
qed

section \<open>Every operation is a sequence of steps\<close>

interpretation connector_runs: kept_relation "connector_txns peers config" for peers config
  by unfold_locales auto

lemma keeps_moved: "i \<in> lifecycle_moves cid \<Longrightarrow> keeps (connector_txns peers config) (transitionConnector i)"
  by (auto simp: keeps_def transitionConnector_def inTransaction_def split: sum.splits intro: connector_txn.moved)

lemma keeps_logged: "keeps (connector_txns peers config) (inTransaction (appendEvent i))"
  by (auto simp: keeps_def inTransaction_def split: sum.splits intro: connector_txn.logged)

lemma keeps_heartbeat: "keeps (connector_txns peers config) (act_write (recordConnectorHeartbeat cid))"
  unfolding recordConnectorHeartbeat_def
  by (rule connector_runs.keeps_write) (meson connector_txn.beat connector_txn.seen r_into_rtranclp rtranclp_trans)

lemma moves [simp, intro]:
  "opened_transition cid \<in> lifecycle_moves cid" "heartbeat_transition cid \<in> lifecycle_moves cid"
  "closed_transition cid \<in> lifecycle_moves cid" "silent_transition secs cid \<in> lifecycle_moves cid"
  "delayed_transition secs cid \<in> lifecycle_moves cid" "revocation_transition cid actor payload \<in> lifecycle_moves cid"
  by (auto simp: lifecycle_moves_def)

lemma keeps_markConnected: "keeps (connector_txns peers config) (markConnected cid)"
  unfolding markConnected_def by (intro connector_runs.keeps_bind keeps_heartbeat keeps_moved [OF moves(1)])

lemma keeps_sweep_each:
  "(\<And>cid. t cid \<in> lifecycle_moves cid) \<Longrightarrow> keeps (connector_txns peers config) (sweep_each t cids)"
  by (induction cids) (auto intro!: connector_runs.keeps_bind intro: keeps_moved)

lemma keeps_sweep: "keeps (connector_txns peers config) (sweepConnectorHealth c)"
  unfolding sweepConnectorHealth_def by (intro connector_runs.keeps_bind connector_runs.keeps_basic keeps_sweep_each moves)

lemma keeps_log_each: "keeps (connector_txns peers config) (log_each is)"
  by (induction "is") (auto intro!: connector_runs.keeps_bind keeps_logged)

lemma keeps_issue: "keeps (connector_txns peers config) (issue digest i)"
  by (auto simp: keeps_def issue_def r_then_eq_Inr split: sum.splits prod.splits intro: connector_txn.credited)

lemma keeps_exchange: "keeps (connector_txns peers config) (exchange digest peer hash)"
  unfolding exchange_def case_prod_beta
  by (intro connector_runs.keeps_bind connector_runs.keeps_basic keeps_issue keeps_logged)

lemma keeps_sweep_credentials: "keeps (connector_txns peers config) (sweep_credentials cid)"
  by (auto simp: keeps_def sweep_credentials_def revokeIssuedToClient_def case_prod_beta intro: connector_txn.withdrawn)

lemma keeps_revocation:
  "keeps (connector_txns peers config) (revokeConnectorIdentity effects cid organisationId projectIds q actor reg)"
  unfolding revokeConnectorIdentity_def case_prod_beta Let_def
  by (intro connector_runs.keeps_bind connector_runs.keeps_basic keeps_sweep_credentials keeps_log_each
      keeps_moved [OF moves(6)])

lemma enrol_txns: "enrol peers config request q db = (r, db') \<Longrightarrow> connector_txns peers config db db'"
  by (auto simp: enrol_def inTransaction_def split: sum.splits intro: connector_txn.enrolled)

lemma handle_heartbeat_txns:
  assumes "handle_heartbeat cid now f db = (v, f', db')"
  shows "connector_txns peers config db db'"
proof -
  have beat: "connector_txns peers config db (recordConnectorHeartbeat cid db)"
    using keeps_heartbeat [of peers config cid] by (simp add: keeps_def act_simps)
  have move: "connector_txns peers config d (snd (transitionConnector (heartbeat_transition cid) d))" for d
    using keeps_moved [OF moves(2)] by (simp add: keeps_def)
  have "db' = db \<or> db' = snd (transitionConnector (heartbeat_transition cid) db) \<or>
      db' = snd (transitionConnector (heartbeat_transition cid) (recordConnectorHeartbeat cid db))"
    using assms by (auto simp: handle_heartbeat_def Let_def split: prod.splits sum.splits if_splits)
  then show ?thesis using beat move by (metis rtranclp.rtrancl_refl rtranclp_trans)
qed

end
