(* ===== verification/Connector_Samples.thy ===== *)
theory Connector_Samples
  imports Connector_Steps
begin

text \<open>
  A small deployment on which the witnesses run: an administrator issues a token, a connector enrols with it and is revoked.
\<close>

section \<open>A small deployment\<close>

definition draw :: "nat \<Rightarrow> byte list" where
  "draw n = of_nat n # replicate 31 0"

definition bare_db :: connector_db where
  "bare_db =
     \<lparr>es_now = 1000000000000, es_random = draw, es_drawn = 0, es_streams = Map.empty, es_events = [],
      es_outbox = [], cd_tokens = [], cd_environments = [], cd_connectors = [], cd_workspaces = [], cd_credentials = [],
      cd_organisations = [], cd_users = [],
      cd_projects = [\<lparr>pj_id = ''prj_1'', pj_organisation_id = ''org_1'', pj_slug = ''app'', pj_status = ''active''\<rparr>]\<rparr>"

definition plain_peers :: enrol_peers where
  "plain_peers =
     \<lparr>ep_sha256hex = (\<lambda>s. s),
      ep_issue = (\<lambda>cid key notAfter now. Inr \<lparr>ic_der = key, ic_fingerprint = cid, ic_serial = ''1'', ic_not_after = notAfter\<rparr>)\<rparr>"

definition plain_config :: connector_config where
  "plain_config =
     \<lparr>cc_organisationId = ''org_1'', cc_publicUrl = ''wss://c'', cc_dataUrl = ''wss://d'', cc_identityTtlDays = 365,
      cc_defaultTokenTtlSeconds = 3600, cc_heartbeatIntervalSeconds = 15, cc_degradedAfterSeconds = 45,
      cc_disconnectedAfterSeconds = 90\<rparr>"

definition plain_admin :: admin_principal where
  "plain_admin = \<lparr>ap_userId = Some ''usr_1'', ap_organisationId = Some ''org_1'', ap_credential = ''cookie''\<rparr>"

text \<open>The digest of the sample is the identity; the first draw is the token, the second its identifier.\<close>

definition plain_secret :: string where
  "plain_secret = fst (newEnrolmentToken bare_db)"

definition plain_token :: enrolment_token where
  "plain_token =
     token_row \<lparr>ti_id = fst (newEnrolmentTokenId (snd (newEnrolmentToken bare_db))), ti_organisationId = ''org_1'', ti_projectId = Some ''prj_1'',
       ti_tokenHash = plain_secret, ti_environmentLabels = [], ti_maxUses = 1, ti_expiresAt = 1003600000000, ti_createdBy = ''usr_1''\<rparr>"

definition token_db :: connector_db where
  "token_db = bare_db\<lparr>es_drawn := 2, cd_tokens := [plain_token]\<rparr>"

lemma sample_token:
  "issue_token plain_peers plain_config plain_admin [(''project_id'', JString ''prj_1'')] bare_db =
     (Inr (plain_secret, plain_token), token_db)"
proof -
  obtain s d1 where one: "newEnrolmentToken bare_db = (s, d1)" by fastforce
  obtain t d2 where two: "newEnrolmentTokenId d1 = (t, d2)" by fastforce
  have d2: "d2 = bare_db\<lparr>es_drawn := 2\<rparr>"
    using one two by (auto simp: new_connector_ids bare_db_def dest!: drawn_id)
  have made: "createEnrolmentToken
      \<lparr>ti_id = t, ti_organisationId = ''org_1'', ti_projectId = Some ''prj_1'', ti_tokenHash = s, ti_environmentLabels = [],
       ti_maxUses = 1, ti_expiresAt = 1003600000000, ti_createdBy = ''usr_1''\<rparr> d2 = Inr (plain_token, token_db)"
    using one two
    by (simp add: d2 createEnrolmentToken_def store_tokens_def refuse_if_def token_row_def plain_token_def plain_secret_def token_db_def
        bare_db_def)
  have "js_now d2 + 3600 * 1000000 = 1003600000000" by (simp add: d2 js_now_def bare_db_def)
  with made one two show ?thesis
    by (simp add: issue_token_def token_scope_def admin_project_def plain_admin_def plain_config_def plain_peers_def
        hashEnrolmentToken_def readBoundedInteger_def readLabels_def member_def bare_db_def plain_secret_def)
qed

definition plain_request :: registration_request where
  "plain_request =
     \<lparr>rr_enrolment_token = plain_secret, rr_public_key = ''AAAA'', rr_environment_name = ''laptop'',
      rr_platform = ''linux'', rr_architecture = ''amd64'', rr_labels = None, rr_version = ''1.0.0'', rr_capabilities = []\<rparr>"

definition event_members :: "string list" where
  "event_members =
     [''agent_credentials_revoked'', ''architecture'', ''branch'', ''capabilities'', ''certificate_fingerprint'', ''channels_closed'',
      ''connector_id'', ''connector_version'', ''credential_id'', ''dirty'', ''display_path'', ''enrolment_token_id'', ''environment_id'',
      ''environment_name'', ''expires_at'', ''head_commit'', ''identity_expires_at'', ''issued_for'', ''label'', ''new_status'', ''path_hash'',
      ''platform'', ''previous_branch'', ''previous_dirty'', ''previous_head_commit'', ''previous_status'', ''project_ids'', ''reason'',
      ''repository_identity'', ''request_id'', ''routes_revoked'', ''sessions_disconnected'', ''silent_for_seconds_at_least'', ''source'',
      ''trigger'', ''workspace_id'']"

lemma event_members_permitted: "list_all (\<lambda>k. \<not> key_refused k) event_members"
  by code_simp

lemmas event_members_ok = event_members_permitted [unfolded event_members_def, simplified]

text \<open>
  The events of the log have identifiers from draws already made, at most \<open>n\<close>, so the next append succeeds.
\<close>

definition log_ready :: "nat \<Rightarrow> connector_db \<Rightarrow> bool" where
  "log_ready n s \<longleftrightarrow> log_ok s \<and> es_random s = draw \<and> es_drawn s = n \<and>
     e_id ` set (es_events s) \<subseteq> (\<lambda>k. ''evt_'' @ randomSuffix (draw k)) ` {..<n}"

lemma log_ready_cong:
  "es_events s' = es_events s \<Longrightarrow> es_streams s' = es_streams s \<Longrightarrow> es_random s' = es_random s \<Longrightarrow> es_drawn s' = es_drawn s + k \<Longrightarrow>
   log_ready n s \<Longrightarrow> log_ready (n + k) s'"
  using log_ok_cong [of s' s] by (auto simp: log_ready_def)

lemma draw_fresh: "k < n \<Longrightarrow> n < 256 \<Longrightarrow> randomSuffix (draw n) \<noteq> randomSuffix (draw k)"
  by (simp add: randomSuffix_inject draw_def word_of_nat_eq_iff take_bit_eq_mod)

lemma next_is_fresh:
  assumes "log_ready n s" "n < 256"
  shows "fst (newId ''evt_'' s) \<notin> e_id ` set (es_events s)"
proof -
  have drawn: "fst (newId ''evt_'' s) = ''evt_'' @ randomSuffix (draw n)" using assms(1) by (simp add: newId_def log_ready_def)
  have sub: "e_id ` set (es_events s) \<subseteq> (\<lambda>k. ''evt_'' @ randomSuffix (draw k)) ` {..<n}"
    using assms(1) by (simp only: log_ready_def)
  have "randomSuffix (draw n) \<noteq> randomSuffix (draw k)" if "k < n" for k using draw_fresh [OF that assms(2)] .
  then have "''evt_'' @ randomSuffix (draw n) \<notin> (\<lambda>k. ''evt_'' @ randomSuffix (draw k)) ` {..<n}"
    by (simp add: image_iff)
  then show ?thesis unfolding drawn by (rule contra_subsetD [OF sub])
qed

lemma append_ready:
  assumes "log_ready n s" "n < 256" "\<not> carries_secret 0 (JObject (ai_payload i))" "\<not> carries_secret 0 (JObject (ai_correlation i))"
  obtains a where "appendEvent i s = Inr (a, appended i s)" "log_ready (Suc n) (appended i s)"
proof -
  have fresh: "fst (newId ''evt_'' s) \<notin> e_id ` set (es_events s)" using next_is_fresh [OF assms(1,2)] .
  have ok: "log_ok s" using assms(1) by (simp add: log_ready_def)
  have "log_ok (appended i s)" using log_ok_appended [OF ok fresh] .
  moreover have "es_drawn (appended i s) = Suc n" using assms(1) by (simp add: appended_def Let_def log_ready_def)
  ultimately have "log_ready (Suc n) (appended i s)"
    using assms(1) by (auto simp: log_ready_def appended_events event_of_def newId_def lessThan_Suc)
  moreover have "\<exists>a. appendEvent i s = Inr (a, appended i s)"
    using appendEvent_total [OF ok fresh assms(3,4)] .
  ultimately show ?thesis using that by blast
qed

lemma sample_enrolled:
  "\<exists>out db'. enrol_work plain_peers plain_config plain_request [0, 0, 0] ''req_1'' token_db = Inr (out, db') \<and> log_ready 6 db'"
proof -
  obtain cid d2 where two: "newConnectorId (token_db\<lparr>cd_tokens := [consumed_token 1000000000000 plain_token]\<rparr>) = (cid, d2)" by fastforce
  obtain eid d3 where three: "newEnvironmentId d2 = (eid, d3)" by fastforce
  have d3: "d3 = token_db\<lparr>cd_tokens := [consumed_token 1000000000000 plain_token], es_drawn := 4\<rparr>"
    using two three by (auto simp: new_connector_ids token_db_def dest!: drawn_id)
  have token: "token_checks plain_config plain_request (es_now token_db)
      (lockEnrolmentTokenByHash (hashEnrolmentToken plain_peers (rr_enrolment_token plain_request)) token_db) = Inr plain_token"
    by (simp add: token_checks_def lockEnrolmentTokenByHash_def hashEnrolmentToken_def plain_peers_def plain_request_def token_db_def
        plain_token_def token_row_def bare_db_def refuse_if_def plain_config_def)
  have consumed: "consumeEnrolmentToken (et_id plain_token) token_db =
      Inr (token_db\<lparr>cd_tokens := [consumed_token 1000000000000 plain_token]\<rparr>)"
    by (simp add: consumeEnrolmentToken_def store_tokens_def token_db_def update_where_def consumed_token_def plain_token_def token_row_def
        bare_db_def refuse_if_def)
  have no_secret: "\<not> carries_secret 0 (JObject (ai_payload (enrolled_event plain_request plain_token cid eid c n q)))"
    "\<not> carries_secret 0 (JObject (ai_correlation (enrolled_event plain_request plain_token cid eid c n q)))" for c n q
    by (simp_all add: enrolled_event_def connector_event_def event_members_ok plain_request_def)
  let ?notAfter = "identityExpiry plain_config (js_now token_db)"
  let ?cert = "\<lparr>ic_der = [0, 0, 0], ic_fingerprint = cid, ic_serial = ''1'', ic_not_after = ?notAfter\<rparr>"
  let ?d4 = "d3\<lparr>cd_environments := [environment_row_of (new_environment plain_request plain_token eid) (es_now d3)]\<rparr>"
  let ?d5 = "?d4\<lparr>cd_connectors := [connector_row_of (new_connector plain_request plain_token cid eid ?cert) (es_now d3)]\<rparr>"
  have cert: "ep_issue plain_peers cid [0, 0, 0] ?notAfter (js_now token_db) = Inr ?cert" by (simp add: plain_peers_def)
  have four: "insertEnvironment (new_environment plain_request plain_token eid) d3 = Inr ?d4"
    by (simp add: insertEnvironment_def store_environments_def refuse_if_def d3 token_db_def bare_db_def)
  have five: "insertConnector (new_connector plain_request plain_token cid eid ?cert) ?d4 = Inr ?d5"
    by (simp add: insertConnector_def store_connectors_def refuse_if_def d3 token_db_def bare_db_def connector_row_of_def new_connector_def
        environment_row_of_def new_environment_def consumed_token_def)
  have "log_ready 4 ?d5"
    by (simp add: log_ready_def log_ok_def stream_events_def stream_position_def d3 token_db_def bare_db_def)
  then obtain a where six: "appendEvent (enrolled_event plain_request plain_token cid eid ?cert ?notAfter ''req_1'') ?d5 =
      Inr (a, appended (enrolled_event plain_request plain_token cid eid ?cert ?notAfter ''req_1'') ?d5)"
    and "log_ready 5 (appended (enrolled_event plain_request plain_token cid eid ?cert ?notAfter ''req_1'') ?d5)"
    using append_ready [OF _ _ no_secret] by (metis Suc_numeral numeral_less_iff semiring_norm(2,5,8,26,27,28,75,76,78,79))
  let ?d6 = "appended (enrolled_event plain_request plain_token cid eid ?cert ?notAfter ''req_1'') ?d5"
  have "log_ready (5 + 1) (snd (newMessageId ?d6))"
    by (rule log_ready_cong [OF _ _ _ _ \<open>log_ready 5 ?d6\<close>]) (simp_all add: new_connector_ids prefixed_body_def randomBody_def)
  then show ?thesis
    using token consumed two three cert four five six by (simp add: enrol_work_def enrol_step_def case_prod_beta Let_def)
qed

definition person :: event_actor where
  "person = \<lparr>act_type = human_user, act_id = Some ''usr_1'', act_display = None\<rparr>"

lemma enrolled_history:
  obtains out db where "connector_txns plain_peers plain_config bare_db db" "log_ready 6 db"
    "enrol_work plain_peers plain_config plain_request [0, 0, 0] ''req_1'' token_db = Inr (out, db)"
proof -
  obtain out db where e: "enrol_work plain_peers plain_config plain_request [0, 0, 0] ''req_1'' token_db = Inr (out, db)" "log_ready 6 db"
    using sample_enrolled by blast
  have "connector_txns plain_peers plain_config bare_db db"
    using connector_txn.issued_token [OF sample_token] connector_txn.enrolled [OF e(1)] by (meson r_into_rtranclp rtranclp.rtrancl_into_rtrancl)
  with e that show ?thesis by blast
qed

text \<open>The connector of the sample as it enrolled, and its revocation.\<close>

lemma sample_connector:
  assumes "enrol_work plain_peers plain_config plain_request [0, 0, 0] ''req_1'' token_db = Inr (out, db)"
  obtains c where "cd_connectors db = [c]" "co_id c = eo_connectorId out" "co_status c = Con_pending" "co_organisation_id c = ''org_1''"
    "co_project_id c = Some ''prj_1''" "co_environment_id c = eo_environmentId out" "co_revoked_at c = None"
    "cd_tokens db = [consumed_token 1000000000000 plain_token]" "cd_credentials db = []" "cd_workspaces db = []" "es_now db = 1000000000000"
    "cd_projects db = cd_projects bare_db"
  using assms
proof (rule enrol_work_Inr)
  fix t certificate
  assume found: "lockEnrolmentTokenByHash (hashEnrolmentToken plain_peers (rr_enrolment_token plain_request)) token_db = Some t"
    and rows: "cd_connectors db = cd_connectors token_db @
       [connector_row_of (new_connector plain_request t (eo_connectorId out) (eo_environmentId out) certificate) (es_now token_db)]"
    "cd_tokens db = update_where (\<lambda>u. et_id u = et_id t) (consumed_token (es_now token_db)) (cd_tokens token_db)"
    "cd_credentials db = cd_credentials token_db" "cd_workspaces db = cd_workspaces token_db" "es_now db = es_now token_db"
    "cd_projects db = cd_projects token_db"
  have t: "t = plain_token" using found by (auto simp: lockEnrolmentTokenByHash_def token_db_def split: if_splits)
  have fields: "et_organisation_id plain_token = ''org_1''" "et_project_id plain_token = Some ''prj_1''"
    by (simp_all add: plain_token_def token_row_def)
  have start: "cd_connectors token_db = []" "cd_tokens token_db = [plain_token]" "cd_credentials token_db = []"
    "cd_workspaces token_db = []" "es_now token_db = 1000000000000" "cd_projects token_db = cd_projects bare_db"
    by (simp_all add: token_db_def bare_db_def)
  show ?thesis
    by (rule that [OF rows(1) [unfolded start append_Nil]])
      (simp_all add: rows start t fields connector_row_of_def new_connector_def update_where_def)
qed

lemma sample_revoked:
  assumes "cd_connectors db = [c]" "co_id c = cid" "co_status c = Con_pending" "log_ready n db" "n < 256"
  obtains e where "transition_connector_work (revocation_transition cid person (revocation_payload a b m k)) db =
      Inr (Some e, appended (transition_event (revocation_transition cid person (revocation_payload a b m k)) c)
        (db\<lparr>cd_connectors := [c\<lparr>co_status := Con_revoked, co_revoked_at := Some (es_now db)\<rparr>]\<rparr>))"
proof -
  let ?i = "revocation_transition cid person (revocation_payload a b m k)"
  let ?db = "db\<lparr>cd_connectors := [c\<lparr>co_status := Con_revoked, co_revoked_at := Some (es_now db)\<rparr>]\<rparr>"
  have i: "tr_connectorId ?i = cid" "Con_pending \<in> set (tr_from ?i)"
    "moved_connector ?i (es_now db) c = c\<lparr>co_status := Con_revoked, co_revoked_at := Some (es_now db)\<rparr>"
    by (simp_all add: revocation_transition_def LIVE_STATUSES_def moved_connector_def)
  have ready: "log_ready (n + 0) ?db" by (rule log_ready_cong [OF _ _ _ _ assms(4)]) simp_all
  have secrets: "\<not> carries_secret 0 (JObject (ai_payload (transition_event ?i c)))"
    "\<not> carries_secret 0 (JObject (ai_correlation (transition_event ?i c)))"
    by (simp_all add: transition_event_def connector_event_def revocation_transition_def revocation_payload_def json_num_def event_members_ok)
  obtain e where "appendEvent (transition_event ?i c) ?db = Inr (e, appended (transition_event ?i c) ?db)"
    using ready assms(5) secrets by (metis add.right_neutral append_ready)
  then show ?thesis
    using assms i by (intro that [of e]) (simp add: transition_connector_work_def Let_def update_where_def)
qed

section \<open>A checkout and a credential\<close>

definition plain_hash :: string where
  "plain_hash = ''sha256:'' @ replicate 64 (CHR ''0'')"

definition plain_observation :: workspace_observation where
  "plain_observation =
     \<lparr>wb_workspace_id = ''wsp_1'', wb_project_id = ''prj_1'', wb_path_hash = plain_hash, wb_display_label = ''app'',
      wb_repository_identity = None, wb_branch = ''main'', wb_head_commit = ''0123456'', wb_dirty = False\<rparr>"

lemma plain_shapes: "path_hash_shape plain_hash" "commit_shape ''0123456''" "label_shape ''app''"
  by code_simp+

lemma sample_observed:
  assumes "cd_workspaces db = []" "cd_projects db = cd_projects bare_db" "co_organisation_id c = ''org_1''"
    "co_project_id c = Some ''prj_1''" "log_ready n db" "n < 256"
  obtains v where "observation_work (observation_context_of c ''msg_1'') plain_observation db =
      Inr (v, appended (observed_event (observation_context_of c ''msg_1'') plain_observation
          (observed_row (observation_context_of c ''msg_1'') plain_observation (es_now db)))
        (db\<lparr>cd_workspaces := [observed_row (observation_context_of c ''msg_1'') plain_observation (es_now db)]\<rparr>))"
    "log_ready (Suc n) (appended (observed_event (observation_context_of c ''msg_1'') plain_observation
          (observed_row (observation_context_of c ''msg_1'') plain_observation (es_now db)))
        (db\<lparr>cd_workspaces := [observed_row (observation_context_of c ''msg_1'') plain_observation (es_now db)]\<rparr>))"
proof -
  let ?x = "observation_context_of c ''msg_1''"
  let ?row = "observed_row ?x plain_observation (es_now db)"
  let ?db = "db\<lparr>cd_workspaces := [?row]\<rparr>"
  have ready: "log_ready (n + 0) ?db" by (rule log_ready_cong [OF _ _ _ _ assms(5)]) simp_all
  have secrets: "\<not> carries_secret 0 (JObject (ai_payload (observed_event ?x plain_observation ?row)))"
    "\<not> carries_secret 0 (JObject (ai_correlation (observed_event ?x plain_observation ?row)))"
    by (simp_all add: observed_event_def workspace_event_def connector_event_def opt_str_def event_members_ok observed_row_def plain_observation_def)
  obtain a where a: "appendEvent (observed_event ?x plain_observation ?row) ?db = Inr (a, appended (observed_event ?x plain_observation ?row) ?db)"
    and next': "log_ready (Suc n) (appended (observed_event ?x plain_observation ?row) ?db)"
    using append_ready [OF ready [simplified] assms(6) secrets] by blast
  have row: "workspace_row_ok ?row" "workspaces_unique [?row]"
    using plain_shapes by (simp_all add: workspace_row_ok_def workspaces_unique_def observed_row_def plain_observation_def)
  have "insertObserved ?x plain_observation db = Inr ((Observed_created, ?row), appended (observed_event ?x plain_observation ?row) ?db)"
    using a row assms(1) by (simp add: insertObserved_def Let_def refuse_if_def MAX_WORKSPACES_PER_ENVIRONMENT_def observation_step_def)
  moreover have "assertProjectAuthorised ?x (wb_project_id plain_observation) db = ok"
    using assms(2-4) by (simp add: assertProjectAuthorised_def observation_context_of_def plain_observation_def bare_db_def refuse_if_def)
  moreover have "candidates ?x plain_observation db = []" using assms(1) by (simp add: candidates_def)
  ultimately show ?thesis using next' by (intro that) (simp_all add: observation_work_def)
qed

lemma sample_exchange:
  assumes "connectors_ok db" "c \<in> set (cd_connectors db)" "co_revoked_at c = None" "co_organisation_id c = ''org_1''"
    "co_project_id c = Some ''prj_1''" "cd_projects db = cd_projects bare_db" "cd_credentials db = []"
    "cd_workspaces db = [observed_row (observation_context_of c ''msg_1'') plain_observation t]" "log_ready n db" "n < 200"
    "es_now db = 1000000000000"
  obtains issued db' where "exchange (\<lambda>s. s) (Some (co_certificate_fingerprint c)) (JString plain_hash) db = (Inr issued, db')"
    "log_ready (Suc (n + 2)) db'" "cd_connectors db' = cd_connectors db" "es_now db' = es_now db"
proof -
  let ?w = "observed_row (observation_context_of c ''msg_1'') plain_observation t"
  let ?i = "bridge_input c ?w"
  have w: "wo_project_id ?w = ''prj_1''" "wo_path_hash ?w = plain_hash" "wo_environment_id ?w = Some (co_environment_id c)"
    "wo_organisation_id ?w = ''org_1''"
    using assms(4) by (simp_all add: observed_row_def plain_observation_def observation_context_of_def)
  have "findConnectorByFingerprint (co_certificate_fingerprint c) db = Some c"
    unfolding findConnectorByFingerprint_def by (rule find_Some_iff_distinct [OF connectors_okD(2) [OF assms(1)] assms(2)])
  then have who: "current_connector (Some (co_certificate_fingerprint c)) db = Inr c"
    using assms(3) by (simp add: current_connector_def refuse_if_def)
  have project: "cd_projects db = [\<lparr>pj_id = ''prj_1'', pj_organisation_id = ''org_1'', pj_slug = ''app'', pj_status = ''active''\<rparr>]"
    using assms(6) by (simp add: bare_db_def)
  have checks: "exchange_checks (Some (co_certificate_fingerprint c)) (JString plain_hash) db = Inr (c, ?w)"
    using who w plain_shapes(1) assms(4,5)
    by (simp add: exchange_checks_def bridge_workspace_def assms(8) project)
  have input: "is_projectIds ?i = [''prj_1'']" "is_organisationId ?i = ''org_1''" "is_capabilities ?i = BRIDGE_CAPABILITIES" "issue_ttl ?i = 3600"
    using w assms(4) by (simp_all add: bridge_input_def issue_ttl_def BRIDGE_CREDENTIAL_TTL_SECONDS_def)
  have allowed: "issue_checks ?i db = ok"
    by (simp add: issue_checks_def input project refuse_if_def BRIDGE_CAPABILITIES_def AGENT_CAPABILITIES_def AGENT_CREDENTIAL_MAX_TTL_SECONDS_def)
  have row: "credential_row_ok (issued_row (\<lambda>s. s) ?i gid token 1000000000000)" for gid token
    by (simp add: credential_row_ok_def issued_row_def input credential_expiry_def BRIDGE_CAPABILITIES_def AGENT_CAPABILITIES_def)
  obtain issued db1 where made: "issue_insert (\<lambda>s. s) ?i db = Inr (issued, db1)"
    by (simp add: issue_insert_def randomBody_def newId_def Let_def store_credentials_def assms(7,11) refuse_if_def row)
  have after: "db1 = db\<lparr>es_drawn := es_drawn db + 2, cd_credentials := cd_credentials db1\<rparr>"
    using issue_insert_Inr(1) [OF made] by auto
  have small: "n + 2 < 256" using assms(10) by simp
  have "log_ready (n + 2) db1" by (rule log_ready_cong [OF _ _ _ _ assms(9)]) (subst after, simp)+
  moreover have "\<not> carries_secret 0 (JObject (ai_payload (credential_issued_event c ?w issued)))"
    "\<not> carries_secret 0 (JObject (ai_correlation (credential_issued_event c ?w issued)))"
  proof -
    have "\<not> list_ex (carries_secret k) (map JString ss)" for k ss by (induction ss) simp_all
    then show "\<not> carries_secret 0 (JObject (ai_payload (credential_issued_event c ?w issued)))"
      "\<not> carries_secret 0 (JObject (ai_correlation (credential_issued_event c ?w issued)))"
      by (simp_all add: credential_issued_event_def connector_event_def event_members_ok)
  qed
  ultimately obtain a where logged: "appendEvent (credential_issued_event c ?w issued) db1 = Inr (a, appended (credential_issued_event c ?w issued) db1)"
    "log_ready (Suc (n + 2)) (appended (credential_issued_event c ?w issued) db1)"
    using append_ready small by blast
  have run: "exchange (\<lambda>s. s) (Some (co_certificate_fingerprint c)) (JString plain_hash) db =
      (Inr issued, appended (credential_issued_event c ?w issued) db1)"
    using checks allowed made logged(1) by (simp add: exchange_def act_bind_def act_read_def act_return_def issue_def)
  have "cd_connectors db1 = cd_connectors db" "es_now db1 = es_now db" by (subst after, simp)+
  then show ?thesis by (intro that [OF run logged(2)]) simp_all
qed

text \<open>A history after which the machine has enrolled and reported its checkout.\<close>

lemma sample_checkout:
  obtains c db where "connector_txns plain_peers plain_config bare_db db" "cd_connectors db = [c]" "co_status c = Con_pending"
    "co_organisation_id c = ''org_1''" "co_project_id c = Some ''prj_1''" "co_revoked_at c = None" "cd_credentials db = []"
    "cd_workspaces db = [observed_row (observation_context_of c ''msg_1'') plain_observation 1000000000000]"
    "cd_projects db = cd_projects bare_db" "es_now db = 1000000000000" "log_ready 7 db"
proof -
  obtain out db where h: "connector_txns plain_peers plain_config bare_db db" "log_ready 6 db"
    "enrol_work plain_peers plain_config plain_request [0, 0, 0] ''req_1'' token_db = Inr (out, db)"
    using enrolled_history by blast
  obtain c where c: "cd_connectors db = [c]" "co_status c = Con_pending" "co_organisation_id c = ''org_1''" "co_project_id c = Some ''prj_1''"
    "co_revoked_at c = None" "cd_credentials db = []" "cd_workspaces db = []" "es_now db = 1000000000000" "cd_projects db = cd_projects bare_db"
    using h(3) by (rule sample_connector)
  let ?row = "observed_row (observation_context_of c ''msg_1'') plain_observation (es_now db)"
  let ?db = "appended (observed_event (observation_context_of c ''msg_1'') plain_observation ?row) (db\<lparr>cd_workspaces := [?row]\<rparr>)"
  obtain v where v: "observation_work (observation_context_of c ''msg_1'') plain_observation db = Inr (v, ?db)"
    and ready: "log_ready (Suc 6) ?db"
    by (rule sample_observed [OF c(7,9,3,4) h(2)]) simp
  have run: "connector_txns plain_peers plain_config bare_db ?db"
    using h(1) connector_txn.observed [OF v] by (meson rtranclp.rtrancl_into_rtrancl)
  show ?thesis by (rule that [OF run, of c]) (use c ready in simp_all)
qed

end
