(* ===== verification/Connector_Properties.thy ===== *)
theory Connector_Properties
  imports Connector_Samples
begin

text \<open>
  What holds of connectors in every history: how often a token is used, what an enrolment is bound to, that revocation is
  final, what a connector's agents are given, and what revocation does and does not reach.
\<close>

section \<open>Credentials by their token\<close>

lemma find_digest:
  assumes "distinct (map gc_token_sha256 gs)" "g \<in> set gs" "credential_live now g"
  shows "List.find (\<lambda>h. gc_token_sha256 h = gc_token_sha256 g \<and> credential_live now h) gs = Some g"
  using assms
proof (induction gs)
  case (Cons h gs)
  then show ?case by (cases "g = h") (force simp: image_iff)+
qed simp

lemma resolve_stored:
  assumes "distinct (map gc_token_sha256 (cd_credentials db))" "g \<in> set (cd_credentials db)"
    "gc_token_sha256 g = digest token" "token = AGENT_TOKEN_PREFIX @ body" "credential_live (es_now db) g"
  shows "resolve_credential digest (Some token) db = (Some g, used_rows (gc_id g) db)"
proof -
  have "live_by_digest (digest token) db = Some g"
    unfolding live_by_digest_def using find_digest [OF assms(1,2,5)] assms(3) by simp
  moreover have "looksLikeAgentToken token" "token \<noteq> []"
    by (simp_all add: assms(4) looksLikeAgentToken_def AGENT_TOKEN_PREFIX_def)
  ultimately show ?thesis by (simp add: resolve_credential_def)
qed

lemma bridge_expiry: "credential_expiry now (issue_ttl (bridge_input c w)) = now div 1000 * 1000 + 3600000000"
proof -
  have "rat_of_nat (now div 1000) + 3600 * 1000 = of_int (int (now div 1000) + 3600000)" by simp
  then have "\<lfloor>rat_of_nat (now div 1000) + 3600 * 1000\<rfloor> = int (now div 1000) + 3600000" by (simp only: floor_of_int)
  then show ?thesis
    by (simp add: credential_expiry_def issue_ttl_def bridge_input_def BRIDGE_CREDENTIAL_TTL_SECONDS_def nat_add_distrib)
qed

lemma exchange_Inr:
  assumes "exchange digest peer hash db = (Inr issued, db')"
  obtains c w db1 where "exchange_checks peer hash db = Inr (c, w)" "issue_insert digest (bridge_input c w) db = Inr (issued, db1)"
    "db' = appended (credential_issued_event c w issued) db1"
proof -
  from assms obtain c w where checks: "exchange_checks peer hash db = Inr (c, w)"
    by (auto simp: exchange_def act_bind_def act_read_def split: sum.splits prod.splits)
  then have rest: "act_bind (issue digest (bridge_input c w)) (\<lambda>issued.
      act_bind (inTransaction (appendEvent (credential_issued_event c w issued))) (\<lambda>_. act_return issued)) db = (Inr issued, db')"
    using assms by (simp add: exchange_def act_bind_def act_read_def)
  obtain r db1 where first: "issue digest (bridge_input c w) db = (r, db1)" by fastforce
  with rest obtain i where r: "r = Inr i" by (cases r) (simp_all add: act_bind_def)
  with first rest have "act_bind (inTransaction (appendEvent (credential_issued_event c w i))) (\<lambda>_. act_return i) db1 = (Inr issued, db')"
    by (simp add: act_bind_def)
  then have "i = issued" "\<exists>e. appendEvent (credential_issued_event c w i) db1 = Inr (e, db')"
    by (auto simp: act_bind_def act_return_def inTransaction_def split: sum.splits prod.splits)
  with that checks first r show ?thesis by (auto simp: issue_Inr dest!: appendEvent_Inr)
qed

section \<open>Refusals\<close>

lemma found_by_fingerprint:
  "connectors_ok db \<Longrightarrow> c \<in> set (cd_connectors db) \<Longrightarrow> findConnectorByFingerprint (co_certificate_fingerprint c) db = Some c"
  unfolding findConnectorByFingerprint_def by (rule find_Some_iff_distinct) (auto dest: connectors_okD)

lemma revoked_refused:
  assumes "connectors_ok db" "c \<in> set (cd_connectors db)" "co_status c = Con_revoked"
  shows "control_guard (Some (co_certificate_fingerprint c)) db = Inl ''IDENTITY_REVOKED''"
    "exchange_checks (Some (co_certificate_fingerprint c)) hash db = Inl authentication_required"
proof -
  have "co_revoked_at c \<noteq> None" using connectors_okD(3) [OF assms(1,2)] assms(3) by simp
  with found_by_fingerprint [OF assms(1,2)]
  show "control_guard (Some (co_certificate_fingerprint c)) db = Inl ''IDENTITY_REVOKED''"
    "exchange_checks (Some (co_certificate_fingerprint c)) hash db = Inl authentication_required"
    by (simp_all add: control_guard_def exchange_checks_def current_connector_def refuse_if_def)
qed

text \<open>A database before any token was issued.\<close>

definition no_connectors :: "connector_db \<Rightarrow> bool" where
  "no_connectors db \<longleftrightarrow> cd_tokens db = [] \<and> cd_connectors db = []"

lemma no_connectors_ok: "no_connectors db \<Longrightarrow> connectors_ok db"
  by (simp add: no_connectors_def connectors_ok_def)

lemma reached_ok: "no_connectors db0 \<Longrightarrow> connector_txns peers config db0 db \<Longrightarrow> connectors_ok db"
  using connector_txns_keep(1) no_connectors_ok by blast

section \<open>Tokens and identities\<close>

text \<open>C14: In every history the number of connectors that enrolled with a token is exactly its recorded uses, which never exceed the
  uses it was issued for, and every connector enrolled with a recorded token: a one-time token enrols at most one machine
  however many present it at once.\<close>

theorem token_uses_are_connectors:
  assumes "no_connectors db0" "connector_txns peers config db0 db"
  shows "(\<forall>t \<in> set (cd_tokens db). length (enrolled_with (et_id t) db) = et_uses t \<and> et_uses t \<le> et_max_uses t) \<and>
    (\<forall>c \<in> set (cd_connectors db). \<exists>t \<in> set (cd_tokens db). co_enrolment_token_id c = Some (et_id t))"
proof -
  have ok: "connectors_ok db" using reached_ok [OF assms] .
  show ?thesis using connectors_okD(4-6) [OF ok] by simp
qed

lemma bare_no_connectors: "no_connectors bare_db"
  by (simp add: no_connectors_def bare_db_def)

theorem token_uses_are_connectors_witness:
  "\<exists>db. connector_txns plain_peers plain_config bare_db db \<and> no_connectors bare_db \<and>
     (\<exists>t \<in> set (cd_tokens db). length (enrolled_with (et_id t) db) = 1 \<and> et_max_uses t = 1)"
proof -
  obtain out db where h: "connector_txns plain_peers plain_config bare_db db"
    "enrol_work plain_peers plain_config plain_request [0, 0, 0] ''req_1'' token_db = Inr (out, db)"
    using enrolled_history by blast
  from h(2) have tokens: "cd_tokens db = [consumed_token 1000000000000 plain_token]" by (rule sample_connector)
  have "et_uses (consumed_token 1000000000000 plain_token) = 1" "et_max_uses (consumed_token 1000000000000 plain_token) = 1"
    by (simp_all add: consumed_token_def plain_token_def token_row_def)
  with token_uses_are_connectors [OF bare_no_connectors h(1)] tokens h(1) bare_no_connectors show ?thesis by auto
qed

text \<open>C13: Revocation is final. Once a connector is revoked its row never changes again, whatever transactions follow, and with its
  certificate the control channel is refused as revoked and the exchange for agent credentials as unauthenticated.\<close>

theorem revoked_identity_is_final:
  assumes "no_connectors db0" "connector_txns peers config db0 db" "c \<in> set (cd_connectors db)" "co_status c = Con_revoked"
    and "connector_txns peers config db db'"
  shows "c \<in> set (cd_connectors db') \<and>
    control_guard (Some (co_certificate_fingerprint c)) db' = Inl ''IDENTITY_REVOKED'' \<and>
    exchange digest (Some (co_certificate_fingerprint c)) hash db' = (Inl authentication_required, db')"
proof -
  have ok: "connectors_ok db'" using reached_ok [OF assms(1)] assms(2,5) by (meson rtranclp_trans)
  have c: "c \<in> set (cd_connectors db')" using revoked_row_stays [OF connector_txns_keep(2) [OF assms(5)] assms(3,4)] .
  show ?thesis
    using c revoked_refused [OF ok c assms(4)] by (simp add: exchange_def act_bind_def act_read_def)
qed

theorem revoked_identity_is_final_witness:
  "\<exists>db c. no_connectors bare_db \<and> connector_txns plain_peers plain_config bare_db db \<and> c \<in> set (cd_connectors db) \<and>
     control_guard (Some (co_certificate_fingerprint c)) db = Inl ''IDENTITY_REVOKED''"
proof -
  obtain out db where h: "connector_txns plain_peers plain_config bare_db db" "log_ready 6 db"
    "enrol_work plain_peers plain_config plain_request [0, 0, 0] ''req_1'' token_db = Inr (out, db)"
    using enrolled_history by blast
  obtain c where c: "cd_connectors db = [c]" "co_id c = eo_connectorId out" "co_status c = Con_pending"
    using h(3) by (rule sample_connector)
  obtain e where r: "transition_connector_work (revocation_transition (eo_connectorId out) person (revocation_payload 0 0 0 0)) db =
      Inr (Some e, appended (transition_event (revocation_transition (eo_connectorId out) person (revocation_payload 0 0 0 0)) c)
        (db\<lparr>cd_connectors := [c\<lparr>co_status := Con_revoked, co_revoked_at := Some (es_now db)\<rparr>]\<rparr>))" (is "_ = Inr (_, ?db')")
    by (rule sample_revoked [OF c h(2)]) simp_all
  let ?c = "c\<lparr>co_status := Con_revoked, co_revoked_at := Some (es_now db)\<rparr>"
  have c': "?c \<in> set (cd_connectors ?db')" "co_status ?c = Con_revoked" by simp_all
  have run: "connector_txns plain_peers plain_config bare_db ?db'"
    using h(1) connector_txn.moved [OF moves(6) r] by (meson rtranclp.rtrancl_into_rtrancl)
  show ?thesis
    using revoked_identity_is_final [OF bare_no_connectors run c' rtranclp.rtrancl_refl] run c' bare_no_connectors by blast
qed

section \<open>Enrolment\<close>

lemma enrol_refused:
  assumes "enrol_work peers config request key q db = Inl failure"
  shows "(\<exists>reason. failure = EnrolmentRefused ENROLMENT_TOKEN_INVALID reason) \<longleftrightarrow>
    (\<nexists>t. token_checks config request (es_now db)
       (lockEnrolmentTokenByHash (hashEnrolmentToken peers (rr_enrolment_token request)) db) = Inr t)"
proof (cases "token_checks config request (es_now db)
    (lockEnrolmentTokenByHash (hashEnrolmentToken peers (rr_enrolment_token request)) db)")
  case (Inl e)
  then have "\<exists>reason. e = EnrolmentRefused ENROLMENT_TOKEN_INVALID reason"
    by (auto simp: token_checks_def token_refused_def result_simps split: option.splits)
  moreover have "failure = e" using Inl assms by (simp add: enrol_work_def)
  ultimately show ?thesis using Inl by simp
next
  case (Inr t)
  have "\<exists>f. failure = Enrol_thrown f"
    using assms Inr by (auto simp: enrol_work_def r_bind_eq_Inl Let_def case_prod_beta enrol_step_def split: sum.splits)
  then show ?thesis using Inr by auto
qed

text \<open>C28: A served enrolment used a token with the presented secret that was neither revoked, expired nor used up, of this
  organisation and with no label the machine lacks. It adds exactly one connector, waiting, in the token's organisation and
  project, with the certificate that was issued to it, one environment, one use of the token and one event. Any refusal changes
  nothing, and whatever is wrong with a token the refusal has the same class.\<close>

theorem enrolment_follows_token:
  assumes "enrol peers config request q db = (r, db')" "decodePublicKey (rr_public_key request) = Inr key"
  shows "case r of
      Inr out \<Rightarrow> \<exists>t \<in> set (cd_tokens db). \<exists>c e.
        et_token_hash t = hashEnrolmentToken peers (rr_enrolment_token request) \<and> et_revoked_at t = None \<and>
        es_now db div 1000 < et_expires_at t div 1000 \<and> et_uses t < et_max_uses t \<and> et_organisation_id t = cc_organisationId config \<and>
        set (et_environment_labels t) \<subseteq> set (declared_labels request) \<and>
        cd_connectors db' = cd_connectors db @ [c] \<and> co_id c = eo_connectorId out \<and> co_status c = Con_pending \<and>
        co_organisation_id c = et_organisation_id t \<and> co_project_id c = et_project_id t \<and> co_enrolment_token_id c = Some (et_id t) \<and>
        co_certificate_fingerprint c = eo_certificateFingerprint out \<and>
        co_certificate_fingerprint c \<notin> co_certificate_fingerprint ` set (cd_connectors db) \<and>
        map ev_id (cd_environments db') = map ev_id (cd_environments db) @ [co_environment_id c] \<and>
        cd_tokens db' = update_where (\<lambda>u. et_id u = et_id t) (consumed_token (es_now db)) (cd_tokens db) \<and>
        es_events db' = es_events db @ [e] \<and> e_type e = ''connector.enrolled''
    | Inl failure \<Rightarrow> db' = db \<and>
        ((\<nexists>t. token_checks config request (es_now db)
            (lockEnrolmentTokenByHash (hashEnrolmentToken peers (rr_enrolment_token request)) db) = Inr t) \<longleftrightarrow>
         (\<exists>reason. failure = EnrolmentRefused ENROLMENT_TOKEN_INVALID reason))"
proof (cases "enrol_work peers config request key q db")
  case (Inl failure)
  then have "r = Inl failure" "db' = db" using assms by (simp_all add: enrol_def)
  then show ?thesis using enrol_refused [OF Inl] by auto
next
  case (Inr p)
  obtain out d where p: "p = (out, d)" by fastforce
  have r: "r = Inr out" "db' = d" using assms Inr p by (simp_all add: enrol_def)
  from Inr [unfolded p] show ?thesis
  proof (rule enrol_work_Inr)
    fix t certificate
    let ?c = "connector_row_of (new_connector request t (eo_connectorId out) (eo_environmentId out) certificate) (es_now db)"
    assume found: "lockEnrolmentTokenByHash (hashEnrolmentToken peers (rr_enrolment_token request)) db = Some t"
      and checks: "token_checks config request (es_now db) (Some t) = Inr t"
      and rows: "eo_certificateFingerprint out = ic_fingerprint certificate"
        "cd_tokens d = update_where (\<lambda>u. et_id u = et_id t) (consumed_token (es_now db)) (cd_tokens db)"
        "cd_environments d = cd_environments db @ [environment_row_of (new_environment request t (eo_environmentId out)) (es_now db)]"
        "cd_connectors d = cd_connectors db @ [?c]" "distinct (map co_certificate_fingerprint (cd_connectors d))"
        "\<exists>e. es_events d = es_events db @ [e] \<and> e_type e = ''connector.enrolled'' \<and> e_organisation_id e = et_organisation_id t \<and>
           e_project_id e = et_project_id t \<and> e_actor e = con_actor (eo_connectorId out)"
    have t: "t \<in> set (cd_tokens db)" "et_token_hash t = hashEnrolmentToken peers (rr_enrolment_token request)"
      using found by (auto simp: lockEnrolmentTokenByHash_def dest: find_Some_in)
    have c: "co_id ?c = eo_connectorId out" "co_status ?c = Con_pending" "co_organisation_id ?c = et_organisation_id t"
      "co_project_id ?c = et_project_id t" "co_enrolment_token_id ?c = Some (et_id t)"
      "co_certificate_fingerprint ?c = ic_fingerprint certificate" "co_environment_id ?c = eo_environmentId out"
      by (simp_all add: connector_row_of_def new_connector_def)
    have env: "map ev_id (cd_environments d) = map ev_id (cd_environments db) @ [co_environment_id ?c]"
      unfolding rows(3) c by (simp add: environment_row_of_def new_environment_def)
    have fresh: "co_certificate_fingerprint ?c \<notin> co_certificate_fingerprint ` set (cd_connectors db)"
      using rows(5) unfolding rows(4) by simp
    obtain e where e: "es_events d = es_events db @ [e]" "e_type e = ''connector.enrolled''" using rows(6) by blast
    show ?thesis
      unfolding r sum.case
      using t checks [unfolded token_checks_Inr] rows(1,2,4) c env fresh e
      by (intro bexI [OF _ t(1)] exI [of _ ?c] exI [of _ e]) simp
  qed
qed

theorem enrolment_follows_token_witness:
  "\<exists>out db'. decodePublicKey (rr_public_key plain_request) = Inr [0, 0, 0] \<and>
     enrol plain_peers plain_config plain_request ''req_1'' token_db = (Inr out, db') \<and>
     (\<exists>t \<in> set (cd_tokens token_db). \<exists>c. cd_connectors db' = cd_connectors token_db @ [c] \<and> co_enrolment_token_id c = Some (et_id t))"
proof -
  obtain out db where e: "enrol_work plain_peers plain_config plain_request [0, 0, 0] ''req_1'' token_db = Inr (out, db)"
    using sample_enrolled by blast
  have "base64_decode ''AAAA'' = [0, 0, 0]" by code_simp
  then have key: "decodePublicKey (rr_public_key plain_request) = Inr [0, 0, 0]"
    by (simp add: decodePublicKey_def plain_request_def refuse_if_def)
  then have run: "enrol plain_peers plain_config plain_request ''req_1'' token_db = (Inr out, db)" using e by (simp add: enrol_def)
  show ?thesis using enrolment_follows_token [OF run key] key run by auto
qed

section \<open>What a connector obtains for its agents\<close>

definition later :: "nat \<Rightarrow> connector_db \<Rightarrow> connector_db" where
  "later now db = db\<lparr>es_now := now\<rparr>"

lemma exchanged_credential_resolves:
  assumes "exchange digest peer hash db = (Inr issued, db')"
  shows "\<exists>c \<in> set (cd_connectors db). \<exists>w \<in> set (cd_workspaces db). \<exists>g.
    peer = Some (co_certificate_fingerprint c) \<and> co_revoked_at c = None \<and> hash = JString (wo_path_hash w) \<and>
    wo_environment_id w = Some (co_environment_id c) \<and> wo_organisation_id w = co_organisation_id c \<and>
    (co_project_id c = None \<or> co_project_id c = Some (wo_project_id w)) \<and>
    gc_organisation_id g = co_organisation_id c \<and> gc_project_ids g = [wo_project_id w] \<and> gc_capabilities g = BRIDGE_CAPABILITIES \<and>
    gc_issued_to_client g = Some (co_id c) \<and>
    fst (resolve_credential digest (Some (id_token issued)) (later now db')) =
      (if now < es_now db div 1000 * 1000 + 3600000000 then Some g else None)"
  using assms
proof (rule exchange_Inr)
  fix c w db1
  assume checks: "exchange_checks peer hash db = Inr (c, w)" and made: "issue_insert digest (bridge_input c w) db = Inr (issued, db1)"
    and db': "db' = appended (credential_issued_event c w issued) db1"
  obtain p where who: "current_connector peer db = Inr c" and where': "bridge_workspace (wo_path_hash w) c db = Some (w, p)"
    and hash: "hash = JString (wo_path_hash w)"
    using checks by (rule exchange_checks_Inr)
  let ?g = "issued_row digest (bridge_input c w) (id_id issued) (id_token issued) (es_now db)"
  obtain body where token: "id_token issued = AGENT_TOKEN_PREFIX @ body" and creds: "cd_credentials db1 = cd_credentials db @ [?g]"
    using issue_insert_Inr(1) [OF made] by auto
  have dist: "distinct (map gc_token_sha256 (cd_credentials db1))" using issue_insert_Inr(3) [OF made] .
  have g: "gc_organisation_id ?g = co_organisation_id c" "gc_project_ids ?g = [wo_project_id w]" "gc_capabilities ?g = BRIDGE_CAPABILITIES"
    "gc_issued_to_client ?g = Some (co_id c)" "gc_token_sha256 ?g = digest (id_token issued)" "gc_revoked_at ?g = None"
    "gc_expires_at ?g = es_now db div 1000 * 1000 + 3600000000"
    by (simp_all add: issued_row_def bridge_expiry) (simp_all add: bridge_input_def)
  have tables: "cd_credentials (later now db') = cd_credentials db @ [?g]" "es_now (later now db') = now"
    by (simp_all add: later_def db' creds)
  have "fst (resolve_credential digest (Some (id_token issued)) (later now db')) =
      (if now < es_now db div 1000 * 1000 + 3600000000 then Some ?g else None)"
  proof (cases "now < es_now db div 1000 * 1000 + 3600000000")
    case True
    then show ?thesis
      using resolve_stored [of "later now db'" ?g digest "id_token issued" body] dist g token
      by (simp add: tables creds credential_live_def)
  next
    case False
    have "gc_token_sha256 h \<noteq> digest (id_token issued)" if "h \<in> set (cd_credentials db)" for h
      using dist that g(5) unfolding creds by force
    then have "live_by_digest (digest (id_token issued)) (later now db') = None"
      using False g(7) by (auto simp: live_by_digest_def tables find_None_iff credential_live_def)
    then show ?thesis using False by (simp add: resolve_credential_def)
  qed
  then show ?thesis
    using current_connector_Inr [OF who] bridge_workspace_Some [OF where'] hash g(1-4)
    by (intro bexI [of _ c] bexI [of _ w] exI [of _ ?g]) auto
qed

text \<open>C26: The exchange gives a connector that is not revoked a credential for the one project of a workspace its own environment
  reported, inside the project it was enrolled for, with the workflow capabilities only. The token resolves to exactly that
  credential until an hour after the issue and to nothing afterwards.\<close>

theorem bridge_credential_is_exact:
  assumes "exchange digest peer hash db = (Inr issued, db')"
  shows "\<exists>c \<in> set (cd_connectors db). \<exists>w \<in> set (cd_workspaces db). \<exists>g.
    peer = Some (co_certificate_fingerprint c) \<and> co_revoked_at c = None \<and> hash = JString (wo_path_hash w) \<and>
    wo_environment_id w = Some (co_environment_id c) \<and> wo_organisation_id w = co_organisation_id c \<and>
    (co_project_id c = None \<or> co_project_id c = Some (wo_project_id w)) \<and>
    gc_organisation_id g = co_organisation_id c \<and> gc_project_ids g = [wo_project_id w] \<and> gc_capabilities g = BRIDGE_CAPABILITIES \<and>
    gc_issued_to_client g = Some (co_id c) \<and>
    fst (resolve_credential digest (Some (id_token issued)) (later now db')) =
      (if now < es_now db div 1000 * 1000 + 3600000000 then Some g else None)"
  using assms by (rule exchanged_credential_resolves)

theorem bridge_credential_is_exact_witness:
  "\<exists>db issued db' g. exchange (\<lambda>s. s) (Some (co_certificate_fingerprint (hd (cd_connectors db)))) (JString plain_hash) db = (Inr issued, db') \<and>
     fst (resolve_credential (\<lambda>s. s) (Some (id_token issued)) (later 1000000000000 db')) = Some g \<and> gc_capabilities g = BRIDGE_CAPABILITIES"
proof -
  obtain c db where h: "connector_txns plain_peers plain_config bare_db db" "cd_connectors db = [c]"
    and c: "co_organisation_id c = ''org_1''" "co_project_id c = Some ''prj_1''" "co_revoked_at c = None" "cd_credentials db = []"
    "cd_workspaces db = [observed_row (observation_context_of c ''msg_1'') plain_observation 1000000000000]"
    "cd_projects db = cd_projects bare_db" "es_now db = 1000000000000" "log_ready 7 db"
    by (rule sample_checkout)
  have "c \<in> set (cd_connectors db)" using h(2) by simp
  then obtain issued db' where run: "exchange (\<lambda>s. s) (Some (co_certificate_fingerprint c)) (JString plain_hash) db = (Inr issued, db')"
    by (rule sample_exchange [OF reached_ok [OF bare_no_connectors h(1)] _ c(3,1,2,6,4,5,8)]) (use c(7) in simp_all)
  have "(1000000000000::nat) < es_now db div 1000 * 1000 + 3600000000" using c(7) by simp
  with bridge_credential_is_exact [OF run, of 1000000000000] obtain g where
    g: "fst (resolve_credential (\<lambda>s. s) (Some (id_token issued)) (later 1000000000000 db')) = Some g" "gc_capabilities g = BRIDGE_CAPABILITIES"
    by auto
  show ?thesis using run h(2) g by (intro exI [of _ db] exI [of _ issued] exI [of _ db'] exI [of _ g]) simp
qed

section \<open>Revocation\<close>


lemma transition_to:
  assumes ok: "connectors_ok db" and c: "c \<in> set (cd_connectors db)" "co_id c = tr_connectorId i"
    and moved: "transition_connector_work i db = Inr (e, db')"
  shows "(if co_status c \<in> set (tr_from i) then moved_connector i (es_now db) c else c) \<in> set (cd_connectors db')"
    "e \<noteq> None \<longleftrightarrow> co_status c \<in> set (tr_from i)" "es_now db' = es_now db" "cd_credentials db' = cd_credentials db"
proof -
  have only: "c' = c" if "c' \<in> set (cd_connectors db)" "co_id c' = tr_connectorId i" for c'
    using connectors_okD(1) [OF ok] that c by (metis distinct_map inj_onD)
  have "(if co_status c \<in> set (tr_from i) then moved_connector i (es_now db) c else c) \<in> set (cd_connectors db') \<and>
      (e \<noteq> None \<longleftrightarrow> co_status c \<in> set (tr_from i)) \<and> es_now db' = es_now db \<and> cd_credentials db' = cd_credentials db"
    using moved
  proof (cases rule: transition_connector_Inr)
    case 1
    then show ?thesis using c by auto
  next
    case (2 c' ev)
    with only have "co_status c \<in> set (tr_from i)" by blast
    with 2 c show ?thesis by (auto simp: in_update_where)
  qed
  then show "(if co_status c \<in> set (tr_from i) then moved_connector i (es_now db) c else c) \<in> set (cd_connectors db')"
    "e \<noteq> None \<longleftrightarrow> co_status c \<in> set (tr_from i)" "es_now db' = es_now db" "cd_credentials db' = cd_credentials db"
    by simp_all
qed



text \<open>
  A revocation with other work in between. Transactions of any operation may be committed before and after each
  statement of it; the clock of the database does not run back meanwhile. \<open>swept_db\<close> is the database that the sweep
  of credentials met. The registry is touched in one turn, as \<open>detachChannel\<close> does not wait.
\<close>

definition onward :: "enrol_peers \<Rightarrow> connector_config \<Rightarrow> connector_db \<Rightarrow> connector_db \<Rightarrow> bool" where
  "onward peers config db db' \<longleftrightarrow> connector_txn peers config db db' \<and> es_now db \<le> es_now db'"

abbreviation onwards :: "enrol_peers \<Rightarrow> connector_config \<Rightarrow> connector_db \<Rightarrow> connector_db \<Rightarrow> bool" where
  "onwards peers config \<equiv> (onward peers config)\<^sup>*\<^sup>*"

inductive logged_onwards :: "enrol_peers \<Rightarrow> connector_config \<Rightarrow> append_input list \<Rightarrow> connector_db \<Rightarrow> connector_db \<Rightarrow> bool"
  for peers config where
  none_left: "onwards peers config db db' \<Longrightarrow> logged_onwards peers config [] db db'"
| one_more: "onwards peers config db db1 \<Longrightarrow> appendEvent i db1 = Inr (e, db2) \<Longrightarrow> logged_onwards peers config is db2 db' \<Longrightarrow>
    logged_onwards peers config (i # is) db db'"

inductive revocation_run ::
  "enrol_peers \<Rightarrow> connector_config \<Rightarrow> (store_failure + nat \<times> nat) option \<Rightarrow> string \<Rightarrow> string \<Rightarrow> string list option \<Rightarrow> string \<Rightarrow> event_actor \<Rightarrow>
     channel_registry \<Rightarrow> connector_db \<Rightarrow> connector_db \<Rightarrow> revocation_outcome \<times> nat option \<times> channel_registry \<Rightarrow> connector_db \<Rightarrow> bool"
  for peers config effects cid organisationId projectIds requestId actor reg where
  answered:
  "findConnectorInScope cid organisationId projectIds db = Some c \<Longrightarrow>
   (case effects of None \<Rightarrow> Inr (0, 0) | Some e \<Rightarrow> e) = Inr (routes, sessions) \<Longrightarrow>
   onwards peers config db swept_db \<Longrightarrow> sweep_credentials (co_id c) swept_db = (Inr swept, db1) \<Longrightarrow>
   logged_onwards peers config (revocation_events actor requestId (co_id c) swept) db1 db2 \<Longrightarrow>
   detachChannel (co_id c) reg = (detached, reg') \<Longrightarrow>
   transition_connector_work (revocation_transition (co_id c) actor
     (revocation_payload routes sessions (if detached = None then 0 else 1) (length swept))) db2 = Inr (event, db3) \<Longrightarrow>
   onwards peers config db3 db' \<Longrightarrow>
   out = revocation_report c (findConnectorInScope cid organisationId projectIds db') (es_now db') routes sessions
     (if detached = None then 0 else 1) (length swept) (event \<noteq> None) \<Longrightarrow>
   revocation_run peers config effects cid organisationId projectIds requestId actor reg db swept_db (out, detached, reg') db'"




lemma log_each_onwards: "log_each is db = (ok, db') \<Longrightarrow> logged_onwards peers config is db db'"
proof (induction "is" arbitrary: db)
  case Nil
  then show ?case by (auto simp: act_return_def intro: logged_onwards.none_left)
next
  case (Cons i "is")
  then obtain a t where "appendEvent i db = Inr (a, t)" "log_each is t = (ok, db')"
    by (auto simp: act_bind_ok inTransaction_Inr)
  then show ?case using Cons.IH [of t] by (intro logged_onwards.one_more [OF rtranclp.rtrancl_refl]) auto
qed

text \<open>The operation as it is defined is the run with nothing in between.\<close>

lemma revocation_without_interruption:
  assumes "revokeConnectorIdentity effects cid organisationId projectIds requestId actor reg db = (Inr answer, db')"
  shows "revocation_run peers config effects cid organisationId projectIds requestId actor reg db db answer db'"
proof -
  obtain out detached reg' where answer: "answer = (out, detached, reg')" by (cases answer) auto
  from assms obtain c routes sessions swept db1 db2 event where
    "findConnectorInScope cid organisationId projectIds db = Some c"
    "(case effects of None \<Rightarrow> Inr (0, 0) | Some e \<Rightarrow> e) = Inr (routes, sessions)"
    and sweep: "sweep_credentials (co_id c) db = (Inr swept, db1)"
    and log: "log_each (revocation_events actor requestId (co_id c) swept) db1 = (ok, db2)"
    and "detachChannel (co_id c) reg = (detached, reg')"
    "transition_connector_work (revocation_transition (co_id c) actor
       (revocation_payload routes sessions (if detached = None then 0 else 1) (length swept))) db2 = Inr (event, db')"
    "out = revocation_report c (findConnectorInScope cid organisationId projectIds db') (es_now db') routes sessions
       (if detached = None then 0 else 1) (length swept) (event \<noteq> None)"
    by (auto simp: answer revokeConnectorIdentity_def act_bind_Inr act_read_def act_return_def Let_def case_prod_beta
        transitionConnector_def inTransaction_Inr split: option.splits)
  then show ?thesis
    unfolding answer using rtranclp.rtrancl_refl sweep log_each_onwards [OF log] by (intro revocation_run.answered)
qed

subsection \<open>Withdrawn credentials stay withdrawn\<close>














text \<open>A credential that a connector obtains between the withdrawal of its credentials and the flip of its record survives the
  revocation: the identity is refused everywhere and the credential still resolves until it expires, an hour after its issue.\<close>

theorem credential_survives_concurrent_revocation:
  assumes "no_connectors db0" "connector_txns peers config db0 db"
    and "sweep_credentials cid db = (Inr swept, db1)" "current_connector peer db1 = Inr c" "co_id c = cid"
    and "exchange digest peer hash db1 = (Inr issued, db2)"
    and "transitionConnector (revocation_transition cid actor payload) db2 = (Inr (Some e), db3)"
    and "now < es_now db1 div 1000 * 1000 + 3600000000"
  shows "control_guard peer db3 = Inl ''IDENTITY_REVOKED'' \<and>
    (\<exists>g. fst (resolve_credential digest (Some (id_token issued)) (later now db3)) = Some g \<and> gc_issued_to_client g = Some cid)"
proof -
  let ?i = "revocation_transition cid actor payload"
  have c: "c \<in> set (cd_connectors db1)" "peer = Some (co_certificate_fingerprint c)" "co_revoked_at c = None"
    using current_connector_Inr [OF assms(4)] by simp_all
  have run: "connector_txns peers config db0 db1" "connector_txns peers config db0 db2" "connector_txns peers config db0 db3"
    using assms(2,3,6,7) keeps_sweep_credentials [of peers config cid] keeps_exchange [of peers config digest peer hash]
      keeps_moved [OF moves(6), of peers config cid actor payload]
    unfolding keeps_def by (metis rtranclp_trans snd_conv)+
  have work: "transition_connector_work ?i db2 = Inr (Some e, db3)"
    using assms(7) by (simp add: transitionConnector_def inTransaction_Inr)
  obtain c' w db' where x: "exchange_checks peer hash db1 = Inr (c', w)" "issue_insert digest (bridge_input c' w) db1 = Inr (issued, db')"
    "db2 = appended (credential_issued_event c' w issued) db'"
    using assms(6) by (rule exchange_Inr)
  have same: "cd_connectors db2 = cd_connectors db1" using issue_insert_tables [OF x(2)] x(3) by simp
  have live: "co_status c \<noteq> Con_revoked" using connectors_okD(3) [OF reached_ok [OF assms(1) run(1)] c(1)] c(3) by simp
  have i: "tr_connectorId ?i = cid" "co_status c \<in> set (tr_from ?i)" "tr_to ?i = Con_revoked"
    using live by (cases "co_status c"; simp add: revocation_transition_def LIVE_STATUSES_def)+
  have moved: "moved_connector ?i (es_now db2) c \<in> set (cd_connectors db3)" "cd_credentials db3 = cd_credentials db2"
    using transition_to [OF reached_ok [OF assms(1) run(2)] _ _ work, of c] c(1) same i assms(5) by auto
  have "control_guard (Some (co_certificate_fingerprint c)) db3 = Inl ''IDENTITY_REVOKED''"
    using revoked_refused(1) [OF reached_ok [OF assms(1) run(3)] moved(1)] i(3) by (simp add: moved_connector_def)
  moreover have "fst (resolve_credential digest (Some (id_token issued)) (later now db3)) =
      fst (resolve_credential digest (Some (id_token issued)) (later now db2))"
    by (simp add: resolve_credential_def live_by_digest_def later_def moved(2) split: option.splits)
  moreover have "c' = c" using x(1) assms(4) by (metis exchange_checks_Inr sum.inject(2))
  moreover obtain c'' g where "peer = Some (co_certificate_fingerprint c'')" "c'' \<in> set (cd_connectors db1)"
    "gc_issued_to_client g = Some (co_id c'')" "fst (resolve_credential digest (Some (id_token issued)) (later now db2)) = Some g"
    using exchanged_credential_resolves [OF assms(6), of now] assms(8) by auto
  ultimately show ?thesis
    using c connectors_okD(2) [OF reached_ok [OF assms(1) run(1)]] assms(5)
    by (metis distinct_map inj_onD option.inject)
qed

theorem credential_survives_concurrent_revocation_witness:
  "\<exists>db cid c issued db2 e db3. no_connectors bare_db \<and> connector_txns plain_peers plain_config bare_db db \<and>
     sweep_credentials cid db = (Inr [], db) \<and> current_connector (Some (co_certificate_fingerprint c)) db = Inr c \<and> co_id c = cid \<and>
     exchange (\<lambda>s. s) (Some (co_certificate_fingerprint c)) (JString plain_hash) db = (Inr issued, db2) \<and>
     transitionConnector (revocation_transition cid person (revocation_payload 0 0 0 0)) db2 = (Inr (Some e), db3) \<and>
     control_guard (Some (co_certificate_fingerprint c)) db3 = Inl ''IDENTITY_REVOKED'' \<and>
     (\<exists>g. fst (resolve_credential (\<lambda>s. s) (Some (id_token issued)) (later 1000000000000 db3)) = Some g)"
proof -
  obtain c db where h: "connector_txns plain_peers plain_config bare_db db" "cd_connectors db = [c]" "co_status c = Con_pending"
    and c: "co_organisation_id c = ''org_1''" "co_project_id c = Some ''prj_1''" "co_revoked_at c = None" "cd_credentials db = []"
    "cd_workspaces db = [observed_row (observation_context_of c ''msg_1'') plain_observation 1000000000000]"
    "cd_projects db = cd_projects bare_db" "es_now db = 1000000000000" "log_ready 7 db"
    by (rule sample_checkout)
  have ok: "connectors_ok db" by (rule reached_ok [OF bare_no_connectors h(1)])
  have row: "c \<in> set (cd_connectors db)" using h(2) by simp
  have sweep: "sweep_credentials (co_id c) db = (Inr [], db)"
    using c(4) by (simp add: sweep_credentials_def revokeIssuedToClient_def revoke_where_def update_where_def)
  have who: "current_connector (Some (co_certificate_fingerprint c)) db = Inr c"
    using found_by_fingerprint [OF ok row] c(3) by (simp add: current_connector_def refuse_if_def)
  obtain issued db2 where run: "exchange (\<lambda>s. s) (Some (co_certificate_fingerprint c)) (JString plain_hash) db = (Inr issued, db2)"
    and db2: "log_ready (Suc (7 + 2)) db2" "cd_connectors db2 = cd_connectors db"
    by (rule sample_exchange [OF ok row c(3,1,2,6,4,5,8)]) (use c(7) in simp_all)
  let ?t = "revocation_transition (co_id c) person (revocation_payload 0 0 0 0)"
  let ?db3 = "appended (transition_event ?t c) (db2\<lparr>cd_connectors := [c\<lparr>co_status := Con_revoked, co_revoked_at := Some (es_now db2)\<rparr>]\<rparr>)"
  obtain e where "transition_connector_work ?t db2 = Inr (Some e, ?db3)"
    by (rule sample_revoked [OF db2(2) [unfolded h(2)] refl h(3) db2(1)]) simp_all
  then have move: "transitionConnector ?t db2 = (Inr (Some e), ?db3)" by (simp add: transitionConnector_def)
  have "(1000000000000::nat) < es_now db div 1000 * 1000 + 3600000000" using c(7) by simp
  from credential_survives_concurrent_revocation [OF bare_no_connectors h(1) sweep who refl run move this]
  show ?thesis using bare_no_connectors h(1) sweep who run move by blast
qed

end
