(* ===== verification/Workspace_Properties.thy ===== *)
theory Workspace_Properties
  imports Connector_Samples
begin

text \<open>
  What an observation may change, and two orders of observation and registration of the same checkout in which a later
  report or registration fails.
\<close>

section \<open>What a recorded observation wrote\<close>

lemma update_where_ids: "map wo_id (update_where p (rewritten_row x b now) ws) = map wo_id ws"
  by (simp add: update_where_def rewritten_row_def)

lemma candidate_in: "List.find q (candidates x b db) = Some w \<Longrightarrow> w \<in> set (cd_workspaces db) \<and> in_tenant_of x b w \<and> q w"
  by (drule find_Some_in) (auto simp: candidates_def)

text \<open>The row an observation rewrites was the environment's own, or was registered for the reported path.\<close>

definition writable_by :: "observation_context \<Rightarrow> workspace_observation \<Rightarrow> workspace_record \<Rightarrow> bool" where
  "writable_by x b w \<longleftrightarrow> in_tenant_of x b w \<and>
     (wo_environment_id w = Some (ox_environmentId x) \<or> wo_environment_id w = None \<and> wo_path_hash w = wb_path_hash b)"

lemma observation_work_cases:
  assumes "observation_work x b db = Inr ((outcome, row), db')"
  obtains (inserted) "cd_workspaces db' = cd_workspaces db @ [row]" "row = observed_row x b (es_now db)" "workspaces_unique (cd_workspaces db')"
      "outcome = Observed_created"
  | (rewritten) w where "w \<in> set (cd_workspaces db)" "writable_by x b w" "row = rewritten_row x b (es_now db) w"
      "cd_workspaces db' = update_where (\<lambda>v. v = w) (rewritten_row x b (es_now db)) (cd_workspaces db)"
      "workspaces_unique (cd_workspaces db')" "distinct (map wo_id (cd_workspaces db))" "list_all workspace_row_ok (cd_workspaces db')"
proof -
  consider "insertObserved x b db = Inr ((outcome, row), db')"
    | w where "w \<in> set (cd_workspaces db)" "in_tenant_of x b w" "assertMayWrite w x b = ok" "updateObserved x b w db = Inr ((outcome, row), db')"
    using assms by (auto simp: observation_work_def Let_def r_then_eq_Inr split: option.splits dest!: candidate_in)
  then show ?thesis
  proof cases
    case 1
    then show ?thesis using insertObserved_Inr [OF 1] by (intro inserted) simp_all
  next
    case (2 w)
    from 2(4) obtain v where v: "v \<in> set (cd_workspaces db)" "may_rewrite x b (wo_id w) v" "row = rewritten_row x b (es_now db) v"
      and rows: "cd_workspaces db' = update_where (may_rewrite x b (wo_id w)) (rewritten_row x b (es_now db)) (cd_workspaces db)"
      "workspaces_unique (cd_workspaces db')" "list_all workspace_row_ok (cd_workspaces db')"
      by (rule updateObserved_Inr)
    have ids: "distinct (map wo_id (cd_workspaces db))"
      using rows(2) unfolding workspaces_unique_def rows(1) update_where_ids by simp
    have only: "may_rewrite x b (wo_id w) u \<longleftrightarrow> u = w" if "u \<in> set (cd_workspaces db)" for u
      using that 2(1) v(1,2) ids by (metis distinct_map inj_onD may_rewrite_def)
    have "update_where (may_rewrite x b (wo_id w)) (rewritten_row x b (es_now db)) (cd_workspaces db) =
        update_where (\<lambda>u. u = w) (rewritten_row x b (es_now db)) (cd_workspaces db)"
      unfolding update_where_def using only by (intro map_cong) auto
    moreover have "v = w" using only v(1,2) by blast
    moreover have "writable_by x b w"
      using 2(2,3) v(2) \<open>v = w\<close> by (auto simp: writable_by_def assertMayWrite_def result_simps may_rewrite_def)
    ultimately show ?thesis using rewritten [of w] 2(1) v(3) rows ids by simp
  qed
qed

text \<open>C15: An observation by a connector writes at most one workspace, in the project it reported and for which it is enrolled,
  and that workspace was new, its own environment's, or an unowned one registered for exactly the reported path. A
  workspace of another environment, project or organisation keeps every field, and a refusal changes nothing. The row it
  answers with holds the reported branch and commit and is the environment's only one at that path.\<close>

theorem observations_respect_ownership:
  assumes "recordObservation x b db = (r, db')"
  shows "(\<forall>w \<in> set (cd_workspaces db). \<not> writable_by x b w \<longrightarrow> w \<in> set (cd_workspaces db')) \<and>
    (case r of
       Inl _ \<Rightarrow> db' = db
     | Inr (outcome, row) \<Rightarrow>
         assertProjectAuthorised x (wb_project_id b) db = ok \<and> row \<in> set (cd_workspaces db') \<and> in_tenant_of x b row \<and>
         wo_environment_id row = Some (ox_environmentId x) \<and> wo_path_hash row = wb_path_hash b \<and> wo_branch row = wb_branch b \<and>
         wo_head_commit row = wb_head_commit b \<and> wo_dirty row = wb_dirty b \<and>
         (\<forall>w' \<in> set (cd_workspaces db'). w' \<noteq> row \<longrightarrow>
            w' \<in> set (cd_workspaces db) \<and> \<not> (reported_key w' = reported_key row)))"
proof (cases "observation_work x b db")
  case (Inl e)
  then have "r = Inl e" "db' = db" using assms by (simp_all add: recordObservation_def)
  then show ?thesis by simp
next
  case (Inr p)
  obtain outcome row d where p: "p = ((outcome, row), d)" by (metis prod.collapse)
  have r: "r = Inr (outcome, row)" "db' = d" using assms Inr p by (simp_all add: recordObservation_def)
  have allowed: "assertProjectAuthorised x (wb_project_id b) db = ok"
    using Inr by (auto simp: observation_work_def r_then_eq_Inr)
  have key: "w' = row" if "w' \<in> set (cd_workspaces d)" "row \<in> set (cd_workspaces d)" "reported_key w' = reported_key row"
    "workspaces_unique (cd_workspaces d)" "wo_environment_id row = Some (ox_environmentId x)" for w'
  proof -
    have "wo_environment_id w' \<noteq> None" using that(3,5) by (simp add: reported_key_def)
    with that show ?thesis unfolding workspaces_unique_def distinct_map inj_on_def by simp
  qed
  from Inr [unfolded p] show ?thesis
  proof (cases rule: observation_work_cases)
    case inserted
    have fields: "in_tenant_of x b row" "wo_environment_id row = Some (ox_environmentId x)" "wo_path_hash row = wb_path_hash b"
      "wo_branch row = wb_branch b" "wo_head_commit row = wb_head_commit b" "wo_dirty row = wb_dirty b"
      unfolding inserted(2) by (simp_all add: observed_row_def in_tenant_of_def)
    have "row \<in> set (cd_workspaces d)" using inserted(1) by simp
    then show ?thesis using r allowed fields inserted(1) key [OF _ _ _ inserted(3) fields(2)] by auto
  next
    case (rewritten w)
    have fields: "in_tenant_of x b row" "wo_environment_id row = Some (ox_environmentId x)" "wo_path_hash row = wb_path_hash b"
      "wo_branch row = wb_branch b" "wo_head_commit row = wb_head_commit b" "wo_dirty row = wb_dirty b"
      using rewritten(2) unfolding rewritten(3) by (simp_all add: rewritten_row_def in_tenant_of_def writable_by_def)
    have in_d: "row \<in> set (cd_workspaces d)" using rewritten(1,3,4) by (auto simp: in_update_where)
    have others: "w' \<in> set (cd_workspaces db)" if "w' \<in> set (cd_workspaces d)" "w' \<noteq> row" for w'
      using that rewritten(3) unfolding rewritten(4) by (auto simp: in_update_where split: if_splits)
    have kept: "v \<in> set (cd_workspaces d)" if "v \<in> set (cd_workspaces db)" "\<not> writable_by x b v" for v
      using that rewritten(2) unfolding rewritten(4) by (auto simp: in_update_where)
    show ?thesis using r allowed fields in_d others kept key [OF _ in_d _ rewritten(5) fields(2)] by auto
  qed
qed

lemma plain_context:
  obtains c db v row db' where "recordObservation (observation_context_of c ''msg_1'') plain_observation db = (Inr (v, row), db')"
    "cd_workspaces db = []"
proof -
  obtain out db where h: "log_ready 6 db" "enrol_work plain_peers plain_config plain_request [0, 0, 0] ''req_1'' token_db = Inr (out, db)"
    using sample_enrolled by blast
  obtain c where "cd_connectors db = [c]" and c: "co_organisation_id c = ''org_1''" "co_project_id c = Some ''prj_1''" "cd_workspaces db = []" "cd_projects db = cd_projects bare_db"
    using h(2) by (rule sample_connector)
  obtain v where "observation_work (observation_context_of c ''msg_1'') plain_observation db =
      Inr (v, appended (observed_event (observation_context_of c ''msg_1'') plain_observation
          (observed_row (observation_context_of c ''msg_1'') plain_observation (es_now db)))
        (db\<lparr>cd_workspaces := [observed_row (observation_context_of c ''msg_1'') plain_observation (es_now db)]\<rparr>))"
    by (rule sample_observed [OF c(3,4,1,2) h(1)]) simp
  then have "recordObservation (observation_context_of c ''msg_1'') plain_observation db =
      (Inr (fst v, snd v), appended (observed_event (observation_context_of c ''msg_1'') plain_observation
          (observed_row (observation_context_of c ''msg_1'') plain_observation (es_now db)))
        (db\<lparr>cd_workspaces := [observed_row (observation_context_of c ''msg_1'') plain_observation (es_now db)]\<rparr>))"
    by (simp add: recordObservation_def)
  then show ?thesis using c(3) by (rule that)
qed

theorem observations_respect_ownership_witness:
  "\<exists>c db v row db'. recordObservation (observation_context_of c ''msg_1'') plain_observation db = (Inr (v, row), db') \<and>
     row \<in> set (cd_workspaces db') \<and> wo_branch row = ''main''"
proof -
  obtain c db v row db' where run: "recordObservation (observation_context_of c ''msg_1'') plain_observation db = (Inr (v, row), db')"
    by (rule plain_context)
  from observations_respect_ownership [OF run] run show ?thesis by (auto simp: plain_observation_def)
qed

section \<open>A registered copy of a reported checkout\<close>

lemma find_filter: "List.find p xs = (case filter p xs of [] \<Rightarrow> None | y # _ \<Rightarrow> Some y)"
  by (induction xs) auto

lemma least_found:
  assumes "\<And>w. w \<in> set ws \<Longrightarrow> q w \<longleftrightarrow> w = u \<or> w = v" "u \<in> set ws" "(wo_id u :: string) < wo_id v"
  shows "List.find q (sort_key wo_id ws) = Some u"
proof -
  let ?ys = "sort_key wo_id (filter q ws)"
  have "u \<in> set ?ys" using assms(1,2) by simp
  then obtain y ys where y: "?ys = y # ys" by (cases ?ys) auto
  have "sorted (map wo_id ?ys)" by (rule sorted_sort_key)
  then have "wo_id y \<le> wo_id u" using \<open>u \<in> set ?ys\<close> unfolding y by auto
  moreover have "y = u \<or> y = v"
  proof -
    have "y \<in> set ?ys" using y by simp
    then show ?thesis using assms(1) [of y] by simp
  qed
  ultimately have "y = u" using assms(3) by auto
  then show ?thesis using y by (simp add: find_filter filter_sort)
qed

text \<open>A connector's own record of a checkout and a registered copy of it.\<close>

definition registered_copy :: "observation_context \<Rightarrow> workspace_observation \<Rightarrow> workspace_record \<Rightarrow> workspace_record \<Rightarrow> connector_db \<Rightarrow> bool" where
  "registered_copy x b own copy db \<longleftrightarrow> own \<in> set (cd_workspaces db) \<and> copy \<in> set (cd_workspaces db) \<and>
     in_tenant_of x b own \<and> in_tenant_of x b copy \<and> wo_environment_id own = Some (ox_environmentId x) \<and> wo_environment_id copy = None \<and>
     wo_path_hash own = wb_path_hash b \<and> wo_path_hash copy = wb_path_hash b"

lemma paths_taken:
  assumes "registered_copy x b own copy db" "workspaces_unique (cd_workspaces db)" "w \<in> set (cd_workspaces db)" "in_tenant_of x b w"
  shows "at_this_path x b w \<longleftrightarrow> w = copy \<or> w = own"
proof -
  note c = assms(1) [unfolded registered_copy_def]
  have reported: "inj_on reported_key {w \<in> set (cd_workspaces db). wo_environment_id w \<noteq> None}"
    and registered: "inj_on (\<lambda>w. (wo_project_id w, wo_path_hash w)) {w \<in> set (cd_workspaces db). wo_environment_id w = None}"
    using assms(2) by (simp_all add: workspaces_unique_def distinct_map)
  have "w = copy" if "at_this_path x b w" "wo_environment_id w = None"
    using that c assms(3,4) inj_onD [OF registered, of w copy] by (simp add: at_this_path_def in_tenant_of_def)
  moreover have "w = own" if "at_this_path x b w" "wo_environment_id w \<noteq> None"
    using that c assms(3,4) inj_onD [OF reported, of w own] by (simp add: at_this_path_def in_tenant_of_def reported_key_def)
  moreover have "at_this_path x b copy" "at_this_path x b own" using c by (simp_all add: at_this_path_def)
  ultimately show ?thesis by blast
qed

lemma adoption_collides:
  assumes "registered_copy x b own copy db" "wo_id copy \<noteq> wo_id own" "list_all workspace_row_ok (cd_workspaces db)"
    and "workspace_row_ok (observed_row x b now)"
  shows "updateObserved x b copy db = Inl (Observation_refused Workspace_conflict ''collides'')"
proof -
  note c = assms(1) [unfolded registered_copy_def]
  let ?rows = "update_where (may_rewrite x b (wo_id copy)) (rewritten_row x b (es_now db)) (cd_workspaces db)"
  let ?new = "rewritten_row x b (es_now db) copy"
  have "list_all workspace_row_ok ?rows"
    using assms(3,4)
    by (auto simp: list_all_iff in_update_where workspace_row_ok_def rewritten_row_def observed_row_def split: if_splits)
  moreover have "\<not> workspaces_unique ?rows"
  proof
    assume u: "workspaces_unique ?rows"
    have "?new \<in> set ?rows" using c unfolding in_update_where by (intro bexI [of _ copy]) (simp_all add: may_rewrite_def)
    moreover have "own \<in> set ?rows"
      using c assms(2) unfolding in_update_where by (intro bexI [of _ own]) (auto simp: may_rewrite_def)
    moreover have "reported_key ?new = reported_key own" "wo_environment_id ?new \<noteq> None" "wo_environment_id own \<noteq> None"
      using c by (simp_all add: reported_key_def rewritten_row_def in_tenant_of_def)
    ultimately have "?new = own" using u unfolding workspaces_unique_def distinct_map inj_on_def by simp
    moreover have "wo_id ?new = wo_id copy" by (simp add: rewritten_row_def)
    ultimately show False using assms(2) by simp
  qed
  ultimately show ?thesis by (simp add: updateObserved_def store_workspaces_def refuse_if_def asRefusal_def)
qed

text \<open>When a checkout that a connector reports has also been registered by an administrator, and the registered copy sorts
  first by identifier, every later report of the checkout is refused as a conflict and ends the connector's channel as
  unauthorised: the copy is chosen for adoption and adopting it would duplicate the connector's own record.\<close>

theorem registered_copy_blocks_observation:
  assumes "registered_copy (observation_context_of c mid) b own copy db" "wo_id copy < wo_id own" "wb_workspace_id b = wo_id own"
    and "assertProjectAuthorised (observation_context_of c mid) (wb_project_id b) db = ok"
    and "workspaces_unique (cd_workspaces db)" "list_all workspace_row_ok (cd_workspaces db)"
    and "workspace_row_ok (observed_row (observation_context_of c mid) b now)"
  shows "(\<exists>reason. recordObservation (observation_context_of c mid) b db = (Inl (Observation_refused Workspace_conflict reason), db)) \<and>
    handle_observation c mid b db = (Frame_closed 1008 ''PROJECT_NOT_AUTHORISED'', db)"
proof -
  let ?x = "observation_context_of c mid"
  note both = assms(1) [unfolded registered_copy_def]
  have ids: "inj_on wo_id (set (cd_workspaces db))" using assms(5) by (simp add: workspaces_unique_def distinct_map)
  have "List.find (at_this_path ?x b) (candidates ?x b db) = Some copy"
    unfolding candidates_def
    by (rule least_found [OF paths_taken [OF assms(1,5)] _ assms(2)]) (use both in \<open>auto simp: at_this_path_def\<close>)
  moreover have "case List.find (\<lambda>w. wo_id w = wb_workspace_id b) (candidates ?x b db) of None \<Rightarrow> True | Some h \<Rightarrow> h = own"
    using ids both assms(3) by (auto split: option.splits dest!: candidate_in dest: inj_onD)
  moreover have "assertMayWrite own ?x b = ok" "assertMayWrite copy ?x b = ok"
    using both by (simp_all add: assertMayWrite_def refuse_if_def)
  moreover have "updateObserved ?x b copy db = Inl (Observation_refused Workspace_conflict ''collides'')"
    by (rule adoption_collides [OF assms(1) _ assms(6,7)]) (use assms(2) in auto)
  ultimately have "observation_work ?x b db = Inl (Observation_refused Workspace_conflict ''collides'')"
    using assms(4) by (auto simp: observation_work_def Let_def split: option.splits)
  then show ?thesis by (simp add: recordObservation_def handle_observation_def)
qed

definition sample_machine :: connector_record where
  "sample_machine =
     connector_row_of (new_connector plain_request plain_token ''con_1'' ''env_1''
       \<lparr>ic_der = [], ic_fingerprint = ''fp_1'', ic_serial = ''1'', ic_not_after = 0\<rparr>) 0"

definition plain_own :: workspace_record where
  "plain_own = observed_row (observation_context_of sample_machine ''msg_1'') plain_observation 0"

definition plain_copy :: workspace_record where
  "plain_copy = plain_own\<lparr>wo_id := ''wsp_0'', wo_environment_id := None, wo_root_path := Some ''/app''\<rparr>"

definition copied_db :: connector_db where
  "copied_db = bare_db\<lparr>cd_workspaces := [plain_own, plain_copy]\<rparr>"

lemma machine_fields: "co_organisation_id sample_machine = ''org_1''" "co_project_id sample_machine = Some ''prj_1''" "co_environment_id sample_machine = ''env_1''"
  by (simp_all add: sample_machine_def connector_row_of_def new_connector_def plain_token_def token_row_def)

lemmas plain_rows = plain_own_def plain_copy_def observed_row_def plain_observation_def observation_context_of_def machine_fields

theorem registered_copy_blocks_observation_witness:
  "registered_copy (observation_context_of sample_machine ''msg_1'') plain_observation plain_own plain_copy copied_db \<and>
   handle_observation sample_machine ''msg_1'' plain_observation copied_db = (Frame_closed 1008 ''PROJECT_NOT_AUTHORISED'', copied_db)"
proof -
  have rows: "cd_workspaces copied_db = [plain_own, plain_copy]" by (simp add: copied_db_def)
  have copy: "registered_copy (observation_context_of sample_machine ''msg_1'') plain_observation plain_own plain_copy copied_db"
    unfolding registered_copy_def rows by (simp add: in_tenant_of_def plain_rows)
  have ids: "wo_id plain_copy < wo_id plain_own" "wb_workspace_id plain_observation = wo_id plain_own" by (simp_all add: plain_rows)
  have allowed: "assertProjectAuthorised (observation_context_of sample_machine ''msg_1'') (wb_project_id plain_observation) copied_db = ok"
    by (simp add: assertProjectAuthorised_def copied_db_def bare_db_def refuse_if_def plain_rows)
  have unique: "workspaces_unique (cd_workspaces copied_db)" unfolding rows by (simp add: workspaces_unique_def plain_rows)
  have shape: "workspace_row_ok plain_own" "workspace_row_ok plain_copy"
    using plain_shapes by (simp_all add: workspace_row_ok_def plain_rows)
  then have all: "list_all workspace_row_ok (cd_workspaces copied_db)" by (simp add: rows)
  show ?thesis
    using registered_copy_blocks_observation [OF copy ids allowed unique all shape(1) [unfolded plain_own_def]] copy by simp
qed

section \<open>Registration after adoption\<close>

lemma registration_work_Inr:
  assumes "registration_work digest i db = Inr (w, db')"
  shows "w \<in> set (cd_workspaces db')" "wo_environment_id w = None" "wo_project_id w = rw_projectId i"
    "wo_path_hash w = pathHash digest (rw_rootPath i)" "wo_root_path w = Some (rw_rootPath i)"
    "workspaces_unique (cd_workspaces db')" "list_all workspace_row_ok (cd_workspaces db')"
proof -
  have "w \<in> set (cd_workspaces db') \<and> wo_environment_id w = None \<and> wo_project_id w = rw_projectId i \<and>
      wo_path_hash w = pathHash digest (rw_rootPath i) \<and> wo_root_path w = Some (rw_rootPath i) \<and>
      workspaces_unique (cd_workspaces db') \<and> list_all workspace_row_ok (cd_workspaces db')"
    using assms
    by (auto simp: registration_work_def newId_def Let_def r_bind_eq_Inr store_workspaces_Inr registered_row_def in_update_where
        split: option.splits dest!: find_Some_in) (auto simp: reregistered_def)
  then show "w \<in> set (cd_workspaces db')" "wo_environment_id w = None" "wo_project_id w = rw_projectId i"
    "wo_path_hash w = pathHash digest (rw_rootPath i)" "wo_root_path w = Some (rw_rootPath i)"
    "workspaces_unique (cd_workspaces db')" "list_all workspace_row_ok (cd_workspaces db')"
    by simp_all
qed

lemma same_root_clashes:
  assumes "row \<in> set ws" "wo_root_path row = Some path" "wo_root_path new = Some path" "wo_project_id new = wo_project_id row"
  shows "\<not> workspaces_unique (ws @ [new])"
proof
  let ?f = "\<lambda>w. (wo_project_id w, wo_root_path w)"
  assume "workspaces_unique (ws @ [new])"
  then have "distinct (map ?f (filter (\<lambda>w. wo_root_path w \<noteq> None) ws @ [new]))" using assms(3) by (simp add: workspaces_unique_def)
  then have "?f new \<notin> ?f ` set (filter (\<lambda>w. wo_root_path w \<noteq> None) ws)" by simp
  moreover have "?f row \<in> ?f ` set (filter (\<lambda>w. wo_root_path w \<noteq> None) ws)" using assms(1,2) by (intro imageI) simp
  ultimately show False using assms(2-4) by simp
qed

lemma adopted_row:
  assumes "observation_work x b db1 = Inr ((outcome, row), db2)" "wo_id row = wo_id w" "w \<in> set (cd_workspaces db1)"
    and "list_all workspace_row_ok (cd_workspaces db1)"
  shows "row = rewritten_row x b (es_now db1) w \<and>
    cd_workspaces db2 = update_where (\<lambda>v. v = w) (rewritten_row x b (es_now db1)) (cd_workspaces db1) \<and>
    list_all workspace_row_ok (cd_workspaces db2)"
  using assms(1)
proof (cases rule: observation_work_cases)
  case inserted
  then have "wo_id row \<notin> wo_id ` set (cd_workspaces db1)" by (simp add: workspaces_unique_def)
  then show ?thesis using assms(2,3) by auto
next
  case (rewritten v)
  have "wo_id v = wo_id w" using assms(2) rewritten(3) by (simp add: rewritten_row_def)
  then have "v = w" using rewritten(1,6) assms(3) by (metis distinct_map inj_onD)
  with rewritten show ?thesis by simp
qed

text \<open>Once a connector has adopted a registered checkout, registering the same path in the same project again fails on the
  uniqueness of the path instead of updating the record: the adopted row keeps its path and no longer matches the upsert.\<close>

theorem adopted_checkout_cannot_be_registered:
  assumes "registration_work digest i db = Inr (w, db1)"
    and "observation_work x b db1 = Inr ((outcome, row), db2)" "wo_id row = wo_id w"
    and "rw_projectId i' = rw_projectId i" "rw_rootPath i' = rw_rootPath i" "registration_checks i' = ok"
  shows "register_workspace digest i' db2 = (Inl (Unique_violation ''workspaces_unique''), db2)"
proof -
  note w = registration_work_Inr [OF assms(1)]
  have ids: "inj_on wo_id (set (cd_workspaces db1))"
    and paths: "inj_on (\<lambda>w. (wo_project_id w, wo_path_hash w)) {w \<in> set (cd_workspaces db1). wo_environment_id w = None}"
    using w(6) by (simp_all add: workspaces_unique_def distinct_map)
  have rows: "row = rewritten_row x b (es_now db1) w" "cd_workspaces db2 = update_where (\<lambda>v. v = w) (rewritten_row x b (es_now db1)) (cd_workspaces db1)"
    "list_all workspace_row_ok (cd_workspaces db2)"
    using adopted_row [OF assms(2,3) w(1) w(7)] by blast+
  let ?new = "registered_row digest i' (''wsp_'' @ randomSuffix (es_random db2 (es_drawn db2))) (es_now db2)"
  have new: "wo_project_id ?new = rw_projectId i" "wo_root_path ?new = Some (rw_rootPath i)" "wo_path_hash ?new = wo_path_hash w"
    using assms(4,5) w(4) by (simp_all add: registered_row_def)
  let ?same = "\<lambda>v. wo_project_id v = wo_project_id ?new \<and> wo_path_hash v = wo_path_hash ?new \<and> wo_environment_id v = None"
  have "\<not> ?same v" if v: "v \<in> set (cd_workspaces db2)" for v
  proof -
    consider "v = row" | "v \<in> set (cd_workspaces db1)" "v \<noteq> w"
      using v rows(1) unfolding rows(2) set_update_where by auto
    then show ?thesis
    proof cases
      case 1
      then have "wo_environment_id v \<noteq> None" unfolding rows(1) by (simp add: rewritten_row_def)
      then show ?thesis by simp
    next
      case 2
      then show ?thesis using inj_onD [OF paths, of v w] w(1,2,3) new by auto
    qed
  qed
  then have none: "List.find ?same (cd_workspaces db2) = None" unfolding find_None_iff by blast
  have ok: "workspace_row_ok ?new"
  proof -
    have "path_hash_shape (pathHash digest (rw_rootPath i'))"
      using w(1,4,7) assms(5) by (metis list_all_iff workspace_row_ok_def)
    moreover have "commit_shape (rw_headCommit i')" "rw_rootPath i' \<noteq> []"
      using assms(6) by (auto simp: registration_checks_def r_then_eq_ok refuse_if_eq_ok trim_def)
    ultimately show ?thesis using displayLabel_shape by (simp add: workspace_row_ok_def registered_row_def)
  qed
  have "\<not> workspaces_unique (cd_workspaces db2 @ [?new])"
  proof -
    have row: "row \<in> set (cd_workspaces db2)" using w(1) rows by (auto simp: in_update_where)
    have fields: "wo_root_path row = Some (rw_rootPath i)" "wo_project_id row = rw_projectId i"
      unfolding rows(1) using w(3,5) by (simp_all add: rewritten_row_def)
    show ?thesis by (rule same_root_clashes [OF row fields(1) new(2)]) (simp only: new(1) fields(2))
  qed
  with none ok rows(3) have "registration_work digest i' db2 = Inl (Unique_violation ''workspaces_unique'')"
    by (simp add: registration_work_def newId_def Let_def store_workspaces_def refuse_if_def)
  then show ?thesis using assms(6) by (simp add: register_workspace_def act_bind_def act_read_def)
qed

definition plain_digest :: "string \<Rightarrow> string" where
  "plain_digest s = replicate 64 (CHR ''0'')"

definition plain_registration :: register_input where
  "plain_registration =
     \<lparr>rw_organisationId = ''org_1'', rw_projectId = ''prj_1'', rw_rootPath = ''/app'', rw_branch = ''main'', rw_headCommit = ''0123456'',
      rw_dirty = None, rw_connectorId = None\<rparr>"

lemma plain_registration_ok: "registration_checks plain_registration = ok"
  by code_simp

lemma sample_registered:
  obtains w where "registration_work plain_digest plain_registration bare_db = Inr (w, bare_db\<lparr>es_drawn := 1, cd_workspaces := [w]\<rparr>)"
    "w = registered_row plain_digest plain_registration (fst (newId ''wsp_'' bare_db)) (es_now bare_db)" "workspace_row_ok w"
proof -
  let ?w = "registered_row plain_digest plain_registration (fst (newId ''wsp_'' bare_db)) (es_now bare_db)"
  have "label_shape (displayLabel (rw_rootPath plain_registration))" by (rule displayLabel_shape)
  then have row: "workspace_row_ok ?w"
    using plain_shapes
    by (simp add: workspace_row_ok_def registered_row_def pathHash_def plain_digest_def plain_registration_def plain_hash_def)
  then have "registration_work plain_digest plain_registration bare_db = Inr (?w, bare_db\<lparr>es_drawn := 1, cd_workspaces := [?w]\<rparr>)"
    by (simp add: registration_work_def newId_def Let_def store_workspaces_def refuse_if_def workspaces_unique_def bare_db_def)
  with row that show ?thesis by blast
qed

theorem adopted_checkout_cannot_be_registered_witness:
  "\<exists>w db1 outcome row db2. registration_work plain_digest plain_registration bare_db = Inr (w, db1) \<and>
     observation_work (observation_context_of sample_machine ''msg_1'') plain_observation db1 = Inr ((outcome, row), db2) \<and> wo_id row = wo_id w \<and>
     register_workspace plain_digest plain_registration db2 = (Inl (Unique_violation ''workspaces_unique''), db2)"
proof -
  let ?x = "observation_context_of sample_machine ''msg_1''" and ?b = plain_observation
  obtain w where w: "registration_work plain_digest plain_registration bare_db = Inr (w, bare_db\<lparr>es_drawn := 1, cd_workspaces := [w]\<rparr>)"
      "w = registered_row plain_digest plain_registration (fst (newId ''wsp_'' bare_db)) (es_now bare_db)" "workspace_row_ok w"
    by (rule sample_registered)
  let ?db = "bare_db\<lparr>es_drawn := 1, cd_workspaces := [w]\<rparr>" and ?row = "rewritten_row ?x ?b (es_now bare_db) w"
  have fields: "wo_organisation_id w = ''org_1''" "wo_project_id w = ''prj_1''" "wo_environment_id w = None" "wo_path_hash w = plain_hash"
    "wo_branch w = ''main''" "wo_head_commit w = ''0123456''" "\<not> wo_dirty w"
    by (simp_all add: w(2) registered_row_def plain_registration_def pathHash_def plain_digest_def plain_hash_def)
  have mine: "in_tenant_of ?x ?b w" "at_this_path ?x ?b w" "may_rewrite ?x ?b (wo_id w) w" "\<not> head_moved ?b w" "assertMayWrite w ?x ?b = ok"
    using fields
    by (simp_all add: in_tenant_of_def at_this_path_def may_rewrite_def head_moved_def assertMayWrite_def refuse_if_def plain_rows)
  have "workspace_row_ok ?row"
    using w(3) plain_shapes by (simp add: workspace_row_ok_def rewritten_row_def plain_observation_def)
  then have "updateObserved ?x ?b w ?db = Inr ((Observed_unchanged, ?row), ?db\<lparr>cd_workspaces := [?row]\<rparr>)"
    using mine by (simp add: updateObserved_def store_workspaces_def refuse_if_def update_where_def asRefusal_def workspaces_unique_def Let_def)
  moreover have "assertProjectAuthorised ?x (wb_project_id ?b) ?db = ok"
    by (simp add: assertProjectAuthorised_def bare_db_def refuse_if_def plain_rows)
  moreover have "candidates ?x ?b ?db = [w]" using mine by (simp add: candidates_def)
  ultimately have seen: "observation_work ?x ?b ?db = Inr ((Observed_unchanged, ?row), ?db\<lparr>cd_workspaces := [?row]\<rparr>)"
    using mine by (simp add: observation_work_def)
  have same: "wo_id ?row = wo_id w" by (simp add: rewritten_row_def)
  show ?thesis
    using adopted_checkout_cannot_be_registered [OF w(1) seen same refl refl plain_registration_ok] w(1) seen same by blast
qed

end
