(* ===== verification/Channel_Properties.thy ===== *)
theory Channel_Properties
  imports Workspace_Properties "HOL-Library.Sublist"
begin

text \<open>
  The control channel: the queue delivers frames in order and one at a time, a flood of heartbeats costs a bounded number of
  statements, and a sweep moves exactly the connectors that have been silent for too long. Two orders of events are shown
  in which the code does something else than it says: a frame is lost silently, and the close of an old socket ends a new channel.
\<close>

section \<open>Runs of the queue\<close>

datatype 'f queue_event = Arrives 'f | Consumer_ready | Consumer_done | Consumer_threw

fun queue_step :: "'f queue_event \<Rightarrow> 'f frame_queue \<Rightarrow> 'f frame_queue" where
  "queue_step (Arrives f) q = push_frame f q"
| "queue_step Consumer_ready q = setConsumer q"
| "queue_step Consumer_done q = frame_done q"
| "queue_step Consumer_threw q = frame_threw q"

definition queue_run :: "'f queue_event list \<Rightarrow> 'f frame_queue \<Rightarrow> 'f frame_queue" where
  "queue_run evs q = fold queue_step evs q"

fun arrivals :: "'f queue_event list \<Rightarrow> 'f list" where
  "arrivals [] = []"
| "arrivals (Arrives f # evs) = f # arrivals evs"
| "arrivals (_ # evs) = arrivals evs"

lemma queue_run_simps [simp]: "queue_run [] q = q" "queue_run (e # evs) q = queue_run evs (queue_step e q)"
  by (simp_all add: queue_run_def)

text \<open>\<open>sent\<close> are the frames that arrived so far.\<close>

definition queue_ok :: "'f list \<Rightarrow> 'f frame_queue \<Rightarrow> bool" where
  "queue_ok sent q \<longleftrightarrow>
     length (fq_pending q) \<le> MAX_PENDING \<and>
     (fq_consumer q \<and> fq_current q = None \<longrightarrow> fq_pending q = []) \<and>
     (\<forall>f. fq_current q = Some f \<longrightarrow> fq_consumer q \<and> fq_delivered q \<noteq> [] \<and> last (fq_delivered q) = f) \<and>
     subseq (fq_delivered q @ fq_pending q) sent \<and>
     (\<not> fq_overflowed q \<and> \<not> fq_failed q \<longrightarrow> fq_delivered q @ fq_pending q = sent)"

lemmas queue_ops = push_frame_def setConsumer_def frame_done_def frame_threw_def drain_queue_def

lemma queue_step_ok:
  assumes "queue_ok sent q"
  shows "queue_ok (sent @ arrivals [e]) (queue_step e q)"
proof (cases e)
  case (Arrives f)
  have "subseq (fq_delivered q @ fq_pending q) (sent @ [f])"
    "subseq (fq_delivered q @ fq_pending q @ [f]) (sent @ [f])"
    using assms list_emb_append_mono [of "(=)" "fq_delivered q @ fq_pending q" sent "[f]" "[f]"]
    by (auto simp: queue_ok_def intro: list_emb_append2)
  then show ?thesis
    using assms Arrives by (cases "fq_pending q") (auto simp: queue_ok_def queue_ops MAX_PENDING_def)
next
  case Consumer_ready
  then show ?thesis using assms by (cases "fq_pending q") (auto simp: queue_ok_def queue_ops)
next
  case Consumer_done
  then show ?thesis using assms by (cases "fq_pending q") (auto simp: queue_ok_def queue_ops)
next
  case Consumer_threw
  have "subseq (fq_delivered q) sent"
    using assms list_emb_appendD [of "(=)" "fq_delivered q" "fq_pending q" sent] by (auto simp: queue_ok_def intro: list_emb_prefix)
  then show ?thesis using assms Consumer_threw by (auto simp: queue_ok_def queue_ops)
qed

lemma queue_run_ok: "queue_ok sent q \<Longrightarrow> queue_ok (sent @ arrivals evs) (queue_run evs q)"
proof (induction evs arbitrary: sent q)
  case (Cons e evs)
  have "arrivals (e # evs) = arrivals [e] @ arrivals evs" by (cases e) simp_all
  with Cons.IH [OF queue_step_ok [OF Cons.prems, of e]] show ?case by simp
qed simp

lemma waiting_frames_delivered:
  assumes "fq_current q \<noteq> None" "fq_consumer q"
  shows "fq_delivered (queue_run (replicate (length (fq_pending q)) Consumer_done) q) = fq_delivered q @ fq_pending q"
  using assms
proof (induction "fq_pending q" arbitrary: q)
  case (Cons f fs)
  let ?q = "frame_done q"
  have after: "fq_pending ?q = fs" "fq_delivered ?q = fq_delivered q @ [f]" "fq_current ?q \<noteq> None" "fq_consumer ?q"
    using Cons.prems Cons.hyps(2) [symmetric] by (simp_all add: queue_ops)
  then show ?case using Cons.hyps(1) [of ?q] Cons.hyps(2) [symmetric] by simp
qed simp

text \<open>C29: Whatever arrives and however the consumer behaves, the queue of a control channel never holds more than its bound,
  never lets frames wait while the consumer is free, and delivers a subsequence of what arrived in its order; while it has
  neither overflowed nor failed, what it delivered and holds is exactly what arrived, and every frame it holds is delivered
  after as many completions of the consumer.\<close>

theorem frames_delivered_in_order:
  fixes evs :: "'f queue_event list"
  defines "q \<equiv> queue_run evs new_queue"
  shows "length (fq_pending q) \<le> MAX_PENDING \<and> (fq_consumer q \<and> fq_current q = None \<longrightarrow> fq_pending q = []) \<and>
    subseq (fq_delivered q @ fq_pending q) (arrivals evs) \<and>
    (\<not> fq_overflowed q \<and> \<not> fq_failed q \<longrightarrow> fq_delivered q @ fq_pending q = arrivals evs) \<and>
    (fq_consumer q \<longrightarrow> fq_delivered (queue_run (replicate (length (fq_pending q)) Consumer_done) q) = fq_delivered q @ fq_pending q)"
proof -
  have "queue_ok ([] @ arrivals evs) q"
    unfolding q_def by (rule queue_run_ok) (simp add: queue_ok_def new_queue_def)
  moreover have "fq_delivered (queue_run (replicate (length (fq_pending q)) Consumer_done) q) = fq_delivered q @ fq_pending q"
    if "fq_consumer q"
  proof (cases "fq_current q")
    case None
    then have "fq_pending q = []" using calculation that by (simp add: queue_ok_def)
    then show ?thesis by simp
  next
    case (Some f)
    then show ?thesis using waiting_frames_delivered [of q] that by simp
  qed
  ultimately show ?thesis by (simp add: queue_ok_def)
qed

theorem frames_delivered_in_order_witness:
  "let q = queue_run [Arrives 1, Consumer_ready, Arrives 2, Arrives (3 :: nat), Consumer_done] new_queue in
   fq_consumer q \<and> \<not> fq_overflowed q \<and> \<not> fq_failed q \<and> fq_delivered q @ fq_pending q = [1, 2, 3]"
  using frames_delivered_in_order [of "[Arrives 1, Consumer_ready, Arrives 2, Arrives (3 :: nat), Consumer_done]"]
  by (simp add: queue_ops new_queue_def MAX_PENDING_def)

section \<open>A frame beyond the bound\<close>

lemma overflow_unread:
  fixes e :: "'f queue_event"
  shows "(queue_step e q)\<lparr>fq_overflowed := b\<rparr> = (queue_step e (q\<lparr>fq_overflowed := b'\<rparr>))\<lparr>fq_overflowed := b\<rparr>"
  by (cases e; cases "fq_pending q") (auto simp: queue_ops)

lemma overflow_unread_run:
  "q\<lparr>fq_overflowed := b\<rparr> = q'\<lparr>fq_overflowed := b\<rparr> \<Longrightarrow> (queue_run evs q)\<lparr>fq_overflowed := b\<rparr> = (queue_run evs q')\<lparr>fq_overflowed := b\<rparr>"
proof (induction evs arbitrary: q q')
  case (Cons e evs)
  have "(queue_step e q)\<lparr>fq_overflowed := b\<rparr> = (queue_step e (q\<lparr>fq_overflowed := b\<rparr>))\<lparr>fq_overflowed := b\<rparr>" by (rule overflow_unread)
  also have "\<dots> = (queue_step e (q'\<lparr>fq_overflowed := b\<rparr>))\<lparr>fq_overflowed := b\<rparr>"
    by (rule arg_cong [OF Cons.prems])
  also have "\<dots> = (queue_step e q')\<lparr>fq_overflowed := b\<rparr>" by (rule overflow_unread [symmetric])
  finally show ?case unfolding queue_run_simps by (rule Cons.IH)
qed simp

text \<open>A frame that arrives at a queue with a full buffer is lost without a trace once the channel is served: whatever happens
  afterwards, the consumer is given the same frames and reports the same failures as if it had never been sent, and the
  connector is not told. The overflow is only looked at before the consumer is set.\<close>

theorem frame_beyond_buffer_is_lost:
  assumes "start_control c socket q0 st = (Inr Frame_handled, q1, st')"
    and "length (fq_pending (queue_run evs q1)) = MAX_PENDING"
  shows "fq_delivered (queue_run (evs @ Arrives f # later) q1) = fq_delivered (queue_run (evs @ later) q1) \<and>
    fq_failed (queue_run (evs @ Arrives f # later) q1) = fq_failed (queue_run (evs @ later) q1) \<and>
    fq_consumer q1"
proof -
  let ?q = "queue_run evs q1"
  have "(queue_run later (push_frame f ?q))\<lparr>fq_overflowed := True\<rparr> = (queue_run later ?q)\<lparr>fq_overflowed := True\<rparr>"
    by (rule overflow_unread_run) (use assms(2) in \<open>simp add: push_frame_def\<close>)
  then have "fq_delivered (queue_run later (push_frame f ?q)) = fq_delivered (queue_run later ?q)"
    "fq_failed (queue_run later (push_frame f ?q)) = fq_failed (queue_run later ?q)"
    by (auto dest: arg_cong [where f = fq_delivered] arg_cong [where f = fq_failed])
  moreover have "fq_consumer q1"
    using assms(1)
    by (auto simp: start_control_def setConsumer_def drain_queue_def split: prod.splits sum.splits if_splits list.splits)
  ultimately show ?thesis by (simp add: queue_run_def)
qed

section \<open>Samples\<close>

definition machine_db :: connector_db where
  "machine_db = bare_db\<lparr>cd_connectors := [sample_machine]\<rparr>"

definition no_channels :: channel_registry where
  "no_channels = \<lparr>kr_channels = Map.empty, kr_pending = [], kr_settled = []\<rparr>"

lemma bare_log_ready: "log_ready 0 bare_db"
  by (simp add: log_ready_def log_ok_def stream_events_def stream_position_def bare_db_def)

lemma machine_log_ready: "log_ready 0 (bare_db\<lparr>cd_connectors := cs\<rparr>)"
  using log_ready_cong [of "bare_db\<lparr>cd_connectors := cs\<rparr>" bare_db 0 0] bare_log_ready by simp

text \<open>A transition of the only connector, with a payload whose members the log permits, succeeds.\<close>

lemma sample_moved:
  assumes "cd_connectors db = [c]" "co_id c = tr_connectorId i" "co_status c \<in> set (tr_from i)" "log_ready n db" "n < 256"
    "\<not> carries_secret 0 (JObject (ai_payload (transition_event i c)))"
  obtains e db' where "transitionConnector i db = (Inr (Some e), db')" "log_ready (Suc n) db'"
    "cd_connectors db' = [moved_connector i (es_now db) c]" "es_now db' = es_now db"
proof -
  let ?db = "db\<lparr>cd_connectors := [moved_connector i (es_now db) c]\<rparr>"
  have ready: "log_ready (n + 0) ?db" by (rule log_ready_cong [OF _ _ _ _ assms(4)]) simp_all
  have correlation: "\<not> carries_secret 0 (JObject (ai_correlation (transition_event i c)))"
    by (simp add: transition_event_def connector_event_def event_members_ok)
  obtain e where e: "appendEvent (transition_event i c) ?db = Inr (e, appended (transition_event i c) ?db)"
    "log_ready (Suc n) (appended (transition_event i c) ?db)"
    using append_ready [OF ready [simplified] assms(5,6) correlation] by blast
  have "transitionConnector i db = (Inr (Some e), appended (transition_event i c) ?db)"
    using assms e(1) by (simp add: transitionConnector_def inTransaction_def transition_connector_work_def Let_def update_where_def)
  then show ?thesis using e(2) by (rule that) simp_all
qed

lemmas plain_payload = transition_event_def connector_event_def plain_transition_def opened_transition_def closed_transition_def
  silent_transition_def delayed_transition_def json_num_def event_members_ok

lemma sample_opened:
  obtains db' where "open_control sample_machine socket (machine_db, reg) = (Inr (), db', register_channel (co_id sample_machine) socket reg)"
    "log_ready 1 db'" "cd_connectors db' = [sample_machine\<lparr>co_status := Con_active, co_connected_at := Some (es_now bare_db),
       co_last_heartbeat_at := Some (es_now bare_db)\<rparr>]" "es_now db' = es_now bare_db"
proof -
  let ?i = "opened_transition (co_id sample_machine)"
  have now: "es_now machine_db = es_now bare_db" by (simp add: machine_db_def)
  have pending: "co_status sample_machine = Con_pending" "co_revoked_at sample_machine = None"
    by (simp_all add: sample_machine_def connector_row_of_def)
  have moved: "moved_connector ?i t sample_machine = sample_machine\<lparr>co_status := Con_active, co_connected_at := Some t\<rparr>" for t
    using pending by (simp add: moved_connector_def opened_transition_def plain_transition_def)
  obtain e db1 where one: "transitionConnector ?i machine_db = (Inr (Some e), db1)" "log_ready (Suc 0) db1"
    "cd_connectors db1 = [moved_connector ?i (es_now machine_db) sample_machine]" "es_now db1 = es_now machine_db"
    by (rule sample_moved [of machine_db sample_machine ?i 0])
      (use pending machine_log_ready in \<open>simp_all add: machine_db_def plain_payload LIVE_STATUSES_def\<close>)
  let ?db = "recordConnectorHeartbeat (co_id sample_machine) db1"
  have "log_ready (1 + 0) ?db"
    by (rule log_ready_cong [OF _ _ _ _ one(2) [folded One_nat_def]])
      (simp_all add: recordConnectorHeartbeat_def seen_rows_def heartbeat_rows_def)
  moreover have "cd_connectors ?db = [sample_machine\<lparr>co_status := Con_active, co_connected_at := Some (es_now bare_db),
       co_last_heartbeat_at := Some (es_now bare_db)\<rparr>]"
    by (simp add: recordConnectorHeartbeat_def seen_rows_def heartbeat_rows_def update_where_def one(3,4) moved now)
  moreover have "es_now ?db = es_now bare_db" by (simp add: recordConnectorHeartbeat_def seen_rows_def heartbeat_rows_def one(4) now)
  moreover have "open_control sample_machine socket (machine_db, reg) = (Inr (), ?db, register_channel (co_id sample_machine) socket reg)"
    by (simp add: open_control_def markConnected_def act_bind_def one(1) act_write_def)
  ultimately show ?thesis by (intro that [of ?db]) simp_all
qed

definition served_queue :: "nat frame_queue" where
  "served_queue = setConsumer new_queue"

lemma served_queue_full:
  "length (fq_pending (queue_run (map Arrives [0..<33]) served_queue)) = MAX_PENDING"
  "fq_delivered (queue_run (map Arrives [0..<33] @ replicate 40 Consumer_done) served_queue) = [0..<33]"
  by (simp_all add: upt_rec [of _ 33] queue_ops new_queue_def served_queue_def MAX_PENDING_def numeral_eq_Suc)

theorem frame_beyond_buffer_is_lost_witness:
  "\<exists>st'. start_control sample_machine 1 new_queue (machine_db, no_channels) = (Inr Frame_handled, served_queue, st') \<and>
     length (fq_pending (queue_run (map Arrives [0..<33]) served_queue)) = MAX_PENDING \<and>
     fq_delivered (queue_run (map Arrives [0..<33] @ Arrives 33 # replicate 40 Consumer_done) served_queue) = [0..<33]"
proof -
  obtain db' where "open_control sample_machine 1 (machine_db, no_channels) =
      (Inr (), db', register_channel (co_id sample_machine) 1 no_channels)"
    by (rule sample_opened)
  then have start: "start_control sample_machine 1 new_queue (machine_db, no_channels) =
      (Inr Frame_handled, served_queue, db', register_channel (co_id sample_machine) 1 no_channels)"
    by (simp add: start_control_def served_queue_def new_queue_def)
  show ?thesis
    using frame_beyond_buffer_is_lost [OF start served_queue_full(1), of 33 "replicate 40 Consumer_done"] start served_queue_full by auto
qed

section \<open>A flood of heartbeats\<close>

text \<open>The heartbeats of one channel at the given times, with the times of those that were processed, until the channel is closed.\<close>

fun heartbeats :: "string \<Rightarrow> nat list \<Rightarrow> heartbeat_floor \<Rightarrow> connector_db \<Rightarrow> nat list" where
  "heartbeats cid [] f db = []"
| "heartbeats cid (t # ts) f db =
     (case handle_heartbeat cid t f db of
        (Frame_closed _ _, _, _) \<Rightarrow> []
      | (_, f', db') \<Rightarrow> t # heartbeats cid ts f' db')"

lemma handle_heartbeat_floor:
  assumes "handle_heartbeat cid t f db = (v, f', db')" "\<And>code why. v \<noteq> Frame_closed code why"
  shows "hf_minimumIntervalMs f' = hf_minimumIntervalMs f"
    "hf_lastAdmittedAt f' = Some t \<and> hf_dropped f' = hf_dropped f \<and>
       (\<forall>l. hf_lastAdmittedAt f = Some l \<longrightarrow> l + hf_minimumIntervalMs f \<le> t) \<or>
     hf_lastAdmittedAt f \<noteq> None \<and> hf_lastAdmittedAt f' = hf_lastAdmittedAt f \<and> hf_dropped f' = Suc (hf_dropped f) \<and> hf_dropped f' \<le> MAX_DROPPED"
  using assms
  by (auto simp: handle_heartbeat_def admit_def floor_exhausted_def Let_def split: if_splits option.splits prod.splits sum.splits)

lemma heartbeats_after:
  assumes "hf_lastAdmittedAt f = Some l" "l \<le> b" "\<forall>t \<in> set ts. t \<le> b" "hf_dropped f \<le> MAX_DROPPED" "0 < hf_minimumIntervalMs f"
  shows "length (heartbeats cid ts f db) \<le> (MAX_DROPPED - hf_dropped f) + (b - l) div hf_minimumIntervalMs f"
  using assms
proof (induction ts arbitrary: f l db)
  case (Cons t ts)
  obtain v f' db' where h: "handle_heartbeat cid t f db = (v, f', db')" by (metis prod.collapse)
  show ?case
  proof (cases "\<exists>code why. v = Frame_closed code why")
    case True
    then show ?thesis using h by auto
  next
    case False
    have "v \<noteq> Frame_closed code why" for code why using False by blast
    note floor = handle_heartbeat_floor [OF h this]
    have step: "length (heartbeats cid (t # ts) f db) = Suc (length (heartbeats cid ts f' db'))"
      using False h by (cases v) simp_all
    from floor(2) show ?thesis
    proof
      assume admitted: "hf_lastAdmittedAt f' = Some t \<and> hf_dropped f' = hf_dropped f \<and>
         (\<forall>l. hf_lastAdmittedAt f = Some l \<longrightarrow> l + hf_minimumIntervalMs f \<le> t)"
      then have later: "l + hf_minimumIntervalMs f \<le> t" using Cons.prems(1) by blast
      have "Suc ((b - t) div hf_minimumIntervalMs f) \<le> (b - l) div hf_minimumIntervalMs f"
      proof -
        have "(b - t) div hf_minimumIntervalMs f \<le> (b - l - hf_minimumIntervalMs f) div hf_minimumIntervalMs f"
          using later by (intro div_le_mono) simp
        moreover have "hf_minimumIntervalMs f \<le> b - l" "\<not> b - l < hf_minimumIntervalMs f" using later Cons.prems(3) by auto
        ultimately show ?thesis using Cons.prems(5) le_div_geq [of "hf_minimumIntervalMs f" "b - l"] by simp
      qed
      then show ?thesis
        using Cons.IH [of f' t db'] Cons.prems admitted floor(1) step by simp
    next
      assume dropped: "hf_lastAdmittedAt f \<noteq> None \<and> hf_lastAdmittedAt f' = hf_lastAdmittedAt f \<and> hf_dropped f' = Suc (hf_dropped f) \<and> hf_dropped f' \<le> MAX_DROPPED"
      then have "length (heartbeats cid ts f' db') \<le> (MAX_DROPPED - Suc (hf_dropped f)) + (b - l) div hf_minimumIntervalMs f"
        using Cons.IH [of f' l db'] Cons.prems floor(1) by simp
      then show ?thesis using dropped unfolding step by linarith
    qed
  qed
qed simp

text \<open>C31: However many heartbeats a connector sends within a span of time, the control plane processes at most one for each
  third of the configured interval in that span, one more, and as many as it tolerates before it closes the channel.\<close>

theorem heartbeat_flood_is_bounded:
  assumes "\<forall>t \<in> set ts. a \<le> t \<and> t \<le> a + width"
  shows "length (heartbeats cid ts (new_floor config) db) \<le>
    Suc MAX_DROPPED + width div max 1 (cc_heartbeatIntervalSeconds config * 1000 div 3)"
proof (cases ts)
  case (Cons t rest)
  let ?f = "new_floor config"
  obtain v f' db' where h: "handle_heartbeat cid t ?f db = (v, f', db')" by (metis prod.collapse)
  show ?thesis
  proof (cases "\<exists>code why. v = Frame_closed code why")
    case True
    then show ?thesis using h Cons by auto
  next
    case False
    have fresh: "hf_lastAdmittedAt ?f = None" "hf_dropped ?f = 0" "hf_minimumIntervalMs ?f = max 1 (cc_heartbeatIntervalSeconds config * 1000 div 3)"
      by (simp_all add: new_floor_def)
    then have f': "hf_lastAdmittedAt f' = Some t" "hf_dropped f' = 0" "hf_minimumIntervalMs f' = hf_minimumIntervalMs ?f"
      using handle_heartbeat_floor [OF h] False by auto
    have "length (heartbeats cid rest f' db') \<le> (MAX_DROPPED - hf_dropped f') + (a + width - t) div hf_minimumIntervalMs f'"
      by (rule heartbeats_after [OF f'(1)]) (use assms Cons f' fresh in auto)
    also have "\<dots> \<le> MAX_DROPPED + width div hf_minimumIntervalMs ?f"
      using assms Cons f' by (auto intro: div_le_mono)
    finally have "Suc (length (heartbeats cid rest f' db')) \<le> Suc MAX_DROPPED + width div hf_minimumIntervalMs ?f" by simp
    moreover have "length (heartbeats cid ts ?f db) = Suc (length (heartbeats cid rest f' db'))"
      using False h Cons by (cases v) simp_all
    ultimately show ?thesis using fresh by simp
  qed
qed simp

theorem heartbeat_flood_is_bounded_witness:
  "length (heartbeats ''con_1'' (replicate 100 5) (new_floor plain_config) bare_db) \<le> 33"
  using heartbeat_flood_is_bounded [of "replicate 100 5" 5 0 "''con_1''" plain_config bare_db] by (simp add: MAX_DROPPED_def)

section \<open>The sweep\<close>

lemma transition_rows:
  assumes "transitionConnector i db = (Inr e, db')"
  shows "cd_connectors db' = update_where (\<lambda>c. co_id c = tr_connectorId i \<and> co_status c \<in> set (tr_from i)) (moved_connector i (es_now db)) (cd_connectors db)"
    "e \<noteq> None \<longleftrightarrow> (\<exists>c \<in> set (cd_connectors db). co_id c = tr_connectorId i \<and> co_status c \<in> set (tr_from i))" "es_now db' = es_now db"
proof -
  have "transition_connector_work i db = Inr (e, db')"
    using assms by (auto simp: transitionConnector_def inTransaction_def split: sum.splits)
  then have "cd_connectors db' = update_where (\<lambda>c. co_id c = tr_connectorId i \<and> co_status c \<in> set (tr_from i)) (moved_connector i (es_now db)) (cd_connectors db) \<and>
    (e \<noteq> None \<longleftrightarrow> (\<exists>c \<in> set (cd_connectors db). co_id c = tr_connectorId i \<and> co_status c \<in> set (tr_from i))) \<and> es_now db' = es_now db"
  proof (cases rule: transition_connector_Inr)
    case 1
    then show ?thesis by (auto simp: update_where_def intro!: map_idI [symmetric])
  next
    case (2 c ev)
    then show ?thesis by auto
  qed
  then show "cd_connectors db' = update_where (\<lambda>c. co_id c = tr_connectorId i \<and> co_status c \<in> set (tr_from i)) (moved_connector i (es_now db)) (cd_connectors db)"
    "e \<noteq> None \<longleftrightarrow> (\<exists>c \<in> set (cd_connectors db). co_id c = tr_connectorId i \<and> co_status c \<in> set (tr_from i))" "es_now db' = es_now db"
    by simp_all
qed

text \<open>A pass over distinct connectors that may all be moved moves them all and no other one.\<close>

lemma sweep_each_rows:
  assumes "sweep_each t ids db = (Inr moved, db')" "\<And>cid. tr_connectorId (t cid) = cid" "\<And>cid. tr_from (t cid) = from"
    and "distinct ids" "\<And>cid. cid \<in> set ids \<Longrightarrow> \<exists>c \<in> set (cd_connectors db). co_id c = cid \<and> co_status c \<in> set from"
  shows "cd_connectors db' = update_where (\<lambda>c. co_id c \<in> set ids \<and> co_status c \<in> set from) (\<lambda>c. moved_connector (t (co_id c)) (es_now db) c) (cd_connectors db) \<and>
    moved = ids \<and> es_now db' = es_now db"
  using assms(1,4,5)
proof (induction ids arbitrary: db moved)
  case Nil
  then show ?case by (simp add: update_where_def act_return_def)
next
  case (Cons cid ids)
  from Cons.prems(1) obtain e db1 rest where one: "transitionConnector (t cid) db = (Inr e, db1)"
    and two: "sweep_each t ids db1 = (Inr rest, db')" and moved: "moved = (if e = None then rest else cid # rest)"
    by (auto simp: act_bind_def act_return_def split: sum.splits prod.splits)
  have rows: "cd_connectors db1 = update_where (\<lambda>c. co_id c = cid \<and> co_status c \<in> set from) (moved_connector (t cid) (es_now db)) (cd_connectors db)"
    "e \<noteq> None" "es_now db1 = es_now db"
    using transition_rows [OF one] Cons.prems(3) [of cid] assms(2,3) by simp_all
  have still: "\<exists>c \<in> set (cd_connectors db1). co_id c = cid' \<and> co_status c \<in> set from" if cid': "cid' \<in> set ids" for cid'
  proof -
    obtain c where "c \<in> set (cd_connectors db)" "co_id c = cid'" "co_status c \<in> set from" using Cons.prems(3) [of cid'] cid' by auto
    moreover have "cid' \<noteq> cid" using Cons.prems(2) cid' by auto
    ultimately have "c \<in> set (cd_connectors db1)" by (auto simp: rows(1) in_update_where)
    with \<open>co_id c = cid'\<close> \<open>co_status c \<in> set from\<close> show ?thesis by blast
  qed
  have "distinct ids" using Cons.prems(2) by simp
  note IH = Cons.IH [OF two this still]
  have "cd_connectors db' = update_where (\<lambda>c. co_id c \<in> set (cid # ids) \<and> co_status c \<in> set from) (\<lambda>c. moved_connector (t (co_id c)) (es_now db) c) (cd_connectors db)"
    using IH Cons.prems(2) rows(1,3) by (auto simp: update_where_def moved_connector_def)
  then show ?case using IH rows(2,3) moved by simp
qed

definition silent_for :: "nat \<Rightarrow> nat \<Rightarrow> connector_record \<Rightarrow> bool" where
  "silent_for secs now c \<longleftrightarrow> last_heard c + secs * 1000000 < now"

definition swept_connector :: "connector_config \<Rightarrow> nat \<Rightarrow> connector_record \<Rightarrow> connector_record" where
  "swept_connector config now c =
     (if co_status c \<in> {Con_active, Con_degraded} \<and> silent_for (cc_disconnectedAfterSeconds config) now c then c\<lparr>co_status := Con_disconnected\<rparr>
      else if co_status c = Con_active \<and> silent_for (cc_degradedAfterSeconds config) now c then c\<lparr>co_status := Con_degraded\<rparr>
      else c)"

lemma stale_ids_Inr: "act_read (stale_ids statuses secs) db = (Inr ids, db') \<longleftrightarrow> db' = db \<and> ids = map co_id (filter (\<lambda>c. co_status c \<in> set statuses \<and> silent_for secs (es_now db) c) (cd_connectors db))"
  by (auto simp: act_read_def stale_ids_def findStaleConnectors_def silent_for_def)

text \<open>One pass: the stale connectors are moved, since identifiers are unique the test by identifier and the test by staleness agree.\<close>

lemma sweep_pass:
  assumes "sweep_each t (map co_id (filter (\<lambda>c. co_status c \<in> set from \<and> silent_for secs (es_now db) c) (cd_connectors db))) db = (Inr moved, db')"
    and "\<And>cid. tr_connectorId (t cid) = cid" "\<And>cid. tr_from (t cid) = from" "distinct (map co_id (cd_connectors db))"
  shows "cd_connectors db' = update_where (\<lambda>c. co_status c \<in> set from \<and> silent_for secs (es_now db) c)
      (\<lambda>c. moved_connector (t (co_id c)) (es_now db) c) (cd_connectors db) \<and>
    moved = map co_id (filter (\<lambda>c. co_status c \<in> set from \<and> silent_for secs (es_now db) c) (cd_connectors db)) \<and> es_now db' = es_now db"
proof -
  let ?p = "\<lambda>c. co_status c \<in> set from \<and> silent_for secs (es_now db) c" and ?cs = "cd_connectors db"
  let ?ids = "map co_id (filter ?p ?cs)"
  have rows: "cd_connectors db' = update_where (\<lambda>c. co_id c \<in> set ?ids \<and> co_status c \<in> set from)
      (\<lambda>c. moved_connector (t (co_id c)) (es_now db) c) ?cs \<and> moved = ?ids \<and> es_now db' = es_now db"
    by (rule sweep_each_rows [OF assms(1-3)]) (use assms(4) in \<open>auto simp: distinct_map_filter\<close>)
  have same: "co_id c \<in> set ?ids \<and> co_status c \<in> set from \<longleftrightarrow> ?p c" if "c \<in> set ?cs" for c
    using that assms(4) by (auto simp: distinct_map dest: inj_onD)
  have "update_where (\<lambda>c. co_id c \<in> set ?ids \<and> co_status c \<in> set from) g ?cs = update_where ?p g ?cs" for g
    unfolding update_where_def using same by (intro map_cong) auto
  with rows show ?thesis by simp
qed

text \<open>C30: A sweep that ends moves exactly the connectors that were silent for too long: an active or degraded one silent beyond the
  longer threshold becomes disconnected, another active one silent beyond the shorter threshold becomes degraded, every
  other one is left alone, and the two lists it returns name those it moved, each once.\<close>

theorem sweep_is_exact:
  assumes "sweepConnectorHealth config db = (Inr (degraded, disconnected), db')" "distinct (map co_id (cd_connectors db))"
  shows "cd_connectors db' = map (swept_connector config (es_now db)) (cd_connectors db) \<and>
    disconnected = map co_id (filter (\<lambda>c. co_status c \<in> {Con_active, Con_degraded} \<and>
      silent_for (cc_disconnectedAfterSeconds config) (es_now db) c) (cd_connectors db)) \<and>
    degraded = map co_id (filter (\<lambda>c. co_status c = Con_active \<and> silent_for (cc_degradedAfterSeconds config) (es_now db) c \<and>
      \<not> silent_for (cc_disconnectedAfterSeconds config) (es_now db) c) (cd_connectors db))"
proof -
  let ?lost = "silent_transition (cc_disconnectedAfterSeconds config)" and ?late = "delayed_transition (cc_degradedAfterSeconds config)"
  let ?p = "\<lambda>c. co_status c \<in> {Con_active, Con_degraded} \<and> silent_for (cc_disconnectedAfterSeconds config) (es_now db) c"
  have t: "tr_connectorId (?lost cid) = cid" "tr_from (?lost cid) = [Con_active, Con_degraded]"
    "tr_connectorId (?late cid) = cid" "tr_from (?late cid) = [Con_active]"
    "moved_connector (?lost cid) now c = c\<lparr>co_status := Con_disconnected\<rparr>" "moved_connector (?late cid) now c = c\<lparr>co_status := Con_degraded\<rparr>" for cid now c
    by (simp_all add: silent_transition_def delayed_transition_def plain_transition_def moved_connector_def)
  from assms(1) obtain db1 ids1 ids2 where
      ids1: "act_read (stale_ids [Con_active, Con_degraded] (cc_disconnectedAfterSeconds config)) db = (Inr ids1, db)"
    and one: "sweep_each ?lost ids1 db = (Inr disconnected, db1)"
    and ids2: "act_read (stale_ids [Con_active] (cc_degradedAfterSeconds config)) db1 = (Inr ids2, db1)"
    and two: "sweep_each ?late ids2 db1 = (Inr degraded, db')"
    unfolding sweepConnectorHealth_def
    by (auto simp: act_bind_def act_return_def act_read_def split: sum.splits prod.splits)
  have first: "cd_connectors db1 = update_where ?p (\<lambda>c. c\<lparr>co_status := Con_disconnected\<rparr>) (cd_connectors db) \<and>
      disconnected = map co_id (filter ?p (cd_connectors db)) \<and> es_now db1 = es_now db"
    using sweep_pass [OF one [unfolded ids1 [unfolded stale_ids_Inr, THEN conjunct2]] t(1,2) assms(2)] t(5) by simp
  have "distinct (map co_id (cd_connectors db1))" using first assms(2) by (simp add: update_where_map)
  note second = sweep_pass [OF two [unfolded ids2 [unfolded stale_ids_Inr, THEN conjunct2]] t(3,4) this]
  have heard: "silent_for secs now (c\<lparr>co_status := s\<rparr>) = silent_for secs now c" for secs now c s
    by (simp add: silent_for_def last_heard_def split: option.split)
  have "filter (\<lambda>c. co_status c = Con_active \<and> silent_for (cc_degradedAfterSeconds config) (es_now db) c) (update_where ?p (\<lambda>c. c\<lparr>co_status := Con_disconnected\<rparr>) cs) =
      filter (\<lambda>c. co_status c = Con_active \<and> silent_for (cc_degradedAfterSeconds config) (es_now db) c \<and>
        \<not> silent_for (cc_disconnectedAfterSeconds config) (es_now db) c) cs" for cs
    by (induction cs) (auto simp: update_where_def)
  moreover have "cd_connectors db' = map (swept_connector config (es_now db)) (cd_connectors db)"
    using first second t(6) by (simp add: update_where_def swept_connector_def heard)
  ultimately show ?thesis using first second by simp
qed

definition quiet_machine :: connector_record where
  "quiet_machine = sample_machine\<lparr>co_status := Con_active\<rparr>"

theorem sweep_is_exact_witness:
  "\<exists>db'. sweepConnectorHealth plain_config (bare_db\<lparr>cd_connectors := [quiet_machine]\<rparr>) = (Inr ([], [''con_1'']), db') \<and>
     cd_connectors db' = [quiet_machine\<lparr>co_status := Con_disconnected\<rparr>]"
proof -
  let ?db = "bare_db\<lparr>cd_connectors := [quiet_machine]\<rparr>" and ?t = "silent_transition 90 ''con_1''"
  have fields: "co_id quiet_machine = ''con_1''" "co_status quiet_machine = Con_active" "last_heard quiet_machine = 0"
    by (simp_all add: quiet_machine_def sample_machine_def connector_row_of_def new_connector_def last_heard_def)
  have now: "es_now ?db = 1000000000000" by (simp add: bare_db_def)
  have moved: "moved_connector ?t n quiet_machine = quiet_machine\<lparr>co_status := Con_disconnected\<rparr>" for n
    by (simp add: moved_connector_def silent_transition_def plain_transition_def)
  obtain e db1 where one: "transitionConnector ?t ?db = (Inr (Some e), db1)"
    "cd_connectors db1 = [moved_connector ?t (es_now ?db) quiet_machine]" "es_now db1 = es_now ?db"
    by (rule sample_moved [of ?db quiet_machine ?t 0])
      (use fields machine_log_ready in \<open>simp_all add: plain_payload\<close>)
  have "sweepConnectorHealth plain_config ?db = (Inr ([], [''con_1'']), db1)"
    using fields one(2,3) one(1) now
    by (simp add: sweepConnectorHealth_def act_bind_def act_read_def act_return_def stale_ids_def findStaleConnectors_def plain_config_def moved)
  with sweep_is_exact [OF this] show ?thesis
    using fields now by (simp add: swept_connector_def silent_for_def plain_config_def)
qed

section \<open>The close of an old socket\<close>

lemma matching_row_updated: "q \<in> set t \<Longrightarrow> p q \<Longrightarrow> f q \<in> set (update_where p f t)"
  by (auto simp: update_where_def)

lemma pending_prefix: "starts_with (cid @ '':'') (pending_key cid rid)"
proof -
  have "starts_with p (p @ s)" for p s by (induction p) simp_all
  from this [of "cid @ '':''" rid] show ?thesis by (simp add: pending_key_def)
qed

lemma opened_is_active:
  assumes "open_control c socket (db, reg) = (Inr u, db1, reg1)" "c' \<in> set (cd_connectors db)" "co_id c' = co_id c" "co_status c' \<noteq> Con_revoked"
  obtains d where "d \<in> set (cd_connectors db1)" "co_id d = co_id c" "co_status d = Con_active" "reg1 = register_channel (co_id c) socket reg"
proof -
  let ?i = "opened_transition (co_id c)"
  obtain ev db0 where opened: "transitionConnector ?i db = (Inr ev, db0)"
    and db1: "db1 = recordConnectorHeartbeat (co_id c) db0" and reg1: "reg1 = register_channel (co_id c) socket reg"
    using assms(1) by (auto simp: open_control_def markConnected_def act_bind_def act_write_def split: prod.splits sum.splits)
  have live: "co_status c' \<in> set (tr_from ?i)" "tr_connectorId ?i = co_id c" "co_id (moved_connector ?i t c') = co_id c'"
    "co_status (moved_connector ?i t c') = Con_active" for t
    using assms(4) by (cases "co_status c'"; simp add: opened_transition_def plain_transition_def LIVE_STATUSES_def moved_connector_def)+
  let ?moved = "moved_connector ?i (es_now db) c'"
  let ?seen = "?moved\<lparr>co_last_heartbeat_at := Some (es_now db0)\<rparr>"
  have "?moved \<in> set (cd_connectors db0)"
    unfolding transition_rows(1) [OF opened] by (rule matching_row_updated) (use assms(2,3) live(1,2) in simp_all)
  then have "?seen \<in> set (cd_connectors db1)"
    unfolding db1 recordConnectorHeartbeat_def seen_rows_def heartbeat_rows_def
    by (simp, rule matching_row_updated [where f = "\<lambda>c. c\<lparr>co_last_heartbeat_at := Some (es_now db0)\<rparr>"]) (use assms(3) live(3,4) in simp)
  then show ?thesis by (rule that) (use assms(3) live(3,4) reg1 in simp_all)
qed

text \<open>A channel refused for its overflow leaves the record active, also after its socket is closed: only the sweep corrects it.\<close>

lemma refused_channel_stays_active:
  assumes "start_control c socket q (db, reg) = (Inr v, q', db1, reg1)" "fq_overflowed q" "\<not> fq_consumer q"
    and "c' \<in> set (cd_connectors db)" "co_id c' = co_id c" "co_status c' \<noteq> Con_revoked"
  shows "v = Frame_closed 1009 [] \<and> (\<exists>db2 reg2. socket_closed c socket q' (db1, reg1) = (Inr None, db2, reg2) \<and> \<not> connected (co_id c) reg2 \<and>
    (\<exists>d \<in> set (cd_connectors db2). co_id d = co_id c \<and> co_status d = Con_active))"
proof -
  have opened: "open_control c socket (db, reg) = (Inr (), db1, reg1)" and v: "v = Frame_closed 1009 []" "q' = q"
    using assms(1,2) by (auto simp: start_control_def split: prod.splits sum.splits)
  obtain d where "d \<in> set (cd_connectors db1)" "co_id d = co_id c" "co_status d = Con_active" "reg1 = register_channel (co_id c) socket reg"
    using opened assms(4-6) by (rule opened_is_active)
  then show ?thesis
    using v assms(3) by (auto simp: socket_closed_def connected_def unregister_def settle_where_def register_channel_def)
qed

text \<open>C32: A connector that reconnects before its old socket is closed is disconnected by that close: the record says so although
  the new channel is registered and alive, and every publication sent over the new channel is answered as if the connector were offline.\<close>

theorem late_close_ends_new_channel:
  assumes "open_control c new st = (Inr u, db1, reg1)" "publish (co_id c) rid None reg1 = (Inr key, reg2)"
    and "close_control c old (db1, reg2) = (Inr e, db3, reg3)" "old \<noteq> new"
    and "c' \<in> set (cd_connectors (fst st))" "co_id c' = co_id c" "co_status c' \<noteq> Con_revoked"
  shows "kr_channels reg3 (co_id c) = Some new \<and> connected (co_id c) reg3 \<and>
    (key, Settled_offline) \<in> set (kr_settled reg3) \<and> key \<notin> set (kr_pending reg3) \<and>
    (\<exists>d \<in> set (cd_connectors db3). co_id d = co_id c \<and> co_status d = Con_disconnected)"
proof -
  obtain db reg where st: "st = (db, reg)" by fastforce
  obtain d where d: "d \<in> set (cd_connectors db1)" "co_id d = co_id c" "co_status d = Con_active" and reg1: "reg1 = register_channel (co_id c) new reg"
    by (rule opened_is_active [OF assms(1) [unfolded st]]) (use assms(5-7) st in simp_all)
  have key: "key = pending_key (co_id c) rid" and reg2: "reg2 = reg1\<lparr>kr_pending := kr_pending reg1 @ [key]\<rparr>"
    using assms(2) by (auto simp: publish_def Let_def split: if_splits)
  have closed: "transitionConnector (closed_transition (co_id c)) db1 = (Inr e, db3)" and reg3: "reg3 = unregister (co_id c) old reg2"
    using assms(3) by (auto simp: close_control_def split: prod.splits)
  have "moved_connector (closed_transition (co_id c)) (es_now db1) d \<in> set (cd_connectors db3)"
    unfolding transition_rows(1) [OF closed]
    by (rule matching_row_updated [OF d(1)]) (simp add: d closed_transition_def plain_transition_def)
  then have "\<exists>d \<in> set (cd_connectors db3). co_id d = co_id c \<and> co_status d = Con_disconnected"
    by (rule bexI [rotated]) (simp add: d closed_transition_def plain_transition_def moved_connector_def)
  moreover have "kr_channels reg3 (co_id c) = Some new"
    using assms(4) by (simp add: reg3 reg2 reg1 unregister_def settle_where_def register_channel_def)
  moreover have "(key, Settled_offline) \<in> set (kr_settled reg3)" "key \<notin> set (kr_pending reg3)"
    using pending_prefix [of "co_id c" rid] by (simp_all add: reg3 reg2 unregister_def settle_where_def key)
  ultimately show ?thesis by (simp add: connected_def)
qed

theorem late_close_ends_new_channel_witness:
  "\<exists>db1 reg1 key reg2 e db3 reg3. open_control sample_machine 2 (machine_db, register_channel ''con_1'' 1 no_channels) = (Inr (), db1, reg1) \<and>
     publish ''con_1'' ''rte_1'' None reg1 = (Inr key, reg2) \<and> close_control sample_machine 1 (db1, reg2) = (Inr e, db3, reg3) \<and>
     connected ''con_1'' reg3 \<and> (key, Settled_offline) \<in> set (kr_settled reg3) \<and>
     (\<exists>d \<in> set (cd_connectors db3). co_id d = ''con_1'' \<and> co_status d = Con_disconnected)"
proof -
  have cid: "co_id sample_machine = ''con_1''" by (simp add: sample_machine_def connector_row_of_def new_connector_def)
  let ?reg = "register_channel ''con_1'' 1 no_channels"
  obtain db1 where one: "open_control sample_machine 2 (machine_db, ?reg) = (Inr (), db1, register_channel (co_id sample_machine) 2 ?reg)"
    "log_ready 1 db1" "cd_connectors db1 = [sample_machine\<lparr>co_status := Con_active, co_connected_at := Some (es_now bare_db),
       co_last_heartbeat_at := Some (es_now bare_db)\<rparr>]"
    by (rule sample_opened)
  obtain e db3 where two: "transitionConnector (closed_transition (co_id sample_machine)) db1 = (Inr (Some e), db3)"
    by (rule sample_moved [of db1 _ "closed_transition (co_id sample_machine)", OF one(3) _ _ one(2)])
      (simp_all add: plain_payload)
  let ?key = "pending_key (co_id sample_machine) ''rte_1''"
  let ?reg1 = "register_channel (co_id sample_machine) 2 ?reg"
  let ?reg2 = "?reg1\<lparr>kr_pending := kr_pending ?reg1 @ [?key]\<rparr>"
  have sent: "publish (co_id sample_machine) ''rte_1'' None ?reg1 = (Inr ?key, ?reg2)"
    by (simp add: publish_def Let_def register_channel_def no_channels_def)
  have closed: "close_control sample_machine 1 (db1, ?reg2) = (Inr (Some e), db3, unregister (co_id sample_machine) 1 ?reg2)"
    by (simp add: close_control_def two)
  have "sample_machine \<in> set (cd_connectors (fst (machine_db, ?reg)))" "co_status sample_machine \<noteq> Con_revoked"
    by (simp_all add: machine_db_def sample_machine_def connector_row_of_def)
  from late_close_ends_new_channel [OF one(1) sent closed _ this(1) refl this(2)] one(1) sent closed
  show ?thesis unfolding cid by (intro exI conjI) (assumption | simp)+
qed

end
