(* ===== verification/Session_Authorisation.thy ===== *)
theory Session_Authorisation
  imports Api_Errors
begin

text \<open>
  The browser-command authorisation matrix
  (\<open>apps/server/src/modules/browser-sessions/authorisation.ts\<close>): which command of which
  controller may reach the browser of a session, given the facts the service has gathered.

  A message of a refusal is not modelled; its code, its details and the reason that the audit
  record carries are. The regular expressions of \<open>SECRET_SHAPES\<close> are written out as matchers
  over 8-bit characters.
\<close>

section \<open>Vocabulary\<close>

datatype session_status =
    REQUESTED | ALLOCATING | READY | ACTIVE | PAUSED | DEGRADED | TERMINATING | TERMINATED | FAILED

fun session_status_name :: "session_status \<Rightarrow> string" where
  "session_status_name REQUESTED = ''REQUESTED''"
| "session_status_name ALLOCATING = ''ALLOCATING''"
| "session_status_name READY = ''READY''"
| "session_status_name ACTIVE = ''ACTIVE''"
| "session_status_name PAUSED = ''PAUSED''"
| "session_status_name DEGRADED = ''DEGRADED''"
| "session_status_name TERMINATING = ''TERMINATING''"
| "session_status_name TERMINATED = ''TERMINATED''"
| "session_status_name FAILED = ''FAILED''"

datatype controller_type = Agent_controller | Human_controller | System_controller

fun controller_type_name :: "controller_type \<Rightarrow> string" where
  "controller_type_name Agent_controller = ''agent''"
| "controller_type_name Human_controller = ''human''"
| "controller_type_name System_controller = ''system''"

record controller_identity =
  ct_type :: controller_type
  ct_id :: string

datatype command_name =
    Navigate | Snapshot | Click | Type_text | Select_option | Press_key | Scroll | Resize | Wait
  | Take_screenshot

fun command_text :: "command_name \<Rightarrow> string" where
  "command_text Navigate = ''navigate''"
| "command_text Snapshot = ''snapshot''"
| "command_text Click = ''click''"
| "command_text Type_text = ''type_text''"
| "command_text Select_option = ''select_option''"
| "command_text Press_key = ''press_key''"
| "command_text Scroll = ''scroll''"
| "command_text Resize = ''resize''"
| "command_text Wait = ''wait''"
| "command_text Take_screenshot = ''take_screenshot''"

text \<open>
  The members of a command that the control plane reads: its name, the text of a
  \<open>type_text\<close> and the purpose of a \<open>take_screenshot\<close>.
\<close>

record browser_command =
  bc_command :: command_name
  bc_text :: "string option"
  bc_purpose :: "string option"

definition INTERACTIVE_COMMANDS :: "command_name list" where
  "INTERACTIVE_COMMANDS = [Navigate, Click, Type_text, Select_option, Press_key, Scroll, Resize, Wait]"

definition SYSTEM_CAPTURE_COMMANDS :: "command_name list" where
  "SYSTEM_CAPTURE_COMMANDS = [Snapshot, Take_screenshot]"

definition isInteractive :: "command_name \<Rightarrow> bool" where
  "isInteractive command \<longleftrightarrow> command \<in> set INTERACTIVE_COMMANDS"

definition isSystemCapture :: "command_name \<Rightarrow> bool" where
  "isSystemCapture command \<longleftrightarrow> command \<in> set SYSTEM_CAPTURE_COMMANDS"

definition reachesTheNetwork :: "command_name \<Rightarrow> bool" where
  "reachesTheNetwork command \<longleftrightarrow> command = Navigate"

definition sameController :: "controller_identity \<Rightarrow> controller_identity option \<Rightarrow> bool" where
  "sameController left right =
     (case right of None \<Rightarrow> False | Some r \<Rightarrow> ct_type left = ct_type r \<and> ct_id left = ct_id r)"

section \<open>Secret material\<close>

definition in_range :: "char \<Rightarrow> char \<Rightarrow> char \<Rightarrow> bool" where
  "in_range lo hi c \<longleftrightarrow> lo \<le> c \<and> c \<le> hi"

definition upper_char :: "char \<Rightarrow> bool" where
  "upper_char c = in_range CHR ''A'' CHR ''Z'' c"

definition digit_char :: "char \<Rightarrow> bool" where
  "digit_char c = in_range CHR ''0'' CHR ''9'' c"

definition alnum :: "char \<Rightarrow> bool" where
  "alnum c \<longleftrightarrow> upper_char c \<or> in_range CHR ''a'' CHR ''z'' c \<or> digit_char c"

text \<open>The characters a word boundary tells apart.\<close>

definition word_char :: "char \<Rightarrow> bool" where
  "word_char c \<longleftrightarrow> alnum c \<or> c = CHR ''_''"

definition word_ends :: "string \<Rightarrow> bool" where
  "word_ends s = (case s of [] \<Rightarrow> True | c # _ \<Rightarrow> \<not> word_char c)"

text \<open>\<open>after lit s\<close> is what follows the literal at the front of \<open>s\<close>.\<close>

fun after :: "string \<Rightarrow> string \<Rightarrow> string option" where
  "after [] s = Some s"
| "after (p # ps) [] = None"
| "after (p # ps) (c # cs) = (if p = c then after ps cs else None)"

definition at_least :: "nat \<Rightarrow> (char \<Rightarrow> bool) \<Rightarrow> string \<Rightarrow> bool" where
  "at_least n p s \<longleftrightarrow> length (takeWhile p s) \<ge> n"

text \<open>
  \<open>somewhere m s\<close>: the matcher succeeds at some position. \<open>at_word m prev s\<close>: it succeeds at a
  position where a word begins; \<open>prev\<close> says whether the character before is a word character.
\<close>

fun somewhere :: "(string \<Rightarrow> bool) \<Rightarrow> string \<Rightarrow> bool" where
  "somewhere m [] = m []"
| "somewhere m (c # cs) = (m (c # cs) \<or> somewhere m cs)"

fun at_word :: "(string \<Rightarrow> bool) \<Rightarrow> bool \<Rightarrow> string \<Rightarrow> bool" where
  "at_word m prev [] = False"
| "at_word m prev (c # cs) = (\<not> prev \<and> word_char c \<and> m (c # cs) \<or> at_word m (word_char c) cs)"

definition fold_case :: "string \<Rightarrow> string" where
  "fold_case s = map (\<lambda>c. if upper_char c then char_of (of_char c + 32 :: nat) else c) s"

definition agent_token :: "string \<Rightarrow> bool" where
  "agent_token s = (case after ''rpa_'' s of None \<Rightarrow> False
     | Some rest \<Rightarrow> at_least 16 (\<lambda>c. word_char c \<or> c = CHR ''-'') rest)"

definition bearer_header :: "string \<Rightarrow> bool" where
  "bearer_header s = (case after ''bearer'' (fold_case s) of None \<Rightarrow> False
     | Some rest \<Rightarrow> at_least 1 js_space rest \<and>
         at_least 16 (\<lambda>c. alnum c \<or> c \<in> set ''._~+/=-'') (dropWhile js_space rest))"

text \<open>
  The run of \<open>[A-Z ]\<close> stops at the first dash, so it ends with the literal
  \<open>PRIVATE KEY\<close> exactly when the pattern matches.
\<close>

definition private_key_block :: "string \<Rightarrow> bool" where
  "private_key_block s = (case after ''-----BEGIN '' s of None \<Rightarrow> False
     | Some rest \<Rightarrow>
         (let inner = (\<lambda>c. upper_char c \<or> c = CHR '' '') in
          after (rev ''PRIVATE KEY'') (rev (takeWhile inner rest)) \<noteq> None \<and>
          after ''-----'' (dropWhile inner rest) \<noteq> None))"

definition secret_names :: "string list" where
  "secret_names =
     [''password'', ''passwd'', ''secret'', ''apikey'', ''api_key'', ''api-key'',
      ''accesstoken'', ''access_token'', ''access-token'',
      ''refreshtoken'', ''refresh_token'', ''refresh-token'',
      ''clientsecret'', ''client_secret'', ''client-secret'',
      ''privatekey'', ''private_key'', ''private-key'', ''credential'']"

definition assigned :: "string \<Rightarrow> bool" where
  "assigned rest =
     (word_ends rest \<and>
      (case dropWhile js_space rest of [] \<Rightarrow> False
       | c # value \<Rightarrow> c \<in> {CHR '':'', CHR ''=''} \<and>
           at_least 6 (\<lambda>c. \<not> js_space c) (dropWhile js_space value)))"

definition named_secret :: "string \<Rightarrow> bool" where
  "named_secret s =
     list_ex (\<lambda>name. case after name (fold_case s) of None \<Rightarrow> False | Some rest \<Rightarrow> assigned rest) secret_names"

definition aws_key_id :: "string \<Rightarrow> bool" where
  "aws_key_id s = (case after ''AKIA'' s of None \<Rightarrow> False
     | Some rest \<Rightarrow> at_least 16 (\<lambda>c. digit_char c \<or> upper_char c) rest \<and> word_ends (drop 16 rest))"

definition github_token :: "string \<Rightarrow> bool" where
  "github_token s =
     list_ex (\<lambda>p. case after p s of None \<Rightarrow> False | Some rest \<Rightarrow> at_least 20 alnum rest)
       [''ghp_'', ''gho_'', ''ghu_'', ''ghs_'', ''ghr_'']"

definition SECRET_SHAPES :: "(string \<times> (string \<Rightarrow> bool)) list" where
  "SECRET_SHAPES =
     [(''reviewplane_agent_token'', at_word agent_token False),
      (''authorization_header'', at_word bearer_header False),
      (''private_key_block'', somewhere private_key_block),
      (''named_secret_assignment'', at_word named_secret False),
      (''aws_access_key_id'', at_word aws_key_id False),
      (''github_token'', at_word github_token False)]"

definition secretMaterialShape :: "string \<Rightarrow> string option" where
  "secretMaterialShape value = map_option fst (List.find (\<lambda>shape. snd shape value) SECRET_SHAPES)"

section \<open>The matrix\<close>

record command_denial =
  cd_code :: error_code
  cd_details :: "detail list option"
  cd_reason :: string

record command_context =
  cx_sessionProjectId :: string
  cx_actorProjectId :: string
  cx_status :: session_status
  cx_currentEpoch :: nat
  cx_currentController :: "controller_identity option"
  cx_presentedEpoch :: nat
  cx_presentedController :: controller_identity
  cx_publishedServiceId :: "string option"
  cx_routeAssociated :: "bool option"

definition policyDenial :: "browser_command \<Rightarrow> command_denial option" where
  "policyDenial command =
     (if bc_command command = Type_text
      then (case secretMaterialShape (case bc_text command of Some t \<Rightarrow> t | None \<Rightarrow> '''') of
              None \<Rightarrow> None
            | Some shape \<Rightarrow> Some \<lparr>cd_code = POLICY_DENIED,
                cd_details = Some [D_reason ''secret_material'', D_detected shape],
                cd_reason = ''secret_material_refused''\<rparr>)
      else None)"

definition authoriseBrowserCommand :: "command_context \<Rightarrow> browser_command \<Rightarrow> command_denial option" where
  "authoriseBrowserCommand context command =
     (if cx_sessionProjectId context \<noteq> cx_actorProjectId context
      then Some \<lparr>cd_code = RESOURCE_NOT_FOUND, cd_details = None, cd_reason = ''project_mismatch''\<rparr>
      else if cx_status context = PAUSED \<and> isInteractive (bc_command command)
      then Some \<lparr>cd_code = BROWSER_SESSION_NOT_ACTIVE,
        cd_details = Some [D_browser_session_status (session_status_name (cx_status context))],
        cd_reason = ''session_paused''\<rparr>
      else if cx_status context \<noteq> PAUSED \<and> cx_status context \<noteq> READY \<and> cx_status context \<noteq> ACTIVE
      then Some \<lparr>cd_code = BROWSER_SESSION_NOT_ACTIVE,
        cd_details = Some [D_browser_session_status (session_status_name (cx_status context))],
        cd_reason = ''session_not_active''\<rparr>
      else if cx_presentedEpoch context \<noteq> cx_currentEpoch context
      then Some \<lparr>cd_code = CONTROL_EPOCH_STALE, cd_details = Some [D_current_epoch (cx_currentEpoch context)],
        cd_reason = ''control_epoch_stale''\<rparr>
      else if \<not> sameController (cx_presentedController context) (cx_currentController context) \<and>
        \<not> (isSystemCapture (bc_command command) \<and> ct_type (cx_presentedController context) = System_controller)
      then Some \<lparr>cd_code = CONTROL_NOT_OWNED, cd_details = Some [D_current_epoch (cx_currentEpoch context)],
        cd_reason = ''control_not_owned''\<rparr>
      else case policyDenial command of Some d \<Rightarrow> Some d
      | None \<Rightarrow>
          if reachesTheNetwork (bc_command command) \<and> cx_routeAssociated context = Some False
          then Some \<lparr>cd_code = AUTHORISATION_DENIED,
            cd_details = Some [D_published_service_id (cx_publishedServiceId context)],
            cd_reason = ''route_not_associated''\<rparr>
          else None)"

section \<open>Lemmas\<close>

lemma sameController_iff [simp]: "sameController c (Some d) \<longleftrightarrow> c = d" "\<not> sameController c None"
  by (auto simp: sameController_def controller_identity.equality)

lemma interactive_or_capture: "isInteractive c \<longleftrightarrow> \<not> isSystemCapture c"
  by (cases c) (simp_all add: isInteractive_def isSystemCapture_def INTERACTIVE_COMMANDS_def
      SYSTEM_CAPTURE_COMMANDS_def)

text \<open>What a command that passes the matrix has shown.\<close>

lemma authorised_facts:
  assumes "authoriseBrowserCommand context command = None"
  shows "cx_actorProjectId context = cx_sessionProjectId context"
    and "cx_presentedEpoch context = cx_currentEpoch context"
    and "cx_status context \<in> {READY, ACTIVE, PAUSED}"
    and "isInteractive (bc_command command) \<Longrightarrow>
      cx_currentController context = Some (cx_presentedController context) \<and> cx_status context \<noteq> PAUSED"
    and "cx_currentController context = Some (cx_presentedController context) \<or>
      isSystemCapture (bc_command command) \<and> ct_type (cx_presentedController context) = System_controller"
    and "bc_command command = Type_text \<Longrightarrow> bc_text command = Some text \<Longrightarrow> secretMaterialShape text = None"
    and "bc_command command = Navigate \<Longrightarrow> cx_routeAssociated context \<noteq> Some False"
proof -
  note rule = assms [unfolded authoriseBrowserCommand_def]
  show "cx_actorProjectId context = cx_sessionProjectId context"
    "cx_presentedEpoch context = cx_currentEpoch context"
    "cx_status context \<in> {READY, ACTIVE, PAUSED}"
    using rule by (auto split: if_splits)
  show owner: "cx_currentController context = Some (cx_presentedController context) \<or>
      isSystemCapture (bc_command command) \<and> ct_type (cx_presentedController context) = System_controller"
    using rule by (cases "cx_currentController context") (auto split: if_splits)
  show "cx_currentController context = Some (cx_presentedController context) \<and> cx_status context \<noteq> PAUSED"
    if "isInteractive (bc_command command)"
    using rule that owner by (auto simp: interactive_or_capture split: if_splits)
  show "secretMaterialShape text = None" if "bc_command command = Type_text" "bc_text command = Some text"
    using rule that by (auto simp: policyDenial_def split: if_splits option.splits)
  show "cx_routeAssociated context \<noteq> Some False" if "bc_command command = Navigate"
    using rule that by (auto simp: policyDenial_def reachesTheNetwork_def split: if_splits)
qed

text \<open>A refusal for another project is the refusal an unknown session earns: it carries no detail.\<close>

lemma denial_cross_project:
  "authoriseBrowserCommand context command = Some d \<Longrightarrow> cd_reason d = ''project_mismatch'' \<longleftrightarrow>
     cx_sessionProjectId context \<noteq> cx_actorProjectId context"
  by (auto simp: authoriseBrowserCommand_def policyDenial_def split: if_splits option.splits)

end
