(* ===== verification/Browser_Store.thy ===== *)
theory Browser_Store
  imports Events Session_Authorisation
begin

text \<open>
  The state of the browser-session service
  (\<open>apps/server/src/modules/browser-sessions/service.ts\<close>, \<open>workers.ts\<close>) and the statements it
  runs on it: the tables of the migrations 0042, 0043, 0140 and 0160, with their constraints, and
  the rows of other components that the service reads (projects, organisations, published
  services).

  The browser worker, the gateway and the process that mints capabilities are peers. What they
  answer is an argument of the operations; what the service asks of them is appended to
  \<open>bd_calls\<close>, so that the model shows every request that leaves the control plane.
\<close>

section \<open>Rows\<close>

record session_limits =
  max_duration_seconds :: nat
  default_timeout_ms :: nat
  max_command_timeout_ms :: nat
  screenshot_max_bytes :: nat
  snapshot_max_nodes :: nat
  snapshot_max_bytes :: nat

definition DEFAULT_SESSION_LIMITS :: session_limits where
  "DEFAULT_SESSION_LIMITS =
     \<lparr>max_duration_seconds = 7200, default_timeout_ms = 30000, max_command_timeout_ms = 120000,
      screenshot_max_bytes = 20971520, snapshot_max_nodes = 400, snapshot_max_bytes = 32768\<rparr>"

record browser_session =
  bs_id :: string
  bs_organisation_id :: string
  bs_project_id :: string
  bs_worker_id :: "string option"
  bs_agent_session_id :: "string option"
  bs_published_service_id :: "string option"
  bs_requested_published_service_id :: "string option"
  bs_allocation_requested_at :: "nat option"
  bs_service_origin :: "string option"
  bs_browser_type :: string
  bs_browser_version :: "string option"
  bs_status :: session_status
  bs_current_controller :: "controller_identity option"
  bs_control_epoch :: nat
  bs_last_sequence :: int
  bs_viewport :: json
  bs_limits :: session_limits
  bs_retention_policy :: string
  bs_created_at :: nat
  bs_ended_at :: "nat option"

record control_lease =
  cl_id :: string
  cl_session :: string
  cl_controller :: controller_identity
  cl_epoch :: nat
  cl_issued_at :: nat
  cl_expires_at :: nat
  cl_revoked_at :: "nat option"
  cl_reason :: "string option"

datatype worker_status = Worker_active | Worker_degraded | Worker_lost | Worker_revoked

fun worker_status_name :: "worker_status \<Rightarrow> string" where
  "worker_status_name Worker_active = ''active''"
| "worker_status_name Worker_degraded = ''degraded''"
| "worker_status_name Worker_lost = ''lost''"
| "worker_status_name Worker_revoked = ''revoked''"

record worker_row =
  wk_id :: string
  wk_name :: string
  wk_credential_sha256 :: string
  wk_worker_version :: string
  wk_browser_type :: string
  wk_browser_version :: string
  wk_capacity :: nat
  wk_labels :: json
  wk_sandbox_enabled :: bool
  wk_status :: worker_status
  wk_registered_at :: nat
  wk_last_heartbeat_at :: "nat option"
  wk_active_sessions :: nat
  wk_degraded_at :: "nat option"
  wk_lost_at :: "nat option"

text \<open>The columns of a published service that the service reads.\<close>

record route_row =
  rt_id :: string
  rt_project_id :: string
  rt_status :: string
  rt_expires_at :: nat
  rt_allowed_sessions :: "string list"

section \<open>Requests to the peers\<close>

datatype termination_reason = Requested | Duration_limit | Capacity | Policy | Worker_shutdown | Failure

fun termination_reason_text :: "termination_reason \<Rightarrow> string" where
  "termination_reason_text Requested = ''requested''"
| "termination_reason_text Duration_limit = ''duration_limit''"
| "termination_reason_text Capacity = ''capacity''"
| "termination_reason_text Policy = ''policy''"
| "termination_reason_text Worker_shutdown = ''worker_shutdown''"
| "termination_reason_text Failure = ''failure''"

record service_binding =
  sb_published_service_id :: string
  sb_service_origin :: string
  sb_service_capability :: string

record session_allocate =
  sa_organisation_id :: string
  sa_project_id :: string
  sa_agent_session_id :: "string option"
  sa_binding :: "service_binding option"
  sa_viewport :: json
  sa_control_epoch :: nat
  sa_controller :: controller_identity
  sa_limits :: session_limits
  sa_retention_class :: string

datatype peer_call =
    Call_allocate string string session_allocate
  | Call_command string string controller_identity nat int browser_command
  | Call_terminate string string termination_reason
  | Call_withdraw string

record browser_db = event_store +
  bd_sessions :: "browser_session list"
  bd_leases :: "control_lease list"
  bd_workers :: "worker_row list"
  bd_worker_projects :: "(string \<times> string) list"
  bd_projects :: "(string \<times> string) list"
  bd_organisations :: "string list"
  bd_routes :: "route_row list"
  bd_calls :: "peer_call list"

type_synonym 'a session_act = "browser_db \<Rightarrow> (store_failure + 'a) \<times> browser_db"

section \<open>Statements\<close>

text \<open>
  A statement that writes a table fails as a whole when a constraint does not hold of the table
  it would leave. \<open>sessions_ok\<close> and \<open>leases_ok\<close> are the constraints of the two tables.
\<close>

definition session_row_ok :: "browser_session \<Rightarrow> bool" where
  "session_row_ok b \<longleftrightarrow>
     (bs_requested_published_service_id b = None) = (bs_allocation_requested_at b = None)"

definition interactive_lease :: "control_lease \<Rightarrow> bool" where
  "interactive_lease l \<longleftrightarrow> cl_revoked_at l = None \<and> ct_type (cl_controller l) \<noteq> System_controller"

definition store_sessions :: "browser_session list \<Rightarrow> browser_db \<Rightarrow> store_failure + browser_db" where
  "store_sessions rows db =
     r_then (refuse_if (\<not> distinct (map bs_id rows)) (Unique_violation ''browser_sessions_pkey''))
     (r_then (refuse_if (\<not> list_all session_row_ok rows)
        (Check_violation ''browser_sessions_requested_route_has_a_time''))
     (Inr (db\<lparr>bd_sessions := rows\<rparr>)))"

definition store_leases :: "control_lease list \<Rightarrow> browser_db \<Rightarrow> store_failure + browser_db" where
  "store_leases rows db =
     r_then (refuse_if (\<not> distinct (map cl_id rows)) (Unique_violation ''control_leases_pkey''))
     (r_then (refuse_if (\<not> distinct (map cl_session (filter interactive_lease rows)))
        (Unique_violation ''control_leases_one_active_interactive''))
     (r_then (refuse_if (\<not> distinct (map (\<lambda>l. (cl_session l, cl_epoch l)) rows))
        (Unique_violation ''control_leases_epoch_unique''))
     (Inr (db\<lparr>bd_leases := rows\<rparr>))))"

text \<open>A statement outside a transaction commits on its own.\<close>

definition statement :: "(browser_db \<Rightarrow> store_failure + browser_db) \<Rightarrow> unit session_act" where
  "statement f db = (case f db of Inl e \<Rightarrow> (Inl e, db) | Inr db' \<Rightarrow> (ok, db'))"

text \<open>A transaction of the service: its writes and its events commit together or not at all.\<close>

definition transaction :: "(browser_db \<Rightarrow> store_failure + ('a \<times> browser_db)) \<Rightarrow> 'a session_act" where
  "transaction work db = inTransaction work db"

definition call_peer :: "peer_call \<Rightarrow> browser_db \<Rightarrow> browser_db" where
  "call_peer c db = db\<lparr>bd_calls := bd_calls db @ [c]\<rparr>"

definition session_event ::
  "browser_session \<Rightarrow> event_actor \<Rightarrow> string \<Rightarrow> (string \<times> json) list \<Rightarrow> (string \<times> json) list \<Rightarrow> append_input" where
  "session_event b = project_event (bs_organisation_id b) (bs_project_id b)"

section \<open>Reading a session\<close>

definition session_by_id :: "string \<Rightarrow> browser_db \<Rightarrow> browser_session option" where
  "session_by_id sid db = List.find (\<lambda>b. bs_id b = sid) (bd_sessions db)"

definition get_session :: "string \<Rightarrow> browser_db \<Rightarrow> store_failure + browser_session" where
  "get_session sid db =
     (case session_by_id sid db of None \<Rightarrow> Inl (Refused (notFound ''The browser session''))
      | Some b \<Rightarrow> Inr b)"

record session_scope =
  ss_organisation_id :: "string option"
  ss_project_ids :: "string list option"

definition DEPLOYMENT_SCOPE :: session_scope where
  "DEPLOYMENT_SCOPE = \<lparr>ss_organisation_id = None, ss_project_ids = None\<rparr>"

text \<open>The join with \<open>projects\<close>: the organisation is the project's, not the session's own column.\<close>

definition in_scope :: "session_scope \<Rightarrow> browser_db \<Rightarrow> browser_session \<Rightarrow> bool" where
  "in_scope scope db b \<longleftrightarrow>
     (case map_of (bd_projects db) (bs_project_id b) of
        None \<Rightarrow> False
      | Some org \<Rightarrow>
          (case ss_project_ids scope of None \<Rightarrow> True | Some ps \<Rightarrow> bs_project_id b \<in> set ps) \<and>
          (case ss_organisation_id scope of None \<Rightarrow> True | Some o' \<Rightarrow> org = o'))"

definition getForScope :: "string \<Rightarrow> session_scope \<Rightarrow> browser_db \<Rightarrow> store_failure + browser_session" where
  "getForScope sid scope db =
     (case List.find (\<lambda>b. bs_id b = sid \<and> in_scope scope db b) (bd_sessions db) of
        None \<Rightarrow> Inl (Refused (notFound ''The browser session''))
      | Some b \<Rightarrow> Inr b)"

definition listForProject :: "string \<Rightarrow> browser_db \<Rightarrow> browser_session list" where
  "listForProject project db =
     take 100 (rev (sort_key bs_created_at (filter (\<lambda>b. bs_project_id b = project) (bd_sessions db))))"

section \<open>Constraints of the tables\<close>

definition tables_ok :: "browser_db \<Rightarrow> bool" where
  "tables_ok db \<longleftrightarrow>
     distinct (map bs_id (bd_sessions db)) \<and> list_all session_row_ok (bd_sessions db) \<and>
     distinct (map cl_id (bd_leases db)) \<and>
     distinct (map cl_session (filter interactive_lease (bd_leases db))) \<and>
     distinct (map (\<lambda>l. (cl_session l, cl_epoch l)) (bd_leases db))"

lemma store_sessions_Inr [result_simps]:
  "store_sessions rows db = Inr db' \<longleftrightarrow>
     db' = db\<lparr>bd_sessions := rows\<rparr> \<and> distinct (map bs_id rows) \<and> list_all session_row_ok rows"
  by (auto simp: store_sessions_def result_simps)

lemma store_leases_Inr [result_simps]:
  "store_leases rows db = Inr db' \<longleftrightarrow>
     db' = db\<lparr>bd_leases := rows\<rparr> \<and> distinct (map cl_id rows) \<and>
     distinct (map cl_session (filter interactive_lease rows)) \<and>
     distinct (map (\<lambda>l. (cl_session l, cl_epoch l)) rows)"
  by (auto simp: store_leases_def result_simps)

text \<open>An append writes the log and nothing of these tables.\<close>

lemma appended_tables [simp]:
  "bd_sessions (appended i db) = bd_sessions db" "bd_leases (appended i db) = bd_leases db"
  "bd_workers (appended i db) = bd_workers db" "bd_worker_projects (appended i db) = bd_worker_projects db"
  "bd_projects (appended i db) = bd_projects db" "bd_organisations (appended i db) = bd_organisations db"
  "bd_routes (appended i db) = bd_routes db" "bd_calls (appended i db) = bd_calls db"
  by (simp_all add: appended_def Let_def)

lemma fold_appended_tables [simp]:
  "bd_sessions (fold appended is db) = bd_sessions db" "bd_leases (fold appended is db) = bd_leases db"
  "bd_workers (fold appended is db) = bd_workers db"
  "bd_worker_projects (fold appended is db) = bd_worker_projects db"
  "bd_projects (fold appended is db) = bd_projects db"
  "bd_organisations (fold appended is db) = bd_organisations db"
  "bd_routes (fold appended is db) = bd_routes db" "bd_calls (fold appended is db) = bd_calls db"
  by (induction "is" arbitrary: db) simp_all

lemma fold_appended_now [simp]: "es_now (fold appended is db) = es_now db"
  by (induction "is" arbitrary: db) simp_all

end
