(* ===== verification/Worker_Registry.thy ===== *)
theory Worker_Registry
  imports Browser_Store
begin

text \<open>
  The registry of browser workers (\<open>browser-sessions/workers.ts\<close>), their liveness
  (\<open>liveness.ts\<close>) and its settings (\<open>config.ts\<close>). Times are microseconds, budgets seconds.

  The digest of a credential is an argument: SHA-256 is the platform's. Where the code compares
  two digests the model compares the credentials through it.
\<close>

section \<open>Settings\<close>

record worker_config =
  wc_heartbeatIntervalSeconds :: nat
  wc_degradedAfterSeconds :: nat
  wc_lostAfterSeconds :: nat
  wc_monitorIntervalSeconds :: nat

definition DEFAULT_BROWSER_WORKER_CONFIG :: worker_config where
  "DEFAULT_BROWSER_WORKER_CONFIG =
     \<lparr>wc_heartbeatIntervalSeconds = 15, wc_degradedAfterSeconds = 45, wc_lostAfterSeconds = 90,
      wc_monitorIntervalSeconds = 5\<rparr>"

text \<open>What \<open>Number(raw)\<close> makes of a variable of the environment.\<close>

datatype env_value = Unset | Not_integer | Integer int

definition readInteger :: "(string \<Rightarrow> env_value) \<Rightarrow> string \<Rightarrow> nat \<Rightarrow> nat \<Rightarrow> nat \<Rightarrow> string + nat" where
  "readInteger environment name fallback minimum maximum =
     (case environment name of
        Unset \<Rightarrow> Inr fallback
      | Not_integer \<Rightarrow> Inl name
      | Integer v \<Rightarrow> if v < int minimum \<or> v > int maximum then Inl name else Inr (nat v))"

definition loadBrowserWorkerConfig :: "(string \<Rightarrow> env_value) \<Rightarrow> string + worker_config" where
  "loadBrowserWorkerConfig environment =
     r_bind (readInteger environment ''REVIEWPLANE_BROWSER_WORKER_HEARTBEAT_INTERVAL_SECONDS''
       (wc_heartbeatIntervalSeconds DEFAULT_BROWSER_WORKER_CONFIG) 5 300) (\<lambda>heartbeat.
     r_bind (readInteger environment ''REVIEWPLANE_BROWSER_WORKER_DEGRADED_AFTER_SECONDS''
       (wc_degradedAfterSeconds DEFAULT_BROWSER_WORKER_CONFIG) 1 86400) (\<lambda>degraded.
     r_bind (readInteger environment ''REVIEWPLANE_BROWSER_WORKER_LOST_AFTER_SECONDS''
       (wc_lostAfterSeconds DEFAULT_BROWSER_WORKER_CONFIG) 1 86400) (\<lambda>lost.
     r_bind (readInteger environment ''REVIEWPLANE_BROWSER_WORKER_MONITOR_INTERVAL_SECONDS''
       (wc_monitorIntervalSeconds DEFAULT_BROWSER_WORKER_CONFIG) 1 3600) (\<lambda>monitor.
     r_then (refuse_if (lost \<le> degraded) ''REVIEWPLANE_BROWSER_WORKER_LOST_AFTER_SECONDS'')
     (r_then (refuse_if (degraded \<le> heartbeat) ''REVIEWPLANE_BROWSER_WORKER_DEGRADED_AFTER_SECONDS'')
     (Inr \<lparr>wc_heartbeatIntervalSeconds = heartbeat, wc_degradedAfterSeconds = degraded,
           wc_lostAfterSeconds = lost, wc_monitorIntervalSeconds = monitor\<rparr>))))))"

section \<open>Liveness\<close>

text \<open>\<open>greatest\<close> ignores a null.\<close>

definition last_seen :: "worker_row \<Rightarrow> nat" where
  "last_seen w =
     (case wk_last_heartbeat_at w of None \<Rightarrow> wk_registered_at w | Some t \<Rightarrow> max t (wk_registered_at w))"

definition workerLivePredicate :: "nat \<Rightarrow> browser_db \<Rightarrow> worker_row \<Rightarrow> bool" where
  "workerLivePredicate seconds db w \<longleftrightarrow> last_seen w + seconds * 1000000 > es_now db"

definition SCHEDULABLE_WORKER_STATUSES :: "worker_status list" where
  "SCHEDULABLE_WORKER_STATUSES = [Worker_active, Worker_degraded]"

section \<open>The registry\<close>

definition store_workers :: "worker_row list \<Rightarrow> browser_db \<Rightarrow> store_failure + browser_db" where
  "store_workers rows db =
     r_then (refuse_if (\<not> distinct (map wk_id rows)) (Unique_violation ''browser_workers_pkey''))
     (r_then (refuse_if (\<not> distinct (map wk_name rows)) (Unique_violation ''browser_workers_name_key''))
     (r_then (refuse_if (\<not> distinct (map wk_credential_sha256 rows))
        (Unique_violation ''browser_workers_credential_sha256_key''))
     (r_then (refuse_if (\<not> list_all (\<lambda>w. 1 \<le> wk_capacity w \<and> wk_capacity w \<le> 64) rows)
        (Check_violation ''browser_workers_capacity_positive''))
     (Inr (db\<lparr>bd_workers := rows\<rparr>)))))"

definition deploymentOrganisation :: "browser_db \<Rightarrow> string option" where
  "deploymentOrganisation db = (case bd_organisations db of [] \<Rightarrow> None | o' # _ \<Rightarrow> Some o')"

definition worker_event ::
  "string \<Rightarrow> event_actor \<Rightarrow> string \<Rightarrow> string \<Rightarrow> (string \<times> json) list \<Rightarrow> append_input" where
  "worker_event org actor type wid payload =
     \<lparr>ai_type = type, ai_organisation_id = org, ai_project_id = None, ai_actor = actor,
      ai_correlation = [(''worker_id'', JString wid)], ai_payload = payload,
      ai_occurred_at = None, ai_enqueue_outbox = True\<rparr>"

record worker_registration =
  wr_worker_name :: string
  wr_worker_version :: string
  wr_browser_type :: string
  wr_browser_version :: string
  wr_capacity :: nat
  wr_labels :: json
  wr_sandbox_enabled :: bool

definition assignedProjects :: "string \<Rightarrow> browser_db \<Rightarrow> string list" where
  "assignedProjects wid db = sort (map snd (filter (\<lambda>(w, p). w = wid) (bd_worker_projects db)))"

definition registered_rows ::
  "(string \<Rightarrow> string) \<Rightarrow> string \<Rightarrow> worker_registration \<Rightarrow> string \<Rightarrow> browser_db \<Rightarrow> worker_row list" where
  "registered_rows digest credential reg wid db =
     (if wr_worker_name reg \<in> set (map wk_name (bd_workers db))
      then update_where (\<lambda>w. wk_name w = wr_worker_name reg)
        (\<lambda>w. w\<lparr>wk_credential_sha256 := digest credential, wk_worker_version := wr_worker_version reg,
               wk_browser_version := wr_browser_version reg, wk_capacity := wr_capacity reg,
               wk_labels := wr_labels reg, wk_sandbox_enabled := wr_sandbox_enabled reg,
               wk_status := Worker_active, wk_registered_at := es_now db,
               wk_last_heartbeat_at := Some (es_now db), wk_degraded_at := None, wk_lost_at := None\<rparr>)
        (bd_workers db)
      else bd_workers db @
        [\<lparr>wk_id = wid, wk_name = wr_worker_name reg, wk_credential_sha256 = digest credential,
          wk_worker_version = wr_worker_version reg, wk_browser_type = wr_browser_type reg,
          wk_browser_version = wr_browser_version reg, wk_capacity = wr_capacity reg,
          wk_labels = wr_labels reg, wk_sandbox_enabled = wr_sandbox_enabled reg,
          wk_status = Worker_active, wk_registered_at = es_now db,
          wk_last_heartbeat_at = Some (es_now db), wk_active_sessions = 0,
          wk_degraded_at = None, wk_lost_at = None\<rparr>])"

definition register_work ::
  "(string \<Rightarrow> string) \<Rightarrow> string \<Rightarrow> worker_registration \<Rightarrow> worker_row option \<Rightarrow> string \<Rightarrow> browser_db \<Rightarrow>
     store_failure + (unit \<times> browser_db)" where
  "register_work digest credential reg previous wid db =
     r_bind (store_workers (registered_rows digest credential reg wid db) db) (\<lambda>db2.
     r_bind (appendEvents
       (case deploymentOrganisation db2 of None \<Rightarrow> []
        | Some org \<Rightarrow>
            [worker_event org
               \<lparr>act_type = browser_worker, act_id = Some wid, act_display = Some (wr_worker_name reg)\<rparr>
               ''browser_worker.registered'' wid
               [(''previous_status'', case previous of None \<Rightarrow> JNull
                   | Some w \<Rightarrow> JString (worker_status_name (wk_status w))),
                (''new_status'', JString ''active''), (''capacity'', json_num (wr_capacity reg)),
                (''browser_type'', JString (wr_browser_type reg)),
                (''browser_version'', JString (wr_browser_version reg)),
                (''sandbox_enabled'', JBool (wr_sandbox_enabled reg))]]) db2) (\<lambda>db3.
     Inr ((), db3)))"

definition register ::
  "(string \<Rightarrow> string) \<Rightarrow> string \<Rightarrow> worker_config \<Rightarrow> string \<Rightarrow> worker_registration \<Rightarrow>
     (string \<times> string list \<times> nat) session_act" where
  "register digest expected config credential reg =
     act_bind (act_read (\<lambda>db. r_then (refuse_if (digest credential \<noteq> digest expected)
         (Refused (ApiError AUTHENTICATION_REQUIRED None None None)))
       (r_then (refuse_if (\<not> wr_sandbox_enabled reg) (Refused (ApiError POLICY_DENIED None None None)))
       (Inr (List.find (\<lambda>w. wk_name w = wr_worker_name reg) (bd_workers db)))))) (\<lambda>previous db.
       (let (wid, db1) = (case previous of Some w \<Rightarrow> (wk_id w, db) | None \<Rightarrow> newId ''wkr_'' db) in
        act_bind (transaction (register_work digest credential reg previous wid)) (\<lambda>_.
          act_read (\<lambda>db. Inr (wid, assignedProjects wid db, wc_heartbeatIntervalSeconds config))) db1))"

definition worker_byId :: "string \<Rightarrow> browser_db \<Rightarrow> store_failure + worker_row" where
  "worker_byId wid db =
     (case List.find (\<lambda>w. wk_id w = wid) (bd_workers db) of
        None \<Rightarrow> Inl (Refused (notFound ''The browser worker'')) | Some w \<Rightarrow> Inr w)"

text \<open>
  \<open>assign\<close> deletes and inserts row by row; the insertion of a pair that is there does nothing. A
  project that does not exist is refused by the foreign key, after the rows before it.
\<close>

fun insert_assignments :: "string \<Rightarrow> string list \<Rightarrow> unit session_act" where
  "insert_assignments wid [] db = (ok, db)"
| "insert_assignments wid (p # ps) db =
     (if p \<notin> fst ` set (bd_projects db)
      then (Inl (Check_violation ''browser_worker_projects_project_id_fkey''), db)
      else insert_assignments wid ps
        (if (wid, p) \<in> set (bd_worker_projects db) then db
         else db\<lparr>bd_worker_projects := bd_worker_projects db @ [(wid, p)]\<rparr>))"

definition assign :: "string \<Rightarrow> string list \<Rightarrow> string list session_act" where
  "assign wid projectIds =
     act_bind (act_read (worker_byId wid)) (\<lambda>worker.
     act_bind (act_write (\<lambda>db. db\<lparr>bd_worker_projects :=
       filter (\<lambda>(w, p). w \<noteq> wk_id worker) (bd_worker_projects db)\<rparr>)) (\<lambda>_.
     act_bind (insert_assignments (wk_id worker) projectIds) (\<lambda>_.
     act_read (\<lambda>db. Inr (assignedProjects (wk_id worker) db)))))"

definition active_worker :: "worker_config \<Rightarrow> browser_db \<Rightarrow> worker_row option" where
  "active_worker config db =
     (case sort_key wk_registered_at (filter (\<lambda>w. wk_status w \<in> set SCHEDULABLE_WORKER_STATUSES \<and>
        workerLivePredicate (wc_degradedAfterSeconds config) db w) (bd_workers db)) of
        [] \<Rightarrow> None | w # _ \<Rightarrow> Some w)"

definition schedulableRows :: "worker_config \<Rightarrow> browser_db \<Rightarrow> (worker_row \<times> bool) list" where
  "schedulableRows config db =
     map (\<lambda>w. (w, workerLivePredicate (wc_degradedAfterSeconds config) db w))
       (sort_key wk_registered_at
         (filter (\<lambda>w. wk_status w \<in> set SCHEDULABLE_WORKER_STATUSES) (bd_workers db)))"

record worker_principal =
  wp_worker_id :: string
  wp_name :: string
  wp_assigned :: "string list"

definition worker_principal_of ::
  "(string \<Rightarrow> string) \<Rightarrow> string \<Rightarrow> string \<Rightarrow> browser_db \<Rightarrow> store_failure + worker_principal" where
  "worker_principal_of digest expected credential db =
     r_then (refuse_if (digest credential \<noteq> digest expected)
       (Refused (ApiError AUTHENTICATION_REQUIRED None None None)))
     (case List.find (\<lambda>w. wk_credential_sha256 w = digest credential \<and>
             wk_status w \<in> set SCHEDULABLE_WORKER_STATUSES) (bd_workers db) of
        None \<Rightarrow> Inl (Refused (ApiError AUTHORISATION_DENIED None None None))
      | Some w \<Rightarrow> Inr \<lparr>wp_worker_id = wk_id w, wp_name = wk_name w,
                       wp_assigned = assignedProjects (wk_id w) db\<rparr>)"

definition recordHeartbeat :: "worker_config \<Rightarrow> string \<Rightarrow> nat \<Rightarrow> (string list \<times> nat) session_act" where
  "recordHeartbeat config wid activeSessions =
     act_bind (act_read (\<lambda>db. Inr (map_option wk_status (List.find (\<lambda>w. wk_id w = wid) (bd_workers db)))))
       (\<lambda>previousStatus.
     act_bind (transaction (\<lambda>db.
       r_bind (store_workers (update_where (\<lambda>w. wk_id w = wid)
           (\<lambda>w. w\<lparr>wk_last_heartbeat_at := Some (es_now db), wk_active_sessions := activeSessions,
                  wk_status := Worker_active, wk_degraded_at := None, wk_lost_at := None\<rparr>)
           (bd_workers db)) db) (\<lambda>db1.
       r_bind (appendEvents
         (case (previousStatus, deploymentOrganisation db1) of
            (Some s, Some org) \<Rightarrow>
              (if s = Worker_active then []
               else [worker_event org \<lparr>act_type = browser_worker, act_id = Some wid, act_display = None\<rparr>
                 ''browser_worker.registered'' wid
                 [(''previous_status'', JString (worker_status_name s)),
                  (''new_status'', JString ''active''), (''trigger'', JString ''heartbeat_recovered'')]])
          | _ \<Rightarrow> []) db1) (\<lambda>db2. Inr ((), db2))))) (\<lambda>_.
     act_read (\<lambda>db. Inr (assignedProjects wid db, wc_heartbeatIntervalSeconds config))))"

definition transition_work ::
  "string \<Rightarrow> worker_status list \<Rightarrow> worker_status \<Rightarrow> (string \<times> json) list \<Rightarrow> browser_db \<Rightarrow>
     store_failure + (bool \<times> browser_db)" where
  "transition_work wid from to payload db =
     (case List.find (\<lambda>w. wk_id w = wid) (bd_workers db) of
        None \<Rightarrow> Inr (False, db)
      | Some row \<Rightarrow>
          (if wk_status row \<notin> set from then Inr (False, db)
           else r_bind (store_workers (update_where (\<lambda>w. wk_id w = wid)
               (\<lambda>w. w\<lparr>wk_status := to,
                 wk_degraded_at := (if to = Worker_degraded then Some (es_now db) else wk_degraded_at w),
                 wk_lost_at := (if to = Worker_lost then Some (es_now db) else wk_lost_at w)\<rparr>)
               (bd_workers db)) db) (\<lambda>db1.
             r_bind (appendEvents
               (case deploymentOrganisation db1 of None \<Rightarrow> []
                | Some org \<Rightarrow> [worker_event org (system_actor ''browser worker registry'')
                    (if to = Worker_lost then ''browser_worker.lost'' else ''browser_worker.degraded'') wid
                    ([(''previous_status'', JString (worker_status_name (wk_status row))),
                      (''new_status'', JString (worker_status_name to))] @ payload)]) db1) (\<lambda>db2.
             Inr (True, db2)))))"

definition worker_transition ::
  "string \<Rightarrow> worker_status list \<Rightarrow> worker_status \<Rightarrow> (string \<times> json) list \<Rightarrow> bool session_act" where
  "worker_transition wid from to payload = transaction (transition_work wid from to payload)"

definition findSilent :: "worker_status list \<Rightarrow> nat \<Rightarrow> browser_db \<Rightarrow> worker_row list" where
  "findSilent statuses seconds db =
     filter (\<lambda>w. wk_status w \<in> set statuses \<and> \<not> workerLivePredicate seconds db w) (bd_workers db)"

section \<open>The heartbeat route\<close>

text \<open>The handler of \<open>/internal/v1/workers/heartbeat\<close> on a frame that decoded.\<close>

definition heartbeat_route ::
  "(string \<Rightarrow> string) \<Rightarrow> string \<Rightarrow> worker_config \<Rightarrow> string \<Rightarrow> nat \<Rightarrow> (string list \<times> nat) session_act" where
  "heartbeat_route digest expected config credential activeSessions =
     act_bind (act_read (worker_principal_of digest expected credential)) (\<lambda>principal.
       recordHeartbeat config (wp_worker_id principal) activeSessions)"

section \<open>Lemmas\<close>

lemma readInteger_range:
  "readInteger environment name fallback lo hi = Inr v \<Longrightarrow> lo \<le> fallback \<Longrightarrow> fallback \<le> hi \<Longrightarrow> lo \<le> v \<and> v \<le> hi"
  by (auto simp: readInteger_def split: env_value.splits if_splits)

lemma loaded_config_ordered:
  assumes "loadBrowserWorkerConfig environment = Inr config"
  shows "5 \<le> wc_heartbeatIntervalSeconds config"
    and "wc_heartbeatIntervalSeconds config < wc_degradedAfterSeconds config"
    and "wc_degradedAfterSeconds config < wc_lostAfterSeconds config"
    and "wc_lostAfterSeconds config \<le> 86400" and "1 \<le> wc_monitorIntervalSeconds config"
proof -
  obtain h d l m where read:
    "readInteger environment ''REVIEWPLANE_BROWSER_WORKER_HEARTBEAT_INTERVAL_SECONDS'' 15 5 300 = Inr h"
    "readInteger environment ''REVIEWPLANE_BROWSER_WORKER_DEGRADED_AFTER_SECONDS'' 45 1 86400 = Inr d"
    "readInteger environment ''REVIEWPLANE_BROWSER_WORKER_LOST_AFTER_SECONDS'' 90 1 86400 = Inr l"
    "readInteger environment ''REVIEWPLANE_BROWSER_WORKER_MONITOR_INTERVAL_SECONDS'' 5 1 3600 = Inr m"
    and order: "d < l" "h < d"
    and config: "config = \<lparr>wc_heartbeatIntervalSeconds = h, wc_degradedAfterSeconds = d,
      wc_lostAfterSeconds = l, wc_monitorIntervalSeconds = m\<rparr>"
    using assms by (auto simp: loadBrowserWorkerConfig_def DEFAULT_BROWSER_WORKER_CONFIG_def r_bind_eq_Inr
        r_then_eq_Inr refuse_if_eq_ok)
  show "5 \<le> wc_heartbeatIntervalSeconds config"
    "wc_heartbeatIntervalSeconds config < wc_degradedAfterSeconds config"
    "wc_degradedAfterSeconds config < wc_lostAfterSeconds config"
    "wc_lostAfterSeconds config \<le> 86400" "1 \<le> wc_monitorIntervalSeconds config"
    using order readInteger_range [OF read(1)] readInteger_range [OF read(3)] readInteger_range [OF read(4)]
    by (simp_all add: config)
qed

lemma active_worker_Some:
  assumes "active_worker config db = Some w"
  shows "w \<in> set (bd_workers db)" and "wk_status w \<in> {Worker_active, Worker_degraded}"
    and "last_seen w + wc_degradedAfterSeconds config * 1000000 > es_now db"
proof -
  let ?live = "filter (\<lambda>w. wk_status w \<in> set SCHEDULABLE_WORKER_STATUSES \<and>
        workerLivePredicate (wc_degradedAfterSeconds config) db w) (bd_workers db)"
  obtain ws where "sort_key wk_registered_at ?live = w # ws"
    using assms by (auto simp: active_worker_def split: list.splits)
  then have "w \<in> set (sort_key wk_registered_at ?live)" by (metis list.set_intros(1))
  then show "w \<in> set (bd_workers db)" "wk_status w \<in> {Worker_active, Worker_degraded}"
    "last_seen w + wc_degradedAfterSeconds config * 1000000 > es_now db"
    by (auto simp: SCHEDULABLE_WORKER_STATUSES_def workerLivePredicate_def)
qed

end
