(* ===== verification/Session_Lifecycle.thy ===== *)
theory Session_Lifecycle
  imports Worker_Registry
begin

text \<open>
  The part of \<open>browser-sessions/service.ts\<close> that every operation shares: the change of status
  with its event, the revocation of leases, the withdrawal of capabilities, and the audit record
  of a refused act.
\<close>

section \<open>Status, leases and capabilities\<close>

definition terminal :: "session_status \<Rightarrow> bool" where
  "terminal s \<longleftrightarrow> s = TERMINATED \<or> s = FAILED"

definition with_status :: "session_status \<Rightarrow> nat \<Rightarrow> browser_session \<Rightarrow> browser_session" where
  "with_status status now b =
     b\<lparr>bs_status := status, bs_ended_at := (if terminal status then Some now else bs_ended_at b)\<rparr>"

definition worker_correlation :: "browser_session \<Rightarrow> (string \<times> json) list" where
  "worker_correlation session =
     (''browser_session_id'', JString (bs_id session)) # opt_str ''worker_id'' (bs_worker_id session)"

text \<open>
  The payload repeats a member when the caller gives one of the same name; in the source the
  caller's member replaces it. \<open>override\<close> is that spread.
\<close>

definition override :: "(string \<times> json) list \<Rightarrow> (string \<times> json) list \<Rightarrow> (string \<times> json) list" where
  "override base extra = filter (\<lambda>m. fst m \<notin> fst ` set extra) base @ extra"

definition setStatus_work ::
  "browser_session \<Rightarrow> session_status \<Rightarrow> event_actor \<Rightarrow> string option \<Rightarrow> (string \<times> json) list \<Rightarrow>
     browser_db \<Rightarrow> store_failure + (unit \<times> browser_db)" where
  "setStatus_work session status actor eventType payload db =
     r_bind (store_sessions (update_where (\<lambda>b. bs_id b = bs_id session) (with_status status (es_now db))
       (bd_sessions db)) db) (\<lambda>db1.
     r_bind (appendEvents
       (case eventType of None \<Rightarrow> []
        | Some type \<Rightarrow> [session_event session actor type (worker_correlation session)
            (override [(''previous_status'', JString (session_status_name (bs_status session))),
                       (''new_status'', JString (session_status_name status))] payload)]) db1) (\<lambda>db2.
     Inr ((), db2)))"

definition setStatus ::
  "browser_session \<Rightarrow> session_status \<Rightarrow> event_actor \<Rightarrow> string option \<Rightarrow> (string \<times> json) list \<Rightarrow>
     unit session_act" where
  "setStatus session status actor eventType payload =
     transaction (setStatus_work session status actor eventType payload)"

definition revoke_rows :: "string \<Rightarrow> string \<Rightarrow> nat \<Rightarrow> control_lease list \<Rightarrow> control_lease list" where
  "revoke_rows sid reason now =
     update_where (\<lambda>l. cl_session l = sid \<and> cl_revoked_at l = None)
       (\<lambda>l. l\<lparr>cl_revoked_at := Some now, cl_reason := Some reason\<rparr>)"

definition revokeLeases :: "string \<Rightarrow> string \<Rightarrow> unit session_act" where
  "revokeLeases sid reason =
     statement (\<lambda>db. store_leases (revoke_rows sid reason (es_now db) (bd_leases db)) db)"

text \<open>\<open>#withdrawCapabilities\<close>: a gateway that does not answer changes nothing here.\<close>

definition withdrawCapabilities :: "bool \<Rightarrow> string \<Rightarrow> unit session_act" where
  "withdrawCapabilities revoker sid =
     act_write (\<lambda>db. if revoker then call_peer (Call_withdraw sid) db else db)"

section \<open>Audit of refusals\<close>

definition projectStream :: "string \<Rightarrow> browser_db \<Rightarrow> (string \<times> string) option" where
  "projectStream project db = map_option (\<lambda>org. (org, project)) (map_of (bd_projects db) project)"

definition rejection_stream ::
  "browser_session \<Rightarrow> string \<Rightarrow> command_denial \<Rightarrow> browser_db \<Rightarrow> (string \<times> string) option" where
  "rejection_stream session project denial db =
     (if cd_reason denial = ''project_mismatch'' then projectStream project db
      else Some (bs_organisation_id session, bs_project_id session))"

definition session_facts :: "browser_session \<Rightarrow> command_denial \<Rightarrow> (string \<times> json) list" where
  "session_facts session denial =
     (if cd_reason denial = ''project_mismatch'' then [(''cross_project'', JBool True)]
      else [(''current_epoch'', json_num (bs_control_epoch session)),
            (''session_status'', JString (session_status_name (bs_status session)))])"

definition appending :: "append_input list \<Rightarrow> unit session_act" where
  "appending inputs = transaction (\<lambda>db. r_bind (appendEvents inputs db) (\<lambda>db'. Inr ((), db')))"

text \<open>Who acts on which session with what: the members the refusals and the checks read.\<close>

record act_input =
  ci_browserSessionId :: string
  ci_projectId :: string
  ci_controller :: controller_identity
  ci_controlEpoch :: nat
  ci_actor :: event_actor

definition recordRejection ::
  "browser_session \<Rightarrow> act_input \<Rightarrow> browser_command \<Rightarrow> command_denial \<Rightarrow> unit session_act" where
  "recordRejection session input command denial db =
     (case rejection_stream session (ci_projectId input) denial db of
        None \<Rightarrow> (ok, db)
      | Some (org, project) \<Rightarrow>
          appending [project_event org project (ci_actor input) ''browser.command_rejected''
            [(''browser_session_id'', JString (bs_id session))]
            ([(''command'', JString (command_text (bc_command command))),
              (''reason_code'', JString (error_code_name (cd_code denial))),
              (''reason'', JString (cd_reason denial)),
              (''interactive'', JBool (isInteractive (bc_command command))),
              (''presented_epoch'', json_num (ci_controlEpoch input)),
              (''presented_controller_type'', JString (controller_type_name (ct_type (ci_controller input))))] @
             session_facts session denial)] db)"

datatype lifecycle_act = Pause | Resume | End | Allocate | Control_request | Control_release

fun lifecycle_act_text :: "lifecycle_act \<Rightarrow> string" where
  "lifecycle_act_text Pause = ''pause''"
| "lifecycle_act_text Resume = ''resume''"
| "lifecycle_act_text End = ''end''"
| "lifecycle_act_text Allocate = ''allocate''"
| "lifecycle_act_text Control_request = ''control_request''"
| "lifecycle_act_text Control_release = ''control_release''"

definition recordLifecycleRejection ::
  "browser_session \<Rightarrow> lifecycle_act \<Rightarrow> act_input \<Rightarrow> command_denial \<Rightarrow> (string \<times> json) list \<Rightarrow>
     unit session_act" where
  "recordLifecycleRejection session act input denial extra db =
     (case rejection_stream session (ci_projectId input) denial db of
        None \<Rightarrow> (ok, db)
      | Some (org, project) \<Rightarrow>
          appending [project_event org project (ci_actor input) ''browser.command_rejected''
            [(''browser_session_id'', JString (bs_id session))]
            ([(''kind'', JString ''lifecycle''), (''command'', JString (lifecycle_act_text act)),
              (''reason_code'', JString (error_code_name (cd_code denial))),
              (''reason'', JString (cd_reason denial)), (''interactive'', JBool True),
              (''presented_epoch'', json_num (ci_controlEpoch input)),
              (''presented_controller_type'', JString (controller_type_name (ct_type (ci_controller input))))] @
             session_facts session denial @ extra)] db)"

definition refuseLifecycle ::
  "browser_session \<Rightarrow> lifecycle_act \<Rightarrow> act_input \<Rightarrow> command_denial \<Rightarrow> 'a session_act" where
  "refuseLifecycle session act input denial =
     act_bind (recordLifecycleRejection session act input denial [])
       (\<lambda>_. act_throw (Refused (ApiError (cd_code denial) (cd_details denial) None None)))"

definition not_this_project :: command_denial where
  "not_this_project = \<lparr>cd_code = RESOURCE_NOT_FOUND, cd_details = None, cd_reason = ''project_mismatch''\<rparr>"

text \<open>The refusal of a session of another project, recorded for the caller's own project.\<close>

definition refuseForeign :: "browser_session \<Rightarrow> lifecycle_act \<Rightarrow> act_input \<Rightarrow> 'a session_act" where
  "refuseForeign session act input =
     act_bind (recordLifecycleRejection session act input not_this_project [])
       (\<lambda>_. act_throw (Refused (notFound ''The browser session'')))"

definition not_active :: "browser_session \<Rightarrow> command_denial" where
  "not_active session =
     \<lparr>cd_code = BROWSER_SESSION_NOT_ACTIVE,
      cd_details = Some [D_browser_session_status (session_status_name (bs_status session))],
      cd_reason = ''session_not_active''\<rparr>"

definition epoch_stale :: "browser_session \<Rightarrow> command_denial" where
  "epoch_stale session =
     \<lparr>cd_code = CONTROL_EPOCH_STALE, cd_details = Some [D_current_epoch (bs_control_epoch session)],
      cd_reason = ''control_epoch_stale''\<rparr>"

definition not_owned :: "browser_session \<Rightarrow> command_denial" where
  "not_owned session =
     \<lparr>cd_code = CONTROL_NOT_OWNED, cd_details = Some [D_current_epoch (bs_control_epoch session)],
      cd_reason = ''control_not_owned''\<rparr>"

definition recordUnresolvedLifecycleRejection ::
  "string \<Rightarrow> string \<Rightarrow> lifecycle_act \<Rightarrow> event_actor \<Rightarrow> controller_type \<Rightarrow> string \<Rightarrow> string \<Rightarrow> unit session_act" where
  "recordUnresolvedLifecycleRejection org project act actor ctype reasonCode reason =
     appending [project_event org project actor ''browser.command_rejected'' []
       [(''kind'', JString ''lifecycle''), (''command'', JString (lifecycle_act_text act)),
        (''reason_code'', JString reasonCode), (''reason'', JString reason), (''interactive'', JBool True),
        (''presented_controller_type'', JString (controller_type_name ctype)),
        (''browser_session_unresolved'', JBool True)]]"

definition recordCapabilityDenial ::
  "string \<Rightarrow> string \<Rightarrow> event_actor \<Rightarrow> string \<Rightarrow> string \<Rightarrow> unit session_act" where
  "recordCapabilityDenial org project actor tool capability =
     appending [project_event org project actor ''browser.command_rejected'' []
       [(''kind'', JString ''capability''), (''command'', JString tool),
        (''reason_code'', JString ''AUTHORISATION_DENIED''), (''reason'', JString ''capability_not_granted''),
        (''interactive'', JBool False), (''required_capability'', JString capability),
        (''capability_denied'', JBool True)]]"

end
