(* ===== verification/Session_Allocation.thy ===== *)
theory Session_Allocation
  imports Session_Lifecycle
begin

text \<open>
  Reserving and allocating a browser session (\<open>browser-sessions/service.ts\<close>): \<open>create\<close>,
  \<open>allocate\<close> with its guarded claim, the two phases of an allocation asked for by a process
  that cannot mint, and the sweep that fails what has outlived its deadline.
\<close>

section \<open>Peers\<close>

text \<open>
  What the injected collaborators answer during one operation. A binder or an authoriser may be
  absent; \<open>pr_exists\<close> is \<open>existsUnscoped\<close> with a failure read as false. What the binder writes
  when it mints belongs to the published services and is not in this state.
\<close>

record bind_input =
  bi_publishedServiceId :: string
  bi_organisationId :: string
  bi_projectId :: string
  bi_browserSessionId :: string

record session_allocated =
  al_status :: session_status
  al_browser_type :: string
  al_browser_version :: string
  al_viewport :: json

record peers =
  pr_config :: worker_config
  pr_binder :: "(bind_input \<Rightarrow> store_failure + service_binding) option"
  pr_authoriser :: "(bind_input \<Rightarrow> store_failure + unit) option"
  pr_exists :: "string \<Rightarrow> bool"
  pr_revoker :: bool
  pr_allocate :: "string \<Rightarrow> string \<Rightarrow> store_failure + session_allocated"

section \<open>The class of a failure\<close>

definition ALLOCATION_FAILURE_CLASSES :: "error_code list" where
  "ALLOCATION_FAILURE_CLASSES =
     [AUTHORISATION_DENIED, BROWSER_CAPACITY_EXHAUSTED, BROWSER_SESSION_NOT_ACTIVE, CONNECTOR_OFFLINE,
      IDENTITY_REVOKED, PROJECT_CONTEXT_MISMATCH, PUBLISHED_SERVICE_UNAVAILABLE, RESOURCE_NOT_FOUND,
      ROUTE_EXPIRED, UNSUPPORTED_CAPABILITY, VALIDATION_FAILED, CONTROL_PLANE_UNAVAILABLE]"

definition allocationFailureClassOf :: "store_failure \<Rightarrow> error_code" where
  "allocationFailureClassOf error =
     (case error of
        Refused e \<Rightarrow> if err_code e \<in> set ALLOCATION_FAILURE_CLASSES then err_code e else INTERNAL_ERROR
      | _ \<Rightarrow> INTERNAL_ERROR)"

section \<open>Reserving\<close>

definition LEASE_SECONDS :: nat where
  "LEASE_SECONDS = 900"

definition ALLOCATION_GRACE_MS :: nat where
  "ALLOCATION_GRACE_MS = 2000"

definition ALLOCATION_DEADLINE_MS :: nat where
  "ALLOCATION_DEADLINE_MS = 120000"

record partial_limits =
  pl_max_duration_seconds :: "nat option"
  pl_default_timeout_ms :: "nat option"
  pl_max_command_timeout_ms :: "nat option"
  pl_screenshot_max_bytes :: "nat option"
  pl_snapshot_max_nodes :: "nat option"
  pl_snapshot_max_bytes :: "nat option"

definition default_to :: "'a \<Rightarrow> 'a option \<Rightarrow> 'a" where
  "default_to d v = (case v of None \<Rightarrow> d | Some x \<Rightarrow> x)"

definition merged_limits :: "partial_limits \<Rightarrow> session_limits" where
  "merged_limits l =
     \<lparr>max_duration_seconds = default_to (max_duration_seconds DEFAULT_SESSION_LIMITS) (pl_max_duration_seconds l),
      default_timeout_ms = default_to (default_timeout_ms DEFAULT_SESSION_LIMITS) (pl_default_timeout_ms l),
      max_command_timeout_ms =
        default_to (max_command_timeout_ms DEFAULT_SESSION_LIMITS) (pl_max_command_timeout_ms l),
      screenshot_max_bytes = default_to (screenshot_max_bytes DEFAULT_SESSION_LIMITS) (pl_screenshot_max_bytes l),
      snapshot_max_nodes = default_to (snapshot_max_nodes DEFAULT_SESSION_LIMITS) (pl_snapshot_max_nodes l),
      snapshot_max_bytes = default_to (snapshot_max_bytes DEFAULT_SESSION_LIMITS) (pl_snapshot_max_bytes l)\<rparr>"

record start_input =
  st_organisationId :: string
  st_projectId :: string
  st_agentSessionId :: "string option"
  st_publishedServiceId :: "string option"
  st_viewport :: json
  st_controller :: controller_identity
  st_retentionClass :: string
  st_limits :: partial_limits
  st_actor :: event_actor

definition running_on :: "string \<Rightarrow> browser_db \<Rightarrow> nat" where
  "running_on wid db =
     length (filter (\<lambda>b. bs_worker_id b = Some wid \<and> bs_ended_at b = None \<and> \<not> terminal (bs_status b))
       (bd_sessions db))"

definition create_checks :: "worker_config \<Rightarrow> start_input \<Rightarrow> browser_db \<Rightarrow> store_failure + worker_row" where
  "create_checks config input db =
     (case active_worker config db of
        None \<Rightarrow> Inl (Refused (ApiError BROWSER_CAPACITY_EXHAUSTED None None None))
      | Some worker \<Rightarrow>
          r_then (refuse_if (st_projectId input \<notin> set (assignedProjects (wk_id worker) db))
            (Refused (ApiError PROJECT_CONTEXT_MISMATCH None None None)))
          (r_then (refuse_if (running_on (wk_id worker) db \<ge> wk_capacity worker)
            (Refused (ApiError BROWSER_CAPACITY_EXHAUSTED None None None)))
          (Inr worker)))"

definition new_session :: "start_input \<Rightarrow> string \<Rightarrow> string \<Rightarrow> nat \<Rightarrow> browser_session" where
  "new_session input sid wid now =
     \<lparr>bs_id = sid, bs_organisation_id = st_organisationId input, bs_project_id = st_projectId input,
      bs_worker_id = Some wid, bs_agent_session_id = st_agentSessionId input,
      bs_published_service_id = None, bs_requested_published_service_id = None,
      bs_allocation_requested_at = None, bs_service_origin = None, bs_browser_type = ''chromium'',
      bs_browser_version = None, bs_status = REQUESTED,
      bs_current_controller = Some (st_controller input), bs_control_epoch = 1, bs_last_sequence = -1,
      bs_viewport = st_viewport input, bs_limits = merged_limits (st_limits input),
      bs_retention_policy = st_retentionClass input, bs_created_at = now, bs_ended_at = None\<rparr>"

definition new_lease :: "string \<Rightarrow> string \<Rightarrow> controller_identity \<Rightarrow> nat \<Rightarrow> string \<Rightarrow> nat \<Rightarrow> control_lease" where
  "new_lease lid sid controller epoch reason now =
     \<lparr>cl_id = lid, cl_session = sid, cl_controller = controller, cl_epoch = epoch, cl_issued_at = now,
      cl_expires_at = now + LEASE_SECONDS * 1000000, cl_revoked_at = None, cl_reason = Some reason\<rparr>"

definition create_work ::
  "start_input \<Rightarrow> worker_row \<Rightarrow> string \<Rightarrow> browser_db \<Rightarrow> store_failure + (browser_session \<times> browser_db)" where
  "create_work input worker sid db =
     r_then (refuse_if (st_projectId input \<notin> fst ` set (bd_projects db))
       (Check_violation ''browser_sessions_project_id_fkey''))
     (r_then (refuse_if (st_organisationId input \<notin> set (bd_organisations db))
       (Check_violation ''browser_sessions_organisation_id_fkey''))
     (r_then (refuse_if (wk_id worker \<notin> set (map wk_id (bd_workers db)))
       (Check_violation ''browser_sessions_worker_id_fkey''))
     (let b = new_session input sid (wk_id worker) (es_now db) in
      r_bind (store_sessions (bd_sessions db @ [b]) db) (\<lambda>db1.
      (let (lid, db2) = newId ''lse_'' db1 in
       r_bind (store_leases (bd_leases db2 @
         [new_lease lid sid (st_controller input) 1 ''initial allocation'' (es_now db2)]) db2) (\<lambda>db3.
       r_bind (appendEvents [project_event (st_organisationId input) (st_projectId input) (st_actor input)
           ''browser_session.requested''
           [(''browser_session_id'', JString sid), (''worker_id'', JString (wk_id worker))]
           [(''viewport'', st_viewport input), (''control_epoch'', json_num 1)]] db3) (\<lambda>db4.
       Inr (b, db4))))))))"

definition create :: "worker_config \<Rightarrow> start_input \<Rightarrow> browser_session session_act" where
  "create config input =
     act_bind (act_read (create_checks config input)) (\<lambda>worker db.
       (let (sid, db1) = newId ''brs_'' db in transaction (create_work input worker sid) db1))"

section \<open>Refused and failed allocations\<close>

definition no_controller :: controller_identity where
  "no_controller = \<lparr>ct_type = System_controller, ct_id = ''sys_allocation''\<rparr>"

definition recordAllocationRejection ::
  "peers \<Rightarrow> browser_session \<Rightarrow> event_actor \<Rightarrow> store_failure \<Rightarrow> string option \<Rightarrow> unit session_act" where
  "recordAllocationRejection pr session actor error route =
     (let code = allocationFailureClassOf error;
          crossProject = (code = RESOURCE_NOT_FOUND \<and> pr_authoriser pr \<noteq> None \<and>
            (case route of None \<Rightarrow> False | Some r \<Rightarrow> pr_exists pr r))
      in recordLifecycleRejection session Allocate
           \<lparr>ci_browserSessionId = bs_id session, ci_projectId = bs_project_id session,
            ci_controller = default_to no_controller (bs_current_controller session),
            ci_controlEpoch = bs_control_epoch session, ci_actor = actor\<rparr>
           \<lparr>cd_code = code, cd_details = None,
            cd_reason = (if crossProject then ''project_mismatch'' else ''allocation_refused'')\<rparr>
           (opt_str ''published_service_id'' route))"

fun connector_status_of :: "detail list \<Rightarrow> string option" where
  "connector_status_of [] = None"
| "connector_status_of (D_connector_status s # ds) = Some s"
| "connector_status_of (d # ds) = connector_status_of ds"

definition failure_details :: "store_failure \<Rightarrow> detail list" where
  "failure_details error =
     (case error of Refused e \<Rightarrow> (case err_details e of None \<Rightarrow> [] | Some ds \<Rightarrow> ds) | _ \<Rightarrow> [])"

definition failReservation ::
  "peers \<Rightarrow> browser_session \<Rightarrow> event_actor \<Rightarrow> error_code \<Rightarrow> string \<Rightarrow> string option \<Rightarrow> detail list \<Rightarrow>
     unit session_act" where
  "failReservation pr session actor reasonCode trigger route details =
     act_bind (revokeLeases (bs_id session) (''allocation refused: '' @ error_code_name reasonCode)) (\<lambda>_.
     act_bind (setStatus session FAILED actor (Some ''browser_session.failed'')
       (opt_str ''connector_status'' (connector_status_of details) @
        opt_str ''published_service_id'' route @
        [(''reason_code'', JString (error_code_name reasonCode)), (''trigger'', JString trigger),
         (''previous_status'', JString (session_status_name (bs_status session)))])) (\<lambda>_.
     withdrawCapabilities (pr_revoker pr) (bs_id session)))"

section \<open>Allocating\<close>

definition claim_work ::
  "browser_session \<Rightarrow> event_actor \<Rightarrow> string option \<Rightarrow> browser_db \<Rightarrow> store_failure + (bool \<times> browser_db)" where
  "claim_work session actor route db =
     (let waiting = (\<lambda>b. bs_id b = bs_id session \<and> bs_status b = REQUESTED) in
      if filter waiting (bd_sessions db) = [] then Inr (False, db)
      else r_bind (store_sessions (update_where waiting (\<lambda>b. b\<lparr>bs_status := ALLOCATING\<rparr>) (bd_sessions db)) db)
        (\<lambda>db1. r_bind (appendEvents [session_event session actor ''browser_session.allocated''
            (worker_correlation session)
            [(''previous_status'', JString ''REQUESTED''), (''new_status'', JString ''ALLOCATING''),
             (''worker_id'', nullable (bs_worker_id session)),
             (''published_service_id'', nullable route)]] db1) (\<lambda>db2.
        Inr (True, db2))))"

definition claimForAllocation :: "browser_session \<Rightarrow> event_actor \<Rightarrow> string option \<Rightarrow> bool session_act" where
  "claimForAllocation session actor route = transaction (claim_work session actor route)"

definition bound :: "service_binding \<Rightarrow> browser_session \<Rightarrow> browser_session" where
  "bound binding b =
     b\<lparr>bs_published_service_id := Some (sb_published_service_id binding),
       bs_service_origin := Some (sb_service_origin binding),
       bs_requested_published_service_id := None, bs_allocation_requested_at := None\<rparr>"

definition update_session :: "string \<Rightarrow> (browser_session \<Rightarrow> browser_session) \<Rightarrow> unit session_act" where
  "update_session sid f =
     statement (\<lambda>db. store_sessions (update_where (\<lambda>b. bs_id b = sid) f (bd_sessions db)) db)"

definition bind_route ::
  "peers \<Rightarrow> browser_session \<Rightarrow> event_actor \<Rightarrow> string option \<Rightarrow> service_binding option session_act" where
  "bind_route pr session actor route =
     (case route of
        None \<Rightarrow> act_return None
      | Some r \<Rightarrow>
          act_bind (act_try (act_read (\<lambda>db.
              (case pr_binder pr of
                 None \<Rightarrow> Inl (Refused (ApiError UNSUPPORTED_CAPABILITY None None None))
               | Some bind \<Rightarrow> bind \<lparr>bi_publishedServiceId = r, bi_organisationId = bs_organisation_id session,
                   bi_projectId = bs_project_id session, bi_browserSessionId = bs_id session\<rparr>)))
            (\<lambda>error. act_bind (failReservation pr session actor (allocationFailureClassOf error)
                ''allocation_refused'' (Some r) (failure_details error)) (\<lambda>_. act_throw error)))
            (\<lambda>binding. act_bind (update_session (bs_id session) (bound binding))
              (\<lambda>_. act_return (Some binding))))"

definition allocation_request :: "browser_session \<Rightarrow> service_binding option \<Rightarrow> session_allocate" where
  "allocation_request session binding =
     \<lparr>sa_organisation_id = bs_organisation_id session, sa_project_id = bs_project_id session,
      sa_agent_session_id = bs_agent_session_id session, sa_binding = binding,
      sa_viewport = bs_viewport session, sa_control_epoch = bs_control_epoch session,
      sa_controller = default_to no_controller (bs_current_controller session),
      sa_limits = bs_limits session, sa_retention_class = bs_retention_policy session\<rparr>"

definition explainWorkerRefusal ::
  "worker_config \<Rightarrow> browser_session \<Rightarrow> store_failure \<Rightarrow> browser_db \<Rightarrow> store_failure" where
  "explainWorkerRefusal config session error db =
     (case (error, bs_worker_id session) of
        (Refused e, Some wid) \<Rightarrow>
          (if err_code e = PROJECT_CONTEXT_MISMATCH \<and> bs_project_id session \<in> set (assignedProjects wid db)
           then Refused (refusal PROJECT_CONTEXT_MISMATCH [D_browser_worker_assignment ''stale'',
                  D_heartbeat_interval_seconds (wc_heartbeatIntervalSeconds config)])
           else error)
      | _ \<Rightarrow> error)"

definition worker_allocate ::
  "peers \<Rightarrow> browser_session \<Rightarrow> string \<Rightarrow> event_actor \<Rightarrow> service_binding option \<Rightarrow> browser_session session_act" where
  "worker_allocate pr session wid actor binding =
     act_bind (act_write (call_peer (Call_allocate wid (bs_id session) (allocation_request session binding)))) (\<lambda>_.
     act_bind (act_read (\<lambda>db. pr_allocate pr wid (bs_id session))) (\<lambda>allocated.
     act_bind (update_session (bs_id session) (\<lambda>b. b\<lparr>bs_browser_version := Some (al_browser_version allocated),
         bs_viewport := al_viewport allocated\<rparr>)) (\<lambda>_.
     act_bind (act_read (get_session (bs_id session))) (\<lambda>ready.
     act_bind (setStatus ready (al_status allocated) actor (Some ''browser_session.ready'')
       [(''browser_type'', JString (al_browser_type allocated)),
        (''browser_version'', JString (al_browser_version allocated))]) (\<lambda>_.
     act_read (get_session (bs_id session)))))))"

definition worker_refused ::
  "peers \<Rightarrow> browser_session \<Rightarrow> event_actor \<Rightarrow> store_failure \<Rightarrow> browser_session session_act" where
  "worker_refused pr session actor error =
     act_bind (act_read (\<lambda>db. Inr (explainWorkerRefusal (pr_config pr) session error db))) (\<lambda>reported.
     act_bind (act_read (get_session (bs_id session))) (\<lambda>failing.
     act_bind (setStatus failing FAILED actor (Some ''browser_session.failed'')
       [(''reason_code'', JString (error_code_name (allocationFailureClassOf reported))),
        (''trigger'', JString ''worker_refused'')]) (\<lambda>_.
     act_bind (withdrawCapabilities (pr_revoker pr) (bs_id session)) (\<lambda>_.
     act_throw reported))))"

definition only_reserved :: "session_status \<Rightarrow> store_failure" where
  "only_reserved s =
     Refused (refusal BROWSER_SESSION_NOT_ACTIVE [D_browser_session_status (session_status_name s)])"

definition allocate ::
  "peers \<Rightarrow> string \<Rightarrow> session_scope \<Rightarrow> string option \<Rightarrow> event_actor \<Rightarrow> browser_session session_act" where
  "allocate pr sid scope route actor =
     act_bind (act_read (getForScope sid scope)) (\<lambda>session.
     if bs_status session \<noteq> REQUESTED
     then act_bind (recordAllocationRejection pr session actor (only_reserved (bs_status session)) route)
       (\<lambda>_. act_throw (only_reserved (bs_status session)))
     else case bs_worker_id session of
       None \<Rightarrow> act_bind (failReservation pr session actor BROWSER_CAPACITY_EXHAUSTED ''allocation_refused'' None [])
         (\<lambda>_. act_throw (Refused (ApiError BROWSER_CAPACITY_EXHAUSTED None None None)))
     | Some wid \<Rightarrow>
         act_bind (claimForAllocation session actor route) (\<lambda>claimed.
         if \<not> claimed
         then act_bind (recordAllocationRejection pr session actor (only_reserved ALLOCATING) route)
           (\<lambda>_. act_throw (only_reserved ALLOCATING))
         else act_bind (bind_route pr session actor route) (\<lambda>binding.
           act_try (worker_allocate pr session wid actor binding) (worker_refused pr session actor))))"

definition start_session :: "peers \<Rightarrow> start_input \<Rightarrow> browser_session session_act" where
  "start_session pr input =
     act_bind (create (pr_config pr) input) (\<lambda>created.
       allocate pr (bs_id created)
         \<lparr>ss_organisation_id = Some (st_organisationId input), ss_project_ids = Some [st_projectId input]\<rparr>
         (st_publishedServiceId input) (st_actor input))"

section \<open>Two-phase allocation\<close>

definition request_work ::
  "browser_session \<Rightarrow> string \<Rightarrow> event_actor \<Rightarrow> string \<Rightarrow> browser_db \<Rightarrow> store_failure + (unit \<times> browser_db)" where
  "request_work session route actor requestId db =
     (let now = js_now db in
      r_then (refuse_if (route \<notin> set (map rt_id (bd_routes db)) \<and>
          list_ex (\<lambda>b. bs_id b = bs_id session \<and> bs_status b = REQUESTED) (bd_sessions db))
        (Check_violation ''browser_sessions_requested_published_service_id_fkey''))
      (r_bind (store_sessions (update_where (\<lambda>b. bs_id b = bs_id session \<and> bs_status b = REQUESTED)
          (\<lambda>b. b\<lparr>bs_requested_published_service_id := Some route,
                 bs_allocation_requested_at := Some now\<rparr>) (bd_sessions db)) db) (\<lambda>db1.
      r_bind (appendEvents [(session_event session actor ''browser_session.requested''
          [(''request_id'', JString requestId), (''browser_session_id'', JString (bs_id session)),
           (''published_service_id'', JString route)]
          [(''requested_published_service_id'', JString route),
           (''allocation_requested_at'', JString (toISOString now)),
           (''control_epoch'', json_num (bs_control_epoch session))])\<lparr>ai_occurred_at := Some now\<rparr>] db1)
        (\<lambda>db2. Inr ((), db2)))))"

definition requestAllocation ::
  "peers \<Rightarrow> string \<Rightarrow> session_scope \<Rightarrow> string \<Rightarrow> event_actor \<Rightarrow> string \<Rightarrow> browser_session session_act" where
  "requestAllocation pr sid scope route actor requestId =
     act_bind (act_read (getForScope sid scope)) (\<lambda>session.
     if bs_status session \<noteq> REQUESTED
     then act_bind (recordAllocationRejection pr session actor (only_reserved (bs_status session)) (Some route))
       (\<lambda>_. act_throw (only_reserved (bs_status session)))
     else case pr_authoriser pr of
       None \<Rightarrow> act_throw (Refused (ApiError UNSUPPORTED_CAPABILITY None None None))
     | Some authorise \<Rightarrow>
         act_bind (act_try (act_read (\<lambda>db. authorise \<lparr>bi_publishedServiceId = route,
             bi_organisationId = bs_organisation_id session, bi_projectId = bs_project_id session,
             bi_browserSessionId = bs_id session\<rparr>))
           (\<lambda>error. act_bind (recordAllocationRejection pr session actor error (Some route))
             (\<lambda>_. act_throw error))) (\<lambda>_.
         act_bind (transaction (request_work session route actor requestId)) (\<lambda>_.
         act_read (get_session (bs_id session)))))"

definition pending_allocations :: "nat \<Rightarrow> nat \<Rightarrow> browser_db \<Rightarrow> browser_session list" where
  "pending_allocations olderThanMs limit db =
     take limit (sort_key (\<lambda>b. default_to 0 (bs_allocation_requested_at b))
       (filter (\<lambda>b. bs_status b = REQUESTED \<and> bs_ended_at b = None \<and>
          bs_requested_published_service_id b \<noteq> None \<and>
          (case bs_allocation_requested_at b of None \<Rightarrow> False
           | Some t \<Rightarrow> t + olderThanMs * 1000 \<le> js_now db)) (bd_sessions db)))"

fun complete_each :: "peers \<Rightarrow> browser_session list \<Rightarrow> browser_session list session_act" where
  "complete_each pr [] db = (Inr [], db)"
| "complete_each pr (b # rest) db =
     (case bs_requested_published_service_id b of
        None \<Rightarrow> complete_each pr rest db
      | Some route \<Rightarrow>
          (let (outcome, db1) = allocate pr (bs_id b) DEPLOYMENT_SCOPE (Some route)
                 (system_actor ''browser session allocator'') db;
               finished = (case outcome of Inr r \<Rightarrow> r
                 | Inl _ \<Rightarrow> (case get_session (bs_id b) db1 of Inr r \<Rightarrow> r | Inl _ \<Rightarrow> b))
           in act_bind (complete_each pr rest) (\<lambda>more_finished. act_return (finished # more_finished)) db1))"

definition completePendingAllocations :: "peers \<Rightarrow> nat option \<Rightarrow> nat option \<Rightarrow> browser_session list session_act" where
  "completePendingAllocations pr olderThanMs limit db =
     complete_each pr (pending_allocations (default_to ALLOCATION_GRACE_MS olderThanMs)
       (default_to 25 limit) db) db"

section \<open>The deadline\<close>

definition overdue_allocations :: "nat \<Rightarrow> nat \<Rightarrow> string option \<Rightarrow> string option \<Rightarrow> browser_db \<Rightarrow> browser_session list" where
  "overdue_allocations deadlineMs limit only agent db =
     take limit (sort_key (\<lambda>b. default_to 0 (bs_allocation_requested_at b))
       (filter (\<lambda>b. bs_ended_at b = None \<and> bs_status b \<in> {REQUESTED, ALLOCATING, DEGRADED} \<and>
          bs_requested_published_service_id b \<noteq> None \<and>
          (case bs_allocation_requested_at b of None \<Rightarrow> False
           | Some t \<Rightarrow> t + deadlineMs * 1000 \<le> js_now db) \<and>
          (case only of None \<Rightarrow> True | Some sid \<Rightarrow> bs_id b = sid) \<and>
          (case agent of None \<Rightarrow> True | Some a \<Rightarrow> bs_agent_session_id b = Some a)) (bd_sessions db)))"

fun fail_each :: "peers \<Rightarrow> browser_session list \<Rightarrow> browser_session list session_act" where
  "fail_each pr [] db = (Inr [], db)"
| "fail_each pr (b # rest) db =
     act_bind (failReservation pr b (system_actor ''browser session allocator'') CONTROL_PLANE_UNAVAILABLE
       ''allocation_deadline'' (bs_requested_published_service_id b) []) (\<lambda>_.
     act_bind (act_write (\<lambda>db. case bs_worker_id b of
         Some wid \<Rightarrow> if bs_status b = ALLOCATING then call_peer (Call_terminate wid (bs_id b) Failure) db else db
       | None \<Rightarrow> db)) (\<lambda>_.
     act_bind (act_read (get_session (bs_id b))) (\<lambda>failed.
     act_bind (fail_each pr rest) (\<lambda>more_failed. act_return (failed # more_failed))))) db"

definition failOverdueAllocations ::
  "peers \<Rightarrow> nat option \<Rightarrow> nat option \<Rightarrow> string option \<Rightarrow> string option \<Rightarrow> browser_session list session_act" where
  "failOverdueAllocations pr deadlineMs limit only agent db =
     fail_each pr (overdue_allocations (default_to ALLOCATION_DEADLINE_MS deadlineMs)
       (default_to 50 limit) only agent db) db"

text \<open>
  \<open>awaitAllocation\<close> polls. Its argument is the sequence of databases it finds, poll by poll;
  it answers at the first poll that sees the allocation settled or its deadline past. It stays
  without an answer only on a finite sequence of polls that are all before the deadline.
\<close>

fun awaitAllocation ::
  "peers \<Rightarrow> string \<Rightarrow> session_scope \<Rightarrow> nat \<Rightarrow> nat \<Rightarrow> browser_db list \<Rightarrow>
     ((store_failure + browser_session) \<times> browser_db) option" where
  "awaitAllocation pr sid scope timeoutMs deadline [] = None"
| "awaitAllocation pr sid scope timeoutMs deadline (db # later) =
     (case getForScope sid scope db of
        Inl e \<Rightarrow> Some (Inl e, db)
      | Inr b \<Rightarrow>
          (if bs_status b \<noteq> REQUESTED \<and> bs_status b \<noteq> ALLOCATING then Some (Inr b, db)
           else if js_now db \<ge> deadline
           then (let db1 = snd (failOverdueAllocations pr (Some timeoutMs) (Some 1) (Some sid) None db) in
                 Some (getForScope sid scope db1, db1))
           else awaitAllocation pr sid scope timeoutMs deadline later))"

section \<open>Why a reservation failed\<close>

definition text_member :: "string \<Rightarrow> (string \<times> json) list \<Rightarrow> string option" where
  "text_member name payload = (case map_of payload name of Some (JString s) \<Rightarrow> Some s | _ \<Rightarrow> None)"

definition allocationFailure ::
  "string \<Rightarrow> browser_db \<Rightarrow> (string \<times> string option \<times> string option) option" where
  "allocationFailure sid db =
     (case rev (sort_key e_sequence (filter (\<lambda>e. e_type e = ''browser_session.failed'' \<and>
          text_member ''browser_session_id'' (e_correlation e) = Some sid) (es_events db))) of
        [] \<Rightarrow> None
      | e # _ \<Rightarrow>
          (case text_member ''reason_code'' (e_payload e) of
             None \<Rightarrow> None
           | Some code \<Rightarrow>
               (if code \<in> set (map error_code_name ALLOCATION_FAILURE_CLASSES)
                then Some (code, text_member ''published_service_id'' (e_payload e),
                       text_member ''connector_status'' (e_payload e))
                else None)))"

end
