(* ===== verification/Session_Control.thy ===== *)
theory Session_Control
  imports Session_Allocation
begin

text \<open>
  Driving a browser session (\<open>browser-sessions/service.ts\<close>): commands, pause, resume and end, the
  control lease with its epoch, what a worker reports, and the timeline.
\<close>

section \<open>Commands\<close>

record navigation_result =
  nv_url :: "string option"
  nv_http_status :: "nat option"

record screenshot_result =
  sr_artefact_id :: string
  sr_full_page :: bool
  sr_viewport :: json
  sr_size_bytes :: nat
  sr_sha256 :: string
  sr_captured_at :: string

record command_result =
  cr_ok :: bool
  cr_error_code :: "string option"
  cr_navigation :: "navigation_result option"
  cr_screenshot :: "screenshot_result option"
  cr_trust :: json

definition routeAssociated :: "browser_session \<Rightarrow> browser_db \<Rightarrow> bool option" where
  "routeAssociated session db =
     (case bs_published_service_id session of
        None \<Rightarrow> None
      | Some r \<Rightarrow> Some (list_ex (\<lambda>t. rt_id t = r \<and> rt_project_id t = bs_project_id session \<and>
          rt_status t = ''ready'' \<and> rt_expires_at t > es_now db \<and>
          bs_id session \<in> set (rt_allowed_sessions t)) (bd_routes db)))"

definition command_context_of :: "browser_session \<Rightarrow> act_input \<Rightarrow> browser_db \<Rightarrow> command_context" where
  "command_context_of session input db =
     \<lparr>cx_sessionProjectId = bs_project_id session, cx_actorProjectId = ci_projectId input,
      cx_status = bs_status session, cx_currentEpoch = bs_control_epoch session,
      cx_currentController = bs_current_controller session, cx_presentedEpoch = ci_controlEpoch input,
      cx_presentedController = ci_controller input, cx_publishedServiceId = bs_published_service_id session,
      cx_routeAssociated = routeAssociated session db\<rparr>"

definition executed_events ::
  "browser_session \<Rightarrow> act_input \<Rightarrow> browser_command \<Rightarrow> int \<Rightarrow> command_result \<Rightarrow> append_input list" where
  "executed_events session input command sequence result =
     (let correlation = [(''browser_session_id'', JString (bs_id session))] in
      [session_event session (ci_actor input)
         (if cr_ok result then ''browser.command_executed'' else ''browser.command_rejected'') correlation
         ([(''command'', JString (command_text (bc_command command))),
           (''sequence'', JNumber (of_int sequence)),
           (''control_epoch'', json_num (ci_controlEpoch input))] @
          (if cr_ok result then []
           else [(''reason_code'', JString (default_to ''INTERNAL_ERROR'' (cr_error_code result)))]))] @
      (if cr_ok result \<and> bc_command command = Navigate
       then [session_event session (ci_actor input) ''browser_session.navigated'' correlation
         [(''url'', nullable (Option.bind (cr_navigation result) nv_url)),
          (''http_status'', case Option.bind (cr_navigation result) nv_http_status of
             None \<Rightarrow> JNull | Some n \<Rightarrow> json_num n),
          (''trust'', cr_trust result)]]
       else []) @
      (case cr_screenshot result of
         Some shot \<Rightarrow>
           (if cr_ok result
            then [session_event session (ci_actor input) ''screenshot.captured''
              (correlation @ [(''artefact_id'', JString (sr_artefact_id shot))])
              [(''purpose'', JString (default_to ''verification'' (bc_purpose command))),
               (''full_page'', JBool (sr_full_page shot)), (''viewport'', sr_viewport shot),
               (''size_bytes'', json_num (sr_size_bytes shot)), (''sha256'', JString (sr_sha256 shot)),
               (''captured_at'', JString (sr_captured_at shot))]]
            else [])
       | None \<Rightarrow> []))"

definition executed_work ::
  "browser_session \<Rightarrow> act_input \<Rightarrow> browser_command \<Rightarrow> int \<Rightarrow> command_result \<Rightarrow> browser_db \<Rightarrow>
     store_failure + (unit \<times> browser_db)" where
  "executed_work session input command sequence result db =
     r_bind (if cr_ok result \<and> bs_status session = READY
             then store_sessions (update_where (\<lambda>b. bs_id b = bs_id session)
               (\<lambda>b. b\<lparr>bs_status := ACTIVE\<rparr>) (bd_sessions db)) db
             else Inr db) (\<lambda>db1.
     r_bind (appendEvents (executed_events session input command sequence result) db1) (\<lambda>db2.
     Inr ((), db2)))"

text \<open>\<open>answer\<close> is what \<open>client.command\<close> resolves to, or the error it throws.\<close>

definition runCommand ::
  "(store_failure + command_result) \<Rightarrow> act_input \<Rightarrow> browser_command \<Rightarrow> command_result session_act" where
  "runCommand answer input command =
     act_bind (act_read (get_session (ci_browserSessionId input))) (\<lambda>session.
     act_bind (act_read (\<lambda>db. Inr (authoriseBrowserCommand (command_context_of session input db) command)))
       (\<lambda>denial. case denial of
         Some d \<Rightarrow> act_bind (recordRejection session input command d)
           (\<lambda>_. act_throw (Refused (ApiError (cd_code d) (cd_details d) None None)))
       | None \<Rightarrow>
         (case bs_worker_id session of
           None \<Rightarrow> act_bind (recordRejection session input command
               \<lparr>cd_code = BROWSER_SESSION_NOT_ACTIVE, cd_details = None, cd_reason = ''no_worker''\<rparr>)
             (\<lambda>_. act_throw (Refused (ApiError BROWSER_SESSION_NOT_ACTIVE None None None)))
         | Some wid \<Rightarrow>
             (let sequence = bs_last_sequence session + 1 in
              act_bind (update_session (bs_id session) (\<lambda>b. b\<lparr>bs_last_sequence := sequence\<rparr>)) (\<lambda>_.
              act_bind (act_write (call_peer (Call_command wid (bs_id session) (ci_controller input)
                (ci_controlEpoch input) sequence command))) (\<lambda>_.
              act_bind (act_read (\<lambda>db. answer)) (\<lambda>result.
              act_bind (transaction (executed_work session input command sequence result)) (\<lambda>_.
              act_return result))))))))"

section \<open>Lifecycle acts of a controller\<close>

definition requireControl ::
  "lifecycle_act \<Rightarrow> act_input \<Rightarrow> session_status list \<Rightarrow> browser_session session_act" where
  "requireControl act input from =
     act_bind (act_read (get_session (ci_browserSessionId input))) (\<lambda>session.
     if bs_project_id session \<noteq> ci_projectId input then refuseForeign session act input
     else if bs_status session \<notin> set from then refuseLifecycle session act input (not_active session)
     else if ci_controlEpoch input \<noteq> bs_control_epoch session
     then refuseLifecycle session act input (epoch_stale session)
     else if bs_current_controller session \<noteq> None \<and>
       \<not> sameController (ci_controller input) (bs_current_controller session)
     then refuseLifecycle session act input (not_owned session)
     else act_return session)"

definition controller_payload :: "act_input \<Rightarrow> (string \<times> json) list" where
  "controller_payload input =
     [(''controller_type'', JString (controller_type_name (ct_type (ci_controller input))))]"

definition pause :: "act_input \<Rightarrow> browser_session session_act" where
  "pause input =
     act_bind (requireControl Pause input [READY, ACTIVE]) (\<lambda>session.
     act_bind (setStatus session PAUSED (ci_actor input) (Some ''browser_session.paused'')
       (controller_payload input)) (\<lambda>_.
     act_read (get_session (bs_id session))))"

definition resume :: "act_input \<Rightarrow> browser_session session_act" where
  "resume input =
     act_bind (requireControl Resume input [PAUSED]) (\<lambda>session.
     act_bind (setStatus session READY (ci_actor input) (Some ''browser_session.resumed'')
       (controller_payload input)) (\<lambda>_.
     act_read (get_session (bs_id session))))"

definition terminate_session ::
  "bool \<Rightarrow> string \<Rightarrow> termination_reason \<Rightarrow> event_actor \<Rightarrow> browser_session session_act" where
  "terminate_session revoker sid reason actor =
     act_bind (act_read (get_session sid)) (\<lambda>session.
     if terminal (bs_status session) then act_return session
     else act_bind (setStatus session TERMINATING actor None
         [(''reason'', JString (termination_reason_text reason))]) (\<lambda>_.
       act_bind (act_write (\<lambda>db. case bs_worker_id session of None \<Rightarrow> db
         | Some wid \<Rightarrow> call_peer (Call_terminate wid (bs_id session) reason) db)) (\<lambda>_.
       act_bind (revokeLeases (bs_id session) (''terminated: '' @ termination_reason_text reason)) (\<lambda>_.
       act_bind (withdrawCapabilities revoker (bs_id session)) (\<lambda>_.
       act_bind (act_read (get_session sid)) (\<lambda>terminating.
       act_bind (setStatus terminating TERMINATED actor (Some ''browser_session.terminated'')
         [(''reason'', JString (termination_reason_text reason))]) (\<lambda>_.
       act_read (get_session sid))))))))"

definition end_session :: "bool \<Rightarrow> act_input \<Rightarrow> termination_reason \<Rightarrow> browser_session session_act" where
  "end_session revoker input reason =
     act_bind (act_read (get_session (ci_browserSessionId input))) (\<lambda>session.
     if bs_project_id session \<noteq> ci_projectId input
     then act_throw (Refused (notFound ''The browser session''))
     else if terminal (bs_status session) then act_return session
     else act_bind (requireControl End input [REQUESTED, ALLOCATING, READY, ACTIVE, PAUSED, DEGRADED]) (\<lambda>_.
       terminate_session revoker (ci_browserSessionId input) reason (ci_actor input)))"

section \<open>What a worker reports\<close>

fun report_event_type :: "session_status \<Rightarrow> string option" where
  "report_event_type READY = Some ''browser_session.ready''"
| "report_event_type FAILED = Some ''browser_session.failed''"
| "report_event_type TERMINATED = Some ''browser_session.terminated''"
| "report_event_type DEGRADED = Some ''browser_session.degraded''"
| "report_event_type _ = None"

definition applyWorkerReport ::
  "bool \<Rightarrow> string \<Rightarrow> session_status \<Rightarrow> string option \<Rightarrow> event_actor \<Rightarrow> browser_session session_act" where
  "applyWorkerReport revoker sid status reason actor =
     act_bind (act_read (get_session sid)) (\<lambda>session.
     act_bind (if status = FAILED \<or> status = TERMINATED
       then act_bind (revokeLeases (bs_id session) (default_to (session_status_name status) reason))
              (\<lambda>_. withdrawCapabilities revoker (bs_id session))
       else act_return ()) (\<lambda>_.
     act_bind (setStatus session status actor (report_event_type status)
       [(''reason'', nullable reason), (''reported_by'', JString ''browser_worker'')]) (\<lambda>_.
     act_read (get_session sid))))"

text \<open>The handler of \<open>/internal/v1/browser-sessions/:sessionId/status\<close> on a frame that decoded.\<close>

definition status_route ::
  "(string \<Rightarrow> string) \<Rightarrow> string \<Rightarrow> bool \<Rightarrow> string \<Rightarrow> string \<Rightarrow> session_status \<Rightarrow> string option \<Rightarrow>
     browser_session session_act" where
  "status_route digest expected revoker credential sid status reason =
     act_bind (act_read (worker_principal_of digest expected credential)) (\<lambda>principal.
     act_bind (act_read (get_session sid)) (\<lambda>session.
     if bs_project_id session \<notin> set (wp_assigned principal)
     then act_throw (Refused (ApiError PROJECT_CONTEXT_MISMATCH None None None))
     else if bs_worker_id session \<noteq> Some (wp_worker_id principal)
     then act_throw (Refused (ApiError AUTHORISATION_DENIED None None None))
     else applyWorkerReport revoker sid status reason
       \<lparr>act_type = browser_worker, act_id = Some (wp_worker_id principal),
        act_display = Some (wp_name principal)\<rparr>))"

section \<open>The control lease\<close>

definition control_type_text :: "controller_identity option \<Rightarrow> json" where
  "control_type_text c =
     (case c of None \<Rightarrow> JNull | Some c \<Rightarrow> JString (controller_type_name (ct_type c)))"

definition grant_work ::
  "browser_session \<Rightarrow> controller_identity \<Rightarrow> string option \<Rightarrow> event_actor \<Rightarrow> browser_db \<Rightarrow>
     store_failure + (unit \<times> browser_db)" where
  "grant_work session controller reason actor db =
     (let epoch = bs_control_epoch session + 1;
          correlation = [(''browser_session_id'', JString (bs_id session))] in
      r_bind (store_leases (revoke_rows (bs_id session) ''superseded by a new controller'' (es_now db)
        (bd_leases db)) db) (\<lambda>db1.
      r_bind (store_sessions (update_where (\<lambda>b. bs_id b = bs_id session)
        (\<lambda>b. b\<lparr>bs_current_controller := Some controller, bs_control_epoch := epoch\<rparr>) (bd_sessions db1)) db1) (\<lambda>db2.
      (let (lid, db3) = newId ''lse_'' db2 in
       r_then (refuse_if (bs_id session \<notin> bs_id ` set (bd_sessions db3))
         (Check_violation ''control_leases_browser_session_id_fkey''))
       (r_bind (store_leases (bd_leases db3 @ [new_lease lid (bs_id session) controller epoch
         (default_to ''control requested'' reason) (es_now db3)]) db3) (\<lambda>db4.
       r_bind (appendEvents
         [session_event session actor ''browser.control_requested'' correlation
            [(''requested_controller_type'', JString (controller_type_name (ct_type controller))),
             (''granted'', JBool True)],
          session_event session actor ''browser.control_transferred'' correlation
            [(''previous_controller_type'', control_type_text (bs_current_controller session)),
             (''new_controller_type'', JString (controller_type_name (ct_type controller))),
             (''previous_epoch'', json_num (bs_control_epoch session)),
             (''control_epoch'', json_num epoch)]] db4) (\<lambda>db5.
       Inr ((), db5))))))))"

definition ended :: "browser_session \<Rightarrow> bool" where
  "ended session \<longleftrightarrow> bs_ended_at session \<noteq> None \<or> terminal (bs_status session)"

definition requestControl ::
  "string \<Rightarrow> string \<Rightarrow> controller_identity \<Rightarrow> string option \<Rightarrow> event_actor \<Rightarrow> browser_session session_act" where
  "requestControl sid project controller reason actor =
     act_bind (act_read (get_session sid)) (\<lambda>session.
     (let context = \<lparr>ci_browserSessionId = sid, ci_projectId = project, ci_controller = controller,
            ci_controlEpoch = bs_control_epoch session, ci_actor = actor\<rparr> in
      if bs_project_id session \<noteq> project then refuseForeign session Control_request context
      else if ended session then refuseLifecycle session Control_request context (not_active session)
      else if ct_type controller = Human_controller
      then act_bind (appending [session_event session actor ''browser.control_requested''
          [(''browser_session_id'', JString (bs_id session))]
          [(''requested_controller_type'', JString (controller_type_name (ct_type controller))),
           (''granted'', JBool False), (''reason_code'', JString ''UNSUPPORTED_CAPABILITY'')]])
        (\<lambda>_. act_throw (Refused (ApiError UNSUPPORTED_CAPABILITY None None None)))
      else if sameController controller (bs_current_controller session) then act_return session
      else act_bind (transaction (grant_work session controller reason actor)) (\<lambda>_.
        act_read (get_session (bs_id session)))))"

definition release_work ::
  "browser_session \<Rightarrow> controller_identity \<Rightarrow> event_actor \<Rightarrow> browser_db \<Rightarrow> store_failure + (unit \<times> browser_db)" where
  "release_work session current actor db =
     (let epoch = bs_control_epoch session + 1 in
      r_bind (store_leases (revoke_rows (bs_id session) ''released by controller'' (es_now db)
        (bd_leases db)) db) (\<lambda>db1.
      r_bind (store_sessions (update_where (\<lambda>b. bs_id b = bs_id session)
        (\<lambda>b. b\<lparr>bs_current_controller := None, bs_control_epoch := epoch\<rparr>) (bd_sessions db1)) db1) (\<lambda>db2.
      r_bind (appendEvents [session_event session actor ''browser.control_released''
        [(''browser_session_id'', JString (bs_id session))]
        [(''previous_controller_type'', JString (controller_type_name (ct_type current))),
         (''previous_epoch'', json_num (bs_control_epoch session)),
         (''control_epoch'', json_num epoch)]] db2) (\<lambda>db3.
      Inr ((), db3)))))"

definition releaseControl :: "act_input \<Rightarrow> browser_session session_act" where
  "releaseControl input =
     act_bind (act_read (get_session (ci_browserSessionId input))) (\<lambda>session.
     if bs_project_id session \<noteq> ci_projectId input then refuseForeign session Control_release input
     else if ci_controlEpoch input \<noteq> bs_control_epoch session
     then refuseLifecycle session Control_release input (epoch_stale session)
     else case bs_current_controller session of
       None \<Rightarrow> act_return session
     | Some current \<Rightarrow>
         if \<not> sameController (ci_controller input) (Some current)
         then refuseLifecycle session Control_release input (not_owned session)
         else act_bind (transaction (release_work session current (ci_actor input))) (\<lambda>_.
           act_read (get_session (bs_id session))))"

section \<open>Timeline and reconciliation\<close>

definition timeline :: "string \<Rightarrow> string \<Rightarrow> int option \<Rightarrow> browser_db \<Rightarrow> store_failure + event_row list" where
  "timeline sid project limit db =
     r_bind (get_session sid db) (\<lambda>session.
     if bs_project_id session \<noteq> project then Inl (Refused (notFound ''The browser session''))
     else Inr (take (nat (min (max (default_to 100 limit) 1) 200))
       (rev (sort_key (\<lambda>e. (e_occurred_at e, e_sequence e))
         (filter (\<lambda>e. e_project_id e = Some project \<and>
            text_member ''browser_session_id'' (e_correlation e) = Some sid) (es_events db))))))"

definition markReconciled :: "string \<Rightarrow> session_status \<Rightarrow> string \<Rightarrow> unit session_act" where
  "markReconciled sid status reason =
     act_bind (act_read (get_session sid)) (\<lambda>session.
     if bs_status session = status then act_return ()
     else act_bind (if status = FAILED then revokeLeases (bs_id session) reason else act_return ()) (\<lambda>_.
       setStatus session status (system_actor ''browser session reconciler'')
         (Some (if status = FAILED then ''browser_session.failed'' else ''browser_session.degraded''))
         [(''reason'', JString reason), (''trigger'', JString ''reconciliation'')]))"

end
