(* ===== verification/Session_Monitor.thy ===== *)
theory Session_Monitor
  imports Session_Control
begin

text \<open>
  The liveness sweep and the session reconciler (\<open>browser-sessions/monitor.ts\<close>). A worker's
  answer to \<open>contexts\<close> is an argument; the log lines are not modelled.
\<close>

record worker_context =
  wx_browser_session_id :: string
  wx_project_id :: string
  wx_status :: session_status
  wx_control_epoch :: nat

record reconciliation =
  rc_orphans :: nat
  rc_degraded :: nat
  rc_failed :: nat

record sweep_result =
  sw_degraded :: nat
  sw_lost :: nat
  sw_reconciliation :: reconciliation
  sw_leasesExpired :: nat

definition liveSessions :: "browser_db \<Rightarrow> browser_session list" where
  "liveSessions db =
     filter (\<lambda>b. bs_ended_at b = None \<and> bs_worker_id b \<noteq> None \<and>
       bs_status b \<in> {ALLOCATING, READY, ACTIVE, PAUSED, DEGRADED}) (bd_sessions db)"

definition stale_lease :: "nat \<Rightarrow> control_lease \<Rightarrow> bool" where
  "stale_lease now l \<longleftrightarrow> cl_revoked_at l = None \<and> cl_expires_at l < now"

definition expireStaleLeases :: "nat session_act" where
  "expireStaleLeases db =
     (let n = length (filter (stale_lease (es_now db)) (bd_leases db)) in
      act_bind (statement (\<lambda>db. store_leases (update_where (stale_lease (es_now db))
          (\<lambda>l. l\<lparr>cl_revoked_at := Some (es_now db), cl_reason := Some ''lease expired''\<rparr>) (bd_leases db)) db))
        (\<lambda>_. act_return n) db)"

text \<open>A call whose failure is swallowed: \<open>.catch(() => undefined)\<close>.\<close>

definition attempt :: "unit session_act \<Rightarrow> browser_db \<Rightarrow> browser_db" where
  "attempt m db = snd (m db)"

definition recordOrphan :: "string \<Rightarrow> worker_context \<Rightarrow> unit session_act" where
  "recordOrphan wid context db =
     (case map_of (bd_projects db) (wx_project_id context) of
        None \<Rightarrow> (ok, db)
      | Some org \<Rightarrow> appending [project_event org (wx_project_id context)
          (system_actor ''browser session reconciler'') ''browser_session.reconciled''
          [(''browser_session_id'', JString (wx_browser_session_id context)), (''worker_id'', JString wid)]
          [(''action'', JString ''orphan_context_terminated''),
           (''reported_status'', JString (session_status_name (wx_status context))),
           (''reported_control_epoch'', json_num (wx_control_epoch context))]] db)"

definition fail_gone :: "string set \<Rightarrow> browser_session list \<Rightarrow> browser_db \<Rightarrow> nat \<times> browser_db" where
  "fail_gone schedulable sessions db =
     fold (\<lambda>b (n, db).
        if (case bs_worker_id b of None \<Rightarrow> True | Some wid \<Rightarrow> wid \<in> schedulable) then (n, db)
        else (n + 1, attempt (markReconciled (bs_id b) FAILED
          ''the browser worker running this session is gone'') db)) sessions (0, db)"

definition degrade_all :: "string \<Rightarrow> (browser_session \<Rightarrow> bool) \<Rightarrow> browser_session list \<Rightarrow> browser_db \<Rightarrow> nat \<times> browser_db" where
  "degrade_all reason skip sessions db =
     fold (\<lambda>b (n, db).
        if skip b then (n, db)
        else (n + 1, attempt (markReconciled (bs_id b) DEGRADED reason) db)) sessions (0, db)"

fun drop_orphans :: "string \<Rightarrow> string set \<Rightarrow> worker_context list \<Rightarrow> nat session_act" where
  "drop_orphans wid expected [] db = (Inr 0, db)"
| "drop_orphans wid expected (c # cs) db =
     (if wx_browser_session_id c \<in> expected then drop_orphans wid expected cs db
      else act_bind (recordOrphan wid c) (\<lambda>_.
        act_bind (drop_orphans wid expected cs) (\<lambda>n. act_return (n + 1)))
        (call_peer (Call_terminate wid (wx_browser_session_id c) Failure) db))"

definition reconcile_worker ::
  "(string \<Rightarrow> worker_context list option) \<Rightarrow> browser_session list \<Rightarrow> string \<Rightarrow> bool \<Rightarrow> reconciliation session_act" where
  "reconcile_worker contexts sessions wid isLive db =
     (let owned = filter (\<lambda>b. bs_worker_id b = Some wid) sessions in
      if \<not> isLive
      then (let (n, db1) = degrade_all ''the browser worker stopped reporting''
                   (\<lambda>b. bs_status b = DEGRADED) owned db
            in (Inr \<lparr>rc_orphans = 0, rc_degraded = n, rc_failed = 0\<rparr>, db1))
      else case contexts wid of
        None \<Rightarrow> (Inr \<lparr>rc_orphans = 0, rc_degraded = 0, rc_failed = 0\<rparr>, db)
      | Some cs \<Rightarrow>
          (let held = wx_browser_session_id ` set cs; expected = bs_id ` set owned in
           act_bind (drop_orphans wid expected cs) (\<lambda>orphans db1.
             (let (n, db2) = degrade_all ''the worker no longer holds this browser context''
                    (\<lambda>b. bs_id b \<in> held \<or> bs_status b = ALLOCATING \<or> bs_status b = DEGRADED) owned db1
              in (Inr \<lparr>rc_orphans = orphans, rc_degraded = n, rc_failed = 0\<rparr>, db2))) db))"

fun reconcile_workers ::
  "(string \<Rightarrow> worker_context list option) \<Rightarrow> browser_session list \<Rightarrow> (worker_row \<times> bool) list \<Rightarrow>
     reconciliation session_act" where
  "reconcile_workers contexts sessions [] db = (Inr \<lparr>rc_orphans = 0, rc_degraded = 0, rc_failed = 0\<rparr>, db)"
| "reconcile_workers contexts sessions ((w, isLive) # ws) db =
     act_bind (reconcile_worker contexts sessions (wk_id w) isLive) (\<lambda>one.
     act_bind (reconcile_workers contexts sessions ws) (\<lambda>others.
     act_return \<lparr>rc_orphans = rc_orphans one + rc_orphans others,
       rc_degraded = rc_degraded one + rc_degraded others, rc_failed = rc_failed one + rc_failed others\<rparr>)) db"

definition reconcileSessions ::
  "worker_config \<Rightarrow> (string \<Rightarrow> worker_context list option) \<Rightarrow> reconciliation session_act" where
  "reconcileSessions config contexts db =
     (let sessions = liveSessions db; rows = schedulableRows config db;
          (failed, db1) = fail_gone (set (map (\<lambda>(w, _). wk_id w) rows)) sessions db
      in act_bind (reconcile_workers contexts sessions rows)
           (\<lambda>rc. act_return (rc\<lparr>rc_failed := failed\<rparr>)) db1)"

fun move_workers ::
  "worker_status list \<Rightarrow> worker_status \<Rightarrow> (string \<times> json) list \<Rightarrow> worker_row list \<Rightarrow> nat session_act" where
  "move_workers from to payload [] db = (Inr 0, db)"
| "move_workers from to payload (w # ws) db =
     act_bind (worker_transition (wk_id w) from to payload) (\<lambda>moved.
     act_bind (move_workers from to payload ws) (\<lambda>n. act_return (n + (if moved then 1 else 0)))) db"

definition sweepBrowserWorkers ::
  "worker_config \<Rightarrow> (string \<Rightarrow> worker_context list option) \<Rightarrow> sweep_result session_act" where
  "sweepBrowserWorkers config contexts =
     act_bind (act_read (\<lambda>db. Inr (findSilent [Worker_active, Worker_degraded] (wc_lostAfterSeconds config) db)))
       (\<lambda>silent.
     act_bind (move_workers [Worker_active, Worker_degraded] Worker_lost
       [(''trigger'', JString ''heartbeat_timeout''),
        (''silent_for_seconds_at_least'', json_num (wc_lostAfterSeconds config))] silent) (\<lambda>lost.
     act_bind (act_read (\<lambda>db. Inr (findSilent [Worker_active] (wc_degradedAfterSeconds config) db))) (\<lambda>late.
     act_bind (move_workers [Worker_active] Worker_degraded
       [(''trigger'', JString ''heartbeat_delay''),
        (''silent_for_seconds_at_least'', json_num (wc_degradedAfterSeconds config))] late) (\<lambda>degraded.
     act_bind (reconcileSessions config contexts) (\<lambda>rc.
     act_bind expireStaleLeases (\<lambda>expired.
     act_return \<lparr>sw_degraded = degraded, sw_lost = lost, sw_reconciliation = rc, sw_leasesExpired = expired\<rparr>))))))"

end
