(* ===== verification/Session_Steps.thy ===== *)
theory Session_Steps
  imports Session_Monitor
begin

text \<open>
  The transactions and single statements of the browser-session service as a step relation, and
  the invariant that every step keeps. A step takes the session record its operation read, and
  that record may be stale: any number of operations of any number of processes interleave at
  this grain. \<open>runs\<close> says that an operation is a sequence of such steps, and it is proved of
  every operation of the service.
\<close>

section \<open>The invariant\<close>

definition lease_key :: "control_lease \<Rightarrow> string \<times> nat \<times> controller_identity" where
  "lease_key l = (cl_session l, cl_epoch l, cl_controller l)"

text \<open>The controller was granted the session at the epoch, at some time.\<close>

definition granted :: "browser_db \<Rightarrow> string \<Rightarrow> nat \<Rightarrow> controller_identity \<Rightarrow> bool" where
  "granted db sid epoch controller \<longleftrightarrow> (sid, epoch, controller) \<in> lease_key ` set (bd_leases db)"

fun call_granted :: "browser_db \<Rightarrow> peer_call \<Rightarrow> bool" where
  "call_granted db (Call_command wid sid controller epoch n command) \<longleftrightarrow>
     granted db sid epoch controller \<or> isSystemCapture (bc_command command)"
| "call_granted db _ \<longleftrightarrow> True"

definition session_consistent :: "browser_db \<Rightarrow> browser_session \<Rightarrow> bool" where
  "session_consistent db b \<longleftrightarrow>
     (case bs_current_controller b of None \<Rightarrow> True | Some c \<Rightarrow> granted db (bs_id b) (bs_control_epoch b) c) \<and>
     (terminal (bs_status b) \<longrightarrow> bs_ended_at b \<noteq> None)"

definition session_ok :: "browser_db \<Rightarrow> bool" where
  "session_ok db \<longleftrightarrow> tables_ok db \<and> log_ok db \<and>
     list_all (session_consistent db) (bd_sessions db) \<and> list_all (call_granted db) (bd_calls db)"

section \<open>Steps\<close>

text \<open>
  The changes of a session's row that are one statement outside a transaction: they keep its
  identity, its controller and its status.
\<close>

definition plain_update :: "(browser_session \<Rightarrow> browser_session) \<Rightarrow> bool" where
  "plain_update f \<longleftrightarrow> (\<forall>b. bs_id (f b) = bs_id b \<and> bs_current_controller (f b) = bs_current_controller b \<and>
     bs_control_epoch (f b) = bs_control_epoch b \<and> bs_status (f b) = bs_status b \<and>
     bs_ended_at (f b) = bs_ended_at b)"

text \<open>Leases are never forgotten: a step keeps their keys and adds new ones at the end.\<close>

definition grows :: "browser_db \<Rightarrow> browser_db \<Rightarrow> bool" where
  "grows db db' \<longleftrightarrow> (\<exists>new. map lease_key (bd_leases db') = map lease_key (bd_leases db) @ new)"

text \<open>A call to a worker other than a command.\<close>

fun is_command :: "peer_call \<Rightarrow> bool" where
  "is_command (Call_command wid sid controller epoch n command) \<longleftrightarrow> True"
| "is_command _ \<longleftrightarrow> False"

text \<open>
  \<open>allowed\<close> restricts the statuses that a change of status may write. A command leaves for the worker after the session
  was read and the matrix has permitted it on what was read, in a database \<open>seen\<close> that may be older than the one in which it
  leaves; the route is looked up after that read, in any database \<open>checked\<close>. Of an older database of the same history two things are kept here: the invariant, and that no lease was
  forgotten since; \<open>stale_command\<close> below shows that every older database of a history has them.
\<close>

inductive txn :: "(session_status \<Rightarrow> bool) \<Rightarrow> browser_db \<Rightarrow> browser_db \<Rightarrow> bool" for allowed where
  created: "create_work input worker sid db = Inr (b, db') \<Longrightarrow> txn allowed db db'"
| claimed: "claim_work session actor route db = Inr (won, db') \<Longrightarrow> txn allowed db db'"
| requested: "request_work session r actor requestId db = Inr (u, db') \<Longrightarrow> txn allowed db db'"
| status_set: "allowed status \<Longrightarrow> setStatus_work session status actor eventType payload db = Inr (u, db') \<Longrightarrow>
    txn allowed db db'"
| executed: "executed_work session input command sequence result db = Inr (u, db') \<Longrightarrow> txn allowed db db'"
| control_granted: "grant_work session controller reason actor db = Inr (u, db') \<Longrightarrow> txn allowed db db'"
| control_released: "release_work session controller actor db = Inr (u, db') \<Longrightarrow> txn allowed db db'"
| row_updated: "plain_update f \<Longrightarrow>
    store_sessions (update_where (\<lambda>b. bs_id b = sid) f (bd_sessions db)) db = Inr db' \<Longrightarrow> txn allowed db db'"
| leases_revoked: "(\<And>l. lease_key (f l) = lease_key l) \<Longrightarrow>
    store_leases (update_where p f (bd_leases db)) db = Inr db' \<Longrightarrow> txn allowed db db'"
| logged: "appendEvents inputs db = Inr db' \<Longrightarrow> txn allowed db db'"
| called: "\<not> is_command c \<Longrightarrow> txn allowed db (call_peer c db)"
| commanded: "session_ok seen \<Longrightarrow> grows seen db \<Longrightarrow> session_by_id sid seen = Some b \<Longrightarrow>
    authoriseBrowserCommand (command_context_of b input checked) command = None \<Longrightarrow>
    txn allowed db (call_peer (Call_command wid (bs_id b) (ci_controller input) (ci_controlEpoch input) n command) db)"
| drawn: "txn allowed db (db\<lparr>es_drawn := es_drawn db + 1\<rparr>)"
| workers_changed: "txn allowed db (db\<lparr>bd_workers := workers\<rparr>)"
| assignments_changed: "txn allowed db (db\<lparr>bd_worker_projects := assignments\<rparr>)"
| environment: "txn allowed db (db\<lparr>es_now := now, bd_projects := projects,
    bd_organisations := organisations, bd_routes := routes\<rparr>)"

abbreviation txns :: "(session_status \<Rightarrow> bool) \<Rightarrow> browser_db \<Rightarrow> browser_db \<Rightarrow> bool" where
  "txns allowed \<equiv> (txn allowed)\<^sup>*\<^sup>*"

abbreviation any_status :: "session_status \<Rightarrow> bool" where
  "any_status \<equiv> \<lambda>s. True"

lemma txn_weaken: "txn allowed db db' \<Longrightarrow> (\<And>s. allowed s \<Longrightarrow> allowed' s) \<Longrightarrow> txn allowed' db db'"
  by (induction rule: txn.induct) (blast intro: txn.intros)+

section \<open>Every step keeps the invariant\<close>

lemma grows_refl [simp]: "grows db db"
  by (simp add: grows_def)

lemma grows_trans: "grows a b \<Longrightarrow> grows b c \<Longrightarrow> grows a c"
  by (auto simp: grows_def)

lemma grows_same: "map lease_key (bd_leases db') = map lease_key (bd_leases db) \<Longrightarrow> grows db db'"
  by (simp add: grows_def)

lemma lease_key_set: "lease_key ` set ls = set (map lease_key ls)"
  by simp

lemma granted_grows: "grows db db' \<Longrightarrow> granted db s e c \<Longrightarrow> granted db' s e c"
  by (auto simp: grows_def granted_def lease_key_set simp del: set_map)

lemma call_granted_grows: "grows db db' \<Longrightarrow> call_granted db c \<Longrightarrow> call_granted db' c"
  by (cases c) (auto intro: granted_grows)

lemma session_consistent_grows:
  "grows db db' \<Longrightarrow> session_consistent db b \<Longrightarrow> session_consistent db' b"
  by (auto simp: session_consistent_def intro: granted_grows split: option.splits)

lemma log_ok_fields [simp]:
  "log_ok (db\<lparr>bd_sessions := ss\<rparr>) = log_ok db" "log_ok (db\<lparr>bd_leases := ls\<rparr>) = log_ok db"
  "log_ok (db\<lparr>bd_calls := cs\<rparr>) = log_ok db" "log_ok (db\<lparr>es_drawn := n\<rparr>) = log_ok db"
  "log_ok (db\<lparr>bd_workers := ws\<rparr>) = log_ok db" "log_ok (db\<lparr>bd_worker_projects := ps\<rparr>) = log_ok db"
  "log_ok (db\<lparr>es_now := now, bd_projects := projects, bd_organisations := organisations, bd_routes := routes\<rparr>) =
     log_ok db"
  by (rule log_ok_cong; simp)+

text \<open>
  How a transaction is shown to keep the invariant: the log stays consistent, the constraints
  hold of the tables it leaves, leases only grow, and each row of the new session table is
  consistent, most of them because they were before.
\<close>

lemma session_okI:
  assumes "session_ok db" "grows db db'" "tables_ok db'" "log_ok db'" "bd_calls db' = bd_calls db"
    and "\<And>b. b \<in> set (bd_sessions db') \<Longrightarrow> b \<notin> set (bd_sessions db) \<Longrightarrow> session_consistent db' b"
  shows "session_ok db'"
  using assms session_consistent_grows [OF assms(2)] call_granted_grows [OF assms(2)]
  by (auto simp: session_ok_def list_all_iff)

lemma log_kept:
  "appendEvents is db1 = Inr db2 \<Longrightarrow> log_ok db1 \<Longrightarrow> log_ok db2"
  by (rule log_ok_appendEvents)

lemma appendEvents_fields:
  assumes "appendEvents is db = Inr db'"
  shows "bd_sessions db' = bd_sessions db" "bd_leases db' = bd_leases db" "bd_calls db' = bd_calls db"
    "tables_ok db' = tables_ok db" "es_now db' = es_now db"
  using appendEvents_Inr [OF assms] by (simp_all add: tables_ok_def)

lemma consistent_update:
  assumes "b \<in> set (update_where p f t)" "b \<notin> set t"
  obtains a where "a \<in> set t" "p a" "b = f a"
  using assms by (auto simp: in_update_where split: if_splits)

lemma tables_okD:
  assumes "session_ok db"
  shows "distinct (map bs_id (bd_sessions db))" "list_all session_row_ok (bd_sessions db)"
    "distinct (map cl_id (bd_leases db))" "distinct (map (\<lambda>l. (cl_session l, cl_epoch l)) (bd_leases db))"
    "distinct (map cl_session (filter interactive_lease (bd_leases db)))"
  using assms by (simp_all add: session_ok_def tables_ok_def)

text \<open>A row whose status, end, controller and epoch are as before, or whose controller is gone.\<close>

lemma consistent_same:
  "session_ok db \<Longrightarrow> grows db db' \<Longrightarrow> a \<in> set (bd_sessions db) \<Longrightarrow>
   bs_id b = bs_id a \<Longrightarrow> bs_current_controller b = bs_current_controller a \<Longrightarrow>
   bs_control_epoch b = bs_control_epoch a \<Longrightarrow> (terminal (bs_status b) \<longrightarrow> bs_ended_at b \<noteq> None) \<Longrightarrow>
   session_consistent db' b"
  using session_consistent_grows [of db db' a]
  by (auto simp: session_ok_def list_all_iff session_consistent_def split: option.splits)

lemma update_step:
  assumes "session_ok db" "store_sessions (update_where p f (bd_sessions db)) db = Inr db1"
    and "appendEvents inputs db1 = Inr db'"
    and "\<And>a. bs_id (f a) = bs_id a \<and> bs_current_controller (f a) = bs_current_controller a \<and>
      bs_control_epoch (f a) = bs_control_epoch a"
    and "\<And>a. (terminal (bs_status a) \<longrightarrow> bs_ended_at a \<noteq> None) \<Longrightarrow>
      (terminal (bs_status (f a)) \<longrightarrow> bs_ended_at (f a) \<noteq> None)"
  shows "session_ok db'" and "grows db db'"
proof -
  have db1: "db1 = db\<lparr>bd_sessions := update_where p f (bd_sessions db)\<rparr>"
    "distinct (map bs_id (update_where p f (bd_sessions db)))"
    "list_all session_row_ok (update_where p f (bd_sessions db))"
    using assms(2) by (simp_all add: result_simps)
  note fields = appendEvents_fields [OF assms(3)]
  show grow: "grows db db'" using fields db1 by (simp add: grows_same)
  show "session_ok db'"
  proof (rule session_okI [OF assms(1) grow])
    show "tables_ok db'"
      using db1 tables_okD [OF assms(1)] by (simp add: fields tables_ok_def)
    show "log_ok db'"
      using assms(1) db1 log_kept [OF assms(3)] by (simp add: session_ok_def)
    show "bd_calls db' = bd_calls db" using db1 by (simp add: fields)
    fix b assume "b \<in> set (bd_sessions db')" "b \<notin> set (bd_sessions db)"
    then obtain a where a: "a \<in> set (bd_sessions db)" "b = f a"
      using db1 by (auto simp: fields elim: consistent_update)
    moreover have "terminal (bs_status a) \<longrightarrow> bs_ended_at a \<noteq> None"
      using assms(1) a(1) by (auto simp: session_ok_def list_all_iff session_consistent_def)
    ultimately show "session_consistent db' b"
      using consistent_same [OF assms(1) grow] assms(4,5) by metis
  qed
qed

lemma lease_step:
  assumes "session_ok db" "store_leases (update_where p f (bd_leases db)) db = Inr db'"
    and "\<And>l. lease_key (f l) = lease_key l"
  shows "session_ok db'" and "grows db db'"
proof -
  have db': "db' = db\<lparr>bd_leases := update_where p f (bd_leases db)\<rparr>"
    using assms(2) by (simp add: result_simps)
  show grow: "grows db db'" using assms(3) by (simp add: db' grows_same update_where_map)
  show "session_ok db'"
    using assms(1,2) tables_okD [OF assms(1)]
    by (intro session_okI [OF assms(1) grow]) (auto simp: session_ok_def tables_ok_def result_simps)
qed

lemma lease_key_revoke [simp]: "lease_key (l\<lparr>cl_revoked_at := t, cl_reason := r\<rparr>) = lease_key l"
  by (simp add: lease_key_def)

text \<open>A step that only writes the log, the clock, the draws or the tables of other components.\<close>

lemma untouched_step:
  assumes "session_ok db" "bd_sessions db' = bd_sessions db" "bd_leases db' = bd_leases db"
    "bd_calls db' = bd_calls db" "log_ok db'"
  shows "session_ok db'"
  using assms by (intro session_okI [OF assms(1)]) (simp_all add: session_ok_def tables_ok_def grows_def)

text \<open>
  A step that grants control: the rows it touches name the controller of the lease it adds, and
  any other row is as before.
\<close>

lemma grant_step:
  assumes "session_ok db" "map lease_key ls = map lease_key (bd_leases db)"
    and "store_sessions rows (db\<lparr>bd_leases := ls\<rparr>) = Inr db2"
    and "store_leases (ls @ [l]) (db2\<lparr>es_drawn := n\<rparr>) = Inr db4" "appendEvents inputs db4 = Inr db'"
    and "\<And>b. b \<in> set rows \<Longrightarrow> b \<notin> set (bd_sessions db) \<Longrightarrow>
      bs_current_controller b = Some (cl_controller l) \<and> bs_control_epoch b = cl_epoch l \<and>
      bs_id b = cl_session l \<and> (terminal (bs_status b) \<longrightarrow> bs_ended_at b \<noteq> None)"
  shows "session_ok db'" and "grows db db'"
proof -
  have db4: "db4 = db\<lparr>bd_sessions := rows, es_drawn := n, bd_leases := ls @ [l]\<rparr>"
    and tables: "distinct (map bs_id rows)" "list_all session_row_ok rows"
    "distinct (map cl_id (ls @ [l]))" "distinct (map cl_session (filter interactive_lease (ls @ [l])))"
    "distinct (map (\<lambda>l. (cl_session l, cl_epoch l)) (ls @ [l]))"
    using assms(3,4) by (simp_all add: result_simps del: map_append filter_append distinct_append)
  note fields = appendEvents_fields [OF assms(5)]
  have keys: "map lease_key (bd_leases db') = map lease_key (bd_leases db) @ [lease_key l]"
    using assms(2) by (simp add: fields db4)
  then show grow: "grows db db'" by (simp add: grows_def)
  show "session_ok db'"
  proof (rule session_okI [OF assms(1) grow])
    show "tables_ok db'" using tables by (simp add: fields tables_ok_def db4 del: map_append filter_append distinct_append)
    show "log_ok db'"
      using assms(1) log_kept [OF assms(5)] log_ok_cong [of db4 db] by (simp add: session_ok_def db4)
    show "bd_calls db' = bd_calls db" by (simp add: fields db4)
    have "lease_key l \<in> set (map lease_key (bd_leases db'))" using keys by simp
    then have new: "granted db' (cl_session l) (cl_epoch l) (cl_controller l)"
      by (simp add: granted_def lease_key_def [of l])
    fix b assume "b \<in> set (bd_sessions db')" "b \<notin> set (bd_sessions db)"
    then have "b \<in> set rows" "b \<notin> set (bd_sessions db)" by (simp_all add: fields db4)
    then show "session_consistent db' b"
      using assms(6) [of b] new by (auto simp: session_consistent_def)
  qed
qed

lemma terminal_ended: "session_ok db \<Longrightarrow> b \<in> set (bd_sessions db) \<Longrightarrow> terminal (bs_status b) \<Longrightarrow> bs_ended_at b \<noteq> None"
  by (auto simp: session_ok_def list_all_iff session_consistent_def)

lemma create_step:
  assumes "session_ok db" "create_work input worker sid db = Inr (b, db')"
  shows "session_ok db' \<and> grows db db'"
proof -
  let ?b = "new_session input sid (wk_id worker) (es_now db)"
  obtain db1 db4 where steps: "store_sessions (bd_sessions db @ [?b]) db = Inr db1"
    "store_leases (bd_leases db1 @ [new_lease (fst (newId ''lse_'' db1)) sid (st_controller input) 1
       ''initial allocation'' (es_now db1)]) (db1\<lparr>es_drawn := es_drawn db1 + 1\<rparr>) = Inr db4"
    "appendEvents [project_event (st_organisationId input) (st_projectId input) (st_actor input)
       ''browser_session.requested'' [(''browser_session_id'', JString sid), (''worker_id'', JString (wk_id worker))]
       [(''viewport'', st_viewport input), (''control_epoch'', json_num 1)]] db4 = Inr db'"
    using assms(2) by (auto simp: create_work_def Let_def newId_def r_bind_eq_Inr r_then_eq_Inr
        simp del: appendEvents.simps One_nat_def)
  have leases: "bd_leases db1 = bd_leases db" using steps(1) by (simp add: result_simps)
  have "store_sessions (bd_sessions db @ [?b]) (db\<lparr>bd_leases := bd_leases db\<rparr>) = Inr db1"
    using steps(1) by simp
  from grant_step [OF assms(1) refl this steps(2) [unfolded leases] steps(3)] show ?thesis
    by (auto simp: new_session_def new_lease_def terminal_def)
qed

lemma grant_control_step:
  assumes "session_ok db" "grant_work session controller reason actor db = Inr (u, db')"
  shows "session_ok db' \<and> grows db db'"
proof -
  let ?ls = "revoke_rows (bs_id session) ''superseded by a new controller'' (es_now db) (bd_leases db)"
  let ?f = "\<lambda>b. b\<lparr>bs_current_controller := Some controller, bs_control_epoch := bs_control_epoch session + 1\<rparr>"
  let ?rows = "update_where (\<lambda>b. bs_id b = bs_id session) ?f (bd_sessions db)"
  obtain db1 db2 db4 inputs where steps: "store_leases ?ls db = Inr db1"
    "store_sessions (update_where (\<lambda>b. bs_id b = bs_id session) ?f (bd_sessions db1)) db1 = Inr db2"
    "store_leases (bd_leases db2 @ [new_lease (fst (newId ''lse_'' db2)) (bs_id session) controller
       (bs_control_epoch session + 1) (default_to ''control requested'' reason) (es_now db2)])
       (db2\<lparr>es_drawn := es_drawn db2 + 1\<rparr>) = Inr db4"
    "appendEvents inputs db4 = Inr db'"
    using assms(2) by (auto simp: grant_work_def Let_def newId_def r_bind_eq_Inr r_then_eq_Inr
        simp del: appendEvents.simps One_nat_def)
  have db1: "db1 = db\<lparr>bd_leases := ?ls\<rparr>" using steps(1) by (simp add: result_simps)
  have leases: "bd_leases db2 = ?ls" using steps(2) by (simp add: result_simps db1)
  have keys: "map lease_key ?ls = map lease_key (bd_leases db)"
    by (simp add: revoke_rows_def update_where_map)
  have rows: "bs_current_controller b = Some controller \<and> bs_control_epoch b = bs_control_epoch session + 1 \<and>
      bs_id b = bs_id session \<and> (terminal (bs_status b) \<longrightarrow> bs_ended_at b \<noteq> None)"
    if "b \<in> set ?rows" "b \<notin> set (bd_sessions db)" for b
    using that terminal_ended [OF assms(1)] by (elim consistent_update) auto
  have "store_sessions ?rows (db\<lparr>bd_leases := ?ls\<rparr>) = Inr db2" using steps(2) by (simp add: db1)
  note step = grant_step [OF assms(1) keys this steps(3) [unfolded leases] steps(4)]
  show ?thesis
    using step [unfolded new_lease_def control_lease.simps] rows by blast
qed

lemma release_step:
  assumes "session_ok db" "release_work session controller actor db = Inr (u, db')"
  shows "session_ok db' \<and> grows db db'"
proof -
  let ?f = "\<lambda>b. b\<lparr>bs_current_controller := None, bs_control_epoch := bs_control_epoch session + 1\<rparr>"
  obtain db1 db2 inputs where steps:
    "store_leases (revoke_rows (bs_id session) ''released by controller'' (es_now db) (bd_leases db)) db = Inr db1"
    "store_sessions (update_where (\<lambda>b. bs_id b = bs_id session) ?f (bd_sessions db1)) db1 = Inr db2"
    "appendEvents inputs db2 = Inr db'"
    using assms(2) by (auto simp: release_work_def Let_def r_bind_eq_Inr simp del: appendEvents.simps)
  have ok1: "session_ok db1" and grow1: "grows db db1"
    using lease_step [OF assms(1) steps(1) [unfolded revoke_rows_def]] by simp_all
  note fields = appendEvents_fields [OF steps(3)]
  have db2: "db2 = db1\<lparr>bd_sessions := update_where (\<lambda>b. bs_id b = bs_id session) ?f (bd_sessions db1)\<rparr>"
    "tables_ok db2" using steps(2) tables_okD [OF ok1] by (auto simp: result_simps tables_ok_def)
  have grow: "grows db1 db'" by (simp add: grows_same fields db2)
  have "session_ok db'"
  proof (rule session_okI [OF ok1 grow])
    show "tables_ok db'" using db2(2) by (simp add: fields)
    show "log_ok db'" using ok1 log_kept [OF steps(3)] by (simp add: session_ok_def db2(1))
    show "bd_calls db' = bd_calls db1" by (simp add: fields db2(1))
    fix b assume "b \<in> set (bd_sessions db')" "b \<notin> set (bd_sessions db1)"
    then obtain a where "a \<in> set (bd_sessions db1)" "b = ?f a"
      by (auto simp: fields db2(1) elim: consistent_update)
    then show "session_consistent db' b"
      using terminal_ended [OF ok1] by (simp add: session_consistent_def)
  qed
  then show ?thesis using grows_trans [OF grow1 grow] by blast
qed

text \<open>The transactions that change rows without moving control, through \<open>update_step\<close>.\<close>

lemma status_step:
  assumes "session_ok db" "setStatus_work session status actor eventType payload db = Inr (u, db')"
  shows "session_ok db' \<and> grows db db'"
proof -
  obtain db1 inputs where steps:
    "store_sessions (update_where (\<lambda>b. bs_id b = bs_id session) (with_status status (es_now db)) (bd_sessions db)) db = Inr db1"
    "appendEvents inputs db1 = Inr db'"
    using assms(2) by (auto simp: setStatus_work_def r_bind_eq_Inr simp del: appendEvents.simps)
  show ?thesis
    using update_step [OF assms(1) steps] by (simp add: with_status_def)
qed

lemma claim_step:
  assumes "session_ok db" "claim_work session actor route db = Inr (won, db')"
  shows "session_ok db' \<and> grows db db'"
proof (cases won)
  case True
  let ?p = "\<lambda>b. bs_id b = bs_id session \<and> bs_status b = REQUESTED"
  obtain db1 inputs where steps:
    "store_sessions (update_where ?p (\<lambda>b. b\<lparr>bs_status := ALLOCATING\<rparr>) (bd_sessions db)) db = Inr db1"
    "appendEvents inputs db1 = Inr db'"
    using assms(2) True
    by (auto simp: claim_work_def Let_def r_bind_eq_Inr simp del: appendEvents.simps split: if_splits)
  show ?thesis using update_step [OF assms(1) steps] by (simp add: terminal_def)
next
  case False
  then have "db' = db"
    using assms(2) by (auto simp: claim_work_def Let_def r_bind_eq_Inr simp del: appendEvents.simps split: if_splits)
  then show ?thesis using assms(1) by simp
qed

lemma request_step:
  assumes "session_ok db" "request_work session r actor requestId db = Inr (u, db')"
  shows "session_ok db' \<and> grows db db'"
proof -
  let ?p = "\<lambda>b. bs_id b = bs_id session \<and> bs_status b = REQUESTED"
  obtain db1 inputs where steps:
    "store_sessions (update_where ?p (\<lambda>b. b\<lparr>bs_requested_published_service_id := Some r,
       bs_allocation_requested_at := Some (js_now db)\<rparr>) (bd_sessions db)) db = Inr db1"
    "appendEvents inputs db1 = Inr db'"
    using assms(2)
    by (auto simp: request_work_def Let_def r_bind_eq_Inr r_then_eq_Inr simp del: appendEvents.simps)
  show ?thesis using update_step [OF assms(1) steps] by simp
qed

lemma executed_step:
  assumes "session_ok db" "executed_work session input command sequence result db = Inr (u, db')"
  shows "session_ok db' \<and> grows db db'"
proof (cases "cr_ok result \<and> bs_status session = READY")
  case True
  obtain db1 where steps:
    "store_sessions (update_where (\<lambda>b. bs_id b = bs_id session) (\<lambda>b. b\<lparr>bs_status := ACTIVE\<rparr>) (bd_sessions db)) db = Inr db1"
    "appendEvents (executed_events session input command sequence result) db1 = Inr db'"
    using assms(2) True by (auto simp: executed_work_def r_bind_eq_Inr)
  show ?thesis using update_step [OF assms(1) steps] by (simp add: terminal_def)
next
  case False
  then have step: "appendEvents (executed_events session input command sequence result) db = Inr db'"
    using assms(2) by (auto simp: executed_work_def r_bind_eq_Inr)
  note fields = appendEvents_fields [OF step]
  have "session_ok db'"
    using untouched_step [OF assms(1)] fields log_kept [OF step] assms(1) by (simp add: session_ok_def)
  then show ?thesis by (simp add: grows_same fields)
qed

text \<open>
  A command: what the matrix has checked against the session's row at the read, the lease table
  still shows when the command leaves, because leases are never forgotten.
\<close>

lemma current_controller_granted:
  "session_ok db \<Longrightarrow> session_by_id sid db = Some b \<Longrightarrow> bs_current_controller b = Some c \<Longrightarrow>
     granted db sid (bs_control_epoch b) c"
  unfolding session_by_id_def
  by (drule find_Some_in) (auto simp: session_ok_def list_all_iff session_consistent_def)

lemma get_session_Inr [result_simps]: "get_session sid db = Inr b \<longleftrightarrow> session_by_id sid db = Some b"
  by (simp add: get_session_def split: option.split)

lemma session_by_id_id: "session_by_id sid db = Some b \<Longrightarrow> bs_id b = sid"
  by (auto simp: session_by_id_def find_Some_iff)

lemma authorised_call_granted:
  assumes "session_ok db" "session_by_id sid db = Some b"
    and "authoriseBrowserCommand (command_context_of b input checked) command = None"
  shows "call_granted db (Call_command wid (bs_id b) (ci_controller input) (ci_controlEpoch input) n command)"
  using authorised_facts(2,5) [OF assms(3)] current_controller_granted [OF assms(1,2)]
    session_by_id_id [OF assms(2)]
  by (auto simp: command_context_of_def)

lemma call_step:
  assumes "session_ok db" "call_granted db c"
  shows "session_ok (call_peer c db) \<and> grows db (call_peer c db)"
proof -
  have grow: "grows db (call_peer c db)" by (simp add: call_peer_def grows_same)
  have "session_consistent (call_peer c db) b \<longleftrightarrow> session_consistent db b" for b
    by (simp add: session_consistent_def granted_def call_peer_def split: option.splits)
  moreover have "call_granted (call_peer c db) x \<longleftrightarrow> call_granted db x" for x
    by (cases x) (simp_all add: granted_def call_peer_def)
  moreover have "tables_ok (call_peer c db) \<longleftrightarrow> tables_ok db" by (simp add: tables_ok_def call_peer_def)
  moreover have "log_ok (call_peer c db) \<longleftrightarrow> log_ok db" by (simp add: call_peer_def)
  ultimately have "session_ok (call_peer c db)"
    using assms by (auto simp: session_ok_def call_peer_def list_all_iff)
  then show ?thesis using grow by blast
qed

lemma txn_keeps: "txn allowed db db' \<Longrightarrow> session_ok db \<Longrightarrow> session_ok db' \<and> grows db db'"
proof (induction rule: txn.induct)
  case (row_updated f sid db db')
  have "plain_update f" by fact
  then show ?case
    using update_step [of db _ f db' "[]" db'] row_updated by (auto simp: plain_update_def)
next
  case (leases_revoked f p db db')
  then show ?case using lease_step by blast
next
  case (logged inputs db db')
  note fields = appendEvents_fields [OF logged(1)]
  have "session_ok db'"
    using untouched_step [OF logged(2)] fields log_kept [OF logged(1)] logged(2) by (simp add: session_ok_def)
  then show ?case by (simp add: grows_same fields)
next
  case (called c db)
  then show ?case using call_step by (cases c) simp_all
next
  case (commanded seen db sid b input checked command wid n)
  show ?case
    by (rule call_step [OF commanded(5)])
      (rule call_granted_grows [OF commanded(2)], rule authorised_call_granted [OF commanded(1,3,4)])
next
  case (drawn db)
  then show ?case using untouched_step [OF drawn] by (simp add: session_ok_def grows_same)
next
  case (workers_changed db workers)
  then show ?case using untouched_step [OF workers_changed] by (simp add: session_ok_def grows_same)
next
  case (assignments_changed db assignments)
  then show ?case using untouched_step [OF assignments_changed] by (simp add: session_ok_def grows_same)
next
  case (environment db now projects organisations routes)
  then show ?case using untouched_step [OF environment] by (simp add: session_ok_def grows_same)
next
  case (created input worker sid db b db')
  show ?case by (rule create_step [OF created(2,1)])
next
  case (claimed session actor route db won db')
  show ?case by (rule claim_step [OF claimed(2,1)])
next
  case (requested session r actor requestId db u db')
  show ?case by (rule request_step [OF requested(2,1)])
next
  case (status_set status session actor eventType payload db u db')
  show ?case by (rule status_step [OF status_set(3,2)])
next
  case (executed session input command sequence result db u db')
  show ?case by (rule executed_step [OF executed(2,1)])
next
  case (control_granted session controller reason actor db u db')
  show ?case by (rule grant_control_step [OF control_granted(2,1)])
next
  case (control_released session controller actor db u db')
  show ?case by (rule release_step [OF control_released(2,1)])
qed

lemma txns_keep: "txns allowed db db' \<Longrightarrow> session_ok db \<Longrightarrow> session_ok db' \<and> grows db db'"
  by (induction rule: rtranclp_induct) (auto dest: txn_keeps intro: grows_trans)

text \<open>A command may leave on a session read and a check made at any older point of a history.\<close>

lemma stale_command:
  assumes "session_ok seen" "txns allowed seen db" "session_by_id sid seen = Some b"
    and "authoriseBrowserCommand (command_context_of b input checked) command = None"
  shows "txn allowed db (call_peer (Call_command wid (bs_id b) (ci_controller input) (ci_controlEpoch input) n command) db)"
  by (rule txn.commanded [OF assms(1) _ assms(3,4)]) (simp add: txns_keep [OF assms(2,1)])

section \<open>Every operation is a sequence of steps\<close>

definition runs_to :: "browser_db \<Rightarrow> browser_db \<Rightarrow> bool" where
  "runs_to db db' \<longleftrightarrow> (session_ok db \<longrightarrow> txns any_status db db')"

interpretation runs: kept_relation runs_to
proof
  fix s t u
  show "runs_to s s" by (simp add: runs_to_def)
  assume "runs_to s t" "runs_to t u"
  then show "runs_to s u"
    unfolding runs_to_def using txns_keep by (meson rtranclp_trans)
qed

abbreviation runs :: "'a session_act \<Rightarrow> bool" where
  "runs m \<equiv> keeps runs_to m"

lemma runs_step: "txn any_status db db' \<Longrightarrow> runs_to db db'"
  by (simp add: runs_to_def r_into_rtranclp)

lemma runsI: "(\<And>db. runs_to db (snd (m db))) \<Longrightarrow> runs m"
  by (simp add: keeps_def)

lemma runs_transaction:
  assumes "\<And>db a db'. work db = Inr (a, db') \<Longrightarrow> txn any_status db db'"
  shows "runs (transaction work)"
proof (rule runsI)
  fix db
  show "runs_to db (snd (transaction work db))"
    using assms runs.reflexive
    by (cases "work db") (auto simp: transaction_def inTransaction_def intro: runs_step split: prod.splits)
qed

lemma runs_statement:
  assumes "\<And>db db'. f db = Inr db' \<Longrightarrow> txn any_status db db'"
  shows "runs (statement f)"
proof (rule runsI)
  fix db
  show "runs_to db (snd (statement f db))"
    using assms runs.reflexive by (cases "f db") (auto simp: statement_def intro: runs_step)
qed

lemma runs_call: "\<not> is_command c \<Longrightarrow> runs_to db (call_peer c db)"
  by (rule runs_step) (rule txn.called)

named_theorems runs_intros \<open>operations as sequences of steps\<close>

lemmas runs_combinators [runs_intros] = runs.keeps_bind runs.keeps_try runs.keeps_basic

lemma runs_appending [runs_intros]: "runs (appending inputs)"
  unfolding appending_def
  by (rule runs_transaction) (auto simp: r_bind_eq_Inr intro: txn.logged)

lemma runs_setStatus [runs_intros]: "runs (setStatus session status actor eventType payload)"
  unfolding setStatus_def by (rule runs_transaction) (blast intro: txn.status_set)

lemma runs_revokeLeases [runs_intros]: "runs (revokeLeases sid reason)"
  unfolding revokeLeases_def revoke_rows_def
  by (rule runs_statement) (rule txn.leases_revoked, simp_all)

lemma runs_withdraw [runs_intros]: "runs (withdrawCapabilities revoker sid)"
  unfolding withdrawCapabilities_def
  by (rule runs.keeps_write) (simp add: runs_call runs.reflexive)

lemma runs_update_session: "plain_update f \<Longrightarrow> runs (update_session sid f)"
  unfolding update_session_def by (rule runs_statement) (blast intro: txn.row_updated)

lemma runs_recordRejection [runs_intros]: "runs (recordRejection session input command denial)"
  using runs_appending
  by (auto simp: keeps_def recordRejection_def runs.reflexive split: option.splits)

lemma runs_recordLifecycleRejection [runs_intros]: "runs (recordLifecycleRejection session act input denial extra)"
  using runs_appending
  by (auto simp: keeps_def recordLifecycleRejection_def runs.reflexive split: option.splits)

lemma runs_refusals [runs_intros]:
  "runs (refuseLifecycle session act input denial)" "runs (refuseForeign session act input)"
  unfolding refuseLifecycle_def refuseForeign_def by (intro runs_intros)+

lemma runs_records:
  "runs (recordUnresolvedLifecycleRejection org project act actor ctype reasonCode reason)"
  "runs (recordCapabilityDenial org project actor tool capability)"
  unfolding recordUnresolvedLifecycleRejection_def recordCapabilityDenial_def by (rule runs_appending)+

text \<open>Allocation.\<close>

lemma runs_drawn: "runs_to (db\<lparr>es_drawn := es_drawn db + 1\<rparr>) db' \<Longrightarrow> runs_to db db'"
  using runs.transitive [OF runs_step [OF txn.drawn]] .

lemma runs_create [runs_intros]: "runs (create config input)"
  unfolding create_def
proof (rule runs.keeps_bind, rule runs.keeps_basic, rule runsI)
  fix worker db
  have "runs (transaction (create_work input worker sid))" for sid
    by (rule runs_transaction) (blast intro: txn.created)
  then show "runs_to db (snd (let (sid, db1) = newId ''brs_'' db in transaction (create_work input worker sid) db1))"
    by (simp add: newId_def keeps_def runs_drawn)
qed

lemma runs_recordAllocationRejection [runs_intros]: "runs (recordAllocationRejection pr session actor error route)"
  unfolding recordAllocationRejection_def Let_def by (rule runs_intros)

lemma runs_failReservation [runs_intros]: "runs (failReservation pr session actor code trigger route details)"
  unfolding failReservation_def by (intro runs_intros)

lemma runs_claim [runs_intros]: "runs (claimForAllocation session actor route)"
  unfolding claimForAllocation_def by (rule runs_transaction) (blast intro: txn.claimed)

lemma runs_bind_route [runs_intros]: "runs (bind_route pr session actor route)"
proof -
  have "runs (update_session sid (bound binding))" for sid binding
    by (rule runs_update_session) (simp add: plain_update_def bound_def)
  then show ?thesis
    unfolding bind_route_def by (cases route) (auto intro!: runs_intros)
qed

lemma runs_worker_allocate [runs_intros]: "runs (worker_allocate pr session wid actor binding)"
proof -
  have "runs (update_session sid (\<lambda>b. b\<lparr>bs_browser_version := v, bs_viewport := p\<rparr>))" for sid v p
    by (rule runs_update_session) (simp add: plain_update_def)
  moreover have "runs (act_write (call_peer (Call_allocate wid sid request)))" for sid request
    by (rule runs.keeps_write) (simp add: runs_call)
  ultimately show ?thesis unfolding worker_allocate_def by (intro runs_intros)
qed

lemma runs_worker_refused [runs_intros]: "runs (worker_refused pr session actor error)"
  unfolding worker_refused_def by (intro runs_intros)

lemma runs_allocate [runs_intros]: "runs (allocate pr sid scope route actor)"
  unfolding allocate_def
  by (rule runs.keeps_bind, rule runs.keeps_basic) (auto intro!: runs_intros split: option.split)

lemma runs_start_session: "runs (start_session pr input)"
  unfolding start_session_def by (intro runs_intros)

lemma runs_requestAllocation: "runs (requestAllocation pr sid scope r actor requestId)"
proof -
  have "runs (transaction (request_work session r actor requestId))" for session
    by (rule runs_transaction) (blast intro: txn.requested)
  then show ?thesis
    unfolding requestAllocation_def
    by (auto intro!: runs_intros split: option.split)
qed

lemma runs_complete_each: "runs (complete_each pr sessions)"
proof (induction sessions)
  case Nil
  show ?case by (rule runsI) (simp add: runs.reflexive)
next
  case (Cons b rest)
  show ?case
  proof (rule runsI)
    fix db
    show "runs_to db (snd (complete_each pr (b # rest) db))"
    proof (cases "bs_requested_published_service_id b")
      case None
      then show ?thesis using Cons by (simp add: keeps_def)
    next
      case (Some route)
      obtain outcome db1 where run: "allocate pr (bs_id b) DEPLOYMENT_SCOPE (Some route)
          (system_actor ''browser session allocator'') db = (outcome, db1)" by (rule prod.exhaust)
      have "runs_to db db1"
        using runs_allocate [of pr "bs_id b" DEPLOYMENT_SCOPE "Some route"
            "system_actor ''browser session allocator''"] run by (metis keeps_def snd_conv)
      moreover have "runs (act_bind (complete_each pr rest) (\<lambda>fs. act_return (f # fs)))" for f
        by (intro runs_intros Cons)
      ultimately show ?thesis
        using Some run by (auto simp: keeps_def Let_def intro: runs.transitive)
    qed
  qed
qed

lemma runs_fail_each: "runs (fail_each pr sessions)"
proof (induction sessions)
  case Nil
  show ?case by (rule runsI) (simp add: runs.reflexive)
next
  case (Cons b rest)
  have call: "runs (act_write (\<lambda>db. case bs_worker_id b of
         Some wid \<Rightarrow> if bs_status b = ALLOCATING then call_peer (Call_terminate wid (bs_id b) Failure) db else db
       | None \<Rightarrow> db))"
    by (rule runs.keeps_write) (auto simp: runs_call runs.reflexive split: option.split)
  have "runs (\<lambda>db. fail_each pr (b # rest) db)"
    unfolding fail_each.simps by (intro runs_intros call Cons)
  then show ?case .
qed

lemma runs_sweeps_of_allocations:
  "runs (completePendingAllocations pr olderThanMs limit)"
  "runs (failOverdueAllocations pr deadlineMs limit only agent)"
  using runs_complete_each runs_fail_each
  by (simp_all add: keeps_def completePendingAllocations_def failOverdueAllocations_def)

lemma runs_send:
  assumes "session_ok db" "session_by_id sid' db = Some b" "authoriseBrowserCommand (command_context_of b input db) command = None"
    and "c = Call_command wid (bs_id b) (ci_controller input) (ci_controlEpoch input) n command"
  shows "runs_to db (snd (act_bind (update_session sid (\<lambda>b. b\<lparr>bs_last_sequence := n\<rparr>)) (\<lambda>_.
    act_bind (act_write (call_peer c)) (\<lambda>_. act_bind (act_read (\<lambda>db. answer)) (\<lambda>result.
    act_bind (transaction (executed_work session input command n result)) (\<lambda>_. act_return result)))) db))"
proof -
  have tail: "runs (act_bind (act_read (\<lambda>db. answer)) (\<lambda>result.
      act_bind (transaction (executed_work session input command n result)) (\<lambda>_. act_return result)))"
    by (intro runs_intros runs_transaction) (blast intro: txn.executed)
  obtain r db1 where upd: "update_session sid (\<lambda>b. b\<lparr>bs_last_sequence := n\<rparr>) db = (r, db1)" by (rule prod.exhaust)
  have first: "runs_to db db1"
    using runs_update_session [of "\<lambda>b. b\<lparr>bs_last_sequence := n\<rparr>" sid] upd
    by (auto simp: plain_update_def keeps_def dest: spec [of _ db])
  have "bd_leases db1 = bd_leases db"
    using upd by (auto simp: update_session_def statement_def result_simps split: sum.splits)
  then have "grows db db1" by (simp add: grows_same)
  then have "runs_to db1 (call_peer c db1)" unfolding assms(4) using assms(1-3) by (intro runs_step txn.commanded) auto
  with first have "runs_to db (call_peer c db1)" by (rule runs.transitive)
  with tail have "runs_to db (snd (act_bind (act_read (\<lambda>db. answer)) (\<lambda>result.
      act_bind (transaction (executed_work session input command n result)) (\<lambda>_. act_return result))
      (call_peer c db1)))"
    unfolding keeps_def by (blast intro: runs.transitive)
  with first upd show ?thesis
    by (cases r) (simp_all add: act_bind_def [of "update_session _ _"] act_bind_def [of "act_write _"] act_simps)
qed

lemma runs_runCommand: "runs (runCommand answer input command)"
proof (rule runsI)
  fix db
  show "runs_to db (snd (runCommand answer input command db))"
  proof (cases "session_ok db \<and> session_by_id (ci_browserSessionId input) db \<noteq> None")
    case True
    then obtain b where b: "session_ok db" "session_by_id (ci_browserSessionId input) db = Some b" by auto
    have rejecting: "runs (act_bind (recordRejection b input command d) (\<lambda>_. act_throw e :: command_result session_act))" for d e
      by (intro runs_intros)
    show ?thesis
      using runs_send [OF b _ refl] rejecting b(2)
      by (auto simp: runCommand_def act_bind_def [of "act_read _"] act_simps get_session_def keeps_def Let_def
          split: option.splits)
  next
    case False
    then show ?thesis
      by (auto simp: runs_to_def runCommand_def act_bind_def act_simps get_session_def split: option.splits)
  qed
qed

text \<open>Lifecycle, control, reports and reconciliation.\<close>

lemma runs_requireControl [runs_intros]: "runs (requireControl act input from)"
  unfolding requireControl_def by (rule runs.keeps_bind, rule runs.keeps_basic) (auto intro!: runs_intros)

lemma runs_pause_resume: "runs (pause input)" "runs (resume input)"
  unfolding pause_def resume_def by (intro runs_intros)+

lemma runs_terminate [runs_intros]: "runs (terminate_session revoker sid reason actor)"
proof -
  have "runs (act_write (\<lambda>db. case w of None \<Rightarrow> db | Some wid \<Rightarrow> call_peer (Call_terminate wid i reason) db))" for w i
    by (rule runs.keeps_write) (auto simp: runs_call runs.reflexive split: option.split)
  then show ?thesis
    unfolding terminate_session_def
    by (auto intro!: runs_intros)
qed

lemma runs_end: "runs (end_session revoker input reason)"
  unfolding end_session_def by (rule runs.keeps_bind, rule runs.keeps_basic) (auto intro!: runs_intros)

lemma runs_report [runs_intros]: "runs (applyWorkerReport revoker sid status reason actor)"
  unfolding applyWorkerReport_def by (rule runs.keeps_bind, rule runs.keeps_basic) (auto intro!: runs_intros)

lemma runs_status_route: "runs (status_route digest expected revoker credential sid status reason)"
  unfolding status_route_def by (intro runs_intros) (auto intro!: runs_intros)

lemma runs_requestControl: "runs (requestControl sid project controller reason actor)"
proof -
  have "runs (transaction (grant_work session controller reason actor))" for session
    by (rule runs_transaction) (blast intro: txn.control_granted)
  then show ?thesis
    unfolding requestControl_def Let_def
    by (intro runs.keeps_bind runs.keeps_basic) (auto intro!: runs_intros)
qed

lemma runs_releaseControl: "runs (releaseControl input)"
proof -
  have "runs (transaction (release_work session current actor))" for session current actor
    by (rule runs_transaction) (blast intro: txn.control_released)
  then show ?thesis
    unfolding releaseControl_def
    by (intro runs.keeps_bind runs.keeps_basic) (auto intro!: runs_intros split: option.split)
qed

lemma runs_markReconciled [runs_intros]: "runs (markReconciled sid status reason)"
  unfolding markReconciled_def by (rule runs.keeps_bind, rule runs.keeps_basic) (auto intro!: runs_intros)

text \<open>The registry of workers writes its own tables and the log.\<close>

lemma store_workers_Inr: "store_workers rows db = Inr db' \<Longrightarrow> db' = db\<lparr>bd_workers := rows\<rparr>"
  by (auto simp: store_workers_def result_simps)

lemma runs_to_logged_workers:
  assumes "store_workers rows db = Inr db1" "appendEvents inputs db1 = Inr db'"
  shows "runs_to db db'"
proof -
  have "txn any_status db db1" using store_workers_Inr [OF assms(1)] by (simp add: txn.workers_changed)
  moreover have "txn any_status db1 db'" using assms(2) by (rule txn.logged)
  ultimately show ?thesis by (rule runs.transitive [OF runs_step runs_step])
qed

lemma runs_transaction':
  assumes "\<And>db a db'. work db = Inr (a, db') \<Longrightarrow> runs_to db db'"
  shows "runs (transaction work)"
proof (rule runsI)
  fix db
  show "runs_to db (snd (transaction work db))"
    using assms runs.reflexive
    by (cases "work db") (auto simp: transaction_def inTransaction_def split: prod.splits)
qed

lemma runs_worker_transition [runs_intros]: "runs (worker_transition wid from to payload)"
  unfolding worker_transition_def
proof (rule runs_transaction')
  fix db a db'
  assume "transition_work wid from to payload db = Inr (a, db')"
  then show "runs_to db db'"
    using runs.reflexive runs_to_logged_workers
    by (fastforce simp: transition_work_def r_bind_eq_Inr split: option.splits if_splits simp del: appendEvents.simps)
qed

lemma runs_recordHeartbeat [runs_intros]: "runs (recordHeartbeat config wid n)"
  unfolding recordHeartbeat_def
  by (intro runs_intros runs_transaction')
    (auto simp: r_bind_eq_Inr intro: runs_to_logged_workers simp del: appendEvents.simps)

lemma runs_heartbeat_route: "runs (heartbeat_route digest expected config credential n)"
  unfolding heartbeat_route_def by (intro runs_intros)

lemma runs_register: "runs (register digest expected config credential reg)"
  unfolding register_def
proof (rule runs.keeps_bind, rule runs.keeps_basic, rule runsI)
  fix previous db
  have "runs (transaction (register_work digest credential reg previous wid))" for wid
    unfolding register_work_def
    by (rule runs_transaction')
      (auto simp: r_bind_eq_Inr intro: runs_to_logged_workers simp del: appendEvents.simps)
  then have "runs (act_bind (transaction (register_work digest credential reg previous wid)) (\<lambda>_.
      act_read (\<lambda>db. Inr (wid, assignedProjects wid db, k))))" for wid and k :: nat
    by (intro runs_intros)
  then show "runs_to db (snd (let (wid, db1) = (case previous of Some w \<Rightarrow> (wk_id w, db) | None \<Rightarrow> newId ''wkr_'' db)
      in act_bind (transaction (register_work digest credential reg previous wid)) (\<lambda>_.
        act_read (\<lambda>db. Inr (wid, assignedProjects wid db, wc_heartbeatIntervalSeconds config))) db1))"
    by (cases previous) (simp_all add: keeps_def newId_def runs_drawn)
qed

lemma runs_insert_assignments [runs_intros]: "runs (insert_assignments wid projects)"
proof (rule runsI)
  fix db
  show "runs_to db (snd (insert_assignments wid projects db))"
  proof (induction projects arbitrary: db)
    case (Cons p ps)
    have "runs_to db (db\<lparr>bd_worker_projects := bd_worker_projects db @ [(wid, p)]\<rparr>)"
      by (intro runs_step txn.assignments_changed)
    then show ?case using Cons runs.reflexive by (auto intro: runs.transitive)
  qed (simp add: runs.reflexive)
qed

lemma runs_assign: "runs (assign wid projects)"
  unfolding assign_def
  by (intro runs_intros runs.keeps_write runs_step) (rule txn.assignments_changed)

text \<open>The sweep.\<close>

lemma runs_to_attempt: "runs m \<Longrightarrow> runs_to db (attempt m db)"
  by (simp add: keeps_def attempt_def)

lemma runs_to_fold:
  assumes "\<And>b n db. runs_to db (snd (f b (n, db)))"
  shows "runs_to db (snd (fold f bs (n, db)))"
proof (induction bs arbitrary: n db)
  case (Cons b bs)
  then show ?case
    using assms [of db b n] by (cases "f b (n, db)") (auto intro: runs.transitive)
qed (simp add: runs.reflexive)

lemma runs_to_fail_gone: "runs_to db (snd (fail_gone schedulable sessions db))"
  unfolding fail_gone_def
  by (rule runs_to_fold) (auto simp: runs.reflexive intro: runs_to_attempt runs_markReconciled)

lemma runs_to_degrade_all: "runs_to db (snd (degrade_all reason skip sessions db))"
  unfolding degrade_all_def
  by (rule runs_to_fold) (auto simp: runs.reflexive intro: runs_to_attempt runs_markReconciled)

lemma runs_recordOrphan [runs_intros]: "runs (recordOrphan wid context)"
  using runs_appending by (auto simp: keeps_def recordOrphan_def runs.reflexive split: option.splits)

lemma runs_drop_orphans [runs_intros]: "runs (drop_orphans wid expected contexts)"
proof (induction contexts)
  case Nil
  show ?case by (rule runsI) (simp add: runs.reflexive)
next
  case (Cons c cs)
  have "runs (act_bind (recordOrphan wid c) (\<lambda>_. act_bind (drop_orphans wid expected cs) (\<lambda>n. act_return (n + 1))))"
    by (intro runs_intros Cons)
  moreover have "runs_to db (call_peer (Call_terminate wid (wx_browser_session_id c) Failure) db)" for db
    by (simp add: runs_call)
  ultimately show ?case
    using Cons by (auto simp: keeps_def intro: runs.transitive)
qed

lemma runs_reconcile_worker [runs_intros]: "runs (reconcile_worker contexts sessions wid isLive)"
proof (rule runsI)
  fix db
  have degrade: "runs (\<lambda>db1. let (n, db2) = degrade_all reason skip owned db1
      in (Inr \<lparr>rc_orphans = k, rc_degraded = n, rc_failed = 0\<rparr>, db2))" for reason skip owned k
    using runs_to_degrade_all by (auto simp: keeps_def split_beta)
  have "runs (act_bind (drop_orphans wid expected cs) (\<lambda>orphans db1.
      let (n, db2) = degrade_all reason skip owned db1
      in (Inr \<lparr>rc_orphans = orphans, rc_degraded = n, rc_failed = 0\<rparr>, db2)))" for expected cs reason skip owned
    by (intro runs_intros degrade)
  then show "runs_to db (snd (reconcile_worker contexts sessions wid isLive db))"
    using degrade runs.reflexive
    by (auto simp: reconcile_worker_def keeps_def Let_def split: option.split)
qed

lemma runs_reconcile_workers [runs_intros]: "runs (reconcile_workers contexts sessions rows)"
proof (induction rows)
  case Nil
  show ?case by (rule runsI) (simp add: runs.reflexive)
next
  case (Cons row rows)
  obtain w isLive where row: "row = (w, isLive)" by (rule prod.exhaust)
  have "runs (\<lambda>db. reconcile_workers contexts sessions ((w, isLive) # rows) db)"
    unfolding reconcile_workers.simps by (intro runs_intros Cons)
  then show ?case by (simp add: row)
qed

lemma runs_reconcileSessions [runs_intros]: "runs (reconcileSessions config contexts)"
proof (rule runsI)
  fix db
  have tail: "runs (act_bind (reconcile_workers contexts sessions rows)
      (\<lambda>rc :: reconciliation. act_return (rc\<lparr>rc_failed := n\<rparr>)))" for sessions rows n
    by (intro runs_intros)
  show "runs_to db (snd (reconcileSessions config contexts db))"
    unfolding reconcileSessions_def Let_def split_beta
    by (rule runs.transitive [OF runs_to_fail_gone]) (rule tail [unfolded keeps_def, rule_format])
qed

lemma runs_move_workers [runs_intros]: "runs (move_workers from to payload ws)"
proof (induction ws)
  case Nil
  show ?case by (rule runsI) (simp add: runs.reflexive)
next
  case (Cons w ws)
  have "runs (\<lambda>db. move_workers from to payload (w # ws) db)"
    unfolding move_workers.simps by (intro runs_intros Cons)
  then show ?case .
qed

lemma runs_expireStaleLeases [runs_intros]: "runs expireStaleLeases"
proof -
  have "runs (statement (\<lambda>db. store_leases (update_where (stale_lease (es_now db))
      (\<lambda>l. l\<lparr>cl_revoked_at := Some (es_now db), cl_reason := Some ''lease expired''\<rparr>) (bd_leases db)) db))"
    by (rule runs_statement) (rule txn.leases_revoked, simp_all)
  then have "runs (act_bind (statement (\<lambda>db. store_leases (update_where (stale_lease (es_now db))
      (\<lambda>l. l\<lparr>cl_revoked_at := Some (es_now db), cl_reason := Some ''lease expired''\<rparr>) (bd_leases db)) db))
      (\<lambda>_. act_return n))" for n :: nat
    by (intro runs_intros)
  then show ?thesis by (simp add: keeps_def expireStaleLeases_def Let_def)
qed

lemma runs_sweep: "runs (sweepBrowserWorkers config contexts)"
  unfolding sweepBrowserWorkers_def by (intro runs_intros)

end
