(* ===== verification/Session_Samples.thy ===== *)
theory Session_Samples
  imports Session_Monitor
begin

text \<open>
  A small deployment on which the witnesses run: one organisation, one project, one live worker,
  one published route, and the peers' answers.
\<close>

definition sample_worker :: "worker_status \<Rightarrow> worker_row" where
  "sample_worker status =
     \<lparr>wk_id = ''wkr_1'', wk_name = ''worker'', wk_credential_sha256 = ''credential'', wk_worker_version = ''1'',
      wk_browser_type = ''chromium'', wk_browser_version = ''130'', wk_capacity = 4, wk_labels = JArray [],
      wk_sandbox_enabled = True, wk_status = status, wk_registered_at = 1000000,
      wk_last_heartbeat_at = Some 1000000000, wk_active_sessions = 0, wk_degraded_at = None, wk_lost_at = None\<rparr>"

definition deployment :: browser_db where
  "deployment =
     \<lparr>es_now = 1001000000, es_random = (\<lambda>n. replicate 15 0 @ [of_nat n]), es_drawn = 0,
      es_streams = Map.empty, es_events = [], es_outbox = [],
      bd_sessions = [], bd_leases = [], bd_workers = [sample_worker Worker_active],
      bd_worker_projects = [(''wkr_1'', ''prj_1'')],
      bd_projects = [(''prj_1'', ''org_1''), (''prj_2'', ''org_1'')], bd_organisations = [''org_1''],
      bd_routes = [\<lparr>rt_id = ''svc_1'', rt_project_id = ''prj_1'', rt_status = ''ready'',
        rt_expires_at = 2000000000, rt_allowed_sessions = []\<rparr>],
      bd_calls = []\<rparr>"

definition first_agent :: controller_identity where
  "first_agent = \<lparr>ct_type = Agent_controller, ct_id = ''ags_1''\<rparr>"

definition second_agent :: controller_identity where
  "second_agent = \<lparr>ct_type = Agent_controller, ct_id = ''ags_2''\<rparr>"

definition third_agent :: controller_identity where
  "third_agent = \<lparr>ct_type = Agent_controller, ct_id = ''ags_3''\<rparr>"

definition session_actor :: event_actor where
  "session_actor = \<lparr>act_type = agent_session, act_id = Some ''ags_1'', act_display = None\<rparr>"

definition sample_peers :: "(store_failure + session_allocated) \<Rightarrow> peers" where
  "sample_peers answer =
     \<lparr>pr_config = DEFAULT_BROWSER_WORKER_CONFIG, pr_binder = None, pr_authoriser = None,
      pr_exists = (\<lambda>r. False), pr_revoker = True, pr_allocate = (\<lambda>w s. answer)\<rparr>"

definition sample_allocated :: session_allocated where
  "sample_allocated = \<lparr>al_status = READY, al_browser_type = ''chromium'', al_browser_version = ''130'',
     al_viewport = JObject []\<rparr>"

definition sample_start :: start_input where
  "sample_start =
     \<lparr>st_organisationId = ''org_1'', st_projectId = ''prj_1'', st_agentSessionId = Some ''ags_1'',
      st_publishedServiceId = None, st_viewport = JObject [], st_controller = first_agent,
      st_retentionClass = ''action_screenshots'',
      st_limits = \<lparr>pl_max_duration_seconds = None, pl_default_timeout_ms = None,
        pl_max_command_timeout_ms = None, pl_screenshot_max_bytes = None, pl_snapshot_max_nodes = None,
        pl_snapshot_max_bytes = None\<rparr>,
      st_actor = session_actor\<rparr>"

definition sample_sid :: string where
  "sample_sid = ''brs_'' @ randomSuffix (replicate 15 0 @ [0])"

definition act_as :: "controller_identity \<Rightarrow> nat \<Rightarrow> string \<Rightarrow> act_input" where
  "act_as controller epoch project =
     \<lparr>ci_browserSessionId = sample_sid, ci_projectId = project, ci_controller = controller,
      ci_controlEpoch = epoch, ci_actor = session_actor\<rparr>"

definition plain_command :: "command_name \<Rightarrow> browser_command" where
  "plain_command name = \<lparr>bc_command = name, bc_text = None, bc_purpose = None\<rparr>"

definition sample_result :: command_result where
  "sample_result = \<lparr>cr_ok = True, cr_error_code = None, cr_navigation = None, cr_screenshot = None, cr_trust = JNull\<rparr>"

text \<open>The deployment with one session, its controller and the leases it was granted.\<close>

definition sample_session :: "session_status \<Rightarrow> controller_identity option \<Rightarrow> nat \<Rightarrow> browser_session" where
  "sample_session status controller epoch =
     \<lparr>bs_id = sample_sid, bs_organisation_id = ''org_1'', bs_project_id = ''prj_1'',
      bs_worker_id = Some ''wkr_1'', bs_agent_session_id = Some ''ags_1'', bs_published_service_id = None,
      bs_requested_published_service_id = None, bs_allocation_requested_at = None, bs_service_origin = None,
      bs_browser_type = ''chromium'', bs_browser_version = Some ''130'', bs_status = status,
      bs_current_controller = controller, bs_control_epoch = epoch, bs_last_sequence = 3,
      bs_viewport = JObject [], bs_limits = DEFAULT_SESSION_LIMITS, bs_retention_policy = ''action_screenshots'',
      bs_created_at = 1000000000, bs_ended_at = (if terminal status then Some 1000500000 else None)\<rparr>"

definition sample_lease :: "controller_identity \<Rightarrow> nat \<Rightarrow> nat option \<Rightarrow> control_lease" where
  "sample_lease controller epoch revoked =
     \<lparr>cl_id = ''lse_'' @ nat_text epoch, cl_session = sample_sid, cl_controller = controller, cl_epoch = epoch,
      cl_issued_at = 1000000000, cl_expires_at = 1900000000, cl_revoked_at = revoked, cl_reason = None\<rparr>"

definition with_session :: "browser_session \<Rightarrow> control_lease list \<Rightarrow> browser_db" where
  "with_session b leases = deployment\<lparr>bd_sessions := [b], bd_leases := leases\<rparr>"

section \<open>Evaluation\<close>

definition session_members :: "string list" where
  "session_members =
     [''action'', ''allocation_requested_at'', ''artefact_id'', ''browser_session_id'', ''browser_type'',
      ''browser_version'', ''capacity'', ''command'', ''connector_status'', ''control_epoch'',
      ''controller_type'', ''cross_project'', ''current_epoch'', ''granted'', ''http_status'', ''interactive'',
      ''kind'', ''new_controller_type'', ''new_status'', ''presented_controller_type'', ''presented_epoch'',
      ''previous_controller_type'', ''previous_epoch'', ''previous_status'', ''published_service_id'',
      ''reason'', ''reason_code'', ''reported_by'', ''reported_control_epoch'', ''reported_status'',
      ''request_id'', ''requested_controller_type'', ''requested_published_service_id'', ''sandbox_enabled'',
      ''sequence'', ''session_status'', ''silent_for_seconds_at_least'', ''trigger'', ''trust'', ''url'',
      ''viewport'', ''worker_id'']"

lemma session_members_permitted: "list_all (\<lambda>k. \<not> key_refused k) session_members"
  by code_simp

lemmas session_members_ok = session_members_permitted [unfolded session_members_def, simplified]

lemmas log_eval =
  r_then_def refuse_if_def Let_def inTransaction_def newId_def input_stream_def stream_position_def
  appendEvent_def event_of_def enqueue_def assertPayloadCarriesNoSecret_def session_members_ok
  pruneUndefined_def project_event_def session_event_def json_num_def nullable_def opt_str_def

lemmas table_eval =
  act_bind_def act_try_def act_simps transaction_def statement_def call_peer_def store_sessions_def
  store_leases_def session_row_ok_def interactive_lease_def update_where_def revoke_rows_def default_to_def
  session_by_id_def get_session_def getForScope_def in_scope_def update_session_def randomSuffix_inject

lemmas lifecycle_eval =
  setStatus_def setStatus_work_def with_status_def terminal_def worker_correlation_def override_def
  revokeLeases_def withdrawCapabilities_def projectStream_def rejection_stream_def session_facts_def
  appending_def recordRejection_def recordLifecycleRejection_def refuseLifecycle_def refuseForeign_def
  not_this_project_def not_active_def epoch_stale_def not_owned_def

lemmas allocation_eval =
  allocationFailureClassOf_def ALLOCATION_FAILURE_CLASSES_def LEASE_SECONDS_def create_def create_checks_def
  create_work_def running_on_def new_session_def new_lease_def active_worker_def workerLivePredicate_def
  last_seen_def SCHEDULABLE_WORKER_STATUSES_def assignedProjects_def merged_limits_def
  DEFAULT_SESSION_LIMITS_def recordAllocationRejection_def no_controller_def failReservation_def
  failure_details_def claimForAllocation_def claim_work_def bind_route_def bound_def
  allocation_request_def explainWorkerRefusal_def worker_allocate_def worker_refused_def only_reserved_def
  allocate_def start_session_def DEFAULT_BROWSER_WORKER_CONFIG_def

lemmas control_eval =
  runCommand_def routeAssociated_def command_context_of_def authoriseBrowserCommand_def policyDenial_def
  isInteractive_def isSystemCapture_def INTERACTIVE_COMMANDS_def SYSTEM_CAPTURE_COMMANDS_def
  reachesTheNetwork_def executed_work_def executed_events_def requireControl_def pause_def resume_def
  requestControl_def ended_def grant_work_def control_type_text_def releaseControl_def release_work_def
  terminate_session_def end_session_def applyWorkerReport_def status_route_def worker_principal_of_def

lemmas deployment_defs =
  deployment_def sample_worker_def first_agent_def second_agent_def third_agent_def session_actor_def
  sample_peers_def sample_allocated_def sample_start_def act_as_def plain_command_def
  sample_result_def sample_sid_def sample_session_def sample_lease_def with_session_def

end
