(* ===== verification/Session_Properties.thy ===== *)
theory Session_Properties
  imports Session_Steps Session_Samples
begin

text \<open>
  Properties of the browser-session service: who may drive a browser and under which epoch, what
  a refusal leaves behind, and what happens to a reservation that is not allocated.
\<close>

section \<open>Reachable databases\<close>

datatype session_command =
    Do_create worker_config start_input
  | Do_allocate peers string session_scope "string option" event_actor
  | Do_start peers start_input
  | Do_request_allocation peers string session_scope string event_actor string
  | Do_complete_pending peers "nat option" "nat option"
  | Do_fail_overdue peers "nat option" "nat option" "string option" "string option"
  | Do_run "store_failure + command_result" act_input browser_command
  | Do_pause act_input
  | Do_resume act_input
  | Do_end bool act_input termination_reason
  | Do_terminate bool string termination_reason event_actor
  | Do_report "string \<Rightarrow> string" string bool string string session_status "string option"
  | Do_request_control string string controller_identity "string option" event_actor
  | Do_release_control act_input
  | Do_sweep worker_config "string \<Rightarrow> worker_context list option"
  | Do_heartbeat "string \<Rightarrow> string" string worker_config string nat
  | Do_register "string \<Rightarrow> string" string worker_config string worker_registration
  | Do_assign string "string list"

fun perform_session :: "session_command \<Rightarrow> browser_db \<Rightarrow> browser_db" where
  "perform_session (Do_create config input) db = snd (create config input db)"
| "perform_session (Do_allocate pr sid scope route actor) db = snd (allocate pr sid scope route actor db)"
| "perform_session (Do_start pr input) db = snd (start_session pr input db)"
| "perform_session (Do_request_allocation pr sid scope r actor rq) db =
     snd (requestAllocation pr sid scope r actor rq db)"
| "perform_session (Do_complete_pending pr olderThanMs limit) db =
     snd (completePendingAllocations pr olderThanMs limit db)"
| "perform_session (Do_fail_overdue pr deadlineMs limit only agent) db =
     snd (failOverdueAllocations pr deadlineMs limit only agent db)"
| "perform_session (Do_run answer input command) db = snd (runCommand answer input command db)"
| "perform_session (Do_pause input) db = snd (pause input db)"
| "perform_session (Do_resume input) db = snd (resume input db)"
| "perform_session (Do_end revoker input reason) db = snd (end_session revoker input reason db)"
| "perform_session (Do_terminate revoker sid reason actor) db = snd (terminate_session revoker sid reason actor db)"
| "perform_session (Do_report digest expected revoker credential sid status reason) db =
     snd (status_route digest expected revoker credential sid status reason db)"
| "perform_session (Do_request_control sid project controller reason actor) db =
     snd (requestControl sid project controller reason actor db)"
| "perform_session (Do_release_control input) db = snd (releaseControl input db)"
| "perform_session (Do_sweep config contexts) db = snd (sweepBrowserWorkers config contexts db)"
| "perform_session (Do_heartbeat digest expected config credential n) db =
     snd (heartbeat_route digest expected config credential n db)"
| "perform_session (Do_register digest expected config credential reg) db =
     snd (register digest expected config credential reg db)"
| "perform_session (Do_assign wid projects) db = snd (assign wid projects db)"

lemma perform_session_runs: "runs_to db (perform_session command db)"
  using runs_create runs_allocate runs_start_session runs_requestAllocation runs_sweeps_of_allocations
    runs_runCommand runs_pause_resume runs_end runs_terminate runs_status_route runs_requestControl
    runs_releaseControl runs_sweep runs_heartbeat_route runs_register runs_assign
  by (cases command) (simp_all add: keeps_def)

definition no_sessions :: "browser_db \<Rightarrow> bool" where
  "no_sessions db \<longleftrightarrow> bd_sessions db = [] \<and> bd_leases db = [] \<and> bd_calls db = [] \<and>
     es_events db = [] \<and> es_streams db = Map.empty"

text \<open>
  A database the service can leave behind: by whole operations, and by single transactions of
  operations that interleave.
\<close>

inductive session_reachable :: "browser_db \<Rightarrow> bool" where
  start: "no_sessions db \<Longrightarrow> session_reachable db"
| operation: "session_reachable db \<Longrightarrow> session_reachable (perform_session command db)"
| interleaved: "session_reachable db \<Longrightarrow> txn any_status db db' \<Longrightarrow> session_reachable db'"

lemma no_sessions_ok: "no_sessions db \<Longrightarrow> session_ok db"
  by (simp add: no_sessions_def session_ok_def tables_ok_def log_ok_def stream_events_def stream_position_def)

lemma session_reachable_ok: "session_reachable db \<Longrightarrow> session_ok db"
proof (induction rule: session_reachable.induct)
  case (operation db command)
  then show ?case
    using perform_session_runs [of db command] txns_keep by (auto simp: runs_to_def)
qed (use no_sessions_ok txn_keeps in blast)+

lemma lease_unique:
  assumes "session_ok db" "granted db sid e c" "granted db sid e c'"
  shows "c = c'"
proof -
  obtain l l' where l: "l \<in> set (bd_leases db)" "l' \<in> set (bd_leases db)"
    "lease_key l = (sid, e, c)" "lease_key l' = (sid, e, c')"
    using assms(2,3) by (auto simp: granted_def)
  then have "(\<lambda>l. (cl_session l, cl_epoch l)) l = (\<lambda>l. (cl_session l, cl_epoch l)) l'"
    by (simp add: lease_key_def)
  then have "l = l'"
    using tables_okD(4) [OF assms(1)] l(1,2) by (metis (no_types, lifting) distinct_map inj_onD)
  then show ?thesis using l by simp
qed

section \<open>Control\<close>

text \<open>C4: Whatever operations run, in whatever interleaving of their transactions, two interactive
  commands that were ever sent to a worker for one session under one control epoch come from one
  controller, and that controller holds or held the lease of that epoch. The same is true of two
  reads of the session itself: one epoch never names two controllers.\<close>

theorem one_controller_per_epoch:
  assumes "session_reachable db"
  shows "(\<forall>w1 c1 n1 k1 w2 c2 n2 k2.
      Call_command w1 sid c1 e n1 k1 \<in> set (bd_calls db) \<and> isInteractive (bc_command k1) \<and>
      Call_command w2 sid c2 e n2 k2 \<in> set (bd_calls db) \<and> isInteractive (bc_command k2) \<longrightarrow>
      c1 = c2 \<and> list_ex (\<lambda>l. cl_session l = sid \<and> cl_epoch l = e \<and> cl_controller l = c1) (bd_leases db)) \<and>
    (\<forall>db' b b' c1 c2. txns any_status db db' \<and> session_by_id sid db = Some b \<and> session_by_id sid db' = Some b' \<and>
      bs_control_epoch b' = bs_control_epoch b \<and> bs_current_controller b = Some c1 \<and>
      bs_current_controller b' = Some c2 \<longrightarrow> c1 = c2)"
proof -
  have ok: "session_ok db" using assms by (rule session_reachable_ok)
  have sent: "granted db sid e c" if "Call_command w sid c e n k \<in> set (bd_calls db)" "isInteractive (bc_command k)"
    for w c n k
    using ok that by (auto simp: session_ok_def list_all_iff interactive_or_capture)
  have held: "list_ex (\<lambda>l. cl_session l = sid \<and> cl_epoch l = e \<and> cl_controller l = c) (bd_leases db)"
    if "granted db sid e c" for c
    using that by (auto simp: granted_def lease_key_def list_ex_iff)
  have later: "c1 = c2" if "txns any_status db db'" "session_by_id sid db = Some b" "session_by_id sid db' = Some b'"
    "bs_control_epoch b' = bs_control_epoch b" "bs_current_controller b = Some c1" "bs_current_controller b' = Some c2"
    for db' b b' c1 c2
  proof -
    have kept: "session_ok db'" "grows db db'" using txns_keep [OF that(1) ok] by auto
    have "granted db' sid (bs_control_epoch b) c1"
      using granted_grows [OF kept(2)] current_controller_granted [OF ok that(2,5)] .
    moreover have "granted db' sid (bs_control_epoch b) c2"
      using current_controller_granted [OF kept(1) that(3,6)] that(4) by simp
    ultimately show ?thesis by (rule lease_unique [OF kept(1)])
  qed
  show ?thesis
  proof (intro conjI allI impI; elim conjE)
    fix w1 c1 n1 k1 w2 c2 n2 k2
    assume "Call_command w1 sid c1 e n1 k1 \<in> set (bd_calls db)" "isInteractive (bc_command k1)"
      "Call_command w2 sid c2 e n2 k2 \<in> set (bd_calls db)" "isInteractive (bc_command k2)"
    then have "granted db sid e c1" "granted db sid e c2" using sent by blast+
    then show "c1 = c2" "list_ex (\<lambda>l. cl_session l = sid \<and> cl_epoch l = e \<and> cl_controller l = c1) (bd_leases db)"
      using lease_unique [OF ok] held by blast+
  qed (rule later)
qed

definition started :: browser_db where
  "started = perform_session (Do_start (sample_peers (Inr sample_allocated)) sample_start) deployment"

definition driven :: browser_db where
  "driven = perform_session (Do_run (Inr sample_result) (act_as first_agent 1 ''prj_1'') (plain_command Click)) started"

lemma driven_reachable: "session_reachable driven"
  unfolding driven_def started_def
  by (intro session_reachable.operation session_reachable.start) (simp add: no_sessions_def deployment_def)

lemma driven_calls:
  "Call_command ''wkr_1'' sample_sid first_agent 1 0 (plain_command Click) \<in> set (bd_calls driven)"
  by (simp add: driven_def started_def log_eval table_eval lifecycle_eval allocation_eval control_eval deployment_defs)

theorem one_controller_per_epoch_witness:
  "list_ex (\<lambda>l. cl_session l = sample_sid \<and> cl_epoch l = 1 \<and> cl_controller l = first_agent) (bd_leases driven)"
proof -
  have "isInteractive (bc_command (plain_command Click))" by code_simp
  then show ?thesis
    using one_controller_per_epoch [OF driven_reachable, of sample_sid 1] driven_calls by blast
qed

section \<open>The command path\<close>

lemma update_session_fields:
  assumes "update_session sid f db = (r, db1)"
  shows "bd_calls db1 = bd_calls db" "bd_leases db1 = bd_leases db" "es_events db1 = es_events db"
    "bd_projects db1 = bd_projects db"
  using assms by (auto simp: update_session_def statement_def result_simps split: sum.splits)

lemma transaction_fields:
  assumes "transaction (executed_work session input command n result) db = (r, db1)"
  shows "bd_calls db1 = bd_calls db"
  using assms
  by (auto simp: transaction_def inTransaction_def executed_work_def r_bind_eq_Inr result_simps
      dest!: appendEvents_fields(3) split: sum.splits if_splits)

lemma appending_cases:
  assumes "appending inputs db = (r, db1)"
  obtains "db1 = db" "\<And>u. r \<noteq> Inr u" | "r = ok" "db1 = fold appended inputs db"
  using assms
  by (cases "appendEvents inputs db")
    (auto simp: appending_def transaction_def inTransaction_def dest: appendEvents_Inr)

lemma appending_tables [simp]:
  "bd_calls (snd (appending inputs db)) = bd_calls db"
  "bd_sessions (snd (appending inputs db)) = bd_sessions db"
  "bd_leases (snd (appending inputs db)) = bd_leases db"
proof -
  obtain r db1 where run: "appending inputs db = (r, db1)" by (rule prod.exhaust)
  then show "bd_calls (snd (appending inputs db)) = bd_calls db"
    "bd_sessions (snd (appending inputs db)) = bd_sessions db"
    "bd_leases (snd (appending inputs db)) = bd_leases db"
    by (auto elim: appending_cases)
qed

lemma recordRejection_tables:
  "bd_calls (snd (recordRejection session input command denial db)) = bd_calls db"
  "bd_sessions (snd (recordRejection session input command denial db)) = bd_sessions db"
  "bd_leases (snd (recordRejection session input command denial db)) = bd_leases db"
  by (auto simp: recordRejection_def split: option.splits)

text \<open>C16: A command is sent to the worker only if it passed every check against the session as it
  stands: the caller's project, a session that is ready, active or, for a capture, paused, the
  current epoch, the controller that holds the session unless the system captures, no text that looks
  like a secret, and for a navigation a route that still authorises the session. Then exactly that
  command is sent, with the next sequence number; otherwise nothing is.\<close>

theorem command_sent_only_when_authorised:
  assumes "runCommand answer input command db = (r, db')"
  shows "bd_calls db' = bd_calls db \<or>
    (\<exists>b wid. session_by_id (ci_browserSessionId input) db = Some b \<and> bs_worker_id b = Some wid \<and>
       bd_calls db' = bd_calls db @ [Call_command wid (ci_browserSessionId input) (ci_controller input)
         (bs_control_epoch b) (bs_last_sequence b + 1) command] \<and>
       ci_projectId input = bs_project_id b \<and> ci_controlEpoch input = bs_control_epoch b \<and>
       (if isInteractive (bc_command command)
        then bs_status b \<in> {READY, ACTIVE} \<and> bs_current_controller b = Some (ci_controller input)
        else bs_status b \<in> {READY, ACTIVE, PAUSED} \<and>
          (bs_current_controller b = Some (ci_controller input) \<or>
           ct_type (ci_controller input) = System_controller)) \<and>
       (bc_command command = Type_text \<longrightarrow> bc_text command \<noteq> None \<longrightarrow>
          secretMaterialShape (the (bc_text command)) = None) \<and>
       (bc_command command = Navigate \<longrightarrow> routeAssociated b db \<noteq> Some False))"
proof (cases "session_by_id (ci_browserSessionId input) db")
  case None
  then show ?thesis
    using assms by (simp add: runCommand_def act_bind_def act_simps get_session_def)
next
  case (Some b)
  let ?sid = "ci_browserSessionId input"
  let ?check = "authoriseBrowserCommand (command_context_of b input db) command"
  have id: "bs_id b = ?sid" using Some by (rule session_by_id_id)
  show ?thesis
  proof (cases "?check = None \<and> bs_worker_id b \<noteq> None")
    case False
    have rejected: "bd_calls (snd (act_bind (recordRejection b input command d) (\<lambda>_. act_throw e) db)) = bd_calls db" for d e
      using recordRejection_tables(1) [of b input command d db]
      by (auto simp: act_bind_def act_simps split: prod.splits sum.splits)
    have "db' = snd (runCommand answer input command db)" using assms by simp
    then show ?thesis
      using Some False rejected
      by (auto simp: runCommand_def act_bind_def [of "act_read _"] act_simps get_session_def split: option.splits)
  next
    case True
    then obtain wid where wid: "?check = None" "bs_worker_id b = Some wid" by auto
    let ?call = "Call_command wid ?sid (ci_controller input) (ci_controlEpoch input) (bs_last_sequence b + 1) command"
    have "bd_calls db' = bd_calls db \<or> bd_calls db' = bd_calls db @ [?call]"
      using assms Some wid
      by (auto simp: runCommand_def act_bind_def act_simps get_session_def Let_def id call_peer_def
          dest!: update_session_fields(1) transaction_fields split: prod.splits sum.splits)
    then show ?thesis
      using Some wid authorised_facts [OF wid(1)]
      by (auto simp: command_context_of_def)
  qed
qed

theorem command_sent_only_when_authorised_witness:
  "bd_calls (snd (runCommand (Inr sample_result) (act_as second_agent 1 ''prj_1'') (plain_command Click)
     (with_session (sample_session READY (Some first_agent) 1) [sample_lease first_agent 1 None]))) = []"
proof -
  let ?db = "with_session (sample_session READY (Some first_agent) 1) [sample_lease first_agent 1 None]"
  let ?input = "act_as second_agent 1 ''prj_1''"
  obtain r db' where run: "runCommand (Inr sample_result) ?input (plain_command Click) ?db = (r, db')"
    by (rule prod.exhaust)
  have "session_by_id (ci_browserSessionId ?input) ?db = Some (sample_session READY (Some first_agent) 1)"
    by (simp add: session_by_id_def deployment_defs)
  moreover have "isInteractive Click" by code_simp
  ultimately show ?thesis
    using command_sent_only_when_authorised [OF run] run
    by (auto simp: deployment_defs)
qed

text \<open>
  What a record of a refusal is: one event of the caller, in the stream of one project, with the code
  and the reason of the refusal.
\<close>

lemma appending_one:
  assumes "appending [i] db = (Inr u, db')"
  shows "db' = appended i db"
    and "es_events db' = es_events db @
      [event_of i (fst (newId ''evt_'' db)) (stream_position db (input_stream i) + 1) (es_now db)]"
proof -
  show *: "db' = appended i db"
    using assms by (elim appending_cases) auto
  show "es_events db' = es_events db @
      [event_of i (fst (newId ''evt_'' db)) (stream_position db (input_stream i) + 1) (es_now db)]"
    unfolding * by (rule appended_events)
qed

lemma appendEvent_not_refused: "appendEvent i s \<noteq> Inl (Refused e)"
  by (auto simp: appendEvent_def assertPayloadCarriesNoSecret_def Let_def newId_def result_simps)

lemma appendEvents_not_refused: "appendEvents inputs s \<noteq> Inl (Refused e)"
  by (induction inputs arbitrary: s) (auto simp: r_bind_eq_Inl appendEvent_not_refused)

lemma appending_not_refused: "appending inputs db \<noteq> (Inl (Refused e), db')"
  using appendEvents_not_refused [of inputs db e]
  by (auto simp: appending_def transaction_def inTransaction_def r_bind_def split: sum.splits)

lemma recordRejection_event:
  assumes "recordRejection b input command d db = (Inr u, db')"
    and "map_of (bd_projects db) (ci_projectId input) \<noteq> None"
    and "cd_reason d \<noteq> ''project_mismatch'' \<Longrightarrow> bs_project_id b = ci_projectId input"
  obtains ev where "es_events db' = es_events db @ [ev]" "e_type ev = ''browser.command_rejected''"
    "e_stream_key ev = ci_projectId input" "e_actor ev = ci_actor input"
    "text_member ''reason'' (e_payload ev) = Some (cd_reason d)"
    "text_member ''reason_code'' (e_payload ev) = Some (error_code_name (cd_code d))"
    "cd_reason d = ''project_mismatch'' \<Longrightarrow>
       map_of (e_payload ev) ''current_epoch'' = None \<and> map_of (e_payload ev) ''session_status'' = None"
proof -
  obtain org where stream: "rejection_stream b (ci_projectId input) d db = Some (org, ci_projectId input)"
    using assms(2,3)
    by (cases "cd_reason d = ''project_mismatch''") (force simp: rejection_stream_def projectStream_def)+
  note event = appending_one(2) [OF assms(1) [unfolded recordRejection_def stream option.case prod.case]]
  show thesis
    by (rule that [OF event])
      (auto simp: event_of_def input_stream_def project_event_def text_member_def pruneUndefined_def
        session_facts_def json_num_def)
qed

text \<open>C36: A refused command is recorded, always on the stream of the caller's own project, so that
  nobody can write to the timeline of a project that is not theirs; the record names the code and
  the reason, and for a session of another project neither its epoch nor its status. The refusal changes no
  session and no lease and sends nothing.\<close>

theorem refused_command_is_recorded:
  assumes "session_by_id (ci_browserSessionId input) db = Some b"
    and "authoriseBrowserCommand (command_context_of b input db) command = Some d"
    and "runCommand answer input command db = (Inl (Refused e), db')"
    and "map_of (bd_projects db) (ci_projectId input) \<noteq> None"
  shows "err_code e = cd_code d \<and> err_details e = cd_details d \<and>
    bd_sessions db' = bd_sessions db \<and> bd_leases db' = bd_leases db \<and> bd_calls db' = bd_calls db \<and>
    (\<exists>ev. es_events db' = es_events db @ [ev] \<and> e_type ev = ''browser.command_rejected'' \<and>
       e_stream_key ev = ci_projectId input \<and> e_actor ev = ci_actor input \<and>
       text_member ''reason'' (e_payload ev) = Some (cd_reason d) \<and>
       text_member ''reason_code'' (e_payload ev) = Some (error_code_name (cd_code d)) \<and>
       (bs_project_id b \<noteq> ci_projectId input \<longrightarrow>
          map_of (e_payload ev) ''current_epoch'' = None \<and> map_of (e_payload ev) ''session_status'' = None))"
proof -
  obtain r db1 where run: "recordRejection b input command d db = (r, db1)" by (rule prod.exhaust)
  have "runCommand answer input command db =
      act_bind (recordRejection b input command d)
        (\<lambda>_. act_throw (Refused (ApiError (cd_code d) (cd_details d) None None))) db"
    using assms(1,2) by (simp add: runCommand_def act_bind_def [of "act_read _"] act_simps get_session_def)
  also have "\<dots> = (case r of Inl f \<Rightarrow> Inl f
      | Inr _ \<Rightarrow> Inl (Refused (ApiError (cd_code d) (cd_details d) None None)), db1)"
    using run by (cases r) (simp_all add: act_bind_def act_simps)
  finally have "db' = db1" and "r = Inl (Refused e) \<or> r = ok \<and> e = ApiError (cd_code d) (cd_details d) None None"
    using assms(3) by (auto split: sum.splits)
  moreover have "r \<noteq> Inl (Refused e)"
    using run appending_not_refused by (auto simp: recordRejection_def split: option.splits)
  ultimately have db': "db' = db1" "r = ok" "e = ApiError (cd_code d) (cd_details d) None None" by auto
  have reason: "cd_reason d = ''project_mismatch'' \<longleftrightarrow> bs_project_id b \<noteq> ci_projectId input"
    using denial_cross_project [OF assms(2)] by (simp add: command_context_of_def)
  have "recordRejection b input command d db = (Inr (), db')" using run db' by simp
  then obtain ev where "es_events db' = es_events db @ [ev]" "e_type ev = ''browser.command_rejected''"
    "e_stream_key ev = ci_projectId input" "e_actor ev = ci_actor input"
    "text_member ''reason'' (e_payload ev) = Some (cd_reason d)"
    "text_member ''reason_code'' (e_payload ev) = Some (error_code_name (cd_code d))"
    "cd_reason d = ''project_mismatch'' \<longrightarrow>
       map_of (e_payload ev) ''current_epoch'' = None \<and> map_of (e_payload ev) ''session_status'' = None"
    using reason assms(4) by (elim recordRejection_event) auto
  then show ?thesis
    using reason recordRejection_tables [of b input command d db] run db' by (auto simp: ApiError_def)
qed

theorem refused_command_is_recorded_witness:
  "length (es_events (snd (runCommand (Inr sample_result) (act_as second_agent 1 ''prj_1'') (plain_command Click)
     (with_session (sample_session READY (Some first_agent) 1) [sample_lease first_agent 1 None])))) = 1"
proof -
  let ?b = "sample_session READY (Some first_agent) 1"
  let ?db = "with_session ?b [sample_lease first_agent 1 None]"
  let ?input = "act_as second_agent 1 ''prj_1''"
  let ?run = "runCommand (Inr sample_result) ?input (plain_command Click) ?db"
  let ?d = "\<lparr>cd_code = CONTROL_NOT_OWNED, cd_details = Some [D_current_epoch 1], cd_reason = ''control_not_owned''\<rparr>"
  have found: "session_by_id (ci_browserSessionId ?input) ?db = Some ?b"
    by (simp add: session_by_id_def deployment_defs)
  have denied: "authoriseBrowserCommand (command_context_of ?b ?input ?db) (plain_command Click) = Some ?d"
    by (simp add: control_eval deployment_defs)
  have run: "?run = (Inl (Refused (ApiError CONTROL_NOT_OWNED (Some [D_current_epoch 1]) None None)), snd ?run)"
    by (simp add: log_eval table_eval lifecycle_eval control_eval deployment_defs)
  have "map_of (bd_projects ?db) (ci_projectId ?input) \<noteq> None" by (simp add: deployment_defs)
  from refused_command_is_recorded [OF found denied run this]
  show ?thesis by (auto simp: with_session_def deployment_def)
qed

end
