(* ===== verification/Session_Outcomes.thy ===== *)
theory Session_Outcomes
  imports Session_Properties
begin

text \<open>
  What becomes of a reservation: at most one allocator claims it, and one that is refused gives its
  slot back. Then the places where the service does not do what its comments promise: a session that
  ended and is driven again, a lease that expired and still drives, control that nobody can take.
\<close>

section \<open>One claim\<close>

definition not_waiting :: "string \<Rightarrow> browser_db \<Rightarrow> bool" where
  "not_waiting sid db \<longleftrightarrow> sid \<in> bs_id ` set (bd_sessions db) \<and>
     list_all (\<lambda>b. bs_id b = sid \<longrightarrow> bs_status b \<noteq> REQUESTED) (bd_sessions db)"

lemma not_waiting_update:
  assumes "not_waiting sid db" "bd_sessions db' = update_where p f (bd_sessions db)"
    and "\<And>b. bs_id (f b) = bs_id b" "\<And>b. bs_status (f b) = REQUESTED \<Longrightarrow> bs_status b = REQUESTED"
  shows "not_waiting sid db'"
proof -
  have "map bs_id (bd_sessions db') = map bs_id (bd_sessions db)"
    using assms(2,3) by (simp add: update_where_map)
  then have "bs_id ` set (bd_sessions db') = bs_id ` set (bd_sessions db)" by (metis list.set_map)
  then show ?thesis
    using assms by (fastforce simp: not_waiting_def list_all_iff in_update_where split: if_splits)
qed

lemma not_waiting_same: "not_waiting sid db \<Longrightarrow> bd_sessions db' = bd_sessions db \<Longrightarrow> not_waiting sid db'"
  by (simp add: not_waiting_def)

text \<open>The sessions that a transaction leaves, in terms of the ones it found.\<close>

lemma sessions_after:
  "claim_work session actor route db = Inr (won, db') \<Longrightarrow>
     bd_sessions db' = update_where (\<lambda>b. bs_id b = bs_id session \<and> bs_status b = REQUESTED)
       (\<lambda>b. b\<lparr>bs_status := ALLOCATING\<rparr>) (bd_sessions db)"
  "request_work session r actor requestId db = Inr (u, db') \<Longrightarrow>
     bd_sessions db' = update_where (\<lambda>b. bs_id b = bs_id session \<and> bs_status b = REQUESTED)
       (\<lambda>b. b\<lparr>bs_requested_published_service_id := Some r, bs_allocation_requested_at := Some (js_now db)\<rparr>) (bd_sessions db)"
  "setStatus_work session status actor eventType payload db = Inr (u, db') \<Longrightarrow>
     bd_sessions db' = update_where (\<lambda>b. bs_id b = bs_id session) (with_status status (es_now db)) (bd_sessions db)"
  "grant_work session controller reason actor db = Inr (u, db') \<Longrightarrow>
     bd_sessions db' = update_where (\<lambda>b. bs_id b = bs_id session)
       (\<lambda>b. b\<lparr>bs_current_controller := Some controller, bs_control_epoch := bs_control_epoch session + 1\<rparr>) (bd_sessions db)"
  "release_work session controller actor db = Inr (u, db') \<Longrightarrow>
     bd_sessions db' = update_where (\<lambda>b. bs_id b = bs_id session)
       (\<lambda>b. b\<lparr>bs_current_controller := None, bs_control_epoch := bs_control_epoch session + 1\<rparr>) (bd_sessions db)"
proof -
  have none: "update_where p f xs = xs" if "filter p xs = []" for p f and xs :: "browser_session list"
    using that by (induction xs) (auto simp: update_where_def split: if_splits)
  show "claim_work session actor route db = Inr (won, db') \<Longrightarrow>
     bd_sessions db' = update_where (\<lambda>b. bs_id b = bs_id session \<and> bs_status b = REQUESTED)
       (\<lambda>b. b\<lparr>bs_status := ALLOCATING\<rparr>) (bd_sessions db)"
    by (auto simp: claim_work_def Let_def r_bind_eq_Inr store_sessions_Inr none dest!: appendEvents_fields(1)
        simp del: appendEvents.simps split: if_splits)
qed (auto simp: request_work_def setStatus_work_def grant_work_def release_work_def Let_def newId_def r_bind_eq_Inr
    r_then_eq_Inr store_sessions_Inr store_leases_Inr dest!: appendEvents_fields(1) simp del: appendEvents.simps)

lemma executed_sessions:
  "executed_work session input command sequence result db = Inr (u, db') \<Longrightarrow>
     bd_sessions db' = bd_sessions db \<or>
     bd_sessions db' = update_where (\<lambda>b. bs_id b = bs_id session) (\<lambda>b. b\<lparr>bs_status := ACTIVE\<rparr>) (bd_sessions db)"
  by (auto simp: executed_work_def r_bind_eq_Inr store_sessions_Inr dest!: appendEvents_fields(1) split: if_splits)

lemma created_sessions:
  "create_work input worker sid db = Inr (b, db') \<Longrightarrow>
     bd_sessions db' = bd_sessions db @ [new_session input sid (wk_id worker) (es_now db)] \<and>
     sid \<notin> bs_id ` set (bd_sessions db)"
  by (auto simp: create_work_def Let_def newId_def r_bind_eq_Inr r_then_eq_Inr store_sessions_Inr store_leases_Inr
      new_session_def dest!: appendEvents_fields(1) simp del: appendEvents.simps)

lemma txn_not_waiting:
  "txn (\<lambda>s. s \<noteq> REQUESTED) db db' \<Longrightarrow> not_waiting sid db \<Longrightarrow> not_waiting sid db'"
proof (induction rule: txn.induct)
  case (created input worker i db b db')
  then show ?case
    using created_sessions [OF created(1)] by (auto simp: not_waiting_def new_session_def)
next
  case (executed session input command sequence result db u db')
  then show ?case
    using executed_sessions [OF executed(1)] by (auto intro: not_waiting_same not_waiting_update)
next
  case (row_updated f i db db')
  then show ?case
    by (intro not_waiting_update [of sid db db' "\<lambda>b. bs_id b = i" f]) (simp_all add: plain_update_def store_sessions_Inr)
next
  case (leases_revoked f p db db')
  then show ?case by (auto simp: store_leases_Inr intro: not_waiting_same)
next
  case (logged inputs db db')
  then show ?case using appendEvents_fields(1) not_waiting_same by blast
qed (auto simp: with_status_def call_peer_def dest!: sessions_after intro: not_waiting_update not_waiting_same)

text \<open>Of two allocators that read one reservation, at most one claims it: after a claim succeeds,
  no later claim of the same session does, whatever transactions of the service run in between and
  however stale the record the second one read, as long as no worker reports the status
  REQUESTED for a session.\<close>

theorem one_claim_per_reservation:
  assumes "claim_work session actor route db = Inr (True, db1)"
    and "txns (\<lambda>s. s \<noteq> REQUESTED) db1 db2" "bs_id session' = bs_id session"
    and "claim_work session' actor' route' db2 = Inr (won, db3)"
  shows "won = False \<and> db3 = db2"
proof -
  note after = sessions_after(1) [OF assms(1)]
  have "bs_status b \<noteq> REQUESTED" if b: "b \<in> set (bd_sessions db1)" "bs_id b = bs_id session" for b
  proof -
    obtain q where "b = (if bs_id q = bs_id session \<and> bs_status q = REQUESTED then q\<lparr>bs_status := ALLOCATING\<rparr> else q)"
      using b(1) unfolding after in_update_where by blast
    with b(2) show ?thesis by (auto split: if_splits)
  qed
  moreover have "\<exists>x \<in> set (bd_sessions db). bs_id x = bs_id session"
    using assms(1) by (auto simp: claim_work_def Let_def filter_empty_conv split: if_splits)
  moreover have "map bs_id (bd_sessions db1) = map bs_id (bd_sessions db)"
    by (simp add: after update_where_map)
  ultimately have "not_waiting (bs_id session) db1"
    unfolding not_waiting_def list_all_iff by (metis imageI list.set_map)
  with assms(2) have "not_waiting (bs_id session) db2"
    by (induction rule: rtranclp_induct) (auto intro: txn_not_waiting)
  then have "filter (\<lambda>b. bs_id b = bs_id session' \<and> bs_status b = REQUESTED) (bd_sessions db2) = []"
    by (auto simp: not_waiting_def list_all_iff filter_empty_conv assms(3))
  then show ?thesis using assms(4) by (simp add: claim_work_def Let_def)
qed

theorem one_claim_per_reservation_witness:
  "claim_work (sample_session REQUESTED (Some first_agent) 1) session_actor None
     (snd (claimForAllocation (sample_session REQUESTED (Some first_agent) 1) session_actor None
        (with_session (sample_session REQUESTED (Some first_agent) 1) [sample_lease first_agent 1 None]))) =
   Inr (False, snd (claimForAllocation (sample_session REQUESTED (Some first_agent) 1) session_actor None
        (with_session (sample_session REQUESTED (Some first_agent) 1) [sample_lease first_agent 1 None])))"
proof -
  let ?b = "sample_session REQUESTED (Some first_agent) 1"
  let ?db = "with_session ?b [sample_lease first_agent 1 None]"
  have "\<exists>db1. claim_work ?b session_actor None ?db = Inr (True, db1)"
    by (simp add: claim_work_def worker_correlation_def log_eval table_eval deployment_defs)
  then obtain db1 where claim: "claim_work ?b session_actor None ?db = Inr (True, db1)" by blast
  then have db1: "snd (claimForAllocation ?b session_actor None ?db) = db1"
    by (simp add: claimForAllocation_def transaction_def)
  have "\<exists>won db3. claim_work ?b session_actor None db1 = Inr (won, db3)"
    using sessions_after(1) [OF claim]
    by (auto simp: claim_work_def Let_def update_where_def with_session_def sample_session_def)
  then obtain won db3 where "claim_work ?b session_actor None db1 = Inr (won, db3)" by blast
  with one_claim_per_reservation [OF claim _ refl this] show ?thesis unfolding db1 by simp
qed

section \<open>A refused allocation gives its slot back\<close>

lemma getForScope_Inr:
  "getForScope sid scope db = Inr b \<Longrightarrow> b \<in> set (bd_sessions db) \<and> bs_id b = sid \<and> in_scope scope db b"
  by (auto simp: getForScope_def dest: find_Some_in split: option.splits)

lemma inTransaction_ok: "inTransaction work s = (ok, s') \<longleftrightarrow> work s = Inr ((), s')"
  using inTransaction_Inr [of work s "()" s'] by simp

lemma act_bind_Inl:
  "act_bind m f db = (Inl e, db') \<longleftrightarrow>
     m db = (Inl e, db') \<or> (\<exists>a db1. m db = (Inr a, db1) \<and> f a db1 = (Inl e, db'))"
  by (auto simp: act_bind_def split: prod.splits sum.splits)

text \<open>What the operations of a failing allocation do to the session's row.\<close>

definition given_up :: "string \<Rightarrow> browser_db \<Rightarrow> bool" where
  "given_up sid db \<longleftrightarrow>
     list_all (\<lambda>b. bs_id b = sid \<longrightarrow> bs_status b = FAILED \<and> bs_ended_at b \<noteq> None) (bd_sessions db)"

lemma setStatus_ok:
  assumes "setStatus session status actor eventType payload db = (ok, db')"
  shows "bd_sessions db' = update_where (\<lambda>b. bs_id b = bs_id session) (with_status status (es_now db)) (bd_sessions db)"
    and "\<exists>evs. es_events db' = es_events db @ evs \<and> map e_type evs = (case eventType of None \<Rightarrow> [] | Some t \<Rightarrow> [t])"
proof -
  have work: "setStatus_work session status actor eventType payload db = Inr ((), db')"
    using assms by (auto simp: setStatus_def transaction_def inTransaction_ok)
  then show "bd_sessions db' = update_where (\<lambda>b. bs_id b = bs_id session) (with_status status (es_now db)) (bd_sessions db)"
    by (rule sessions_after(3))
  define inputs where "inputs = (case eventType of None \<Rightarrow> []
        | Some type \<Rightarrow> [session_event session actor type (worker_correlation session)
            (override [(''previous_status'', JString (session_status_name (bs_status session))),
                       (''new_status'', JString (session_status_name status))] payload)])"
  obtain db1 where "store_sessions (update_where (\<lambda>b. bs_id b = bs_id session) (with_status status (es_now db))
      (bd_sessions db)) db = Inr db1" "appendEvents inputs db1 = Inr db'"
    using work by (auto simp: setStatus_work_def r_bind_eq_Inr inputs_def simp del: appendEvents.simps)
  moreover have "map ai_type inputs = (case eventType of None \<Rightarrow> [] | Some t \<Rightarrow> [t])"
    by (cases eventType) (simp_all add: inputs_def session_event_def project_event_def)
  ultimately have steps: "es_events db1 = es_events db" "appendEvents inputs db1 = Inr db'"
    "map ai_type inputs = (case eventType of None \<Rightarrow> [] | Some t \<Rightarrow> [t])"
    by (simp_all add: store_sessions_Inr)
  let ?of_event = "\<lambda>e. (e_type e, e_stream_key e, e_actor e, e_payload e)"
  let ?of_input = "\<lambda>i. (ai_type i, input_stream i, ai_actor i, pruneUndefined (ai_payload i))"
  obtain new where new: "es_events db' = es_events db1 @ new" "map ?of_event new = map ?of_input inputs"
    using fold_appended_events [of inputs db1] unfolding appendEvents_Inr [OF steps(2)] by blast
  have "map e_type new = map fst (map ?of_event new)" by simp
  also have "\<dots> = map ai_type inputs" unfolding new(2) by simp
  finally show "\<exists>evs. es_events db' = es_events db @ evs \<and> map e_type evs = (case eventType of None \<Rightarrow> [] | Some t \<Rightarrow> [t])"
    using steps new(1) by auto
qed

lemma setStatus_given_up:
  "setStatus session FAILED actor eventType payload db = (ok, db') \<Longrightarrow> given_up (bs_id session) db'"
  by (drule setStatus_ok(1)) (auto simp: given_up_def list_all_iff in_update_where with_status_def terminal_def)

lemma given_up_same: "given_up sid db \<Longrightarrow> bd_sessions db' = bd_sessions db \<Longrightarrow> given_up sid db'"
  by (simp add: given_up_def)

lemma withdraw_run: "withdrawCapabilities revoker sid db = (ok, if revoker then call_peer (Call_withdraw sid) db else db)"
  by (simp add: withdrawCapabilities_def act_simps)

lemma failReservation_given_up:
  "failReservation pr session actor code trigger route details db = (ok, db') \<Longrightarrow> given_up (bs_id session) db'"
  by (auto simp: failReservation_def act_bind_ok withdraw_run call_peer_def intro: given_up_same
      dest!: setStatus_given_up split: if_splits)

text \<open>No statement and no transaction of the service fails with a refusal of its own.\<close>

lemma statements_not_refused:
  "store_sessions rows db \<noteq> Inl (Refused e)" "store_leases ls db \<noteq> Inl (Refused e)"
  by (auto simp: store_sessions_def store_leases_def r_then_eq_Inl refuse_if_eq_Inl)

lemma writes_not_refused:
  "setStatus session status actor eventType payload db \<noteq> (Inl (Refused e), db')"
  "claimForAllocation session actor route db \<noteq> (Inl (Refused e), db')"
  "update_session sid f db \<noteq> (Inl (Refused e), db')"
  "revokeLeases sid reason db \<noteq> (Inl (Refused e), db')"
  by (auto simp: statements_not_refused appendEvents_not_refused setStatus_def setStatus_work_def claimForAllocation_def claim_work_def update_session_def
      revokeLeases_def statement_def transaction_def inTransaction_Inl r_bind_eq_Inl Let_def
      simp del: appendEvents.simps split: if_splits sum.splits)

lemma failReservation_not_refused:
  "failReservation pr session actor code trigger route details db \<noteq> (Inl (Refused e), db')"
  using writes_not_refused by (auto simp: failReservation_def act_bind_Inl withdraw_run)

text \<open>A session is never deleted.\<close>

definition session_ids :: "browser_db \<Rightarrow> string set" where
  "session_ids db = bs_id ` set (bd_sessions db)"

lemma session_ids_update:
  "bd_sessions db' = update_where p f (bd_sessions db) \<Longrightarrow> (\<And>b. bs_id (f b) = bs_id b) \<Longrightarrow>
     session_ids db' = session_ids db"
  unfolding session_ids_def by (metis list.set_map update_where_map)

lemma txn_session_ids: "txn allowed db db' \<Longrightarrow> session_ids db \<subseteq> session_ids db'"
proof (induction rule: txn.induct)
  case (created input worker i db b db')
  then show ?case using created_sessions [OF created(1)] by (auto simp: session_ids_def)
next
  case (claimed session actor route db won db')
  show ?case using session_ids_update [OF sessions_after(1) [OF claimed]] by simp
next
  case (requested session r actor requestId db u db')
  show ?case using session_ids_update [OF sessions_after(2) [OF requested]] by simp
next
  case (status_set status session actor eventType payload db u db')
  show ?case using session_ids_update [OF sessions_after(3) [OF status_set(2)]] by (simp add: with_status_def)
next
  case (executed session input command sequence result db u db')
  then show ?case
    using executed_sessions [OF executed(1)] session_ids_update [of db' _ "\<lambda>b. b\<lparr>bs_status := ACTIVE\<rparr>" db]
    by (auto simp: session_ids_def)
next
  case (control_granted session controller reason actor db u db')
  show ?case using session_ids_update [OF sessions_after(4) [OF control_granted]] by simp
next
  case (control_released session controller actor db u db')
  show ?case using session_ids_update [OF sessions_after(5) [OF control_released]] by simp
next
  case (row_updated f i db db')
  then show ?case
    using session_ids_update [of db' "\<lambda>b. bs_id b = i" f db] by (simp add: plain_update_def store_sessions_Inr)
next
  case (leases_revoked f p db db')
  then show ?case by (auto simp: store_leases_Inr session_ids_def)
next
  case (logged inputs db db')
  then show ?case by (simp add: session_ids_def appendEvents_fields(1))
qed (simp_all add: session_ids_def call_peer_def)

lemma runs_keeps_session:
  assumes "runs m" "session_ok db" "m db = (r, db')" "sid \<in> session_ids db"
  shows "session_ok db'" "sid \<in> session_ids db'"
proof -
  have path: "txns any_status db db'"
    using assms(1-3) by (metis keeps_def runs_to_def snd_conv)
  then show "session_ok db'" using txns_keep assms(2) by blast
  from path show "sid \<in> session_ids db'"
    by (induction rule: rtranclp_induct) (use assms(4) txn_session_ids in blast)+
qed

lemma present_found:
  assumes "sid \<in> session_ids db"
  obtains b where "session_by_id sid db = Some b" "bs_id b = sid"
proof (cases "session_by_id sid db")
  case None
  then show ?thesis using assms by (auto simp: session_ids_def session_by_id_def find_None_iff)
next
  case (Some b)
  then show ?thesis using that session_by_id_id by blast
qed

lemma act_try_Inl:
  "act_try m h db = (Inl e, db') \<longleftrightarrow> (\<exists>f db1. m db = (Inl f, db1) \<and> h f db1 = (Inl e, db'))"
  by (auto simp: act_try_def split: prod.splits sum.splits)

lemma bind_route_refused:
  assumes "bind_route pr session actor route db = (Inl (Refused e), db')"
  shows "given_up (bs_id session) db'"
proof -
  obtain r where r: "route = Some r" using assms by (cases route) (auto simp: bind_route_def act_simps)
  from assms show ?thesis
    unfolding bind_route_def r option.case act_bind_Inl act_try_Inl
    using writes_not_refused(3) failReservation_not_refused
    by (auto simp: act_simps act_bind_Inl intro: failReservation_given_up)
qed

lemma worker_refused_given_up:
  assumes "worker_refused pr session actor error db = (Inl (Refused e), db')" "bs_id session \<in> session_ids db"
  shows "given_up (bs_id session) db'"
proof -
  obtain failing where failing: "session_by_id (bs_id session) db = Some failing" "bs_id failing = bs_id session"
    using assms(2) by (rule present_found)
  obtain db1 payload where "setStatus failing FAILED actor (Some ''browser_session.failed'') payload db = (ok, db1)"
    "db' = snd (withdrawCapabilities (pr_revoker pr) (bs_id session) db1)"
    using assms(1) writes_not_refused(1) failing(1)
    by (auto simp: worker_refused_def act_simps act_bind_Inl withdraw_run get_session_def)
  then show ?thesis
    using setStatus_given_up failing(2) by (fastforce simp: withdraw_run call_peer_def intro: given_up_same)
qed

text \<open>An allocation touches the row of its own session and no other.\<close>

definition others_kept :: "string \<Rightarrow> browser_db \<Rightarrow> browser_db \<Rightarrow> bool" where
  "others_kept sid db db' \<longleftrightarrow>
     filter (\<lambda>b. bs_id b \<noteq> sid) (bd_sessions db') = filter (\<lambda>b. bs_id b \<noteq> sid) (bd_sessions db)"

interpretation others: kept_relation "others_kept sid" for sid
  by unfold_locales (simp_all add: others_kept_def)

lemma filter_update_where:
  assumes "\<And>b. key (f b) = key b" "\<And>b. p b \<Longrightarrow> key b = k"
  shows "filter (\<lambda>b. key b \<noteq> k) (update_where p f t) = filter (\<lambda>b. key b \<noteq> k) t"
proof (induction t)
  case (Cons a t)
  then show ?case using assms(1) [of a] assms(2) [of a] by (auto simp: update_where_def)
qed (simp add: update_where_def)

lemma others_kept_update:
  "bd_sessions db' = update_where p f (bd_sessions db) \<Longrightarrow> (\<And>b. bs_id (f b) = bs_id b) \<Longrightarrow>
     (\<And>b. p b \<Longrightarrow> bs_id b = sid) \<Longrightarrow> others_kept sid db db'"
  by (simp add: others_kept_def filter_update_where)

lemma others_transaction:
  "(\<And>db a db'. work db = Inr (a, db') \<Longrightarrow> others_kept sid db db') \<Longrightarrow> keeps (others_kept sid) (transaction work)"
  by (auto simp: keeps_def transaction_def inTransaction_def others.reflexive split: sum.split)

lemma others_setStatus: "bs_id session = sid \<Longrightarrow> keeps (others_kept sid) (setStatus session status actor eventType payload)"
  unfolding setStatus_def
  by (rule others_transaction) (auto intro!: others_kept_update dest!: sessions_after(3) simp: with_status_def)

lemma others_update_session: "(\<And>b. bs_id (f b) = bs_id b) \<Longrightarrow> keeps (others_kept sid) (update_session sid f)"
  by (auto simp: keeps_def update_session_def statement_def store_sessions_Inr others.reflexive
      intro!: others_kept_update split: sum.split)

lemma others_simple:
  "keeps (others_kept sid) (revokeLeases i reason)" "keeps (others_kept sid) (withdrawCapabilities revoker i)"
  by (auto simp: keeps_def revokeLeases_def statement_def store_leases_Inr withdraw_run call_peer_def others_kept_def
      split: sum.split)

lemma others_claim: "bs_id session = sid \<Longrightarrow> keeps (others_kept sid) (claimForAllocation session actor route)"
  unfolding claimForAllocation_def
  by (rule others_transaction) (auto intro!: others_kept_update dest!: sessions_after(1))

lemma others_record: "keeps (others_kept sid) (recordAllocationRejection pr session actor error route)"
  by (auto simp: keeps_def recordAllocationRejection_def recordLifecycleRejection_def others_kept_def Let_def split: option.split)

lemmas others_intros = others.keeps_bind others.keeps_try others.keeps_basic others_setStatus others_simple
  others_claim others_record

lemma others_failReservation:
  "bs_id session = sid \<Longrightarrow> keeps (others_kept sid) (failReservation pr session actor code trigger r details)"
  unfolding failReservation_def by (intro others_intros)

lemma others_bind_route: "bs_id session = sid \<Longrightarrow> keeps (others_kept sid) (bind_route pr session actor route)"
  unfolding bind_route_def
  by (cases route) (auto intro!: others_intros others_failReservation others_update_session simp: bound_def)

lemma others_get:
  assumes "\<And>db b. read db = Inr b \<Longrightarrow> bs_id b = sid" "\<And>b. bs_id b = sid \<Longrightarrow> keeps (others_kept sid) (f b)"
  shows "keeps (others_kept sid) (act_bind (act_read read) f)"
proof -
  have "others_kept sid db (snd (act_bind (act_read read) f db))" for db
    using assms by (cases "read db") (auto simp: act_bind_def act_simps keeps_def others.reflexive)
  then show ?thesis by (simp add: keeps_def)
qed

lemma others_worker_allocate:
  assumes "bs_id session = sid"
  shows "keeps (others_kept sid) (worker_allocate pr session wid actor binding)"
proof -
  have call: "keeps (others_kept sid) (act_write (call_peer c))" for c
    by (simp add: keeps_def act_simps call_peer_def others_kept_def)
  show ?thesis
    unfolding worker_allocate_def assms
    by (intro others.keeps_bind call others.keeps_basic others_update_session others_get others_setStatus)
      (auto simp: get_session_Inr dest: session_by_id_id)
qed

lemma others_worker_refused:
  assumes "bs_id session = sid"
  shows "keeps (others_kept sid) (worker_refused pr session actor error)"
  unfolding worker_refused_def assms
  by (rule others.keeps_bind, rule others.keeps_basic, rule others_get)
    (auto simp: get_session_Inr dest: session_by_id_id intro!: others_intros)

lemma others_allocate: "keeps (others_kept sid) (allocate pr sid scope route actor)"
  unfolding allocate_def
proof (rule others_get)
  fix b :: browser_session assume sid: "bs_id b = sid"
  show "keeps (others_kept sid) (if bs_status b \<noteq> REQUESTED
     then act_bind (recordAllocationRejection pr b actor (only_reserved (bs_status b)) route)
       (\<lambda>_. act_throw (only_reserved (bs_status b)))
     else case bs_worker_id b of
       None \<Rightarrow> act_bind (failReservation pr b actor BROWSER_CAPACITY_EXHAUSTED ''allocation_refused'' None [])
         (\<lambda>_. act_throw (Refused (ApiError BROWSER_CAPACITY_EXHAUSTED None None None)))
     | Some wid \<Rightarrow>
         act_bind (claimForAllocation b actor route) (\<lambda>claimed.
         if \<not> claimed
         then act_bind (recordAllocationRejection pr b actor (only_reserved ALLOCATING) route)
           (\<lambda>_. act_throw (only_reserved ALLOCATING))
         else act_bind (bind_route pr b actor route) (\<lambda>binding.
           act_try (worker_allocate pr b wid actor binding) (worker_refused pr b actor))))"
    using sid
    by (auto intro!: others_intros others_failReservation others_bind_route others_worker_allocate others_worker_refused
        split: option.split)
qed (use getForScope_Inr in blast)

text \<open>How the count of running sessions splits at one session.\<close>

lemma length_filter_split:
  "length (filter p xs) = length (filter p (filter q xs)) + length (filter p (filter (\<lambda>x. \<not> q x) xs))"
  by (induction xs) auto

lemma filter_key_unique:
  "distinct (map key xs) \<Longrightarrow> x \<in> set xs \<Longrightarrow> key x = k \<Longrightarrow> filter (\<lambda>y. key y = k) xs = [x]"
  by (induction xs) (auto simp: filter_empty_conv image_iff)

lemma running_frees:
  assumes "session_ok db" "b \<in> set (bd_sessions db)" "bs_id b = sid" "bs_status b = REQUESTED"
    "bs_worker_id b = Some wid" "bs_ended_at b = None" "given_up sid db'" "others_kept sid db db'"
  shows "running_on wid db' + 1 = running_on wid db"
proof -
  have "filter (\<lambda>b. bs_id b = sid) (bd_sessions db) = [b]"
    using filter_key_unique [OF tables_okD(1) [OF assms(1)] assms(2,3)] .
  moreover have "filter (\<lambda>b. bs_worker_id b = Some wid \<and> bs_ended_at b = None \<and> \<not> terminal (bs_status b))
      (filter (\<lambda>b. bs_id b = sid) (bd_sessions db')) = []"
    using assms(7) by (auto simp: given_up_def list_all_iff filter_empty_conv)
  ultimately show ?thesis
    using assms(4-6,8)
      length_filter_split [where xs = "bd_sessions db" and q = "\<lambda>b. bs_id b = sid"]
      length_filter_split [where xs = "bd_sessions db'" and q = "\<lambda>b. bs_id b = sid"]
    by (simp add: running_on_def terminal_def others_kept_def del: filter_filter)
qed

text \<open>An allocation that is refused ends its reservation and frees exactly its slot. When the
  caller's reserved session has a worker, and allocating it is refused for any reason (the route, the
  binder, the worker), the session is FAILED and ended afterwards, every other session is as it was,
  and the number of sessions that count against the worker's capacity is one less.\<close>

theorem refused_allocation_frees_slot:
  assumes "session_ok db" "getForScope sid scope db = Inr b" "bs_status b = REQUESTED" "bs_worker_id b = Some wid"
    and "bs_ended_at b = None" "allocate pr sid scope route actor db = (Inl (Refused e), db')"
  shows "session_ok db' \<and>
    list_all (\<lambda>b. bs_id b = sid \<longrightarrow> bs_status b = FAILED \<and> bs_ended_at b \<noteq> None) (bd_sessions db') \<and>
    filter (\<lambda>b. bs_id b \<noteq> sid) (bd_sessions db') = filter (\<lambda>b. bs_id b \<noteq> sid) (bd_sessions db) \<and>
    running_on wid db' + 1 = running_on wid db"
proof -
  have b: "b \<in> set (bd_sessions db)" "bs_id b = sid" using getForScope_Inr [OF assms(2)] by auto
  then have present: "bs_id b \<in> session_ids db" by (auto simp: session_ids_def)
  have run: "act_bind (claimForAllocation b actor route) (\<lambda>claimed.
         if \<not> claimed
         then act_bind (recordAllocationRejection pr b actor (only_reserved ALLOCATING) route)
           (\<lambda>_. act_throw (only_reserved ALLOCATING))
         else act_bind (bind_route pr b actor route) (\<lambda>binding.
           act_try (worker_allocate pr b wid actor binding) (worker_refused pr b actor))) db = (Inl (Refused e), db')"
    using assms(2-4,6) by (simp add: allocate_def act_bind_def [of "act_read _"] act_simps)
  then obtain claimed db1 where claim: "claimForAllocation b actor route db = (Inr claimed, db1)"
    using writes_not_refused(2) by (auto simp: act_bind_Inl)
  have "claimed"
    using claim b assms(3) by (auto simp: claimForAllocation_def transaction_def result_simps claim_work_def
        Let_def filter_empty_conv simp del: appendEvents.simps split: if_splits)
  note kept1 = runs_keeps_session [OF runs_claim assms(1) claim present]
  have "given_up (bs_id b) db'"
  proof -
    consider "bind_route pr b actor route db1 = (Inl (Refused e), db')"
      | binding db2 f db3 where "bind_route pr b actor route db1 = (Inr binding, db2)"
        "worker_allocate pr b wid actor binding db2 = (Inl f, db3)" "worker_refused pr b actor f db3 = (Inl (Refused e), db')"
      using run claim \<open>claimed\<close> by (auto simp: act_bind_Inl act_try_Inl)
    then show ?thesis
    proof cases
      case 1
      then show ?thesis by (rule bind_route_refused)
    next
      case (2 binding db2 f db3)
      note kept2 = runs_keeps_session [OF runs_bind_route kept1(1) 2(1) kept1(2)]
      note kept3 = runs_keeps_session [OF runs_worker_allocate kept2(1) 2(2) kept2(2)]
      show ?thesis by (rule worker_refused_given_up [OF 2(3) kept3(2)])
    qed
  qed
  moreover have "session_ok db'"
    using runs_keeps_session [OF runs_allocate assms(1,6) present] by simp
  moreover have others: "others_kept sid db db'"
    using others_allocate [of sid pr scope route actor] assms(6) by (metis keeps_def snd_conv)
  moreover have "running_on wid db' + 1 = running_on wid db"
    using running_frees [OF assms(1) b assms(3-5) _ others] \<open>given_up (bs_id b) db'\<close> b(2) by simp
  ultimately show ?thesis
    by (simp add: given_up_def b(2) others_kept_def)
qed

theorem refused_allocation_frees_slot_witness:
  "map bs_status (bd_sessions (snd (allocate
     (sample_peers (Inl (Refused (ApiError BROWSER_CAPACITY_EXHAUSTED None None None)))) sample_sid DEPLOYMENT_SCOPE None
     session_actor (with_session (sample_session REQUESTED (Some first_agent) 1) [sample_lease first_agent 1 None])))) = [FAILED]"
proof -
  let ?b = "sample_session REQUESTED (Some first_agent) 1"
  let ?db = "with_session ?b [sample_lease first_agent 1 None]"
  let ?error = "Refused (ApiError BROWSER_CAPACITY_EXHAUSTED None None None)"
  let ?run = "allocate (sample_peers (Inl ?error)) sample_sid DEPLOYMENT_SCOPE None session_actor ?db"
  have ok: "session_ok ?db"
    by (simp add: session_ok_def tables_ok_def log_ok_def stream_events_def stream_position_def session_consistent_def
        granted_def lease_key_def session_row_ok_def interactive_lease_def terminal_def deployment_defs)
  have found: "getForScope sample_sid DEPLOYMENT_SCOPE ?db = Inr ?b"
    by (simp add: getForScope_def in_scope_def DEPLOYMENT_SCOPE_def deployment_defs)
  have run: "?run = (Inl ?error, snd ?run)" and one: "\<exists>b. bd_sessions (snd ?run) = [b] \<and> bs_id b = sample_sid"
    by (simp_all add: log_eval table_eval lifecycle_eval allocation_eval deployment_defs DEPLOYMENT_SCOPE_def ApiError_def)
  have "bs_status ?b = REQUESTED" "bs_worker_id ?b = Some ''wkr_1''" "bs_ended_at ?b = None"
    by (simp_all add: sample_session_def terminal_def)
  from refused_allocation_frees_slot [OF ok found this run] one show ?thesis by auto
qed

end
