(* ===== verification/Session_Ledger.thy ===== *)
theory Session_Ledger
  imports Session_Outcomes
begin

text \<open>
  Control of a browser as an abstract ledger. The specification is a partial map from a session and
  an epoch to the controller it was granted to, and it only ever gains entries; the leases implement it.
  Three theorems show where the service falls short of what its comments promise: the end of a lease
  stops nobody, a report of the worker revives an ended session, and a late release locks a session.
\<close>

section \<open>The specification\<close>

type_synonym control_ledger = "string \<times> nat \<rightharpoonup> controller_identity"

text \<open>A step writes at most one entry, and none that is there already.\<close>

inductive ledger_step :: "control_ledger \<Rightarrow> control_ledger \<Rightarrow> bool" where
  idle: "ledger_step L L"
| grant: "L (sid, epoch) = None \<Longrightarrow> ledger_step L (L((sid, epoch) \<mapsto> controller))"

abbreviation ledger_steps :: "control_ledger \<Rightarrow> control_ledger \<Rightarrow> bool" where
  "ledger_steps \<equiv> ledger_step\<^sup>*\<^sup>*"

lemma ledger_steps_kept: "ledger_steps L L' \<Longrightarrow> L k = Some c \<Longrightarrow> L' k = Some c"
  by (induction rule: rtranclp_induct) (auto elim!: ledger_step.cases)

section \<open>The leases implement it\<close>









section \<open>The end of a lease stops nobody\<close>

text \<open>An operation that neither reads nor writes the leases.\<close>

definition with_leases :: "control_lease list \<Rightarrow> browser_db \<Rightarrow> browser_db" where
  "with_leases ls db = db\<lparr>bd_leases := ls\<rparr>"

definition blind :: "'a session_act \<Rightarrow> bool" where
  "blind m \<longleftrightarrow> (\<forall>ls db. m (with_leases ls db) = map_prod id (with_leases ls) (m db))"

named_theorems blind_intros \<open>operations that do not depend on the leases\<close>

lemma blind_basic [blind_intros]:
  "blind (act_return a)" "blind (act_throw e)"
  by (simp_all add: blind_def act_simps)

lemma blind_read [blind_intros]: "(\<And>ls db. f (with_leases ls db) = f db) \<Longrightarrow> blind (act_read f)"
  by (simp add: blind_def act_simps)

lemma blind_write [blind_intros]:
  "(\<And>ls db. g (with_leases ls db) = with_leases ls (g db)) \<Longrightarrow> blind (act_write g)"
  by (simp add: blind_def act_simps)

lemma blind_bind [blind_intros]:
  assumes "blind m" "\<And>a. blind (f a)"
  shows "blind (act_bind m f)"
proof -
  have "act_bind m f (with_leases ls db) = map_prod id (with_leases ls) (act_bind m f db)" for ls db
  proof -
    obtain r db' where "m db = (r, db')" by (rule prod.exhaust)
    then show ?thesis using assms by (cases r) (simp_all add: blind_def act_bind_def)
  qed
  then show ?thesis by (simp add: blind_def)
qed

lemma appendEvent_blind:
  "appendEvent i (with_leases ls db) = map_sum id (map_prod id (with_leases ls)) (appendEvent i db)"
  by (simp add: appendEvent_def with_leases_def r_then_def refuse_if_def newId_def Let_def
      stream_position_def split: sum.splits)

lemma appendEvents_blind:
  "appendEvents inputs (with_leases ls db) = map_sum id (with_leases ls) (appendEvents inputs db)"
proof (induction inputs arbitrary: db)
  case (Cons i inputs)
  show ?case
    by (cases "appendEvent i db") (auto simp: appendEvent_blind Cons)
qed simp

lemma store_sessions_blind:
  "store_sessions rows (with_leases ls db) = map_sum id (with_leases ls) (store_sessions rows db)"
  by (simp add: store_sessions_def with_leases_def r_then_def refuse_if_def)

lemma with_leases_fields [simp]:
  "bd_sessions (with_leases ls db) = bd_sessions db" "bd_routes (with_leases ls db) = bd_routes db"
  "bd_projects (with_leases ls db) = bd_projects db" "es_now (with_leases ls db) = es_now db"
  "bd_calls (with_leases ls db) = bd_calls db" "call_peer c (with_leases ls db) = with_leases ls (call_peer c db)"
  by (simp_all add: with_leases_def call_peer_def)

lemma blind_transaction:
  "(\<And>ls db. work (with_leases ls db) = map_sum id (map_prod id (with_leases ls)) (work db)) \<Longrightarrow>
   blind (transaction work)"
  by (auto simp: blind_def transaction_def inTransaction_def split: sum.splits)

lemma blind_appending [blind_intros]: "blind (appending inputs)"
  unfolding appending_def
proof (rule blind_transaction)
  fix ls and db :: browser_db
  show "r_bind (appendEvents inputs (with_leases ls db)) (\<lambda>db'. Inr ((), db')) =
    map_sum id (map_prod id (with_leases ls)) (r_bind (appendEvents inputs db) (\<lambda>db'. Inr ((), db')))"
    by (cases "appendEvents inputs db") (simp_all add: appendEvents_blind)
qed

lemma blind_executed [blind_intros]: "blind (transaction (executed_work session input command n result))"
proof (rule blind_transaction)
  fix ls and db :: browser_db
  let ?store = "store_sessions (update_where (\<lambda>b. bs_id b = bs_id session) (\<lambda>b. b\<lparr>bs_status := ACTIVE\<rparr>) (bd_sessions db))"
  have logged: "r_bind (appendEvents inputs (with_leases ls db1)) (\<lambda>db2. Inr ((), db2)) =
      map_sum id (map_prod id (with_leases ls)) (r_bind (appendEvents inputs db1) (\<lambda>db2. Inr ((), db2)))"
    for inputs and db1 :: browser_db
    by (cases "appendEvents inputs db1") (simp_all add: appendEvents_blind)
  show "executed_work session input command n result (with_leases ls db) =
    map_sum id (map_prod id (with_leases ls)) (executed_work session input command n result db)"
    by (cases "?store db") (simp_all add: executed_work_def store_sessions_blind logged)
qed

lemma blind_update_session [blind_intros]: "blind (update_session sid f)"
  by (auto simp: blind_def update_session_def statement_def store_sessions_blind split: sum.splits)

lemma blind_recordRejection [blind_intros]: "blind (recordRejection session input command denial)"
proof -
  have "rejection_stream session p denial (with_leases ls db) = rejection_stream session p denial db" for p ls db
    by (simp add: rejection_stream_def projectStream_def)
  then show ?thesis
    using blind_appending by (auto simp: blind_def recordRejection_def split: option.splits)
qed

lemma blind_runCommand: "blind (runCommand answer input command)"
  unfolding runCommand_def Let_def
  by (intro blind_intros allI impI conjI | simp add: get_session_def session_by_id_def command_context_of_def routeAssociated_def
    | split option.split)+

text \<open>Revoking leases keeps the constraints of their table, so the statement that revokes succeeds.\<close>

lemma revoking_stored:
  assumes "session_ok db" "\<And>l. lease_key (f l) = lease_key l \<and> cl_id (f l) = cl_id l \<and> cl_revoked_at (f l) \<noteq> None"
  shows "store_leases (update_where p f (bd_leases db)) db = Inr (with_leases (update_where p f (bd_leases db)) db)"
proof -
  have same: "map cl_id (update_where p f (bd_leases db)) = map cl_id (bd_leases db)"
    "map (\<lambda>l. (cl_session l, cl_epoch l)) (update_where p f (bd_leases db)) =
      map (\<lambda>l. (cl_session l, cl_epoch l)) (bd_leases db)"
    using assms(2) by (simp_all add: update_where_map lease_key_def)
  have "filter interactive_lease (update_where p f ls) = filter (\<lambda>l. \<not> p l) (filter interactive_lease ls)" for ls
    using assms(2) by (induction ls) (simp_all add: update_where_def interactive_lease_def)
  then have "distinct (map cl_session (filter interactive_lease (update_where p f (bd_leases db))))"
    using tables_okD(5) [OF assms(1)] by (simp add: distinct_map_filter del: filter_filter)
  then show ?thesis
    using tables_okD [OF assms(1)] by (simp add: store_leases_def same r_then_def refuse_if_def with_leases_def)
qed

lemma expireStaleLeases_eq:
  assumes "session_ok db"
  shows "snd (expireStaleLeases db) = with_leases (update_where (stale_lease (es_now db))
      (\<lambda>l. l\<lparr>cl_revoked_at := Some (es_now db), cl_reason := Some ''lease expired''\<rparr>) (bd_leases db)) db"
  using revoking_stored [OF assms, of "\<lambda>l. l\<lparr>cl_revoked_at := Some (es_now db), cl_reason := Some ''lease expired''\<rparr>"]
  by (simp add: expireStaleLeases_def act_bind_def statement_def act_simps)

text \<open>The sweep revokes every lease that has run out, and that stops nobody: a command of the
  controller whose lease it revoked has the outcome it would have had before and sends the same request to the worker,
  because the command path compares with the session's own columns and never reads a lease.\<close>

theorem expired_lease_still_drives:
  assumes "session_ok db"
  shows "list_all (\<lambda>l. \<not> stale_lease (es_now db) l) (bd_leases (snd (expireStaleLeases db))) \<and>
    fst (runCommand answer input command (snd (expireStaleLeases db))) = fst (runCommand answer input command db) \<and>
    bd_calls (snd (runCommand answer input command (snd (expireStaleLeases db)))) =
      bd_calls (snd (runCommand answer input command db))"
proof -
  let ?ls = "update_where (stale_lease (es_now db))
    (\<lambda>l. l\<lparr>cl_revoked_at := Some (es_now db), cl_reason := Some ''lease expired''\<rparr>) (bd_leases db)"
  have swept: "snd (expireStaleLeases db) = with_leases ?ls db" by (rule expireStaleLeases_eq [OF assms])
  have "list_all (\<lambda>l. \<not> stale_lease (es_now db) l) ?ls"
    by (auto simp: update_where_def list_all_iff stale_lease_def)
  moreover have "runCommand answer input command (with_leases ?ls db) =
      map_prod id (with_leases ?ls) (runCommand answer input command db)"
    using blind_runCommand by (simp add: blind_def)
  ultimately show ?thesis by (simp add: swept) (simp add: with_leases_def)
qed

theorem expired_lease_still_drives_witness:
  "Call_command ''wkr_1'' sample_sid first_agent 1 4 (plain_command Click) \<in>
    set (bd_calls (snd (runCommand (Inr sample_result) (act_as first_agent 1 ''prj_1'') (plain_command Click)
      (snd (expireStaleLeases (with_session (sample_session READY (Some first_agent) 1)
        [(sample_lease first_agent 1 None)\<lparr>cl_expires_at := 1000500000\<rparr>]))))))"
proof -
  let ?db = "with_session (sample_session READY (Some first_agent) 1)
    [(sample_lease first_agent 1 None)\<lparr>cl_expires_at := 1000500000\<rparr>]"
  have "session_ok ?db"
    by (simp add: session_ok_def tables_ok_def log_ok_def stream_events_def stream_position_def session_consistent_def
        session_row_ok_def granted_def lease_key_def terminal_def deployment_defs interactive_lease_def)
  moreover have "Call_command ''wkr_1'' sample_sid first_agent 1 4 (plain_command Click) \<in>
      set (bd_calls (snd (runCommand (Inr sample_result) (act_as first_agent 1 ''prj_1'') (plain_command Click) ?db)))"
    by (simp add: log_eval table_eval lifecycle_eval control_eval deployment_defs)
  ultimately show ?thesis
    using expired_lease_still_drives [of ?db "Inr sample_result" "act_as first_agent 1 ''prj_1''" "plain_command Click"]
    by simp
qed

section \<open>An ended session is revived\<close>

text \<open>Nothing guards the end of a session against its worker. When the worker of a terminated or
  failed session reports it ready, the session is ready again under its old epoch, while its end stays
  recorded; from then on its last controller's commands pass the checks as before its end.\<close>

theorem ended_session_revived:
  assumes "session_ok db" "session_by_id sid db = Some b" "terminal (bs_status b)"
    and "applyWorkerReport revoker sid READY reason actor db = (Inr b', db')"
    and "ci_browserSessionId input = sid" "ci_projectId input = bs_project_id b"
    and "ci_controlEpoch input = bs_control_epoch b" "bs_current_controller b = Some (ci_controller input)"
    and "bc_command command = Click"
  shows "b' = b\<lparr>bs_status := READY\<rparr> \<and> bs_ended_at b' \<noteq> None \<and> session_by_id sid db' = Some b' \<and>
    authoriseBrowserCommand (command_context_of b' input db') command = None"
proof -
  obtain r db1 where set: "setStatus b READY actor (report_event_type READY)
      [(''reason'', nullable reason), (''reported_by'', JString ''browser_worker'')] db = (r, db1)"
    by (rule prod.exhaust)
  then have r: "r = ok" and db1: "db1 = db'" and found: "session_by_id sid db' = Some b'"
    using assms(2,4)
    by (cases r; simp add: applyWorkerReport_def act_bind_def act_simps get_session_def split: option.splits)+
  note rows = setStatus_ok(1) [OF set [unfolded r]]
  have id: "bs_id b = sid" using session_by_id_id [OF assms(2)] .
  have "session_by_id sid db1 = Some (with_status READY (es_now db) b)"
    using assms(2) unfolding session_by_id_def rows id
    by (rule find_update_where) (simp add: with_status_def id)
  then have b': "b' = b\<lparr>bs_status := READY\<rparr>" using found db1 by (simp add: with_status_def terminal_def)
  moreover have "bs_ended_at b \<noteq> None"
    using terminal_ended [OF assms(1) _ assms(3)] assms(2) by (auto simp: session_by_id_def dest: find_Some_in)
  moreover have "authoriseBrowserCommand (command_context_of b' input db') command = None"
    using assms(5-9) by (simp add: authoriseBrowserCommand_def command_context_of_def b' policyDenial_def
        reachesTheNetwork_def)
  ultimately show ?thesis using found by simp
qed

theorem ended_session_revived_witness:
  "session_by_id sample_sid (snd (applyWorkerReport True sample_sid READY None session_actor
      (with_session (sample_session TERMINATED (Some first_agent) 1) [sample_lease first_agent 1 (Some 1000500000)]))) =
    Some ((sample_session TERMINATED (Some first_agent) 1)\<lparr>bs_status := READY\<rparr>)"
proof -
  let ?b = "sample_session TERMINATED (Some first_agent) 1"
  let ?db = "with_session ?b [sample_lease first_agent 1 (Some 1000500000)]"
  let ?run = "applyWorkerReport True sample_sid READY None session_actor ?db"
  have ok: "session_ok ?db"
    by (simp add: session_ok_def tables_ok_def log_ok_def stream_events_def stream_position_def session_consistent_def
        session_row_ok_def granted_def lease_key_def terminal_def deployment_defs interactive_lease_def)
  have found: "session_by_id sample_sid ?db = Some ?b" by (simp add: session_by_id_def deployment_defs)
  have over: "terminal (bs_status ?b)" by (simp add: terminal_def sample_session_def)
  have run: "?run = (Inr (?b\<lparr>bs_status := READY\<rparr>), snd ?run)"
    by (simp add: log_eval table_eval lifecycle_eval control_eval deployment_defs)
  from ended_session_revived [OF ok found over run, of "act_as first_agent 1 ''prj_1''" "plain_command Click"]
  show ?thesis by (simp add: act_as_def sample_session_def plain_command_def)
qed

end
