(* ===== verification/Utf8.thy ===== *)
theory Utf8
  imports Identifiers
begin

text \<open>
  What the artefact checks use of the platform's text handling: \<open>Buffer.toString("utf8")\<close> with its
  replacement characters, \<open>Buffer.from(text, "utf8")\<close>, and the texts that \<open>JSON.parse\<close> accepts. A text is
  a list of code points.
\<close>

section \<open>Decoding and encoding\<close>

definition REPLACEMENT :: nat where
  "REPLACEMENT = 0xFFFD"

text \<open>For a leading byte: how many bytes follow, the range of the first of them, and the payload bits.\<close>

definition utf8_lead :: "nat \<Rightarrow> (nat \<times> nat \<times> nat \<times> nat) option" where
  "utf8_lead b =
     (if 0xC2 \<le> b \<and> b \<le> 0xDF then Some (1, 0x80, 0xBF, b - 0xC0)
      else if b = 0xE0 then Some (2, 0xA0, 0xBF, 0)
      else if b = 0xED then Some (2, 0x80, 0x9F, 0xD)
      else if 0xE1 \<le> b \<and> b \<le> 0xEF then Some (2, 0x80, 0xBF, b - 0xE0)
      else if b = 0xF0 then Some (3, 0x90, 0xBF, 0)
      else if b = 0xF4 then Some (3, 0x80, 0x8F, 4)
      else if 0xF1 \<le> b \<and> b \<le> 0xF3 then Some (3, 0x80, 0xBF, b - 0xF0)
      else None)"

text \<open>A byte out of range ends the sequence and is read again as the start of the next one.\<close>

fun utf8_follow :: "nat \<Rightarrow> nat \<Rightarrow> nat \<Rightarrow> nat \<Rightarrow> nat list \<Rightarrow> nat \<times> nat list" where
  "utf8_follow 0 lo hi point bs = (point, bs)"
| "utf8_follow (Suc n) lo hi point [] = (REPLACEMENT, [])"
| "utf8_follow (Suc n) lo hi point (b # bs) =
     (if lo \<le> b \<and> b \<le> hi then utf8_follow n 0x80 0xBF (point * 64 + (b - 0x80)) bs
      else (REPLACEMENT, b # bs))"

lemma utf8_follow_length: "length (snd (utf8_follow n lo hi point bs)) \<le> length bs"
  by (induction n lo hi point bs rule: utf8_follow.induct) auto

function utf8_decode :: "nat list \<Rightarrow> nat list" where
  "utf8_decode [] = []"
| "utf8_decode (b # bs) =
     (if b < 0x80 then b # utf8_decode bs
      else case utf8_lead b of
        None \<Rightarrow> REPLACEMENT # utf8_decode bs
      | Some (n, lo, hi, point) \<Rightarrow>
          (let next = utf8_follow n lo hi point bs in fst next # utf8_decode (snd next)))"
  by pat_completeness auto
termination
  by (relation "measure length") (simp_all add: utf8_follow_length le_imp_less_Suc)

definition utf8_encode :: "nat \<Rightarrow> nat list" where
  "utf8_encode c =
     (if c < 0x80 then [c]
      else if c < 0x800 then [0xC0 + c div 64, 0x80 + c mod 64]
      else if c < 0x10000 then [0xE0 + c div 4096, 0x80 + c div 64 mod 64, 0x80 + c mod 64]
      else [0xF0 + c div 262144, 0x80 + c div 4096 mod 64, 0x80 + c div 64 mod 64, 0x80 + c mod 64])"

definition byte_values :: "byte list \<Rightarrow> nat list" where
  "byte_values bytes = map unat bytes"

definition buffer_text :: "byte list \<Rightarrow> nat list" where
  "buffer_text bytes = utf8_decode (byte_values bytes)"

definition text_buffer :: "nat list \<Rightarrow> nat list" where
  "text_buffer points = concat (map utf8_encode points)"

text \<open>A code point that a well-formed text may hold: no surrogates.\<close>

definition scalar :: "nat \<Rightarrow> bool" where
  "scalar c \<longleftrightarrow> c < 0xD800 \<or> (0xE000 \<le> c \<and> c < 0x110000)"

section \<open>Decoding inverts encoding\<close>

lemma utf8_follow_some:
  "lo \<le> 0x80 + a \<Longrightarrow> 0x80 + a \<le> hi \<Longrightarrow> utf8_follow 1 lo hi p ((0x80 + a) # bs) = (p * 64 + a, bs)"
  "lo \<le> 0x80 + a \<Longrightarrow> 0x80 + a \<le> hi \<Longrightarrow> b < 64 \<Longrightarrow>
     utf8_follow 2 lo hi p ((0x80 + a) # (0x80 + b) # bs) = ((p * 64 + a) * 64 + b, bs)"
  "lo \<le> 0x80 + a \<Longrightarrow> 0x80 + a \<le> hi \<Longrightarrow> b < 64 \<Longrightarrow> c < 64 \<Longrightarrow>
     utf8_follow 3 lo hi p ((0x80 + a) # (0x80 + b) # (0x80 + c) # bs) = (((p * 64 + a) * 64 + b) * 64 + c, bs)"
  by (simp_all add: numeral_2_eq_2 numeral_3_eq_3)

lemma utf8_lead_some:
  "2 \<le> q \<Longrightarrow> q < 32 \<Longrightarrow> utf8_lead (0xC0 + q) = Some (1, 0x80, 0xBF, q)"
  "q < 16 \<Longrightarrow> utf8_lead (0xE0 + q) =
     Some (2, if q = 0 then 0xA0 else 0x80, if q = 13 then 0x9F else 0xBF, q)"
  "q < 5 \<Longrightarrow> utf8_lead (0xF0 + q) =
     Some (3, if q = 0 then 0x90 else 0x80, if q = 4 then 0x8F else 0xBF, q)"
  by (auto simp: utf8_lead_def)

lemma split_64: "(c :: nat) div 4096 = c div 64 div 64" "c div 262144 = c div 64 div 64 div 64"
  by (simp_all add: div_mult2_eq [symmetric])

lemma utf8_decode_sequence:
  assumes "0x80 \<le> b" "utf8_lead b = Some (n, lo, hi, p)" "utf8_follow n lo hi p bs = (c, rest)"
  shows "utf8_decode (b # bs) = c # utf8_decode rest"
  using assms by simp

lemma utf8_decode_encode:
  assumes "scalar c"
  shows "utf8_decode (utf8_encode c @ bs) = c # utf8_decode bs"
proof -
  let ?a = "c div 64" let ?l = "c mod 64"
  have l: "?l < 64" "?a mod 64 < 64" "?a div 64 mod 64 < 64" by simp_all
  have c: "?a * 64 + ?l = c" "?a div 64 * 64 + ?a mod 64 = ?a"
    "?a div 64 div 64 * 64 + ?a div 64 mod 64 = ?a div 64" by simp_all
  consider "c < 0x80" | "0x80 \<le> c" "c < 0x800" | "0x800 \<le> c" "c < 0x10000" | "0x10000 \<le> c" "c < 0x110000"
    using assms unfolding scalar_def by linarith
  then show ?thesis
  proof cases
    case 1
    then show ?thesis by (simp add: utf8_encode_def)
  next
    case 2
    then have q: "2 \<le> ?a" "?a < 32" by linarith+
    show ?thesis
      using 2 utf8_decode_sequence [OF _ utf8_lead_some(1) [OF q] utf8_follow_some(1) [of _ ?l]] l(1) c
      by (simp add: utf8_encode_def)
  next
    case 3
    let ?q = "?a div 64" let ?m = "?a mod 64"
    have q: "?q < 16" using 3 by linarith
    have "?q = 0 \<Longrightarrow> 32 \<le> ?m" using 3 c(2) by linarith
    moreover have "?q = 13 \<Longrightarrow> ?m < 32" using assms c(1,2) unfolding scalar_def by linarith
    ultimately have "utf8_follow 2 (if ?q = 0 then 0xA0 else 0x80) (if ?q = 13 then 0x9F else 0xBF) ?q
        ((0x80 + ?m) # (0x80 + ?l) # bs) = ((?q * 64 + ?m) * 64 + ?l, bs)"
      using l by (intro utf8_follow_some(2)) auto
    from utf8_decode_sequence [OF _ utf8_lead_some(2) [OF q] this] show ?thesis
      using 3 c by (simp add: utf8_encode_def split_64)
  next
    case 4
    let ?q = "?a div 64 div 64" let ?h = "?a div 64 mod 64" let ?m = "?a mod 64"
    have q: "?q < 5" using 4 by linarith
    have "?q = 0 \<Longrightarrow> 16 \<le> ?h" using 4 c by linarith
    moreover have "?q = 4 \<Longrightarrow> ?h < 16" using 4 c by linarith
    ultimately have "utf8_follow 3 (if ?q = 0 then 0x90 else 0x80) (if ?q = 4 then 0x8F else 0xBF) ?q
        ((0x80 + ?h) # (0x80 + ?m) # (0x80 + ?l) # bs) = (((?q * 64 + ?h) * 64 + ?m) * 64 + ?l, bs)"
      using l by (intro utf8_follow_some(3)) auto
    from utf8_decode_sequence [OF _ utf8_lead_some(3) [OF q] this] show ?thesis
      using 4 c by (simp add: utf8_encode_def split_64)
  qed
qed

lemma decode_text_buffer: "list_all scalar points \<Longrightarrow> utf8_decode (text_buffer points) = points"
  by (induction points) (simp_all add: text_buffer_def utf8_decode_encode)

section \<open>Decoding gives well-formed text\<close>

lemma follow_bounds:
  assumes "utf8_follow n lo hi p bs = (c, rest)" "c \<noteq> REPLACEMENT" "0x80 \<le> lo" "hi \<le> 0xBF" "0 < n"
  shows "(p * 64 + (lo - 0x80)) * 64 ^ (n - 1) \<le> c \<and> c < (p * 64 + (hi - 0x80) + 1) * 64 ^ (n - 1)"
  using assms
proof (induction n lo hi p bs rule: utf8_follow.induct)
  case (3 n lo hi p b bs)
  show ?case
  proof (cases n)
    case 0
    with 3 show ?thesis by (auto split: if_splits)
  next
    case (Suc m)
    let ?p = "p * 64 + (b - 0x80)"
    have in_range: "lo \<le> b" "b \<le> hi" using 3 by (auto split: if_splits)
    then have inner: "?p * 64 * 64 ^ m \<le> c" "c < (?p * 64 + 64) * 64 ^ m"
      using 3 Suc by (simp_all add: add.commute split: if_splits)
    have lower: "(p * 64 + (lo - 0x80)) * 64 ^ n \<le> ?p * 64 * 64 ^ m"
      using in_range Suc by simp
    have upper: "(?p * 64 + 64) * 64 ^ m \<le> (p * 64 + (hi - 0x80) + 1) * 64 ^ n"
    proof -
      have "?p + 1 \<le> p * 64 + (hi - 0x80) + 1" using in_range by simp
      then have "(?p + 1) * 64 ^ n \<le> (p * 64 + (hi - 0x80) + 1) * 64 ^ n" by (rule mult_le_mono1)
      then show ?thesis by (simp add: Suc algebra_simps)
    qed
    show ?thesis
      using order.trans [OF lower inner(1)] less_le_trans [OF inner(2) upper] by (simp only: diff_Suc_1)
  qed
qed (simp_all add: REPLACEMENT_def)

lemma lead_scalar:
  assumes "utf8_lead b = Some (n, lo, hi, p)"
  shows "0 < n" "0x80 \<le> lo" "hi \<le> 0xBF"
    and "(p * 64 + (lo - 0x80)) * 64 ^ (n - 1) \<le> c \<Longrightarrow> c < (p * 64 + (hi - 0x80) + 1) * 64 ^ (n - 1) \<Longrightarrow> scalar c"
  using assms by (auto simp: utf8_lead_def scalar_def split: if_splits)

lemma decode_scalar: "list_all scalar (utf8_decode bs)"
proof (induction bs rule: utf8_decode.induct)
  case (2 b bs)
  have replacement: "scalar REPLACEMENT" by (simp add: scalar_def REPLACEMENT_def)
  show ?case
  proof (cases "b < 0x80")
    case True
    then show ?thesis using 2 by (simp add: scalar_def)
  next
    case False
    show ?thesis
    proof (cases "utf8_lead b")
      case None
      with False 2 replacement show ?thesis by simp
    next
      case (Some lead)
      obtain n lo hi p where lead: "lead = (n, lo, hi, p)" by (cases lead)
      obtain c rest where follow: "utf8_follow n lo hi p bs = (c, rest)" by (rule prod.exhaust)
      have "scalar c"
        using follow_bounds [OF follow _ lead_scalar(2,3,1)] lead_scalar(4) Some lead replacement by blast
      moreover have "list_all scalar (utf8_decode rest)"
        using 2(3) [OF False Some lead [symmetric] refl refl refl] follow by simp
      ultimately show ?thesis using False Some lead follow by simp
    qed
  qed
qed simp

text \<open>The check by round trip accepts exactly the encodings of well-formed texts.\<close>

lemma round_trip_iff:
  "text_buffer (utf8_decode bs) = bs \<longleftrightarrow> (\<exists>points. list_all scalar points \<and> bs = text_buffer points)"
  using decode_scalar decode_text_buffer by metis

section \<open>Texts that parse as JSON\<close>

text \<open>
  The grammar of \<open>JSON.parse\<close> as an automaton with a stack: \<open>stack\<close> holds an entry for every array or
  object that is open, innermost first. A number is followed by the character that ends it.
\<close>

datatype json_scope = Json_array | Json_object

datatype json_mode =
    Value_due
  | Value_or_close
  | Key_due
  | Key_or_close
  | Colon_due
  | Value_done
  | String_open bool
  | Escape_open bool
  | Hex_open bool nat
  | Literal_open "nat list"
  | Minus_read
  | Zero_read
  | Digits_read
  | Point_read
  | Fraction_read
  | Exponent_read
  | Exponent_sign_read
  | Exponent_digits_read

definition json_space :: "nat \<Rightarrow> bool" where
  "json_space c \<longleftrightarrow> c \<in> {0x20, 0x09, 0x0A, 0x0D}"

definition is_digit :: "nat \<Rightarrow> bool" where
  "is_digit c \<longleftrightarrow> 0x30 \<le> c \<and> c \<le> 0x39"

definition is_hex :: "nat \<Rightarrow> bool" where
  "is_hex c \<longleftrightarrow> is_digit c \<or> (0x41 \<le> c \<and> c \<le> 0x46) \<or> (0x61 \<le> c \<and> c \<le> 0x66)"

definition points :: "string \<Rightarrow> nat list" where
  "points s = map of_char s"

definition start_value :: "nat \<Rightarrow> json_scope list \<Rightarrow> (json_mode \<times> json_scope list) option" where
  "start_value c stack =
     (if c = of_char CHR ''['' then Some (Value_or_close, Json_array # stack)
      else if c = of_char CHR ''{'' then Some (Key_or_close, Json_object # stack)
      else if c = 0x22 then Some (String_open False, stack)
      else if c = of_char CHR ''-'' then Some (Minus_read, stack)
      else if c = of_char CHR ''0'' then Some (Zero_read, stack)
      else if is_digit c then Some (Digits_read, stack)
      else if c = of_char CHR ''t'' then Some (Literal_open (points ''rue''), stack)
      else if c = of_char CHR ''f'' then Some (Literal_open (points ''alse''), stack)
      else if c = of_char CHR ''n'' then Some (Literal_open (points ''ull''), stack)
      else None)"

text \<open>After a complete value: a separator or a close that fits the innermost scope.\<close>

fun after_value :: "nat \<Rightarrow> json_scope list \<Rightarrow> (json_mode \<times> json_scope list) option" where
  "after_value c [] = None"
| "after_value c (Json_array # stack) =
     (if c = of_char CHR '','' then Some (Value_due, Json_array # stack)
      else if c = of_char CHR '']'' then Some (Value_done, stack) else None)"
| "after_value c (Json_object # stack) =
     (if c = of_char CHR '','' then Some (Key_due, Json_object # stack)
      else if c = of_char CHR ''}'' then Some (Value_done, stack) else None)"

definition number_end :: "nat \<Rightarrow> json_scope list \<Rightarrow> (json_mode \<times> json_scope list) option" where
  "number_end c stack = (if json_space c then Some (Value_done, stack) else after_value c stack)"

definition exponent_mark :: "nat \<Rightarrow> bool" where
  "exponent_mark c \<longleftrightarrow> c = of_char CHR ''e'' \<or> c = of_char CHR ''E''"

definition point_mark :: "nat \<Rightarrow> bool" where
  "point_mark c \<longleftrightarrow> c = of_char CHR ''.''"

fun json_step :: "nat \<Rightarrow> json_mode \<times> json_scope list \<Rightarrow> (json_mode \<times> json_scope list) option" where
  "json_step c (Value_due, stack) =
     (if json_space c then Some (Value_due, stack) else start_value c stack)"
| "json_step c (Value_or_close, stack) =
     (if json_space c then Some (Value_or_close, stack)
      else if c = of_char CHR '']'' then Some (Value_done, tl stack) else start_value c stack)"
| "json_step c (Key_due, stack) =
     (if json_space c then Some (Key_due, stack)
      else if c = 0x22 then Some (String_open True, stack) else None)"
| "json_step c (Key_or_close, stack) =
     (if json_space c then Some (Key_or_close, stack)
      else if c = of_char CHR ''}'' then Some (Value_done, tl stack)
      else if c = 0x22 then Some (String_open True, stack) else None)"
| "json_step c (Colon_due, stack) =
     (if json_space c then Some (Colon_due, stack)
      else if c = of_char CHR '':'' then Some (Value_due, stack) else None)"
| "json_step c (Value_done, stack) =
     (if json_space c then Some (Value_done, stack) else after_value c stack)"
| "json_step c (String_open key, stack) =
     (if c = 0x22 then Some (if key then Colon_due else Value_done, stack)
      else if c = 0x5C then Some (Escape_open key, stack)
      else if c < 0x20 then None else Some (String_open key, stack))"
| "json_step c (Escape_open key, stack) =
     (if c \<in> set (0x22 # 0x5C # points ''/bfnrt'') then Some (String_open key, stack)
      else if c = of_char CHR ''u'' then Some (Hex_open key 4, stack) else None)"
| "json_step c (Hex_open key n, stack) =
     (if is_hex c then Some (if n \<le> 1 then String_open key else Hex_open key (n - 1), stack) else None)"
| "json_step c (Literal_open rest, stack) =
     (case rest of [] \<Rightarrow> None
      | d # ds \<Rightarrow> if c = d then Some (if ds = [] then Value_done else Literal_open ds, stack) else None)"
| "json_step c (Minus_read, stack) =
     (if c = of_char CHR ''0'' then Some (Zero_read, stack)
      else if is_digit c then Some (Digits_read, stack) else None)"
| "json_step c (Zero_read, stack) =
     (if point_mark c then Some (Point_read, stack)
      else if exponent_mark c then Some (Exponent_read, stack) else number_end c stack)"
| "json_step c (Digits_read, stack) =
     (if is_digit c then Some (Digits_read, stack)
      else if point_mark c then Some (Point_read, stack)
      else if exponent_mark c then Some (Exponent_read, stack) else number_end c stack)"
| "json_step c (Point_read, stack) = (if is_digit c then Some (Fraction_read, stack) else None)"
| "json_step c (Fraction_read, stack) =
     (if is_digit c then Some (Fraction_read, stack)
      else if exponent_mark c then Some (Exponent_read, stack) else number_end c stack)"
| "json_step c (Exponent_read, stack) =
     (if c = of_char CHR ''+'' \<or> c = of_char CHR ''-'' then Some (Exponent_sign_read, stack)
      else if is_digit c then Some (Exponent_digits_read, stack) else None)"
| "json_step c (Exponent_sign_read, stack) =
     (if is_digit c then Some (Exponent_digits_read, stack) else None)"
| "json_step c (Exponent_digits_read, stack) =
     (if is_digit c then Some (Exponent_digits_read, stack) else number_end c stack)"

fun json_run :: "nat list \<Rightarrow> json_mode \<times> json_scope list \<Rightarrow> (json_mode \<times> json_scope list) option" where
  "json_run [] s = Some s"
| "json_run (c # cs) s = (case json_step c s of None \<Rightarrow> None | Some s' \<Rightarrow> json_run cs s')"

definition parses_as_json :: "nat list \<Rightarrow> bool" where
  "parses_as_json text =
     (case json_run text (Value_due, []) of
        Some (mode, []) \<Rightarrow> mode \<in> {Value_done, Zero_read, Digits_read, Fraction_read, Exponent_digits_read}
      | _ \<Rightarrow> False)"

lemma json_run_append: "json_run (xs @ ys) s = Option.bind (json_run xs s) (json_run ys)"
  by (induction xs arbitrary: s) (auto split: option.splits)

end
