(* ===== verification/Artefact_Content.thy ===== *)
theory Artefact_Content
  imports Utf8 Events
begin

text \<open>
  What an artefact may contain (\<open>modules/artefacts/kinds.ts\<close>) and what its bytes are
  (\<open>modules/artefacts/content.ts\<close>): the policy per kind, the recognition of bytes, the check of a declared
  media type, the size of a picture from its header, and the check of a display name.
\<close>

section \<open>The policy per kind\<close>

definition STAGE_1_ARTEFACT_KINDS :: "string list" where
  "STAGE_1_ARTEFACT_KINDS =
     [''screenshot'', ''thumbnail'', ''dom_snapshot'', ''accessibility_snapshot'', ''review_export'']"

definition DEFERRED_ARTEFACT_KINDS :: "string list" where
  "DEFERRED_ARTEFACT_KINDS = [''trace'', ''har'', ''video'', ''console_log'', ''network_log'']"

datatype artefact_disposition = Inline | Attachment

record kind_policy =
  kp_contentTypes :: "string list"
  kp_retentionClass :: string
  kp_thumbnail :: bool

definition KIND_POLICY :: "(string \<times> kind_policy) list" where
  "KIND_POLICY =
     [(''screenshot'', \<lparr>kp_contentTypes = [''image/png'', ''image/jpeg''],
        kp_retentionClass = ''action_screenshots'', kp_thumbnail = True\<rparr>),
      (''thumbnail'', \<lparr>kp_contentTypes = [''image/png''],
        kp_retentionClass = ''action_screenshots'', kp_thumbnail = False\<rparr>),
      (''dom_snapshot'', \<lparr>kp_contentTypes = [''text/html''],
        kp_retentionClass = ''console_and_network_logs'', kp_thumbnail = False\<rparr>),
      (''accessibility_snapshot'', \<lparr>kp_contentTypes = [''application/json''],
        kp_retentionClass = ''console_and_network_logs'', kp_thumbnail = False\<rparr>),
      (''review_export'', \<lparr>kp_contentTypes = [''application/json'', ''text/plain''],
        kp_retentionClass = ''verification_evidence'', kp_thumbnail = False\<rparr>)]"

definition ACTIVE_CONTENT_TYPES :: "string list" where
  "ACTIVE_CONTENT_TYPES = [''text/html'', ''image/svg+xml'']"

definition IMAGE_CONTENT_TYPES :: "string list" where
  "IMAGE_CONTENT_TYPES = [''image/png'', ''image/jpeg'']"

definition isStage1Kind :: "string \<Rightarrow> bool" where
  "isStage1Kind kind \<longleftrightarrow> kind \<in> set STAGE_1_ARTEFACT_KINDS"

definition isDeferredKind :: "string \<Rightarrow> bool" where
  "isDeferredKind kind \<longleftrightarrow> kind \<in> set DEFERRED_ARTEFACT_KINDS"

definition contentTypesForKind :: "string \<Rightarrow> string list" where
  "contentTypesForKind kind =
     (if isStage1Kind kind
      then (case map_of KIND_POLICY kind of Some p \<Rightarrow> kp_contentTypes p | None \<Rightarrow> []) else [])"

definition acceptedContentTypes :: "string list" where
  "acceptedContentTypes = rev (remdups (rev (concat (map contentTypesForKind STAGE_1_ARTEFACT_KINDS))))"

definition defaultRetentionClassForKind :: "string \<Rightarrow> string" where
  "defaultRetentionClassForKind kind =
     (if isStage1Kind kind
      then (case map_of KIND_POLICY kind of Some p \<Rightarrow> kp_retentionClass p | None \<Rightarrow> ''action_screenshots'')
      else ''action_screenshots'')"

definition kindWantsThumbnail :: "string \<Rightarrow> bool" where
  "kindWantsThumbnail kind \<longleftrightarrow>
     isStage1Kind kind \<and> (case map_of KIND_POLICY kind of Some p \<Rightarrow> kp_thumbnail p | None \<Rightarrow> False)"

definition isActiveContentType :: "string \<Rightarrow> bool" where
  "isActiveContentType contentType \<longleftrightarrow> contentType \<in> set ACTIVE_CONTENT_TYPES"

definition dispositionFor :: "string \<Rightarrow> artefact_disposition" where
  "dispositionFor contentType = (if isActiveContentType contentType then Attachment else Inline)"

section \<open>Recognising bytes\<close>

definition PNG_SIGNATURE :: "byte list" where
  "PNG_SIGNATURE = [0x89, 0x50, 0x4E, 0x47, 0x0D, 0x0A, 0x1A, 0x0A]"

text \<open>\<open>toString("latin1")\<close>: each byte is a character.\<close>

definition latin1 :: "byte list \<Rightarrow> string" where
  "latin1 bytes = map (\<lambda>b. char_of (unat b)) bytes"

definition js_white :: "nat \<Rightarrow> bool" where
  "js_white c \<longleftrightarrow>
     c \<in> {0x9, 0xA, 0xB, 0xC, 0xD, 0x20, 0xA0, 0x1680, 0x2028, 0x2029, 0x202F, 0x205F, 0x3000, 0xFEFF} \<or>
     (0x2000 \<le> c \<and> c \<le> 0x200A)"

text \<open>
  \<open>toLowerCase\<close> on the letters that occur in the words the prefix is compared with. No other
  character has a lower case that contains one of them.
\<close>

definition lower_point :: "nat \<Rightarrow> nat" where
  "lower_point c = (if 0x41 \<le> c \<and> c \<le> 0x5A then c + 32 else c)"

fun drop_mark :: "nat list \<Rightarrow> nat list" where
  "drop_mark [] = []"
| "drop_mark (c # cs) = (if c = 0xFEFF then cs else c # cs)"

definition markupPrefix :: "byte list \<Rightarrow> nat list" where
  "markupPrefix bytes = map lower_point (dropWhile js_white (drop_mark (buffer_text (take 1024 bytes))))"

fun text_begins :: "nat list \<Rightarrow> nat list \<Rightarrow> bool" where
  "text_begins [] text = True"
| "text_begins (p # ps) [] = False"
| "text_begins (p # ps) (c # cs) = (p = c \<and> text_begins ps cs)"

fun text_includes :: "nat list \<Rightarrow> nat list \<Rightarrow> bool" where
  "text_includes word [] = (word = [])"
| "text_includes word (c # cs) = (text_begins word (c # cs) \<or> text_includes word cs)"

definition sniffContentType :: "byte list \<Rightarrow> string" where
  "sniffContentType bytes =
     (if length bytes \<ge> 8 \<and> take 8 bytes = PNG_SIGNATURE then ''image/png''
      else if length bytes \<ge> 3 \<and> bytes ! 0 = 0xFF \<and> bytes ! 1 = 0xD8 \<and> bytes ! 2 = 0xFF then ''image/jpeg''
      else if length bytes \<ge> 6 \<and> starts_with ''GIF8'' (latin1 (take 6 bytes)) then ''image/gif''
      else if length bytes \<ge> 12 \<and> latin1 (take 4 bytes) = ''RIFF'' \<and> latin1 (take 4 (drop 8 bytes)) = ''WEBP''
      then ''image/webp''
      else (let prefix = markupPrefix bytes in
        if text_begins (points ''<?xml'') prefix \<or> text_begins (points ''<svg'') prefix
        then (if text_includes (points ''<svg'') prefix then ''image/svg+xml'' else ''text/html'')
        else if text_begins (points ''<!doctype html'') prefix \<or> text_begins (points ''<html'') prefix \<or>
          text_begins (points ''<'') prefix
        then ''text/html'' else ''unknown''))"

definition validUtf8 :: "byte list \<Rightarrow> bool" where
  "validUtf8 bytes \<longleftrightarrow> text_buffer (buffer_text bytes) = byte_values bytes"

text \<open>The reason why bytes do not satisfy their declared type, or \<open>None\<close>. Message texts are data.\<close>

definition contentTypeMismatch :: "string \<Rightarrow> byte list \<Rightarrow> string option" where
  "contentTypeMismatch declared bytes =
     (let sniffed = sniffContentType bytes;
          other = Some (''The uploaded bytes are '' @ sniffed @ '', not the declared '' @ declared @ ''.'')
      in if declared = ''image/png'' \<or> declared = ''image/jpeg''
         then (if sniffed = declared then None else other)
         else if declared = ''text/html''
         then (if sniffed \<noteq> ''text/html'' \<and> sniffed \<noteq> ''unknown'' then other
               else if \<not> text_begins (points ''<'') (markupPrefix bytes)
               then Some ''The uploaded bytes are not an HTML document: a DOM snapshot must begin with markup.''
               else if validUtf8 bytes then None else Some ''The uploaded HTML is not valid UTF-8.'')
         else if declared = ''application/json''
         then (if sniffed \<noteq> ''unknown'' then other
               else if \<not> validUtf8 bytes then Some ''The uploaded JSON is not valid UTF-8.''
               else if parses_as_json (buffer_text bytes) then None
               else Some ''The uploaded bytes are not valid JSON.'')
         else if declared = ''text/plain''
         then (if sniffed \<noteq> ''unknown'' then other
               else if \<not> validUtf8 bytes then Some ''The uploaded text is not valid UTF-8.''
               else if text_begins (points ''<'') (markupPrefix bytes)
               then Some ''The uploaded text begins with markup and would be sniffed as a document, not as text.''
               else None)
         else Some (declared @ '' is not a media type this artefact store accepts.''))"

section \<open>Measuring a picture\<close>

record image_dimensions =
  im_widthPx :: nat
  im_heightPx :: nat

definition uint16_be :: "byte list \<Rightarrow> nat \<Rightarrow> nat" where
  "uint16_be bytes i = unat (bytes ! i) * 256 + unat (bytes ! (i + 1))"

definition uint32_be :: "byte list \<Rightarrow> nat \<Rightarrow> nat" where
  "uint32_be bytes i = uint16_be bytes i * 65536 + uint16_be bytes (i + 2)"

definition extent :: "nat \<Rightarrow> nat \<Rightarrow> image_dimensions option" where
  "extent width height =
     (if width = 0 \<or> height = 0 then None else Some \<lparr>im_widthPx = width, im_heightPx = height\<rparr>)"

definition pngDimensions :: "byte list \<Rightarrow> image_dimensions option" where
  "pngDimensions bytes =
     (if length bytes < 24 then None
      else if take 8 bytes \<noteq> PNG_SIGNATURE then None
      else if latin1 (take 4 (drop 12 bytes)) \<noteq> ''IHDR'' then None
      else extent (uint32_be bytes 16) (uint32_be bytes 20))"

definition isStartOfFrame :: "nat \<Rightarrow> bool" where
  "isStartOfFrame marker \<longleftrightarrow>
     0xC0 \<le> marker \<and> marker \<le> 0xCF \<and> marker \<noteq> 0xC4 \<and> marker \<noteq> 0xC8 \<and> marker \<noteq> 0xCC"

text \<open>The loop over the segments: every turn moves the offset forward.\<close>

function jpeg_segments :: "byte list \<Rightarrow> nat \<Rightarrow> image_dimensions option" where
  "jpeg_segments bytes offset =
     (if offset + 9 < length bytes
      then if bytes ! offset \<noteq> 0xFF then jpeg_segments bytes (offset + 1)
        else (let marker = unat (bytes ! (offset + 1)) in
          if marker = 0xFF then jpeg_segments bytes (offset + 1)
          else if marker = 0xD8 \<or> (0xD0 \<le> marker \<and> marker \<le> 0xD9) then jpeg_segments bytes (offset + 2)
          else if isStartOfFrame marker
          then extent (uint16_be bytes (offset + 7)) (uint16_be bytes (offset + 5))
          else (let len = uint16_be bytes (offset + 2) in
            if len < 2 then None else jpeg_segments bytes (offset + 2 + len)))
      else None)"
  by pat_completeness auto
termination
  by (relation "measure (\<lambda>(bytes, offset). length bytes - offset)") auto

declare jpeg_segments.simps [simp del]

definition jpegDimensions :: "byte list \<Rightarrow> image_dimensions option" where
  "jpegDimensions bytes =
     (if length bytes < 4 \<or> bytes ! 0 \<noteq> 0xFF \<or> bytes ! 1 \<noteq> 0xD8 then None else jpeg_segments bytes 2)"

definition measureImage :: "string \<Rightarrow> byte list \<Rightarrow> image_dimensions option" where
  "measureImage contentType bytes =
     (if contentType = ''image/png'' then pngDimensions bytes
      else if contentType = ''image/jpeg'' then jpegDimensions bytes else None)"

section \<open>Display names\<close>

definition label_char :: "char \<Rightarrow> bool" where
  "label_char c \<longleftrightarrow>
     (CHR ''A'' \<le> c \<and> c \<le> CHR ''Z'') \<or> (CHR ''a'' \<le> c \<and> c \<le> CHR ''z'') \<or> (CHR ''0'' \<le> c \<and> c \<le> CHR ''9'') \<or>
     c = CHR ''.'' \<or> c = CHR ''_'' \<or> c = CHR ''-''"

definition label_start :: "char \<Rightarrow> bool" where
  "label_start c \<longleftrightarrow> label_char c \<and> c \<noteq> CHR ''.'' \<and> c \<noteq> CHR ''_'' \<and> c \<noteq> CHR ''-''"

definition isSafeFilenameLabel :: "string \<Rightarrow> bool" where
  "isSafeFilenameLabel label \<longleftrightarrow>
     \<not> (length label = 0 \<or> length label > 128) \<and>
     (case label of [] \<Rightarrow> False | c # cs \<Rightarrow> label_start c \<and> list_all label_char cs) \<and>
     \<not> has_infix ''..'' label"

section \<open>Lemmas\<close>

text \<open>The first code point of bytes that do not start a well-formed sequence.\<close>

lemma decode_bad_lead: "0x80 \<le> b \<Longrightarrow> utf8_lead b = None \<Longrightarrow> utf8_decode (b # bs) = REPLACEMENT # utf8_decode bs"
  by simp

lemma replacement_prefix:
  assumes "bytes = b # bs" "0x80 \<le> unat b" "utf8_lead (unat b) = None"
  shows "\<not> text_begins (points ''<'') (markupPrefix bytes)"
proof -
  have "buffer_text (take 1024 bytes) = REPLACEMENT # utf8_decode (byte_values (take 1023 bs))"
    using assms decode_bad_lead by (simp add: buffer_text_def byte_values_def)
  then show ?thesis
    by (simp add: markupPrefix_def REPLACEMENT_def js_white_def lower_point_def points_def)
qed

lemma sniffed_markup:
  assumes "text_begins (points ''<'') (markupPrefix bytes)"
  shows "sniffContentType bytes \<noteq> ''unknown''"
  using assms by (auto simp: sniffContentType_def Let_def)

lemma sniffed_image_bytes:
  assumes "sniffContentType bytes = ''image/png'' \<or> sniffContentType bytes = ''image/jpeg''"
  shows "(length bytes \<ge> 8 \<and> take 8 bytes = PNG_SIGNATURE) \<or> (length bytes \<ge> 3 \<and> bytes ! 0 = 0xFF)"
  using assms by (auto simp: sniffContentType_def Let_def split: if_splits)

lemma extent_positive: "extent w h = Some d \<Longrightarrow> 0 < im_widthPx d \<and> 0 < im_heightPx d \<and> im_widthPx d = w \<and> im_heightPx d = h"
  by (auto simp: extent_def split: if_splits)

lemma uint16_bound: "uint16_be bytes i < 65536"
proof -
  have "unat (bytes ! i) < 256" "unat (bytes ! (i + 1)) < 256" by (rule unat_byte_less)+
  then show ?thesis unfolding uint16_be_def by linarith
qed

lemma uint32_bound: "uint32_be bytes i < 4294967296"
proof -
  have "uint16_be bytes i \<le> 65535" "uint16_be bytes (i + 2) \<le> 65535" using uint16_bound [of bytes i] uint16_bound [of bytes "i + 2"] by linarith+
  then show ?thesis unfolding uint32_be_def by linarith
qed

lemma jpeg_segments_bound:
  "jpeg_segments bytes offset = Some d \<Longrightarrow>
     0 < im_widthPx d \<and> im_widthPx d < 65536 \<and> 0 < im_heightPx d \<and> im_heightPx d < 65536"
proof (induction bytes offset rule: jpeg_segments.induct)
  case (1 bytes offset)
  then show ?case
    unfolding jpeg_segments.simps [of bytes offset]
    using uint16_bound extent_positive by (fastforce simp: Let_def split: if_splits)
qed

end
