(* ===== verification/Artefact_Store.thy ===== *)
theory Artefact_Store
  imports Artefact_Content
begin

text \<open>
  Where the bytes of artefacts are: the content-addressed key (\<open>store/driver.ts\<close>) and the driver that
  keeps the objects as files (\<open>store/filesystem.ts\<close>). A write goes to a temporary file and is renamed,
  so the files under the key tree change in one step. What a driver promises its client is the locale
  \<open>content_store\<close>, and the file driver is shown to keep the promise.

  \<open>sha256\<close>, from the platform's cryptography, is an argument.
\<close>

section \<open>Keys\<close>

definition hex_char :: "char \<Rightarrow> bool" where
  "hex_char c \<longleftrightarrow> (CHR ''0'' \<le> c \<and> c \<le> CHR ''9'') \<or> (CHR ''a'' \<le> c \<and> c \<le> CHR ''f'')"

definition digest_shape :: "string \<Rightarrow> bool" where
  "digest_shape d \<longleftrightarrow> length d = 64 \<and> list_all hex_char d"

datatype store_error = ArtefactStoreError string

definition keyForDigest :: "string \<Rightarrow> store_error + string" where
  "keyForDigest sha256 =
     (if digest_shape sha256 then Inr (''sha256/'' @ take 2 sha256 @ ''/'' @ drop 2 sha256)
      else Inl (ArtefactStoreError ''an artefact key is derived from a lowercase SHA-256 digest''))"

definition ARTEFACT_KEY_PATTERN :: "string \<Rightarrow> bool" where
  "ARTEFACT_KEY_PATTERN key \<longleftrightarrow>
     take 7 key = ''sha256/'' \<and> list_all hex_char (take 2 (drop 7 key)) \<and> take 1 (drop 9 key) = ''/'' \<and>
     length key = 72 \<and> list_all hex_char (drop 10 key)"

definition assertArtefactKey :: "string \<Rightarrow> store_error + string" where
  "assertArtefactKey key =
     (if ARTEFACT_KEY_PATTERN key then Inr key
      else Inl (ArtefactStoreError (''artefact key '' @ key @ '' is not a content-addressed key'')))"

section \<open>The file driver\<close>

text \<open>The files under the key tree, and whether the volume can be written and read at present.\<close>

record artefact_files =
  fs_files :: "string \<rightharpoonup> byte list"
  fs_writable :: bool
  fs_readable :: bool

record stored_object =
  so_key :: string
  so_sizeBytes :: nat
  so_sha256 :: string

definition put_object ::
  "(byte list \<Rightarrow> string) \<Rightarrow> byte list \<Rightarrow> artefact_files \<Rightarrow> (store_error + stored_object) \<times> artefact_files" where
  "put_object sha256 bytes fs =
     (let digest = sha256 bytes in
      case r_bind (keyForDigest digest) assertArtefactKey of
        Inl e \<Rightarrow> (Inl e, fs)
      | Inr key \<Rightarrow>
          if \<not> fs_writable fs then (Inl (ArtefactStoreError ''artefact could not be stored''), fs)
          else (Inr \<lparr>so_key = key, so_sizeBytes = length bytes, so_sha256 = digest\<rparr>,
            fs\<lparr>fs_files := (fs_files fs)(key \<mapsto> bytes)\<rparr>))"

definition get_object :: "string \<Rightarrow> artefact_files \<Rightarrow> store_error + byte list" where
  "get_object key fs =
     r_bind (assertArtefactKey key) (\<lambda>path.
     case (if fs_readable fs then fs_files fs path else None) of
       None \<Rightarrow> Inl (ArtefactStoreError (''artefact '' @ key @ '' could not be read''))
     | Some bytes \<Rightarrow> Inr bytes)"

definition verify_object :: "(byte list \<Rightarrow> string) \<Rightarrow> string \<Rightarrow> artefact_files \<Rightarrow> store_error + stored_object" where
  "verify_object sha256 key fs =
     r_bind (assertArtefactKey key) (\<lambda>path.
     case (if fs_readable fs then fs_files fs path else None) of
       None \<Rightarrow> Inl (ArtefactStoreError (''artefact '' @ key @ '' is not stored''))
     | Some bytes \<Rightarrow> Inr \<lparr>so_key = key, so_sizeBytes = length bytes, so_sha256 = sha256 bytes\<rparr>)"

text \<open>\<open>rm\<close> with \<open>force\<close>: a missing file is no error.\<close>

definition delete_object :: "string \<Rightarrow> artefact_files \<Rightarrow> (store_error + unit) \<times> artefact_files" where
  "delete_object key fs =
     (case assertArtefactKey key of
        Inl e \<Rightarrow> (Inl e, fs)
      | Inr path \<Rightarrow>
          if \<not> fs_writable fs then (Inl (ArtefactStoreError ''rm''), fs)
          else (ok, fs\<lparr>fs_files := (fs_files fs)(path := None)\<rparr>))"

definition probeReadable :: "artefact_files \<Rightarrow> store_error + unit" where
  "probeReadable fs =
     refuse_if (\<not> fs_readable fs) (ArtefactStoreError ''the filesystem artefact store is not readable'')"

definition probe :: "artefact_files \<Rightarrow> store_error + unit" where
  "probe fs =
     refuse_if (\<not> (fs_writable fs \<and> fs_readable fs))
       (ArtefactStoreError ''the filesystem artefact store is not writable'')"

section \<open>What a driver promises\<close>

text \<open>
  The client's view: \<open>contents s k\<close> are the bytes under a key. A write that succeeds puts the bytes under
  the address of their digest and touches nothing else, a write that fails touches nothing, and a removal removes at most its key.
\<close>

locale content_store =
  fixes digest :: "byte list \<Rightarrow> string"
    and address :: "string \<Rightarrow> string"
    and contents :: "'s \<Rightarrow> string \<Rightarrow> byte list option"
    and put :: "byte list \<Rightarrow> 's \<Rightarrow> ('e + stored_object) \<times> 's"
    and remove :: "string \<Rightarrow> 's \<Rightarrow> ('e + unit) \<times> 's"
  assumes put_done: "put bytes s = (Inr obj, s') \<Longrightarrow>
      so_key obj = address (digest bytes) \<and> so_sha256 obj = digest bytes \<and> so_sizeBytes obj = length bytes \<and>
      contents s' = (contents s)(address (digest bytes) \<mapsto> bytes)"
    and put_failed: "put bytes s = (Inl e, s') \<Longrightarrow> contents s' = contents s"
    and remove_any: "remove k s = (r, s') \<Longrightarrow> contents s' = contents s \<or> contents s' = (contents s)(k := None)"
begin

definition addressed :: "'s \<Rightarrow> bool" where
  "addressed s \<longleftrightarrow> (\<forall>k bytes. contents s k = Some bytes \<longrightarrow> k = address (digest bytes))"

lemma addressed_put:
  assumes "addressed s"
  shows "addressed (snd (put bytes s))"
proof -
  obtain r s' where run: "put bytes s = (r, s')" by (rule prod.exhaust)
  show ?thesis
  proof (cases r)
    case (Inl e)
    with put_failed run assms show ?thesis by (auto simp: addressed_def)
  next
    case (Inr obj)
    then have "contents s' = (contents s)(address (digest bytes) \<mapsto> bytes)" using put_done run by blast
    with run assms show ?thesis by (auto simp: addressed_def)
  qed
qed

lemma addressed_remove:
  assumes "addressed s"
  shows "addressed (snd (remove k s))"
proof -
  obtain r s' where run: "remove k s = (r, s')" by (rule prod.exhaust)
  with remove_any [OF run] assms show ?thesis by (auto simp: addressed_def split: if_splits)
qed

lemma put_reads_back: "put bytes s = (Inr obj, s') \<Longrightarrow> contents s' (so_key obj) = Some bytes"
  using put_done by auto

text \<open>A write never takes the bytes of another digest away, and never any from under a key that had some.\<close>

lemma put_keeps:
  assumes "contents s k = Some old"
  shows "\<exists>new. contents (snd (put bytes s)) k = Some new \<and> (new = old \<or> k = address (digest new))"
proof -
  obtain r s' where run: "put bytes s = (r, s')" by (rule prod.exhaust)
  show ?thesis
  proof (cases r)
    case (Inl e)
    with put_failed run assms show ?thesis by auto
  next
    case (Inr obj)
    with put_done run assms show ?thesis by auto
  qed
qed

end

text \<open>The file driver keeps the promise for every digest function.\<close>

definition address_of :: "string \<Rightarrow> string" where
  "address_of d = ''sha256/'' @ take 2 d @ ''/'' @ drop 2 d"

lemma keyForDigest_Inr: "keyForDigest d = Inr k \<longleftrightarrow> digest_shape d \<and> k = address_of d"
  by (auto simp: keyForDigest_def address_of_def)

lemma assertArtefactKey_Inr: "assertArtefactKey k = Inr k' \<longleftrightarrow> ARTEFACT_KEY_PATTERN k \<and> k' = k"
  by (auto simp: assertArtefactKey_def)

text \<open>A key made from a digest is a key, so a driver never refuses one of its own.\<close>

lemma address_is_key: "digest_shape d \<Longrightarrow> ARTEFACT_KEY_PATTERN (address_of d)"
  by (auto simp: digest_shape_def ARTEFACT_KEY_PATTERN_def address_of_def list_all_iff
      dest: in_set_takeD in_set_dropD)

lemma address_inject: "digest_shape d \<Longrightarrow> digest_shape d' \<Longrightarrow> address_of d = address_of d' \<longleftrightarrow> d = d'"
proof
  assume shape: "digest_shape d" "digest_shape d'" and "address_of d = address_of d'"
  then have "take 2 d @ ''/'' @ drop 2 d = take 2 d' @ ''/'' @ drop 2 d'" by (simp add: address_of_def)
  moreover have "length (take 2 d) = length (take 2 d')" using shape by (simp add: digest_shape_def)
  ultimately have "take 2 d = take 2 d' \<and> drop 2 d = drop 2 d'" by simp
  then show "d = d'" by (metis append_take_drop_id)
qed simp

interpretation files: content_store digest address_of fs_files "put_object digest" delete_object for digest
proof unfold_locales
  fix bytes s obj s' e k r
  show "put_object digest bytes s = (Inr obj, s') \<Longrightarrow>
      so_key obj = address_of (digest bytes) \<and> so_sha256 obj = digest bytes \<and> so_sizeBytes obj = length bytes \<and>
      fs_files s' = (fs_files s)(address_of (digest bytes) \<mapsto> bytes)"
    by (auto simp: put_object_def Let_def keyForDigest_Inr assertArtefactKey_Inr result_simps split: sum.splits if_splits)
  show "put_object digest bytes s = (Inl e, s') \<Longrightarrow> fs_files s' = fs_files s"
    by (auto simp: put_object_def Let_def split: sum.splits if_splits)
  show "delete_object k s = (r, s') \<Longrightarrow> fs_files s' = fs_files s \<or> fs_files s' = (fs_files s)(k := None)"
    by (auto simp: delete_object_def assertArtefactKey_Inr split: sum.splits if_splits)
qed

text \<open>What a read returns, and when a write succeeds.\<close>

lemma get_object_Inr [result_simps]:
  "get_object key fs = Inr bytes \<longleftrightarrow> ARTEFACT_KEY_PATTERN key \<and> fs_readable fs \<and> fs_files fs key = Some bytes"
  by (auto simp: get_object_def assertArtefactKey_Inr result_simps split: option.splits if_splits)

lemma put_object_total:
  "digest_shape (digest bytes) \<Longrightarrow> fs_writable fs \<Longrightarrow>
   put_object digest bytes fs =
     (Inr \<lparr>so_key = address_of (digest bytes), so_sizeBytes = length bytes, so_sha256 = digest bytes\<rparr>,
      fs\<lparr>fs_files := (fs_files fs)(address_of (digest bytes) \<mapsto> bytes)\<rparr>)"
proof -
  assume "digest_shape (digest bytes)" "fs_writable fs"
  moreover from this(1) have "r_bind (keyForDigest (digest bytes)) assertArtefactKey = Inr (address_of (digest bytes))"
    by (simp add: result_simps keyForDigest_Inr assertArtefactKey_Inr address_is_key)
  ultimately show ?thesis by (simp add: put_object_def Let_def)
qed

end
