(* ===== verification/Job_Runner.thy ===== *)
theory Job_Runner
  imports Events
begin

text \<open>
  Durable background jobs (\<open>apps/server/src/jobs/runner.ts\<close> over the table of migration
  \<open>0057_durable_jobs.sql\<close>): scheduling with deduplication, the claim with its lease, the two ways an
  attempt ends, and the loop that drains the queue.

  The clock of the process and the clock of the database are one clock. The announcement of a
  committed event to the dispatcher (\<open>publisher.publish\<close>) changes no table and is left out, and so
  is the timer of \<open>start\<close> and \<open>stop\<close>, which calls \<open>runOnce\<close> again and again.
\<close>

section \<open>The table\<close>

datatype job_kind =
  Event_outbox_dispatch | Idempotency_key_expiry | Published_service_expiry | Artefact_thumbnail | Review_export_job

fun job_kind_name :: "job_kind \<Rightarrow> string" where
  "job_kind_name Event_outbox_dispatch = ''event_outbox_dispatch''"
| "job_kind_name Idempotency_key_expiry = ''idempotency_key_expiry''"
| "job_kind_name Published_service_expiry = ''published_service_expiry''"
| "job_kind_name Artefact_thumbnail = ''artefact_thumbnail''"
| "job_kind_name Review_export_job = ''review_export''"

datatype job_failure_reason = Handler_error | Attempt_timeout | Attempts_exhausted | Handler_unknown

fun job_failure_reason_name :: "job_failure_reason \<Rightarrow> string" where
  "job_failure_reason_name Handler_error = ''handler_error''"
| "job_failure_reason_name Attempt_timeout = ''attempt_timeout''"
| "job_failure_reason_name Attempts_exhausted = ''attempts_exhausted''"
| "job_failure_reason_name Handler_unknown = ''handler_unknown''"

datatype job_status = Job_pending | Job_running | Job_succeeded | Job_failed

record job_row =
  jb_id :: string
  jb_organisation_id :: string
  jb_project_id :: "string option"
  jb_kind :: job_kind
  jb_payload :: "(string \<times> json) list"
  jb_status :: job_status
  jb_run_after :: nat
  jb_attempts :: nat
  jb_max_attempts :: nat
  jb_locked_until :: "nat option"
  jb_locked_by :: "string option"
  jb_last_error :: "string option"
  jb_idempotency_key :: "string option"
  jb_created_at :: nat
  jb_updated_at :: nat
  jb_completed_at :: "nat option"

record job_store = event_store +
  jd_jobs :: "job_row list"

type_synonym ('a, 'r) job_act = "'a job_store_scheme \<Rightarrow> (store_failure + 'r) \<times> 'a job_store_scheme"

definition live_job :: "job_row \<Rightarrow> bool" where
  "live_job j \<longleftrightarrow> jb_status j = Job_pending \<or> jb_status j = Job_running"

text \<open>The partial index: one live job per kind and deduplication key.\<close>

definition dedup_keys :: "job_row list \<Rightarrow> (job_kind \<times> string option) list" where
  "dedup_keys rows =
     map (\<lambda>j. (jb_kind j, jb_idempotency_key j))
       (filter (\<lambda>j. live_job j \<and> jb_idempotency_key j \<noteq> None) rows)"

definition job_row_check :: "job_row \<Rightarrow> store_failure + unit" where
  "job_row_check j =
     r_then (refuse_if (\<not> jb_attempts j \<le> jb_max_attempts j) (Check_violation ''jobs_attempts_bounded''))
       (refuse_if (\<not> (1 \<le> jb_max_attempts j \<and> jb_max_attempts j \<le> 1000))
         (Check_violation ''jobs_max_attempts_positive''))"

fun check_rows :: "job_row list \<Rightarrow> store_failure + unit" where
  "check_rows [] = ok"
| "check_rows (j # js) = r_then (job_row_check j) (check_rows js)"

text \<open>A statement that would leave the table against a constraint fails and leaves it as it is.\<close>

definition store_jobs ::
  "job_row list \<Rightarrow> 'a job_store_scheme \<Rightarrow> store_failure + 'a job_store_scheme" where
  "store_jobs rows db =
     r_then (check_rows rows)
     (r_then (refuse_if (\<not> distinct (map jb_id rows)) (Unique_violation ''jobs_pkey''))
     (r_then (refuse_if (\<not> distinct (dedup_keys rows)) (Unique_violation ''jobs_idempotency_key_unique''))
     (Inr (db\<lparr>jd_jobs := rows\<rparr>))))"

section \<open>Scheduling\<close>

record enqueue_input =
  ej_organisationId :: string
  ej_projectId :: "string option"
  ej_kind :: job_kind
  ej_payload :: "(string \<times> json) list"
  ej_runAfter :: "nat option"
  ej_maxAttempts :: "nat option"
  ej_idempotencyKey :: "string option"

definition job_event ::
  "string \<Rightarrow> string option \<Rightarrow> string \<Rightarrow> string \<Rightarrow> (string \<times> json) list \<Rightarrow> append_input" where
  "job_event org project type jid payload =
     \<lparr>ai_type = type, ai_organisation_id = org, ai_project_id = project,
      ai_actor = system_actor ''job runner'', ai_correlation = [(''job_id'', JString jid)],
      ai_payload = payload, ai_occurred_at = None, ai_enqueue_outbox = True\<rparr>"

definition new_job :: "enqueue_input \<Rightarrow> string \<Rightarrow> nat \<Rightarrow> nat \<Rightarrow> job_row" where
  "new_job input jid runAfter now =
     \<lparr>jb_id = jid, jb_organisation_id = ej_organisationId input, jb_project_id = ej_projectId input,
      jb_kind = ej_kind input, jb_payload = ej_payload input, jb_status = Job_pending,
      jb_run_after = runAfter, jb_attempts = 0, jb_max_attempts = (case ej_maxAttempts input of None \<Rightarrow> 5 | Some n \<Rightarrow> n),
      jb_locked_until = None, jb_locked_by = None, jb_last_error = None,
      jb_idempotency_key = ej_idempotencyKey input, jb_created_at = now, jb_updated_at = now,
      jb_completed_at = None\<rparr>"

definition covering_job :: "enqueue_input \<Rightarrow> 'a job_store_scheme \<Rightarrow> job_row option" where
  "covering_job input db =
     List.find (\<lambda>j. jb_kind j = ej_kind input \<and> ej_idempotencyKey input \<noteq> None \<and>
       jb_idempotency_key j = ej_idempotencyKey input \<and> live_job j) (jd_jobs db)"

text \<open>\<open>ON CONFLICT DO NOTHING\<close>: either unique index refuses the row in silence, a check does not.\<close>

definition enqueueJob ::
  "enqueue_input \<Rightarrow> 'a job_store_scheme \<Rightarrow> store_failure + ((string \<times> bool) \<times> 'a job_store_scheme)" where
  "enqueueJob input db =
     (let (jid, db1) = newId ''job_'' db;
          runAfter = (case ej_runAfter input of None \<Rightarrow> js_now db1 | Some t \<Rightarrow> t);
          row = new_job input jid runAfter (es_now db1)
      in r_then (job_row_check row)
         (if jid \<in> set (map jb_id (jd_jobs db1)) \<or> covering_job input db1 \<noteq> None
          then Inr ((case covering_job input db1 of None \<Rightarrow> jid | Some j \<Rightarrow> jb_id j, False), db1)
          else r_bind (store_jobs (jd_jobs db1 @ [row]) db1) (\<lambda>db2.
            r_bind (appendEvents [job_event (ej_organisationId input) (ej_projectId input) ''job.enqueued'' jid
              [(''job_id'', JString jid), (''kind'', JString (job_kind_name (ej_kind input))),
               (''run_after'', JString (toISOString runAfter))]] db2) (\<lambda>db3.
            Inr ((jid, True), db3)))))"

section \<open>The claim\<close>

definition DEFAULT_LEASE_MS :: nat where
  "DEFAULT_LEASE_MS = 60000"

definition DEFAULT_ATTEMPT_TIMEOUT_MS :: nat where
  "DEFAULT_ATTEMPT_TIMEOUT_MS = 55000"

definition BACKOFF_BASE_MS :: nat where
  "BACKOFF_BASE_MS = 2000"

definition BACKOFF_MAX_MS :: nat where
  "BACKOFF_MAX_MS = 300000"

record job_record =
  jr_id :: string
  jr_organisationId :: string
  jr_projectId :: "string option"
  jr_kind :: job_kind
  jr_payload :: "(string \<times> json) list"
  jr_attempts :: nat
  jr_maxAttempts :: nat

definition job_toRecord :: "job_row \<Rightarrow> job_record" where
  "job_toRecord j =
     \<lparr>jr_id = jb_id j, jr_organisationId = jb_organisation_id j, jr_projectId = jb_project_id j,
      jr_kind = jb_kind j, jr_payload = jb_payload j, jr_attempts = jb_attempts j,
      jr_maxAttempts = jb_max_attempts j\<rparr>"

definition claimable :: "nat \<Rightarrow> job_row \<Rightarrow> bool" where
  "claimable now j \<longleftrightarrow>
     (jb_status j = Job_pending \<and> jb_run_after j \<le> now) \<or>
     (jb_status j = Job_running \<and> (case jb_locked_until j of None \<Rightarrow> False | Some t \<Rightarrow> t < now))"

text \<open>\<open>locked\<close> are the rows that other transactions hold at the moment of the claim.\<close>

definition next_job :: "string set \<Rightarrow> 'a job_store_scheme \<Rightarrow> job_row option" where
  "next_job locked db =
     (case sort_key (\<lambda>j. (jb_run_after j, jb_created_at j))
        (filter (\<lambda>j. claimable (es_now db) j \<and> jb_id j \<notin> locked) (jd_jobs db)) of
        [] \<Rightarrow> None | j # _ \<Rightarrow> Some j)"

definition leased :: "nat \<Rightarrow> string \<Rightarrow> nat \<Rightarrow> job_row \<Rightarrow> job_row" where
  "leased leaseMs runner now j =
     j\<lparr>jb_status := Job_running, jb_attempts := jb_attempts j + 1,
       jb_locked_until := Some (now + leaseMs * 1000), jb_locked_by := Some runner, jb_updated_at := now\<rparr>"

definition claim_job_work ::
  "nat \<Rightarrow> string \<Rightarrow> string set \<Rightarrow> 'a job_store_scheme \<Rightarrow>
     store_failure + (job_record option \<times> 'a job_store_scheme)" where
  "claim_job_work leaseMs runner locked db =
     (case next_job locked db of
        None \<Rightarrow> Inr (None, db)
      | Some row \<Rightarrow>
          r_bind (store_jobs (update_where (\<lambda>j. jb_id j = jb_id row) (leased leaseMs runner (es_now db)) (jd_jobs db)) db)
            (\<lambda>db1. Inr (Some (job_toRecord (row\<lparr>jb_attempts := jb_attempts row + 1\<rparr>)), db1)))"

definition claim_job :: "nat \<Rightarrow> string \<Rightarrow> string set \<Rightarrow> ('a, job_record option) job_act" where
  "claim_job leaseMs runner locked = inTransaction (claim_job_work leaseMs runner locked)"

section \<open>The end of an attempt\<close>

definition succeeded :: "nat \<Rightarrow> job_row \<Rightarrow> job_row" where
  "succeeded now j =
     j\<lparr>jb_status := Job_succeeded, jb_completed_at := Some now, jb_locked_until := None,
       jb_locked_by := None, jb_last_error := None, jb_updated_at := now\<rparr>"

definition succeed_work ::
  "job_record \<Rightarrow> nat \<Rightarrow> 'a job_store_scheme \<Rightarrow> store_failure + (unit \<times> 'a job_store_scheme)" where
  "succeed_work job durationMs db =
     r_bind (store_jobs (update_where (\<lambda>j. jb_id j = jr_id job) (succeeded (es_now db)) (jd_jobs db)) db) (\<lambda>db1.
     r_bind (appendEvents [job_event (jr_organisationId job) (jr_projectId job) ''job.succeeded'' (jr_id job)
       [(''job_id'', JString (jr_id job)), (''kind'', JString (job_kind_name (jr_kind job))),
        (''attempts'', json_num (jr_attempts job)), (''duration_ms'', json_num (min durationMs 86400000))]] db1) (\<lambda>db2.
     Inr ((), db2)))"

definition succeed :: "job_record \<Rightarrow> nat \<Rightarrow> ('a, unit) job_act" where
  "succeed job durationMs = inTransaction (succeed_work job durationMs)"

definition exhausted :: "job_record \<Rightarrow> bool" where
  "exhausted job \<longleftrightarrow> jr_attempts job \<ge> jr_maxAttempts job"

text \<open>\<open>BACKOFF_BASE_MS * 2 ** (attempts - 1)\<close>; a claimed job has made at least one attempt.\<close>

definition backoff :: "job_record \<Rightarrow> nat" where
  "backoff job = min (BACKOFF_BASE_MS * 2 ^ jr_attempts job div 2) BACKOFF_MAX_MS"

definition next_attempt_at :: "job_record \<Rightarrow> 'a job_store_scheme \<Rightarrow> nat option" where
  "next_attempt_at job db = (if exhausted job then None else Some (js_now db + backoff job * 1000))"

definition failed_attempt :: "job_record \<Rightarrow> nat option \<Rightarrow> string \<Rightarrow> nat \<Rightarrow> job_row \<Rightarrow> job_row" where
  "failed_attempt job nextAt detail now j =
     j\<lparr>jb_status := (if exhausted job then Job_failed else Job_pending),
       jb_run_after := (case nextAt of None \<Rightarrow> jb_run_after j | Some t \<Rightarrow> t),
       jb_locked_until := None, jb_locked_by := None, jb_last_error := Some (take 500 detail),
       jb_completed_at := (if exhausted job then Some now else None), jb_updated_at := now\<rparr>"

definition final_reason :: "job_record \<Rightarrow> job_failure_reason \<Rightarrow> job_failure_reason" where
  "final_reason job reason = (if exhausted job \<and> reason = Handler_error then Attempts_exhausted else reason)"

definition fail_work ::
  "job_record \<Rightarrow> job_failure_reason \<Rightarrow> string \<Rightarrow> 'a job_store_scheme \<Rightarrow>
     store_failure + (unit \<times> 'a job_store_scheme)" where
  "fail_work job reason detail db =
     (let nextAt = next_attempt_at job db in
      r_bind (store_jobs (update_where (\<lambda>j. jb_id j = jr_id job) (failed_attempt job nextAt detail (es_now db))
        (jd_jobs db)) db) (\<lambda>db1.
      r_bind (appendEvents [job_event (jr_organisationId job) (jr_projectId job) ''job.failed'' (jr_id job)
        ([(''job_id'', JString (jr_id job)), (''kind'', JString (job_kind_name (jr_kind job))),
          (''attempts'', json_num (jr_attempts job)),
          (''reason'', JString (job_failure_reason_name (final_reason job reason))),
          (''retrying'', JBool (\<not> exhausted job))] @
         (case nextAt of None \<Rightarrow> [] | Some t \<Rightarrow> [(''next_attempt_at'', JString (toISOString t))]))] db1) (\<lambda>db2.
      Inr ((), db2))))"

definition fail_job :: "job_record \<Rightarrow> job_failure_reason \<Rightarrow> string \<Rightarrow> ('a, unit) job_act" where
  "fail_job job reason detail = inTransaction (fail_work job reason detail)"

section \<open>One attempt\<close>

text \<open>
  A handler runs in a transaction of its own and may throw; what the runner keeps of the exception is its
  message. \<open>attempt\<close> says how the race with the timer goes: the handler ends in time, after so many
  milliseconds, or the timer wins. When the timer wins nothing stops the handler: its transaction
  may still commit, after the attempt has been recorded as failed.
\<close>

type_synonym 'a job_handler = "job_record \<Rightarrow> 'a job_store_scheme \<Rightarrow> string + (unit \<times> 'a job_store_scheme)"

datatype attempt = Ends_after nat | Times_out | Times_out_then_ends

record 'a job_runner =
  rn_handlers :: "job_kind \<Rightarrow> 'a job_handler option"
  rn_leaseMs :: nat
  rn_attemptTimeoutMs :: nat
  rn_runnerId :: string

definition timeout_text :: "'a job_runner \<Rightarrow> string" where
  "timeout_text rn = ''attempt exceeded '' @ nat_text (rn_attemptTimeoutMs rn) @ '' ms''"

definition run_handler :: "'a job_runner \<Rightarrow> attempt \<Rightarrow> 'a job_handler \<Rightarrow> job_record \<Rightarrow> ('a, bool) job_act" where
  "run_handler rn attempt handler job db =
     (case attempt of
        Ends_after ms \<Rightarrow>
          (case inTransaction (handler job) db of
             (Inl message, db1) \<Rightarrow> act_bind (fail_job job Handler_error message) (\<lambda>_. act_return True) db1
           | (Inr _, db1) \<Rightarrow> act_bind (succeed job ms) (\<lambda>_. act_return True) db1)
      | Times_out \<Rightarrow>
          act_bind (fail_job job Attempt_timeout (timeout_text rn)) (\<lambda>_. act_return True) db
      | Times_out_then_ends \<Rightarrow>
          act_bind (fail_job job Attempt_timeout (timeout_text rn))
            (\<lambda>_ db1. (Inr True, snd (inTransaction (handler job) db1))) db)"

definition claimAndRun :: "'a job_runner \<Rightarrow> string set \<Rightarrow> attempt \<Rightarrow> ('a, bool) job_act" where
  "claimAndRun rn locked attempt =
     act_bind (claim_job (rn_leaseMs rn) (rn_runnerId rn) locked) (\<lambda>claimed.
     case claimed of
       None \<Rightarrow> act_return False
     | Some job \<Rightarrow>
         (case rn_handlers rn (jr_kind job) of
            None \<Rightarrow> act_bind (fail_job job Handler_unknown
              (''no handler is registered for '' @ job_kind_name (jr_kind job))) (\<lambda>_. act_return True)
          | Some handler \<Rightarrow> run_handler rn attempt handler job))"

text \<open>
  \<open>runOnce\<close> when no run of this runner is in flight, which is how \<open>drain\<close> calls it: the claim and the
  run. \<open>drain\<close> counts the jobs it ran up to its limit.
\<close>

definition runOnce :: "'a job_runner \<Rightarrow> attempt \<Rightarrow> ('a, bool) job_act" where
  "runOnce rn attempt = claimAndRun rn {} attempt"

fun drain_jobs :: "'a job_runner \<Rightarrow> (nat \<Rightarrow> attempt) \<Rightarrow> nat \<Rightarrow> nat \<Rightarrow> ('a, nat) job_act" where
  "drain_jobs rn attempts done 0 = act_return done"
| "drain_jobs rn attempts done (Suc left) =
     act_bind (runOnce rn (attempts done)) (\<lambda>ran.
     if ran then drain_jobs rn attempts (done + 1) left else act_return done)"

end
