(* ===== verification/Artefact_Service.thy ===== *)
theory Artefact_Service
  imports Artefact_Store Job_Runner Base64url
begin

text \<open>
  The artefact service (\<open>modules/artefacts/service.ts\<close>): the intent, the upload, the verification
  that makes an artefact available, artefacts the server makes itself, grants, deletion and the thumbnail job, over the
  tables of the migrations 0044, 0049 and 0090.

  The database of this component extends the event log and the job queue, and the files of the
  store are part of its state. The service runs over the file driver, which issues no presigned
  address. \<open>renderThumbnail\<close> is an argument. Foreign keys of the tables are not modelled: the rows of other
  components that an artefact names are taken to be there.
\<close>

section \<open>Tables\<close>

datatype artefact_state = Artefact_pending | Artefact_uploaded | Artefact_available | Artefact_failed

datatype thumbnail_state =
  Thumbnail_not_requested | Thumbnail_pending | Thumbnail_generated | Thumbnail_unsupported | Thumbnail_failed

fun thumbnail_state_name :: "thumbnail_state \<Rightarrow> string" where
  "thumbnail_state_name Thumbnail_not_requested = ''not_requested''"
| "thumbnail_state_name Thumbnail_pending = ''pending''"
| "thumbnail_state_name Thumbnail_generated = ''generated''"
| "thumbnail_state_name Thumbnail_unsupported = ''unsupported''"
| "thumbnail_state_name Thumbnail_failed = ''failed''"

record artefact_record =
  ar_id :: string
  ar_organisation_id :: string
  ar_project_id :: string
  ar_kind :: string
  ar_state :: artefact_state
  ar_content_type :: string
  ar_declared_size_bytes :: nat
  ar_declared_sha256 :: string
  ar_size_bytes :: "nat option"
  ar_sha256 :: "string option"
  ar_storage_key :: "string option"
  ar_content_width_px :: "nat option"
  ar_content_height_px :: "nat option"
  ar_filename_label :: "string option"
  ar_redaction_state :: string
  ar_retention_class :: string
  ar_encryption_key_reference :: "string option"
  ar_source_artefact_id :: "string option"
  ar_thumbnail_state :: thumbnail_state
  ar_thumbnail_artefact_id :: "string option"
  ar_browser_session_id :: "string option"
  ar_created_by_actor_type :: actor_type
  ar_created_by_actor_id :: "string option"
  ar_created_at :: nat
  ar_available_at :: "nat option"
  ar_expires_at :: "nat option"
  ar_deleted_at :: "nat option"
  ar_deleted_reason :: "string option"

record grant_row =
  gr_id :: string
  gr_artefact_id :: string
  gr_organisation_id :: string
  gr_project_id :: string
  gr_subject_type :: actor_type
  gr_subject_id :: string
  gr_created_at :: nat
  gr_expires_at :: nat
  gr_revoked_at :: "nat option"
  gr_last_used_at :: "nat option"
  gr_use_count :: nat

record artefact_db = job_store +
  ad_artefacts :: "artefact_record list"
  ad_grants :: "grant_row list"
  ad_files :: artefact_files

type_synonym 'a artefact_act = "artefact_db \<Rightarrow> (store_failure + 'a) \<times> artefact_db"

text \<open>The check constraints of the table, one predicate per name.\<close>

definition ARTEFACT_KINDS :: "string list" where
  "ARTEFACT_KINDS =
     [''screenshot'', ''thumbnail'', ''trace'', ''har'', ''video'', ''dom_snapshot'', ''accessibility_snapshot'',
      ''console_log'', ''network_log'', ''review_export'']"

definition RETENTION_CLASSES :: "string list" where
  "RETENTION_CLASSES =
     [''action_screenshots'', ''browser_traces'', ''session_video'', ''console_and_network_logs'',
      ''verification_evidence'']"

definition available_is_verified :: "artefact_record \<Rightarrow> bool" where
  "available_is_verified a \<longleftrightarrow>
     ar_state a \<noteq> Artefact_available \<or>
     (ar_storage_key a \<noteq> None \<and> ar_sha256 a = Some (ar_declared_sha256 a) \<and>
      ar_size_bytes a = Some (ar_declared_size_bytes a) \<and> ar_available_at a \<noteq> None)"

definition content_rectangle_positive :: "artefact_record \<Rightarrow> bool" where
  "content_rectangle_positive a \<longleftrightarrow>
     (case (ar_content_width_px a, ar_content_height_px a) of
        (None, None) \<Rightarrow> True
      | (Some w, Some h) \<Rightarrow> 0 < w \<and> 0 < h \<and> w \<le> 32767 \<and> h \<le> 32767
      | (Some w, None) \<Rightarrow> 0 < w \<and> w \<le> 32767
      | (None, Some h) \<Rightarrow> 0 < h \<and> h \<le> 32767)"

definition label_is_a_name :: "artefact_record \<Rightarrow> bool" where
  "label_is_a_name a \<longleftrightarrow>
     (case ar_filename_label a of None \<Rightarrow> True
      | Some l \<Rightarrow> list_all label_char l \<and> 1 \<le> length l \<and> length l \<le> 128 \<and> \<not> has_infix ''..'' l)"

definition image_is_measured :: "artefact_record \<Rightarrow> bool" where
  "image_is_measured a \<longleftrightarrow>
     ar_state a \<noteq> Artefact_available \<or> ar_content_type a \<notin> set [''image/png'', ''image/jpeg''] \<or>
     (ar_content_width_px a \<noteq> None \<and> ar_content_height_px a \<noteq> None)"

definition artefact_checks :: "artefact_record \<Rightarrow> (string \<times> bool) list" where
  "artefact_checks a =
     [(''artefacts_kind_known'', ar_kind a \<in> set ARTEFACT_KINDS),
      (''artefacts_declared_digest_shape'', digest_shape (ar_declared_sha256 a)),
      (''artefacts_verified_digest_shape'', case ar_sha256 a of None \<Rightarrow> True | Some d \<Rightarrow> digest_shape d),
      (''artefacts_available_is_verified'', available_is_verified a),
      (''artefacts_content_rectangle_positive'', content_rectangle_positive a),
      (''artefacts_retention_class_known'', ar_retention_class a \<in> set RETENTION_CLASSES),
      (''artefacts_filename_label_is_a_name'', label_is_a_name a),
      (''artefacts_available_image_is_measured'', image_is_measured a),
      (''artefacts_generated_thumbnail_is_named'',
         ar_thumbnail_state a = Thumbnail_generated \<longrightarrow> ar_thumbnail_artefact_id a \<noteq> None),
      (''artefacts_source_is_another_artefact'', ar_source_artefact_id a \<noteq> Some (ar_id a)),
      (''artefacts_thumbnail_is_another_artefact'', ar_thumbnail_artefact_id a \<noteq> Some (ar_id a))]"

definition artefact_row_ok :: "artefact_record \<Rightarrow> bool" where
  "artefact_row_ok a \<longleftrightarrow> list_all snd (artefact_checks a)"

text \<open>The first constraint that a row of the table breaks.\<close>

definition broken_check :: "artefact_record list \<Rightarrow> string option" where
  "broken_check rows =
     map_option fst (List.find (\<lambda>c. \<not> snd c) (concat (map artefact_checks rows)))"

definition store_artefacts :: "artefact_record list \<Rightarrow> artefact_db \<Rightarrow> store_failure + artefact_db" where
  "store_artefacts rows db =
     (case broken_check rows of
        Some name \<Rightarrow> Inl (Check_violation name)
      | None \<Rightarrow>
          r_then (refuse_if (\<not> distinct (map ar_id rows)) (Unique_violation ''artefacts_pkey''))
            (Inr (db\<lparr>ad_artefacts := rows\<rparr>)))"

definition store_grants :: "grant_row list \<Rightarrow> artefact_db \<Rightarrow> store_failure + artefact_db" where
  "store_grants rows db =
     r_then (refuse_if (\<not> list_all (\<lambda>g. gr_subject_type g \<in> {human_user, agent_session, browser_worker, system}) rows)
       (Check_violation ''artefact_grants_subject_type_known''))
     (r_then (refuse_if (\<not> list_all (\<lambda>g. gr_expires_at g > gr_created_at g) rows)
       (Check_violation ''artefact_grants_expiry_after_creation''))
     (r_then (refuse_if (\<not> distinct (map gr_id rows)) (Unique_violation ''artefact_access_grants_pkey''))
     (Inr (db\<lparr>ad_grants := rows\<rparr>))))"

section \<open>The service\<close>

text \<open>\<open>RetentionWindows\<close>: days per class.\<close>

record retention_windows =
  rw_action_screenshots :: nat
  rw_browser_traces :: nat
  rw_session_video :: nat
  rw_console_and_network_logs :: nat
  rw_verification_evidence :: nat

definition DEFAULT_RETENTION_DAYS :: retention_windows where
  "DEFAULT_RETENTION_DAYS =
     \<lparr>rw_action_screenshots = 30, rw_browser_traces = 14, rw_session_video = 0,
      rw_console_and_network_logs = 14, rw_verification_evidence = 365\<rparr>"

definition window_days :: "retention_windows \<Rightarrow> string \<Rightarrow> nat option" where
  "window_days w name =
     map_of [(''action_screenshots'', rw_action_screenshots w), (''browser_traces'', rw_browser_traces w),
       (''session_video'', rw_session_video w), (''console_and_network_logs'', rw_console_and_network_logs w),
       (''verification_evidence'', rw_verification_evidence w)] name"

datatype render_outcome = Rendered "byte list" nat nat | Not_rendered | Unsupported_image string | Render_error string

record artefact_service =
  as_sha256 :: "byte list \<Rightarrow> string"
  as_maxBytes :: nat
  as_retention :: "retention_windows option"
  as_render :: "string \<Rightarrow> byte list \<Rightarrow> render_outcome"

definition expiryFor :: "artefact_service \<Rightarrow> string \<Rightarrow> artefact_db \<Rightarrow> nat option" where
  "expiryFor sv retentionClass db =
     (case as_retention sv of None \<Rightarrow> None
      | Some windows \<Rightarrow>
          (case window_days windows retentionClass of None \<Rightarrow> None
           | Some days \<Rightarrow> if days \<le> 0 then None else Some (js_now db + days * 24 * 60 * 60 * 1000 * 1000)))"

definition storeUnavailable :: "store_error \<Rightarrow> store_failure" where
  "storeUnavailable e =
     (case e of ArtefactStoreError message \<Rightarrow>
        Refused (ApiError ARTEFACT_STORE_UNAVAILABLE
          (Some [D_reason ''artefact_store_unavailable'', D_retryable True]) None (Some message)))"

definition upload_incomplete :: store_failure where
  "upload_incomplete = Refused (ApiError ARTEFACT_UPLOAD_INCOMPLETE None None None)"

definition artefact_event ::
  "artefact_record \<Rightarrow> event_actor \<Rightarrow> string \<Rightarrow> (string \<times> json) list \<Rightarrow> (string \<times> json) list \<Rightarrow> append_input" where
  "artefact_event a = project_event (ar_organisation_id a) (ar_project_id a)"

definition rectangle :: "nat \<Rightarrow> nat \<Rightarrow> (string \<times> json) list" where
  "rectangle w h = [(''content_rectangle'', JObject [(''width_px'', json_num w), (''height_px'', json_num h)])]"

section \<open>The intent\<close>

text \<open>A JavaScript number: \<open>None\<close> is not a finite one.\<close>

record intent_input =
  ii_organisationId :: string
  ii_projectId :: string
  ii_kind :: string
  ii_contentType :: string
  ii_sizeBytes :: "rat option"
  ii_sha256 :: string
  ii_retentionClass :: "string option"
  ii_browserSessionId :: "string option"
  ii_sourceArtefactId :: "string option"
  ii_filenameLabel :: "string option"
  ii_actor :: event_actor

definition unsupported_field :: "string \<Rightarrow> store_failure" where
  "unsupported_field field = Refused (refusal UNSUPPORTED_CAPABILITY [D_field field])"

definition size_accepted :: "artefact_service \<Rightarrow> rat option \<Rightarrow> bool" where
  "size_accepted sv sizeBytes =
     (case sizeBytes of None \<Rightarrow> False
      | Some r \<Rightarrow> r = of_int \<lfloor>r\<rfloor> \<and> \<not> r \<le> 0 \<and> \<not> r > of_nat (as_maxBytes sv))"

definition intent_checks :: "artefact_service \<Rightarrow> intent_input \<Rightarrow> store_failure + unit" where
  "intent_checks sv input =
     r_then (refuse_if (\<not> isStage1Kind (ii_kind input)) (unsupported_field ''kind''))
     (r_then (refuse_if (ii_contentType input \<notin> set (contentTypesForKind (ii_kind input)))
       (unsupported_field ''content_type''))
     (r_then (refuse_if (\<not> size_accepted sv (ii_sizeBytes input))
       (Refused (refusal POLICY_DENIED [D_field ''size_bytes'', D_max_bytes (as_maxBytes sv)])))
     (r_then (refuse_if (\<not> digest_shape (ii_sha256 input)) (unsupported_field ''sha256''))
     (refuse_if (case ii_filenameLabel input of None \<Rightarrow> False | Some l \<Rightarrow> \<not> isSafeFilenameLabel l)
       (unsupported_field ''filename'')))))"

definition new_artefact :: "artefact_service \<Rightarrow> intent_input \<Rightarrow> string \<Rightarrow> artefact_db \<Rightarrow> artefact_record" where
  "new_artefact sv input aid db =
     (let retentionClass = (case ii_retentionClass input of Some c \<Rightarrow> c
            | None \<Rightarrow> defaultRetentionClassForKind (ii_kind input)) in
      \<lparr>ar_id = aid, ar_organisation_id = ii_organisationId input, ar_project_id = ii_projectId input,
       ar_kind = ii_kind input, ar_state = Artefact_pending, ar_content_type = ii_contentType input,
       ar_declared_size_bytes = (case ii_sizeBytes input of None \<Rightarrow> 0 | Some r \<Rightarrow> nat \<lfloor>r\<rfloor>),
       ar_declared_sha256 = ii_sha256 input, ar_size_bytes = None, ar_sha256 = None, ar_storage_key = None,
       ar_content_width_px = None, ar_content_height_px = None, ar_filename_label = ii_filenameLabel input,
       ar_redaction_state = ''not_applied'', ar_retention_class = retentionClass,
       ar_encryption_key_reference = None, ar_source_artefact_id = ii_sourceArtefactId input,
       ar_thumbnail_state = Thumbnail_not_requested, ar_thumbnail_artefact_id = None,
       ar_browser_session_id = ii_browserSessionId input, ar_created_by_actor_type = act_type (ii_actor input),
       ar_created_by_actor_id = act_id (ii_actor input), ar_created_at = es_now db, ar_available_at = None,
       ar_expires_at = expiryFor sv retentionClass db, ar_deleted_at = None, ar_deleted_reason = None\<rparr>)"

definition insert_artefact :: "artefact_record \<Rightarrow> artefact_db \<Rightarrow> store_failure + (artefact_record \<times> artefact_db)" where
  "insert_artefact a db = r_bind (store_artefacts (ad_artefacts db @ [a]) db) (\<lambda>db1. Inr (a, db1))"

definition createIntent :: "artefact_service \<Rightarrow> intent_input \<Rightarrow> artefact_record artefact_act" where
  "createIntent sv input db =
     (case intent_checks sv input of
        Inl e \<Rightarrow> (Inl e, db)
      | Inr _ \<Rightarrow>
          (let (aid, db1) = newId ''art_'' db; a = new_artefact sv input aid db1 in
           act_bind (recordStateChange
               (\<lambda>_. artefact_event a (ii_actor input) ''artefact.upload_started''
                  ((''artefact_id'', JString aid) # opt_str ''browser_session_id'' (ii_browserSessionId input))
                  [(''artefact_id'', JString aid), (''kind'', JString (ii_kind input)),
                   (''declared_size_bytes'', json_num (ar_declared_size_bytes a)),
                   (''declared_sha256'', JString (ii_sha256 input)), (''content_type'', JString (ii_contentType input))])
               (insert_artefact a))
             (\<lambda>r. act_return (fst r)) db1))"

section \<open>Upload\<close>

definition set_row :: "string \<Rightarrow> (artefact_record \<Rightarrow> artefact_record) \<Rightarrow> artefact_db \<Rightarrow> store_failure + artefact_db" where
  "set_row aid f db = store_artefacts (update_where (\<lambda>a. ar_id a = aid) f (ad_artefacts db)) db"

definition markFailed :: "artefact_record \<Rightarrow> string \<Rightarrow> event_actor \<Rightarrow> unit artefact_act" where
  "markFailed a reason actor =
     act_bind (recordStateChange
       (\<lambda>_. artefact_event a actor ''artefact.upload_failed'' [(''artefact_id'', JString (ar_id a))]
          [(''artefact_id'', JString (ar_id a)), (''reason'', JString reason),
           (''code'', JString ''ARTEFACT_UPLOAD_INCOMPLETE'')])
       (\<lambda>db. r_bind (set_row (ar_id a) (\<lambda>b. b\<lparr>ar_state := Artefact_failed\<rparr>) db) (\<lambda>db1. Inr ((), db1))))
     (\<lambda>_. act_return ())"

definition put_bytes :: "artefact_service \<Rightarrow> byte list \<Rightarrow> artefact_db \<Rightarrow> (store_error + stored_object) \<times> artefact_db" where
  "put_bytes sv bytes db =
     (case put_object (as_sha256 sv) bytes (ad_files db) of (r, fs) \<Rightarrow> (r, db\<lparr>ad_files := fs\<rparr>))"

definition stored :: "artefact_service \<Rightarrow> byte list \<Rightarrow> (store_error \<Rightarrow> store_failure) \<Rightarrow> stored_object artefact_act" where
  "stored sv bytes wrap db =
     (case put_bytes sv bytes db of (Inl e, db1) \<Rightarrow> (Inl (wrap e), db1) | (Inr obj, db1) \<Rightarrow> (Inr obj, db1))"

text \<open>
  \<open>UPDATE ... WHERE id = $1 AND deleted_at IS NULL RETURNING\<close>: the row as it is afterwards, or the
  answer that there is none.
\<close>

definition live_row :: "string \<Rightarrow> artefact_record \<Rightarrow> bool" where
  "live_row aid a \<longleftrightarrow> ar_id a = aid \<and> ar_deleted_at a = None"

definition update_live ::
  "string \<Rightarrow> (artefact_record \<Rightarrow> artefact_record) \<Rightarrow> artefact_db \<Rightarrow>
     store_failure + (artefact_record \<times> artefact_db)" where
  "update_live aid f db =
     r_bind (store_artefacts (update_where (live_row aid) f (ad_artefacts db)) db) (\<lambda>db1.
     case List.find (live_row aid) (ad_artefacts db) of
       None \<Rightarrow> Inl (Refused (notFound ''The artefact''))
     | Some a \<Rightarrow> Inr (f a, db1))"

definition storeContent :: "artefact_service \<Rightarrow> artefact_record \<Rightarrow> byte list \<Rightarrow> event_actor \<Rightarrow> artefact_record artefact_act" where
  "storeContent sv record bytes actor =
     (if ar_state record = Artefact_available then act_throw (Refused (ApiError IDEMPOTENCY_CONFLICT None None None))
      else if ar_state record = Artefact_failed then act_throw upload_incomplete
      else if length bytes > as_maxBytes sv
      then act_throw (Refused (refusal POLICY_DENIED [D_max_bytes (as_maxBytes sv)]))
      else case contentTypeMismatch (ar_content_type record) bytes of
        Some mismatch \<Rightarrow>
          act_bind (markFailed record mismatch actor) (\<lambda>_. act_throw (unsupported_field ''content_type''))
      | None \<Rightarrow>
          act_bind (stored sv bytes storeUnavailable) (\<lambda>obj.
          inTransaction (update_live (ar_id record)
            (\<lambda>a. a\<lparr>ar_state := Artefact_uploaded, ar_storage_key := Some (so_key obj)\<rparr>))))"

section \<open>Verification\<close>

text \<open>
  \<open>complete\<close> is a verification of the record it was given against the store and a transaction that makes
  the row available. The two are separate definitions, because nothing stops another request between them.
\<close>

record verified =
  vd_sha256 :: string
  vd_sizeBytes :: nat
  vd_dimensions :: "image_dimensions option"

datatype verification = Faulty string | Unreadable store_error | Verified verified

definition verify_upload ::
  "artefact_service \<Rightarrow> artefact_record \<Rightarrow> string \<Rightarrow> string \<Rightarrow> nat option \<Rightarrow> artefact_db \<Rightarrow> verification" where
  "verify_upload sv record key sha256 sizeBytes db =
     (if sha256 \<noteq> ar_declared_sha256 record
      then Faulty ''The digest reported on completion differs from the one declared on intent.''
      else if sizeBytes \<noteq> None \<and> sizeBytes \<noteq> Some (ar_declared_size_bytes record)
      then Faulty ''The size reported on completion differs from the one declared on intent.''
      else case get_object key (ad_files db) of
        Inl e \<Rightarrow> Unreadable e
      | Inr bytes \<Rightarrow>
          (let storedSha256 = as_sha256 sv bytes in
           if storedSha256 \<noteq> ar_declared_sha256 record
           then Faulty ''The stored bytes do not match the declared digest.''
           else if length bytes \<noteq> ar_declared_size_bytes record
           then Faulty ''The stored bytes do not match the declared size.''
           else if keyForDigest storedSha256 \<noteq> Inr key
           then Faulty ''The stored artefact is not filed under its content address.''
           else case contentTypeMismatch (ar_content_type record) bytes of
             Some mismatch \<Rightarrow> Faulty mismatch
           | None \<Rightarrow>
               if ar_content_type record \<notin> set IMAGE_CONTENT_TYPES
               then Verified \<lparr>vd_sha256 = storedSha256, vd_sizeBytes = length bytes, vd_dimensions = None\<rparr>
               else case measureImage (ar_content_type record) bytes of
                 None \<Rightarrow> Faulty ''The stored image could not be measured, so it has no content rectangle.''
               | Some d \<Rightarrow> Verified \<lparr>vd_sha256 = storedSha256, vd_sizeBytes = length bytes, vd_dimensions = Some d\<rparr>))"

definition wantsThumbnail :: "artefact_record \<Rightarrow> verified \<Rightarrow> bool" where
  "wantsThumbnail record v \<longleftrightarrow> kindWantsThumbnail (ar_kind record) \<and> vd_dimensions v \<noteq> None"

definition made_available :: "artefact_record \<Rightarrow> verified \<Rightarrow> nat \<Rightarrow> artefact_record \<Rightarrow> artefact_record" where
  "made_available record v now a =
     a\<lparr>ar_state := Artefact_available, ar_sha256 := Some (vd_sha256 v), ar_size_bytes := Some (vd_sizeBytes v),
       ar_available_at := Some now, ar_content_width_px := map_option im_widthPx (vd_dimensions v),
       ar_content_height_px := map_option im_heightPx (vd_dimensions v),
       ar_thumbnail_state := (if wantsThumbnail record v then Thumbnail_pending else ar_thumbnail_state record)\<rparr>"

definition dimensions_member :: "image_dimensions option \<Rightarrow> (string \<times> json) list" where
  "dimensions_member d = (case d of None \<Rightarrow> [] | Some d \<Rightarrow> rectangle (im_widthPx d) (im_heightPx d))"

definition completed_events :: "artefact_record \<Rightarrow> string \<Rightarrow> verified \<Rightarrow> event_actor \<Rightarrow> append_input list" where
  "completed_events record key v actor =
     (let correlation = (''artefact_id'', JString (ar_id record)) #
            opt_str ''browser_session_id'' (ar_browser_session_id record) in
      artefact_event record actor ''artefact.upload_completed'' correlation
        ([(''artefact_id'', JString (ar_id record)), (''kind'', JString (ar_kind record)),
          (''sha256'', JString (vd_sha256 v)), (''size_bytes'', json_num (vd_sizeBytes v)),
          (''storage_key'', JString key), (''redaction_state'', JString (ar_redaction_state record))] @
         dimensions_member (vd_dimensions v)) #
      (case vd_dimensions v of
         Some d \<Rightarrow>
           (if ar_kind record = ''screenshot''
            then [artefact_event record actor ''screenshot.captured'' correlation
              ([(''artefact_id'', JString (ar_id record)), (''sha256'', JString (vd_sha256 v)),
                (''size_bytes'', json_num (vd_sizeBytes v))] @ rectangle (im_widthPx d) (im_heightPx d))]
            else [])
       | None \<Rightarrow> []))"

definition thumbnail_job :: "artefact_record \<Rightarrow> enqueue_input" where
  "thumbnail_job record =
     \<lparr>ej_organisationId = ar_organisation_id record, ej_projectId = Some (ar_project_id record),
      ej_kind = Artefact_thumbnail, ej_payload = [(''artefact_id'', JString (ar_id record))], ej_runAfter = None,
      ej_maxAttempts = None, ej_idempotencyKey = Some (''artefact_thumbnail:'' @ ar_id record)\<rparr>"

definition complete_work ::
  "artefact_record \<Rightarrow> string \<Rightarrow> verified \<Rightarrow> event_actor \<Rightarrow> artefact_db \<Rightarrow>
     store_failure + (artefact_record \<times> artefact_db)" where
  "complete_work record key v actor db =
     r_bind (update_live (ar_id record) (made_available record v (es_now db)) db) (\<lambda>(row, db1).
     r_bind (appendEvents (completed_events record key v actor) db1) (\<lambda>db2.
     if wantsThumbnail record v
     then r_bind (enqueueJob (thumbnail_job record) db2) (\<lambda>(_, db3). Inr (row, db3))
     else Inr (row, db2)))"

definition complete_artefact ::
  "artefact_service \<Rightarrow> artefact_record \<Rightarrow> string \<Rightarrow> nat option \<Rightarrow> event_actor \<Rightarrow> artefact_record artefact_act" where
  "complete_artefact sv record sha256 sizeBytes actor =
     (if ar_state record = Artefact_available then act_return record
      else case ar_storage_key record of
        None \<Rightarrow> act_throw upload_incomplete
      | Some key \<Rightarrow>
          act_bind (act_read (\<lambda>db. Inr (verify_upload sv record key sha256 sizeBytes db))) (\<lambda>v.
          case v of
            Faulty message \<Rightarrow> act_bind (markFailed record message actor) (\<lambda>_. act_throw upload_incomplete)
          | Unreadable e \<Rightarrow> act_throw (storeUnavailable e)
          | Verified v \<Rightarrow> inTransaction (complete_work record key v actor)))"

section \<open>Artefacts the server makes\<close>

record generated_input =
  gi_organisationId :: string
  gi_projectId :: string
  gi_kind :: string
  gi_contentType :: string
  gi_retentionClass :: string
  gi_bytes :: "byte list"
  gi_filenameLabel :: "string option"
  gi_actor :: event_actor

definition store_message :: "store_error \<Rightarrow> store_failure" where
  "store_message e = (case e of ArtefactStoreError message \<Rightarrow> Unhandled message)"

definition generated_artefact :: "generated_input \<Rightarrow> string \<Rightarrow> stored_object \<Rightarrow> nat \<Rightarrow> artefact_record" where
  "generated_artefact input aid obj now =
     \<lparr>ar_id = aid, ar_organisation_id = gi_organisationId input, ar_project_id = gi_projectId input,
      ar_kind = gi_kind input, ar_state = Artefact_available, ar_content_type = gi_contentType input,
      ar_declared_size_bytes = so_sizeBytes obj, ar_declared_sha256 = so_sha256 obj,
      ar_size_bytes = Some (so_sizeBytes obj), ar_sha256 = Some (so_sha256 obj), ar_storage_key = Some (so_key obj),
      ar_content_width_px = None, ar_content_height_px = None, ar_filename_label = gi_filenameLabel input,
      ar_redaction_state = ''not_applied'', ar_retention_class = gi_retentionClass input,
      ar_encryption_key_reference = None, ar_source_artefact_id = None,
      ar_thumbnail_state = Thumbnail_not_requested, ar_thumbnail_artefact_id = None, ar_browser_session_id = None,
      ar_created_by_actor_type = act_type (gi_actor input), ar_created_by_actor_id = act_id (gi_actor input),
      ar_created_at = now, ar_available_at = Some now, ar_expires_at = None, ar_deleted_at = None,
      ar_deleted_reason = None\<rparr>"

text \<open>
  The caller's transaction holds the row and its events; the bytes are in the store whether or not
  that transaction commits.
\<close>

definition storeGenerated :: "artefact_service \<Rightarrow> generated_input \<Rightarrow> artefact_record artefact_act" where
  "storeGenerated sv input =
     (if length (gi_bytes input) \<le> 0 \<or> length (gi_bytes input) > as_maxBytes sv
      then act_throw (Refused (ApiError POLICY_DENIED None None None))
      else act_bind (stored sv (gi_bytes input) store_message) (\<lambda>obj.
        inTransaction (\<lambda>db.
          (let (aid, db1) = newId ''art_'' db; a = generated_artefact input aid obj (es_now db1) in
           r_bind (insert_artefact a db1) (\<lambda>(row, db2).
           r_bind (appendEvents
             [artefact_event a (gi_actor input) ''artefact.upload_started'' [(''artefact_id'', JString aid)]
                [(''artefact_id'', JString aid), (''kind'', JString (gi_kind input)),
                 (''declared_size_bytes'', json_num (so_sizeBytes obj)),
                 (''declared_sha256'', JString (so_sha256 obj)), (''content_type'', JString (gi_contentType input))],
              artefact_event a (gi_actor input) ''artefact.upload_completed'' [(''artefact_id'', JString aid)]
                [(''artefact_id'', JString aid), (''kind'', JString (gi_kind input)),
                 (''sha256'', JString (so_sha256 obj)), (''size_bytes'', json_num (so_sizeBytes obj)),
                 (''storage_key'', JString (so_key obj)), (''redaction_state'', JString ''not_applied'')]] db2) (\<lambda>db3.
           Inr (row, db3)))))))"

section \<open>Reads\<close>

record artefact_scope =
  sp_organisationId :: "string option"
  sp_projectIds :: "string list option"

definition UNRESTRICTED_SCOPE :: artefact_scope where
  "UNRESTRICTED_SCOPE = \<lparr>sp_organisationId = None, sp_projectIds = None\<rparr>"

definition artefact_in_scope :: "artefact_scope \<Rightarrow> artefact_record \<Rightarrow> bool" where
  "artefact_in_scope scope a \<longleftrightarrow>
     (case sp_projectIds scope of None \<Rightarrow> True | Some ps \<Rightarrow> ar_project_id a \<in> set ps) \<and>
     (case sp_organisationId scope of None \<Rightarrow> True | Some org \<Rightarrow> ar_organisation_id a = org)"

definition getInScope :: "string \<Rightarrow> artefact_scope \<Rightarrow> artefact_db \<Rightarrow> store_failure + artefact_record" where
  "getInScope aid scope db =
     (case List.find (\<lambda>a. live_row aid a \<and> artefact_in_scope scope a) (ad_artefacts db) of
        None \<Rightarrow> Inl (Refused (notFound ''The artefact'')) | Some a \<Rightarrow> Inr a)"

definition getInternal :: "string \<Rightarrow> artefact_db \<Rightarrow> artefact_record option" where
  "getInternal aid db = List.find (\<lambda>a. ar_id a = aid) (ad_artefacts db)"

definition servable :: "artefact_record \<Rightarrow> store_failure + string" where
  "servable record =
     (if ar_state record \<noteq> Artefact_available then Inl upload_incomplete
      else case ar_storage_key record of None \<Rightarrow> Inl upload_incomplete | Some key \<Rightarrow> Inr key)"

definition readContent :: "artefact_record \<Rightarrow> artefact_db \<Rightarrow> store_failure + byte list" where
  "readContent record db =
     r_bind (servable record) (\<lambda>key.
     case get_object key (ad_files db) of Inl e \<Rightarrow> Inl (storeUnavailable e) | Inr bytes \<Rightarrow> Inr bytes)"

section \<open>Grants\<close>

definition ARTEFACT_GRANT_TTL_SECONDS :: nat where
  "ARTEFACT_GRANT_TTL_SECONDS = 120"

definition grantAccess ::
  "artefact_record \<Rightarrow> actor_type \<Rightarrow> string \<Rightarrow> event_actor \<Rightarrow> nat option \<Rightarrow> grant_row artefact_act" where
  "grantAccess record subjectType subjectId actor ttlSeconds =
     act_bind (act_read (\<lambda>_. servable record)) (\<lambda>_ db.
       (let ttl = (case ttlSeconds of None \<Rightarrow> ARTEFACT_GRANT_TTL_SECONDS | Some n \<Rightarrow> n);
            gid = ''agr_'' @ base64url (map unat (es_random db (es_drawn db)));
            db1 = db\<lparr>es_drawn := es_drawn db + 1\<rparr>;
            g = \<lparr>gr_id = gid, gr_artefact_id = ar_id record, gr_organisation_id = ar_organisation_id record,
                 gr_project_id = ar_project_id record, gr_subject_type = subjectType, gr_subject_id = subjectId,
                 gr_created_at = es_now db1, gr_expires_at = js_now db1 + ttl * 1000 * 1000, gr_revoked_at = None,
                 gr_last_used_at = None, gr_use_count = 0\<rparr>
        in act_bind (recordStateChange
             (\<lambda>_. artefact_event record actor ''artefact.access_granted'' [(''artefact_id'', JString (ar_id record))]
                [(''artefact_id'', JString (ar_id record)), (''grant_id'', JString gid),
                 (''subject'', JObject ([(''type'', JString (actor_type_name subjectType)), (''id'', JString subjectId)] @
                    opt_str ''display'' (act_display actor))),
                 (''expires_at'', JString (toISOString (gr_expires_at g)))])
             (\<lambda>db. r_bind (store_grants (ad_grants db @ [g]) db) (\<lambda>db'. Inr (g, db'))))
           (\<lambda>r. act_return (fst r)) db1))"

definition grant_live :: "nat \<Rightarrow> string \<Rightarrow> grant_row \<Rightarrow> bool" where
  "grant_live now gid g \<longleftrightarrow> gr_id g = gid \<and> gr_revoked_at g = None \<and> gr_expires_at g > now"

definition resolveGrant :: "string \<Rightarrow> grant_row option artefact_act" where
  "resolveGrant gid db =
     (case List.find (grant_live (es_now db) gid) (ad_grants db) of
        None \<Rightarrow> (Inr None, db)
      | Some g \<Rightarrow>
          act_bind (inTransaction (\<lambda>db. r_bind (store_grants (update_where (\<lambda>h. gr_id h = gr_id g)
              (\<lambda>h. h\<lparr>gr_use_count := gr_use_count h + 1, gr_last_used_at := Some (es_now db)\<rparr>) (ad_grants db)) db)
              (\<lambda>db1. Inr ((), db1))))
            (\<lambda>_. act_return (Some g)) db)"

text \<open>
  The route that serves bytes (\<open>GET /api/v1/artefact-content/:grantId\<close>). \<open>agent\<close> and \<open>caller\<close> are what the request
  authenticates as; \<open>None\<close> is a request that does not.
\<close>

record artefact_agent =
  ag_organisationId :: string
  ag_projectIds :: "string list"
  ag_sessionIds :: "string list"
  ag_credentialId :: string

record artefact_caller =
  ca_subjectType :: actor_type
  ca_subjectId :: string

definition unusableGrant :: store_failure where
  "unusableGrant = Refused (ApiError AUTHENTICATION_REQUIRED None None None)"

definition owns_grant :: "artefact_agent option \<Rightarrow> artefact_caller option \<Rightarrow> grant_row \<Rightarrow> bool" where
  "owns_grant agent caller g \<longleftrightarrow>
     (if gr_subject_type g = agent_session
      then (case agent of None \<Rightarrow> False
        | Some ag \<Rightarrow> ag_organisationId ag = gr_organisation_id g \<and> gr_project_id g \<in> set (ag_projectIds ag) \<and>
            (gr_subject_id g \<in> set (ag_sessionIds ag) \<or> ag_credentialId ag = gr_subject_id g))
      else (case caller of None \<Rightarrow> False
        | Some c \<Rightarrow> ca_subjectType c = gr_subject_type g \<and> ca_subjectId c = gr_subject_id g))"

definition content_route ::
  "string \<Rightarrow> artefact_agent option \<Rightarrow> artefact_caller option \<Rightarrow> (byte list \<times> string \<times> artefact_disposition) artefact_act" where
  "content_route gid agent caller =
     act_bind (resolveGrant gid) (\<lambda>grant.
     case grant of
       None \<Rightarrow> act_throw unusableGrant
     | Some g \<Rightarrow>
         if \<not> owns_grant agent caller g then act_throw unusableGrant
         else act_read (\<lambda>db.
           r_bind (getInScope (gr_artefact_id g)
             \<lparr>sp_organisationId = Some (gr_organisation_id g), sp_projectIds = Some [gr_project_id g]\<rparr> db) (\<lambda>record.
           r_bind (readContent record db) (\<lambda>bytes.
           Inr (bytes, ar_content_type record, dispositionFor (ar_content_type record))))))"

section \<open>Deletion\<close>

definition delete_row ::
  "artefact_record \<Rightarrow> string option \<Rightarrow> artefact_db \<Rightarrow>
     store_failure + ((artefact_record \<times> bool) \<times> artefact_db)" where
  "delete_row record reason db =
     r_bind (update_live (ar_id record)
       (\<lambda>a. a\<lparr>ar_deleted_at := Some (es_now db), ar_deleted_reason := reason\<rparr>) db) (\<lambda>(row, db1).
     Inr ((row, (case ar_storage_key record of None \<Rightarrow> False
        | Some key \<Rightarrow> filter (\<lambda>a. ar_storage_key a = Some key \<and> ar_deleted_at a = None \<and> ar_id a \<noteq> ar_id record)
            (ad_artefacts db1) = [])), db1))"

definition delete_tx :: "artefact_record \<Rightarrow> event_actor \<Rightarrow> string option \<Rightarrow> (artefact_record \<times> bool) artefact_act" where
  "delete_tx record actor reason =
     act_bind (recordStateChange
       (\<lambda>outcome. artefact_event record actor ''artefact.deleted'' [(''artefact_id'', JString (ar_id record))]
          ([(''artefact_id'', JString (ar_id record)), (''kind'', JString (ar_kind record))] @
           opt_str ''sha256'' (ar_sha256 record) @ opt_member ''size_bytes'' json_num (ar_size_bytes record) @
           [(''bytes_removed'', JBool (snd outcome))] @ opt_str ''reason'' reason))
       (delete_row record reason))
     (\<lambda>r. act_return (fst r))"

text \<open>The removal of the object after the commit; its failure is swallowed.\<close>

definition remove_bytes :: "artefact_record \<Rightarrow> bool \<Rightarrow> artefact_db \<Rightarrow> artefact_db" where
  "remove_bytes record bytesRemoved db =
     (case ar_storage_key record of
        None \<Rightarrow> db
      | Some key \<Rightarrow> if bytesRemoved then db\<lparr>ad_files := snd (delete_object key (ad_files db))\<rparr> else db)"

definition delete_artefact ::
  "artefact_record \<Rightarrow> event_actor \<Rightarrow> string option \<Rightarrow> (artefact_record \<times> bool) artefact_act" where
  "delete_artefact record actor reason =
     act_bind (delete_tx record actor reason) (\<lambda>outcome.
     act_bind (act_write (remove_bytes record (snd outcome))) (\<lambda>_. act_return outcome))"

section \<open>Thumbnails\<close>

record thumbnail_detail =
  td_reason :: "string option"
  td_size :: "(nat \<times> nat) option"

definition finish_thumbnail ::
  "artefact_record \<Rightarrow> thumbnail_state \<Rightarrow> string option \<Rightarrow> thumbnail_detail \<Rightarrow> artefact_db \<Rightarrow>
     store_failure + ((thumbnail_state \<times> string option) \<times> artefact_db)" where
  "finish_thumbnail record state thumbnailId detail db =
     r_bind (set_row (ar_id record)
       (\<lambda>a. a\<lparr>ar_thumbnail_state := state, ar_thumbnail_artefact_id := thumbnailId\<rparr>) db) (\<lambda>db1.
     r_bind (appendEvents [artefact_event record (system_actor ''job runner'') ''artefact.thumbnail_generated''
       [(''artefact_id'', JString (ar_id record))]
       ([(''artefact_id'', JString (ar_id record)), (''state'', JString (thumbnail_state_name state))] @
        opt_str ''thumbnail_artefact_id'' thumbnailId @
        (case td_size detail of None \<Rightarrow> [] | Some (w, h) \<Rightarrow> rectangle w h) @ opt_str ''reason'' (td_reason detail))] db1) (\<lambda>db2.
     Inr ((state, thumbnailId), db2)))"

definition thumbnail_artefact ::
  "artefact_service \<Rightarrow> artefact_record \<Rightarrow> string \<Rightarrow> stored_object \<Rightarrow> nat \<Rightarrow> nat \<Rightarrow> artefact_db \<Rightarrow> artefact_record" where
  "thumbnail_artefact sv record aid obj w h db =
     \<lparr>ar_id = aid, ar_organisation_id = ar_organisation_id record, ar_project_id = ar_project_id record,
      ar_kind = ''thumbnail'', ar_state = Artefact_available, ar_content_type = ''image/png'',
      ar_declared_size_bytes = so_sizeBytes obj, ar_declared_sha256 = so_sha256 obj,
      ar_size_bytes = Some (so_sizeBytes obj), ar_sha256 = Some (so_sha256 obj), ar_storage_key = Some (so_key obj),
      ar_content_width_px = Some w, ar_content_height_px = Some h, ar_filename_label = None,
      ar_redaction_state = ''not_applied'', ar_retention_class = ar_retention_class record,
      ar_encryption_key_reference = None, ar_source_artefact_id = Some (ar_id record),
      ar_thumbnail_state = Thumbnail_not_requested, ar_thumbnail_artefact_id = None,
      ar_browser_session_id = ar_browser_session_id record, ar_created_by_actor_type = system,
      ar_created_by_actor_id = None, ar_created_at = es_now db, ar_available_at = Some (es_now db),
      ar_expires_at = expiryFor sv (ar_retention_class record) db, ar_deleted_at = None, ar_deleted_reason = None\<rparr>"

definition insert_thumbnail ::
  "artefact_service \<Rightarrow> artefact_record \<Rightarrow> stored_object \<Rightarrow> nat \<Rightarrow> nat \<Rightarrow> artefact_db \<Rightarrow>
     store_failure + ((thumbnail_state \<times> string option) \<times> artefact_db)" where
  "insert_thumbnail sv record obj w h db =
     (let (aid, db1) = newId ''art_'' db; a = thumbnail_artefact sv record aid obj w h db1 in
      r_bind (insert_artefact a db1) (\<lambda>(_, db2).
      r_bind (appendEvents [artefact_event a (system_actor ''job runner'') ''artefact.upload_completed''
        [(''artefact_id'', JString aid)]
        ([(''artefact_id'', JString aid), (''kind'', JString ''thumbnail''), (''sha256'', JString (so_sha256 obj)),
          (''size_bytes'', json_num (so_sizeBytes obj)), (''storage_key'', JString (so_key obj)),
          (''redaction_state'', JString ''not_applied'')] @ rectangle w h)] db2) (\<lambda>db3.
      finish_thumbnail record Thumbnail_generated (Some aid) \<lparr>td_reason = None, td_size = Some (w, h)\<rparr> db3)))"

text \<open>
  The body of the job runs in the runner's transaction. A write to the store is not undone when that
  transaction is: \<open>thumbnail_source\<close> are the bytes to render, and the stored object is written first.
\<close>

definition thumbnail_source :: "string \<Rightarrow> artefact_db \<Rightarrow> (artefact_record \<times> string) option" where
  "thumbnail_source aid db =
     (case getInternal aid db of
        None \<Rightarrow> None
      | Some record \<Rightarrow>
          if ar_deleted_at record \<noteq> None \<or> ar_state record \<noteq> Artefact_available then None
          else map_option (\<lambda>key. (record, key)) (ar_storage_key record))"

definition runThumbnailJob :: "artefact_service \<Rightarrow> string \<Rightarrow> (thumbnail_state \<times> string option) artefact_act" where
  "runThumbnailJob sv aid db =
     (case thumbnail_source aid db of
        None \<Rightarrow> (Inr (Thumbnail_not_requested, None), db)
      | Some (record, key) \<Rightarrow>
          (case get_object key (ad_files db) of
             Inl e \<Rightarrow> (Inl (store_message e), db)
           | Inr bytes \<Rightarrow>
               (case as_render sv (ar_content_type record) bytes of
                  Render_error message \<Rightarrow> (Inl (Unhandled message), db)
                | Unsupported_image reason \<Rightarrow>
                    inTransaction (finish_thumbnail record Thumbnail_unsupported None
                      \<lparr>td_reason = Some reason, td_size = None\<rparr>) db
                | Not_rendered \<Rightarrow>
                    inTransaction (finish_thumbnail record Thumbnail_unsupported None
                      \<lparr>td_reason = Some (''this build generates thumbnails for image/png only, and the source is '' @
                         ar_content_type record), td_size = None\<rparr>) db
                | Rendered small w h \<Rightarrow>
                    act_bind (stored sv small store_message) (\<lambda>obj db1.
                      case verify_object (as_sha256 sv) (so_key obj) (ad_files db1) of
                        Inl e \<Rightarrow> (Inl (store_message e), db1)
                      | Inr seen \<Rightarrow>
                          if so_sha256 seen \<noteq> so_sha256 obj \<or> so_sizeBytes seen \<noteq> length small
                          then inTransaction (finish_thumbnail record Thumbnail_failed None
                            \<lparr>td_reason = Some ''the generated thumbnail did not read back as it was written'',
                             td_size = None\<rparr>) db1
                          else inTransaction (insert_thumbnail sv record obj w h) db1) db)))"

text \<open>The handler of the job (\<open>artefacts/jobs.ts\<close>): which artefact the payload names, or why there is none.\<close>

definition artefact_thumbnail_handler :: "artefact_service \<Rightarrow> job_record \<Rightarrow> (thumbnail_state \<times> string option) artefact_act" where
  "artefact_thumbnail_handler sv job =
     (case map_of (jr_payload job) ''artefact_id'' of
        Some (JString aid) \<Rightarrow> runThumbnailJob sv aid
      | _ \<Rightarrow> act_throw (Unhandled ''artefact_thumbnail: the job payload names no artefact''))"

section \<open>Status\<close>

definition storeReadable :: "artefact_db \<Rightarrow> bool" where
  "storeReadable db = r_ok (probeReadable (ad_files db))"

record artefact_store_status =
  ss_available :: bool
  ss_artefact_count :: nat
  ss_stored_bytes :: nat
  ss_pending_bytes :: nat

definition storeStatus :: "artefact_db \<Rightarrow> artefact_store_status" where
  "storeStatus db =
     (let live = filter (\<lambda>a. ar_state a = Artefact_available \<and> ar_deleted_at a = None) (ad_artefacts db);
          filed = filter (\<lambda>a. ar_storage_key a \<noteq> None) live;
          sizes = map (\<lambda>key. case List.find (\<lambda>a. ar_storage_key a = key) filed of
            None \<Rightarrow> 0 | Some a \<Rightarrow> (case ar_size_bytes a of None \<Rightarrow> 0 | Some n \<Rightarrow> n))
            (remdups (map ar_storage_key filed))
      in \<lparr>ss_available = r_ok (probe (ad_files db)), ss_artefact_count = length live,
          ss_stored_bytes = sum_list sizes,
          ss_pending_bytes = sum_list (map ar_declared_size_bytes
            (filter (\<lambda>a. ar_state a \<in> {Artefact_pending, Artefact_uploaded} \<and> ar_deleted_at a = None)
              (ad_artefacts db)))\<rparr>)"

end
