(* ===== verification/Job_Properties.thy ===== *)
theory Job_Properties
  imports Job_Runner
begin

text \<open>
  What the job queue promises: a claimed job belongs to one runner until its lease runs out, no job is
  claimed more often than it may be attempted, and the two places where the runner breaks its word.
\<close>

section \<open>Lemmas about the table\<close>

lemma check_rows_ok: "check_rows rows = ok \<longleftrightarrow> list_all (\<lambda>j. job_row_check j = ok) rows"
  by (induction rows) (simp_all add: result_simps)

lemma job_row_check_ok: "job_row_check j = ok \<longleftrightarrow>
    jb_attempts j \<le> jb_max_attempts j \<and> 1 \<le> jb_max_attempts j \<and> jb_max_attempts j \<le> 1000"
  by (auto simp: job_row_check_def result_simps)

lemma store_jobs_Inr [result_simps]:
  "store_jobs rows db = Inr db' \<longleftrightarrow>
     list_all (\<lambda>j. job_row_check j = ok) rows \<and> distinct (map jb_id rows) \<and> distinct (dedup_keys rows) \<and>
     db' = db\<lparr>jd_jobs := rows\<rparr>"
  by (auto simp: store_jobs_def result_simps check_rows_ok)

definition jobs_ok :: "'a job_store_scheme \<Rightarrow> bool" where
  "jobs_ok db \<longleftrightarrow> list_all (\<lambda>j. job_row_check j = ok) (jd_jobs db) \<and> distinct (map jb_id (jd_jobs db)) \<and>
     distinct (dedup_keys (jd_jobs db))"

lemma appended_jobs [simp]: "jd_jobs (appended i db) = jd_jobs db"
  by (simp add: appended_def Let_def)

lemma appendEvents_jobs:
  "appendEvents inputs db = Inr db' \<Longrightarrow> jd_jobs db' = jd_jobs db \<and> es_now db' = es_now db"
proof -
  have "jd_jobs (fold appended inputs db) = jd_jobs db \<and> es_now (fold appended inputs db) = es_now db"
    by (induction inputs arbitrary: db) simp_all
  then show "appendEvents inputs db = Inr db' \<Longrightarrow> jd_jobs db' = jd_jobs db \<and> es_now db' = es_now db"
    using appendEvents_Inr by blast
qed

text \<open>What each transaction does to the table and to the clock.\<close>

lemma enqueue_effect:
  assumes "enqueueJob input db = Inr (r, db')" "jobs_ok db"
  shows "jobs_ok db'" "\<exists>new. jd_jobs db' = jd_jobs db @ new" "es_now db' = es_now db"
  using assms
  by (auto simp: enqueueJob_def newId_def Let_def jobs_ok_def result_simps simp del: appendEvents.simps
      dest!: appendEvents_jobs split: if_splits)

lemma claim_effect:
  assumes "claim_job_work leaseMs runner locked db = Inr (r, db')"
  obtains "r = None" "db' = db"
  | row where "next_job locked db = Some row" "r = Some (job_toRecord (row\<lparr>jb_attempts := jb_attempts row + 1\<rparr>))"
      "db' = db\<lparr>jd_jobs := update_where (\<lambda>j. jb_id j = jb_id row) (leased leaseMs runner (es_now db)) (jd_jobs db)\<rparr>"
      "jobs_ok db'"
  using assms by (auto simp: claim_job_work_def result_simps jobs_ok_def split: option.splits)

lemma settle_effect:
  assumes "succeed_work job ms db = Inr (u, db') \<or> fail_work job reason detail db = Inr (u, db')"
  shows "\<exists>f. jd_jobs db' = update_where (\<lambda>j. jb_id j = jr_id job) f (jd_jobs db) \<and>
      (\<forall>j. jb_id (f j) = jb_id j \<and> jb_attempts (f j) = jb_attempts j \<and> jb_max_attempts (f j) = jb_max_attempts j \<and>
        jb_locked_until (f j) = None)"
    "jobs_ok db'" "es_now db' = es_now db"
proof -
  have "\<exists>f inputs db1. (\<forall>j. jb_id (f j) = jb_id j \<and> jb_attempts (f j) = jb_attempts j \<and>
        jb_max_attempts (f j) = jb_max_attempts j \<and> jb_locked_until (f j) = None) \<and>
      store_jobs (update_where (\<lambda>j. jb_id j = jr_id job) f (jd_jobs db)) db = Inr db1 \<and>
      appendEvents inputs db1 = Inr db'"
    using assms
  proof (elim disjE)
    assume "succeed_work job ms db = Inr (u, db')"
    then show ?thesis
      by (intro exI [of _ "succeeded (es_now db)"])
        (auto simp: succeed_work_def succeeded_def r_bind_eq_Inr simp del: appendEvents.simps)
  next
    assume "fail_work job reason detail db = Inr (u, db')"
    then show ?thesis
      by (intro exI [of _ "failed_attempt job (next_attempt_at job db) detail (es_now db)"])
        (auto simp: fail_work_def failed_attempt_def r_bind_eq_Inr Let_def simp del: appendEvents.simps)
  qed
  then obtain f inputs db1 where f: "\<forall>j. jb_id (f j) = jb_id j \<and> jb_attempts (f j) = jb_attempts j \<and>
        jb_max_attempts (f j) = jb_max_attempts j \<and> jb_locked_until (f j) = None"
    and steps: "store_jobs (update_where (\<lambda>j. jb_id j = jr_id job) f (jd_jobs db)) db = Inr db1"
      "appendEvents inputs db1 = Inr db'" by blast
  note log = appendEvents_jobs [OF steps(2)]
  show "\<exists>f. jd_jobs db' = update_where (\<lambda>j. jb_id j = jr_id job) f (jd_jobs db) \<and>
      (\<forall>j. jb_id (f j) = jb_id j \<and> jb_attempts (f j) = jb_attempts j \<and> jb_max_attempts (f j) = jb_max_attempts j \<and>
        jb_locked_until (f j) = None)"
    using f steps(1) log by (auto simp: result_simps)
  show "jobs_ok db'" "es_now db' = es_now db" using steps(1) log by (simp_all add: jobs_ok_def result_simps)
qed

text \<open>The head of the sorted list is a least claimable row.\<close>

lemma next_job_Some:
  assumes "next_job locked db = Some j"
  shows "j \<in> set (jd_jobs db)" "claimable (es_now db) j" "jb_id j \<notin> locked"
    "i \<in> set (jd_jobs db) \<Longrightarrow> claimable (es_now db) i \<Longrightarrow> jb_id i \<notin> locked \<Longrightarrow>
       (jb_run_after j, jb_created_at j) \<le> (jb_run_after i, jb_created_at i)"
proof -
  let ?key = "\<lambda>j. (jb_run_after j, jb_created_at j)"
  let ?rows = "filter (\<lambda>j. claimable (es_now db) j \<and> jb_id j \<notin> locked) (jd_jobs db)"
  obtain rest where sorted: "sort_key ?key ?rows = j # rest"
    using assms by (auto simp: next_job_def split: list.splits)
  have "j \<in> set (sort_key ?key ?rows)" by (simp only: sorted list.set_intros)
  then show "j \<in> set (jd_jobs db)" "claimable (es_now db) j" "jb_id j \<notin> locked" by auto
  assume "i \<in> set (jd_jobs db)" "claimable (es_now db) i" "jb_id i \<notin> locked"
  then have "i \<in> set (sort_key ?key ?rows)" by simp
  moreover have "sorted (map ?key (j # rest))"
    using sorted_sort_key [of ?key ?rows] by (simp only: sorted)
  ultimately show "?key j \<le> ?key i" by (auto simp: sorted)
qed

lemma next_job_None: "next_job locked db = None \<Longrightarrow> i \<in> set (jd_jobs db) \<Longrightarrow> claimable (es_now db) i \<Longrightarrow> jb_id i \<in> locked"
proof -
  let ?key = "\<lambda>j. (jb_run_after j, jb_created_at j)"
  let ?rows = "filter (\<lambda>j. claimable (es_now db) j \<and> jb_id j \<notin> locked) (jd_jobs db)"
  assume "next_job locked db = None" and i: "i \<in> set (jd_jobs db)" "claimable (es_now db) i"
  then have "sort_key ?key ?rows = []" by (auto simp: next_job_def split: list.splits)
  then have "set ?rows = {}" by (metis set_sort set_empty)
  then show "jb_id i \<in> locked" using i by (auto simp: filter_empty_conv)
qed

section \<open>Histories of the queue\<close>

text \<open>
  The transactions of any number of runners and of the code that schedules jobs, with the claims of
  a job on the label. Handlers, other components and the passing of time are the last rule: they leave the
  table alone.
\<close>

datatype job_label = Claimed string | Settled string | Other

inductive job_txn :: "'a job_store_scheme \<Rightarrow> job_label \<Rightarrow> 'a job_store_scheme \<Rightarrow> bool" where
  scheduled: "enqueueJob input db = Inr (r, db') \<Longrightarrow> job_txn db Other db'"
| claimed: "claim_job_work leaseMs runner locked db = Inr (Some job, db') \<Longrightarrow> job_txn db (Claimed (jr_id job)) db'"
| succeeded: "succeed_work job ms db = Inr (u, db') \<Longrightarrow> job_txn db (Settled (jr_id job)) db'"
| failed: "fail_work job reason detail db = Inr (u, db') \<Longrightarrow> job_txn db (Settled (jr_id job)) db'"
| elsewhere: "jd_jobs db' = jd_jobs db \<Longrightarrow> es_now db \<le> es_now db' \<Longrightarrow> job_txn db Other db'"

inductive job_history :: "'a job_store_scheme \<Rightarrow> job_label list \<Rightarrow> 'a job_store_scheme \<Rightarrow> bool" where
  none: "job_history db [] db"
| more: "job_history db labels db' \<Longrightarrow> job_txn db' label db'' \<Longrightarrow> job_history db (labels @ [label]) db''"

lemma one_claim_history:
  "claim_job_work leaseMs runner locked db = Inr (Some job, db') \<Longrightarrow> job_history db [Claimed (jr_id job)] db'"
  using job_history.more [OF job_history.none job_txn.claimed] by force

lemma job_toRecord_id [simp]: "jr_id (job_toRecord j) = jb_id j" "jr_attempts (job_toRecord j) = jb_attempts j"
  by (simp_all add: job_toRecord_def)

lemma claim_time: "claim_job_work leaseMs runner locked db = Inr (r, db') \<Longrightarrow> es_now db' = es_now db"
  by (erule claim_effect) simp_all

lemma job_txn_time: "job_txn db label db' \<Longrightarrow> jobs_ok db \<Longrightarrow> es_now db \<le> es_now db'"
  by (induction rule: job_txn.induct)
    (use enqueue_effect(3) settle_effect(3) claim_time in \<open>fastforce+\<close>)

lemma job_txn_ok: "job_txn db label db' \<Longrightarrow> jobs_ok db \<Longrightarrow> jobs_ok db'"
proof (induction rule: job_txn.induct)
  case (claimed leaseMs runner locked db job db')
  from claimed(1) show ?case by (rule claim_effect) (use claimed(2) in auto)
next
  case (elsewhere db' db)
  then show ?case by (simp add: jobs_ok_def)
qed (use enqueue_effect(1) settle_effect(2) in blast)+

text \<open>How many attempts the row with an identifier has made and may make.\<close>

definition attempts_of :: "string \<Rightarrow> 'a job_store_scheme \<Rightarrow> (nat \<times> nat) option" where
  "attempts_of jid db =
     map_option (\<lambda>j. (jb_attempts j, jb_max_attempts j)) (List.find (\<lambda>j. jb_id j = jid) (jd_jobs db))"

lemma job_rows_unique: "jobs_ok db \<Longrightarrow> i \<in> set (jd_jobs db) \<Longrightarrow> j \<in> set (jd_jobs db) \<Longrightarrow> jb_id i = jb_id j \<Longrightarrow> i = j"
  by (auto simp: jobs_ok_def distinct_map inj_on_def)

lemma find_other_row:
  assumes "\<And>j. key (f j) = key j" "k \<noteq> k'"
  shows "List.find (\<lambda>j. key j = k) (update_where (\<lambda>j. key j = k') f t) = List.find (\<lambda>j. key j = k) t"
  using assms by (induction t) (auto simp: update_where_def)

lemma find_snoc_row: "List.find p t = Some r \<Longrightarrow> List.find p (t @ new) = Some r"
  by (induction t) (auto split: if_splits)

section \<open>A lease keeps others away\<close>

definition held_until :: "string \<Rightarrow> nat \<Rightarrow> 'a job_store_scheme \<Rightarrow> bool" where
  "held_until jid t db \<longleftrightarrow>
     (\<exists>j \<in> set (jd_jobs db). jb_id j = jid \<and> jb_status j = Job_running \<and> jb_locked_until j = Some t)"

lemma held_not_next:
  assumes "jobs_ok db" "held_until jid t db" "es_now db \<le> t" "next_job locked db = Some row"
  shows "jb_id row \<noteq> jid"
  using assms next_job_Some(1,2) [OF assms(4)] job_rows_unique [OF assms(1)]
  by (fastforce simp: held_until_def claimable_def)

lemma held_kept:
  assumes "held_until jid t db" "jd_jobs db' = update_where (\<lambda>j. jb_id j = jid') f (jd_jobs db)" "jid' \<noteq> jid"
  shows "held_until jid t db'"
  using assms by (fastforce simp: held_until_def set_update_where)

lemma held_step:
  assumes "job_txn db label db'" "jobs_ok db" "held_until jid t db" "es_now db' \<le> t" "label \<noteq> Settled jid"
  shows "held_until jid t db' \<and> label \<noteq> Claimed jid"
  using assms
proof (induction rule: job_txn.induct)
  case (scheduled input db r db')
  then show ?case using enqueue_effect(2) by (fastforce simp: held_until_def)
next
  case (claimed leaseMs runner locked db job db')
  note time = claim_time [OF claimed(1)]
  from claimed(1) show ?case
  proof (rule claim_effect)
    fix row assume "next_job locked db = Some row"
      "Some job = Some (job_toRecord (row\<lparr>jb_attempts := jb_attempts row + 1\<rparr>))"
      "db' = db\<lparr>jd_jobs := update_where (\<lambda>j. jb_id j = jb_id row) (leased leaseMs runner (es_now db)) (jd_jobs db)\<rparr>"
    moreover from this have "jb_id row \<noteq> jid" using held_not_next [OF claimed(2,3)] claimed(4) time by simp
    ultimately show ?thesis by (auto intro!: held_kept [OF claimed(3)])
  qed (use claimed in auto)
next
  case (succeeded job ms db u db')
  then show ?case using settle_effect(1) [of job ms db u db'] held_kept [OF succeeded(3)] by blast
next
  case (failed job reason detail db u db')
  then show ?case using settle_effect(1) [of job _ db u db' reason detail] held_kept [OF failed(3)] by blast
next
  case (elsewhere db' db)
  then show ?case by (simp add: held_until_def)
qed

lemma history_ok: "job_history db labels db' \<Longrightarrow> jobs_ok db \<Longrightarrow> jobs_ok db'"
  by (induction rule: job_history.induct) (use job_txn_ok in blast)+

lemma held_history:
  assumes "job_history db labels db'" "jobs_ok db" "held_until jid t db" "es_now db' \<le> t" "Settled jid \<notin> set labels"
  shows "held_until jid t db' \<and> Claimed jid \<notin> set labels"
  using assms
proof (induction rule: job_history.induct)
  case (more db labels db' label db'')
  have ok: "jobs_ok db'" using history_ok [OF more.hyps(1) more.prems(1)] .
  have "es_now db' \<le> t" using job_txn_time [OF more.hyps(2) ok] more.prems(3) by simp
  then have "held_until jid t db' \<and> Claimed jid \<notin> set labels" using more by simp
  then show ?case using held_step [OF more.hyps(2) ok] more.prems(3,4) by auto
qed simp

text \<open>C8: Two runners never work on one job at a time, as long as the runner that claimed it reports
  within its lease: after a claim, and until the lease runs out or an outcome of the job is recorded, no other claim
  takes the job, whatever any number of runners and schedulers do meanwhile.\<close>

theorem claims_are_exclusive:
  assumes "jobs_ok db" "claim_job_work leaseMs runner locked db = Inr (Some job, db1)"
    and "job_history db1 labels db2" "Settled (jr_id job) \<notin> set labels"
    and "es_now db2 \<le> es_now db + leaseMs * 1000"
  shows "Claimed (jr_id job) \<notin> set labels"
  using assms(2)
proof (rule claim_effect)
  fix row assume row: "next_job locked db = Some row"
    "Some job = Some (job_toRecord (row\<lparr>jb_attempts := jb_attempts row + 1\<rparr>))"
    "db1 = db\<lparr>jd_jobs := update_where (\<lambda>j. jb_id j = jb_id row) (leased leaseMs runner (es_now db)) (jd_jobs db)\<rparr>"
    "jobs_ok db1"
  then have "leased leaseMs runner (es_now db) row \<in> set (jd_jobs db1)" "jr_id job = jb_id row"
    using next_job_Some(1) by (auto simp: set_update_where)
  then have "held_until (jr_id job) (es_now db + leaseMs * 1000) db1"
    by (auto simp: held_until_def leased_def intro!: bexI [of _ "leased leaseMs runner (es_now db) row"])
  from held_history [OF assms(3) row(4) this assms(5,4)] show ?thesis by simp
qed simp

definition sample_job :: "string \<Rightarrow> nat \<Rightarrow> job_status \<Rightarrow> nat \<Rightarrow> nat option \<Rightarrow> job_row" where
  "sample_job jid runAfter status attempts until =
     \<lparr>jb_id = jid, jb_organisation_id = ''org_1'', jb_project_id = Some ''prj_1'', jb_kind = Artefact_thumbnail,
      jb_payload = [], jb_status = status, jb_run_after = runAfter, jb_attempts = attempts, jb_max_attempts = 5,
      jb_locked_until = until, jb_locked_by = None, jb_last_error = None, jb_idempotency_key = None,
      jb_created_at = runAfter, jb_updated_at = runAfter, jb_completed_at = None\<rparr>"

definition sample_queue :: "job_row list \<Rightarrow> job_store" where
  "sample_queue rows =
     \<lparr>es_now = 1000000, es_random = (\<lambda>n. replicate 15 0 @ [of_nat n]), es_drawn = 0, es_streams = Map.empty,
      es_events = [], es_outbox = [], jd_jobs = rows\<rparr>"

lemmas queue_eval =
  sample_job_def sample_queue_def claim_job_work_def next_job_def claimable_def leased_def store_jobs_def
  job_row_check_def refuse_if_def r_then_def dedup_keys_def live_job_def update_where_def job_toRecord_def

text \<open>
  A run of three runners. The first claims the older of two jobs for a minute. Fifty-nine seconds later
  the second runner takes the other job and the third finds nothing to do; no history that stays within
  the minute and settles nothing hands the first job out again. A second after the lease it is claimable.
\<close>

definition two_jobs :: job_store where
  "two_jobs = sample_queue [sample_job ''job_1'' 10 Job_pending 0 None, sample_job ''job_2'' 20 Job_pending 0 None]"

definition first_claimed :: "nat \<Rightarrow> job_store" where
  "first_claimed now = (sample_queue [leased 60000 ''r1'' 1000000 (sample_job ''job_1'' 10 Job_pending 0 None),
     sample_job ''job_2'' 20 Job_pending 0 None])\<lparr>es_now := now\<rparr>"

definition both_claimed :: "nat \<Rightarrow> job_store" where
  "both_claimed now = (sample_queue [leased 60000 ''r1'' 1000000 (sample_job ''job_1'' 10 Job_pending 0 None),
     leased 60000 ''r2'' 60000000 (sample_job ''job_2'' 20 Job_pending 0 None)])\<lparr>es_now := now\<rparr>"

lemmas three_runners = two_jobs_def first_claimed_def both_claimed_def

lemma first_claim:
  "claim_job_work 60000 ''r1'' {} two_jobs =
    Inr (Some (job_toRecord (sample_job ''job_1'' 10 Job_pending 1 None)), first_claimed 1000000)"
  by (simp add: three_runners queue_eval)

lemma second_claim:
  "claim_job_work 60000 ''r2'' {} (first_claimed 60000000) =
    Inr (Some (job_toRecord (sample_job ''job_2'' 20 Job_pending 1 None)), both_claimed 60000000)"
  by (simp add: three_runners queue_eval)

lemma second_claim_history: "job_history (first_claimed 1000000) [Other, Claimed ''job_2''] (both_claimed 60000000)"
proof -
  have "job_txn (first_claimed 1000000) Other (first_claimed 60000000)"
    by (rule job_txn.elsewhere) (simp_all add: first_claimed_def sample_queue_def)
  from job_history.more [OF job_history.more [OF job_history.none this] job_txn.claimed [OF second_claim]]
  show ?thesis by (simp add: sample_job_def)
qed

theorem claims_are_exclusive_witness:
  "claim_job_work 60000 ''r1'' {} two_jobs =
     Inr (Some (job_toRecord (sample_job ''job_1'' 10 Job_pending 1 None)), first_claimed 1000000) \<and>
   job_history (first_claimed 1000000) [Other, Claimed ''job_2''] (both_claimed 60000000) \<and>
   map jb_locked_by (jd_jobs (both_claimed 60000000)) = [Some ''r1'', Some ''r2''] \<and>
   claim_job_work 60000 ''r3'' {} (both_claimed 60000000) = Inr (None, both_claimed 60000000) \<and>
   \<not> (\<exists>labels db2. job_history (first_claimed 1000000) labels db2 \<and> Settled ''job_1'' \<notin> set labels \<and>
        es_now db2 \<le> 61000000 \<and> Claimed ''job_1'' \<in> set labels) \<and>
   (\<exists>job db2. claim_job_work 60000 ''r3'' {} (both_claimed 62000000) = Inr (Some job, db2) \<and> jr_id job = ''job_1'')"
proof (intro conjI first_claim second_claim_history)
  show "map jb_locked_by (jd_jobs (both_claimed 60000000)) = [Some ''r1'', Some ''r2'']"
    "claim_job_work 60000 ''r3'' {} (both_claimed 60000000) = Inr (None, both_claimed 60000000)"
    "\<exists>job db2. claim_job_work 60000 ''r3'' {} (both_claimed 62000000) = Inr (Some job, db2) \<and> jr_id job = ''job_1''"
    by (simp_all add: three_runners queue_eval)
  have "jobs_ok two_jobs" "es_now two_jobs = 1000000" by (simp_all add: jobs_ok_def three_runners queue_eval)
  then show "\<not> (\<exists>labels db2. job_history (first_claimed 1000000) labels db2 \<and> Settled ''job_1'' \<notin> set labels \<and>
      es_now db2 \<le> 61000000 \<and> Claimed ''job_1'' \<in> set labels)"
    using claims_are_exclusive [OF _ first_claim] by (auto simp: sample_job_def)
qed

section \<open>Attempts are counted\<close>

lemma attempts_settled:
  assumes "succeed_work job ms db = Inr (u, db') \<or> fail_work job reason detail db = Inr (u, db')"
  shows "attempts_of jid db' = attempts_of jid db"
proof -
  obtain f where f: "jd_jobs db' = update_where (\<lambda>j. jb_id j = jr_id job) f (jd_jobs db)"
    "\<And>j. jb_id (f j) = jb_id j \<and> jb_attempts (f j) = jb_attempts j \<and> jb_max_attempts (f j) = jb_max_attempts j"
    using settle_effect(1) [OF assms] by blast
  have "map_option (\<lambda>j. (jb_attempts j, jb_max_attempts j)) (List.find (\<lambda>j. jb_id j = jid)
      (update_where (\<lambda>j. jb_id j = jr_id job) f rows)) =
    map_option (\<lambda>j. (jb_attempts j, jb_max_attempts j)) (List.find (\<lambda>j. jb_id j = jid) rows)" for rows
    using f(2) by (induction rows) (auto simp: update_where_def)
  then show ?thesis by (simp add: attempts_of_def f(1))
qed

lemma attempts_step:
  assumes "job_txn db label db'" "jobs_ok db" "attempts_of jid db = Some (a, m)"
  shows "attempts_of jid db' = Some (if label = Claimed jid then a + 1 else a, m)"
  using assms
proof (induction rule: job_txn.induct)
  case (scheduled input db r db')
  then show ?case using enqueue_effect(2) find_snoc_row by (fastforce simp: attempts_of_def)
next
  case (claimed leaseMs runner locked db job db')
  from claimed(1) show ?case
  proof (rule claim_effect)
    fix row assume row: "Some job = Some (job_toRecord (row\<lparr>jb_attempts := jb_attempts row + 1\<rparr>))"
      "db' = db\<lparr>jd_jobs := update_where (\<lambda>j. jb_id j = jb_id row) (leased leaseMs runner (es_now db)) (jd_jobs db)\<rparr>"
    show ?thesis
    proof (cases "jb_id row = jid")
      case True
      obtain j where "List.find (\<lambda>j. jb_id j = jid) (jd_jobs db) = Some j" "jb_attempts j = a" "jb_max_attempts j = m"
        using claimed(3) by (auto simp: attempts_of_def)
      with True row show ?thesis
        using find_update_where [of "\<lambda>j. jb_id j = jid" "jd_jobs db" j "leased leaseMs runner (es_now db)"]
        by (simp add: attempts_of_def leased_def)
    next
      case False
      with row claimed(3) show ?thesis
        using find_other_row [of jb_id "leased leaseMs runner (es_now db)" jid "jb_id row" "jd_jobs db"]
        by (simp add: attempts_of_def leased_def)
    qed
  qed (use claimed in auto)
next
  case (elsewhere db' db)
  then show ?case by (simp add: attempts_of_def)
next
  case (succeeded job ms db u db')
  then show ?case using attempts_settled [of job ms db u db'] by simp
next
  case (failed job reason detail db u db')
  then show ?case using attempts_settled [of job _ db u db' reason detail] by simp
qed

lemma attempts_history:
  assumes "job_history db labels db'" "jobs_ok db" "attempts_of jid db = Some (a, m)"
  shows "attempts_of jid db' = Some (a + count_list labels (Claimed jid), m)"
  using assms
proof (induction rule: job_history.induct)
  case (more db labels db' label db'')
  then show ?case using attempts_step [OF more.hyps(2)] history_ok [OF more.hyps(1)] by auto
qed simp

text \<open>C34: A job is never attempted more often than it may be. In any history of the queue the
  attempts recorded on its row are those it had before and one for each claim, and their number stays within the
  maximum of the job, which is at most a thousand.\<close>

theorem attempts_within_maximum:
  assumes "jobs_ok db" "attempts_of jid db = Some (a, m)" "job_history db labels db'"
  shows "attempts_of jid db' = Some (a + count_list labels (Claimed jid), m) \<and>
    a + count_list labels (Claimed jid) \<le> m \<and> m \<le> 1000"
proof -
  note counted = attempts_history [OF assms(3,1,2)]
  moreover obtain j where j: "List.find (\<lambda>j. jb_id j = jid) (jd_jobs db') = Some j"
    "jb_attempts j = a + count_list labels (Claimed jid)" "jb_max_attempts j = m"
    using counted by (auto simp: attempts_of_def)
  moreover have "job_row_check j = ok"
    using history_ok [OF assms(3,1)] find_Some_in [OF j(1)] by (auto simp: jobs_ok_def list_all_iff)
  ultimately show ?thesis by (simp add: job_row_check_ok)
qed

theorem attempts_within_maximum_witness:
  "attempts_of ''job_1'' (snd (claim_job 60000 ''r1'' {} (sample_queue [sample_job ''job_1'' 10 Job_pending 4 None]))) =
    Some (5, 5)"
proof -
  let ?q = "sample_queue [sample_job ''job_1'' 10 Job_pending 4 None]"
  let ?db = "snd (claim_job 60000 ''r1'' {} ?q)"
  have "claim_job_work 60000 ''r1'' {} ?q =
      Inr (Some (job_toRecord (sample_job ''job_1'' 10 Job_pending 5 None)), ?db)"
    by (simp add: claim_job_def inTransaction_def queue_eval)
  from one_claim_history [OF this] have "job_history ?q [Claimed ''job_1''] ?db" by (simp add: sample_job_def)
  moreover have "jobs_ok ?q" "attempts_of ''job_1'' ?q = Some (4, 5)"
    by (simp_all add: jobs_ok_def attempts_of_def queue_eval)
  ultimately show ?thesis
    using attempts_within_maximum [of ?q "''job_1''" 4 5 "[Claimed ''job_1'']" ?db] by simp
qed

section \<open>A crash on the last attempt stops the queue\<close>

lemma next_job_first:
  assumes "jobs_ok db" "j \<in> set (jd_jobs db)" "claimable (es_now db) j" "jb_id j \<notin> locked"
    and "\<And>i. i \<in> set (jd_jobs db) \<Longrightarrow> jb_id i \<noteq> jb_id j \<Longrightarrow>
      (jb_run_after j, jb_created_at j) < (jb_run_after i, jb_created_at i)"
  shows "next_job locked db = Some j"
proof (cases "next_job locked db")
  case None
  then show ?thesis using next_job_None assms(2-4) by blast
next
  case (Some i)
  have "(jb_run_after i, jb_created_at i) \<le> (jb_run_after j, jb_created_at j)"
    by (rule next_job_Some(4) [OF Some assms(2-4)])
  then have "jb_id i = jb_id j" using assms(5) [OF next_job_Some(1) [OF Some]] by (meson not_le)
  then show ?thesis using job_rows_unique [OF assms(1) next_job_Some(1) [OF Some] assms(2)] Some by simp
qed

lemma check_rows_over:
  assumes "list_all (\<lambda>j. job_row_check j = ok) rows" "j \<in> set rows" "p j"
    and "\<And>i. i \<in> set rows \<Longrightarrow> p i \<Longrightarrow> job_row_check (f i) = Inl e"
  shows "check_rows (update_where p f rows) = Inl e"
  using assms by (induction rows) (auto simp: update_where_def)

text \<open>A runner that dies during the last attempt of the oldest job stops the whole queue for good. The
  lease runs out, the job counts as claimable and is the first in line, but claiming it would record
  one attempt more than its maximum, which the table refuses. So every claim throws and leaves
  everything as it is, at every later time, and a drain runs no job at all however many are due.\<close>

theorem crashed_last_attempt_blocks_queue:
  assumes "jobs_ok db" "j \<in> set (jd_jobs db)" "jb_status j = Job_running" "jb_locked_until j = Some t" "t < now"
    and "jb_attempts j = jb_max_attempts j" "es_now db = now"
    and "list_all (\<lambda>i. jb_id i \<noteq> jb_id j \<longrightarrow>
      (jb_run_after j, jb_created_at j) < (jb_run_after i, jb_created_at i)) (jd_jobs db)"
  shows "drain_jobs rn attempts 0 (Suc limit) db = (Inl (Check_violation ''jobs_attempts_bounded''), db)"
proof -
  have "claimable (es_now db) j" using assms(3-5,7) by (simp add: claimable_def)
  then have first: "next_job {} db = Some j"
    using assms(1,2,8) by (intro next_job_first) (auto simp: list_all_iff)
  have over: "job_row_check (leased (rn_leaseMs rn) (rn_runnerId rn) (es_now db) i) =
      Inl (Check_violation ''jobs_attempts_bounded'')" if "i \<in> set (jd_jobs db)" "jb_id i = jb_id j" for i
    using job_rows_unique [OF assms(1) that(1) assms(2) that(2)] assms(6)
    by (simp add: job_row_check_def leased_def refuse_if_def)
  have "check_rows (update_where (\<lambda>i. jb_id i = jb_id j) (leased (rn_leaseMs rn) (rn_runnerId rn) (es_now db)) (jd_jobs db)) =
      Inl (Check_violation ''jobs_attempts_bounded'')"
    using assms(1) by (intro check_rows_over [where j = j] over) (auto simp: jobs_ok_def assms(2))
  then show ?thesis
    by (simp add: runOnce_def claimAndRun_def act_bind_def claim_job_def claim_job_work_def inTransaction_def first store_jobs_def)
qed

theorem crashed_last_attempt_blocks_queue_witness:
  "drain_jobs (\<lparr>rn_handlers = (\<lambda>k. None), rn_leaseMs = 60000, rn_attemptTimeoutMs = 55000, rn_runnerId = ''r2''\<rparr>)
     (\<lambda>n. Ends_after 5) 0 100 (sample_queue [sample_job ''job_1'' 10 Job_running 5 (Some 100),
       sample_job ''job_2'' 20 Job_pending 0 None]) =
   (Inl (Check_violation ''jobs_attempts_bounded''), sample_queue [sample_job ''job_1'' 10 Job_running 5 (Some 100),
       sample_job ''job_2'' 20 Job_pending 0 None])"
proof -
  let ?j = "sample_job ''job_1'' 10 Job_running 5 (Some 100)"
  let ?q = "sample_queue [?j, sample_job ''job_2'' 20 Job_pending 0 None]"
  have q: "jobs_ok ?q" "?j \<in> set (jd_jobs ?q)" "jb_status ?j = Job_running" "jb_locked_until ?j = Some 100" "(100 :: nat) < 1000000"
    "jb_attempts ?j = jb_max_attempts ?j" "es_now ?q = 1000000"
    "list_all (\<lambda>i. jb_id i \<noteq> jb_id ?j \<longrightarrow>
      (jb_run_after ?j, jb_created_at ?j) < (jb_run_after i, jb_created_at i)) (jd_jobs ?q)"
    by (simp_all add: jobs_ok_def queue_eval)
  show ?thesis
    using crashed_last_attempt_blocks_queue [OF q, of _ _ 99] by simp
qed

section \<open>A timed-out attempt is not abandoned\<close>

text \<open>
  The timer of an attempt stops waiting for the handler, not the handler. The job is put back for another
  attempt, and the work of the first one commits all the same, so the next attempt does it again.
\<close>

lemma timed_out_attempt_commits:
  assumes "fail_job job Attempt_timeout (timeout_text rn) db = (ok, db1)" "handler job db1 = Inr ((), db2)"
    and "\<not> exhausted job" "List.find (\<lambda>j. jb_id j = jr_id job) (jd_jobs db) = Some j"
  shows "run_handler rn Times_out_then_ends handler job db = (Inr True, db2)"
    and "\<exists>j'. List.find (\<lambda>j. jb_id j = jr_id job) (jd_jobs db1) = Some j' \<and> jb_status j' = Job_pending"
proof -
  show "run_handler rn Times_out_then_ends handler job db = (Inr True, db2)"
    using assms(1,2) by (simp add: run_handler_def act_bind_def inTransaction_def)
  have "fail_work job Attempt_timeout (timeout_text rn) db = Inr ((), db1)"
    using assms(1) by (auto simp: fail_job_def inTransaction_def split: sum.splits)
  then have "jd_jobs db1 = update_where (\<lambda>j. jb_id j = jr_id job)
      (failed_attempt job (next_attempt_at job db) (timeout_text rn) (es_now db)) (jd_jobs db)"
    by (auto simp: fail_work_def Let_def result_simps simp del: appendEvents.simps dest!: appendEvents_jobs)
  then show "\<exists>j'. List.find (\<lambda>j. jb_id j = jr_id job) (jd_jobs db1) = Some j' \<and> jb_status j' = Job_pending"
    using find_update_where [OF assms(4), of "failed_attempt job (next_attempt_at job db) (timeout_text rn) (es_now db)"] assms(3)
    by (simp add: failed_attempt_def)
qed

end
