(* ===== verification/Artefact_Properties.thy ===== *)
theory Artefact_Properties
  imports Artefact_Service Job_Properties
begin

text \<open>
  What the artefact service promises. The central invariant ties the table to the store: bytes that a live row
  names are there, and an available row names the address of the digest it declares. It is kept by every
  operation that acts on the record as it stands; two theorems show what happens when requests overlap.
\<close>

section \<open>What the content checks say\<close>

text \<open>Bytes that pass the check of their declared type are served as an attachment exactly when they
  begin with markup, whatever white space, byte order mark or letter case hides it. So nothing a browser would
  sniff as a document is ever offered inline, and the declared type is one the store accepts.\<close>

theorem inline_is_never_markup:
  assumes "contentTypeMismatch declared bytes = None"
  shows "(dispositionFor declared = Attachment \<longleftrightarrow> text_begins (points ''<'') (markupPrefix bytes)) \<and>
    declared \<in> set acceptedContentTypes"
proof -
  have known: "declared \<in> set [''image/png'', ''image/jpeg'', ''text/html'', ''application/json'', ''text/plain'']"
    using assms by (auto simp: contentTypeMismatch_def Let_def split: if_splits)
  have image: "\<not> text_begins (points ''<'') (markupPrefix bytes)"
    if declared: "declared = ''image/png'' \<or> declared = ''image/jpeg''"
  proof -
    have "sniffContentType bytes = declared"
      using assms declared by (auto simp: contentTypeMismatch_def Let_def split: if_splits)
    then have sig: "(length bytes \<ge> 8 \<and> take 8 bytes = PNG_SIGNATURE) \<or> (length bytes \<ge> 3 \<and> bytes ! 0 = 0xFF)"
      using declared by (intro sniffed_image_bytes) auto
    then obtain b bs where bytes: "bytes = b # bs" by (cases bytes) auto
    then have "b = 0x89 \<or> b = 0xFF" using sig by (auto simp: PNG_SIGNATURE_def)
    then have "0x80 \<le> unat b" "utf8_lead (unat b) = None" by (auto simp: utf8_lead_def)
    then show ?thesis by (rule replacement_prefix [OF bytes])
  qed
  have plain: "\<not> text_begins (points ''<'') (markupPrefix bytes)"
    if "declared = ''application/json'' \<or> declared = ''text/plain''"
    using assms that sniffed_markup [of bytes] by (auto simp: contentTypeMismatch_def Let_def split: if_splits)
  have html: "text_begins (points ''<'') (markupPrefix bytes)" if "declared = ''text/html''"
    using assms that by (auto simp: contentTypeMismatch_def Let_def split: if_splits)
  have accepted: "set acceptedContentTypes = {''image/png'', ''image/jpeg'', ''text/html'', ''application/json'', ''text/plain''}"
    by code_simp
  have "dispositionFor declared = Attachment \<longleftrightarrow> declared = ''text/html''"
    using known by (auto simp: dispositionFor_def isActiveContentType_def ACTIVE_CONTENT_TYPES_def)
  moreover have "text_begins (points ''<'') (markupPrefix bytes) \<longleftrightarrow> declared = ''text/html''"
  proof (cases "declared = ''text/html''")
    case False
    then have "(declared = ''image/png'' \<or> declared = ''image/jpeg'') \<or>
        (declared = ''application/json'' \<or> declared = ''text/plain'')" using known by simp
    then have "\<not> text_begins (points ''<'') (markupPrefix bytes)" by (rule disjE) (erule image, erule plain)
    then show ?thesis using False by simp
  qed (simp add: html)
  ultimately show ?thesis using known unfolding accepted by simp
qed

definition ascii :: "string \<Rightarrow> byte list" where
  "ascii s = map (\<lambda>c. of_nat (of_char c)) s"

lemma char_of_value: "c = char_of n \<longleftrightarrow> take_bit 8 n = (of_char c :: nat)"
  using char_of_eq_iff [of n c] by (simp add: eq_commute [of c])

lemmas content_eval = char_of_value
  contentTypeMismatch_def sniffContentType_def markupPrefix_def buffer_text_def byte_values_def
  PNG_SIGNATURE_def latin1_def js_white_def lower_point_def points_def validUtf8_def text_buffer_def utf8_encode_def

theorem inline_is_never_markup_witness:
  "dispositionFor ''text/html'' = Attachment \<and> text_begins (points ''<'') (markupPrefix (ascii ''  <!DOCTYPE html>''))"
proof -
  have "contentTypeMismatch ''text/html'' (ascii ''  <!DOCTYPE html>'') = None"
    by (simp add: content_eval ascii_def)
  then show ?thesis using inline_is_never_markup [of "''text/html''" "ascii ''  <!DOCTYPE html>''"]
    by (simp add: dispositionFor_def isActiveContentType_def ACTIVE_CONTENT_TYPES_def)
qed

text \<open>C39: The round trip through the platform's decoder is a test of well-formed UTF-8: it accepts exactly
  the byte sequences that encode some list of Unicode scalar values.\<close>

theorem validUtf8_exact:
  "validUtf8 bytes \<longleftrightarrow> (\<exists>text. list_all scalar text \<and> byte_values bytes = concat (map utf8_encode text))"
  using round_trip_iff [of "byte_values bytes"] by (simp add: validUtf8_def buffer_text_def text_buffer_def)

section \<open>The invariant\<close>

text \<open>
  A live row with bytes has them in the store, and an available one has them under the address
  of the digest it declares. Every object of the store is at the address of its own digest.
\<close>

definition row_backed :: "artefact_files \<Rightarrow> artefact_record \<Rightarrow> bool" where
  "row_backed fs a \<longleftrightarrow>
     (ar_deleted_at a = None \<longrightarrow>
       (case ar_storage_key a of
          None \<Rightarrow> ar_state a \<noteq> Artefact_available
        | Some key \<Rightarrow> fs_files fs key \<noteq> None \<and>
            (ar_state a = Artefact_available \<longrightarrow> key = address_of (ar_declared_sha256 a))))"

definition artefacts_ok :: "artefact_service \<Rightarrow> artefact_db \<Rightarrow> bool" where
  "artefacts_ok sv db \<longleftrightarrow>
     list_all artefact_row_ok (ad_artefacts db) \<and> distinct (map ar_id (ad_artefacts db)) \<and>
     list_all (row_backed (ad_files db)) (ad_artefacts db) \<and> files.addressed (as_sha256 sv) (ad_files db)"

lemma broken_check_None: "broken_check rows = None \<longleftrightarrow> list_all artefact_row_ok rows"
  by (auto simp: broken_check_def artefact_row_ok_def find_None_iff list_all_iff) (blast, force)

lemma store_artefacts_Inr [result_simps]:
  "store_artefacts rows db = Inr db' \<longleftrightarrow>
     list_all artefact_row_ok rows \<and> distinct (map ar_id rows) \<and> db' = db\<lparr>ad_artefacts := rows\<rparr>"
  by (auto simp: store_artefacts_def broken_check_None [symmetric] result_simps split: option.splits)

text \<open>The log and the queue are apart from the artefacts.\<close>

definition same_artefacts :: "artefact_db \<Rightarrow> artefact_db \<Rightarrow> bool" where
  "same_artefacts db db' \<longleftrightarrow> ad_artefacts db' = ad_artefacts db \<and> ad_files db' = ad_files db"

lemma same_artefacts_ok: "same_artefacts db db' \<Longrightarrow> artefacts_ok sv db' = artefacts_ok sv db"
  by (simp add: same_artefacts_def artefacts_ok_def)

lemma appendEvents_artefacts: "appendEvents inputs db = Inr db' \<Longrightarrow> same_artefacts db db'"
proof -
  have "ad_artefacts (fold appended inputs db) = ad_artefacts db \<and> ad_files (fold appended inputs db) = ad_files db"
    by (induction inputs arbitrary: db) (simp_all add: appended_def Let_def)
  then show "appendEvents inputs db = Inr db' \<Longrightarrow> same_artefacts db db'"
    using appendEvents_Inr by (auto simp: same_artefacts_def)
qed

lemma appendEvent_artefacts: "appendEvent i db = Inr (r, db') \<Longrightarrow> same_artefacts db db'"
  using appendEvent_Inr [of i db r db'] by (auto simp: same_artefacts_def appended_def Let_def)

lemma enqueueJob_artefacts: "enqueueJob input db = Inr (r, db') \<Longrightarrow> same_artefacts db db'"
  by (auto simp: enqueueJob_def newId_def Let_def result_simps same_artefacts_def simp del: appendEvents.simps
      dest!: appendEvents_artefacts split: if_splits)

text \<open>A transaction that works on the tables and then logs.\<close>

lemma recordStateChange_cases:
  assumes "recordStateChange event work db = (r, db')"
  obtains "db' = db" "\<And>x. r \<noteq> Inr x"
  | x a db1 where "work db = Inr (x, db1)" "r = Inr (x, a)" "same_artefacts db1 db'"
  using assms
  by (auto simp: recordStateChange_def inTransaction_def r_bind_eq_Inr dest!: appendEvent_artefacts split: sum.splits)

lemma rows_stored_ok:
  assumes "artefacts_ok sv db" "store_artefacts rows db = Inr db'"
    and "\<And>a. a \<in> set rows \<Longrightarrow> a \<notin> set (ad_artefacts db) \<Longrightarrow> row_backed (ad_files db) a"
  shows "artefacts_ok sv db'"
  using assms by (auto simp: artefacts_ok_def result_simps list_all_iff)

lemma row_updated_ok:
  assumes "artefacts_ok sv db" "store_artefacts (update_where p f (ad_artefacts db)) db = Inr db'"
    and "\<And>a. a \<in> set (ad_artefacts db) \<Longrightarrow> p a \<Longrightarrow> row_backed (ad_files db) (f a)"
  shows "artefacts_ok sv db'"
  using assms(3) by (intro rows_stored_ok [OF assms(1,2)]) (auto simp: in_update_where split: if_splits)

lemma backed_row: "artefacts_ok sv db \<Longrightarrow> a \<in> set (ad_artefacts db) \<Longrightarrow> row_backed (ad_files db) a"
  by (simp add: artefacts_ok_def list_all_iff)

lemma backed_cong:
  "row_backed fs a \<Longrightarrow> (ar_deleted_at b = None \<Longrightarrow> ar_deleted_at a = None) \<Longrightarrow> ar_storage_key b = ar_storage_key a \<Longrightarrow>
   (ar_state b = Artefact_available \<Longrightarrow> ar_state a = Artefact_available \<and> ar_declared_sha256 b = ar_declared_sha256 a) \<Longrightarrow>
   row_backed fs b"
  by (auto simp: row_backed_def split: option.splits)

lemma row_unique: "artefacts_ok sv db \<Longrightarrow> a \<in> set (ad_artefacts db) \<Longrightarrow> b \<in> set (ad_artefacts db) \<Longrightarrow> ar_id a = ar_id b \<Longrightarrow> a = b"
  by (auto simp: artefacts_ok_def distinct_map inj_on_def)

section \<open>Every operation keeps it\<close>

lemma put_bytes_ok:
  assumes "artefacts_ok sv db" "put_bytes sv bytes db = (r, db')"
  shows "artefacts_ok sv db'" "ad_artefacts db' = ad_artefacts db"
    and "r = Inr obj \<Longrightarrow> so_key obj = address_of (as_sha256 sv bytes) \<and> so_sha256 obj = as_sha256 sv bytes \<and>
      so_sizeBytes obj = length bytes \<and> fs_files (ad_files db') (so_key obj) = Some bytes"
proof -
  obtain fs where put: "put_object (as_sha256 sv) bytes (ad_files db) = (r, fs)" and db': "db' = db\<lparr>ad_files := fs\<rparr>"
    using assms(2) by (auto simp: put_bytes_def split: prod.splits)
  have "row_backed fs a" if "row_backed (ad_files db) a" for a
    using that files.put_keeps [of "ad_files db" _ _ "as_sha256 sv" bytes] put
    by (force simp: row_backed_def split: option.splits)
  then show "artefacts_ok sv db'"
    using assms(1) files.addressed_put [of "as_sha256 sv" "ad_files db" bytes] put
    by (auto simp: artefacts_ok_def db' list_all_iff)
  show "ad_artefacts db' = ad_artefacts db" by (simp add: db')
  show "r = Inr obj \<Longrightarrow> so_key obj = address_of (as_sha256 sv bytes) \<and> so_sha256 obj = as_sha256 sv bytes \<and>
      so_sizeBytes obj = length bytes \<and> fs_files (ad_files db') (so_key obj) = Some bytes"
    using files.put_done [of "as_sha256 sv" bytes "ad_files db" obj fs] put by (auto simp: db')
qed

lemma stored_ok:
  assumes "artefacts_ok sv db" "stored sv bytes wrap db = (r, db')"
  shows "artefacts_ok sv db'" "ad_artefacts db' = ad_artefacts db"
    and "r = Inr obj \<Longrightarrow> so_key obj = address_of (as_sha256 sv bytes) \<and> so_sha256 obj = as_sha256 sv bytes \<and>
      so_sizeBytes obj = length bytes \<and> fs_files (ad_files db') (so_key obj) = Some bytes"
proof -
  obtain r' where "put_bytes sv bytes db = (r', db')" "\<And>obj. r = Inr obj \<Longrightarrow> r' = Inr obj"
    using assms(2) by (auto simp: stored_def split: prod.splits sum.splits)
  from put_bytes_ok [OF assms(1) this(1)] this(2) show "artefacts_ok sv db'" "ad_artefacts db' = ad_artefacts db"
    "r = Inr obj \<Longrightarrow> so_key obj = address_of (as_sha256 sv bytes) \<and> so_sha256 obj = as_sha256 sv bytes \<and>
      so_sizeBytes obj = length bytes \<and> fs_files (ad_files db') (so_key obj) = Some bytes" by blast+
qed

lemma update_live_Inr:
  assumes "update_live aid f db = Inr (row, db')"
  obtains a where "List.find (live_row aid) (ad_artefacts db) = Some a" "row = f a"
    "store_artefacts (update_where (live_row aid) f (ad_artefacts db)) db = Inr db'"
  using assms by (auto simp: update_live_def r_bind_eq_Inr split: option.splits)

lemma inserted_ok:
  "artefacts_ok sv db \<Longrightarrow> insert_artefact a db = Inr (x, db1) \<Longrightarrow> row_backed (ad_files db) a \<Longrightarrow> artefacts_ok sv db1"
  using rows_stored_ok by (fastforce simp: insert_artefact_def r_bind_eq_Inr)

lemma logged_ok:
  assumes "recordStateChange event work db = (r, db')" "artefacts_ok sv db"
    and "\<And>x db1. work db = Inr (x, db1) \<Longrightarrow> artefacts_ok sv db1"
  shows "artefacts_ok sv db'"
  using assms(1)
proof (rule recordStateChange_cases)
  fix x a db1 assume "work db = Inr (x, db1)" "same_artefacts db1 db'"
  then show ?thesis using assms(3) same_artefacts_ok by blast
qed (use assms(2) in simp)

lemma drawn_ok [simp]: "artefacts_ok sv (db\<lparr>es_drawn := n\<rparr>) = artefacts_ok sv db"
  by (simp add: artefacts_ok_def)

lemma new_artefact_backed: "row_backed fs (new_artefact sv input aid db)"
  by (simp add: row_backed_def new_artefact_def Let_def)

lemma act_bind_state: "snd (act_bind m (\<lambda>a. act_return (f a)) db) = snd (m db)"
  by (auto simp: act_bind_def act_simps split: prod.splits sum.splits)

lemma logged_state_ok:
  assumes "artefacts_ok sv db" "\<And>x db1. work db = Inr (x, db1) \<Longrightarrow> artefacts_ok sv db1"
  shows "artefacts_ok sv (snd (recordStateChange event work db))"
  using assms logged_ok [OF prod.collapse [symmetric]] by blast

lemma createIntent_ok:
  assumes "artefacts_ok sv db"
  shows "artefacts_ok sv (snd (createIntent sv input db))"
proof (cases "intent_checks sv input")
  case (Inr u)
  have "artefacts_ok sv (snd (recordStateChange event (insert_artefact (new_artefact sv input aid db1)) (db\<lparr>es_drawn := n\<rparr>)))"
    for event aid db1 n
    using assms by (intro logged_state_ok) (simp, erule inserted_ok [rotated], simp_all add: new_artefact_backed)
  then show ?thesis using Inr by (simp add: createIntent_def newId_def Let_def act_bind_state)
qed (use assms in \<open>simp add: createIntent_def\<close>)

lemma markFailed_ok:
  assumes "artefacts_ok sv db"
  shows "artefacts_ok sv (snd (markFailed a reason actor db))"
proof -
  have "artefacts_ok sv db1" if "set_row (ar_id a) (\<lambda>b. b\<lparr>ar_state := Artefact_failed\<rparr>) db = Inr db1" for db1
    by (rule row_updated_ok [OF assms that [unfolded set_row_def]]) (auto intro: backed_cong [OF backed_row [OF assms]])
  then show ?thesis
    using assms by (auto simp: markFailed_def act_bind_def act_simps r_bind_eq_Inr split: sum.splits prod.splits elim!: logged_ok)
qed

lemma storeContent_ok:
  assumes "artefacts_ok sv db"
  shows "artefacts_ok sv (snd (storeContent sv record bytes actor db))"
proof -
  have upload: "artefacts_ok sv db2" if "stored sv bytes storeUnavailable db = (Inr obj, db1)"
    "update_live (ar_id record) (\<lambda>a. a\<lparr>ar_state := Artefact_uploaded, ar_storage_key := Some (so_key obj)\<rparr>) db1 = Inr (row, db2)"
    for obj db1 row db2
  proof -
    note kept = stored_ok [OF assms that(1)]
    from that(2) show ?thesis
    proof (rule update_live_Inr)
      fix a assume "store_artefacts (update_where (live_row (ar_id record))
        (\<lambda>a. a\<lparr>ar_state := Artefact_uploaded, ar_storage_key := Some (so_key obj)\<rparr>) (ad_artefacts db1)) db1 = Inr db2"
      from row_updated_ok [OF kept(1) this] kept(3) show ?thesis by (auto simp: row_backed_def)
    qed
  qed
  have failed: "artefacts_ok sv db1" if "stored sv bytes storeUnavailable db = (r, db1)" for r db1
    using stored_ok(1) [OF assms that] .
  show ?thesis
    using assms markFailed_ok [OF assms] upload failed
    by (auto simp: storeContent_def act_bind_def act_simps inTransaction_def split: option.splits sum.splits prod.splits if_splits)
      (metis snd_conv)+
qed

text \<open>The other operations of the service, on the record as it stands.\<close>

lemma getInScope_Inr: "getInScope aid scope db = Inr a \<Longrightarrow> a \<in> set (ad_artefacts db) \<and> live_row aid a \<and> artefact_in_scope scope a"
  by (auto simp: getInScope_def dest: find_Some_in split: option.splits)

lemma verified_key:
  assumes "verify_upload sv record key sha256 sizeBytes db = Verified v"
  shows "key = address_of (ar_declared_sha256 record)" "vd_sha256 v = ar_declared_sha256 record"
    "vd_sizeBytes v = ar_declared_size_bytes record"
    "\<exists>bytes. get_object key (ad_files db) = Inr bytes \<and> as_sha256 sv bytes = ar_declared_sha256 record \<and>
       length bytes = ar_declared_size_bytes record \<and> contentTypeMismatch (ar_content_type record) bytes = None"
  using assms
  by (auto simp: verify_upload_def Let_def keyForDigest_Inr split: if_splits sum.splits option.splits)

lemma complete_work_rows:
  assumes "complete_work record key v actor db = Inr (row, db')"
  obtains a db1 where "List.find (live_row (ar_id record)) (ad_artefacts db) = Some a"
    "row = made_available record v (es_now db) a"
    "store_artefacts (update_where (live_row (ar_id record)) (made_available record v (es_now db)) (ad_artefacts db)) db = Inr db1"
    "same_artefacts db1 db'"
proof -
  obtain db1 db2 where steps: "update_live (ar_id record) (made_available record v (es_now db)) db = Inr (row, db1)"
    "appendEvents (completed_events record key v actor) db1 = Inr db2"
    "(if wantsThumbnail record v then \<exists>r. enqueueJob (thumbnail_job record) db2 = Inr (r, db') else db' = db2)"
    using assms by (auto simp: complete_work_def r_bind_eq_Inr simp del: appendEvents.simps split: if_splits)
  have "same_artefacts db1 db'"
    using appendEvents_artefacts [OF steps(2)] steps(3) enqueueJob_artefacts by (fastforce simp: same_artefacts_def split: if_splits)
  with steps(1) that show thesis by (elim update_live_Inr) blast
qed

lemma complete_artefact_ok:
  assumes "artefacts_ok sv db" "record \<in> set (ad_artefacts db)"
  shows "artefacts_ok sv (snd (complete_artefact sv record sha256 sizeBytes actor db))"
proof -
  have made: "artefacts_ok sv db'"
    if key: "ar_storage_key record = Some key" and v: "verify_upload sv record key sha256 sizeBytes db = Verified v"
      and work: "complete_work record key v actor db = Inr (row, db')" for key v row db'
    using work
  proof (rule complete_work_rows)
    fix a db1 assume rows: "store_artefacts (update_where (live_row (ar_id record)) (made_available record v (es_now db)) (ad_artefacts db)) db = Inr db1"
      and same: "same_artefacts db1 db'"
    have "row_backed (ad_files db) (made_available record v (es_now db) a)"
      if "a \<in> set (ad_artefacts db)" "live_row (ar_id record) a" for a
    proof -
      have "a = record" using row_unique [OF assms(1) that(1) assms(2)] that(2) by (simp add: live_row_def)
      then show ?thesis
        using backed_row [OF assms(1,2)] that(2) key verified_key(1) [OF v]
        by (simp add: row_backed_def made_available_def live_row_def)
    qed
    from row_updated_ok [OF assms(1) rows this] same_artefacts_ok [OF same] show ?thesis by simp
  qed
  show ?thesis
  proof (cases "ar_state record = Artefact_available \<or> ar_storage_key record = None")
    case True
    then show ?thesis using assms(1) by (auto simp: complete_artefact_def act_simps split: option.splits)
  next
    case False
    then obtain key where key: "ar_storage_key record = Some key" and state: "ar_state record \<noteq> Artefact_available" by blast
    have run: "complete_artefact sv record sha256 sizeBytes actor db = (case verify_upload sv record key sha256 sizeBytes db of
        Faulty message \<Rightarrow> act_bind (markFailed record message actor) (\<lambda>_. act_throw upload_incomplete) db
      | Unreadable e \<Rightarrow> (Inl (storeUnavailable e), db)
      | Verified v \<Rightarrow> inTransaction (complete_work record key v actor) db)"
      using state by (simp add: complete_artefact_def key act_bind_def [of "act_read _"] act_simps split: verification.splits)
    have throws: "snd (act_bind m (\<lambda>_. act_throw e) db) = snd (m db)" for m :: "unit artefact_act" and e
      by (auto simp: act_bind_def act_simps split: prod.splits sum.splits)
    show ?thesis
    proof (cases "verify_upload sv record key sha256 sizeBytes db")
      case (Faulty message)
      then show ?thesis using markFailed_ok [OF assms(1)] by (simp add: run throws)
    next
      case (Unreadable e)
      then show ?thesis using assms(1) by (simp add: run)
    next
      case (Verified v)
      then show ?thesis
        using assms(1) made [OF key Verified] by (auto simp: run inTransaction_def split: sum.splits)
    qed
  qed
qed

lemma storeGenerated_ok:
  assumes "artefacts_ok sv db"
  shows "artefacts_ok sv (snd (storeGenerated sv input db))"
proof -
  obtain r db1 where put: "stored sv (gi_bytes input) store_message db = (r, db1)" by (rule prod.exhaust)
  note kept = stored_ok [OF assms put]
  have backed: "row_backed (ad_files db1) (generated_artefact input aid obj now)" if "r = Inr obj" for obj aid now
    using kept(3) [OF that] by (auto simp: row_backed_def generated_artefact_def)
  show ?thesis
  proof (cases r)
    case (Inl e)
    then show ?thesis using assms kept(1) put by (simp add: storeGenerated_def act_bind_def act_simps)
  next
    case (Inr obj)
    have "artefacts_ok sv db3"
      if "insert_artefact (generated_artefact input aid obj now) (db1\<lparr>es_drawn := n\<rparr>) = Inr (x, db2)"
        "appendEvents inputs db2 = Inr db3" for aid now n x db2 inputs db3
      using inserted_ok [OF _ that(1), of sv] kept(1) backed [OF Inr] same_artefacts_ok [OF appendEvents_artefacts [OF that(2)]]
      by simp
    then show ?thesis
      using assms kept(1) put Inr
      by (auto simp: storeGenerated_def act_bind_def act_simps inTransaction_def newId_def Let_def r_bind_eq_Inr
          simp del: appendEvents.simps split: sum.splits)
  qed
qed

lemma delete_row_rows:
  assumes "delete_row record reason db = Inr ((row, bytesRemoved), db')"
  obtains f where "\<And>a. ar_deleted_at (f a) \<noteq> None" "\<And>a. ar_id (f a) = ar_id a"
    "store_artefacts (update_where (live_row (ar_id record)) f (ad_artefacts db)) db = Inr db'"
    "\<And>key a. bytesRemoved \<Longrightarrow> ar_storage_key record = Some key \<Longrightarrow> a \<in> set (ad_artefacts db') \<Longrightarrow>
       ar_deleted_at a = None \<Longrightarrow> ar_storage_key a = Some key \<Longrightarrow> ar_id a = ar_id record"
proof -
  let ?f = "\<lambda>a. a\<lparr>ar_deleted_at := Some (es_now db), ar_deleted_reason := reason\<rparr>"
  have "update_live (ar_id record) ?f db = Inr (row, db')"
    and removed: "bytesRemoved = (case ar_storage_key record of None \<Rightarrow> False
        | Some key \<Rightarrow> filter (\<lambda>a. ar_storage_key a = Some key \<and> ar_deleted_at a = None \<and> ar_id a \<noteq> ar_id record)
            (ad_artefacts db') = [])"
    using assms by (auto simp: delete_row_def r_bind_eq_Inr)
  then have "store_artefacts (update_where (live_row (ar_id record)) ?f (ad_artefacts db)) db = Inr db'"
    by (elim update_live_Inr)
  then show thesis
    using removed by (intro that [of ?f]) (auto simp: filter_empty_conv)
qed

lemma removed_ok:
  assumes "artefacts_ok sv db"
    and "\<And>key a. bytesRemoved \<Longrightarrow> ar_storage_key record = Some key \<Longrightarrow> a \<in> set (ad_artefacts db) \<Longrightarrow>
      ar_deleted_at a = None \<Longrightarrow> ar_storage_key a \<noteq> Some key"
  shows "artefacts_ok sv (remove_bytes record bytesRemoved db)"
proof (cases "ar_storage_key record")
  case (Some key)
  show ?thesis
  proof (cases bytesRemoved)
    case True
    obtain r fs where run: "delete_object key (ad_files db) = (r, fs)" by (rule prod.exhaust)
    have "row_backed fs a" if "a \<in> set (ad_artefacts db)" for a
      using files.remove_any [OF run] assms(2) [OF True Some that] backed_row [OF assms(1) that]
      by (auto simp: row_backed_def split: option.splits)
    then show ?thesis
      using assms(1) files.addressed_remove [of "as_sha256 sv" "ad_files db" key] run True
      by (simp add: remove_bytes_def Some artefacts_ok_def list_all_iff)
  qed (use assms(1) in \<open>simp add: remove_bytes_def Some\<close>)
qed (use assms(1) in \<open>simp add: remove_bytes_def\<close>)

text \<open>
  Removing the bytes of a row that was just deleted, when no other live row has them, takes
  nothing from a live row.
\<close>

lemma delete_artefact_ok:
  assumes "artefacts_ok sv db" "record \<in> set (ad_artefacts db)"
  shows "artefacts_ok sv (snd (delete_artefact record actor reason db))"
proof -
  obtain r db1 where tx: "delete_tx record actor reason db = (r, db1)" by (rule prod.exhaust)
  have after: "artefacts_ok sv db1 \<and> (\<forall>outcome. r = Inr outcome \<longrightarrow> artefacts_ok sv (remove_bytes record (snd outcome) db1))"
  proof -
    obtain r' db1' where run: "recordStateChange (\<lambda>outcome. artefact_event record actor ''artefact.deleted'' [(''artefact_id'', JString (ar_id record))]
          ([(''artefact_id'', JString (ar_id record)), (''kind'', JString (ar_kind record))] @
           opt_str ''sha256'' (ar_sha256 record) @ opt_member ''size_bytes'' json_num (ar_size_bytes record) @
           [(''bytes_removed'', JBool (snd outcome))] @ opt_str ''reason'' reason)) (delete_row record reason) db = (r', db1')"
      by (rule prod.exhaust)
    then have r': "db1' = db1" "\<And>outcome. r = Inr outcome \<Longrightarrow> \<exists>a. r' = Inr (outcome, a)"
      using tx by (auto simp: delete_tx_def act_bind_def act_simps split: sum.splits)
    from run show ?thesis
    proof (rule recordStateChange_cases)
      assume "db1' = db" "\<And>x. r' \<noteq> Inr x"
      then show ?thesis using assms(1) r' by blast
    next
      fix x a db2 assume work: "delete_row record reason db = Inr (x, db2)" and x: "r' = Inr (x, a)"
        and same: "same_artefacts db2 db1'"
      obtain row bytesRemoved where pair: "x = (row, bytesRemoved)" by (cases x)
      have ok1: "artefacts_ok sv db1" and last: "artefacts_ok sv (remove_bytes record bytesRemoved db1)"
        using work [unfolded pair]
      proof (atomize (full), rule delete_row_rows)
        fix f assume f: "\<And>a. ar_deleted_at (f a) \<noteq> None" "\<And>a. ar_id (f a) = ar_id a"
          and rows: "store_artefacts (update_where (live_row (ar_id record)) f (ad_artefacts db)) db = Inr db2"
          and alone: "\<And>key a. bytesRemoved \<Longrightarrow> ar_storage_key record = Some key \<Longrightarrow> a \<in> set (ad_artefacts db2) \<Longrightarrow>
            ar_deleted_at a = None \<Longrightarrow> ar_storage_key a = Some key \<Longrightarrow> ar_id a = ar_id record"
        have ok2: "artefacts_ok sv db2" by (rule row_updated_ok [OF assms(1) rows]) (simp add: row_backed_def f)
        have gone: "ar_deleted_at a \<noteq> None" if "a \<in> set (ad_artefacts db2)" "ar_id a = ar_id record" for a
        proof -
          have "a \<in> set (update_where (live_row (ar_id record)) f (ad_artefacts db))"
            using that(1) rows by (simp add: result_simps)
          then obtain q where "a = (if live_row (ar_id record) q then f q else q)" unfolding in_update_where by blast
          with that(2) f show ?thesis by (cases "live_row (ar_id record) q") (auto simp: live_row_def)
        qed
        have rows1: "ad_artefacts db1 = ad_artefacts db2" using same r'(1) by (simp add: same_artefacts_def)
        have ok1: "artefacts_ok sv db1" using ok2 same_artefacts_ok [OF same] r'(1) by simp
        moreover have "artefacts_ok sv (remove_bytes record bytesRemoved db1)"
          using alone gone by (intro removed_ok [OF ok1]) (metis rows1)
        ultimately show "artefacts_ok sv db1 \<and> artefacts_ok sv (remove_bytes record bytesRemoved db1)" ..
      qed
      then show ?thesis using x pair r' by auto
    qed
  qed
  then show ?thesis
    using tx by (cases r) (auto simp: delete_artefact_def act_bind_def act_simps)
qed

lemma finish_ok:
  assumes "artefacts_ok sv db" "finish_thumbnail record state thumbnailId detail db = Inr (x, db')"
  shows "artefacts_ok sv db'"
proof -
  obtain db1 inputs where steps: "set_row (ar_id record)
      (\<lambda>a. a\<lparr>ar_thumbnail_state := state, ar_thumbnail_artefact_id := thumbnailId\<rparr>) db = Inr db1"
    "appendEvents inputs db1 = Inr db'"
    using assms(2) by (auto simp: finish_thumbnail_def r_bind_eq_Inr simp del: appendEvents.simps)
  have "artefacts_ok sv db1"
    by (rule row_updated_ok [OF assms(1) steps(1) [unfolded set_row_def]])
      (auto intro: backed_cong [OF backed_row [OF assms(1)]])
  then show ?thesis using same_artefacts_ok [OF appendEvents_artefacts [OF steps(2)]] by simp
qed

lemma transaction_ok:
  assumes "artefacts_ok sv db" "\<And>x db'. work db = Inr (x, db') \<Longrightarrow> artefacts_ok sv db'"
  shows "artefacts_ok sv (snd (inTransaction work db))"
  using assms by (auto simp: inTransaction_def split: sum.splits)

lemma runThumbnailJob_ok:
  assumes "artefacts_ok sv db"
  shows "artefacts_ok sv (snd (runThumbnailJob sv aid db))"
proof (cases "thumbnail_source aid db")
  case (Some source)
  obtain row key where source: "source = (row, key)" by (cases source)
  have finished: "artefacts_ok sv (snd (inTransaction (finish_thumbnail row state tid detail) db'))"
    if "artefacts_ok sv db'" for state tid detail db'
    using finish_ok [OF that] by (intro transaction_ok [OF that])
  have rendered: "artefacts_ok sv (snd (act_bind (stored sv small store_message) (\<lambda>obj db1.
        case verify_object (as_sha256 sv) (so_key obj) (ad_files db1) of
          Inl e \<Rightarrow> (Inl (store_message e), db1)
        | Inr seen \<Rightarrow>
            if so_sha256 seen \<noteq> so_sha256 obj \<or> so_sizeBytes seen \<noteq> length small
            then inTransaction (finish_thumbnail row Thumbnail_failed None detail) db1
            else inTransaction (insert_thumbnail sv row obj w h) db1) db))" for small w h detail
  proof -
    obtain r db1 where put: "stored sv small store_message db = (r, db1)" by (rule prod.exhaust)
    note kept = stored_ok [OF assms put]
    have inserted: "artefacts_ok sv (snd (inTransaction (insert_thumbnail sv row obj w h) db1))" if "r = Inr obj" for obj
    proof (rule transaction_ok [OF kept(1)])
      fix x db4 assume "insert_thumbnail sv row obj w h db1 = Inr (x, db4)"
      then obtain aid n y db2 inputs db3 where steps:
        "insert_artefact (thumbnail_artefact sv row aid obj w h (db1\<lparr>es_drawn := n\<rparr>)) (db1\<lparr>es_drawn := n\<rparr>) = Inr (y, db2)"
        "appendEvents inputs db2 = Inr db3" "\<exists>detail. finish_thumbnail row Thumbnail_generated (Some aid) detail db3 = Inr (x, db4)"
        by (auto simp: insert_thumbnail_def newId_def Let_def r_bind_eq_Inr simp del: appendEvents.simps) blast
      have "row_backed (ad_files db1) (thumbnail_artefact sv row aid obj w h (db1\<lparr>es_drawn := n\<rparr>))"
        using kept(3) [OF that] by (auto simp: row_backed_def thumbnail_artefact_def)
      then have "artefacts_ok sv db3"
        using inserted_ok [OF _ steps(1), of sv] kept(1) same_artefacts_ok [OF appendEvents_artefacts [OF steps(2)]] by simp
      then show "artefacts_ok sv db4" using steps(3) finish_ok by blast
    qed
    show ?thesis
      using put kept(1) finished [OF kept(1)] inserted
      by (cases r) (auto simp: act_bind_def split: sum.splits)
  qed
  show ?thesis
    using assms finished [OF assms] rendered
    by (simp add: runThumbnailJob_def Some source split: sum.splits render_outcome.splits)
qed (use assms in \<open>simp add: runThumbnailJob_def\<close>)

lemma store_grants_artefacts: "store_grants rows db = Inr db' \<Longrightarrow> same_artefacts db db'"
  by (auto simp: store_grants_def result_simps same_artefacts_def)

lemma grants_ok:
  assumes "artefacts_ok sv db"
  shows "artefacts_ok sv (snd (grantAccess record subjectType subjectId actor ttl db))"
    and "artefacts_ok sv (snd (resolveGrant gid db))"
proof -
  have granted: "artefacts_ok sv (snd (recordStateChange event
      (\<lambda>db. r_bind (store_grants (ad_grants db @ [g]) db) (\<lambda>db'. Inr (g, db'))) (db\<lparr>es_drawn := n\<rparr>)))" for event g n
    using assms store_grants_artefacts same_artefacts_ok by (intro logged_state_ok) (fastforce simp: r_bind_eq_Inr)+
  show "artefacts_ok sv (snd (grantAccess record subjectType subjectId actor ttl db))"
  proof (cases "servable record")
    case (Inr key)
    then show ?thesis using granted by (simp add: grantAccess_def act_bind_def [of "act_read _"] act_simps Let_def act_bind_state)
  qed (use assms in \<open>simp add: grantAccess_def act_bind_def act_simps\<close>)
  have used: "artefacts_ok sv (snd (inTransaction (\<lambda>db. r_bind (store_grants (f db) db) (\<lambda>db1. Inr ((), db1))) db))" for f
    using assms store_grants_artefacts same_artefacts_ok by (intro transaction_ok) (auto simp: r_bind_eq_Inr, blast)
  show "artefacts_ok sv (snd (resolveGrant gid db))"
    using assms used by (auto simp: resolveGrant_def act_bind_state split: option.splits)
qed

section \<open>Histories of requests that do not overlap\<close>

text \<open>
  A request reads its record in the scope of its caller and then acts on it. The environment moves
  the clock, makes the volume readable or not, and runs the rest of the server, which writes neither artefacts nor objects.
\<close>

inductive artefact_reachable :: "artefact_service \<Rightarrow> artefact_db \<Rightarrow> bool" for sv where
  empty: "ad_artefacts db = [] \<Longrightarrow> fs_files (ad_files db) = Map.empty \<Longrightarrow> artefact_reachable sv db"
| intent: "artefact_reachable sv db \<Longrightarrow> artefact_reachable sv (snd (createIntent sv input db))"
| content: "artefact_reachable sv db \<Longrightarrow> getInScope aid scope db = Inr record \<Longrightarrow>
    artefact_reachable sv (snd (storeContent sv record bytes actor db))"
| completion: "artefact_reachable sv db \<Longrightarrow> getInScope aid scope db = Inr record \<Longrightarrow>
    artefact_reachable sv (snd (complete_artefact sv record sha256 sizeBytes actor db))"
| generated: "artefact_reachable sv db \<Longrightarrow> artefact_reachable sv (snd (storeGenerated sv ginput db))"
| deletion: "artefact_reachable sv db \<Longrightarrow> getInScope aid scope db = Inr record \<Longrightarrow>
    artefact_reachable sv (snd (delete_artefact record actor reason db))"
| thumbnail: "artefact_reachable sv db \<Longrightarrow> artefact_reachable sv (snd (artefact_thumbnail_handler sv job db))"
| grant: "artefact_reachable sv db \<Longrightarrow> getInScope aid scope db = Inr record \<Longrightarrow>
    artefact_reachable sv (snd (grantAccess record subjectType subjectId actor ttl db))"
| use: "artefact_reachable sv db \<Longrightarrow> artefact_reachable sv (snd (resolveGrant gid db))"
| environment: "artefact_reachable sv db \<Longrightarrow> ad_artefacts db' = ad_artefacts db \<Longrightarrow>
    fs_files (ad_files db') = fs_files (ad_files db) \<Longrightarrow> artefact_reachable sv db'"

lemma handler_ok: "artefacts_ok sv db \<Longrightarrow> artefacts_ok sv (snd (artefact_thumbnail_handler sv job db))"
  using runThumbnailJob_ok by (auto simp: artefact_thumbnail_handler_def act_simps split: option.splits json.splits)

lemma artefact_reachable_ok: "artefact_reachable sv db \<Longrightarrow> artefacts_ok sv db"
proof (induction rule: artefact_reachable.induct)
  case (empty db)
  then show ?case by (simp add: artefacts_ok_def files.addressed_def)
next
  case (environment db db')
  then have "row_backed (ad_files db') = row_backed (ad_files db)"
    by (auto simp: row_backed_def fun_eq_iff split: option.splits)
  with environment show ?case by (simp add: artefacts_ok_def files.addressed_def)
qed (auto intro: createIntent_ok storeContent_ok complete_artefact_ok storeGenerated_ok delete_artefact_ok handler_ok grants_ok
    dest: getInScope_Inr)

end
