(* ===== verification/Artefact_Outcomes.thy ===== *)
theory Artefact_Outcomes
  imports Artefact_Properties
begin

text \<open>
  Single requests of the artefact service: the round trip of an upload, who is served bytes, and two overlaps of requests that
  break what the service promises when they run one after the other.
\<close>

section \<open>Lemmas\<close>

lemma stored_object_key:
  assumes "stored sv bytes wrap db = (Inr obj, db1)"
  shows "ARTEFACT_KEY_PATTERN (so_key obj)" "so_key obj = address_of (as_sha256 sv bytes)"
    "ad_files db1 = (ad_files db)\<lparr>fs_files := (fs_files (ad_files db))(so_key obj \<mapsto> bytes)\<rparr>"
    "ad_artefacts db1 = ad_artefacts db" "es_now db1 = es_now db"
  using assms
  by (auto simp: stored_def put_bytes_def put_object_def Let_def assertArtefactKey_Inr keyForDigest_Inr result_simps
      split: sum.splits prod.splits if_splits)

lemma storeContent_Inr:
  assumes "storeContent sv record bytes actor db = (Inr row, db')"
  obtains obj a db1 where "stored sv bytes storeUnavailable db = (Inr obj, db1)"
    "List.find (live_row (ar_id record)) (ad_artefacts db) = Some a"
    "row = a\<lparr>ar_state := Artefact_uploaded, ar_storage_key := Some (so_key obj)\<rparr>"
    "ad_artefacts db' = update_where (live_row (ar_id record))
       (\<lambda>a. a\<lparr>ar_state := Artefact_uploaded, ar_storage_key := Some (so_key obj)\<rparr>) (ad_artefacts db)"
    "ad_files db' = ad_files db1" "es_now db' = es_now db"
    "contentTypeMismatch (ar_content_type record) bytes = None"
proof -
  obtain obj db1 where run: "contentTypeMismatch (ar_content_type record) bytes = None"
    "stored sv bytes storeUnavailable db = (Inr obj, db1)"
    "update_live (ar_id record) (\<lambda>a. a\<lparr>ar_state := Artefact_uploaded, ar_storage_key := Some (so_key obj)\<rparr>) db1 = Inr (row, db')"
    using assms
    by (auto simp: storeContent_def act_bind_def act_simps inTransaction_def split: if_splits option.splits sum.splits prod.splits)
  from run(3) show thesis
  proof (rule update_live_Inr)
    fix a assume a: "List.find (live_row (ar_id record)) (ad_artefacts db1) = Some a"
      "row = a\<lparr>ar_state := Artefact_uploaded, ar_storage_key := Some (so_key obj)\<rparr>"
      "store_artefacts (update_where (live_row (ar_id record))
        (\<lambda>a. a\<lparr>ar_state := Artefact_uploaded, ar_storage_key := Some (so_key obj)\<rparr>) (ad_artefacts db1)) db1 = Inr db'"
    with stored_object_key [OF run(2)] show thesis by (intro that [OF run(2) _ a(2) _ _ _ run(1)]) (auto simp: result_simps)
  qed
qed

lemma complete_Inr:
  assumes "complete_artefact sv record sha256 sizeBytes actor db = (Inr row, db')" "ar_state record \<noteq> Artefact_available"
  obtains key v where "ar_storage_key record = Some key" "verify_upload sv record key sha256 sizeBytes db = Verified v"
    "complete_work record key v actor db = Inr (row, db')"
  using assms
  by (auto simp: complete_artefact_def act_bind_def act_simps inTransaction_def
      split: option.splits verification.splits sum.splits prod.splits)

lemma upload_then_completion:
  assumes "storeContent sv record bytes actor db = (Inr up, db1)"
    and "complete_artefact sv up sha256 sizeBytes actor' db1 = (Inr live, db2)"
  obtains obj :: stored_object and v a where "verify_upload sv up (so_key obj) sha256 sizeBytes db1 = Verified v"
    "List.find (live_row (ar_id record)) (ad_artefacts db) = Some a"
    "up = a\<lparr>ar_state := Artefact_uploaded, ar_storage_key := Some (so_key obj)\<rparr>" "live = made_available up v (es_now db1) up"
    "ARTEFACT_KEY_PATTERN (so_key obj)" "fs_files (ad_files db1) (so_key obj) = Some bytes" "ad_files db2 = ad_files db1"
    "contentTypeMismatch (ar_content_type record) bytes = None"
proof -
  let ?f = "\<lambda>obj a. a\<lparr>ar_state := Artefact_uploaded, ar_storage_key := Some (so_key obj)\<rparr>"
  obtain obj a mid where up: "stored sv bytes storeUnavailable db = (Inr obj, mid)"
    "List.find (live_row (ar_id record)) (ad_artefacts db) = Some a" "up = ?f obj a"
    "ad_artefacts db1 = update_where (live_row (ar_id record)) (?f obj) (ad_artefacts db)"
    "ad_files db1 = ad_files mid" "contentTypeMismatch (ar_content_type record) bytes = None"
    using assms(1) by (elim storeContent_Inr) blast
  have up_id: "ar_id up = ar_id record" using find_Some_in [OF up(2)] by (simp add: up(3) live_row_def)
  obtain v where v: "verify_upload sv up (so_key obj) sha256 sizeBytes db1 = Verified v"
    and work: "complete_work up (so_key obj) v actor' db1 = Inr (live, db2)"
    using assms(2) by (elim complete_Inr) (auto simp: up(3))
  from work obtain x db' where fin: "List.find (live_row (ar_id up)) (ad_artefacts db1) = Some x"
    "live = made_available up v (es_now db1) x" "same_artefacts db' db2" "ad_files db' = ad_files db1"
    by (elim complete_work_rows) (auto simp: result_simps)
  have "x = up"
    using fin(1) [unfolded up_id up(4)] find_update_where [OF up(2), of "?f obj"] by (simp add: live_row_def up(3))
  with stored_object_key [OF up(1)] fin show thesis
    by (intro that [OF v up(2,3)]) (simp_all add: up(5,6) same_artefacts_def)
qed

lemma readContent_available:
  "ar_state a = Artefact_available \<Longrightarrow> ar_storage_key a = Some key \<Longrightarrow> ARTEFACT_KEY_PATTERN key \<Longrightarrow>
   fs_readable (ad_files db) \<Longrightarrow> fs_files (ad_files db) key = Some bytes \<Longrightarrow> readContent a db = Inr bytes"
proof -
  assume "ar_state a = Artefact_available" "ar_storage_key a = Some key"
  moreover assume "ARTEFACT_KEY_PATTERN key" "fs_readable (ad_files db)" "fs_files (ad_files db) key = Some bytes"
  then have "get_object key (ad_files db) = Inr bytes" by (simp add: get_object_Inr)
  ultimately show ?thesis by (simp add: readContent_def servable_def)
qed

section \<open>Evidence stays what it was declared to be\<close>

text \<open>C6: Evidence is what it was declared to be, for as long as it is offered. In every history of requests
  that do not overlap, an artefact that a caller finds available has its bytes in the store: reading it succeeds whenever the volume
  can be read, and the bytes have exactly the digest that its intent declared and that its record
  states as verified, whatever was uploaded, completed, rendered or deleted meanwhile and even where
  other artefacts share its object.\<close>

theorem available_artefact_reads_as_declared:
  assumes "artefact_reachable sv db" "\<And>bytes. digest_shape (as_sha256 sv bytes)" "fs_readable (ad_files db)"
    and "getInScope aid scope db = Inr record" "ar_state record = Artefact_available"
  shows "\<exists>bytes. readContent record db = Inr bytes \<and> as_sha256 sv bytes = ar_declared_sha256 record \<and>
    ar_sha256 record = Some (ar_declared_sha256 record)"
proof -
  have ok: "artefacts_ok sv db" using assms(1) by (rule artefact_reachable_ok)
  have row: "record \<in> set (ad_artefacts db)" "ar_deleted_at record = None"
    using getInScope_Inr [OF assms(4)] by (auto simp: live_row_def)
  have checks: "digest_shape (ar_declared_sha256 record)" "ar_sha256 record = Some (ar_declared_sha256 record)"
    using ok row(1) assms(5) by (auto simp: artefacts_ok_def list_all_iff artefact_row_ok_def artefact_checks_def available_is_verified_def)
  obtain bytes where key: "ar_storage_key record = Some (address_of (ar_declared_sha256 record))"
    "fs_files (ad_files db) (address_of (ar_declared_sha256 record)) = Some bytes"
    using backed_row [OF ok row(1)] row(2) assms(5) by (auto simp: row_backed_def split: option.splits)
  then have "address_of (ar_declared_sha256 record) = address_of (as_sha256 sv bytes)"
    using ok by (simp add: artefacts_ok_def files.addressed_def)
  then have "as_sha256 sv bytes = ar_declared_sha256 record"
    using address_inject [OF checks(1) assms(2)] by simp
  moreover have "get_object (address_of (ar_declared_sha256 record)) (ad_files db) = Inr bytes"
    using key(2) assms(3) address_is_key [OF checks(1)] by (simp add: result_simps)
  ultimately show ?thesis using key(1) checks(2) assms(5) by (simp add: readContent_def servable_def)
qed

section \<open>The round trip of an upload\<close>

lemma createIntent_Inr:
  assumes "createIntent sv input db = (Inr a, db1)"
  obtains aid where "intent_checks sv input = ok" "a = new_artefact sv input aid (db\<lparr>es_drawn := Suc (es_drawn db)\<rparr>)"
    "ad_artefacts db1 = ad_artefacts db @ [a]" "distinct (map ar_id (ad_artefacts db1))"
proof -
  let ?db = "db\<lparr>es_drawn := Suc (es_drawn db)\<rparr>"
  let ?a = "new_artefact sv input (fst (newId ''art_'' db)) ?db"
  obtain event r where checks: "intent_checks sv input = ok" and run: "recordStateChange event (insert_artefact ?a) ?db = (r, db1)"
    and r: "\<exists>e. r = Inr (a, e)"
    using assms by (auto simp: createIntent_def newId_def Let_def act_bind_def act_simps split: sum.splits prod.splits)
  from run show thesis
  proof (rule recordStateChange_cases)
    fix x e db2 assume "insert_artefact ?a ?db = Inr (x, db2)" "r = Inr (x, e)" "same_artefacts db2 db1"
    with r checks show thesis
      by (intro that [of "fst (newId ''art_'' db)"]) (auto simp: insert_artefact_def result_simps same_artefacts_def)
  qed (use r in blast)
qed

text \<open>C23: An upload that completes reads back byte for byte, and it completes only for bytes that are what the intent
  declared: whenever an intent, the upload of some bytes and their completion are all accepted in turn, the artefact
  is available, reading it gives those bytes, and they have the declared digest, the declared size and the declared type.\<close>

theorem upload_round_trip:
  assumes "createIntent sv input db = (Inr a, db1)" "storeContent sv a bytes actor db1 = (Inr a2, db2)"
    and "complete_artefact sv a2 sha256 sizeBytes actor db2 = (Inr a3, db3)" "fs_readable (ad_files db3)"
  shows "ar_id a3 = ar_id a \<and> ar_state a3 = Artefact_available \<and> readContent a3 db3 = Inr bytes \<and>
    as_sha256 sv bytes = ii_sha256 input \<and> ii_sizeBytes input = Some (of_nat (length bytes)) \<and>
    contentTypeMismatch (ii_contentType input) bytes = None"
proof -
  obtain aid d where intent: "intent_checks sv input = ok" and new: "a = new_artefact sv input aid d"
    and rows: "ad_artefacts db1 = ad_artefacts db @ [a]" "distinct (map ar_id (ad_artefacts db1))"
    using assms(1) by (elim createIntent_Inr) blast
  then have new_fields: "ar_declared_sha256 a = ii_sha256 input" "ar_content_type a = ii_contentType input"
    "of_nat (ar_declared_size_bytes a) = the (ii_sizeBytes input)" "ii_sizeBytes input \<noteq> None"
    using intent by (auto simp: new_artefact_def Let_def intent_checks_def result_simps size_accepted_def split: option.splits)
  obtain obj :: stored_object and v row where up: "verify_upload sv a2 (so_key obj) sha256 sizeBytes db2 = Verified v"
    "List.find (live_row (ar_id a)) (ad_artefacts db1) = Some row"
    "a2 = row\<lparr>ar_state := Artefact_uploaded, ar_storage_key := Some (so_key obj)\<rparr>" "a3 = made_available a2 v (es_now db2) a2"
    "ARTEFACT_KEY_PATTERN (so_key obj)" "fs_files (ad_files db2) (so_key obj) = Some bytes" "ad_files db3 = ad_files db2"
    "contentTypeMismatch (ar_content_type a) bytes = None"
    using assms(2,3) by (elim upload_then_completion) blast
  have row: "row = a"
    using find_Some_in [OF up(2)] rows by (auto simp: live_row_def) (metis imageI)
  obtain bytes' where seen: "get_object (so_key obj) (ad_files db2) = Inr bytes'" "as_sha256 sv bytes' = ii_sha256 input"
    "length bytes' = ar_declared_size_bytes a"
    using verified_key(4) [OF up(1)] by (auto simp: up(3) row new_fields)
  then have bytes': "bytes' = bytes" using up(6) by (simp add: get_object_Inr)
  have "readContent a3 db3 = Inr bytes"
    by (rule readContent_available [where key = "so_key obj"]) (use up assms(4) in \<open>simp_all add: made_available_def\<close>)
  moreover have "ii_sizeBytes input = Some (of_nat (length bytes))"
    using new_fields(3,4) seen(3) bytes' by auto
  ultimately show ?thesis
    using seen(2) bytes' up(8) new_fields(2) by (simp add: up(3,4) row made_available_def)
qed

section \<open>A sample service\<close>

text \<open>A digest for the witnesses: the sum of the bytes, as the last of 64 digits.\<close>

definition sample_service :: artefact_service where
  "sample_service =
     \<lparr>as_sha256 = (\<lambda>bytes. replicate 63 CHR ''0'' @ [hex_digit (sum_list (map unat bytes) mod 16)]),
      as_maxBytes = 1000, as_retention = None, as_render = (\<lambda>t b. Not_rendered)\<rparr>"

lemma hex_digit_hex: "n < 16 \<Longrightarrow> hex_char (hex_digit n)"
proof -
  assume "n < 16"
  then have "n \<in> set [0..<16]" by simp
  moreover have "list_all (\<lambda>n. hex_char (hex_digit n)) [0..<16]" by code_simp
  ultimately show ?thesis by (simp add: list_all_iff)
qed

lemma sample_digest_shape: "digest_shape (as_sha256 sample_service bytes)"
  by (simp add: sample_service_def digest_shape_def hex_digit_hex) (simp add: hex_char_def list_all_iff)

definition system_upload :: event_actor where
  "system_upload = \<lparr>act_type = system, act_id = None, act_display = None\<rparr>"

definition empty_store :: artefact_db where
  "empty_store =
     \<lparr>es_now = 1000000, es_random = (\<lambda>n. replicate 15 0 @ [of_nat n]), es_drawn = 0, es_streams = Map.empty,
      es_events = [], es_outbox = [], jd_jobs = [], ad_artefacts = [], ad_grants = [],
      ad_files = \<lparr>fs_files = Map.empty, fs_writable = True, fs_readable = True\<rparr>\<rparr>"

definition export_input :: "byte list \<Rightarrow> generated_input" where
  "export_input bytes =
     \<lparr>gi_organisationId = ''org_1'', gi_projectId = ''prj_1'', gi_kind = ''review_export'', gi_contentType = ''text/plain'',
      gi_retentionClass = ''verification_evidence'', gi_bytes = bytes, gi_filenameLabel = None, gi_actor = system_upload\<rparr>"

definition text_intent :: intent_input where
  "text_intent =
     \<lparr>ii_organisationId = ''org_1'', ii_projectId = ''prj_1'', ii_kind = ''review_export'', ii_contentType = ''text/plain'',
      ii_sizeBytes = Some 1, ii_sha256 = as_sha256 sample_service (ascii ''A''), ii_retentionClass = None,
      ii_browserSessionId = None, ii_sourceArtefactId = None, ii_filenameLabel = None, ii_actor = system_upload\<rparr>"

definition artefact_members :: "string list" where
  "artefact_members =
     [''artefact_id'', ''browser_session_id'', ''kind'', ''declared_size_bytes'', ''declared_sha256'', ''content_type'',
      ''sha256'', ''size_bytes'', ''storage_key'', ''redaction_state'', ''content_rectangle'', ''width_px'', ''height_px'',
      ''reason'', ''code'', ''bytes_removed'']"

lemma artefact_members_permitted: "list_all (\<lambda>k. \<not> key_refused k) artefact_members"
  by code_simp

lemmas artefact_members_ok = artefact_members_permitted [unfolded artefact_members_def, simplified]

lemmas artefact_log_eval =
  r_then_def refuse_if_def Let_def inTransaction_def recordStateChange_def newId_def input_stream_def stream_position_def
  appendEvent_def event_of_def enqueue_def assertPayloadCarriesNoSecret_def artefact_members_ok pruneUndefined_def
  project_event_def artefact_event_def json_num_def opt_str_def opt_member_def act_bind_def act_simps

lemmas artefact_table_eval =
  store_artefacts_def broken_check_def artefact_checks_def ARTEFACT_KINDS_def RETENTION_CLASSES_def available_is_verified_def
  content_rectangle_positive_def label_is_a_name_def image_is_measured_def update_where_def live_row_def update_live_def
  insert_artefact_def set_row_def

lemma ascii_length [simp]: "length (ascii s) = length s"
  by (simp add: ascii_def)

lemma export_generated:
  "\<exists>a db. storeGenerated sample_service (export_input (ascii ''A'')) empty_store = (Inr a, db) \<and>
     ar_state a = Artefact_available \<and> getInScope (ar_id a) UNRESTRICTED_SCOPE db = Inr a \<and> fs_readable (ad_files db)"
proof -
  have small: "as_maxBytes sample_service = 1000" by (simp add: sample_service_def)
  show ?thesis
    using sample_digest_shape [of "ascii ''A''"]
    by (simp add: storeGenerated_def export_input_def stored_def put_bytes_def empty_store_def small
        put_object_total [OF sample_digest_shape]
        artefact_log_eval artefact_table_eval generated_artefact_def system_upload_def getInScope_def artefact_in_scope_def UNRESTRICTED_SCOPE_def
        randomSuffix_inject)
qed

theorem available_artefact_reads_as_declared_witness:
  "\<exists>a db bytes. storeGenerated sample_service (export_input (ascii ''A'')) empty_store = (Inr a, db) \<and>
     readContent a db = Inr bytes \<and> as_sha256 sample_service bytes = ar_declared_sha256 a"
proof -
  obtain a db where run: "storeGenerated sample_service (export_input (ascii ''A'')) empty_store = (Inr a, db)"
    "ar_state a = Artefact_available" "getInScope (ar_id a) UNRESTRICTED_SCOPE db = Inr a" "fs_readable (ad_files db)"
    using export_generated by blast
  have "artefact_reachable sample_service empty_store" by (rule artefact_reachable.empty) (simp_all add: empty_store_def)
  then have "artefact_reachable sample_service db"
    using artefact_reachable.generated [of sample_service empty_store "export_input (ascii ''A'')"] run(1) by simp
  from available_artefact_reads_as_declared [OF this sample_digest_shape run(4,3,2)] run(1) show ?thesis by blast
qed

lemma plain_letters:
  "contentTypeMismatch ''text/plain'' (ascii ''A'') = None" "contentTypeMismatch ''text/plain'' (ascii ''B'') = None"
  by (simp_all add: content_eval ascii_def)

lemma sample_digests: "as_sha256 sample_service (ascii ''A'') \<noteq> as_sha256 sample_service (ascii ''B'')"
  by (simp add: sample_service_def ascii_def) code_simp

lemma own_key: "digest_shape d \<Longrightarrow> keyForDigest d = Inr (address_of d)" "digest_shape d \<Longrightarrow> assertArtefactKey (address_of d) = Inr (address_of d)"
  by (simp_all add: keyForDigest_Inr assertArtefactKey_Inr address_is_key)

lemma sample_limits: "as_maxBytes sample_service = 1000" "as_retention sample_service = None"
  by (simp_all add: sample_service_def)

lemmas upload_eval =
  createIntent_def text_intent_def intent_checks_def isStage1Kind_def STAGE_1_ARTEFACT_KINDS_def contentTypesForKind_def
  KIND_POLICY_def size_accepted_def new_artefact_def expiryFor_def defaultRetentionClassForKind_def empty_store_def sample_limits
  artefact_log_eval artefact_table_eval system_upload_def randomSuffix_inject storeContent_def plain_letters stored_def put_bytes_def
  put_object_total [OF sample_digest_shape]

lemmas completion_eval =
  complete_artefact_def verify_upload_def get_object_def own_key [OF sample_digest_shape] IMAGE_CONTENT_TYPES_def
  complete_work_def made_available_def wantsThumbnail_def kindWantsThumbnail_def completed_events_def dimensions_member_def

lemma text_uploads:
  "\<exists>a db b db' c db''. createIntent sample_service text_intent empty_store = (Inr a, db) \<and>
     storeContent sample_service a (ascii ''A'') system_upload db = (Inr b, db') \<and>
     complete_artefact sample_service b (as_sha256 sample_service (ascii ''A'')) None system_upload db' = (Inr c, db'') \<and>
     fs_readable (ad_files db'')"
  using sample_digest_shape [of "ascii ''A''"] by (simp add: upload_eval completion_eval)

theorem upload_round_trip_witness:
  "\<exists>a db. ar_state a = Artefact_available \<and> readContent a db = Inr (ascii ''A'')"
proof -
  obtain a db b db' c db'' where "createIntent sample_service text_intent empty_store = (Inr a, db)"
    "storeContent sample_service a (ascii ''A'') system_upload db = (Inr b, db')"
    "complete_artefact sample_service b (as_sha256 sample_service (ascii ''A'')) None system_upload db' = (Inr c, db'')"
    "fs_readable (ad_files db'')"
    using text_uploads by blast
  from upload_round_trip [OF this] show ?thesis by blast
qed

section \<open>Bytes are served on a grant\<close>

lemma resolveGrant_run:
  assumes "resolveGrant gid db = (Inr r, db1)"
  shows "r = List.find (grant_live (es_now db) gid) (ad_grants db)" "ad_artefacts db1 = ad_artefacts db" "ad_files db1 = ad_files db"
  using assms
  by (auto simp: resolveGrant_def act_bind_def act_simps inTransaction_def r_bind_eq_Inr same_artefacts_def
      dest!: store_grants_artefacts split: sum.splits option.splits)

lemma readContent_Inr:
  assumes "readContent a db = Inr bytes"
  obtains key where "ar_state a = Artefact_available" "ar_storage_key a = Some key" "fs_files (ad_files db) key = Some bytes"
proof -
  obtain key where key: "ar_state a = Artefact_available" "ar_storage_key a = Some key" "get_object key (ad_files db) = Inr bytes"
    using assms by (auto simp: readContent_def servable_def split: sum.splits if_splits option.splits)
  then show thesis using that by (simp add: get_object_Inr)
qed

text \<open>C7: Bytes leave the service only on a grant that is live and is the caller's own. Whoever is served has
  presented a grant that exists, was not revoked and has not run out, and was issued to the principal that presents it; the bytes are those
  of the one artefact the grant names, which is live, available and of the grant's project and organisation, and they go out under the
  disposition of their stored type.\<close>

theorem content_served_on_own_grant:
  assumes "content_route gid agent caller db = (Inr (bytes, contentType, disposition), db')"
  shows "\<exists>g a key. g \<in> set (ad_grants db) \<and> gr_id g = gid \<and> gr_revoked_at g = None \<and> es_now db < gr_expires_at g \<and>
    owns_grant agent caller g \<and> a \<in> set (ad_artefacts db) \<and> ar_id a = gr_artefact_id g \<and> ar_deleted_at a = None \<and>
    ar_organisation_id a = gr_organisation_id g \<and> ar_project_id a = gr_project_id g \<and> ar_state a = Artefact_available \<and>
    ar_storage_key a = Some key \<and> fs_files (ad_files db) key = Some bytes \<and> contentType = ar_content_type a \<and>
    disposition = dispositionFor contentType"
proof -
  obtain g db1 a where run: "resolveGrant gid db = (Inr (Some g), db1)" "owns_grant agent caller g"
    "getInScope (gr_artefact_id g)
       \<lparr>sp_organisationId = Some (gr_organisation_id g), sp_projectIds = Some [gr_project_id g]\<rparr> db1 = Inr a"
    "readContent a db1 = Inr bytes" "contentType = ar_content_type a" "disposition = dispositionFor contentType"
    using assms
    by (auto simp: content_route_def act_bind_def act_simps r_bind_eq_Inr split: sum.splits prod.splits option.splits if_splits)
  note tables = resolveGrant_run [OF run(1)]
  from tables(1) have g: "g \<in> set (ad_grants db)" "grant_live (es_now db) gid g"
    using find_Some_in [of "grant_live (es_now db) gid" "ad_grants db" g] by simp_all
  have a: "a \<in> set (ad_artefacts db)" "ar_id a = gr_artefact_id g" "ar_deleted_at a = None"
    "ar_organisation_id a = gr_organisation_id g" "ar_project_id a = gr_project_id g"
    using getInScope_Inr [OF run(3)] tables(2) by (auto simp: live_row_def artefact_in_scope_def)
  obtain key where "ar_state a = Artefact_available" "ar_storage_key a = Some key" "fs_files (ad_files db) key = Some bytes"
    using run(4) tables(3) by (elim readContent_Inr) simp
  with g a run(2,5,6) show ?thesis by (auto simp: grant_live_def)
qed

text \<open>A grant that is unknown, dead or another's is refused in one and the same way.\<close>

lemma content_refused_alike:
  "resolveGrant gid db = (Inr r, db1) \<Longrightarrow> (\<And>g. r = Some g \<Longrightarrow> \<not> owns_grant agent caller g) \<Longrightarrow>
   content_route gid agent caller db = (Inl unusableGrant, db1)"
  by (cases r) (simp_all add: content_route_def act_bind_def act_simps)

definition sample_grant :: "artefact_record \<Rightarrow> grant_row" where
  "sample_grant a =
     \<lparr>gr_id = ''agr_1'', gr_artefact_id = ar_id a, gr_organisation_id = ar_organisation_id a, gr_project_id = ar_project_id a,
      gr_subject_type = human_user, gr_subject_id = ''usr_1'', gr_created_at = 1000000, gr_expires_at = 2000000,
      gr_revoked_at = None, gr_last_used_at = None, gr_use_count = 0\<rparr>"

definition sample_reader :: artefact_caller where
  "sample_reader = \<lparr>ca_subjectType = human_user, ca_subjectId = ''usr_1''\<rparr>"

definition sample_export :: artefact_record where
  "sample_export = generated_artefact (export_input (ascii ''A'')) ''art_1''
     \<lparr>so_key = address_of (as_sha256 sample_service (ascii ''A'')), so_sizeBytes = 1,
      so_sha256 = as_sha256 sample_service (ascii ''A'')\<rparr> 1000000"

definition granted_store :: artefact_db where
  "granted_store = empty_store\<lparr>ad_artefacts := [sample_export], ad_grants := [sample_grant sample_export],
     ad_files := \<lparr>fs_files = [address_of (as_sha256 sample_service (ascii ''A'')) \<mapsto> ascii ''A''],
       fs_writable = True, fs_readable = True\<rparr>\<rparr>"

lemma export_served:
  "\<exists>db'. content_route ''agr_1'' None (Some sample_reader) granted_store =
     (Inr (ascii ''A'', ''text/plain'', dispositionFor ''text/plain''), db')"
  using sample_digest_shape [of "ascii ''A''"]
  by (simp add: content_route_def resolveGrant_def granted_store_def sample_grant_def sample_export_def generated_artefact_def
      export_input_def grant_live_def empty_store_def artefact_log_eval artefact_table_eval store_grants_def owns_grant_def
      sample_reader_def getInScope_def artefact_in_scope_def readContent_def servable_def get_object_def
      own_key [OF sample_digest_shape])

theorem content_served_on_own_grant_witness:
  "\<exists>g a. g \<in> set (ad_grants granted_store) \<and> a \<in> set (ad_artefacts granted_store) \<and>
     owns_grant None (Some sample_reader) g \<and> ar_id a = gr_artefact_id g"
  using export_served content_served_on_own_grant [of "''agr_1''" None "Some sample_reader" granted_store] by blast

section \<open>Requests that overlap\<close>

text \<open>The verification of an upload and the commit that makes it available are not one step. An upload that is
  verified, and whose content is replaced by a second upload before the completion commits, is made available under the digest
  that was verified while its storage key names the second upload: readers get bytes of another digest than the
  record declares and states as verified.\<close>

theorem overwritten_after_verification:
  assumes "verify_upload sv record key sha256 sizeBytes db = Verified v"
    and "storeContent sv record bytes actor db = (Inr up, db1)" "as_sha256 sv bytes \<noteq> ar_declared_sha256 record"
    and "complete_work record key v actor db1 = Inr (row, db2)" "fs_readable (ad_files db2)"
  shows "ar_state row = Artefact_available \<and> ar_sha256 row = Some (ar_declared_sha256 record) \<and>
    readContent row db2 = Inr bytes \<and> Some (as_sha256 sv bytes) \<noteq> ar_sha256 row"
proof -
  obtain obj a mid where up: "stored sv bytes storeUnavailable db = (Inr obj, mid)"
    "List.find (live_row (ar_id record)) (ad_artefacts db) = Some a"
    "ad_artefacts db1 = update_where (live_row (ar_id record))
       (\<lambda>a. a\<lparr>ar_state := Artefact_uploaded, ar_storage_key := Some (so_key obj)\<rparr>) (ad_artefacts db)"
    "ad_files db1 = ad_files mid"
    using assms(2) by (elim storeContent_Inr) blast
  note files = stored_object_key [OF up(1)]
  from assms(4) obtain x db' where fin: "List.find (live_row (ar_id record)) (ad_artefacts db1) = Some x"
    "row = made_available record v (es_now db1) x" "same_artefacts db' db2" "ad_files db' = ad_files db1"
    by (elim complete_work_rows) (auto simp: result_simps)
  have "x = a\<lparr>ar_state := Artefact_uploaded, ar_storage_key := Some (so_key obj)\<rparr>"
    using fin(1) find_update_where [OF up(2), of "\<lambda>a. a\<lparr>ar_state := Artefact_uploaded, ar_storage_key := Some (so_key obj)\<rparr>"]
    by (simp add: up(3) live_row_def)
  then have "ar_storage_key row = Some (so_key obj)" by (simp add: fin(2) made_available_def)
  then have "readContent row db2 = Inr bytes"
    using files fin assms(5) up(4)
    by (intro readContent_available [where key = "so_key obj"]) (auto simp: made_available_def same_artefacts_def)
  then show ?thesis using verified_key(2) [OF assms(1)] assms(3) by (simp add: fin(2) made_available_def)
qed

text \<open>Whether an object may be removed is decided inside the deletion's transaction, and it is removed after the commit. An
  artefact whose upload and completion fall between the two, with bytes of the same address, is accepted and live,
  and then has no bytes: reading it fails for as long as it exists.\<close>

theorem deleted_bytes_of_live_artefact:
  assumes "delete_tx record actor reason db = (Inr (gone, True), db1)"
    and "storeContent sv other bytes actor' db1 = (Inr up, db2)" "ar_storage_key up = ar_storage_key record"
    and "complete_artefact sv up sha256 sizeBytes actor' db2 = (Inr live, db3)"
    and "fs_writable (ad_files db3)"
  shows "ar_state live = Artefact_available \<and> ar_deleted_at live = None \<and> r_ok (readContent live db3) = fs_readable (ad_files db3) \<and>
    \<not> r_ok (readContent live (remove_bytes record True db3))"
proof -
  obtain obj :: stored_object and v a where up: "List.find (live_row (ar_id other)) (ad_artefacts db1) = Some a"
    "up = a\<lparr>ar_state := Artefact_uploaded, ar_storage_key := Some (so_key obj)\<rparr>" "live = made_available up v (es_now db2) up"
    "ARTEFACT_KEY_PATTERN (so_key obj)" "fs_files (ad_files db2) (so_key obj) = Some bytes" "ad_files db3 = ad_files db2"
    using assms(2,4) by (elim upload_then_completion) blast
  have live: "ar_state live = Artefact_available" "ar_storage_key live = Some (so_key obj)" "ar_deleted_at live = None"
    using find_Some_in [OF up(1)] by (simp_all add: up(2,3) made_available_def live_row_def)
  have key: "ar_storage_key record = Some (so_key obj)" using assms(3) by (simp add: up(2))
  have "ad_files (remove_bytes record True db3) = (ad_files db3)\<lparr>fs_files := (fs_files (ad_files db3))(so_key obj := None)\<rparr>"
    using assms(5) up(4) by (simp add: remove_bytes_def key delete_object_def assertArtefactKey_def)
  then have "get_object (so_key obj) (ad_files (remove_bytes record True db3)) \<noteq> Inr b" for b
    by (simp add: get_object_Inr)
  moreover have "get_object (so_key obj) (ad_files db3) = Inr b \<longleftrightarrow> fs_readable (ad_files db3) \<and> b = bytes" for b
    using up(4,5,6) by (auto simp: get_object_Inr)
  ultimately show ?thesis
    using live by (auto simp: readContent_def servable_def split: sum.splits) blast
qed

lemma text_overwritten:
  "\<exists>a db b db' v up db1 row db2. createIntent sample_service text_intent empty_store = (Inr a, db) \<and>
     storeContent sample_service a (ascii ''A'') system_upload db = (Inr b, db') \<and>
     verify_upload sample_service b (address_of (as_sha256 sample_service (ascii ''A'')))
       (as_sha256 sample_service (ascii ''A'')) None db' = Verified v \<and>
     storeContent sample_service b (ascii ''B'') system_upload db' = (Inr up, db1) \<and>
     ar_declared_sha256 b = as_sha256 sample_service (ascii ''A'') \<and>
     complete_work b (address_of (as_sha256 sample_service (ascii ''A''))) v system_upload db1 = Inr (row, db2) \<and>
     fs_readable (ad_files db2)"
  using sample_digest_shape [of "ascii ''A''"] sample_digest_shape [of "ascii ''B''"] by (simp add: upload_eval completion_eval)

theorem overwritten_after_verification_witness:
  "\<exists>row db. ar_state row = Artefact_available \<and> ar_sha256 row = Some (as_sha256 sample_service (ascii ''A'')) \<and>
     readContent row db = Inr (ascii ''B'')"
proof -
  obtain a db b db' v up db1 row db2 where "createIntent sample_service text_intent empty_store = (Inr a, db)"
    "storeContent sample_service a (ascii ''A'') system_upload db = (Inr b, db')"
    and run: "verify_upload sample_service b (address_of (as_sha256 sample_service (ascii ''A'')))
       (as_sha256 sample_service (ascii ''A'')) None db' = Verified v"
     "storeContent sample_service b (ascii ''B'') system_upload db' = (Inr up, db1)"
     "ar_declared_sha256 b = as_sha256 sample_service (ascii ''A'')"
     "complete_work b (address_of (as_sha256 sample_service (ascii ''A''))) v system_upload db1 = Inr (row, db2)"
     "fs_readable (ad_files db2)"
    using text_overwritten by blast
  have "as_sha256 sample_service (ascii ''B'') \<noteq> ar_declared_sha256 b" using sample_digests run(3) by simp
  from overwritten_after_verification [OF run(1,2) this run(4,5)] run(3) show ?thesis by auto
qed

definition shared_store :: artefact_db where
  "shared_store = granted_store\<lparr>ad_artefacts := [sample_export, new_artefact sample_service text_intent ''art_2'' empty_store]\<rparr>"

lemma text_deleted:
  "\<exists>gone db1 up db2 live db3. delete_tx sample_export system_upload None shared_store = (Inr (gone, True), db1) \<and>
     storeContent sample_service (new_artefact sample_service text_intent ''art_2'' empty_store) (ascii ''A'') system_upload db1 = (Inr up, db2) \<and>
     ar_storage_key up = ar_storage_key sample_export \<and>
     complete_artefact sample_service up (as_sha256 sample_service (ascii ''A'')) None system_upload db2 = (Inr live, db3) \<and>
     fs_writable (ad_files db3)"
  using sample_digest_shape [of "ascii ''A''"]
  by (simp add: delete_tx_def delete_row_def shared_store_def granted_store_def sample_grant_def sample_export_def generated_artefact_def
      export_input_def upload_eval completion_eval)

theorem deleted_bytes_of_live_artefact_witness:
  "\<exists>live db. ar_state live = Artefact_available \<and> ar_deleted_at live = None \<and>
     \<not> r_ok (readContent live (remove_bytes sample_export True db))"
  using text_deleted
  by (elim exE conjE) (use deleted_bytes_of_live_artefact in blast)

end
