(* ===== verification/Route_Capability.thy ===== *)
theory Route_Capability
  imports Base64url Utf8
begin

text \<open>
  The codec of the bearer credential that a browser session presents to the tunnel gateway
  (\<open>packages/protocol/src/capability.ts\<close>). Texts are lists of code points, and the keyed digest
  (\<open>createHmac("sha256", key)\<close> over the concatenated updates) is an argument. The tests that throw a plain
  \<open>Error\<close> give its message.
\<close>

section \<open>Claims\<close>

definition CAPABILITY_SCHEME :: string where
  "CAPABILITY_SCHEME = ''rp1''"

definition CAPABILITY_MAC_DOMAIN :: string where
  "CAPABILITY_MAC_DOMAIN = ''reviewplane/route-capability/v1''"

definition CAPABILITY_PAYLOAD_VERSION :: nat where
  "CAPABILITY_PAYLOAD_VERSION = 1"

definition MAX_CAPABILITY_KEY_ID_LENGTH :: nat where
  "MAX_CAPABILITY_KEY_ID_LENGTH = 32"

definition MAX_CAPABILITY_IDENTIFIER_LENGTH :: nat where
  "MAX_CAPABILITY_IDENTIFIER_LENGTH = 64"

definition MIN_CAPABILITY_SIGNING_KEY_BYTES :: nat where
  "MIN_CAPABILITY_SIGNING_KEY_BYTES = 32"

definition MAX_CAPABILITY_TOKEN_LENGTH :: nat where
  "MAX_CAPABILITY_TOKEN_LENGTH = 512"

record capability_claims =
  cc_keyId :: "nat list"
  cc_capabilityId :: "nat list"
  cc_routeId :: "nat list"
  cc_projectId :: "nat list"
  cc_browserSessionId :: "nat list"
  cc_issuedAt :: int
  cc_expiresAt :: int

datatype capability_rejection = Malformed string | Unsupported_version nat | Unknown_key | Bad_signature | Expired

type_synonym capability_keyring = "nat list \<rightharpoonup> byte list"

type_synonym keyed_digest = "byte list \<Rightarrow> byte list \<Rightarrow> byte list"

section \<open>Encoding\<close>

definition encodeBase64Url :: "byte list \<Rightarrow> string" where
  "encodeBase64Url bytes = base64url (map unat bytes)"

definition decodeBase64Url :: "string \<Rightarrow> byte list option" where
  "decodeBase64Url text =
     (let bytes = map of_nat (base64_decode text) in
      if encodeBase64Url bytes = text then Some bytes else None)"

definition utf8_bytes :: "nat list \<Rightarrow> byte list" where
  "utf8_bytes text = map of_nat (text_buffer text)"

definition capabilityMac :: "keyed_digest \<Rightarrow> byte list \<Rightarrow> byte list \<Rightarrow> byte list" where
  "capabilityMac hmac key payload = hmac key (utf8_bytes (points CAPABILITY_MAC_DOMAIN) @ payload)"

definition boundCapabilityField :: "string \<Rightarrow> nat list \<Rightarrow> nat \<Rightarrow> string + unit" where
  "boundCapabilityField name value maximum =
     r_then (refuse_if (length value = 0) (''capability '' @ name @ '' must not be empty''))
       (refuse_if (length (utf8_bytes value) > maximum)
         (''capability '' @ name @ '' exceeds '' @ nat_text maximum @ '' bytes''))"

definition appendField :: "nat list \<Rightarrow> byte list" where
  "appendField value = (let bytes = utf8_bytes value in of_nat (length bytes) # bytes)"

text \<open>The eight bytes of a non-negative integer, from the highest.\<close>

definition appendUint64 :: "int \<Rightarrow> byte list" where
  "appendUint64 value = map (\<lambda>shift. of_int (value div 2 ^ shift mod 256)) [56, 48, 40, 32, 24, 16, 8, 0]"

definition MAX_SAFE_INTEGER :: int where
  "MAX_SAFE_INTEGER = 2 ^ 53 - 1"

definition isSafeInteger :: "int \<Rightarrow> bool" where
  "isSafeInteger n \<longleftrightarrow> - MAX_SAFE_INTEGER \<le> n \<and> n \<le> MAX_SAFE_INTEGER"

definition claims_checks :: "capability_claims \<Rightarrow> string + unit" where
  "claims_checks claims =
     r_then (boundCapabilityField ''key_id'' (cc_keyId claims) MAX_CAPABILITY_KEY_ID_LENGTH)
     (r_then (boundCapabilityField ''capability_id'' (cc_capabilityId claims) MAX_CAPABILITY_IDENTIFIER_LENGTH)
     (r_then (boundCapabilityField ''route_id'' (cc_routeId claims) MAX_CAPABILITY_IDENTIFIER_LENGTH)
     (r_then (boundCapabilityField ''project_id'' (cc_projectId claims) MAX_CAPABILITY_IDENTIFIER_LENGTH)
     (r_then (boundCapabilityField ''browser_session_id'' (cc_browserSessionId claims) MAX_CAPABILITY_IDENTIFIER_LENGTH)
     (r_then (refuse_if (\<not> isSafeInteger (cc_issuedAt claims) \<or> \<not> isSafeInteger (cc_expiresAt claims))
       ''capability timestamps must be safe integers'')
     (r_then (refuse_if (cc_issuedAt claims < 0 \<or> cc_expiresAt claims < 0)
       ''capability timestamps must not be negative'')
     (refuse_if (cc_expiresAt claims \<le> cc_issuedAt claims)
       ''capability must expire after it is issued'')))))))"

definition payload_bytes :: "capability_claims \<Rightarrow> byte list" where
  "payload_bytes claims =
     of_nat CAPABILITY_PAYLOAD_VERSION # appendField (cc_keyId claims) @ appendUint64 (cc_issuedAt claims) @
     appendUint64 (cc_expiresAt claims) @ appendField (cc_capabilityId claims) @ appendField (cc_routeId claims) @
     appendField (cc_projectId claims) @ appendField (cc_browserSessionId claims)"

definition encodeCapabilityPayload :: "capability_claims \<Rightarrow> string + byte list" where
  "encodeCapabilityPayload claims = r_then (claims_checks claims) (Inr (payload_bytes claims))"

section \<open>Decoding\<close>

text \<open>A field: its text and what follows it.\<close>

definition readField :: "byte list \<Rightarrow> (nat list \<times> byte list) option" where
  "readField payload =
     (case payload of [] \<Rightarrow> None
      | n # rest \<Rightarrow> if unat n > length rest then None
          else Some (buffer_text (take (unat n) rest), drop (unat n) rest))"

definition readUint64 :: "byte list \<Rightarrow> int" where
  "readUint64 payload = foldl (\<lambda>value b. value * 256 + uint b) 0 (take 8 payload)"

definition field_at :: "string \<Rightarrow> byte list \<Rightarrow> capability_rejection + (nat list \<times> byte list)" where
  "field_at name payload =
     (case readField payload of None \<Rightarrow> Inl (Malformed (''payload is truncated at '' @ name)) | Some r \<Rightarrow> Inr r)"

definition decodeCapabilityPayload :: "byte list \<Rightarrow> capability_rejection + capability_claims" where
  "decodeCapabilityPayload payload =
     (case payload of
        [] \<Rightarrow> Inl (Malformed ''payload is empty'')
      | version # body \<Rightarrow>
          if unat version \<noteq> CAPABILITY_PAYLOAD_VERSION then Inl (Unsupported_version (unat version))
          else r_bind (field_at ''key_id'' body) (\<lambda>(keyId, times).
            r_then (refuse_if (length times < 16) (Malformed ''payload is truncated at the timestamps''))
            (r_bind (field_at ''capability_id'' (drop 16 times)) (\<lambda>(capabilityId, rest1).
             r_bind (field_at ''route_id'' rest1) (\<lambda>(routeId, rest2).
             r_bind (field_at ''project_id'' rest2) (\<lambda>(projectId, rest3).
             r_bind (field_at ''browser_session_id'' rest3) (\<lambda>(browserSessionId, rest4).
             r_then (refuse_if (rest4 \<noteq> []) (Malformed ''payload carries trailing bytes''))
             (let issuedAt = readUint64 times; expiresAt = readUint64 (drop 8 times) in
              r_then (refuse_if (\<not> isSafeInteger issuedAt \<or> \<not> isSafeInteger expiresAt)
                (Malformed ''payload timestamps are out of range''))
              (Inr \<lparr>cc_keyId = keyId, cc_capabilityId = capabilityId, cc_routeId = routeId, cc_projectId = projectId,
                cc_browserSessionId = browserSessionId, cc_issuedAt = issuedAt, cc_expiresAt = expiresAt\<rparr>)))))))))"

section \<open>Minting and verifying\<close>

definition mintCapability :: "keyed_digest \<Rightarrow> byte list \<Rightarrow> capability_claims \<Rightarrow> string + string" where
  "mintCapability hmac key claims =
     r_then (refuse_if (length key < MIN_CAPABILITY_SIGNING_KEY_BYTES)
       (''capability signing key must be at least '' @ nat_text MIN_CAPABILITY_SIGNING_KEY_BYTES @ '' bytes''))
     (r_bind (encodeCapabilityPayload claims) (\<lambda>payload.
      let token = CAPABILITY_SCHEME @ ''.'' @ encodeBase64Url payload @ ''.'' @
            encodeBase64Url (capabilityMac hmac key payload) in
      r_then (refuse_if (length token > MAX_CAPABILITY_TOKEN_LENGTH)
        (''capability token of '' @ nat_text (length token) @ '' characters exceeds the '' @
         nat_text MAX_CAPABILITY_TOKEN_LENGTH @ '' character schema bound''))
      (Inr token)))"

definition verifyCapability ::
  "keyed_digest \<Rightarrow> capability_keyring \<Rightarrow> string \<Rightarrow> int \<Rightarrow> capability_rejection + capability_claims" where
  "verifyCapability hmac keys token nowUnix =
     r_then (refuse_if (length token > MAX_CAPABILITY_TOKEN_LENGTH)
       (Malformed (''token of '' @ nat_text (length token) @ '' characters exceeds the '' @
         nat_text MAX_CAPABILITY_TOKEN_LENGTH @ '' character bound'')))
     (let parts = split_on CHR ''.'' token in
      r_then (refuse_if (length parts \<noteq> 3 \<or> parts ! 0 \<noteq> CAPABILITY_SCHEME)
        (Malformed ''token is not scheme.payload.signature''))
      (case decodeBase64Url (parts ! 1) of
         None \<Rightarrow> Inl (Malformed ''payload is not base64url'')
       | Some payload \<Rightarrow>
           (case decodeBase64Url (parts ! 2) of
              None \<Rightarrow> Inl (Malformed ''signature is not base64url'')
            | Some mac \<Rightarrow>
                r_bind (decodeCapabilityPayload payload) (\<lambda>claims.
                case keys (cc_keyId claims) of
                  None \<Rightarrow> Inl Unknown_key
                | Some key \<Rightarrow>
                    if length key < MIN_CAPABILITY_SIGNING_KEY_BYTES then Inl Unknown_key
                    else (let expected = capabilityMac hmac key payload in
                      if length mac \<noteq> length expected \<or> mac \<noteq> expected then Inl Bad_signature
                      else if nowUnix \<ge> cc_expiresAt claims then Inl Expired
                      else Inr claims)))))"

section \<open>Lemmas\<close>

lemma decode_encode_base64: "decodeBase64Url (encodeBase64Url bytes) = Some bytes"
proof -
  have "base64_decode (encodeBase64Url bytes) = map unat bytes"
    unfolding encodeBase64Url_def
  proof (rule base64_round_trip)
    have "unat b < 256" for b :: byte using unsigned_less [of b] by simp
    then show "list_all (\<lambda>b. b < 256) (map unat bytes)" by (simp add: list_all_iff)
  qed
  then show ?thesis by (simp add: decodeBase64Url_def comp_def)
qed

lemma decodeBase64Url_Some: "decodeBase64Url text = Some bytes \<longleftrightarrow> text = encodeBase64Url bytes"
proof
  assume "decodeBase64Url text = Some bytes"
  then show "text = encodeBase64Url bytes" by (auto simp: decodeBase64Url_def Let_def split: if_splits)
qed (simp add: decode_encode_base64)

lemma text_buffer_bytes: "list_all scalar text \<Longrightarrow> list_all (\<lambda>b. b < 256) (text_buffer text)"
  by (induction "text") (auto simp: text_buffer_def utf8_encode_def scalar_def)

lemma buffer_text_utf8: "list_all scalar text \<Longrightarrow> buffer_text (utf8_bytes text) = text"
proof -
  assume well: "list_all scalar text"
  have "map (unat \<circ> (of_nat :: nat \<Rightarrow> byte)) (text_buffer text) = text_buffer text"
    using text_buffer_bytes [OF well] by (intro map_idI) (auto simp: list_all_iff unat_of_nat)
  then show ?thesis using decode_text_buffer [OF well]
    by (simp add: buffer_text_def utf8_bytes_def byte_values_def)
qed

lemma readField_append:
  "list_all scalar value \<Longrightarrow> length (utf8_bytes value) < 256 \<Longrightarrow> readField (appendField value @ rest) = Some (value, rest)"
  by (simp add: readField_def appendField_def Let_def unat_of_nat buffer_text_utf8)

lemma uint_octet: "uint (of_int (n mod 256) :: byte) = n mod 256"
  by (simp add: uint_word_of_int)

lemma octets_value:
  fixes n :: int
  shows "foldl (\<lambda>value b. value * 256 + uint b) acc (map (\<lambda>k. of_int (n div 256 ^ k mod 256) :: byte) (rev [0..<m])) =
    acc * 256 ^ m + n mod 256 ^ m"
proof (induction m arbitrary: acc)
  case (Suc m)
  have "n mod (256 ^ m * 256) = 256 ^ m * (n div 256 ^ m mod 256) + n mod 256 ^ m" by (rule zmod_zmult2_eq) simp
  with Suc [of "acc * 256 + n div 256 ^ m mod 256"] show ?case by (simp add: uint_octet algebra_simps)
qed simp

lemma appendUint64_octets: "appendUint64 n = map (\<lambda>k. of_int (n div 256 ^ k mod 256)) (rev [0..<8])"
  by (simp add: appendUint64_def upt_rec)

lemma readUint64_append:
  assumes "0 \<le> n" "n < 2 ^ 64"
  shows "readUint64 (appendUint64 n @ rest) = n" and "length (appendUint64 n) = 8"
proof -
  show len: "length (appendUint64 n) = 8" by (simp add: appendUint64_octets)
  have "readUint64 (appendUint64 n @ rest) = n mod 256 ^ 8"
    using octets_value [of 0 n 8] len unfolding readUint64_def appendUint64_octets by simp
  then show "readUint64 (appendUint64 n @ rest) = n" using assms by simp
qed

lemma boundCapabilityField_ok:
  "boundCapabilityField name value maximum = ok \<longleftrightarrow> value \<noteq> [] \<and> length (utf8_bytes value) \<le> maximum"
  by (auto simp: boundCapabilityField_def result_simps)

lemma claims_checks_ok:
  "claims_checks claims = ok \<longleftrightarrow>
     cc_keyId claims \<noteq> [] \<and> length (utf8_bytes (cc_keyId claims)) \<le> 32 \<and>
     cc_capabilityId claims \<noteq> [] \<and> length (utf8_bytes (cc_capabilityId claims)) \<le> 64 \<and>
     cc_routeId claims \<noteq> [] \<and> length (utf8_bytes (cc_routeId claims)) \<le> 64 \<and>
     cc_projectId claims \<noteq> [] \<and> length (utf8_bytes (cc_projectId claims)) \<le> 64 \<and>
     cc_browserSessionId claims \<noteq> [] \<and> length (utf8_bytes (cc_browserSessionId claims)) \<le> 64 \<and>
     0 \<le> cc_issuedAt claims \<and> cc_issuedAt claims < cc_expiresAt claims \<and> cc_expiresAt claims \<le> MAX_SAFE_INTEGER"
  by (auto simp: claims_checks_def boundCapabilityField_ok result_simps isSafeInteger_def MAX_SAFE_INTEGER_def
      MAX_CAPABILITY_KEY_ID_LENGTH_def MAX_CAPABILITY_IDENTIFIER_LENGTH_def)

definition claims_text :: "capability_claims \<Rightarrow> bool" where
  "claims_text claims \<longleftrightarrow>
     list_all (list_all scalar) [cc_keyId claims, cc_capabilityId claims, cc_routeId claims, cc_projectId claims,
       cc_browserSessionId claims]"

lemma payload_round_trip:
  assumes "claims_checks claims = ok" "claims_text claims"
  shows "decodeCapabilityPayload (payload_bytes claims) = Inr claims"
proof -
  note bounds = assms(1) [unfolded claims_checks_ok]
  have small: "0 \<le> cc_issuedAt claims" "cc_issuedAt claims < 2 ^ 64" "0 \<le> cc_expiresAt claims" "cc_expiresAt claims < 2 ^ 64"
    using bounds by (auto simp: MAX_SAFE_INTEGER_def)
  note fields = readField_append [of "cc_keyId claims"] readField_append [of "cc_capabilityId claims"]
    readField_append [of "cc_routeId claims"] readField_append [of "cc_projectId claims"]
    readField_append [of "cc_browserSessionId claims" "[]"]
  have times: "readUint64 (appendUint64 (cc_issuedAt claims) @ appendUint64 (cc_expiresAt claims) @ rest) = cc_issuedAt claims"
    "readUint64 (appendUint64 (cc_expiresAt claims) @ rest) = cc_expiresAt claims"
    "length (appendUint64 (cc_issuedAt claims)) = 8" "length (appendUint64 (cc_expiresAt claims)) = 8" for rest
    using readUint64_append [OF small(1,2)] readUint64_append [OF small(3,4)] by simp_all
  have "isSafeInteger (cc_issuedAt claims)" "isSafeInteger (cc_expiresAt claims)"
    using bounds by (auto simp: isSafeInteger_def MAX_SAFE_INTEGER_def)
  then show ?thesis
    using bounds assms(2) fields times
    by (simp add: decodeCapabilityPayload_def payload_bytes_def field_at_def CAPABILITY_PAYLOAD_VERSION_def refuse_if_def claims_text_def
        Let_def)
qed

lemma scheme_no_dot: "CHR ''.'' \<notin> set CAPABILITY_SCHEME" "CHR ''.'' \<notin> set (encodeBase64Url bytes)"
  by (simp_all add: CAPABILITY_SCHEME_def encodeBase64Url_def base64url_no_dot)

lemma token_parts:
  "split_on CHR ''.'' (CAPABILITY_SCHEME @ ''.'' @ encodeBase64Url payload @ ''.'' @ encodeBase64Url mac) =
     [CAPABILITY_SCHEME, encodeBase64Url payload, encodeBase64Url mac]"
  using scheme_no_dot by (simp add: split_on_append split_on_no_sep)

section \<open>Tokens\<close>

text \<open>What is minted verifies, and to the same claims. A capability minted for claims of well-formed text is accepted by every
  verifier that has the key under the claims' key identifier, at every time before the expiry, and gives back
  exactly the claims; from the expiry on it is refused as expired.\<close>

lemma minted_verifies:
  assumes "mintCapability hmac key claims = Inr token" "claims_text claims" "keys (cc_keyId claims) = Some key"
  shows "verifyCapability hmac keys token now = (if now < cc_expiresAt claims then Inr claims else Inl Expired)"
proof -
  have minted: "MIN_CAPABILITY_SIGNING_KEY_BYTES \<le> length key" "claims_checks claims = ok"
    "token = CAPABILITY_SCHEME @ ''.'' @ encodeBase64Url (payload_bytes claims) @ ''.'' @
       encodeBase64Url (capabilityMac hmac key (payload_bytes claims))"
    "length token \<le> MAX_CAPABILITY_TOKEN_LENGTH"
    using assms(1) by (auto simp: mintCapability_def encodeCapabilityPayload_def Let_def result_simps)
  then show ?thesis
    using payload_round_trip [OF minted(2) assms(2)] token_parts
    by (simp add: verifyCapability_def refuse_if_def decode_encode_base64 assms(3) Let_def)
qed

text \<open>C25: Nothing but a token of the key's holder is accepted, and each in one spelling only. A token that verifies is, character for
  character, the scheme, a payload and the keyed digest of that payload under a key of the verifier; its claims are
  those of the payload, and they have not expired.\<close>

theorem accepted_capability_is_signed:
  assumes "verifyCapability hmac keys token now = Inr claims"
  shows "\<exists>key payload. keys (cc_keyId claims) = Some key \<and> MIN_CAPABILITY_SIGNING_KEY_BYTES \<le> length key \<and>
    token = CAPABILITY_SCHEME @ ''.'' @ encodeBase64Url payload @ ''.'' @ encodeBase64Url (capabilityMac hmac key payload) \<and>
    decodeCapabilityPayload payload = Inr claims \<and> now < cc_expiresAt claims"
proof -
  let ?parts = "split_on CHR ''.'' token"
  obtain payload key where run: "length ?parts = 3" "?parts ! 0 = CAPABILITY_SCHEME"
    "decodeBase64Url (?parts ! 1) = Some payload" "decodeBase64Url (?parts ! 2) = Some (capabilityMac hmac key payload)"
    "decodeCapabilityPayload payload = Inr claims" "keys (cc_keyId claims) = Some key"
    "MIN_CAPABILITY_SIGNING_KEY_BYTES \<le> length key" "now < cc_expiresAt claims"
    using assms
    by (auto simp: verifyCapability_def Let_def result_simps split: option.splits if_splits)
  obtain a b c where parts: "?parts = [a, b, c]"
    using run(1) by (auto simp: length_Suc_conv eval_nat_numeral)
  then have "token = join_with CHR ''.'' [a, b, c]" using join_split_on [of "CHR ''.''" token] by simp
  then show ?thesis using run parts by (auto simp: decodeBase64Url_Some)
qed

definition capability_token :: "keyed_digest \<Rightarrow> byte list \<Rightarrow> byte list \<Rightarrow> string" where
  "capability_token hmac key payload =
     CAPABILITY_SCHEME @ ''.'' @ encodeBase64Url payload @ ''.'' @ encodeBase64Url (capabilityMac hmac key payload)"

lemma token_length:
  assumes "claims_checks claims = ok" "length (capabilityMac hmac key (payload_bytes claims)) = 32"
  shows "length (capability_token hmac key (payload_bytes claims)) \<le> MAX_CAPABILITY_TOKEN_LENGTH"
proof -
  have "length (payload_bytes claims) \<le> 310"
    using assms(1) by (auto simp: claims_checks_ok payload_bytes_def appendField_def appendUint64_def Let_def)
  then show ?thesis
    using assms(2)
    by (simp add: capability_token_def encodeBase64Url_def length_base64url CAPABILITY_SCHEME_def MAX_CAPABILITY_TOKEN_LENGTH_def)
qed

lemma mint_succeeds:
  assumes "MIN_CAPABILITY_SIGNING_KEY_BYTES \<le> length key" "claims_checks claims = ok"
    and "length (capabilityMac hmac key (payload_bytes claims)) = 32"
  shows "mintCapability hmac key claims = Inr (capability_token hmac key (payload_bytes claims))"
  using assms(1,2) token_length [OF assms(2,3)]
  by (simp add: mintCapability_def encodeCapabilityPayload_def refuse_if_def Let_def capability_token_def)

text \<open>The bound on the length of a token never stops a mint. With a digest of 32 bytes, as SHA-256 gives, every
  key of sufficient length and all claims within the field bounds give a token, so a refused mint always has
  its cause in the key or the claims.\<close>

theorem mint_bound_unreachable:
  assumes "length (capabilityMac hmac key (payload_bytes claims)) = 32"
  shows "r_ok (mintCapability hmac key claims) \<longleftrightarrow>
    MIN_CAPABILITY_SIGNING_KEY_BYTES \<le> length key \<and> claims_checks claims = ok"
  using mint_succeeds [OF _ _ assms] by (auto simp: mintCapability_def encodeCapabilityPayload_def result_simps)

section \<open>A sample credential\<close>

definition sample_hmac :: keyed_digest where
  "sample_hmac key message = take 32 (key @ message)"

definition sample_key :: "byte list" where
  "sample_key = replicate 32 7"

definition sample_claims :: capability_claims where
  "sample_claims =
     \<lparr>cc_keyId = points ''k1'', cc_capabilityId = points ''cap_1'', cc_routeId = points ''svc_1'', cc_projectId = points ''prj_1'',
      cc_browserSessionId = points ''bs_1'', cc_issuedAt = 1000, cc_expiresAt = 1060\<rparr>"

lemma sample_claims_ok: "claims_checks sample_claims = ok" "claims_text sample_claims"
  by (simp_all add: claims_checks_ok claims_text_def sample_claims_def points_def utf8_bytes_def text_buffer_def utf8_encode_def
      scalar_def MAX_SAFE_INTEGER_def)

lemma sample_mac_length: "length (capabilityMac sample_hmac sample_key payload) = 32"
  by (simp add: capabilityMac_def sample_hmac_def sample_key_def)

lemma sample_minted:
  "mintCapability sample_hmac sample_key sample_claims = Inr (capability_token sample_hmac sample_key (payload_bytes sample_claims))"
  by (rule mint_succeeds [OF _ sample_claims_ok(1) sample_mac_length])
    (simp add: sample_key_def MIN_CAPABILITY_SIGNING_KEY_BYTES_def)

theorem accepted_capability_is_signed_witness:
  "\<exists>token claims. verifyCapability sample_hmac [points ''k1'' \<mapsto> sample_key] token 1059 = Inr claims \<and>
     (\<exists>payload. token = CAPABILITY_SCHEME @ ''.'' @ encodeBase64Url payload @ ''.'' @
       encodeBase64Url (capabilityMac sample_hmac sample_key payload))"
proof -
  let ?token = "capability_token sample_hmac sample_key (payload_bytes sample_claims)"
  have "split_on CHR ''.'' ?token =
      [CAPABILITY_SCHEME, encodeBase64Url (payload_bytes sample_claims),
       encodeBase64Url (capabilityMac sample_hmac sample_key (payload_bytes sample_claims))]"
    using token_parts by (simp add: capability_token_def)
  then have "verifyCapability sample_hmac [points ''k1'' \<mapsto> sample_key] ?token 1059 = Inr sample_claims"
    using token_length [OF sample_claims_ok(1) sample_mac_length] payload_round_trip [OF sample_claims_ok]
    by (simp add: verifyCapability_def refuse_if_def decode_encode_base64 Let_def sample_claims_def
        MIN_CAPABILITY_SIGNING_KEY_BYTES_def sample_key_def)
  from this accepted_capability_is_signed [OF this] show ?thesis
    by (auto simp: sample_claims_def split: if_splits)
qed

theorem mint_bound_unreachable_witness:
  "r_ok (mintCapability sample_hmac sample_key sample_claims)"
  using mint_bound_unreachable [OF sample_mac_length, of sample_claims] sample_claims_ok(1)
  by (simp add: sample_key_def MIN_CAPABILITY_SIGNING_KEY_BYTES_def)

end
