(* ===== verification/Destination_Policy.thy ===== *)
theory Destination_Policy
  imports Events
begin

text \<open>
  Which local destinations may be published (\<open>modules/published-services/destination-policy.ts\<close>), with the tests for literal
  addresses of \<open>node:net\<close>. A port is a JavaScript number, of which \<open>None\<close> is one that is not finite.
  \<open>parsePortRange\<close>, which reads the operator's configuration, is not modelled.
\<close>

section \<open>Literal addresses\<close>

definition decimal_char :: "char \<Rightarrow> bool" where
  "decimal_char c \<longleftrightarrow> CHR ''0'' \<le> c \<and> c \<le> CHR ''9''"

definition hex_letter :: "char \<Rightarrow> bool" where
  "hex_letter c \<longleftrightarrow> (CHR ''a'' \<le> c \<and> c \<le> CHR ''f'') \<or> (CHR ''A'' \<le> c \<and> c \<le> CHR ''F'')"

definition v4_segment :: "string \<Rightarrow> bool" where
  "v4_segment p \<longleftrightarrow>
     p \<noteq> [] \<and> length p \<le> 3 \<and> list_all decimal_char p \<and> (length p = 1 \<or> p ! 0 \<noteq> CHR ''0'') \<and> text_value p \<le> 255"

definition isIPv4 :: "string \<Rightarrow> bool" where
  "isIPv4 s \<longleftrightarrow> length (split_on CHR ''.'' s) = 4 \<and> list_all v4_segment (split_on CHR ''.'' s)"

definition v6_segment :: "string \<Rightarrow> bool" where
  "v6_segment p \<longleftrightarrow> 1 \<le> length p \<and> length p \<le> 4 \<and> list_all (\<lambda>c. decimal_char c \<or> hex_letter c) p"

text \<open>\<open>s.split("::")\<close>, and \<open>s === "" ? [] : s.split(":")\<close>.\<close>

function split_gap :: "string \<Rightarrow> string list" where
  "split_gap [] = [[]]"
| "split_gap (c # cs) =
     (if c = CHR '':'' \<and> cs \<noteq> [] \<and> hd cs = CHR '':'' then [] # split_gap (tl cs)
      else case split_gap cs of [] \<Rightarrow> [[c]] | p # ps \<Rightarrow> (c # p) # ps)"
  by pat_completeness auto
termination by (relation "measure length") auto

definition groups :: "string \<Rightarrow> string list" where
  "groups s = (if s = [] then [] else split_on CHR '':'' s)"

text \<open>How many groups of sixteen bits a list of parts has; its last part may be an IPv4 address.\<close>

fun group_count :: "string list \<Rightarrow> nat option" where
  "group_count [] = Some 0"
| "group_count [p] = (if v6_segment p then Some 1 else if isIPv4 p then Some 2 else None)"
| "group_count (p # q # ps) =
     (if v6_segment p then map_option Suc (group_count (q # ps)) else None)"

definition v6_body :: "string \<Rightarrow> bool" where
  "v6_body s =
     (case split_gap s of
        [whole] \<Rightarrow> group_count (groups whole) = Some 8
      | [head, tail] \<Rightarrow> list_all v6_segment (groups head) \<and>
          (case group_count (groups tail) of None \<Rightarrow> False | Some n \<Rightarrow> length (groups head) + n \<le> 7)
      | _ \<Rightarrow> False)"

definition zone_char :: "char \<Rightarrow> bool" where
  "zone_char c \<longleftrightarrow>
     decimal_char c \<or> (CHR ''a'' \<le> c \<and> c \<le> CHR ''z'') \<or> (CHR ''A'' \<le> c \<and> c \<le> CHR ''Z'') \<or> c \<in> set ''-.:''"

definition isIPv6 :: "string \<Rightarrow> bool" where
  "isIPv6 s \<longleftrightarrow>
     v6_body (takeWhile (\<lambda>c. c \<noteq> CHR ''%'') s) \<and>
     (case dropWhile (\<lambda>c. c \<noteq> CHR ''%'') s of [] \<Rightarrow> True | _ # zone \<Rightarrow> zone \<noteq> [] \<and> list_all zone_char zone)"

section \<open>Normal forms\<close>

text \<open>\<open>part.replace(/^0+(?=.)/u, "").padStart(4, "0")\<close>.\<close>

fun strip_zeros :: "string \<Rightarrow> string" where
  "strip_zeros (c # d # cs) = (if c = CHR ''0'' then strip_zeros (d # cs) else c # d # cs)"
| "strip_zeros cs = cs"

definition padHextet :: "string \<Rightarrow> string" where
  "padHextet part = (let s = strip_zeros part in replicate (4 - length s) CHR ''0'' @ s)"

definition expandIPv6 :: "string \<Rightarrow> string option" where
  "expandIPv6 address =
     (case split_gap (lower address) of
        [] \<Rightarrow> None
      | [head] \<Rightarrow>
          if length (groups head) \<noteq> 8 then None
          else Some (join_with CHR '':'' (map padHextet (groups head)))
      | head # tail # _ \<Rightarrow>
          (let headParts = groups head; tailParts = groups tail in
           if length headParts + length tailParts > 8 then None
           else Some (join_with CHR '':'' (map padHextet
             (headParts @ replicate (8 - length headParts - length tailParts) ''0'' @ tailParts)))))"

definition normal_v4 :: "string \<Rightarrow> string" where
  "normal_v4 s = join_with CHR ''.'' (map (\<lambda>part. nat_text (text_value part)) (split_on CHR ''.'' s))"

definition normaliseAddress :: "string \<Rightarrow> string option" where
  "normaliseAddress host =
     (let trimmed = trim host in
      if isIPv4 trimmed then Some (normal_v4 trimmed)
      else if \<not> isIPv6 trimmed then None
      else if lower (take 7 trimmed) = ''::ffff:'' \<and> isIPv4 (drop 7 trimmed) then Some (normal_v4 (drop 7 trimmed))
      else expandIPv6 trimmed)"

section \<open>The policy\<close>

datatype destination_rejection =
    Host_is_not_a_literal_address
  | Host_not_in_allow_list
  | Host_is_not_loopback
  | Host_is_link_local
  | Host_is_a_cloud_metadata_endpoint
  | Host_is_the_unspecified_address
  | Host_is_multicast_or_broadcast
  | Port_is_outside_the_valid_range
  | Port_not_in_allow_list
  | Protocol_not_allowed

fun rejection_name :: "destination_rejection \<Rightarrow> string" where
  "rejection_name Host_is_not_a_literal_address = ''host_is_not_a_literal_address''"
| "rejection_name Host_not_in_allow_list = ''host_not_in_allow_list''"
| "rejection_name Host_is_not_loopback = ''host_is_not_loopback''"
| "rejection_name Host_is_link_local = ''host_is_link_local''"
| "rejection_name Host_is_a_cloud_metadata_endpoint = ''host_is_a_cloud_metadata_endpoint''"
| "rejection_name Host_is_the_unspecified_address = ''host_is_the_unspecified_address''"
| "rejection_name Host_is_multicast_or_broadcast = ''host_is_multicast_or_broadcast''"
| "rejection_name Port_is_outside_the_valid_range = ''port_is_outside_the_valid_range''"
| "rejection_name Port_not_in_allow_list = ''port_not_in_allow_list''"
| "rejection_name Protocol_not_allowed = ''protocol_not_allowed''"

record destination_policy =
  dp_allowedHosts :: "string list"
  dp_allowedPorts :: "(nat \<times> nat) list"
  dp_allowedProtocols :: "string list"
  dp_allowNonLoopback :: bool
  dp_allowLinkLocal :: bool

record destination =
  ds_host :: string
  ds_port :: "rat option"
  ds_protocol :: string

definition STAGE_0_DESTINATION_POLICY :: destination_policy where
  "STAGE_0_DESTINATION_POLICY =
     \<lparr>dp_allowedHosts = [''127.0.0.1'', ''::1''], dp_allowedPorts = [(3000, 3999), (4321, 4321), (5173, 5173)],
      dp_allowedProtocols = [''http''], dp_allowNonLoopback = False, dp_allowLinkLocal = False\<rparr>"

definition METADATA_ADDRESSES :: "string list" where
  "METADATA_ADDRESSES = [''169.254.169.254'', ''169.254.170.2'', ''fd00:ec2::254'']"

definition LOOPBACK_V6 :: string where
  "LOOPBACK_V6 = ''0000:0000:0000:0000:0000:0000:0000:0001''"

definition isLoopback :: "string \<Rightarrow> bool" where
  "isLoopback address \<longleftrightarrow> starts_with ''127.'' address \<or> address = LOOPBACK_V6"

definition isUnspecified :: "string \<Rightarrow> bool" where
  "isUnspecified address \<longleftrightarrow> address = ''0.0.0.0'' \<or> address = ''0000:0000:0000:0000:0000:0000:0000:0000''"

definition hex_value :: "string \<Rightarrow> nat" where
  "hex_value s =
     foldl (\<lambda>v c. 16 * v + (if decimal_char c then of_char c - 48 else of_char (lower_char c) - 87)) 0 s"

text \<open>\<open>Number.parseInt(s, 16)\<close> of a text without sign, white space or prefix; \<open>None\<close> is not a number.\<close>

definition parse_hex :: "string \<Rightarrow> nat option" where
  "parse_hex s =
     (let digits = takeWhile (\<lambda>c. decimal_char c \<or> hex_letter c) s in
      if digits = [] then None else Some (hex_value digits))"

definition isLinkLocal :: "string \<Rightarrow> bool" where
  "isLinkLocal address \<longleftrightarrow>
     starts_with ''169.254.'' address \<or>
     (CHR '':'' \<in> set address \<and>
      (case parse_hex (take 4 address) of None \<Rightarrow> False | Some n \<Rightarrow> 0xFE80 \<le> n \<and> n \<le> 0xFEBF))"

definition isMulticast :: "string \<Rightarrow> bool" where
  "isMulticast address \<longleftrightarrow>
     (if isIPv4 address then (let first = text_value (hd (split_on CHR ''.'' address)) in 224 \<le> first \<and> first \<le> 239)
      else starts_with ''ff'' address)"

definition port_valid :: "rat option \<Rightarrow> bool" where
  "port_valid port = (case port of None \<Rightarrow> False | Some p \<Rightarrow> p = of_int \<lfloor>p\<rfloor> \<and> 1 \<le> p \<and> p \<le> 65535)"

definition port_allowed :: "destination_policy \<Rightarrow> rat option \<Rightarrow> bool" where
  "port_allowed policy port =
     (case port of None \<Rightarrow> False
      | Some p \<Rightarrow> list_ex (\<lambda>(low, high). of_nat low \<le> p \<and> p \<le> of_nat high) (dp_allowedPorts policy))"

definition evaluateDestination :: "destination_policy \<Rightarrow> destination \<Rightarrow> destination_rejection option" where
  "evaluateDestination policy d =
     (case normaliseAddress (ds_host d) of
        None \<Rightarrow> Some Host_is_not_a_literal_address
      | Some address \<Rightarrow>
          if isUnspecified address then Some Host_is_the_unspecified_address
          else if isMulticast address then Some Host_is_multicast_or_broadcast
          else if lower (trim (ds_host d)) \<in> set METADATA_ADDRESSES then Some Host_is_a_cloud_metadata_endpoint
          else if list_ex (\<lambda>m. normaliseAddress m = Some address) METADATA_ADDRESSES
          then Some Host_is_a_cloud_metadata_endpoint
          else if isLinkLocal address \<and> \<not> dp_allowLinkLocal policy then Some Host_is_link_local
          else if \<not> isLoopback address \<and> \<not> dp_allowNonLoopback policy then Some Host_is_not_loopback
          else if \<not> port_valid (ds_port d) then Some Port_is_outside_the_valid_range
          else if \<not> list_ex (\<lambda>allowed. normaliseAddress allowed = Some address) (dp_allowedHosts policy)
          then Some Host_not_in_allow_list
          else if \<not> port_allowed policy (ds_port d) then Some Port_not_in_allow_list
          else if ds_protocol d \<notin> set (dp_allowedProtocols policy) then Some Protocol_not_allowed
          else None)"

section \<open>Lemmas\<close>

lemma split_gap_neq [simp]: "split_gap s \<noteq> []"
  by (cases s) (auto split: list.splits)

lemma split_gap_Cons [simp]:
  "split_gap (c # cs) =
     (if c = CHR '':'' \<and> cs \<noteq> [] \<and> hd cs = CHR '':'' then [] # split_gap (tl cs)
      else (c # hd (split_gap cs)) # tl (split_gap cs))"
  using split_gap_neq [of cs] by (cases "split_gap cs") auto

declare split_gap.simps(2) [simp del]

definition code :: "char \<Rightarrow> nat" where
  "code c = of_char c"

lemma code_inject [simp]: "code c = code d \<longleftrightarrow> c = d"
  by (simp add: code_def)

lemma lower_char_value: "code (lower_char c) = (if 65 \<le> code c \<and> code c \<le> 90 then code c + 32 else code c)"
  by (auto simp: code_def lower_char_def less_eq_char_def take_bit_eq_mod)

lemma lower_char_eq:
  assumes "\<not> (97 \<le> code d \<and> code d \<le> 122)" "\<not> (65 \<le> code d \<and> code d \<le> 90)"
  shows "lower_char c = d \<longleftrightarrow> c = d"
proof
  assume "lower_char c = d"
  then have "code c = code d" using assms lower_char_value [of c] by (auto split: if_splits)
  then show "c = d" by simp
next
  assume "c = d"
  then have "code (lower_char c) = code d" using assms(2) by (simp add: lower_char_value)
  then show "lower_char c = d" by simp
qed

lemma lower_colon [simp]: "lower_char c = CHR '':'' \<longleftrightarrow> c = CHR '':''"
  by (rule lower_char_eq) (simp_all add: code_def)

lemma lower_dot [simp]: "lower_char c = CHR ''.'' \<longleftrightarrow> c = CHR ''.''"
  by (rule lower_char_eq) (simp_all add: code_def)

lemma lower_simps [simp]: "lower [] = []" "lower (c # s) = lower_char c # lower s" "lower s = [] \<longleftrightarrow> s = []"
  "hd (lower (c # s)) = lower_char c" "tl (lower s) = lower (tl s)"
  by (simp_all add: lower_def map_tl)

lemma split_gap_lower: "split_gap (lower s) = map lower (split_gap s)"
proof (induction s rule: split_gap.induct)
  case (2 c cs)
  have gap: "cs \<noteq> [] \<and> hd (lower cs) = CHR '':'' \<longleftrightarrow> cs \<noteq> [] \<and> hd cs = CHR '':''" by (cases cs) simp_all
  show ?case
  proof (cases "c = CHR '':'' \<and> cs \<noteq> [] \<and> hd cs = CHR '':''")
    case True
    then show ?thesis using 2(1) gap by simp
  next
    case False
    then show ?thesis using 2(2) [OF False] gap by (auto simp: hd_map map_tl)
  qed
qed simp

lemma split_on_lower: "split_on CHR '':'' (lower s) = map lower (split_on CHR '':'' s)"
  by (induction s) (auto split: list.splits)

lemma groups_lower: "groups (lower s) = map lower (groups s)"
  by (simp add: groups_def split_on_lower)

text \<open>Every character that is not a colon is in a piece, and the first percent sign ends the last piece of what is before it.\<close>

lemma in_split_gap: "c \<in> set s \<Longrightarrow> c \<noteq> CHR '':'' \<Longrightarrow> \<exists>p \<in> set (split_gap s). c \<in> set p"
proof (induction s rule: split_gap.induct)
  case (2 d cs)
  show ?case
  proof (cases "d = CHR '':'' \<and> cs \<noteq> [] \<and> hd cs = CHR '':''")
    case True
    then have "c \<in> set (tl cs)" using 2(3,4) by (cases cs) auto
    then show ?thesis using 2(1) [OF True] 2(4) True by auto
  next
    case False
    show ?thesis
    proof (cases "c = d")
      case neq: False
      then have "\<exists>p \<in> set (split_gap cs). c \<in> set p" using 2(2) [OF False] 2(3,4) by auto
      then show ?thesis using False by (cases "split_gap cs") auto
    qed (use False in auto)
  qed
qed simp

lemma split_gap_zone:
  "split_gap (b @ CHR ''%'' # z) = butlast (split_gap b) @ (last (split_gap b) @ hd (split_gap (CHR ''%'' # z))) # tl (split_gap (CHR ''%'' # z))"
proof (induction b rule: split_gap.induct)
  case (2 c cs)
  show ?case
  proof (cases "c = CHR '':'' \<and> cs \<noteq> [] \<and> hd cs = CHR '':''")
    case True
    then have "split_gap ((c # cs) @ CHR ''%'' # z) = [] # split_gap (tl cs @ CHR ''%'' # z)"
      by (cases cs) auto
    with 2(1) [OF True] True show ?thesis by simp
  next
    case False
    have "split_gap ((c # cs) @ CHR ''%'' # z) =
        (c # hd (split_gap (cs @ CHR ''%'' # z))) # tl (split_gap (cs @ CHR ''%'' # z))"
      using False by (cases cs) auto
    with 2(2) [OF False] False show ?thesis by (cases "split_gap cs") auto
  qed
qed simp

section \<open>What the normal form tells\<close>

text \<open>The eight numbers an address without a zone and without an embedded IPv4 part stands for.\<close>

definition hextets :: "string \<Rightarrow> nat list" where
  "hextets s =
     (case split_gap s of
        head # tail # _ \<Rightarrow>
          map hex_value (groups head) @ replicate (8 - length (groups head) - length (groups tail)) 0 @
          map hex_value (groups tail)
      | pieces \<Rightarrow> map hex_value (concat (map groups pieces)))"

definition parts_of :: "string \<Rightarrow> string list" where
  "parts_of s =
     (case split_gap s of
        head # tail # _ \<Rightarrow> groups head @ replicate (8 - length (groups head) - length (groups tail)) ''0'' @ groups tail
      | pieces \<Rightarrow> concat (map groups pieces))"

lemma hex_value_parts: "hextets s = map hex_value (parts_of s)"
  by (simp add: hextets_def parts_of_def hex_value_def decimal_char_def split: list.splits)

lemma parts_of_lower: "parts_of (lower s) = map lower (parts_of s)"
proof -
  have "lower_char CHR ''0'' = CHR ''0''" by (simp add: lower_char_eq code_def)
  then show ?thesis
    by (simp add: parts_of_def split_gap_lower groups_lower split: list.splits)
qed

lemma expand_parts:
  assumes "expandIPv6 s = Some address"
  shows "length (parts_of s) = 8" "address = join_with CHR '':'' (map padHextet (parts_of (lower s)))"
proof -
  have "length (parts_of (lower s)) = 8 \<and> address = join_with CHR '':'' (map padHextet (parts_of (lower s)))"
    using assms by (auto simp: expandIPv6_def parts_of_def Let_def split: list.splits if_splits)
  then show "length (parts_of s) = 8" "address = join_with CHR '':'' (map padHextet (parts_of (lower s)))"
    by (simp_all add: parts_of_lower)
qed

lemma hex_value_lower: "hex_value (lower s) = hex_value s"
proof -
  have digit: "decimal_char c \<longleftrightarrow> 48 \<le> code c \<and> code c \<le> 57" for c
    by (simp add: decimal_char_def less_eq_char_def code_def)
  have fixed: "lower_char c = c" if "decimal_char c" for c
  proof -
    have "code (lower_char c) = code c" using that by (simp add: digit lower_char_value)
    then show ?thesis by simp
  qed
  have decimal: "decimal_char (lower_char c) = decimal_char c" for c
    by (auto simp: digit lower_char_value)
  have twice: "lower_char (lower_char c) = lower_char c" for c
  proof -
    have "code (lower_char (lower_char c)) = code (lower_char c)" by (simp add: lower_char_value)
    then show ?thesis by simp
  qed
  have "foldl (\<lambda>v c. 16 * v + (if decimal_char c then of_char c - 48 else of_char (lower_char c) - 87)) a (map lower_char s) =
      foldl (\<lambda>v c. 16 * v + (if decimal_char c then of_char c - 48 else of_char (lower_char c) - 87)) a s" for a :: nat
    by (induction s arbitrary: a) (simp_all add: decimal fixed twice)
  then show ?thesis by (simp add: hex_value_def lower_def)
qed

lemma hex_value_zeros: "hex_value (replicate n CHR ''0'' @ s) = hex_value s"
  by (induction n) (simp_all add: hex_value_def decimal_char_def less_eq_char_def)

lemma strip_zeros_eq: "\<exists>n. s = replicate n CHR ''0'' @ strip_zeros s"
proof (induction s rule: strip_zeros.induct)
  case (1 c d cs)
  show ?case
  proof (cases "c = CHR ''0''")
    case True
    with 1 obtain n where "d # cs = replicate n CHR ''0'' @ strip_zeros (d # cs)" by blast
    then have "c # d # cs = replicate (Suc n) CHR ''0'' @ strip_zeros (c # d # cs)" using True by simp
    then show ?thesis by blast
  qed (intro exI [of _ 0], simp)
qed (auto intro: exI [of _ 0])

lemma padHextet_value: "hex_value (padHextet p) = hex_value p"
  using strip_zeros_eq [of p] by (metis padHextet_def hex_value_zeros)

lemma padHextet_set: "set p \<subseteq> insert CHR ''0'' (set (padHextet p))" "set (padHextet p) \<subseteq> insert CHR ''0'' (set p)"
  using strip_zeros_eq [of p] by (auto simp: padHextet_def Let_def) (metis Un_iff set_append in_set_replicate)+

lemma parts_no_colon: "p \<in> set (parts_of s) \<Longrightarrow> CHR '':'' \<notin> set p"
  using split_on_no_sep_mem
  by (fastforce simp: parts_of_def groups_def split: list.splits if_splits)

lemma normal_form_parts:
  assumes "expandIPv6 s = Some address"
  shows "split_on CHR '':'' address = map padHextet (parts_of (lower s))"
  unfolding expand_parts(2) [OF assms]
proof (rule split_on_join)
  show "map padHextet (parts_of (lower s)) \<noteq> []" using expand_parts(1) [OF assms] by (auto simp: parts_of_lower)
  show "\<forall>p\<in>set (map padHextet (parts_of (lower s))). CHR '':'' \<notin> set p"
    using parts_no_colon padHextet_set(2) by fastforce
qed

lemma normal_form_hextets:
  "expandIPv6 s = Some address \<Longrightarrow> map hex_value (split_on CHR '':'' address) = hextets s"
  by (simp add: normal_form_parts hex_value_parts parts_of_lower padHextet_value hex_value_lower comp_def)

lemma in_groups: "c \<in> set s \<Longrightarrow> c \<noteq> CHR '':'' \<Longrightarrow> \<exists>p \<in> set (groups s). c \<in> set p"
proof -
  have "c \<in> set s \<Longrightarrow> c \<noteq> CHR '':'' \<Longrightarrow> \<exists>p \<in> set (split_on CHR '':'' s). c \<in> set p"
    by (induction s) (auto split: list.splits)
  then show "c \<in> set s \<Longrightarrow> c \<noteq> CHR '':'' \<Longrightarrow> \<exists>p \<in> set (groups s). c \<in> set p" by (auto simp: groups_def)
qed

lemma in_parts:
  assumes "length (split_gap s) \<le> 2" "c \<in> set s" "c \<noteq> CHR '':''"
  shows "\<exists>p \<in> set (parts_of s). c \<in> set p"
proof -
  obtain q where "q \<in> set (split_gap s)" "c \<in> set q" using in_split_gap assms(2,3) by blast
  with in_groups assms(3) obtain p where "q \<in> set (split_gap s)" "p \<in> set (groups q)" "c \<in> set p" by blast
  with assms(1) show ?thesis by (auto simp: parts_of_def split: list.splits)
qed

lemma percent_in_parts:
  assumes "length (split_gap b) \<le> 2"
  shows "\<exists>p \<in> set (parts_of (b @ CHR ''%'' # z)). CHR ''%'' \<in> set p"
proof -
  obtain x xs where z: "split_gap (CHR ''%'' # z) = (CHR ''%'' # x) # xs" by simp
  have part: "\<exists>p \<in> set (groups (q @ CHR ''%'' # x)). CHR ''%'' \<in> set p" for q by (rule in_groups) simp_all
  consider h where "split_gap b = [h]" | h t where "split_gap b = [h, t]"
    using assms split_gap_neq [of b] by (cases "split_gap b" rule: list.exhaust; cases "tl (split_gap b)") auto
  then show ?thesis
  proof cases
    case 1
    then have "split_gap (b @ CHR ''%'' # z) = (h @ CHR ''%'' # x) # xs" using split_gap_zone z by simp
    then show ?thesis using part [of h] by (auto simp: parts_of_def split: list.splits)
  next
    case 2
    then have "split_gap (b @ CHR ''%'' # z) = h # (t @ CHR ''%'' # x) # xs" using split_gap_zone z by simp
    then show ?thesis using part [of t] by (auto simp: parts_of_def)
  qed
qed

lemma v6_body_pieces: "v6_body s \<Longrightarrow> length (split_gap s) \<le> 2"
  by (auto simp: v6_body_def split: list.splits)

lemma split_on_set: "q \<in> set (split_on c s) \<Longrightarrow> set q \<subseteq> set s"
proof (induction s arbitrary: q)
  case (Cons x xs)
  obtain p ps where "split_on c xs = p # ps" by (cases "split_on c xs") auto
  with Cons show ?case by (cases "x = c") fastforce+
qed simp

text \<open>An address without a zone and an embedded part: exactly the ones whose normal form has neither sign.\<close>

definition plain_v6 :: "string \<Rightarrow> bool" where
  "plain_v6 s \<longleftrightarrow> isIPv6 s \<and> CHR ''%'' \<notin> set s \<and> CHR ''.'' \<notin> set s"

lemma normal_form_plain:
  assumes "isIPv6 s" "expandIPv6 s = Some address" "CHR ''%'' \<notin> set address" "CHR ''.'' \<notin> set address"
  shows "plain_v6 s"
proof -
  let ?b = "takeWhile (\<lambda>c. c \<noteq> CHR ''%'') s"
  have body: "length (split_gap ?b) \<le> 2" using assms(1) v6_body_pieces by (simp add: isIPv6_def)
  have same: "lower_char CHR ''%'' = CHR ''%''" "lower_char CHR ''.'' = CHR ''.''" by (simp_all add: lower_char_eq code_def)
  have absent: "c \<notin> set p" if c: "c \<notin> set address" "lower_char c = c" "c \<noteq> CHR ''0''" and p: "p \<in> set (parts_of s)" for c p
  proof
    assume "c \<in> set p"
    then have "c \<in> set (lower p)" using c(2) by (force simp: lower_def)
    then have "c \<in> set (padHextet (lower p))" using padHextet_set(1) [of "lower p"] c(3) by blast
    moreover have "padHextet (lower p) \<in> set (split_on CHR '':'' address)"
      using p by (simp add: normal_form_parts [OF assms(2)] parts_of_lower)
    moreover have "set q \<subseteq> set address" if "q \<in> set (split_on CHR '':'' address)" for q
      using that by (rule split_on_set)
    ultimately show False using c(1) by blast
  qed
  have zone: "CHR ''%'' \<notin> set s"
  proof
    assume "CHR ''%'' \<in> set s"
    then obtain b z where "s = b @ CHR ''%'' # z" "CHR ''%'' \<notin> set b" by (auto dest: split_list_first)
    moreover from this have "?b = b" by (auto simp: takeWhile_append)
    ultimately obtain p where "p \<in> set (parts_of s)" "CHR ''%'' \<in> set p" using percent_in_parts [of b z] body by metis
    with absent [OF assms(3) same(1)] show False by simp
  qed
  then have "?b = s" unfolding takeWhile_eq_all_conv by blast
  then have "length (split_gap s) \<le> 2" using body by metis
  have "CHR ''.'' \<notin> set s"
  proof
    assume "CHR ''.'' \<in> set s"
    then obtain p where "p \<in> set (parts_of s)" "CHR ''.'' \<in> set p"
      using in_parts [of s "CHR ''.''"] \<open>length (split_gap s) \<le> 2\<close> by auto
    with absent [OF assms(4) same(2)] show False by simp
  qed
  with assms(1) zone show ?thesis by (simp add: plain_v6_def)
qed

definition lower_hex :: "char \<Rightarrow> bool" where
  "lower_hex c \<longleftrightarrow> decimal_char c \<or> (97 \<le> code c \<and> code c \<le> 102)"

definition hex_digit_value :: "char \<Rightarrow> nat" where
  "hex_digit_value c = (if decimal_char c then of_char c - 48 else of_char (lower_char c) - 87)"

lemma decimal_code: "decimal_char c \<longleftrightarrow> 48 \<le> code c \<and> code c \<le> 57"
  by (simp add: decimal_char_def less_eq_char_def code_def)

lemma lower_hex_digit:
  assumes "lower_hex c"
  shows "hex_digit_value c < 16" and "lower_hex d \<Longrightarrow> hex_digit_value c = hex_digit_value d \<longleftrightarrow> c = d"
proof -
  have digit: "hex_digit_value e = (if code e \<le> 57 then code e - 48 else code e - 87)" "48 \<le> code e" "code e \<le> 57 \<or> 97 \<le> code e" "code e \<le> 102"
    if "lower_hex e" for e
  proof -
    have "of_char (lower_char e) = (if 65 \<le> code e \<and> code e \<le> 90 then code e + 32 else code e)"
      using lower_char_value [of e] by (simp add: code_def)
    then show "hex_digit_value e = (if code e \<le> 57 then code e - 48 else code e - 87)" "48 \<le> code e"
      "code e \<le> 57 \<or> 97 \<le> code e" "code e \<le> 102"
      using that by (auto simp: lower_hex_def hex_digit_value_def decimal_code) (simp_all add: code_def)
  qed
  show "hex_digit_value c < 16" using digit [OF assms] by auto
  assume "lower_hex d"
  then have "hex_digit_value c = hex_digit_value d \<Longrightarrow> code c = code d"
    using digit [OF assms] digit [of d] by (simp split: if_splits del: code_inject)
  then show "hex_digit_value c = hex_digit_value d \<longleftrightarrow> c = d" by auto
qed

lemma hex_value_snoc: "hex_value (s @ [c]) = 16 * hex_value s + hex_digit_value c"
  by (simp add: hex_value_def hex_digit_value_def)

lemma hex_value_inject:
  "length s = length t \<Longrightarrow> list_all lower_hex s \<Longrightarrow> list_all lower_hex t \<Longrightarrow> hex_value s = hex_value t \<longleftrightarrow> s = t"
proof (induction s arbitrary: t rule: rev_induct)
  case (snoc c s)
  then obtain d t' where t: "t = t' @ [d]" by (cases t rule: rev_cases) auto
  have digits: "lower_hex c" "lower_hex d" using snoc(3,4) by (auto simp: t)
  have "hex_value s = hex_value t' \<longleftrightarrow> s = t'" using snoc by (simp add: t)
  moreover have "16 * hex_value s + hex_digit_value c = 16 * hex_value t' + hex_digit_value d \<longleftrightarrow>
      hex_value s = hex_value t' \<and> hex_digit_value c = hex_digit_value d"
    using lower_hex_digit(1) [OF digits(1)] lower_hex_digit(1) [OF digits(2)] by presburger
  ultimately show ?case using lower_hex_digit(2) [OF digits] by (simp add: t hex_value_snoc)
qed simp

lemma v6_segment_lower: "v6_segment p \<Longrightarrow> list_all lower_hex (lower p)" "v6_segment (lower p) = v6_segment p"
proof -
  have hex: "decimal_char c \<or> hex_letter c \<longleftrightarrow> lower_hex (lower_char c)" "hex_letter (lower_char c) = hex_letter c"
    "decimal_char (lower_char c) = decimal_char c" for c
    by (auto simp: hex_letter_def lower_hex_def decimal_code lower_char_value less_eq_char_def)
      (auto simp: code_def [symmetric] lower_char_value split: if_splits)
  show "v6_segment p \<Longrightarrow> list_all lower_hex (lower p)"
    by (auto simp: v6_segment_def list_all_iff lower_def hex(1))
  show "v6_segment (lower p) = v6_segment p"
    by (simp add: v6_segment_def list_all_iff lower_def hex(2,3))
qed

lemma padHextet_shape:
  assumes "v6_segment p"
  shows "length (padHextet (lower p)) = 4" "list_all lower_hex (padHextet (lower p))"
proof -
  have "length (strip_zeros q) \<le> length q" for q by (induction q rule: strip_zeros.induct) auto
  then have "length (strip_zeros (lower p)) \<le> length (lower p)" .
  then show "length (padHextet (lower p)) = 4"
    using assms by (simp add: padHextet_def Let_def v6_segment_def lower_def)
  have "lower_hex CHR ''0''" by (simp add: lower_hex_def decimal_code code_def)
  then show "list_all lower_hex (padHextet (lower p))"
    using v6_segment_lower(1) [OF assms] padHextet_set(2) [of "lower p"] by (auto simp: list_all_iff)
qed

lemma padHextet_inject:
  "v6_segment p \<Longrightarrow> v6_segment q \<Longrightarrow> padHextet (lower p) = padHextet (lower q) \<longleftrightarrow> hex_value p = hex_value q"
  using hex_value_inject [of "padHextet (lower p)" "padHextet (lower q)"] padHextet_shape
  by (simp add: padHextet_value hex_value_lower)

lemma isIPv4_dot: "isIPv4 s \<Longrightarrow> CHR ''.'' \<in> set s"
  using split_on_no_sep [of "CHR ''.''" s] by (cases "CHR ''.'' \<in> set s") (auto simp: isIPv4_def)

lemma group_count_plain:
  "group_count ps = Some n \<Longrightarrow> \<forall>p \<in> set ps. CHR ''.'' \<notin> set p \<Longrightarrow> list_all v6_segment ps \<and> n = length ps"
  by (induction ps arbitrary: n rule: group_count.induct) (auto dest: isIPv4_dot split: if_splits)

lemma groups_chars: "p \<in> set (groups s) \<Longrightarrow> set p \<subseteq> set s"
  using split_on_set by (auto simp: groups_def split: if_splits)

lemma split_gap_chars: "p \<in> set (split_gap s) \<Longrightarrow> set p \<subseteq> set s"
proof (induction s arbitrary: p rule: split_gap.induct)
  case (2 c cs)
  show ?case
  proof (cases "c = CHR '':'' \<and> cs \<noteq> [] \<and> hd cs = CHR '':''")
    case True
    then have "p = [] \<or> p \<in> set (split_gap (tl cs))" using 2(3) by simp
    moreover have "set (tl cs) \<subseteq> set cs" using True by (auto dest: list.set_sel(2))
    ultimately show ?thesis using 2(1) [OF True] by fastforce
  next
    case False
    obtain q qs where cs: "split_gap cs = q # qs" by (cases "split_gap cs") auto
    then have "p = c # q \<or> p \<in> set (split_gap cs)" using 2(3) False by auto
    moreover have "set r \<subseteq> set cs" if "r \<in> set (split_gap cs)" for r using 2(2) [OF False that] .
    ultimately show ?thesis using cs by fastforce
  qed
qed simp

lemma plain_parts:
  assumes "plain_v6 s"
  shows "list_all v6_segment (parts_of s)" "expandIPv6 s = Some (join_with CHR '':'' (map padHextet (parts_of (lower s))))"
proof -
  have "takeWhile (\<lambda>c. c \<noteq> CHR ''%'') s = s"
    unfolding takeWhile_eq_all_conv using assms by (auto simp: plain_v6_def)
  moreover have "v6_body (takeWhile (\<lambda>c. c \<noteq> CHR ''%'') s)" using assms by (simp add: plain_v6_def isIPv6_def)
  ultimately have body: "v6_body s" by metis
  have no_dot: "\<forall>p \<in> set (groups q). CHR ''.'' \<notin> set p" if "q \<in> set (split_gap s)" for q
    using groups_chars split_gap_chars [OF that] assms by (fastforce simp: plain_v6_def)
  have zero: "v6_segment ''0''" by (simp add: v6_segment_def decimal_char_def less_eq_char_def)
  consider w where "split_gap s = [w]" "group_count (groups w) = Some 8"
    | h t n where "split_gap s = [h, t]" "list_all v6_segment (groups h)" "group_count (groups t) = Some n" "length (groups h) + n \<le> 7"
    using body by (auto simp: v6_body_def split: list.splits option.splits)
  then have "list_all v6_segment (parts_of s) \<and> expandIPv6 s = Some (join_with CHR '':'' (map padHextet (parts_of (lower s))))"
  proof cases
    case 1
    then show ?thesis
      using group_count_plain [OF 1(2) no_dot]
      by (simp add: parts_of_def expandIPv6_def split_gap_lower groups_lower)
  next
    case 2
    then show ?thesis
      using group_count_plain [OF 2(3) no_dot] zero
      by (auto simp: parts_of_def expandIPv6_def split_gap_lower groups_lower Let_def list_all_iff)
  qed
  then show "list_all v6_segment (parts_of s)" "expandIPv6 s = Some (join_with CHR '':'' (map padHextet (parts_of (lower s))))"
    by blast+
qed

lemma plain_normalise:
  assumes "plain_v6 (trim host)"
  shows "normaliseAddress host = expandIPv6 (trim host)"
proof -
  have "\<not> isIPv4 (trim host)" "\<not> isIPv4 (drop 7 (trim host))" "isIPv6 (trim host)"
    using assms isIPv4_dot by (auto simp: plain_v6_def dest: in_set_dropD)
  then show ?thesis by (simp add: normaliseAddress_def)
qed

lemma padHextet_map_inject:
  "list_all v6_segment ps \<Longrightarrow> list_all v6_segment qs \<Longrightarrow>
   map padHextet (map lower ps) = map padHextet (map lower qs) \<longleftrightarrow> map hex_value ps = map hex_value qs"
proof (induction ps arbitrary: qs)
  case (Cons p ps)
  then show ?case by (cases qs) (auto simp: padHextet_inject)
qed simp

lemma expand_inject:
  assumes "plain_v6 s" "plain_v6 t"
  shows "expandIPv6 s = expandIPv6 t \<longleftrightarrow> hextets s = hextets t"
proof -
  have "expandIPv6 s = expandIPv6 t \<longleftrightarrow> map padHextet (map lower (parts_of s)) = map padHextet (map lower (parts_of t))"
    using plain_parts(2) [OF assms(1)] plain_parts(2) [OF assms(2)]
      normal_form_parts [OF plain_parts(2) [OF assms(1)]] normal_form_parts [OF plain_parts(2) [OF assms(2)]]
    by (simp add: parts_of_lower) metis
  then show ?thesis
    using padHextet_map_inject [OF plain_parts(1) [OF assms(1)] plain_parts(1) [OF assms(2)]] by (simp add: hex_value_parts)
qed

text \<open>The normal form is the address. Two spellings of IPv6 addresses without a zone and without an embedded IPv4 part, whatever
  letter case, leading zeros, omitted groups and surrounding white space they have, are normalised to the same
  text exactly when they stand for the same eight numbers.\<close>

theorem normal_form_is_the_address:
  assumes "plain_v6 (trim a)" "plain_v6 (trim b)"
  shows "normaliseAddress a = normaliseAddress b \<longleftrightarrow> hextets (trim a) = hextets (trim b)"
  using expand_inject [OF assms] by (simp add: plain_normalise assms)

lemmas address_eval = plain_v6_def isIPv6_def v6_body_def groups_def v6_segment_def decimal_char_def hex_letter_def
  less_eq_char_def trim_def js_space_def hextets_def hex_value_def lower_char_def

theorem normal_form_is_the_address_witness:
  "normaliseAddress '' FE80::0aB:1'' = normaliseAddress ''fe80:0:0:0:0:0:AB:1''"
proof -
  have "plain_v6 (trim '' FE80::0aB:1'')" "plain_v6 (trim ''fe80:0:0:0:0:0:AB:1'')"
    by (simp_all add: address_eval split_gap.simps(2) del: split_gap_Cons)
  moreover have "hextets (trim '' FE80::0aB:1'') = hextets (trim ''fe80:0:0:0:0:0:AB:1'')"
    by (simp add: address_eval split_gap.simps(2) del: split_gap_Cons) (simp add: eval_nat_numeral)
  ultimately show ?thesis using normal_form_is_the_address by blast
qed

section \<open>What the default policy admits\<close>

lemma lower_plain:
  "list_all (\<lambda>c. \<not> (97 \<le> code c \<and> code c \<le> 122) \<and> \<not> (65 \<le> code c \<and> code c \<le> 90)) s \<Longrightarrow> lower t = s \<longleftrightarrow> t = s"
proof (induction s arbitrary: t)
  case (Cons c s)
  then show ?case by (cases t) (auto simp: lower_char_eq)
qed auto

lemma join_chars: "\<forall>p \<in> set ps. list_all P p \<Longrightarrow> list_all (\<lambda>c. P c \<or> c = d) (join_with d ps)"
  by (induction d ps rule: join_with.induct) (auto simp: list_all_iff)

lemma v4_text: "isIPv4 s \<Longrightarrow> list_all (\<lambda>c. decimal_char c \<or> c = CHR ''.'') s"
proof -
  assume "isIPv4 s"
  then have "\<forall>p \<in> set (split_on CHR ''.'' s). list_all decimal_char p" by (auto simp: isIPv4_def list_all_iff v4_segment_def)
  then have "list_all (\<lambda>c. decimal_char c \<or> c = CHR ''.'') (join_with CHR ''.'' (split_on CHR ''.'' s))"
    by (rule join_chars)
  then show ?thesis by (simp add: join_split_on)
qed

lemma digit_text_char: "decimal_char c \<Longrightarrow> digit_text (of_char c - 48) = c"
  by (simp add: digit_text_def decimal_code code_def)

lemma decimal_text:
  assumes "p \<noteq> []" "list_all decimal_char p" "length p = 1 \<or> p ! 0 \<noteq> CHR ''0''"
  shows "nat_text (text_value p) = p" "length p = 1 \<or> 0 < text_value p"
proof -
  have "nat_text (text_value p) = p \<and> (p ! 0 \<noteq> CHR ''0'' \<longrightarrow> 0 < text_value p)"
    using assms
  proof (induction p rule: rev_induct)
    case (snoc c p)
    have c: "of_char c - 48 < (10 :: nat)" "decimal_char c" "digit_text (of_char c - 48) = c"
      using snoc(3) digit_text_char by (auto simp: decimal_code code_def)
    show ?case
    proof (cases "p = []")
      case True
      have "of_char c - 48 > (0 :: nat)" if "c \<noteq> CHR ''0''"
      proof -
        have "code c \<noteq> code CHR ''0''" using that by simp
        then show ?thesis using c(2) by (simp add: decimal_code code_def)
      qed
      with True c show ?thesis by (simp add: text_value_def nat_text.simps [of "of_char c - 48"])
    next
      case False
      then have p: "list_all decimal_char p" "p ! 0 \<noteq> CHR ''0''" using snoc(3,4) by (auto simp: nth_append)
      with snoc(1) False have "nat_text (text_value p) = p" "0 < text_value p" by auto
      with c show ?thesis
        by (simp add: text_value_snoc nat_text.simps [of "10 * text_value p + (of_char c - 48)"])
    qed
  qed simp
  then show "nat_text (text_value p) = p" "length p = 1 \<or> 0 < text_value p" using assms(3) by auto
qed

lemma normal_v4_text: "isIPv4 s \<Longrightarrow> normal_v4 s = s"
proof -
  assume "isIPv4 s"
  then have "map (\<lambda>part. nat_text (text_value part)) (split_on CHR ''.'' s) = split_on CHR ''.'' s"
    by (intro map_idI) (auto simp: isIPv4_def list_all_iff v4_segment_def intro!: decimal_text(1))
  then show ?thesis by (simp add: normal_v4_def join_split_on)
qed

lemma normal_forms:
  "normaliseAddress host = Some address \<longleftrightarrow>
     (isIPv4 (trim host) \<and> address = trim host) \<or>
     (\<not> isIPv4 (trim host) \<and> isIPv6 (trim host) \<and> lower (take 7 (trim host)) = ''::ffff:'' \<and> isIPv4 (drop 7 (trim host)) \<and>
      address = drop 7 (trim host)) \<or>
     (\<not> isIPv4 (trim host) \<and> isIPv6 (trim host) \<and> \<not> (lower (take 7 (trim host)) = ''::ffff:'' \<and> isIPv4 (drop 7 (trim host))) \<and>
      expandIPv6 (trim host) = Some address)"
  by (auto simp: normaliseAddress_def Let_def normal_v4_text)

lemma expand_colon: "expandIPv6 s = Some address \<Longrightarrow> CHR '':'' \<in> set address"
proof -
  assume s: "expandIPv6 s = Some address"
  have "length (split_on CHR '':'' address) = 8"
    using normal_form_parts [OF s] expand_parts(1) [OF s] by (simp add: parts_of_lower)
  then show ?thesis using split_on_no_sep [of "CHR '':''" address] by (cases "CHR '':'' \<in> set address") auto
qed

lemma v4_no_colon: "isIPv4 s \<Longrightarrow> CHR '':'' \<notin> set s"
  using v4_text [of s] by (auto simp: list_all_iff decimal_code code_def)

lemma lower_take_drop: "lower (take n s) = take n (lower s)" "lower (drop n s) = drop n (lower s)"
  by (simp_all add: lower_def take_map drop_map)

lemma v4_loopback: "isIPv4 ''127.0.0.1''"
  by (simp add: isIPv4_def v4_segment_def decimal_char_def less_eq_char_def text_value_def)

lemmas gap_eval = address_eval split_gap.simps(2)

lemma mapped_is_v6:
  assumes "lower t = ''::ffff:127.0.0.1''"
  shows "isIPv6 t" "\<not> isIPv4 t"
proof -
  have "split_gap ''::ffff:127.0.0.1'' = [[], ''ffff:127.0.0.1'']" by (simp add: split_gap.simps(2) del: split_gap_Cons)
  then have "map lower (split_gap t) = [[], ''ffff:127.0.0.1'']" using split_gap_lower [of t] assms by simp
  then obtain q where q: "split_gap t = [[], q]" "lower q = ''ffff:127.0.0.1''" by (auto simp: map_eq_Cons_conv)
  have "groups ''ffff:127.0.0.1'' = [''ffff'', ''127.0.0.1'']" by (simp add: groups_def)
  then have "map lower (groups q) = [''ffff'', ''127.0.0.1'']" using groups_lower [of q] q(2) by simp
  then obtain x y where xy: "groups q = [x, y]" "lower x = ''ffff''" "lower y = ''127.0.0.1''" by (auto simp: map_eq_Cons_conv)
  have "y = ''127.0.0.1''" using xy(3) by (subst (asm) lower_plain) (simp_all add: code_def)
  moreover have "v6_segment (lower x)" unfolding xy(2) by (simp add: v6_segment_def hex_letter_def less_eq_char_def)
  ultimately have "group_count (groups q) = Some 3"
    using xy(1) v6_segment_lower(2) v4_loopback by (simp add: v6_segment_def)
  then have body: "v6_body t" using q(1) by (simp add: v6_body_def groups_def)
  have zone: "CHR ''%'' \<notin> set t"
  proof
    assume "CHR ''%'' \<in> set t"
    moreover have "lower_char CHR ''%'' = CHR ''%''" by (simp add: lower_char_eq code_def)
    ultimately have "CHR ''%'' \<in> set (lower t)" by (force simp: lower_def)
    then show False by (simp add: assms)
  qed
  have whole: "takeWhile (\<lambda>c. c \<noteq> CHR ''%'') t = t" unfolding takeWhile_eq_all_conv using zone by blast
  have none: "dropWhile (\<lambda>c. c \<noteq> CHR ''%'') t = []" unfolding dropWhile_eq_Nil_conv using zone by blast
  show "isIPv6 t" unfolding isIPv6_def whole none using body by simp
  show "\<not> isIPv4 t"
  proof
    assume "isIPv4 t"
    then have "CHR '':'' \<notin> set t" by (rule v4_no_colon)
    then have "CHR '':'' \<notin> set (lower t)" by (auto simp: lower_def dest!: sym [of "CHR '':''"])
    then show False by (simp add: assms)
  qed
qed

lemma loopback_v4_hosts:
  "normaliseAddress host = Some ''127.0.0.1'' \<longleftrightarrow> trim host = ''127.0.0.1'' \<or> lower (trim host) = ''::ffff:127.0.0.1''"
proof -
  let ?t = "trim host"
  have plain: "lower u = ''127.0.0.1'' \<longleftrightarrow> u = ''127.0.0.1''" for u by (rule lower_plain) (simp add: code_def)
  have mapped: "lower ?t = ''::ffff:127.0.0.1'' \<longleftrightarrow> lower (take 7 ?t) = ''::ffff:'' \<and> drop 7 ?t = ''127.0.0.1''"
  proof
    assume t: "lower ?t = ''::ffff:127.0.0.1''"
    have "lower (take 7 ?t) = ''::ffff:''" "lower (drop 7 ?t) = ''127.0.0.1''" by (simp_all add: lower_take_drop t)
    then show "lower (take 7 ?t) = ''::ffff:'' \<and> drop 7 ?t = ''127.0.0.1''" using plain by blast
  next
    assume "lower (take 7 ?t) = ''::ffff:'' \<and> drop 7 ?t = ''127.0.0.1''"
    moreover have "lower ?t = lower (take 7 ?t) @ lower (drop 7 ?t)" by (simp add: lower_def flip: map_append)
    ultimately show "lower ?t = ''::ffff:127.0.0.1''" using plain [of "drop 7 ?t"] by simp
  qed
  have "expandIPv6 ?t \<noteq> Some ''127.0.0.1''" using expand_colon [of ?t] by auto
  then show ?thesis
    unfolding normal_forms mapped using mapped_is_v6 [of ?t] mapped v4_loopback by auto
qed

lemma loopback_v6_hosts:
  "normaliseAddress host = Some LOOPBACK_V6 \<longleftrightarrow> plain_v6 (trim host) \<and> hextets (trim host) = [0, 0, 0, 0, 0, 0, 0, 1]"
proof -
  let ?t = "trim host"
  have one: "plain_v6 ''::1''" "hextets ''::1'' = [0, 0, 0, 0, 0, 0, 0, 1]"
    by (simp add: gap_eval del: split_gap_Cons) (simp add: gap_eval eval_nat_numeral del: split_gap_Cons)
  have "expandIPv6 ''::1'' = Some LOOPBACK_V6"
    by (simp add: expandIPv6_def lower_char_def less_eq_char_def split_gap.simps(2) groups_def padHextet_def LOOPBACK_V6_def
        eval_nat_numeral del: split_gap_Cons)
  then have eight: "expandIPv6 ?t = Some LOOPBACK_V6 \<longleftrightarrow> hextets ?t = [0, 0, 0, 0, 0, 0, 0, 1]" if "plain_v6 ?t"
    using expand_inject [OF that one(1)] one(2) by simp
  have other: "\<not> isIPv4 LOOPBACK_V6" using v4_no_colon [of LOOPBACK_V6] by (auto simp: LOOPBACK_V6_def)
  show ?thesis
  proof
    assume "normaliseAddress host = Some LOOPBACK_V6"
    then have v6: "isIPv6 ?t" "expandIPv6 ?t = Some LOOPBACK_V6" using other unfolding normal_forms by auto
    have "plain_v6 ?t" by (rule normal_form_plain [OF v6]) (simp_all add: LOOPBACK_V6_def)
    with v6(2) eight show "plain_v6 ?t \<and> hextets ?t = [0, 0, 0, 0, 0, 0, 0, 1]" by blast
  next
    assume "plain_v6 ?t \<and> hextets ?t = [0, 0, 0, 0, 0, 0, 0, 1]"
    then show "normaliseAddress host = Some LOOPBACK_V6" using eight plain_normalise by simp
  qed
qed

text \<open>A host that names the loopback interface of the machine.\<close>

definition names_loopback :: "string \<Rightarrow> bool" where
  "names_loopback host \<longleftrightarrow>
     trim host = ''127.0.0.1'' \<or> lower (trim host) = ''::ffff:127.0.0.1'' \<or>
     (plain_v6 (trim host) \<and> hextets (trim host) = [0, 0, 0, 0, 0, 0, 0, 1])"

lemma replicate_numeral: "replicate (numeral k) x = x # replicate (pred_numeral k) x"
  by (simp add: numeral_eq_Suc)

lemma v4_form: "isIPv4 (trim host) \<Longrightarrow> normaliseAddress host = Some (trim host)"
  by (simp add: normal_forms)

lemmas v4_eval = isIPv4_def v4_segment_def decimal_char_def less_eq_char_def text_value_def trim_def js_space_def

lemma metadata_forms:
  "normaliseAddress ''169.254.169.254'' = Some ''169.254.169.254''" "normaliseAddress ''169.254.170.2'' = Some ''169.254.170.2''"
  "normaliseAddress ''fd00:ec2::254'' = Some ''fd00:0ec2:0000:0000:0000:0000:0000:0254''"
proof -
  show "normaliseAddress ''169.254.169.254'' = Some ''169.254.169.254''" "normaliseAddress ''169.254.170.2'' = Some ''169.254.170.2''"
    using v4_form [of "''169.254.169.254''"] v4_form [of "''169.254.170.2''"] by (simp_all add: v4_eval)
  have "plain_v6 (trim ''fd00:ec2::254'')" by (simp add: gap_eval del: split_gap_Cons)
  then show "normaliseAddress ''fd00:ec2::254'' = Some ''fd00:0ec2:0000:0000:0000:0000:0000:0254''"
    by (simp add: plain_normalise expandIPv6_def lower_char_def less_eq_char_def split_gap.simps(2) groups_def padHextet_def trim_def
        js_space_def replicate_numeral Let_def del: split_gap_Cons)
qed

text \<open>The two loopback forms pass every test that names an address.\<close>

lemma loopback_forms:
  assumes "address = ''127.0.0.1'' \<or> address = LOOPBACK_V6"
  shows "\<not> isUnspecified address" "\<not> isMulticast address" "\<not> isLinkLocal address" "isLoopback address"
    "\<not> list_ex (\<lambda>m. normaliseAddress m = Some address) METADATA_ADDRESSES"
proof -
  have v6: "\<not> isIPv4 LOOPBACK_V6" using v4_no_colon [of LOOPBACK_V6] by (auto simp: LOOPBACK_V6_def)
  show "\<not> isUnspecified address" "isLoopback address" "\<not> list_ex (\<lambda>m. normaliseAddress m = Some address) METADATA_ADDRESSES"
    using assms by (auto simp: isUnspecified_def isLoopback_def LOOPBACK_V6_def METADATA_ADDRESSES_def metadata_forms)
  show "\<not> isMulticast address"
    using assms v6 by (auto simp: isMulticast_def v4_loopback text_value_def) (simp add: LOOPBACK_V6_def)
  show "\<not> isLinkLocal address"
    using assms by (auto simp: isLinkLocal_def LOOPBACK_V6_def parse_hex_def decimal_char_def hex_letter_def less_eq_char_def hex_value_def)
qed

lemma loopback_not_metadata: "names_loopback host \<Longrightarrow> lower (trim host) \<notin> set METADATA_ADDRESSES"
proof
  assume host: "names_loopback host" and member: "lower (trim host) \<in> set METADATA_ADDRESSES"
  have plain: "lower (trim host) = m \<longleftrightarrow> trim host = m" if "m \<in> set [''127.0.0.1'', ''169.254.169.254'', ''169.254.170.2'']" for m
    by (rule lower_plain) (use that in \<open>auto simp: code_def\<close>)
  consider "lower (trim host) = ''127.0.0.1''" | "lower (trim host) = ''::ffff:127.0.0.1''"
    | "plain_v6 (trim host)" "hextets (trim host) = [0, 0, 0, 0, 0, 0, 0, 1]"
    using host plain by (auto simp: names_loopback_def)
  then show False
  proof cases
    case 3
    then have "CHR ''.'' \<notin> set (trim host)" by (simp add: plain_v6_def)
    then have "CHR ''.'' \<notin> set (lower (trim host))" by (auto simp: lower_def dest!: sym [of "CHR ''.''"])
    then have l: "lower (trim host) = ''fd00:ec2::254''" using member by (auto simp: METADATA_ADDRESSES_def)
    have "hextets (lower (trim host)) = hextets (trim host)" by (simp add: hex_value_parts parts_of_lower hex_value_lower comp_def)
    then have "hextets ''fd00:ec2::254'' = [0, 0, 0, 0, 0, 0, 0, 1]" using 3(2) l by simp
    then show False by (simp add: gap_eval del: split_gap_Cons)
  qed (use member in \<open>auto simp: METADATA_ADDRESSES_def\<close>)
qed

lemma default_ports:
  "port_valid port \<and> port_allowed STAGE_0_DESTINATION_POLICY port \<longleftrightarrow>
     (\<exists>p :: nat. port = Some (of_nat p) \<and> (p \<in> {3000..3999} \<or> p = 4321 \<or> p = 5173))"
proof
  assume valid: "port_valid port \<and> port_allowed STAGE_0_DESTINATION_POLICY port"
  then obtain r where r: "port = Some r" "r = of_int \<lfloor>r\<rfloor>" "1 \<le> r" by (auto simp: port_valid_def split: option.splits)
  define p where "p = nat \<lfloor>r\<rfloor>"
  have "r = of_nat p"
  proof -
    have "0 \<le> \<lfloor>r\<rfloor>" using r(3) by linarith
    then show ?thesis using r(2) unfolding p_def by (metis of_nat_nat)
  qed
  moreover have "p \<in> {3000..3999} \<or> p = 4321 \<or> p = 5173"
    using valid r(1) calculation by (auto simp: port_allowed_def STAGE_0_DESTINATION_POLICY_def)
  ultimately show "\<exists>p :: nat. port = Some (of_nat p) \<and> (p \<in> {3000..3999} \<or> p = 4321 \<or> p = 5173)" using r(1) by blast
next
  assume "\<exists>p :: nat. port = Some (of_nat p) \<and> (p \<in> {3000..3999} \<or> p = 4321 \<or> p = 5173)"
  then obtain p :: nat where p: "port = Some (of_nat p)" "p \<in> {3000..3999} \<or> p = 4321 \<or> p = 5173" by blast
  then show "port_valid port \<and> port_allowed STAGE_0_DESTINATION_POLICY port"
    using p by (auto simp: port_valid_def port_allowed_def STAGE_0_DESTINATION_POLICY_def)
qed

text \<open>The default policy publishes the loopback interface and nothing else. It accepts a destination exactly
  when the host is a spelling of 127.0.0.1, that address as an IPv4-mapped one, or any spelling without zone of the IPv6 address
  whose last group is one and whose others are zero; the port is a whole number among 3000 to 3999, 4321 and 5173; and the
  protocol is plain HTTP.\<close>

lemma default_policy_exact:
  "evaluateDestination STAGE_0_DESTINATION_POLICY d = None \<longleftrightarrow>
     names_loopback (ds_host d) \<and>
     (\<exists>p :: nat. ds_port d = Some (of_nat p) \<and> (p \<in> {3000..3999} \<or> p = 4321 \<or> p = 5173)) \<and> ds_protocol d = ''http''"
proof -
  let ?host = "ds_host d"
  have one: "normaliseAddress ''127.0.0.1'' = Some ''127.0.0.1''" "normaliseAddress ''::1'' = Some LOOPBACK_V6"
    unfolding loopback_v4_hosts loopback_v6_hosts
    by (simp add: trim_def js_space_def, simp add: gap_eval replicate_numeral del: split_gap_Cons)
  have hosts: "names_loopback ?host \<longleftrightarrow> (\<exists>a. normaliseAddress ?host = Some a \<and> (a = ''127.0.0.1'' \<or> a = LOOPBACK_V6))"
    unfolding names_loopback_def using loopback_v4_hosts [of ?host] loopback_v6_hosts [of ?host] by metis
  have port: "port_valid (ds_port d) \<and> port_allowed STAGE_0_DESTINATION_POLICY (ds_port d) \<longleftrightarrow>
      (\<exists>p :: nat. ds_port d = Some (of_nat p) \<and> (p \<in> {3000..3999} \<or> p = 4321 \<or> p = 5173))"
    by (rule default_ports)
  show ?thesis
  proof (cases "names_loopback ?host")
    case True
    then obtain a where a: "normaliseAddress ?host = Some a" "a = ''127.0.0.1'' \<or> a = LOOPBACK_V6" using hosts by blast
    have listed: "list_ex (\<lambda>allowed. normaliseAddress allowed = Some a) (dp_allowedHosts STAGE_0_DESTINATION_POLICY)"
      using a(2) by (auto simp: STAGE_0_DESTINATION_POLICY_def one)
    show ?thesis
      using loopback_forms [OF a(2)] loopback_not_metadata [OF True] listed a(1) port True
      by (auto simp: evaluateDestination_def) (simp_all add: STAGE_0_DESTINATION_POLICY_def)
  next
    case False
    have "evaluateDestination STAGE_0_DESTINATION_POLICY d \<noteq> None"
    proof
      assume "evaluateDestination STAGE_0_DESTINATION_POLICY d = None"
      then obtain a where "normaliseAddress ?host = Some a"
        "list_ex (\<lambda>allowed. normaliseAddress allowed = Some a) (dp_allowedHosts STAGE_0_DESTINATION_POLICY)"
        by (auto simp: evaluateDestination_def split: option.splits if_splits)
      with False hosts show False by (auto simp: STAGE_0_DESTINATION_POLICY_def one)
    qed
    with False show ?thesis by simp
  qed
qed

lemma mapped_forms:
  "plain_v6 (trim ''::ffff:a9fe:a9fe'')" "hextets ''::ffff:a9fe:a9fe'' = [0, 0, 0, 0, 0, 0xFFFF, 169 * 256 + 254, 169 * 256 + 254]"
  "normaliseAddress ''::ffff:a9fe:a9fe'' = Some ''0000:0000:0000:0000:0000:ffff:a9fe:a9fe''"
  "normaliseAddress ''::ffff:169.254.169.254'' = Some ''169.254.169.254''"
proof -
  show plain: "plain_v6 (trim ''::ffff:a9fe:a9fe'')" by (simp add: gap_eval del: split_gap_Cons)
  show "hextets ''::ffff:a9fe:a9fe'' = [0, 0, 0, 0, 0, 0xFFFF, 169 * 256 + 254, 169 * 256 + 254]"
    by (simp add: gap_eval replicate_numeral del: split_gap_Cons)
  show "normaliseAddress ''::ffff:a9fe:a9fe'' = Some ''0000:0000:0000:0000:0000:ffff:a9fe:a9fe''"
    by (simp add: plain_normalise [OF plain] expandIPv6_def lower_char_def less_eq_char_def split_gap.simps(2) groups_def padHextet_def
        trim_def js_space_def replicate_numeral Let_def del: split_gap_Cons)
  have "isIPv4 ''169.254.169.254''" by (simp add: v4_eval)
  moreover have "trim ''::ffff:169.254.169.254'' = ''::ffff:169.254.169.254''" by (simp add: trim_def js_space_def)
  moreover have "lower ''::ffff:'' = ''::ffff:''" by (simp add: lower_char_def less_eq_char_def)
  moreover have "isIPv6 ''::ffff:169.254.169.254''"
    by (simp add: gap_eval v4_eval del: split_gap_Cons)
  moreover have "\<not> isIPv4 ''::ffff:169.254.169.254''" using v4_no_colon [of "''::ffff:169.254.169.254''"] by auto
  ultimately show "normaliseAddress ''::ffff:169.254.169.254'' = Some ''169.254.169.254''" by (simp add: normal_forms)
qed

text \<open>Not every spelling of a metadata endpoint is recognised. The IPv4-mapped address of the endpoint 169.254.169.254 is refused by
  every policy in its dotted form, and in its hexadecimal form, which stands for the same eight numbers, it is accepted by any
  policy for hosts beyond loopback that lists it: an operator can re-enable an endpoint by naming it.\<close>

theorem metadata_in_hexadecimal:
  assumes "dp_allowNonLoopback policy" "''::ffff:a9fe:a9fe'' \<in> set (dp_allowedHosts policy)"
    and "port_valid port" "port_allowed policy port" "protocol \<in> set (dp_allowedProtocols policy)"
  shows "evaluateDestination policy \<lparr>ds_host = ''::ffff:169.254.169.254'', ds_port = port, ds_protocol = protocol\<rparr> =
      Some Host_is_a_cloud_metadata_endpoint \<and>
    evaluateDestination policy \<lparr>ds_host = ''::ffff:a9fe:a9fe'', ds_port = port, ds_protocol = protocol\<rparr> = None \<and>
    hextets ''::ffff:a9fe:a9fe'' = [0, 0, 0, 0, 0, 0xFFFF, 169 * 256 + 254, 169 * 256 + 254]"
proof -
  let ?a = "''0000:0000:0000:0000:0000:ffff:a9fe:a9fe''"
  have hex: "\<not> isUnspecified ?a" "\<not> isMulticast ?a" "\<not> isLinkLocal ?a"
    "lower (trim ''::ffff:a9fe:a9fe'') \<notin> set METADATA_ADDRESSES"
  proof -
    show "\<not> isUnspecified ?a" by (simp add: isUnspecified_def)
    show "\<not> isMulticast ?a" using v4_no_colon [of ?a] by (auto simp: isMulticast_def)
    show "\<not> isLinkLocal ?a"
      by (simp add: isLinkLocal_def parse_hex_def decimal_char_def hex_letter_def less_eq_char_def hex_value_def)
    show "lower (trim ''::ffff:a9fe:a9fe'') \<notin> set METADATA_ADDRESSES"
      by (simp add: trim_def js_space_def lower_char_def less_eq_char_def METADATA_ADDRESSES_def)
  qed
  have listed: "list_ex (\<lambda>allowed. normaliseAddress allowed = Some ?a) (dp_allowedHosts policy)"
    using assms(2) mapped_forms(3) by (auto simp: list_ex_iff)
  have "evaluateDestination policy \<lparr>ds_host = ''::ffff:a9fe:a9fe'', ds_port = port, ds_protocol = protocol\<rparr> = None"
    using assms hex listed mapped_forms(3)
    by (simp add: evaluateDestination_def) (simp add: METADATA_ADDRESSES_def metadata_forms)
  moreover have "evaluateDestination policy \<lparr>ds_host = ''::ffff:169.254.169.254'', ds_port = port, ds_protocol = protocol\<rparr> =
      Some Host_is_a_cloud_metadata_endpoint"
  proof -
    have "isIPv4 ''169.254.169.254''" by (simp add: v4_eval)
    then have "\<not> isUnspecified ''169.254.169.254''" "\<not> isMulticast ''169.254.169.254''"
      by (simp_all add: isUnspecified_def isMulticast_def text_value_def)
    moreover have "list_ex (\<lambda>m. normaliseAddress m = Some ''169.254.169.254'') METADATA_ADDRESSES"
      by (simp add: METADATA_ADDRESSES_def metadata_forms)
    ultimately show ?thesis using mapped_forms(4) by (simp add: evaluateDestination_def)
  qed
  ultimately show ?thesis using mapped_forms(2) by blast
qed

definition open_policy :: destination_policy where
  "open_policy =
     \<lparr>dp_allowedHosts = [''::ffff:a9fe:a9fe''], dp_allowedPorts = [(80, 80)], dp_allowedProtocols = [''http''],
      dp_allowNonLoopback = True, dp_allowLinkLocal = False\<rparr>"

theorem metadata_in_hexadecimal_witness:
  "evaluateDestination open_policy \<lparr>ds_host = ''::ffff:a9fe:a9fe'', ds_port = Some 80, ds_protocol = ''http''\<rparr> = None"
  using metadata_in_hexadecimal [of open_policy "Some 80" "''http''"]
  by (simp add: open_policy_def port_valid_def port_allowed_def)

end
