(* ===== verification/Route_Store.thy ===== *)
theory Route_Store
  imports Session_Authorisation Route_Capability Destination_Policy
begin

text \<open>
  The tables behind published routes (\<open>migrations 0020\<close> and \<open>0021\<close>) and the statements on them
  (\<open>modules/published-services/repository.ts\<close>): routes from a browser worker to a service on a
  developer's machine, and the capabilities minted for them. The rows of other components (browser sessions,
  connectors, environments, workspaces, projects) are the columns these statements read.

  Times are microseconds since the epoch, as the database keeps them; a JavaScript date drops what is below a millisecond. The requests to
  the tunnel gateway and to the connector are appended to \<open>sd_calls\<close>; their answers are arguments of the operations.
\<close>

section \<open>Rows\<close>

datatype service_status = Requested_route | Ready_route | Failed_route | Expired_route | Revoked_route

fun service_status_name :: "service_status \<Rightarrow> string" where
  "service_status_name Requested_route = ''requested''"
| "service_status_name Ready_route = ''ready''"
| "service_status_name Failed_route = ''failed''"
| "service_status_name Expired_route = ''expired''"
| "service_status_name Revoked_route = ''revoked''"

record published_service =
  ps_id :: string
  ps_organisation_id :: string
  ps_project_id :: string
  ps_connector_id :: string
  ps_workspace_id :: string
  ps_public_alias :: string
  ps_local_host :: string
  ps_local_port :: nat
  ps_protocol :: string
  ps_scope :: string
  ps_allowed_browser_session_ids :: "string list"
  ps_expires_at :: nat
  ps_status :: service_status
  ps_failure_class :: "string option"
  ps_observed_destination :: "string option"
  ps_requested_at :: nat
  ps_ready_at :: "nat option"
  ps_ended_at :: "nat option"

record capability_row =
  rc_id :: string
  rc_organisation_id :: string
  rc_project_id :: string
  rc_published_service_id :: string
  rc_browser_session_id :: string
  rc_key_id :: string
  rc_issued_at :: nat
  rc_expires_at :: nat
  rc_revoked_at :: "nat option"

text \<open>\<open>sn_max_duration_seconds\<close> is a member of the session's limits, which a row may lack.\<close>

record session_row =
  sn_id :: string
  sn_organisation_id :: string
  sn_project_id :: string
  sn_status :: session_status
  sn_published_service_id :: "string option"
  sn_worker_id :: "string option"
  sn_max_duration_seconds :: "nat option"
  sn_created_at :: nat
  sn_ended_at :: "nat option"

record connector_row =
  cn_id :: string
  cn_organisation_id :: string
  cn_project_id :: "string option"
  cn_environment_id :: string
  cn_status :: string

record workspace_row =
  ws_id :: string
  ws_organisation_id :: string
  ws_project_id :: string

datatype route_call =
    Call_publish published_service
  | Call_register published_service string
  | Call_revoke_route string
  | Call_revoke_capability string

record service_db = event_store +
  sd_services :: "published_service list"
  sd_capabilities :: "capability_row list"
  sd_sessions :: "session_row list"
  sd_connectors :: "connector_row list"
  sd_environments :: "(string \<times> string option) list"
  sd_workspaces :: "workspace_row list"
  sd_projects :: "(string \<times> string) list"
  sd_calls :: "route_call list"

type_synonym 'a service_act = "service_db \<Rightarrow> (store_failure + 'a) \<times> service_db"

section \<open>Constraints\<close>

definition live_status :: "service_status \<Rightarrow> bool" where
  "live_status status \<longleftrightarrow> status \<in> {Requested_route, Ready_route}"

definition service_row_ok :: "published_service \<Rightarrow> bool" where
  "service_row_ok s \<longleftrightarrow>
     1 \<le> ps_local_port s \<and> ps_local_port s \<le> 65535 \<and> ps_protocol s \<in> {''http'', ''https''} \<and> ps_scope s = ''browser_session'' \<and>
     1 \<le> length (ps_allowed_browser_session_ids s) \<and> length (ps_allowed_browser_session_ids s) \<le> 32 \<and>
     (ps_status s = Failed_route \<or> ps_failure_class s = None)"

definition store_services :: "published_service list \<Rightarrow> service_db \<Rightarrow> store_failure + service_db" where
  "store_services rows db =
     r_then (refuse_if (\<not> distinct (map ps_id rows)) (Unique_violation ''published_services_pkey''))
     (r_then (refuse_if (\<not> distinct (map ps_public_alias rows)) (Unique_violation ''published_services_alias_unique''))
     (r_then (refuse_if (\<not> list_all service_row_ok rows) (Check_violation ''published_services_check''))
     (Inr (db\<lparr>sd_services := rows\<rparr>))))"

definition store_capabilities :: "capability_row list \<Rightarrow> service_db \<Rightarrow> store_failure + service_db" where
  "store_capabilities rows db =
     r_then (refuse_if (\<not> distinct (map rc_id rows)) (Unique_violation ''route_capabilities_pkey''))
     (r_then (refuse_if (\<not> list_all (\<lambda>c. rc_expires_at c > rc_issued_at c) rows) (Check_violation ''route_capabilities_expires_at_check''))
     (r_then (refuse_if (\<not> list_all (\<lambda>c. rc_published_service_id c \<in> set (map ps_id (sd_services db))) rows)
       (Check_violation ''route_capabilities_published_service_id_fkey''))
     (Inr (db\<lparr>sd_capabilities := rows\<rparr>))))"

definition call_route :: "route_call \<Rightarrow> service_db \<Rightarrow> service_db" where
  "call_route c db = db\<lparr>sd_calls := sd_calls db @ [c]\<rparr>"

section \<open>Statements on routes\<close>

definition insertRequested :: "published_service \<Rightarrow> service_db \<Rightarrow> store_failure + service_db" where
  "insertRequested row db = store_services (sd_services db @ [row]) db"

text \<open>\<open>UPDATE published_services SET ... WHERE id = $1 AND status IN (...) RETURNING ...\<close>.\<close>

definition mark_route ::
  "(service_status \<Rightarrow> bool) \<Rightarrow> (published_service \<Rightarrow> published_service) \<Rightarrow> string \<Rightarrow> service_db \<Rightarrow>
     store_failure + (published_service option \<times> service_db)" where
  "mark_route from f rid db =
     (let p = (\<lambda>s. ps_id s = rid \<and> from (ps_status s)) in
      r_bind (store_services (update_where p f (sd_services db)) db) (\<lambda>db'.
      Inr (map_option f (List.find p (sd_services db)), db')))"

definition markReady :: "string \<Rightarrow> string \<Rightarrow> service_db \<Rightarrow> store_failure + (published_service option \<times> service_db)" where
  "markReady rid observed db =
     mark_route (\<lambda>status. status = Requested_route)
       (\<lambda>s. s\<lparr>ps_status := Ready_route, ps_observed_destination := Some observed, ps_ready_at := Some (es_now db)\<rparr>) rid db"

definition markRouteFailed :: "string \<Rightarrow> string \<Rightarrow> service_db \<Rightarrow> store_failure + (published_service option \<times> service_db)" where
  "markRouteFailed rid failureClass db =
     mark_route live_status
       (\<lambda>s. s\<lparr>ps_status := Failed_route, ps_failure_class := Some failureClass, ps_ended_at := Some (es_now db)\<rparr>) rid db"

definition markEnded ::
  "string \<Rightarrow> service_status \<Rightarrow> service_db \<Rightarrow> store_failure + (published_service option \<times> service_db)" where
  "markEnded rid status db =
     mark_route live_status (\<lambda>s. s\<lparr>ps_status := status, ps_ended_at := Some (es_now db)\<rparr>) rid db"

record caller_scope =
  sc_organisationId :: "string option"
  sc_projectIds :: "string list option"

definition scope_admits :: "caller_scope \<Rightarrow> string \<Rightarrow> string \<Rightarrow> bool" where
  "scope_admits scope organisation project \<longleftrightarrow>
     (case sc_organisationId scope of None \<Rightarrow> True | Some o' \<Rightarrow> organisation = o') \<and>
     (case sc_projectIds scope of None \<Rightarrow> True | Some ps \<Rightarrow> project \<in> set ps)"

definition findInScope :: "string \<Rightarrow> caller_scope \<Rightarrow> service_db \<Rightarrow> published_service option" where
  "findInScope rid scope db =
     List.find (\<lambda>s. ps_id s = rid \<and> scope_admits scope (ps_organisation_id s) (ps_project_id s)) (sd_services db)"

definition listInScope :: "string \<Rightarrow> caller_scope \<Rightarrow> nat \<Rightarrow> service_db \<Rightarrow> published_service list" where
  "listInScope project scope limit db =
     take limit (rev (sort_key ps_requested_at
       (filter (\<lambda>s. ps_project_id s = project \<and> scope_admits scope (ps_organisation_id s) (ps_project_id s)) (sd_services db))))"

definition findPending :: "nat \<Rightarrow> nat \<Rightarrow> service_db \<Rightarrow> published_service list" where
  "findPending requestedBefore limit db =
     take limit (sort_key ps_requested_at
       (filter (\<lambda>s. ps_status s = Requested_route \<and> ps_requested_at s \<le> requestedBefore) (sd_services db)))"

definition findDueForExpiry :: "nat \<Rightarrow> nat \<Rightarrow> service_db \<Rightarrow> published_service list" where
  "findDueForExpiry now limit db =
     take limit (sort_key ps_expires_at
       (filter (\<lambda>s. live_status (ps_status s) \<and> ps_expires_at s \<le> now) (sd_services db)))"

definition findLiveForConnector :: "string \<Rightarrow> nat \<Rightarrow> service_db \<Rightarrow> published_service list" where
  "findLiveForConnector connectorId limit db =
     take limit (sort_key ps_id
       (filter (\<lambda>s. ps_connector_id s = connectorId \<and> live_status (ps_status s)) (sd_services db)))"

definition findByIds :: "string list \<Rightarrow> service_db \<Rightarrow> published_service list" where
  "findByIds ids db = sort_key ps_id (filter (\<lambda>s. ps_id s \<in> set ids) (sd_services db))"

definition countReadyForConnector :: "string \<Rightarrow> string \<Rightarrow> service_db \<Rightarrow> nat" where
  "countReadyForConnector connectorId organisationId db =
     length (filter (\<lambda>s. ps_connector_id s = connectorId \<and> ps_organisation_id s = organisationId \<and> live_status (ps_status s))
       (sd_services db))"

section \<open>Statements on connectors, workspaces and sessions\<close>

text \<open>A row of \<open>connectors\<close> joined with its environment, inside one organisation and project.\<close>

definition connector_in_scope :: "string \<Rightarrow> string \<Rightarrow> string \<Rightarrow> service_db \<Rightarrow> connector_row \<Rightarrow> bool" where
  "connector_in_scope connectorId organisationId projectId db c \<longleftrightarrow>
     cn_id c = connectorId \<and> cn_organisation_id c = organisationId \<and>
     (case map_of (sd_environments db) (cn_environment_id c) of
        None \<Rightarrow> False
      | Some project \<Rightarrow>
          cn_project_id c = Some projectId \<or> project = Some projectId \<or> (cn_project_id c = None \<and> project = None))"

definition findPublishableConnector :: "string \<Rightarrow> string \<Rightarrow> string \<Rightarrow> service_db \<Rightarrow> connector_row option" where
  "findPublishableConnector connectorId organisationId projectId db =
     List.find (\<lambda>c. connector_in_scope connectorId organisationId projectId db c \<and> cn_status c = ''ACTIVE'') (sd_connectors db)"

definition findConnectorStatusInScope :: "string \<Rightarrow> string \<Rightarrow> string \<Rightarrow> service_db \<Rightarrow> string option" where
  "findConnectorStatusInScope connectorId organisationId projectId db =
     map_option cn_status (List.find (connector_in_scope connectorId organisationId projectId db) (sd_connectors db))"

definition findWorkspaceInProject :: "string \<Rightarrow> string \<Rightarrow> string \<Rightarrow> service_db \<Rightarrow> workspace_row option" where
  "findWorkspaceInProject workspaceId organisationId projectId db =
     List.find (\<lambda>w. ws_id w = workspaceId \<and> ws_organisation_id w = organisationId \<and> ws_project_id w = projectId) (sd_workspaces db)"

definition session_in_project :: "string \<Rightarrow> string \<Rightarrow> session_row \<Rightarrow> bool" where
  "session_in_project organisationId projectId b \<longleftrightarrow> sn_organisation_id b = organisationId \<and> sn_project_id b = projectId"

definition findBrowserSessionsInProject :: "string list \<Rightarrow> string \<Rightarrow> string \<Rightarrow> service_db \<Rightarrow> string list" where
  "findBrowserSessionsInProject ids organisationId projectId db =
     map sn_id (filter (\<lambda>b. sn_id b \<in> set ids \<and> session_in_project organisationId projectId b) (sd_sessions db))"

definition findSessionLifetime :: "string \<Rightarrow> string \<Rightarrow> string \<Rightarrow> service_db \<Rightarrow> session_row option" where
  "findSessionLifetime sid organisationId projectId db =
     List.find (\<lambda>b. sn_id b = sid \<and> session_in_project organisationId projectId b) (sd_sessions db)"

definition session_live :: "session_row \<Rightarrow> bool" where
  "session_live b \<longleftrightarrow> sn_ended_at b = None \<and> sn_status b \<notin> {TERMINATED, FAILED, TERMINATING}"

definition findLiveSessionsForConnector :: "string \<Rightarrow> service_db \<Rightarrow> session_row list" where
  "findLiveSessionsForConnector connectorId db =
     sort_key sn_id (filter (\<lambda>b. session_live b \<and>
       list_ex (\<lambda>s. sn_published_service_id b = Some (ps_id s) \<and> ps_connector_id s = connectorId) (sd_services db)) (sd_sessions db))"

definition findLiveSessionsByIds :: "string list \<Rightarrow> service_db \<Rightarrow> session_row list" where
  "findLiveSessionsByIds ids db = sort_key sn_id (filter (\<lambda>b. sn_id b \<in> set ids \<and> session_live b) (sd_sessions db))"

text \<open>The previous status, or nothing when the session is not in one of the statuses the move starts from.\<close>

definition setSessionStatus ::
  "string \<Rightarrow> session_status \<Rightarrow> session_status list \<Rightarrow> service_db \<Rightarrow> session_status option \<times> service_db" where
  "setSessionStatus sid status from db =
     (let p = (\<lambda>b. sn_id b = sid \<and> sn_status b \<in> set from) in
      (map_option sn_status (List.find p (sd_sessions db)),
       db\<lparr>sd_sessions := update_where p (\<lambda>b. b\<lparr>sn_status := status\<rparr>) (sd_sessions db)\<rparr>))"

record bindable_route =
  br_published_service_id :: string
  br_public_alias :: string
  br_route_status :: service_status
  br_route_expires_at :: nat
  br_connector_id :: string
  br_connector_status :: string
  br_session_authorised :: bool
  br_session_created_at :: nat
  br_session_max_duration_seconds :: "nat option"
  br_organisation_id :: string
  br_project_id :: string

text \<open>The join of a route, a session of its project, the project and the connector; each is found by its key.\<close>

definition findBindableRoute :: "string \<Rightarrow> string \<Rightarrow> caller_scope \<Rightarrow> service_db \<Rightarrow> bindable_route option" where
  "findBindableRoute rid sid scope db =
     (case List.find (\<lambda>s. ps_id s = rid) (sd_services db) of
        None \<Rightarrow> None
      | Some s \<Rightarrow>
          (case (List.find (\<lambda>b. sn_id b = sid \<and> sn_project_id b = ps_project_id s) (sd_sessions db),
                 map_of (sd_projects db) (ps_project_id s), List.find (\<lambda>c. cn_id c = ps_connector_id s) (sd_connectors db)) of
             (Some b, Some organisation, Some c) \<Rightarrow>
               if scope_admits scope organisation (ps_project_id s)
               then Some
                 \<lparr>br_published_service_id = ps_id s, br_public_alias = ps_public_alias s, br_route_status = ps_status s,
                  br_route_expires_at = ps_expires_at s, br_connector_id = ps_connector_id s, br_connector_status = cn_status c,
                  br_session_authorised = (sn_id b \<in> set (ps_allowed_browser_session_ids s)),
                  br_session_created_at = sn_created_at b, br_session_max_duration_seconds = sn_max_duration_seconds b,
                  br_organisation_id = organisation, br_project_id = ps_project_id s\<rparr>
               else None
           | _ \<Rightarrow> None))"

section \<open>Statements on capabilities\<close>

definition revokeCapabilities ::
  "(capability_row \<Rightarrow> bool) \<Rightarrow> service_db \<Rightarrow> store_failure + (string list \<times> service_db)" where
  "revokeCapabilities p db =
     (let q = (\<lambda>c. p c \<and> rc_revoked_at c = None) in
      r_bind (store_capabilities (update_where q (\<lambda>c. c\<lparr>rc_revoked_at := Some (es_now db)\<rparr>) (sd_capabilities db)) db) (\<lambda>db'.
      Inr (map rc_id (filter q (sd_capabilities db)), db')))"

definition revokeCapabilitiesForService :: "string \<Rightarrow> service_db \<Rightarrow> store_failure + (string list \<times> service_db)" where
  "revokeCapabilitiesForService rid = revokeCapabilities (\<lambda>c. rc_published_service_id c = rid)"

definition revoke_session_rows :: "string \<Rightarrow> service_db \<Rightarrow> store_failure + (string list \<times> service_db)" where
  "revoke_session_rows sid = revokeCapabilities (\<lambda>c. rc_browser_session_id c = sid)"

definition findLiveCapabilitiesForSession :: "string \<Rightarrow> service_db \<Rightarrow> string list" where
  "findLiveCapabilitiesForSession sid db =
     map rc_id (rev (sort_key rc_issued_at (filter (\<lambda>c. rc_browser_session_id c = sid \<and> rc_revoked_at c = None) (sd_capabilities db))))"

text \<open>\<open>INSERT ... SELECT ... FROM browser_sessions WHERE\<close> the session has not ended: no row without one.\<close>

definition insertCapability :: "capability_row \<Rightarrow> service_db \<Rightarrow> store_failure + (capability_row option \<times> service_db)" where
  "insertCapability row db =
     (case List.find (\<lambda>b. sn_id b = rc_browser_session_id row \<and> session_live b) (sd_sessions db) of
        None \<Rightarrow> Inr (None, db)
      | Some _ \<Rightarrow> r_bind (store_capabilities (sd_capabilities db @ [row]) db) (\<lambda>db'. Inr (Some row, db')))"

section \<open>Lemmas\<close>

lemma store_services_Inr [result_simps]:
  "store_services rows db = Inr db' \<longleftrightarrow> db' = db\<lparr>sd_services := rows\<rparr> \<and> distinct (map ps_id rows) \<and>
     distinct (map ps_public_alias rows) \<and> list_all service_row_ok rows"
  by (auto simp: store_services_def result_simps)

lemma store_capabilities_Inr [result_simps]:
  "store_capabilities rows db = Inr db' \<longleftrightarrow> db' = db\<lparr>sd_capabilities := rows\<rparr> \<and> distinct (map rc_id rows) \<and>
     list_all (\<lambda>c. rc_expires_at c > rc_issued_at c) rows \<and>
     list_all (\<lambda>c. rc_published_service_id c \<in> set (map ps_id (sd_services db))) rows"
  by (auto simp: store_capabilities_def result_simps)

lemma appended_service_tables [simp]:
  "sd_services (appended i db) = sd_services db" "sd_capabilities (appended i db) = sd_capabilities db"
  "sd_sessions (appended i db) = sd_sessions db" "sd_connectors (appended i db) = sd_connectors db"
  "sd_environments (appended i db) = sd_environments db" "sd_workspaces (appended i db) = sd_workspaces db"
  "sd_projects (appended i db) = sd_projects db" "sd_calls (appended i db) = sd_calls db"
  by (simp_all add: appended_def Let_def)

lemma appendEvents_service_tables:
  assumes "appendEvents is db = Inr db'"
  shows "sd_services db' = sd_services db" "sd_capabilities db' = sd_capabilities db" "sd_sessions db' = sd_sessions db"
    "sd_connectors db' = sd_connectors db" "sd_environments db' = sd_environments db" "sd_workspaces db' = sd_workspaces db"
    "sd_projects db' = sd_projects db" "sd_calls db' = sd_calls db" "es_now db' = es_now db"
proof -
  have "sd_services (fold appended is db) = sd_services db \<and> sd_capabilities (fold appended is db) = sd_capabilities db \<and>
      sd_sessions (fold appended is db) = sd_sessions db \<and> sd_connectors (fold appended is db) = sd_connectors db \<and>
      sd_environments (fold appended is db) = sd_environments db \<and> sd_workspaces (fold appended is db) = sd_workspaces db \<and>
      sd_projects (fold appended is db) = sd_projects db \<and> sd_calls (fold appended is db) = sd_calls db \<and>
      es_now (fold appended is db) = es_now db"
    by (induction "is" arbitrary: db) simp_all
  then show "sd_services db' = sd_services db" "sd_capabilities db' = sd_capabilities db" "sd_sessions db' = sd_sessions db"
    "sd_connectors db' = sd_connectors db" "sd_environments db' = sd_environments db" "sd_workspaces db' = sd_workspaces db"
    "sd_projects db' = sd_projects db" "sd_calls db' = sd_calls db" "es_now db' = es_now db"
    using appendEvents_Inr [OF assms] by simp_all
qed

lemma mark_route_Inr [result_simps]:
  "mark_route from f rid db = Inr (r, db') \<longleftrightarrow>
     r = map_option f (List.find (\<lambda>s. ps_id s = rid \<and> from (ps_status s)) (sd_services db)) \<and>
     store_services (update_where (\<lambda>s. ps_id s = rid \<and> from (ps_status s)) f (sd_services db)) db = Inr db'"
  by (auto simp: mark_route_def Let_def result_simps)

end
