(* ===== verification/Published_Services.thy ===== *)
theory Published_Services
  imports Route_Store
begin

text \<open>
  The commands on published routes (\<open>modules/published-services/service.ts\<close>) and the binder the browser sessions use
  (\<open>session-binder.ts\<close>). An operation is several reads and transactions with calls of the connector and of the
  tunnel gateway between them; it returns the database also when it throws. The work of each transaction is a
  definition of its own, so that it can also be run from a database that others have changed since the reads.
\<close>

section \<open>Configuration and peers\<close>

record capability_config =
  kc_keyId :: string
  kc_key :: "byte list"
  kc_ttlSeconds :: nat

record service_config =
  pc_destinationPolicy :: destination_policy
  pc_internalSuffix :: string
  pc_routeTtlMaxSeconds :: nat
  pc_maxRoutesPerConnector :: nat
  pc_capability :: "capability_config option"

text \<open>A time to live is whatever number the request has; the port is one the destination policy accepts.\<close>

record create_input =
  pi_projectId :: string
  pi_organisationId :: string
  pi_connectorId :: string
  pi_workspaceId :: string
  pi_localHost :: string
  pi_localPort :: "rat option"
  pi_protocol :: string
  pi_ttlSeconds :: rat
  pi_allowedBrowserSessionIds :: "string list"

record gateway_route_view =
  gw_observed_destination :: string
  gw_internal_origin :: string
  gw_connector_connected :: bool

record service_peers =
  sp_publish :: "published_service \<Rightarrow> store_failure + string"
  sp_register :: "published_service \<Rightarrow> string \<Rightarrow> store_failure + gateway_route_view"
  sp_revoke_route :: "string \<Rightarrow> store_failure + unit"

record service_view =
  sv_id :: string
  sv_project_id :: string
  sv_connector_id :: string
  sv_workspace_id :: string
  sv_local_host :: string
  sv_local_port :: nat
  sv_protocol :: string
  sv_public_alias :: string
  sv_internal_origin :: string
  sv_scope :: string
  sv_allowed_browser_session_ids :: "string list"
  sv_expires_at :: string
  sv_status :: string
  sv_failure_class :: "string option"
  sv_observed_destination :: "string option"

record minted_capability =
  mc_capability_id :: string
  mc_capability :: string
  mc_browser_session_id :: string
  mc_internal_origin :: string
  mc_expires_at :: string

definition origin :: "service_config \<Rightarrow> string \<Rightarrow> string" where
  "origin config alias = ''https://'' @ alias @ ''.'' @ pc_internalSuffix config @ ''/''"

definition view :: "service_config \<Rightarrow> published_service \<Rightarrow> service_view" where
  "view config s =
     \<lparr>sv_id = ps_id s, sv_project_id = ps_project_id s, sv_connector_id = ps_connector_id s, sv_workspace_id = ps_workspace_id s,
      sv_local_host = ps_local_host s, sv_local_port = ps_local_port s, sv_protocol = ps_protocol s,
      sv_public_alias = ps_public_alias s, sv_internal_origin = origin config (ps_public_alias s), sv_scope = ps_scope s,
      sv_allowed_browser_session_ids = ps_allowed_browser_session_ids s, sv_expires_at = toISOString (ps_expires_at s),
      sv_status = service_status_name (ps_status s), sv_failure_class = ps_failure_class s,
      sv_observed_destination = ps_observed_destination s\<rparr>"

definition EVERY_SCOPE :: caller_scope where
  "EVERY_SCOPE = \<lparr>sc_organisationId = None, sc_projectIds = None\<rparr>"

definition PUBLISHED_SERVICE_FAILURE_CLASS_VALUES :: "string list" where
  "PUBLISHED_SERVICE_FAILURE_CLASS_VALUES =
     [''CONNECTOR_OFFLINE'', ''CONTROL_PLANE_UNAVAILABLE'', ''DESTINATION_NOT_ALLOWED'', ''IDENTITY_REVOKED'', ''INTERNAL_ERROR'',
      ''PORT_NOT_LISTENING'', ''PROJECT_NOT_AUTHORISED'', ''PROTOCOL_UNSUPPORTED'', ''PUBLISHED_SERVICE_UNAVAILABLE'',
      ''ROUTE_EXPIRED'', ''ROUTE_LIMIT_EXCEEDED'', ''WORKSPACE_NOT_FOUND'']"

definition failureClassOf :: "store_failure \<Rightarrow> string" where
  "failureClassOf error =
     (case error of
        Refused e \<Rightarrow>
          if error_code_name (err_code e) \<in> set PUBLISHED_SERVICE_FAILURE_CLASS_VALUES then error_code_name (err_code e)
          else ''INTERNAL_ERROR''
      | _ \<Rightarrow> ''INTERNAL_ERROR'')"

text \<open>\<open>randomUUID().replaceAll("-", "")\<close>: sixteen random bytes with the version and the variant set, in hexadecimal.\<close>

definition hex_text :: "byte \<Rightarrow> string" where
  "hex_text b = map (\<lambda>d. ''0123456789abcdef'' ! d) [unat b div 16, unat b mod 16]"

definition uuid_text :: "byte list \<Rightarrow> string" where
  "uuid_text bytes =
     (let b = take 16 bytes;
          c = b[6 := of_nat (64 + unat (b ! 6) mod 16), 8 := of_nat (128 + unat (b ! 8) mod 64)]
      in concat (map hex_text c))"

definition newUuid :: "string \<Rightarrow> service_db \<Rightarrow> string \<times> service_db" where
  "newUuid prefix db = (prefix @ uuid_text (es_random db (es_drawn db)), db\<lparr>es_drawn := es_drawn db + 1\<rparr>)"

text \<open>\<open>new Date(ms)\<close> drops the fraction of a millisecond; the result is in microseconds.\<close>

definition js_date :: "rat \<Rightarrow> nat" where
  "js_date ms = nat \<lfloor>ms\<rfloor> * 1000"

definition now_ms :: "service_db \<Rightarrow> nat" where
  "now_ms db = es_now db div 1000"

definition route_event ::
  "published_service \<Rightarrow> event_actor \<Rightarrow> string \<Rightarrow> (string \<times> json) list \<Rightarrow> (string \<times> json) list \<Rightarrow> nat \<Rightarrow> append_input" where
  "route_event s actor type correlation payload now =
     (project_event (ps_organisation_id s) (ps_project_id s) actor type correlation payload)\<lparr>ai_occurred_at := Some now\<rparr>"

definition plain_system :: event_actor where
  "plain_system = \<lparr>act_type = system, act_id = None, act_display = None\<rparr>"

definition strings :: "string list \<Rightarrow> json" where
  "strings xs = JArray (map JString xs)"

section \<open>Requesting a route\<close>

definition request_checks :: "service_config \<Rightarrow> create_input \<Rightarrow> api_error + unit" where
  "request_checks config input =
     r_then (refuse_if (pi_allowedBrowserSessionIds input = [])
       (ApiError VALIDATION_FAILED (Some [D_field ''allowed_browser_session_ids'']) None None))
     (r_then (refuse_if (length (pi_allowedBrowserSessionIds input) > 32)
       (ApiError VALIDATION_FAILED (Some [D_field ''allowed_browser_session_ids'']) None None))
     (r_then (refuse_if (pi_ttlSeconds input \<le> 0 \<or> pi_ttlSeconds input > of_nat (pc_routeTtlMaxSeconds config))
       (ApiError ROUTE_EXPIRED (Some [D_max_ttl_seconds (pc_routeTtlMaxSeconds config)]) (Some 422) None))
     (case evaluateDestination (pc_destinationPolicy config)
             \<lparr>ds_host = pi_localHost input, ds_port = pi_localPort input, ds_protocol = pi_protocol input\<rparr> of
        None \<Rightarrow> ok
      | Some rejection \<Rightarrow> Inl (ApiError DESTINATION_NOT_ALLOWED (Some [D_reason (rejection_name rejection)]) None None))))"

definition explainConnectorRefusal :: "create_input \<Rightarrow> service_db \<Rightarrow> api_error" where
  "explainConnectorRefusal input db =
     (case findConnectorStatusInScope (pi_connectorId input) (pi_organisationId input) (pi_projectId input) db of
        None \<Rightarrow> ApiError RESOURCE_NOT_FOUND (Some [D_field ''connector_id'']) None None
      | Some status \<Rightarrow>
          if status = ''REVOKED''
          then ApiError IDENTITY_REVOKED (Some [D_field ''connector_id'', D_connector_status status]) None None
          else ApiError CONNECTOR_OFFLINE (Some [D_field ''connector_id'', D_connector_status status]) None None)"

definition port_number :: "rat option \<Rightarrow> nat" where
  "port_number port = (case port of None \<Rightarrow> 0 | Some p \<Rightarrow> nat \<lfloor>p\<rfloor>)"

definition requested_row :: "create_input \<Rightarrow> string \<Rightarrow> string \<Rightarrow> nat \<Rightarrow> published_service" where
  "requested_row input rid alias ms =
     \<lparr>ps_id = rid, ps_organisation_id = pi_organisationId input, ps_project_id = pi_projectId input,
      ps_connector_id = pi_connectorId input, ps_workspace_id = pi_workspaceId input, ps_public_alias = alias,
      ps_local_host = pi_localHost input, ps_local_port = port_number (pi_localPort input), ps_protocol = pi_protocol input,
      ps_scope = ''browser_session'', ps_allowed_browser_session_ids = pi_allowedBrowserSessionIds input,
      ps_expires_at = js_date (of_nat ms + pi_ttlSeconds input * 1000), ps_status = Requested_route, ps_failure_class = None,
      ps_observed_destination = None, ps_requested_at = ms * 1000, ps_ready_at = None, ps_ended_at = None\<rparr>"

definition requested_event :: "published_service \<Rightarrow> event_actor \<Rightarrow> string \<Rightarrow> append_input" where
  "requested_event s actor requestId =
     route_event s actor ''published_service.requested''
       [(''request_id'', JString requestId), (''published_service_id'', JString (ps_id s)), (''connector_id'', JString (ps_connector_id s))]
       [(''published_service_id'', JString (ps_id s)), (''connector_id'', JString (ps_connector_id s)),
        (''workspace_id'', JString (ps_workspace_id s)), (''local_host'', JString (ps_local_host s)),
        (''local_port'', json_num (ps_local_port s)), (''protocol'', JString (ps_protocol s)),
        (''public_alias'', JString (ps_public_alias s)), (''expires_at'', JString (toISOString (ps_expires_at s))),
        (''allowed_browser_session_ids'', strings (ps_allowed_browser_session_ids s)), (''new_status'', JString ''requested'')]
       (ps_requested_at s)"

definition request_route_work ::
  "service_config \<Rightarrow> create_input \<Rightarrow> string \<Rightarrow> string \<Rightarrow> nat \<Rightarrow> event_actor \<Rightarrow> string \<Rightarrow> service_db \<Rightarrow>
     store_failure + (service_view \<times> service_db)" where
  "request_route_work config input rid alias ms actor requestId db =
     r_then (refuse_if (findPublishableConnector (pi_connectorId input) (pi_organisationId input) (pi_projectId input) db = None)
       (Refused (explainConnectorRefusal input db)))
     (r_then (refuse_if (findWorkspaceInProject (pi_workspaceId input) (pi_organisationId input) (pi_projectId input) db = None)
       (Refused (ApiError WORKSPACE_NOT_FOUND (Some [D_field ''workspace_id'']) None None)))
     (let reachable = findBrowserSessionsInProject (pi_allowedBrowserSessionIds input) (pi_organisationId input)
            (pi_projectId input) db in
      r_then (refuse_if (filter (\<lambda>sid. sid \<notin> set reachable) (pi_allowedBrowserSessionIds input) \<noteq> [])
        (Refused (ApiError RESOURCE_NOT_FOUND (Some [D_field ''allowed_browser_session_ids'']) None None)))
     (r_then (refuse_if (countReadyForConnector (pi_connectorId input) (pi_organisationId input) db \<ge> pc_maxRoutesPerConnector config)
       (Refused (ApiError ROUTE_LIMIT_EXCEEDED (Some [D_max_routes (pc_maxRoutesPerConnector config)]) None None)))
     (let row = requested_row input rid alias ms in
      r_bind (insertRequested row db) (\<lambda>db1.
      r_bind (appendEvents [requested_event row actor requestId] db1) (\<lambda>db2. Inr (view config row, db2)))))))"

definition request_route :: "service_config \<Rightarrow> create_input \<Rightarrow> event_actor \<Rightarrow> string \<Rightarrow> service_view service_act" where
  "request_route config input actor requestId =
     act_bind (act_read (\<lambda>_. lift (request_checks config input))) (\<lambda>_.
     act_bind (\<lambda>db. let (rid, db') = newUuid ''svc_'' db in (Inr rid, db')) (\<lambda>rid.
     act_bind (\<lambda>db. let (alias, db') = newUuid ''svc-'' db in (Inr alias, db')) (\<lambda>alias db.
     inTransaction (request_route_work config input rid alias (now_ms db) actor requestId) db)))"

section \<open>Completing it\<close>

definition read_service :: "string \<Rightarrow> caller_scope \<Rightarrow> service_db \<Rightarrow> store_failure + published_service" where
  "read_service rid scope db =
     (case findInScope rid scope db of
        None \<Rightarrow> Inl (Refused (ApiError RESOURCE_NOT_FOUND None None None))
      | Some s \<Rightarrow> Inr s)"

definition ready_work ::
  "service_config \<Rightarrow> published_service \<Rightarrow> gateway_route_view \<Rightarrow> event_actor \<Rightarrow> string \<Rightarrow> service_db \<Rightarrow>
     store_failure + (service_view \<times> service_db)" where
  "ready_work config record' registered actor requestId db =
     r_bind (markReady (ps_id record') (gw_observed_destination registered) db) (\<lambda>(ready, db1).
     case ready of
       None \<Rightarrow> Inl (Refused (ApiError PUBLISHED_SERVICE_UNAVAILABLE None None None))
     | Some s \<Rightarrow>
         r_bind (appendEvents [route_event record' actor ''published_service.ready''
             [(''request_id'', JString requestId), (''published_service_id'', JString (ps_id record')),
              (''connector_id'', JString (ps_connector_id record'))]
             [(''published_service_id'', JString (ps_id record')), (''previous_status'', JString ''requested''),
              (''new_status'', JString ''ready''), (''observed_destination'', JString (gw_observed_destination registered)),
              (''internal_origin'', JString (gw_internal_origin registered)),
              (''connector_connected'', JBool (gw_connector_connected registered))]
             (js_now db1)] db1) (\<lambda>db2. Inr (view config s, db2)))"

definition failed_work ::
  "published_service \<Rightarrow> string \<Rightarrow> event_actor \<Rightarrow> string \<Rightarrow> service_db \<Rightarrow> store_failure + (unit \<times> service_db)" where
  "failed_work record' failureClass actor requestId db =
     r_bind (markRouteFailed (ps_id record') failureClass db) (\<lambda>(failed, db1).
     case failed of
       None \<Rightarrow> Inr ((), db1)
     | Some _ \<Rightarrow>
         r_bind (appendEvents [route_event record' actor ''published_service.failed''
             [(''request_id'', JString requestId), (''published_service_id'', JString (ps_id record'))]
             [(''published_service_id'', JString (ps_id record')), (''previous_status'', JString ''requested''),
              (''new_status'', JString ''failed''), (''error_class'', JString failureClass)]
             (js_now db1)] db1) (\<lambda>db2. Inr ((), db2)))"

text \<open>The two calls, of the connector and then of the gateway.\<close>

definition publish_route :: "service_peers \<Rightarrow> published_service \<Rightarrow> gateway_route_view service_act" where
  "publish_route peers record' =
     act_bind (act_write (call_route (Call_publish record'))) (\<lambda>_.
     act_bind (act_read (\<lambda>_. sp_publish peers record')) (\<lambda>observed.
     act_bind (act_write (call_route (Call_register record' observed))) (\<lambda>_.
     act_read (\<lambda>_. sp_register peers record' observed))))"

text \<open>The \<open>catch\<close> of \<open>complete\<close>: the failure is recorded and thrown on.\<close>

definition record_failure :: "published_service \<Rightarrow> event_actor \<Rightarrow> string \<Rightarrow> store_failure \<Rightarrow> 'a service_act" where
  "record_failure record' actor requestId error =
     act_bind (inTransaction (failed_work record' (failureClassOf error) actor requestId)) (\<lambda>_. act_throw error)"

definition complete ::
  "service_config \<Rightarrow> service_peers \<Rightarrow> string \<Rightarrow> event_actor \<Rightarrow> string \<Rightarrow> service_view service_act" where
  "complete config peers rid actor requestId =
     act_bind (act_read (read_service rid EVERY_SCOPE)) (\<lambda>record'.
     if ps_status record' \<noteq> Requested_route then act_return (view config record')
     else act_try
       (act_bind (publish_route peers record') (\<lambda>registered.
        inTransaction (ready_work config record' registered actor requestId)))
       (record_failure record' actor requestId))"

definition create_route ::
  "service_config \<Rightarrow> service_peers \<Rightarrow> create_input \<Rightarrow> event_actor \<Rightarrow> string \<Rightarrow> service_view service_act" where
  "create_route config peers input actor requestId =
     act_bind (request_route config input actor requestId) (\<lambda>requested.
     complete config peers (sv_id requested) actor requestId)"

text \<open>One route of the sweep: its outcome, or the record as it stands after a refusal.\<close>

definition complete_one :: "service_config \<Rightarrow> service_peers \<Rightarrow> published_service \<Rightarrow> service_view option service_act" where
  "complete_one config peers record' =
     act_try (act_bind (complete config peers (ps_id record') plain_system (''sweep_'' @ ps_id record')) (\<lambda>v. act_return (Some v)))
       (\<lambda>_ db. (Inr (map_option (view config) (findInScope (ps_id record') EVERY_SCOPE db)), db))"

fun complete_routes :: "service_config \<Rightarrow> service_peers \<Rightarrow> published_service list \<Rightarrow> service_view list service_act" where
  "complete_routes config peers [] = act_return []"
| "complete_routes config peers (record' # rest) =
     act_bind (complete_one config peers record') (\<lambda>v.
     act_bind (complete_routes config peers rest) (\<lambda>vs.
     act_return ((case v of None \<Rightarrow> [] | Some x \<Rightarrow> [x]) @ vs)))"

text \<open>\<open>olderThanMs\<close> and \<open>limit\<close> default to 2000 and 50.\<close>

definition completePending ::
  "service_config \<Rightarrow> service_peers \<Rightarrow> nat \<Rightarrow> nat \<Rightarrow> service_view list service_act" where
  "completePending config peers olderThanMs limit db =
     complete_routes config peers (findPending ((now_ms db - olderThanMs) * 1000) limit db) db"

text \<open>The polls of \<open>awaitOutcome\<close>: the database each one reads and whether the deadline has then passed.\<close>

fun awaitOutcome ::
  "service_config \<Rightarrow> string \<Rightarrow> caller_scope \<Rightarrow> (service_db \<times> bool) list \<Rightarrow> (store_failure + service_view) option" where
  "awaitOutcome config rid scope [] = None"
| "awaitOutcome config rid scope ((db, late) # polls) =
     (case read_service rid scope db of
        Inl e \<Rightarrow> Some (Inl e)
      | Inr record' \<Rightarrow>
          if ps_status record' \<noteq> Requested_route \<or> late then Some (Inr (view config record'))
          else awaitOutcome config rid scope polls)"

definition list_services :: "service_config \<Rightarrow> string \<Rightarrow> caller_scope \<Rightarrow> nat \<Rightarrow> service_db \<Rightarrow> service_view list" where
  "list_services config project scope limit db = map (view config) (listInScope project scope limit db)"

section \<open>Ending a route\<close>

definition revoke_work ::
  "service_config \<Rightarrow> published_service \<Rightarrow> event_actor \<Rightarrow> string \<Rightarrow> service_db \<Rightarrow> store_failure + (service_view \<times> service_db)" where
  "revoke_work config existing actor requestId db =
     r_bind (markEnded (ps_id existing) Revoked_route db) (\<lambda>(ended, db1).
     case ended of
       None \<Rightarrow> Inr (view config existing, db1)
     | Some s \<Rightarrow>
         r_bind (revokeCapabilitiesForService (ps_id existing) db1) (\<lambda>(revoked, db2).
         r_bind (appendEvents [route_event s actor ''published_service.revoked''
             [(''request_id'', JString requestId), (''published_service_id'', JString (ps_id existing)),
              (''connector_id'', JString (ps_connector_id s))]
             [(''published_service_id'', JString (ps_id existing)),
              (''previous_status'', JString (service_status_name (ps_status existing))), (''new_status'', JString ''revoked''),
              (''revoked_capability_ids'', strings revoked)]
             (js_now db2)] db2) (\<lambda>db3. Inr (view config s, db3))))"

text \<open>A call of the gateway, with its answer.\<close>

definition gateway_revoke :: "service_peers \<Rightarrow> string \<Rightarrow> unit service_act" where
  "gateway_revoke peers rid =
     act_bind (act_write (call_route (Call_revoke_route rid))) (\<lambda>_. act_read (\<lambda>_. sp_revoke_route peers rid))"

definition revoke ::
  "service_config \<Rightarrow> service_peers \<Rightarrow> string \<Rightarrow> caller_scope \<Rightarrow> event_actor \<Rightarrow> string \<Rightarrow> service_view service_act" where
  "revoke config peers rid scope actor requestId =
     act_bind (act_read (read_service rid scope)) (\<lambda>existing.
     act_bind (gateway_revoke peers rid) (\<lambda>_.
     inTransaction (revoke_work config existing actor requestId)))"

definition expire_work ::
  "service_config \<Rightarrow> published_service \<Rightarrow> nat \<Rightarrow> service_db \<Rightarrow> store_failure + (service_view option \<times> service_db)" where
  "expire_work config service now db =
     r_bind (markEnded (ps_id service) Expired_route db) (\<lambda>(ended, db1).
     case ended of
       None \<Rightarrow> Inr (None, db1)
     | Some s \<Rightarrow>
         r_bind (revokeCapabilitiesForService (ps_id service) db1) (\<lambda>(_, db2).
         r_bind (appendEvents [route_event s plain_system ''published_service.expired''
             [(''published_service_id'', JString (ps_id service)), (''connector_id'', JString (ps_connector_id s))]
             [(''published_service_id'', JString (ps_id service)),
              (''previous_status'', JString (service_status_name (ps_status service))), (''new_status'', JString ''expired''),
              (''expires_at'', JString (toISOString (ps_expires_at s)))]
             now] db2) (\<lambda>db3. Inr (Some (view config s), db3))))"

fun expire_each :: "service_config \<Rightarrow> service_peers \<Rightarrow> nat \<Rightarrow> published_service list \<Rightarrow> service_view list service_act" where
  "expire_each config peers now [] = act_return []"
| "expire_each config peers now (service # rest) =
     act_bind (gateway_revoke peers (ps_id service)) (\<lambda>_.
     act_bind (inTransaction (expire_work config service now)) (\<lambda>v.
     act_bind (expire_each config peers now rest) (\<lambda>vs.
     act_return ((case v of None \<Rightarrow> [] | Some x \<Rightarrow> [x]) @ vs))))"

text \<open>\<open>limit\<close> defaults to 100.\<close>

definition expireDue :: "service_config \<Rightarrow> service_peers \<Rightarrow> nat \<Rightarrow> service_view list service_act" where
  "expireDue config peers limit db =
     expire_each config peers (js_now db) (findDueForExpiry (js_now db) limit db) db"

section \<open>Minting\<close>

text \<open>The bounds of the expiry, in milliseconds; \<open>None\<close> when the session's limits name no maximum.\<close>

definition session_end_ms :: "session_row \<Rightarrow> nat option" where
  "session_end_ms b =
     map_option (\<lambda>seconds. sn_created_at b div 1000 + seconds * 1000) (sn_max_duration_seconds b)"

definition mint_bounds :: "published_service \<Rightarrow> session_row \<Rightarrow> nat \<Rightarrow> rat \<Rightarrow> rat list" where
  "mint_bounds service b ms requested =
     [of_nat ms + requested * 1000, of_nat (ps_expires_at service div 1000)] @
     (case session_end_ms b of None \<Rightarrow> [] | Some t \<Rightarrow> [of_nat t])"

definition expiry_ms :: "published_service \<Rightarrow> session_row \<Rightarrow> nat \<Rightarrow> rat \<Rightarrow> nat" where
  "expiry_ms service b ms requested = nat \<lfloor>Min (set (mint_bounds service b ms requested))\<rfloor>"

text \<open>Everything before the signature: the route, the milliseconds of the clock and of the expiry.\<close>

definition mint_checks ::
  "capability_config \<Rightarrow> string \<Rightarrow> string \<Rightarrow> rat option \<Rightarrow> caller_scope \<Rightarrow> service_db \<Rightarrow>
     store_failure + (published_service \<times> nat \<times> nat)" where
  "mint_checks capability rid sid ttlSeconds scope db =
     r_bind (read_service rid scope db) (\<lambda>service.
     r_then (refuse_if (ps_status service \<noteq> Ready_route)
       (Refused (ApiError PUBLISHED_SERVICE_UNAVAILABLE (Some [D_status (service_status_name (ps_status service))]) None None)))
     (r_then (refuse_if (sid \<notin> set (ps_allowed_browser_session_ids service))
       (Refused (ApiError AUTHORISATION_DENIED None None None)))
     (case findSessionLifetime sid (ps_organisation_id service) (ps_project_id service) db of
        None \<Rightarrow> Inl (Refused (ApiError AUTHORISATION_DENIED None None None))
      | Some b \<Rightarrow>
          (let ms = now_ms db;
               requested = (case ttlSeconds of None \<Rightarrow> of_nat (kc_ttlSeconds capability) | Some t \<Rightarrow> t)
           in r_then (refuse_if (requested \<le> 0 \<or> requested > of_nat (kc_ttlSeconds capability))
                (Refused (ApiError VALIDATION_FAILED (Some [D_max_ttl_seconds (kc_ttlSeconds capability)]) None None)))
              (let expires = expiry_ms service b ms requested in
               if expires \<le> ms
               then (case session_end_ms b of
                       Some t \<Rightarrow> if t \<le> ms then Inl (Refused (ApiError BROWSER_SESSION_NOT_ACTIVE None None None))
                                 else Inl (Refused (ApiError ROUTE_EXPIRED None None None))
                     | None \<Rightarrow> Inl (Refused (ApiError ROUTE_EXPIRED None None None)))
               else Inr (service, ms, expires))))))"

definition claims_of :: "capability_config \<Rightarrow> string \<Rightarrow> published_service \<Rightarrow> string \<Rightarrow> nat \<Rightarrow> nat \<Rightarrow> capability_claims" where
  "claims_of capability cid service sid ms expires =
     \<lparr>cc_keyId = points (kc_keyId capability), cc_capabilityId = points cid, cc_routeId = points (ps_id service),
      cc_projectId = points (ps_project_id service), cc_browserSessionId = points sid,
      cc_issuedAt = int (ms div 1000), cc_expiresAt = int (expires div 1000)\<rparr>"

definition capability_row_of :: "capability_config \<Rightarrow> string \<Rightarrow> published_service \<Rightarrow> string \<Rightarrow> nat \<Rightarrow> nat \<Rightarrow> capability_row" where
  "capability_row_of capability cid service sid ms expires =
     \<lparr>rc_id = cid, rc_organisation_id = ps_organisation_id service, rc_project_id = ps_project_id service,
      rc_published_service_id = ps_id service, rc_browser_session_id = sid, rc_key_id = kc_keyId capability,
      rc_issued_at = ms * 1000, rc_expires_at = expires * 1000, rc_revoked_at = None\<rparr>"

definition mint_work ::
  "capability_config \<Rightarrow> string \<Rightarrow> published_service \<Rightarrow> string \<Rightarrow> nat \<Rightarrow> nat \<Rightarrow> event_actor \<Rightarrow> string \<Rightarrow> service_db \<Rightarrow>
     store_failure + (unit \<times> service_db)" where
  "mint_work capability cid service sid ms expires actor requestId db =
     r_bind (insertCapability (capability_row_of capability cid service sid ms expires) db) (\<lambda>(recorded, db1).
     case recorded of
       None \<Rightarrow> Inl (Refused (ApiError BROWSER_SESSION_NOT_ACTIVE None None None))
     | Some _ \<Rightarrow>
         r_bind (appendEvents [route_event service actor ''published_service.ready''
             [(''request_id'', JString requestId), (''published_service_id'', JString (ps_id service)),
              (''browser_session_id'', JString sid)]
             [(''published_service_id'', JString (ps_id service)), (''capability_id'', JString cid),
              (''browser_session_id'', JString sid), (''key_id'', JString (kc_keyId capability)),
              (''expires_at'', JString (toISOString (expires * 1000)))]
             (ms * 1000)] db1) (\<lambda>db2. Inr ((), db2)))"

text \<open>\<open>mintCapability\<close> throws an error that is not a refusal of this program.\<close>

definition signed :: "string + string \<Rightarrow> store_failure + string" where
  "signed m = (case m of Inl message \<Rightarrow> Inl (Unhandled message) | Inr token \<Rightarrow> Inr token)"

definition mint ::
  "keyed_digest \<Rightarrow> service_config \<Rightarrow> string \<Rightarrow> string \<Rightarrow> rat option \<Rightarrow> caller_scope \<Rightarrow> event_actor \<Rightarrow> string \<Rightarrow>
     minted_capability service_act" where
  "mint hmac config rid sid ttlSeconds scope actor requestId =
     (case pc_capability config of
        None \<Rightarrow> act_throw (Refused (ApiError UNSUPPORTED_CAPABILITY None None None))
      | Some capability \<Rightarrow>
          act_bind (act_read (mint_checks capability rid sid ttlSeconds scope)) (\<lambda>(service, ms, expires).
          act_bind (\<lambda>db. let (cid, db') = newUuid ''cap_'' db in (Inr cid, db')) (\<lambda>cid.
          act_bind (act_read (\<lambda>_. signed (mintCapability hmac (kc_key capability) (claims_of capability cid service sid ms expires)))) (\<lambda>token.
          act_bind (inTransaction (mint_work capability cid service sid ms expires actor requestId)) (\<lambda>_.
          act_return
            \<lparr>mc_capability_id = cid, mc_capability = token, mc_browser_session_id = sid,
             mc_internal_origin = origin config (ps_public_alias service), mc_expires_at = toISOString (expires * 1000)\<rparr>)))))"

section \<open>Binding a session to a route\<close>

definition readAdmissible :: "string \<Rightarrow> string \<Rightarrow> caller_scope \<Rightarrow> service_db \<Rightarrow> store_failure + bindable_route" where
  "readAdmissible rid sid scope db =
     (case findBindableRoute rid sid scope db of
        None \<Rightarrow> Inl (Refused (ApiError RESOURCE_NOT_FOUND None None None))
      | Some route \<Rightarrow>
          r_then (refuse_if (\<not> br_session_authorised route)
            (Refused (ApiError AUTHORISATION_DENIED (Some [D_published_service_id (Some (br_published_service_id route))]) None None)))
          (Inr route))"

definition existsUnscoped :: "string \<Rightarrow> service_db \<Rightarrow> bool" where
  "existsUnscoped rid db = list_ex (\<lambda>s. ps_id s = rid) (sd_services db)"

definition readBindable :: "string \<Rightarrow> string \<Rightarrow> caller_scope \<Rightarrow> service_db \<Rightarrow> store_failure + bindable_route" where
  "readBindable rid sid scope db =
     r_bind (readAdmissible rid sid scope db) (\<lambda>route.
     r_then (refuse_if (br_route_expires_at route div 1000 \<le> now_ms db)
       (Refused (ApiError ROUTE_EXPIRED (Some [D_published_service_id (Some (br_published_service_id route))]) None None)))
     (r_then (refuse_if (br_route_status route \<noteq> Ready_route)
       (Refused (ApiError PUBLISHED_SERVICE_UNAVAILABLE
         (Some [D_status (service_status_name (br_route_status route)), D_published_service_id (Some (br_published_service_id route))])
         None None)))
     (r_then (refuse_if (br_connector_status route \<noteq> ''ACTIVE'')
       (Refused (ApiError (if br_connector_status route = ''REVOKED'' then IDENTITY_REVOKED else CONNECTOR_OFFLINE)
         (Some [D_connector_status (br_connector_status route), D_published_service_id (Some (br_published_service_id route))])
         None None)))
     (Inr route))))"

definition live_scope :: "string \<Rightarrow> string \<Rightarrow> caller_scope" where
  "live_scope organisationId projectId = \<lparr>sc_organisationId = Some organisationId, sc_projectIds = Some [projectId]\<rparr>"

definition authorise :: "string \<Rightarrow> string \<Rightarrow> string \<Rightarrow> string \<Rightarrow> service_db \<Rightarrow> store_failure + unit" where
  "authorise rid organisationId projectId sid db =
     r_bind (readAdmissible rid sid (live_scope organisationId projectId) db) (\<lambda>_. ok)"

record binding =
  bn_publishedServiceId :: string
  bn_serviceOrigin :: string
  bn_serviceCapability :: string

text \<open>\<open>origin.replace(/\/$/u, "")\<close>.\<close>

definition drop_slash :: "string \<Rightarrow> string" where
  "drop_slash s = (if s \<noteq> [] \<and> last s = CHR ''/'' then butlast s else s)"

definition bind_session ::
  "keyed_digest \<Rightarrow> service_config \<Rightarrow> string \<Rightarrow> string \<Rightarrow> string \<Rightarrow> string \<Rightarrow> event_actor \<Rightarrow> string \<Rightarrow> binding service_act" where
  "bind_session hmac config rid organisationId projectId sid actor requestId =
     (let scope = live_scope organisationId projectId in
      act_bind (act_read (readBindable rid sid scope)) (\<lambda>route.
      act_bind (mint hmac config (br_published_service_id route) sid None scope actor requestId) (\<lambda>minted.
      act_return
        \<lparr>bn_publishedServiceId = br_published_service_id route, bn_serviceOrigin = drop_slash (mc_internal_origin minted),
         bn_serviceCapability = mc_capability minted\<rparr>)))"

text \<open>The gateway is told of each capability, and what it answers is ignored.\<close>

definition revokeCapabilitiesForSession :: "string \<Rightarrow> string list service_act" where
  "revokeCapabilitiesForSession sid db =
     (let live = findLiveCapabilitiesForSession sid db in
      if live = [] then (Inr [], db)
      else inTransaction (revoke_session_rows sid) (fold (\<lambda>cid. call_route (Call_revoke_capability cid)) live db))"

end
