(* ===== verification/Route_Reconciliation.thy ===== *)
theory Route_Reconciliation
  imports Published_Services
begin

text \<open>
  What happens to the routes of a connector that reconnects, disconnects or is revoked: the pure decision table
  (\<open>modules/connectors/reconciliation.ts\<close>) and its application (\<open>modules/published-services/reconciliation.ts\<close>).
\<close>

section \<open>The decision table\<close>

record authoritative_route =
  au_routeId :: string
  au_projectId :: string
  au_connectorId :: string
  au_workspaceId :: string
  au_localHost :: string
  au_localPort :: nat
  au_protocol :: string
  au_expiresAt :: nat
  au_status :: service_status
  au_allowedBrowserSessionIds :: "string list"
  au_observedDestination :: "string option"

record claimed_route =
  cm_routeId :: string
  cm_projectId :: string
  cm_workspaceId :: string
  cm_observedDestination :: string
  cm_expiresAt :: string

datatype route_closure = Close_expired | Close_revoked | Close_none

datatype route_reason =
  Authorised | Unknown_route | Not_authorised | Expired_reason | Revoked_reason | Destination_mismatch

fun route_reason_name :: "route_reason \<Rightarrow> string" where
  "route_reason_name Authorised = ''authorised''"
| "route_reason_name Unknown_route = ''unknown_route''"
| "route_reason_name Not_authorised = ''not_authorised''"
| "route_reason_name Expired_reason = ''expired''"
| "route_reason_name Revoked_reason = ''revoked''"
| "route_reason_name Destination_mismatch = ''destination_mismatch''"

record route_publish =
  rp_route_id :: string
  rp_project_id :: string
  rp_workspace_id :: string
  rp_local_host :: string
  rp_local_port :: nat
  rp_protocol :: string
  rp_expires_at :: string
  rp_allowed_browser_session_ids :: "string list"

text \<open>A decision with a restated route is \<open>continue\<close>, one without is \<open>revoke\<close>.\<close>

record reconciled_route =
  rr_route_id :: string
  rr_reason :: route_reason
  rr_route :: "route_publish option"
  rr_closure :: route_closure
  rr_record :: "authoritative_route option"

definition continues :: "reconciled_route \<Rightarrow> bool" where
  "continues d \<longleftrightarrow> rr_route d \<noteq> None"

definition MAX_DECISIONS :: nat where
  "MAX_DECISIONS = 16"

definition formatDestination :: "string \<Rightarrow> nat \<Rightarrow> string" where
  "formatDestination host port =
     (if CHR '':'' \<in> set host then ''['' @ host @ '']'' else host) @ '':'' @ nat_text port"

definition restate :: "authoritative_route \<Rightarrow> route_publish" where
  "restate r =
     \<lparr>rp_route_id = au_routeId r, rp_project_id = au_projectId r, rp_workspace_id = au_workspaceId r,
      rp_local_host = au_localHost r, rp_local_port = au_localPort r, rp_protocol = au_protocol r,
      rp_expires_at = toISOString (au_expiresAt r), rp_allowed_browser_session_ids = au_allowedBrowserSessionIds r\<rparr>"

definition revoked_route :: "string \<Rightarrow> route_reason \<Rightarrow> route_closure \<Rightarrow> authoritative_route option \<Rightarrow> reconciled_route" where
  "revoked_route rid reason closure r =
     \<lparr>rr_route_id = rid, rr_reason = reason, rr_route = None, rr_closure = closure, rr_record = r\<rparr>"

definition continued_route :: "authoritative_route \<Rightarrow> reconciled_route" where
  "continued_route r =
     \<lparr>rr_route_id = au_routeId r, rr_reason = Authorised, rr_route = Some (restate r), rr_closure = Close_none, rr_record = Some r\<rparr>"

definition decide_claim :: "string \<Rightarrow> nat \<Rightarrow> claimed_route \<Rightarrow> authoritative_route option \<Rightarrow> reconciled_route" where
  "decide_claim connectorId ms claim known =
     (case known of
        None \<Rightarrow> revoked_route (cm_routeId claim) Unknown_route Close_none None
      | Some r \<Rightarrow>
          if au_connectorId r \<noteq> connectorId then revoked_route (cm_routeId claim) Not_authorised Close_none (Some r)
          else if au_status r = Expired_route then revoked_route (cm_routeId claim) Expired_reason Close_none (Some r)
          else if au_status r \<noteq> Ready_route
          then revoked_route (cm_routeId claim) Revoked_reason
                 (if au_status r = Requested_route then Close_revoked else Close_none) (Some r)
          else if au_expiresAt r div 1000 \<le> ms then revoked_route (cm_routeId claim) Expired_reason Close_expired (Some r)
          else if cm_projectId claim \<noteq> au_projectId r \<or> cm_workspaceId claim \<noteq> au_workspaceId r
          then revoked_route (cm_routeId claim) Not_authorised Close_revoked (Some r)
          else if cm_observedDestination claim \<noteq>
             (case au_observedDestination r of Some d \<Rightarrow> d | None \<Rightarrow> formatDestination (au_localHost r) (au_localPort r))
          then revoked_route (cm_routeId claim) Destination_mismatch Close_revoked (Some r)
          else continued_route r)"

definition decide_unclaimed :: "nat \<Rightarrow> authoritative_route \<Rightarrow> reconciled_route" where
  "decide_unclaimed ms r =
     (if au_expiresAt r div 1000 \<le> ms then revoked_route (au_routeId r) Expired_reason Close_expired (Some r)
      else continued_route r)"

text \<open>The map of decisions, in the order of insertion.\<close>

definition decided_on :: "reconciled_route list \<Rightarrow> string \<Rightarrow> bool" where
  "decided_on ds rid \<longleftrightarrow> rid \<in> set (map rr_route_id ds)"

fun decide_claims ::
  "string \<Rightarrow> nat \<Rightarrow> (string \<rightharpoonup> authoritative_route) \<Rightarrow> claimed_route list \<Rightarrow> reconciled_route list \<Rightarrow> reconciled_route list" where
  "decide_claims connectorId ms known [] ds = ds"
| "decide_claims connectorId ms known (claim # claims) ds =
     decide_claims connectorId ms known claims
       (if decided_on ds (cm_routeId claim) then ds
        else ds @ [decide_claim connectorId ms claim (known (cm_routeId claim))])"

fun decide_rest ::
  "string \<Rightarrow> nat \<Rightarrow> authoritative_route list \<Rightarrow> reconciled_route list \<Rightarrow> reconciled_route list" where
  "decide_rest connectorId ms [] ds = ds"
| "decide_rest connectorId ms (r # rs) ds =
     decide_rest connectorId ms rs
       (if au_connectorId r \<noteq> connectorId \<or> au_status r \<noteq> Ready_route \<or> decided_on ds (au_routeId r) then ds
        else ds @ [decide_unclaimed ms r])"

definition by_route_id :: "authoritative_route list \<Rightarrow> string \<Rightarrow> authoritative_route option" where
  "by_route_id rs = map_of (rev (map (\<lambda>r. (au_routeId r, r)) rs))"

definition reconcileRoutes ::
  "string \<Rightarrow> claimed_route list \<Rightarrow> authoritative_route list \<Rightarrow> nat \<Rightarrow> reconciled_route list" where
  "reconcileRoutes connectorId claimed authoritative ms =
     sort_key rr_route_id (decide_rest connectorId ms authoritative
       (decide_claims connectorId ms (by_route_id authoritative) claimed []))"

definition boundDecisions :: "reconciled_route list \<Rightarrow> reconciled_route list" where
  "boundDecisions routes = take MAX_DECISIONS routes"

datatype session_verdict = Re_establish | End_session

record session_decision =
  se_browser_session_id :: string
  se_decision :: session_verdict

definition sessions_of :: "reconciled_route list \<Rightarrow> string list" where
  "sessions_of ds = concat (map (\<lambda>d. case rr_record d of None \<Rightarrow> [] | Some r \<Rightarrow> au_allowedBrowserSessionIds r) ds)"

definition decideSessions :: "reconciled_route list \<Rightarrow> session_decision list" where
  "decideSessions routes =
     (let resumed = remdups (sessions_of (filter continues routes));
          ended = remdups (sessions_of (filter (\<lambda>d. \<not> continues d) routes))
      in take MAX_DECISIONS
           (map (\<lambda>s. \<lparr>se_browser_session_id = s, se_decision = Re_establish\<rparr>) (sort resumed) @
            map (\<lambda>s. \<lparr>se_browser_session_id = s, se_decision = End_session\<rparr>) (filter (\<lambda>s. s \<notin> set resumed) (sort ended))))"

section \<open>Versions\<close>

text \<open>\<open>Number.parseInt(part, 10)\<close>, with not-a-number as zero; a part has no sign, as both signs separate parts.\<close>

definition version_part :: "string \<Rightarrow> nat" where
  "version_part part = foldl (\<lambda>n c. 10 * n + (of_char c - 48)) 0 (takeWhile decimal_char (dropWhile js_space part))"

definition version_parts :: "string \<Rightarrow> nat list" where
  "version_parts version =
     map version_part (split_on CHR ''.'' (map (\<lambda>c. if c \<in> {CHR ''+'', CHR ''-''} then CHR ''.'' else c) version))"

fun compare_parts :: "nat list \<Rightarrow> nat list \<Rightarrow> int" where
  "compare_parts [] [] = 0"
| "compare_parts (a # as) [] = (if a > 0 then 1 else compare_parts as [])"
| "compare_parts [] (b # bs) = (if b > 0 then -1 else compare_parts [] bs)"
| "compare_parts (a # as) (b # bs) = (if a < b then -1 else if a > b then 1 else compare_parts as bs)"

definition compareVersions :: "string \<Rightarrow> string \<Rightarrow> int" where
  "compareVersions left right = compare_parts (version_parts left) (version_parts right)"

record upgrade_policy =
  up_minimumVersion :: string
  up_recommendedVersion :: string

datatype upgrade = Upgrade_required | Upgrade_recommended | Compatible

definition classifyUpgrade :: "string \<Rightarrow> upgrade_policy \<Rightarrow> upgrade" where
  "classifyUpgrade reported policy =
     (if compareVersions reported (up_minimumVersion policy) < 0 then Upgrade_required
      else if compareVersions reported (up_recommendedVersion policy) < 0 then Upgrade_recommended
      else Compatible)"

section \<open>Applying the decisions\<close>

definition MAX_LIVE_ROUTES :: nat where
  "MAX_LIVE_ROUTES = 256"

record reconciler_config =
  rg_organisationId :: string
  rg_upgrade :: upgrade_policy

definition toAuthoritative :: "published_service \<Rightarrow> authoritative_route" where
  "toAuthoritative s =
     \<lparr>au_routeId = ps_id s, au_projectId = ps_project_id s, au_connectorId = ps_connector_id s, au_workspaceId = ps_workspace_id s,
      au_localHost = ps_local_host s, au_localPort = ps_local_port s,
      au_protocol = (if ps_protocol s = ''https'' then ''https'' else ''http''), au_expiresAt = ps_expires_at s,
      au_status = ps_status s, au_allowedBrowserSessionIds = ps_allowed_browser_session_ids s,
      au_observedDestination = ps_observed_destination s\<rparr>"

definition connector_actor :: "string \<Rightarrow> event_actor" where
  "connector_actor connectorId = \<lparr>act_type = connector, act_id = Some connectorId, act_display = None\<rparr>"

definition route_correlation :: "string \<Rightarrow> string \<Rightarrow> string \<Rightarrow> (string \<times> json) list" where
  "route_correlation requestId connectorId rid =
     [(''request_id'', JString requestId), (''connector_id'', JString connectorId), (''published_service_id'', JString rid)]"

text \<open>The refusal of a route without a record is on the stream of the organisation.\<close>

definition unknown_route_event :: "reconciler_config \<Rightarrow> string \<Rightarrow> string \<Rightarrow> nat \<Rightarrow> reconciled_route \<Rightarrow> append_input" where
  "unknown_route_event config connectorId requestId now d =
     \<lparr>ai_type = ''published_service.revoked'', ai_organisation_id = rg_organisationId config, ai_project_id = None,
      ai_actor = connector_actor connectorId, ai_correlation = route_correlation requestId connectorId (rr_route_id d),
      ai_payload =
        [(''published_service_id'', JString (rr_route_id d)), (''new_status'', JString ''revoked''),
         (''error_class'', JString ''ROUTE_EXPIRED''), (''reason'', JString (route_reason_name (rr_reason d))),
         (''trigger'', JString ''reconnect_reconciliation'')],
      ai_occurred_at = Some now, ai_enqueue_outbox = True\<rparr>"

text \<open>
  Ending a route with its capabilities; the event is filed under the organisation of the configuration.
  \<open>previous\<close> is the status the decision was made on.
\<close>

definition end_route_work ::
  "reconciler_config \<Rightarrow> service_status \<Rightarrow> event_actor \<Rightarrow> string \<Rightarrow> string \<Rightarrow> string \<Rightarrow> string \<Rightarrow> nat \<Rightarrow> string \<Rightarrow> string \<Rightarrow>
     service_db \<Rightarrow> store_failure + (bool \<times> service_db)" where
  "end_route_work config status actor connectorId requestId previous reason now trigger rid db =
     r_bind (markEnded rid status db) (\<lambda>(ended, db1).
     case ended of
       None \<Rightarrow> Inr (False, db1)
     | Some s \<Rightarrow>
         r_bind (revokeCapabilitiesForService rid db1) (\<lambda>(revoked, db2).
         r_bind (appendEvents
           [(project_event (rg_organisationId config) (ps_project_id s) actor
               (if status = Expired_route then ''published_service.expired'' else ''published_service.revoked'')
               (route_correlation requestId connectorId rid)
               [(''published_service_id'', JString rid), (''previous_status'', JString previous),
                (''new_status'', JString (service_status_name status)), (''reason'', JString reason),
                (''trigger'', JString trigger), (''revoked_capability_ids'', strings revoked)])\<lparr>ai_occurred_at := Some now\<rparr>] db2)
           (\<lambda>db3. Inr (True, db3))))"

definition closeIfNeeded ::
  "reconciler_config \<Rightarrow> service_peers \<Rightarrow> string \<Rightarrow> string \<Rightarrow> nat \<Rightarrow> reconciled_route \<Rightarrow> unit service_act" where
  "closeIfNeeded config peers connectorId requestId now d =
     (if continues d then act_return ()
      else if rr_closure d = Close_none
      then (if rr_record d = None
            then inTransaction (\<lambda>db. r_bind (appendEvents [unknown_route_event config connectorId requestId now d] db)
                   (\<lambda>db'. Inr ((), db')))
            else act_return ())
      else act_bind (gateway_revoke peers (rr_route_id d)) (\<lambda>_.
           act_bind (inTransaction (end_route_work config
             (if rr_closure d = Close_expired then Expired_route else Revoked_route) (connector_actor connectorId) connectorId requestId
             (case rr_record d of Some r \<Rightarrow> service_status_name (au_status r) | None \<Rightarrow> ''ready'')
             (route_reason_name (rr_reason d)) now ''reconnect_reconciliation'' (rr_route_id d)))
           (\<lambda>_. act_return ())))"

fun act_each :: "('a \<Rightarrow> 'b service_act) \<Rightarrow> 'a list \<Rightarrow> 'b list service_act" where
  "act_each f [] = act_return []"
| "act_each f (x # xs) = act_bind (f x) (\<lambda>y. act_bind (act_each f xs) (\<lambda>ys. act_return (y # ys)))"

text \<open>A session moved between statuses, with its event; the answer says whether it was in a status to start from.\<close>

definition move_session_work ::
  "session_status \<Rightarrow> session_status list \<Rightarrow> string \<Rightarrow> event_actor \<Rightarrow> string \<Rightarrow> string \<Rightarrow> bool \<Rightarrow> nat \<Rightarrow> string \<Rightarrow> session_row \<Rightarrow>
     service_db \<Rightarrow> store_failure + (bool \<times> service_db)" where
  "move_session_work status from eventType actor connectorId requestId with_worker now reason b db =
     (let (previous, db1) = setSessionStatus (sn_id b) status from db in
      case previous of
        None \<Rightarrow> Inr (False, db1)
      | Some p \<Rightarrow>
          r_bind (appendEvents
            [(project_event (sn_organisation_id b) (sn_project_id b) actor eventType
                ([(''request_id'', JString requestId), (''connector_id'', JString connectorId), (''browser_session_id'', JString (sn_id b))] @
                 opt_str ''published_service_id'' (sn_published_service_id b) @
                 (if with_worker then opt_str ''worker_id'' (sn_worker_id b) else []))
                [(''previous_status'', JString (session_status_name p)), (''new_status'', JString (session_status_name status)),
                 (''reason'', JString reason)])\<lparr>ai_occurred_at := Some now\<rparr>] db1)
            (\<lambda>db2. Inr (True, db2)))"

definition resume_session :: "string \<Rightarrow> string \<Rightarrow> nat \<Rightarrow> session_row \<Rightarrow> bool service_act" where
  "resume_session connectorId requestId now b =
     (if sn_status b \<noteq> DEGRADED then act_return False
      else inTransaction (move_session_work READY [DEGRADED] ''browser_session.resumed'' (connector_actor connectorId) connectorId
             requestId False now ''connector_reconnected'' b))"

text \<open>The live sessions that a continued route names, or that were allocated against one.\<close>

definition resumable :: "string \<Rightarrow> reconciled_route list \<Rightarrow> service_db \<Rightarrow> session_row list" where
  "resumable connectorId decided db =
     (let continued = map rr_route_id (filter continues decided);
          bound = filter (\<lambda>b. case sn_published_service_id b of None \<Rightarrow> False | Some rid \<Rightarrow> rid \<in> set continued)
            (findLiveSessionsForConnector connectorId db);
          named = findLiveSessionsByIds (sessions_of (filter continues decided)) db
      in bound @ filter (\<lambda>b. sn_id b \<notin> set (map sn_id bound)) named)"

definition applySessionDecisions :: "string \<Rightarrow> reconciled_route list \<Rightarrow> string \<Rightarrow> nat \<Rightarrow> bool list service_act" where
  "applySessionDecisions connectorId decided requestId now db =
     (if filter continues decided = [] then (Inr [], db)
      else act_each (resume_session connectorId requestId now) (resumable connectorId decided db) db)"

record reconnect_response =
  rs_reconciled_at :: string
  rs_upgrade :: upgrade
  rs_routes :: "reconciled_route list"
  rs_sessions :: "session_decision list"

definition authoritative_for :: "string \<Rightarrow> claimed_route list \<Rightarrow> service_db \<Rightarrow> authoritative_route list" where
  "authoritative_for connectorId claimed db =
     (let own = findLiveForConnector connectorId MAX_LIVE_ROUTES db;
          named = findByIds (map cm_routeId claimed) db
      in map toAuthoritative (own @ filter (\<lambda>s. ps_id s \<notin> set (map ps_id own)) named))"

definition reconcile ::
  "reconciler_config \<Rightarrow> service_peers \<Rightarrow> string \<Rightarrow> string \<Rightarrow> claimed_route list \<Rightarrow> string \<Rightarrow> reconnect_response service_act" where
  "reconcile config peers connectorId connectorVersion claimed requestId db =
     (let now = js_now db;
          decided = boundDecisions (reconcileRoutes connectorId claimed (authoritative_for connectorId claimed db) (now_ms db))
      in act_bind (act_each (closeIfNeeded config peers connectorId requestId now) decided) (\<lambda>_.
         act_bind (applySessionDecisions connectorId decided requestId now) (\<lambda>_.
         act_return
           \<lparr>rs_reconciled_at = toISOString now, rs_upgrade = classifyUpgrade connectorVersion (rg_upgrade config),
            rs_routes = decided, rs_sessions = decideSessions decided\<rparr>)) db)"

definition DEGRADABLE :: "session_status list" where
  "DEGRADABLE = [REQUESTED, ALLOCATING, READY, ACTIVE, PAUSED]"

definition revokeConnectorRoutes ::
  "reconciler_config \<Rightarrow> service_peers \<Rightarrow> string \<Rightarrow> string \<Rightarrow> event_actor \<Rightarrow> (nat \<times> nat) service_act" where
  "revokeConnectorRoutes config peers connectorId requestId actor db =
     (let now = js_now db;
          routes = findLiveForConnector connectorId MAX_LIVE_ROUTES db;
          sessions = findLiveSessionsForConnector connectorId db
      in act_bind (act_each (\<lambda>s. act_bind (gateway_revoke peers (ps_id s)) (\<lambda>_.
             inTransaction (end_route_work config Revoked_route actor connectorId requestId (service_status_name (ps_status s))
               ''revoked'' now ''connector_revoked'' (ps_id s)))) routes) (\<lambda>revoked.
         act_bind (act_each (\<lambda>b. inTransaction (move_session_work DEGRADED DEGRADABLE ''browser_session.degraded'' actor
             connectorId requestId False now ''connector_revoked'' b)) sessions) (\<lambda>moved.
         act_return (length (filter id revoked), length (filter id moved)))) db)"

definition handleDisconnect :: "string \<Rightarrow> string \<Rightarrow> unit service_act" where
  "handleDisconnect connectorId requestId db =
     (let now = js_now db in
      act_bind (act_each (\<lambda>b. inTransaction (move_session_work DEGRADED DEGRADABLE ''browser_session.degraded''
          (connector_actor connectorId) connectorId requestId True now ''connector_disconnected'' b))
        (findLiveSessionsForConnector connectorId db)) (\<lambda>_. act_return ()) db)"

end
