(* ===== verification/Route_Steps.thy ===== *)
theory Route_Steps
  imports Route_Reconciliation
begin

text \<open>
  The transactions on published routes as a step relation, and that every operation is a sequence of such steps. A
  transaction takes the record its operation read, which may be stale, so any number of operations of any number of
  processes interleave at this grain. \<open>db_follows\<close> says what no step ever does to the rows: routes keep their
  identity and never leave an end, sessions keep their project and their limits, capabilities stay withdrawn.
\<close>

section \<open>What rows keep\<close>

definition same_route :: "published_service \<Rightarrow> published_service \<Rightarrow> bool" where
  "same_route s s' \<longleftrightarrow>
     ps_id s' = ps_id s \<and> ps_organisation_id s' = ps_organisation_id s \<and> ps_project_id s' = ps_project_id s \<and>
     ps_connector_id s' = ps_connector_id s \<and> ps_workspace_id s' = ps_workspace_id s \<and> ps_public_alias s' = ps_public_alias s \<and>
     ps_local_host s' = ps_local_host s \<and> ps_local_port s' = ps_local_port s \<and> ps_protocol s' = ps_protocol s \<and>
     ps_allowed_browser_session_ids s' = ps_allowed_browser_session_ids s \<and> ps_expires_at s' = ps_expires_at s"

definition status_follows :: "service_status \<Rightarrow> service_status \<Rightarrow> bool" where
  "status_follows a b \<longleftrightarrow> a = b \<or> a = Requested_route \<or> (a = Ready_route \<and> \<not> live_status b)"

definition route_follows :: "published_service \<Rightarrow> published_service \<Rightarrow> bool" where
  "route_follows s s' \<longleftrightarrow> same_route s s' \<and> status_follows (ps_status s) (ps_status s') \<and>
     (live_status (ps_status s) \<or> s' = s)"

definition session_follows :: "session_row \<Rightarrow> session_row \<Rightarrow> bool" where
  "session_follows b b' \<longleftrightarrow>
     sn_id b' = sn_id b \<and> sn_organisation_id b' = sn_organisation_id b \<and> sn_project_id b' = sn_project_id b \<and>
     sn_created_at b' = sn_created_at b \<and> sn_max_duration_seconds b' = sn_max_duration_seconds b"

definition capability_follows :: "capability_row \<Rightarrow> capability_row \<Rightarrow> bool" where
  "capability_follows c c' \<longleftrightarrow> c' = c \<or> (rc_revoked_at c = None \<and> (\<exists>t. c' = c\<lparr>rc_revoked_at := Some t\<rparr>))"

definition rows_follow :: "('a \<Rightarrow> 'a \<Rightarrow> bool) \<Rightarrow> 'a list \<Rightarrow> 'a list \<Rightarrow> bool" where
  "rows_follow R t t' \<longleftrightarrow> (\<forall>r \<in> set t. \<exists>r' \<in> set t'. R r r')"

definition db_follows :: "service_db \<Rightarrow> service_db \<Rightarrow> bool" where
  "db_follows db db' \<longleftrightarrow> rows_follow route_follows (sd_services db) (sd_services db') \<and>
     rows_follow session_follows (sd_sessions db) (sd_sessions db') \<and>
     rows_follow capability_follows (sd_capabilities db) (sd_capabilities db')"

lemma rows_follow_refl: "(\<And>r. R r r) \<Longrightarrow> rows_follow R t t"
  by (auto simp: rows_follow_def)

lemma rows_follow_trans:
  assumes "rows_follow R t u" "rows_follow R u v" "\<And>a b c. R a b \<Longrightarrow> R b c \<Longrightarrow> R a c"
  shows "rows_follow R t v"
  using assms unfolding rows_follow_def by meson

lemma rows_follow_append: "(\<And>r. R r r) \<Longrightarrow> rows_follow R t (t @ new)"
  by (auto simp: rows_follow_def)

lemma rows_follow_update:
  assumes "\<And>r. R r r" "\<And>r. p r \<Longrightarrow> R r (f r)"
  shows "rows_follow R t (update_where p f t)"
proof -
  have "\<exists>r' \<in> set (update_where p f t). R r r'" if "r \<in> set t" for r
    using that assms by (intro bexI [of _ "if p r then f r else r"]) (auto simp: in_update_where)
  then show ?thesis by (simp add: rows_follow_def)
qed

lemma follows_refl [simp]: "route_follows s s" "session_follows b b" "capability_follows c c"
  by (simp_all add: route_follows_def same_route_def status_follows_def session_follows_def capability_follows_def)

lemma same_route_trans: "same_route a b \<Longrightarrow> same_route b c \<Longrightarrow> same_route a c"
  by (simp add: same_route_def)

lemma status_follows_trans: "status_follows a b \<Longrightarrow> status_follows b c \<Longrightarrow> status_follows a c"
  by (auto simp: status_follows_def live_status_def)

lemma status_follows_ended: "\<not> live_status a \<Longrightarrow> status_follows a b \<longleftrightarrow> b = a"
  by (auto simp: status_follows_def live_status_def)

lemma route_follows_trans: "route_follows a b \<Longrightarrow> route_follows b c \<Longrightarrow> route_follows a c"
  unfolding route_follows_def using same_route_trans status_follows_trans by blast

lemma session_follows_trans: "session_follows a b \<Longrightarrow> session_follows b c \<Longrightarrow> session_follows a c"
  by (simp add: session_follows_def)

lemma capability_follows_trans: "capability_follows a b \<Longrightarrow> capability_follows b c \<Longrightarrow> capability_follows a c"
  by (auto simp: capability_follows_def)

lemma db_follows_same [simp]:
  "sd_services db' = sd_services db \<Longrightarrow> sd_sessions db' = sd_sessions db \<Longrightarrow> sd_capabilities db' = sd_capabilities db \<Longrightarrow>
   db_follows db db'"
  by (simp add: db_follows_def rows_follow_refl)

interpretation following: kept_relation db_follows
proof
  show "db_follows s s" for s by (simp add: db_follows_def rows_follow_refl)
  show "db_follows s u" if "db_follows s t" "db_follows t u" for s t u
    using that unfolding db_follows_def
    by (auto intro: rows_follow_trans route_follows_trans session_follows_trans capability_follows_trans)
qed

section \<open>Steps\<close>

inductive route_txn :: "service_config \<Rightarrow> service_db \<Rightarrow> service_db \<Rightarrow> bool" for config where
  requested: "request_checks config input = ok \<Longrightarrow>
    request_route_work config input rid alias ms actor requestId db = Inr (v, db') \<Longrightarrow> route_txn config db db'"
| readied: "ready_work config record' registered actor requestId db = Inr (v, db') \<Longrightarrow> route_txn config db db'"
| failed: "failed_work record' failureClass actor requestId db = Inr (u, db') \<Longrightarrow> route_txn config db db'"
| revoked: "revoke_work config record' actor requestId db = Inr (v, db') \<Longrightarrow> route_txn config db db'"
| expired: "expire_work config record' now db = Inr (w, db') \<Longrightarrow> route_txn config db db'"
| ended: "status = Expired_route \<or> status = Revoked_route \<Longrightarrow>
    end_route_work rc status actor cid requestId previous reason now trigger rid db = Inr (e, db') \<Longrightarrow> route_txn config db db'"
| minted: "mint_checks capability rid sid ttl scope db0 = Inr (service, ms, expires) \<Longrightarrow> db_follows db0 db \<Longrightarrow>
    mint_work capability cid service sid ms expires actor requestId db = Inr (u, db') \<Longrightarrow> route_txn config db db'"
| withdrawn: "revoke_session_rows sid db = Inr (ids, db') \<Longrightarrow> route_txn config db db'"
| moved: "move_session_work status from eventType actor cid requestId w now reason b db = Inr (m, db') \<Longrightarrow> route_txn config db db'"
| logged: "appendEvents inputs db = Inr db' \<Longrightarrow> route_txn config db db'"
| called: "route_txn config db (call_route c db)"
| drawn: "route_txn config db (db\<lparr>es_drawn := es_drawn db + 1\<rparr>)"
| environment: "rows_follow session_follows (sd_sessions db) sessions \<Longrightarrow> distinct (map sn_id sessions) \<Longrightarrow>
    route_txn config db (db\<lparr>es_now := now, sd_sessions := sessions, sd_connectors := connectors, sd_environments := environments,
      sd_workspaces := workspaces, sd_projects := projects\<rparr>)"

abbreviation route_txns :: "service_config \<Rightarrow> service_db \<Rightarrow> service_db \<Rightarrow> bool" where
  "route_txns config \<equiv> (route_txn config)\<^sup>*\<^sup>*"

interpretation route_runs: kept_relation "route_txns config" for config
  by unfold_locales auto

section \<open>What a step does to the tables\<close>

text \<open>A step that inserts nothing takes each row to one that follows it, in place.\<close>

definition db_changes :: "service_db \<Rightarrow> service_db \<Rightarrow> bool" where
  "db_changes db db' \<longleftrightarrow> list_all2 route_follows (sd_services db) (sd_services db') \<and>
     rows_follow session_follows (sd_sessions db) (sd_sessions db') \<and>
     list_all2 capability_follows (sd_capabilities db) (sd_capabilities db')"

interpretation changing: kept_relation db_changes
proof
  show "db_changes s s" for s by (simp add: db_changes_def rows_follow_refl list_all2_refl)
  show "db_changes s u" if "db_changes s t" "db_changes t u" for s t u
    using that unfolding db_changes_def
    by (auto intro: rows_follow_trans session_follows_trans list_all2_trans [of route_follows]
        list_all2_trans [of capability_follows] route_follows_trans capability_follows_trans)
qed

lemma changes3: "db_changes a b \<Longrightarrow> db_changes b c \<Longrightarrow> db_changes c d \<Longrightarrow> db_changes a d"
  using changing.transitive by blast

lemma list_all2_follow: "list_all2 R t t' \<Longrightarrow> rows_follow R t t'"
  unfolding rows_follow_def by (metis in_set_conv_nth list_all2_conv_all_nth)

lemma db_changes_follows: "db_changes db db' \<Longrightarrow> db_follows db db'"
  by (simp add: db_changes_def db_follows_def list_all2_follow)

lemma list_all2_update: "(\<And>r. R r r) \<Longrightarrow> (\<And>r. p r \<Longrightarrow> R r (f r)) \<Longrightarrow> list_all2 R t (update_where p f t)"
  by (simp add: update_where_def list_all2_conv_all_nth)

lemma db_changes_same [simp]:
  "sd_services db' = sd_services db \<Longrightarrow> sd_sessions db' = sd_sessions db \<Longrightarrow> sd_capabilities db' = sd_capabilities db \<Longrightarrow>
   db_changes db db'"
  by (simp add: db_changes_def rows_follow_refl list_all2_refl)

lemma appendEvent_changes: "appendEvent i db = Inr (a, db') \<Longrightarrow> db_changes db db'"
  by (drule appendEvent_Inr) simp

lemma appendEvents_changes: "appendEvents is db = Inr db' \<Longrightarrow> db_changes db db'"
  using appendEvents_service_tables [of "is" db db'] by simp

lemma mark_route_changes:
  assumes "mark_route from f rid db = Inr (r, db')" "\<And>s. from (ps_status s) \<Longrightarrow> route_follows s (f s)"
  shows "db_changes db db'"
  using assms by (auto simp: result_simps db_changes_def intro!: rows_follow_refl list_all2_refl list_all2_update)

lemma marks_change:
  "markReady rid d db = Inr (r, db') \<Longrightarrow> db_changes db db'"
  "markRouteFailed rid cl db = Inr (r, db') \<Longrightarrow> db_changes db db'"
  "markEnded rid Revoked_route db = Inr (r, db') \<Longrightarrow> db_changes db db'"
  "markEnded rid Expired_route db = Inr (r, db') \<Longrightarrow> db_changes db db'"
  unfolding markReady_def markRouteFailed_def markEnded_def
  by (erule mark_route_changes, auto simp: route_follows_def same_route_def status_follows_def live_status_def)+

lemma revokeCapabilities_changes: "revokeCapabilities p db = Inr (ids, db') \<Longrightarrow> db_changes db db'"
  by (auto simp: revokeCapabilities_def Let_def result_simps db_changes_def intro!: rows_follow_refl list_all2_refl list_all2_update)
    (auto simp: capability_follows_def)

lemmas work_changes = marks_change revokeCapabilities_changes appendEvents_changes appendEvent_changes

lemma move_session_changes:
  "move_session_work status from ty actor cid q w now reason b db = Inr (m, db') \<Longrightarrow> db_changes db db'"
proof -
  have "db_changes db (snd (setSessionStatus sid st fr db))" for sid st fr
    by (auto simp: setSessionStatus_def Let_def db_changes_def session_follows_def
        intro!: list_all2_refl rows_follow_update)
  then have step: "setSessionStatus sid st fr db = (p, db1) \<Longrightarrow> db_changes db db1" for sid st fr p db1
    by (metis snd_conv)
  assume "move_session_work status from ty actor cid q w now reason b db = Inr (m, db')"
  then show ?thesis
    by (auto simp: move_session_work_def result_simps split: prod.splits option.splits
        dest!: step dest: appendEvent_changes intro: changing.transitive)
qed

lemma request_inserts:
  assumes "request_route_work config input rid al ms actor q db = Inr (v, db')"
  shows "sd_services db' = sd_services db @ [requested_row input rid al ms]" "sd_sessions db' = sd_sessions db"
    "sd_capabilities db' = sd_capabilities db" "distinct (map ps_id (sd_services db'))"
    "\<forall>sid \<in> set (pi_allowedBrowserSessionIds input).
       sid \<in> set (findBrowserSessionsInProject (pi_allowedBrowserSessionIds input) (pi_organisationId input) (pi_projectId input) db)"
  using assms
  by (auto simp: request_route_work_def insertRequested_def Let_def result_simps filter_empty_conv dest!: appendEvent_Inr)

lemma mint_inserts:
  assumes "mint_work capability cid service sid ms expires actor q db = Inr (u, db')"
  shows "sd_services db' = sd_services db" "sd_sessions db' = sd_sessions db"
    "sd_capabilities db' = sd_capabilities db @ [capability_row_of capability cid service sid ms expires]"
    "distinct (map rc_id (sd_capabilities db'))"
    "\<exists>b \<in> set (sd_sessions db). sn_id b = sid \<and> session_live b"
  using assms
  by (auto simp: mint_work_def insertCapability_def result_simps capability_row_of_def split: option.splits
      dest!: appendEvent_Inr find_Some_in)

lemma plain_changes:
  "ready_work config record' registered actor q db = Inr (v, db') \<Longrightarrow> db_changes db db'"
  "failed_work record' failureClass actor q db = Inr (u, db') \<Longrightarrow> db_changes db db'"
  "revoke_work config record' actor q db = Inr (v, db') \<Longrightarrow> db_changes db db'"
  "expire_work config record' now db = Inr (w, db') \<Longrightarrow> db_changes db db'"
  "end_route_work rc Expired_route actor cid q previous reason now trigger rid db = Inr (e, db') \<Longrightarrow> db_changes db db'"
  "end_route_work rc Revoked_route actor cid q previous reason now trigger rid db = Inr (e, db') \<Longrightarrow> db_changes db db'"
  "revoke_session_rows sid db = Inr (ids, db') \<Longrightarrow> db_changes db db'"
  "appendEvents inputs db = Inr db' \<Longrightarrow> db_changes db db'"
  "db_changes db (call_route c db)" "db_changes db (db\<lparr>es_drawn := n\<rparr>)"
  by (auto simp: ready_work_def failed_work_def revoke_work_def expire_work_def end_route_work_def
      revokeCapabilitiesForService_def revoke_session_rows_def call_route_def result_simps split: option.splits
      dest!: work_changes intro: changing.transitive changes3)

text \<open>A step inserts a requested route, or a capability that was checked before, or nothing.\<close>

lemma step_changes:
  assumes "route_txn config db db'"
  obtains (changed) "db_changes db db'"
  | (requested) input rid al ms actor q v where "request_checks config input = ok"
      "request_route_work config input rid al ms actor q db = Inr (v, db')"
  | (minted) capability rid sid ttl scope db0 service ms expires cid actor q u where
      "mint_checks capability rid sid ttl scope db0 = Inr (service, ms, expires)" "db_follows db0 db"
      "mint_work capability cid service sid ms expires actor q db = Inr (u, db')"
  using assms
proof (cases rule: route_txn.cases)
  case (requested input rid al ms actor q v)
  then show ?thesis by (rule that(2))
next
  case (minted capability rid sid ttl scope db0 service ms expires cid actor q u)
  then show ?thesis by (rule that(3))
next
  case (environment sessions now connectors environments workspaces projects)
  then show ?thesis by (intro that(1)) (auto simp: db_changes_def intro: list_all2_refl)
next
  case (moved status "from" ty actor cid q w now reason b m)
  then show ?thesis by (intro that(1)) (rule move_session_changes)
qed (blast intro: that(1) plain_changes)+

lemma step_follows: "route_txn config db db' \<Longrightarrow> db_follows db db'"
proof (erule step_changes)
  fix input rid al ms actor q v assume "request_route_work config input rid al ms actor q db = Inr (v, db')"
  from request_inserts(1-3) [OF this] show ?thesis by (simp add: db_follows_def rows_follow_refl rows_follow_append)
next
  fix capability cid service sid ms expires actor q u
  assume "mint_work capability cid service sid ms expires actor q db = Inr (u, db')"
  from mint_inserts(1-3) [OF this] show ?thesis by (simp add: db_follows_def rows_follow_refl rows_follow_append)
qed (rule db_changes_follows)

lemma steps_follow: "route_txns config db db' \<Longrightarrow> db_follows db db'"
  by (induction rule: rtranclp_induct) (auto intro: following.reflexive following.transitive step_follows)

section \<open>Every operation is a sequence of steps\<close>

lemma route_transaction_runs:
  assumes "\<And>db a db'. work db = Inr (a, db') \<Longrightarrow> route_txn config db db'"
  shows "keeps (route_txns config) (inTransaction work)"
  using assms by (force simp: keeps_def inTransaction_def split: sum.splits)

lemma route_call_runs [intro]: "keeps (route_txns config) (act_write (call_route c))"
  by (rule route_runs.keeps_write) (auto intro: route_txn.called)

lemma drawn_steps: "route_txns config db (db\<lparr>es_drawn := Suc (es_drawn db)\<rparr>)"
  using r_into_rtranclp [of "route_txn config", OF route_txn.drawn] by simp

lemma runs_draw [intro]: "keeps (route_txns config) (\<lambda>db. let (x, db') = newUuid prefix db in (Inr x, db'))"
  using drawn_steps by (simp add: keeps_def newUuid_def)

lemmas runs_basic = route_runs.keeps_basic route_runs.keeps_bind route_runs.keeps_try route_call_runs runs_draw

lemmas runs_intros = runs_basic route_transaction_runs

lemma runs_if: "(c \<Longrightarrow> keeps R m) \<Longrightarrow> (\<not> c \<Longrightarrow> keeps R n) \<Longrightarrow> keeps R (if c then m else n)"
  by simp

lemma keepsD: "keeps R m \<Longrightarrow> R db (snd (m db))"
  by (simp add: keeps_def)

lemma keeps_bindD:
  "keeps (route_txns config) (act_bind m f) \<Longrightarrow> route_txns config db (snd (act_bind m f db))"
  by (rule keepsD)

lemma request_runs: "keeps (route_txns config) (request_route config input actor requestId)"
proof (cases "request_checks config input" rule: unit_result_cases)
  case (refused e)
  then show ?thesis by (simp add: request_route_def keeps_def act_bind_def act_simps)
next
  case accepted
  have "keeps (route_txns config) (\<lambda>db. inTransaction (request_route_work config input rid al (now_ms db) actor requestId) db)" for rid al
    using route_txn.requested [OF accepted] by (force simp: keeps_def inTransaction_def split: sum.splits)
  then show ?thesis unfolding request_route_def by (intro runs_intros) auto
qed

lemma gateway_runs [intro]: "keeps (route_txns config) (gateway_revoke peers rid)"
  unfolding gateway_revoke_def by (intro runs_intros)

lemma complete_runs: "keeps (route_txns config) (complete config peers rid actor requestId)"
  unfolding complete_def publish_route_def record_failure_def
  by (intro runs_intros runs_if) (auto intro: route_txn.readied route_txn.failed)

lemma create_runs: "keeps (route_txns config) (create_route config peers input actor requestId)"
  unfolding create_route_def by (intro runs_intros request_runs complete_runs)

lemma complete_one_runs: "keeps (route_txns config) (complete_one config peers record')"
proof -
  have "keeps (route_txns config) (\<lambda>db. (Inr (f db), db))" for f :: "service_db \<Rightarrow> service_view option"
    by (simp add: keeps_def)
  then show ?thesis unfolding complete_one_def by (intro runs_intros complete_runs)
qed

lemma complete_routes_runs: "keeps (route_txns config) (complete_routes config peers rs)"
  by (induction rs) (auto intro!: runs_intros complete_one_runs)

lemma completePending_runs: "keeps (route_txns config) (completePending config peers olderThan limit)"
  using keepsD [OF complete_routes_runs] by (simp add: keeps_def completePending_def)

lemma revoke_runs: "keeps (route_txns config) (revoke config peers rid scope actor requestId)"
  unfolding revoke_def by (intro runs_intros gateway_runs) (auto intro: route_txn.revoked)

lemma expire_each_runs: "keeps (route_txns config) (expire_each config peers now rs)"
proof (induction rs)
  case (Cons r rs)
  then show ?case unfolding expire_each.simps
    by (intro runs_intros gateway_runs) (auto intro: route_txn.expired)
qed auto

lemma expireDue_runs: "keeps (route_txns config) (expireDue config peers limit)"
  using keepsD [OF expire_each_runs] by (simp add: keeps_def expireDue_def)

lemma mint_runs: "keeps (route_txns config) (mint hmac config rid sid ttl scope actor requestId)"
proof (cases "pc_capability config")
  case None
  then show ?thesis by (auto simp: mint_def)
next
  case (Some capability)
  have "route_txns config db (snd (mint hmac config rid sid ttl scope actor requestId db))" for db
  proof (cases "mint_checks capability rid sid ttl scope db")
    case (Inl e)
    then show ?thesis by (simp add: mint_def Some act_bind_def act_simps)
  next
    case (Inr r)
    obtain service ms expires where r: "r = (service, ms, expires)" by (cases r) auto
    let ?db1 = "db\<lparr>es_drawn := Suc (es_drawn db)\<rparr>"
    let ?tx = "\<lambda>cid. inTransaction (mint_work capability cid service sid ms expires actor requestId) ?db1"
    have step: "route_txns config ?db1 (snd (?tx cid))" for cid
      using route_txn.minted [OF Inr [unfolded r], of ?db1] by (force simp: inTransaction_def split: sum.splits)
    have "route_txns config db (snd (?tx cid))" for cid
      by (rule rtranclp_trans [OF drawn_steps step])
    moreover have "route_txns config db ?db1" by (rule drawn_steps)
    ultimately show ?thesis
      by (auto simp: mint_def Some act_bind_def act_simps Inr r newUuid_def signed_def split: sum.splits prod.splits)
        (metis snd_conv)+
  qed
  then show ?thesis by (simp add: keeps_def)
qed

lemma bind_runs: "keeps (route_txns config) (bind_session hmac config rid org project sid actor requestId)"
  unfolding bind_session_def Let_def by (intro runs_intros mint_runs)

lemma revoke_session_runs: "keeps (route_txns config) (revokeCapabilitiesForSession sid)"
proof -
  have calls: "route_txns config db (fold (\<lambda>cid. call_route (Call_revoke_capability cid)) ids db)" for ids db
    by (induction ids arbitrary: db) (auto intro: converse_rtranclp_into_rtranclp route_txn.called)
  have "keeps (route_txns config) (inTransaction (revoke_session_rows sid))"
    by (rule route_transaction_runs) (rule route_txn.withdrawn)
  from rtranclp_trans [OF calls keepsD [OF this]] show ?thesis
    by (simp add: keeps_def revokeCapabilitiesForSession_def Let_def)
qed

lemma act_each_runs: "(\<And>x. keeps (route_txns config) (f x)) \<Longrightarrow> keeps (route_txns config) (act_each f xs)"
  by (induction xs) (auto intro!: runs_intros)

lemma move_runs: "keeps (route_txns config) (inTransaction (move_session_work status from ty actor cid q w now reason b))"
  by (rule route_transaction_runs) (rule route_txn.moved)

lemma end_runs:
  "status = Expired_route \<or> status = Revoked_route \<Longrightarrow>
   keeps (route_txns config) (inTransaction (end_route_work rc status actor cid q previous reason now trigger rid))"
  by (rule route_transaction_runs) (rule route_txn.ended)

lemma close_runs: "keeps (route_txns config) (closeIfNeeded rc peers cid requestId now d)"
proof -
  have "keeps (route_txns config) (inTransaction (\<lambda>db. r_bind (appendEvents inputs db) (\<lambda>db'. Inr ((), db'))))" for inputs
    by (rule route_transaction_runs) (auto simp: result_simps simp del: appendEvents.simps intro: route_txn.logged)
  then show ?thesis
    unfolding closeIfNeeded_def by (intro runs_basic runs_if gateway_runs end_runs) (simp_all del: appendEvents.simps)
qed

lemma reconcile_runs: "keeps (route_txns config) (reconcile rc peers cid version claimed requestId)"
proof -
  have resumed: "keeps (route_txns config) (resume_session cid requestId now b)" for now b
    unfolding resume_session_def by (intro runs_basic runs_if move_runs)
  have sessions: "keeps (route_txns config) (applySessionDecisions cid decided requestId now)" for decided now
    using keepsD [OF act_each_runs [of config "resume_session cid requestId now", OF resumed]] by (simp add: keeps_def applySessionDecisions_def)
  show ?thesis
    unfolding keeps_def reconcile_def Let_def by (intro allI keeps_bindD runs_basic act_each_runs close_runs sessions)
qed

lemma revoke_connector_runs: "keeps (route_txns config) (revokeConnectorRoutes rc peers cid requestId actor)"
  unfolding keeps_def revokeConnectorRoutes_def Let_def
  by (intro allI keeps_bindD runs_basic act_each_runs move_runs end_runs gateway_runs) simp_all

lemma disconnect_runs: "keeps (route_txns config) (handleDisconnect cid requestId)"
  unfolding keeps_def handleDisconnect_def Let_def by (intro allI keeps_bindD runs_basic act_each_runs move_runs)

end
