(* ===== verification/Route_Samples.thy ===== *)
theory Route_Samples
  imports Route_Steps
begin

text \<open>
  A small deployment on which the witnesses run: one project with a connector, a workspace and a browser session; a route that
  is requested, becomes ready, and for which a capability is minted, each by one transaction.
\<close>

definition route_session :: session_row where
  "route_session =
     \<lparr>sn_id = ''brs_1'', sn_organisation_id = ''org_1'', sn_project_id = ''prj_1'', sn_status = READY, sn_published_service_id = None,
      sn_worker_id = None, sn_max_duration_seconds = Some 7200, sn_created_at = 999000000000, sn_ended_at = None\<rparr>"

definition start_db :: service_db where
  "start_db =
     \<lparr>es_now = 1000000000000, es_random = (\<lambda>n. replicate 15 0 @ [of_nat n]), es_drawn = 0, es_streams = Map.empty, es_events = [],
      es_outbox = [], sd_services = [], sd_capabilities = [], sd_sessions = [route_session],
      sd_connectors = [\<lparr>cn_id = ''con_1'', cn_organisation_id = ''org_1'', cn_project_id = None, cn_environment_id = ''env_1'',
        cn_status = ''ACTIVE''\<rparr>],
      sd_environments = [(''env_1'', None)],
      sd_workspaces = [\<lparr>ws_id = ''wsp_1'', ws_organisation_id = ''org_1'', ws_project_id = ''prj_1''\<rparr>],
      sd_projects = [(''prj_1'', ''org_1'')], sd_calls = []\<rparr>"

definition signing :: capability_config where
  "signing = \<lparr>kc_keyId = ''k1'', kc_key = sample_key, kc_ttlSeconds = 300\<rparr>"

definition route_config :: service_config where
  "route_config =
     \<lparr>pc_destinationPolicy = STAGE_0_DESTINATION_POLICY, pc_internalSuffix = ''internal'', pc_routeTtlMaxSeconds = 3600,
      pc_maxRoutesPerConnector = 4, pc_capability = Some signing\<rparr>"

definition route_input :: create_input where
  "route_input =
     \<lparr>pi_projectId = ''prj_1'', pi_organisationId = ''org_1'', pi_connectorId = ''con_1'', pi_workspaceId = ''wsp_1'',
      pi_localHost = ''127.0.0.1'', pi_localPort = Some 3000, pi_protocol = ''http'', pi_ttlSeconds = 600,
      pi_allowedBrowserSessionIds = [''brs_1'']\<rparr>"

definition route_scope :: caller_scope where
  "route_scope = \<lparr>sc_organisationId = Some ''org_1'', sc_projectIds = None\<rparr>"

definition registered :: gateway_route_view where
  "registered = \<lparr>gw_observed_destination = ''127.0.0.1:3000'', gw_internal_origin = ''https://svc-1.internal/'', gw_connector_connected = True\<rparr>"

abbreviation first_route :: published_service where
  "first_route \<equiv> requested_row route_input ''svc_1'' ''svc-1'' 1000000000"

definition ready_route :: published_service where
  "ready_route = first_route\<lparr>ps_status := Ready_route, ps_observed_destination := Some ''127.0.0.1:3000'', ps_ready_at := Some 1000000000000\<rparr>"

definition first_capability :: capability_row where
  "first_capability = capability_row_of signing ''cap_1'' ready_route ''brs_1'' 1000000000 1000300000"

section \<open>Members of the events\<close>

definition route_members :: "string list" where
  "route_members =
     [''allowed_browser_session_ids'', ''browser_session_id'', ''capability_id'', ''connector_connected'', ''connector_id'',
      ''error_class'', ''expires_at'', ''internal_origin'', ''key_id'', ''local_host'', ''local_port'', ''new_status'',
      ''observed_destination'', ''previous_status'', ''protocol'', ''public_alias'', ''published_service_id'', ''reason'',
      ''request_id'', ''revoked_capability_ids'', ''trigger'', ''worker_id'', ''workspace_id'']"

lemma route_members_permitted: "list_all (\<lambda>k. \<not> key_refused k) route_members"
  by code_simp

lemmas route_members_ok = route_members_permitted [unfolded route_members_def, simplified]

section \<open>Transactions one after the other\<close>

text \<open>An append on a consistent log whose next identifier is new.\<close>

definition next_fresh :: "service_db \<Rightarrow> bool" where
  "next_fresh s \<longleftrightarrow> log_ok s \<and> fst (newId ''evt_'' s) \<notin> e_id ` set (es_events s)"

lemma append_once:
  assumes "next_fresh s" "\<not> carries_secret 0 (JObject (ai_payload i))" "\<not> carries_secret 0 (JObject (ai_correlation i))"
  shows "appendEvents [i] s = Inr (appended i s)"
  using appendEvent_total [of s i] assms by (auto simp: next_fresh_def)

definition sample_draws :: "nat \<Rightarrow> service_db \<Rightarrow> bool" where
  "sample_draws n s \<longleftrightarrow> log_ok s \<and> es_random s = (\<lambda>k. replicate 15 0 @ [of_nat k]) \<and> es_drawn s = n \<and>
     set (map e_id (es_events s)) = (\<lambda>k. ''evt_'' @ randomSuffix (replicate 15 0 @ [of_nat k])) ` {..<n}"

lemma sample_draws_fresh: "sample_draws n s \<Longrightarrow> n < 256 \<Longrightarrow> next_fresh s"
proof -
  assume s: "sample_draws n s" "n < 256"
  have "(of_nat k :: byte) \<noteq> of_nat n" if "k < n" for k
    using that s(2) by (simp add: word_of_nat_eq_iff take_bit_eq_mod)
  then have "randomSuffix (replicate 15 0 @ [of_nat n]) \<noteq> randomSuffix (replicate 15 0 @ [of_nat k])" if "k < n" for k
    using that by (metis append_eq_append_conv list.inject randomSuffix_inject)
  with s(1) show ?thesis by (auto simp: next_fresh_def sample_draws_def newId_def)
qed

lemma sample_draws_appended: "sample_draws n s \<Longrightarrow> n < 256 \<Longrightarrow> sample_draws (Suc n) (appended i s)"
proof -
  assume s: "sample_draws n s" "n < 256"
  have "log_ok (appended i s)" using sample_draws_fresh [OF s] by (auto simp: next_fresh_def intro: log_ok_appended)
  moreover have "es_drawn (appended i s) = Suc n" using s(1) by (simp add: sample_draws_def appended_def Let_def)
  moreover have "e_id (event_of i eid m t) = eid" for eid m t by (simp add: event_of_def)
  ultimately show ?thesis using s(1) by (auto simp: sample_draws_def appended_events newId_def lessThan_Suc)
qed

lemma sample_draws_tables [simp]:
  "sample_draws n (s\<lparr>sd_services := x\<rparr>) = sample_draws n s" "sample_draws n (s\<lparr>sd_capabilities := y\<rparr>) = sample_draws n s"
  using log_ok_cong [of "s\<lparr>sd_services := x\<rparr>" s] log_ok_cong [of "s\<lparr>sd_capabilities := y\<rparr>" s] by (simp_all add: sample_draws_def)

lemma sample_draws_start: "sample_draws 0 start_db"
  by (simp add: sample_draws_def start_db_def log_ok_def stream_events_def stream_position_def)

lemmas sample_rows =
  route_session_def signing_def route_config_def route_input_def registered_def requested_row_def ready_route_def first_capability_def
  capability_row_of_def port_number_def js_date_def now_ms_def

lemmas sample_secrets = route_event_def project_event_def requested_event_def strings_def json_num_def route_members_ok

lemmas sample_statements =
  findPublishableConnector_def connector_in_scope_def findWorkspaceInProject_def findBrowserSessionsInProject_def session_in_project_def
  countReadyForConnector_def insertRequested_def mark_route_def markReady_def markRouteFailed_def markEnded_def store_services_def
  store_capabilities_def service_row_ok_def update_where_def insertCapability_def session_live_def live_status_def refuse_if_def

lemma sample_request_checks: "request_checks route_config route_input = ok"
proof -
  have "names_loopback ''127.0.0.1''" by (simp add: names_loopback_def trim_def js_space_def)
  then have "evaluateDestination STAGE_0_DESTINATION_POLICY \<lparr>ds_host = ''127.0.0.1'', ds_port = Some 3000, ds_protocol = ''http''\<rparr> = None"
    unfolding default_policy_exact by (auto intro!: exI [of _ 3000])
  then show ?thesis by (simp add: request_checks_def route_config_def route_input_def refuse_if_def)
qed

definition sample_user :: event_actor where
  "sample_user = \<lparr>act_type = human_user, act_id = Some ''usr_1'', act_display = None\<rparr>"

lemma input_fields:
  "pi_connectorId route_input = ''con_1''" "pi_organisationId route_input = ''org_1''" "pi_projectId route_input = ''prj_1''"
  "pi_workspaceId route_input = ''wsp_1''" "pi_allowedBrowserSessionIds route_input = [''brs_1'']" "pc_maxRoutesPerConnector route_config = 4"
  by (simp_all add: route_input_def route_config_def)

definition requested_db :: service_db where
  "requested_db = appended (requested_event first_route sample_user ''req_1'') (start_db\<lparr>sd_services := [first_route]\<rparr>)"

lemma sample_requested:
  "request_route_work route_config route_input ''svc_1'' ''svc-1'' 1000000000 sample_user ''req_1'' start_db =
     Inr (view route_config first_route, requested_db)"
proof -
  have fresh: "next_fresh (start_db\<lparr>sd_services := [first_route]\<rparr>)" by (rule sample_draws_fresh [of 0]) (simp_all add: sample_draws_start)
  have "appendEvents [requested_event first_route sample_user ''req_1''] (start_db\<lparr>sd_services := [first_route]\<rparr>) = Inr requested_db"
    unfolding requested_db_def by (rule append_once [OF fresh]) (simp_all add: sample_secrets sample_rows)
  moreover have "insertRequested first_route start_db = Inr (start_db\<lparr>sd_services := [first_route]\<rparr>)"
    by (simp add: sample_statements sample_rows start_db_def)
  moreover have "findPublishableConnector ''con_1'' ''org_1'' ''prj_1'' start_db \<noteq> None"
    "findWorkspaceInProject ''wsp_1'' ''org_1'' ''prj_1'' start_db \<noteq> None"
    "findBrowserSessionsInProject [''brs_1''] ''org_1'' ''prj_1'' start_db = [''brs_1'']"
    "countReadyForConnector ''con_1'' ''org_1'' start_db = 0"
    by (simp_all add: sample_statements start_db_def route_session_def)
  ultimately show ?thesis
    by (auto simp: request_route_work_def refuse_if_def Let_def input_fields simp del: appendEvents.simps)
qed

text \<open>The route becomes ready.\<close>

lemma requested_db_fields [simp]:
  "sd_services requested_db = [first_route]" "sd_capabilities requested_db = []" "sd_sessions requested_db = [route_session]"
  "es_now requested_db = 1000000000000"
  by (simp_all add: requested_db_def start_db_def)

lemma requested_db_draws: "sample_draws (Suc 0) requested_db"
  unfolding requested_db_def by (rule sample_draws_appended) (simp_all add: sample_draws_start)

definition ready_input :: append_input where
  "ready_input = route_event first_route sample_user ''published_service.ready''
     [(''request_id'', JString ''req_1''), (''published_service_id'', JString ''svc_1''), (''connector_id'', JString ''con_1'')]
     [(''published_service_id'', JString ''svc_1''), (''previous_status'', JString ''requested''), (''new_status'', JString ''ready''),
      (''observed_destination'', JString ''127.0.0.1:3000''), (''internal_origin'', JString ''https://svc-1.internal/''),
      (''connector_connected'', JBool True)] 1000000000000"

definition ready_db :: service_db where
  "ready_db = appended ready_input (requested_db\<lparr>sd_services := [ready_route]\<rparr>)"

lemma sample_ready:
  "ready_work route_config first_route registered sample_user ''req_1'' requested_db = Inr (view route_config ready_route, ready_db)"
proof -
  have fresh: "next_fresh (requested_db\<lparr>sd_services := [ready_route]\<rparr>)"
    by (rule sample_draws_fresh [of "Suc 0"]) (simp_all add: requested_db_draws)
  have event: "appendEvents [ready_input] (requested_db\<lparr>sd_services := [ready_route]\<rparr>) = Inr ready_db"
    unfolding ready_db_def by (rule append_once [OF fresh]) (simp_all add: sample_secrets ready_input_def)
  have mark: "markReady ''svc_1'' ''127.0.0.1:3000'' requested_db = Inr (Some ready_route, requested_db\<lparr>sd_services := [ready_route]\<rparr>)"
    by (simp add: sample_statements sample_rows)
  have "ready_input = route_event first_route sample_user ''published_service.ready''
       [(''request_id'', JString ''req_1''), (''published_service_id'', JString (ps_id first_route)),
        (''connector_id'', JString (ps_connector_id first_route))]
       [(''published_service_id'', JString (ps_id first_route)), (''previous_status'', JString ''requested''),
        (''new_status'', JString ''ready''), (''observed_destination'', JString (gw_observed_destination registered)),
        (''internal_origin'', JString (gw_internal_origin registered)),
        (''connector_connected'', JBool (gw_connector_connected registered))]
       (js_now (requested_db\<lparr>sd_services := [ready_route]\<rparr>))"
    by (simp add: ready_input_def registered_def requested_row_def route_input_def js_now_def)
  moreover have "ps_id first_route = ''svc_1''" "gw_observed_destination registered = ''127.0.0.1:3000''"
    by (simp_all add: requested_row_def registered_def)
  ultimately show ?thesis
    using event mark by (simp add: ready_work_def del: appendEvents.simps)
qed

text \<open>A capability is minted for it.\<close>

lemma ready_db_fields [simp]:
  "sd_services ready_db = [ready_route]" "sd_capabilities ready_db = []" "sd_sessions ready_db = [route_session]"
  "es_now ready_db = 1000000000000"
  by (simp_all add: ready_db_def)

lemma ready_db_draws: "sample_draws (Suc (Suc 0)) ready_db"
  unfolding ready_db_def by (rule sample_draws_appended) (simp_all add: requested_db_draws)

lemma sample_expiry: "expiry_ms ready_route route_session 1000000000 300 = 1000300000"
proof -
  have "set (mint_bounds ready_route route_session 1000000000 300) = {1000300000, 1000600000, 1006200000}"
    by (simp add: mint_bounds_def session_end_ms_def sample_rows)
  then show ?thesis by (simp add: expiry_ms_def)
qed

lemma sample_mint_checks:
  "mint_checks signing ''svc_1'' ''brs_1'' None route_scope ready_db = Inr (ready_route, 1000000000, 1000300000)"
proof -
  have "findInScope ''svc_1'' route_scope ready_db = Some ready_route" "ps_status ready_route = Ready_route"
    "ps_allowed_browser_session_ids ready_route = [''brs_1'']"
    "findSessionLifetime ''brs_1'' (ps_organisation_id ready_route) (ps_project_id ready_route) ready_db = Some route_session"
    by (simp_all add: findInScope_def scope_admits_def route_scope_def findSessionLifetime_def session_in_project_def sample_rows)
  then show ?thesis
    using sample_expiry by (simp add: mint_checks_def read_service_def refuse_if_def Let_def now_ms_def signing_def)
qed

definition minted_input :: "string \<Rightarrow> append_input" where
  "minted_input cid = route_event ready_route sample_user ''published_service.ready''
     [(''request_id'', JString ''req_2''), (''published_service_id'', JString (ps_id ready_route)), (''browser_session_id'', JString ''brs_1'')]
     [(''published_service_id'', JString (ps_id ready_route)), (''capability_id'', JString cid),
      (''browser_session_id'', JString ''brs_1''), (''key_id'', JString (kc_keyId signing)),
      (''expires_at'', JString (toISOString (1000300000 * 1000)))] (1000000000 * 1000)"

abbreviation sample_capability :: "string \<Rightarrow> capability_row" where
  "sample_capability cid \<equiv> capability_row_of signing cid ready_route ''brs_1'' 1000000000 1000300000"

definition minted_into :: "string \<Rightarrow> service_db \<Rightarrow> service_db" where
  "minted_into cid s = appended (minted_input cid) (s\<lparr>sd_capabilities := [sample_capability cid]\<rparr>)"

lemma sample_mint_work:
  assumes fresh: "next_fresh (s\<lparr>sd_capabilities := [sample_capability cid]\<rparr>)"
    and "sd_capabilities s = []" "sd_sessions s = [route_session]" "map ps_id (sd_services s) = [''svc_1'']"
  shows "mint_work signing cid ready_route ''brs_1'' 1000000000 1000300000 sample_user ''req_2'' s = Inr ((), minted_into cid s)"
proof -
  let ?s = "s\<lparr>sd_capabilities := [sample_capability cid]\<rparr>"
  have event: "appendEvents [minted_input cid] ?s = Inr (minted_into cid s)"
    unfolding minted_into_def by (rule append_once [OF fresh]) (simp_all add: sample_secrets minted_input_def)
  have "''svc_1'' \<in> ps_id ` set (sd_services s)" using arg_cong [OF assms(4), of set] by simp
  then have "insertCapability (sample_capability cid) s = Inr (Some (sample_capability cid), ?s)"
    by (simp add: sample_statements sample_rows assms(2,3))
  then show ?thesis
    using event unfolding mint_work_def minted_input_def by (simp del: appendEvents.simps)
qed

definition minted_db :: service_db where
  "minted_db = minted_into ''cap_1'' ready_db"

lemma ready_row_id [simp]: "ps_id ready_route = ''svc_1''"
  by (simp add: ready_route_def requested_row_def)

lemma draws_then_fresh: "sample_draws n s \<Longrightarrow> n < 256 \<Longrightarrow> next_fresh (s\<lparr>sd_capabilities := rows\<rparr>)"
  by (rule sample_draws_fresh [of n]) simp_all

lemma skipped_draw_fresh:
  assumes "sample_draws n s" "Suc n < 256"
  shows "next_fresh (s\<lparr>es_drawn := Suc (es_drawn s), sd_capabilities := rows\<rparr>)"
proof -
  have "(of_nat k :: byte) \<noteq> of_nat (Suc n)" if "k < n" for k
    using that assms(2) by (simp add: word_of_nat_eq_iff take_bit_eq_mod del: of_nat_Suc)
  then have "randomSuffix (replicate 15 0 @ [of_nat (Suc n)]) \<noteq> randomSuffix (replicate 15 0 @ [of_nat k])" if "k < n" for k
    using that by (metis append_eq_append_conv list.inject randomSuffix_inject)
  with assms(1) log_ok_cong [of "s\<lparr>es_drawn := Suc (es_drawn s), sd_capabilities := rows\<rparr>" s] show ?thesis
    by (auto simp: next_fresh_def sample_draws_def newId_def simp del: of_nat_Suc)
qed

lemma sample_minted_step:
  "mint_work signing ''cap_1'' ready_route ''brs_1'' 1000000000 1000300000 sample_user ''req_2'' ready_db = Inr ((), minted_db)"
  unfolding minted_db_def by (rule sample_mint_work [OF draws_then_fresh [OF ready_db_draws]]) simp_all

lemma minted_db_fields [simp]:
  "sd_services minted_db = [ready_route]" "sd_capabilities minted_db = [first_capability]" "sd_sessions minted_db = [route_session]"
  by (simp_all add: minted_db_def minted_into_def first_capability_def)

lemma sample_history: "route_txns route_config start_db minted_db"
proof -
  have "route_txns route_config start_db requested_db"
    by (rule r_into_rtranclp) (rule route_txn.requested [OF sample_request_checks sample_requested])
  also have "route_txns route_config requested_db ready_db"
    by (rule r_into_rtranclp) (rule route_txn.readied [OF sample_ready])
  also have "route_txns route_config ready_db minted_db"
    by (rule r_into_rtranclp) (rule route_txn.minted [OF sample_mint_checks following.reflexive sample_minted_step])
  finally show ?thesis .
qed

text \<open>Instead the route is revoked, after the checks of the mint and before its transaction.\<close>

definition revoked_row :: published_service where
  "revoked_row = ready_route\<lparr>ps_status := Revoked_route, ps_ended_at := Some 1000000000000\<rparr>"

definition revoked_input :: append_input where
  "revoked_input = route_event revoked_row sample_user ''published_service.revoked''
     [(''request_id'', JString ''req_3''), (''published_service_id'', JString ''svc_1''), (''connector_id'', JString ''con_1'')]
     [(''published_service_id'', JString ''svc_1''), (''previous_status'', JString ''ready''), (''new_status'', JString ''revoked''),
      (''revoked_capability_ids'', strings [])] 1000000000000"

definition revoked_db :: service_db where
  "revoked_db = appended revoked_input (ready_db\<lparr>sd_services := [revoked_row]\<rparr>)"

lemma sample_revoke_work:
  "revoke_work route_config ready_route sample_user ''req_3'' ready_db = Inr (view route_config revoked_row, revoked_db)"
proof -
  let ?db = "ready_db\<lparr>sd_services := [revoked_row]\<rparr>"
  have fresh: "next_fresh ?db" by (rule sample_draws_fresh [of "Suc (Suc 0)"]) (simp_all add: ready_db_draws)
  have event: "appendEvents [revoked_input] ?db = Inr revoked_db"
    unfolding revoked_db_def by (rule append_once [OF fresh]) (simp_all add: sample_secrets revoked_input_def)
  have mark: "markEnded (ps_id ready_route) Revoked_route ready_db = Inr (Some revoked_row, ?db)"
    by (simp add: sample_statements sample_rows revoked_row_def)
  have withdrawn: "revokeCapabilitiesForService (ps_id ready_route) ?db = Inr ([], ?db)"
    by (simp add: revokeCapabilitiesForService_def revokeCapabilities_def sample_statements)
  have "route_event revoked_row sample_user ''published_service.revoked''
      [(''request_id'', JString ''req_3''), (''published_service_id'', JString (ps_id ready_route)),
       (''connector_id'', JString (ps_connector_id revoked_row))]
      [(''published_service_id'', JString (ps_id ready_route)),
       (''previous_status'', JString (service_status_name (ps_status ready_route))), (''new_status'', JString ''revoked''),
       (''revoked_capability_ids'', strings [])] (js_now ?db) = revoked_input"
    by (simp add: revoked_input_def revoked_row_def ready_route_def requested_row_def route_input_def js_now_def)
  then show ?thesis
    using event mark withdrawn by (simp add: revoke_work_def del: appendEvents.simps)
qed

lemma revoked_db_fields [simp]:
  "sd_services revoked_db = [revoked_row]" "sd_capabilities revoked_db = []" "sd_sessions revoked_db = [route_session]"
  by (simp_all add: revoked_db_def)

definition late_db :: service_db where
  "late_db = minted_into ''cap_1'' revoked_db"

lemma sample_late_mint:
  "mint_work signing ''cap_1'' ready_route ''brs_1'' 1000000000 1000300000 sample_user ''req_2'' revoked_db = Inr ((), late_db)"
proof -
  have "sample_draws (Suc (Suc (Suc 0))) revoked_db"
    unfolding revoked_db_def by (rule sample_draws_appended) (simp_all add: ready_db_draws)
  from draws_then_fresh [OF this] show ?thesis
    unfolding late_db_def by (intro sample_mint_work) (simp_all add: revoked_row_def)
qed

lemma sample_late_step: "route_txn route_config revoked_db late_db"
  by (rule route_txn.minted [OF sample_mint_checks step_follows [OF route_txn.revoked [OF sample_revoke_work]] sample_late_mint])

end
