(* ===== verification/Route_Properties.thy ===== *)
theory Route_Properties
  imports Route_Samples
begin

text \<open>
  The properties of published routes in every interleaving of the operations: which routes and capabilities can
  exist at all, that an ended route stays ended, what a minted capability says, and where two overlapping operations give
  a result that neither alone would.
\<close>

section \<open>The invariant\<close>

definition route_permitted :: "service_config \<Rightarrow> published_service \<Rightarrow> bool" where
  "route_permitted config s \<longleftrightarrow>
     evaluateDestination (pc_destinationPolicy config)
       \<lparr>ds_host = ps_local_host s, ds_port = Some (of_nat (ps_local_port s)), ds_protocol = ps_protocol s\<rparr> = None"

definition route_sessions :: "service_db \<Rightarrow> published_service \<Rightarrow> bool" where
  "route_sessions db s \<longleftrightarrow> (\<forall>sid \<in> set (ps_allowed_browser_session_ids s).
     \<exists>b \<in> set (sd_sessions db). sn_id b = sid \<and> session_in_project (ps_organisation_id s) (ps_project_id s) b)"

text \<open>
  The capability belongs to a route that was ready and to a session the route names, all three in one project, and
  it outlives neither of them.
\<close>

definition capability_bound :: "service_db \<Rightarrow> capability_row \<Rightarrow> bool" where
  "capability_bound db c \<longleftrightarrow> (\<exists>s \<in> set (sd_services db). \<exists>b \<in> set (sd_sessions db).
     rc_published_service_id c = ps_id s \<and> rc_browser_session_id c = sn_id b \<and> sn_id b \<in> set (ps_allowed_browser_session_ids s) \<and>
     rc_organisation_id c = ps_organisation_id s \<and> rc_project_id c = ps_project_id s \<and>
     session_in_project (ps_organisation_id s) (ps_project_id s) b \<and> ps_status s \<noteq> Requested_route \<and>
     rc_expires_at c \<le> ps_expires_at s \<and> (case session_end_ms b of None \<Rightarrow> True | Some t \<Rightarrow> rc_expires_at c \<le> t * 1000))"

definition routes_ok :: "service_config \<Rightarrow> service_db \<Rightarrow> bool" where
  "routes_ok config db \<longleftrightarrow> distinct (map ps_id (sd_services db)) \<and> distinct (map rc_id (sd_capabilities db)) \<and>
     list_all (route_permitted config) (sd_services db) \<and> list_all (route_sessions db) (sd_services db) \<and>
     list_all (capability_bound db) (sd_capabilities db)"

lemma session_end_follows: "session_follows b b' \<Longrightarrow> session_end_ms b' = session_end_ms b"
  by (simp add: session_follows_def session_end_ms_def)

lemma session_in_project_follows: "session_follows b b' \<Longrightarrow> session_in_project org p b' = session_in_project org p b"
  by (simp add: session_follows_def session_in_project_def)

lemma not_requested_follows: "route_follows s s' \<Longrightarrow> ps_status s \<noteq> Requested_route \<Longrightarrow> ps_status s' \<noteq> Requested_route"
  by (auto simp: route_follows_def status_follows_def live_status_def)

lemma route_permitted_follows: "route_follows s s' \<Longrightarrow> route_permitted config s' = route_permitted config s"
  by (simp add: route_follows_def same_route_def route_permitted_def)

lemma rows_followD: "rows_follow R t t' \<Longrightarrow> r \<in> set t \<Longrightarrow> \<exists>r' \<in> set t'. R r r'"
  by (simp add: rows_follow_def)

lemma route_sessions_follows:
  assumes "db_follows db db'" "route_follows s s'" "route_sessions db s"
  shows "route_sessions db' s'"
proof -
  have "\<exists>b' \<in> set (sd_sessions db'). sn_id b' = sid \<and> session_in_project (ps_organisation_id s) (ps_project_id s) b'"
    if sid: "sid \<in> set (ps_allowed_browser_session_ids s)" for sid
  proof -
    obtain b where b: "b \<in> set (sd_sessions db)" "sn_id b = sid"
      "session_in_project (ps_organisation_id s) (ps_project_id s) b" using assms(3) sid by (auto simp: route_sessions_def)
    obtain b' where "b' \<in> set (sd_sessions db')" "session_follows b b'"
      using assms(1) b(1) by (auto simp: db_follows_def dest: rows_followD)
    with b show ?thesis
      using session_in_project_follows by (intro bexI [of _ b']) (auto simp: session_follows_def session_in_project_def)
  qed
  with assms(2) show ?thesis by (simp add: route_sessions_def route_follows_def same_route_def)
qed

lemma capability_bound_follows:
  assumes "db_follows db db'" "capability_follows c c'" "capability_bound db c"
  shows "capability_bound db' c'"
proof -
  obtain s b where sb: "s \<in> set (sd_services db)" "b \<in> set (sd_sessions db)"
    "rc_published_service_id c = ps_id s" "rc_browser_session_id c = sn_id b" "sn_id b \<in> set (ps_allowed_browser_session_ids s)"
    "rc_organisation_id c = ps_organisation_id s" "rc_project_id c = ps_project_id s"
    "session_in_project (ps_organisation_id s) (ps_project_id s) b" "ps_status s \<noteq> Requested_route"
    "rc_expires_at c \<le> ps_expires_at s" "case session_end_ms b of None \<Rightarrow> True | Some t \<Rightarrow> rc_expires_at c \<le> t * 1000"
    using assms(3) by (auto simp: capability_bound_def)
  obtain s' b' where new: "s' \<in> set (sd_services db')" "route_follows s s'" "b' \<in> set (sd_sessions db')" "session_follows b b'"
    using assms(1) sb(1,2) by (meson db_follows_def rows_followD)
  have c: "rc_published_service_id c' = rc_published_service_id c" "rc_browser_session_id c' = rc_browser_session_id c"
    "rc_organisation_id c' = rc_organisation_id c" "rc_project_id c' = rc_project_id c" "rc_expires_at c' = rc_expires_at c"
    using assms(2) by (auto simp: capability_follows_def)
  have s: "ps_id s' = ps_id s" "ps_organisation_id s' = ps_organisation_id s" "ps_project_id s' = ps_project_id s"
    "ps_allowed_browser_session_ids s' = ps_allowed_browser_session_ids s" "ps_expires_at s' = ps_expires_at s"
    using new(2) by (simp_all add: route_follows_def same_route_def)
  have b: "sn_id b' = sn_id b" using new(4) by (simp add: session_follows_def)
  show ?thesis
    unfolding capability_bound_def using sb(3-) new(1,3) not_requested_follows [OF new(2)]
    by (intro bexI [of _ s'] bexI [of _ b']) (auto simp: c s b session_end_follows [OF new(4)] session_in_project_follows [OF new(4)] split: option.splits)
qed

lemma list_all2_list_all:
  "list_all2 R t t' \<Longrightarrow> list_all P t \<Longrightarrow> (\<And>r r'. R r r' \<Longrightarrow> P r \<Longrightarrow> Q r') \<Longrightarrow> list_all Q t'"
  by (induction rule: list_all2_induct) auto

lemma list_all2_map_eq: "list_all2 R t t' \<Longrightarrow> (\<And>r r'. R r r' \<Longrightarrow> g r' = g r) \<Longrightarrow> map g t' = map g t"
  by (induction rule: list_all2_induct) auto

lemma routes_ok_changes:
  assumes "routes_ok config db" "db_changes db db'"
  shows "routes_ok config db'"
proof -
  have follows: "db_follows db db'" using assms(2) by (rule db_changes_follows)
  have rows: "list_all2 route_follows (sd_services db) (sd_services db')"
    "list_all2 capability_follows (sd_capabilities db) (sd_capabilities db')" using assms(2) by (simp_all add: db_changes_def)
  have "map ps_id (sd_services db') = map ps_id (sd_services db)"
    by (rule list_all2_map_eq [OF rows(1)]) (simp add: route_follows_def same_route_def)
  moreover have "map rc_id (sd_capabilities db') = map rc_id (sd_capabilities db)"
    by (rule list_all2_map_eq [OF rows(2)]) (auto simp: capability_follows_def)
  moreover have "list_all (route_permitted config) (sd_services db')" "list_all (route_sessions db') (sd_services db')"
    "list_all (capability_bound db') (sd_capabilities db')"
    using assms(1) list_all2_list_all [OF rows(1), of "route_permitted config" "route_permitted config"]
      list_all2_list_all [OF rows(1), of "route_sessions db" "route_sessions db'"]
      list_all2_list_all [OF rows(2), of "capability_bound db" "capability_bound db'"]
      route_permitted_follows route_sessions_follows [OF follows] capability_bound_follows [OF follows]
    by (auto simp: routes_ok_def)
  ultimately show ?thesis using assms(1) by (simp add: routes_ok_def)
qed

section \<open>What is inserted\<close>

lemma requested_permitted:
  assumes "request_checks config input = ok"
  shows "route_permitted config (requested_row input rid al ms)"
proof -
  have accepted: "evaluateDestination (pc_destinationPolicy config)
      \<lparr>ds_host = pi_localHost input, ds_port = pi_localPort input, ds_protocol = pi_protocol input\<rparr> = None"
    using assms by (auto simp: request_checks_def result_simps split: option.splits)
  then have "port_valid (pi_localPort input)"
    by (auto simp: evaluateDestination_def split: option.splits if_splits)
  then obtain p where p: "pi_localPort input = Some p" "p = of_int \<lfloor>p\<rfloor>" "1 \<le> p"
    by (auto simp: port_valid_def split: option.splits)
  then have "0 \<le> \<lfloor>p\<rfloor>" by simp
  then have "of_nat (nat \<lfloor>p\<rfloor>) = (of_int \<lfloor>p\<rfloor> :: rat)" by (simp add: of_nat_nat)
  with p have "Some (of_nat (port_number (pi_localPort input))) = pi_localPort input" by (simp add: port_number_def)
  with accepted show ?thesis by (simp add: route_permitted_def requested_row_def)
qed

lemma requested_sessions:
  assumes "request_route_work config input rid al ms actor q db = Inr (v, db')"
  shows "route_sessions db' (requested_row input rid al ms)"
  using request_inserts(2,5) [OF assms]
  by (fastforce simp: route_sessions_def requested_row_def findBrowserSessionsInProject_def)

text \<open>What the checks of \<open>mint\<close> establish of the database they read.\<close>

lemma expiry_bounds:
  assumes "0 \<le> requested"
  shows "expiry_ms service b ms requested \<le> ps_expires_at service div 1000"
    and "session_end_ms b = Some t \<Longrightarrow> expiry_ms service b ms requested \<le> t"
    and "of_nat (expiry_ms service b ms requested) \<le> of_nat ms + requested * 1000"
proof -
  let ?m = "Min (set (mint_bounds service b ms requested))"
  have fin: "finite (set (mint_bounds service b ms requested))" "set (mint_bounds service b ms requested) \<noteq> {}"
    by (rule finite_set, simp add: mint_bounds_def)
  have nonneg: "0 \<le> ?m"
    unfolding Min_ge_iff [OF fin] using assms by (auto simp: mint_bounds_def split: option.splits)
  then have floor: "of_nat (expiry_ms service b ms requested) \<le> ?m"
    by (simp add: expiry_ms_def of_nat_nat)
  have below: "of_nat (expiry_ms service b ms requested) \<le> x" if "x \<in> set (mint_bounds service b ms requested)" for x
    using floor Min_le [OF fin(1) that] by (rule order_trans)
  show "of_nat (expiry_ms service b ms requested) \<le> of_nat ms + requested * 1000"
    by (rule below) (simp add: mint_bounds_def)
  have "of_nat (expiry_ms service b ms requested) \<le> (of_nat (ps_expires_at service div 1000) :: rat)"
    by (rule below) (simp add: mint_bounds_def)
  then show "expiry_ms service b ms requested \<le> ps_expires_at service div 1000" by (simp only: of_nat_le_iff)
  show "expiry_ms service b ms requested \<le> t" if "session_end_ms b = Some t"
  proof -
    have "of_nat (expiry_ms service b ms requested) \<le> (of_nat t :: rat)"
      by (rule below) (simp add: mint_bounds_def that)
    then show ?thesis by (simp only: of_nat_le_iff)
  qed
qed

lemma mint_checks_Inr:
  assumes "mint_checks capability rid sid ttl scope db = Inr (service, ms, expires)"
  obtains b requested where "findInScope rid scope db = Some service" "ps_status service = Ready_route"
    "sid \<in> set (ps_allowed_browser_session_ids service)"
    "findSessionLifetime sid (ps_organisation_id service) (ps_project_id service) db = Some b"
    "ms = now_ms db" "requested = (case ttl of None \<Rightarrow> of_nat (kc_ttlSeconds capability) | Some t \<Rightarrow> t)"
    "0 < requested" "requested \<le> of_nat (kc_ttlSeconds capability)" "expires = expiry_ms service b ms requested" "ms < expires"
  using assms
  by (auto simp: mint_checks_def read_service_def Let_def result_simps not_le split: option.splits if_splits)

lemma minted_bound:
  assumes "mint_checks capability rid sid ttl scope db0 = Inr (service, ms, expires)" "db_follows db0 db"
  shows "capability_bound db (capability_row_of capability cid service sid ms expires)"
proof -
  obtain b requested where checks: "findInScope rid scope db0 = Some service" "ps_status service = Ready_route"
    "sid \<in> set (ps_allowed_browser_session_ids service)"
    "findSessionLifetime sid (ps_organisation_id service) (ps_project_id service) db0 = Some b"
    "0 < requested" "expires = expiry_ms service b ms requested"
    using assms(1) by (rule mint_checks_Inr)
  have s: "service \<in> set (sd_services db0)" using checks(1) by (auto simp: findInScope_def dest: find_Some_in)
  have b: "b \<in> set (sd_sessions db0)" "sn_id b = sid" "session_in_project (ps_organisation_id service) (ps_project_id service) b"
    using checks(4) by (auto simp: findSessionLifetime_def dest: find_Some_in)
  have "expires * 1000 \<le> ps_expires_at service"
    using expiry_bounds(1) [of requested service b ms] checks(5,6) by simp
  moreover have "case session_end_ms b of None \<Rightarrow> True | Some t \<Rightarrow> expires \<le> t"
    using expiry_bounds(2) [of requested b _ service ms] checks(5,6) by (auto split: option.splits)
  ultimately have "capability_bound db0 (capability_row_of capability cid service sid ms expires)"
    unfolding capability_bound_def using s b checks(2,3)
    by (intro bexI [of _ service] bexI [of _ b]) (auto simp: capability_row_of_def split: option.splits)
  then show ?thesis by (rule capability_bound_follows [OF assms(2) follows_refl(3)])
qed

lemma routes_ok_step:
  assumes "route_txn config db db'" "routes_ok config db"
  shows "routes_ok config db'"
  using assms(1)
proof (cases rule: step_changes)
  case changed
  with assms(2) show ?thesis by (rule routes_ok_changes)
next
  case (requested input rid al ms actor q v)
  note ins = request_inserts [OF requested(2)]
  have follows: "db_follows db db'" using assms(1) by (rule step_follows)
  show ?thesis
    unfolding routes_ok_def ins(1,3) list_all_append
    using assms(2) ins(4) [unfolded ins(1)] requested_permitted [OF requested(1)] requested_sessions [OF requested(2)]
      route_sessions_follows [OF follows follows_refl(1)] capability_bound_follows [OF follows follows_refl(3)]
    by (auto simp: routes_ok_def list_all_iff)
next
  case (minted capability rid sid ttl scope db0 service ms expires cid actor q u)
  note ins = mint_inserts [OF minted(3)]
  have follows: "db_follows db db'" using assms(1) by (rule step_follows)
  have "capability_bound db' (capability_row_of capability cid service sid ms expires)"
    using minted_bound [OF minted(1), of db'] minted(2) follows following.transitive by blast
  then show ?thesis
    unfolding routes_ok_def ins(1,3) list_all_append
    using assms(2) ins(4) [unfolded ins(3)] route_sessions_follows [OF follows follows_refl(1)]
      capability_bound_follows [OF follows follows_refl(3)]
    by (auto simp: routes_ok_def list_all_iff)
qed

lemma routes_ok_steps: "route_txns config db db' \<Longrightarrow> routes_ok config db \<Longrightarrow> routes_ok config db'"
  by (induction rule: rtranclp_induct) (auto intro: routes_ok_step)

section \<open>Histories\<close>

text \<open>The operations of the service, of the binder and of the reconciler, each as what it does to the database.\<close>

inductive route_operation :: "service_config \<Rightarrow> (service_db \<Rightarrow> service_db) \<Rightarrow> bool" for config where
  op_create: "route_operation config (\<lambda>db. snd (create_route config peers input actor q db))"
| op_request: "route_operation config (\<lambda>db. snd (request_route config input actor q db))"
| op_complete: "route_operation config (\<lambda>db. snd (complete config peers rid actor q db))"
| op_pending: "route_operation config (\<lambda>db. snd (completePending config peers olderThan limit db))"
| op_revoke: "route_operation config (\<lambda>db. snd (revoke config peers rid scope actor q db))"
| op_expire: "route_operation config (\<lambda>db. snd (expireDue config peers limit db))"
| op_mint: "route_operation config (\<lambda>db. snd (mint hmac config rid sid ttl scope actor q db))"
| op_bind: "route_operation config (\<lambda>db. snd (bind_session hmac config rid org project sid actor q db))"
| op_withdraw: "route_operation config (\<lambda>db. snd (revokeCapabilitiesForSession sid db))"
| op_reconcile: "route_operation config (\<lambda>db. snd (reconcile rc peers cid version claimed q db))"
| op_connector: "route_operation config (\<lambda>db. snd (revokeConnectorRoutes rc peers cid q actor db))"
| op_disconnect: "route_operation config (\<lambda>db. snd (handleDisconnect cid q db))"

text \<open>Whole operations, and single transactions of operations that overlap.\<close>

inductive route_step :: "service_config \<Rightarrow> service_db \<Rightarrow> service_db \<Rightarrow> bool" for config where
  whole: "route_operation config f \<Longrightarrow> route_step config db (f db)"
| single: "route_txn config db db' \<Longrightarrow> route_step config db db'"

abbreviation route_later :: "service_config \<Rightarrow> service_db \<Rightarrow> service_db \<Rightarrow> bool" where
  "route_later config \<equiv> (route_step config)\<^sup>*\<^sup>*"

lemma operation_runs: "route_operation config f \<Longrightarrow> route_txns config db (f db)"
  by (induction rule: route_operation.induct)
    (rule keepsD [OF create_runs] keepsD [OF request_runs] keepsD [OF complete_runs] keepsD [OF completePending_runs]
      keepsD [OF revoke_runs] keepsD [OF expireDue_runs] keepsD [OF mint_runs] keepsD [OF bind_runs]
      keepsD [OF revoke_session_runs] keepsD [OF reconcile_runs] keepsD [OF revoke_connector_runs] keepsD [OF disconnect_runs])+

lemma later_runs: "route_later config db db' \<Longrightarrow> route_txns config db db'"
proof (induction rule: rtranclp_induct)
  case (step y z)
  from step.hyps(2) have "route_txns config y z"
    by (cases rule: route_step.cases) (auto intro: operation_runs)
  with step.IH show ?case by (rule rtranclp_trans)
qed simp

definition no_routes :: "service_db \<Rightarrow> bool" where
  "no_routes db \<longleftrightarrow> sd_services db = [] \<and> sd_capabilities db = []"

lemma route_history_ok:
  assumes "no_routes db" "route_later config db db'"
  shows "routes_ok config db'"
  using routes_ok_steps [OF later_runs [OF assms(2)]] assms(1) by (simp add: no_routes_def routes_ok_def)

section \<open>Properties of every history\<close>

text \<open>C9: What a capability can be for. In every history that starts without routes, whatever operations overlap, each recorded
  capability belongs to a route that has been ready and to a browser session which that route names; route, session and
  capability are of one organisation and project; and the capability expires no later than the route and no later
  than the session's own maximum.\<close>

theorem capabilities_stay_bound:
  assumes "no_routes db" "route_later config db db'" "c \<in> set (sd_capabilities db')"
  shows "\<exists>s \<in> set (sd_services db'). \<exists>b \<in> set (sd_sessions db').
     rc_published_service_id c = ps_id s \<and> rc_browser_session_id c = sn_id b \<and> sn_id b \<in> set (ps_allowed_browser_session_ids s) \<and>
     ps_status s \<noteq> Requested_route \<and>
     rc_organisation_id c = ps_organisation_id s \<and> sn_organisation_id b = ps_organisation_id s \<and>
     rc_project_id c = ps_project_id s \<and> sn_project_id b = ps_project_id s \<and>
     rc_expires_at c \<le> ps_expires_at s \<and>
     (\<forall>seconds. sn_max_duration_seconds b = Some seconds \<longrightarrow> rc_expires_at c \<le> sn_created_at b + seconds * 1000000)"
proof -
  obtain s b where sb: "s \<in> set (sd_services db')" "b \<in> set (sd_sessions db')"
    "rc_published_service_id c = ps_id s" "rc_browser_session_id c = sn_id b" "sn_id b \<in> set (ps_allowed_browser_session_ids s)"
    "rc_organisation_id c = ps_organisation_id s" "rc_project_id c = ps_project_id s"
    "session_in_project (ps_organisation_id s) (ps_project_id s) b" "ps_status s \<noteq> Requested_route"
    "rc_expires_at c \<le> ps_expires_at s" "case session_end_ms b of None \<Rightarrow> True | Some t \<Rightarrow> rc_expires_at c \<le> t * 1000"
    using route_history_ok [OF assms(1,2)] assms(3) by (auto simp: routes_ok_def list_all_iff capability_bound_def)
  have "rc_expires_at c \<le> sn_created_at b + seconds * 1000000" if "sn_max_duration_seconds b = Some seconds" for seconds
  proof -
    have "rc_expires_at c \<le> (sn_created_at b div 1000 + seconds * 1000) * 1000" using sb(11) by (simp add: session_end_ms_def that)
    also have "\<dots> = sn_created_at b div 1000 * 1000 + seconds * 1000000" by (simp add: algebra_simps)
    also have "\<dots> \<le> sn_created_at b + seconds * 1000000" by (rule add_right_mono) (rule div_times_less_eq_dividend)
    finally show ?thesis .
  qed
  with sb show ?thesis by (auto simp: session_in_project_def)
qed

text \<open>C11: Under the default policy nothing but the loopback interface is ever published. Whatever requests are made, and however
  they overlap, each route in the table leads to a spelling of a loopback address on one of the listed ports over plain
  HTTP, and names only sessions of its own organisation and project.\<close>

theorem published_routes_are_loopback:
  assumes "no_routes db" "route_later config db db'" "s \<in> set (sd_services db')"
    and "pc_destinationPolicy config = STAGE_0_DESTINATION_POLICY"
  shows "names_loopback (ps_local_host s) \<and>
    (ps_local_port s \<in> {3000..3999} \<or> ps_local_port s = 4321 \<or> ps_local_port s = 5173) \<and> ps_protocol s = ''http'' \<and>
    (\<forall>sid \<in> set (ps_allowed_browser_session_ids s). \<exists>b \<in> set (sd_sessions db').
       sn_id b = sid \<and> sn_organisation_id b = ps_organisation_id s \<and> sn_project_id b = ps_project_id s)"
proof -
  have "routes_ok config db'" by (rule route_history_ok [OF assms(1,2)])
  then have ok: "route_permitted config s" "route_sessions db' s" using assms(3) by (auto simp: routes_ok_def list_all_iff)
  from ok(1) have "names_loopback (ps_local_host s) \<and>
      (\<exists>p :: nat. of_nat (ps_local_port s) = (of_nat p :: rat) \<and> (p \<in> {3000..3999} \<or> p = 4321 \<or> p = 5173)) \<and> ps_protocol s = ''http''"
    by (simp add: route_permitted_def assms(4) default_policy_exact)
  with ok(2) show ?thesis by (auto simp: route_sessions_def session_in_project_def)
qed

text \<open>C12: What has ended stays ended. A route that has failed, expired or been revoked is never changed again, and a
  withdrawn capability stays withdrawn, whatever operations follow and however they overlap; a live route keeps its
  organisation, its project, its destination, its sessions and its expiry.\<close>

theorem ended_routes_stay_ended:
  assumes "route_later config db db'"
  shows "(\<forall>s \<in> set (sd_services db).
      (ps_status s \<in> {Failed_route, Expired_route, Revoked_route} \<longrightarrow> s \<in> set (sd_services db')) \<and>
      (\<exists>s' \<in> set (sd_services db'). ps_id s' = ps_id s \<and> ps_organisation_id s' = ps_organisation_id s \<and>
        ps_project_id s' = ps_project_id s \<and> ps_local_host s' = ps_local_host s \<and> ps_local_port s' = ps_local_port s \<and>
        ps_allowed_browser_session_ids s' = ps_allowed_browser_session_ids s \<and> ps_expires_at s' = ps_expires_at s)) \<and>
    (\<forall>c \<in> set (sd_capabilities db). rc_revoked_at c \<noteq> None \<longrightarrow> c \<in> set (sd_capabilities db'))"
proof -
  have follows: "rows_follow route_follows (sd_services db) (sd_services db')"
    "rows_follow capability_follows (sd_capabilities db) (sd_capabilities db')"
    using steps_follow [OF later_runs [OF assms]] by (simp_all add: db_follows_def)
  show ?thesis
  proof (intro conjI ballI impI)
    fix s assume "s \<in> set (sd_services db)"
    then obtain s' where s': "s' \<in> set (sd_services db')" "route_follows s s'" using rows_followD [OF follows(1)] by blast
    then show "s \<in> set (sd_services db')" if "ps_status s \<in> {Failed_route, Expired_route, Revoked_route}"
      using that by (auto simp: route_follows_def live_status_def)
    from s' show "\<exists>s' \<in> set (sd_services db'). ps_id s' = ps_id s \<and> ps_organisation_id s' = ps_organisation_id s \<and>
        ps_project_id s' = ps_project_id s \<and> ps_local_host s' = ps_local_host s \<and> ps_local_port s' = ps_local_port s \<and>
        ps_allowed_browser_session_ids s' = ps_allowed_browser_session_ids s \<and> ps_expires_at s' = ps_expires_at s"
      unfolding route_follows_def same_route_def by blast
  next
    fix c assume c: "c \<in> set (sd_capabilities db)" "rc_revoked_at c \<noteq> None"
    then obtain c' where "c' \<in> set (sd_capabilities db')" "capability_follows c c'" using rows_followD [OF follows(2)] by blast
    with c(2) show "c \<in> set (sd_capabilities db')" by (auto simp: capability_follows_def)
  qed
qed

section \<open>Witnesses\<close>

lemma txns_later: "route_txns config db db' \<Longrightarrow> route_later config db db'"
  by (induction rule: rtranclp_induct) (auto intro: rtranclp.rtrancl_into_rtrancl route_step.single)

lemma sample_start_empty: "no_routes start_db"
  by (simp add: no_routes_def start_db_def)

theorem capabilities_stay_bound_witness:
  "\<exists>c \<in> set (sd_capabilities minted_db). \<exists>s \<in> set (sd_services minted_db).
     rc_published_service_id c = ps_id s \<and> rc_expires_at c \<le> ps_expires_at s"
  using capabilities_stay_bound [OF sample_start_empty txns_later [OF sample_history], of first_capability] by auto

theorem published_routes_are_loopback_witness:
  "\<exists>s \<in> set (sd_services minted_db). names_loopback (ps_local_host s) \<and> ps_protocol s = ''http''"
  using published_routes_are_loopback [OF sample_start_empty txns_later [OF sample_history], of ready_route]
  by (simp add: route_config_def)

theorem ended_routes_stay_ended_witness:
  "ps_status revoked_row = Revoked_route \<and> revoked_row \<in> set (sd_services revoked_db) \<and> revoked_row \<in> set (sd_services late_db)"
proof -
  have "route_txns route_config revoked_db late_db" by (rule r_into_rtranclp) (rule sample_late_step)
  from ended_routes_stay_ended [OF txns_later [OF this]] show ?thesis by (simp add: revoked_row_def)
qed

end
