(* ===== verification/Route_Outcomes.thy ===== *)
theory Route_Outcomes
  imports Route_Properties
begin

text \<open>
  What single operations on published routes give their caller: the capability that is minted and what its verifier
  reads, the end of a route, what a reconnecting connector may keep, and two overlaps of operations.
\<close>

section \<open>Minting\<close>

lemma points_text: "list_all scalar (points s)"
proof -
  have "(of_char c :: nat) < 256" for c by (metis of_char_mod_256 mod_less_divisor zero_less_numeral)
  then have "(of_char c :: nat) < 55296" for c by (rule less_trans) simp
  then show ?thesis by (auto simp: points_def list_all_iff scalar_def)
qed

lemma mint_Inr:
  assumes "mint hmac config rid sid ttl scope actor q db = (Inr m, db')"
  obtains capability service ms expires cid where "pc_capability config = Some capability"
    "mint_checks capability rid sid ttl scope db = Inr (service, ms, expires)" "cid = mc_capability_id m"
    "mintCapability hmac (kc_key capability) (claims_of capability cid service sid ms expires) = Inr (mc_capability m)"
    "mint_work capability cid service sid ms expires actor q (db\<lparr>es_drawn := Suc (es_drawn db)\<rparr>) = Inr ((), db')"
    "mc_browser_session_id m = sid" "mc_internal_origin m = origin config (ps_public_alias service)"
  using assms
  by (auto simp: mint_def act_bind_def act_simps newUuid_def signed_def inTransaction_def split: option.splits sum.splits prod.splits)

text \<open>C10: A minted capability is good for exactly what was authorised. When minting succeeds the route is ready and in the scope
  of the caller, it names the session, and the session belongs to the route's project and has not ended; the token
  verifies under the signing key to claims that name that route, project and session, until an expiry within the
  configured lifetime and the life of the route, and not after it; and the capability is recorded as live.\<close>

theorem minted_capability_is_exact:
  assumes "mint hmac config rid sid ttl scope actor q db = (Inr m, db')"
  shows "\<exists>capability service claims.
    pc_capability config = Some capability \<and> findInScope rid scope db = Some service \<and> ps_status service = Ready_route \<and>
    sid \<in> set (ps_allowed_browser_session_ids service) \<and>
    (\<exists>b \<in> set (sd_sessions db). sn_id b = sid \<and> session_in_project (ps_organisation_id service) (ps_project_id service) b) \<and>
    (\<exists>b \<in> set (sd_sessions db). sn_id b = sid \<and> session_live b) \<and>
    (\<forall>now. verifyCapability hmac [points (kc_keyId capability) \<mapsto> kc_key capability] (mc_capability m) now =
       (if now < cc_expiresAt claims then Inr claims else Inl Expired)) \<and>
    cc_routeId claims = points rid \<and> cc_projectId claims = points (ps_project_id service) \<and> cc_browserSessionId claims = points sid \<and>
    cc_capabilityId claims = points (mc_capability_id m) \<and>
    cc_expiresAt claims * 1000000 \<le> int (ps_expires_at service) \<and>
    cc_expiresAt claims * 1000 \<le> int (now_ms db) + int (kc_ttlSeconds capability) * 1000 \<and>
    (\<exists>c \<in> set (sd_capabilities db'). rc_id c = mc_capability_id m \<and> rc_published_service_id c = rid \<and>
       rc_browser_session_id c = sid \<and> rc_revoked_at c = None)"
proof -
  obtain capability service ms expires cid where run: "pc_capability config = Some capability"
    "mint_checks capability rid sid ttl scope db = Inr (service, ms, expires)" "cid = mc_capability_id m"
    "mintCapability hmac (kc_key capability) (claims_of capability cid service sid ms expires) = Inr (mc_capability m)"
    "mint_work capability cid service sid ms expires actor q (db\<lparr>es_drawn := Suc (es_drawn db)\<rparr>) = Inr ((), db')"
    using assms by (rule mint_Inr)
  obtain b requested where checks: "findInScope rid scope db = Some service" "ps_status service = Ready_route"
    "sid \<in> set (ps_allowed_browser_session_ids service)"
    "findSessionLifetime sid (ps_organisation_id service) (ps_project_id service) db = Some b" "ms = now_ms db"
    "0 < requested" "requested \<le> of_nat (kc_ttlSeconds capability)" "expires = expiry_ms service b ms requested"
    using run(2) by (rule mint_checks_Inr)
  let ?claims = "claims_of capability cid service sid ms expires"
  have rid: "ps_id service = rid" using checks(1) by (auto simp: findInScope_def dest: find_Some_in)
  have session: "b \<in> set (sd_sessions db)" "sn_id b = sid" "session_in_project (ps_organisation_id service) (ps_project_id service) b"
    using checks(4) by (auto simp: findSessionLifetime_def dest: find_Some_in)
  note ins = mint_inserts [OF run(5)]
  have token: "\<forall>now. verifyCapability hmac [points (kc_keyId capability) \<mapsto> kc_key capability] (mc_capability m) now =
       (if now < cc_expiresAt ?claims then Inr ?claims else Inl Expired)"
    using minted_verifies [OF run(4), of "[points (kc_keyId capability) \<mapsto> kc_key capability]"]
    by (simp add: claims_text_def claims_of_def points_text)
  have seconds: "cc_expiresAt ?claims * 1000 \<le> int expires" by (simp add: claims_of_def)
  have "expires * 1000 \<le> ps_expires_at service"
    using expiry_bounds(1) [of requested service b ms] checks(6,8) by simp
  then have life: "cc_expiresAt ?claims * 1000000 \<le> int (ps_expires_at service)" using seconds by linarith
  have "(of_nat expires :: rat) \<le> of_nat (ms + kc_ttlSeconds capability * 1000)"
    using expiry_bounds(3) [of requested service b ms] checks(6,7,8) by simp
  then have "expires \<le> ms + kc_ttlSeconds capability * 1000" by (simp only: of_nat_le_iff)
  then have ttl: "cc_expiresAt ?claims * 1000 \<le> int (now_ms db) + int (kc_ttlSeconds capability) * 1000"
    using seconds checks(5) by linarith
  have "\<exists>c \<in> set (sd_capabilities db'). rc_id c = mc_capability_id m \<and> rc_published_service_id c = rid \<and>
       rc_browser_session_id c = sid \<and> rc_revoked_at c = None"
    using ins(3) rid run(3) by (auto simp: capability_row_of_def)
  with run(1,3) checks(1-3) session ins(5) token life ttl rid show ?thesis
    by (intro exI [of _ capability] exI [of _ service] exI [of _ ?claims]) (auto simp: claims_of_def)
qed

definition sample_token_id :: string where
  "sample_token_id = ''cap_'' @ uuid_text (replicate 15 0 @ [2])"

lemma sample_mint:
  "\<exists>m db'. mint sample_hmac route_config ''svc_1'' ''brs_1'' None route_scope sample_user ''req_2'' ready_db = (Inr m, db')"
proof -
  let ?claims = "claims_of signing sample_token_id ready_route ''brs_1'' 1000000000 1000300000"
  let ?db = "ready_db\<lparr>es_drawn := Suc (es_drawn ready_db)\<rparr>"
  have id: "fst (newUuid ''cap_'' ready_db) = sample_token_id"
    using ready_db_draws by (simp add: newUuid_def sample_token_id_def sample_draws_def)
  have "claims_checks ?claims = ok"
    by (simp add: claims_checks_ok claims_of_def sample_token_id_def uuid_text_def hex_text_def signing_def ready_route_def requested_row_def
        route_input_def points_def utf8_bytes_def text_buffer_def utf8_encode_def scalar_def MAX_SAFE_INTEGER_def Let_def replicate_numeral)
  then have token: "mintCapability sample_hmac sample_key ?claims = Inr (capability_token sample_hmac sample_key (payload_bytes ?claims))"
    by (intro mint_succeeds sample_mac_length) (simp_all add: sample_key_def MIN_CAPABILITY_SIGNING_KEY_BYTES_def)
  have draws: "sample_draws (Suc (Suc 0)) ready_db" by (rule ready_db_draws)
  have fresh: "next_fresh (?db\<lparr>sd_capabilities := [sample_capability sample_token_id]\<rparr>)"
    by (rule skipped_draw_fresh [OF draws]) simp_all
  have "mint_work signing sample_token_id ready_route ''brs_1'' 1000000000 1000300000 sample_user ''req_2'' ?db =
      Inr ((), minted_into sample_token_id ?db)"
    by (rule sample_mint_work [OF fresh]) simp_all
  moreover have "pc_capability route_config = Some signing" "kc_key signing = sample_key" by (simp_all add: route_config_def signing_def)
  ultimately show ?thesis
    using sample_mint_checks token id
    by (simp add: mint_def act_bind_def act_simps newUuid_def signed_def inTransaction_def)
qed

section \<open>Overlapping operations\<close>

lemma live_ready: "live_status Ready_route"
  by (simp add: live_status_def)

lemma updated_row: "r \<in> set t \<Longrightarrow> p r \<Longrightarrow> f r \<in> set (update_where p f t)"
  by (auto simp: update_where_def)

lemma failed_work_errors: "failed_work r failureClass actor q db \<noteq> Inl (Refused e)"
  by (auto simp: failed_work_def markRouteFailed_def mark_route_def store_services_def appendEvent_def assertPayloadCarriesNoSecret_def
      Let_def result_simps split: option.splits prod.splits)

text \<open>C33: The loser of two completions takes the winner's route down. When a second completion of the same request runs its transaction
  after the first has made the route ready, it is refused, and its handler records that refusal on the route although
  the route is no longer pending: the route that was published and reported as ready is failed.\<close>

theorem losing_completion_fails_ready_route:
  assumes "ready_work config r registered1 actor1 q1 db = Inr (v, db1)"
    and "act_try (inTransaction (ready_work config r registered2 actor2 q2)) (record_failure r actor2 q2) db1 =
      (Inl (Refused (ApiError PUBLISHED_SERVICE_UNAVAILABLE None None None)), db2)"
  shows "sv_status v = ''ready'' \<and> (\<exists>s \<in> set (sd_services db1). ps_id s = ps_id r \<and> ps_status s = Ready_route) \<and>
    (\<exists>s \<in> set (sd_services db2). ps_id s = ps_id r \<and> ps_status s = Failed_route \<and>
       ps_failure_class s = Some ''PUBLISHED_SERVICE_UNAVAILABLE'')"
proof -
  obtain s0 where s0: "s0 \<in> set (sd_services db)" "ps_id s0 = ps_id r" "ps_status s0 = Requested_route"
    and v: "sv_status v = ''ready''"
    and rows: "sd_services db1 = update_where (\<lambda>s. ps_id s = ps_id r \<and> ps_status s = Requested_route)
        (\<lambda>s. s\<lparr>ps_status := Ready_route, ps_observed_destination := Some (gw_observed_destination registered1), ps_ready_at := Some (es_now db)\<rparr>)
        (sd_services db)"
    and keys: "distinct (map ps_id (sd_services db1))"
    using assms(1)
    by (auto simp: ready_work_def markReady_def result_simps view_def split: option.splits dest!: appendEvent_Inr find_Some_in)
  obtain s1 where s1: "s1 \<in> set (sd_services db1)" "ps_id s1 = ps_id r" "ps_status s1 = Ready_route"
    using s0 unfolding rows by (fastforce simp: in_update_where)
  have unique: "s = s1" if "s \<in> set (sd_services db1)" "ps_id s = ps_id r" for s
    using keys s1(1,2) that by (metis distinct_map inj_onD)
  have "ready_work config r registered2 actor2 q2 db1 \<noteq> Inr (w, db')" for w db'
    using unique s1(3)
    by (auto simp: ready_work_def markReady_def result_simps split: option.splits dest!: find_Some_in)
  then obtain e where "inTransaction (ready_work config r registered2 actor2 q2) db1 = (Inl e, db1)"
    by (cases "ready_work config r registered2 actor2 q2 db1") auto
  then have "(record_failure r actor2 q2 e :: service_view service_act) db1 =
      (Inl (Refused (ApiError PUBLISHED_SERVICE_UNAVAILABLE None None None)), db2)"
    using assms(2) by (simp add: act_try_def)
  then have "failed_work r ''PUBLISHED_SERVICE_UNAVAILABLE'' actor2 q2 db1 = Inr ((), db2)"
    using failed_work_errors
    by (auto simp: record_failure_def act_bind_def act_simps inTransaction_def failureClassOf_def ApiError_def
        PUBLISHED_SERVICE_FAILURE_CLASS_VALUES_def split: sum.splits)
  then have "sd_services db2 = update_where (\<lambda>s. ps_id s = ps_id r \<and> live_status (ps_status s))
      (\<lambda>s. s\<lparr>ps_status := Failed_route, ps_failure_class := Some ''PUBLISHED_SERVICE_UNAVAILABLE'', ps_ended_at := Some (es_now db1)\<rparr>)
      (sd_services db1)"
    by (auto simp: failed_work_def markRouteFailed_def result_simps split: option.splits dest!: appendEvent_Inr)
  then have "\<exists>s \<in> set (sd_services db2). ps_id s = ps_id r \<and> ps_status s = Failed_route \<and>
       ps_failure_class s = Some ''PUBLISHED_SERVICE_UNAVAILABLE''"
    using s1 updated_row [OF s1(1), of "\<lambda>s. ps_id s = ps_id r \<and> live_status (ps_status s)"]
    by (intro bexI [of _ "s1\<lparr>ps_status := Failed_route, ps_failure_class := Some ''PUBLISHED_SERVICE_UNAVAILABLE'',
      ps_ended_at := Some (es_now db1)\<rparr>"]) (simp_all add: live_ready)
  with v s1 show ?thesis by blast
qed

text \<open>A capability minted for a route that was revoked between the checks and the transaction of the mint is recorded as live.\<close>

lemma capability_after_revocation:
  assumes "mint_checks capability rid sid ttl scope db = Inr (service, ms, expires)"
    and "revoke_work config service actor1 q1 db = Inr (v, db1)"
    and "mint_work capability cid service sid ms expires actor2 q2 db1 = Inr ((), db2)"
  shows "\<exists>s \<in> set (sd_services db2). \<exists>c \<in> set (sd_capabilities db2).
    ps_id s = rid \<and> ps_status s = Revoked_route \<and> rc_published_service_id c = rid \<and> rc_revoked_at c = None"
proof -
  obtain b requested where service: "findInScope rid scope db = Some service" "ps_status service = Ready_route"
    using assms(1) by (rule mint_checks_Inr)
  then have s: "service \<in> set (sd_services db)" "ps_id service = rid" by (auto simp: findInScope_def dest: find_Some_in)
  have "sd_services db1 = update_where (\<lambda>s. ps_id s = rid \<and> live_status (ps_status s))
      (\<lambda>s. s\<lparr>ps_status := Revoked_route, ps_ended_at := Some (es_now db)\<rparr>) (sd_services db)"
    using assms(2) s(2)
    by (auto simp: revoke_work_def markEnded_def revokeCapabilitiesForService_def revokeCapabilities_def Let_def result_simps
        split: option.splits dest!: appendEvent_Inr)
  moreover have "ps_id service = rid \<and> live_status (ps_status service)" using s service(2) by (simp add: live_status_def)
  ultimately have "service\<lparr>ps_status := Revoked_route, ps_ended_at := Some (es_now db)\<rparr> \<in> set (sd_services db1)"
    using updated_row [OF s(1), of "\<lambda>s. ps_id s = rid \<and> live_status (ps_status s)"] by simp
  moreover have "sd_services db2 = sd_services db1" "capability_row_of capability cid service sid ms expires \<in> set (sd_capabilities db2)"
    using mint_inserts [OF assms(3)] by simp_all
  ultimately show ?thesis
    using s(2) by (intro bexI [of _ "service\<lparr>ps_status := Revoked_route, ps_ended_at := Some (es_now db)\<rparr>"]
      bexI [of _ "capability_row_of capability cid service sid ms expires"]) (simp_all add: capability_row_of_def)
qed

section \<open>Reconnecting\<close>














lemma continues_simps [simp]: "continues (continued_route r)" "\<not> continues (revoked_route rid reason closure known)"
  by (simp_all add: continues_def continued_route_def revoked_route_def)









section \<open>Witnesses\<close>

theorem minted_capability_is_exact_witness:
  "\<exists>m db' claims. mint sample_hmac route_config ''svc_1'' ''brs_1'' None route_scope sample_user ''req_2'' ready_db = (Inr m, db') \<and>
     verifyCapability sample_hmac [points ''k1'' \<mapsto> sample_key] (mc_capability m) 0 =
       (if 0 < cc_expiresAt claims then Inr claims else Inl Expired) \<and>
     cc_routeId claims = points ''svc_1'' \<and> cc_browserSessionId claims = points ''brs_1''"
proof -
  obtain m db' where run: "mint sample_hmac route_config ''svc_1'' ''brs_1'' None route_scope sample_user ''req_2'' ready_db = (Inr m, db')"
    using sample_mint by blast
  have "pc_capability route_config = Some signing" "kc_keyId signing = ''k1''" "kc_key signing = sample_key"
    by (simp_all add: route_config_def signing_def)
  with minted_capability_is_exact [OF run] run show ?thesis by fastforce
qed

definition failed_row :: published_service where
  "failed_row = ready_route\<lparr>ps_status := Failed_route, ps_failure_class := Some ''PUBLISHED_SERVICE_UNAVAILABLE'',
     ps_ended_at := Some 1000000000000\<rparr>"

lemma sample_lost_completion:
  "\<exists>db2. act_try (inTransaction (ready_work route_config first_route registered sample_user ''req_4'')) (record_failure first_route sample_user ''req_4'')
     ready_db = (Inl (Refused (ApiError PUBLISHED_SERVICE_UNAVAILABLE None None None)), db2)"
proof -
  have id: "ps_id first_route = ''svc_1''" by (simp add: requested_row_def)
  have "markReady ''svc_1'' d ready_db = Inr (None, ready_db\<lparr>sd_services := [ready_route]\<rparr>)" for d
    by (simp add: sample_statements sample_rows)
  then have lost: "ready_work route_config first_route registered sample_user ''req_4'' ready_db =
      Inl (Refused (ApiError PUBLISHED_SERVICE_UNAVAILABLE None None None))" by (simp add: ready_work_def id)
  have kind: "failureClassOf (Refused (ApiError PUBLISHED_SERVICE_UNAVAILABLE None None None)) = ''PUBLISHED_SERVICE_UNAVAILABLE''"
    by (simp add: failureClassOf_def ApiError_def PUBLISHED_SERVICE_FAILURE_CLASS_VALUES_def)
  have mark: "markRouteFailed ''svc_1'' ''PUBLISHED_SERVICE_UNAVAILABLE'' ready_db = Inr (Some failed_row, ready_db\<lparr>sd_services := [failed_row]\<rparr>)"
    by (simp add: sample_statements sample_rows failed_row_def)
  have "next_fresh (ready_db\<lparr>sd_services := [failed_row]\<rparr>)"
    by (rule sample_draws_fresh [of "Suc (Suc 0)"]) (simp_all add: ready_db_draws)
  from append_once [OF this] have "\<exists>db2. failed_work first_route ''PUBLISHED_SERVICE_UNAVAILABLE'' sample_user ''req_4'' ready_db = Inr ((), db2)"
    by (simp add: failed_work_def id mark sample_secrets del: appendEvents.simps)
  then show ?thesis by (auto simp: act_try_def lost record_failure_def act_bind_def act_simps kind)
qed

theorem losing_completion_fails_ready_route_witness:
  "\<exists>db2. fst (act_try (inTransaction (ready_work route_config first_route registered sample_user ''req_4''))
       (record_failure first_route sample_user ''req_4'') ready_db) =
      Inl (Refused (ApiError PUBLISHED_SERVICE_UNAVAILABLE None None None)) \<and>
    snd (act_try (inTransaction (ready_work route_config first_route registered sample_user ''req_4''))
       (record_failure first_route sample_user ''req_4'') ready_db) = db2 \<and>
    (\<exists>s \<in> set (sd_services ready_db). ps_status s = Ready_route) \<and> (\<exists>s \<in> set (sd_services db2). ps_status s = Failed_route)"
proof -
  obtain db2 where run: "act_try (inTransaction (ready_work route_config first_route registered sample_user ''req_4''))
      (record_failure first_route sample_user ''req_4'') ready_db =
      (Inl (Refused (ApiError PUBLISHED_SERVICE_UNAVAILABLE None None None)), db2)" using sample_lost_completion by blast
  from losing_completion_fails_ready_route [OF sample_ready run] run show ?thesis by auto
qed
















end
