(* ===== verification/Annotation_Geometry.thy ===== *)
theory Annotation_Geometry
  imports Review_Domain
begin

text \<open>
  The annotation coordinate contract (\<open>packages/protocol/src/annotation-geometry.ts\<close>): which
  members each annotation type carries, the check a stored or submitted geometry has to
  pass, the conversions between normalised and rendered coordinates, and the producers that
  build a geometry from a drag or a stroke.

  Coordinates are rationals with exact arithmetic: a finite double is a rational, and the
  rounding of a single floating-point operation is not modelled. \<open>toFixed(4)\<close> is modelled,
  since the producers depend on it. Infinities and NaN are values of \<open>json\<close>, so the branches
  that test for them are in the model.
\<close>

section \<open>Types and the member vocabulary\<close>

datatype annotation_type = A_rectangle | A_ellipse | A_arrow | A_point | A_numbered_marker | A_freehand

fun annotation_type_name :: "annotation_type \<Rightarrow> string" where
  "annotation_type_name A_rectangle = ''rectangle''"
| "annotation_type_name A_ellipse = ''ellipse''"
| "annotation_type_name A_arrow = ''arrow''"
| "annotation_type_name A_point = ''point''"
| "annotation_type_name A_numbered_marker = ''numbered_marker''"
| "annotation_type_name A_freehand = ''freehand''"

definition ANNOTATION_TYPE_VALUES :: "string list" where
  "ANNOTATION_TYPE_VALUES =
     [''rectangle'', ''ellipse'', ''arrow'', ''point'', ''numbered_marker'', ''freehand'']"

definition GEOMETRY_BY_ANNOTATION_TYPE :: "string list" where
  "GEOMETRY_BY_ANNOTATION_TYPE =
     [''rectangle:1:x,y,width,height:rotation'',
      ''ellipse:1:x,y,width,height:rotation'',
      ''arrow:1:x,y,x2,y2'',
      ''point:1:x,y'',
      ''numbered_marker:1:x,y'',
      ''freehand:1:x,y,width,height,path'']"

definition ALL_MEMBERS :: "string list" where
  "ALL_MEMBERS = [''x'', ''y'', ''width'', ''height'', ''x2'', ''y2'', ''rotation'', ''path'']"

definition ARRAY_MEMBERS :: "string list" where
  "ARRAY_MEMBERS = [''path'']"

record geometry_rule =
  gr_version :: nat
  gr_required :: "string list"
  gr_optional :: "string list"

datatype vocabulary_error =
    Malformed_rule string
  | Malformed_version string
  | No_members_for string

text \<open>
  \<open>Number(version)\<close> with the integer test behind it. The vocabulary writes versions as runs
  of digits; the other spellings \<open>Number\<close> reads do not occur in it.
\<close>

definition parse_version :: "string \<Rightarrow> nat option" where
  "parse_version s =
     (if s \<noteq> [] \<and> list_all (\<lambda>c. of_char c \<in> {48..57 :: nat}) s then Some (text_value s) else None)"

definition parse_rule :: "string \<Rightarrow> vocabulary_error + string \<times> geometry_rule" where
  "parse_rule entry =
     (case split_on CHR '':'' entry of
        type # version # required # rest \<Rightarrow>
          (case parse_version version of
             None \<Rightarrow> Inl (Malformed_version entry)
           | Some v \<Rightarrow>
               if v < 1 then Inl (Malformed_version entry)
               else Inr (type,
                 \<lparr>gr_version = v, gr_required = split_on CHR '','' required,
                  gr_optional =
                    (case rest of [] \<Rightarrow> []
                     | optional # _ \<Rightarrow> if optional = '''' then [] else split_on CHR '','' optional)\<rparr>))
      | _ \<Rightarrow> Inl (Malformed_rule entry))"

fun parse_rules :: "string list \<Rightarrow> vocabulary_error + (string \<times> geometry_rule) list" where
  "parse_rules [] = Inr []"
| "parse_rules (e # es) =
     r_bind (parse_rule e) (\<lambda>r. r_bind (parse_rules es) (\<lambda>rs. Inr (r # rs)))"

definition readGeometryVocabulary :: "vocabulary_error + (string \<times> geometry_rule) list" where
  "readGeometryVocabulary =
     r_bind (parse_rules GEOMETRY_BY_ANNOTATION_TYPE) (\<lambda>table.
       case List.find (\<lambda>type. map_of (rev table) type = None) ANNOTATION_TYPE_VALUES of
         Some type \<Rightarrow> Inl (No_members_for type)
       | None \<Rightarrow> Inr (rev table))"

text \<open>A later entry of the vocabulary for the same type overwrites an earlier one: \<open>rev\<close>.\<close>

definition GEOMETRY_RULES :: "annotation_type \<Rightarrow> geometry_rule" where
  "GEOMETRY_RULES type =
     (case readGeometryVocabulary of
        Inl _ \<Rightarrow> \<lparr>gr_version = 0, gr_required = [], gr_optional = []\<rparr>
      | Inr table \<Rightarrow>
          (case map_of table (annotation_type_name type) of
             None \<Rightarrow> \<lparr>gr_version = 0, gr_required = [], gr_optional = []\<rparr>
           | Some r \<Rightarrow> r))"

definition geometryVersionForType :: "annotation_type \<Rightarrow> nat" where
  "geometryVersionForType type = gr_version (GEOMETRY_RULES type)"

section \<open>The check\<close>

datatype violation_code = V_required | V_forbidden | V_out_of_range | V_not_finite

type_synonym geometry_violation = "string \<times> violation_code"

definition isNormalisedCoordinate :: "json \<Rightarrow> bool" where
  "isNormalisedCoordinate v = (case v of JNumber r \<Rightarrow> 0 \<le> r \<and> r \<le> 1 | _ \<Rightarrow> False)"

text \<open>A coordinate that is present: finite, then in range.\<close>

definition check_coordinate :: "string \<Rightarrow> json \<Rightarrow> geometry_violation list" where
  "check_coordinate m v =
     (case v of
        JNumber r \<Rightarrow> if r < 0 \<or> r > 1 then [(m, V_out_of_range)] else []
      | _ \<Rightarrow> [(m, V_not_finite)])"

definition path_minimum :: nat where "path_minimum = 2"
definition path_maximum :: nat where "path_maximum = 128"

text \<open>
  The members of a point that \<open>typeof\<close> calls an object: those of an object, and the indices
  of an array.
\<close>

definition point_members :: "json \<Rightarrow> (string \<times> json) list option" where
  "point_members v =
     (case v of
        JObject ms \<Rightarrow> Some ms
      | JArray vs \<Rightarrow> Some (zip (map nat_text [0..<length vs]) vs)
      | _ \<Rightarrow> None)"

definition check_point :: "string \<Rightarrow> json \<Rightarrow> geometry_violation list" where
  "check_point m point =
     (case point_members point of
        None \<Rightarrow> [(m, V_not_finite)]
      | Some record \<Rightarrow>
          check_coordinate m (member record ''x'') @
          check_coordinate m (member record ''y'') @
          map (\<lambda>_. (m, V_forbidden))
            (filter (\<lambda>key. key \<noteq> ''x'' \<and> key \<noteq> ''y'') (map fst record)))"

text \<open>The loop over the points stops after the first point with a violation.\<close>

fun check_points :: "string \<Rightarrow> json list \<Rightarrow> geometry_violation list" where
  "check_points m [] = []"
| "check_points m (p # ps) = (if check_point m p \<noteq> [] then check_point m p else check_points m ps)"

definition checkPath :: "string \<Rightarrow> json \<Rightarrow> geometry_violation list" where
  "checkPath m value =
     (case value of
        JArray ps \<Rightarrow>
          (if length ps < path_minimum then [(m, V_required)]
           else if length ps > path_maximum then [(m, V_out_of_range)]
           else check_points m ps)
      | _ \<Rightarrow> [(m, V_not_finite)])"

definition check_member :: "geometry_rule \<Rightarrow> (string \<times> json) list \<Rightarrow> string \<Rightarrow> geometry_violation list" where
  "check_member rule geometry m =
     (let v = member geometry m; present = (v \<noteq> JAbsent); wanted = (m \<in> set (gr_required rule)) in
      if wanted \<and> \<not> present then [(m, V_required)]
      else if \<not> wanted \<and> m \<notin> set (gr_optional rule) \<and> present then [(m, V_forbidden)]
      else if \<not> present then []
      else if m \<in> set ARRAY_MEMBERS then checkPath m v
      else check_coordinate m v)"

text \<open>\<open>a\<close> and \<open>b\<close> are numbers whose finite sum leaves the content rectangle.\<close>

definition leaves :: "json \<Rightarrow> json \<Rightarrow> bool" where
  "leaves a b = (case (a, b) of (JNumber p, JNumber q) \<Rightarrow> p + q > 1 | _ \<Rightarrow> False)"

definition checkGeometryForType :: "annotation_type \<Rightarrow> (string \<times> json) list \<Rightarrow> geometry_violation list" where
  "checkGeometryForType type geometry =
     (let rule = GEOMETRY_RULES type in
      concat (map (check_member rule geometry) ALL_MEMBERS) @
      (if ''width'' \<in> set (gr_required rule) \<and> ''height'' \<in> set (gr_required rule)
       then (if leaves (member geometry ''x'') (member geometry ''width'')
             then [(''width'', V_out_of_range)] else []) @
            (if leaves (member geometry ''y'') (member geometry ''height'')
             then [(''height'', V_out_of_range)] else [])
       else []))"

text \<open>The boundary assertion of \<open>domain.ts\<close>.\<close>

definition assertGeometry :: "annotation_type \<Rightarrow> json \<Rightarrow> api_error + unit" where
  "assertGeometry type geometry =
     (case geometry of
        JObject ms \<Rightarrow>
          (case checkGeometryForType type ms of
             [] \<Rightarrow> ok
           | (m, _) # _ \<Rightarrow> Inl (refusal UNSUPPORTED_CAPABILITY [D_field (''geometry.'' @ m)]))
      | _ \<Rightarrow> Inl (refusal UNSUPPORTED_CAPABILITY [D_field ''geometry'']))"

section \<open>Rendering\<close>

record rendered_rectangle =
  rr_x :: rat
  rr_y :: rat
  rr_width :: rat
  rr_height :: rat

type_synonym point = "rat \<times> rat"

record annotation_geometry =
  g_x :: rat
  g_y :: rat
  g_width :: "rat option"
  g_height :: "rat option"
  g_x2 :: "rat option"
  g_y2 :: "rat option"
  g_rotation :: "rat option"
  g_path :: "point list option"

definition containedContentRectangle :: "rat \<Rightarrow> rat \<Rightarrow> rat \<Rightarrow> rat \<Rightarrow> rendered_rectangle" where
  "containedContentRectangle box_width box_height width_px height_px =
     (if \<not> box_width > 0 \<or> \<not> box_height > 0 \<or> \<not> width_px > 0 \<or> \<not> height_px > 0
      then \<lparr>rr_x = 0, rr_y = 0, rr_width = 0, rr_height = 0\<rparr>
      else let scale = min (box_width / width_px) (box_height / height_px);
               width = width_px * scale;
               height = height_px * scale
           in \<lparr>rr_x = (box_width - width) / 2, rr_y = (box_height - height) / 2,
               rr_width = width, rr_height = height\<rparr>)"

definition toRenderedPoint :: "point \<Rightarrow> rendered_rectangle \<Rightarrow> point" where
  "toRenderedPoint p r = (rr_x r + fst p * rr_width r, rr_y r + snd p * rr_height r)"

definition toNormalisedPoint :: "point \<Rightarrow> rendered_rectangle \<Rightarrow> point" where
  "toNormalisedPoint p r =
     (if \<not> rr_width r > 0 \<or> \<not> rr_height r > 0 then (0, 0)
      else ((fst p - rr_x r) / rr_width r, (snd p - rr_y r) / rr_height r))"

definition or_zero :: "rat option \<Rightarrow> rat" where
  "or_zero v = (case v of None \<Rightarrow> 0 | Some r \<Rightarrow> r)"

definition or_else :: "rat option \<Rightarrow> rat \<Rightarrow> rat" where
  "or_else v d = (case v of None \<Rightarrow> d | Some r \<Rightarrow> r)"

definition toRenderedBox :: "annotation_geometry \<Rightarrow> rendered_rectangle \<Rightarrow> rendered_rectangle" where
  "toRenderedBox g r =
     (let origin = toRenderedPoint (g_x g, g_y g) r in
      \<lparr>rr_x = fst origin, rr_y = snd origin,
       rr_width = or_zero (g_width g) * rr_width r,
       rr_height = or_zero (g_height g) * rr_height r\<rparr>)"

definition toRenderedArrow :: "annotation_geometry \<Rightarrow> rendered_rectangle \<Rightarrow> point \<times> point" where
  "toRenderedArrow g r =
     (toRenderedPoint (g_x g, g_y g) r,
      toRenderedPoint (or_else (g_x2 g) (g_x g), or_else (g_y2 g) (g_y g)) r)"

definition toRenderedPath :: "annotation_geometry \<Rightarrow> rendered_rectangle \<Rightarrow> point list" where
  "toRenderedPath g r =
     map (\<lambda>p. toRenderedPoint p r) (case g_path g of None \<Rightarrow> [] | Some ps \<Rightarrow> ps)"

section \<open>Producers\<close>

text \<open>\<open>Number(Math.min(1, Math.max(0, value)).toFixed(4))\<close>; \<open>toFixed\<close> takes the larger of two
  equally close candidates.\<close>

definition roundNormalised :: "rat \<Rightarrow> rat" where
  "roundNormalised v = of_int \<lfloor>min 1 (max 0 v) * 10000 + 1/2\<rfloor> / 10000"

definition bare_geometry :: "rat \<Rightarrow> rat \<Rightarrow> annotation_geometry" where
  "bare_geometry x y =
     \<lparr>g_x = x, g_y = y, g_width = None, g_height = None, g_x2 = None, g_y2 = None,
      g_rotation = None, g_path = None\<rparr>"

definition geometryForDrag :: "annotation_type \<Rightarrow> point \<Rightarrow> point \<Rightarrow> annotation_geometry" where
  "geometryForDrag type from to =
     (if type = A_arrow
      then (bare_geometry (roundNormalised (fst from)) (roundNormalised (snd from)))
             \<lparr>g_x2 := Some (roundNormalised (fst to)), g_y2 := Some (roundNormalised (snd to))\<rparr>
      else if type = A_point \<or> type = A_numbered_marker
      then bare_geometry (roundNormalised (fst to)) (roundNormalised (snd to))
      else let x = roundNormalised (min (fst from) (fst to));
               y = roundNormalised (min (snd from) (snd to))
           in (bare_geometry x y)
                \<lparr>g_width := Some (roundNormalised (min \<bar>fst to - fst from\<bar> (1 - x))),
                 g_height := Some (roundNormalised (min \<bar>snd to - snd from\<bar> (1 - y)))\<rparr>)"

definition rounded :: "point \<Rightarrow> point" where
  "rounded p = (roundNormalised (fst p), roundNormalised (snd p))"

text \<open>
  \<open>Math.hypot(dx, dy) >= threshold\<close> for a threshold that is not negative, without the root.
\<close>

definition at_least_apart :: "rat \<Rightarrow> point \<Rightarrow> point \<Rightarrow> bool" where
  "at_least_apart threshold p q \<longleftrightarrow>
     (fst p - fst q)\<^sup>2 + (snd p - snd q)\<^sup>2 \<ge> threshold\<^sup>2"

text \<open>The inner loop: \<open>kept\<close> is held in reverse, its head is the last point kept.\<close>

fun keep_points :: "rat \<Rightarrow> point list \<Rightarrow> point list \<Rightarrow> point list" where
  "keep_points threshold kept [] = kept"
| "keep_points threshold kept (p # ps) =
     (case kept of
        [] \<Rightarrow> keep_points threshold kept ps
      | previous # _ \<Rightarrow>
          if at_least_apart threshold p previous
          then keep_points threshold (rounded p # kept) ps
          else keep_points threshold kept ps)"

definition thin :: "rat \<Rightarrow> point list \<Rightarrow> point list" where
  "thin threshold points =
     rev (rounded (last points) # keep_points threshold [rounded (hd points)] (tl (butlast points)))"

text \<open>The outer loop: at most sixteen attempts, \<open>None\<close> when all of them keep too many.\<close>

fun thin_loop :: "nat \<Rightarrow> rat \<Rightarrow> nat \<Rightarrow> point list \<Rightarrow> point list option" where
  "thin_loop 0 threshold maximum points = None"
| "thin_loop (Suc attempts) threshold maximum points =
     (let kept = thin threshold points in
      if length kept \<le> maximum then Some kept
      else thin_loop attempts (threshold * (9/5)) maximum points)"

definition sample_stride :: "nat \<Rightarrow> nat \<Rightarrow> nat" where
  "sample_stride maximum n = nat \<lceil>(of_nat n :: rat) / of_nat (maximum - 1)\<rceil>"

definition sample_points :: "nat \<Rightarrow> point list \<Rightarrow> point list" where
  "sample_points maximum points =
     (let stride = sample_stride maximum (length points);
          sampled = map (\<lambda>i. rounded (points ! i))
            (filter (\<lambda>i. i mod stride = 0) [0..<length points]);
          tail = rounded (last points);
          sampled' = (if sampled = [] \<or> last sampled \<noteq> tail then sampled @ [tail] else sampled)
      in take maximum sampled')"

definition decimateStroke :: "point list \<Rightarrow> nat \<Rightarrow> point list" where
  "decimateStroke points maximum =
     (if length points \<le> 2 then map rounded points
      else case thin_loop 16 (1/250) maximum points of
        Some kept \<Rightarrow> kept
      | None \<Rightarrow> sample_points maximum points)"

definition grow_bounds :: "rat \<times> rat \<times> rat \<times> rat \<Rightarrow> point \<Rightarrow> rat \<times> rat \<times> rat \<times> rat" where
  "grow_bounds b p =
     (case b of (left, upper, right, lower) \<Rightarrow>
        (min left (fst p), min upper (snd p), max right (fst p), max lower (snd p)))"

definition pathBounds :: "point list \<Rightarrow> rendered_rectangle" where
  "pathBounds path =
     (case path of
        [] \<Rightarrow> \<lparr>rr_x = 0, rr_y = 0, rr_width = 0, rr_height = 0\<rparr>
      | first # _ \<Rightarrow>
          (case foldl grow_bounds (fst first, snd first, fst first, snd first) path of
             (left, upper, right, lower) \<Rightarrow>
               \<lparr>rr_x = left, rr_y = upper, rr_width = right - left, rr_height = lower - upper\<rparr>))"

section \<open>A text alternative\<close>

definition int_text :: "int \<Rightarrow> string" where
  "int_text i = (if i < 0 then CHR ''-'' # nat_text (nat (- i)) else nat_text (nat i))"

text \<open>\<open>Math.round\<close> rounds halves up.\<close>

definition math_round :: "rat \<Rightarrow> int" where
  "math_round v = \<lfloor>v + 1/2\<rfloor>"

definition percent :: "rat \<Rightarrow> string" where
  "percent v = int_text (math_round (v * 100)) @ ''%''"

definition describeGeometry :: "annotation_type \<Rightarrow> annotation_geometry \<Rightarrow> string" where
  "describeGeometry type g =
     (let pos = ''at '' @ percent (g_x g) @ '' across, '' @ percent (g_y g) @ '' down'';
          box = percent (or_zero (g_width g)) @ '' wide and '' @ percent (or_zero (g_height g)) @ '' tall''
      in case type of
           A_arrow \<Rightarrow>
             ''arrow from '' @ percent (g_x g) @ '' across, '' @ percent (g_y g) @ '' down to '' @
             percent (or_else (g_x2 g) (g_x g)) @ '' across, '' @
             percent (or_else (g_y2 g) (g_y g)) @ '' down''
         | A_point \<Rightarrow> ''point '' @ pos
         | A_numbered_marker \<Rightarrow> ''numbered marker '' @ pos
         | A_freehand \<Rightarrow>
             ''freehand stroke of '' @
             nat_text (case g_path g of None \<Rightarrow> 0 | Some ps \<Rightarrow> length ps) @ '' points '' @ pos @
             '', covering '' @ box
         | _ \<Rightarrow>
             annotation_type_name type @ '' '' @ pos @ '', '' @ box @
             (if g_rotation g = None \<or> g_rotation g = Some 0 then ''''
              else '', turned '' @ int_text (math_round (or_zero (g_rotation g) * 360)) @
                   '' degrees clockwise''))"

section \<open>Lemmas: the vocabulary\<close>

lemma GEOMETRY_RULES_values:
  "GEOMETRY_RULES A_rectangle =
     \<lparr>gr_version = 1, gr_required = [''x'', ''y'', ''width'', ''height''], gr_optional = [''rotation'']\<rparr>"
  "GEOMETRY_RULES A_ellipse =
     \<lparr>gr_version = 1, gr_required = [''x'', ''y'', ''width'', ''height''], gr_optional = [''rotation'']\<rparr>"
  "GEOMETRY_RULES A_arrow =
     \<lparr>gr_version = 1, gr_required = [''x'', ''y'', ''x2'', ''y2''], gr_optional = []\<rparr>"
  "GEOMETRY_RULES A_point = \<lparr>gr_version = 1, gr_required = [''x'', ''y''], gr_optional = []\<rparr>"
  "GEOMETRY_RULES A_numbered_marker =
     \<lparr>gr_version = 1, gr_required = [''x'', ''y''], gr_optional = []\<rparr>"
  "GEOMETRY_RULES A_freehand =
     \<lparr>gr_version = 1, gr_required = [''x'', ''y'', ''width'', ''height'', ''path''], gr_optional = []\<rparr>"
  by code_simp+

section \<open>Lemmas: rounding\<close>

lemma roundNormalised_ge_0: "0 \<le> roundNormalised v"
  by (simp add: roundNormalised_def)

lemma roundNormalised_le_1: "roundNormalised v \<le> 1"
proof -
  have "min 1 (max 0 v) * 10000 + 1/2 < (10001 :: rat)" by (simp add: min_def max_def)
  then have "\<lfloor>min 1 (max 0 v) * 10000 + 1/2\<rfloor> < 10001"
    by (simp add: floor_less_iff)
  then have "\<lfloor>min 1 (max 0 v) * 10000 + 1/2\<rfloor> \<le> 10000" by simp
  then have "(of_int \<lfloor>min 1 (max 0 v) * 10000 + 1/2\<rfloor> :: rat) \<le> of_int 10000"
    by (simp only: of_int_le_iff)
  then show ?thesis by (simp add: roundNormalised_def)
qed

lemmas roundNormalised_bounds = roundNormalised_ge_0 roundNormalised_le_1

lemma roundNormalised_mono: "u \<le> v \<Longrightarrow> roundNormalised u \<le> roundNormalised v"
proof -
  assume "u \<le> v"
  then have "min 1 (max 0 u) \<le> min 1 (max 0 v)" by (simp add: min_def max_def)
  then have "min 1 (max 0 u) * 10000 + 1/2 \<le> min 1 (max 0 v) * 10000 + 1/2" by simp
  then show ?thesis by (simp add: roundNormalised_def floor_mono divide_right_mono)
qed

text \<open>A point of the grid is not moved, so clamping against the far edge survives rounding.\<close>

lemma roundNormalised_grid:
  assumes "0 \<le> k" and "k \<le> 10000"
  shows "roundNormalised (of_int k / 10000) = of_int k / 10000"
proof -
  have "(of_int k :: rat) \<le> of_int 10000" using assms(2) by (simp only: of_int_le_iff)
  then have "min 1 (max 0 (of_int k / 10000)) = (of_int k / 10000 :: rat)"
    using assms(1) by (simp add: min_def max_def)
  moreover have "\<lfloor>(of_int k :: rat) + 1/2\<rfloor> = k" by linarith
  ultimately show ?thesis by (simp add: roundNormalised_def)
qed

lemma roundNormalised_far_edge:
  "roundNormalised (1 - roundNormalised v) = 1 - roundNormalised v"
proof -
  let ?k = "\<lfloor>min 1 (max 0 v) * 10000 + 1/2\<rfloor>"
  have v: "roundNormalised v = of_int ?k / 10000" by (simp add: roundNormalised_def)
  have "(of_int ?k :: rat) \<le> of_int 10000" and "(0::rat) \<le> of_int ?k"
    using roundNormalised_bounds [of v] v by simp_all
  then have k: "0 \<le> ?k" "?k \<le> 10000" by (simp_all only: of_int_le_iff of_int_0_le_iff)
  have edge: "1 - roundNormalised v = of_int (10000 - ?k) / 10000"
    unfolding v by (simp add: field_simps)
  have "roundNormalised (of_int (10000 - ?k) / 10000) = of_int (10000 - ?k) / 10000"
    by (rule roundNormalised_grid) (use k in simp_all)
  then show ?thesis by (simp only: edge)
qed

lemma roundNormalised_extent:
  "roundNormalised v + roundNormalised (min d (1 - roundNormalised v)) \<le> 1"
proof -
  have "roundNormalised (min d (1 - roundNormalised v)) \<le> roundNormalised (1 - roundNormalised v)"
    by (rule roundNormalised_mono) simp
  then show ?thesis by (simp add: roundNormalised_far_edge)
qed

lemma roundNormalised_error:
  assumes "0 \<le> v" and "v \<le> 1"
  shows "\<bar>roundNormalised v - v\<bar> \<le> 1 / 20000"
proof -
  let ?n = "of_int \<lfloor>v * 10000 + 1/2\<rfloor> :: rat"
  have n: "roundNormalised v = ?n / 10000"
    using assms by (simp add: roundNormalised_def)
  have "?n \<le> v * 10000 + 1/2" and "v * 10000 + 1/2 < ?n + 1"
    by linarith+
  then have "?n / 10000 - v \<le> 1 / 20000" and "v - ?n / 10000 \<le> 1 / 20000"
    by linarith+
  then show ?thesis unfolding n by (intro abs_leI) simp_all
qed

section \<open>Lemmas: the check\<close>

text \<open>A geometry as the object a request carries: absent members are not written.\<close>

definition point_json :: "point \<Rightarrow> json" where
  "point_json p = JObject [(''x'', JNumber (fst p)), (''y'', JNumber (snd p))]"

definition optional_member :: "string \<Rightarrow> rat option \<Rightarrow> (string \<times> json) list" where
  "optional_member m v = (case v of None \<Rightarrow> [] | Some r \<Rightarrow> [(m, JNumber r)])"

definition geometry_json :: "annotation_geometry \<Rightarrow> (string \<times> json) list" where
  "geometry_json g =
     [(''x'', JNumber (g_x g)), (''y'', JNumber (g_y g))] @
     optional_member ''width'' (g_width g) @ optional_member ''height'' (g_height g) @
     optional_member ''x2'' (g_x2 g) @ optional_member ''y2'' (g_y2 g) @
     optional_member ''rotation'' (g_rotation g) @
     (case g_path g of None \<Rightarrow> [] | Some ps \<Rightarrow> [(''path'', JArray (map point_json ps))])"

definition in_unit :: "rat \<Rightarrow> bool" where
  "in_unit v \<longleftrightarrow> 0 \<le> v \<and> v \<le> 1"

lemma in_unit_rounded [simp]: "in_unit (roundNormalised v)"
  by (simp add: in_unit_def roundNormalised_bounds)

lemma check_coordinate_number: "in_unit r \<Longrightarrow> check_coordinate m (JNumber r) = []"
  by (simp add: check_coordinate_def in_unit_def)

lemma check_point_json: "in_unit (fst p) \<Longrightarrow> in_unit (snd p) \<Longrightarrow> check_point m (point_json p) = []"
  by (simp add: check_point_def point_json_def point_members_def member_def check_coordinate_number)

lemma check_points_json:
  "\<forall>p\<in>set ps. in_unit (fst p) \<and> in_unit (snd p) \<Longrightarrow> check_points m (map point_json ps) = []"
  by (induction ps) (simp_all add: check_point_json)

lemmas check_geometry_defs =
  checkGeometryForType_def check_member_def ALL_MEMBERS_def ARRAY_MEMBERS_def
  geometry_json_def optional_member_def member_def leaves_def GEOMETRY_RULES_values
  bare_geometry_def Let_def

section \<open>Lemmas: strokes\<close>

definition in_square :: "point \<Rightarrow> bool" where
  "in_square p \<longleftrightarrow> in_unit (fst p) \<and> in_unit (snd p)"

lemma in_square_rounded [simp]: "in_square (rounded p)"
  by (simp add: in_square_def rounded_def)

lemma keep_points_in_square:
  "\<forall>p\<in>set kept. in_square p \<Longrightarrow> \<forall>p\<in>set (keep_points t kept ps). in_square p"
  by (induction t kept ps rule: keep_points.induct) (auto split: list.splits)

lemma keep_points_not_Nil: "kept \<noteq> [] \<Longrightarrow> keep_points t kept ps \<noteq> []"
  by (induction t kept ps rule: keep_points.induct) (auto split: list.splits)

lemma thin_in_square: "\<forall>p\<in>set (thin t ps). in_square p"
  using keep_points_in_square [of "[rounded (hd ps)]" t "tl (butlast ps)"] by (simp add: thin_def)

lemma thin_length_ge_2: "2 \<le> length (thin t ps)"
  using keep_points_not_Nil [of "[rounded (hd ps)]" t "tl (butlast ps)"]
  by (simp add: thin_def Suc_le_eq)

lemma thin_loop_in_square: "thin_loop k t m ps = Some qs \<Longrightarrow> \<forall>p\<in>set qs. in_square p"
  by (induction k arbitrary: t) (auto simp: Let_def thin_in_square split: if_splits)

lemma thin_loop_length: "thin_loop k t m ps = Some qs \<Longrightarrow> 2 \<le> length qs \<and> length qs \<le> m"
  by (induction k arbitrary: t) (auto simp: Let_def thin_length_ge_2 split: if_splits)

lemma thin_loop_last: "thin_loop k t m ps = Some qs \<Longrightarrow> last qs = rounded (last ps)"
  by (induction k arbitrary: t) (auto simp: Let_def thin_def split: if_splits)

text \<open>No two points of the unit square are as far apart as the largest threshold.\<close>

lemma square_apart_bound:
  assumes "in_square p" and "in_square q" and "2 < t\<^sup>2"
  shows "\<not> at_least_apart t p q"
proof -
  have "\<bar>fst p - fst q\<bar> \<le> 1" and "\<bar>snd p - snd q\<bar> \<le> 1"
    using assms by (auto simp: in_square_def in_unit_def abs_le_iff)
  then have "(fst p - fst q)\<^sup>2 \<le> 1" and "(snd p - snd q)\<^sup>2 \<le> 1"
    by (simp_all add: abs_square_le_1)
  with assms(3) show ?thesis by (simp add: at_least_apart_def)
qed

lemma keep_points_far:
  assumes "2 < t\<^sup>2" and "\<forall>p\<in>set ps. in_square p" and "in_square k"
  shows "keep_points t (k # kept) ps = k # kept"
  using assms(2) by (induction ps) (simp_all add: square_apart_bound assms)

lemma in_set_tlD: "x \<in> set (tl xs) \<Longrightarrow> x \<in> set xs"
  by (cases xs) simp_all

lemma thin_far:
  assumes "2 < t\<^sup>2" and "\<forall>p\<in>set ps. in_square p"
  shows "length (thin t ps) = 2"
proof -
  have "\<forall>p\<in>set (tl (butlast ps)). in_square p"
    using assms(2) by (auto dest: in_set_tlD in_set_butlastD)
  then show ?thesis using keep_points_far [OF assms(1)] by (simp add: thin_def)
qed

lemma thin_loop_Some_if_last:
  assumes "2 < (t * (9/5) ^ k)\<^sup>2" and "\<forall>p\<in>set ps. in_square p" and "2 \<le> m"
  shows "\<exists>qs. thin_loop (Suc k) t m ps = Some qs"
  using assms
proof (induction k arbitrary: t)
  case 0
  then show ?case using thin_far [of t ps] by (simp add: Let_def)
next
  case (Suc k)
  then have "\<exists>qs. thin_loop (Suc k) (t * (9/5)) m ps = Some qs"
    by (simp add: mult.assoc)
  then show ?case
    by (simp only: thin_loop.simps(2) [of "Suc k"] Let_def) (auto simp del: thin_loop.simps)
qed

lemma grow_bounds_tuple:
  "grow_bounds (l, u, r, b) p = (min l (fst p), min u (snd p), max r (fst p), max b (snd p))"
  by (simp add: grow_bounds_def)

lemma grow_bounds_within:
  assumes "\<forall>p\<in>set ps. in_square p"
    and "foldl grow_bounds (l, u, r, b) ps = (l', u', r', b')"
    and "in_unit l" "in_unit u" "in_unit r" "in_unit b" "l \<le> r" "u \<le> b"
  shows "in_unit l' \<and> in_unit u' \<and> in_unit r' \<and> in_unit b' \<and> l' \<le> r' \<and> u' \<le> b'"
  using assms
proof (induction ps arbitrary: l u r b)
  case Nil
  then show ?case by simp
next
  case (Cons p ps)
  have "foldl grow_bounds (min l (fst p), min u (snd p), max r (fst p), max b (snd p)) ps = (l', u', r', b')"
    using Cons.prems(2) by (simp add: grow_bounds_tuple)
  moreover have "in_square p" using Cons.prems(1) by simp
  ultimately show ?case
    using Cons.prems Cons.IH [of "min l (fst p)" "min u (snd p)" "max r (fst p)" "max b (snd p)"]
    by (simp add: in_square_def in_unit_def min_le_iff_disj le_max_iff_disj)
qed

lemma grow_bounds_contains:
  assumes "foldl grow_bounds (l, u, r, b) ps = (l', u', r', b')"
  shows "l' \<le> l \<and> u' \<le> u \<and> r \<le> r' \<and> b \<le> b' \<and>
     (\<forall>p\<in>set ps. l' \<le> fst p \<and> fst p \<le> r' \<and> u' \<le> snd p \<and> snd p \<le> b')"
  using assms
proof (induction ps arbitrary: l u r b)
  case Nil
  then show ?case by simp
next
  case (Cons p ps)
  have "foldl grow_bounds (min l (fst p), min u (snd p), max r (fst p), max b (snd p)) ps = (l', u', r', b')"
    using Cons.prems by (simp add: grow_bounds_tuple)
  from Cons.IH [OF this] show ?case by auto
qed

lemma sample_points_in_square: "\<forall>p\<in>set (sample_points m ps). in_square p"
  by (auto simp: sample_points_def Let_def dest!: in_set_takeD split: if_splits)

lemma sample_points_length_le: "length (sample_points m ps) \<le> m"
  by (simp add: sample_points_def Let_def)

lemma ceiling_quotient_less:
  assumes "2 \<le> n" and "2 \<le> d"
  shows "nat \<lceil>(of_nat n :: rat) / of_nat d\<rceil> < n"
proof -
  have "(of_nat n :: rat) / of_nat d \<le> of_nat n / 2"
    using assms(2) by (intro divide_left_mono) simp_all
  moreover have "(of_nat n :: rat) / 2 \<le> of_nat n - 1"
    using assms(1) of_nat_le_iff [of 2 n, where ?'a = rat] by simp
  ultimately have "(of_nat n :: rat) / of_nat d \<le> of_int (int n - 1)"
    by (simp only: of_int_diff of_int_of_nat_eq of_int_1)
  then have "\<lceil>(of_nat n :: rat) / of_nat d\<rceil> \<le> int n - 1"
    by (rule ceiling_le)
  with assms(1) show ?thesis by linarith
qed

lemma two_members_length: "{i, j} \<subseteq> set xs \<Longrightarrow> i \<noteq> j \<Longrightarrow> 2 \<le> length xs"
  by (cases xs; cases "tl xs") auto

lemma sample_points_length_ge_2:
  assumes "2 \<le> length ps" and "3 \<le> m"
  shows "2 \<le> length (sample_points m ps)"
proof -
  let ?stride = "sample_stride m (length ps)"
  have less: "?stride < length ps"
    unfolding sample_stride_def by (rule ceiling_quotient_less) (use assms in simp_all)
  have "0 < (of_nat (length ps) :: rat) / of_nat (m - 1)"
    using assms by (intro divide_pos_pos) auto
  then have pos: "0 < ?stride" by (simp add: sample_stride_def)
  have "{0, ?stride} \<subseteq> set (filter (\<lambda>i. i mod ?stride = 0) [0..<length ps])"
    using less pos by auto
  then have "2 \<le> length (filter (\<lambda>i. i mod ?stride = 0) [0..<length ps])"
    using pos by (intro two_members_length [of 0 ?stride]) simp_all
  then show ?thesis
    using assms(2) by (auto simp: sample_points_def Let_def)
qed

lemma decimateStroke_in_square: "\<forall>p\<in>set (decimateStroke ps m). in_square p"
  by (auto simp: decimateStroke_def thin_loop_in_square sample_points_in_square split: option.split
      dest: bspec [OF thin_loop_in_square] bspec [OF sample_points_in_square])

lemma decimateStroke_length:
  assumes "2 \<le> length ps" and "3 \<le> m"
  shows "2 \<le> length (decimateStroke ps m) \<and> length (decimateStroke ps m) \<le> m"
  using assms sample_points_length_le [of m ps] sample_points_length_ge_2 [OF assms]
  by (auto simp: decimateStroke_def split: option.split dest: thin_loop_length)

text \<open>The geometry a freehand stroke is recorded with: the thinned path and its bounding box.\<close>

definition stroke_geometry :: "point list \<Rightarrow> annotation_geometry" where
  "stroke_geometry points =
     (let path = decimateStroke points path_maximum; b = pathBounds path in
      (bare_geometry (rr_x b) (rr_y b))
        \<lparr>g_width := Some (rr_width b), g_height := Some (rr_height b), g_path := Some path\<rparr>)"

lemma pathBounds_in_unit:
  assumes "\<forall>p\<in>set ps. in_square p"
  shows "in_unit (rr_x (pathBounds ps)) \<and> in_unit (rr_y (pathBounds ps)) \<and>
     in_unit (rr_width (pathBounds ps)) \<and> in_unit (rr_height (pathBounds ps)) \<and>
     rr_x (pathBounds ps) + rr_width (pathBounds ps) \<le> 1 \<and>
     rr_y (pathBounds ps) + rr_height (pathBounds ps) \<le> 1"
proof (cases ps)
  case Nil
  then show ?thesis by (simp add: pathBounds_def in_unit_def)
next
  case (Cons p qs)
  obtain l u r b where f: "foldl grow_bounds (fst p, snd p, fst p, snd p) ps = (l, u, r, b)"
    by (metis prod_cases4)
  have "in_square p" using assms Cons by simp
  then have "in_unit l \<and> in_unit u \<and> in_unit r \<and> in_unit b \<and> l \<le> r \<and> u \<le> b"
    using grow_bounds_within [OF assms f] by (simp add: in_square_def)
  moreover have "pathBounds ps = \<lparr>rr_x = l, rr_y = u, rr_width = r - l, rr_height = b - u\<rparr>"
    using Cons f by (simp add: pathBounds_def)
  ultimately show ?thesis by (simp add: in_unit_def)
qed

section \<open>Properties\<close>

text \<open>the producer and the validator agree. The geometry built from any drag, for every
  shape that is drawn with a drag, passes the check of its own type: rounding never pushes
  a mark drawn on the edge outside the content rectangle.
\<close>

theorem geometryForDrag_valid:
  assumes "type \<noteq> A_freehand"
  shows "checkGeometryForType type (geometry_json (geometryForDrag type from to)) = []"
  using assms roundNormalised_extent [of "min (fst from) (fst to)"]
    roundNormalised_extent [of "min (snd from) (snd to)"]
  by (cases type)
     (simp_all add: check_geometry_defs geometryForDrag_def check_coordinate_number not_less)

theorem geometryForDrag_valid_witness:
  "checkGeometryForType A_rectangle
     (geometry_json (geometryForDrag A_rectangle (9/10, 9/10) (3/2, 99999/100000))) = []"
  by (rule geometryForDrag_valid) simp

text \<open>every freehand stroke of at least two samples, however long and wherever its samples
  lie, is recorded with a geometry the protocol accepts: 2 to 128 points, all normalised,
  inside a bounding box that stays in the content rectangle.
\<close>

theorem stroke_geometry_valid:
  assumes "2 \<le> length points"
  shows "checkGeometryForType A_freehand (geometry_json (stroke_geometry points)) = []"
proof -
  let ?path = "decimateStroke points path_maximum"
  have len: "2 \<le> length ?path \<and> length ?path \<le> 128"
    using decimateStroke_length [OF assms, of path_maximum] by (simp add: path_maximum_def)
  have sq: "\<forall>p\<in>set ?path. in_square p" by (rule decimateStroke_in_square)
  then have "check_points ''path'' (map point_json ?path) = []"
    by (intro check_points_json) (auto simp: in_square_def)
  then have "checkPath ''path'' (JArray (map point_json ?path)) = []"
    using len by (simp add: checkPath_def path_minimum_def path_maximum_def)
  with pathBounds_in_unit [OF sq] show ?thesis
    by (simp add: check_geometry_defs stroke_geometry_def check_coordinate_number not_less)
qed

theorem stroke_geometry_valid_witness:
  "checkGeometryForType A_freehand (geometry_json (stroke_geometry [(0, 0), (2, 1/3), (1/2, 1)])) = []"
  by (rule stroke_geometry_valid) simp

text \<open>C40: the even-sampling tail of the decimation is dead code for a stroke inside the content
  rectangle: within sixteen attempts the threshold outgrows the diagonal, so the thinning
  loop itself returns, for every bound of at least two points.
\<close>

theorem decimation_guard_unreachable:
  assumes "\<forall>p\<in>set points. in_square p" and "2 \<le> maximum"
  shows "\<exists>kept. thin_loop 16 (1/250) maximum points = Some kept \<and> length kept \<le> maximum"
proof -
  have "(2::rat) < (1/250 * (9/5) ^ 15)\<^sup>2" by (simp add: power2_eq_square eval_nat_numeral)
  from thin_loop_Some_if_last [OF this assms] obtain kept
    where "thin_loop (Suc 15) (1/250) maximum points = Some kept" by blast
  then show ?thesis using thin_loop_length by (auto simp del: thin_loop.simps)
qed

theorem decimation_guard_unreachable_witness:
  "\<exists>kept. thin_loop 16 (1/250) 2 [(0, 0), (1/2, 1/2), (1, 1)] = Some kept \<and> length kept \<le> 2"
  by (rule decimation_guard_unreachable) (simp_all add: in_square_def in_unit_def)

text \<open>rendering and normalising are inverse to each other on every rectangle with a
  positive extent, in both directions.
\<close>

theorem render_normalise_inverse:
  assumes "0 < rr_width r" and "0 < rr_height r"
  shows "toNormalisedPoint (toRenderedPoint p r) r = p \<and>
     toRenderedPoint (toNormalisedPoint q r) r = q"
  using assms by (simp add: toNormalisedPoint_def toRenderedPoint_def)

theorem render_normalise_inverse_witness:
  "toNormalisedPoint (toRenderedPoint (1/4, 1/3) \<lparr>rr_x = 8, rr_y = 0, rr_width = 390, rr_height = 844\<rparr>)
      \<lparr>rr_x = 8, rr_y = 0, rr_width = 390, rr_height = 844\<rparr> = (1/4, 1/3)"
  using render_normalise_inverse [of "\<lparr>rr_x = 8, rr_y = 0, rr_width = 390, rr_height = 844\<rparr>" "(1/4, 1/3)"]
  by simp

text \<open>an image contained in a box keeps its aspect ratio, lies inside the box, is centred
  in it, and fills it in at least one direction.
\<close>

theorem contained_rectangle_fits:
  assumes "0 < bw" "0 < bh" "0 < w" "0 < h"
  shows "let r = containedContentRectangle bw bh w h in
     rr_width r * h = rr_height r * w \<and>
     0 \<le> rr_x r \<and> 0 \<le> rr_y r \<and>
     2 * rr_x r + rr_width r = bw \<and> 2 * rr_y r + rr_height r = bh \<and>
     (rr_width r = bw \<or> rr_height r = bh)"
proof -
  let ?s = "min (bw / w) (bh / h)"
  have r: "containedContentRectangle bw bh w h =
      \<lparr>rr_x = (bw - w * ?s) / 2, rr_y = (bh - h * ?s) / 2, rr_width = w * ?s, rr_height = h * ?s\<rparr>"
    using assms by (simp add: containedContentRectangle_def Let_def)
  have "w * ?s \<le> w * (bw / w)" and "h * ?s \<le> h * (bh / h)"
    using assms by (intro mult_left_mono; simp)+
  then have "w * ?s \<le> bw" and "h * ?s \<le> bh" using assms by simp_all
  moreover have "w * ?s = bw \<or> h * ?s = bh" using assms by (simp add: min_def)
  ultimately show ?thesis by (simp add: r Let_def field_simps)
qed

theorem contained_rectangle_fits_witness:
  "rr_x (containedContentRectangle 1000 900 390 844) * 2 +
     rr_width (containedContentRectangle 1000 900 390 844) = 1000"
  using contained_rectangle_fits [of 1000 900 390 844] by (simp add: Let_def)

end
