(* ===== verification/Review_Store.thy ===== *)
theory Review_Store
  imports Events Annotation_Geometry
begin

text \<open>
  The tables the review service works on (\<open>apps/server/migrations\<close>) and the projections that
  turn a row into the record a caller or an event payload receives
  (\<open>apps/server/src/modules/reviews/service.ts\<close>, the functions \<open>to...\<close>). A table is a list of
  rows in insertion order. The three columns a row keeps for an actor (type, identifier,
  display name) are one \<open>event_actor\<close>. Primary keys and the partial unique indexes the service
  relies on are checked by the inserts and the updates of this theory; column types and the
  shape checks the request validators already enforce are not.
\<close>

section \<open>Rows\<close>

record review_row =
  rv_id :: string
  rv_organisation_id :: string
  rv_project_id :: string
  rv_slug :: string
  rv_title :: string
  rv_description :: "string option"
  rv_status :: review_status
  rv_priority :: "string option"
  rv_version :: nat
  rv_created_by :: event_actor
  rv_assigned_user_id :: "string option"
  rv_assigned_agent_session_id :: "string option"
  rv_captured_branch :: string
  rv_captured_commit :: string
  rv_captured_workspace_id :: string
  rv_source_browser_session_id :: "string option"
  rv_created_at :: nat
  rv_updated_at :: nat
  rv_closed_at :: "nat option"
  rv_reopen_count :: nat
  rv_accepted_at :: "nat option"
  rv_accepted_by :: "event_actor option"

record finding_row =
  fd_id :: string
  fd_organisation_id :: string
  fd_project_id :: string
  fd_review_id :: string
  fd_title :: string
  fd_description :: "string option"
  fd_severity :: string
  fd_status :: finding_status
  fd_source :: finding_source
  fd_version :: nat
  fd_created_by :: event_actor
  fd_claimed_by :: "event_actor option"
  fd_url :: string
  fd_viewport :: json
  fd_scroll_position :: json
  fd_captured_commit :: string
  fd_screenshot_artefact_id :: string
  fd_element_context :: "json option"
  fd_acceptance_criteria :: "string option"
  fd_resolution_note :: "string option"
  fd_created_at :: nat
  fd_updated_at :: nat
  fd_resolved_at :: "nat option"
  fd_resolved_by :: "event_actor option"
  fd_disposition_reason :: "string option"
  fd_duplicate_of :: "string option"
  fd_reopen_count :: nat

record annotation_row =
  an_id :: string
  an_revision :: nat
  an_organisation_id :: string
  an_project_id :: string
  an_finding_id :: string
  an_artefact_id :: string
  an_type :: annotation_type
  an_geometry :: json
  an_geometry_version :: nat
  an_label :: string
  an_marker_number :: "nat option"
  an_style_hint :: string
  an_created_by :: event_actor
  an_created_at :: nat
  an_deleted_at :: "nat option"

record comment_row =
  cm_id :: string
  cm_organisation_id :: string
  cm_project_id :: string
  cm_review_id :: string
  cm_finding_id :: "string option"
  cm_body :: string
  cm_revision :: nat
  cm_supersedes_comment_id :: "string option"
  cm_superseded_at :: "nat option"
  cm_created_by :: event_actor
  cm_created_at :: nat

datatype verification_status = Submitted | Accepted | Rejected | Superseded

fun verification_status_name :: "verification_status \<Rightarrow> string" where
  "verification_status_name Submitted = ''submitted''"
| "verification_status_name Accepted = ''accepted''"
| "verification_status_name Rejected = ''rejected''"
| "verification_status_name Superseded = ''superseded''"

record verification_row =
  vf_id :: string
  vf_organisation_id :: string
  vf_project_id :: string
  vf_review_id :: string
  vf_finding_id :: string
  vf_status :: verification_status
  vf_summary :: string
  vf_branch :: string
  vf_commit_sha :: string
  vf_tested_viewports :: "viewport list"
  vf_checks :: verification_checks
  vf_submitted_by :: event_actor
  vf_submitted_at :: nat
  vf_reviewed_at :: "nat option"
  vf_reviewed_by :: "(actor_type \<times> string option) option"
  vf_supersedes :: "string option"
  vf_superseded_at :: "nat option"
  vf_superseded_by :: "string option"

datatype artefact_role = Before | After | Supporting

record verification_artefact_row =
  va_verification_id :: string
  va_artefact_id :: string
  va_role :: artefact_role
  va_position :: nat

datatype inbox_status = Pending | Acknowledged | Completed_item | Dismissed | Expired

fun inbox_status_name :: "inbox_status \<Rightarrow> string" where
  "inbox_status_name Pending = ''pending''"
| "inbox_status_name Acknowledged = ''acknowledged''"
| "inbox_status_name Completed_item = ''completed''"
| "inbox_status_name Dismissed = ''dismissed''"
| "inbox_status_name Expired = ''expired''"

datatype inbox_type = Review_assigned | Finding_reopened

fun inbox_type_name :: "inbox_type \<Rightarrow> string" where
  "inbox_type_name Review_assigned = ''review_assigned''"
| "inbox_type_name Finding_reopened = ''finding_reopened''"

datatype recipient_type = To_human_user | To_agent_session

fun recipient_type_name :: "recipient_type \<Rightarrow> string" where
  "recipient_type_name To_human_user = ''human_user''"
| "recipient_type_name To_agent_session = ''agent_session''"

text \<open>The members of the inbox payload column are columns of their own here.\<close>

record inbox_row =
  in_id :: string
  in_organisation_id :: string
  in_project_id :: string
  in_recipient_type :: recipient_type
  in_recipient_id :: "string option"
  in_type :: inbox_type
  in_title :: string
  in_status :: inbox_status
  in_review_id :: "string option"
  in_finding_id :: "string option"
  in_review_slug :: "string option"
  in_priority :: "string option"
  in_finding_count :: "nat option"
  in_finding_source :: "string option"
  in_created_by :: event_actor
  in_created_at :: nat
  in_acknowledged_at :: "nat option"
  in_completed_at :: "nat option"
  in_expires_at :: "nat option"

record artefact_row =
  ar_id :: string
  ar_organisation_id :: string
  ar_project_id :: string
  ar_kind :: string
  ar_state :: string
  ar_browser_session_id :: "string option"
  ar_deleted_at :: "nat option"

record project_row =
  pr_id :: string
  pr_organisation_id :: string
  pr_settings :: project_settings

text \<open>Users, agent sessions and browser sessions are read only for their tenant.\<close>

record review_db = event_store +
  d_reviews :: "review_row list"
  d_findings :: "finding_row list"
  d_annotations :: "annotation_row list"
  d_comments :: "comment_row list"
  d_verifications :: "verification_row list"
  d_verification_artefacts :: "verification_artefact_row list"
  d_inbox :: "inbox_row list"
  d_artefacts :: "artefact_row list"
  d_projects :: "project_row list"
  d_users :: "(string \<times> string) list"
  d_agent_sessions :: "(string \<times> string \<times> string) list"
  d_browser_sessions :: "(string \<times> string) list"
  d_store_readable :: bool

text \<open>The tenant a caller is confined to.\<close>

record scope =
  sc_organisation_id :: string
  sc_project_id :: string

section \<open>Projections\<close>

definition num :: "nat \<Rightarrow> json" where
  "num n = JNumber (of_nat n)"

definition timestamp :: "nat \<Rightarrow> json" where
  "timestamp t = JString (toISOString t)"

definition eventActor :: "event_actor \<Rightarrow> json" where
  "eventActor a =
     JObject ([(''type'', JString (actor_type_name (act_type a)))] @
       opt_member ''id'' JString (act_id a) @ opt_member ''display'' JString (act_display a))"

fun finding_source_name :: "finding_source \<Rightarrow> string" where
  "finding_source_name Human = ''human''"
| "finding_source_name Agent = ''agent''"

definition viewport_json :: "viewport \<Rightarrow> json" where
  "viewport_json v =
     JObject ([(''width'', num (vp_width v)), (''height'', num (vp_height v))] @
       opt_member ''device_scale_factor'' JNumber (vp_scale v))"

definition checks_json :: "verification_checks \<Rightarrow> json" where
  "checks_json c =
     JObject ([(''reproduced_before'', JBool (reproduced_before c)),
               (''console_errors_reviewed'', JBool (console_errors_reviewed c)),
               (''network_failures_reviewed'', JBool (network_failures_reviewed c))] @
       opt_member ''accessibility_checked'' JBool (accessibility_checked c))"

definition toReview :: "review_row \<Rightarrow> nat option \<Rightarrow> json" where
  "toReview r findingCount =
     JObject
      ([(''id'', JString (rv_id r)), (''organisation_id'', JString (rv_organisation_id r)),
        (''project_id'', JString (rv_project_id r)), (''slug'', JString (rv_slug r)),
        (''title'', JString (rv_title r))] @
       opt_member ''description'' JString (rv_description r) @
       [(''status'', JString (review_status_name (rv_status r)))] @
       opt_member ''priority'' JString (rv_priority r) @
       [(''version'', num (rv_version r)), (''created_by'', eventActor (rv_created_by r))] @
       opt_member ''assigned_user_id'' JString (rv_assigned_user_id r) @
       opt_member ''assigned_agent_session_id'' JString (rv_assigned_agent_session_id r) @
       [(''reopen_count'', num (rv_reopen_count r)),
        (''captured_branch'', JString (rv_captured_branch r)),
        (''captured_commit'', JString (rv_captured_commit r)),
        (''captured_workspace_id'', JString (rv_captured_workspace_id r)),
        (''source_browser_session_id'',
           JString (case rv_source_browser_session_id r of None \<Rightarrow> '''' | Some b \<Rightarrow> b))] @
       opt_member ''finding_count'' num findingCount @
       [(''created_at'', timestamp (rv_created_at r)), (''updated_at'', timestamp (rv_updated_at r))] @
       opt_member ''closed_at'' timestamp (rv_closed_at r))"

definition toFinding :: "finding_row \<Rightarrow> nat option \<Rightarrow> json" where
  "toFinding f annotationCount =
     JObject
      ([(''id'', JString (fd_id f)), (''organisation_id'', JString (fd_organisation_id f)),
        (''project_id'', JString (fd_project_id f)), (''review_id'', JString (fd_review_id f)),
        (''title'', JString (fd_title f))] @
       opt_member ''description'' JString (fd_description f) @
       [(''severity'', JString (fd_severity f)),
        (''status'', JString (finding_status_name (fd_status f))),
        (''source'', JString (finding_source_name (fd_source f))),
        (''version'', num (fd_version f)), (''created_by'', eventActor (fd_created_by f)),
        (''url'', JString (fd_url f)), (''viewport'', fd_viewport f),
        (''scroll_position'', fd_scroll_position f),
        (''captured_commit'', JString (fd_captured_commit f)),
        (''screenshot_artefact_id'', JString (fd_screenshot_artefact_id f))] @
       opt_member ''element_context'' (\<lambda>c. c) (fd_element_context f) @
       opt_member ''acceptance_criteria'' JString (fd_acceptance_criteria f) @
       opt_member ''claimed_by'' eventActor (fd_claimed_by f) @
       opt_member ''annotation_count'' num annotationCount @
       [(''created_at'', timestamp (fd_created_at f)), (''updated_at'', timestamp (fd_updated_at f))])"

definition toAnnotation :: "annotation_row \<Rightarrow> json" where
  "toAnnotation a =
     JObject
      ([(''id'', JString (an_id a)), (''organisation_id'', JString (an_organisation_id a)),
        (''project_id'', JString (an_project_id a)), (''finding_id'', JString (an_finding_id a)),
        (''artefact_id'', JString (an_artefact_id a)),
        (''type'', JString (annotation_type_name (an_type a))), (''geometry'', an_geometry a),
        (''geometry_version'', num (an_geometry_version a)), (''label'', JString (an_label a))] @
       opt_member ''marker_number'' num (an_marker_number a) @
       [(''style_hint'', JString (an_style_hint a)), (''revision'', num (an_revision a)),
        (''created_by'', eventActor (an_created_by a)), (''created_at'', timestamp (an_created_at a))] @
       opt_member ''deleted_at'' timestamp (an_deleted_at a))"

definition toComment :: "comment_row \<Rightarrow> json" where
  "toComment c =
     JObject
      ([(''id'', JString (cm_id c)), (''organisation_id'', JString (cm_organisation_id c)),
        (''project_id'', JString (cm_project_id c)), (''review_id'', JString (cm_review_id c))] @
       opt_member ''finding_id'' JString (cm_finding_id c) @
       [(''body'', JString (cm_body c)), (''created_by'', eventActor (cm_created_by c)),
        (''revision'', num (cm_revision c))] @
       opt_member ''supersedes_comment_id'' JString (cm_supersedes_comment_id c) @
       opt_member ''superseded_at'' timestamp (cm_superseded_at c) @
       [(''created_at'', timestamp (cm_created_at c))])"

definition toVerification ::
  "verification_row \<Rightarrow> string list \<Rightarrow> string option \<Rightarrow> string option \<Rightarrow> json" where
  "toVerification v artefactIds beforeArtefactId afterArtefactId =
     JObject
      ([(''verification_id'', JString (vf_id v)), (''finding_id'', JString (vf_finding_id v)),
        (''status'', JString (verification_status_name (vf_status v))),
        (''submitted_by'', eventActor (vf_submitted_by v)), (''summary'', JString (vf_summary v)),
        (''branch'', JString (vf_branch v)), (''commit'', JString (vf_commit_sha v))] @
       opt_member ''before_artefact_id'' JString beforeArtefactId @
       opt_member ''after_artefact_id'' JString afterArtefactId @
       [(''tested_viewports'', JArray (map viewport_json (vf_tested_viewports v))),
        (''checks'', checks_json (vf_checks v)),
        (''artefact_ids'', JArray (map JString artefactIds)),
        (''submitted_at'', timestamp (vf_submitted_at v))] @
       opt_member ''reviewed_at'' timestamp (vf_reviewed_at v) @
       opt_member ''supersedes_verification_id'' JString (vf_supersedes v) @
       opt_member ''superseded_by_verification_id'' JString (vf_superseded_by v) @
       opt_member ''superseded_at'' timestamp (vf_superseded_at v))"

section \<open>Tables\<close>

definition in_tenant :: "scope \<Rightarrow> string \<Rightarrow> string \<Rightarrow> bool" where
  "in_tenant sc org proj \<longleftrightarrow> org = sc_organisation_id sc \<and> proj = sc_project_id sc"

definition review_in :: "scope \<Rightarrow> string \<Rightarrow> review_row \<Rightarrow> bool" where
  "review_in sc rid r \<longleftrightarrow> rv_id r = rid \<and> in_tenant sc (rv_organisation_id r) (rv_project_id r)"

definition finding_in :: "scope \<Rightarrow> string \<Rightarrow> finding_row \<Rightarrow> bool" where
  "finding_in sc fid f \<longleftrightarrow> fd_id f = fid \<and> in_tenant sc (fd_organisation_id f) (fd_project_id f)"

definition annotation_in :: "scope \<Rightarrow> string \<Rightarrow> annotation_row \<Rightarrow> bool" where
  "annotation_in sc aid a \<longleftrightarrow> an_id a = aid \<and> in_tenant sc (an_organisation_id a) (an_project_id a)"

definition comment_in :: "scope \<Rightarrow> string \<Rightarrow> comment_row \<Rightarrow> bool" where
  "comment_in sc cid c \<longleftrightarrow> cm_id c = cid \<and> in_tenant sc (cm_organisation_id c) (cm_project_id c)"

definition claim_in :: "scope \<Rightarrow> string \<Rightarrow> verification_row \<Rightarrow> bool" where
  "claim_in sc fid v \<longleftrightarrow>
     vf_finding_id v = fid \<and> in_tenant sc (vf_organisation_id v) (vf_project_id v)"

text \<open>
  The partial unique index \<open>reviews_active_slug_unique\<close>: one slug per project among the reviews
  that are neither cancelled nor archived.
\<close>

definition slug_indexed :: "review_row \<Rightarrow> bool" where
  "slug_indexed r \<longleftrightarrow> rv_status r \<notin> {R_CANCELLED, R_ARCHIVED}"

definition slugs_unique :: "review_row list \<Rightarrow> bool" where
  "slugs_unique rows =
     distinct (map (\<lambda>r. (rv_project_id r, rv_slug r)) (filter slug_indexed rows))"

text \<open>The partial unique index \<open>verifications_one_current_per_finding\<close>.\<close>

definition one_current :: "verification_row list \<Rightarrow> bool" where
  "one_current rows =
     distinct (map vf_finding_id (filter (\<lambda>v. vf_status v = Submitted) rows))"

text \<open>The partial unique index \<open>comments_one_successor_per_revision\<close>.\<close>

definition one_successor :: "comment_row list \<Rightarrow> bool" where
  "one_successor rows =
     distinct (map cm_supersedes_comment_id
       (filter (\<lambda>c. cm_supersedes_comment_id c \<noteq> None) rows))"

text \<open>
  A write returns the database with the new table, or the constraint it violates. The commands
  below are the \<open>INSERT\<close> and \<open>UPDATE\<close> statements of the service.
\<close>

definition store_reviews :: "review_row list \<Rightarrow> review_db \<Rightarrow> store_failure + review_db" where
  "store_reviews rows db =
     r_then (refuse_if (\<not> distinct (map rv_id rows)) (Unique_violation ''reviews_pkey''))
     (r_then (refuse_if (\<not> slugs_unique rows) (Unique_violation ''reviews_active_slug_unique''))
     (Inr (db\<lparr>d_reviews := rows\<rparr>)))"

definition store_findings :: "finding_row list \<Rightarrow> review_db \<Rightarrow> store_failure + review_db" where
  "store_findings rows db =
     r_then (refuse_if (\<not> distinct (map fd_id rows)) (Unique_violation ''findings_pkey''))
     (Inr (db\<lparr>d_findings := rows\<rparr>))"

definition store_annotations :: "annotation_row list \<Rightarrow> review_db \<Rightarrow> store_failure + review_db" where
  "store_annotations rows db =
     r_then (refuse_if (\<not> distinct (map (\<lambda>a. (an_id a, an_revision a)) rows))
       (Unique_violation ''annotations_pkey''))
     (Inr (db\<lparr>d_annotations := rows\<rparr>))"

text \<open>
  The check \<open>comments_body_non_empty\<close>: \<open>length(btrim(body)) > 0\<close>. The service leaves a blank body to
  the database, so a write of one fails here.
\<close>

definition blank_body :: "string \<Rightarrow> bool" where
  "blank_body body \<longleftrightarrow> list_all (\<lambda>c. c = CHR '' '') body"

definition store_comments :: "comment_row list \<Rightarrow> review_db \<Rightarrow> store_failure + review_db" where
  "store_comments rows db =
     r_then (refuse_if (list_ex (\<lambda>c. blank_body (cm_body c)) rows) (Check_violation ''comments_body_non_empty''))
     (r_then (refuse_if (\<not> distinct (map cm_id rows)) (Unique_violation ''comments_pkey''))
     (r_then (refuse_if (\<not> one_successor rows)
       (Unique_violation ''comments_one_successor_per_revision''))
     (Inr (db\<lparr>d_comments := rows\<rparr>))))"

definition store_verifications :: "verification_row list \<Rightarrow> review_db \<Rightarrow> store_failure + review_db" where
  "store_verifications rows db =
     r_then (refuse_if (\<not> distinct (map vf_id rows)) (Unique_violation ''verifications_pkey''))
     (r_then (refuse_if (\<not> one_current rows)
       (Unique_violation ''verifications_one_current_per_finding''))
     (Inr (db\<lparr>d_verifications := rows\<rparr>)))"

definition store_verification_artefacts ::
  "verification_artefact_row list \<Rightarrow> review_db \<Rightarrow> store_failure + review_db" where
  "store_verification_artefacts rows db =
     r_then (refuse_if (\<not> distinct (map (\<lambda>a. (va_verification_id a, va_artefact_id a)) rows))
       (Unique_violation ''verification_artefacts_pkey''))
     (Inr (db\<lparr>d_verification_artefacts := rows\<rparr>))"

text \<open>An event of a scope, with the defaults every call of the service uses.\<close>

definition scoped_event ::
  "scope \<Rightarrow> event_actor \<Rightarrow> string \<Rightarrow> (string \<times> json) list \<Rightarrow> (string \<times> json) list \<Rightarrow> append_input" where
  "scoped_event sc actor type correlation payload =
     \<lparr>ai_type = type, ai_organisation_id = sc_organisation_id sc,
      ai_project_id = Some (sc_project_id sc), ai_actor = actor,
      ai_correlation = correlation, ai_payload = payload,
      ai_occurred_at = None, ai_enqueue_outbox = True\<rparr>"

section \<open>Lemmas\<close>

text \<open>Two rows with one key are one row.\<close>

lemma distinct_key_unique:
  "distinct (map key t) \<Longrightarrow> r \<in> set t \<Longrightarrow> r' \<in> set t \<Longrightarrow> key r = key r' \<Longrightarrow> r = r'"
  by (metis distinct_map inj_onD)

lemma find_key_unique:
  assumes "distinct (map key t)" "r \<in> set t" "p r" "\<And>q. q \<in> set t \<Longrightarrow> p q \<Longrightarrow> key q = key r"
  shows "List.find p t = Some r"
proof -
  obtain q where q: "List.find p t = Some q"
    using assms(2,3) by (cases "List.find p t") (auto simp: find_None_iff)
  with find_Some_in [OF q] assms show ?thesis by (metis distinct_key_unique)
qed

lemma input_stream_scoped_event [simp]:
  "input_stream (scoped_event sc a t c p) = sc_project_id sc"
  "ai_type (scoped_event sc a t c p) = t" "ai_actor (scoped_event sc a t c p) = a"
  "ai_payload (scoped_event sc a t c p) = p" "ai_correlation (scoped_event sc a t c p) = c"
  by (simp_all add: scoped_event_def input_stream_def)

text \<open>An append touches none of the tables of this theory.\<close>

definition same_tables :: "review_db \<Rightarrow> review_db \<Rightarrow> bool" where
  "same_tables db db' \<longleftrightarrow> event_store.more db = event_store.more db'"

lemma same_tables_iff:
  "same_tables db db' \<longleftrightarrow>
     d_reviews db = d_reviews db' \<and> d_findings db = d_findings db' \<and>
     d_annotations db = d_annotations db' \<and> d_comments db = d_comments db' \<and>
     d_verifications db = d_verifications db' \<and>
     d_verification_artefacts db = d_verification_artefacts db' \<and>
     d_inbox db = d_inbox db' \<and> d_artefacts db = d_artefacts db' \<and>
     d_projects db = d_projects db' \<and> d_users db = d_users db' \<and>
     d_agent_sessions db = d_agent_sessions db' \<and> d_browser_sessions db = d_browser_sessions db' \<and>
     d_store_readable db = d_store_readable db'"
  by (cases db, cases db') (auto simp: same_tables_def)

lemma same_tables_appendEvents: "appendEvents is db = Inr db' \<Longrightarrow> same_tables db' db"
  by (metis appendEvents_Inr fold_appended_more same_tables_def)

lemma same_tables_newId: "newId p db = (i, db') \<Longrightarrow> same_tables db' db"
  by (auto simp: newId_def same_tables_def)

text \<open>What a successful write is: the constraints of the table, and the new table.\<close>

lemma store_reviews_Inr [result_simps]:
  "store_reviews rows db = Inr db' \<longleftrightarrow>
     distinct (map rv_id rows) \<and> slugs_unique rows \<and> db' = db\<lparr>d_reviews := rows\<rparr>"
  by (auto simp: store_reviews_def result_simps)

lemma store_findings_Inr [result_simps]:
  "store_findings rows db = Inr db' \<longleftrightarrow>
     distinct (map fd_id rows) \<and> db' = db\<lparr>d_findings := rows\<rparr>"
  by (auto simp: store_findings_def result_simps)

lemma store_annotations_Inr [result_simps]:
  "store_annotations rows db = Inr db' \<longleftrightarrow>
     distinct (map (\<lambda>a. (an_id a, an_revision a)) rows) \<and> db' = db\<lparr>d_annotations := rows\<rparr>"
  by (auto simp: store_annotations_def result_simps)

lemma store_comments_Inr [result_simps]:
  "store_comments rows db = Inr db' \<longleftrightarrow>
     list_all (\<lambda>c. \<not> blank_body (cm_body c)) rows \<and> distinct (map cm_id rows) \<and> one_successor rows \<and>
     db' = db\<lparr>d_comments := rows\<rparr>"
  by (auto simp: store_comments_def result_simps list_all_iff list_ex_iff)

lemma store_verifications_Inr [result_simps]:
  "store_verifications rows db = Inr db' \<longleftrightarrow>
     distinct (map vf_id rows) \<and> one_current rows \<and> db' = db\<lparr>d_verifications := rows\<rparr>"
  by (auto simp: store_verifications_def result_simps)

lemma store_verification_artefacts_Inr [result_simps]:
  "store_verification_artefacts rows db = Inr db' \<longleftrightarrow>
     distinct (map (\<lambda>a. (va_verification_id a, va_artefact_id a)) rows) \<and>
     db' = db\<lparr>d_verification_artefacts := rows\<rparr>"
  by (auto simp: store_verification_artefacts_def result_simps)

section \<open>What an operation adds to the log\<close>

text \<open>
  \<open>logged sc actor db db'\<close>: the log of \<open>db'\<close> is the log of \<open>db\<close> followed by events of the
  scope's project, in the actor's name; the clock and the random source are the same.
\<close>

definition in_name_of :: "scope \<Rightarrow> event_actor \<Rightarrow> event_row \<Rightarrow> bool" where
  "in_name_of sc actor e \<longleftrightarrow>
     e_stream_key e = sc_project_id sc \<and> e_organisation_id e = sc_organisation_id sc \<and>
     e_project_id e = Some (sc_project_id sc) \<and> e_actor e = actor"

definition logged :: "scope \<Rightarrow> event_actor \<Rightarrow> review_db \<Rightarrow> review_db \<Rightarrow> bool" where
  "logged sc actor db db' \<longleftrightarrow>
     (\<exists>new. es_events db' = es_events db @ new \<and> list_all (in_name_of sc actor) new) \<and>
     (log_ok db \<longrightarrow> log_ok db')"

definition by_scope :: "scope \<Rightarrow> event_actor \<Rightarrow> append_input \<Rightarrow> bool" where
  "by_scope sc actor i \<longleftrightarrow>
     ai_project_id i = Some (sc_project_id sc) \<and> ai_organisation_id i = sc_organisation_id sc \<and>
     ai_actor i = actor"

lemma by_scope_scoped_event [simp]: "by_scope sc a (scoped_event sc a t c p)"
  by (simp add: by_scope_def scoped_event_def)

lemma logged_refl [simp]: "logged sc actor db db"
  by (simp add: logged_def)

lemma logged_trans: "logged sc actor a b \<Longrightarrow> logged sc actor b c \<Longrightarrow> logged sc actor a c"
  by (fastforce simp: logged_def)

text \<open>Writing a table and drawing an identifier leave the log alone.\<close>

lemma logged_same_log:
  "es_events db' = es_events db \<Longrightarrow> es_streams db' = es_streams db \<Longrightarrow> logged sc actor db db'"
  by (simp add: logged_def log_ok_cong [of db' db])

lemma newId_logged: "newId p db = (i, db') \<Longrightarrow> logged sc actor db db'"
  by (rule logged_same_log) (auto simp: newId_def)

lemma appendEvent_logged:
  assumes "appendEvent i db = Inr (a, db')" "by_scope sc actor i"
  shows "logged sc actor db db'"
  using assms appendEvent_Inr [OF assms(1)] log_ok_appendEvent [OF _ assms(1)]
  by (auto simp: logged_def appended_events in_name_of_def by_scope_def event_of_def input_stream_def)

lemma appendEvents_logged:
  "appendEvents is db = Inr db' \<Longrightarrow> list_all (by_scope sc actor) is \<Longrightarrow> logged sc actor db db'"
proof (induction "is" arbitrary: db)
  case (Cons i "is")
  then show ?case by (auto simp: result_simps intro: logged_trans appendEvent_logged)
qed simp

lemma same_tables_appendEvent: "appendEvent i db = Inr (a, db') \<Longrightarrow> same_tables db' db"
  by (metis appendEvent_Inr appended_more same_tables_def)

lemma appendEvents_now: "appendEvents is db = Inr db' \<Longrightarrow> es_now db' = es_now db"
  by (induction "is" arbitrary: db) (auto simp: result_simps dest: appendEvent_Inr)

lemma appendEvents_grow:
  "appendEvents is db = Inr db' \<Longrightarrow> length (es_events db') = length (es_events db) + length is"
proof (induction "is" arbitrary: db)
  case (Cons i "is")
  then show ?case by (fastforce simp: result_simps appended_events dest: appendEvent_Inr)
qed simp

end
