(* ===== verification/Keyset_Pages.thy ===== *)
theory Keyset_Pages
  imports Prelude
begin

text \<open>
  Keyset pagination, as every listing of the control plane does it: one page is the rows after
  the cursor in key order, one more than asked for is read, and the key of the last row
  returned is the next cursor when there was one more. The contract of a page is a locale, and
  the fact a reader relies on, that following the cursors visits every row exactly once and in
  order, is proved in it for ascending and descending listings alike.
\<close>

section \<open>Pages\<close>

text \<open>The position of a row in a page: the creation time in milliseconds, then the identifier.\<close>

definition page_key :: "nat \<Rightarrow> string \<Rightarrow> nat \<times> string" where
  "page_key created_at rid = (created_at div 1000, rid)"

definition clamp :: "nat \<Rightarrow> nat \<Rightarrow> nat \<Rightarrow> nat" where
  "clamp lo hi n = min (max n lo) hi"

definition page_of :: "('r \<Rightarrow> 'k) \<Rightarrow> nat \<Rightarrow> 'r list \<Rightarrow> 'r list \<times> 'k option" where
  "page_of key limit rest =
     (let all_rows = take (limit + 1) rest; items = take limit all_rows in
      (items, if length all_rows > limit \<and> items \<noteq> [] then Some (key (last items)) else None))"

definition keyset_page ::
  "('r \<Rightarrow> 'k::linorder) \<Rightarrow> nat \<Rightarrow> 'k option \<Rightarrow> 'r list \<Rightarrow> 'r list \<times> 'k option" where
  "keyset_page key limit after rows =
     page_of key limit (sort_key key
       (filter (\<lambda>r. case after of None \<Rightarrow> True | Some k \<Rightarrow> key r > k) rows))"

definition keyset_page_desc ::
  "('r \<Rightarrow> 'k::linorder) \<Rightarrow> nat \<Rightarrow> 'k option \<Rightarrow> 'r list \<Rightarrow> 'r list \<times> 'k option" where
  "keyset_page_desc key limit after rows =
     page_of key limit (rev (sort_key key
       (filter (\<lambda>r. case after of None \<Rightarrow> True | Some k \<Rightarrow> key r < k) rows)))"

section \<open>The contract of a page\<close>

text \<open>
  \<open>arrange\<close> is the order the listing promises, and \<open>past\<close> when a row comes after a cursor.
  \<open>walk\<close> follows the cursors from a position; its first argument bounds the number of pages.
\<close>

locale pager =
  fixes key :: "'r \<Rightarrow> 'k"
    and past :: "'k \<Rightarrow> 'k \<Rightarrow> bool"
    and arrange :: "'r list \<Rightarrow> 'r list"
    and page :: "nat \<Rightarrow> 'k option \<Rightarrow> 'r list \<Rightarrow> 'r list \<times> 'k option"
  assumes arrange_set: "set (arrange rows) = set rows"
    and arrange_length: "length (arrange rows) = length rows"
    and arrange_past: "distinct (map key rows) \<Longrightarrow> sorted_wrt (\<lambda>a b. past (key a) (key b)) (arrange rows)"
    and past_asym: "past j k \<Longrightarrow> \<not> past k j"
    and page_law: "page n c rows =
      page_of key n (filter (\<lambda>r. case c of None \<Rightarrow> True | Some k \<Rightarrow> past k (key r)) (arrange rows))"
begin

fun walk :: "nat \<Rightarrow> nat \<Rightarrow> 'k option \<Rightarrow> 'r list \<Rightarrow> 'r list" where
  "walk 0 n c rows = []"
| "walk (Suc m) n c rows =
     (case page n c rows of
        (items, None) \<Rightarrow> items
      | (items, Some c') \<Rightarrow> items @ walk m n (Some c') rows)"

lemma page_length: "length (fst (page n c rows)) \<le> n"
  by (simp add: page_law page_of_def Let_def)

lemma page_rows: "set (fst (page n c rows)) \<subseteq> set rows"
  using set_take_subset arrange_set by (fastforce simp: page_law page_of_def Let_def)

lemma rest_after_split:
  assumes "sorted_wrt (\<lambda>a b. past (key a) (key b)) (xs @ [x] @ ys)"
  shows "filter (\<lambda>r. past (key x) (key r)) (xs @ [x] @ ys) = ys"
proof -
  have "\<forall>r \<in> set xs. \<not> past (key x) (key r)" "\<not> past (key x) (key x)" "\<forall>r \<in> set ys. past (key x) (key r)"
    using assms past_asym by (auto simp: sorted_wrt_append)
  then show ?thesis by (simp add: filter_empty_conv)
qed

lemma walk_from:
  assumes "0 < n" "sorted_wrt (\<lambda>a b. past (key a) (key b)) (arrange rows)"
    and "arrange rows = seen @ rest"
    and "filter (\<lambda>r. case c of None \<Rightarrow> True | Some k \<Rightarrow> past k (key r)) (arrange rows) = rest"
    and "length rest < m"
  shows "walk m n c rows = rest"
  using assms(3-5)
proof (induction m arbitrary: seen rest c)
  case (Suc m)
  have page: "page n c rows = page_of key n rest" by (simp add: page_law Suc.prems(2))
  show ?case
  proof (cases "length rest \<le> n")
    case True
    then show ?thesis by (simp add: page page_of_def Let_def)
  next
    case False
    define items where "items = take n rest"
    have "items \<noteq> []" using False assms(1) by (auto simp: items_def)
    then have items: "items \<noteq> []" "items = butlast items @ [last items]" by simp_all
    have split: "arrange rows = (seen @ butlast items) @ [last items] @ drop n rest"
      using Suc.prems(1) items(2) by (metis append.assoc append_take_drop_id items_def)
    have "filter (\<lambda>r. past (key (last items)) (key r)) (arrange rows) = drop n rest"
      using rest_after_split assms(2) unfolding split by blast
    with Suc.IH [of "seen @ items" "drop n rest" "Some (key (last items))"] Suc.prems(1,3) False assms(1)
    have "walk m n (Some (key (last items))) rows = drop n rest"
      by (simp add: items_def)
    moreover have "page n c rows = (items, Some (key (last items)))"
      using False items(1) by (auto simp: page page_of_def Let_def items_def min_def)
    ultimately show ?thesis by (simp add: items_def)
  qed
qed simp

theorem walk_visits_all:
  assumes "0 < n" "distinct (map key rows)"
  shows "walk (Suc (length rows)) n None rows = arrange rows"
  using walk_from [OF assms(1) arrange_past [OF assms(2)], of "[]" "arrange rows" None "Suc (length rows)"]
  by (simp add: arrange_length del: walk.simps)

end

lemma sorted_wrt_sort_key_less:
  assumes "distinct (map key rows)"
  shows "sorted_wrt (\<lambda>a b. key a < (key b :: 'k::linorder)) (sort_key key rows)"
proof -
  have "distinct (map key (sort_key key rows))"
    using assms by (metis distinct_map distinct_sort set_sort)
  moreover have "sorted (map key (sort_key key rows))" by simp
  ultimately have "sorted_wrt (<) (map key (sort_key key rows))"
    by (simp add: strict_sorted_iff)
  then show ?thesis by (simp add: sorted_wrt_map)
qed

interpretation ascending: pager key "(<)" "sort_key key" "keyset_page key"
  for key :: "'r \<Rightarrow> 'k::linorder"
proof unfold_locales
  show "keyset_page key n c rows =
    page_of key n (filter (\<lambda>r. case c of None \<Rightarrow> True | Some k \<Rightarrow> k < key r) (sort_key key rows))"
    for n c rows by (simp add: keyset_page_def filter_sort)
qed (auto intro: sorted_wrt_sort_key_less)

interpretation descending: pager key "(>)" "\<lambda>rows. rev (sort_key key rows)" "keyset_page_desc key"
  for key :: "'r \<Rightarrow> 'k::linorder"
proof unfold_locales
  show "keyset_page_desc key n c rows =
    page_of key n (filter (\<lambda>r. case c of None \<Rightarrow> True | Some k \<Rightarrow> k > key r) (rev (sort_key key rows)))"
    for n c rows by (simp add: keyset_page_desc_def filter_sort flip: rev_filter)
  show "distinct (map key rows) \<Longrightarrow>
    sorted_wrt (\<lambda>a b. key a > key b) (rev (sort_key key rows))" for rows
    using sorted_wrt_sort_key_less [of key rows] by (simp add: sorted_wrt_rev)
qed auto

end
