(* ===== verification/Inbox.thy ===== *)
theory Inbox
  imports Review_Store Keyset_Pages
begin

text \<open>
  The agent and human inbox (\<open>apps/server/src/modules/agents/inbox.ts\<close>): recording a delivery
  inside the caller's transaction, the bounded oldest-first page, and the transitions of an
  item.
\<close>

section \<open>Statuses\<close>

definition LIVE_INBOX_STATUSES :: "inbox_status list" where
  "LIVE_INBOX_STATUSES = [Pending, Acknowledged]"

text \<open>The statuses an item may come from; \<open>Pending\<close> is no target and has no row.\<close>

fun INBOX_TRANSITIONS :: "inbox_status \<Rightarrow> inbox_status list" where
  "INBOX_TRANSITIONS Acknowledged = [Pending]"
| "INBOX_TRANSITIONS Completed_item = [Pending, Acknowledged]"
| "INBOX_TRANSITIONS Dismissed = [Pending, Acknowledged]"
| "INBOX_TRANSITIONS Expired = [Pending, Acknowledged]"
| "INBOX_TRANSITIONS Pending = []"

fun EVENT_FOR :: "inbox_status \<Rightarrow> string" where
  "EVENT_FOR Acknowledged = ''inbox_item.acknowledged''"
| "EVENT_FOR Completed_item = ''inbox_item.completed''"
| "EVENT_FOR Dismissed = ''inbox_item.dismissed''"
| "EVENT_FOR Expired = ''inbox_item.expired''"
| "EVENT_FOR Pending = ''''"

section \<open>Deliveries\<close>

record create_inbox_item_input =
  ci_recipient_type :: recipient_type
  ci_recipient_id :: "string option"
  ci_type :: inbox_type
  ci_title :: string
  ci_review_id :: "string option"
  ci_finding_id :: "string option"
  ci_review_slug :: "string option"
  ci_priority :: "string option"
  ci_finding_count :: "nat option"
  ci_finding_source :: "string option"

definition coalesce :: "string option \<Rightarrow> string" where
  "coalesce x = (case x of None \<Rightarrow> '''' | Some s \<Rightarrow> s)"

text \<open>
  The two partial unique indexes over live items: one delivery of a review, and one of a
  reopened finding, to one recipient. A null column never equals anything in an index, so an
  item without the column its type names is outside it.
\<close>

definition delivery_key ::
  "inbox_row \<Rightarrow> (inbox_type \<times> string \<times> string \<times> recipient_type \<times> string) option" where
  "delivery_key i =
     (if in_status i \<notin> set LIVE_INBOX_STATUSES then None
      else case (case in_type i of Review_assigned \<Rightarrow> in_review_id i
                 | Finding_reopened \<Rightarrow> in_finding_id i) of
        None \<Rightarrow> None
      | Some work \<Rightarrow> Some (in_type i, in_project_id i, work, in_recipient_type i,
                          coalesce (in_recipient_id i)))"

definition deliveries_unique :: "inbox_row list \<Rightarrow> bool" where
  "deliveries_unique rows =
     distinct (map delivery_key (filter (\<lambda>i. delivery_key i \<noteq> None) rows))"

definition inbox_item_of ::
  "scope \<Rightarrow> create_inbox_item_input \<Rightarrow> event_actor \<Rightarrow> string \<Rightarrow> nat \<Rightarrow> inbox_row" where
  "inbox_item_of sc input actor iid now =
     \<lparr>in_id = iid, in_organisation_id = sc_organisation_id sc, in_project_id = sc_project_id sc,
      in_recipient_type = ci_recipient_type input, in_recipient_id = ci_recipient_id input,
      in_type = ci_type input, in_title = ci_title input, in_status = Pending,
      in_review_id = ci_review_id input, in_finding_id = ci_finding_id input,
      in_review_slug = ci_review_slug input, in_priority = ci_priority input,
      in_finding_count = ci_finding_count input, in_finding_source = ci_finding_source input,
      in_created_by = actor, in_created_at = now, in_acknowledged_at = None,
      in_completed_at = None, in_expires_at = None\<rparr>"

text \<open>The item that already carries the work: \<open>ORDER BY created_at DESC LIMIT 1\<close>.\<close>

definition existing_delivery ::
  "scope \<Rightarrow> create_inbox_item_input \<Rightarrow> inbox_row list \<Rightarrow> inbox_row option" where
  "existing_delivery sc input rows =
     (case rev (sort_key in_created_at (filter (\<lambda>i.
        in_project_id i = sc_project_id sc \<and> in_type i = ci_type input \<and>
        in_recipient_type i = ci_recipient_type input \<and>
        coalesce (in_recipient_id i) = coalesce (ci_recipient_id input) \<and>
        in_status i \<in> set LIVE_INBOX_STATUSES \<and>
        (ci_type input = Review_assigned \<and> ci_review_id input \<noteq> None \<longrightarrow>
           in_review_id i = ci_review_id input) \<and>
        (ci_type input = Finding_reopened \<and> ci_finding_id input \<noteq> None \<longrightarrow>
           in_finding_id i = ci_finding_id input)) rows)) of
       [] \<Rightarrow> None | i # _ \<Rightarrow> Some i)"

definition inbox_created_event :: "scope \<Rightarrow> inbox_row \<Rightarrow> event_actor \<Rightarrow> append_input" where
  "inbox_created_event sc i actor =
     scoped_event sc actor ''inbox_item.created''
       (opt_member ''review_id'' JString (in_review_id i) @
        opt_member ''finding_id'' JString (in_finding_id i) @
        (if in_recipient_type i = To_agent_session
         then opt_member ''agent_session_id'' JString (in_recipient_id i) else []))
       ([(''inbox_item_id'', JString (in_id i)),
         (''recipient_type'', JString (recipient_type_name (in_recipient_type i)))] @
        opt_member ''recipient_id'' JString (in_recipient_id i) @
        [(''type'', JString (inbox_type_name (in_type i))),
         (''status'', JString (inbox_status_name (in_status i)))] @
        opt_member ''review_id'' JString (in_review_id i) @
        opt_member ''finding_id'' JString (in_finding_id i) @
        opt_member ''finding_count'' num (in_finding_count i) @
        opt_member ''priority'' JString (in_priority i))"

definition inbox_create ::
  "scope \<Rightarrow> create_inbox_item_input \<Rightarrow> event_actor \<Rightarrow> review_db \<Rightarrow>
     store_failure + (inbox_row \<times> review_db)" where
  "inbox_create sc input actor db =
     (let (iid, db1) = newId ''inb_'' db;
          item = inbox_item_of sc input actor iid (es_now db1);
          rows = d_inbox db1 @ [item]
      in if \<not> distinct (map in_id rows) \<or> \<not> deliveries_unique rows
         then (case existing_delivery sc input (d_inbox db1) of
                 None \<Rightarrow> Inl (Refused (ApiError INTERNAL_ERROR None None None))
               | Some current \<Rightarrow> Inr (current, db1))
         else r_bind (appendEvent (inbox_created_event sc item actor) (db1\<lparr>d_inbox := rows\<rparr>))
                (\<lambda>(_, db2). Inr (item, db2)))"

section \<open>Reading\<close>

definition inbox_in :: "scope \<Rightarrow> string \<Rightarrow> inbox_row \<Rightarrow> bool" where
  "inbox_in sc iid i \<longleftrightarrow> in_id i = iid \<and> in_tenant sc (in_organisation_id i) (in_project_id i)"

definition inbox_get :: "scope \<Rightarrow> string \<Rightarrow> review_db \<Rightarrow> store_failure + inbox_row" where
  "inbox_get sc iid db =
     (case List.find (inbox_in sc iid) (d_inbox db) of
        None \<Rightarrow> Inl (Refused (notFound ''The inbox item'')) | Some i \<Rightarrow> Inr i)"

definition addressed ::
  "recipient_type option \<Rightarrow> string option \<Rightarrow> inbox_row \<Rightarrow> bool" where
  "addressed rtype rid i \<longleftrightarrow>
     (rtype = None \<or> rtype = Some (in_recipient_type i)) \<and>
     (rid = None \<or> in_recipient_id i = rid \<or> in_recipient_id i = None)"

definition inbox_key :: "inbox_row \<Rightarrow> nat \<times> string" where
  "inbox_key i = page_key (in_created_at i) (in_id i)"

definition pendingCount ::
  "scope \<Rightarrow> recipient_type option \<Rightarrow> string option \<Rightarrow> review_db \<Rightarrow> nat" where
  "pendingCount sc rtype rid db =
     length (filter (\<lambda>i. in_tenant sc (in_organisation_id i) (in_project_id i) \<and>
       in_status i = Pending \<and> addressed rtype rid i) (d_inbox db))"

definition inbox_rows ::
  "scope \<Rightarrow> inbox_status list \<Rightarrow> recipient_type option \<Rightarrow> string option \<Rightarrow> review_db \<Rightarrow> inbox_row list" where
  "inbox_rows sc statuses rtype rid db =
     filter (\<lambda>i. in_tenant sc (in_organisation_id i) (in_project_id i) \<and>
       in_status i \<in> set statuses \<and> addressed rtype rid i) (d_inbox db)"

definition inbox_list ::
  "scope \<Rightarrow> inbox_status list option \<Rightarrow> (recipient_type \<times> string option) option \<Rightarrow> nat option \<Rightarrow>
     (nat \<times> string) option \<Rightarrow> review_db \<Rightarrow> inbox_row list \<times> (nat \<times> string) option \<times> nat" where
  "inbox_list sc statuses recipient limit after db =
     (let wanted = (case statuses of None \<Rightarrow> LIVE_INBOX_STATUSES | Some ss \<Rightarrow> ss);
          n = clamp 1 50 (case limit of None \<Rightarrow> 20 | Some l \<Rightarrow> l);
          rtype = map_option fst recipient;
          rid = (case recipient of None \<Rightarrow> None | Some (_, i) \<Rightarrow> i);
          (items, nextCursor) = keyset_page inbox_key n after (inbox_rows sc wanted rtype rid db)
      in (items, nextCursor, pendingCount sc rtype rid db))"

section \<open>Transitions\<close>

text \<open>The primary key and the two live-delivery indexes, checked on the updated table.\<close>

definition store_inbox :: "inbox_row list \<Rightarrow> review_db \<Rightarrow> store_failure + review_db" where
  "store_inbox rows db =
     r_then (refuse_if (\<not> distinct (map in_id rows)) (Unique_violation ''inbox_items_pkey''))
     (r_then (refuse_if (\<not> deliveries_unique rows) (Unique_violation ''inbox_items_live_delivery_idx''))
     (Inr (db\<lparr>d_inbox := rows\<rparr>)))"

text \<open>The recipient check is an authorisation check that answers as if the item did not exist.\<close>

definition addressed_to_caller :: "(recipient_type \<times> string option) option \<Rightarrow> inbox_row \<Rightarrow> bool" where
  "addressed_to_caller recipient i =
     (case recipient of None \<Rightarrow> True
      | Some (rtype, rid) \<Rightarrow> in_recipient_type i = rtype \<and>
          (in_recipient_id i = None \<or> in_recipient_id i = rid))"

definition moved_item :: "inbox_status \<Rightarrow> nat \<Rightarrow> inbox_row \<Rightarrow> inbox_row" where
  "moved_item to now i =
     i\<lparr>in_status := to,
       in_acknowledged_at := (if to = Acknowledged then Some now else in_acknowledged_at i),
       in_completed_at := (if to = Completed_item then Some now else in_completed_at i)\<rparr>"

definition inbox_moved_event ::
  "scope \<Rightarrow> event_actor \<Rightarrow> string option \<Rightarrow> inbox_row \<Rightarrow> inbox_row \<Rightarrow> append_input" where
  "inbox_moved_event sc actor reason current item =
     scoped_event sc actor (EVENT_FOR (in_status item))
       (opt_member ''review_id'' JString (in_review_id item) @
        opt_member ''finding_id'' JString (in_finding_id item))
       ([(''inbox_item_id'', JString (in_id item)),
         (''previous_status'', JString (inbox_status_name (in_status current)))] @
        opt_member ''review_id'' JString (in_review_id item) @
        (if in_status item = Dismissed then opt_member ''reason'' JString reason else []))"

definition inbox_transition_tx ::
  "scope \<Rightarrow> string \<Rightarrow> inbox_status \<Rightarrow> event_actor \<Rightarrow> string option \<Rightarrow>
     (recipient_type \<times> string option) option \<Rightarrow> review_db \<Rightarrow>
     store_failure + ((inbox_row \<times> inbox_status) \<times> review_db)" where
  "inbox_transition_tx sc iid to actor reason recipient db =
     r_bind (inbox_get sc iid db) (\<lambda>current.
     r_then (lift (refuse_if (\<not> addressed_to_caller recipient current) (notFound ''The inbox item'')))
     (if in_status current = to then Inr ((current, in_status current), db)
      else r_then (lift (refuse_if (in_status current \<notin> set (INBOX_TRANSITIONS to))
             (refusal POLICY_DENIED [D_field ''status''])))
       (r_bind (store_inbox (update_where (inbox_in sc iid) (moved_item to (es_now db)) (d_inbox db)) db)
         (\<lambda>db1.
       (let item = moved_item to (es_now db) current in
        r_bind (appendEvent (inbox_moved_event sc actor reason current item) db1)
          (\<lambda>(_, db2). Inr ((item, in_status current), db2)))))))"

definition inbox_transition ::
  "scope \<Rightarrow> string \<Rightarrow> inbox_status \<Rightarrow> event_actor \<Rightarrow> string option \<Rightarrow>
     (recipient_type \<times> string option) option \<Rightarrow> review_db \<Rightarrow>
     (store_failure + (inbox_row \<times> inbox_status)) \<times> review_db" where
  "inbox_transition sc iid to actor reason recipient db =
     inTransaction (inbox_transition_tx sc iid to actor reason recipient) db"

section \<open>Lemmas\<close>

lemma store_inbox_Inr [result_simps]:
  "store_inbox rows db = Inr db' \<longleftrightarrow>
     distinct (map in_id rows) \<and> deliveries_unique rows \<and> db' = db\<lparr>d_inbox := rows\<rparr>"
  by (auto simp: store_inbox_def result_simps)

lemma inbox_get_Inr [result_simps]:
  "inbox_get sc iid db = Inr i \<longleftrightarrow> List.find (inbox_in sc iid) (d_inbox db) = Some i"
  by (auto simp: inbox_get_def split: option.split)

lemma moved_item_simps [simp]:
  "in_id (moved_item to now i) = in_id i" "in_status (moved_item to now i) = to"
  by (simp_all add: moved_item_def)

end
