(* ===== verification/Review_Service.thy ===== *)
theory Review_Service
  imports Inbox
begin

text \<open>
  The review service (\<open>apps/server/src/modules/reviews/service.ts\<close>), operation by operation.
  An operation takes the database and returns the outcome and the database after it. What runs
  inside \<open>inTransaction\<close> is a function that returns the new database or the failure; the
  transaction keeps the one and discards the other. \<open>SELECT ... FOR UPDATE\<close> holds the row until
  the transaction ends, so a transaction is one step. The reads an operation makes before its
  transaction are functions of their own where something may happen in between.

  A refused change of status leaves an audit event behind, written after the rollback. The
  source keeps the event to write in a variable \<open>denied\<close>; here a failure inside such a
  transaction carries the value the variable has at that point.
\<close>

section \<open>Requests\<close>

record create_review_input =
  cr_slug :: string
  cr_title :: string
  cr_description :: "string option"
  cr_status :: "review_status option"
  cr_priority :: "string option"
  cr_captured_branch :: string
  cr_captured_commit :: string
  cr_captured_workspace_id :: string
  cr_source_browser_session_id :: string

record update_review_input =
  ur_expected_version :: nat
  ur_title :: "string option"
  ur_slug :: "string option"
  ur_description :: "string option"
  ur_status :: "review_status option"
  ur_priority :: "string option"
  ur_reason :: "string option"

record assign_review_input =
  as_expected_version :: nat
  as_user_id :: "string option"
  as_agent_session_id :: "string option"
  as_reason :: "string option"

record transition_input =
  tr_expected_version :: nat
  tr_reason :: "string option"
  tr_verification_id :: "string option"

record dispose_finding_input =
  dp_expected_version :: nat
  dp_reason :: "string option"
  dp_duplicate_of :: "string option"
  dp_verification_id :: "string option"

record create_annotation_input =
  ca_artefact_id :: string
  ca_type :: annotation_type
  ca_geometry :: json
  ca_label :: string
  ca_marker_number :: "nat option"
  ca_style_hint :: "string option"

record create_finding_input =
  cf_title :: string
  cf_description :: "string option"
  cf_severity :: string
  cf_url :: string
  cf_viewport :: json
  cf_scroll_position :: json
  cf_captured_commit :: string
  cf_screenshot_artefact_id :: string
  cf_element_context :: "json option"
  cf_acceptance_criteria :: "string option"
  cf_annotations :: "create_annotation_input list"

record update_finding_input =
  uf_expected_version :: nat
  uf_title :: "string option"
  uf_description :: "string option"
  uf_severity :: "string option"
  uf_status :: "finding_status option"
  uf_acceptance_criteria :: "string option"
  uf_resolution_note :: "string option"
  uf_reason :: "string option"
  uf_duplicate_of :: "string option"
  uf_verification_id :: "string option"

record update_annotation_input =
  ua_expected_revision :: nat
  ua_geometry :: "json option"
  ua_label :: "string option"
  ua_marker_number :: "nat option"
  ua_style_hint :: "string option"

record submit_verification_input =
  sv_summary :: string
  sv_branch :: string
  sv_commit :: string
  sv_tested_viewports :: "viewport list"
  sv_checks :: verification_checks
  sv_artefact_ids :: "string list"
  sv_workspace_branch :: "string option"
  sv_expected_version :: "nat option"

section \<open>Refusals that are audited\<close>

record pending_denial =
  dn_type :: string
  dn_correlation :: "(string \<times> json) list"
  dn_payload :: "(string \<times> json) list"

type_synonym 'a guarded = "(pending_denial option \<times> store_failure) + 'a"

text \<open>\<open>denying d m\<close>: the failure of \<open>m\<close>, raised while the variable \<open>denied\<close> holds \<open>d\<close>.\<close>

definition denying :: "pending_denial option \<Rightarrow> store_failure + 'a \<Rightarrow> 'a guarded" where
  "denying d m = (case m of Inl e \<Rightarrow> Inl (d, e) | Inr a \<Rightarrow> Inr a)"

text \<open>
  The audit event is appended in its own transaction, only for a refusal of this program; if
  the append fails, the refusal stands and nothing is recorded. The text of the refusal, which
  the payload repeats under \<open>reason\<close>, is not modelled.
\<close>

definition recordDenial ::
  "scope \<Rightarrow> event_actor \<Rightarrow> pending_denial option \<Rightarrow> store_failure \<Rightarrow> review_db \<Rightarrow> review_db" where
  "recordDenial sc actor denied failure db =
     (case (denied, failure) of
        (Some d, Refused e) \<Rightarrow>
          snd (inTransaction (appendEvent
            (scoped_event sc actor (dn_type d) (dn_correlation d)
              (dn_payload d @ [(''code'', JString (error_code_name (err_code e)))]))) db)
      | _ \<Rightarrow> db)"

definition translateSlugConflict :: "store_failure \<Rightarrow> store_failure" where
  "translateSlugConflict f =
     (if f = Unique_violation ''reviews_active_slug_unique''
      then Refused (refusal IDEMPOTENCY_CONFLICT [D_field ''slug'']) else f)"

definition sourceForActor :: "actor_type \<Rightarrow> finding_source" where
  "sourceForActor actorType = (if actorType = agent_session then Agent else Human)"

section \<open>Reads\<close>

definition lockReview :: "scope \<Rightarrow> string \<Rightarrow> review_db \<Rightarrow> store_failure + review_row" where
  "lockReview sc rid db =
     (case List.find (review_in sc rid) (d_reviews db) of
        None \<Rightarrow> Inl (Refused (notFound ''The review'')) | Some r \<Rightarrow> Inr r)"

definition finding_count :: "string \<Rightarrow> review_db \<Rightarrow> nat" where
  "finding_count rid db = length (filter (\<lambda>f. fd_review_id f = rid) (d_findings db))"

definition getReview :: "scope \<Rightarrow> string \<Rightarrow> review_db \<Rightarrow> store_failure + (review_row \<times> nat)" where
  "getReview sc rid db =
     (case List.find (review_in sc rid) (d_reviews db) of
        None \<Rightarrow> Inl (Refused (notFound ''The review''))
      | Some r \<Rightarrow> Inr (r, finding_count (rv_id r) db))"

definition getReviewBySlug :: "scope \<Rightarrow> string \<Rightarrow> review_db \<Rightarrow> store_failure + (review_row \<times> nat)" where
  "getReviewBySlug sc slug db =
     (case List.find (\<lambda>r. rv_slug r = slug \<and> in_tenant sc (rv_organisation_id r) (rv_project_id r) \<and>
             isActiveReviewStatus (rv_status r)) (d_reviews db) of
        None \<Rightarrow> Inl (Refused (notFound ''The review''))
      | Some r \<Rightarrow> Inr (r, finding_count (rv_id r) db))"

definition lockFinding :: "scope \<Rightarrow> string \<Rightarrow> review_db \<Rightarrow> store_failure + finding_row" where
  "lockFinding sc fid db =
     (case List.find (finding_in sc fid) (d_findings db) of
        None \<Rightarrow> Inl (Refused (notFound ''The finding'')) | Some f \<Rightarrow> Inr f)"

text \<open>The view \<open>annotations_current\<close>: the newest revision of each annotation.\<close>

definition annotations_current :: "review_db \<Rightarrow> annotation_row list" where
  "annotations_current db =
     filter (\<lambda>a. \<not> list_ex (\<lambda>b. an_id b = an_id a \<and> an_revision b > an_revision a) (d_annotations db))
       (d_annotations db)"

definition annotation_count :: "string \<Rightarrow> review_db \<Rightarrow> nat" where
  "annotation_count fid db =
     length (filter (\<lambda>a. an_finding_id a = fid \<and> an_deleted_at a = None) (annotations_current db))"

definition getFinding :: "scope \<Rightarrow> string \<Rightarrow> review_db \<Rightarrow> store_failure + (finding_row \<times> nat)" where
  "getFinding sc fid db =
     r_bind (lockFinding sc fid db) (\<lambda>f. Inr (f, annotation_count (fd_id f) db))"

definition listFindings :: "scope \<Rightarrow> string \<Rightarrow> review_db \<Rightarrow> store_failure + finding_row list" where
  "listFindings sc rid db =
     r_bind (getReview sc rid db) (\<lambda>_.
       Inr (sort_key fd_created_at (filter (\<lambda>f. fd_review_id f = rid \<and>
         in_tenant sc (fd_organisation_id f) (fd_project_id f)) (d_findings db))))"

definition requireSessionInProject :: "scope \<Rightarrow> string \<Rightarrow> review_db \<Rightarrow> store_failure + unit" where
  "requireSessionInProject sc bid db =
     (case map_of (d_browser_sessions db) bid of
        None \<Rightarrow> Inl (Refused (notFound ''The source browser session''))
      | Some p \<Rightarrow> lift (refuse_if (p \<noteq> sc_project_id sc)
          (refusal PROJECT_CONTEXT_MISMATCH [D_field ''source_browser_session_id''])))"

definition requireUserInOrganisation :: "scope \<Rightarrow> string \<Rightarrow> review_db \<Rightarrow> store_failure + unit" where
  "requireUserInOrganisation sc uid db =
     lift (refuse_if ((uid, sc_organisation_id sc) \<notin> set (d_users db)) (notFound ''The user''))"

definition requireAgentSessionInProject :: "scope \<Rightarrow> string \<Rightarrow> review_db \<Rightarrow> store_failure + unit" where
  "requireAgentSessionInProject sc aid db =
     lift (refuse_if ((aid, sc_organisation_id sc, sc_project_id sc) \<notin> set (d_agent_sessions db))
       (notFound ''The agent session''))"

definition requireFindingInProject ::
  "scope \<Rightarrow> string \<Rightarrow> string \<Rightarrow> review_db \<Rightarrow> store_failure + unit" where
  "requireFindingInProject sc fid notThisOne db =
     r_then (lift (refuse_if (fid = notThisOne)
       (refusal UNSUPPORTED_CAPABILITY [D_field ''duplicate_of_finding_id''])))
     (lift (refuse_if (List.find (finding_in sc fid) (d_findings db) = None)
       (notFound ''The duplicated finding'')))"

definition requireAvailableArtefact ::
  "scope \<Rightarrow> string \<Rightarrow> review_db \<Rightarrow> store_failure + artefact_row" where
  "requireAvailableArtefact sc aid db =
     (case List.find (\<lambda>a. ar_id a = aid \<and> ar_deleted_at a = None \<and>
             in_tenant sc (ar_organisation_id a) (ar_project_id a)) (d_artefacts db) of
        None \<Rightarrow> Inl (Refused (notFound ''The screenshot artefact''))
      | Some a \<Rightarrow>
          r_then (lift (refuse_if (ar_state a \<noteq> ''available'')
            (refusal ARTEFACT_UPLOAD_INCOMPLETE [D_field ''screenshot_artefact_id''])))
          (Inr a))"

definition assertFindingsPermitAcceptance ::
  "scope \<Rightarrow> string \<Rightarrow> review_db \<Rightarrow> store_failure + (nat \<times> nat)" where
  "assertFindingsPermitAcceptance sc rid db =
     (let rows = sort_key (\<lambda>f. (fd_created_at f, fd_id f))
            (filter (\<lambda>f. fd_review_id f = rid \<and>
               in_tenant sc (fd_organisation_id f) (fd_project_id f)) (d_findings db))
      in r_then (lift (assertReviewAcceptable (map (\<lambda>f. (fd_id f, fd_source f, fd_status f)) rows)))
         (Inr (length rows, length (filter (\<lambda>f. fd_source f = Human) rows))))"

section \<open>Creating a review\<close>

definition review_named_payload ::
  "string \<Rightarrow> review_row \<Rightarrow> string option \<Rightarrow> (string \<times> json) list" where
  "review_named_payload rid review previous_slug =
     [(''review_id'', JString rid), (''slug'', JString (rv_slug review)),
      (''title'', JString (rv_title review))] @ opt_member ''previous_slug'' JString previous_slug"

definition new_review ::
  "scope \<Rightarrow> create_review_input \<Rightarrow> event_actor \<Rightarrow> review_status \<Rightarrow> string \<Rightarrow> nat \<Rightarrow> review_row" where
  "new_review sc input actor status rid now =
     \<lparr>rv_id = rid, rv_organisation_id = sc_organisation_id sc, rv_project_id = sc_project_id sc,
      rv_slug = cr_slug input, rv_title = cr_title input, rv_description = cr_description input,
      rv_status = status,
      rv_priority = Some (case cr_priority input of None \<Rightarrow> ''medium'' | Some p \<Rightarrow> p),
      rv_version = 1, rv_created_by = actor, rv_assigned_user_id = None,
      rv_assigned_agent_session_id = None, rv_captured_branch = cr_captured_branch input,
      rv_captured_commit = cr_captured_commit input,
      rv_captured_workspace_id = cr_captured_workspace_id input,
      rv_source_browser_session_id = Some (cr_source_browser_session_id input),
      rv_created_at = now, rv_updated_at = now, rv_closed_at = None, rv_reopen_count = 0,
      rv_accepted_at = None, rv_accepted_by = None\<rparr>"

definition createReview_tx ::
  "scope \<Rightarrow> create_review_input \<Rightarrow> event_actor \<Rightarrow> review_status \<Rightarrow> string \<Rightarrow> review_db \<Rightarrow>
     store_failure + (review_row \<times> review_db)" where
  "createReview_tx sc input actor status rid db =
     (let review = new_review sc input actor status rid (es_now db) in
      r_bind (store_reviews (d_reviews db @ [review]) db) (\<lambda>db1.
      r_bind (appendEvents
        [scoped_event sc actor ''review.created''
           [(''review_id'', JString rid),
            (''browser_session_id'', JString (cr_source_browser_session_id input))]
           [(''review'', toReview review (Some 0))],
         scoped_event sc actor ''review.named'' [(''review_id'', JString rid)]
           (review_named_payload rid review None)] db1) (\<lambda>db2.
      Inr (review, db2))))"

definition createReview ::
  "scope \<Rightarrow> create_review_input \<Rightarrow> event_actor \<Rightarrow> review_db \<Rightarrow>
     (store_failure + review_row) \<times> review_db" where
  "createReview sc input actor db =
     (let status = (case cr_status input of None \<Rightarrow> R_DRAFT | Some s \<Rightarrow> s) in
      if status \<noteq> R_DRAFT \<and> status \<noteq> R_READY
      then (Inl (Refused (refusal POLICY_DENIED [D_field ''status''])), db)
      else case requireSessionInProject sc (cr_source_browser_session_id input) db of
        Inl e \<Rightarrow> (Inl e, db)
      | Inr _ \<Rightarrow>
          (let (rid, db0) = newId ''rev_'' db in
           case inTransaction (createReview_tx sc input actor status rid) db0 of
             (Inl e, db') \<Rightarrow> (Inl (translateSlugConflict e), db')
           | (Inr review, db') \<Rightarrow> (Inr review, db')))"

section \<open>Updating a review\<close>

definition review_fields :: "update_review_input \<Rightarrow> string list" where
  "review_fields input =
     (if ur_title input \<noteq> None then [''title''] else []) @
     (if ur_slug input \<noteq> None then [''slug''] else []) @
     (if ur_description input \<noteq> None then [''description''] else []) @
     (if ur_priority input \<noteq> None then [''priority''] else [])"

definition next_review_status :: "update_review_input \<Rightarrow> review_row \<Rightarrow> review_status" where
  "next_review_status input current =
     (case ur_status input of None \<Rightarrow> rv_status current | Some s \<Rightarrow> s)"

definition review_denial :: "string \<Rightarrow> review_status \<Rightarrow> review_status \<Rightarrow> pending_denial" where
  "review_denial rid from requested =
     \<lparr>dn_type = ''review.status_change_denied'',
      dn_correlation = [(''review_id'', JString rid)],
      dn_payload = [(''review_id'', JString rid), (''from'', JString (review_status_name from)),
        (''requested'', JString (review_status_name requested))]\<rparr>"

definition updateReview_checks ::
  "scope \<Rightarrow> string \<Rightarrow> update_review_input \<Rightarrow> event_actor \<Rightarrow> review_db \<Rightarrow>
     (review_row \<times> (nat \<times> nat) option) guarded" where
  "updateReview_checks sc rid input actor db =
     r_bind (denying None (lockReview sc rid db)) (\<lambda>current.
     r_then (denying None (lift (assertExpectedVersion (rv_version current) (ur_expected_version input))))
     (r_then (denying None (lift (assertReviewMutable (rv_status current) (ur_status input)
        (review_fields input))))
     (let nextStatus = next_review_status input current;
          changing = (nextStatus \<noteq> rv_status current);
          denied = Some (review_denial rid (rv_status current) nextStatus)
      in r_then
           (if changing
            then r_then (denying denied (lift (assertActorMayCloseReview (act_type actor) nextStatus)))
              (r_then (denying denied (lift (assertReviewTransition (rv_status current) nextStatus)))
              (denying denied (lift (assertActorMayMoveReview (act_type actor)
                 (rv_status current) nextStatus))))
            else ok)
         (if changing \<and> nextStatus = R_ACCEPTED
          then r_bind (denying None (assertFindingsPermitAcceptance sc rid db))
                 (\<lambda>counts. Inr (current, Some counts))
          else Inr (current, None)))))"

definition or_else :: "'a option \<Rightarrow> 'a \<Rightarrow> 'a" where
  "or_else x d = (case x of None \<Rightarrow> d | Some v \<Rightarrow> v)"

definition or_keep :: "'a option \<Rightarrow> 'a option \<Rightarrow> 'a option" where
  "or_keep x d = (case x of None \<Rightarrow> d | Some v \<Rightarrow> Some v)"

text \<open>The columns \<open>UPDATE reviews\<close> sets, from the row it finds.\<close>

definition updated_review ::
  "update_review_input \<Rightarrow> event_actor \<Rightarrow> nat \<Rightarrow> review_row \<Rightarrow> review_row" where
  "updated_review input actor now r =
     (let nextStatus = next_review_status input r;
          changing = (nextStatus \<noteq> rv_status r);
          accepting = (changing \<and> nextStatus = R_ACCEPTED);
          reopening = (changing \<and> rv_status r = R_ACCEPTED);
          closed = (nextStatus = R_ACCEPTED \<or> nextStatus = R_CANCELLED \<or> nextStatus = R_ARCHIVED)
      in r\<lparr>rv_title := or_else (ur_title input) (rv_title r),
           rv_slug := or_else (ur_slug input) (rv_slug r),
           rv_description := or_keep (ur_description input) (rv_description r),
           rv_priority := or_keep (ur_priority input) (rv_priority r),
           rv_status := nextStatus,
           rv_version := rv_version r + 1,
           rv_updated_at := now,
           rv_closed_at := (if closed then or_keep (rv_closed_at r) (Some now)
                            else if reopening then None else rv_closed_at r),
           rv_reopen_count := rv_reopen_count r + (if reopening then 1 else 0),
           rv_accepted_at := (if accepting then Some now else if reopening then None
                              else rv_accepted_at r),
           rv_accepted_by := (if accepting then Some actor else if reopening then None
                              else rv_accepted_by r)\<rparr>)"

definition updateReview_events ::
  "scope \<Rightarrow> string \<Rightarrow> update_review_input \<Rightarrow> event_actor \<Rightarrow> review_row \<Rightarrow> review_row \<Rightarrow>
     (nat \<times> nat) option \<Rightarrow> append_input list" where
  "updateReview_events sc rid input actor current review counts =
     (let nextStatus = rv_status review;
          changing = (nextStatus \<noteq> rv_status current);
          reopening = (changing \<and> rv_status current = R_ACCEPTED);
          correlation = [(''review_id'', JString rid)];
          reason = opt_member ''reason'' JString (ur_reason input);
          version = (''version'', num (rv_version review))
      in (if ur_slug input \<noteq> None \<or> ur_title input \<noteq> None
          then [scoped_event sc actor ''review.named'' correlation
                 (review_named_payload rid review
                   (if ur_slug input = None \<or> ur_slug input = Some (rv_slug current) then None
                    else Some (rv_slug current)))] else []) @
         (if changing
          then [scoped_event sc actor ''review.status_changed'' correlation
                 ([(''review_id'', JString rid),
                   (''from'', JString (review_status_name (rv_status current))),
                   (''to'', JString (review_status_name nextStatus)), version] @ reason)] else []) @
         (case counts of
            Some (findings, humans) \<Rightarrow>
              [scoped_event sc actor ''review.accepted'' correlation
                 ([(''review_id'', JString rid), (''accepted_by'', eventActor actor), version,
                   (''finding_count'', num findings), (''human_finding_count'', num humans)] @ reason)]
          | None \<Rightarrow> []) @
         (if reopening
          then [scoped_event sc actor ''review.reopened'' correlation
                 ([(''review_id'', JString rid),
                   (''from'', JString (review_status_name (rv_status current))),
                   (''to'', JString (review_status_name nextStatus)), version,
                   (''reopen_count'', num (rv_reopen_count review))] @ reason)] else []) @
         (if changing \<and> nextStatus = R_ARCHIVED
          then [scoped_event sc actor ''review.archived'' correlation
                 ([(''review_id'', JString rid),
                   (''from'', JString (review_status_name (rv_status current))), version] @ reason)]
          else []))"

definition updateReview_tx ::
  "scope \<Rightarrow> string \<Rightarrow> update_review_input \<Rightarrow> event_actor \<Rightarrow> review_db \<Rightarrow>
     (review_row \<times> review_db) guarded" where
  "updateReview_tx sc rid input actor db =
     r_bind (updateReview_checks sc rid input actor db) (\<lambda>(current, counts).
     (let review = updated_review input actor (es_now db) current in
      r_bind (denying None (store_reviews
        (update_where (review_in sc rid) (updated_review input actor (es_now db)) (d_reviews db)) db))
      (\<lambda>db1.
      r_bind (denying None (appendEvents
        (updateReview_events sc rid input actor current review counts) db1))
      (\<lambda>db2. Inr (review, db2)))))"

definition updateReview ::
  "scope \<Rightarrow> string \<Rightarrow> update_review_input \<Rightarrow> event_actor \<Rightarrow> review_db \<Rightarrow>
     (store_failure + review_row) \<times> review_db" where
  "updateReview sc rid input actor db =
     (case inTransaction (updateReview_tx sc rid input actor) db of
        (Inr review, db') \<Rightarrow> (Inr review, db')
      | (Inl (denied, e), db') \<Rightarrow>
          (Inl (translateSlugConflict e), recordDenial sc actor denied e db'))"

text \<open>The four lifecycle routes: the target status is fixed by the route.\<close>

definition to_status :: "transition_input \<Rightarrow> review_status \<Rightarrow> update_review_input" where
  "to_status input status =
     \<lparr>ur_expected_version = tr_expected_version input, ur_title = None, ur_slug = None,
      ur_description = None, ur_status = Some status, ur_priority = None,
      ur_reason = tr_reason input\<rparr>"

definition requestHumanReview where
  "requestHumanReview sc rid input actor db =
     updateReview sc rid (to_status input R_AWAITING_HUMAN_REVIEW) actor db"

definition acceptReview where
  "acceptReview sc rid input actor db = updateReview sc rid (to_status input R_ACCEPTED) actor db"

definition reopenReview where
  "reopenReview sc rid input actor db =
     (case assertDecisionReason (tr_reason input) of
        Inl e \<Rightarrow> (Inl (Refused e), db)
      | Inr _ \<Rightarrow> updateReview sc rid (to_status input R_CHANGES_REQUESTED) actor db)"

definition archiveReview where
  "archiveReview sc rid input actor db = updateReview sc rid (to_status input R_ARCHIVED) actor db"

end
