(* ===== verification/Finding_Service.thy ===== *)
theory Finding_Service
  imports Review_Service
begin

text \<open>
  The second half of the review service (\<open>apps/server/src/modules/reviews/service.ts\<close>):
  assignment and claiming of reviews, findings, comments, verifications and annotations.
\<close>

section \<open>Assigning and claiming a review\<close>

definition status_changed_event ::
  "scope \<Rightarrow> event_actor \<Rightarrow> string \<Rightarrow> review_status \<Rightarrow> review_row \<Rightarrow> string option \<Rightarrow> append_input" where
  "status_changed_event sc actor rid from review reason =
     scoped_event sc actor ''review.status_changed'' [(''review_id'', JString rid)]
       ([(''review_id'', JString rid), (''from'', JString (review_status_name from)),
         (''to'', JString (review_status_name (rv_status review))),
         (''version'', num (rv_version review))] @ opt_member ''reason'' JString reason)"

text \<open>
  The checks a claim and an assignment share: the row, its version, that it may still change,
  and, for a ready review, that the actor may move it to assigned.
\<close>

definition assignment_checks ::
  "scope \<Rightarrow> string \<Rightarrow> nat \<Rightarrow> string \<Rightarrow> event_actor \<Rightarrow> review_db \<Rightarrow>
     store_failure + (review_row \<times> review_status)" where
  "assignment_checks sc rid expectedVersion field actor db =
     r_bind (lockReview sc rid db) (\<lambda>current.
     r_then (lift (assertExpectedVersion (rv_version current) expectedVersion))
     (r_then (lift (assertReviewMutable (rv_status current) None [field]))
     (let nextStatus = (if rv_status current = R_READY then R_ASSIGNED else rv_status current)
      in r_then
           (if nextStatus \<noteq> rv_status current
            then r_then (lift (assertReviewTransition (rv_status current) nextStatus))
                   (lift (assertActorMayMoveReview (act_type actor) (rv_status current) nextStatus))
            else ok)
         (Inr (current, nextStatus)))))"

definition assigned_row :: "assign_review_input \<Rightarrow> review_status \<Rightarrow> nat \<Rightarrow> review_row \<Rightarrow> review_row" where
  "assigned_row input nextStatus now r =
     r\<lparr>rv_assigned_user_id := as_user_id input,
       rv_assigned_agent_session_id := as_agent_session_id input,
       rv_status := nextStatus, rv_version := rv_version r + 1, rv_updated_at := now\<rparr>"

definition assigned_events ::
  "scope \<Rightarrow> string \<Rightarrow> assign_review_input \<Rightarrow> event_actor \<Rightarrow> review_row \<Rightarrow> review_row \<Rightarrow> append_input list" where
  "assigned_events sc rid input actor current review =
     scoped_event sc actor ''review.assigned''
       ([(''review_id'', JString rid)] @
        opt_member ''agent_session_id'' JString (as_agent_session_id input))
       ([(''review_id'', JString rid)] @
        opt_member ''assigned_user_id'' JString (as_user_id input) @
        opt_member ''assigned_agent_session_id'' JString (as_agent_session_id input) @
        opt_member ''previous_assigned_user_id'' JString (rv_assigned_user_id current) @
        opt_member ''previous_assigned_agent_session_id'' JString
          (rv_assigned_agent_session_id current) @
        [(''version'', num (rv_version review))] @
        opt_member ''reason'' JString (as_reason input)) #
     (if rv_status review \<noteq> rv_status current
      then [status_changed_event sc actor rid (rv_status current) review (Some ''assigned'')]
      else [])"

text \<open>The delivery to whoever the review was assigned to; assigning to nobody delivers nothing.\<close>

definition assignment_recipient :: "assign_review_input \<Rightarrow> (recipient_type \<times> string) option" where
  "assignment_recipient input =
     (case as_agent_session_id input of
        Some a \<Rightarrow> Some (To_agent_session, a)
      | None \<Rightarrow> map_option (Pair To_human_user) (as_user_id input))"

definition deliver_assignment ::
  "scope \<Rightarrow> string \<Rightarrow> assign_review_input \<Rightarrow> event_actor \<Rightarrow> review_row \<Rightarrow> review_db \<Rightarrow>
     store_failure + review_db" where
  "deliver_assignment sc rid input actor review db =
     (case assignment_recipient input of
        None \<Rightarrow> Inr db
      | Some (rtype, who) \<Rightarrow>
          r_bind (inbox_create sc
            \<lparr>ci_recipient_type = rtype, ci_recipient_id = Some who,
             ci_type = Review_assigned, ci_title = rv_title review,
             ci_review_id = Some rid, ci_finding_id = None,
             ci_review_slug = Some (rv_slug review), ci_priority = rv_priority review,
             ci_finding_count = Some (finding_count rid db),
             ci_finding_source = None\<rparr> actor db)
            (\<lambda>(_, db1). Inr db1))"

definition assignReview_tx ::
  "scope \<Rightarrow> string \<Rightarrow> assign_review_input \<Rightarrow> event_actor \<Rightarrow> review_db \<Rightarrow>
     store_failure + (review_row \<times> review_db)" where
  "assignReview_tx sc rid input actor db =
     r_bind (assignment_checks sc rid (as_expected_version input) ''assigned_to'' actor db)
     (\<lambda>(current, nextStatus).
     (let review = assigned_row input nextStatus (es_now db) current in
      r_bind (store_reviews
        (update_where (review_in sc rid) (assigned_row input nextStatus (es_now db)) (d_reviews db)) db)
      (\<lambda>db1.
      r_bind (appendEvents (assigned_events sc rid input actor current review) db1) (\<lambda>db2.
      r_bind (deliver_assignment sc rid input actor review db2) (\<lambda>db3.
      Inr (review, db3))))))"

definition assignReview ::
  "scope \<Rightarrow> string \<Rightarrow> assign_review_input \<Rightarrow> event_actor \<Rightarrow> review_db \<Rightarrow>
     (store_failure + review_row) \<times> review_db" where
  "assignReview sc rid input actor db =
     (case r_then (lift (refuse_if (as_user_id input \<noteq> None \<and> as_agent_session_id input \<noteq> None)
             (refusal UNSUPPORTED_CAPABILITY [D_field ''assigned_agent_session_id''])))
           (r_then (case as_user_id input of None \<Rightarrow> ok
             | Some u \<Rightarrow> requireUserInOrganisation sc u db)
           (case as_agent_session_id input of None \<Rightarrow> ok
             | Some a \<Rightarrow> requireAgentSessionInProject sc a db)) of
        Inl e \<Rightarrow> (Inl e, db)
      | Inr _ \<Rightarrow> inTransaction (assignReview_tx sc rid input actor) db)"

definition agent_id :: "event_actor \<Rightarrow> string option" where
  "agent_id actor = (if act_type actor = agent_session then act_id actor else None)"

definition claimed_row :: "event_actor \<Rightarrow> review_status \<Rightarrow> nat \<Rightarrow> review_row \<Rightarrow> review_row" where
  "claimed_row actor nextStatus now r =
     r\<lparr>rv_assigned_agent_session_id := agent_id actor, rv_status := nextStatus,
       rv_version := rv_version r + 1, rv_updated_at := now\<rparr>"

definition claimed_events ::
  "scope \<Rightarrow> string \<Rightarrow> event_actor \<Rightarrow> review_row \<Rightarrow> review_row \<Rightarrow> append_input list" where
  "claimed_events sc rid actor current review =
     scoped_event sc actor ''review.claimed''
       ([(''review_id'', JString rid)] @ opt_member ''agent_session_id'' JString (agent_id actor))
       [(''review_id'', JString rid), (''claimed_by'', eventActor actor),
        (''version'', num (rv_version review))] #
     (if rv_status review \<noteq> rv_status current
      then [status_changed_event sc actor rid (rv_status current) review None] else [])"

definition claimReview_tx ::
  "scope \<Rightarrow> string \<Rightarrow> nat \<Rightarrow> event_actor \<Rightarrow> review_db \<Rightarrow> store_failure + (review_row \<times> review_db)" where
  "claimReview_tx sc rid expectedVersion actor db =
     r_bind (assignment_checks sc rid expectedVersion ''claimed_by'' actor db)
     (\<lambda>(current, nextStatus).
     (let review = claimed_row actor nextStatus (es_now db) current in
      r_bind (store_reviews
        (update_where (review_in sc rid) (claimed_row actor nextStatus (es_now db)) (d_reviews db)) db)
      (\<lambda>db1.
      r_bind (appendEvents (claimed_events sc rid actor current review) db1) (\<lambda>db2.
      Inr (review, db2)))))"

definition claimReview ::
  "scope \<Rightarrow> string \<Rightarrow> nat \<Rightarrow> event_actor \<Rightarrow> review_db \<Rightarrow> (store_failure + review_row) \<times> review_db" where
  "claimReview sc rid expectedVersion actor db =
     inTransaction (claimReview_tx sc rid expectedVersion actor) db"

section \<open>Creating a finding and its annotations\<close>

definition new_annotation ::
  "scope \<Rightarrow> string \<Rightarrow> create_annotation_input \<Rightarrow> event_actor \<Rightarrow> string \<Rightarrow> nat \<Rightarrow> annotation_row" where
  "new_annotation sc fid input actor aid now =
     \<lparr>an_id = aid, an_revision = 1, an_organisation_id = sc_organisation_id sc,
      an_project_id = sc_project_id sc, an_finding_id = fid, an_artefact_id = ca_artefact_id input,
      an_type = ca_type input, an_geometry = ca_geometry input,
      an_geometry_version = geometryVersionForType (ca_type input), an_label = ca_label input,
      an_marker_number = ca_marker_number input,
      an_style_hint = or_else (ca_style_hint input) ''default'', an_created_by = actor,
      an_created_at = now, an_deleted_at = None\<rparr>"

definition insertAnnotation ::
  "scope \<Rightarrow> string \<Rightarrow> event_actor \<Rightarrow> create_annotation_input \<Rightarrow> review_db \<Rightarrow>
     store_failure + (annotation_row \<times> review_db)" where
  "insertAnnotation sc fid actor input db =
     (let (aid, db1) = newId ''ann_'' db;
          annotation = new_annotation sc fid input actor aid (es_now db1)
      in r_bind (store_annotations (d_annotations db1 @ [annotation]) db1)
           (\<lambda>db2. Inr (annotation, db2)))"

fun insertAnnotations ::
  "scope \<Rightarrow> string \<Rightarrow> event_actor \<Rightarrow> create_annotation_input list \<Rightarrow> review_db \<Rightarrow>
     store_failure + (annotation_row list \<times> review_db)" where
  "insertAnnotations sc fid actor [] db = Inr ([], db)"
| "insertAnnotations sc fid actor (i # is) db =
     r_bind (insertAnnotation sc fid actor i db) (\<lambda>(a, db1).
     r_bind (insertAnnotations sc fid actor is db1) (\<lambda>(as, db2). Inr (a # as, db2)))"

definition annotated_event ::
  "scope \<Rightarrow> event_actor \<Rightarrow> string option \<Rightarrow> annotation_row \<Rightarrow> append_input" where
  "annotated_event sc actor rid a =
     scoped_event sc actor ''finding.annotated''
       (opt_member ''review_id'' JString rid @
        [(''finding_id'', JString (an_finding_id a)), (''annotation_id'', JString (an_id a)),
         (''artefact_id'', JString (an_artefact_id a))])
       [(''annotation'', toAnnotation a)]"

definition new_finding ::
  "scope \<Rightarrow> string \<Rightarrow> create_finding_input \<Rightarrow> event_actor \<Rightarrow> string \<Rightarrow> nat \<Rightarrow> finding_row" where
  "new_finding sc rid input actor fid now =
     \<lparr>fd_id = fid, fd_organisation_id = sc_organisation_id sc, fd_project_id = sc_project_id sc,
      fd_review_id = rid, fd_title = cf_title input, fd_description = cf_description input,
      fd_severity = cf_severity input, fd_status = F_OPEN,
      fd_source = sourceForActor (act_type actor), fd_version = 1, fd_created_by = actor,
      fd_claimed_by = None, fd_url = cf_url input, fd_viewport = cf_viewport input,
      fd_scroll_position = cf_scroll_position input, fd_captured_commit = cf_captured_commit input,
      fd_screenshot_artefact_id = cf_screenshot_artefact_id input,
      fd_element_context = cf_element_context input,
      fd_acceptance_criteria = cf_acceptance_criteria input, fd_resolution_note = None,
      fd_created_at = now, fd_updated_at = now, fd_resolved_at = None, fd_resolved_by = None,
      fd_disposition_reason = None, fd_duplicate_of = None, fd_reopen_count = 0\<rparr>"

text \<open>The checks before the transaction; they read the database as it is then.\<close>

fun all_ok :: "('a \<Rightarrow> 'e + unit) \<Rightarrow> 'a list \<Rightarrow> 'e + unit" where
  "all_ok check [] = ok"
| "all_ok check (x # xs) = r_then (check x) (all_ok check xs)"

definition createFinding_checks ::
  "scope \<Rightarrow> string \<Rightarrow> create_finding_input \<Rightarrow> review_db \<Rightarrow> store_failure + unit" where
  "createFinding_checks sc rid input db =
     r_then (lift (assertCapturedContext
       [(''url'', JString (cf_url input)), (''viewport'', cf_viewport input),
        (''scroll_position'', cf_scroll_position input),
        (''captured_commit'', JString (cf_captured_commit input)),
        (''screenshot_artefact_id'', JString (cf_screenshot_artefact_id input))]))
     (r_then (all_ok (\<lambda>a. lift (assertGeometry (ca_type a) (ca_geometry a))) (cf_annotations input))
     (r_bind (getReview sc rid db) (\<lambda>(review, _).
     r_then (lift (assertReviewMutable (rv_status review) None [''findings'']))
     (r_bind (requireAvailableArtefact sc (cf_screenshot_artefact_id input) db) (\<lambda>artefact.
     all_ok (\<lambda>a. lift (refuse_if (ca_artefact_id a \<noteq> ar_id artefact)
         (refusal UNSUPPORTED_CAPABILITY [D_field ''annotations''])))
       (cf_annotations input))))))"

definition createFinding_tx ::
  "scope \<Rightarrow> string \<Rightarrow> create_finding_input \<Rightarrow> event_actor \<Rightarrow> string \<Rightarrow> review_db \<Rightarrow>
     store_failure + ((finding_row \<times> annotation_row list) \<times> review_db)" where
  "createFinding_tx sc rid input actor fid db =
     (let finding = new_finding sc rid input actor fid (es_now db) in
      r_bind (store_findings (d_findings db @ [finding]) db) (\<lambda>db1.
      r_bind (insertAnnotations sc fid actor (cf_annotations input) db1) (\<lambda>(annotations, db2).
      r_bind (appendEvents
        (scoped_event sc actor ''finding.created''
           [(''review_id'', JString rid), (''finding_id'', JString fid),
            (''artefact_id'', JString (cf_screenshot_artefact_id input))]
           [(''finding'', toFinding finding (Some (length annotations)))] #
         map (annotated_event sc actor (Some rid)) annotations) db2) (\<lambda>db3.
      Inr ((finding, annotations), db3)))))"

definition createFinding ::
  "scope \<Rightarrow> string \<Rightarrow> create_finding_input \<Rightarrow> event_actor \<Rightarrow> review_db \<Rightarrow>
     (store_failure + (finding_row \<times> annotation_row list)) \<times> review_db" where
  "createFinding sc rid input actor db =
     (case createFinding_checks sc rid input db of
        Inl e \<Rightarrow> (Inl e, db)
      | Inr _ \<Rightarrow>
          (let (fid, db0) = newId ''fin_'' db
           in inTransaction (createFinding_tx sc rid input actor fid) db0))"

section \<open>Comments\<close>

definition new_comment ::
  "scope \<Rightarrow> string \<Rightarrow> string option \<Rightarrow> string \<Rightarrow> comment_row option \<Rightarrow> event_actor \<Rightarrow> string \<Rightarrow> nat \<Rightarrow>
     comment_row" where
  "new_comment sc rid fid body previous actor cid now =
     \<lparr>cm_id = cid, cm_organisation_id = sc_organisation_id sc, cm_project_id = sc_project_id sc,
      cm_review_id = rid, cm_finding_id = fid, cm_body = body,
      cm_revision = (case previous of None \<Rightarrow> 1 | Some p \<Rightarrow> cm_revision p + 1),
      cm_supersedes_comment_id = map_option cm_id previous, cm_superseded_at = None,
      cm_created_by = actor, cm_created_at = now\<rparr>"

text \<open>
  \<open>UPDATE comments SET superseded_at = now() WHERE ... AND superseded_at IS NULL\<close>, refused when
  it matches no row.
\<close>

definition supersedes_row :: "scope \<Rightarrow> string \<Rightarrow> comment_row \<Rightarrow> bool" where
  "supersedes_row sc cid c \<longleftrightarrow> comment_in sc cid c \<and> cm_superseded_at c = None"

definition supersedeComment ::
  "scope \<Rightarrow> comment_row option \<Rightarrow> review_db \<Rightarrow> store_failure + comment_row list" where
  "supersedeComment sc previous db =
     (case previous of
        None \<Rightarrow> Inr (d_comments db)
      | Some p \<Rightarrow>
          r_then (lift (refuse_if (\<not> list_ex (supersedes_row sc (cm_id p)) (d_comments db))
            (refusal VERSION_CONFLICT [D_current_version (cm_revision p + 1)])))
          (Inr (update_where (supersedes_row sc (cm_id p))
            (\<lambda>c. c\<lparr>cm_superseded_at := Some (es_now db)\<rparr>) (d_comments db))))"

definition writeComment ::
  "scope \<Rightarrow> string \<Rightarrow> string option \<Rightarrow> string \<Rightarrow> comment_row option \<Rightarrow> event_actor \<Rightarrow> review_db \<Rightarrow>
     store_failure + (comment_row \<times> review_db)" where
  "writeComment sc rid fid body previous actor db0 =
     (let (cid, db) = newId ''cmt_'' db0;
          comment = new_comment sc rid fid body previous actor cid (es_now db)
      in r_bind (supersedeComment sc previous db) (\<lambda>rows.
         r_bind (store_comments (rows @ [comment]) db) (\<lambda>db1.
         r_bind (appendEvent
           (scoped_event sc actor
             (if fid = None then ''review.comment_added'' else ''finding.comment_added'')
             ([(''review_id'', JString rid)] @ opt_member ''finding_id'' JString fid)
             [(''comment'', toComment comment)]) db1) (\<lambda>(_, db2).
         Inr (comment, db2)))))"

definition insertComment ::
  "scope \<Rightarrow> string \<Rightarrow> string option \<Rightarrow> string \<Rightarrow> comment_row option \<Rightarrow> event_actor \<Rightarrow> review_db \<Rightarrow>
     (store_failure + comment_row) \<times> review_db" where
  "insertComment sc rid fid body previous actor db =
     inTransaction (writeComment sc rid fid body previous actor) db"

definition addComment ::
  "scope \<Rightarrow> string \<Rightarrow> string \<Rightarrow> event_actor \<Rightarrow> review_db \<Rightarrow> (store_failure + comment_row) \<times> review_db" where
  "addComment sc fid body actor db =
     (case getFinding sc fid db of
        Inl e \<Rightarrow> (Inl e, db)
      | Inr (finding, _) \<Rightarrow> insertComment sc (fd_review_id finding) (Some fid) body None actor db)"

definition addReviewComment ::
  "scope \<Rightarrow> string \<Rightarrow> string \<Rightarrow> event_actor \<Rightarrow> review_db \<Rightarrow> (store_failure + comment_row) \<times> review_db" where
  "addReviewComment sc rid body actor db =
     (case getReview sc rid db of
        Inl e \<Rightarrow> (Inl e, db)
      | Inr _ \<Rightarrow> insertComment sc rid None body None actor db)"

definition editComment_checks ::
  "scope \<Rightarrow> string \<Rightarrow> event_actor \<Rightarrow> review_db \<Rightarrow> store_failure + comment_row" where
  "editComment_checks sc cid actor db =
     (case List.find (comment_in sc cid) (d_comments db) of
        None \<Rightarrow> Inl (Refused (notFound ''The comment''))
      | Some current \<Rightarrow>
          r_then (lift (refuse_if (cm_superseded_at current \<noteq> None)
            (refusal VERSION_CONFLICT [D_current_version (cm_revision current + 1)])))
          (r_then (lift (refuse_if
              (act_type (cm_created_by current) \<noteq> act_type actor \<or>
               act_id (cm_created_by current) \<noteq> act_id actor)
              (refusal AUTHORISATION_DENIED [D_field ''body''])))
          (Inr current)))"

definition editComment ::
  "scope \<Rightarrow> string \<Rightarrow> string \<Rightarrow> event_actor \<Rightarrow> review_db \<Rightarrow> (store_failure + comment_row) \<times> review_db" where
  "editComment sc cid body actor db =
     (case editComment_checks sc cid actor db of
        Inl e \<Rightarrow> (Inl e, db)
      | Inr current \<Rightarrow>
          insertComment sc (cm_review_id current) (cm_finding_id current) body (Some current) actor db)"

end
