(* ===== verification/Annotation_Service.thy ===== *)
theory Annotation_Service
  imports Finding_Service
begin

text \<open>
  Annotations in the review service (\<open>apps/server/src/modules/reviews/service.ts\<close>). Nothing is
  updated in place: an edit and a withdrawal each insert the next revision.
\<close>

section \<open>Operations\<close>

definition createAnnotation_tx ::
  "scope \<Rightarrow> string \<Rightarrow> string \<Rightarrow> create_annotation_input \<Rightarrow> event_actor \<Rightarrow> review_db \<Rightarrow>
     store_failure + (annotation_row \<times> review_db)" where
  "createAnnotation_tx sc rid fid input actor db =
     r_bind (insertAnnotation sc fid actor input db) (\<lambda>(annotation, db1).
     r_bind (appendEvents [annotated_event sc actor (Some rid) annotation] db1) (\<lambda>db2.
     Inr (annotation, db2)))"

definition createAnnotation_checks ::
  "scope \<Rightarrow> string \<Rightarrow> create_annotation_input \<Rightarrow> review_db \<Rightarrow> store_failure + finding_row" where
  "createAnnotation_checks sc fid input db =
     r_then (lift (assertGeometry (ca_type input) (ca_geometry input)))
     (r_bind (getFinding sc fid db) (\<lambda>(finding, _).
     r_then (lift (refuse_if (ca_artefact_id input \<noteq> fd_screenshot_artefact_id finding)
       (refusal UNSUPPORTED_CAPABILITY [D_field ''artefact_id''])))
     (r_bind (requireAvailableArtefact sc (ca_artefact_id input) db) (\<lambda>_. Inr finding))))"

definition createAnnotation ::
  "scope \<Rightarrow> string \<Rightarrow> create_annotation_input \<Rightarrow> event_actor \<Rightarrow> review_db \<Rightarrow>
     (store_failure + annotation_row) \<times> review_db" where
  "createAnnotation sc fid input actor db =
     (case createAnnotation_checks sc fid input db of
        Inl e \<Rightarrow> (Inl e, db)
      | Inr finding \<Rightarrow>
          inTransaction (createAnnotation_tx sc (fd_review_id finding) fid input actor) db)"

definition listAnnotations :: "scope \<Rightarrow> string \<Rightarrow> review_db \<Rightarrow> store_failure + annotation_row list" where
  "listAnnotations sc fid db =
     r_bind (getFinding sc fid db) (\<lambda>_.
       Inr (sort_key (\<lambda>a. (an_created_at a, an_id a)) (filter (\<lambda>a. an_finding_id a = fid \<and>
         in_tenant sc (an_organisation_id a) (an_project_id a) \<and> an_deleted_at a = None)
         (annotations_current db))))"

definition listAnnotationRevisions ::
  "scope \<Rightarrow> string \<Rightarrow> review_db \<Rightarrow> store_failure + annotation_row list" where
  "listAnnotationRevisions sc fid db =
     r_bind (getFinding sc fid db) (\<lambda>_.
       Inr (sort_key (\<lambda>a. (an_id a, an_revision a)) (filter (\<lambda>a. an_finding_id a = fid \<and>
         in_tenant sc (an_organisation_id a) (an_project_id a)) (d_annotations db))))"

text \<open>\<open>ORDER BY revision DESC LIMIT 1\<close>: the newest revision the caller can see.\<close>

definition lockAnnotation :: "scope \<Rightarrow> string \<Rightarrow> review_db \<Rightarrow> store_failure + annotation_row" where
  "lockAnnotation sc aid db =
     (case rev (sort_key an_revision (filter (annotation_in sc aid) (d_annotations db))) of
        [] \<Rightarrow> Inl (Refused (notFound ''The annotation'')) | a # _ \<Rightarrow> Inr a)"

definition expected_revision :: "annotation_row \<Rightarrow> nat \<Rightarrow> api_error + unit" where
  "expected_revision current expected =
     refuse_if (expected \<noteq> an_revision current)
       (refusal VERSION_CONFLICT [D_expected_version expected, D_actual_version (an_revision current)])"

definition insertRevision ::
  "scope \<Rightarrow> event_actor \<Rightarrow> annotation_row \<Rightarrow> review_db \<Rightarrow> store_failure + (annotation_row \<times> review_db)" where
  "insertRevision sc actor annotation db =
     r_bind (store_annotations (d_annotations db @ [annotation]) db) (\<lambda>db1.
     r_bind (appendEvents [annotated_event sc actor None annotation] db1) (\<lambda>db2.
     Inr (annotation, db2)))"

definition updateAnnotation_tx ::
  "scope \<Rightarrow> string \<Rightarrow> update_annotation_input \<Rightarrow> event_actor \<Rightarrow> review_db \<Rightarrow>
     store_failure + (annotation_row \<times> review_db)" where
  "updateAnnotation_tx sc aid input actor db =
     r_bind (lockAnnotation sc aid db) (\<lambda>current.
     r_then (lift (refuse_if (an_deleted_at current \<noteq> None)
       (refusal POLICY_DENIED [D_reason ''annotation_withdrawn''])))
     (r_then (lift (expected_revision current (ua_expected_revision input)))
     (let geometry = or_else (ua_geometry input) (an_geometry current) in
      r_then (lift (assertGeometry (an_type current) geometry))
      (insertRevision sc actor
        (current\<lparr>an_revision := an_revision current + 1,
          an_organisation_id := sc_organisation_id sc, an_project_id := sc_project_id sc,
          an_geometry := geometry,
          an_geometry_version := geometryVersionForType (an_type current),
          an_label := or_else (ua_label input) (an_label current),
          an_marker_number := or_keep (ua_marker_number input) (an_marker_number current),
          an_style_hint := or_else (ua_style_hint input) (an_style_hint current),
          an_created_by := actor, an_created_at := es_now db, an_deleted_at := None\<rparr>) db))))"

definition updateAnnotation ::
  "scope \<Rightarrow> string \<Rightarrow> update_annotation_input \<Rightarrow> event_actor \<Rightarrow> review_db \<Rightarrow>
     (store_failure + annotation_row) \<times> review_db" where
  "updateAnnotation sc aid input actor db = inTransaction (updateAnnotation_tx sc aid input actor) db"

definition withdrawAnnotation_tx ::
  "scope \<Rightarrow> string \<Rightarrow> nat \<Rightarrow> event_actor \<Rightarrow> review_db \<Rightarrow>
     store_failure + (annotation_row \<times> review_db)" where
  "withdrawAnnotation_tx sc aid expectedRevision actor db =
     r_bind (lockAnnotation sc aid db) (\<lambda>current.
     if an_deleted_at current \<noteq> None then Inr (current, db)
     else r_then (lift (expected_revision current expectedRevision))
      (insertRevision sc actor
        (current\<lparr>an_revision := an_revision current + 1,
          an_organisation_id := sc_organisation_id sc, an_project_id := sc_project_id sc,
          an_created_by := actor, an_created_at := es_now db, an_deleted_at := Some (es_now db)\<rparr>) db))"

definition withdrawAnnotation ::
  "scope \<Rightarrow> string \<Rightarrow> nat \<Rightarrow> event_actor \<Rightarrow> review_db \<Rightarrow>
     (store_failure + annotation_row) \<times> review_db" where
  "withdrawAnnotation sc aid expectedRevision actor db =
     inTransaction (withdrawAnnotation_tx sc aid expectedRevision actor) db"

end
