(* ===== verification/Finding_Lifecycle.thy ===== *)
theory Finding_Lifecycle
  imports Finding_Service
begin

text \<open>
  The lifecycle of a finding in the review service
  (\<open>apps/server/src/modules/reviews/service.ts\<close>): the update with its decisions, the submission
  of a verification, and the reads of the completion gate.
\<close>

section \<open>Claims and evidence\<close>

text \<open>The artefact with a role, as a subquery with \<open>LIMIT 1\<close> reads it.\<close>

definition artefact_in_role :: "string \<Rightarrow> artefact_role \<Rightarrow> review_db \<Rightarrow> string option" where
  "artefact_in_role vid role db =
     map_option va_artefact_id
       (List.find (\<lambda>a. va_verification_id a = vid \<and> va_role a = role) (d_verification_artefacts db))"

definition currentVerificationOn ::
  "scope \<Rightarrow> string \<Rightarrow> review_db \<Rightarrow> (verification_row \<times> string option) option" where
  "currentVerificationOn sc fid db =
     map_option (\<lambda>v. (v, artefact_in_role (vf_id v) After db))
       (List.find (\<lambda>v. claim_in sc fid v \<and> vf_status v = Submitted) (d_verifications db))"

definition countVerificationsOn :: "scope \<Rightarrow> string \<Rightarrow> review_db \<Rightarrow> nat" where
  "countVerificationsOn sc fid db = length (filter (claim_in sc fid) (d_verifications db))"

definition project_settings_of :: "scope \<Rightarrow> review_db \<Rightarrow> store_failure + project_settings" where
  "project_settings_of sc db =
     (case List.find (\<lambda>p. pr_id p = sc_project_id sc \<and> pr_organisation_id p = sc_organisation_id sc)
             (d_projects db) of
        None \<Rightarrow> Inl (Refused (notFound ''The project'')) | Some p \<Rightarrow> Inr (pr_settings p))"

definition missingEvidenceOn :: "scope \<Rightarrow> string \<Rightarrow> review_db \<Rightarrow> store_failure + string list" where
  "missingEvidenceOn sc fid db =
     r_bind (project_settings_of sc db) (\<lambda>settings.
     (let requirements = completionRequirementsFor settings in
      Inr (missingEvidence settings requirements
        (map_option (\<lambda>(v, after).
           \<lparr>ev_verification_id = vf_id v, ev_tested_viewports = vf_tested_viewports v,
            ev_checks = vf_checks v, ev_after_artefact_id = after, ev_branch_corroborated = True,
            ev_submitted_by = \<lparr>act_type = agent_session, act_id = None, act_display = None\<rparr>\<rparr>)
          (currentVerificationOn sc fid db)))))"

section \<open>Updating a finding\<close>

definition next_finding_status :: "update_finding_input \<Rightarrow> finding_row \<Rightarrow> finding_status" where
  "next_finding_status input current = or_else (uf_status input) (fd_status current)"

definition disposing :: "finding_row \<Rightarrow> finding_status \<Rightarrow> bool" where
  "disposing current nextStatus \<longleftrightarrow> nextStatus \<noteq> fd_status current \<and> isFinalDisposition nextStatus"

definition reopening :: "finding_row \<Rightarrow> finding_status \<Rightarrow> bool" where
  "reopening current nextStatus \<longleftrightarrow> nextStatus = F_REOPENED \<and> fd_status current \<noteq> F_REOPENED"

definition claiming :: "finding_row \<Rightarrow> finding_status \<Rightarrow> bool" where
  "claiming current nextStatus \<longleftrightarrow> nextStatus = F_CLAIMED \<and> fd_status current \<noteq> F_CLAIMED"

definition finding_denial :: "finding_row \<Rightarrow> string \<Rightarrow> finding_status \<Rightarrow> pending_denial" where
  "finding_denial current fid requested =
     \<lparr>dn_type = ''finding.status_change_denied'',
      dn_correlation = [(''review_id'', JString (fd_review_id current)), (''finding_id'', JString fid)],
      dn_payload = [(''finding_id'', JString fid), (''review_id'', JString (fd_review_id current)),
        (''from'', JString (finding_status_name (fd_status current))),
        (''requested'', JString (finding_status_name requested)),
        (''source'', JString (finding_source_name (fd_source current)))]\<rparr>"

text \<open>
  The checks of a requested change of status: disposition authority, legality, actor authority,
  then completion evidence. The audit event is armed for the first three, and again for the
  evidence only when something is missing.
\<close>

definition transition_checks ::
  "scope \<Rightarrow> string \<Rightarrow> update_finding_input \<Rightarrow> event_actor \<Rightarrow> finding_row \<Rightarrow> review_db \<Rightarrow> unit guarded" where
  "transition_checks sc fid input actor current db =
     (let nextStatus = next_finding_status input current;
          denied = Some (finding_denial current fid nextStatus)
      in r_then (denying denied (lift (assertActorMayDispose (act_type actor) (fd_source current) nextStatus)))
         (r_then (denying denied (lift (assertFindingTransition (fd_status current) nextStatus)))
         (r_then (denying denied (lift (assertActorMayMoveFinding (act_type actor) (fd_source current)
            (fd_status current) nextStatus)))
         (r_bind
           (if nextStatus = F_AWAITING_HUMAN_REVIEW \<and> act_type actor = agent_session
            then r_bind (denying None (missingEvidenceOn sc fid db)) (\<lambda>ms. Inr (Some ms))
            else Inr None)
           (\<lambda>missing.
             denying (case missing of Some (m # ms) \<Rightarrow> denied | _ \<Rightarrow> None)
               (lift (assertCompletionEvidence nextStatus
                 (or_keep (uf_resolution_note input) (fd_resolution_note current))
                 missing (Some (act_type actor)))))))))"

definition updateFinding_checks ::
  "scope \<Rightarrow> string \<Rightarrow> update_finding_input \<Rightarrow> event_actor \<Rightarrow> review_db \<Rightarrow>
     (finding_row \<times> (verification_row \<times> string option) option) guarded" where
  "updateFinding_checks sc fid input actor db =
     r_bind (denying None (lockFinding sc fid db)) (\<lambda>current.
     r_then (denying None (lift (assertExpectedVersion (fd_version current) (uf_expected_version input))))
     (let nextStatus = next_finding_status input current;
          deciding = (disposing current nextStatus \<or> reopening current nextStatus);
          claim = (if deciding then currentVerificationOn sc fid db else None)
      in r_then
           (if nextStatus \<noteq> fd_status current then transition_checks sc fid input actor current db
            else ok)
         (r_then
           (case uf_duplicate_of input of None \<Rightarrow> ok
            | Some other \<Rightarrow> denying None (requireFindingInProject sc other fid db))
         (r_then
           (if deciding
            then denying (Some (finding_denial current fid nextStatus))
                   (lift (assertVerificationUnderReview (map_option (\<lambda>(v, _). vf_id v) claim)
                     (uf_verification_id input)))
            else ok)
         (Inr (current, claim))))))"

text \<open>The columns \<open>UPDATE findings\<close> sets, from the row it finds.\<close>

definition updated_finding ::
  "update_finding_input \<Rightarrow> event_actor \<Rightarrow> nat \<Rightarrow> finding_row \<Rightarrow> finding_row" where
  "updated_finding input actor now f =
     (let nextStatus = next_finding_status input f;
          d = disposing f nextStatus; r = reopening f nextStatus
      in f\<lparr>fd_title := or_else (uf_title input) (fd_title f),
           fd_description := or_keep (uf_description input) (fd_description f),
           fd_severity := or_else (uf_severity input) (fd_severity f),
           fd_acceptance_criteria := or_keep (uf_acceptance_criteria input) (fd_acceptance_criteria f),
           fd_resolution_note := or_keep (uf_resolution_note input) (fd_resolution_note f),
           fd_status := nextStatus,
           fd_version := fd_version f + 1,
           fd_updated_at := now,
           fd_claimed_by := (if claiming f nextStatus then Some actor else fd_claimed_by f),
           fd_resolved_at := (if d then Some now else if r then None else fd_resolved_at f),
           fd_resolved_by := (if d then Some actor else if r then None else fd_resolved_by f),
           fd_disposition_reason := (if d then uf_reason input else if r then None
                                     else fd_disposition_reason f),
           fd_duplicate_of := (if d then uf_duplicate_of input else if r then None
                               else fd_duplicate_of f),
           fd_reopen_count := fd_reopen_count f + (if r then 1 else 0)\<rparr>)"

definition finding_event ::
  "scope \<Rightarrow> event_actor \<Rightarrow> string \<Rightarrow> finding_row \<Rightarrow> (string \<times> json) list \<Rightarrow> append_input" where
  "finding_event sc actor type f payload =
     scoped_event sc actor type
       [(''review_id'', JString (fd_review_id f)), (''finding_id'', JString (fd_id f))] payload"

definition movement_events ::
  "scope \<Rightarrow> update_finding_input \<Rightarrow> event_actor \<Rightarrow> finding_row \<Rightarrow> finding_row \<Rightarrow> append_input list" where
  "movement_events sc input actor current f =
     (let ids = [(''finding_id'', JString (fd_id f)), (''review_id'', JString (fd_review_id f))];
          version = (''version'', num (fd_version f))
      in (if claiming current (fd_status f)
          then [finding_event sc actor ''finding.claimed'' f
                 (ids @ [(''claimed_by'', eventActor actor), version])] else []) @
         (if fd_status f \<noteq> fd_status current
          then [finding_event sc actor ''finding.status_changed'' f
                 (ids @ [(''from'', JString (finding_status_name (fd_status current))),
                    (''to'', JString (finding_status_name (fd_status f))), version,
                    (''source'', JString (finding_source_name (fd_source current)))] @
                  opt_member ''reason'' JString (uf_reason input))] else []))"

text \<open>The decision recorded on the claim: accepted when resolved, rejected when reopened.\<close>

definition decideClaim ::
  "scope \<Rightarrow> update_finding_input \<Rightarrow> event_actor \<Rightarrow> (verification_row \<times> string option) option \<Rightarrow>
     finding_row \<Rightarrow> finding_row \<Rightarrow> review_db \<Rightarrow> store_failure + review_db" where
  "decideClaim sc input actor claim current f db =
     (case claim of
        None \<Rightarrow> Inr db
      | Some (v, after) \<Rightarrow>
          (if fd_status f = F_RESOLVED \<or> reopening current (fd_status f)
           then (let accepted = (fd_status f = F_RESOLVED) in
             r_bind (store_verifications
               (update_where (\<lambda>w. vf_id w = vf_id v \<and> in_tenant sc (vf_organisation_id w) (vf_project_id w))
                 (\<lambda>w. w\<lparr>vf_status := (if accepted then Accepted else Rejected),
                        vf_reviewed_at := Some (es_now db),
                        vf_reviewed_by := Some (act_type actor, act_id actor)\<rparr>)
                 (d_verifications db)) db) (\<lambda>db1.
             appendEvents
               [finding_event sc actor
                 (if accepted then ''finding.verification_accepted'' else ''finding.verification_rejected'') f
                 ([(''verification_id'', JString (vf_id v)), (''finding_id'', JString (fd_id f)),
                   (''review_id'', JString (fd_review_id f)),
                   (''submitted_by'', eventActor (vf_submitted_by v)),
                   (''decided_by'', eventActor actor), (''version'', num (fd_version f))] @
                  (if accepted then opt_member ''after_artefact_id'' JString after else []) @
                  opt_member ''reason'' JString (uf_reason input))] db1))
           else Inr db))"

definition decision_comment ::
  "scope \<Rightarrow> update_finding_input \<Rightarrow> event_actor \<Rightarrow> bool \<Rightarrow> finding_row \<Rightarrow> review_db \<Rightarrow>
     store_failure + review_db" where
  "decision_comment sc input actor deciding f db =
     (case uf_reason input of
        None \<Rightarrow> Inr db
      | Some reason \<Rightarrow>
          (if deciding \<and> trim reason \<noteq> ''''
           then r_bind (writeComment sc (fd_review_id f) (Some (fd_id f)) reason None actor db)
                  (\<lambda>(_, db1). Inr db1)
           else Inr db))"

definition resolved_events ::
  "scope \<Rightarrow> update_finding_input \<Rightarrow> event_actor \<Rightarrow> finding_row \<Rightarrow> finding_row \<Rightarrow> append_input list" where
  "resolved_events sc input actor current f =
     (if disposing current (fd_status f)
      then [finding_event sc actor ''finding.resolved'' f
             ([(''finding_id'', JString (fd_id f)), (''review_id'', JString (fd_review_id f)),
               (''disposition'', JString (finding_status_name (fd_status f))),
               (''source'', JString (finding_source_name (fd_source current))),
               (''decided_by'', eventActor actor), (''version'', num (fd_version f))] @
              opt_member ''duplicate_of_finding_id'' JString (uf_duplicate_of input) @
              opt_member ''reason'' JString (uf_reason input))] else [])"

definition reopened_event ::
  "scope \<Rightarrow> update_finding_input \<Rightarrow> event_actor \<Rightarrow> finding_row \<Rightarrow> finding_row \<Rightarrow> nat \<Rightarrow> append_input" where
  "reopened_event sc input actor current f verificationCount =
     finding_event sc actor ''finding.reopened'' f
       ([(''finding_id'', JString (fd_id f)), (''review_id'', JString (fd_review_id f)),
         (''from'', JString (finding_status_name (fd_status current))),
         (''version'', num (fd_version f)), (''verification_count'', num verificationCount)] @
        opt_member ''reason'' JString (uf_reason input))"

text \<open>The delivery a reopen makes to whoever holds the review, or to the project's agents.\<close>

definition deliver_reopen ::
  "scope \<Rightarrow> event_actor \<Rightarrow> finding_row \<Rightarrow> review_db \<Rightarrow> store_failure + review_db" where
  "deliver_reopen sc actor f db =
     (case List.find (review_in sc (fd_review_id f)) (d_reviews db) of
        None \<Rightarrow> Inr db
      | Some holder \<Rightarrow>
          r_bind (inbox_create sc
            \<lparr>ci_recipient_type =
               (if rv_assigned_user_id holder \<noteq> None \<and> rv_assigned_agent_session_id holder = None
                then To_human_user else To_agent_session),
             ci_recipient_id =
               or_keep (rv_assigned_agent_session_id holder) (rv_assigned_user_id holder),
             ci_type = Finding_reopened, ci_title = fd_title f,
             ci_review_id = Some (fd_review_id f), ci_finding_id = Some (fd_id f),
             ci_review_slug = Some (rv_slug holder), ci_priority = rv_priority holder,
             ci_finding_count = None,
             ci_finding_source = Some (finding_source_name (fd_source f))\<rparr> actor db)
            (\<lambda>(_, db1). Inr db1))"

definition updateFinding_writes ::
  "scope \<Rightarrow> string \<Rightarrow> update_finding_input \<Rightarrow> event_actor \<Rightarrow> finding_row \<Rightarrow>
     (verification_row \<times> string option) option \<Rightarrow> review_db \<Rightarrow> store_failure + (finding_row \<times> review_db)" where
  "updateFinding_writes sc fid input actor current claim db =
     (let f = updated_finding input actor (es_now db) current;
          r = reopening current (fd_status f);
          deciding = (disposing current (fd_status f) \<or> r);
          verificationCount = (if r then countVerificationsOn sc fid db else 0)
      in r_bind (store_findings
           (update_where (finding_in sc fid) (updated_finding input actor (es_now db)) (d_findings db)) db)
           (\<lambda>db1.
         r_bind (appendEvents (movement_events sc input actor current f) db1) (\<lambda>db2.
         r_bind (decideClaim sc input actor claim current f db2) (\<lambda>db3.
         r_bind (decision_comment sc input actor deciding f db3) (\<lambda>db4.
         r_bind (appendEvents (resolved_events sc input actor current f) db4) (\<lambda>db5.
         r_bind
           (if r then r_bind (appendEvents [reopened_event sc input actor current f verificationCount] db5)
                        (deliver_reopen sc actor f)
            else Inr db5) (\<lambda>db6.
         Inr (f, db6))))))))"

definition updateFinding_tx ::
  "scope \<Rightarrow> string \<Rightarrow> update_finding_input \<Rightarrow> event_actor \<Rightarrow> review_db \<Rightarrow>
     (finding_row \<times> review_db) guarded" where
  "updateFinding_tx sc fid input actor db =
     r_bind (updateFinding_checks sc fid input actor db) (\<lambda>(current, claim).
       denying None (updateFinding_writes sc fid input actor current claim db))"

definition updateFinding ::
  "scope \<Rightarrow> string \<Rightarrow> update_finding_input \<Rightarrow> event_actor \<Rightarrow> review_db \<Rightarrow>
     (store_failure + finding_row) \<times> review_db" where
  "updateFinding sc fid input actor db =
     (case inTransaction (updateFinding_tx sc fid input actor) db of
        (Inr f, db') \<Rightarrow> (Inr f, db')
      | (Inl (denied, e), db') \<Rightarrow> (Inl e, recordDenial sc actor denied e db'))"

definition finding_to_status ::
  "nat \<Rightarrow> finding_status \<Rightarrow> string option \<Rightarrow> string option \<Rightarrow> string option \<Rightarrow> update_finding_input" where
  "finding_to_status expectedVersion status reason verificationId duplicateOf =
     \<lparr>uf_expected_version = expectedVersion, uf_title = None, uf_description = None,
      uf_severity = None, uf_status = Some status, uf_acceptance_criteria = None,
      uf_resolution_note = None, uf_reason = reason, uf_duplicate_of = duplicateOf,
      uf_verification_id = verificationId\<rparr>"

definition claimFinding where
  "claimFinding sc fid expectedVersion actor db =
     updateFinding sc fid (finding_to_status expectedVersion F_CLAIMED None None None) actor db"

definition disposeFinding where
  "disposeFinding sc fid disposition input actor db =
     (case r_then (if disposition = F_WONT_FIX then assertDecisionReason (dp_reason input) else ok)
           (refuse_if (disposition = F_DUPLICATE \<and> dp_duplicate_of input = None)
             (refusal UNSUPPORTED_CAPABILITY [D_field ''duplicate_of_finding_id''])) of
        Inl e \<Rightarrow> (Inl (Refused e), db)
      | Inr _ \<Rightarrow>
          updateFinding sc fid (finding_to_status (dp_expected_version input) disposition
            (dp_reason input) (dp_verification_id input) (dp_duplicate_of input)) actor db)"

definition reopenFinding where
  "reopenFinding sc fid input actor db =
     (case assertDecisionReason (tr_reason input) of
        Inl e \<Rightarrow> (Inl (Refused e), db)
      | Inr _ \<Rightarrow>
          updateFinding sc fid (finding_to_status (tr_expected_version input) F_REOPENED
            (tr_reason input) (tr_verification_id input) None) actor db)"

end
