(* ===== verification/Verification_Service.thy ===== *)
theory Verification_Service
  imports Finding_Lifecycle
begin

text \<open>
  Verifications and the completion gate in the review service
  (\<open>apps/server/src/modules/reviews/service.ts\<close>): a claim with evidence, the supersession of the
  claim before it, and the reads \<open>task_complete\<close> and the evidence-gated transition share.
\<close>

section \<open>Evidence ownership\<close>

text \<open>\<open>[...new Set(ids)]\<close>: the first occurrence of each, in order.\<close>

definition unique_ids :: "string list \<Rightarrow> string list" where
  "unique_ids xs = rev (remdups (rev xs))"

text \<open>The finding a screenshot is the original of: the subquery with \<open>LIMIT 1\<close>.\<close>

definition original_of :: "artefact_row \<Rightarrow> review_db \<Rightarrow> string option" where
  "original_of a db =
     map_option fd_id (List.find (\<lambda>f. fd_screenshot_artefact_id f = ar_id a \<and>
       fd_organisation_id f = ar_organisation_id a \<and> fd_project_id f = ar_project_id a) (d_findings db))"

definition owned_artefact ::
  "scope \<Rightarrow> string option \<Rightarrow> review_db \<Rightarrow> string \<Rightarrow> store_failure + (string \<times> string)" where
  "owned_artefact sc forFinding db aid =
     (case List.find (\<lambda>a. ar_id a = aid \<and> in_tenant sc (ar_organisation_id a) (ar_project_id a))
             (d_artefacts db) of
        None \<Rightarrow> Inl (Refused (notFound ''The evidence artefact''))
      | Some a \<Rightarrow>
          r_then (lift (refuse_if (case ar_browser_session_id a of None \<Rightarrow> False
              | Some b \<Rightarrow> map_of (d_browser_sessions db) b \<noteq> Some (sc_project_id sc))
            (notFound ''The evidence artefact'')))
          (r_then (lift (refuse_if (ar_state a \<noteq> ''available'')
            (refusal ARTEFACT_UPLOAD_INCOMPLETE [D_field ''artefact_ids''])))
          (r_then (lift (refuse_if (forFinding \<noteq> None \<and> original_of a db \<noteq> None \<and>
              original_of a db \<noteq> forFinding)
            (refusal POLICY_DENIED [D_field ''artefact_ids''])))
          (Inr (ar_id a, ar_kind a)))))"

fun collect :: "('a \<Rightarrow> 'e + 'b) \<Rightarrow> 'a list \<Rightarrow> 'e + 'b list" where
  "collect g [] = Inr []"
| "collect g (x # xs) = r_bind (g x) (\<lambda>y. r_bind (collect g xs) (\<lambda>ys. Inr (y # ys)))"

definition requireOwnedEvidence ::
  "scope \<Rightarrow> string list \<Rightarrow> string option \<Rightarrow> review_db \<Rightarrow> store_failure + (string \<times> string) list" where
  "requireOwnedEvidence sc ids forFinding db = collect (owned_artefact sc forFinding db) (unique_ids ids)"

definition requireReachableEvidence :: "review_db \<Rightarrow> store_failure + unit" where
  "requireReachableEvidence db =
     lift (refuse_if (\<not> d_store_readable db)
       (refusal ARTEFACT_STORE_UNAVAILABLE [D_reason ''artefact_store_unavailable'', D_retryable True]))"

section \<open>Submitting a verification\<close>

text \<open>
  Everything before the transaction: it reads the finding and its review without a lock and
  hands the finding, the evidence and whether the branch is corroborated to the transaction.
\<close>

definition submitVerification_checks ::
  "scope \<Rightarrow> string \<Rightarrow> submit_verification_input \<Rightarrow> review_db \<Rightarrow>
     store_failure + (finding_row \<times> (string \<times> string) list \<times> bool)" where
  "submitVerification_checks sc fid input db =
     r_bind (getFinding sc fid db) (\<lambda>(finding, _).
     r_bind (getReview sc (fd_review_id finding) db) (\<lambda>(review, _).
     r_then (lift (assertReviewMutable (rv_status review) None [''verification'']))
     (r_then (lift (assertFindingTakesVerification (fd_status finding)))
     (r_bind (requireOwnedEvidence sc (sv_artefact_ids input) (Some fid) db) (\<lambda>evidence.
     r_then (lift (refuse_if (filter (\<lambda>(_, kind). kind = ''screenshot'') evidence = [])
       (refusal EVIDENCE_REQUIRED
         [D_field ''artefact_ids'', D_required_evidence [''after_screenshot_artefact'']])))
     (r_bind (lift (assertVerificationCommitContext (fd_captured_commit finding) (sv_commit input)
        (sv_branch input) (sv_workspace_branch input))) (\<lambda>branchCorroborated.
     r_then (requireReachableEvidence db)
     (Inr (finding, evidence, branchCorroborated)))))))))"

definition after_artefact :: "(string \<times> string) list \<Rightarrow> string option" where
  "after_artefact evidence =
     (case rev (filter (\<lambda>(_, kind). kind = ''screenshot'') evidence) of
        [] \<Rightarrow> None | (aid, _) # _ \<Rightarrow> Some aid)"

definition supersedeCurrentVerification ::
  "scope \<Rightarrow> string \<Rightarrow> string \<Rightarrow> review_db \<Rightarrow> string option \<times> verification_row list" where
  "supersedeCurrentVerification sc fid replacement db =
     (let current = (\<lambda>v. claim_in sc fid v \<and> vf_status v = Submitted) in
      (map_option vf_id (List.find current (d_verifications db)),
       update_where current
         (\<lambda>v. v\<lparr>vf_status := Superseded, vf_superseded_at := Some (es_now db),
                 vf_superseded_by := Some replacement\<rparr>) (d_verifications db)))"

definition new_verification ::
  "scope \<Rightarrow> finding_row \<Rightarrow> submit_verification_input \<Rightarrow> event_actor \<Rightarrow> string option \<Rightarrow> string \<Rightarrow> nat \<Rightarrow>
     verification_row" where
  "new_verification sc finding input actor superseded vid now =
     \<lparr>vf_id = vid, vf_organisation_id = sc_organisation_id sc, vf_project_id = sc_project_id sc,
      vf_review_id = fd_review_id finding, vf_finding_id = fd_id finding, vf_status = Submitted,
      vf_summary = sv_summary input, vf_branch = sv_branch input, vf_commit_sha = sv_commit input,
      vf_tested_viewports = sv_tested_viewports input, vf_checks = sv_checks input,
      vf_submitted_by = actor, vf_submitted_at = now, vf_reviewed_at = None, vf_reviewed_by = None,
      vf_supersedes = superseded, vf_superseded_at = None, vf_superseded_by = None\<rparr>"

definition evidence_role :: "finding_row \<Rightarrow> string option \<Rightarrow> string \<Rightarrow> artefact_role" where
  "evidence_role finding after aid =
     (if aid = fd_screenshot_artefact_id finding then Before
      else if Some aid = after then After else Supporting)"

definition evidence_rows ::
  "finding_row \<Rightarrow> string \<Rightarrow> (string \<times> string) list \<Rightarrow> verification_artefact_row list" where
  "evidence_rows finding vid evidence =
     map (\<lambda>(position, aid).
       \<lparr>va_verification_id = vid, va_artefact_id = aid,
        va_role = evidence_role finding (after_artefact evidence) aid, va_position = position\<rparr>)
       (enumerate 0 (map fst evidence))"

definition advanced_status :: "event_actor \<Rightarrow> finding_row \<Rightarrow> finding_status" where
  "advanced_status actor locked =
     (if mayActorMoveFinding (act_type actor) (fd_status locked) F_FIXED_UNVERIFIED \<and>
         \<not> isFinalDisposition (fd_status locked)
      then F_FIXED_UNVERIFIED else fd_status locked)"

definition advanced_finding ::
  "submit_verification_input \<Rightarrow> event_actor \<Rightarrow> nat \<Rightarrow> finding_row \<Rightarrow> finding_row" where
  "advanced_finding input actor now f =
     f\<lparr>fd_resolution_note := Some (sv_summary input), fd_status := advanced_status actor f,
       fd_version := fd_version f + 1, fd_updated_at := now\<rparr>"

definition submission_events ::
  "scope \<Rightarrow> event_actor \<Rightarrow> finding_row \<Rightarrow> finding_row \<Rightarrow> verification_row \<Rightarrow>
     (string \<times> string) list \<Rightarrow> finding_row \<Rightarrow> append_input list" where
  "submission_events sc actor finding locked verification evidence moved =
     (let fid = fd_id finding; rid = fd_review_id finding; after = after_artefact evidence in
      [scoped_event sc actor ''finding.verification_submitted''
         ([(''review_id'', JString rid), (''finding_id'', JString fid)] @
          opt_member ''artefact_id'' JString after @
          opt_member ''agent_session_id'' JString (agent_id actor))
         ([(''verification'', toVerification verification (map fst evidence)
              (Some (fd_screenshot_artefact_id finding)) after),
           (''finding_id'', JString fid), (''review_id'', JString rid),
           (''version'', num (fd_version moved))] @
          opt_member ''supersedes_verification_id'' JString (vf_supersedes verification))] @
      (if fd_status moved \<noteq> fd_status locked
       then [scoped_event sc actor ''finding.status_changed''
              [(''review_id'', JString rid), (''finding_id'', JString fid)]
              [(''finding_id'', JString fid), (''review_id'', JString rid),
               (''from'', JString (finding_status_name (fd_status locked))),
               (''to'', JString (finding_status_name (fd_status moved))),
               (''version'', num (fd_version moved)),
               (''source'', JString (finding_source_name (fd_source locked))),
               (''reason'', JString ''Verification submitted with evidence.'')]]
       else []))"

definition submitVerification_tx ::
  "scope \<Rightarrow> string \<Rightarrow> submit_verification_input \<Rightarrow> event_actor \<Rightarrow> finding_row \<Rightarrow>
     (string \<times> string) list \<Rightarrow> string \<Rightarrow> review_db \<Rightarrow>
     store_failure + ((verification_row \<times> finding_row) \<times> review_db)" where
  "submitVerification_tx sc fid input actor finding evidence vid db =
     r_bind (lockFinding sc fid db) (\<lambda>locked.
     r_then (case sv_expected_version input of None \<Rightarrow> ok
       | Some v \<Rightarrow> lift (assertExpectedVersion (fd_version locked) v))
     (let (superseded, rows) = supersedeCurrentVerification sc fid vid db;
          verification = new_verification sc finding input actor superseded vid (es_now db);
          moved = advanced_finding input actor (es_now db) locked
      in r_bind (store_verifications (rows @ [verification]) db) (\<lambda>db1.
         r_bind (store_verification_artefacts
           (d_verification_artefacts db1 @ evidence_rows finding vid evidence) db1) (\<lambda>db2.
         r_bind (store_findings
           (update_where (finding_in sc fid) (advanced_finding input actor (es_now db)) (d_findings db2)) db2)
           (\<lambda>db3.
         r_bind (appendEvents (submission_events sc actor finding locked verification evidence moved) db3)
           (\<lambda>db4.
         Inr ((verification, moved), db4)))))))"

definition submitVerification ::
  "scope \<Rightarrow> string \<Rightarrow> submit_verification_input \<Rightarrow> event_actor \<Rightarrow> review_db \<Rightarrow>
     (store_failure + (verification_row \<times> finding_row \<times> bool)) \<times> review_db" where
  "submitVerification sc fid input actor db =
     (case submitVerification_checks sc fid input db of
        Inl e \<Rightarrow> (Inl e, db)
      | Inr (finding, evidence, branchCorroborated) \<Rightarrow>
          (let (vid, db0) = newId ''ver_'' db in
           case inTransaction (submitVerification_tx sc fid input actor finding evidence vid) db0 of
             (Inl e, db') \<Rightarrow> (Inl e, db')
           | (Inr (verification, moved), db') \<Rightarrow> (Inr (verification, moved, branchCorroborated), db')))"

section \<open>Reading claims\<close>

definition verification_artefact_ids :: "string \<Rightarrow> review_db \<Rightarrow> string list" where
  "verification_artefact_ids vid db =
     map va_artefact_id (sort_key va_position
       (filter (\<lambda>a. va_verification_id a = vid) (d_verification_artefacts db)))"

record claim_view =
  cv_row :: verification_row
  cv_artefact_ids :: "string list"
  cv_before :: "string option"
  cv_after :: "string option"

definition view_claim :: "review_db \<Rightarrow> verification_row \<Rightarrow> claim_view" where
  "view_claim db v =
     \<lparr>cv_row = v, cv_artefact_ids = verification_artefact_ids (vf_id v) db,
      cv_before = artefact_in_role (vf_id v) Before db,
      cv_after = artefact_in_role (vf_id v) After db\<rparr>"

text \<open>
  \<open>ORDER BY (status = 'submitted') DESC, submitted_at DESC LIMIT 1\<close>: the last of the ascending
  order, a false flag sorting before a true one.
\<close>

definition latestVerification :: "scope \<Rightarrow> string \<Rightarrow> review_db \<Rightarrow> claim_view option" where
  "latestVerification sc fid db =
     (case rev (sort_key (\<lambda>v. (vf_status v = Submitted, vf_submitted_at v))
             (filter (claim_in sc fid) (d_verifications db))) of
        [] \<Rightarrow> None | v # _ \<Rightarrow> Some (view_claim db v))"

definition listVerifications :: "scope \<Rightarrow> string \<Rightarrow> review_db \<Rightarrow> claim_view list" where
  "listVerifications sc fid db =
     map (view_claim db) (take 100 (rev (sort_key (\<lambda>v. (vf_submitted_at v, vf_id v))
       (filter (claim_in sc fid) (d_verifications db)))))"

definition evidence_of :: "claim_view \<Rightarrow> bool \<Rightarrow> evidence_under_review" where
  "evidence_of c corroborated =
     \<lparr>ev_verification_id = vf_id (cv_row c), ev_tested_viewports = vf_tested_viewports (cv_row c),
      ev_checks = vf_checks (cv_row c), ev_after_artefact_id = cv_after c,
      ev_branch_corroborated = corroborated, ev_submitted_by = vf_submitted_by (cv_row c)\<rparr>"

definition verificationReview ::
  "scope \<Rightarrow> string \<Rightarrow> string \<Rightarrow> review_db \<Rightarrow>
     store_failure + (claim_view \<times> evidence_assurance \<times> string list \<times> bool)" where
  "verificationReview sc fid vid db =
     (case List.find (\<lambda>c. vf_id (cv_row c) = vid) (listVerifications sc fid db) of
        None \<Rightarrow> Inl (Refused (notFound ''The verification''))
      | Some c \<Rightarrow>
          (let evidence = Some (evidence_of c False) in
           Inr (c, assuranceFor evidence, evidenceWarnings evidence, vf_status (cv_row c) = Submitted)))"

section \<open>The completion gate\<close>

definition completionRequirements ::
  "scope \<Rightarrow> review_db \<Rightarrow> store_failure + (project_settings \<times> completion_requirements)" where
  "completionRequirements sc db =
     r_bind (project_settings_of sc db) (\<lambda>s. Inr (s, completionRequirementsFor s))"

definition completionEvidenceFor ::
  "scope \<Rightarrow> string \<Rightarrow> string option \<Rightarrow> review_db \<Rightarrow> evidence_under_review option" where
  "completionEvidenceFor sc fid workspaceBranch db =
     (case latestVerification sc fid db of
        None \<Rightarrow> None
      | Some c \<Rightarrow>
          (if vf_status (cv_row c) \<noteq> Submitted \<and> vf_status (cv_row c) \<noteq> Accepted then None
           else Some (evidence_of c
             (workspaceBranch \<noteq> None \<and> Some (vf_branch (cv_row c)) = workspaceBranch))))"

definition countVerifications :: "scope \<Rightarrow> string \<Rightarrow> review_db \<Rightarrow> nat" where
  "countVerifications sc fid db = length (filter (claim_in sc fid) (d_verifications db))"

definition evaluateCompletion ::
  "scope \<Rightarrow> string \<Rightarrow> string option \<Rightarrow> string option \<Rightarrow> review_db \<Rightarrow>
     store_failure + (project_settings \<times> completion_requirements \<times> finding_completion_state list)" where
  "evaluateCompletion sc rid fid workspaceBranch db =
     r_bind (completionRequirements sc db) (\<lambda>(settings, requirements).
     r_bind (listFindings sc rid db) (\<lambda>findings.
     (let subject = (case fid of None \<Rightarrow> findings | Some i \<Rightarrow> filter (\<lambda>f. fd_id f = i) findings) in
      r_then (lift (refuse_if (fid \<noteq> None \<and> subject = []) (notFound ''The finding'')))
      (Inr (settings, requirements,
         map (\<lambda>f. findingCompletionState (fd_id f) (fd_status f) settings requirements
           (completionEvidenceFor sc (fd_id f) workspaceBranch db)
           (countVerifications sc (fd_id f) db)) (take 50 subject))))))"

fun completion_result_name :: "completion_result \<Rightarrow> string" where
  "completion_result_name Completed = ''completed''"
| "completion_result_name Completed_with_warnings = ''completed_with_warnings''"
| "completion_result_name Blocked_pending_review = ''blocked_pending_review''"
| "completion_result_name Blocked_missing_evidence = ''blocked_missing_evidence''"

definition recordCompletionEvaluation ::
  "scope \<Rightarrow> string \<Rightarrow> string option \<Rightarrow> completion_result \<Rightarrow> string list \<Rightarrow> nat option \<Rightarrow> string option \<Rightarrow>
     event_actor \<Rightarrow> review_db \<Rightarrow> (store_failure + unit) \<times> review_db" where
  "recordCompletionEvaluation sc rid fid result missing findingCount summary actor db =
     inTransaction (\<lambda>db. r_bind (appendEvent
       (scoped_event sc actor ''review.completion_evaluated''
         ([(''review_id'', JString rid)] @ opt_member ''finding_id'' JString fid @
          opt_member ''agent_session_id'' JString (agent_id actor))
         ([(''review_id'', JString rid)] @ opt_member ''finding_id'' JString fid @
          [(''result'', JString (completion_result_name result)),
           (''missing'', JArray (map JString missing)),
           (''finding_count'', num (or_else findingCount 0))] @
          opt_member ''summary'' JString summary)) db) (\<lambda>(_, db'). Inr ((), db'))) db"

section \<open>Refusals seen before the service\<close>

text \<open>
  \<open>recordTransitionDenied\<close>: the layer that refused hands the attempt over; the row is read in
  the caller's scope, and nothing is written for a row the caller cannot see. The text of the
  refusal is not modelled.
\<close>

definition recordTransitionDenied ::
  "scope \<Rightarrow> bool \<Rightarrow> string \<Rightarrow> string \<Rightarrow> string \<Rightarrow> event_actor \<Rightarrow> review_db \<Rightarrow> bool \<times> review_db" where
  "recordTransitionDenied sc isReview target requested code actor db =
     (let attempt =
        (if isReview
         then (case getReview sc target db of
                 Inl _ \<Rightarrow> None
               | Inr (r, _) \<Rightarrow> Some (''review.status_change_denied'',
                   [(''review_id'', JString target)], [(''review_id'', JString target)],
                   review_status_name (rv_status r), []))
         else (case getFinding sc target db of
                 Inl _ \<Rightarrow> None
               | Inr (f, _) \<Rightarrow> Some (''finding.status_change_denied'',
                   [(''review_id'', JString (fd_review_id f)), (''finding_id'', JString target)],
                   [(''finding_id'', JString target), (''review_id'', JString (fd_review_id f))],
                   finding_status_name (fd_status f),
                   [(''source'', JString (finding_source_name (fd_source f)))])))
      in case attempt of
           None \<Rightarrow> (False, db)
         | Some (type, correlation, ids, from, source) \<Rightarrow>
             (case inTransaction (appendEvent (scoped_event sc actor type correlation
                (ids @ [(''from'', JString from), (''requested'', JString requested)] @ source @
                 [(''code'', JString code)]))) db of
                (Inl _, db') \<Rightarrow> (False, db')
              | (Inr _, db') \<Rightarrow> (True, db')))"

end
