(* ===== verification/Service_Steps.thy ===== *)
theory Service_Steps
  imports Annotation_Service Verification_Service
begin

text \<open>
  What one operation of the review service may do to the database, table by table. A step of a
  table keeps the rows it had, each either unchanged or changed in one permitted way, and adds
  new rows at the end. \<open>service_step\<close> puts the tables together with the log; the theory
  Review_Commands proves that every operation of the service is such a step, and the properties
  of the service are read off it.
\<close>

section \<open>Steps of a table\<close>

definition evolves :: "('r \<Rightarrow> 'r \<Rightarrow> bool) \<Rightarrow> ('r \<Rightarrow> bool) \<Rightarrow> 'r list \<Rightarrow> 'r list \<Rightarrow> bool" where
  "evolves P Q old new \<longleftrightarrow>
     (\<exists>kept added. new = kept @ added \<and> list_all2 P old kept \<and> list_all Q added)"

lemma evolvesI: "list_all2 P old kept \<Longrightarrow> list_all Q added \<Longrightarrow> evolves P Q old (kept @ added)"
  by (auto simp: evolves_def)

lemma evolves_refl [simp]: "(\<And>r. P r r) \<Longrightarrow> evolves P Q t t"
  using evolvesI [of P t t Q "[]"] by (simp add: list_all2_same)

lemma evolves_update_where:
  "(\<And>r. P r r) \<Longrightarrow> (\<And>r. r \<in> set t \<Longrightarrow> p r \<Longrightarrow> P r (f r)) \<Longrightarrow> evolves P Q t (update_where p f t)"
  using evolvesI [of P t "update_where p f t" Q "[]"]
  by (auto simp: update_where_def list_all2_conv_all_nth)

lemma evolves_append:
  "evolves P Q old new \<Longrightarrow> list_all Q added \<Longrightarrow> evolves P Q old (new @ added)"
  unfolding evolves_def by (metis append.assoc list_all_append)

lemma list_all2_from: "list_all2 P old kept \<Longrightarrow> r' \<in> set kept \<Longrightarrow> \<exists>r \<in> set old. P r r'"
  by (induction rule: list_all2_induct) auto

lemma list_all2_to: "list_all2 P old kept \<Longrightarrow> r \<in> set old \<Longrightarrow> \<exists>r' \<in> set kept. P r r'"
  by (induction rule: list_all2_induct) auto

lemma evolves_kept: "evolves P Q old new \<Longrightarrow> r \<in> set old \<Longrightarrow> \<exists>r' \<in> set new. P r r'"
  by (fastforce simp: evolves_def dest: list_all2_to)

lemma evolves_from: "evolves P Q old new \<Longrightarrow> r' \<in> set new \<Longrightarrow> (\<exists>r \<in> set old. P r r') \<or> Q r'"
  by (auto simp: evolves_def list_all_iff dest: list_all2_from)

lemma evolves_eq: "evolves (=) Q old new \<longleftrightarrow> (\<exists>added. new = old @ added \<and> list_all Q added)"
  by (auto simp: evolves_def list.rel_eq)

section \<open>The checks on geometry, comments and deliveries\<close>

text \<open>
  The \<open>CHECK\<close> constraints \<open>annotations_geometry_matches_type\<close> and \<open>annotations_geometry_normalised\<close> as
  \<open>migrations/0152\<close> has them. Of the second, that a geometry has no member with another name is left out:
  the request validator and the database see to that.
\<close>

definition geometry_matches_type :: "annotation_type \<Rightarrow> json \<Rightarrow> bool" where
  "geometry_matches_type type geometry =
     (case geometry of
        JObject ms \<Rightarrow>
          (let has = (\<lambda>k. member ms k \<noteq> JAbsent) in
           case type of
             A_rectangle \<Rightarrow> has ''width'' \<and> has ''height'' \<and> \<not> has ''x2'' \<and> \<not> has ''y2'' \<and> \<not> has ''path''
           | A_ellipse \<Rightarrow> has ''width'' \<and> has ''height'' \<and> \<not> has ''x2'' \<and> \<not> has ''y2'' \<and> \<not> has ''path''
           | A_arrow \<Rightarrow> has ''x2'' \<and> has ''y2'' \<and> \<not> has ''width'' \<and> \<not> has ''height'' \<and>
               \<not> has ''rotation'' \<and> \<not> has ''path''
           | A_freehand \<Rightarrow> has ''width'' \<and> has ''height'' \<and> has ''path'' \<and> \<not> has ''x2'' \<and> \<not> has ''y2'' \<and>
               \<not> has ''rotation''
           | _ \<Rightarrow> \<not> has ''width'' \<and> \<not> has ''height'' \<and> \<not> has ''x2'' \<and> \<not> has ''y2'' \<and>
               \<not> has ''rotation'' \<and> \<not> has ''path'')
      | _ \<Rightarrow> False)"

definition normalised_point :: "json \<Rightarrow> bool" where
  "normalised_point p =
     (case p of
        JObject ms \<Rightarrow> isNormalisedCoordinate (member ms ''x'') \<and> isNormalisedCoordinate (member ms ''y'') \<and>
          list_all (\<lambda>k. k = ''x'' \<or> k = ''y'') (map fst ms)
      | _ \<Rightarrow> False)"

definition normalised_path :: "json \<Rightarrow> bool" where
  "normalised_path v =
     (case v of
        JArray ps \<Rightarrow> 2 \<le> length ps \<and> length ps \<le> 128 \<and> list_all normalised_point ps
      | _ \<Rightarrow> False)"

definition geometry_normalised :: "json \<Rightarrow> bool" where
  "geometry_normalised geometry =
     (case geometry of
        JObject ms \<Rightarrow>
          isNormalisedCoordinate (member ms ''x'') \<and> isNormalisedCoordinate (member ms ''y'') \<and>
          list_all (\<lambda>k. member ms k = JAbsent \<or> isNormalisedCoordinate (member ms k))
            [''width'', ''height'', ''x2'', ''y2'', ''rotation''] \<and>
          (member ms ''path'' = JAbsent \<or> normalised_path (member ms ''path''))
      | _ \<Rightarrow> False)"

text \<open>What the assertion of the service accepts passes both.\<close>

lemma check_coordinate_Nil: "check_coordinate m v = [] \<longleftrightarrow> isNormalisedCoordinate v"
  by (auto simp: check_coordinate_def isNormalisedCoordinate_def split: json.splits)

lemma check_point_Nil: "check_point m p = [] \<longleftrightarrow> normalised_point p"
proof -
  have "nat_text i \<noteq> ''x''" for i
  proof
    assume "nat_text i = ''x''"
    then have "CHR ''x'' \<in> set (nat_text i)" by simp
    from nat_text_digits [OF this] show False by simp
  qed
  then have "''x'' \<notin> set (map nat_text is)" for "is" unfolding set_map by (metis imageE)
  then have array: "member (zip (map nat_text is) vs) ''x'' = JAbsent" for "is" vs
    by (auto simp: member_def split: option.split dest!: map_of_SomeD dest: set_zip_leftD simp del: set_map)
  show ?thesis
    by (cases p) (auto simp: check_point_def point_members_def normalised_point_def check_coordinate_Nil array
        isNormalisedCoordinate_def filter_empty_conv list_all_iff)
qed

lemma check_points_Nil: "check_points m ps = [] \<longleftrightarrow> list_all normalised_point ps"
  by (induction ps) (simp_all add: check_point_Nil)

lemma checkPath_Nil: "checkPath m v = [] \<longleftrightarrow> normalised_path v"
  by (cases v) (auto simp: checkPath_def normalised_path_def check_points_Nil path_minimum_def path_maximum_def)

lemma assertGeometry_checks:
  assumes "assertGeometry type geometry = ok"
  shows "geometry_matches_type type geometry" "geometry_normalised geometry"
proof -
  obtain ms where g: "geometry = JObject ms" and none: "checkGeometryForType type ms = []"
    using assms by (auto simp: assertGeometry_def split: json.splits list.splits)
  have each: "check_member (GEOMETRY_RULES type) ms m = []" if "m \<in> set ALL_MEMBERS" for m
    using none that by (auto simp: checkGeometryForType_def Let_def)
  note rules = check_member_def Let_def ARRAY_MEMBERS_def GEOMETRY_RULES_values check_coordinate_Nil checkPath_Nil
  have all: "\<forall>m \<in> set ALL_MEMBERS. check_member (GEOMETRY_RULES type) ms m = []" using each by blast
  show "geometry_matches_type type geometry"
    using all by (cases type) (simp_all add: g geometry_matches_type_def ALL_MEMBERS_def rules split: if_splits)
  show "geometry_normalised geometry"
    using all by (cases type) (simp_all add: g geometry_normalised_def ALL_MEMBERS_def rules split: if_splits)
qed

lemma geometry_versions: "1 \<le> geometryVersionForType type"
  by (cases type) (simp_all add: geometryVersionForType_def GEOMETRY_RULES_values)

text \<open>The constraints of \<open>annotations\<close> and \<open>comments\<close> that are not keys.\<close>

definition annotation_checks :: "annotation_row \<Rightarrow> bool" where
  "annotation_checks a \<longleftrightarrow> 1 \<le> an_revision a \<and> 1 \<le> an_geometry_version a \<and>
     geometry_matches_type (an_type a) (an_geometry a) \<and> geometry_normalised (an_geometry a)"

definition comment_checks :: "comment_row \<Rightarrow> bool" where
  "comment_checks c \<longleftrightarrow> \<not> blank_body (cm_body c) \<and> 1 \<le> cm_revision c \<and>
     cm_supersedes_comment_id c \<noteq> Some (cm_id c) \<and> (cm_revision c = 1 \<longleftrightarrow> cm_supersedes_comment_id c = None)"

text \<open>\<open>inbox_items_names_work\<close>\<close>

definition names_work :: "inbox_type \<Rightarrow> string option \<Rightarrow> string option \<Rightarrow> bool" where
  "names_work type review finding \<longleftrightarrow>
     type = Review_assigned \<and> review \<noteq> None \<or> type = Finding_reopened \<and> finding \<noteq> None"

section \<open>Steps of a row\<close>

text \<open>
  A review that an operation touches is in the caller's tenant, keeps its identity, moves its
  version by one, and changes its status only as the transition table permits the actor. The
  acceptance columns follow the status.
\<close>

definition review_step :: "scope \<Rightarrow> event_actor \<Rightarrow> review_row \<Rightarrow> review_row \<Rightarrow> bool" where
  "review_step sc actor r r' \<longleftrightarrow> r' = r \<or>
     in_tenant sc (rv_organisation_id r) (rv_project_id r) \<and>
     rv_id r' = rv_id r \<and> rv_organisation_id r' = rv_organisation_id r \<and>
     rv_project_id r' = rv_project_id r \<and> rv_created_by r' = rv_created_by r \<and>
     rv_created_at r' = rv_created_at r \<and> rv_version r' = rv_version r + 1 \<and>
     (rv_status r' = rv_status r \<or> mayActorMoveReview (act_type actor) (rv_status r) (rv_status r')) \<and>
     (if rv_status r' \<noteq> rv_status r \<and> rv_status r' = R_ACCEPTED
      then rv_accepted_by r' = Some actor \<and> rv_accepted_at r' \<noteq> None
      else if rv_status r' \<noteq> rv_status r \<and> rv_status r = R_ACCEPTED
      then rv_accepted_by r' = None \<and> rv_accepted_at r' = None
      else rv_accepted_by r' = rv_accepted_by r \<and> rv_accepted_at r' = rv_accepted_at r)"

definition review_new :: "scope \<Rightarrow> event_actor \<Rightarrow> review_row \<Rightarrow> bool" where
  "review_new sc actor r \<longleftrightarrow>
     in_tenant sc (rv_organisation_id r) (rv_project_id r) \<and> rv_created_by r = actor \<and>
     rv_version r = 1 \<and> rv_status r \<in> {R_DRAFT, R_READY} \<and>
     rv_accepted_by r = None \<and> rv_accepted_at r = None"

definition finding_step :: "scope \<Rightarrow> event_actor \<Rightarrow> finding_row \<Rightarrow> finding_row \<Rightarrow> bool" where
  "finding_step sc actor f f' \<longleftrightarrow> f' = f \<or>
     in_tenant sc (fd_organisation_id f) (fd_project_id f) \<and>
     fd_id f' = fd_id f \<and> fd_organisation_id f' = fd_organisation_id f \<and>
     fd_project_id f' = fd_project_id f \<and> fd_review_id f' = fd_review_id f \<and>
     fd_source f' = fd_source f \<and> fd_created_by f' = fd_created_by f \<and>
     fd_screenshot_artefact_id f' = fd_screenshot_artefact_id f \<and>
     fd_created_at f' = fd_created_at f \<and> fd_version f' = fd_version f + 1 \<and>
     (fd_status f' = fd_status f \<or> mayActorMoveFinding (act_type actor) (fd_status f) (fd_status f')) \<and>
     (if fd_status f' \<noteq> fd_status f \<and> isFinalDisposition (fd_status f')
      then fd_resolved_by f' = Some actor \<and> fd_resolved_at f' \<noteq> None
      else if fd_status f' \<noteq> fd_status f \<and> fd_status f' = F_REOPENED
      then fd_resolved_by f' = None \<and> fd_resolved_at f' = None
      else fd_resolved_by f' = fd_resolved_by f \<and> fd_resolved_at f' = fd_resolved_at f) \<and>
     (fd_duplicate_of f' = fd_duplicate_of f \<or> fd_duplicate_of f' \<noteq> Some (fd_id f))"

definition finding_new :: "scope \<Rightarrow> event_actor \<Rightarrow> finding_row \<Rightarrow> bool" where
  "finding_new sc actor f \<longleftrightarrow>
     in_tenant sc (fd_organisation_id f) (fd_project_id f) \<and> fd_created_by f = actor \<and>
     fd_source f = sourceForActor (act_type actor) \<and> fd_version f = 1 \<and> fd_status f = F_OPEN \<and>
     fd_resolved_by f = None \<and> fd_resolved_at f = None \<and> fd_duplicate_of f = None"

text \<open>A comment's body is never overwritten; a revision may only be stamped as superseded, once.\<close>

definition comment_step :: "scope \<Rightarrow> comment_row \<Rightarrow> comment_row \<Rightarrow> bool" where
  "comment_step sc c c' \<longleftrightarrow> c' = c \<or>
     in_tenant sc (cm_organisation_id c) (cm_project_id c) \<and> cm_superseded_at c = None \<and>
     (\<exists>t. c' = c\<lparr>cm_superseded_at := Some t\<rparr>)"

definition comment_new :: "scope \<Rightarrow> event_actor \<Rightarrow> comment_row \<Rightarrow> bool" where
  "comment_new sc actor c \<longleftrightarrow>
     in_tenant sc (cm_organisation_id c) (cm_project_id c) \<and> cm_created_by c = actor \<and>
     cm_superseded_at c = None"

text \<open>
  A claim is decided by a human or superseded by a later one, and only while it is current. What
  it claims, and who claimed it, never changes.
\<close>

definition claim_step :: "scope \<Rightarrow> event_actor \<Rightarrow> verification_row \<Rightarrow> verification_row \<Rightarrow> bool" where
  "claim_step sc actor v v' \<longleftrightarrow> v' = v \<or>
     in_tenant sc (vf_organisation_id v) (vf_project_id v) \<and> vf_status v = Submitted \<and>
     ((\<exists>d t. act_type actor = human_user \<and> d \<in> {Accepted, Rejected} \<and>
         v' = v\<lparr>vf_status := d, vf_reviewed_at := Some t,
                vf_reviewed_by := Some (human_user, act_id actor)\<rparr>) \<or>
      (\<exists>t n. n \<noteq> vf_id v \<and>
         v' = v\<lparr>vf_status := Superseded, vf_superseded_at := Some t, vf_superseded_by := Some n\<rparr>))"

definition claim_new :: "scope \<Rightarrow> event_actor \<Rightarrow> verification_row \<Rightarrow> bool" where
  "claim_new sc actor v \<longleftrightarrow>
     in_tenant sc (vf_organisation_id v) (vf_project_id v) \<and> vf_submitted_by v = actor \<and>
     vf_status v = Submitted \<and> vf_reviewed_at v = None \<and> vf_reviewed_by v = None \<and>
     vf_superseded_at v = None \<and> vf_superseded_by v = None \<and> vf_supersedes v \<noteq> Some (vf_id v)"

definition annotation_new :: "scope \<Rightarrow> event_actor \<Rightarrow> annotation_row \<Rightarrow> bool" where
  "annotation_new sc actor a \<longleftrightarrow>
     in_tenant sc (an_organisation_id a) (an_project_id a) \<and> an_created_by a = actor"

definition inbox_step :: "scope \<Rightarrow> inbox_row \<Rightarrow> inbox_row \<Rightarrow> bool" where
  "inbox_step sc i i' \<longleftrightarrow> i' = i \<or>
     in_tenant sc (in_organisation_id i) (in_project_id i) \<and>
     in_status i \<in> set (INBOX_TRANSITIONS (in_status i')) \<and>
     in_id i' = in_id i \<and> in_organisation_id i' = in_organisation_id i \<and>
     in_project_id i' = in_project_id i \<and> in_type i' = in_type i \<and>
     in_recipient_type i' = in_recipient_type i \<and> in_recipient_id i' = in_recipient_id i \<and>
     in_review_id i' = in_review_id i \<and> in_finding_id i' = in_finding_id i \<and>
     (in_status i' = Acknowledged \<longrightarrow> in_acknowledged_at i' \<noteq> None) \<and>
     (in_status i' = Completed_item \<longrightarrow> in_completed_at i' \<noteq> None)"

definition inbox_new :: "scope \<Rightarrow> event_actor \<Rightarrow> inbox_row \<Rightarrow> bool" where
  "inbox_new sc actor i \<longleftrightarrow>
     in_tenant sc (in_organisation_id i) (in_project_id i) \<and> in_created_by i = actor \<and>
     in_status i = Pending \<and> names_work (in_type i) (in_review_id i) (in_finding_id i)"

lemma row_step_refl [simp]:
  "review_step sc a r r" "finding_step sc a f f" "comment_step sc c c" "claim_step sc a v v"
  "inbox_step sc i i"
  by (simp_all add: review_step_def finding_step_def comment_step_def claim_step_def inbox_step_def)

section \<open>Steps of the database\<close>

text \<open>The keys and the partial unique indexes of the tables.\<close>

definition keys_ok :: "review_db \<Rightarrow> bool" where
  "keys_ok db \<longleftrightarrow>
     distinct (map rv_id (d_reviews db)) \<and> slugs_unique (d_reviews db) \<and>
     distinct (map fd_id (d_findings db)) \<and>
     distinct (map (\<lambda>a. (an_id a, an_revision a)) (d_annotations db)) \<and>
     distinct (map cm_id (d_comments db)) \<and> one_successor (d_comments db) \<and>
     distinct (map vf_id (d_verifications db)) \<and> one_current (d_verifications db) \<and>
     distinct (map (\<lambda>a. (va_verification_id a, va_artefact_id a)) (d_verification_artefacts db)) \<and>
     distinct (map in_id (d_inbox db)) \<and> deliveries_unique (d_inbox db)"

text \<open>The rows of the two tables whose new rows are copied from old ones.\<close>

definition rows_ok :: "review_db \<Rightarrow> bool" where
  "rows_ok db \<longleftrightarrow> list_all annotation_checks (d_annotations db) \<and> list_all comment_checks (d_comments db)"

definition same_references :: "review_db \<Rightarrow> review_db \<Rightarrow> bool" where
  "same_references db db' \<longleftrightarrow>
     d_artefacts db' = d_artefacts db \<and> d_projects db' = d_projects db \<and> d_users db' = d_users db \<and>
     d_agent_sessions db' = d_agent_sessions db \<and>
     d_browser_sessions db' = d_browser_sessions db \<and> d_store_readable db' = d_store_readable db"

text \<open>
  What no operation changes without an event: the statuses of reviews, findings and claims, and
  the comments, annotations and deliveries. (An edit of a title or a severity is not in it.)
\<close>

definition visible where
  "visible db =
     (map (\<lambda>r. (rv_id r, rv_status r)) (d_reviews db),
      map (\<lambda>f. (fd_id f, fd_status f)) (d_findings db),
      map (\<lambda>v. (vf_id v, vf_status v)) (d_verifications db),
      d_annotations db, d_comments db, d_inbox db)"

definition service_step :: "scope \<Rightarrow> event_actor \<Rightarrow> review_db \<Rightarrow> review_db \<Rightarrow> bool" where
  "service_step sc actor db db' \<longleftrightarrow>
     evolves (review_step sc actor) (review_new sc actor) (d_reviews db) (d_reviews db') \<and>
     evolves (finding_step sc actor) (finding_new sc actor) (d_findings db) (d_findings db') \<and>
     evolves (=) (annotation_new sc actor) (d_annotations db) (d_annotations db') \<and>
     evolves (comment_step sc) (comment_new sc actor) (d_comments db) (d_comments db') \<and>
     evolves (claim_step sc actor) (claim_new sc actor) (d_verifications db) (d_verifications db') \<and>
     evolves (=) (\<lambda>_. True) (d_verification_artefacts db) (d_verification_artefacts db') \<and>
     evolves (inbox_step sc) (inbox_new sc actor) (d_inbox db) (d_inbox db') \<and>
     same_references db db' \<and> logged sc actor db db' \<and>
     (keys_ok db \<longrightarrow> keys_ok db') \<and> (rows_ok db \<longrightarrow> rows_ok db') \<and>
     (es_events db' = es_events db \<longrightarrow> visible db' = visible db)"

lemma service_step_tables:
  assumes "same_tables db' db" "logged sc actor db db'"
  shows "service_step sc actor db db'"
proof -
  have "keys_ok db' \<longleftrightarrow> keys_ok db" "rows_ok db' \<longleftrightarrow> rows_ok db" "visible db' = visible db"
    using assms(1) by (simp_all add: same_tables_iff keys_ok_def rows_ok_def visible_def)
  with assms show ?thesis
    by (simp add: service_step_def same_tables_iff same_references_def)
qed

text \<open>Steps that do not rewrite the same table twice compose.\<close>

lemma evolves_trans_eq:
  "evolves P Q a b \<Longrightarrow> evolves P Q b c \<Longrightarrow> b = a \<or> c = b \<Longrightarrow> evolves P Q a c"
  by auto

lemma evolves_eq_trans: "evolves (=) Q a b \<Longrightarrow> evolves (=) Q b c \<Longrightarrow> evolves (=) Q a c"
  by (auto simp: evolves_eq)

lemma logged_same_middle:
  assumes "logged sc actor a b" "logged sc actor b c" "es_events c = es_events a"
  shows "es_events b = es_events a \<and> es_events c = es_events b"
proof -
  obtain x y where "es_events b = es_events a @ x" "es_events c = es_events b @ y"
    using assms(1,2) unfolding logged_def by blast
  with assms(3) show ?thesis by simp
qed

lemma service_step_trans:
  assumes ab: "service_step sc actor a b" and bc: "service_step sc actor b c"
    and "d_reviews b = d_reviews a \<or> d_reviews c = d_reviews b"
    and "d_findings b = d_findings a \<or> d_findings c = d_findings b"
    and "d_comments b = d_comments a \<or> d_comments c = d_comments b"
    and "d_verifications b = d_verifications a \<or> d_verifications c = d_verifications b"
    and "d_inbox b = d_inbox a \<or> d_inbox c = d_inbox b"
  shows "service_step sc actor a c"
  unfolding service_step_def
proof (intro conjI impI)
  note s = ab [unfolded service_step_def] bc [unfolded service_step_def]
  show "evolves (review_step sc actor) (review_new sc actor) (d_reviews a) (d_reviews c)"
    using s assms(3) by (blast intro: evolves_trans_eq)
  show "evolves (finding_step sc actor) (finding_new sc actor) (d_findings a) (d_findings c)"
    using s assms(4) by (blast intro: evolves_trans_eq)
  show "evolves (=) (annotation_new sc actor) (d_annotations a) (d_annotations c)"
    "evolves (=) (\<lambda>_. True) (d_verification_artefacts a) (d_verification_artefacts c)"
    using s by (blast intro: evolves_eq_trans)+
  show "evolves (comment_step sc) (comment_new sc actor) (d_comments a) (d_comments c)"
    using s assms(5) by (blast intro: evolves_trans_eq)
  show "evolves (claim_step sc actor) (claim_new sc actor) (d_verifications a) (d_verifications c)"
    using s assms(6) by (blast intro: evolves_trans_eq)
  show "evolves (inbox_step sc) (inbox_new sc actor) (d_inbox a) (d_inbox c)"
    using s assms(7) by (blast intro: evolves_trans_eq)
  show "same_references a c" using s by (simp add: same_references_def)
  show "logged sc actor a c" using s by (blast intro: logged_trans)
  show "keys_ok c" if "keys_ok a" using s that by blast
  show "rows_ok c" if "rows_ok a" using s that by blast
  show "visible c = visible a" if "es_events c = es_events a"
  proof -
    have "es_events b = es_events a" "es_events c = es_events b"
      using s that logged_same_middle by blast+
    then have "visible b = visible a" "visible c = visible b" using s by blast+
    then show ?thesis by (rule trans [rotated])
  qed
qed

lemma service_step_refl [simp]: "service_step sc actor db db"
  by (rule service_step_tables) (simp_all add: same_tables_def)

text \<open>A transaction is a step when its work is one.\<close>

lemma inTransaction_step:
  "(\<And>a db'. work db = Inr (a, db') \<Longrightarrow> service_step sc actor db db') \<Longrightarrow>
   service_step sc actor db (snd (inTransaction work db))"
  by (auto simp: inTransaction_def split: sum.split)

lemma denying_eq [result_simps]:
  "denying d m = Inr a \<longleftrightarrow> m = Inr a"
  "denying d m = Inl x \<longleftrightarrow> (\<exists>e. m = Inl e \<and> x = (d, e))"
  by (auto simp: denying_def split: sum.splits)

lemma denying_ok [result_simps]: "denying d m = ok \<longleftrightarrow> m = ok"
  by (cases m rule: unit_result_cases) (simp_all add: denying_def ok_def del: unit_Inr_ok)

lemma recordDenial_step: "service_step sc actor db (recordDenial sc actor denied f db)"
proof -
  have "service_step sc actor db
      (snd (inTransaction (appendEvent (scoped_event sc actor t c p)) db))" for t c p
    by (rule inTransaction_step)
      (auto intro!: service_step_tables same_tables_appendEvent appendEvent_logged)
  then show ?thesis by (auto simp: recordDenial_def split: option.split store_failure.split)
qed

end
