(* ===== verification/Review_Commands.thy ===== *)
theory Review_Commands
  imports Service_Steps
begin

text \<open>
  Every operation of the review service is a step of the database (theory Service_Steps). The
  lemmas follow the operations; the last section collects the operations in one datatype of
  commands, so that a history of the service is a list of them.
\<close>

section \<open>Reviews\<close>

lemma lockReview_Inr [result_simps]:
  "lockReview sc rid db = Inr r \<longleftrightarrow> List.find (review_in sc rid) (d_reviews db) = Some r"
  by (auto simp: lockReview_def split: option.split)

lemma lockFinding_Inr [result_simps]:
  "lockFinding sc fid db = Inr f \<longleftrightarrow> List.find (finding_in sc fid) (d_findings db) = Some f"
  by (auto simp: lockFinding_def split: option.split)

lemma find_in_tenant:
  "List.find (review_in sc rid) rs = Some r \<Longrightarrow>
     r \<in> set rs \<and> rv_id r = rid \<and> in_tenant sc (rv_organisation_id r) (rv_project_id r)"
  "List.find (finding_in sc fid) fs = Some f \<Longrightarrow>
     f \<in> set fs \<and> fd_id f = fid \<and> in_tenant sc (fd_organisation_id f) (fd_project_id f)"
  by (auto simp: review_in_def finding_in_def dest: find_Some_in)

text \<open>
  Two rows a scoped predicate matches are the same row, since identifiers are unique.
\<close>

lemma review_in_unique:
  assumes "distinct (map rv_id rs)" "List.find (review_in sc rid) rs = Some r" "q \<in> set rs" "review_in sc rid q"
  shows "q = r"
  using assms find_Some_in [OF assms(2)] by (metis distinct_key_unique review_in_def)

lemma finding_in_unique:
  assumes "distinct (map fd_id fs)" "List.find (finding_in sc fid) fs = Some f" "q \<in> set fs" "finding_in sc fid q"
  shows "q = f"
  using assms find_Some_in [OF assms(2)] by (metis distinct_key_unique finding_in_def)

text \<open>A step that writes the reviews and then appends events of the scope.\<close>

lemma reviews_step:
  assumes "keys_ok db \<longrightarrow> distinct (map rv_id rows) \<and> slugs_unique rows"
    and "evolves (review_step sc actor) (review_new sc actor) (d_reviews db) rows"
    and "same_tables db' (db0\<lparr>d_reviews := rows\<rparr>)" "same_tables db0 db" "logged sc actor db db'"
    and "es_events db' = es_events db \<Longrightarrow>
      map (\<lambda>r. (rv_id r, rv_status r)) rows = map (\<lambda>r. (rv_id r, rv_status r)) (d_reviews db)"
  shows "service_step sc actor db db'"
proof -
  have "keys_ok db \<Longrightarrow> keys_ok db'"
    using assms(1,3,4) by (simp add: same_tables_iff keys_ok_def)
  with assms(2-6) show ?thesis
    by (simp add: service_step_def same_tables_iff same_references_def visible_def rows_ok_def)
qed

lemma logged_grow:
  "appendEvents (i # is) db1 = Inr db2 \<Longrightarrow> es_events db1 = es_events db \<Longrightarrow> es_events db2 \<noteq> es_events db"
  by (drule appendEvents_grow) auto

lemma createReview_step: "service_step sc actor db (snd (createReview sc input actor db))"
proof -
  let ?status = "case cr_status input of None \<Rightarrow> R_DRAFT | Some s \<Rightarrow> s"
  obtain rid db0 where new: "newId ''rev_'' db = (rid, db0)" by fastforce
  have same: "same_tables db0 db" and log: "es_events db0 = es_events db" "es_streams db0 = es_streams db"
    using new same_tables_newId by (auto simp: newId_def)
  have "service_step sc actor db db'"
    if st: "?status \<in> {R_DRAFT, R_READY}" and tx: "createReview_tx sc input actor ?status rid db0 = Inr (r, db')" for r db'
  proof -
    let ?rows = "d_reviews db0 @ [new_review sc input actor ?status rid (es_now db0)]"
    obtain db1 where rows: "distinct (map rv_id ?rows)" "slugs_unique ?rows"
      and db1: "db1 = db0\<lparr>d_reviews := ?rows\<rparr>"
      and app: "appendEvents
        [scoped_event sc actor ''review.created''
           [(''review_id'', JString rid), (''browser_session_id'', JString (cr_source_browser_session_id input))]
           [(''review'', toReview (new_review sc input actor ?status rid (es_now db0)) (Some 0))],
         scoped_event sc actor ''review.named'' [(''review_id'', JString rid)]
           (review_named_payload rid (new_review sc input actor ?status rid (es_now db0)) None)] db1 = Inr db'"
      using tx by (auto simp: createReview_tx_def Let_def result_simps simp del: appendEvents.simps)
    have "logged sc actor db1 db'" using app by (rule appendEvents_logged) simp
    moreover have "logged sc actor db db1" using log by (intro logged_same_log) (simp_all add: db1)
    moreover have "evolves (review_step sc actor) (review_new sc actor) (d_reviews db) ?rows"
      using same st by (intro evolves_append)
        (simp_all add: same_tables_iff review_new_def new_review_def in_tenant_def)
    ultimately show ?thesis
      using same_tables_appendEvents [OF app] same rows logged_grow [OF app] log
      by (intro reviews_step [of db ?rows sc actor db' db0]) (auto simp: db1 intro: logged_trans)
  qed
  then show ?thesis
    using service_step_tables [OF same] log new
    by (auto simp: createReview_def Let_def inTransaction_def logged_same_log split: sum.split)
qed

lemma updated_review_simps [simp]:
  "rv_id (updated_review i a n r) = rv_id r"
  "rv_organisation_id (updated_review i a n r) = rv_organisation_id r"
  "rv_project_id (updated_review i a n r) = rv_project_id r"
  "rv_created_by (updated_review i a n r) = rv_created_by r"
  "rv_created_at (updated_review i a n r) = rv_created_at r"
  "rv_version (updated_review i a n r) = rv_version r + 1"
  "rv_status (updated_review i a n r) = next_review_status i r"
  by (simp_all add: updated_review_def Let_def)

text \<open>What the checks of an update establish about the row they were made on.\<close>

lemma updateReview_checks_Inr:
  assumes "updateReview_checks sc rid input actor db = Inr (current, counts)"
  defines "nextStatus \<equiv> next_review_status input current"
  shows "List.find (review_in sc rid) (d_reviews db) = Some current"
    and "rv_version current = ur_expected_version input"
    and "nextStatus \<noteq> rv_status current \<Longrightarrow> mayActorMoveReview (act_type actor) (rv_status current) nextStatus"
    and "nextStatus \<noteq> rv_status current \<Longrightarrow> closing nextStatus \<Longrightarrow> act_type actor = human_user"
    and "nextStatus \<noteq> rv_status current \<Longrightarrow> nextStatus = R_ACCEPTED \<Longrightarrow>
      assertFindingsPermitAcceptance sc rid db = Inr (the counts)"
  using assms
  by (auto simp: updateReview_checks_def Let_def result_simps split: if_splits)

lemma updated_review_step:
  assumes "updateReview_checks sc rid input actor db = Inr (current, counts)"
  shows "review_step sc actor current (updated_review input actor now current)"
  using updateReview_checks_Inr [OF assms] find_in_tenant(1)
  by (fastforce simp: review_step_def updated_review_def Let_def)

lemma updateReview_events_scope: "list_all (by_scope sc actor) (updateReview_events sc rid input actor c r n)"
  by (simp add: updateReview_events_def Let_def split: option.split)

lemma updateReview_events_Nil:
  "updateReview_events sc rid input actor c r n = [] \<Longrightarrow> rv_status r = rv_status c"
  by (auto simp: updateReview_events_def Let_def split: if_splits)

lemma updateReview_tx_Inr:
  assumes "updateReview_tx sc rid input actor db = Inr (review, db')"
  obtains current counts db1 where
    "updateReview_checks sc rid input actor db = Inr (current, counts)"
    "review = updated_review input actor (es_now db) current"
    "distinct (map rv_id (d_reviews db))"
    "slugs_unique (update_where (review_in sc rid) (updated_review input actor (es_now db)) (d_reviews db))"
    "db1 = db\<lparr>d_reviews :=
       update_where (review_in sc rid) (updated_review input actor (es_now db)) (d_reviews db)\<rparr>"
    "appendEvents (updateReview_events sc rid input actor current review counts) db1 = Inr db'"
  using assms by (auto simp: updateReview_tx_def Let_def result_simps update_where_map)

lemma update_reviews_evolves:
  assumes "List.find (review_in sc rid) rs = Some current" "distinct (map rv_id rs)"
    and "review_step sc actor current (g current)"
  shows "evolves (review_step sc actor) (review_new sc actor) rs (update_where (review_in sc rid) g rs)"
  using assms review_in_unique [OF assms(2,1)] by (intro evolves_update_where) auto

lemma updateReview_tx_step:
  assumes "updateReview_tx sc rid input actor db = Inr (review, db')"
  shows "service_step sc actor db db'"
proof -
  let ?g = "updated_review input actor (es_now db)"
  obtain current counts db1 where
    checks: "updateReview_checks sc rid input actor db = Inr (current, counts)"
    and review: "review = ?g current" and ids: "distinct (map rv_id (d_reviews db))"
    and slugs: "slugs_unique (update_where (review_in sc rid) ?g (d_reviews db))"
    and db1: "db1 = db\<lparr>d_reviews := update_where (review_in sc rid) ?g (d_reviews db)\<rparr>"
    and app: "appendEvents (updateReview_events sc rid input actor current review counts) db1 = Inr db'"
    using updateReview_tx_Inr [OF assms] .
  note found = updateReview_checks_Inr(1) [OF checks]
  have log: "logged sc actor db db'"
    using appendEvents_logged [OF app updateReview_events_scope] logged_same_log [of db1 db]
    by (auto simp: db1 intro: logged_trans)
  have "map (\<lambda>r. (rv_id r, rv_status r)) (update_where (review_in sc rid) ?g (d_reviews db)) =
      map (\<lambda>r. (rv_id r, rv_status r)) (d_reviews db)" if "es_events db' = es_events db"
  proof -
    have "rv_status review = rv_status current"
      using that appendEvents_grow [OF app] updateReview_events_Nil by (auto simp: db1)
    then show ?thesis
      using review_in_unique [OF ids found] by (auto simp: review update_where_def)
  qed
  then show ?thesis
    using updated_review_step [OF checks] found ids slugs log same_tables_appendEvents [OF app]
    by (intro reviews_step [of db "update_where (review_in sc rid) ?g (d_reviews db)" sc actor db' db])
      (auto simp: db1 update_where_map same_tables_def intro: update_reviews_evolves)
qed

lemma updateReview_step: "service_step sc actor db (snd (updateReview sc rid input actor db))"
  using updateReview_tx_step recordDenial_step
  by (auto simp: updateReview_def inTransaction_def split: sum.split)

lemma review_routes_step:
  "service_step sc actor db (snd (requestHumanReview sc rid tinput actor db))"
  "service_step sc actor db (snd (acceptReview sc rid tinput actor db))"
  "service_step sc actor db (snd (reopenReview sc rid tinput actor db))"
  "service_step sc actor db (snd (archiveReview sc rid tinput actor db))"
  by (auto simp: requestHumanReview_def acceptReview_def reopenReview_def archiveReview_def
      updateReview_step split: sum.split)

section \<open>Deliveries\<close>

lemma inbox_created_event_scope [simp]: "by_scope sc actor (inbox_created_event sc i actor)"
  by (simp add: inbox_created_event_def)

lemma inbox_create_step:
  assumes "inbox_create sc input actor db = Inr (item, db')"
    and "names_work (ci_type input) (ci_review_id input) (ci_finding_id input)"
  shows "service_step sc actor db db'"
    and "same_tables db' (db\<lparr>d_inbox := d_inbox db'\<rparr>)"
proof -
  obtain iid db1 where new: "newId ''inb_'' db = (iid, db1)" by fastforce
  define it where "it = inbox_item_of sc input actor iid (es_now db1)"
  have same: "same_tables db1 db" using new same_tables_newId by blast
  have log: "logged sc actor db db1" using new newId_logged by blast
  consider (old) "db' = db1" | (fresh) a where
    "distinct (map in_id (d_inbox db1 @ [it]))" "deliveries_unique (d_inbox db1 @ [it])"
    "appendEvent (inbox_created_event sc it actor) (db1\<lparr>d_inbox := d_inbox db1 @ [it]\<rparr>) = Inr (a, db')"
    using assms(1) by (auto simp: inbox_create_def new Let_def it_def result_simps split: if_splits option.splits)
  then have "service_step sc actor db db' \<and> same_tables db' (db\<lparr>d_inbox := d_inbox db'\<rparr>)"
  proof cases
    case old
    then show ?thesis using same log by (simp add: service_step_tables same_tables_iff)
  next
    case fresh
    have tables: "same_tables db' (db1\<lparr>d_inbox := d_inbox db1 @ [it]\<rparr>)"
      using fresh(3) by (rule same_tables_appendEvent)
    have "logged sc actor db db'"
      using log appendEvent_logged [OF fresh(3) inbox_created_event_scope]
        logged_same_log [of "db1\<lparr>d_inbox := d_inbox db1 @ [it]\<rparr>" db1 sc actor]
      by (simp add: logged_trans)
    moreover have "es_events db' \<noteq> es_events db"
      using appendEvent_Inr [OF fresh(3)] new by (auto simp: appended_events newId_def)
    moreover have "inbox_new sc actor it"
      using assms(2) by (simp add: it_def inbox_item_of_def inbox_new_def in_tenant_def)
    ultimately show ?thesis
      using same tables fresh(1,2)
      by (auto simp: service_step_def same_tables_iff same_references_def keys_ok_def rows_ok_def intro: evolves_append)
  qed
  then show "service_step sc actor db db'" "same_tables db' (db\<lparr>d_inbox := d_inbox db'\<rparr>)"
    by blast+
qed

section \<open>Assignment\<close>

lemma assignment_checks_Inr:
  assumes "assignment_checks sc rid v field actor db = Inr (current, nextStatus)"
  shows "List.find (review_in sc rid) (d_reviews db) = Some current" "rv_version current = v"
    "nextStatus = (if rv_status current = R_READY then R_ASSIGNED else rv_status current)"
    "\<not> closing (rv_status current)"
    "nextStatus \<noteq> rv_status current \<Longrightarrow> mayActorMoveReview (act_type actor) (rv_status current) nextStatus"
  using assms by (auto simp: assignment_checks_def Let_def result_simps split: if_splits)

text \<open>The write an assignment and a claim share: one review, one event or two.\<close>

lemma assignment_step:
  assumes checks: "assignment_checks sc rid v field actor db = Inr (current, nextStatus)"
    and g: "\<And>r. rv_id (g r) = rv_id r" "\<And>r. rv_status (g r) = nextStatus"
      "review_step sc actor current (g current)"
    and store: "store_reviews (update_where (review_in sc rid) g (d_reviews db)) db = Inr db1"
    and app: "appendEvents (e # es) db1 = Inr db2" "list_all (by_scope sc actor) (e # es)"
  shows "service_step sc actor db db2"
    and "same_tables db2 (db\<lparr>d_reviews := d_reviews db2\<rparr>)"
proof -
  let ?rows = "update_where (review_in sc rid) g (d_reviews db)"
  have db1: "db1 = db\<lparr>d_reviews := ?rows\<rparr>" "slugs_unique ?rows" "distinct (map rv_id ?rows)"
    using store by (auto simp: result_simps)
  then have ids: "distinct (map rv_id (d_reviews db))" by (simp add: update_where_map g(1))
  have tables: "same_tables db2 (db\<lparr>d_reviews := ?rows\<rparr>)"
    using same_tables_appendEvents [OF app(1)] by (simp add: db1)
  then show "same_tables db2 (db\<lparr>d_reviews := d_reviews db2\<rparr>)" by (simp add: same_tables_iff)
  have "logged sc actor db db2"
    using appendEvents_logged [OF app] logged_same_log [of db1 db] by (auto simp: db1(1) intro: logged_trans)
  moreover have "es_events db2 \<noteq> es_events db" using app(1) by (rule logged_grow) (simp add: db1(1))
  ultimately show "service_step sc actor db db2"
    using tables db1 g(3) assignment_checks_Inr(1) [OF checks] ids
    by (intro reviews_step [of db ?rows sc actor db2 db])
      (auto simp: same_tables_def intro: update_reviews_evolves)
qed

lemma claimReview_step: "service_step sc actor db (snd (claimReview sc rid v actor db))"
  unfolding claimReview_def
proof (rule inTransaction_step)
  fix review db'
  assume "claimReview_tx sc rid v actor db = Inr (review, db')"
  then obtain current st db1 where
    checks: "assignment_checks sc rid v ''claimed_by'' actor db = Inr (current, st)"
    and store: "store_reviews (update_where (review_in sc rid) (claimed_row actor st (es_now db)) (d_reviews db)) db
      = Inr db1"
    and app: "appendEvents (claimed_events sc rid actor current (claimed_row actor st (es_now db) current)) db1 = Inr db'"
    by (auto simp: claimReview_tx_def Let_def r_bind_eq_Inr)
  have "review_step sc actor current (claimed_row actor st (es_now db) current)"
    using assignment_checks_Inr [OF checks] find_in_tenant(1)
    by (fastforce simp: review_step_def claimed_row_def)
  then show "service_step sc actor db db'"
    using assignment_step(1) [OF checks _ _ _ store app [unfolded claimed_events_def]]
    by (simp add: claimed_row_def status_changed_event_def)
qed

text \<open>A delivery either makes no item or creates one.\<close>

lemma delivery_step:
  assumes "db' = db \<or> (\<exists>input item. names_work (ci_type input) (ci_review_id input) (ci_finding_id input) \<and>
      inbox_create sc input actor db = Inr (item, db'))"
  shows "service_step sc actor db db'" "same_tables db' (db\<lparr>d_inbox := d_inbox db'\<rparr>)"
proof -
  have "service_step sc actor db db' \<and> same_tables db' (db\<lparr>d_inbox := d_inbox db'\<rparr>)"
    using assms
  proof (elim disjE exE conjE)
    assume "db' = db"
    then show ?thesis by (simp add: same_tables_def)
  next
    fix input item
    assume "names_work (ci_type input) (ci_review_id input) (ci_finding_id input)"
      "inbox_create sc input actor db = Inr (item, db')"
    then show ?thesis by (blast intro: inbox_create_step)
  qed
  then show "service_step sc actor db db'" "same_tables db' (db\<lparr>d_inbox := d_inbox db'\<rparr>)"
    by blast+
qed

lemma deliver_assignment_cases:
  assumes "deliver_assignment sc rid input actor review db = Inr db'"
  shows "db' = db \<or> (\<exists>input item. names_work (ci_type input) (ci_review_id input) (ci_finding_id input) \<and>
    inbox_create sc input actor db = Inr (item, db'))"
proof (cases "assignment_recipient input")
  case None
  then show ?thesis using assms by (simp add: deliver_assignment_def)
next
  case (Some r)
  then obtain rtype who where "assignment_recipient input = Some (rtype, who)" by (cases r) auto
  with assms obtain delivery item where "inbox_create sc delivery actor db = Inr (item, db')"
    "ci_type delivery = Review_assigned" "ci_review_id delivery = Some rid"
    by (auto simp: deliver_assignment_def result_simps)
  then show ?thesis by (intro disjI2 exI [of _ delivery]) (auto simp: names_work_def)
qed

lemma assignReview_step: "service_step sc actor db (snd (assignReview sc rid input actor db))"
proof -
  have "service_step sc actor db db'"
    if tx: "assignReview_tx sc rid input actor db = Inr (review, db')" for review db'
  proof -
    obtain current st db1 db2 where
      checks: "assignment_checks sc rid (as_expected_version input) ''assigned_to'' actor db = Inr (current, st)"
      and store: "store_reviews (update_where (review_in sc rid) (assigned_row input st (es_now db)) (d_reviews db)) db
        = Inr db1"
      and app: "appendEvents (assigned_events sc rid input actor current
          (assigned_row input st (es_now db) current)) db1 = Inr db2"
      and del: "deliver_assignment sc rid input actor (assigned_row input st (es_now db) current) db2 = Inr db'"
      using tx by (auto simp: assignReview_tx_def Let_def r_bind_eq_Inr)
    have row: "review_step sc actor current (assigned_row input st (es_now db) current)"
      using assignment_checks_Inr [OF checks] find_in_tenant(1)
      by (fastforce simp: review_step_def assigned_row_def)
    have "service_step sc actor db db2" "same_tables db2 (db\<lparr>d_reviews := d_reviews db2\<rparr>)"
      using row assignment_step [OF checks _ _ _ store app [unfolded assigned_events_def]]
      by (simp_all add: assigned_row_def status_changed_event_def)
    then show ?thesis
      using delivery_step [OF deliver_assignment_cases [OF del]] 
      by (elim service_step_trans) (simp_all add: same_tables_iff)
  qed
  then show ?thesis
    by (auto simp: assignReview_def inTransaction_def split: sum.split)
qed

end
