(* ===== verification/Finding_Commands.thy ===== *)
theory Finding_Commands
  imports Review_Commands
begin

text \<open>
  The operations on findings, comments, claims and annotations are steps of the database
  (theory Service_Steps).
\<close>

section \<open>Comments\<close>

lemma supersedeComment_evolves:
  "supersedeComment sc previous db = Inr rows \<Longrightarrow>
     evolves (comment_step sc) (comment_new sc actor) (d_comments db) rows"
  by (auto simp: supersedeComment_def result_simps supersedes_row_def comment_in_def comment_step_def
      intro!: evolves_update_where split: option.splits)

lemma supersedeComment_rows:
  assumes "supersedeComment sc previous db = Inr rows"
  shows "map cm_id rows = map cm_id (d_comments db)"
    "list_all comment_checks (d_comments db) \<longrightarrow> list_all comment_checks rows"
    "previous = Some p \<Longrightarrow> cm_id p \<in> cm_id ` set (d_comments db)"
proof -
  have "comment_checks (c\<lparr>cm_superseded_at := t\<rparr>) = comment_checks c" for c t by (simp add: comment_checks_def)
  then show "list_all comment_checks (d_comments db) \<longrightarrow> list_all comment_checks rows"
    using assms by (auto simp: supersedeComment_def result_simps set_update_where list_all_iff split: option.splits)
  show "map cm_id rows = map cm_id (d_comments db)"
    using assms by (auto simp: supersedeComment_def result_simps update_where_def split: option.splits)
  show "cm_id p \<in> cm_id ` set (d_comments db)" if "previous = Some p"
    using assms that by (auto simp: supersedeComment_def result_simps list_ex_iff supersedes_row_def comment_in_def
        intro: rev_image_eqI)
qed

text \<open>The row that is inserted, from the row it supersedes.\<close>

lemma new_comment_checks:
  assumes "distinct (map cm_id (rows @ [c]))" "\<not> blank_body body"
    and "c = new_comment sc rid fid body previous actor cid now"
    and "\<And>p. previous = Some p \<Longrightarrow> cm_id p \<in> cm_id ` set rows \<and> 1 \<le> cm_revision p"
  shows "comment_checks c"
proof -
  have "cm_id p \<noteq> cid" if "previous = Some p" for p
    using assms(1,3) assms(4) [OF that] by (auto simp: new_comment_def)
  then show ?thesis
    using assms(2-4) by (cases previous) (auto simp: comment_checks_def new_comment_def)
qed

lemma writeComment_step:
  assumes "writeComment sc rid fid body previous actor db = Inr (comment, db')"
    and "\<And>p. previous = Some p \<Longrightarrow> rows_ok db \<Longrightarrow> 1 \<le> cm_revision p"
  shows "service_step sc actor db db'" "same_tables db' (db\<lparr>d_comments := d_comments db'\<rparr>)"
proof -
  obtain cid db0 where new: "newId ''cmt_'' db = (cid, db0)" by fastforce
  have same: "same_tables db0 db" and log: "logged sc actor db db0"
    using new same_tables_newId newId_logged by blast+
  let ?c = "new_comment sc rid fid body previous actor cid (es_now db0)"
  obtain rows e a where rows: "supersedeComment sc previous db0 = Inr rows"
    and ok: "distinct (map cm_id (rows @ [?c]))" "one_successor (rows @ [?c])"
      "list_all (\<lambda>c. \<not> blank_body (cm_body c)) (rows @ [?c])"
    and app: "appendEvent e (db0\<lparr>d_comments := rows @ [?c]\<rparr>) = Inr (a, db')" "by_scope sc actor e"
    using assms(1) that by (auto simp: writeComment_def new Let_def result_simps)
  have tables: "same_tables db' (db0\<lparr>d_comments := rows @ [?c]\<rparr>)"
    using app(1) by (rule same_tables_appendEvent)
  then show "same_tables db' (db\<lparr>d_comments := d_comments db'\<rparr>)"
    using same by (simp add: same_tables_iff)
  have "logged sc actor db db'"
    using log appendEvent_logged [OF app] logged_same_log [of "db0\<lparr>d_comments := rows @ [?c]\<rparr>" db0 sc actor]
    by (simp add: logged_trans)
  moreover have "es_events db' \<noteq> es_events db"
    using appendEvent_Inr [OF app(1)] new by (auto simp: appended_events newId_def)
  moreover have "evolves (comment_step sc) (comment_new sc actor) (d_comments db) (rows @ [?c])"
    using supersedeComment_evolves [OF rows] same
    by (intro evolves_append) (simp_all add: same_tables_iff comment_new_def new_comment_def in_tenant_def)
  moreover have "comment_checks ?c" if "rows_ok db"
    using ok(3) assms(2) that supersedeComment_rows(1,3) [OF rows]
    by (intro new_comment_checks [OF ok(1) _ refl]) (auto simp: new_comment_def simp flip: set_map)
  ultimately show "service_step sc actor db db'"
    using same tables ok supersedeComment_rows(2) [OF rows]
    by (simp add: service_step_def same_tables_iff same_references_def keys_ok_def rows_ok_def)
qed

lemma insertComment_step:
  "(\<And>p. previous = Some p \<Longrightarrow> rows_ok db \<Longrightarrow> 1 \<le> cm_revision p) \<Longrightarrow>
   service_step sc actor db (snd (insertComment sc rid fid body previous actor db))"
  unfolding insertComment_def by (rule inTransaction_step) (rule writeComment_step(1))

lemma editComment_checks_Inr:
  assumes "editComment_checks sc cid actor db = Inr current" "rows_ok db"
  shows "1 \<le> cm_revision current"
proof -
  have "current \<in> set (d_comments db)"
    using assms(1) by (auto simp: editComment_checks_def result_simps split: option.splits dest: find_Some_in)
  then show ?thesis using assms(2) by (auto simp: rows_ok_def comment_checks_def list_all_iff)
qed

lemma comment_routes_step:
  "service_step sc actor db (snd (addComment sc fid body actor db))"
  "service_step sc actor db (snd (addReviewComment sc rid body actor db))"
  "service_step sc actor db (snd (editComment sc cid body actor db))"
  by (auto simp: addComment_def addReviewComment_def editComment_def split: sum.split
      intro!: insertComment_step editComment_checks_Inr)

section \<open>Findings\<close>

text \<open>A step that writes the findings and then appends events of the scope.\<close>

lemma findings_step:
  assumes "distinct (map fd_id rows)"
    and "evolves (finding_step sc actor) (finding_new sc actor) (d_findings db) rows"
    and "same_tables db' (db\<lparr>d_findings := rows\<rparr>)" "logged sc actor db db'"
    and "es_events db' = es_events db \<Longrightarrow>
      map (\<lambda>f. (fd_id f, fd_status f)) rows = map (\<lambda>f. (fd_id f, fd_status f)) (d_findings db)"
  shows "service_step sc actor db db'"
  using assms by (simp add: service_step_def same_tables_iff same_references_def visible_def keys_ok_def rows_ok_def)

lemma update_findings_evolves:
  assumes "List.find (finding_in sc fid) fs = Some current" "distinct (map fd_id fs)"
    and "finding_step sc actor current (g current)"
  shows "evolves (finding_step sc actor) (finding_new sc actor) fs (update_where (finding_in sc fid) g fs)"
  using assms finding_in_unique [OF assms(2,1)] by (intro evolves_update_where) auto

lemma insertAnnotation_Inr:
  assumes "insertAnnotation sc fid actor input db = Inr (a, db')"
    and "assertGeometry (ca_type input) (ca_geometry input) = ok"
  shows "d_annotations db' = d_annotations db @ [a]" "annotation_new sc actor a"
    "same_tables db' (db\<lparr>d_annotations := d_annotations db'\<rparr>)"
    "es_events db' = es_events db" "es_streams db' = es_streams db"
    "distinct (map (\<lambda>a. (an_id a, an_revision a)) (d_annotations db'))" "annotation_checks a"
  using assms(1) assertGeometry_checks [OF assms(2)]
  by (auto simp: insertAnnotation_def newId_def Let_def result_simps annotation_new_def annotation_checks_def
      new_annotation_def in_tenant_def same_tables_iff geometry_versions [unfolded One_nat_def])

lemma insertAnnotations_Inr:
  assumes "insertAnnotations sc fid actor inputs db = Inr (as, db')"
    and "list_all (\<lambda>i. assertGeometry (ca_type i) (ca_geometry i) = ok) inputs"
  shows "d_annotations db' = d_annotations db @ as \<and> list_all (annotation_new sc actor) as \<and> list_all annotation_checks as \<and>
    same_tables db' (db\<lparr>d_annotations := d_annotations db'\<rparr>) \<and>
    es_events db' = es_events db \<and> es_streams db' = es_streams db"
  using assms
proof (induction inputs arbitrary: db as)
  case Nil
  then show ?case by (simp add: same_tables_def)
next
  case (Cons i inputs)
  then obtain a db1 as' where one: "insertAnnotation sc fid actor i db = Inr (a, db1)"
    and rest: "insertAnnotations sc fid actor inputs db1 = Inr (as', db')" and as: "as = a # as'"
    by (auto simp: result_simps)
  have i: "assertGeometry (ca_type i) (ca_geometry i) = ok" "list_all (\<lambda>i. assertGeometry (ca_type i) (ca_geometry i) = ok) inputs"
    using Cons.prems(2) by simp_all
  from Cons.IH [OF rest i(2)] insertAnnotation_Inr [OF one i(1)] as show ?case
    by (simp add: same_tables_iff)
qed

lemma insertAnnotations_distinct:
  assumes "insertAnnotations sc fid actor inputs db = Inr (as, db')"
    and "list_all (\<lambda>i. assertGeometry (ca_type i) (ca_geometry i) = ok) inputs"
    and "distinct (map (\<lambda>a. (an_id a, an_revision a)) (d_annotations db))"
  shows "distinct (map (\<lambda>a. (an_id a, an_revision a)) (d_annotations db'))"
  using assms by (induction inputs arbitrary: db as) (auto simp: result_simps dest: insertAnnotation_Inr(6))

lemma createFinding_tx_step:
  assumes "createFinding_tx sc rid input actor fid db = Inr (r, db')"
    and "list_all (\<lambda>i. assertGeometry (ca_type i) (ca_geometry i) = ok) (cf_annotations input)"
  shows "service_step sc actor db db'"
proof -
  let ?f = "new_finding sc rid input actor fid (es_now db)"
  let ?rows = "d_findings db @ [?f]"
  obtain as db2 e es where ids: "distinct (map fd_id ?rows)"
    and ann: "insertAnnotations sc fid actor (cf_annotations input) (db\<lparr>d_findings := ?rows\<rparr>) = Inr (as, db2)"
    and app: "appendEvents (e # es) db2 = Inr db'" "list_all (by_scope sc actor) (e # es)"
  proof -
    have "list_all (by_scope sc actor) (map (annotated_event sc actor (Some rid)) as)" for as
      by (simp add: list_all_iff annotated_event_def)
    then show ?thesis using assms(1) that
      by (auto simp: createFinding_tx_def Let_def result_simps simp del: appendEvents.simps)
  qed
  note a = insertAnnotations_Inr [OF ann assms(2)]
  have tables: "same_tables db' db2" using app(1) by (rule same_tables_appendEvents)
  have "logged sc actor db2 db'" using app by (rule appendEvents_logged)
  moreover have "logged sc actor db db2" using a by (intro logged_same_log) simp_all
  ultimately have "logged sc actor db db'" by (blast intro: logged_trans)
  moreover have "es_events db' \<noteq> es_events db"
    using a by (intro logged_grow [OF app(1)]) simp
  moreover have "evolves (finding_step sc actor) (finding_new sc actor) (d_findings db) ?rows"
    by (intro evolves_append) (simp_all add: finding_new_def new_finding_def in_tenant_def)
  ultimately show ?thesis
    using a insertAnnotations_distinct [OF ann assms(2)] tables ids
    by (simp add: service_step_def same_tables_iff same_references_def keys_ok_def rows_ok_def evolves_eq)
qed

lemma createFinding_checks_geometry:
  assumes "createFinding_checks sc rid input db = Inr u"
  shows "list_all (\<lambda>i. assertGeometry (ca_type i) (ca_geometry i) = ok) (cf_annotations input)"
proof -
  have "all_ok (\<lambda>a. lift (assertGeometry (ca_type a) (ca_geometry a))) is = ok \<Longrightarrow>
      list_all (\<lambda>i. assertGeometry (ca_type i) (ca_geometry i) = ok) is" for "is"
    by (induction "is") (auto simp: result_simps)
  with assms show ?thesis by (auto simp: createFinding_checks_def result_simps)
qed

lemma createFinding_step: "service_step sc actor db (snd (createFinding sc rid input actor db))"
proof -
  obtain fid db0 where new: "newId ''fin_'' db = (fid, db0)" by fastforce
  have same: "same_tables db0 db" and log: "logged sc actor db db0"
    using new same_tables_newId newId_logged by blast+
  then have zero: "service_step sc actor db db0" by (rule service_step_tables)
  have "service_step sc actor db db'"
    if "createFinding_checks sc rid input db = Inr u" "createFinding_tx sc rid input actor fid db0 = Inr (r, db')" for u r db'
    using zero createFinding_tx_step [OF that(2) createFinding_checks_geometry [OF that(1)]] same
    by (elim service_step_trans) (simp_all add: same_tables_iff)
  with zero show ?thesis
    by (auto simp: createFinding_def new inTransaction_def split: sum.split)
qed

section \<open>Updating a finding\<close>

lemma updated_finding_simps [simp]:
  "fd_id (updated_finding i a n f) = fd_id f"
  "fd_organisation_id (updated_finding i a n f) = fd_organisation_id f"
  "fd_project_id (updated_finding i a n f) = fd_project_id f"
  "fd_review_id (updated_finding i a n f) = fd_review_id f"
  "fd_source (updated_finding i a n f) = fd_source f"
  "fd_created_by (updated_finding i a n f) = fd_created_by f"
  "fd_created_at (updated_finding i a n f) = fd_created_at f"
  "fd_screenshot_artefact_id (updated_finding i a n f) = fd_screenshot_artefact_id f"
  "fd_version (updated_finding i a n f) = fd_version f + 1"
  "fd_status (updated_finding i a n f) = next_finding_status i f"
  by (simp_all add: updated_finding_def Let_def)

lemma transition_checks_ok:
  assumes "transition_checks sc fid input actor current db = ok"
    and "next_finding_status input current \<noteq> fd_status current"
  shows "mayActorMoveFinding (act_type actor) (fd_status current) (next_finding_status input current)"
    and "isFinalDisposition (next_finding_status input current) \<Longrightarrow> act_type actor = human_user"
    and "next_finding_status input current = F_AWAITING_HUMAN_REVIEW \<Longrightarrow> act_type actor = agent_session \<Longrightarrow>
      missingEvidenceOn sc fid db = Inr []"
  using assms by (auto simp: transition_checks_def Let_def result_simps split: if_splits)

lemma updateFinding_checks_Inr:
  assumes "updateFinding_checks sc fid input actor db = Inr (current, claim)"
  defines "nextStatus \<equiv> next_finding_status input current"
  shows "List.find (finding_in sc fid) (d_findings db) = Some current"
    and "fd_version current = uf_expected_version input"
    and "nextStatus \<noteq> fd_status current \<Longrightarrow> transition_checks sc fid input actor current db = ok"
    and "claim = (if disposing current nextStatus \<or> reopening current nextStatus
                  then currentVerificationOn sc fid db else None)"
    and "disposing current nextStatus \<or> reopening current nextStatus \<Longrightarrow>
      map_option (\<lambda>(v, _). vf_id v) claim = uf_verification_id input"
    and "uf_duplicate_of input = Some other \<Longrightarrow> other \<noteq> fid"
  using assms
  by (auto simp: updateFinding_checks_def requireFindingInProject_def Let_def result_simps split: if_splits option.splits)

text \<open>Only a human reopens, so a decision on a claim is always a human's.\<close>

lemma only_humans_reopen: "mayActorMoveFinding a s F_REOPENED \<Longrightarrow> a = human_user"
  using machine_actors_never_move_findings agent_finding_moves by fastforce

lemma deciding_human:
  assumes "updateFinding_checks sc fid input actor db = Inr (current, claim)"
    and "disposing current (next_finding_status input current) \<or> reopening current (next_finding_status input current)"
  shows "act_type actor = human_user"
  using assms(2) updateFinding_checks_Inr(3) [OF assms(1)] transition_checks_ok [of sc fid input actor current db]
    only_humans_reopen
  by (auto simp: disposing_def reopening_def)

lemma updated_finding_step:
  assumes "updateFinding_checks sc fid input actor db = Inr (current, claim)"
  shows "finding_step sc actor current (updated_finding input actor now current)"
proof -
  have "in_tenant sc (fd_organisation_id current) (fd_project_id current)"
    using updateFinding_checks_Inr(1) [OF assms] find_in_tenant(2) by blast
  moreover have "next_finding_status input current = fd_status current \<or>
      mayActorMoveFinding (act_type actor) (fd_status current) (next_finding_status input current)"
    using updateFinding_checks_Inr(3) [OF assms] transition_checks_ok(1) by blast
  moreover have "uf_duplicate_of input \<noteq> Some (fd_id current)"
    using updateFinding_checks_Inr(1,6) [OF assms] find_in_tenant(2) by blast
  ultimately show ?thesis
    by (auto simp: finding_step_def updated_finding_def Let_def disposing_def reopening_def isFinalDisposition_iff)
qed

lemma movement_events_scope: "list_all (by_scope sc actor) (movement_events sc input actor c f)"
  by (simp add: movement_events_def finding_event_def Let_def)

lemma movement_events_Nil: "movement_events sc input actor c f = [] \<Longrightarrow> fd_status f = fd_status c"
  by (auto simp: movement_events_def Let_def split: if_splits)

lemma finding_write_step:
  assumes checks: "updateFinding_checks sc fid input actor db = Inr (current, claim)"
    and store: "store_findings (update_where (finding_in sc fid) (updated_finding input actor now) (d_findings db)) db
      = Inr db1"
    and app: "appendEvents (movement_events sc input actor current (updated_finding input actor now current)) db1 = Inr db2"
  shows "service_step sc actor db db2" "same_tables db2 (db\<lparr>d_findings := d_findings db2\<rparr>)"
proof -
  let ?rows = "update_where (finding_in sc fid) (updated_finding input actor now) (d_findings db)"
  have db1: "db1 = db\<lparr>d_findings := ?rows\<rparr>" and ids: "distinct (map fd_id (d_findings db))"
    using store by (auto simp: result_simps update_where_map)
  note found = updateFinding_checks_Inr(1) [OF checks]
  have tables: "same_tables db2 (db\<lparr>d_findings := ?rows\<rparr>)"
    using same_tables_appendEvents [OF app] by (simp add: db1)
  then show "same_tables db2 (db\<lparr>d_findings := d_findings db2\<rparr>)" by (simp add: same_tables_iff)
  have "logged sc actor db db2"
    using appendEvents_logged [OF app movement_events_scope] logged_same_log [of db1 db]
    by (auto simp: db1 intro: logged_trans)
  moreover have "map (\<lambda>f. (fd_id f, fd_status f)) ?rows = map (\<lambda>f. (fd_id f, fd_status f)) (d_findings db)"
    if "es_events db2 = es_events db"
  proof -
    have "next_finding_status input current = fd_status current"
      using that appendEvents_grow [OF app] movement_events_Nil by (fastforce simp: db1)
    then show ?thesis using finding_in_unique [OF ids found] by (auto simp: update_where_def)
  qed
  ultimately show "service_step sc actor db db2"
    using tables ids found updated_finding_step [OF checks]
    by (intro findings_step [of ?rows]) (auto simp: update_where_map intro: update_findings_evolves)
qed

end
