(* ===== verification/Claim_Commands.thy ===== *)
theory Claim_Commands
  imports Finding_Commands
begin

text \<open>
  The remaining operations are steps of the database (theory Service_Steps): deciding and
  submitting claims, annotations, inbox transitions and the records of denials and
  evaluations. The last section collects every operation in one datatype of commands.
\<close>

section \<open>Decisions\<close>

lemma events_only_step:
  assumes "appendEvents is db = Inr db'" "list_all (by_scope sc actor) is"
  shows "service_step sc actor db db'" "same_tables db' db"
  using assms same_tables_appendEvents appendEvents_logged service_step_tables by blast+

lemma currentVerificationOn_Some:
  "currentVerificationOn sc fid db = Some (v, after) \<Longrightarrow>
     v \<in> set (d_verifications db) \<and> claim_in sc fid v \<and> vf_status v = Submitted"
  by (auto simp: currentVerificationOn_def dest: find_Some_in)

text \<open>A step that writes the claims and then appends events of the scope.\<close>

lemma claims_step:
  assumes "distinct (map vf_id rows)" "one_current rows"
    and "evolves (claim_step sc actor) (claim_new sc actor) (d_verifications db) rows"
    and "same_tables db' (db\<lparr>d_verifications := rows\<rparr>)" "logged sc actor db db'"
    and "es_events db' \<noteq> es_events db"
  shows "service_step sc actor db db'"
  using assms by (simp add: service_step_def same_tables_iff same_references_def visible_def keys_ok_def rows_ok_def)

lemma decideClaim_step:
  assumes "decideClaim sc input actor claim current f db = Inr db'"
    and "\<And>v after. claim = Some (v, after) \<Longrightarrow>
      v \<in> set (d_verifications db) \<and> in_tenant sc (vf_organisation_id v) (vf_project_id v) \<and>
      vf_status v = Submitted \<and> act_type actor = human_user"
  shows "service_step sc actor db db' \<and> same_tables db' (db\<lparr>d_verifications := d_verifications db'\<rparr>)"
proof (cases claim)
  case None
  then show ?thesis using assms(1) by (simp add: decideClaim_def same_tables_def)
next
  case (Some c)
  then obtain v after where c: "claim = Some (v, after)" by (cases c) auto
  let ?g = "\<lambda>w. w\<lparr>vf_status := (if fd_status f = F_RESOLVED then Accepted else Rejected),
    vf_reviewed_at := Some (es_now db), vf_reviewed_by := Some (act_type actor, act_id actor)\<rparr>"
  let ?p = "\<lambda>w. vf_id w = vf_id v \<and> in_tenant sc (vf_organisation_id w) (vf_project_id w)"
  let ?rows = "update_where ?p ?g (d_verifications db)"
  consider (same) "db' = db" | (decided) e where
    "distinct (map vf_id ?rows)" "one_current ?rows"
    "appendEvents [e] (db\<lparr>d_verifications := ?rows\<rparr>) = Inr db'" "by_scope sc actor e"
    using assms(1) by (auto simp: decideClaim_def c Let_def result_simps finding_event_def
        simp del: appendEvents.simps split: if_splits)
  then show ?thesis
  proof cases
    case same
    then show ?thesis by (simp add: same_tables_def)
  next
    case decided
    have "distinct (map vf_id (d_verifications db))"
      using decided(1) by (simp add: update_where_map)
    then have "evolves (claim_step sc actor) (claim_new sc actor) (d_verifications db) ?rows"
      using assms(2) [OF c] by (intro evolves_update_where)
        (auto simp: claim_step_def dest: distinct_key_unique)
    moreover have tables: "same_tables db' (db\<lparr>d_verifications := ?rows\<rparr>)"
      using decided(3) by (rule same_tables_appendEvents)
    moreover have "logged sc actor db db'"
      using appendEvents_logged [OF decided(3), of sc actor] decided(4)
        logged_same_log [of "db\<lparr>d_verifications := ?rows\<rparr>" db sc actor] by (simp add: logged_trans)
    moreover have "es_events db' \<noteq> es_events db"
      by (rule logged_grow [OF decided(3)]) simp
    ultimately show ?thesis
      using decided(1,2) claims_step [of ?rows sc actor db db'] by (simp add: same_tables_iff)
  qed
qed

lemma decision_comment_step:
  assumes "decision_comment sc input actor deciding f db = Inr db'"
  shows "service_step sc actor db db' \<and> same_tables db' (db\<lparr>d_comments := d_comments db'\<rparr>)"
proof -
  have "db' = db \<or> (\<exists>rid fid body c. writeComment sc rid fid body None actor db = Inr (c, db'))"
    using assms by (auto simp: decision_comment_def result_simps split: option.splits if_splits)
  then show ?thesis
  proof (elim disjE exE)
    fix rid fid body c
    assume "writeComment sc rid fid body None actor db = Inr (c, db')"
    then show ?thesis by (auto intro: writeComment_step)
  qed (simp add: same_tables_def)
qed

lemma deliver_reopen_cases:
  assumes "deliver_reopen sc actor f db = Inr db'"
  shows "db' = db \<or> (\<exists>input item. names_work (ci_type input) (ci_review_id input) (ci_finding_id input) \<and>
    inbox_create sc input actor db = Inr (item, db'))"
proof (cases "List.find (review_in sc (fd_review_id f)) (d_reviews db)")
  case None
  then show ?thesis using assms by (simp add: deliver_reopen_def)
next
  case (Some holder)
  with assms obtain delivery item where "inbox_create sc delivery actor db = Inr (item, db')"
    "ci_type delivery = Finding_reopened" "ci_finding_id delivery = Some (fd_id f)"
    by (auto simp: deliver_reopen_def result_simps)
  then show ?thesis by (intro disjI2 exI [of _ delivery]) (auto simp: names_work_def)
qed

lemma resolved_events_scope: "list_all (by_scope sc actor) (resolved_events sc input actor c f)"
  by (simp add: resolved_events_def finding_event_def)

lemma reopened_event_scope: "list_all (by_scope sc actor) [reopened_event sc input actor c f n]"
  by (simp add: reopened_event_def finding_event_def)

lemma reopen_step:
  assumes "(if r then r_bind (appendEvents [reopened_event sc input actor c f n] db) (deliver_reopen sc actor f)
            else Inr db) = Inr db'"
  shows "service_step sc actor db db' \<and> same_tables db' (db\<lparr>d_inbox := d_inbox db'\<rparr>)"
proof (cases r)
  case True
  then obtain db1 where app: "appendEvents [reopened_event sc input actor c f n] db = Inr db1"
    and del: "deliver_reopen sc actor f db1 = Inr db'"
    using assms by (auto simp: r_bind_eq_Inr)
  note one = events_only_step [OF app reopened_event_scope]
  note two = delivery_step [OF deliver_reopen_cases [OF del]]
  have "service_step sc actor db db'"
    using one two by (elim service_step_trans) (simp_all add: same_tables_iff)
  with one two show ?thesis by (simp add: same_tables_iff)
next
  case False
  then show ?thesis using assms by (simp add: same_tables_def)
qed

text \<open>The writes of an update one by one.\<close>

lemma updateFinding_writes_Inr:
  assumes "updateFinding_writes sc fid input actor current claim db = Inr (f, db')"
  obtains db1 db2 db3 db4 db5 where
    "f = updated_finding input actor (es_now db) current"
    "store_findings (update_where (finding_in sc fid) (updated_finding input actor (es_now db)) (d_findings db)) db
      = Inr db1"
    "appendEvents (movement_events sc input actor current f) db1 = Inr db2"
    "decideClaim sc input actor claim current f db2 = Inr db3"
    "decision_comment sc input actor
       (disposing current (fd_status f) \<or> reopening current (fd_status f)) f db3 = Inr db4"
    "appendEvents (resolved_events sc input actor current f) db4 = Inr db5"
    "(if reopening current (fd_status f)
       then r_bind (appendEvents [reopened_event sc input actor current f
              (if reopening current (fd_status f) then countVerificationsOn sc fid db else 0)] db5)
              (deliver_reopen sc actor f)
       else Inr db5) = Inr db'"
  using assms unfolding updateFinding_writes_def Let_def r_bind_eq_Inr by blast

lemma updateFinding_writes_step:
  assumes checks: "updateFinding_checks sc fid input actor db = Inr (current, claim)"
    and "updateFinding_writes sc fid input actor current claim db = Inr (f, db')"
  shows "service_step sc actor db db'"
    and "same_tables db' (db\<lparr>d_findings := update_where (finding_in sc fid)
           (updated_finding input actor (es_now db)) (d_findings db),
         d_verifications := d_verifications db', d_comments := d_comments db', d_inbox := d_inbox db'\<rparr>)"
proof -
  let ?f = "updated_finding input actor (es_now db) current"
  obtain db1 db2 db3 db4 db5 where
    store: "store_findings (update_where (finding_in sc fid) (updated_finding input actor (es_now db)) (d_findings db)) db
      = Inr db1"
    and move: "appendEvents (movement_events sc input actor current ?f) db1 = Inr db2"
    and decide: "decideClaim sc input actor claim current ?f db2 = Inr db3"
    and comment: "decision_comment sc input actor
       (disposing current (fd_status ?f) \<or> reopening current (fd_status ?f)) ?f db3 = Inr db4"
    and resolved: "appendEvents (resolved_events sc input actor current ?f) db4 = Inr db5"
    and reopen: "(if reopening current (fd_status ?f)
       then r_bind (appendEvents [reopened_event sc input actor current ?f
              (if reopening current (fd_status ?f) then countVerificationsOn sc fid db else 0)] db5)
              (deliver_reopen sc actor ?f)
       else Inr db5) = Inr db'"
    by (rule updateFinding_writes_Inr [OF assms(2)]) (simp only:)
  note a = finding_write_step [OF checks store move]
  have "service_step sc actor db2 db3 \<and> same_tables db3 (db2\<lparr>d_verifications := d_verifications db3\<rparr>)"
  proof (rule decideClaim_step [OF decide])
    fix v after
    assume c: "claim = Some (v, after)"
    then have "currentVerificationOn sc fid db = Some (v, after)"
      "disposing current (next_finding_status input current) \<or> reopening current (next_finding_status input current)"
      using updateFinding_checks_Inr(4) [OF checks] by (auto split: if_splits)
    then show "v \<in> set (d_verifications db2) \<and> in_tenant sc (vf_organisation_id v) (vf_project_id v) \<and>
        vf_status v = Submitted \<and> act_type actor = human_user"
      using currentVerificationOn_Some deciding_human [OF checks] a(2)
      by (auto simp: claim_in_def same_tables_iff)
  qed
  note b = this and c = decision_comment_step [OF comment]
    and d = events_only_step [OF resolved resolved_events_scope] and e = reopen_step [OF reopen]
  have "service_step sc actor db db3"
    using a b by (elim conjE service_step_trans) (simp_all add: same_tables_iff)
  then have "service_step sc actor db db4"
    using a b c by (elim conjE service_step_trans) (simp_all add: same_tables_iff)
  then have "service_step sc actor db db5"
    using a b c d by (elim conjE service_step_trans) (simp_all add: same_tables_iff)
  then show "service_step sc actor db db'"
    using a b c d e by (elim conjE service_step_trans) (simp_all add: same_tables_iff)
  have "d_findings db2 = update_where (finding_in sc fid) (updated_finding input actor (es_now db)) (d_findings db)"
    using store same_tables_appendEvents [OF move] by (auto simp: store_findings_Inr same_tables_iff)
  then show "same_tables db' (db\<lparr>d_findings := update_where (finding_in sc fid)
           (updated_finding input actor (es_now db)) (d_findings db),
         d_verifications := d_verifications db', d_comments := d_comments db', d_inbox := d_inbox db'\<rparr>)"
    using a(2) b c d e by (simp add: same_tables_iff)
qed

lemma updateFinding_step: "service_step sc actor db (snd (updateFinding sc fid input actor db))"
proof -
  have "service_step sc actor db db'"
    if "updateFinding_tx sc fid input actor db = Inr (f, db')" for f db'
    using that updateFinding_writes_step(1) by (auto simp: updateFinding_tx_def result_simps)
  with recordDenial_step show ?thesis
    by (auto simp: updateFinding_def inTransaction_def split: sum.split)
qed

lemma finding_routes_step:
  "service_step sc actor db (snd (claimFinding sc fid v actor db))"
  "service_step sc actor db (snd (disposeFinding sc fid d dinput actor db))"
  "service_step sc actor db (snd (reopenFinding sc fid tinput actor db))"
  by (auto simp: claimFinding_def disposeFinding_def reopenFinding_def updateFinding_step split: sum.split)

section \<open>Submitting a claim\<close>

lemma submission_events_scope:
  "list_all (by_scope sc actor) (submission_events sc actor finding locked v evidence moved)"
  by (simp add: submission_events_def Let_def)

lemma advanced_finding_step:
  "in_tenant sc (fd_organisation_id f) (fd_project_id f) \<Longrightarrow>
     finding_step sc actor f (advanced_finding input actor now f)"
  by (auto simp: finding_step_def advanced_finding_def advanced_status_def isFinalDisposition_iff)

text \<open>A claim's identifier is new, since the primary key refuses it otherwise.\<close>

lemma superseded_claim_step:
  assumes "claim_in sc fid v" "vf_status v = Submitted" "n \<noteq> vf_id v"
  shows "claim_step sc actor v
    (v\<lparr>vf_status := Superseded, vf_superseded_at := Some t, vf_superseded_by := Some n\<rparr>)"
  unfolding claim_step_def using assms by (intro disjI2 conjI) (auto simp: claim_in_def)

lemma supersede_evolves:
  assumes "supersedeCurrentVerification sc fid vid db = (old, rows)" "vid \<notin> vf_id ` set (d_verifications db)"
  shows "evolves (claim_step sc actor) (claim_new sc actor) (d_verifications db) rows"
proof -
  have "rows = update_where (\<lambda>v. claim_in sc fid v \<and> vf_status v = Submitted)
     (\<lambda>v. v\<lparr>vf_status := Superseded, vf_superseded_at := Some (es_now db), vf_superseded_by := Some vid\<rparr>)
     (d_verifications db)"
    using assms(1) by (auto simp: supersedeCurrentVerification_def Let_def)
  then show ?thesis
    using assms(2) by (auto intro!: evolves_update_where superseded_claim_step)
qed

lemma supersede_ids:
  "supersedeCurrentVerification sc fid vid db = (old, rows) \<Longrightarrow> map vf_id rows = map vf_id (d_verifications db)"
  by (auto simp: supersedeCurrentVerification_def Let_def update_where_def)

lemma superseded_recorded:
  "supersedeCurrentVerification sc fid vid db = (Some n, rows) \<Longrightarrow> n \<in> vf_id ` set (d_verifications db)"
  by (auto simp: supersedeCurrentVerification_def Let_def dest: find_Some_in)

lemma submitVerification_tx_step:
  assumes "submitVerification_tx sc fid input actor finding evidence vid db = Inr (r, db')"
  shows "service_step sc actor db db'"
proof -
  obtain old rows where sup: "supersedeCurrentVerification sc fid vid db = (old, rows)" by fastforce
  let ?v = "new_verification sc finding input actor old vid (es_now db)"
  let ?rows = "rows @ [?v]"
  let ?arts = "d_verification_artefacts db @ evidence_rows finding vid evidence"
  let ?fs = "update_where (finding_in sc fid) (advanced_finding input actor (es_now db)) (d_findings db)"
  let ?db3 = "db\<lparr>d_verifications := ?rows, d_verification_artefacts := ?arts, d_findings := ?fs\<rparr>"
  obtain locked where
    claims: "distinct (map vf_id ?rows)" "one_current ?rows"
    and arts: "distinct (map (\<lambda>a. (va_verification_id a, va_artefact_id a)) ?arts)"
    and fs: "distinct (map fd_id ?fs)"
    and app: "appendEvents (submission_events sc actor finding locked ?v evidence
        (advanced_finding input actor (es_now db) locked)) ?db3 = Inr db'"
    using assms by (auto simp: submitVerification_tx_def sup Let_def result_simps simp del: appendEvents.simps)
  have "vid \<notin> vf_id ` set (d_verifications db)"
  proof -
    have "map vf_id ?rows = map vf_id (d_verifications db) @ [vid]"
      using supersede_ids [OF sup] by (simp add: new_verification_def)
    with claims(1) have "distinct (map vf_id (d_verifications db) @ [vid])" by metis
    then show ?thesis by simp
  qed
  moreover from this have "old \<noteq> Some vid" using superseded_recorded sup by blast
  ultimately have "evolves (claim_step sc actor) (claim_new sc actor) (d_verifications db) ?rows"
    using supersede_evolves [OF sup] by (intro evolves_append)
      (auto simp: claim_new_def new_verification_def in_tenant_def)
  moreover have "evolves (finding_step sc actor) (finding_new sc actor) (d_findings db) ?fs"
    by (intro evolves_update_where) (auto simp: finding_in_def intro: advanced_finding_step)
  moreover have tables: "same_tables db' ?db3" using app by (rule same_tables_appendEvents)
  moreover have "logged sc actor db db'"
    using appendEvents_logged [OF app submission_events_scope] logged_same_log [of ?db3 db sc actor]
    by (simp add: logged_trans)
  moreover have "es_events db' \<noteq> es_events db"
    using appendEvents_grow [OF app] by (auto simp: submission_events_def Let_def)
  ultimately show ?thesis
    using claims arts fs
    by (simp add: service_step_def same_tables_iff same_references_def keys_ok_def rows_ok_def evolves_eq list_all_iff)
qed

lemma submitVerification_step: "service_step sc actor db (snd (submitVerification sc fid input actor db))"
proof -
  obtain vid db0 where new: "newId ''ver_'' db = (vid, db0)" by fastforce
  have same: "same_tables db0 db" and log: "logged sc actor db db0"
    using new same_tables_newId newId_logged by blast+
  then have zero: "service_step sc actor db db0" by (rule service_step_tables)
  have "service_step sc actor db db'"
    if "submitVerification_tx sc fid input actor finding evidence vid db0 = Inr (r, db')" for finding evidence r db'
    using zero submitVerification_tx_step [OF that] same
    by (elim service_step_trans) (simp_all add: same_tables_iff)
  with zero show ?thesis
    by (auto simp: submitVerification_def new inTransaction_def split: sum.split)
qed

section \<open>Annotations, deliveries, records\<close>

lemma annotations_step:
  assumes "distinct (map (\<lambda>a. (an_id a, an_revision a)) (d_annotations db'))"
    and "d_annotations db' = d_annotations db @ [a]" "annotation_new sc actor a" "rows_ok db \<longrightarrow> annotation_checks a"
    and "same_tables db' (db\<lparr>d_annotations := d_annotations db'\<rparr>)" "logged sc actor db db'"
    and "es_events db' \<noteq> es_events db"
  shows "service_step sc actor db db'"
  using assms by (simp add: service_step_def same_tables_iff same_references_def keys_ok_def rows_ok_def evolves_eq)

lemma annotated_event_scope [simp]: "by_scope sc actor (annotated_event sc actor rid a)"
  by (simp add: annotated_event_def)

lemma createAnnotation_tx_step:
  assumes "createAnnotation_tx sc rid fid input actor db = Inr (a, db')"
    and "assertGeometry (ca_type input) (ca_geometry input) = ok"
  shows "service_step sc actor db db'"
proof -
  obtain db1 where ins: "insertAnnotation sc fid actor input db = Inr (a, db1)"
    and app: "appendEvents [annotated_event sc actor (Some rid) a] db1 = Inr db'"
    using assms(1) by (auto simp: createAnnotation_tx_def r_bind_eq_Inr)
  note i = insertAnnotation_Inr [OF ins assms(2)] and t = same_tables_appendEvents [OF app]
  have "logged sc actor db db'"
    using appendEvents_logged [OF app, of sc actor] logged_same_log [OF i(4,5), of sc actor]
    by (simp add: logged_trans)
  moreover have "es_events db' \<noteq> es_events db" using i(4) by (rule logged_grow [OF app])
  ultimately show ?thesis
    using i t by (intro annotations_step [of db' db a]) (simp_all add: same_tables_iff)
qed

lemma insertRevision_step:
  assumes "insertRevision sc actor a db = Inr (r, db')" "annotation_new sc actor a" "rows_ok db \<longrightarrow> annotation_checks a"
  shows "service_step sc actor db db'"
proof -
  let ?db1 = "db\<lparr>d_annotations := d_annotations db @ [a]\<rparr>"
  have ids: "distinct (map (\<lambda>a. (an_id a, an_revision a)) (d_annotations db @ [a]))"
    and app: "appendEvents [annotated_event sc actor None a] ?db1 = Inr db'"
    using assms(1) by (auto simp: insertRevision_def result_simps simp del: appendEvents.simps)
  note t = same_tables_appendEvents [OF app]
  have "logged sc actor db db'"
    using appendEvents_logged [OF app, of sc actor] logged_same_log [of ?db1 db sc actor]
    by (simp add: logged_trans)
  moreover have "es_events db' \<noteq> es_events db" by (rule logged_grow [OF app]) simp
  ultimately show ?thesis
    using ids t assms(2,3) by (intro annotations_step [of db' db a]) (simp_all add: same_tables_iff)
qed

lemma lockAnnotation_Inr: "lockAnnotation sc aid db = Inr current \<Longrightarrow> current \<in> set (d_annotations db)"
proof -
  assume "lockAnnotation sc aid db = Inr current"
  then have "current \<in> set (rev (sort_key an_revision (filter (annotation_in sc aid) (d_annotations db))))"
    by (auto simp: lockAnnotation_def simp del: set_rev split: list.splits)
  then show ?thesis by simp
qed

lemma locked_checks: "lockAnnotation sc aid db = Inr current \<Longrightarrow> rows_ok db \<Longrightarrow> annotation_checks current"
  using lockAnnotation_Inr by (auto simp: rows_ok_def list_all_iff)

lemma createAnnotation_checks_geometry:
  "createAnnotation_checks sc fid input db = Inr finding \<Longrightarrow> assertGeometry (ca_type input) (ca_geometry input) = ok"
  by (auto simp: createAnnotation_checks_def result_simps)

lemma annotation_routes_step:
  "service_step sc actor db (snd (createAnnotation sc fid cinput actor db))"
  "service_step sc actor db (snd (updateAnnotation sc aid uinput actor db))"
  "service_step sc actor db (snd (withdrawAnnotation sc aid n actor db))"
proof -
  show "service_step sc actor db (snd (createAnnotation sc fid cinput actor db))"
    using createAnnotation_tx_step createAnnotation_checks_geometry
    by (auto simp: createAnnotation_def inTransaction_def split: sum.split)
  show "service_step sc actor db (snd (updateAnnotation sc aid uinput actor db))"
    unfolding updateAnnotation_def
    by (rule inTransaction_step) (auto simp: updateAnnotation_tx_def Let_def result_simps annotation_checks_def
        annotation_new_def in_tenant_def geometry_versions [unfolded One_nat_def] dest: assertGeometry_checks
        intro!: insertRevision_step)
  show "service_step sc actor db (snd (withdrawAnnotation sc aid n actor db))"
    unfolding withdrawAnnotation_def
  proof (rule inTransaction_step)
    fix a db'
    assume "withdrawAnnotation_tx sc aid n actor db = Inr (a, db')"
    then obtain current where current: "lockAnnotation sc aid db = Inr current"
      and "db' = db \<or> insertRevision sc actor
        (current\<lparr>an_revision := an_revision current + 1,
          an_organisation_id := sc_organisation_id sc, an_project_id := sc_project_id sc,
          an_created_by := actor, an_created_at := es_now db, an_deleted_at := Some (es_now db)\<rparr>) db = Inr (a, db')"
      by (auto simp: withdrawAnnotation_tx_def Let_def result_simps split: if_splits)
    then show "service_step sc actor db db'"
    proof (elim disjE)
      assume "db' = db"
      then show ?thesis by simp
    qed (rule insertRevision_step, use locked_checks [OF current] in
      \<open>auto simp: annotation_new_def in_tenant_def annotation_checks_def\<close>)
  qed
qed

lemma moved_item_step:
  "inbox_in sc iid i \<Longrightarrow> in_status i \<in> set (INBOX_TRANSITIONS to) \<Longrightarrow> inbox_step sc i (moved_item to now i)"
  by (auto simp: inbox_step_def moved_item_def inbox_in_def)

lemma inbox_transition_step:
  "service_step sc actor db (snd (inbox_transition sc iid to actor reason recipient db))"
  unfolding inbox_transition_def
proof (rule inTransaction_step)
  fix r db'
  let ?rows = "update_where (inbox_in sc iid) (moved_item to (es_now db)) (d_inbox db)"
  assume tx: "inbox_transition_tx sc iid to actor reason recipient db = Inr (r, db')"
  consider (same) "db' = db" | (moved) current a where
    "List.find (inbox_in sc iid) (d_inbox db) = Some current"
    "in_status current \<in> set (INBOX_TRANSITIONS to)"
    "distinct (map in_id ?rows)" "deliveries_unique ?rows"
    "appendEvent (inbox_moved_event sc actor reason current (moved_item to (es_now db) current))
       (db\<lparr>d_inbox := ?rows\<rparr>) = Inr (a, db')"
    using tx by (auto simp: inbox_transition_tx_def Let_def result_simps split: if_splits)
  then show "service_step sc actor db db'"
  proof cases
    case moved
    have "distinct (map in_id (d_inbox db))" using moved(3) by (simp add: update_where_map)
    then have "q = current" if "q \<in> set (d_inbox db)" "inbox_in sc iid q" for q
      using that find_Some_in [OF moved(1)] by (metis distinct_key_unique inbox_in_def)
    then have "evolves (inbox_step sc) (inbox_new sc actor) (d_inbox db) ?rows"
      using moved(2) by (auto intro!: evolves_update_where moved_item_step)
    moreover have "same_tables db' (db\<lparr>d_inbox := ?rows\<rparr>)"
      using moved(5) by (rule same_tables_appendEvent)
    moreover have "logged sc actor db db'"
      using appendEvent_logged [OF moved(5), of sc actor] logged_same_log [of "db\<lparr>d_inbox := ?rows\<rparr>" db sc actor]
      by (simp add: logged_trans inbox_moved_event_def)
    moreover have "es_events db' \<noteq> es_events db"
      using appendEvent_Inr [OF moved(5)] by (auto simp: appended_events)
    ultimately show ?thesis
      using moved(3,4) by (simp add: service_step_def same_tables_iff same_references_def keys_ok_def rows_ok_def)
  qed simp
qed

lemma recordCompletionEvaluation_step:
  "service_step sc actor db (snd (recordCompletionEvaluation sc rid fid result missing n summary actor db))"
  unfolding recordCompletionEvaluation_def
  by (rule inTransaction_step)
    (auto simp: result_simps intro!: service_step_tables same_tables_appendEvent appendEvent_logged)

lemma recordTransitionDenied_step:
  "service_step sc actor db (snd (recordTransitionDenied sc k target requested code actor db))"
proof -
  have "service_step sc actor db db'"
    if "appendEvent (scoped_event sc actor t c p) db = Inr (a, db')" for t c p a db'
    using that by (auto intro!: service_step_tables same_tables_appendEvent appendEvent_logged)
  then show ?thesis
    by (auto simp: recordTransitionDenied_def Let_def inTransaction_def split: sum.split)
qed

section \<open>Commands\<close>

text \<open>
  One request to the service. \<open>exec\<close> is the database after it, whatever the answer was; an
  environment step is what happens outside the service: time passes, and users, sessions,
  projects and artefacts come and go.
\<close>

datatype command =
    Create_review create_review_input
  | Update_review string update_review_input
  | Request_human_review string transition_input
  | Accept_review string transition_input
  | Reopen_review string transition_input
  | Archive_review string transition_input
  | Assign_review string assign_review_input
  | Claim_review string nat
  | Create_finding string create_finding_input
  | Update_finding string update_finding_input
  | Claim_finding string nat
  | Dispose_finding string finding_status dispose_finding_input
  | Reopen_finding string transition_input
  | Add_comment string string
  | Add_review_comment string string
  | Edit_comment string string
  | Submit_verification string submit_verification_input
  | Create_annotation string create_annotation_input
  | Update_annotation string update_annotation_input
  | Withdraw_annotation string nat
  | Move_inbox_item string inbox_status "string option" "(recipient_type \<times> string option) option"
  | Record_completion string "string option" completion_result "string list" "nat option" "string option"
  | Record_denied bool string string string

fun exec :: "scope \<Rightarrow> event_actor \<Rightarrow> command \<Rightarrow> review_db \<Rightarrow> review_db" where
  "exec sc a (Create_review i) db = snd (createReview sc i a db)"
| "exec sc a (Update_review r i) db = snd (updateReview sc r i a db)"
| "exec sc a (Request_human_review r i) db = snd (requestHumanReview sc r i a db)"
| "exec sc a (Accept_review r i) db = snd (acceptReview sc r i a db)"
| "exec sc a (Reopen_review r i) db = snd (reopenReview sc r i a db)"
| "exec sc a (Archive_review r i) db = snd (archiveReview sc r i a db)"
| "exec sc a (Assign_review r i) db = snd (assignReview sc r i a db)"
| "exec sc a (Claim_review r v) db = snd (claimReview sc r v a db)"
| "exec sc a (Create_finding r i) db = snd (createFinding sc r i a db)"
| "exec sc a (Update_finding f i) db = snd (updateFinding sc f i a db)"
| "exec sc a (Claim_finding f v) db = snd (claimFinding sc f v a db)"
| "exec sc a (Dispose_finding f d i) db = snd (disposeFinding sc f d i a db)"
| "exec sc a (Reopen_finding f i) db = snd (reopenFinding sc f i a db)"
| "exec sc a (Add_comment f b) db = snd (addComment sc f b a db)"
| "exec sc a (Add_review_comment r b) db = snd (addReviewComment sc r b a db)"
| "exec sc a (Edit_comment c b) db = snd (editComment sc c b a db)"
| "exec sc a (Submit_verification f i) db = snd (submitVerification sc f i a db)"
| "exec sc a (Create_annotation f i) db = snd (createAnnotation sc f i a db)"
| "exec sc a (Update_annotation n i) db = snd (updateAnnotation sc n i a db)"
| "exec sc a (Withdraw_annotation n v) db = snd (withdrawAnnotation sc n v a db)"
| "exec sc a (Move_inbox_item i to reason recipient) db = snd (inbox_transition sc i to a reason recipient db)"
| "exec sc a (Record_completion r f res ms n s) db = snd (recordCompletionEvaluation sc r f res ms n s a db)"
| "exec sc a (Record_denied k t req code) db = snd (recordTransitionDenied sc k t req code a db)"

lemma exec_step: "service_step sc actor db (exec sc actor cmd db)"
  by (cases cmd) (simp_all add: createReview_step updateReview_step review_routes_step assignReview_step
      claimReview_step createFinding_step updateFinding_step finding_routes_step comment_routes_step
      submitVerification_step annotation_routes_step inbox_transition_step
      recordCompletionEvaluation_step recordTransitionDenied_step)

definition environment_step :: "review_db \<Rightarrow> review_db \<Rightarrow> bool" where
  "environment_step db db' \<longleftrightarrow>
     (\<exists>now random drawn artefacts projects users agents browsers readable.
        db' = db\<lparr>es_now := now, es_random := random, es_drawn := drawn, d_artefacts := artefacts,
          d_projects := projects, d_users := users, d_agent_sessions := agents,
          d_browser_sessions := browsers, d_store_readable := readable\<rparr>)"

definition empty_store :: "review_db \<Rightarrow> bool" where
  "empty_store db \<longleftrightarrow>
     d_reviews db = [] \<and> d_findings db = [] \<and> d_annotations db = [] \<and> d_comments db = [] \<and>
     d_verifications db = [] \<and> d_verification_artefacts db = [] \<and> d_inbox db = [] \<and>
     es_events db = [] \<and> es_streams db = Map.empty"

text \<open>
  The databases the service can leave behind. Four operations check before their transaction, so
  other requests may commit in between: their transaction is also a step on its own, after checks that passed on
  another database that was reached before, called \<open>seen\<close>. A comment that is added carries nothing over from
  what was read but identifiers, so any identifiers are allowed there.
\<close>

inductive reachable :: "review_db \<Rightarrow> bool" where
  start: "empty_store db \<Longrightarrow> reachable db"
| command: "reachable db \<Longrightarrow> reachable (exec sc actor cmd db)"
| environment: "reachable db \<Longrightarrow> environment_step db db' \<Longrightarrow> reachable db'"
| late_finding: "reachable seen \<Longrightarrow> createFinding_checks sc rid finput seen = Inr u \<Longrightarrow>
    reachable db \<Longrightarrow> createFinding_tx sc rid finput actor fid db = Inr (r, db') \<Longrightarrow> reachable db'"
| late_claim: "reachable seen \<Longrightarrow> submitVerification_checks sc fid vinput seen = Inr (finding, evidence, early) \<Longrightarrow>
    reachable db \<Longrightarrow> submitVerification_tx sc fid vinput actor finding evidence vid db = Inr (r, db') \<Longrightarrow> reachable db'"
| late_comment: "reachable db \<Longrightarrow> writeComment sc rid f body None actor db = Inr (c, db') \<Longrightarrow> reachable db'"
| late_edit: "reachable seen \<Longrightarrow> editComment_checks sc cid actor seen = Inr current \<Longrightarrow>
    reachable db \<Longrightarrow> writeComment sc (cm_review_id current) (cm_finding_id current) body (Some current) actor db = Inr (c, db') \<Longrightarrow>
    reachable db'"
| late_annotation: "reachable seen \<Longrightarrow> createAnnotation_checks sc fid ainput seen = Inr finding \<Longrightarrow>
    reachable db \<Longrightarrow> createAnnotation_tx sc (fd_review_id finding) fid ainput actor db = Inr (a, db') \<Longrightarrow> reachable db'"

text \<open>
  An invariant that every step and every change of the environment keeps holds of them all, if it gives the
  row checks: a late edit is a step because the comment it was made on had a revision.
\<close>

lemma reachable_invariant:
  assumes "reachable db" and "\<And>db. empty_store db \<Longrightarrow> I db"
    and "\<And>sc actor db db'. service_step sc actor db db' \<Longrightarrow> I db \<Longrightarrow> I db'"
    and "\<And>db db'. environment_step db db' \<Longrightarrow> I db \<Longrightarrow> I db'"
    and "\<And>db. I db \<Longrightarrow> rows_ok db"
  shows "I db"
  using assms(1)
proof induction
  case (start db)
  then show ?case by (rule assms(2))
next
  case (command db sc actor cmd)
  then show ?case using assms(3) exec_step by blast
next
  case (environment db db')
  then show ?case using assms(4) by blast
next
  case (late_finding seen sc rid finput u db actor fid r db')
  then show ?case using assms(3) createFinding_tx_step createFinding_checks_geometry by blast
next
  case (late_claim seen sc fid vinput finding evidence early db actor vid r db')
  then show ?case using assms(3) submitVerification_tx_step by blast
next
  case (late_comment db sc rid f body actor c db')
  then show ?case using assms(3) writeComment_step(1) by (metis option.distinct(1))
next
  case (late_edit seen sc cid actor current db body c db')
  have "1 \<le> cm_revision current" using editComment_checks_Inr [OF late_edit.hyps(2)] assms(5) late_edit.IH(1) by blast
  then have "service_step sc actor db db'" using writeComment_step(1) [OF late_edit.hyps(4)] by simp
  then show ?case using assms(3) late_edit.IH(2) by blast
next
  case (late_annotation seen sc fid ainput finding db actor a db')
  then show ?case using assms(3) createAnnotation_tx_step createAnnotation_checks_geometry by blast
qed

end
