(* ===== verification/Review_Samples.thy ===== *)
theory Review_Samples
  imports Claim_Commands
begin

text \<open>
  Evaluation of the review service on concrete databases. The member names the service itself
  puts into event payloads pass the credential check; the bundle \<open>service_eval\<close> unfolds the
  operations on given data, leaving timestamps and random suffixes as they are. The sample data
  is used by the witnesses and by the theorems about single requests.
\<close>

section \<open>Payload members of the service\<close>

definition payload_members :: "string list" where
  "payload_members =
     [''accepted_by'', ''accessibility_checked'', ''acceptance_criteria'',
      ''after_artefact_id'', ''agent_session_id'', ''annotation'', ''annotation_count'',
      ''annotation_id'', ''artefact_id'', ''artefact_ids'', ''assigned_agent_session_id'',
      ''assigned_user_id'', ''before_artefact_id'', ''body'', ''branch'',
      ''browser_session_id'', ''captured_branch'', ''captured_commit'',
      ''captured_workspace_id'', ''checks'', ''claimed_by'', ''closed_at'', ''code'',
      ''comment'', ''commit'', ''console_errors_reviewed'', ''created_at'', ''created_by'',
      ''decided_by'', ''deleted_at'', ''description'', ''device_scale_factor'', ''display'',
      ''disposition'', ''duplicate_of_finding_id'', ''element_context'', ''finding'',
      ''finding_count'', ''finding_id'', ''from'', ''geometry'', ''geometry_version'',
      ''height'', ''human_finding_count'', ''id'', ''inbox_item_id'', ''label'',
      ''marker_number'', ''missing'', ''network_failures_reviewed'', ''organisation_id'',
      ''previous_assigned_agent_session_id'', ''previous_assigned_user_id'',
      ''previous_slug'', ''previous_status'', ''priority'', ''project_id'', ''reason'',
      ''recipient_id'', ''recipient_type'', ''reopen_count'', ''reproduced_before'',
      ''requested'', ''result'', ''review'', ''review_id'', ''reviewed_at'', ''revision'',
      ''screenshot_artefact_id'', ''scroll_position'', ''severity'', ''slug'', ''source'',
      ''source_browser_session_id'', ''status'', ''style_hint'', ''submitted_at'',
      ''submitted_by'', ''summary'', ''superseded_at'', ''superseded_by_verification_id'',
      ''supersedes_comment_id'', ''supersedes_verification_id'', ''tested_viewports'',
      ''title'', ''to'', ''type'', ''updated_at'', ''url'', ''verification'',
      ''verification_count'', ''verification_id'', ''version'', ''viewport'', ''width'',
      ''x'', ''y'']"

lemma payload_members_permitted: "list_all (\<lambda>k. \<not> key_refused k) payload_members"
  by code_simp

lemmas payload_members_ok = payload_members_permitted [unfolded payload_members_def, simplified]

section \<open>Evaluation\<close>

lemmas service_eval =
  r_then_def refuse_if_def lift_def denying_def Let_def inTransaction_def newId_def
  scoped_event_def input_stream_def stream_position_def appendEvent_def event_of_def enqueue_def
  assertPayloadCarriesNoSecret_def payload_members_ok pruneUndefined_def opt_member_def num_def timestamp_def
  eventActor_def viewport_json_def checks_json_def toReview_def toFinding_def toAnnotation_def
  toComment_def toVerification_def in_tenant_def update_where_def review_in_def finding_in_def
  annotation_in_def comment_in_def claim_in_def slug_indexed_def slugs_unique_def one_current_def
  one_successor_def store_reviews_def store_findings_def store_annotations_def store_comments_def blank_body_def
  store_verifications_def store_verification_artefacts_def randomSuffix_inject or_else_def or_keep_def

lemmas review_eval =
  createReview_def createReview_tx_def new_review_def review_named_payload_def requireSessionInProject_def
  lockReview_def updateReview_def updateReview_tx_def updateReview_checks_def updateReview_events_def
  updated_review_def next_review_status_def review_fields_def review_denial_def to_status_def
  requestHumanReview_def acceptReview_def reopenReview_def archiveReview_def
  recordDenial_def translateSlugConflict_def assertFindingsPermitAcceptance_def

lemmas finding_eval =
  lockFinding_def getFinding_def getReview_def finding_count_def annotation_count_def annotations_current_def
  updateFinding_def updateFinding_tx_def updateFinding_checks_def updateFinding_writes_def
  transition_checks_def next_finding_status_def disposing_def reopening_def claiming_def
  finding_denial_def finding_event_def movement_events_def decideClaim_def decision_comment_def
  resolved_events_def reopened_event_def deliver_reopen_def updated_finding_def finding_to_status_def
  claimFinding_def disposeFinding_def reopenFinding_def currentVerificationOn_def artefact_in_role_def
  countVerificationsOn_def project_settings_of_def missingEvidenceOn_def writeComment_def new_comment_def
  supersedeComment_def requireFindingInProject_def

lemmas claim_eval =
  submitVerification_def submitVerification_checks_def submitVerification_tx_def requireOwnedEvidence_def
  owned_artefact_def unique_ids_def original_of_def requireReachableEvidence_def after_artefact_def
  supersedeCurrentVerification_def new_verification_def evidence_role_def evidence_rows_def
  advanced_status_def advanced_finding_def submission_events_def agent_id_def

lemmas domain_eval =
  result_simps assertExpectedVersion_def assertReviewMutable_def isImmutableReviewStatus_iff closing_def
  assertActorMayCloseReview_def isHumanActor_def assertReviewTransition_def assertActorMayMoveReview_def
  isReviewTransitionLegal_iff mayActorMoveReview_iff review_rows_def assertActorMayDispose_def
  assertFindingTransition_def assertActorMayMoveFinding_def isFindingTransitionLegal_iff
  mayActorMoveFinding_iff finding_rows_def isFinalDisposition_iff assertVerificationUnderReview.simps
  assertCompletionEvidence_def assertFindingTakesVerification_def assertVerificationCommitContext_def
  assertDecisionReason_def assertReviewAcceptable_def outstanding_def

section \<open>Sample data\<close>

definition sample_scope :: scope where
  "sample_scope = \<lparr>sc_organisation_id = ''org_1'', sc_project_id = ''prj_1''\<rparr>"

definition human :: event_actor where
  "human = \<lparr>act_type = human_user, act_id = Some ''usr_1'', act_display = None\<rparr>"

definition agent :: event_actor where
  "agent = \<lparr>act_type = agent_session, act_id = Some ''ags_1'', act_display = None\<rparr>"

definition sample_review :: "review_status \<Rightarrow> review_row" where
  "sample_review status =
     \<lparr>rv_id = ''rev_1'', rv_organisation_id = ''org_1'', rv_project_id = ''prj_1'',
      rv_slug = ''home'', rv_title = ''Home page'', rv_description = None, rv_status = status,
      rv_priority = Some ''medium'', rv_version = 3, rv_created_by = human,
      rv_assigned_user_id = None, rv_assigned_agent_session_id = None, rv_captured_branch = ''main'',
      rv_captured_commit = ''abc1234'', rv_captured_workspace_id = ''wsp_1'',
      rv_source_browser_session_id = Some ''brs_1'', rv_created_at = 1, rv_updated_at = 2,
      rv_closed_at = (if closing status then Some 2 else None), rv_reopen_count = 0,
      rv_accepted_at = (if status = R_ACCEPTED then Some 2 else None),
      rv_accepted_by = (if status = R_ACCEPTED then Some human else None)\<rparr>"

definition sample_finding :: "finding_status \<Rightarrow> finding_row" where
  "sample_finding status =
     \<lparr>fd_id = ''fin_1'', fd_organisation_id = ''org_1'', fd_project_id = ''prj_1'',
      fd_review_id = ''rev_1'', fd_title = ''Overlap'', fd_description = None, fd_severity = ''high'',
      fd_status = status, fd_source = Human, fd_version = 5, fd_created_by = human,
      fd_claimed_by = None, fd_url = ''https://app.test/'', fd_viewport = JObject [],
      fd_scroll_position = JObject [], fd_captured_commit = ''abc1234'',
      fd_screenshot_artefact_id = ''art_before'', fd_element_context = None,
      fd_acceptance_criteria = None, fd_resolution_note = None, fd_created_at = 1, fd_updated_at = 2,
      fd_resolved_at = (if isFinalDisposition status then Some 2 else None),
      fd_resolved_by = (if isFinalDisposition status then Some human else None),
      fd_disposition_reason = None, fd_duplicate_of = None, fd_reopen_count = 0\<rparr>"

definition sample_artefact :: "string \<Rightarrow> nat option \<Rightarrow> artefact_row" where
  "sample_artefact aid deleted =
     \<lparr>ar_id = aid, ar_organisation_id = ''org_1'', ar_project_id = ''prj_1'', ar_kind = ''screenshot'',
      ar_state = ''available'', ar_browser_session_id = None, ar_deleted_at = deleted\<rparr>"

definition sample_checks :: verification_checks where
  "sample_checks =
     \<lparr>reproduced_before = True, console_errors_reviewed = True, network_failures_reviewed = True,
      accessibility_checked = None\<rparr>"

definition sample_claim :: verification_row where
  "sample_claim =
     \<lparr>vf_id = ''ver_1'', vf_organisation_id = ''org_1'', vf_project_id = ''prj_1'',
      vf_review_id = ''rev_1'', vf_finding_id = ''fin_1'', vf_status = Submitted,
      vf_summary = ''Fixed'', vf_branch = ''main'', vf_commit_sha = ''def5678'',
      vf_tested_viewports = [], vf_checks = sample_checks, vf_submitted_by = agent,
      vf_submitted_at = 2, vf_reviewed_at = None, vf_reviewed_by = None, vf_supersedes = None,
      vf_superseded_at = None, vf_superseded_by = None\<rparr>"

text \<open>A database with one review, its findings and their claims.\<close>

definition sample_db ::
  "review_row list \<Rightarrow> finding_row list \<Rightarrow> verification_row list \<Rightarrow> artefact_row list \<Rightarrow> review_db" where
  "sample_db reviews findings claims artefacts =
     \<lparr>es_now = 9, es_random = (\<lambda>n. replicate 15 0 @ [of_nat n]), es_drawn = 0,
      es_streams = Map.empty, es_events = [], es_outbox = [],
      d_reviews = reviews, d_findings = findings, d_annotations = [], d_comments = [],
      d_verifications = claims, d_verification_artefacts = [], d_inbox = [],
      d_artefacts = artefacts,
      d_projects = [\<lparr>pr_id = ''prj_1'', pr_organisation_id = ''org_1'', pr_settings = defaultProjectSettings\<rparr>],
      d_users = [(''usr_1'', ''org_1'')], d_agent_sessions = [(''ags_1'', ''org_1'', ''prj_1'')],
      d_browser_sessions = [(''brs_1'', ''prj_1'')], d_store_readable = True\<rparr>"

lemmas sample_defs =
  sample_scope_def human_def agent_def sample_review_def sample_finding_def sample_artefact_def
  sample_checks_def sample_claim_def sample_db_def

definition sample_transition :: "nat \<Rightarrow> string option \<Rightarrow> transition_input" where
  "sample_transition v reason =
     \<lparr>tr_expected_version = v, tr_reason = reason, tr_verification_id = None\<rparr>"

end
