(* ===== verification/Review_Properties.thy ===== *)
theory Review_Properties
  imports Review_Samples
begin

text \<open>
  The properties of the review service that hold of every operation: what the constraints of
  the schema demand of the rows, who may close what, that a caller reaches only its own tenant,
  and that history is kept.
\<close>

section \<open>The constraints of the schema\<close>

text \<open>
  The \<open>CHECK\<close> constraints of \<open>migrations/0046\<close> to \<open>0153\<close> on the tables of the review service, by table; those of
  annotations and comments are \<open>annotation_checks\<close> and \<open>comment_checks\<close>. The inserts and updates of the
  model do not test them, but for \<open>comments_body_non_empty\<close>. Vocabularies that are datatypes here, and counters that are
  natural numbers, hold by their type. Left out are the constraints on the spelling of one column of text, number or
  JSON that the service passes through from the validated request: \<open>reviews_slug_shape\<close>,
  \<open>reviews_priority_known\<close>, \<open>reviews_commit_shape\<close>, \<open>findings_commit_shape\<close>, \<open>findings_severity_known\<close>,
  \<open>findings_viewport_shape\<close>, \<open>findings_scroll_shape\<close>, \<open>annotations_style_hint_known\<close>,
  \<open>annotations_marker_number_range\<close>, \<open>verifications_commit_shape\<close> and \<open>verifications_viewports_are_a_list\<close>. Foreign keys
  are not in the model.
\<close>

definition review_checks :: "review_row \<Rightarrow> bool" where
  "review_checks r \<longleftrightarrow>
     rv_version r \<ge> 1 \<and>
     (\<forall>a. rv_accepted_by r = Some a \<longrightarrow> act_type a = human_user) \<and>
     (rv_accepted_at r = None \<longleftrightarrow> rv_accepted_by r = None) \<and>
     (rv_status r = R_ACCEPTED \<longrightarrow> rv_accepted_by r \<noteq> None)"

definition finding_checks :: "finding_row \<Rightarrow> bool" where
  "finding_checks f \<longleftrightarrow>
     fd_version f \<ge> 1 \<and>
     (\<forall>a. fd_resolved_by f = Some a \<longrightarrow> act_type a = human_user) \<and>
     (fd_resolved_at f = None \<longleftrightarrow> fd_resolved_by f = None) \<and>
     (isFinalDisposition (fd_status f) \<longrightarrow> fd_resolved_by f \<noteq> None) \<and>
     fd_duplicate_of f \<noteq> Some (fd_id f)"

definition claim_checks :: "verification_row \<Rightarrow> bool" where
  "claim_checks v \<longleftrightarrow>
     (vf_status v \<in> {Submitted, Superseded} \<or>
        vf_reviewed_at v \<noteq> None \<and> (\<exists>i. vf_reviewed_by v = Some (human_user, i))) \<and>
     (vf_superseded_at v = None \<longleftrightarrow> vf_superseded_by v = None) \<and>
     (vf_status v = Superseded \<longleftrightarrow> vf_superseded_by v \<noteq> None) \<and>
     vf_superseded_by v \<noteq> Some (vf_id v) \<and> vf_supersedes v \<noteq> Some (vf_id v) \<and>
     (vf_status v \<in> {Accepted, Rejected} \<longleftrightarrow> vf_reviewed_at v \<noteq> None)"

definition inbox_checks :: "inbox_row \<Rightarrow> bool" where
  "inbox_checks i \<longleftrightarrow>
     (in_status i = Acknowledged \<longrightarrow> in_acknowledged_at i \<noteq> None) \<and>
     (in_status i = Completed_item \<longrightarrow> in_completed_at i \<noteq> None) \<and>
     names_work (in_type i) (in_review_id i) (in_finding_id i)"

definition schema_ok :: "review_db \<Rightarrow> bool" where
  "schema_ok db \<longleftrightarrow>
     keys_ok db \<and> log_ok db \<and>
     list_all review_checks (d_reviews db) \<and> list_all finding_checks (d_findings db) \<and>
     list_all annotation_checks (d_annotations db) \<and> list_all comment_checks (d_comments db) \<and>
     list_all claim_checks (d_verifications db) \<and> list_all inbox_checks (d_inbox db)"

lemma evolves_list_all:
  assumes "evolves P Q old new" "list_all c old"
    and "\<And>r r'. P r r' \<Longrightarrow> c r \<Longrightarrow> c r'" "\<And>r. Q r \<Longrightarrow> c r"
  shows "list_all c new"
  using assms evolves_from [OF assms(1)] by (metis list_all_iff)

lemma review_checks_step:
  assumes "review_step sc actor r r'" "review_checks r"
  shows "review_checks r'"
proof -
  have human: "rv_status r' \<noteq> rv_status r \<Longrightarrow> rv_status r' = R_ACCEPTED \<Longrightarrow> r' \<noteq> r \<Longrightarrow> act_type actor = human_user"
    using assms(1) closing_human_only by (fastforce simp: review_step_def closing_def)
  consider (same) "r' = r"
    | (accepted) "rv_version r' = rv_version r + 1" "rv_accepted_by r' = Some actor"
        "rv_accepted_at r' \<noteq> None" "act_type actor = human_user"
    | (reopened) "rv_version r' = rv_version r + 1" "rv_accepted_by r' = None" "rv_accepted_at r' = None"
        "rv_status r' \<noteq> R_ACCEPTED"
    | (kept) "rv_version r' = rv_version r + 1" "rv_accepted_by r' = rv_accepted_by r"
        "rv_accepted_at r' = rv_accepted_at r" "rv_status r' = R_ACCEPTED \<longrightarrow> rv_status r = R_ACCEPTED"
    using assms(1) human unfolding review_step_def by metis
  then show ?thesis using assms(2) by cases (simp_all add: review_checks_def)
qed

lemma finding_checks_step:
  assumes "finding_step sc actor f f'" "finding_checks f"
  shows "finding_checks f'"
proof -
  have human: "fd_status f' \<noteq> fd_status f \<Longrightarrow> isFinalDisposition (fd_status f') \<Longrightarrow> f' \<noteq> f \<Longrightarrow>
      act_type actor = human_user"
    using assms(1) final_disposition_human_only by (fastforce simp: finding_step_def)
  consider (same) "f' = f"
    | (disposed) "fd_version f' = fd_version f + 1" "fd_resolved_by f' = Some actor"
        "fd_resolved_at f' \<noteq> None" "act_type actor = human_user"
    | (reopened) "fd_version f' = fd_version f + 1" "fd_resolved_by f' = None" "fd_resolved_at f' = None"
        "\<not> isFinalDisposition (fd_status f')"
    | (kept) "fd_version f' = fd_version f + 1" "fd_resolved_by f' = fd_resolved_by f"
        "fd_resolved_at f' = fd_resolved_at f"
        "isFinalDisposition (fd_status f') \<longrightarrow> isFinalDisposition (fd_status f)"
    using assms(1) human unfolding finding_step_def by metis
  moreover have "fd_duplicate_of f' \<noteq> Some (fd_id f')"
    using assms by (auto simp: finding_step_def finding_checks_def)
  ultimately show ?thesis using assms(2) by cases (simp_all add: finding_checks_def)
qed

lemma claim_checks_step:
  assumes "claim_step sc actor v v'" "claim_checks v"
  shows "claim_checks v'"
proof -
  consider "v' = v"
    | d t where "vf_status v = Submitted" "d \<in> {Accepted, Rejected}"
        "v' = v\<lparr>vf_status := d, vf_reviewed_at := Some t, vf_reviewed_by := Some (human_user, act_id actor)\<rparr>"
    | t n where "vf_status v = Submitted" "n \<noteq> vf_id v"
        "v' = v\<lparr>vf_status := Superseded, vf_superseded_at := Some t, vf_superseded_by := Some n\<rparr>"
    using assms(1) unfolding claim_step_def by blast
  then show ?thesis using assms(2) by cases (auto simp: claim_checks_def)
qed

lemma inbox_checks_step: "inbox_step sc i i' \<Longrightarrow> inbox_checks i \<Longrightarrow> inbox_checks i'"
  unfolding inbox_step_def inbox_checks_def by metis

lemma new_row_checks:
  "review_new sc actor r \<Longrightarrow> review_checks r"
  "finding_new sc actor f \<Longrightarrow> finding_checks f"
  "claim_new sc actor v \<Longrightarrow> claim_checks v"
  "inbox_new sc actor i \<Longrightarrow> inbox_checks i"
  by (auto simp: review_new_def review_checks_def finding_new_def finding_checks_def isFinalDisposition_iff
      claim_new_def claim_checks_def inbox_new_def inbox_checks_def)

lemma schema_ok_step:
  assumes "service_step sc actor db db'" "schema_ok db"
  shows "schema_ok db'"
proof -
  note s = assms(1) [unfolded service_step_def] and k = assms(2) [unfolded schema_ok_def]
  have "list_all review_checks (d_reviews db')"
    using s k by (blast intro: evolves_list_all review_checks_step new_row_checks(1))
  moreover have "list_all finding_checks (d_findings db')"
    using s k by (blast intro: evolves_list_all finding_checks_step new_row_checks(2))
  moreover have "list_all claim_checks (d_verifications db')"
    using s k by (blast intro: evolves_list_all claim_checks_step new_row_checks(3))
  moreover have "list_all inbox_checks (d_inbox db')"
    using s k by (blast intro: evolves_list_all inbox_checks_step new_row_checks(4))
  ultimately show ?thesis using s k by (simp add: schema_ok_def logged_def rows_ok_def)
qed

lemma schema_ok_environment: "environment_step db db' \<Longrightarrow> schema_ok db \<Longrightarrow> schema_ok db'"
proof -
  assume env: "environment_step db db'" and ok: "schema_ok db"
  have "log_ok db' = log_ok db"
    using env by (intro log_ok_cong) (auto simp: environment_step_def)
  then show ?thesis
    using env ok unfolding environment_step_def schema_ok_def keys_ok_def by (elim exE) simp
qed

lemma schema_ok_rows: "schema_ok db \<Longrightarrow> rows_ok db"
  by (simp add: schema_ok_def rows_ok_def)

lemma schema_ok_empty: "empty_store db \<Longrightarrow> schema_ok db"
  by (simp add: empty_store_def schema_ok_def keys_ok_def log_ok_def slugs_unique_def one_successor_def
      one_current_def deliveries_unique_def stream_events_def stream_position_def)

section \<open>Properties of every history\<close>

text \<open>C1: every database the service can leave behind, starting from an empty one, satisfies the primary and
  unique keys of the review tables and their check constraints as \<open>schema_ok\<close> lists them, and the event log is
  sound: each stream's events carry the sequences one to the stream's position without a gap. A review that is
  accepted, a finding in a final disposition and a decided claim each name a human who decided; no finding duplicates
  itself and no comment or claim supersedes itself; exactly the first revision of a comment supersedes nothing; every
  delivery names its work; and the geometry of every annotation revision is normalised and has the members of its type.
  So the database never has to refuse a write of the service for one of these checks, with the exception of a blank
  comment, which the service leaves to it.\<close>

theorem reachable_schema_ok:
  assumes "reachable db"
  shows "schema_ok db"
  using assms schema_ok_empty schema_ok_step schema_ok_environment schema_ok_rows by (rule reachable_invariant)

text \<open>From the empty store a human creates a review and comments on it.\<close>

definition home_input :: create_review_input where
  "home_input =
     \<lparr>cr_slug = ''home'', cr_title = ''Home page'', cr_description = None, cr_status = None,
      cr_priority = None, cr_captured_branch = ''main'', cr_captured_commit = ''abc1234'',
      cr_captured_workspace_id = ''wsp_1'', cr_source_browser_session_id = ''brs_1''\<rparr>"

definition home_db :: review_db where
  "home_db = exec sample_scope human (Create_review home_input) (sample_db [] [] [] [])"

definition home_commented :: review_db where
  "home_commented = exec sample_scope human (Add_review_comment (rv_id (hd (d_reviews home_db))) ''Too wide'') home_db"

theorem reachable_schema_ok_witness:
  "schema_ok home_commented \<and> map rv_slug (d_reviews home_db) = [''home''] \<and> map cm_revision (d_comments home_commented) = [1]"
proof (intro conjI)
  show "schema_ok home_commented"
    unfolding home_commented_def home_db_def
    by (intro reachable_schema_ok reachable.command reachable.start) (simp add: empty_store_def sample_db_def)
  show "map rv_slug (d_reviews home_db) = [''home'']"
    by (simp add: home_db_def home_input_def sample_defs service_eval review_eval domain_eval)
  show "map cm_revision (d_comments home_commented) = [1]"
    by (simp add: home_commented_def home_db_def home_input_def sample_defs service_eval review_eval domain_eval finding_eval
        addReviewComment_def insertComment_def)
qed

text \<open>C2: a request by anyone but a human never closes anything. After it, every review that is
  accepted, cancelled or archived, every finding in a final disposition, and every claim that is
  accepted or rejected was in that status before, whatever the request was and whether it was
  refused or not.\<close>

theorem non_human_never_closes:
  assumes "act_type actor \<noteq> human_user" "db' = exec sc actor cmd db"
  shows "(\<forall>r' \<in> set (d_reviews db'). closing (rv_status r') \<longrightarrow>
      (\<exists>r \<in> set (d_reviews db). rv_id r = rv_id r' \<and> rv_status r = rv_status r')) \<and>
    (\<forall>f' \<in> set (d_findings db'). isFinalDisposition (fd_status f') \<longrightarrow>
      (\<exists>f \<in> set (d_findings db). fd_id f = fd_id f' \<and> fd_status f = fd_status f')) \<and>
    (\<forall>v' \<in> set (d_verifications db'). vf_status v' \<in> {Accepted, Rejected} \<longrightarrow> v' \<in> set (d_verifications db))"
proof -
  have s: "service_step sc actor db db'" unfolding assms(2) by (rule exec_step)
  note s = s [unfolded service_step_def]
  have "\<exists>r \<in> set (d_reviews db). rv_id r = rv_id r' \<and> rv_status r = rv_status r'"
    if "r' \<in> set (d_reviews db')" "closing (rv_status r')" for r'
    using evolves_from [of "review_step sc actor" "review_new sc actor" "d_reviews db" "d_reviews db'" r']
      s that assms(1) closing_human_only
    by (auto simp: review_step_def review_new_def closing_def)
  moreover have "\<exists>f \<in> set (d_findings db). fd_id f = fd_id f' \<and> fd_status f = fd_status f'"
    if "f' \<in> set (d_findings db')" "isFinalDisposition (fd_status f')" for f'
    using evolves_from [of "finding_step sc actor" "finding_new sc actor" "d_findings db" "d_findings db'" f']
      s that assms(1) final_disposition_human_only
    by (fastforce simp: finding_step_def finding_new_def isFinalDisposition_iff)
  moreover have "v' \<in> set (d_verifications db)"
    if "v' \<in> set (d_verifications db')" "vf_status v' \<in> {Accepted, Rejected}" for v'
    using evolves_from [of "claim_step sc actor" "claim_new sc actor" "d_verifications db" "d_verifications db'" v']
      s that assms(1)
    by (auto simp: claim_step_def claim_new_def)
  ultimately show ?thesis by blast
qed

theorem non_human_never_closes_witness:
  "list_all (\<lambda>f'. \<not> isFinalDisposition (fd_status f')) (d_findings (exec sample_scope agent
       (Dispose_finding ''fin_1'' F_RESOLVED \<lparr>dp_expected_version = 5, dp_reason = None,
          dp_duplicate_of = None, dp_verification_id = None\<rparr>)
       (sample_db [sample_review R_IN_PROGRESS] [sample_finding F_IN_PROGRESS] [] [])))"
  using non_human_never_closes [of agent _ sample_scope
      "Dispose_finding ''fin_1'' F_RESOLVED \<lparr>dp_expected_version = 5, dp_reason = None,
          dp_duplicate_of = None, dp_verification_id = None\<rparr>"
      "sample_db [sample_review R_IN_PROGRESS] [sample_finding F_IN_PROGRESS] [] []"]
  by (auto simp: list_all_iff sample_db_def sample_finding_def agent_def isFinalDisposition_iff)

lemma evolves_filter:
  assumes "evolves P Q old new"
    and "\<And>r r'. P r r' \<Longrightarrow> \<not> c r \<Longrightarrow> r' = r" "\<And>r r'. P r r' \<Longrightarrow> c r \<Longrightarrow> c r'" "\<And>r. Q r \<Longrightarrow> c r"
  shows "filter (\<lambda>r. \<not> c r) new = filter (\<lambda>r. \<not> c r) old"
proof -
  obtain kept added where new: "new = kept @ added" "list_all2 P old kept" "list_all Q added"
    using assms(1) by (auto simp: evolves_def)
  have "filter (\<lambda>r. \<not> c r) kept = filter (\<lambda>r. \<not> c r) old"
    using new(2) assms(2,3) by (induction rule: list_all2_induct) auto
  moreover have "filter (\<lambda>r. \<not> c r) added = []"
    using new(3) assms(4) by (auto simp: filter_empty_conv list_all_iff)
  ultimately show ?thesis by (simp add: new(1))
qed

lemma evolves_content:
  assumes "evolves P Q old new" "\<And>r r'. P r r' \<Longrightarrow> g r' = g r"
  shows "\<exists>added. map g new = map g old @ added"
proof -
  obtain kept added where new: "new = kept @ added" "list_all2 P old kept"
    using assms(1) by (auto simp: evolves_def)
  have "map g kept = map g old"
    using new(2) assms(2) by (induction rule: list_all2_induct) auto
  then show ?thesis by (simp add: new(1))
qed

text \<open>The rows of a table that are not in the caller's tenant.\<close>

definition foreign :: "scope \<Rightarrow> ('r \<Rightarrow> string) \<Rightarrow> ('r \<Rightarrow> string) \<Rightarrow> 'r list \<Rightarrow> 'r list" where
  "foreign sc org proj rows = filter (\<lambda>r. \<not> in_tenant sc (org r) (proj r)) rows"

text \<open>C19: a request touches only its own tenant. Whatever the request, the reviews, findings,
  annotations, comments, verifications and inbox items of any other organisation or project are
  exactly what they were, and so is every event of any other stream.\<close>

theorem tenant_isolation:
  "foreign sc rv_organisation_id rv_project_id (d_reviews (exec sc actor cmd db)) =
     foreign sc rv_organisation_id rv_project_id (d_reviews db) \<and>
   foreign sc fd_organisation_id fd_project_id (d_findings (exec sc actor cmd db)) =
     foreign sc fd_organisation_id fd_project_id (d_findings db) \<and>
   foreign sc an_organisation_id an_project_id (d_annotations (exec sc actor cmd db)) =
     foreign sc an_organisation_id an_project_id (d_annotations db) \<and>
   foreign sc cm_organisation_id cm_project_id (d_comments (exec sc actor cmd db)) =
     foreign sc cm_organisation_id cm_project_id (d_comments db) \<and>
   foreign sc vf_organisation_id vf_project_id (d_verifications (exec sc actor cmd db)) =
     foreign sc vf_organisation_id vf_project_id (d_verifications db) \<and>
   foreign sc in_organisation_id in_project_id (d_inbox (exec sc actor cmd db)) =
     foreign sc in_organisation_id in_project_id (d_inbox db) \<and>
   filter (\<lambda>e. e_stream_key e \<noteq> sc_project_id sc) (es_events (exec sc actor cmd db)) =
     filter (\<lambda>e. e_stream_key e \<noteq> sc_project_id sc) (es_events db)"
proof -
  note s = exec_step [of sc actor db cmd, unfolded service_step_def]
  show ?thesis
    unfolding foreign_def
    by (intro conjI evolves_filter [where P = "review_step sc actor" and Q = "review_new sc actor"]
        evolves_filter [where P = "finding_step sc actor" and Q = "finding_new sc actor"]
        evolves_filter [where P = "(=)" and Q = "annotation_new sc actor"]
        evolves_filter [where P = "comment_step sc" and Q = "comment_new sc actor"]
        evolves_filter [where P = "claim_step sc actor" and Q = "claim_new sc actor"]
        evolves_filter [where P = "inbox_step sc" and Q = "inbox_new sc actor"])
      (use s in \<open>auto simp: review_step_def review_new_def finding_step_def finding_new_def
        annotation_new_def comment_step_def comment_new_def claim_step_def claim_new_def
        inbox_step_def inbox_new_def logged_def in_name_of_def list_all_iff filter_empty_conv\<close>)
qed

text \<open>C37: history is append-only. Whatever the request, the log keeps its events and gains only
  events of the request's own project in the name of the request's actor; annotations keep every
  revision; no comment's text or author, and nothing a verification claims, is ever changed; and
  the artefacts a verification rests on stay.\<close>

theorem history_is_append_only:
  "(\<exists>new. es_events (exec sc actor cmd db) = es_events db @ new \<and> list_all (in_name_of sc actor) new) \<and>
   (\<exists>new. d_annotations (exec sc actor cmd db) = d_annotations db @ new) \<and>
   (\<exists>new. map (\<lambda>c. (cm_id c, cm_body c, cm_revision c, cm_created_by c, cm_created_at c))
        (d_comments (exec sc actor cmd db)) =
      map (\<lambda>c. (cm_id c, cm_body c, cm_revision c, cm_created_by c, cm_created_at c)) (d_comments db) @ new) \<and>
   (\<exists>new. map (\<lambda>v. (vf_id v, vf_summary v, vf_commit_sha v, vf_tested_viewports v, vf_checks v, vf_submitted_by v))
        (d_verifications (exec sc actor cmd db)) =
      map (\<lambda>v. (vf_id v, vf_summary v, vf_commit_sha v, vf_tested_viewports v, vf_checks v, vf_submitted_by v))
        (d_verifications db) @ new) \<and>
   (\<exists>new. d_verification_artefacts (exec sc actor cmd db) = d_verification_artefacts db @ new)"
proof -
  note s = exec_step [of sc actor db cmd, unfolded service_step_def]
  show ?thesis
    by (intro conjI evolves_content [where P = "comment_step sc" and Q = "comment_new sc actor"]
        evolves_content [where P = "claim_step sc actor" and Q = "claim_new sc actor"])
      (use s in \<open>auto simp: comment_step_def claim_step_def logged_def evolves_eq\<close>)
qed

text \<open>nothing a reader sees changes without an event. When a request changes the status of a
  review, a finding or a claim, or adds or supersedes a comment, an annotation or a delivery, it
  has appended at least one event.\<close>

theorem visible_change_is_logged:
  assumes "visible (exec sc actor cmd db) \<noteq> visible db"
  shows "length (es_events (exec sc actor cmd db)) > length (es_events db)"
proof -
  note s = exec_step [of sc actor db cmd, unfolded service_step_def]
  then have "es_events (exec sc actor cmd db) \<noteq> es_events db" using assms by blast
  moreover obtain new where "es_events (exec sc actor cmd db) = es_events db @ new"
    using s by (auto simp: logged_def)
  ultimately show ?thesis by auto
qed

theorem visible_change_is_logged_witness:
  "length (es_events (exec sample_scope human (Archive_review ''rev_1'' (sample_transition 3 None))
     (sample_db [sample_review R_CANCELLED] [] [] []))) > 0"
proof -
  let ?db = "exec sample_scope human (Archive_review ''rev_1'' (sample_transition 3 None))
     (sample_db [sample_review R_CANCELLED] [] [] [])"
  have "map rv_status (d_reviews ?db) = [R_ARCHIVED]"
    by (simp add: sample_defs service_eval review_eval sample_transition_def domain_eval)
  then have "visible ?db \<noteq> visible (sample_db [sample_review R_CANCELLED] [] [] [])"
    by (auto simp: visible_def sample_db_def sample_review_def)
  then show ?thesis
    using visible_change_is_logged [of sample_scope human "Archive_review ''rev_1'' (sample_transition 3 None)"
      "sample_db [sample_review R_CANCELLED] [] [] []"] by (simp add: sample_db_def)
qed

end
