(* ===== verification/Review_Concurrency.thy ===== *)
theory Review_Concurrency
  imports Review_Properties
begin

text \<open>
  Optimistic concurrency. Every update of a review and of a finding names the version it was made
  from (\<open>assertExpectedVersion\<close>), and the service stores the next version with the update. The
  contract of such a row is a locale; reviews and findings with all the requests of the service
  are its instances.
\<close>

section \<open>Optimistic concurrency\<close>

text \<open>
  The contract of a versioned row. A request may name the version it was made from. The stored
  version never falls, and a request that names a version and succeeds found exactly that version
  and left the next one. The outcomes of a history of requests pair each request with whether it
  was served.
\<close>

fun outcomes :: "('q \<Rightarrow> 'db \<Rightarrow> bool \<times> 'db) \<Rightarrow> 'q list \<Rightarrow> 'db \<Rightarrow> ('q \<times> bool) list" where
  "outcomes run [] db = []"
| "outcomes run (q # qs) db = (let (served, db') = run q db in (q, served) # outcomes run qs db')"

definition served_from :: "('q \<Rightarrow> nat option) \<Rightarrow> nat \<Rightarrow> ('q \<times> bool) list \<Rightarrow> 'q list" where
  "served_from expects v history =
     map fst (filter (\<lambda>(q, served). served \<and> expects q = Some v) history)"

locale versioned =
  fixes version :: "'db \<Rightarrow> nat option" and run :: "'q \<Rightarrow> 'db \<Rightarrow> bool \<times> 'db"
    and expects :: "'q \<Rightarrow> nat option"
  assumes grows: "run q db = (b, db') \<Longrightarrow> version db = Some v \<Longrightarrow> \<exists>w \<ge> v. version db' = Some w"
    and guarded: "run q db = (True, db') \<Longrightarrow> expects q = Some v \<Longrightarrow>
      version db = Some v \<and> version db' = Some (Suc v)"
begin

lemma stale_refused:
  "version db = Some w \<Longrightarrow> v < w \<Longrightarrow> served_from expects v (outcomes run qs db) = []"
proof (induction qs arbitrary: db w)
  case (Cons q qs)
  obtain b db' where r: "run q db = (b, db')" by fastforce
  then obtain w' where w': "w \<le> w'" "version db' = Some w'" using grows Cons.prems(1) by blast
  then have "served_from expects v (outcomes run qs db') = []" using Cons.IH Cons.prems(2) by simp
  then show ?case using guarded [of q db db'] Cons.prems r by (auto simp: served_from_def)
qed (simp add: served_from_def)

lemma one_winner: "length (served_from expects v (outcomes run qs db)) \<le> 1"
proof (induction qs arbitrary: db)
  case (Cons q qs)
  obtain b db' where r: "run q db = (b, db')" by fastforce
  show ?case
  proof (cases "b \<and> expects q = Some v")
    case True
    then have "version db' = Some (Suc v)" using guarded [of q db db' v] r by simp
    then have "served_from expects v (outcomes run qs db') = []" by (rule stale_refused) simp
    then show ?thesis using r True by (simp add: served_from_def)
  next
    case False
    then show ?thesis using Cons r by (auto simp: served_from_def)
  qed
qed (simp add: served_from_def)

end

text \<open>A request as the service receives it, and whether it was served.\<close>

type_synonym request = "scope \<times> event_actor \<times> command"

fun served :: "scope \<Rightarrow> event_actor \<Rightarrow> command \<Rightarrow> review_db \<Rightarrow> bool" where
  "served sc a (Create_review i) db = r_ok (fst (createReview sc i a db))"
| "served sc a (Update_review r i) db = r_ok (fst (updateReview sc r i a db))"
| "served sc a (Request_human_review r i) db = r_ok (fst (requestHumanReview sc r i a db))"
| "served sc a (Accept_review r i) db = r_ok (fst (acceptReview sc r i a db))"
| "served sc a (Reopen_review r i) db = r_ok (fst (reopenReview sc r i a db))"
| "served sc a (Archive_review r i) db = r_ok (fst (archiveReview sc r i a db))"
| "served sc a (Assign_review r i) db = r_ok (fst (assignReview sc r i a db))"
| "served sc a (Claim_review r v) db = r_ok (fst (claimReview sc r v a db))"
| "served sc a (Create_finding r i) db = r_ok (fst (createFinding sc r i a db))"
| "served sc a (Update_finding f i) db = r_ok (fst (updateFinding sc f i a db))"
| "served sc a (Claim_finding f v) db = r_ok (fst (claimFinding sc f v a db))"
| "served sc a (Dispose_finding f d i) db = r_ok (fst (disposeFinding sc f d i a db))"
| "served sc a (Reopen_finding f i) db = r_ok (fst (reopenFinding sc f i a db))"
| "served sc a (Add_comment f b) db = r_ok (fst (addComment sc f b a db))"
| "served sc a (Add_review_comment r b) db = r_ok (fst (addReviewComment sc r b a db))"
| "served sc a (Edit_comment c b) db = r_ok (fst (editComment sc c b a db))"
| "served sc a (Submit_verification f i) db = r_ok (fst (submitVerification sc f i a db))"
| "served sc a (Create_annotation f i) db = r_ok (fst (createAnnotation sc f i a db))"
| "served sc a (Update_annotation n i) db = r_ok (fst (updateAnnotation sc n i a db))"
| "served sc a (Withdraw_annotation n v) db = r_ok (fst (withdrawAnnotation sc n v a db))"
| "served sc a (Move_inbox_item i to reason recipient) db =
     r_ok (fst (inbox_transition sc i to a reason recipient db))"
| "served sc a (Record_completion r f res ms n s) db =
     r_ok (fst (recordCompletionEvaluation sc r f res ms n s a db))"
| "served sc a (Record_denied k t req code) db = fst (recordTransitionDenied sc k t req code a db)"

definition perform :: "request \<Rightarrow> review_db \<Rightarrow> bool \<times> review_db" where
  "perform = (\<lambda>(sc, actor, cmd) db. (served sc actor cmd db, exec sc actor cmd db))"

text \<open>The review, or the finding, and the version a request names.\<close>

fun review_target :: "command \<Rightarrow> (string \<times> nat) option" where
  "review_target (Update_review r i) = Some (r, ur_expected_version i)"
| "review_target (Request_human_review r i) = Some (r, tr_expected_version i)"
| "review_target (Accept_review r i) = Some (r, tr_expected_version i)"
| "review_target (Reopen_review r i) = Some (r, tr_expected_version i)"
| "review_target (Archive_review r i) = Some (r, tr_expected_version i)"
| "review_target (Assign_review r i) = Some (r, as_expected_version i)"
| "review_target (Claim_review r v) = Some (r, v)"
| "review_target _ = None"

fun finding_target :: "command \<Rightarrow> (string \<times> nat) option" where
  "finding_target (Update_finding f i) = Some (f, uf_expected_version i)"
| "finding_target (Claim_finding f v) = Some (f, v)"
| "finding_target (Dispose_finding f d i) = Some (f, dp_expected_version i)"
| "finding_target (Reopen_finding f i) = Some (f, tr_expected_version i)"
| "finding_target (Submit_verification f i) = map_option (\<lambda>v. (f, v)) (sv_expected_version i)"
| "finding_target _ = None"

definition expects_version ::
  "(command \<Rightarrow> (string \<times> nat) option) \<Rightarrow> scope \<Rightarrow> string \<Rightarrow> request \<Rightarrow> nat option" where
  "expects_version target sc i = (\<lambda>(sc', _, cmd).
     (case target cmd of Some (j, v) \<Rightarrow> if j = i \<and> sc' = sc then Some v else None | None \<Rightarrow> None))"

definition review_version :: "scope \<Rightarrow> string \<Rightarrow> review_db \<Rightarrow> nat option" where
  "review_version sc rid db = map_option rv_version (List.find (review_in sc rid) (d_reviews db))"

definition finding_version :: "scope \<Rightarrow> string \<Rightarrow> review_db \<Rightarrow> nat option" where
  "finding_version sc fid db = map_option fd_version (List.find (finding_in sc fid) (d_findings db))"

lemma evolves_find:
  assumes "evolves P Q old new" "List.find p old = Some r" "\<And>r r'. P r r' \<Longrightarrow> p r' = p r"
  shows "\<exists>r'. List.find p new = Some r' \<and> P r r'"
proof -
  obtain kept added where new: "new = kept @ added" "list_all2 P old kept"
    using assms(1) by (auto simp: evolves_def)
  have "\<exists>r'. List.find p (kept @ added) = Some r' \<and> P r r'"
    using new(2) assms(2,3) by (induction rule: list_all2_induct) (auto split: if_splits)
  then show ?thesis by (simp add: new(1))
qed

lemma r_ok_Inr: "r_ok m \<longleftrightarrow> (\<exists>a. m = Inr a)"
  by (cases m) simp_all

text \<open>A served update, assignment or claim found the version it names and left the next.\<close>

lemma written_review_version:
  assumes "List.find (review_in sc rid) (d_reviews db) = Some current" "rv_version current = v"
    and "d_reviews db' = update_where (review_in sc rid) g (d_reviews db)"
    and "\<And>r. review_in sc rid r \<Longrightarrow> review_in sc rid (g r)" "\<And>r. rv_version (g r) = Suc (rv_version r)"
  shows "review_version sc rid db = Some v \<and> review_version sc rid db' = Some (Suc v)"
  using assms find_update_where [OF assms(1), of g] by (simp add: review_version_def)

lemma updateReview_version:
  assumes "r_ok (fst (updateReview sc rid input actor db))"
  shows "review_version sc rid db = Some (ur_expected_version input) \<and>
    review_version sc rid (snd (updateReview sc rid input actor db)) = Some (Suc (ur_expected_version input))"
proof -
  obtain review db' where tx: "updateReview_tx sc rid input actor db = Inr (review, db')"
    using assms by (auto simp: updateReview_def inTransaction_def split: sum.splits)
  obtain current counts db1 where
    checks: "updateReview_checks sc rid input actor db = Inr (current, counts)"
    and db1: "db1 = db\<lparr>d_reviews :=
       update_where (review_in sc rid) (updated_review input actor (es_now db)) (d_reviews db)\<rparr>"
    and app: "appendEvents (updateReview_events sc rid input actor current review counts) db1 = Inr db'"
    by (rule updateReview_tx_Inr [OF tx]) blast
  have "d_reviews db' = update_where (review_in sc rid) (updated_review input actor (es_now db)) (d_reviews db)"
    using same_tables_appendEvents [OF app] by (simp add: db1 same_tables_iff)
  then show ?thesis
    using written_review_version [OF updateReview_checks_Inr(1,2) [OF checks]] tx
    by (simp add: updateReview_def review_in_def)
qed

lemma claimReview_version:
  assumes "r_ok (fst (claimReview sc rid v actor db))"
  shows "review_version sc rid db = Some v \<and>
    review_version sc rid (snd (claimReview sc rid v actor db)) = Some (Suc v)"
proof -
  obtain review db' where tx: "claimReview_tx sc rid v actor db = Inr (review, db')"
    using assms by (auto simp: claimReview_def inTransaction_def split: sum.splits)
  then obtain current st db1 where
    checks: "assignment_checks sc rid v ''claimed_by'' actor db = Inr (current, st)"
    and store: "db1 = db\<lparr>d_reviews := update_where (review_in sc rid) (claimed_row actor st (es_now db)) (d_reviews db)\<rparr>"
    and app: "appendEvents (claimed_events sc rid actor current (claimed_row actor st (es_now db) current)) db1 = Inr db'"
    by (auto simp: claimReview_tx_def Let_def r_bind_eq_Inr store_reviews_Inr)
  have "d_reviews db' = update_where (review_in sc rid) (claimed_row actor st (es_now db)) (d_reviews db)"
    using same_tables_appendEvents [OF app] by (simp add: store same_tables_iff)
  then show ?thesis
    using written_review_version [OF assignment_checks_Inr(1,2) [OF checks]] tx
    by (simp add: claimReview_def review_in_def claimed_row_def)
qed

lemma assignReview_version:
  assumes "r_ok (fst (assignReview sc rid input actor db))"
  shows "review_version sc rid db = Some (as_expected_version input) \<and>
    review_version sc rid (snd (assignReview sc rid input actor db)) = Some (Suc (as_expected_version input))"
proof -
  obtain review db' where tx: "assignReview_tx sc rid input actor db = Inr (review, db')"
    and snd: "snd (assignReview sc rid input actor db) = db'"
    using assms by (auto simp: assignReview_def inTransaction_def split: sum.splits)
  obtain current st db1 db2 where
    checks: "assignment_checks sc rid (as_expected_version input) ''assigned_to'' actor db = Inr (current, st)"
    and store: "db1 = db\<lparr>d_reviews := update_where (review_in sc rid) (assigned_row input st (es_now db)) (d_reviews db)\<rparr>"
    and app: "appendEvents (assigned_events sc rid input actor current
        (assigned_row input st (es_now db) current)) db1 = Inr db2"
    and del: "deliver_assignment sc rid input actor (assigned_row input st (es_now db) current) db2 = Inr db'"
    using tx by (auto simp: assignReview_tx_def Let_def r_bind_eq_Inr store_reviews_Inr)
  have "d_reviews db' = update_where (review_in sc rid) (assigned_row input st (es_now db)) (d_reviews db)"
    using same_tables_appendEvents [OF app] delivery_step(2) [OF deliver_assignment_cases [OF del]]
    by (simp add: store same_tables_iff)
  then show ?thesis
    using written_review_version [OF assignment_checks_Inr(1,2) [OF checks]]
    by (simp add: snd review_in_def assigned_row_def)
qed

lemma served_review_version:
  assumes "served sc actor cmd db" "review_target cmd = Some (rid, v)"
  shows "review_version sc rid db = Some v \<and> review_version sc rid (exec sc actor cmd db) = Some (Suc v)"
  using assms
  by (cases cmd) (auto simp: requestHumanReview_def acceptReview_def reopenReview_def archiveReview_def to_status_def
      split: sum.splits dest: updateReview_version claimReview_version assignReview_version)

lemma exec_review_version:
  assumes "review_version sc rid db = Some v"
  shows "\<exists>w \<ge> v. review_version sc rid (exec sc' actor cmd db) = Some w"
proof -
  obtain r where r: "List.find (review_in sc rid) (d_reviews db) = Some r" "rv_version r = v"
    using assms by (auto simp: review_version_def)
  have "evolves (review_step sc' actor) (review_new sc' actor) (d_reviews db) (d_reviews (exec sc' actor cmd db))"
    using exec_step by (simp add: service_step_def)
  then have "\<exists>r'. List.find (review_in sc rid) (d_reviews (exec sc' actor cmd db)) = Some r' \<and> review_step sc' actor r r'"
    using r(1) by (rule evolves_find) (auto simp: review_step_def review_in_def)
  then show ?thesis using r(2) by (auto simp: review_version_def review_step_def)
qed

interpretation review_versions: versioned "review_version sc rid" perform "expects_version review_target sc rid"
  for sc rid
proof (unfold_locales, goal_cases)
  case (1 q db b db' v)
  then show ?case using exec_review_version by (auto simp: perform_def split: prod.splits)
next
  case (2 q db db' v)
  then show ?case using served_review_version
    by (auto simp: perform_def expects_version_def split: prod.splits option.splits if_splits)
qed

text \<open>The same for findings. A submission may leave out the version.\<close>

lemma written_finding_version:
  assumes "List.find (finding_in sc fid) (d_findings db) = Some current" "fd_version current = v"
    and "d_findings db' = update_where (finding_in sc fid) g (d_findings db)"
    and "\<And>f. finding_in sc fid f \<Longrightarrow> finding_in sc fid (g f)" "\<And>f. fd_version (g f) = Suc (fd_version f)"
  shows "finding_version sc fid db = Some v \<and> finding_version sc fid db' = Some (Suc v)"
  using assms find_update_where [OF assms(1), of g] by (simp add: finding_version_def)

lemma updateFinding_Inr:
  assumes "updateFinding sc fid input actor db = (Inr f, db')"
  obtains current claim where
    "updateFinding_checks sc fid input actor db = Inr (current, claim)"
    "updateFinding_writes sc fid input actor current claim db = Inr (f, db')"
  using assms by (auto simp: updateFinding_def inTransaction_def updateFinding_tx_def result_simps split: sum.splits)

lemma r_ok_fst: "r_ok (fst p) \<longleftrightarrow> (\<exists>a. p = (Inr a, snd p))"
  by (cases p; cases "fst p") auto

lemma updateFinding_version:
  assumes "r_ok (fst (updateFinding sc fid input actor db))"
  shows "finding_version sc fid db = Some (uf_expected_version input) \<and>
    finding_version sc fid (snd (updateFinding sc fid input actor db)) = Some (Suc (uf_expected_version input))"
proof -
  obtain f where "updateFinding sc fid input actor db = (Inr f, snd (updateFinding sc fid input actor db))"
    using assms unfolding r_ok_fst by blast
  then obtain current claim where
    checks: "updateFinding_checks sc fid input actor db = Inr (current, claim)"
    and writes: "updateFinding_writes sc fid input actor current claim db =
      Inr (f, snd (updateFinding sc fid input actor db))"
    by (rule updateFinding_Inr)
  show ?thesis
    by (rule written_finding_version [OF updateFinding_checks_Inr(1,2) [OF checks],
          where g = "updated_finding input actor (es_now db)"])
      (use updateFinding_writes_step(2) [OF checks writes] in \<open>simp_all add: same_tables_iff finding_in_def\<close>)
qed

text \<open>What a submission's transaction leaves behind.\<close>

lemma submitVerification_tx_Inr:
  assumes "submitVerification_tx sc fid input actor finding evidence vid db = Inr ((v, moved), db')"
  obtains locked old rows where
    "List.find (finding_in sc fid) (d_findings db) = Some locked"
    "sv_expected_version input \<noteq> None \<Longrightarrow> sv_expected_version input = Some (fd_version locked)"
    "supersedeCurrentVerification sc fid vid db = (old, rows)"
    "v = new_verification sc finding input actor old vid (es_now db)"
    "moved = advanced_finding input actor (es_now db) locked"
    "d_verifications db' = rows @ [v]" "one_current (rows @ [v])" "distinct (map vf_id (rows @ [v]))"
    "d_verification_artefacts db' = d_verification_artefacts db @ evidence_rows finding vid evidence"
    "d_findings db' = update_where (finding_in sc fid) (advanced_finding input actor (es_now db)) (d_findings db)"
    "appendEvents (submission_events sc actor finding locked v evidence moved)
       (db\<lparr>d_verifications := d_verifications db', d_verification_artefacts := d_verification_artefacts db',
           d_findings := d_findings db'\<rparr>) = Inr db'"
proof -
  obtain old rows where sup: "supersedeCurrentVerification sc fid vid db = (old, rows)" by fastforce
  let ?db = "\<lambda>db'. db\<lparr>d_verifications := d_verifications db', d_verification_artefacts := d_verification_artefacts db',
           d_findings := d_findings db'\<rparr>"
  obtain locked where
    a: "lockFinding sc fid db = Inr locked"
      "(case sv_expected_version input of None \<Rightarrow> ok | Some v \<Rightarrow> lift (assertExpectedVersion (fd_version locked) v)) = ok"
      "v = new_verification sc finding input actor old vid (es_now db)"
      "moved = advanced_finding input actor (es_now db) locked"
      "one_current (rows @ [v])" "distinct (map vf_id (rows @ [v]))"
    and app: "appendEvents (submission_events sc actor finding locked v evidence moved)
       (db\<lparr>d_verifications := rows @ [v],
           d_verification_artefacts := d_verification_artefacts db @ evidence_rows finding vid evidence,
           d_findings := update_where (finding_in sc fid) (advanced_finding input actor (es_now db)) (d_findings db)\<rparr>)
        = Inr db'"
    using assms
    by (auto simp: submitVerification_tx_def sup Let_def r_bind_eq_Inr r_then_eq_Inr store_verifications_Inr
        store_verification_artefacts_Inr store_findings_Inr simp del: appendEvents.simps)
  note t = same_tables_appendEvents [OF app, unfolded same_tables_iff, simplified]
  show thesis
    by (rule that [of locked old rows])
      (use a app t sup in \<open>auto simp: lockFinding_Inr assertExpectedVersion_ok lift_eq_ok split: option.splits\<close>)
qed

lemma submitVerification_Inr:
  assumes "submitVerification sc fid input actor db = (Inr (v, moved, b), db')"
  obtains finding evidence vid db0 where
    "submitVerification_checks sc fid input db = Inr (finding, evidence, b)"
    "newId ''ver_'' db = (vid, db0)"
    "submitVerification_tx sc fid input actor finding evidence vid db0 = Inr ((v, moved), db')"
  using assms by (auto simp: submitVerification_def inTransaction_def split: sum.splits prod.splits)

lemma submitVerification_version:
  assumes "r_ok (fst (submitVerification sc fid input actor db))" "sv_expected_version input = Some n"
  shows "finding_version sc fid db = Some n \<and>
    finding_version sc fid (snd (submitVerification sc fid input actor db)) = Some (Suc n)"
proof -
  let ?db' = "snd (submitVerification sc fid input actor db)"
  obtain v moved b where sub: "submitVerification sc fid input actor db = (Inr (v, moved, b), ?db')"
    using assms(1) unfolding r_ok_fst by (metis prod_cases3)
  obtain finding evidence vid db0 where
    new: "newId ''ver_'' db = (vid, db0)"
    and tx: "submitVerification_tx sc fid input actor finding evidence vid db0 = Inr ((v, moved), ?db')"
    by (rule submitVerification_Inr [OF sub]) blast
  obtain locked where
    l: "List.find (finding_in sc fid) (d_findings db0) = Some locked" "fd_version locked = n"
      "d_findings ?db' = update_where (finding_in sc fid) (advanced_finding input actor (es_now db0)) (d_findings db0)"
    by (rule submitVerification_tx_Inr [OF tx]) (use assms(2) in auto)
  have "finding_version sc fid db0 = Some n \<and> finding_version sc fid ?db' = Some (Suc n)"
    using l by (rule written_finding_version) (simp_all add: finding_in_def advanced_finding_def)
  moreover have "d_findings db0 = d_findings db" using same_tables_newId [OF new] by (simp add: same_tables_iff)
  ultimately show ?thesis by (simp add: finding_version_def)
qed

lemma served_finding_version:
  assumes "served sc actor cmd db" "finding_target cmd = Some (fid, v)"
  shows "finding_version sc fid db = Some v \<and> finding_version sc fid (exec sc actor cmd db) = Some (Suc v)"
  using assms
  by (cases cmd) (auto simp: claimFinding_def disposeFinding_def reopenFinding_def finding_to_status_def r_then_eq_ok
      split: sum.splits dest: updateFinding_version submitVerification_version)

lemma exec_finding_version:
  assumes "finding_version sc fid db = Some v"
  shows "\<exists>w \<ge> v. finding_version sc fid (exec sc' actor cmd db) = Some w"
proof -
  obtain f where f: "List.find (finding_in sc fid) (d_findings db) = Some f" "fd_version f = v"
    using assms by (auto simp: finding_version_def)
  have "evolves (finding_step sc' actor) (finding_new sc' actor) (d_findings db) (d_findings (exec sc' actor cmd db))"
    using exec_step by (simp add: service_step_def)
  then have "\<exists>f'. List.find (finding_in sc fid) (d_findings (exec sc' actor cmd db)) = Some f' \<and> finding_step sc' actor f f'"
    using f(1) by (rule evolves_find) (auto simp: finding_step_def finding_in_def)
  then show ?thesis using f(2) by (auto simp: finding_version_def finding_step_def)
qed

interpretation finding_versions: versioned "finding_version sc fid" perform "expects_version finding_target sc fid"
  for sc fid
proof (unfold_locales, goal_cases)
  case (1 q db b db' v)
  then show ?case using exec_finding_version by (auto simp: perform_def split: prod.splits)
next
  case (2 q db db' v)
  then show ?case using served_finding_version
    by (auto simp: perform_def expects_version_def split: prod.splits option.splits if_splits)
qed

text \<open>C3: no update is lost. Take any history of requests by any callers, of any kind and in any
  order. Of those that change one review, or one finding, from the same version of it, at most
  one is served; every other one is refused.\<close>

theorem one_winner_per_version:
  "length (served_from (expects_version review_target sc i) v (outcomes perform history db)) \<le> 1 \<and>
   length (served_from (expects_version finding_target sc i) v (outcomes perform history db)) \<le> 1"
  by (intro conjI review_versions.one_winner finding_versions.one_winner)

end
