(* ===== verification/Review_Decisions.thy ===== *)
theory Review_Decisions
  imports Review_Concurrency
begin

text \<open>
  What a single request to the review service achieves: acceptance of a review, the hand-over of
  a finding by an agent, the decision on a claim, and the submission of a claim.
\<close>

section \<open>Accepting a review\<close>

lemma updateReview_Inr:
  assumes "updateReview sc rid input actor db = (Inr review, db')"
  shows "updateReview_tx sc rid input actor db = Inr (review, db')"
  using assms by (auto simp: updateReview_def inTransaction_def split: sum.splits prod.splits)

lemma acceptance_events:
  assumes "ur_slug input = None" "ur_title input = None" "rv_status current \<noteq> R_ACCEPTED" "rv_status review = R_ACCEPTED"
  shows "map ai_type (updateReview_events sc rid input actor current review (Some c)) =
    [''review.status_changed'', ''review.accepted'']"
  using assms by (simp add: updateReview_events_def Let_def scoped_event_def split: prod.split)

lemma appendEvents_types:
  assumes "appendEvents is s = Inr s'"
  shows "\<exists>new. es_events s' = es_events s @ new \<and> map e_type new = map ai_type is \<and>
    map e_actor new = map ai_actor is"
proof -
  obtain new where "es_events s' = es_events s @ new"
    and m: "map (\<lambda>e. (e_type e, e_stream_key e, e_actor e, e_payload e)) new =
      map (\<lambda>i. (ai_type i, input_stream i, ai_actor i, pruneUndefined (ai_payload i))) is"
    using fold_appended_events [of "is" s] appendEvents_Inr [OF assms] by auto
  moreover have "map e_type new = map ai_type is" "map e_actor new = map ai_actor is"
    using arg_cong [OF m, of "map fst"] arg_cong [OF m, of "map (\<lambda>(_, _, a, _). a)"] by (simp_all add: comp_def)
  ultimately show ?thesis by blast
qed

text \<open>C20: a review is accepted only by a human, and only when every human finding of it has
  been resolved, declined or marked a duplicate by a human. The accepted review names who
  accepted it, is stored, and the log gains the change of status and the acceptance, in that
  order and nothing else.\<close>

theorem acceptance_follows_disposal:
  assumes "acceptReview sc rid input actor db = (Inr review, db')"
  shows "act_type actor = human_user \<and> rv_status review = R_ACCEPTED \<and> rv_accepted_by review = Some actor \<and>
    (\<forall>f \<in> set (d_findings db). fd_review_id f = rid \<and> in_tenant sc (fd_organisation_id f) (fd_project_id f) \<and>
       fd_source f = Human \<longrightarrow> isFinalDisposition (fd_status f)) \<and>
    review \<in> set (d_reviews db') \<and>
    (\<exists>new. es_events db' = es_events db @ new \<and> map e_type new = [''review.status_changed'', ''review.accepted''])"
proof -
  let ?i = "to_status input R_ACCEPTED"
  let ?g = "updated_review ?i actor (es_now db)"
  have next_: "next_review_status ?i r = R_ACCEPTED" for r by (simp add: next_review_status_def to_status_def)
  obtain current counts db1 where
    checks: "updateReview_checks sc rid ?i actor db = Inr (current, counts)"
    and review: "review = ?g current"
    and db1: "db1 = db\<lparr>d_reviews := update_where (review_in sc rid) ?g (d_reviews db)\<rparr>"
    and app: "appendEvents (updateReview_events sc rid ?i actor current review counts) db1 = Inr db'"
    by (rule updateReview_tx_Inr [OF updateReview_Inr [OF assms [unfolded acceptReview_def]]])
  have open_: "rv_status current \<noteq> R_ACCEPTED"
    using checks by (auto simp: updateReview_checks_def result_simps Let_def closing_def to_status_def split: if_splits)
  note c = updateReview_checks_Inr [OF checks, unfolded next_]
  obtain n where n: "counts = Some n"
    using checks open_ by (auto simp: updateReview_checks_def Let_def next_ result_simps split: if_splits)
  have "\<forall>f \<in> set (d_findings db). fd_review_id f = rid \<and> in_tenant sc (fd_organisation_id f) (fd_project_id f) \<and>
       fd_source f = Human \<longrightarrow> isFinalDisposition (fd_status f)"
    using c(5) open_ by (auto simp: assertFindingsPermitAcceptance_def Let_def result_simps)
  moreover have "\<exists>new. es_events db' = es_events db @ new \<and> map e_type new = [''review.status_changed'', ''review.accepted'']"
  proof -
    have "map ai_type (updateReview_events sc rid ?i actor current review counts) =
        [''review.status_changed'', ''review.accepted'']"
      unfolding n using open_ by (intro acceptance_events) (simp_all add: review next_, simp_all add: to_status_def)
    then show ?thesis using appendEvents_types [OF app] by (auto simp: db1)
  qed
  moreover have "review \<in> set (d_reviews db')"
    using same_tables_appendEvents [OF app] find_update_where [OF c(1), of ?g, THEN find_Some_in]
    by (simp add: db1 same_tables_iff review review_in_def)
  moreover have "rv_accepted_by review = Some actor"
    using open_ next_ by (auto simp: review updated_review_def Let_def)
  ultimately show ?thesis using c(4) open_ by (auto simp: review next_ closing_def)
qed

theorem acceptance_follows_disposal_witness:
  "\<exists>review db'. acceptReview sample_scope ''rev_1'' (sample_transition 3 None) human
     (sample_db [sample_review R_AWAITING_HUMAN_REVIEW] [sample_finding F_RESOLVED] [] []) = (Inr review, db') \<and>
     rv_accepted_by review = Some human \<and> length (es_events db') = 2"
proof -
  let ?db = "sample_db [sample_review R_AWAITING_HUMAN_REVIEW] [sample_finding F_RESOLVED] [] []"
  have "r_ok (fst (acceptReview sample_scope ''rev_1'' (sample_transition 3 None) human ?db))"
    by (simp add: sample_defs service_eval review_eval sample_transition_def domain_eval)
  then obtain review db' where
    r: "acceptReview sample_scope ''rev_1'' (sample_transition 3 None) human ?db = (Inr review, db')"
    unfolding r_ok_fst by blast
  then show ?thesis using acceptance_follows_disposal [OF r] by (auto simp: sample_db_def)
qed

section \<open>Handing a finding over\<close>

text \<open>C22: an agent hands a finding over to a human only with complete evidence. When an agent
  moves a finding to awaiting human review, the finding's current claim carries an after
  screenshot, covers every viewport the project requires, and reports that console errors and
  network failures were reviewed.\<close>

theorem agent_hand_over_needs_evidence:
  assumes "updateFinding sc fid input actor db = (Inr f, db')" "act_type actor = agent_session"
    and "List.find (finding_in sc fid) (d_findings db) = Some current"
    and "fd_status current \<noteq> F_AWAITING_HUMAN_REVIEW" "fd_status f = F_AWAITING_HUMAN_REVIEW"
  shows "\<exists>settings v after. project_settings_of sc db = Inr settings \<and>
    currentVerificationOn sc fid db = Some (v, Some after) \<and>
    list_all (\<lambda>required. list_ex (viewportSatisfies required) (vf_tested_viewports v))
      (default_validation_viewports settings) \<and>
    console_errors_reviewed (vf_checks v) \<and> network_failures_reviewed (vf_checks v)"
proof -
  obtain c claim where checks: "updateFinding_checks sc fid input actor db = Inr (c, claim)"
    and writes: "updateFinding_writes sc fid input actor c claim db = Inr (f, db')"
    by (rule updateFinding_Inr [OF assms(1)])
  have c: "c = current" using updateFinding_checks_Inr(1) [OF checks] assms(3) by simp
  have to: "next_finding_status input current = F_AWAITING_HUMAN_REVIEW"
    by (rule updateFinding_writes_Inr [OF writes]) (use assms(5) c in simp)
  then have "missingEvidenceOn sc fid db = Inr []"
    using transition_checks_ok(3) [OF updateFinding_checks_Inr(3) [OF checks]] assms(2,4) by (simp add: c)
  then show ?thesis
    by (cases "currentVerificationOn sc fid db")
      (auto simp: missingEvidenceOn_def r_bind_eq_Inr Let_def missingEvidence_None_not_Nil missingEvidence_Some_Nil
        evidence_complete_def covered_def list_all_iff simp del: missingEvidence.simps)
qed

text \<open>A database whose claim has everything the default settings ask for.\<close>

definition evidenced_db :: "finding_status \<Rightarrow> review_db" where
  "evidenced_db st =
     (sample_db [sample_review R_IN_PROGRESS] [sample_finding st]
       [sample_claim\<lparr>vf_tested_viewports :=
          map (\<lambda>v. \<lparr>vp_width = vv_width v, vp_height = vv_height v, vp_scale = vv_scale v\<rparr>)
            DEFAULT_VALIDATION_VIEWPORTS\<rparr>] [])
     \<lparr>d_verification_artefacts :=
        [\<lparr>va_verification_id = ''ver_1'', va_artefact_id = ''art_after'', va_role = After, va_position = 0\<rparr>]\<rparr>"

definition handed_over :: update_finding_input where
  "handed_over = finding_to_status 5 F_AWAITING_HUMAN_REVIEW None None None"

lemma hand_over_served:
  "map_sum (\<lambda>_. ()) fd_status (fst (updateFinding sample_scope ''fin_1'' handed_over agent
     (evidenced_db F_FIXED_UNVERIFIED))) = Inr F_AWAITING_HUMAN_REVIEW"
  by (simp add: handed_over_def evidenced_db_def sample_defs service_eval finding_eval domain_eval
      DEFAULT_VALIDATION_VIEWPORTS_def defaultProjectSettings_def completionRequirementsFor_def
      covered_def viewportSatisfies_def)

theorem agent_hand_over_needs_evidence_witness:
  "\<exists>v after. currentVerificationOn sample_scope ''fin_1'' (evidenced_db F_FIXED_UNVERIFIED) = Some (v, Some after) \<and>
     console_errors_reviewed (vf_checks v)"
proof -
  let ?db = "evidenced_db F_FIXED_UNVERIFIED"
  obtain f where f: "updateFinding sample_scope ''fin_1'' handed_over agent ?db =
      (Inr f, snd (updateFinding sample_scope ''fin_1'' handed_over agent ?db))" "fd_status f = F_AWAITING_HUMAN_REVIEW"
    using hand_over_served by (cases "updateFinding sample_scope ''fin_1'' handed_over agent ?db"; cases "fst
      (updateFinding sample_scope ''fin_1'' handed_over agent ?db)") auto
  have "List.find (finding_in sample_scope ''fin_1'') (d_findings ?db) = Some (sample_finding F_FIXED_UNVERIFIED)"
    by (simp add: evidenced_db_def sample_defs finding_in_def in_tenant_def)
  then show ?thesis
    using agent_hand_over_needs_evidence [OF f(1) _ _ _ f(2)] by (fastforce simp: agent_def sample_finding_def)
qed

section \<open>Deciding on a claim\<close>

lemma decideClaim_rows:
  assumes "decideClaim sc input actor claim current f db = Inr db'"
  shows "d_verifications db' =
    (case claim of
       Some (v, _) \<Rightarrow> if fd_status f = F_RESOLVED \<or> reopening current (fd_status f)
         then update_where (\<lambda>w. vf_id w = vf_id v \<and> in_tenant sc (vf_organisation_id w) (vf_project_id w))
           (\<lambda>w. w\<lparr>vf_status := (if fd_status f = F_RESOLVED then Accepted else Rejected),
              vf_reviewed_at := Some (es_now db), vf_reviewed_by := Some (act_type actor, act_id actor)\<rparr>)
           (d_verifications db)
         else d_verifications db
     | None \<Rightarrow> d_verifications db)"
proof -
  have "d_verifications db2 = d_verifications db1" if "appendEvents es db1 = Inr db2" for es and db1 db2 :: review_db
    using same_tables_appendEvents [OF that] by (simp add: same_tables_iff)
  then show ?thesis
    using assms unfolding decideClaim_def Let_def
    by (auto simp: r_bind_eq_Inr store_verifications_Inr simp del: appendEvents.simps split: option.splits prod.splits if_splits)
qed

text \<open>The claims after an update of a finding.\<close>

definition claim_decision where
  "claim_decision accepted actor now =
     (\<lambda>w. w\<lparr>vf_status := (if accepted then Accepted else Rejected), vf_reviewed_at := Some now,
            vf_reviewed_by := Some (act_type actor, act_id actor)\<rparr>)"

lemma updateFinding_claims:
  assumes checks: "updateFinding_checks sc fid input actor db = Inr (current, claim)"
    and writes: "updateFinding_writes sc fid input actor current claim db = Inr (f, db')"
  shows "d_verifications db' =
    (case claim of
       Some (v, _) \<Rightarrow> if fd_status f = F_RESOLVED \<or> reopening current (fd_status f)
         then update_where (\<lambda>w. vf_id w = vf_id v \<and> in_tenant sc (vf_organisation_id w) (vf_project_id w))
           (claim_decision (fd_status f = F_RESOLVED) actor (es_now db)) (d_verifications db)
         else d_verifications db
     | None \<Rightarrow> d_verifications db)"
proof -
  obtain db1 db2 db3 db4 db5 where
    store: "store_findings (update_where (finding_in sc fid) (updated_finding input actor (es_now db)) (d_findings db)) db
      = Inr db1"
    and move: "appendEvents (movement_events sc input actor current f) db1 = Inr db2"
    and decide: "decideClaim sc input actor claim current f db2 = Inr db3"
    and comment: "decision_comment sc input actor
       (disposing current (fd_status f) \<or> reopening current (fd_status f)) f db3 = Inr db4"
    and resolved: "appendEvents (resolved_events sc input actor current f) db4 = Inr db5"
    and reopen: "(if reopening current (fd_status f)
       then r_bind (appendEvents [reopened_event sc input actor current f
              (if reopening current (fd_status f) then countVerificationsOn sc fid db else 0)] db5)
              (deliver_reopen sc actor f)
       else Inr db5) = Inr db'"
    by (rule updateFinding_writes_Inr [OF writes])
  have "d_verifications db' = d_verifications db3"
    using decision_comment_step [OF comment] same_tables_appendEvents [OF resolved] reopen_step [OF reopen]
    by (simp add: same_tables_iff)
  moreover have "es_now db2 = es_now db" "d_verifications db2 = d_verifications db"
    using store appendEvents_now [OF move] same_tables_appendEvents [OF move]
    by (auto simp: store_findings_Inr same_tables_iff)
  ultimately show ?thesis
    using decideClaim_rows [OF decide] unfolding claim_decision_def by (simp split: option.split)
qed

lemma one_current_unique:
  assumes "one_current rows" "v \<in> set rows" "w \<in> set rows" "vf_status v = Submitted" "vf_status w = Submitted"
    and "vf_finding_id v = vf_finding_id w"
  shows "v = w"
proof -
  have "inj_on vf_finding_id (set (filter (\<lambda>v. vf_status v = Submitted) rows))"
    using assms(1) unfolding one_current_def by (simp add: distinct_map)
  then show ?thesis using assms(2-) by (auto dest: inj_onD)
qed

text \<open>C17: a decision is about the claim the human looked at. A finding is disposed of or reopened
  only by a human, who names the claim that is current, or names none when there is none. The
  resolution accepts that claim and the reopening rejects it, in the human's name, after which no
  claim on the finding awaits a decision; a disposition as declined or duplicate leaves the
  claims as they are.\<close>

theorem decision_settles_current_claim:
  assumes "updateFinding sc fid input actor db = (Inr f, db')" "one_current (d_verifications db)"
    and "List.find (finding_in sc fid) (d_findings db) = Some current"
    and "disposing current (fd_status f) \<or> reopening current (fd_status f)"
  shows "act_type actor = human_user \<and>
    uf_verification_id input = map_option (\<lambda>(v, _). vf_id v) (currentVerificationOn sc fid db) \<and>
    (if fd_status f = F_RESOLVED \<or> fd_status f = F_REOPENED
     then currentVerificationOn sc fid db' = None \<and>
       (case currentVerificationOn sc fid db of
          None \<Rightarrow> d_verifications db' = d_verifications db
        | Some (v, _) \<Rightarrow>
            claim_decision (fd_status f = F_RESOLVED) actor (es_now db) v \<in> set (d_verifications db'))
     else d_verifications db' = d_verifications db)"
proof -
  obtain c claim where checks: "updateFinding_checks sc fid input actor db = Inr (c, claim)"
    and writes: "updateFinding_writes sc fid input actor c claim db = Inr (f, db')"
    by (rule updateFinding_Inr [OF assms(1)])
  have c: "c = current" using updateFinding_checks_Inr(1) [OF checks] assms(3) by simp
  have to: "next_finding_status input current = fd_status f"
    by (rule updateFinding_writes_Inr [OF writes]) (use c in simp)
  note d = updateFinding_checks_Inr(4,5) [OF checks, unfolded c to] and h = deciding_human [OF checks, unfolded c to]
  note rows = updateFinding_claims [OF checks writes, unfolded c]
  have re: "reopening current (fd_status f) \<longleftrightarrow> fd_status f = F_REOPENED" 
    using assms(4) by (auto simp: disposing_def reopening_def isFinalDisposition_iff)
  show ?thesis
  proof (cases "currentVerificationOn sc fid db")
    case None
    moreover have "currentVerificationOn sc fid db' = None" if "d_verifications db' = d_verifications db"
      using None that by (simp add: currentVerificationOn_def)
    ultimately show ?thesis using h d rows assms(4) by auto
  next
    case (Some p)
    then obtain v after where v: "currentVerificationOn sc fid db = Some (v, after)" by (cases p) simp
    note cur = currentVerificationOn_Some [OF v]
    let ?p = "\<lambda>w. vf_id w = vf_id v \<and> in_tenant sc (vf_organisation_id w) (vf_project_id w)"
    let ?g = "claim_decision (fd_status f = F_RESOLVED) actor (es_now db)"
    have only: "w = v" if "w \<in> set (d_verifications db)" "claim_in sc fid w" "vf_status w = Submitted" for w
      using one_current_unique [OF assms(2) that(1)] cur that(2,3) by (auto simp: claim_in_def)
    have "currentVerificationOn sc fid db' = None \<and> ?g v \<in> set (d_verifications db')"
      if "d_verifications db' = update_where ?p ?g (d_verifications db)"
    proof
      show "?g v \<in> set (d_verifications db')"
        using that cur by (auto simp: update_where_def claim_in_def)
      show "currentVerificationOn sc fid db' = None"
        using only cur by (auto simp: currentVerificationOn_def that find_None_iff update_where_def claim_decision_def
            claim_in_def split: if_splits)
    qed
    then show ?thesis using h d rows assms(4) v re by auto
  qed
qed

lemma fst_Inr_status:
  assumes "map_sum (\<lambda>_. ()) g (fst r) = Inr s"
  obtains a where "r = (Inr a, snd r)" "g a = s"
  using assms by (cases r; cases "fst r") auto

definition resolved_request :: update_finding_input where
  "resolved_request = finding_to_status 5 F_RESOLVED None (Some ''ver_1'') None"

lemma resolve_served:
  "map_sum (\<lambda>_. ()) fd_status (fst (updateFinding sample_scope ''fin_1'' resolved_request human
     (evidenced_db F_AWAITING_HUMAN_REVIEW))) = Inr F_RESOLVED"
  by (simp add: resolved_request_def evidenced_db_def sample_defs service_eval finding_eval domain_eval)

theorem decision_settles_current_claim_witness:
  "currentVerificationOn sample_scope ''fin_1'' (evidenced_db F_AWAITING_HUMAN_REVIEW) \<noteq> None \<and>
   currentVerificationOn sample_scope ''fin_1'' (snd (updateFinding sample_scope ''fin_1'' resolved_request human
     (evidenced_db F_AWAITING_HUMAN_REVIEW))) = None"
proof -
  let ?db = "evidenced_db F_AWAITING_HUMAN_REVIEW"
  obtain f where f: "updateFinding sample_scope ''fin_1'' resolved_request human ?db =
      (Inr f, snd (updateFinding sample_scope ''fin_1'' resolved_request human ?db))" "fd_status f = F_RESOLVED"
    by (rule fst_Inr_status [OF resolve_served])
  have "List.find (finding_in sample_scope ''fin_1'') (d_findings ?db) = Some (sample_finding F_AWAITING_HUMAN_REVIEW)"
    by (simp add: evidenced_db_def sample_defs finding_in_def in_tenant_def)
  moreover have "one_current (d_verifications ?db)" by (simp add: evidenced_db_def sample_db_def one_current_def)
  moreover have "disposing (sample_finding F_AWAITING_HUMAN_REVIEW) (fd_status f)"
    by (simp add: f(2) disposing_def isFinalDisposition_iff sample_finding_def)
  moreover have "currentVerificationOn sample_scope ''fin_1'' ?db \<noteq> None"
    by (simp add: evidenced_db_def sample_defs currentVerificationOn_def claim_in_def in_tenant_def)
  ultimately show ?thesis using decision_settles_current_claim [OF f(1)] f(2) by auto
qed

section \<open>Submitting a claim\<close>

text \<open>C21: a submission replaces the current claim and nothing more. After it the finding has
  exactly one claim awaiting a decision, the submitted one, in the submitter's name; the claim
  that was current before is superseded by it; every other claim is unchanged. The finding is at
  most marked fixed and unverified: it keeps its status otherwise, and is neither disposed of nor
  handed over by it.\<close>

theorem submission_supersedes_current:
  assumes "submitVerification sc fid input actor db = (Inr (v, moved, b), db')"
  shows "filter (\<lambda>w. claim_in sc fid w \<and> vf_status w = Submitted) (d_verifications db') = [v] \<and>
    vf_submitted_by v = actor \<and> vf_summary v = sv_summary input \<and> vf_commit_sha v = sv_commit input \<and>
    vf_supersedes v = map_option (\<lambda>(w, _). vf_id w) (currentVerificationOn sc fid db) \<and>
    d_verifications db' = update_where (\<lambda>w. claim_in sc fid w \<and> vf_status w = Submitted)
      (\<lambda>w. w\<lparr>vf_status := Superseded, vf_superseded_at := Some (es_now db), vf_superseded_by := Some (vf_id v)\<rparr>)
      (d_verifications db) @ [v] \<and>
    (\<exists>locked. List.find (finding_in sc fid) (d_findings db) = Some locked \<and>
       (fd_status moved = F_FIXED_UNVERIFIED \<or> fd_status moved = fd_status locked) \<and>
       fd_version moved = fd_version locked + 1)"
proof -
  obtain finding evidence vid db0 where
    checks: "submitVerification_checks sc fid input db = Inr (finding, evidence, b)"
    and new: "newId ''ver_'' db = (vid, db0)"
    and tx: "submitVerification_tx sc fid input actor finding evidence vid db0 = Inr ((v, moved), db')"
    by (rule submitVerification_Inr [OF assms])
  have same: "d_findings db0 = d_findings db" "d_verifications db0 = d_verifications db" "es_now db0 = es_now db"
    using same_tables_newId [OF new] new by (auto simp: same_tables_iff newId_def)
  have fid: "fd_id finding = fid"
    using checks by (auto simp: submitVerification_checks_def getFinding_def r_bind_eq_Inr r_then_eq_Inr lockFinding_Inr
        finding_in_def dest: find_Some_in)
  obtain locked old rows where
    locked: "List.find (finding_in sc fid) (d_findings db0) = Some locked"
    and sup: "supersedeCurrentVerification sc fid vid db0 = (old, rows)"
    and v: "v = new_verification sc finding input actor old vid (es_now db0)"
    and moved: "moved = advanced_finding input actor (es_now db0) locked"
    and claims: "d_verifications db' = rows @ [v]"
    by (rule submitVerification_tx_Inr [OF tx])
  have rows: "rows = update_where (\<lambda>w. claim_in sc fid w \<and> vf_status w = Submitted)
      (\<lambda>w. w\<lparr>vf_status := Superseded, vf_superseded_at := Some (es_now db), vf_superseded_by := Some vid\<rparr>)
      (d_verifications db)"
    and old: "old = map_option vf_id (List.find (\<lambda>w. claim_in sc fid w \<and> vf_status w = Submitted) (d_verifications db))"
    using sup by (auto simp: supersedeCurrentVerification_def Let_def same)
  have "filter (\<lambda>w. claim_in sc fid w \<and> vf_status w = Submitted) rows = []"
    by (auto simp: rows update_where_def filter_empty_conv)
  moreover have "claim_in sc fid v" "vf_status v = Submitted"
    by (simp_all add: v new_verification_def claim_in_def in_tenant_def fid)
  ultimately have "filter (\<lambda>w. claim_in sc fid w \<and> vf_status w = Submitted) (d_verifications db') = [v]"
    by (simp add: claims)
  moreover have "vf_supersedes v = map_option (\<lambda>(w, _). vf_id w) (currentVerificationOn sc fid db)"
    by (simp add: v new_verification_def old currentVerificationOn_def option.map_comp comp_def)
  moreover have "vf_id v = vid" "vf_submitted_by v = actor" "vf_summary v = sv_summary input"
    "vf_commit_sha v = sv_commit input"
    by (simp_all add: v new_verification_def)
  moreover have "fd_status moved = F_FIXED_UNVERIFIED \<or> fd_status moved = fd_status locked"
    "fd_version moved = fd_version locked + 1"
    by (simp_all add: moved advanced_finding_def advanced_status_def)
  ultimately show ?thesis
    using claims rows locked unfolding same by blast
qed

definition sample_submission :: submit_verification_input where
  "sample_submission =
     \<lparr>sv_summary = ''Moved the button'', sv_branch = ''main'', sv_commit = ''fed9876'', sv_tested_viewports = [],
      sv_checks = sample_checks, sv_artefact_ids = [''art_new''], sv_workspace_branch = None,
      sv_expected_version = Some 5\<rparr>"

definition submission_db :: review_db where
  "submission_db = sample_db [sample_review R_IN_PROGRESS] [sample_finding F_IN_PROGRESS] [sample_claim\<lparr>vf_id := ''claim_1''\<rparr>]
     [sample_artefact ''art_new'' None]"

lemma submission_served:
  "map_sum (\<lambda>_. ()) (\<lambda>(v, f, _). fd_status f)
     (fst (submitVerification sample_scope ''fin_1'' sample_submission agent submission_db)) = Inr F_FIXED_UNVERIFIED"
  by (simp add: sample_submission_def submission_db_def sample_defs service_eval finding_eval claim_eval domain_eval
      Collect_conv_if)

theorem submission_supersedes_current_witness:
  "length (filter (\<lambda>w. vf_status w = Superseded)
     (d_verifications (snd (submitVerification sample_scope ''fin_1'' sample_submission agent submission_db)))) = 1"
proof -
  let ?r = "submitVerification sample_scope ''fin_1'' sample_submission agent submission_db"
  obtain v f b where r: "?r = (Inr (v, f, b), snd ?r)"
    using submission_served by (elim fst_Inr_status) auto
  have "vf_status v = Submitted"
    using submission_supersedes_current [OF r] by (auto simp: filter_eq_Cons_iff)
  then show ?thesis
    using submission_supersedes_current [OF r]
    by (simp add: submission_db_def sample_db_def sample_claim_def sample_scope_def update_where_def claim_in_def in_tenant_def)
qed

end
