(* ===== verification/Review_Audit.thy ===== *)
theory Review_Audit
  imports Review_Decisions
begin

text \<open>
  The audit of the review service: which refused requests leave an event behind, and where the
  service departs from what its comments promise.
\<close>

section \<open>Refused transitions\<close>

lemma recordDenial_logs:
  assumes "log_ok db" "fst (newId ''evt_'' db) \<notin> e_id ` set (es_events db)"
    and "\<not> carries_secret 0 (JObject (dn_payload d))" "\<not> carries_secret 0 (JObject (dn_correlation d))"
  shows "\<exists>ev. es_events (recordDenial sc actor (Some d) (Refused e) db) = es_events db @ [ev] \<and>
    e_type ev = dn_type d \<and> e_actor ev = actor \<and> e_project_id ev = Some (sc_project_id sc) \<and>
    e_payload ev = pruneUndefined (dn_payload d @ [(''code'', JString (error_code_name (err_code e)))]) \<and>
    same_tables (recordDenial sc actor (Some d) (Refused e) db) db"
proof -
  let ?i = "scoped_event sc actor (dn_type d) (dn_correlation d)
    (dn_payload d @ [(''code'', JString (error_code_name (err_code e)))])"
  have "\<not> carries_secret 0 (JObject (ai_payload ?i))"
    using assms(3) by (simp add: scoped_event_def payload_members_ok)
  then obtain a where a: "appendEvent ?i db = Inr (a, appended ?i db)"
    using appendEvent_total [OF assms(1,2), of ?i] assms(4) by (auto simp: scoped_event_def)
  then have "recordDenial sc actor (Some d) (Refused e) db = appended ?i db"
    by (simp add: recordDenial_def)
  then show ?thesis
    using same_tables_appendEvent [OF a] by (auto simp: appended_events event_of_def scoped_event_def)
qed

lemma denials_carry_no_secret:
  "\<not> carries_secret 0 (JObject (dn_payload (finding_denial c fid s)))"
  "\<not> carries_secret 0 (JObject (dn_correlation (finding_denial c fid s)))"
  "\<not> carries_secret 0 (JObject (dn_payload (review_denial rid from to)))"
  "\<not> carries_secret 0 (JObject (dn_correlation (review_denial rid from to)))"
  by (simp_all add: finding_denial_def review_denial_def payload_members_ok)

lemma transition_checks_denied:
  assumes "\<not> mayActorMoveFinding (act_type actor) (fd_status current) (next_finding_status input current)"
    and "next_finding_status input current \<noteq> fd_status current"
  shows "\<exists>e. transition_checks sc fid input actor current db =
    Inl (Some (finding_denial current fid (next_finding_status input current)), Refused e)"
proof -
  let ?n = "next_finding_status input current"
  consider e where "assertActorMayDispose (act_type actor) (fd_source current) ?n = Inl e"
    | e where "assertActorMayDispose (act_type actor) (fd_source current) ?n = ok"
        "assertFindingTransition (fd_status current) ?n = Inl e"
    | e where "assertActorMayDispose (act_type actor) (fd_source current) ?n = ok"
        "assertFindingTransition (fd_status current) ?n = ok"
        "assertActorMayMoveFinding (act_type actor) (fd_source current) (fd_status current) ?n = Inl e"
    using assms assertActorMayMoveFinding_ok
    by (metis unit_result_cases)
  then show ?thesis by cases (simp_all add: transition_checks_def Let_def denying_def)
qed

text \<open>a refused move of a finding is on record. When a caller asks, from the current version,
  for a status the table does not let it move the finding to, the request is refused with an API
  error, nothing is changed but the log, and the log gains exactly one event of the caller's
  project: the denial, in the caller's name, with the status the finding has, the status
  requested and the error code.\<close>

theorem refused_move_is_audited:
  assumes "List.find (finding_in sc fid) (d_findings db) = Some current"
    and "fd_version current = uf_expected_version input"
    and "uf_status input = Some requested" "requested \<noteq> fd_status current"
    and "\<not> mayActorMoveFinding (act_type actor) (fd_status current) requested"
    and "log_ok db" "fst (newId ''evt_'' db) \<notin> e_id ` set (es_events db)"
  shows "\<exists>e ev db'. updateFinding sc fid input actor db = (Inl (Refused e), db') \<and> same_tables db' db \<and>
    es_events db' = es_events db @ [ev] \<and> e_type ev = ''finding.status_change_denied'' \<and> e_actor ev = actor \<and>
    e_project_id ev = Some (sc_project_id sc) \<and>
    e_payload ev = [(''finding_id'', JString fid), (''review_id'', JString (fd_review_id current)),
      (''from'', JString (finding_status_name (fd_status current))),
      (''requested'', JString (finding_status_name requested)),
      (''source'', JString (finding_source_name (fd_source current))),
      (''code'', JString (error_code_name (err_code e)))]"
proof -
  have next_: "next_finding_status input current = requested"
    by (simp add: next_finding_status_def assms(3) or_else_def)
  obtain e where e: "transition_checks sc fid input actor current db =
      Inl (Some (finding_denial current fid requested), Refused e)"
    using transition_checks_denied [of actor current input sc fid db] assms(4,5) by (auto simp: next_)
  have "updateFinding_checks sc fid input actor db = Inl (Some (finding_denial current fid requested), Refused e)"
    using assms(1,2,4) e
    by (simp add: updateFinding_checks_def lockFinding_def denying_def assertExpectedVersion_def refuse_if_def next_ Let_def)
  then have "updateFinding sc fid input actor db =
      (Inl (Refused e), recordDenial sc actor (Some (finding_denial current fid requested)) (Refused e) db)"
    by (simp add: updateFinding_def updateFinding_tx_def)
  then show ?thesis
    using recordDenial_logs [OF assms(6,7) denials_carry_no_secret(1,2) [of current fid requested], of sc actor e]
    by (auto simp: finding_denial_def pruneUndefined_def)
qed

theorem refused_move_is_audited_witness:
  "length (es_events (snd (updateFinding sample_scope ''fin_1'' (finding_to_status 5 F_RESOLVED None None None) agent
     (sample_db [sample_review R_IN_PROGRESS] [sample_finding F_IN_PROGRESS] [] [])))) = 1"
  using refused_move_is_audited [of sample_scope "''fin_1''"
      "sample_db [sample_review R_IN_PROGRESS] [sample_finding F_IN_PROGRESS] [] []"
      "sample_finding F_IN_PROGRESS" "finding_to_status 5 F_RESOLVED None None None" F_RESOLVED agent]
  by (auto simp: sample_defs finding_in_def in_tenant_def finding_to_status_def mayActorMoveFinding_iff finding_rows_def
      log_ok_def stream_events_def stream_position_def)

section \<open>Where the service departs from its comments\<close>

text \<open>a refused change of a closed review is not on record. A request about a review that may
  no longer change is refused before the service arms the audit event, so the database is left
  exactly as it was, log included, whoever asked and whatever status was asked for.\<close>

theorem closed_review_refusal_unaudited:
  assumes "List.find (review_in sc rid) (d_reviews db) = Some current"
    and "rv_version current = ur_expected_version input"
    and "assertReviewMutable (rv_status current) (ur_status input) (review_fields input) = Inl e"
  shows "updateReview sc rid input actor db = (Inl (Refused e), db)"
  using assms
  by (simp add: updateReview_def updateReview_tx_def updateReview_checks_def lockReview_def denying_def
      assertExpectedVersion_def refuse_if_def translateSlugConflict_def recordDenial_def)

theorem closed_review_refusal_unaudited_witness:
  "es_events (snd (acceptReview sample_scope ''rev_1'' (sample_transition 3 None) agent
     (sample_db [sample_review R_CANCELLED] [] [] []))) = []"
  unfolding acceptReview_def
  by (subst closed_review_refusal_unaudited [where current = "sample_review R_CANCELLED"])
    (auto simp: sample_defs review_in_def in_tenant_def sample_transition_def to_status_def review_fields_def
      assertReviewMutable_def isImmutableReviewStatus_iff closing_def)

text \<open>archiving an accepted review erases its acceptance. The archived review no longer says
  who accepted it or when, counts as reopened once more, and the log says between the change of
  status and the archiving that the review was reopened.\<close>

theorem archiving_reopens:
  assumes "archiveReview sc rid input actor db = (Inr review, db')"
    and "List.find (review_in sc rid) (d_reviews db) = Some current" "rv_status current = R_ACCEPTED"
  shows "rv_status review = R_ARCHIVED \<and> rv_accepted_by review = None \<and> rv_accepted_at review = None \<and>
    rv_reopen_count review = rv_reopen_count current + 1 \<and>
    (\<exists>new. es_events db' = es_events db @ new \<and>
       map e_type new = [''review.status_changed'', ''review.reopened'', ''review.archived''])"
proof -
  let ?i = "to_status input R_ARCHIVED"
  have next_: "next_review_status ?i r = R_ARCHIVED" for r by (simp add: next_review_status_def to_status_def)
  obtain c counts db1 where
    checks: "updateReview_checks sc rid ?i actor db = Inr (c, counts)"
    and review: "review = updated_review ?i actor (es_now db) c"
    and db1: "db1 = db\<lparr>d_reviews := update_where (review_in sc rid) (updated_review ?i actor (es_now db)) (d_reviews db)\<rparr>"
    and app: "appendEvents (updateReview_events sc rid ?i actor c review counts) db1 = Inr db'"
    by (rule updateReview_tx_Inr [OF updateReview_Inr [OF assms(1) [unfolded archiveReview_def]]])
  have c: "c = current" "counts = None"
    using updateReview_checks_Inr(1) [OF checks] checks assms(2)
    by (auto simp: updateReview_checks_def Let_def next_ result_simps split: if_splits)
  have "map ai_type (updateReview_events sc rid ?i actor c review counts) =
      [''review.status_changed'', ''review.reopened'', ''review.archived'']"
    using assms(3) by (simp add: updateReview_events_def Let_def review next_ c scoped_event_def) (simp add: to_status_def)
  then show ?thesis
    using appendEvents_types [OF app] assms(3)
    by (auto simp: review next_ c db1) (simp_all add: updated_review_def Let_def next_)
qed

theorem archiving_reopens_witness:
  "\<exists>review db'. archiveReview sample_scope ''rev_1'' (sample_transition 3 None) human
     (sample_db [sample_review R_ACCEPTED] [] [] []) = (Inr review, db') \<and> rv_reopen_count review = 1"
proof -
  let ?db = "sample_db [sample_review R_ACCEPTED] [] [] []"
  let ?r = "archiveReview sample_scope ''rev_1'' (sample_transition 3 None) human ?db"
  have "map_sum (\<lambda>_. ()) rv_status (fst ?r) = Inr R_ARCHIVED"
    by (simp add: sample_defs service_eval review_eval sample_transition_def domain_eval)
  then obtain review where r: "?r = (Inr review, snd ?r)" by (rule fst_Inr_status)
  have "List.find (review_in sample_scope ''rev_1'') (d_reviews ?db) = Some (sample_review R_ACCEPTED)"
    by (simp add: sample_defs review_in_def in_tenant_def)
  then show ?thesis using archiving_reopens [OF r] r by (fastforce simp: sample_review_def)
qed

text \<open>the after screenshot of a claim can be the picture of the defect itself. When the last
  screenshot submitted is the one the finding was captured with, the submission is recorded with
  no artefact in the role of the after screenshot.\<close>

theorem original_as_after_screenshot:
  assumes "after_artefact evidence = Some (fd_screenshot_artefact_id finding)"
  shows "list_all (\<lambda>a. va_role a \<noteq> After) (evidence_rows finding vid evidence)"
  using assms by (auto simp: evidence_rows_def evidence_role_def list_all_iff split: if_splits)

theorem original_as_after_screenshot_witness:
  "list_all (\<lambda>a. va_role a \<noteq> After)
     (evidence_rows (sample_finding F_IN_PROGRESS) ''ver_2'' [(''art_log'', ''console_log''), (''art_before'', ''screenshot'')])"
  by (rule original_as_after_screenshot) (simp add: after_artefact_def sample_finding_def)

text \<open>a deleted artefact is still evidence. The read of a claim's evidence accepts an artefact
  of the project whose upload completed whether or not it was deleted since, where the read of a
  finding's screenshot refuses it as not found.\<close>

theorem deleted_artefact_is_evidence:
  "requireOwnedEvidence sample_scope [''art_new''] (Some ''fin_1'')
     (sample_db [] [] [] [sample_artefact ''art_new'' (Some t)]) = Inr [(''art_new'', ''screenshot'')] \<and>
   requireAvailableArtefact sample_scope ''art_new''
     (sample_db [] [] [] [sample_artefact ''art_new'' (Some t)]) = Inl (Refused (notFound ''The screenshot artefact''))"
  by (simp add: sample_defs service_eval claim_eval requireAvailableArtefact_def)

end
