(* ===== verification/Review_Listing.thy ===== *)
theory Review_Listing
  imports Finding_Service
begin

text \<open>
  The listings of the review service (\<open>apps/server/src/modules/reviews/service.ts\<close>): keyset
  pages of reviews, findings and comments, and the literal search. A cursor is the creation
  time in milliseconds and the identifier of the last row of the previous page; its time
  travels as ISO text, which denotes exactly that number.
\<close>

section \<open>Literal patterns\<close>

definition replaceAll :: "char \<Rightarrow> string \<Rightarrow> string \<Rightarrow> string" where
  "replaceAll c r s = concat (map (\<lambda>x. if x = c then r else [x]) s)"

definition likeLiteral :: "string \<Rightarrow> string" where
  "likeLiteral value =
     replaceAll CHR ''_'' [CHR 0x5C, CHR ''_'']
       (replaceAll CHR ''%'' [CHR 0x5C, CHR ''%'']
         (replaceAll CHR 0x5C [CHR 0x5C, CHR 0x5C] value))"

text \<open>
  PostgreSQL's \<open>LIKE\<close>: a percent sign matches any text, an underscore any one character, and a
  backslash makes the next character literal.
\<close>

function like :: "string \<Rightarrow> string \<Rightarrow> bool" where
  "like [] s \<longleftrightarrow> s = []"
| "like (c # p) s \<longleftrightarrow>
     (if c = CHR ''%'' then like p s \<or> (case s of [] \<Rightarrow> False | x # s' \<Rightarrow> like (c # p) s')
      else if c = CHR ''_'' then (case s of [] \<Rightarrow> False | x # s' \<Rightarrow> like p s')
      else if c = CHR 0x5C
      then (case p of [] \<Rightarrow> False
            | d # p' \<Rightarrow> (case s of [] \<Rightarrow> False | x # s' \<Rightarrow> x = d \<and> like p' s'))
      else (case s of [] \<Rightarrow> False | x # s' \<Rightarrow> x = c \<and> like p s'))"
  by pat_completeness auto
termination by (relation "measure (\<lambda>(p, s). length p + length s)") auto

definition ilike :: "string \<Rightarrow> string \<Rightarrow> bool" where
  "ilike s pattern = like (lower pattern) (lower s)"

definition ilike_opt :: "string option \<Rightarrow> string \<Rightarrow> bool" where
  "ilike_opt s pattern = (case s of None \<Rightarrow> False | Some t \<Rightarrow> ilike t pattern)"

definition contains_pattern :: "string \<Rightarrow> string" where
  "contains_pattern t = ''%'' @ likeLiteral t @ ''%''"

section \<open>Reviews\<close>

record review_list_filter =
  lf_statuses :: "review_status list option"
  lf_assigned_agent_session_id :: "string option"
  lf_slug_prefix :: "string option"
  lf_updated_since :: "nat option"
  lf_text :: "string option"
  lf_branch :: "string option"
  lf_commit_prefix :: "string option"
  lf_severities :: "string list option"
  lf_assigned_user_id :: "string option"
  lf_created_since :: "nat option"
  lf_created_until :: "nat option"

definition absent_or :: "'a option \<Rightarrow> ('a \<Rightarrow> bool) \<Rightarrow> bool" where
  "absent_or x p = (case x of None \<Rightarrow> True | Some v \<Rightarrow> p v)"

definition finding_text_matches :: "review_db \<Rightarrow> review_row \<Rightarrow> string \<Rightarrow> bool" where
  "finding_text_matches db r pattern =
     list_ex (\<lambda>f. fd_review_id f = rv_id r \<and>
       (ilike (fd_title f) pattern \<or> ilike_opt (fd_description f) pattern)) (d_findings db)"

definition review_text_matches :: "review_db \<Rightarrow> review_row \<Rightarrow> string \<Rightarrow> bool" where
  "review_text_matches db r pattern \<longleftrightarrow>
     ilike (rv_title r) pattern \<or> ilike (rv_slug r) pattern \<or>
     ilike_opt (rv_description r) pattern \<or> finding_text_matches db r pattern"

definition review_listed :: "scope \<Rightarrow> review_list_filter \<Rightarrow> review_db \<Rightarrow> review_row \<Rightarrow> bool" where
  "review_listed sc flt db r \<longleftrightarrow>
     in_tenant sc (rv_organisation_id r) (rv_project_id r) \<and>
     absent_or (lf_statuses flt) (\<lambda>ss. rv_status r \<in> set ss) \<and>
     absent_or (lf_assigned_agent_session_id flt) (\<lambda>a. rv_assigned_agent_session_id r = Some a) \<and>
     absent_or (lf_slug_prefix flt) (\<lambda>p. like (p @ ''%'') (rv_slug r)) \<and>
     absent_or (lf_updated_since flt) (\<lambda>t. rv_updated_at r \<ge> t) \<and>
     absent_or (lf_text flt) (\<lambda>t. review_text_matches db r (contains_pattern t)) \<and>
     absent_or (lf_branch flt) (\<lambda>b. rv_captured_branch r = b) \<and>
     absent_or (lf_commit_prefix flt) (\<lambda>p. like (likeLiteral p @ ''%'') (rv_captured_commit r)) \<and>
     absent_or (lf_severities flt) (\<lambda>ss. list_ex (\<lambda>f. fd_review_id f = rv_id r \<and>
        fd_severity f \<in> set ss) (d_findings db)) \<and>
     absent_or (lf_assigned_user_id flt) (\<lambda>u. rv_assigned_user_id r = Some u) \<and>
     absent_or (lf_created_since flt) (\<lambda>t. rv_created_at r \<ge> t) \<and>
     absent_or (lf_created_until flt) (\<lambda>t. rv_created_at r \<le> t)"

definition review_key :: "review_row \<Rightarrow> nat \<times> string" where
  "review_key r = page_key (rv_created_at r) (rv_id r)"

definition listReviewsPage ::
  "scope \<Rightarrow> nat \<Rightarrow> (nat \<times> string) option \<Rightarrow> review_list_filter \<Rightarrow> review_db \<Rightarrow>
     review_row list \<times> (nat \<times> string) option" where
  "listReviewsPage sc limit after flt db =
     keyset_page_desc review_key limit after (filter (review_listed sc flt db) (d_reviews db))"

definition no_filter :: review_list_filter where
  "no_filter =
     \<lparr>lf_statuses = None, lf_assigned_agent_session_id = None, lf_slug_prefix = None,
      lf_updated_since = None, lf_text = None, lf_branch = None, lf_commit_prefix = None,
      lf_severities = None, lf_assigned_user_id = None, lf_created_since = None,
      lf_created_until = None\<rparr>"

definition listReviews :: "scope \<Rightarrow> nat option \<Rightarrow> review_db \<Rightarrow> review_row list" where
  "listReviews sc limit db =
     fst (listReviewsPage sc (clamp 1 200 (or_else limit 50)) None no_filter db)"

definition searchReviews ::
  "scope \<Rightarrow> string \<Rightarrow> nat option \<Rightarrow> review_db \<Rightarrow> (review_row \<times> string list) list" where
  "searchReviews sc query limit db =
     (let pattern = contains_pattern query;
          rows = take (clamp 1 25 (or_else limit 10))
            (rev (sort_key (\<lambda>r. (rv_updated_at r, rv_id r))
              (filter (\<lambda>r. in_tenant sc (rv_organisation_id r) (rv_project_id r) \<and>
                 review_text_matches db r pattern) (d_reviews db))))
      in map (\<lambda>r.
           (let matched =
              (if ilike (rv_title r) pattern then [''title''] else []) @
              (if ilike (rv_slug r) pattern then [''slug''] else []) @
              (if ilike_opt (rv_description r) pattern then [''description''] else []) @
              (if finding_text_matches db r pattern then [''finding''] else [])
            in (r, if matched = [] then [''title''] else matched))) rows)"

section \<open>Findings and comments\<close>

definition finding_key :: "finding_row \<Rightarrow> nat \<times> string" where
  "finding_key f = page_key (fd_created_at f) (fd_id f)"

definition listFindingsPage ::
  "scope \<Rightarrow> string \<Rightarrow> nat \<Rightarrow> (nat \<times> string) option \<Rightarrow> review_db \<Rightarrow>
     store_failure + (finding_row list \<times> (nat \<times> string) option)" where
  "listFindingsPage sc rid limit after db =
     r_bind (getReview sc rid db) (\<lambda>_.
       Inr (keyset_page finding_key (clamp 1 50 limit) after
         (filter (\<lambda>f. fd_review_id f = rid \<and>
            in_tenant sc (fd_organisation_id f) (fd_project_id f)) (d_findings db))))"

definition comment_key :: "comment_row \<Rightarrow> nat \<times> string" where
  "comment_key c = page_key (cm_created_at c) (cm_id c)"

definition listComments ::
  "scope \<Rightarrow> string \<Rightarrow> nat option \<Rightarrow> review_db \<Rightarrow> store_failure + comment_row list" where
  "listComments sc fid limit db =
     r_bind (getFinding sc fid db) (\<lambda>_.
       Inr (take (clamp 1 20 (or_else limit 20)) (sort_key (\<lambda>c. (cm_created_at c, cm_id c))
         (filter (\<lambda>c. cm_finding_id c = Some fid \<and>
            in_tenant sc (cm_organisation_id c) (cm_project_id c) \<and> cm_superseded_at c = None)
            (d_comments db)))))"

definition comment_target :: "scope \<Rightarrow> string \<Rightarrow> string option \<Rightarrow> comment_row \<Rightarrow> bool" where
  "comment_target sc rid fid c \<longleftrightarrow>
     in_tenant sc (cm_organisation_id c) (cm_project_id c) \<and> cm_review_id c = rid \<and>
     cm_finding_id c = fid"

definition listCommentsPage ::
  "scope \<Rightarrow> string \<Rightarrow> string option \<Rightarrow> nat option \<Rightarrow> (nat \<times> string) option \<Rightarrow> review_db \<Rightarrow>
     comment_row list \<times> (nat \<times> string) option" where
  "listCommentsPage sc rid fid limit after db =
     keyset_page comment_key (clamp 1 50 (or_else limit 20)) after
       (filter (\<lambda>c. comment_target sc rid fid c \<and> cm_superseded_at c = None) (d_comments db))"

definition listCommentsFor ::
  "scope \<Rightarrow> string \<Rightarrow> string option \<Rightarrow> nat option \<Rightarrow> bool \<Rightarrow> review_db \<Rightarrow> comment_row list" where
  "listCommentsFor sc rid fid limit allRevisions db =
     take (clamp 1 200 (or_else limit 50)) (sort_key (\<lambda>c. (cm_created_at c, cm_id c))
       (filter (\<lambda>c. comment_target sc rid fid c \<and> (allRevisions \<or> cm_superseded_at c = None))
         (d_comments db)))"

end
