(* ===== verification/Listing_Properties.thy ===== *)
theory Listing_Properties
  imports Review_Listing Review_Samples
begin

text \<open>
  Properties of the listings: following the cursors of a page visits every row once and in order,
  and the text a caller searches for is matched literally.
\<close>

section \<open>Following cursors\<close>

text \<open>A client that asks for the next page as long as it is given a cursor.\<close>

fun follow :: "nat \<Rightarrow> ('k option \<Rightarrow> 'r list \<times> 'k option) \<Rightarrow> 'k option \<Rightarrow> 'r list" where
  "follow 0 next_page c = []"
| "follow (Suc m) next_page c =
     (case next_page c of
        (items, None) \<Rightarrow> items
      | (items, Some c') \<Rightarrow> items @ follow m next_page (Some c'))"

lemma follow_descending: "follow m (\<lambda>c. keyset_page_desc key n c rows) c = descending.walk key m n c rows"
  by (induction m arbitrary: c) (auto split: prod.split option.split)

lemma follow_ascending: "follow m (\<lambda>c. keyset_page key n c rows) c = ascending.walk key m n c rows"
  by (induction m arbitrary: c) (auto split: prod.split option.split)

lemma distinct_page_key: "distinct (map ident rows) \<Longrightarrow> distinct (map (\<lambda>r. page_key (created r) (ident r)) rows)"
  by (auto simp: distinct_map inj_on_def page_key_def)

lemma follow_ascending_all:
  assumes "distinct (map ident rows)" "0 < n" "length (filter p rows) < m"
  shows "follow m (\<lambda>c. keyset_page (\<lambda>r. page_key (created r) (ident r)) n c (filter p rows)) None =
    sort_key (\<lambda>r. page_key (created r) (ident r)) (filter p rows)"
proof -
  let ?key = "\<lambda>r. page_key (created r) (ident r)"
  have "distinct (map ?key (filter p rows))"
    using assms(1) by (intro distinct_page_key) (simp add: distinct_map_filter)
  then show ?thesis
    unfolding follow_ascending using assms(2,3)
    by (intro ascending.walk_from [where seen = "[]"] ascending.arrange_past) (auto simp: filter_sort)
qed

lemma follow_descending_all:
  assumes "distinct (map ident rows)" "0 < n" "length (filter p rows) < m"
  shows "follow m (\<lambda>c. keyset_page_desc (\<lambda>r. page_key (created r) (ident r)) n c (filter p rows)) None =
    rev (sort_key (\<lambda>r. page_key (created r) (ident r)) (filter p rows))"
proof -
  let ?key = "\<lambda>r. page_key (created r) (ident r)"
  have "distinct (map ?key (filter p rows))"
    using assms(1) by (intro distinct_page_key) (simp add: distinct_map_filter)
  then show ?thesis
    unfolding follow_descending using assms(2,3)
    by (intro descending.walk_from [where seen = "[]"] descending.arrange_past) (auto simp: filter_sort)
qed

lemma le_filter: "length rows < m \<Longrightarrow> length (filter p rows) < m"
  using length_filter_le [of p rows] by linarith

text \<open>C38: paging loses and repeats nothing. A caller that follows the cursors of the review list
  receives every review its filter selects, newest first, each exactly once; one that follows the
  cursors of a review's comments or of its inbox receives every current comment, and every
  item addressed to it in the statuses it asks for, oldest first, each exactly once.\<close>

theorem paging_visits_all:
  assumes "distinct (map rv_id (d_reviews db))" "distinct (map cm_id (d_comments db))"
    and "distinct (map in_id (d_inbox db))" "0 < limit"
    and "length (d_reviews db) < m" "length (d_comments db) < m" "length (d_inbox db) < m"
  shows "follow m (\<lambda>c. listReviewsPage sc limit c flt db) None =
      rev (sort_key review_key (filter (review_listed sc flt db) (d_reviews db))) \<and>
    follow m (\<lambda>c. listCommentsPage sc rid fid (Some limit) c db) None =
      sort_key comment_key (filter (\<lambda>c. comment_target sc rid fid c \<and> cm_superseded_at c = None) (d_comments db)) \<and>
    follow m (\<lambda>c. let (items, cursor, n) = inbox_list sc (Some statuses) (Some (rtype, who)) (Some limit) c db
                  in (items, cursor)) None =
      sort_key inbox_key (inbox_rows sc statuses (Some rtype) who db)"
proof (intro conjI)
  show "follow m (\<lambda>c. listReviewsPage sc limit c flt db) None =
      rev (sort_key review_key (filter (review_listed sc flt db) (d_reviews db)))"
    using follow_descending_all [OF assms(1,4) le_filter [OF assms(5)], where created = rv_created_at]
    by (simp add: listReviewsPage_def review_key_def [abs_def])
  show "follow m (\<lambda>c. listCommentsPage sc rid fid (Some limit) c db) None =
      sort_key comment_key (filter (\<lambda>c. comment_target sc rid fid c \<and> cm_superseded_at c = None) (d_comments db))"
    using follow_ascending_all [OF assms(2) _ le_filter [OF assms(6)], where created = cm_created_at and n = "clamp 1 50 limit"] assms(4)
    by (simp add: listCommentsPage_def comment_key_def [abs_def] or_else_def clamp_def)
  show "follow m (\<lambda>c. let (items, cursor, n) = inbox_list sc (Some statuses) (Some (rtype, who)) (Some limit) c db
                  in (items, cursor)) None =
      sort_key inbox_key (inbox_rows sc statuses (Some rtype) who db)"
    using follow_ascending_all [OF assms(3) _ le_filter [OF assms(7)], where created = in_created_at and n = "clamp 1 50 limit"] assms(4)
    by (simp add: inbox_list_def inbox_key_def [abs_def] inbox_rows_def clamp_def Let_def split_beta)
qed

theorem paging_visits_all_witness:
  "follow 2 (\<lambda>c. listReviewsPage sample_scope 1 c no_filter (sample_db [sample_review R_READY] [] [] [])) None =
     [sample_review R_READY]"
  using paging_visits_all [of "sample_db [sample_review R_READY] [] [] []" 1 2 sample_scope no_filter]
  by (simp add: sample_db_def review_listed_def no_filter_def absent_or_def in_tenant_def sample_scope_def sample_review_def
      del: follow.simps)

section \<open>Searching for literal text\<close>

definition like_escape :: "char \<Rightarrow> string" where
  "like_escape c = (if c \<in> {CHR ''%'', CHR ''_'', CHR 0x5C} then [CHR 0x5C, c] else [c])"

lemma likeLiteral_escape: "likeLiteral t = concat (map like_escape t)"
  by (induction t) (auto simp: likeLiteral_def replaceAll_def like_escape_def)

lemma like_percent: "like (CHR ''%'' # p) s \<longleftrightarrow> (\<exists>a b. s = a @ b \<and> like p b)"
proof (induction s)
  case (Cons x s)
  have "like (CHR ''%'' # p) (x # s) \<longleftrightarrow> like p (x # s) \<or> like (CHR ''%'' # p) s" by simp
  also have "\<dots> \<longleftrightarrow> (\<exists>a b. x # s = a @ b \<and> like p b)"
    unfolding Cons by (metis Cons_eq_append_conv)
  finally show ?case .
qed simp

lemma like_escape_literal: "like (concat (map like_escape t) @ p) s \<longleftrightarrow> (\<exists>s'. s = t @ s' \<and> like p s')"
proof (induction t arbitrary: s)
  case (Cons c t)
  then show ?case by (cases s) (auto simp: like_escape_def)
qed simp

lemma contains_pattern_iff: "like (contains_pattern t) s \<longleftrightarrow> (\<exists>a b. s = a @ t @ b)"
proof -
  have "like (contains_pattern t) s \<longleftrightarrow> (\<exists>a b. s = a @ b \<and> (\<exists>s'. b = t @ s' \<and> like ''%'' s'))"
    by (simp add: contains_pattern_def likeLiteral_escape like_percent like_escape_literal del: like.simps)
  then show ?thesis by (auto simp: like_percent simp del: like.simps) auto
qed

lemma lower_char_special:
  assumes "s \<in> {CHR ''%'', CHR ''_'', CHR 0x5C}"
  shows "lower_char c = s \<longleftrightarrow> c = s"
proof (cases "CHR ''A'' \<le> c \<and> c \<le> CHR ''Z''")
  case True
  then have r: "of_char c \<in> {65..90::nat}" by (auto simp: less_eq_char_def)
  then have "of_char (lower_char c) = (of_char c + 32 :: nat)"
    using True by (simp add: lower_char_def)
  then have "of_char (lower_char c) \<in> {97..122::nat}" using r by auto
  moreover have "of_char s \<notin> {65..90::nat}" "of_char s \<notin> {97..122::nat}" using assms by auto
  ultimately show ?thesis using r by metis
qed (auto simp: lower_char_def)

lemma lower_contains_pattern: "lower (contains_pattern t) = contains_pattern (lower t)"
proof -
  note special = lower_char_special [of "CHR ''%''", simplified] lower_char_special [of "CHR ''_''", simplified]
    lower_char_special [of "CHR 0x5C", simplified]
  have kept: "lower_char s = s" if "s \<in> {CHR ''%'', CHR ''_'', CHR 0x5C}" for s
    using that special by auto
  have "map lower_char (like_escape c) = like_escape (lower_char c)" for c
  proof (cases "c \<in> {CHR ''%'', CHR ''_'', CHR 0x5C}")
    case True
    then show ?thesis using kept [of c] kept [of "CHR 0x5C"] by (simp add: like_escape_def)
  next
    case False
    then show ?thesis using special [of c] by (simp add: like_escape_def)
  qed
  then have "map lower_char (concat (map like_escape t)) = concat (map like_escape (map lower_char t))"
    by (induction t) simp_all
  moreover have "lower_char CHR ''%'' = CHR ''%''" by (rule kept) simp
  ultimately show ?thesis by (simp add: contains_pattern_def likeLiteral_escape lower_def)
qed

text \<open>a search finds the text itself. Every review a search returns is in the caller's project
  and contains the query, up to letter case, in its title, slug or description or in the title or
  description of one of its findings, and the places the answer names are exactly those that
  contain it. No character of the query acts as a wildcard.\<close>

theorem search_is_literal:
  assumes "(r, matched) \<in> set (searchReviews sc query limit db)"
  shows "in_tenant sc (rv_organisation_id r) (rv_project_id r) \<and> matched \<noteq> [] \<and>
    (''title'' \<in> set matched) = (\<exists>a b. lower (rv_title r) = a @ lower query @ b) \<and>
    (''slug'' \<in> set matched) = (\<exists>a b. lower (rv_slug r) = a @ lower query @ b) \<and>
    (''description'' \<in> set matched) = (\<exists>d a b. rv_description r = Some d \<and> lower d = a @ lower query @ b) \<and>
    (''finding'' \<in> set matched) = (\<exists>f \<in> set (d_findings db). fd_review_id f = rv_id r \<and>
       ((\<exists>a b. lower (fd_title f) = a @ lower query @ b) \<or>
        (\<exists>d a b. fd_description f = Some d \<and> lower d = a @ lower query @ b)))"
proof -
  let ?p = "contains_pattern query"
  have il: "ilike s ?p \<longleftrightarrow> (\<exists>a b. lower s = a @ lower query @ b)" for s
    by (simp add: ilike_def lower_contains_pattern contains_pattern_iff)
  have ilo: "ilike_opt d ?p \<longleftrightarrow> (\<exists>t a b. d = Some t \<and> lower t = a @ lower query @ b)" for d
    by (simp add: ilike_opt_def il split: option.split)
  have fm: "finding_text_matches db r ?p \<longleftrightarrow> (\<exists>f \<in> set (d_findings db). fd_review_id f = rv_id r \<and>
       ((\<exists>a b. lower (fd_title f) = a @ lower query @ b) \<or>
        (\<exists>d a b. fd_description f = Some d \<and> lower d = a @ lower query @ b)))"
    by (simp add: finding_text_matches_def list_ex_iff il ilo)
  have hit: "in_tenant sc (rv_organisation_id r) (rv_project_id r)" "review_text_matches db r ?p"
    and matched: "matched = (let m = (if ilike (rv_title r) ?p then [''title''] else []) @
        (if ilike (rv_slug r) ?p then [''slug''] else []) @
        (if ilike_opt (rv_description r) ?p then [''description''] else []) @
        (if finding_text_matches db r ?p then [''finding''] else []) in if m = [] then [''title''] else m)"
    using assms by (auto simp: searchReviews_def Let_def dest!: in_set_takeD)
  have "matched \<noteq> []" "(''title'' \<in> set matched) = ilike (rv_title r) ?p" "(''slug'' \<in> set matched) = ilike (rv_slug r) ?p"
    "(''description'' \<in> set matched) = ilike_opt (rv_description r) ?p"
    "(''finding'' \<in> set matched) = finding_text_matches db r ?p"
    using hit(2) by (auto simp: matched Let_def review_text_matches_def)
  then show ?thesis using hit(1) il ilo fm by simp
qed

lemma sample_search:
  "ilike ''Home page'' (contains_pattern ''PAGE'')" "\<not> ilike ''home'' (contains_pattern ''PAGE'')"
  by code_simp+

theorem search_is_literal_witness:
  "\<exists>a b. lower (rv_title (sample_review R_READY)) = a @ lower ''PAGE'' @ b"
proof -
  have "(sample_review R_READY, [''title'']) \<in>
      set (searchReviews sample_scope ''PAGE'' None (sample_db [sample_review R_READY] [] [] []))"
    by (simp add: searchReviews_def Let_def sample_db_def sample_review_def sample_scope_def in_tenant_def clamp_def
        review_text_matches_def finding_text_matches_def sample_search ilike_opt_def or_else_def)
  then show ?thesis using search_is_literal by fastforce
qed

end
