(* ===== verification/Domain_Properties.thy ===== *)
theory Domain_Properties
  imports Events
begin

text \<open>
  Properties of the rules the services share: the labels offered to an agent, the completion
  gate and its aggregate, the rendering of failures and the event log.
\<close>

section \<open>The labels an agent is offered\<close>

text \<open>what an agent is told it may do is what it may do. The transition labels the service
  offers an agent for a finding are exactly the labels of the moves the transition table lets an
  agent make from the finding's status, and none of them leads to a final disposition.\<close>

theorem agent_labels_exact:
  "set (agentTransitionsFrom f) =
     {finding_status_name f @ '':'' @ finding_status_name t | t. mayActorMoveFinding agent_session f t} \<and>
   {t. mayActorMoveFinding agent_session f t \<and> isFinalDisposition t} = {}"
proof -
  have labels: "set (agentTransitionsFrom f) =
      set (transitionsAvailableTo agent_session (finding_status_name f) (map (typed_row finding_status_name) finding_rows))"
    by (simp add: agentTransitionsFrom_def FINDING_TRANSITIONS_rows)
  have may: "mayActorMoveFinding agent_session f t \<longleftrightarrow> row_permits (map (typed_row finding_status_name) finding_rows)
      (actor_type_name agent_session) (finding_status_name f) (finding_status_name t)" for t
    by (simp add: mayActorMoveFinding_def FINDING_TRANSITIONS_rows)
  have "set (agentTransitionsFrom f) =
      {finding_status_name f @ '':'' @ finding_status_name t | t. mayActorMoveFinding agent_session f t}"
    unfolding labels may using finding_machine.available_iff finding_machine.available_sound by blast
  then show ?thesis using final_disposition_human_only by blast
qed

section \<open>The completion gate\<close>

lemma push_unseen_remdups:
  "push_unseen (set missing, missing) items =
     (set missing \<union> set items, missing @ rev (remdups (rev (filter (\<lambda>i. i \<notin> set missing) items))))"
proof (induction items rule: rev_induct)
  case Nil
  then show ?case by simp
next
  case (snoc item items)
  have split: "push_unseen acc (xs @ ys) = push_unseen (push_unseen acc xs) ys" for acc xs ys
    by (induction acc xs rule: push_unseen.induct) auto
  show ?case by (auto simp: split snoc)
qed

lemma aggregateMissing_concat:
  "foldl (\<lambda>acc state. push_unseen acc (st_missing state)) (set missing, missing) states =
     push_unseen (set missing, missing) (concat (map st_missing states))"
proof (induction states arbitrary: missing)
  case (Cons s states)
  let ?m = "missing @ rev (remdups (rev (filter (\<lambda>i. i \<notin> set missing) (st_missing s))))"
  have "push_unseen (set missing, missing) (st_missing s) = (set ?m, ?m)"
    by (auto simp: push_unseen_remdups)
  moreover have "push_unseen (set missing, missing) (xs @ ys) = push_unseen (push_unseen (set missing, missing) xs) ys" for xs ys
    by (induction "(set missing, missing)" xs arbitrary: missing rule: push_unseen.induct) (auto simp: insert_absorb)
  ultimately show ?case using Cons [of ?m] by simp
qed simp

text \<open>the gate over several findings is their worst. The aggregate result of a list of
  findings is the most severe of their results, completed when there is none, and the aggregate
  list of what is missing is what the findings miss, each item once, in the order in which it is
  first missed.\<close>

theorem aggregate_is_worst:
  "aggregateCompletionResult states = Max (insert Completed (st_result ` set states)) \<and>
   aggregateMissing states = rev (remdups (rev (concat (map st_missing states))))"
proof
  have "st_result s \<le> aggregateCompletionResult states" if "s \<in> set states" for s
    using that by (rule aggregate_upper)
  moreover have "Completed \<le> r" for r by (cases r) (simp_all add: severity_order)
  moreover have "aggregateCompletionResult states \<in> insert Completed (st_result ` set states)"
    using aggregate_attained [of states] by (metis image_eqI insertCI)
  ultimately show "aggregateCompletionResult states = Max (insert Completed (st_result ` set states))"
    by (intro Max_eqI [symmetric]) auto
  show "aggregateMissing states = rev (remdups (rev (concat (map st_missing states))))"
    using aggregateMissing_concat [of "[]" states] push_unseen_remdups [of "[]"] by (simp add: aggregateMissing_def)
qed

text \<open>a finding counts as complete exactly when a human has disposed of it. For a project's
  own requirements, the result of a finding is completed or completed with warnings exactly when
  its status is a final disposition; it is without warnings exactly when it is resolved by a
  claim that checked accessibility, reproduced the defect first and has its branch corroborated;
  and it waits for a human exactly when it is handed over or blocked.\<close>

theorem completion_needs_disposition:
  "(st_result (findingCompletionState i status settings req evidence n) \<in> {Completed, Completed_with_warnings} \<longleftrightarrow>
      isFinalDisposition status) \<and>
   (st_result (findingCompletionState i status settings req evidence n) = Completed \<longleftrightarrow>
      status = F_RESOLVED \<and> (\<exists>e. evidence = Some e \<and> accessibility_checked (ev_checks e) = Some True \<and>
        reproduced_before (ev_checks e) \<and> ev_branch_corroborated e)) \<and>
   (st_result (findingCompletionState i status settings req evidence n) = Blocked_pending_review \<longleftrightarrow>
      status \<in> {F_AWAITING_HUMAN_REVIEW, F_BLOCKED})"
  by (cases evidence; cases status) (auto simp: findingCompletionState_def Let_def isFinalDisposition_iff)

section \<open>Rendering of failures\<close>

text \<open>an error answer discloses nothing internal. Every failure is answered with the request's
  own identifier; a thrown value that is not an API error is answered with one of two codes and
  no details, so two of them with the same status are answered alike; and the diagnostic of an
  API error goes to the log and never into the answer. The status is a client or server error
  whenever the failure does not bring its own.\<close>

theorem errors_disclose_nothing:
  "rep_request_id (snd (renderError f q)) = q \<and>
   snd (renderError (Api e) q) = snd (renderError (Api (e\<lparr>err_diagnostic := d\<rparr>)) q) \<and>
   rep_details (snd (renderError (Thrown v s) q)) = None \<and>
   rep_code (snd (renderError (Thrown v s) q)) \<in> {VALIDATION_FAILED, INTERNAL_ERROR} \<and>
   rep_status (snd (renderError (Thrown v s) q)) \<in> {400..<600} \<and>
   rep_status (snd (renderError (Api (ApiError c ds None d)) q)) \<in> {400..<600}"
proof (intro conjI)
  show "rep_request_id (snd (renderError f q)) = q"
    by (cases "(f, q)" rule: renderError.cases) (auto simp: apiError_def split: option.split)
  show "rep_status (snd (renderError (Api (ApiError c ds None d)) q)) \<in> {400..<600}"
    using STATUS_BY_CODE_range [of c] by (simp add: apiError_def ApiError_def)
  show "rep_status (snd (renderError (Thrown v s) q)) \<in> {400..<600}"
    by (auto simp: apiError_def split: option.split)
qed (auto simp: apiError_def split: option.split)

section \<open>The event log\<close>

text \<open>an append always succeeds unless its payload carries a credential or a random identifier
  repeats. On a sound log it then adds exactly one event, the next of its stream, with the
  actor and payload given, enqueues it, and leaves the log sound and every other stream and table
  as they were.\<close>

theorem append_extends_stream:
  assumes "log_ok s" "fst (newId ''evt_'' s) \<notin> e_id ` set (es_events s)"
    and "\<not> carries_secret 0 (JObject (ai_payload i))" "\<not> carries_secret 0 (JObject (ai_correlation i))"
  shows "\<exists>a s' ev. appendEvent i s = Inr (a, s') \<and> log_ok s' \<and> es_events s' = es_events s @ [ev] \<and>
    e_stream_key ev = input_stream i \<and> e_sequence ev = stream_position s (input_stream i) + 1 \<and>
    e_type ev = ai_type i \<and> e_actor ev = ai_actor i \<and> e_payload ev = pruneUndefined (ai_payload i) \<and>
    (\<forall>k. k = input_stream i \<or> stream_position s' k = stream_position s k) \<and>
    event_store.more s' = event_store.more s"
proof -
  obtain a where a: "appendEvent i s = Inr (a, appended i s)"
    using appendEvent_total [OF assms] by blast
  moreover have "log_ok (appended i s)" using log_ok_appendEvent [OF assms(1) a] .
  ultimately show ?thesis by (auto simp: appended_events event_of_def stream_position_appended)
qed

definition empty_log :: "unit event_store_scheme" where
  "empty_log = \<lparr>es_now = 1, es_random = (\<lambda>n. replicate 16 (of_nat n)), es_drawn = 0, es_streams = Map.empty,
     es_events = [], es_outbox = []\<rparr>"

definition ping :: append_input where
  "ping = \<lparr>ai_type = ''review.named'', ai_organisation_id = ''org_1'', ai_project_id = Some ''prj_1'',
     ai_actor = \<lparr>act_type = system, act_id = None, act_display = None\<rparr>, ai_correlation = [],
     ai_payload = [], ai_occurred_at = None, ai_enqueue_outbox = True\<rparr>"

theorem append_extends_stream_witness: "\<exists>a s'. appendEvent ping empty_log = Inr (a, s') \<and> length (es_events s') = 1"
proof -
  have "log_ok empty_log" by (simp add: log_ok_def empty_log_def stream_events_def stream_position_def)
  then show ?thesis
    using append_extends_stream [of empty_log ping] by (auto simp: empty_log_def ping_def)
qed

end
