(* ===== verification/Event_Stream.thy ===== *)
theory Event_Stream
  imports Events
begin

text \<open>
  Delivery of the event log: the outbox dispatcher (\<open>apps/server/src/events/outbox.ts\<close>), the
  reader and the bus (\<open>events/stream.ts\<close>) and the subscriber of the project event stream
  (\<open>events/routes.ts\<close>). Timers are left out; an \<open>await\<close> is a point where other steps may happen.
\<close>

section \<open>Reading the log\<close>

record stream_state =
  currentSequence :: nat
  earliestAvailableSequence :: nat

definition position :: "string \<Rightarrow> 'a event_store_scheme \<Rightarrow> stream_state" where
  "position streamKey s =
     \<lparr>currentSequence = stream_position s streamKey,
      earliestAvailableSequence =
        (case stream_events s streamKey of
           [] \<Rightarrow> 0
         | es \<Rightarrow> Min (e_sequence ` set es))\<rparr>"

definition replay :: "string \<Rightarrow> nat \<Rightarrow> nat \<Rightarrow> 'a event_store_scheme \<Rightarrow> event_row list" where
  "replay streamKey afterSequence limit s =
     take limit (sort_key e_sequence (filter (\<lambda>e. e_sequence e > afterSequence) (stream_events s streamKey)))"

definition byIds :: "string list \<Rightarrow> 'a event_store_scheme \<Rightarrow> event_row list" where
  "byIds ids s = sort_key (\<lambda>e. (e_stream_key e, e_sequence e)) (filter (\<lambda>e. e_id e \<in> set ids) (es_events s))"

section \<open>The dispatcher\<close>

definition BATCH_SIZE :: nat where
  "BATCH_SIZE = 200"

text \<open>The outbox rows not yet dispatched, in the order they are claimed.\<close>

definition pending_rows :: "'a event_store_scheme \<Rightarrow> outbox_row list" where
  "pending_rows s =
     sort_key (\<lambda>r. (ob_stream_key r, ob_sequence r)) (filter (\<lambda>r. ob_dispatched_at r = None) (es_outbox s))"

text \<open>
  The claim: up to a batch of pending rows that no other dispatcher has locked, stamped as
  dispatched in the transaction that reads them.
\<close>

definition claim_rows :: "string set \<Rightarrow> 'a event_store_scheme \<Rightarrow> string list \<times> 'a event_store_scheme" where
  "claim_rows locked s =
     (let ids = map ob_event_id (take BATCH_SIZE (filter (\<lambda>r. ob_event_id r \<notin> locked) (pending_rows s))) in
      (ids, s\<lparr>es_outbox := map (\<lambda>r. if ob_event_id r \<in> set ids
                then r\<lparr>ob_dispatched_at := Some (es_now s), ob_attempts := ob_attempts r + 1\<rparr> else r)
              (es_outbox s)\<rparr>))"

text \<open>One pass: the events to hand to the bus, the number of rows claimed, the store after it.\<close>

definition claimAndDeliver ::
  "'a event_store_scheme \<Rightarrow> event_row list \<times> nat \<times> 'a event_store_scheme" where
  "claimAndDeliver s =
     (let (claimed, s') = claim_rows {} s in (byIds claimed s', length claimed, s'))"

lemma filter_stamped:
  "filter (\<lambda>r. ob_dispatched_at r = None)
     (map (\<lambda>r. if p r then r\<lparr>ob_dispatched_at := Some t, ob_attempts := ob_attempts r + 1\<rparr> else r) rows) =
   filter (\<lambda>r. \<not> p r) (filter (\<lambda>r. ob_dispatched_at r = None) rows)"
  by (induction rows) auto

lemma claim_rows_outbox:
  "es_outbox (snd (claim_rows locked s)) = map (\<lambda>r. if ob_event_id r \<in> set (fst (claim_rows locked s))
     then r\<lparr>ob_dispatched_at := Some (es_now s), ob_attempts := ob_attempts r + 1\<rparr> else r) (es_outbox s)"
  by (simp add: claim_rows_def Let_def)

lemma claim_rows_events [simp]: "es_events (snd (claim_rows locked s)) = es_events s"
  by (simp add: claim_rows_def Let_def)

lemma pending_after_claim:
  "pending_rows (snd (claim_rows locked s)) =
     filter (\<lambda>r. ob_event_id r \<notin> set (fst (claim_rows locked s))) (pending_rows s)"
  unfolding pending_rows_def filter_sort claim_rows_outbox filter_stamped ..

lemma claimed_pending: "set (fst (claim_rows locked s)) \<subseteq> ob_event_id ` set (pending_rows s)"
  by (auto simp: claim_rows_def Let_def dest: in_set_takeD)

lemma pending_decreases:
  assumes "fst (claim_rows locked s) \<noteq> []"
  shows "length (pending_rows (snd (claim_rows locked s))) < length (pending_rows s)"
proof -
  obtain r where "r \<in> set (pending_rows s)" "ob_event_id r \<in> set (fst (claim_rows locked s))"
    using assms claimed_pending [of locked s] by (cases "fst (claim_rows locked s)") auto
  then show ?thesis unfolding pending_after_claim by (intro length_filter_less) auto
qed

text \<open>
  The passes of one drain. The list says for each pass whether another caller asked for one more
  while it ran; after its end nobody asks.
\<close>

function drain :: "bool list \<Rightarrow> 'a event_store_scheme \<Rightarrow> event_row list \<times> 'a event_store_scheme" where
  "drain nudges s =
     (let (events, delivered, s') = claimAndDeliver s in
      if delivered = BATCH_SIZE \<or> (nudges \<noteq> [] \<and> hd nudges)
      then (let (more_events, s'') = drain (tl nudges) s' in (events @ more_events, s''))
      else (events, s'))"
  by pat_completeness auto
termination
proof (relation "measure (\<lambda>(nudges, s). length nudges + length (pending_rows s))", simp, clarsimp simp only: in_measure)
  fix nudges s events delivered and s' :: "'a event_store_scheme"
  assume pass: "(events, delivered, s') = claimAndDeliver s"
    and more: "delivered = BATCH_SIZE \<or> nudges \<noteq> [] \<and> hd nudges"
  have s': "s' = snd (claim_rows {} s)" and d: "delivered = length (fst (claim_rows {} s))"
    using pass by (auto simp: claimAndDeliver_def split: prod.splits)
  have "length (pending_rows s') \<le> length (pending_rows s)"
    unfolding s' pending_after_claim by (rule length_filter_le)
  moreover have "length (pending_rows s') < length (pending_rows s)" if "delivered = BATCH_SIZE"
    using that d pending_decreases [of "{}" s] by (cases "fst (claim_rows {} s)") (simp_all add: s' BATCH_SIZE_def)
  ultimately show "length (tl nudges) + length (pending_rows s') < length nudges + length (pending_rows s)"
    using more by (cases nudges) auto
qed

text \<open>Dispatched rows are dropped a minute after their dispatch. Times are in microseconds.\<close>

definition RETENTION_MS :: nat where
  "RETENTION_MS = 60000"

definition prune :: "'a event_store_scheme \<Rightarrow> 'a event_store_scheme" where
  "prune s = s\<lparr>es_outbox := filter (\<lambda>r. case ob_dispatched_at r of
       None \<Rightarrow> True | Some t \<Rightarrow> \<not> t + RETENTION_MS * 1000 < es_now s) (es_outbox s)\<rparr>"

section \<open>The outbox invariant\<close>

text \<open>Every row stands for one event of the log, under its stream and sequence.\<close>

definition row_name :: "outbox_row \<Rightarrow> string \<times> string \<times> nat" where
  "row_name r = (ob_event_id r, ob_stream_key r, ob_sequence r)"

definition event_name :: "event_row \<Rightarrow> string \<times> string \<times> nat" where
  "event_name e = (e_id e, e_stream_key e, e_sequence e)"

definition outbox_ok :: "'a event_store_scheme \<Rightarrow> bool" where
  "outbox_ok s \<longleftrightarrow>
     distinct (map ob_event_id (es_outbox s)) \<and>
     set (map row_name (es_outbox s)) \<subseteq> set (map event_name (es_events s))"

lemma outbox_ok_appendEvent:
  assumes "outbox_ok s" "appendEvent i s = Inr (a, s')"
  shows "outbox_ok s'"
  using assms(1) unfolding appendEvent_Inr [OF assms(2)]
  by (auto simp: outbox_ok_def appended_def Let_def enqueue_def row_name_def event_name_def)

lemma outbox_ok_claim:
  assumes "outbox_ok s"
  shows "outbox_ok (snd (claim_rows locked s))"
proof -
  have "map f (es_outbox (snd (claim_rows locked s))) = map f (es_outbox s)"
    if "\<And>r t n. f (r\<lparr>ob_dispatched_at := t, ob_attempts := n\<rparr>) = f r" for f :: "outbox_row \<Rightarrow> 'x"
    unfolding claim_rows_outbox using that by (induction "es_outbox s") auto
  note this [of ob_event_id, simplified] this [of row_name, unfolded row_name_def, simplified, folded row_name_def]
  then show ?thesis using assms by (simp add: outbox_ok_def)
qed

lemma outbox_ok_prune: "outbox_ok s \<Longrightarrow> outbox_ok (prune s)"
  by (auto simp: outbox_ok_def prune_def distinct_map_filter)

lemma log_keys_inj:
  assumes "log_ok s" "e \<in> set (es_events s)" "f \<in> set (es_events s)"
    and "(e_stream_key e, e_sequence e) = (e_stream_key f, e_sequence f)"
  shows "e = f"
proof -
  have "map e_sequence (stream_events s (e_stream_key e)) = [1..<stream_position s (e_stream_key e) + 1]"
    using assms(1) unfolding log_ok_def by blast
  then have "distinct (map e_sequence (stream_events s (e_stream_key e)))" by (metis distinct_upt)
  moreover have "e \<in> set (stream_events s (e_stream_key e))" "f \<in> set (stream_events s (e_stream_key e))"
    using assms(2-4) by (auto simp: stream_events_def)
  ultimately show ?thesis using assms(4) by (auto simp: distinct_map dest: inj_onD)
qed

section \<open>What a drain delivers\<close>

lemma pending_names:
  assumes "outbox_ok s"
  shows "distinct (map ob_event_id (pending_rows s))"
    and "r \<in> set (pending_rows s) \<Longrightarrow> \<exists>e \<in> set (es_events s). event_name e = row_name r"
proof -
  have "distinct (map ob_event_id (filter (\<lambda>r. ob_dispatched_at r = None) (es_outbox s)))"
    using assms by (simp add: outbox_ok_def distinct_map_filter)
  then show "distinct (map ob_event_id (pending_rows s))"
    unfolding pending_rows_def by (simp add: distinct_map)
  assume "r \<in> set (pending_rows s)"
  then have "row_name r \<in> set (map row_name (es_outbox s))" by (simp add: pending_rows_def)
  then have "row_name r \<in> event_name ` set (es_events s)" using assms unfolding outbox_ok_def by auto
  then show "\<exists>e \<in> set (es_events s). event_name e = row_name r" by auto
qed

text \<open>Reading events back by the identifiers of sorted rows gives them in the order of the rows.\<close>

lemma byIds_rows:
  assumes ok: "log_ok s" and names: "\<And>r. r \<in> set rows \<Longrightarrow> \<exists>e \<in> set (es_events s). event_name e = row_name r"
    and ids: "distinct (map ob_event_id rows)" and sorted: "sorted (map (\<lambda>r. (ob_stream_key r, ob_sequence r)) rows)"
  shows "map event_name (byIds (map ob_event_id rows) s) = map row_name rows"
proof -
  let ?ekey = "\<lambda>e. (e_stream_key e, e_sequence e)" and ?rkey = "\<lambda>r. (ob_stream_key r, ob_sequence r)"
  let ?E = "byIds (map ob_event_id rows) s"
  have dist: "distinct (map e_id (es_events s))" using ok by (simp add: log_ok_def)
  have E: "set ?E = {e \<in> set (es_events s). e_id e \<in> ob_event_id ` set rows}" by (auto simp: byIds_def)
  have named: "\<exists>r \<in> set rows. event_name e = row_name r" if "e \<in> set ?E" for e
  proof -
    obtain r where r: "r \<in> set rows" "e_id e = ob_event_id r" "e \<in> set (es_events s)" using \<open>e \<in> set ?E\<close> E by auto
    then obtain e' where "e' \<in> set (es_events s)" "event_name e' = row_name r" using names by blast
    moreover have "e_id e' = e_id e" using calculation r(2) by (simp add: event_name_def row_name_def)
    then have "e' = e" using dist calculation(1) r(3) by (auto simp: distinct_map dest: inj_onD)
    ultimately show ?thesis using r(1) by blast
  qed
  have covered: "\<exists>e \<in> set ?E. event_name e = row_name r" if "r \<in> set rows" for r
    using names [OF that] that E by (force simp: event_name_def row_name_def)
  have inj: "inj_on ?ekey (set ?E)"
    using log_keys_inj [OF ok] E by (intro inj_onI) auto
  have "set (map ?ekey ?E) = set (map ?rkey rows)"
    using named covered by (force simp: event_name_def row_name_def)
  moreover have "distinct ?E"
    using dist by (auto simp: byIds_def distinct_map)
  then have "distinct (map ?ekey ?E)" using inj by (simp add: distinct_map)
  moreover have "inj_on ?rkey (set rows)"
  proof (rule inj_onI)
    fix r r' assume *: "r \<in> set rows" "r' \<in> set rows" "?rkey r = ?rkey r'"
    obtain e e' where "e \<in> set ?E" "e' \<in> set ?E" "event_name e = row_name r" "event_name e' = row_name r'"
      using covered *(1,2) by metis
    then have "ob_event_id r = ob_event_id r'"
      using inj_onD [OF inj, of e e'] *(3) by (auto simp: event_name_def row_name_def)
    then show "r = r'" using ids * by (auto simp: distinct_map dest: inj_onD)
  qed
  then have "distinct (map ?rkey rows)" using ids by (simp add: distinct_map)
  moreover have "sorted (map ?ekey ?E)" by (simp add: byIds_def)
  ultimately have keys: "map ?ekey ?E = map ?rkey rows"
    using sorted by (intro sorted_distinct_set_unique) auto
  have len: "length ?E = length rows" using arg_cong [OF keys, of length] by simp
  show ?thesis
  proof (rule nth_equalityI)
    show "length (map event_name ?E) = length (map row_name rows)" using len by simp
    fix i assume "i < length (map event_name ?E)"
    then have i: "i < length ?E" "i < length rows" using len by simp_all
    obtain e where e: "e \<in> set ?E" "event_name e = row_name (rows ! i)" using covered i(2) nth_mem by blast
    have "?ekey (?E ! i) = ?rkey (rows ! i)" using arg_cong [OF keys, of "\<lambda>l. l ! i"] i by simp
    then have "?E ! i = e" using e inj i(1) by (intro inj_onD [OF inj]) (auto simp: event_name_def row_name_def)
    then show "map event_name ?E ! i = map row_name rows ! i" using e(2) i by simp
  qed
qed

lemma claim_takes_first:
  "fst (claim_rows {} s) = map ob_event_id (take BATCH_SIZE (pending_rows s))"
  by (simp add: claim_rows_def Let_def)

lemma pending_dropped:
  assumes "outbox_ok s"
  shows "pending_rows (snd (claim_rows {} s)) = drop BATCH_SIZE (pending_rows s)"
proof -
  let ?p = "pending_rows s"
  have "distinct (map ob_event_id (take BATCH_SIZE ?p @ drop BATCH_SIZE ?p))"
    using pending_names(1) [OF assms] by simp
  then have "filter (\<lambda>r. ob_event_id r \<notin> ob_event_id ` set (take BATCH_SIZE ?p)) (take BATCH_SIZE ?p @ drop BATCH_SIZE ?p)
      = drop BATCH_SIZE ?p"
    unfolding map_append distinct_append filter_append by (auto simp: filter_empty_conv filter_id_conv)
  then show ?thesis unfolding pending_after_claim claim_takes_first by simp
qed

lemma log_ok_claim: "log_ok (snd (claim_rows locked s)) = log_ok s"
  by (simp add: log_ok_def claim_rows_def Let_def stream_events_def stream_position_def)

lemma pass_delivers:
  assumes "log_ok s" "outbox_ok s" "claimAndDeliver s = (events, n, s')"
  shows "map event_name events = map row_name (take BATCH_SIZE (pending_rows s))"
    and "n = length (take BATCH_SIZE (pending_rows s))" and "pending_rows s' = drop BATCH_SIZE (pending_rows s)"
    and "log_ok s'" "outbox_ok s'" "es_events s' = es_events s"
proof -
  have s': "s' = snd (claim_rows {} s)" and ev: "events = byIds (map ob_event_id (take BATCH_SIZE (pending_rows s))) s'"
    and n: "n = length (take BATCH_SIZE (pending_rows s))"
    using assms(3) claim_takes_first [of s] by (auto simp: claimAndDeliver_def split: prod.splits)
  have same: "byIds ids s' = byIds ids s" for ids by (simp add: byIds_def s')
  show "n = length (take BATCH_SIZE (pending_rows s))" by (rule n)
  show "pending_rows s' = drop BATCH_SIZE (pending_rows s)" using pending_dropped [OF assms(2)] by (simp add: s')
  show "log_ok s'" "outbox_ok s'" "es_events s' = es_events s"
    using assms outbox_ok_claim by (simp_all add: s' log_ok_claim)
  show "map event_name events = map row_name (take BATCH_SIZE (pending_rows s))"
    unfolding ev same
  proof (rule byIds_rows [OF assms(1)])
    show "\<exists>e \<in> set (es_events s). event_name e = row_name r" if "r \<in> set (take BATCH_SIZE (pending_rows s))" for r
      using pending_names(2) [OF assms(2)] that by (blast dest: in_set_takeD)
    show "distinct (map ob_event_id (take BATCH_SIZE (pending_rows s)))"
      using pending_names(1) [OF assms(2)] by (simp flip: take_map)
    show "sorted (map (\<lambda>r. (ob_stream_key r, ob_sequence r)) (take BATCH_SIZE (pending_rows s)))"
      unfolding take_map [symmetric] pending_rows_def by (intro sorted_wrt_take sorted_sort_key)
  qed
qed

declare drain.simps [simp del]

lemma drain_pass:
  assumes "claimAndDeliver s = (first, n, s1)"
  shows "n = BATCH_SIZE \<or> (nudges \<noteq> [] \<and> hd nudges) \<Longrightarrow>
      drain nudges s = (first @ fst (drain (tl nudges) s1), snd (drain (tl nudges) s1))"
    and "\<not> (n = BATCH_SIZE \<or> (nudges \<noteq> [] \<and> hd nudges)) \<Longrightarrow> drain nudges s = (first, s1)"
  using assms by (auto simp: drain.simps [of nudges s] split_beta)

lemma drain_delivers:
  assumes "log_ok s" "outbox_ok s"
  shows "map event_name (fst (drain nudges s)) = map row_name (pending_rows s) \<and>
    pending_rows (snd (drain nudges s)) = [] \<and> es_events (snd (drain nudges s)) = es_events s \<and>
    log_ok (snd (drain nudges s)) \<and> outbox_ok (snd (drain nudges s))"
  using assms
proof (induction nudges s rule: drain.induct)
  case (1 nudges s)
  obtain first n s1 where pass: "claimAndDeliver s = (first, n, s1)" using prod_cases3 by blast
  note p = pass_delivers [OF "1.prems" pass]
  show ?case
  proof (cases "n = BATCH_SIZE \<or> (nudges \<noteq> [] \<and> hd nudges)")
    case True
    have "map row_name (pending_rows s) =
        map row_name (take BATCH_SIZE (pending_rows s)) @ map row_name (drop BATCH_SIZE (pending_rows s))"
      by (metis append_take_drop_id map_append)
    then show ?thesis
      using "1.IH" [OF pass [symmetric] refl refl True p(4,5)] drain_pass(1) [OF pass True] p(1,3,6) by simp
  next
    case False
    moreover have "length (pending_rows s) \<le> BATCH_SIZE" using False p(2) by (auto simp: min_def split: if_splits)
    ultimately show ?thesis using p drain_pass(2) [OF pass False] by simp
  qed
qed

text \<open>C35: a drain delivers every pending event exactly once and in order, and ends. However many
  callers ask for another pass meanwhile, the events handed to the bus are those of the pending
  outbox rows, each once, ordered by stream and sequence; afterwards no row is pending, so a
  second drain delivers nothing. Batches do not show.\<close>

theorem drain_delivers_pending:
  assumes "log_ok s" "outbox_ok s"
  shows "map event_name (fst (drain nudges s)) = map row_name (pending_rows s) \<and>
    pending_rows (snd (drain nudges s)) = [] \<and> fst (drain later (snd (drain nudges s))) = []"
  using drain_delivers [OF assms] drain_delivers [of "snd (drain nudges s)" later] by simp

definition sample_event :: "nat \<Rightarrow> event_row" where
  "sample_event n =
     \<lparr>e_id = ''evt_'' @ replicate n CHR ''a'', e_schema_version = 1, e_stream_key = ''prj_1'', e_sequence = n,
      e_type = ''review.named'', e_occurred_at = 1, e_recorded_at = 1, e_organisation_id = ''org_1'',
      e_project_id = Some ''prj_1'', e_actor = \<lparr>act_type = system, act_id = None, act_display = None\<rparr>,
      e_correlation = [], e_payload = []\<rparr>"

definition sample_store :: "unit event_store_scheme" where
  "sample_store =
     \<lparr>es_now = 1, es_random = (\<lambda>n. []), es_drawn = 0, es_streams = [''prj_1'' \<mapsto> 2],
      es_events = [sample_event 1, sample_event 2],
      es_outbox = [\<lparr>ob_event_id = ''evt_a'', ob_stream_key = ''prj_1'', ob_sequence = 1,
                     ob_dispatched_at = None, ob_attempts = 0\<rparr>]\<rparr>"

lemma sample_store_ok: "log_ok sample_store" "outbox_ok sample_store"
  by (auto simp: log_ok_def outbox_ok_def sample_store_def sample_event_def stream_events_def stream_position_def
      row_name_def event_name_def upt_rec numeral_2_eq_2)

theorem drain_delivers_pending_witness: "map e_id (fst (drain [True] sample_store)) = [''evt_a'']"
proof -
  have "map event_name (fst (drain [True] sample_store)) = map row_name (pending_rows sample_store)"
    using drain_delivers_pending [OF sample_store_ok] by blast
  then have "map fst (map event_name (fst (drain [True] sample_store))) = map fst (map row_name (pending_rows sample_store))"
    by (rule arg_cong)
  then show ?thesis by (simp add: comp_def event_name_def row_name_def pending_rows_def sample_store_def)
qed

section \<open>The bus\<close>

text \<open>The listeners of each stream in the order they subscribed; a listener is a number.\<close>

type_synonym event_bus = "string \<rightharpoonup> nat list"

definition subscribe :: "string \<Rightarrow> nat \<Rightarrow> event_bus \<Rightarrow> event_bus" where
  "subscribe streamKey listener bus =
     (let listeners = (case bus streamKey of None \<Rightarrow> [] | Some ls \<Rightarrow> ls) in
      bus(streamKey \<mapsto> (if listener \<in> set listeners then listeners else listeners @ [listener])))"

definition unsubscribe :: "string \<Rightarrow> nat \<Rightarrow> event_bus \<Rightarrow> event_bus" where
  "unsubscribe streamKey listener bus =
     (case bus streamKey of
        None \<Rightarrow> bus
      | Some ls \<Rightarrow>
          (let current = removeAll listener ls in
           if current = [] then bus(streamKey := None) else bus(streamKey \<mapsto> current)))"

definition deliver :: "event_bus \<Rightarrow> event_row \<Rightarrow> nat list" where
  "deliver bus event =
     (case bus (case e_project_id event of Some p \<Rightarrow> p | None \<Rightarrow> e_organisation_id event) of
        None \<Rightarrow> [] | Some ls \<Rightarrow> ls)"

definition hasListeners :: "string \<Rightarrow> event_bus \<Rightarrow> bool" where
  "hasListeners streamKey bus = (case bus streamKey of None \<Rightarrow> False | Some ls \<Rightarrow> ls \<noteq> [])"

section \<open>The subscriber\<close>

definition MAX_REPLAY_EVENTS :: nat where
  "MAX_REPLAY_EVENTS = 1000"

definition MAX_LIVE_BUFFER :: nat where
  "MAX_LIVE_BUFFER = 2000"

datatype refresh_reason = Sequence_ahead_of_stream | Replay_window_exceeded | Replay_limit_exceeded

datatype stream_message =
    Stream_event event_row
  | Stream_subscribed string nat nat bool
  | Stream_refresh_required refresh_reason nat nat
  | Stream_error string bool

record subscriber =
  sub_stream :: string
  sub_open :: bool
  sub_attached :: bool
  sub_subscribed :: bool
  sub_buffer :: "event_row list option"
  sub_delivered :: nat
  sub_sent :: "stream_message list"

definition send :: "stream_message \<Rightarrow> subscriber \<Rightarrow> subscriber" where
  "send m sub = (if sub_open sub then sub\<lparr>sub_sent := sub_sent sub @ [m]\<rparr> else sub)"

definition sendEvent :: "event_row \<Rightarrow> subscriber \<Rightarrow> subscriber" where
  "sendEvent e sub = (send (Stream_event e) sub)\<lparr>sub_delivered := max (sub_delivered sub) (e_sequence e)\<rparr>"

text \<open>The subscriber's listener on the bus.\<close>

definition receive :: "event_row \<Rightarrow> subscriber \<Rightarrow> subscriber" where
  "receive e sub =
     (case sub_buffer sub of
        Some buffer \<Rightarrow>
          (if length buffer \<ge> MAX_LIVE_BUFFER then sub else sub\<lparr>sub_buffer := Some (buffer @ [e])\<rparr>)
      | None \<Rightarrow> if e_sequence e \<le> sub_delivered sub then sub else sendEvent e sub)"

text \<open>The end of an establishment: the buffer is drained and live delivery starts.\<close>

definition drain_buffer :: "subscriber \<Rightarrow> subscriber" where
  "drain_buffer sub =
     (let pending = (case sub_buffer sub of None \<Rightarrow> [] | Some b \<Rightarrow> b) in
      fold (\<lambda>e sub. if e_sequence e \<le> sub_delivered sub then sub else sendEvent e sub) pending
        (sub\<lparr>sub_buffer := None\<rparr>))"

text \<open>
  \<open>establish\<close> up to the next \<open>await\<close>, from the position it read. It returns whether it goes on to
  replay; otherwise it has run to its end. Sequences are natural numbers, so a gap below zero is
  written as no gap, which decides every test alike.
\<close>

definition establish :: "stream_state \<Rightarrow> nat \<Rightarrow> nat \<Rightarrow> subscriber \<Rightarrow> bool \<times> subscriber" where
  "establish pos lastSequence maxReplay sub =
     (let sub1 = sub\<lparr>sub_buffer := Some [], sub_attached := True\<rparr>;
          current = currentSequence pos; earliest = earliestAvailableSequence pos;
          gap = current - lastSequence;
          aheadOfStream = (lastSequence > current);
          belowWindow = (earliest > 0 \<and> lastSequence > 0 \<and> lastSequence < earliest - 1);
          overLimit = (gap > min maxReplay MAX_REPLAY_EVENTS);
          replaying = (\<not> aheadOfStream \<and> \<not> belowWindow \<and> \<not> overLimit \<and> gap > 0);
          sub2 = send (Stream_subscribed (sub_stream sub) current earliest replaying) sub1
      in if aheadOfStream \<or> belowWindow \<or> overLimit
         then (let reason = (if aheadOfStream then Sequence_ahead_of_stream
                  else if belowWindow then Replay_window_exceeded else Replay_limit_exceeded)
               in (False, drain_buffer
                    ((send (Stream_refresh_required reason current earliest) sub2)\<lparr>sub_delivered := current\<rparr>)))
         else if replaying then (True, sub2)
         else (False, drain_buffer (sub2\<lparr>sub_delivered := max (sub_delivered sub2) lastSequence\<rparr>)))"

text \<open>\<open>establish\<close> after the history has been read, or its read has failed.\<close>

definition replayed :: "event_row list option \<Rightarrow> subscriber \<Rightarrow> subscriber" where
  "replayed history sub =
     (case history of
        None \<Rightarrow> (send (Stream_error ''INTERNAL_ERROR'' True) sub)\<lparr>sub_open := False\<rparr>
      | Some events \<Rightarrow> drain_buffer (fold sendEvent events sub))"

text \<open>What a client's frame asks for, as the protocol decoder reports it.\<close>

datatype client_frame = Undecodable "string option" | Unexpected_message | Subscribe_from nat "nat option"

definition handleMessage :: "client_frame \<Rightarrow> subscriber \<Rightarrow> (nat \<times> nat) option \<times> subscriber" where
  "handleMessage m sub =
     (case m of
        Undecodable errorClass \<Rightarrow>
          (None, (send (Stream_error (case errorClass of None \<Rightarrow> ''VALIDATION_FAILED'' | Some c \<Rightarrow> c) False) sub)
             \<lparr>sub_open := False\<rparr>)
      | Unexpected_message \<Rightarrow>
          (None, (send (Stream_error ''UNSUPPORTED_CAPABILITY'' False) sub)\<lparr>sub_open := False\<rparr>)
      | Subscribe_from lastSequence maxReplay \<Rightarrow>
          (if sub_subscribed sub then (None, send (Stream_error ''UNSUPPORTED_CAPABILITY'' False) sub)
           else (Some (lastSequence, case maxReplay of None \<Rightarrow> MAX_REPLAY_EVENTS | Some n \<Rightarrow> n),
                 sub\<lparr>sub_subscribed := True\<rparr>)))"

section \<open>Opening the stream\<close>

record viewer_principal =
  vp_project_ids :: "string list option"
  vp_organisation_id :: "string option"

text \<open>A project as its identifier and its organisation.\<close>

definition authoriseUpgrade ::
  "string option \<Rightarrow> string list \<Rightarrow> viewer_principal \<Rightarrow> (string \<times> string) list \<Rightarrow> string \<Rightarrow>
     api_error + (string \<times> string)" where
  "authoriseUpgrade origin allowedOrigins viewer projects projectId =
     (if origin \<noteq> None \<and> the origin \<notin> set allowedOrigins
      then Inl (refusal AUTHORISATION_DENIED [])
      else case List.find (\<lambda>(i, _). i = projectId \<and>
               (case vp_project_ids viewer of None \<Rightarrow> True | Some ids \<Rightarrow> i \<in> set ids)) projects of
        None \<Rightarrow> Inl (notFound ''The project'')
      | Some (i, organisation) \<Rightarrow>
          (if vp_organisation_id viewer \<noteq> None \<and> vp_organisation_id viewer \<noteq> Some organisation
           then Inl (notFound ''The project'')
           else Inr (i, organisation)))"

end
