(* ===== verification/Stream_Handover.thy ===== *)
theory Stream_Handover
  imports Event_Stream
begin

text \<open>
  The handover of a subscriber from history to live delivery, and what the stream discloses.
\<close>

section \<open>Live delivery\<close>

text \<open>The events a subscriber was sent, in order.\<close>

definition sent_events :: "subscriber \<Rightarrow> event_row list" where
  "sent_events sub = concat (map (\<lambda>m. case m of Stream_event e \<Rightarrow> [e] | _ \<Rightarrow> []) (sub_sent sub))"

lemma sent_events_send [simp]:
  "sent_events (send (Stream_event e) sub) = (if sub_open sub then sent_events sub @ [e] else sent_events sub)"
  "sent_events (send (Stream_subscribed k c l r) sub) = sent_events sub"
  "sent_events (send (Stream_refresh_required x c l) sub) = sent_events sub"
  "sent_events (send (Stream_error code b) sub) = sent_events sub"
  by (simp_all add: send_def sent_events_def)

lemma sent_events_update [simp]:
  "sent_events (sub\<lparr>sub_delivered := n\<rparr>) = sent_events sub"
  "sent_events (sub\<lparr>sub_buffer := b\<rparr>) = sent_events sub"
  "sent_events (sub\<lparr>sub_attached := c\<rparr>) = sent_events sub"
  "sent_events (sub\<lparr>sub_buffer := b, sub_attached := c\<rparr>) = sent_events sub"
  by (simp_all add: sent_events_def)

lemma send_fields [simp]:
  "sub_open (send m sub) = sub_open sub" "sub_buffer (send m sub) = sub_buffer sub"
  "sub_delivered (send m sub) = sub_delivered sub"
  by (simp_all add: send_def)

lemma sendEvent_fields [simp]:
  "sub_open (sendEvent e sub) = sub_open sub" "sub_buffer (sendEvent e sub) = sub_buffer sub"
  "sub_delivered (sendEvent e sub) = max (sub_delivered sub) (e_sequence e)"
  "sent_events (sendEvent e sub) = (if sub_open sub then sent_events sub @ [e] else sent_events sub)"
  by (simp_all add: sendEvent_def)

text \<open>In live mode, events of increasing sequence are sent when they are above what was delivered.\<close>

definition live :: "event_row \<Rightarrow> subscriber \<Rightarrow> subscriber" where
  "live e sub = (if e_sequence e \<le> sub_delivered sub then sub else sendEvent e sub)"

lemma fold_live:
  assumes "sub_open sub" "sorted_wrt (<) (map e_sequence es)"
  shows "sent_events (fold live es sub) = sent_events sub @ filter (\<lambda>e. e_sequence e > sub_delivered sub) es \<and>
    sub_delivered (fold live es sub) = fold max (map e_sequence es) (sub_delivered sub) \<and>
    sub_open (fold live es sub) \<and> sub_buffer (fold live es sub) = sub_buffer sub"
  using assms
proof (induction es arbitrary: sub)
  case (Cons e es)
  show ?case
  proof (cases "e_sequence e \<le> sub_delivered sub")
    case True
    then show ?thesis using Cons by (simp add: live_def max_absorb1)
  next
    case False
    then have "filter (\<lambda>x. e_sequence x > e_sequence e) es = filter (\<lambda>x. e_sequence x > sub_delivered sub) es"
      using Cons.prems(2) by (intro filter_cong) auto
    then show ?thesis using False Cons.IH [of "sendEvent e sub"] Cons.prems
      by (simp add: live_def max_absorb2)
  qed
qed simp

lemma receive_live: "sub_buffer sub = None \<Longrightarrow> fold receive es sub = fold live es sub"
proof (induction es arbitrary: sub)
  case (Cons e es)
  then have "receive e sub = live e sub" "sub_buffer (live e sub) = None"
    by (simp_all add: receive_def live_def)
  then show ?case using Cons.IH by simp
qed simp

lemma drain_buffer_live:
  "drain_buffer sub = fold live (case sub_buffer sub of None \<Rightarrow> [] | Some b \<Rightarrow> b) (sub\<lparr>sub_buffer := None\<rparr>)"
  by (simp add: drain_buffer_def Let_def live_def [abs_def])

lemma receive_buffering:
  assumes "sub_buffer sub = Some b" "length b + length es \<le> MAX_LIVE_BUFFER"
  shows "fold receive es sub = sub\<lparr>sub_buffer := Some (b @ es)\<rparr>"
  using assms
proof (induction es arbitrary: sub b)
  case (Cons e es)
  then have "receive e sub = sub\<lparr>sub_buffer := Some (b @ [e])\<rparr>" by (simp add: receive_def)
  then show ?case using Cons.IH [of "sub\<lparr>sub_buffer := Some (b @ [e])\<rparr>" "b @ [e]"] Cons.prems by simp
qed simp

section \<open>Slices of a stream\<close>

declare upt_Suc [simp del]

text \<open>A stream numbered from one, as the log invariant has it.\<close>

definition numbered :: "event_row list \<Rightarrow> bool" where
  "numbered history \<longleftrightarrow> map e_sequence history = [1..<length history + 1]"

lemma numbered_slice:
  assumes "numbered history" "b \<le> length history"
  shows "map e_sequence (drop a (take b history)) = [a + 1..<b + 1]"
proof -
  have "map e_sequence (drop a (take b history)) = drop a (take b (map e_sequence history))"
    by (simp add: take_map drop_map)
  also have "\<dots> = [a + 1..<b + 1]"
    using assms by (simp add: numbered_def take_upt drop_upt)
  finally show ?thesis .
qed

lemma filter_upto_above:
  assumes "map f xs = [a + 1..<b + 1]"
  shows "filter (\<lambda>x. f x > n) xs = drop (n - a) xs"
proof -
  have seq: "f (xs ! i) = a + 1 + i" if "i < length xs" for i
    using assms that by (metis length_map length_upt nth_map nth_upt less_diff_conv add.commute)
  have "filter (\<lambda>x. f x > n) (take (n - a) xs) = []" "filter (\<lambda>x. f x > n) (drop (n - a) xs) = drop (n - a) xs"
    using seq by (force simp: filter_empty_conv filter_id_conv in_set_conv_nth)+
  then show ?thesis by (metis append_take_drop_id append_Nil filter_append)
qed

lemma fold_max_upto: "fold max [a + 1..<b + 1] n = (if a < b then max n b else n)"
  by (induction b) (auto simp: upt_Suc)

text \<open>A slice of the stream delivered live: what is above the mark is sent, and the mark moves up.\<close>

lemma live_slice:
  assumes "numbered history" "b \<le> length history" "sub_open sub"
  defines "n \<equiv> sub_delivered sub"
  shows "sent_events (fold live (drop a (take b history)) sub) = sent_events sub @ drop (max a n) (take b history)"
    and "sub_delivered (fold live (drop a (take b history)) sub) = (if a < b then max n b else n)"
    and "sub_open (fold live (drop a (take b history)) sub)"
    and "sub_buffer (fold live (drop a (take b history)) sub) = sub_buffer sub"
proof -
  note slice = numbered_slice [OF assms(1,2), of a]
  have "sorted_wrt (<) (map e_sequence (drop a (take b history)))" unfolding slice by simp
  note f = fold_live [OF assms(3) this]
  have "filter (\<lambda>e. e_sequence e > n) (drop a (take b history)) = drop (max a n) (take b history)"
    unfolding filter_upto_above [OF slice] by (simp add: max_def add.commute)
  then show "sent_events (fold live (drop a (take b history)) sub) = sent_events sub @ drop (max a n) (take b history)"
    using f by (simp add: n_def)
  show "sub_delivered (fold live (drop a (take b history)) sub) = (if a < b then max n b else n)"
    using f fold_max_upto [of a b n] by (simp add: slice n_def)
qed (use fold_live [OF assms(3), of "drop a (take b history)"] numbered_slice [OF assms(1,2), of a] in simp_all)




section \<open>The handover\<close>

lemma sendEvent_live:
  assumes "sorted_wrt (<) (map e_sequence es)" "\<And>e. e \<in> set es \<Longrightarrow> sub_delivered sub < e_sequence e"
  shows "fold sendEvent es sub = fold live es sub"
  using assms
proof (induction es arbitrary: sub)
  case (Cons e es)
  have "sub_delivered sub < e_sequence e" using Cons.prems(2) by simp
  then have "sendEvent e sub = live e sub" by (simp add: live_def)
  moreover have "sub_delivered (live e sub) < e_sequence x" if "x \<in> set es" for x
    using Cons.prems that by (auto simp: live_def)
  ultimately show ?case using Cons.IH [of "live e sub"] Cons.prems(1) by simp
qed simp

text \<open>A full buffer keeps the events it has and forgets the others, whatever is handed over next.\<close>

lemma receive_into_full:
  assumes "sub_buffer sub = Some b" "MAX_LIVE_BUFFER \<le> length b"
  shows "fold receive es sub = sub"
  using assms by (induction es) (simp_all add: receive_def)

lemma receive_buffered:
  assumes "sub_buffer sub = Some []"
  shows "fold receive es sub = sub\<lparr>sub_buffer := Some (take MAX_LIVE_BUFFER es)\<rparr>"
proof -
  let ?kept = "take MAX_LIVE_BUFFER es" and ?lost = "drop MAX_LIVE_BUFFER es"
  have "fold receive es sub = fold receive ?lost (fold receive ?kept sub)"
    by (metis append_take_drop_id comp_apply fold_append)
  also have "fold receive ?kept sub = sub\<lparr>sub_buffer := Some ?kept\<rparr>"
    using receive_buffering [OF assms, of ?kept] by simp
  also have "fold receive ?lost (sub\<lparr>sub_buffer := Some ?kept\<rparr>) = sub\<lparr>sub_buffer := Some ?kept\<rparr>"
    by (cases "MAX_LIVE_BUFFER \<le> length es") (simp_all add: receive_into_full [where b = ?kept])
  finally show ?thesis .
qed

lemma take_slice: "take n (drop a (take b xs)) = drop a (take (min b (a + n)) xs)"
  by (simp add: take_drop min.commute add.commute)

text \<open>
  The phases of a handover over slices of the stream: the replay sends what follows \<open>start\<close> up to \<open>r\<close>, the
  buffer holds what is between \<open>d1\<close> and \<open>d\<close>, and what is between \<open>d2\<close> and \<open>d3\<close> comes live.
\<close>

lemma handover_slices:
  assumes "numbered history" "sub_open sub" "sub_buffer sub = Some (drop d1 (take d history))"
    and "sub_delivered sub = 0" "sent_events sub = []"
    and "start < r" "r \<le> length history" "d1 \<le> d" "d \<le> d2" "d2 \<le> d3" "d3 \<le> length history"
    and "d1 = d \<longrightarrow> d2 = d"
  shows "sent_events (fold receive (drop d2 (take d3 history)) (replayed (Some (drop start (take r history))) sub)) =
    drop start (take r history) @ drop (max d1 r) (take d history) @ drop (max d2 r) (take d3 history)"
proof -
  have "map e_sequence (drop start (take r history)) = [start + 1..<r + 1]"
    using assms(1,7) by (rule numbered_slice)
  then have "sorted_wrt (<) (map e_sequence (drop start (take r history)))"
    "\<forall>n \<in> set (map e_sequence (drop start (take r history))). 0 < n"
    by (simp_all del: set_map)
  then have send: "fold sendEvent (drop start (take r history)) sub = fold live (drop start (take r history)) sub"
    using assms(4) by (intro sendEvent_live) auto
  let ?s2 = "fold live (drop start (take r history)) sub"
  note l2 = live_slice [OF assms(1,7,2), of start]
  have s2: "sub_delivered ?s2 = r" "sent_events ?s2 = drop start (take r history)"
    "sub_buffer ?s2 = Some (drop d1 (take d history))"
    using l2 assms(3-6) by simp_all
  let ?s3 = "fold live (drop d1 (take d history)) (?s2\<lparr>sub_buffer := None\<rparr>)"
  have s3: "replayed (Some (drop start (take r history))) sub = ?s3"
    by (simp add: replayed_def send drain_buffer_live s2(3))
  have d: "d \<le> length history" using assms(9-11) by simp
  have o2: "sub_open (?s2\<lparr>sub_buffer := None\<rparr>)" using l2(3) by simp
  note l3 = live_slice [OF assms(1) d o2, of d1, simplified subscriber.simps sent_events_update s2(1,2)]
  note l4 = live_slice [OF assms(1,11) l3(3), of d2]
  have "max d2 (sub_delivered ?s3) = max d2 r" using l3(2) s2(1) assms(8,9,12) by (auto simp: max_def)
  moreover have "sub_buffer ?s3 = None" using l3(4) by simp
  ultimately show ?thesis using l4(1) l3(1) s2(1) by (simp add: s3 receive_live)
qed


definition fresh_subscriber :: subscriber where
  "fresh_subscriber =
     \<lparr>sub_stream = ''prj_1'', sub_open = True, sub_attached = False, sub_subscribed = True,
      sub_buffer = None, sub_delivered = 0, sub_sent = []\<rparr>"

lemma fresh_subscriber_simps [simp]:
  "sub_open fresh_subscriber" "sent_events fresh_subscriber = []" "sub_delivered fresh_subscriber = 0"
  by (simp_all add: fresh_subscriber_def sent_events_def)

lemma sample_numbered: "numbered [sample_event 1, sample_event 2]" "numbered [sample_event 1]"
    "numbered [sample_event 1, sample_event 2, sample_event 3]"
  by (simp_all add: numbered_def sample_event_def upt_rec)


text \<open>
  When more events arrive during a replay than the buffer holds, those beyond it are never sent: the
  subscriber goes on with the events that come after the gap, and no message tells it to refresh.
\<close>

lemma slice_sequences:
  assumes "numbered history" "b \<le> length history"
  shows "e \<in> set (drop a (take b history)) \<Longrightarrow> a < e_sequence e \<and> e_sequence e \<le> b"
proof -
  assume "e \<in> set (drop a (take b history))"
  then have "e_sequence e \<in> set (map e_sequence (drop a (take b history)))" by simp
  then show ?thesis unfolding numbered_slice [OF assms] by simp
qed

lemma full_buffer_drops:
  assumes "numbered history" "sub_open sub" "sub_buffer sub = Some []" "sub_delivered sub = 0" "sent_events sub = []"
    and "start < r" "d1 \<le> r" "r \<le> d1 + MAX_LIVE_BUFFER" "d1 + MAX_LIVE_BUFFER < d2" "d2 \<le> d3" "d3 \<le> length history"
    and "d1 + MAX_LIVE_BUFFER < e_sequence e" "e_sequence e \<le> d2"
  shows "e \<notin> set (sent_events (fold receive (drop d2 (take d3 history))
    (replayed (Some (drop start (take r history))) (fold receive (drop d1 (take d2 history)) sub))))"
proof -
  let ?d = "d1 + MAX_LIVE_BUFFER"
  have buffered: "fold receive (drop d1 (take d2 history)) sub = sub\<lparr>sub_buffer := Some (drop d1 (take ?d history))\<rparr>"
    using assms(9) by (simp add: receive_buffered [OF assms(3)] take_slice)
  have le: "r \<le> length history" "?d \<le> length history" using assms(8-11) by simp_all
  have "sent_events (fold receive (drop d2 (take d3 history))
      (replayed (Some (drop start (take r history))) (sub\<lparr>sub_buffer := Some (drop d1 (take ?d history))\<rparr>))) =
    drop start (take r history) @ drop (max d1 r) (take ?d history) @ drop (max d2 r) (take d3 history)"
    using assms le by (intro handover_slices) (simp_all add: MAX_LIVE_BUFFER_def)
  moreover have "e \<notin> set (drop start (take r history))"
    using slice_sequences [OF assms(1) le(1), of e start] assms(8,12) by auto
  moreover have "e \<notin> set (drop (max d1 r) (take ?d history))"
    using slice_sequences [OF assms(1) le(2), of e "max d1 r"] assms(12) by auto
  moreover have "e \<notin> set (drop (max d2 r) (take d3 history))"
    using slice_sequences [OF assms(1,11), of e "max d2 r"] assms(13) by auto
  ultimately show ?thesis by (simp add: buffered)
qed

text \<open>a subscriber that is up to date can miss an event. When the position read says that
  nothing follows the sequence the subscriber has, there is no replay, and the subscriber is sent
  only what the bus hands over after it attached: of the events after \<open>start\<close>, those the bus had
  handed over before the attachment, up to \<open>d1\<close>, are never sent.\<close>

theorem live_handover_misses:
  assumes "numbered history" "sub_open sub" "sent_events sub = []" "sub_delivered sub = 0"
    and "currentSequence pos = start" "earliestAvailableSequence pos \<le> start + 1" "d3 \<le> length history"
  shows "\<not> fst (establish pos start maxReplay sub) \<and>
    sent_events (fold receive (drop d1 (take d3 history)) (snd (establish pos start maxReplay sub))) =
    drop (max d1 start) (take d3 history)"
proof -
  let ?s = "snd (establish pos start maxReplay sub)"
  have e: "\<not> fst (establish pos start maxReplay sub)" "sub_buffer ?s = None" "sub_open ?s" "sub_delivered ?s = start"
    "sent_events ?s = []"
    using assms(2-6) by (auto simp: establish_def Let_def drain_buffer_live)
  show ?thesis
    using e live_slice(1) [OF assms(1,7) e(3), of d1] receive_live [OF e(2)] by simp
qed

theorem live_handover_misses_witness:
  "sent_events (fold receive [] (snd (establish \<lparr>currentSequence = 0, earliestAvailableSequence = 0\<rparr> 0 10 fresh_subscriber)))
     \<noteq> [sample_event 1]"
  using live_handover_misses [OF sample_numbered(2) fresh_subscriber_simps, of "\<lparr>currentSequence = 0, earliestAvailableSequence = 0\<rparr>"
      0 1 10 1] by simp

text \<open>a slow subscriber cannot grow the server's memory: its buffer never holds more than the
  fixed number of events, whatever it receives.\<close>

theorem buffer_bounded:
  assumes "sub_buffer sub = Some b" "length b \<le> MAX_LIVE_BUFFER"
  shows "\<exists>b'. sub_buffer (fold receive es sub) = Some b' \<and> length b' \<le> MAX_LIVE_BUFFER"
  using assms
proof (induction es arbitrary: sub b)
  case (Cons e es)
  then have "\<exists>b'. sub_buffer (receive e sub) = Some b' \<and> length b' \<le> MAX_LIVE_BUFFER"
    by (auto simp: receive_def)
  then show ?case using Cons.IH by auto
qed simp

theorem buffer_bounded_witness:
  "\<exists>b'. sub_buffer (fold receive [sample_event 1] (fresh_subscriber\<lparr>sub_buffer := Some []\<rparr>)) = Some b' \<and>
     length b' \<le> MAX_LIVE_BUFFER"
  by (rule buffer_bounded [of _ "[]"]) simp_all

section \<open>What the stream discloses\<close>

text \<open>a stream discloses no foreign project. A viewer who may not see a project is answered
  exactly as if it did not exist, and whoever is let in belongs to the project's organisation, or
  to none, and has the project in scope.\<close>

theorem stream_conceals_foreign_projects:
  assumes "distinct (map fst projects)" "(p, org) \<in> set projects"
    and "(\<exists>ids. vp_project_ids viewer = Some ids \<and> p \<notin> set ids) \<or>
      (\<exists>own. vp_organisation_id viewer = Some own \<and> own \<noteq> org)"
  shows "authoriseUpgrade origin allowed viewer projects p = authoriseUpgrade origin allowed viewer [] p"
proof -
  let ?q = "\<lambda>(i, _). i = p \<and> (case vp_project_ids viewer of None \<Rightarrow> True | Some ids \<Rightarrow> i \<in> set ids)"
  have "List.find ?q projects = None \<or> List.find ?q projects = Some (p, org)"
  proof (cases "List.find ?q projects")
    case (Some x)
    then have "x \<in> set projects" "fst x = p" by (force simp: find_Some_iff in_set_conv_nth)+
    then have "x = (p, org)" using eq_key_imp_eq_value [OF assms(1,2), of "snd x"] by (metis prod.collapse)
    then show ?thesis using Some by simp
  qed simp
  moreover have "List.find ?q projects = None" if "vp_project_ids viewer = Some ids" "p \<notin> set ids" for ids
    using that by (auto simp: find_None_iff)
  ultimately show ?thesis
    using assms(3) by (auto simp: authoriseUpgrade_def)
qed

theorem stream_conceals_foreign_projects_witness:
  "authoriseUpgrade None [] \<lparr>vp_project_ids = None, vp_organisation_id = Some ''org_1''\<rparr> [(''prj_2'', ''org_2'')] ''prj_2'' =
   authoriseUpgrade None [] \<lparr>vp_project_ids = None, vp_organisation_id = Some ''org_1''\<rparr> [] ''prj_2''"
  by (rule stream_conceals_foreign_projects [where org = "''org_2''"]) simp_all

text \<open>the bus hands an event to the listeners of its own stream only, and a listener that
  leaves is handed nothing more while the others stay.\<close>

theorem bus_isolates_streams:
  assumes "e_stream_key e = (case e_project_id e of Some p \<Rightarrow> p | None \<Rightarrow> e_organisation_id e)"
  shows "(listener \<in> set (deliver (subscribe k listener bus) e)) =
      (e_stream_key e = k \<or> listener \<in> set (deliver bus e)) \<and>
    (other \<in> set (deliver (unsubscribe k listener bus) e)) =
      (other \<in> set (deliver bus e) \<and> \<not> (other = listener \<and> e_stream_key e = k))"
proof -
  have "set ls \<subseteq> {listener}" if "removeAll listener ls = []" for ls :: "nat list"
    using arg_cong [OF that, of set] by auto
  then show ?thesis
    using assms by (auto simp: deliver_def subscribe_def unsubscribe_def Let_def split: option.splits if_splits)
qed

theorem bus_isolates_streams_witness:
  "7 \<notin> set (deliver (unsubscribe ''prj_1'' 7 (subscribe ''prj_1'' 7 Map.empty)) (sample_event 1))"
  using bus_isolates_streams [of "sample_event 1" 7 "''prj_1''" "subscribe ''prj_1'' 7 Map.empty" 7]
  by (auto simp: sample_event_def)

end
