(* ===== verification/Spec2Isabelle.thy ===== *)
theory Spec2Isabelle
  imports Connector_Properties Channel_Properties Session_Ledger Artefact_Outcomes Route_Outcomes Review_Audit Listing_Properties Domain_Properties Stream_Handover Annotation_Geometry Identifiers
begin

text \<open>
  \<^bold>\<open>A verification development for Reviewplane\<close>

  Reviewplane is a review control plane: a person opens a review of a running web application,
  records findings on it, an agent claims the review, fixes the findings and submits
  verifications, and a person decides about each of them.  The server (\<^verbatim>\<open>apps/server\<close>) keeps that
  record in Postgres and streams it to its readers; the protocol package (\<^verbatim>\<open>packages/protocol\<close>)
  holds the tables and the arithmetic that the server, the web application and the agents share.

  \<^bold>\<open>The parts and the theories that model them\<close>

  \<^item> \<^verbatim>\<open>packages/protocol/src/review-transitions.ts\<close> (which status may follow which, and who may
    move it): \<^verbatim>\<open>Review_Transitions\<close>.  The tables are data, the functions over them are
    executable, and the closure facts used later are proved by evaluation over the finite types.
  \<^item> \<^verbatim>\<open>packages/protocol/src/annotation-geometry.ts\<close>: \<^verbatim>\<open>Annotation_Geometry\<close>.  Coordinates are
    rationals where the code has doubles; the rounding of single operations is not modelled.
  \<^item> \<^verbatim>\<open>packages/protocol/src/entity-id.ts\<close>: \<^verbatim>\<open>Identifiers\<close>, with the base-32 digits and the regular
    expression written out.
  \<^item> \<^verbatim>\<open>packages/protocol/src/project-settings.ts\<close> and \<^verbatim>\<open>modules/reviews/completion.ts\<close> (the
    completion gate): \<^verbatim>\<open>Completion\<close>.
  \<^item> \<^verbatim>\<open>errors.ts\<close>: \<^verbatim>\<open>Api_Errors\<close>.  Every exception of the modelled code is a value of its error type,
    and every fallible operation returns a sum with the error on the left.
  \<^item> \<^verbatim>\<open>modules/reviews/domain.ts\<close> (the assertions each operation makes before it writes):
    \<^verbatim>\<open>Review_Domain\<close>.
  \<^item> \<^verbatim>\<open>events/append.ts\<close> and the transaction wrapper of \<^verbatim>\<open>db/pool.ts\<close>: \<^verbatim>\<open>Events\<close>.  The event log has
    one dense sequence per stream; a transaction that fails leaves the state it began with.
  \<^item> \<^verbatim>\<open>events/outbox.ts\<close>, \<^verbatim>\<open>events/stream.ts\<close>, \<^verbatim>\<open>events/routes.ts\<close>: \<^verbatim>\<open>Event_Stream\<close> (the dispatcher,
    the bus, a reader's handover from replay to live delivery) and \<^verbatim>\<open>Stream_Handover\<close> (its theorems).
  \<^item> \<^verbatim>\<open>modules/reviews/service.ts\<close>: \<^verbatim>\<open>Review_Store\<close> (the tables as a record of lists, with the
    constraints of the schema as the predicate of a well-formed store), \<^verbatim>\<open>Review_Service\<close> (reviews,
    assignment, claim, acceptance, comments), \<^verbatim>\<open>Finding_Service\<close> and \<^verbatim>\<open>Finding_Lifecycle\<close> (findings,
    their revisions, the decision on a claim), \<^verbatim>\<open>Verification_Service\<close> (submission of a claim and its
    evidence), \<^verbatim>\<open>Annotation_Service\<close>, \<^verbatim>\<open>Keyset_Pages\<close> and \<^verbatim>\<open>Review_Listing\<close> (listing and search).
  \<^item> \<^verbatim>\<open>modules/agents/inbox.ts\<close>: \<^verbatim>\<open>Inbox\<close>.
  \<^item> \<^verbatim>\<open>modules/browser-sessions\<close> (a remote browser that a person or an agent drives through a worker):
    \<^verbatim>\<open>Session_Authorisation\<close> (\<^verbatim>\<open>authorisation.ts\<close>), \<^verbatim>\<open>Worker_Registry\<close> (\<^verbatim>\<open>workers.ts\<close>, \<^verbatim>\<open>liveness.ts\<close>,
    \<^verbatim>\<open>config.ts\<close>), and of \<^verbatim>\<open>service.ts\<close> \<^verbatim>\<open>Browser_Store\<close> (its tables), \<^verbatim>\<open>Session_Lifecycle\<close> (status
    changes, the end of a lease, recorded refusals), \<^verbatim>\<open>Session_Allocation\<close> (reservation, claim and allocation)
    and \<^verbatim>\<open>Session_Control\<close> (commands, reports of the worker, control and its leases); \<^verbatim>\<open>Session_Monitor\<close>
    is \<^verbatim>\<open>monitor.ts\<close>.  An operation here is several transactions with calls of the worker between
    them: it returns the database also when it throws, and the calls it made are a field of the state.
  \<^item> \<^verbatim>\<open>jobs/runner.ts\<close>: \<^verbatim>\<open>Job_Runner\<close> (the queue, its leases, attempts and backoff; handlers are arguments) and
    \<^verbatim>\<open>Job_Properties\<close>, whose histories interleave any number of runners and schedulers.
  \<^item> \<^verbatim>\<open>modules/artefacts\<close> (screenshots and other evidence, in rows and in a store of files under the digest of
    their content): \<^verbatim>\<open>Artefact_Content\<close> (\<^verbatim>\<open>kinds.ts\<close> and \<^verbatim>\<open>content.ts\<close>, with the platform's UTF-8 decoder and
    JSON grammar in \<^verbatim>\<open>Utf8\<close>), \<^verbatim>\<open>Artefact_Store\<close> (\<^verbatim>\<open>store/driver.ts\<close>, \<^verbatim>\<open>store/filesystem.ts\<close>), \<^verbatim>\<open>Artefact_Service\<close>
    (\<^verbatim>\<open>service.ts\<close>, the job of \<^verbatim>\<open>jobs.ts\<close> and the route that serves bytes).  The digest and the image renderer are arguments.
  \<^item> \<^verbatim>\<open>packages/protocol/src/capability.ts\<close> (the signed credential with which a browser reaches a published route):
    \<^verbatim>\<open>Route_Capability\<close>, over the base-64 codec of \<^verbatim>\<open>Base64url\<close>; the keyed digest is an argument.
  \<^item> \<^verbatim>\<open>modules/published-services\<close> (routes from a browser to a service on a developer's machine, through a connector and a
    tunnel gateway): \<^verbatim>\<open>Destination_Policy\<close> (\<^verbatim>\<open>destination-policy.ts\<close>, with the two address recognisers of the platform's
    \<^verbatim>\<open>net\<close> module written out), \<^verbatim>\<open>Route_Store\<close> (the tables and \<^verbatim>\<open>repository.ts\<close>), \<^verbatim>\<open>Published_Services\<close> (\<^verbatim>\<open>service.ts\<close>
    and \<^verbatim>\<open>session-binder.ts\<close>) and \<^verbatim>\<open>Route_Reconciliation\<close> (\<^verbatim>\<open>reconciliation.ts\<close> with the decision table of
    \<^verbatim>\<open>modules/connectors/reconciliation.ts\<close>).  What the connector and the gateway answer is an argument, and the calls
    are a field of the state.
  \<^item> \<^verbatim>\<open>modules/connectors\<close> (the processes on developers' machines, enrolled with a token and identified by a certificate):
    \<^verbatim>\<open>Connector_Store\<close> (the tables and \<^verbatim>\<open>repository.ts\<close>), \<^verbatim>\<open>Connector_Enrolment\<close> (\<^verbatim>\<open>identifiers.ts\<close>, \<^verbatim>\<open>enrolment.ts\<close> and the route
    that issues tokens; the signed certificate is an argument) and \<^verbatim>\<open>Connector_Channel\<close> (\<^verbatim>\<open>channel.ts\<close> with its queue of frames
    and its heartbeat floor, \<^verbatim>\<open>publication.ts\<close>, \<^verbatim>\<open>monitor.ts\<close>, \<^verbatim>\<open>revocation.ts\<close>).
  \<^item> \<^verbatim>\<open>modules/agents/credentials.ts\<close> and \<^verbatim>\<open>modules/connectors/agent-credentials.ts\<close> (the tokens of agents and their exchange by a
    connector): \<^verbatim>\<open>Agent_Credentials\<close>.  \<^verbatim>\<open>modules/connectors/workspaces.ts\<close> and \<^verbatim>\<open>modules/agents/workspaces.ts\<close> (the checkouts that
    connectors observe or administrators register): \<^verbatim>\<open>Workspace_Registry\<close>.  The digests of tokens and paths are arguments.

  The record of the store is threaded through every operation; an operation is translated whole,
  with its guards in the order of the code, its writes, and the events it appends.  A clock value
  and the random suffixes of new identifiers are arguments.

  \<^bold>\<open>How the proofs are laid out\<close>

  \<^verbatim>\<open>Prelude\<close> holds the collections of simplification rules and the lemmas about lists, options and the
  error monad.  Five interfaces are locales: \<^verbatim>\<open>status_machine\<close> (a transition table and its closing
  statuses, interpreted on reviews and on findings), \<^verbatim>\<open>pager\<close> (the contract of one page, interpreted
  on the ascending and the descending keyset queries), \<^verbatim>\<open>content_store\<close> (a store that files bytes under their
  digest, interpreted on the file driver), \<^verbatim>\<open>versioned\<close> (a row with an optimistic
  version, interpreted on reviews and on findings: of any number of calls that expect the same
  version, at most one is served) and \<^verbatim>\<open>kept_relation\<close> (a reflexive and transitive relation that an operation keeps
  even when it throws half way, interpreted on the reachability by transactions of the session service and of the
  route service and of the connector service, on leaving every other session alone, on what rows of routes and capabilities keep, and
  on what the identity of a connector keeps).  \<^verbatim>\<open>Service_Steps\<close> says what a command of the review service may do to
  each table; \<^verbatim>\<open>Review_Commands\<close>, \<^verbatim>\<open>Finding_Commands\<close> and \<^verbatim>\<open>Claim_Commands\<close> prove it operation by
  operation, and the last of them defines the reachable databases inductively.
  \<^verbatim>\<open>Review_Properties\<close> reads the invariants off the steps: the constraints of the schema, the isolation of
  tenants, the append-only history, an event for each visible change, no closing by a caller that is not
  a person.  \<^verbatim>\<open>Review_Concurrency\<close>, \<^verbatim>\<open>Review_Decisions\<close> and \<^verbatim>\<open>Review_Audit\<close> state
  what a stale call, an acceptance, a hand-over, a submission, a decision and a refusal do.
  \<^verbatim>\<open>Listing_Properties\<close> and \<^verbatim>\<open>Domain_Properties\<close> hold the properties of the listings and of
  the pure rules.  \<^verbatim>\<open>Session_Steps\<close> is the step relation of the session service, one step per transaction or
  call, with the invariant that ties the control epoch to the leases; \<^verbatim>\<open>Session_Properties\<close> and
  \<^verbatim>\<open>Session_Outcomes\<close> state what follows for commands, control and allocation, and \<^verbatim>\<open>Session_Ledger\<close> that
  the leases implement an abstract ledger of control, and where they do not bind.  \<^verbatim>\<open>Artefact_Properties\<close> proves the
  invariant of rows and files for every operation, and \<^verbatim>\<open>Artefact_Outcomes\<close> reads off what a caller
  is served, the round trip of an upload, and two overlaps of requests that break the invariant.
  \<^verbatim>\<open>Route_Steps\<close> is the step relation of the route service, one step per transaction, with a proof for every operation
  that it is a sequence of steps; \<^verbatim>\<open>Route_Properties\<close> has the invariant of routes and capabilities under any
  overlap of operations, and \<^verbatim>\<open>Route_Outcomes\<close> what is minted, what a reconnecting connector keeps, and a race.
  \<^verbatim>\<open>Connector_Steps\<close> is the step relation of the connector service with its invariant (uses of tokens count connectors, a revoked
  identity stays as it is); \<^verbatim>\<open>Connector_Properties\<close> states what enrolment, the exchange of credentials and revocation do,
  \<^verbatim>\<open>Workspace_Properties\<close> which workspaces an observation may write and two orders of observation and registration that fail, and
  \<^verbatim>\<open>Channel_Properties\<close> the order of frames, the bound on heartbeats, the exactness of the sweep, a frame that is lost and the close of
  an old socket that ends a new channel.
  \<^verbatim>\<open>Review_Samples\<close>, \<^verbatim>\<open>Session_Samples\<close>, \<^verbatim>\<open>Route_Samples\<close> and \<^verbatim>\<open>Connector_Samples\<close> are the concrete stores on which the witnesses evaluate.

  \<^bold>\<open>Bounds, fuel and termination\<close>

  \<^verbatim>\<open>drain\<close> terminates because every full pass shortens the list of undelivered rows and every
  other repeated pass uses up a nudge that came in meanwhile, and that measure is its termination proof.  The
  thinning loop of a stroke keeps the code's own bound on attempts, and it is proved that the bound is never what
  stops it.  \<^verbatim>\<open>follow\<close> (a reader of a listing that turns every page) is bounded by a number of pages, and the
  theorem about it gives the number of rows as enough.  Requests interleave at the grain of the code's
  transactions: a transaction is one step, since it takes its row locks before it reads the version,
  and the operations that check before their transaction are also steps from any later database.  The one transaction that
  counts rows it does not lock is the request of a route, and nothing is claimed about the limit it enforces.

  \<^bold>\<open>Not modelled\<close>

  The HTTP routes and the MCP tools (argument parsing in front of the modelled service), the
  generated validators (the protocol generator writes them from the schemas), the browser worker
  and the live view (they drive a browser), the Go services, the web application's components, backup and
  start-up (input and output).  Of the review service itself the export to a file is left out.  Of
  the artefact store the driver for a remote object service and the decoding of images are left out.  Of the published services
  the HTTP client of the gateway, the encoding of the frames to a connector and the parser of port ranges are left out.  Of the connectors the writer of
  certificates, the certificate authority, the TLS listener and the routes that only read are left out.  The accounts and sessions of people
  (passwords, roles, install tokens) and the projects' own records are not modelled: the operations take the caller they establish.
\<close>

end
